(* ===== verification/Zthin_Prelude.thy ===== *)
theory Zthin_Prelude
  imports Main "HOL-Library.Word"
begin

text \<open>
  What the component theories share: the outcome type of a C function (\<open>res\<close>), bytes and
  big-endian integers as the SMAPI wire and the z/Architecture store them, a byte addressed
  memory with its frame lemmas, and reads from a fixed input buffer.  An access outside a
  buffer is undefined behaviour in C; it is the outcome \<open>Fault\<close> here and is never given a
  value.  \<open>NoFuel\<close> is the outcome of a loop that was cut off.
\<close>

section \<open>Collections of facts\<close>

named_theorems res_intros \<open>rules that prove a run ends in Ok\<close>
named_theorems frame_intros \<open>rules that bound what a run writes\<close>

section \<open>Outcomes of C code\<close>

datatype 'a res = Ok 'a | Err int | Fault | NoFuel

fun res_bind :: "'a res \<Rightarrow> ('a \<Rightarrow> 'b res) \<Rightarrow> 'b res" where
  "res_bind (Ok x) f = f x"
| "res_bind (Err rc) f = Err rc"
| "res_bind Fault f = Fault"
| "res_bind NoFuel f = NoFuel"

text \<open>Evaluation looks at the continuation of a bind only when its first part is done.\<close>

lemma res_bind_case [code_unfold]:
  "res_bind m f =
     (case m of Ok x \<Rightarrow> f x | Err rc \<Rightarrow> Err rc | Fault \<Rightarrow> Fault | NoFuel \<Rightarrow> NoFuel)"
  by (cases m) auto

lemma res_bind_eq_Ok: "res_bind m f = Ok y \<longleftrightarrow> (\<exists>x. m = Ok x \<and> f x = Ok y)"
  by (cases m) auto

lemma res_bind_eq_NoFuel:
  "res_bind m f = NoFuel \<longleftrightarrow> m = NoFuel \<or> (\<exists>x. m = Ok x \<and> f x = NoFuel)"
  by (cases m) auto

lemma res_bind_OkE:
  assumes "res_bind m f = Ok y"
  obtains x where "m = Ok x" and "f x = Ok y"
  using assms by (auto simp: res_bind_eq_Ok)

lemma res_bind_Ok_right [simp]: "res_bind m Ok = m"
  by (cases m) auto

lemma res_bind_assoc: "res_bind (res_bind m f) g = res_bind m (\<lambda>x. res_bind (f x) g)"
  by (cases m) auto

lemma res_bind_cong [fundef_cong]:
  assumes "m = m'" and "\<And>x. m' = Ok x \<Longrightarrow> f x = g x"
  shows "res_bind m f = res_bind m' g"
  using assms by (cases m') auto

section \<open>Bytes and big-endian integers\<close>

type_synonym byte = "8 word"

fun be_bytes :: "nat \<Rightarrow> int \<Rightarrow> byte list" where
  "be_bytes 0 v = []"
| "be_bytes (Suc n) v = be_bytes n (v div 256) @ [word_of_int v]"

definition be_val :: "byte list \<Rightarrow> int" where
  "be_val bs = foldl (\<lambda>a b. a * 256 + uint b) 0 bs"

definition signed_of :: "nat \<Rightarrow> int \<Rightarrow> int" where
  "signed_of n u = (if u < 2 ^ (8 * n - 1) then u else u - 2 ^ (8 * n))"

lemma length_be_bytes [simp]: "length (be_bytes n v) = n"
  by (induction n arbitrary: v) auto

lemma be_val_Nil [simp]: "be_val [] = 0"
  by (simp add: be_val_def)

lemma be_val_snoc [simp]: "be_val (bs @ [b]) = be_val bs * 256 + uint b"
  by (simp add: be_val_def)

lemma be_val_nonneg [simp]: "0 \<le> be_val bs"
  by (induction bs rule: rev_induct) auto

lemma be_val_be_bytes: "be_val (be_bytes n v) = v mod 256 ^ n"
proof (induction n arbitrary: v)
  case 0
  show ?case by simp
next
  case (Suc n)
  have "be_val (be_bytes (Suc n) v) = (v div 256 mod 256 ^ n) * 256 + v mod 256"
    by (simp add: Suc.IH uint_word_of_int)
  also have "\<dots> = v mod (256 * 256 ^ n)"
    by (simp add: zmod_zmult2_eq mult.commute)
  finally show ?case by simp
qed

lemma be_val_bound: "be_val bs < 256 ^ length bs"
proof (induction bs rule: rev_induct)
  case Nil
  show ?case by simp
next
  case (snoc b bs)
  have "uint b < 256" using uint_lt2p [of b] by simp
  with snoc.IH have "be_val bs * 256 + uint b < 256 ^ length bs * 256" by linarith
  then show ?case by simp
qed

lemma be_bytes_be_val: "be_bytes (length bs) (be_val bs) = bs"
proof (induction bs rule: rev_induct)
  case Nil
  show ?case by simp
next
  case (snoc b bs)
  have "uint b < 256" "0 \<le> uint b" using uint_lt2p [of b] by simp_all
  then have "(be_val bs * 256 + uint b) div 256 = be_val bs" by simp
  moreover have "(word_of_int (be_val bs * 256 + uint b) :: byte) = word_of_int (uint b)"
    by (simp only: word_of_int_eq_iff) (simp add: take_bit_eq_mod)
  ultimately show ?case using snoc.IH by simp
qed

lemma signed_of_mod:
  assumes "0 < n" and "- (2 ^ (8 * n - 1)) \<le> v" and "v < 2 ^ (8 * n - 1)"
  shows "signed_of n (v mod 256 ^ n) = v"
proof -
  have p: "(2::int) ^ (8 * n) = 2 * 2 ^ (8 * n - 1)"
    using assms(1) by (simp flip: power_Suc)
  have q: "(256::int) ^ n = 2 ^ (8 * n)"
    by (simp add: power_mult)
  show ?thesis
  proof (cases "0 \<le> v")
    case True
    with assms(3) p q have "v mod 256 ^ n = v" by simp
    with assms(3) show ?thesis by (simp add: signed_of_def)
  next
    case False
    have "(v + 2 ^ (8 * n)) mod 2 ^ (8 * n) = v + 2 ^ (8 * n)"
      using False assms(2) p by (intro mod_pos_pos_trivial) auto
    then have "v mod 256 ^ n = v + 2 ^ (8 * n)"
      by (simp add: q)
    with assms(2) p show ?thesis by (simp add: signed_of_def)
  qed
qed

definition get_int :: "nat \<Rightarrow> byte list \<Rightarrow> int" where
  "get_int n bs = signed_of n (be_val bs)"

lemma get_int_be_bytes:
  assumes "0 < n" and "- (2 ^ (8 * n - 1)) \<le> v" and "v < 2 ^ (8 * n - 1)"
  shows "get_int n (be_bytes n v) = v"
  using signed_of_mod [OF assms] by (simp add: get_int_def be_val_be_bytes)

text \<open>An integer codec of a fixed width: what a client of the \<open>PUT\<close>/\<open>GET\<close> macros relies on.\<close>

locale int_codec =
  fixes put :: "int \<Rightarrow> byte list" and get :: "byte list \<Rightarrow> int"
    and width :: nat and lo hi :: int
  assumes put_length: "length (put v) = width"
    and get_put: "lo \<le> v \<Longrightarrow> v < hi \<Longrightarrow> get (put v) = v"
begin

lemma put_inject:
  assumes "lo \<le> v" "v < hi" "lo \<le> w" "w < hi" and "put v = put w"
  shows "v = w"
  using assms get_put by metis

lemma get_take_put:
  assumes "lo \<le> v" "v < hi"
  shows "get (take width (put v @ rest)) = v"
  using assms by (simp add: get_put flip: put_length [of v])

lemma put_stream_inject:
  assumes "lo \<le> v" "v < hi" "lo \<le> w" "w < hi" and "put v @ xs = put w @ ys"
  shows "v = w \<and> xs = ys"
  using assms put_inject by (metis append_eq_append_conv put_length)

end

interpretation int4: int_codec "be_bytes 4" "get_int 4" 4 "- (2 ^ 31)" "2 ^ 31"
  by unfold_locales (simp_all add: get_int_be_bytes)

interpretation int8: int_codec "be_bytes 8" "get_int 8" 8 "- (2 ^ 63)" "2 ^ 63"
  by unfold_locales (simp_all add: get_int_be_bytes)

section \<open>Integer conversions and the return code for failed allocations\<close>

text \<open>The conversion of a \<open>size_t\<close> sum to the \<open>int\<close> that holds it.\<close>

definition c_int :: "int \<Rightarrow> int" where
  "c_int v = signed_of 4 (v mod 256 ^ 4)"

lemma c_int_id: "0 \<le> v \<Longrightarrow> v < 2 ^ 31 \<Longrightarrow> c_int v = v"
  unfolding c_int_def by (rule signed_of_mod) simp_all

definition MEMORY_ERROR :: int where "MEMORY_ERROR = -999"

text \<open>\<open>atoi\<close> on a NUL terminated string.\<close>

fun digits_val :: "int \<Rightarrow> byte list \<Rightarrow> int" where
  "digits_val a [] = a"
| "digits_val a (b # bs) =
     (if 48 \<le> uint b \<and> uint b \<le> 57 then digits_val (a * 10 + (uint b - 48)) bs else a)"

definition c_isspace :: "byte \<Rightarrow> bool" where
  "c_isspace b \<longleftrightarrow> uint b = 32 \<or> 9 \<le> uint b \<and> uint b \<le> 13"

definition c_atoi :: "byte list \<Rightarrow> int" where
  "c_atoi bs =
     (case dropWhile c_isspace bs of
        [] \<Rightarrow> 0
      | b # rest \<Rightarrow>
          if uint b = 45 then - digits_val 0 rest
          else if uint b = 43 then digits_val 0 rest
          else digits_val 0 (b # rest))"

section \<open>Byte addressed memory\<close>

type_synonym mem = "int \<Rightarrow> byte"

definition mem_write :: "mem \<Rightarrow> int \<Rightarrow> byte list \<Rightarrow> mem" where
  "mem_write m a bs x =
     (if a \<le> x \<and> x < a + int (length bs) then bs ! nat (x - a) else m x)"

definition mem_read :: "mem \<Rightarrow> int \<Rightarrow> nat \<Rightarrow> byte list" where
  "mem_read m a n = map (\<lambda>i. m (a + int i)) [0..<n]"

definition region :: "int \<Rightarrow> int \<Rightarrow> int set" where
  "region a n = {a ..< a + n}"

definition frame :: "int set \<Rightarrow> mem \<Rightarrow> mem \<Rightarrow> bool" where
  "frame A m m' \<longleftrightarrow> (\<forall>x. x \<notin> A \<longrightarrow> m' x = m x)"

lemma length_mem_read [simp]: "length (mem_read m a n) = n"
  by (simp add: mem_read_def)

lemma mem_read_write_same [simp]:
  "n = length bs \<Longrightarrow> mem_read (mem_write m a bs) a n = bs"
  by (auto simp: mem_read_def mem_write_def intro: nth_equalityI)

lemma mem_read_write_other:
  assumes "a + int n \<le> b \<or> b + int (length bs) \<le> a"
  shows "mem_read (mem_write m b bs) a n = mem_read m a n"
  using assms by (auto simp: mem_read_def mem_write_def)

lemma frame_refl [simp, frame_intros]: "frame A m m"
  by (simp add: frame_def)

lemma frame_trans: "frame A m m' \<Longrightarrow> frame A m' m'' \<Longrightarrow> frame A m m''"
  by (simp add: frame_def)

lemma frame_mono: "frame A m m' \<Longrightarrow> A \<subseteq> B \<Longrightarrow> frame B m m'"
  by (auto simp: frame_def)

lemma frame_write:
  "region a (int (length bs)) \<subseteq> A \<Longrightarrow> frame A m (mem_write m a bs)"
  by (force simp: frame_def mem_write_def region_def)

lemma frame_mem_write [frame_intros]:
  "frame A m m1 \<Longrightarrow> region a (int (length bs)) \<subseteq> A \<Longrightarrow> frame A m (mem_write m1 a bs)"
  by (blast intro: frame_trans frame_write)

lemma region_mono: "n \<le> m \<Longrightarrow> region a n \<subseteq> region a m"
  by (auto simp: region_def)

lemma region_subset: "b \<le> a \<Longrightarrow> a + n \<le> b + m \<Longrightarrow> region a n \<subseteq> region b m"
  by (auto simp: region_def)

lemma frame_read:
  assumes "frame A m m'" and "region a (int n) \<inter> A = {}"
  shows "mem_read m' a n = mem_read m a n"
proof -
  have "m' (a + int i) = m (a + int i)" if "i < n" for i
  proof -
    from that have "a + int i \<in> region a (int n)" by (simp add: region_def)
    with assms show ?thesis by (auto simp: frame_def)
  qed
  then show ?thesis by (simp add: mem_read_def)
qed

text \<open>Small integer arrays that are indexed by table columns.\<close>

definition slot_upd :: "(int \<Rightarrow> int) \<Rightarrow> int \<Rightarrow> int \<Rightarrow> int \<Rightarrow> int" where
  "slot_upd f k v x = (if x = k then v else f x)"

lemma slot_upd_eq [simp]: "slot_upd f k v = f(k := v)"
  by (auto simp: slot_upd_def)

section \<open>Reads from an input buffer\<close>

definition buf_read :: "byte list \<Rightarrow> int \<Rightarrow> int \<Rightarrow> byte list res" where
  "buf_read data c n =
     (if 0 \<le> n \<and> 0 \<le> c \<and> c + n \<le> int (length data)
      then Ok (take (nat n) (drop (nat c) data)) else Fault)"

text \<open>\<open>strlen\<close> on a pointer into the buffer: the terminating NUL has to be in the buffer.\<close>

definition c_strlen :: "byte list \<Rightarrow> int \<Rightarrow> int res" where
  "c_strlen data c =
     (if 0 \<le> c \<and> c \<le> int (length data) then
        (let rest = drop (nat c) data; n = length (takeWhile (\<lambda>b. b \<noteq> 0) rest)
         in if n < length rest then Ok (int n) else Fault)
      else Fault)"

lemma buf_read_OkD:
  "buf_read data c n = Ok bs \<Longrightarrow>
     0 \<le> n \<and> 0 \<le> c \<and> c + n \<le> int (length data) \<and> int (length bs) = n"
  by (auto simp: buf_read_def split: if_splits)

lemma buf_read_Ok:
  "0 \<le> n \<Longrightarrow> 0 \<le> c \<Longrightarrow> c + n \<le> int (length data) \<Longrightarrow>
     buf_read data c n = Ok (take (nat n) (drop (nat c) data))"
  by (simp add: buf_read_def)

lemma c_strlen_OkD:
  "c_strlen data c = Ok n \<Longrightarrow> 0 \<le> c \<and> 0 \<le> n \<and> c + n + 1 \<le> int (length data)"
  by (auto simp: c_strlen_def Let_def split: if_splits)

lemma c_strlen_cases: "c_strlen data c = Fault \<or> (\<exists>n. c_strlen data c = Ok n)"
  by (simp add: c_strlen_def Let_def)

lemma buf_read_cases: "buf_read data c n = Fault \<or> (\<exists>bs. buf_read data c n = Ok bs)"
  by (simp add: buf_read_def)

end
