(* ===== verification/Smapi_Socket.thy ===== *)
theory Smapi_Socket
  imports Zthin_Prelude
begin

text \<open>
  The connection to the SMAPI server, \<^verbatim>\<open>src/smSocket.c\<close>.  The operating system is a parameter: an
  oracle that gives the outcome of the next system call.  A call on a descriptor that is not open
  fails with EBADF whatever the oracle says; \<open>send\<close> and \<open>recv\<close> transfer at most the bytes asked
  for; \<open>close\<close> releases the descriptor even if it reports an error, as Linux does.  The state
  keeps the open descriptors, \<open>errno\<close>, the seconds slept, the bytes sent and received, and the
  fields of the context that the code reads and writes.  The two loops that transfer data take
  fuel, since the peer may never let them end.  Messages and traces are left out; \<open>errorLog\<close> is
  its effect on \<open>rc\<close> and \<open>reason\<close>.
\<close>

section \<open>System calls\<close>

datatype answer = Done int "byte list" | Failed int

type_synonym os = "nat \<Rightarrow> answer"

record net_state =
  open_fds :: "int list"
  ticks :: nat
  errno :: int
  slept :: int
  snd_timeo :: int
  rcv_timeo :: int
  sent :: "byte list"
  received :: "byte list"
  peer_userid :: "byte list"
  iucv_userid :: "byte list"
  contextCreatedFlag :: int
  socketTimeout :: int
  env_timeout :: "byte list option"
  env_indication_timeout :: "byte list option"
  ctx_rc :: int
  ctx_reason :: int
  errnoSaved :: int

definition EINTR :: int where "EINTR = 4"
definition EBADF :: int where "EBADF = 9"
definition EAGAIN :: int where "EAGAIN = 11"
definition ENOTCONN :: int where "ENOTCONN = 107"
definition ECONNREFUSED :: int where "ECONNREFUSED = 111"

lemmas errno_defs = EINTR_def EBADF_def EAGAIN_def ENOTCONN_def ECONNREFUSED_def

definition fresh_fd :: "int list \<Rightarrow> int" where
  "fresh_fd fs = hd (filter (\<lambda>k. k \<notin> set fs) (map int [0..<Suc (length fs)]))"

definition tick :: "net_state \<Rightarrow> net_state" where
  "tick s = s\<lparr>ticks := Suc (ticks s)\<rparr>"

text \<open>A call on a descriptor that returns 0, or -1 and sets \<open>errno\<close>.\<close>

definition fd_call :: "os \<Rightarrow> int \<Rightarrow> net_state \<Rightarrow> int \<times> net_state" where
  "fd_call os fd s =
     (if fd \<notin> set (open_fds s) then (-1, (tick s)\<lparr>errno := EBADF\<rparr>)
      else case os (ticks s) of
        Failed e \<Rightarrow> (-1, (tick s)\<lparr>errno := e\<rparr>)
      | Done n bs \<Rightarrow> (0, tick s))"

definition sys_socket :: "os \<Rightarrow> net_state \<Rightarrow> int \<times> net_state" where
  "sys_socket os s =
     (case os (ticks s) of
        Failed e \<Rightarrow> (-1, (tick s)\<lparr>errno := e\<rparr>)
      | Done n bs \<Rightarrow> (fresh_fd (open_fds s), (tick s)\<lparr>open_fds := fresh_fd (open_fds s) # open_fds s\<rparr>))"

definition sys_close :: "os \<Rightarrow> int \<Rightarrow> net_state \<Rightarrow> int \<times> net_state" where
  "sys_close os fd s = (let (r, s) = fd_call os fd s in (r, s\<lparr>open_fds := removeAll fd (open_fds s)\<rparr>))"

definition sys_send :: "os \<Rightarrow> int \<Rightarrow> byte list \<Rightarrow> net_state \<Rightarrow> int \<times> net_state" where
  "sys_send os fd data s =
     (if fd \<notin> set (open_fds s) then (-1, (tick s)\<lparr>errno := EBADF\<rparr>)
      else case os (ticks s) of
        Failed e \<Rightarrow> (-1, (tick s)\<lparr>errno := e\<rparr>)
      | Done n bs \<Rightarrow>
          let k = min (nat n) (length data) in (int k, (tick s)\<lparr>sent := sent s @ take k data\<rparr>))"

definition sys_recv :: "os \<Rightarrow> int \<Rightarrow> int \<Rightarrow> net_state \<Rightarrow> int \<times> byte list \<times> net_state" where
  "sys_recv os fd len s =
     (if fd \<notin> set (open_fds s) then (-1, [], (tick s)\<lparr>errno := EBADF\<rparr>)
      else case os (ticks s) of
        Failed e \<Rightarrow> (-1, [], (tick s)\<lparr>errno := e\<rparr>)
      | Done n bs \<Rightarrow>
          let bs = take (nat len) bs in (int (length bs), bs, (tick s)\<lparr>received := received s @ bs\<rparr>))"

definition sys_sleep :: "int \<Rightarrow> net_state \<Rightarrow> net_state" where
  "sys_sleep n s = s\<lparr>slept := slept s + n\<rparr>"

definition errorLog :: "int \<Rightarrow> int \<Rightarrow> net_state \<Rightarrow> net_state" where
  "errorLog aRc aReason s = s\<lparr>ctx_rc := aRc, ctx_reason := aReason\<rparr>"

definition save_errno :: "net_state \<Rightarrow> net_state" where
  "save_errno s = s\<lparr>errnoSaved := errno s\<rparr>"

section \<open>Codes\<close>

definition RcRuntime :: int where "RcRuntime = -4"
definition RcIucv :: int where "RcIucv = -5"
definition RsSocketTimeout :: int where "RsSocketTimeout = 10110"
definition RsUnexpected :: int where "RsUnexpected = 10200"
definition PROCESSING_ERROR :: int where "PROCESSING_ERROR = -3"
definition SOCKET_OBTAIN_ERROR :: int where "SOCKET_OBTAIN_ERROR = -100"
definition SOCKET_CONNECT_REFUSED_ERROR :: int where "SOCKET_CONNECT_REFUSED_ERROR = -101"
definition SOCKET_CONNECT_TRYAGAIN_ERROR :: int where "SOCKET_CONNECT_TRYAGAIN_ERROR = -102"
definition SOCKET_TIMEOUT_ERROR :: int where "SOCKET_TIMEOUT_ERROR = -103"
definition SOCKET_READ_ERROR :: int where "SOCKET_READ_ERROR = -104"
definition SOCKET_WRITE_ERROR :: int where "SOCKET_WRITE_ERROR = -106"
definition SOCKET_PROCESSING_ERROR :: int where "SOCKET_PROCESSING_ERROR = -108"
definition SOCKET_NOT_CONNECTED_ERROR :: int where "SOCKET_NOT_CONNECTED_ERROR = -109"
definition SOCKET_RETRY_NO_DATA :: int where "SOCKET_RETRY_NO_DATA = -110"
definition SOCKET_RETRY_SMAPI_POSSIBLE :: int where "SOCKET_RETRY_SMAPI_POSSIBLE = -111"
definition CUSTOM_DEFINED_SOCKET_RETRY :: int where "CUSTOM_DEFINED_SOCKET_RETRY = 100"
definition SOCKET_ERROR_OK :: int where "SOCKET_ERROR_OK = 1"
definition Socket_Timeout :: int where "Socket_Timeout = 240"
definition Socket_Indication_Timeout :: int where "Socket_Indication_Timeout = 500"

lemmas socket_codes =
  RcRuntime_def RcIucv_def RsSocketTimeout_def RsUnexpected_def PROCESSING_ERROR_def
  SOCKET_OBTAIN_ERROR_def SOCKET_CONNECT_REFUSED_ERROR_def SOCKET_CONNECT_TRYAGAIN_ERROR_def
  SOCKET_TIMEOUT_ERROR_def SOCKET_READ_ERROR_def SOCKET_WRITE_ERROR_def SOCKET_PROCESSING_ERROR_def
  SOCKET_NOT_CONNECTED_ERROR_def SOCKET_RETRY_NO_DATA_def SOCKET_RETRY_SMAPI_POSSIBLE_def
  CUSTOM_DEFINED_SOCKET_RETRY_def SOCKET_ERROR_OK_def

section \<open>Closing\<close>

text \<open>\<open>retValue = close(fd)\<close> and \<open>CHECK_SOCKET_CLOSE\<close>: one retry when the close was interrupted.\<close>

definition close_checked :: "os \<Rightarrow> int \<Rightarrow> net_state \<Rightarrow> net_state" where
  "close_checked os fd s =
     (let (retValue, s) = sys_close os fd s in
      if retValue \<noteq> 0 then
        let saveCloseErrno = errno s; s = errorLog RcIucv retValue s in
        if saveCloseErrno = EINTR then
          let (retValue, s) = sys_close os fd s in
          if retValue \<noteq> 0 then errorLog RcIucv retValue s else s
        else s
      else s)"

section \<open>Socket options\<close>

text \<open>
  A \<open>setsockopt\<close> that has to succeed; \<open>Some\<close> is the early return of the caller, \<open>change\<close> the
  effect of the option.
\<close>

definition socket_option ::
  "os \<Rightarrow> int \<Rightarrow> (net_state \<Rightarrow> net_state) \<Rightarrow> net_state \<Rightarrow> int option \<times> net_state" where
  "socket_option os fd change s =
     (let (retValue, s) = fd_call os fd s in
      if retValue < 0
      then (Some SOCKET_PROCESSING_ERROR, close_checked os fd (errorLog RcIucv (errno s) (save_errno s)))
      else (None, change s))"

text \<open>The two options set before every transfer: a timeout, and the reuse of the address.\<close>

definition transfer_options ::
  "os \<Rightarrow> int \<Rightarrow> (net_state \<Rightarrow> net_state) \<Rightarrow> net_state \<Rightarrow> int option \<times> net_state" where
  "transfer_options os fd change s =
     (case socket_option os fd change s of
        (Some rc, s) \<Rightarrow> (Some rc, s)
      | (None, s) \<Rightarrow> socket_option os fd (\<lambda>s. s) s)"

definition write_timeout :: "net_state \<Rightarrow> int" where
  "write_timeout s = (if socketTimeout s = -1 then Socket_Timeout else socketTimeout s)"

definition env_seconds :: "byte list option \<Rightarrow> int \<Rightarrow> int" where
  "env_seconds v d = (case v of Some t \<Rightarrow> if c_atoi t > 0 then c_atoi t else d | None \<Rightarrow> d)"

definition read_timeout :: "net_state \<Rightarrow> int" where
  "read_timeout s =
     (let ulTimeoutSeconds = env_seconds (env_timeout s) Socket_Timeout
      in if socketTimeout s = -1 then ulTimeoutSeconds else socketTimeout s)"

section \<open>Connecting\<close>

definition default_IUCV_server :: "byte list" where
  "default_IUCV_server = map of_char ''VSMREQIU''"

definition server_userid :: "byte list \<Rightarrow> byte list" where
  "server_userid userid =
     (let blanks = replicate 8 (32 :: byte);
          from = (if length userid \<le> 0 \<or> length userid > 8 then default_IUCV_server else userid)
      in from @ drop (length from) blanks)"

definition RETRY_CONNECTION_LIMIT :: int where "RETRY_CONNECTION_LIMIT = 10"

definition CONNECT_SLEEP_TIMES :: "int list" where
  "CONNECT_SLEEP_TIMES = [0, 0, 1, 1, 2, 2, 8, 8, 16, 32]"

definition sleep_positive :: "int \<Rightarrow> net_state \<Rightarrow> net_state" where
  "sleep_positive n s = (if n > 0 then sys_sleep n s else s)"

text \<open>The connect loop, from attempt \<open>retryConnection\<close> on, with its result code and descriptor.\<close>

function connect_loop :: "os \<Rightarrow> int \<Rightarrow> int \<Rightarrow> net_state \<Rightarrow> int \<times> int \<times> net_state" where
  "connect_loop os retryConnection sockId s =
     (let (retValue, s) = fd_call os sockId s in
      if retValue \<noteq> 0 then
        let saveErrno = errno s; s = errorLog RcIucv retValue (save_errno s) in
        if retryConnection \<ge> RETRY_CONNECTION_LIMIT then
          (if saveErrno = ECONNREFUSED then SOCKET_CONNECT_REFUSED_ERROR
           else if saveErrno = EAGAIN then SOCKET_CONNECT_TRYAGAIN_ERROR
           else SOCKET_PROCESSING_ERROR, sockId, close_checked os sockId s)
        else if saveErrno = ECONNREFUSED \<or> saveErrno = EAGAIN then
          let s = close_checked os sockId s;
              s = sleep_positive (CONNECT_SLEEP_TIMES ! nat retryConnection) s;
              (sockId, s) = sys_socket os s
          in if sockId = -1
             then (SOCKET_OBTAIN_ERROR, sockId, errorLog RcIucv sockId (save_errno s))
             else connect_loop os (retryConnection + 1) sockId (s\<lparr>ctx_rc := 0, ctx_reason := 0\<rparr>)
        else (SOCKET_PROCESSING_ERROR, sockId, close_checked os sockId s)
      else (0, sockId, s\<lparr>peer_userid := server_userid (iucv_userid s)\<rparr>))"
  by pat_completeness auto

termination
  by (relation "measure (\<lambda>(os, retryConnection, sockId, s). nat (RETRY_CONNECTION_LIMIT - retryConnection))") auto

declare connect_loop.simps [simp del]

definition smSocketInitialize ::
  "os \<Rightarrow> (net_state \<Rightarrow> int \<times> net_state) \<Rightarrow> int \<Rightarrow> net_state \<Rightarrow> int \<times> int \<times> net_state" where
  "smSocketInitialize os initializeThreadSemaphores sockId s =
     (let (retValue, s) = (if contextCreatedFlag s \<noteq> 1 then initializeThreadSemaphores s else (0, s)) in
      if retValue \<noteq> 0 then (PROCESSING_ERROR, sockId, errorLog RcRuntime RsUnexpected s)
      else
        let (sockId, s) = sys_socket os s in
        if sockId = -1 then (SOCKET_OBTAIN_ERROR, sockId, errorLog RcIucv sockId (save_errno s))
        else
          case socket_option os sockId (snd_timeo_update (\<lambda>_. 60)) s of
            (Some rc, s) \<Rightarrow> (rc, sockId, s)
          | (None, s) \<Rightarrow> connect_loop os 1 sockId s)"

section \<open>Writing\<close>

text \<open>The error return of \<open>send\<close> and \<open>recv\<close>; \<open>other\<close> is the code for the remaining errors.\<close>

definition transfer_error :: "os \<Rightarrow> int \<Rightarrow> int \<Rightarrow> net_state \<Rightarrow> int \<times> net_state" where
  "transfer_error os other fd s =
     (let saveErrno = errno s; s = save_errno s;
          s = errorLog RcIucv (if saveErrno = EAGAIN then RsSocketTimeout else saveErrno) s;
          s = close_checked os fd s
      in (if saveErrno = EAGAIN then SOCKET_TIMEOUT_ERROR
          else if saveErrno = ENOTCONN then SOCKET_NOT_CONNECTED_ERROR
          else other, s))"

fun write_loop :: "nat \<Rightarrow> os \<Rightarrow> int \<Rightarrow> byte list \<Rightarrow> net_state \<Rightarrow> (int \<times> net_state) res" where
  "write_loop 0 os fd data s = NoFuel"
| "write_loop (Suc f) os fd data s =
     (if length data > 0 then
        let (retValue, s) = sys_send os fd data s in
        if retValue < 0 then Ok (transfer_error os SOCKET_WRITE_ERROR fd s)
        else write_loop f os fd (drop (nat retValue) data) s
      else Ok (0, s))"

definition smSocketWrite :: "nat \<Rightarrow> os \<Rightarrow> int \<Rightarrow> byte list \<Rightarrow> net_state \<Rightarrow> (int \<times> net_state) res" where
  "smSocketWrite f os sockId data s =
     (case transfer_options os sockId (snd_timeo_update (\<lambda>_. write_timeout s)) s of
        (Some rc, s) \<Rightarrow> Ok (rc, s)
      | (None, s) \<Rightarrow> write_loop f os sockId data s)"

section \<open>Reading\<close>

fun read_loop ::
  "nat \<Rightarrow> os \<Rightarrow> int \<Rightarrow> int \<Rightarrow> byte list \<Rightarrow> int \<Rightarrow> net_state \<Rightarrow> (int \<times> byte list \<times> net_state) res" where
  "read_loop 0 os fd len buff retryNoData s = NoFuel"
| "read_loop (Suc f) os fd len buff retryNoData s =
     (let lenRead = int (length buff) in
      if lenRead < len then
        let (retValue, bs, s) = sys_recv os fd (len - lenRead) s in
        if retValue < 0 then
          let (rc, s) = transfer_error os SOCKET_READ_ERROR fd s in Ok (rc, buff, s)
        else
          let retryNoData = (if retValue = 0 then retryNoData + 1 else retryNoData) in
          if retValue = 0 \<and> retryNoData > 10 \<and> lenRead = 0
          then Ok (SOCKET_READ_ERROR, buff, close_checked os fd (errorLog RcIucv RsUnexpected s))
          else read_loop f os fd len (buff @ bs) retryNoData s
      else Ok (0, buff, s))"

definition smSocketRead ::
  "nat \<Rightarrow> os \<Rightarrow> int \<Rightarrow> int \<Rightarrow> net_state \<Rightarrow> (int \<times> byte list \<times> net_state) res" where
  "smSocketRead f os sockId len s =
     (case transfer_options os sockId (rcv_timeo_update (\<lambda>_. read_timeout s)) s of
        (Some rc, s) \<Rightarrow> Ok (rc, [], s)
      | (None, s) \<Rightarrow> read_loop f os sockId len [] 0 s)"

fun readLoop_loop ::
  "nat \<Rightarrow> os \<Rightarrow> int \<Rightarrow> int \<Rightarrow> int \<Rightarrow> byte list \<Rightarrow> int \<Rightarrow> net_state \<Rightarrow> (int \<times> byte list \<times> net_state) res" where
  "readLoop_loop 0 os fd len readMod buff retryNoData s = NoFuel"
| "readLoop_loop (Suc f) os fd len readMod buff retryNoData s =
     (let lenRead = int (length buff) in
      if lenRead < len then
        let (retValue, bs, s) = sys_recv os fd (len - lenRead) s in
        if retValue < 0 then
          let saveErrno = errno s; s = save_errno s in
          if saveErrno = EAGAIN then Ok (CUSTOM_DEFINED_SOCKET_RETRY, buff, s)
          else
            let s = (if readMod \<noteq> SOCKET_ERROR_OK then errorLog RcIucv saveErrno s else s);
                s = close_checked os fd s
            in Ok (if saveErrno = ENOTCONN then SOCKET_NOT_CONNECTED_ERROR
                   else if readMod = SOCKET_ERROR_OK then 0 else SOCKET_READ_ERROR, buff, s)
        else
          let retryNoData = (if retValue = 0 then retryNoData + 1 else retryNoData) in
          if retValue = 0 \<and> retryNoData > 100 \<and> lenRead = 0
          then Ok (CUSTOM_DEFINED_SOCKET_RETRY, buff, s)
          else readLoop_loop f os fd len readMod (buff @ bs) retryNoData s
      else Ok (0, buff, s))"

definition smSocketReadLoop ::
  "nat \<Rightarrow> os \<Rightarrow> int \<Rightarrow> int \<Rightarrow> int \<Rightarrow> net_state \<Rightarrow> (int \<times> byte list \<times> net_state) res" where
  "smSocketReadLoop f os sockId len readMod s =
     (case socket_option os sockId
            (rcv_timeo_update (\<lambda>_. env_seconds (env_indication_timeout s) Socket_Indication_Timeout)) s of
        (Some rc, s) \<Rightarrow> Ok (rc, [], s)
      | (None, s) \<Rightarrow> readLoop_loop f os sockId len readMod [] 0 s)"

section \<open>Ending the connection\<close>

definition smSocketTerminate :: "os \<Rightarrow> int \<Rightarrow> net_state \<Rightarrow> int \<times> net_state" where
  "smSocketTerminate os sockId s =
     (let (retValue, s) = fd_call os sockId s;
          s = (if retValue \<noteq> 0 \<and> errno s \<noteq> 107 then errorLog RcIucv retValue s else s);
          (retValue, s) = sys_close os sockId s
      in if retValue \<noteq> 0 then
           let saveCloseErrno = errno s; s = errorLog RcIucv retValue s;
               s = (if saveCloseErrno = EINTR then
                      let (retValue, s) = sys_close os sockId s in
                      if retValue \<noteq> 0 then errorLog RcIucv retValue s else s
                    else s)
           in (SOCKET_PROCESSING_ERROR, s)
         else (0, s))"

section \<open>What the calls leave behind\<close>

text \<open>What most calls keep: the bytes transferred and the time slept.\<close>

definition quiet :: "net_state \<Rightarrow> net_state \<Rightarrow> bool" where
  "quiet s s' \<longleftrightarrow> sent s' = sent s \<and> received s' = received s \<and> slept s' = slept s"

lemma quiet_refl [simp]: "quiet s s"
  by (simp add: quiet_def)

lemma quiet_trans: "quiet s t \<Longrightarrow> quiet t u \<Longrightarrow> quiet s u"
  by (simp add: quiet_def)

named_theorems net_simps \<open>the state after a primitive\<close>

lemma tick_sel [simp]:
  "open_fds (tick s) = open_fds s" "sent (tick s) = sent s" "received (tick s) = received s" "slept (tick s) = slept s"
  "errno (tick s) = errno s"
  by (simp_all add: tick_def)

lemma errorLog_sel [simp]:
  "open_fds (errorLog a b s) = open_fds s" "quiet s (errorLog a b t) = quiet s t" "errno (errorLog a b s) = errno s"
  "open_fds (save_errno s) = open_fds s" "quiet s (save_errno t) = quiet s t" "errno (save_errno s) = errno s"
  by (simp_all add: errorLog_def save_errno_def quiet_def)

lemma fd_call_cases:
  obtains r t where "fd_call os fd s = (r, t)" "r = 0 \<and> fd \<in> set (open_fds s) \<or> r = -1" "open_fds t = open_fds s" "quiet s t"
proof -
  have "fst (fd_call os fd s) = 0 \<and> fd \<in> set (open_fds s) \<or> fst (fd_call os fd s) = -1"
    "open_fds (snd (fd_call os fd s)) = open_fds s" "quiet s (snd (fd_call os fd s))"
    by (auto simp: fd_call_def quiet_def split: answer.splits)
  with that [of "fst (fd_call os fd s)" "snd (fd_call os fd s)"] show thesis by simp
qed

lemma fd_call_closed: "fd \<notin> set (open_fds s) \<Longrightarrow> fst (fd_call os fd s) = -1"
  by (simp add: fd_call_def)

lemma sys_close_cases:
  obtains r t where "sys_close os fd s = (r, t)" "open_fds t = removeAll fd (open_fds s)" "quiet s t"
  by (cases rule: fd_call_cases [of os fd s]) (auto simp: sys_close_def quiet_def)

lemma close_checked_sel [simp]:
  "open_fds (close_checked os fd s) = removeAll fd (open_fds s)" "quiet s (close_checked os fd s)"
proof -
  obtain r t where t: "sys_close os fd s = (r, t)" "open_fds t = removeAll fd (open_fds s)" "quiet s t"
    by (rule sys_close_cases)
  obtain r' u where u: "sys_close os fd (errorLog RcIucv r t) = (r', u)"
    "open_fds u = removeAll fd (open_fds (errorLog RcIucv r t))" "quiet (errorLog RcIucv r t) u"
    by (rule sys_close_cases)
  have "quiet s u" using t(3) u(3) by (simp add: quiet_def errorLog_def)
  with t u show "open_fds (close_checked os fd s) = removeAll fd (open_fds s)" "quiet s (close_checked os fd s)"
    by (auto simp: close_checked_def Let_def)
qed

lemma transfer_error_cases:
  obtains rc t where "transfer_error os other fd s = (rc, t)" "open_fds t = removeAll fd (open_fds s)" "quiet s t"
    "rc \<in> {SOCKET_TIMEOUT_ERROR, SOCKET_NOT_CONNECTED_ERROR, other}"
proof -
  let ?s = "errorLog RcIucv (if errno s = EAGAIN then RsSocketTimeout else errno s) (save_errno s)"
  have "quiet s (close_checked os fd ?s)"
    by (rule quiet_trans [of _ ?s]) simp_all
  then show thesis
    using that by (auto simp: transfer_error_def Let_def)
qed

lemma socket_option_cases:
  assumes "\<And>s. open_fds (change s) = open_fds s" and "\<And>s. quiet s (change s)"
  obtains (ok) t where "socket_option os fd change s = (None, t)" "open_fds t = open_fds s" "quiet s t" "fd \<in> set (open_fds s)"
  | (fail) t where "socket_option os fd change s = (Some SOCKET_PROCESSING_ERROR, t)" "open_fds t = removeAll fd (open_fds s)" "quiet s t"
proof (cases rule: fd_call_cases [of os fd s])
  case (1 r t)
  let ?t = "errorLog RcIucv (errno t) (save_errno t)"
  have "quiet t (close_checked os fd ?t)" by (rule quiet_trans [of _ ?t]) simp_all
  with 1(4) have "quiet s (close_checked os fd ?t)" by (rule quiet_trans)
  moreover have "quiet s (change t)" using 1(4) assms(2) by (rule quiet_trans)
  ultimately show thesis
    using that 1(1-3) assms(1) by (auto simp: socket_option_def Let_def)
qed

section \<open>Transfers\<close>

lemma sys_send_cases:
  obtains (fail) t where "sys_send os fd data s = (-1, t)" "open_fds t = open_fds s" "quiet s t"
  | (ok) k t where "sys_send os fd data s = (int k, t)" "k \<le> length data" "open_fds t = open_fds s"
    "sent t = sent s @ take k data" "received t = received s" "slept t = slept s"
proof (cases "fd \<in> set (open_fds s)")
  case False
  then show ?thesis using fail by (simp add: sys_send_def quiet_def)
next
  case True
  then show ?thesis
  proof (cases "os (ticks s)")
    case (Done n bs)
    with True show ?thesis using ok [of "min (nat n) (length data)"] by (simp add: sys_send_def Let_def)
  next
    case (Failed e)
    with True show ?thesis using fail by (simp add: sys_send_def quiet_def)
  qed
qed

lemma sys_recv_cases:
  obtains (fail) t where "sys_recv os fd len s = (-1, [], t)" "open_fds t = open_fds s" "quiet s t"
  | (ok) bs t where "sys_recv os fd len s = (int (length bs), bs, t)" "length bs \<le> nat len" "open_fds t = open_fds s"
    "received t = received s @ bs" "sent t = sent s" "slept t = slept s"
    "\<exists>n cs. os (ticks s) = Done n cs \<and> bs = take (nat len) cs"
proof (cases "fd \<in> set (open_fds s)")
  case False
  then show ?thesis using fail by (simp add: sys_recv_def quiet_def)
next
  case True
  then show ?thesis
  proof (cases "os (ticks s)")
    case (Done n bs)
    with True show ?thesis using ok [of "take (nat len) bs"] by (simp add: sys_recv_def Let_def)
  next
    case (Failed e)
    with True show ?thesis using fail by (simp add: sys_recv_def quiet_def)
  qed
qed

text \<open>How a transfer leaves the descriptor: open after success, closed after an error.\<close>

definition fd_after :: "int \<Rightarrow> int \<Rightarrow> net_state \<Rightarrow> net_state \<Rightarrow> bool" where
  "fd_after rc fd s s' \<longleftrightarrow> slept s' = slept s \<and>
     open_fds s' = (if rc = 0 then open_fds s else removeAll fd (open_fds s))"

definition transfer_codes :: "int list" where
  "transfer_codes = [SOCKET_TIMEOUT_ERROR, SOCKET_NOT_CONNECTED_ERROR, SOCKET_PROCESSING_ERROR, SOCKET_READ_ERROR, SOCKET_WRITE_ERROR]"

lemma transfer_codes_nonzero: "rc \<in> set transfer_codes \<Longrightarrow> rc \<noteq> 0"
  by (auto simp: transfer_codes_def socket_codes)

lemma transfer_error_after:
  assumes "transfer_error os other fd s = (rc, s')" and "other \<in> set transfer_codes"
  shows "rc \<in> set transfer_codes" and "fd_after rc fd s s'" and "quiet s s'"
proof -
  from assms(1) show rc: "rc \<in> set transfer_codes" "quiet s s'"
    by (cases rule: transfer_error_cases [of os other fd s]; use assms(2) in \<open>auto simp: transfer_codes_def\<close>)+
  from assms(1) transfer_codes_nonzero [OF rc(1)] rc(2) show "fd_after rc fd s s'"
    by (cases rule: transfer_error_cases [of os other fd s]) (auto simp: fd_after_def quiet_def)
qed

lemma write_loop_result:
  assumes "write_loop f os fd data s = Ok (rc, s')"
  shows "\<exists>n \<le> length data. sent s' = sent s @ take n data \<and> received s' = received s \<and> fd_after rc fd s s' \<and>
    (if rc = 0 then n = length data else rc \<in> set transfer_codes)"
  using assms
proof (induction f arbitrary: data s)
  case 0
  then show ?case by simp
next
  case (Suc f)
  show ?case
  proof (cases "data = []")
    case True
    with Suc.prems show ?thesis by (simp add: fd_after_def)
  next
    case False
    show ?thesis
    proof (cases rule: sys_send_cases [of os fd data s])
      case (fail t)
      with Suc.prems False have "transfer_error os SOCKET_WRITE_ERROR fd t = (rc, s')" by simp
      from transfer_error_after [OF this] have "rc \<in> set transfer_codes" "fd_after rc fd t s'" "quiet t s'"
        by (simp_all add: transfer_codes_def)
      with transfer_codes_nonzero [of rc] fail show ?thesis
        by (intro exI [of _ 0]) (auto simp: fd_after_def quiet_def)
    next
      case (ok k t)
      with Suc.prems False have "write_loop f os fd (drop k data) t = Ok (rc, s')" by simp
      from Suc.IH [OF this] obtain n where n: "n \<le> length (drop k data)" "sent s' = sent t @ take n (drop k data)"
        "received s' = received t" "fd_after rc fd t s'" "if rc = 0 then n = length (drop k data) else rc \<in> set transfer_codes"
        by blast
      have "take (k + n) data = take k data @ take n (drop k data)" by (rule take_add)
      with n ok show ?thesis
        by (intro exI [of _ "k + n"]) (auto simp: fd_after_def split: if_splits)
    qed
  qed
qed

lemma read_loop_result:
  assumes "read_loop f os fd len buff r s = Ok (rc, buff', s')" and "int (length buff) \<le> len"
  shows "\<exists>bs. buff' = buff @ bs \<and> received s' = received s @ bs \<and> sent s' = sent s \<and> fd_after rc fd s s' \<and>
    (if rc = 0 then int (length buff') = len else int (length buff') < len \<and> rc \<in> set transfer_codes)"
  using assms
proof (induction f arbitrary: buff r s)
  case 0
  then show ?case by simp
next
  case (Suc f)
  show ?case
  proof (cases "int (length buff) < len")
    case False
    with Suc.prems show ?thesis by (simp add: fd_after_def)
  next
    case True
    show ?thesis
    proof (cases rule: sys_recv_cases [of os fd "len - int (length buff)" s])
      case (fail t)
      obtain c u where e: "transfer_error os SOCKET_READ_ERROR fd t = (c, u)" by fastforce
      with Suc.prems True fail have "c = rc" "buff' = buff" "u = s'" by simp_all
      with transfer_error_after [OF e] have "rc \<in> set transfer_codes" "fd_after rc fd t s'" "quiet t s'"
        by (simp_all add: transfer_codes_def)
      with transfer_codes_nonzero [of rc] fail True \<open>buff' = buff\<close> show ?thesis
        by (auto simp: fd_after_def quiet_def)
    next
      case (ok bs t)
      show ?thesis
      proof (cases "bs = [] \<and> r + 1 > 10 \<and> buff = []")
        case give_up: True
        let ?t = "errorLog RcIucv RsUnexpected t"
        have q: "quiet t (close_checked os fd ?t)" by (rule quiet_trans [of _ ?t]) simp_all
        have "rc = SOCKET_READ_ERROR" "buff' = buff" "s' = close_checked os fd ?t"
          using Suc.prems True ok give_up by (simp_all add: Let_def)
        with q ok True give_up show ?thesis
          by (auto simp: fd_after_def quiet_def transfer_codes_def socket_codes)
      next
        case more: False
        then obtain r' where "read_loop f os fd len (buff @ bs) r' t = Ok (rc, buff', s')"
          using Suc.prems True ok by (auto simp: Let_def split: if_splits)
        moreover have "int (length (buff @ bs)) \<le> len" using ok(2) True by simp
        ultimately obtain cs where "buff' = (buff @ bs) @ cs" "received s' = received t @ cs" "sent s' = sent t" "fd_after rc fd t s'"
          "if rc = 0 then int (length buff') = len else int (length buff') < len \<and> rc \<in> set transfer_codes"
          using Suc.IH by blast
        with ok show ?thesis by (intro exI [of _ "bs @ cs"]) (auto simp: fd_after_def)
      qed
    qed
  qed
qed

lemma option_id: "open_fds ((\<lambda>s. s) s) = open_fds s" "quiet s ((\<lambda>s. s) s)"
  by simp_all

lemma option_timeo:
  "open_fds (snd_timeo_update g s) = open_fds s" "quiet s (snd_timeo_update g s)"
  "open_fds (rcv_timeo_update g s) = open_fds s" "quiet s (rcv_timeo_update g s)"
  by (simp_all add: quiet_def)

lemma transfer_options_cases:
  assumes c: "\<And>s. open_fds (change s) = open_fds s" "\<And>s. quiet s (change s)"
  obtains (fail) t where "transfer_options os fd change s = (Some SOCKET_PROCESSING_ERROR, t)"
      "open_fds t = removeAll fd (open_fds s)" "quiet s t"
  | (ok) t where "transfer_options os fd change s = (None, t)" "open_fds t = open_fds s" "quiet s t"
      "fd \<in> set (open_fds s)"
proof (cases rule: socket_option_cases [OF c, of os fd s, case_names ok1 fail1])
  case (fail1 t)
  then show ?thesis using fail [of t] by (simp add: transfer_options_def)
next
  case (ok1 t)
  show ?thesis
  proof (cases rule: socket_option_cases [OF option_id, of os fd t, case_names ok2 fail2])
    case (fail2 u)
    then show ?thesis using fail [of u] ok1 quiet_trans [OF ok1(3) fail2(3)] by (simp add: transfer_options_def)
  next
    case (ok2 u)
    then show ?thesis using ok [of u] ok1 quiet_trans [OF ok1(3) ok2(3)] by (simp add: transfer_options_def)
  qed
qed

lemmas write_options = transfer_options_cases [where change = "snd_timeo_update (\<lambda>_. n)" for n, OF option_timeo(1,2), case_names fail ok]
lemmas read_options = transfer_options_cases [where change = "rcv_timeo_update (\<lambda>_. n)" for n, OF option_timeo(3,4), case_names fail ok]

lemma processing_error_after:
  "open_fds t = removeAll fd (open_fds s) \<Longrightarrow> quiet s t \<Longrightarrow>
     fd_after SOCKET_PROCESSING_ERROR fd s t \<and> SOCKET_PROCESSING_ERROR \<in> set transfer_codes \<and> SOCKET_PROCESSING_ERROR \<noteq> 0"
  by (simp add: fd_after_def quiet_def transfer_codes_def socket_codes)

lemma smSocketWrite_result:
  assumes "smSocketWrite f os fd data s = Ok (rc, s')"
  shows "\<exists>n \<le> length data. sent s' = sent s @ take n data \<and> received s' = received s \<and> slept s' = slept s \<and>
    (if rc = 0 then n = length data \<and> open_fds s' = open_fds s
     else rc \<in> set transfer_codes \<and> open_fds s' = removeAll fd (open_fds s))"
proof (cases rule: write_options [of os fd "write_timeout s" s])
  case (fail t)
  then have "rc = SOCKET_PROCESSING_ERROR" "s' = t"
    using assms unfolding smSocketWrite_def by (simp_all add: fail(1))
  with fail processing_error_after [of t fd s] show ?thesis
    by (intro exI [of _ 0]) (auto simp: fd_after_def quiet_def)
next
  case (ok t)
  then have "write_loop f os fd data t = Ok (rc, s')"
    using assms unfolding smSocketWrite_def by (simp add: ok(1))
  from write_loop_result [OF this] ok show ?thesis
    by (auto simp: fd_after_def quiet_def split: if_splits)
qed

text \<open>
  C17: \<open>smSocketWrite\<close> sends everything or closes the socket.  Whatever the sizes of the partial
  sends, on return code 0 the bytes that went out are exactly the data and the socket stays open;
  with any other code a prefix of the data went out and the socket is closed.
\<close>

theorem smSocketWrite_sends:
  assumes "smSocketWrite f os fd data s = Ok (rc, s')"
  shows "\<exists>n \<le> length data. sent s' = sent s @ take n data \<and> received s' = received s \<and> slept s' = slept s \<and>
    (if rc = 0 then n = length data \<and> open_fds s' = open_fds s
     else rc \<in> set transfer_codes \<and> open_fds s' = removeAll fd (open_fds s))"
  by (rule smSocketWrite_result [OF assms])

definition example_net :: net_state where
  "example_net =
     \<lparr>open_fds = [2, 1, 0], ticks = 0, errno = 0, slept = 0, snd_timeo = 0, rcv_timeo = 0, sent = [], received = [],
      peer_userid = [], iucv_userid = [], contextCreatedFlag = 1, socketTimeout = -1, env_timeout = None,
      env_indication_timeout = None, ctx_rc = 0, ctx_reason = 0, errnoSaved = 0\<rparr>"

definition connected_net :: net_state where
  "connected_net = example_net\<lparr>open_fds := [3, 2, 1, 0]\<rparr>"

theorem smSocketWrite_sends_witness:
  "\<exists>s'. smSocketWrite 9 (\<lambda>k. Done 2 []) 3 [1, 2, 3, 4, 5] connected_net = Ok (0, s') \<and> sent s' = [1, 2, 3, 4, 5] \<and>
     open_fds s' = [3, 2, 1, 0]"
proof -
  let ?r = "smSocketWrite 9 (\<lambda>k. Done 2 []) 3 [1, 2, 3, 4, 5] connected_net"
  have "case ?r of Ok (rc, s') \<Rightarrow> rc = 0 | _ \<Rightarrow> False" by code_simp
  then obtain s' where r: "?r = Ok (0, s')" by (auto split: res.splits)
  with smSocketWrite_sends [OF r] show ?thesis by (auto simp: connected_net_def example_net_def)
qed

lemma smSocketRead_result:
  assumes "smSocketRead f os fd len s = Ok (rc, buff, s')" and "0 \<le> len"
  shows "received s' = received s @ buff \<and> sent s' = sent s \<and> slept s' = slept s \<and> int (length buff) \<le> len \<and>
    (if rc = 0 then int (length buff) = len \<and> open_fds s' = open_fds s
     else rc \<in> set transfer_codes \<and> open_fds s' = removeAll fd (open_fds s))"
proof (cases rule: read_options [of os fd "read_timeout s" s])
  case (fail t)
  then have "rc = SOCKET_PROCESSING_ERROR" "s' = t" "buff = []"
    using assms(1) unfolding smSocketRead_def by (simp_all add: fail(1))
  with fail assms(2) processing_error_after [of t fd s] show ?thesis by (auto simp: fd_after_def quiet_def)
next
  case (ok t)
  then have "read_loop f os fd len [] 0 t = Ok (rc, buff, s')"
    using assms(1) unfolding smSocketRead_def by (simp add: ok(1))
  from read_loop_result [OF this] assms(2) ok show ?thesis
    by (auto simp: fd_after_def quiet_def split: if_splits)
qed

text \<open>
  C18: \<open>smSocketRead\<close> returns the next bytes of the stream.  Whatever the sizes of the partial
  receives, on return code 0 the buffer is full and holds exactly the bytes received; with any
  other code the socket is closed.
\<close>

theorem smSocketRead_receives:
  assumes "smSocketRead f os fd len s = Ok (rc, buff, s')" and "0 \<le> len"
  shows "received s' = received s @ buff \<and> sent s' = sent s \<and> slept s' = slept s \<and> int (length buff) \<le> len \<and>
    (if rc = 0 then int (length buff) = len \<and> open_fds s' = open_fds s
     else rc \<in> set transfer_codes \<and> open_fds s' = removeAll fd (open_fds s))"
  by (rule smSocketRead_result [OF assms])

definition chunked :: "byte list list \<Rightarrow> os" where
  "chunked bss k = (if k < length bss then Done 0 (bss ! k) else Failed EAGAIN)"

theorem smSocketRead_receives_witness:
  "\<exists>s'. smSocketRead 9 (chunked [[], [], [1], [], [2, 3], [4, 5, 6]]) 3 5 connected_net = Ok (0, [1, 2, 3, 4, 5], s') \<and>
     received s' = [1, 2, 3, 4, 5]"
proof -
  let ?r = "smSocketRead 9 (chunked [[], [], [1], [], [2, 3], [4, 5, 6]]) 3 5 connected_net"
  have "case ?r of Ok (rc, b, s') \<Rightarrow> rc = 0 \<and> b = [1, 2, 3, 4, 5] | _ \<Rightarrow> False" by code_simp
  then obtain s' where r: "?r = Ok (0, [1, 2, 3, 4, 5], s')" by (auto split: res.splits)
  with smSocketRead_receives [OF r] show ?thesis by (auto simp: connected_net_def example_net_def)
qed

section \<open>Ending of a read\<close>

lemma read_loop_returns:
  assumes "\<And>k n bs. os k = Done n bs \<Longrightarrow> bs \<noteq> []" and "nat (len - int (length buff)) < f"
  shows "\<exists>r. read_loop f os fd len buff retry s = Ok r"
  using assms(2)
proof (induction f arbitrary: buff retry s)
  case 0
  then show ?case by simp
next
  case (Suc f)
  show ?case
  proof (cases "int (length buff) < len")
    case False
    then show ?thesis by simp
  next
    case True
    show ?thesis
    proof (cases rule: sys_recv_cases [of os fd "len - int (length buff)" s])
      case (fail t)
      obtain c u where "transfer_error os SOCKET_READ_ERROR fd t = (c, u)" by fastforce
      with fail True show ?thesis by simp
    next
      case (ok bs t)
      from ok(7) True assms(1) have "bs \<noteq> []" by auto
      moreover from this have "nat (len - int (length (buff @ bs))) < f"
        using Suc.prems True by (cases bs) auto
      ultimately show ?thesis using Suc.IH [of "buff @ bs" retry t] ok True by (simp add: Let_def)
    qed
  qed
qed

lemma read_loop_eof:
  assumes "fd \<in> set (open_fds s)" and "buff \<noteq> []" and "int (length buff) < len" and "\<And>k. ticks s \<le> k \<Longrightarrow> os k = Done 0 []"
  shows "read_loop f os fd len buff retry s = NoFuel"
  using assms(1,4)
proof (induction f arbitrary: retry s)
  case (Suc f)
  have "sys_recv os fd (len - int (length buff)) s = (0, [], (tick s)\<lparr>received := received s\<rparr>)"
    using Suc.prems(1,2) by (simp add: sys_recv_def)
  moreover have "read_loop f os fd len buff r ((tick s)\<lparr>received := received s\<rparr>) = NoFuel" for r
    by (rule Suc.IH) (use Suc.prems in \<open>simp_all add: tick_def\<close>)
  ultimately show ?case using assms(2,3) by simp
qed simp

text \<open>
  C19: a read does not end when the server closes the connection inside a message.  The limit of ten
  empty receives applies only before the first byte; after it the loop goes on for ever.
\<close>

theorem smSocketRead_hangs_on_eof:
  assumes "fd \<in> set (open_fds s)" and "os = (\<lambda>k. if k = ticks s + 2 then Done 0 bs else Done 0 [])"
    and "bs \<noteq> []" and "int (length bs) < len"
  shows "smSocketRead f os fd len s = NoFuel"
proof -
  have call: "fd_call os fd t = (0, tick t)" if "fd \<in> set (open_fds t)" "ticks t < ticks s + 2" for t
    using that assms(2) by (simp add: fd_call_def)
  let ?t = "tick ((tick s)\<lparr>rcv_timeo := read_timeout s\<rparr>)"
  have opts: "transfer_options os fd (rcv_timeo_update (\<lambda>_. read_timeout s)) s = (None, ?t)"
    using assms(1) by (simp add: transfer_options_def socket_option_def call tick_def)
  let ?u = "(tick ?t)\<lparr>received := received s @ bs\<rparr>"
  have recv: "sys_recv os fd len ?t = (int (length bs), bs, ?u)"
    using assms by (simp add: sys_recv_def tick_def)
  have rest: "read_loop f' os fd len bs r ?u = NoFuel" for f' r
    by (rule read_loop_eof) (use assms in \<open>simp_all add: tick_def\<close>)
  show ?thesis
  proof (cases f)
    case 0
    then show ?thesis by (simp add: smSocketRead_def opts)
  next
    case (Suc f')
    have "0 < len" using assms(4) by linarith
    then show ?thesis using recv rest assms(3) Suc by (simp add: smSocketRead_def opts Let_def)
  qed
qed

theorem smSocketRead_hangs_on_eof_witness:
  "\<forall>f. smSocketRead f (\<lambda>k. if k = ticks connected_net + 2 then Done 0 [1, 2] else Done 0 []) 3 5 connected_net = NoFuel"
  by (rule allI, rule smSocketRead_hangs_on_eof [where bs = "[1, 2]"]) (simp_all add: connected_net_def example_net_def)

lemma smSocketRead_open: "smSocketRead f os fd len s = Ok (0, buff, s') \<Longrightarrow> fd \<in> set (open_fds s)"
  by (cases rule: read_options [of os fd "read_timeout s" s]) (auto simp: smSocketRead_def socket_codes)

lemma smSocketWrite_closed:
  assumes "fd \<notin> set (open_fds s)"
  obtains s' where "smSocketWrite f os fd data s = Ok (SOCKET_PROCESSING_ERROR, s')" "sent s' = sent s" "open_fds s' = open_fds s"
proof (cases rule: write_options [of os fd "write_timeout s" s])
  case (fail t)
  then show ?thesis using that [of t] assms by (simp add: smSocketWrite_def quiet_def)
qed (use assms in simp)

lemma write_loop_returns:
  assumes "\<And>k n bs. os k = Done n bs \<Longrightarrow> 0 < n" and "length data < f"
  shows "\<exists>r. write_loop f os fd data s = Ok r"
  using assms(2)
proof (induction f arbitrary: data s)
  case (Suc f)
  show ?case
  proof (cases "data = []")
    case False
    show ?thesis
    proof (cases "fd \<in> set (open_fds s) \<and> (\<exists>n bs. os (ticks s) = Done n bs)")
      case True
      then obtain n bs where n: "os (ticks s) = Done n bs" "0 < n" using assms(1) by blast
      let ?k = "min (nat n) (length data)"
      have "0 < ?k" "?k \<le> length data" using n(2) False by simp_all
      then have "length data - ?k < f" using Suc.prems by linarith
      then have "length (drop ?k data) < f" by simp
      then show ?thesis using Suc.IH [of "drop ?k data"] True n(1) by (auto simp: sys_send_def Let_def)
    next
      case fail: False
      then have "\<exists>t. sys_send os fd data s = (-1, t)"
        by (cases "os (ticks s)") (auto simp: sys_send_def)
      then show ?thesis using False by auto
    qed
  qed simp
qed simp

lemma smSocketWrite_returns:
  assumes "\<And>k n bs. os k = Done n bs \<Longrightarrow> 0 < n" and "length data < f"
  shows "\<exists>rc s'. smSocketWrite f os fd data s = Ok (rc, s')"
proof (cases rule: write_options [of os fd "write_timeout s" s])
  case (ok t)
  then show ?thesis using write_loop_returns [of os data f fd t] assms by (auto simp: smSocketWrite_def)
qed (simp add: smSocketWrite_def)

lemma smSocketRead_returns:
  assumes "\<And>k n bs. os k = Done n bs \<Longrightarrow> bs \<noteq> []" and "nat len < f"
  shows "\<exists>rc buff s'. smSocketRead f os fd len s = Ok (rc, buff, s')"
proof (cases rule: read_options [of os fd "read_timeout s" s])
  case (fail t)
  then show ?thesis by (simp add: smSocketRead_def)
next
  case (ok t)
  then show ?thesis using read_loop_returns [of os len "[]" f fd 0 t] assms by (auto simp: smSocketRead_def)
qed

text \<open>
  A read ends when the server keeps delivering.  If no receive comes back empty, a read of
  \<open>len\<close> bytes returns after at most \<open>len\<close> receives.
\<close>

theorem smSocketRead_ends:
  assumes "\<forall>k n bs. os k = Done n bs \<longrightarrow> bs \<noteq> []" and "nat len < f"
  shows "\<exists>rc buff s'. smSocketRead f os fd len s = Ok (rc, buff, s')"
  using assms by (intro smSocketRead_returns) blast+

theorem smSocketRead_ends_witness:
  "\<exists>rc buff s'. smSocketRead 6 (\<lambda>k. if k < 5 then Done 0 [7] else Failed EAGAIN) 3 5 connected_net = Ok (rc, buff, s')"
  by (rule smSocketRead_ends) simp_all

section \<open>Opening a connection\<close>

lemma fresh_fd_new: "fresh_fd fs \<notin> set fs" and fresh_fd_nonneg: "0 \<le> fresh_fd fs"
proof -
  let ?c = "map int [0..<Suc (length fs)]"
  have "filter (\<lambda>k. k \<notin> set fs) ?c \<noteq> []"
  proof
    assume "filter (\<lambda>k. k \<notin> set fs) ?c = []"
    then have "\<forall>x\<in>set ?c. \<not> x \<notin> set fs" by (simp only: filter_empty_conv)
    then have "set ?c \<subseteq> set fs" by blast
    then have "card (set ?c) \<le> card (set fs)" by (intro card_mono) simp_all
    moreover have "card (set ?c) = Suc (length fs)" by (subst distinct_card) (auto simp: distinct_map)
    ultimately show False using card_length [of fs] by simp
  qed
  then have "fresh_fd fs \<in> set (filter (\<lambda>k. k \<notin> set fs) ?c)"
    unfolding fresh_fd_def by (rule hd_in_set)
  then show "fresh_fd fs \<notin> set fs" "0 \<le> fresh_fd fs" by (auto simp del: upt_Suc)
qed

lemma sys_socket_cases:
  obtains (fail) t where "sys_socket os s = (-1, t)" "open_fds t = open_fds s" "quiet s t"
  | (ok) fd t where "sys_socket os s = (fd, t)" "fd \<noteq> -1" "fd \<notin> set (open_fds s)" "open_fds t = fd # open_fds s" "quiet s t"
proof (cases "os (ticks s)")
  case (Failed e)
  then show ?thesis using fail by (simp add: sys_socket_def quiet_def)
next
  case (Done n bs)
  then show ?thesis
    using ok [of "fresh_fd (open_fds s)"] fresh_fd_new [of "open_fds s"] fresh_fd_nonneg [of "open_fds s"]
    by (simp add: sys_socket_def quiet_def)
qed

text \<open>The seconds left to sleep from an attempt on.\<close>

definition sleep_budget :: "int \<Rightarrow> int" where
  "sleep_budget r = sum_list (drop (nat r) CONNECT_SLEEP_TIMES)"

lemma sleep_budget_nonneg [simp]: "0 \<le> sleep_budget r"
proof -
  have "\<forall>x\<in>set (drop (nat r) CONNECT_SLEEP_TIMES). 0 \<le> x"
    by (auto simp: CONNECT_SLEEP_TIMES_def dest!: in_set_dropD)
  then show ?thesis unfolding sleep_budget_def by (intro sum_list_nonneg) blast
qed

lemma sleep_budget_step:
  assumes "0 \<le> r" and "r < RETRY_CONNECTION_LIMIT"
  shows "CONNECT_SLEEP_TIMES ! nat r + sleep_budget (r + 1) = sleep_budget r" and "0 \<le> CONNECT_SLEEP_TIMES ! nat r"
proof -
  have r: "nat r < length CONNECT_SLEEP_TIMES"
    using assms by (simp add: CONNECT_SLEEP_TIMES_def RETRY_CONNECTION_LIMIT_def nat_less_iff)
  from Cons_nth_drop_Suc [OF r] show "CONNECT_SLEEP_TIMES ! nat r + sleep_budget (r + 1) = sleep_budget r"
    using assms(1) by (simp add: sleep_budget_def nat_add_distrib) (metis sum_list.Cons)
  from nth_mem [OF r] show "0 \<le> CONNECT_SLEEP_TIMES ! nat r" by (auto simp: CONNECT_SLEEP_TIMES_def)
qed

lemma connect_loop_result:
  assumes "connect_loop os r fd s = (rc, fd', s')" and "open_fds s = fd # F" and "fd \<notin> set F" and "0 \<le> r"
  shows "(if rc = 0 then open_fds s' = fd' # F \<and> fd' \<notin> set F else open_fds s' = F) \<and>
    slept s' \<le> slept s + sleep_budget r \<and> sent s' = sent s \<and> received s' = received s"
  using assms
proof (induction os r fd s rule: connect_loop.induct)
  case (1 os r fd s)
  obtain ret t where t: "fd_call os fd s = (ret, t)" "open_fds t = open_fds s" "quiet s t"
    by (rule fd_call_cases [of os fd s])
  define u where "u = errorLog RcIucv ret (save_errno t)"
  have u: "open_fds (close_checked os fd u) = F" "quiet s (close_checked os fd u)"
    using t 1(3,4) quiet_trans [of s u "close_checked os fd u"] by (simp_all add: u_def)
  have errs: "SOCKET_CONNECT_REFUSED_ERROR \<noteq> 0" "SOCKET_CONNECT_TRYAGAIN_ERROR \<noteq> 0" "SOCKET_PROCESSING_ERROR \<noteq> 0"
    "SOCKET_OBTAIN_ERROR \<noteq> 0"
    by (simp_all add: socket_codes)
  have closed: ?case if "rc \<noteq> 0" "s' = close_checked os fd u"
    using u that by (simp add: quiet_def)
  show ?case
  proof (cases "ret = 0")
    case True
    then have "rc = 0" "fd' = fd" "s' = t\<lparr>peer_userid := server_userid (iucv_userid t)\<rparr>"
      using 1(2) t(1) by (simp_all add: connect_loop.simps [of os r])
    then show ?thesis using t 1(3,4) by (simp add: quiet_def)
  next
    case ret: False
    show ?thesis
    proof (cases "r < RETRY_CONNECTION_LIMIT \<and> (errno t = ECONNREFUSED \<or> errno t = EAGAIN)")
      case False
      then have "rc \<noteq> 0 \<and> s' = close_checked os fd u"
        using 1(2) t(1) ret errs by (auto simp: connect_loop.simps [of os r] Let_def u_def split: if_splits)
      then show ?thesis using closed by simp
    next
      case retry: True
      define v where "v = sleep_positive (CONNECT_SLEEP_TIMES ! nat r) (close_checked os fd u)"
      have v: "open_fds v = F" "slept v = slept s + CONNECT_SLEEP_TIMES ! nat r" "sent v = sent s" "received v = received s"
        using u sleep_budget_step(2) [of r] 1(5) retry
        by (auto simp: v_def sleep_positive_def sys_sleep_def quiet_def)
      note budget = sleep_budget_step(1) [of r] sleep_budget_nonneg [of "r + 1"]
      show ?thesis
      proof (cases rule: sys_socket_cases [of os v])
        case (fail w)
        then have "rc = SOCKET_OBTAIN_ERROR" "s' = errorLog RcIucv (-1) (save_errno w)"
          using 1(2) t(1) ret retry by (auto simp: connect_loop.simps [of os r] Let_def u_def v_def)
        moreover have "CONNECT_SLEEP_TIMES ! nat r \<le> sleep_budget r" using budget retry 1(5) by linarith
        ultimately show ?thesis
          using fail v errs by (auto simp: quiet_def errorLog_def save_errno_def)
      next
        case (ok fd2 w)
        let ?w = "w\<lparr>ctx_rc := 0, ctx_reason := 0\<rparr>"
        have rec: "connect_loop os (r + 1) fd2 ?w = (rc, fd', s')"
          using 1(2) t(1) ret retry ok by (simp add: connect_loop.simps [of os r] Let_def u_def v_def)
        have "(if rc = 0 then open_fds s' = fd' # F \<and> fd' \<notin> set F else open_fds s' = F) \<and>
          slept s' \<le> slept ?w + sleep_budget (r + 1) \<and> sent s' = sent ?w \<and> received s' = received ?w"
          by (rule 1(1) [OF refl t(1) [symmetric] ret refl refl _ _ refl refl refl ok(1) [unfolded v_def u_def, symmetric] ok(2) rec])
            (use retry ok v 1(5) in auto)
        with ok v budget retry 1(5) show ?thesis by (auto simp: quiet_def)
      qed
    qed
  qed
qed

lemma smSocketInitialize_result:
  assumes "smSocketInitialize os sem fd s = (rc, fd', s')"
    and "open_fds (snd (sem s)) = open_fds s" and "quiet s (snd (sem s))"
  shows "(if rc = 0 then open_fds s' = fd' # open_fds s \<and> fd' \<notin> set (open_fds s) else open_fds s' = open_fds s) \<and>
    slept s' \<le> slept s + 70 \<and> sent s' = sent s \<and> received s' = received s"
proof -
  define r where "r = (if contextCreatedFlag s \<noteq> 1 then sem s else (0, s))"
  have t: "open_fds (snd r) = open_fds s" "quiet s (snd r)" using assms(2,3) by (simp_all add: r_def)
  have b: "sleep_budget 1 = 70" by code_simp
  have errs: "PROCESSING_ERROR \<noteq> 0" "SOCKET_OBTAIN_ERROR \<noteq> 0" "SOCKET_PROCESSING_ERROR \<noteq> 0" by (simp_all add: socket_codes)
  show ?thesis
  proof (cases "fst r = 0")
    case False
    then have "rc = PROCESSING_ERROR" "s' = errorLog RcRuntime RsUnexpected (snd r)"
      using assms(1) by (auto simp: smSocketInitialize_def r_def [symmetric] split_beta Let_def)
    with t errs show ?thesis by (simp add: quiet_def errorLog_def)
  next
    case True
    show ?thesis
    proof (cases rule: sys_socket_cases [of os "snd r"])
      case (fail w)
      then have "rc = SOCKET_OBTAIN_ERROR" "s' = errorLog RcIucv (-1) (save_errno w)"
        using assms(1) True by (auto simp: smSocketInitialize_def r_def [symmetric] split_beta Let_def)
      with fail t errs show ?thesis by (auto simp: quiet_def errorLog_def save_errno_def)
    next
      case (ok fd2 w)
      show ?thesis
      proof (cases rule: socket_option_cases [of "snd_timeo_update (\<lambda>_. 60)" os fd2 w, case_names c1 c2 ok2 fail2])
        case (fail2 u)
        then have "rc = SOCKET_PROCESSING_ERROR" "s' = u"
          using assms(1) True ok by (auto simp: smSocketInitialize_def r_def [symmetric] split_beta Let_def)
        with fail2 ok t errs show ?thesis by (auto simp: quiet_def)
      next
        case (ok2 u)
        then have "connect_loop os 1 fd2 u = (rc, fd', s')"
          using assms(1) True ok by (simp add: smSocketInitialize_def r_def [symmetric] split_beta Let_def)
        from connect_loop_result [OF this, of "open_fds s"] ok ok2 t b show ?thesis by (auto simp: quiet_def)
      qed (simp_all add: option_timeo)
    qed
  qed
qed

text \<open>
  Opening a connection leaks no descriptor and sleeps at most 70 seconds.  With return code 0
  one new descriptor is open, the one returned; with any other code the open descriptors are those
  of the caller, after up to ten attempts to connect.
\<close>

theorem smSocketInitialize_opens_one:
  assumes "smSocketInitialize os sem fd s = (rc, fd', s')"
    and "open_fds (snd (sem s)) = open_fds s" and "quiet s (snd (sem s))"
  shows "(if rc = 0 then open_fds s' = fd' # open_fds s \<and> fd' \<notin> set (open_fds s) else open_fds s' = open_fds s) \<and>
    slept s' \<le> slept s + 70 \<and> sent s' = sent s \<and> received s' = received s"
  by (rule smSocketInitialize_result [OF assms])

theorem smSocketInitialize_opens_one_witness:
  "open_fds (snd (snd (smSocketInitialize (\<lambda>k. if k = 2 then Failed ECONNREFUSED else Done 0 []) (\<lambda>s. (0, s)) 0 example_net)))
     = [3, 2, 1, 0]"
proof -
  let ?r = "smSocketInitialize (\<lambda>k. if k = 2 then Failed ECONNREFUSED else Done 0 []) (\<lambda>s. (0, s)) 0 example_net"
  have new: "fresh_fd [2, 1, 0] = 3" by code_simp
  have "fst ?r = 0 \<and> fst (snd ?r) = 3"
    by (simp add: smSocketInitialize_def sys_socket_def fd_call_def socket_option_def connect_loop.simps example_net_def tick_def
        new RETRY_CONNECTION_LIMIT_def errorLog_def save_errno_def close_checked_def sys_close_def sleep_positive_def
        CONNECT_SLEEP_TIMES_def Let_def)
  then have "?r = (0, 3, snd (snd ?r))" by (metis prod.collapse)
  from smSocketInitialize_opens_one [OF this] show ?thesis by (simp add: example_net_def)
qed

end
