(* ===== verification/C_Heap.thy ===== *)
theory C_Heap
  imports Zthin_Prelude
begin

text \<open>
  The C heap as the code uses it: \<open>malloc\<close>, \<open>realloc\<close>, \<open>free\<close> and \<open>memset\<close>.  A heap has its
  live blocks, its bytes and a mark below which every address has been given out once; addresses
  are not used a second time, so that a pointer to a freed block is told from a new one.
  Whether the allocator grants a request is decided by a parameter, a function of the number
  of requests before it and of the size.  Freeing or resizing what is not a live block and a
  store outside every live block are \<open>Fault\<close>.
\<close>

record c_heap =
  blocks :: "(int \<times> int) list"
  brk :: int
  requests :: nat
  bytes :: mem

type_synonym grants = "nat \<Rightarrow> int \<Rightarrow> bool"

abbreviation live :: "c_heap \<Rightarrow> int set" where
  "live h \<equiv> fst ` set (blocks h)"

definition c_malloc :: "grants \<Rightarrow> int \<Rightarrow> c_heap \<Rightarrow> int \<times> c_heap" where
  "c_malloc g n h =
     (let h' = h\<lparr>requests := Suc (requests h)\<rparr> in
      if 0 \<le> n \<and> g (requests h) n
      then (brk h, h'\<lparr>blocks := (brk h, n) # blocks h, brk := brk h + (n + 1)\<rparr>)
      else (0, h'))"

definition c_free :: "int \<Rightarrow> c_heap \<Rightarrow> c_heap res" where
  "c_free a h =
     (if a = 0 then Ok h
      else if a \<in> live h then Ok (h\<lparr>blocks := filter (\<lambda>b. fst b \<noteq> a) (blocks h)\<rparr>)
      else Fault)"

definition block_size :: "c_heap \<Rightarrow> int \<Rightarrow> int" where
  "block_size h a = (case map_of (blocks h) a of Some n \<Rightarrow> n | None \<Rightarrow> 0)"

definition c_realloc :: "grants \<Rightarrow> int \<Rightarrow> int \<Rightarrow> c_heap \<Rightarrow> (int \<times> c_heap) res" where
  "c_realloc g a n h =
     (if a = 0 then Ok (c_malloc g n h)
      else if a \<in> live h then
        (let (p, h') = c_malloc g n h in
         if p = 0 then Ok (0, h')
         else
           res_bind (c_free a h') (\<lambda>h'.
             Ok (p, h'\<lparr>bytes := mem_write (bytes h') p
                        (mem_read (bytes h') a (nat (min n (block_size h a))))\<rparr>)))
      else Fault)"

definition c_store :: "int \<Rightarrow> byte list \<Rightarrow> c_heap \<Rightarrow> c_heap res" where
  "c_store a bs h =
     (if list_ex (\<lambda>(b, n). b \<le> a \<and> a + int (length bs) \<le> b + n) (blocks h)
      then Ok (h\<lparr>bytes := mem_write (bytes h) a bs\<rparr>) else Fault)"

definition c_memset :: "int \<Rightarrow> byte \<Rightarrow> int \<Rightarrow> c_heap \<Rightarrow> c_heap res" where
  "c_memset a b n = c_store a (replicate (nat n) b)"

section \<open>Well-formed heaps\<close>

definition block_set :: "int \<times> int \<Rightarrow> int set" where
  "block_set b = region (fst b) (snd b)"

definition wf_heap :: "c_heap \<Rightarrow> bool" where
  "wf_heap h \<longleftrightarrow> 0 < brk h \<and>
     (\<forall>(a, n)\<in>set (blocks h). 0 < a \<and> 0 \<le> n \<and> a + n < brk h) \<and>
     sorted_wrt (\<lambda>b c. fst c + snd c < fst b) (blocks h)"

lemma wf_heapD:
  assumes "wf_heap h" and "(a, n) \<in> set (blocks h)"
  shows "0 < a" and "0 \<le> n" and "a + n < brk h"
  using assms by (auto simp: wf_heap_def)

lemma wf_heap_brk: "wf_heap h \<Longrightarrow> brk h \<notin> live h" "wf_heap h \<Longrightarrow> 0 \<notin> live h" "wf_heap h \<Longrightarrow> 0 < brk h"
  by (auto simp: wf_heap_def)

lemma wf_heap_distinct:
  assumes "wf_heap h" shows "distinct (map fst (blocks h))"
proof -
  have "fst (blocks h ! i) \<noteq> fst (blocks h ! j)" if "i < j" "j < length (blocks h)" for i j
  proof -
    have "fst (blocks h ! j) + snd (blocks h ! j) < fst (blocks h ! i)"
      using assms that by (simp add: wf_heap_def sorted_wrt_iff_nth_less)
    moreover have "0 \<le> snd (blocks h ! j)"
      using assms that(2) by (auto simp: wf_heap_def dest!: bspec [OF _ nth_mem])
    ultimately show ?thesis by linarith
  qed
  then show ?thesis by (simp add: distinct_conv_nth) (metis nat_neq_iff)
qed

lemma live_below_brk: "wf_heap h \<Longrightarrow> a \<in> live h \<Longrightarrow> 0 < a \<and> a < brk h"
  using wf_heapD [of h a] by force

lemma c_malloc_cases:
  obtains (none) "c_malloc g n h = (0, h\<lparr>requests := Suc (requests h)\<rparr>)"
  | (some) "0 \<le> n" "c_malloc g n h = (brk h, h\<lparr>requests := Suc (requests h), blocks := (brk h, n) # blocks h, brk := brk h + (n + 1)\<rparr>)"
  by (cases "0 \<le> n \<and> g (requests h) n") (auto simp: c_malloc_def)

lemma wf_heap_requests [simp]: "wf_heap (h\<lparr>requests := k\<rparr>) = wf_heap h"
  "wf_heap (h\<lparr>bytes := m\<rparr>) = wf_heap h"
  by (simp_all add: wf_heap_def)

lemma wf_heap_filter:
  "wf_heap h \<Longrightarrow> wf_heap (h\<lparr>blocks := filter P (blocks h)\<rparr>)"
  by (auto simp: wf_heap_def sorted_wrt_filter)

lemma c_malloc_wf: "wf_heap h \<Longrightarrow> c_malloc g n h = (p, h') \<Longrightarrow> wf_heap h'"
  by (cases rule: c_malloc_cases [of g n h]) (fastforce simp: wf_heap_def)+

lemma c_malloc_live:
  assumes "wf_heap h" and "c_malloc g n h = (p, h')"
  shows "p = 0 \<and> live h' = live h \<or>
    0 < p \<and> p \<notin> live h \<and> live h' = insert p (live h) \<and> (p, n) \<in> set (blocks h') \<and> 0 \<le> n"
proof (cases rule: c_malloc_cases [of g n h])
  case none
  with assms(2) show ?thesis by auto
next
  case some
  with assms(2) have "p = brk h" "blocks h' = (brk h, n) # blocks h" by auto
  with some(1) wf_heap_brk [OF assms(1)] show ?thesis by simp
qed

lemma c_malloc_bytes: "c_malloc g n h = (p, h') \<Longrightarrow> bytes h' = bytes h"
  by (cases rule: c_malloc_cases [of g n h]) auto

lemma c_free_wf: "wf_heap h \<Longrightarrow> c_free a h = Ok h' \<Longrightarrow> wf_heap h'"
  by (auto simp: c_free_def wf_heap_filter split: if_splits)

lemma c_free_live: "a \<in> live h \<Longrightarrow> a \<noteq> 0 \<Longrightarrow> \<exists>h'. c_free a h = Ok h' \<and> live h' = live h - {a} \<and> bytes h' = bytes h \<and> brk h' = brk h"
  by (force simp: c_free_def)

lemma blocks_disjoint:
  assumes "wf_heap h" and "b \<in> set (blocks h)" and "c \<in> set (blocks h)" and "b \<noteq> c"
  shows "block_set b \<inter> block_set c = {}"
proof -
  from assms(2,3) obtain i j where ij: "i < length (blocks h)" "j < length (blocks h)"
    "b = blocks h ! i" "c = blocks h ! j" by (auto simp: in_set_conv_nth)
  with assms(4) have "i < j \<or> j < i" by (metis nat_neq_iff)
  with assms(1) ij have "fst c + snd c < fst b \<or> fst b + snd b < fst c"
    by (auto simp: wf_heap_def sorted_wrt_iff_nth_less)
  then show ?thesis by (auto simp: block_set_def region_def)
qed

lemma c_malloc_below: "wf_heap h \<Longrightarrow> c_malloc g n h = (p, h') \<Longrightarrow> brk h \<le> brk h' \<and> (p = 0 \<or> p = brk h \<and> p + n < brk h')"
  by (cases rule: c_malloc_cases [of g n h]) auto

lemma c_realloc_live:
  assumes wf: "wf_heap h" and a: "a \<in> live h"
  obtains (none) h' where "c_realloc g a n h = Ok (0, h')" "wf_heap h'" "live h' = live h" "bytes h' = bytes h" "brk h' = brk h"
  | (some) p h' where "c_realloc g a n h = Ok (p, h')" "wf_heap h'" "0 < p" "p \<notin> live h" "live h' = insert p (live h - {a})"
    "\<forall>x < brk h. bytes h' x = bytes h x" "brk h \<le> brk h'" "p = brk h"
proof -
  obtain p h1 where m: "c_malloc g n h = (p, h1)" by fastforce
  have a0: "a \<noteq> 0" using wf_heap_brk(2) [OF wf] a by metis
  show thesis
  proof (cases "p = 0")
    case True
    with m have "h1 = h\<lparr>requests := Suc (requests h)\<rparr>"
      using wf_heap_brk(3) [OF wf] by (cases rule: c_malloc_cases [of g n h]) auto
    then show ?thesis using none [of h1] True m a a0 wf by (simp add: c_realloc_def)
  next
    case False
    with c_malloc_live [OF wf m] have p: "0 < p" "p \<notin> live h" "live h1 = insert p (live h)" by auto
    obtain h2 where h2: "c_free a h1 = Ok h2" "live h2 = live h1 - {a}" "bytes h2 = bytes h1" "brk h2 = brk h1"
      using c_free_live [of a h1] p(3) a a0 by (auto simp: c_free_def)
    let ?bs = "mem_read (bytes h2) a (nat (min n (block_size h a)))"
    have "a \<noteq> p" using a p(2) by metis
    moreover have "\<forall>x < brk h. mem_write (bytes h2) p ?bs x = bytes h x"
      using c_malloc_below [OF wf m] False h2(3) c_malloc_bytes [OF m] by (simp add: mem_write_def)
    ultimately show ?thesis
      using some [of p "h2\<lparr>bytes := mem_write (bytes h2) p ?bs\<rparr>"] p m a a0 h2 c_malloc_wf [OF wf m]
        c_free_wf [OF _ h2(1)] c_malloc_below [OF wf m]
      by (simp add: c_realloc_def False insert_Diff_if)
  qed
qed

section \<open>Addresses that are not given out yet\<close>

text \<open>The operations write nothing above the addresses that have been given out.\<close>

definition clear_above :: "c_heap \<Rightarrow> c_heap \<Rightarrow> bool" where
  "clear_above h h' \<longleftrightarrow> wf_heap h' \<and> brk h \<le> brk h' \<and> (\<forall>x \<ge> brk h'. bytes h' x = bytes h x)"

lemma clear_above_refl: "wf_heap h \<Longrightarrow> clear_above h h"
  by (simp add: clear_above_def)

lemma clear_above_trans: "clear_above h h1 \<Longrightarrow> clear_above h1 h2 \<Longrightarrow> clear_above h h2"
  by (auto simp: clear_above_def)

lemma clear_above_wf: "clear_above h h' \<Longrightarrow> wf_heap h'"
  by (simp add: clear_above_def)

lemma c_malloc_above: "wf_heap h \<Longrightarrow> c_malloc g n h = (p, h') \<Longrightarrow> clear_above h h'"
  using c_malloc_wf [of h g n p h'] c_malloc_below [of h g n p h'] c_malloc_bytes [of g n h p h'] by (simp add: clear_above_def)

lemma c_free_above: "wf_heap h \<Longrightarrow> c_free a h = Ok h' \<Longrightarrow> clear_above h h'"
  using c_free_wf [of h a h'] by (auto simp: clear_above_def c_free_def split: if_splits)

lemma c_store_above:
  assumes "wf_heap h" and "c_store a bs h = Ok h'"
  shows "clear_above h h'"
proof -
  from assms(2) obtain b n where "(b, n) \<in> set (blocks h)" "a + int (length bs) \<le> b + n"
    and h': "h' = h\<lparr>bytes := mem_write (bytes h) a bs\<rparr>"
    by (auto simp: c_store_def list_ex_iff split: if_splits)
  with wf_heapD(3) [OF assms(1)] have "a + int (length bs) < brk h" by fastforce
  then show ?thesis using assms(1) by (auto simp: clear_above_def h' mem_write_def)
qed

lemma c_realloc_above:
  assumes wf: "wf_heap h" and run: "c_realloc g a n h = Ok (p, h')"
  shows "clear_above h h'"
proof -
  obtain q h1 where m: "c_malloc g n h = (q, h1)" by fastforce
  note m1 = c_malloc_above [OF wf m]
  show ?thesis
  proof (cases "a = 0 \<or> q = 0")
    case True
    then show ?thesis using run m m1 by (auto simp: c_realloc_def split: if_splits)
  next
    case False
    then obtain h2 where h2: "c_free a h1 = Ok h2"
      and h': "h' = h2\<lparr>bytes := mem_write (bytes h2) q (mem_read (bytes h2) a (nat (min n (block_size h a))))\<rparr>"
      using run m by (auto simp: c_realloc_def res_bind_eq_Ok split: if_splits)
    note m2 = c_free_above [OF clear_above_wf [OF m1] h2]
    have "q + n < brk h2" using c_malloc_below [OF wf m] False m2 by (auto simp: clear_above_def)
    then have "clear_above h2 h'"
      using m2 by (auto simp: clear_above_def h' mem_write_def mem_read_def)
    then show ?thesis using clear_above_trans [OF clear_above_trans [OF m1 m2]] by blast
  qed
qed

end
