(* ===== verification/Memory_Group.thy ===== *)
theory Memory_Group
  imports C_Heap
begin

text \<open>
  The memory groups of \<^verbatim>\<open>src/smMemoryGroup.c\<close>: an array of pointers that records every chunk the
  parser allocates for a response, so that the caller frees them in one call.  The tracking array
  is a heap block at \<open>chunks_ptr\<close> with the entries \<open>chunks\<close>; an entry that was never written is
  \<open>None\<close> and reading it, or an entry the array does not have, is \<open>Fault\<close>.  The error messages are
  left out.
\<close>

section \<open>State and operations\<close>

record smMemoryGroupContext =
  arraySize :: int
  lastChunk :: int
  chunks_ptr :: int
  chunks :: "int option list"

type_synonym 'a mg_run = "('a \<times> smMemoryGroupContext \<times> c_heap) res"

definition quantum :: int where "quantum = 64"

definition chunk_at :: "smMemoryGroupContext \<Rightarrow> int \<Rightarrow> int res" where
  "chunk_at c i =
     (if 0 \<le> i \<and> i < int (length (chunks c))
      then case chunks c ! nat i of Some a \<Rightarrow> Ok a | None \<Rightarrow> Fault
      else Fault)"

definition set_chunk :: "smMemoryGroupContext \<Rightarrow> int \<Rightarrow> int \<Rightarrow> smMemoryGroupContext res" where
  "set_chunk c i a =
     (if 0 \<le> i \<and> i < int (length (chunks c)) then Ok (c\<lparr>chunks := (chunks c)[nat i := Some a]\<rparr>) else Fault)"

text \<open>\<open>realloc\<close> of the tracking array keeps the entries that fit.\<close>

definition resize_chunks :: "int \<Rightarrow> int option list \<Rightarrow> int option list" where
  "resize_chunks n xs = take (nat n) xs @ replicate (nat n - length xs) None"

definition smMemoryGroupInitialize ::
  "grants \<Rightarrow> smMemoryGroupContext \<Rightarrow> c_heap \<Rightarrow> int mg_run" where
  "smMemoryGroupInitialize g context h =
     (let context = context\<lparr>arraySize := quantum\<rparr>;
          (p, h) = c_malloc g (arraySize context * 8) h;
          context = context\<lparr>chunks_ptr := p, chunks := replicate (nat (arraySize context)) None\<rparr>
      in if p = 0 then Ok (MEMORY_ERROR, context, h)
         else Ok (0, context\<lparr>lastChunk := -1\<rparr>, h))"

definition unset :: "smMemoryGroupContext \<Rightarrow> bool" where
  "unset context \<longleftrightarrow> arraySize context < quantum \<or> chunks_ptr context = 0"

definition smMemoryGroupEnsure ::
  "grants \<Rightarrow> smMemoryGroupContext \<Rightarrow> c_heap \<Rightarrow> int mg_run" where
  "smMemoryGroupEnsure g context h =
     (if unset context then smMemoryGroupInitialize g context h else Ok (0, context, h))"

text \<open>The tracking array grows by the quantum when the next entry is behind its end.\<close>

definition smMemoryGroupGrow ::
  "grants \<Rightarrow> smMemoryGroupContext \<Rightarrow> c_heap \<Rightarrow> bool mg_run" where
  "smMemoryGroupGrow g context h =
     (if lastChunk context = arraySize context then
        (let context = context\<lparr>arraySize := arraySize context + quantum\<rparr> in
         res_bind (c_realloc g (chunks_ptr context) (arraySize context * 8) h) (\<lambda>(reallocated, h).
           if reallocated = 0 then Ok (False, context, h)
           else Ok (True, context\<lparr>chunks_ptr := reallocated,
                             chunks := resize_chunks (arraySize context) (chunks context)\<rparr>, h)))
      else Ok (True, context, h))"

definition smMemoryGroupAlloc ::
  "grants \<Rightarrow> int \<Rightarrow> smMemoryGroupContext \<Rightarrow> c_heap \<Rightarrow> int mg_run" where
  "smMemoryGroupAlloc g n context h =
     res_bind (smMemoryGroupEnsure g context h) (\<lambda>(rc, context, h).
     if rc \<noteq> 0 then Ok (0, context, h)
     else
       let context = context\<lparr>lastChunk := lastChunk context + 1\<rparr> in
       res_bind (smMemoryGroupGrow g context h) (\<lambda>(grown, context, h).
       if \<not> grown then Ok (0, context, h)
       else
         let (p, h) = c_malloc g n h in
         res_bind (set_chunk context (lastChunk context) p) (\<lambda>context.
         res_bind (if p \<noteq> 0 then c_memset p 0 n h else Ok h) (\<lambda>h.
           Ok (p, context, h)))))"

text \<open>The search loop of \<open>smMemoryGroupRealloc\<close> from entry \<open>i\<close> on.\<close>

function smMemoryGroupFind ::
  "grants \<Rightarrow> int \<Rightarrow> int \<Rightarrow> int \<Rightarrow> smMemoryGroupContext \<Rightarrow> c_heap \<Rightarrow> int mg_run" where
  "smMemoryGroupFind g chunk n i context h =
     (if i \<le> lastChunk context then
        res_bind (chunk_at context i) (\<lambda>a.
        if a = chunk then
          res_bind (c_realloc g a n h) (\<lambda>(reallocated, h).
          if reallocated = 0 then Ok (0, context, h)
          else res_bind (set_chunk context i reallocated) (\<lambda>context. Ok (reallocated, context, h)))
        else smMemoryGroupFind g chunk n (i + 1) context h)
      else Ok (0, context, h))"
  by pat_completeness auto

termination
  by (relation "measure (\<lambda>(g, chunk, n, i, context, h). nat (lastChunk context + 1 - i))") auto

definition smMemoryGroupRealloc ::
  "grants \<Rightarrow> int \<Rightarrow> int \<Rightarrow> smMemoryGroupContext \<Rightarrow> c_heap \<Rightarrow> int mg_run" where
  "smMemoryGroupRealloc g chunk n context h =
     res_bind (smMemoryGroupEnsure g context h) (\<lambda>(rc, context, h).
     if rc \<noteq> 0 then Ok (0, context, h) else smMemoryGroupFind g chunk n 0 context h)"

text \<open>\<open>FREE_MEMORY\<close> of entry \<open>i\<close> and of those after it.\<close>

function smMemoryGroupFreeFrom ::
  "int \<Rightarrow> smMemoryGroupContext \<Rightarrow> c_heap \<Rightarrow> (smMemoryGroupContext \<times> c_heap) res" where
  "smMemoryGroupFreeFrom i context h =
     (if i \<le> lastChunk context then
        res_bind (chunk_at context i) (\<lambda>a.
        if a \<noteq> 0 then
          res_bind (c_free a h) (\<lambda>h.
          smMemoryGroupFreeFrom (i + 1) (context\<lparr>chunks := (chunks context)[nat i := Some 0]\<rparr>) h)
        else smMemoryGroupFreeFrom (i + 1) context h)
      else Ok (context, h))"
  by pat_completeness auto

termination
  by (relation "measure (\<lambda>(i, context, h). nat (lastChunk context + 1 - i))") auto

definition smMemoryGroupFreeAll ::
  "grants \<Rightarrow> smMemoryGroupContext \<Rightarrow> c_heap \<Rightarrow> int mg_run" where
  "smMemoryGroupFreeAll g context h =
     (if unset context then Ok (0, context, h)
      else
        res_bind (smMemoryGroupFreeFrom 0 context h) (\<lambda>(context, h).
        res_bind
          (if arraySize context \<noteq> quantum then
             let context = context\<lparr>arraySize := quantum\<rparr> in
             res_bind (c_realloc g (chunks_ptr context) (arraySize context * 8) h) (\<lambda>(p, h).
               Ok (context\<lparr>chunks_ptr := p, chunks := resize_chunks (arraySize context) (chunks context)\<rparr>, h))
           else Ok (context, h))
          (\<lambda>(context, h). Ok (0, context\<lparr>lastChunk := -1\<rparr>, h))))"

definition smMemoryGroupTerminate ::
  "smMemoryGroupContext \<Rightarrow> c_heap \<Rightarrow> int mg_run" where
  "smMemoryGroupTerminate context h =
     (if unset context then Ok (0, context, h)
      else res_bind (c_free (chunks_ptr context) h) (\<lambda>h. Ok (0, context\<lparr>chunks_ptr := 0\<rparr>, h)))"

declare smMemoryGroupFind.simps [simp del] smMemoryGroupFreeFrom.simps [simp del]

section \<open>The invariant\<close>

text \<open>The chunks recorded and not yet freed.\<close>

definition recorded :: "smMemoryGroupContext \<Rightarrow> int option list" where
  "recorded c = take (nat (lastChunk c + 1)) (chunks c)"

definition members :: "smMemoryGroupContext \<Rightarrow> int list" where
  "members c = (if unset c then [] else filter (\<lambda>a. a \<noteq> 0) (map the (recorded c)))"

definition mg_set :: "smMemoryGroupContext \<Rightarrow> c_heap \<Rightarrow> bool" where
  "mg_set c h \<longleftrightarrow>
     64 dvd arraySize c \<and> arraySize c = int (length (chunks c)) \<and>
     -1 \<le> lastChunk c \<and> lastChunk c < arraySize c \<and>
     None \<notin> set (recorded c) \<and>
     distinct (chunks_ptr c # members c) \<and> set (chunks_ptr c # members c) \<subseteq> live h"

definition mg_ok :: "smMemoryGroupContext \<Rightarrow> c_heap \<Rightarrow> bool" where
  "mg_ok c h \<longleftrightarrow> wf_heap h \<and> (unset c \<or> mg_set c h)"

definition owned :: "smMemoryGroupContext \<Rightarrow> int set" where
  "owned c = (if unset c then {} else set (chunks_ptr c # members c))"

text \<open>What an operation leaves alone: blocks outside the group and the bytes given out before.\<close>

definition undisturbed ::
  "smMemoryGroupContext \<Rightarrow> c_heap \<Rightarrow> smMemoryGroupContext \<Rightarrow> c_heap \<Rightarrow> bool" where
  "undisturbed c h c' h' \<longleftrightarrow>
     wf_heap h' \<and> live h' - owned c' = live h - owned c \<and> brk h \<le> brk h' \<and> (\<forall>x < brk h. bytes h' x = bytes h x)"

lemma undisturbed_trans:
  "undisturbed c h c1 h1 \<Longrightarrow> undisturbed c1 h1 c2 h2 \<Longrightarrow> undisturbed c h c2 h2"
  by (auto simp: undisturbed_def)

lemma mg_okD: "mg_ok c h \<Longrightarrow> wf_heap h" "mg_ok c h \<Longrightarrow> \<not> unset c \<Longrightarrow> mg_set c h"
  by (auto simp: mg_ok_def)

lemma length_recorded: "mg_set c h \<Longrightarrow> int (length (recorded c)) = lastChunk c + 1"
  by (auto simp: mg_set_def recorded_def)

lemma Ensure_ok:
  assumes "mg_ok c h"
  obtains rc c' h' where "smMemoryGroupEnsure g c h = Ok (rc, c', h')" "mg_ok c' h'" "members c' = members c"
    "undisturbed c h c' h'" "rc = 0 \<Longrightarrow> \<not> unset c'" "rc \<noteq> 0 \<Longrightarrow> unset c'"
proof (cases "unset c")
  case False
  then show ?thesis
    using that [of 0 c h] assms by (simp add: smMemoryGroupEnsure_def undisturbed_def mg_okD)
next
  case True
  have wf: "wf_heap h" by (rule mg_okD [OF assms])
  obtain p h' where m: "c_malloc g (quantum * 8) h = (p, h')" by fastforce
  note m' = c_malloc_wf [OF wf m] c_malloc_live [OF wf m] c_malloc_bytes [OF m] c_malloc_below [OF wf m]
  define c1 where "c1 = c\<lparr>arraySize := quantum, chunks_ptr := p, chunks := replicate (nat quantum) None\<rparr>"
  show ?thesis
  proof (cases "p = 0")
    case p0: True
    have "unset c1" by (simp add: c1_def unset_def p0)
    then show ?thesis
      using that [of MEMORY_ERROR c1 h'] m m' True p0 wf_heap_brk(3) [OF wf]
      by (auto simp: smMemoryGroupEnsure_def smMemoryGroupInitialize_def c1_def mg_ok_def members_def
          undisturbed_def owned_def MEMORY_ERROR_def Let_def)
  next
    case p1: False
    let ?c = "c1\<lparr>lastChunk := -1\<rparr>"
    have "\<not> unset ?c" "members ?c = []" "owned ?c = {p}"
      using p1 by (simp_all add: c1_def unset_def members_def recorded_def owned_def quantum_def)
    then show ?thesis
      using that [of 0 ?c h'] m m' True p1
      by (auto simp: smMemoryGroupEnsure_def smMemoryGroupInitialize_def c1_def mg_ok_def mg_set_def
          members_def recorded_def undisturbed_def owned_def quantum_def Let_def)
  qed
qed

lemma Grow_cases:
  assumes wf: "wf_heap h" and set: "mg_set c h" and ready: "\<not> unset c"
  obtains (none) c' h' where "smMemoryGroupGrow g (c\<lparr>lastChunk := lastChunk c + 1\<rparr>) h = Ok (False, c', h')"
      "wf_heap h'" "live h' = live h" "brk h' = brk h" "bytes h' = bytes h"
      "c' = c\<lparr>lastChunk := arraySize c, arraySize := arraySize c + quantum\<rparr>" "lastChunk c + 1 = arraySize c"
  | (some) c' h' where "smMemoryGroupGrow g (c\<lparr>lastChunk := lastChunk c + 1\<rparr>) h = Ok (True, c', h')"
      "wf_heap h'" "brk h \<le> brk h'" "\<forall>x < brk h. bytes h' x = bytes h x" "\<not> unset c'"
      "lastChunk c' = lastChunk c + 1" "take (nat (lastChunk c + 1)) (chunks c') = recorded c"
      "arraySize c' = int (length (chunks c'))" "lastChunk c' < arraySize c'" "64 dvd arraySize c'"
      "distinct (chunks_ptr c' # members c)" "set (chunks_ptr c' # members c) \<subseteq> live h'"
      "live h' - set (chunks_ptr c' # members c) = live h - owned c"
proof (cases "lastChunk c + 1 = arraySize c")
  case False
  then show ?thesis
    using some [of "c\<lparr>lastChunk := lastChunk c + 1\<rparr>" h] assms
    by (auto simp: smMemoryGroupGrow_def mg_set_def unset_def recorded_def owned_def)
next
  case True
  let ?n = "(arraySize c + quantum) * 8"
  have ptr: "chunks_ptr c \<in> live h" using set by (simp add: mg_set_def)
  have full: "recorded c = chunks c" using set True by (simp add: mg_set_def recorded_def)
  show ?thesis
  proof (cases rule: c_realloc_live [OF wf ptr, of g ?n, case_names none' some'])
    case (none' h')
    then show ?thesis using none [of _ h'] True by (simp add: smMemoryGroupGrow_def)
  next
    case (some' p h')
    let ?c = "c\<lparr>lastChunk := lastChunk c + 1, arraySize := arraySize c + quantum, chunks_ptr := p,
      chunks := resize_chunks (arraySize c + quantum) (chunks c)\<rparr>"
    have grown: "smMemoryGroupGrow g (c\<lparr>lastChunk := lastChunk c + 1\<rparr>) h = Ok (True, ?c, h')"
      using some'(1,3) True by (simp add: smMemoryGroupGrow_def)
    have ready': "\<not> unset ?c" using some'(3) ready by (simp add: unset_def quantum_def)
    have taken: "take (nat (lastChunk c + 1)) (chunks ?c) = recorded c"
      using set True by (simp add: full resize_chunks_def mg_set_def quantum_def)
    have len: "arraySize ?c = int (length (chunks ?c))"
      using set by (simp add: resize_chunks_def mg_set_def quantum_def)
    have mem: "p \<notin> set (members c)" "distinct (members c)" "chunks_ptr c \<notin> set (members c)" "set (members c) \<subseteq> live h"
      using some'(4) set by (auto simp: mg_set_def)
    have "set (chunks_ptr ?c # members c) \<subseteq> live h'" using mem some'(5) by auto
    moreover have "live h' - set (chunks_ptr ?c # members c) = live h - owned c"
      using some'(4,5) ready by (auto simp: owned_def)
    ultimately show ?thesis
      using mem set True
      by (intro some [OF grown some'(2,7,6) ready' _ taken len]) (auto simp: mg_set_def quantum_def)
  qed
qed

text \<open>The tracking array did not grow: its size and the last entry are ahead of the array.\<close>

definition grow_failed :: "smMemoryGroupContext \<Rightarrow> bool" where
  "grow_failed c \<longleftrightarrow> \<not> unset c \<and> lastChunk c = int (length (chunks c))"

lemma diff_new: "P \<inter> L = {} \<Longrightarrow> L \<union> P - (A \<union> P) = L - A"
  by blast

lemma Alloc_cases:
  assumes ok: "mg_ok c h"
  obtains (some) p c' h' where "smMemoryGroupAlloc g n c h = Ok (p, c', h')" "p \<noteq> 0" "mg_ok c' h'"
      "members c' = members c @ [p]" "p \<notin> live h" "brk h \<le> p" "(p, n) \<in> set (blocks h')" "0 \<le> n" "undisturbed c h c' h'"
      "\<forall>x\<in>region p n. bytes h' x = 0"
  | (none) c' h' where "smMemoryGroupAlloc g n c h = Ok (0, c', h')" "mg_ok c' h'" "members c' = members c" "undisturbed c h c' h'"
  | (failed) c' h' where "smMemoryGroupAlloc g n c h = Ok (0, c', h')" "grow_failed c'" "undisturbed c h c' h'"
proof -
  obtain rc c1 h1 where e: "smMemoryGroupEnsure g c h = Ok (rc, c1, h1)" "mg_ok c1 h1" "members c1 = members c"
    "undisturbed c h c1 h1" "rc = 0 \<Longrightarrow> \<not> unset c1" "rc \<noteq> 0 \<Longrightarrow> unset c1"
    using Ensure_ok [OF ok, of g] by blast
  show thesis
  proof (cases "rc = 0")
    case False
    then show ?thesis using none [of c1 h1] e by (simp add: smMemoryGroupAlloc_def)
  next
    case True
    note ready = e(5) [OF True]
    note wf = mg_okD(1) [OF e(2)] and set1 = mg_okD(2) [OF e(2) ready]
    show ?thesis
    proof (cases rule: Grow_cases [OF wf set1 ready, of g, case_names none' some'])
      case (none' c2 h2)
      have "smMemoryGroupAlloc g n c h = Ok (0, c2, h2)"
        using none'(1) True e(1) by (simp add: smMemoryGroupAlloc_def Let_def)
      moreover have "grow_failed c2"
        using none'(6) set1 ready by (simp add: grow_failed_def mg_set_def unset_def quantum_def)
      moreover have "owned c2 = owned c1"
        using none'(6,7) ready set1
        by (auto simp: owned_def members_def recorded_def unset_def quantum_def mg_set_def)
      ultimately show ?thesis using failed [of c2 h2] e(4) none' by (simp add: undisturbed_def)
    next
      case (some' c2 h2)
      obtain p h3 where m: "c_malloc g n h2 = (p, h3)" by fastforce
      let ?k = "nat (lastChunk c1 + 1)"
      let ?c = "c2\<lparr>chunks := (chunks c2)[?k := Some p]\<rparr>"
      have k: "0 \<le> lastChunk c1 + 1" using set1 by (simp add: mg_set_def)
      have ready': "\<not> unset ?c" using some'(5) by (simp add: unset_def)
      have k2: "nat (lastChunk ?c + 1) = Suc ?k" using some'(6) k by (simp add: nat_add_distrib)
      have rec: "recorded ?c = recorded c1 @ [Some p]"
        using some'(6,7,8,9) k unfolding recorded_def k2 by (simp add: take_Suc_conv_app_nth)
      have mem: "members ?c = members c @ (if p = 0 then [] else [p])"
        using ready' ready rec e(3) by (auto simp: members_def)
      have set_p: "set_chunk c2 (lastChunk c2) p = Ok ?c"
        using some'(6,8,9) k by (simp add: set_chunk_def)
      note m' = c_malloc_wf [OF some'(2) m] c_malloc_live [OF some'(2) m] c_malloc_bytes [OF m] c_malloc_below [OF some'(2) m]
      have mg: "mg_ok ?c h4" "undisturbed c1 h1 ?c h4" if h4: "wf_heap h4" "live h4 = live h3" "brk h4 = brk h3"
        "\<forall>x < brk h2. bytes h4 x = bytes h2 x" for h4
      proof -
        have own: "owned ?c = insert (chunks_ptr c2) (set (members c)) \<union> (if p = 0 then {} else {p})"
          using ready' by (simp add: owned_def mem)
        have p: "p = 0 \<or> p \<notin> insert (chunks_ptr c2) (set (members c))" using m'(2) some'(12) e(3) by auto
        have "distinct (chunks_ptr ?c # members ?c)" "set (chunks_ptr ?c # members ?c) \<subseteq> live h4"
          unfolding mem using some'(11,12) m'(2) p h4(2) e(3) by auto
        moreover have "None \<notin> set (recorded ?c)" using rec set1 by (simp add: mg_set_def)
        moreover have "64 dvd arraySize ?c" "arraySize ?c = int (length (chunks ?c))" "- 1 \<le> lastChunk ?c"
          "lastChunk ?c < arraySize ?c"
          using some'(6,8,9,10) k by simp_all
        ultimately show "mg_ok ?c h4"
          unfolding mg_ok_def mg_set_def using h4(1) by blast
        have "live h3 = live h2 \<union> (if p = 0 then {} else {p})" "(if p = 0 then {} else {p}) \<inter> live h2 = {}"
          using m'(2) by (auto simp del: image_iff)
        then have "live h4 - owned ?c = live h2 - insert (chunks_ptr c2) (set (members c))"
          unfolding own h4(2) by (simp only: diff_new)
        then have "live h4 - owned ?c = live h1 - owned c1" using some'(13) e(3) by simp
        then show "undisturbed c1 h1 ?c h4"
          using m'(4) some'(3,4) h4 by (auto simp: undisturbed_def)
      qed
      show ?thesis
      proof (cases "p = 0")
        case p0: True
        have "smMemoryGroupAlloc g n c h = Ok (0, ?c, h3)"
          using e(1) True some'(1) m set_p p0 by (simp add: smMemoryGroupAlloc_def Let_def)
        with mg [of h3] m' show ?thesis
          using none [of ?c h3] mem p0 undisturbed_trans [OF e(4)] by simp
      next
        case p1: False
        with m'(2) have new: "(p, n) \<in> set (blocks h3)" "0 \<le> n" "p \<notin> live h2" by auto
        let ?h = "h3\<lparr>bytes := mem_write (bytes h3) p (replicate (nat n) 0)\<rparr>"
        have "c_memset p 0 n h3 = Ok ?h" using new by (auto simp: c_memset_def c_store_def list_ex_iff)
        then have "smMemoryGroupAlloc g n c h = Ok (p, ?c, ?h)"
          using e(1) True some'(1) m set_p p1 by (simp add: smMemoryGroupAlloc_def Let_def)
        moreover have "brk h \<le> p" using m'(4) p1 some'(3) e(4) by (auto simp: undisturbed_def)
        moreover have "p \<notin> live h"
          using wf_heapD(3) [OF mg_okD(1) [OF ok]] wf_heapD(2) [OF mg_okD(1) [OF ok]] \<open>brk h \<le> p\<close> by fastforce
        moreover have "mg_ok ?c ?h" "undisturbed c h ?c ?h"
          using mg [of ?h] m' p1 undisturbed_trans [OF e(4)] by (auto simp: mem_write_def)
        ultimately show ?thesis
          using some [of p ?c ?h] mem new p1 by (auto simp: region_def mem_write_def)
      qed
    qed
  qed
qed

section \<open>Freeing and resizing\<close>

abbreviation nonzero :: "int option list \<Rightarrow> int list" where
  "nonzero xs \<equiv> filter (\<lambda>a. a \<noteq> 0) (map the xs)"

lemma Alloc_above:
  assumes wf: "wf_heap h" and run: "smMemoryGroupAlloc g n c h = Ok (p, c', h')"
  shows "clear_above h h'"
proof -
  obtain rc c1 h1 where e: "smMemoryGroupEnsure g c h = Ok (rc, c1, h1)"
    using run by (auto simp: smMemoryGroupAlloc_def res_bind_eq_Ok)
  have h1: "clear_above h h1"
    using e clear_above_refl [OF wf] c_malloc_above [OF wf]
    by (fastforce simp: smMemoryGroupEnsure_def smMemoryGroupInitialize_def Let_def split: if_splits prod.splits)
  let ?c = "c1\<lparr>lastChunk := lastChunk c1 + 1\<rparr>"
  show ?thesis
  proof (cases "rc = 0")
    case False
    then show ?thesis using run e h1 by (simp add: smMemoryGroupAlloc_def)
  next
    case True
    then obtain b c2 h2 where gr: "smMemoryGroupGrow g ?c h1 = Ok (b, c2, h2)"
      using run e by (auto simp: smMemoryGroupAlloc_def res_bind_eq_Ok Let_def)
    have h2: "clear_above h1 h2"
      using gr clear_above_refl [OF clear_above_wf [OF h1]] c_realloc_above [OF clear_above_wf [OF h1]]
      by (auto simp: smMemoryGroupGrow_def Let_def res_bind_eq_Ok split: if_splits)
    obtain q h3 where m: "c_malloc g n h2 = (q, h3)" by fastforce
    note h3 = c_malloc_above [OF clear_above_wf [OF h2] m]
    have "clear_above h2 h'"
    proof (cases b)
      case False
      then show ?thesis using run e gr True clear_above_refl [OF clear_above_wf [OF h2]] by (simp add: smMemoryGroupAlloc_def)
    next
      case grown: True
      then have "h' = h3 \<or> c_memset q 0 n h3 = Ok h'"
        using run e gr True m by (auto simp: smMemoryGroupAlloc_def res_bind_eq_Ok split: if_splits)
      then show ?thesis
        using h3 c_store_above [OF clear_above_wf [OF h3], of q "replicate (nat n) 0" h'] clear_above_trans [OF h3]
        by (auto simp: c_memset_def)
    qed
    then show ?thesis using clear_above_trans [OF clear_above_trans [OF h1 h2]] by blast
  qed
qed

lemma recorded_nth:
  assumes "0 \<le> i" and "i \<le> lastChunk c" and "lastChunk c < int (length (chunks c))" and "None \<notin> set (recorded c)"
  obtains a where "chunk_at c i = Ok a" and "drop (nat i) (recorded c) = Some a # drop (nat (i + 1)) (recorded c)"
    and "recorded c ! nat i = Some a"
proof -
  have i: "nat i < length (recorded c)" using assms(1-3) by (simp add: recorded_def nat_less_iff)
  then have "recorded c ! nat i \<in> set (recorded c)" by (rule nth_mem)
  then obtain a where a: "recorded c ! nat i = Some a" using assms(4) by (metis option.exhaust)
  then have "chunk_at c i = Ok a" using assms(1-3) by (auto simp: chunk_at_def recorded_def)
  moreover have "drop (nat i) (recorded c) = Some a # drop (nat (i + 1)) (recorded c)"
    using Cons_nth_drop_Suc [OF i] a assms(1) by (simp add: nat_add_distrib)
  ultimately show thesis using that a by blast
qed

lemma FreeFrom_frees:
  assumes "0 \<le> i" and "lastChunk c < int (length (chunks c))" and "None \<notin> set (recorded c)"
    and "distinct (nonzero (drop (nat i) (recorded c)))" and "set (nonzero (drop (nat i) (recorded c))) \<subseteq> live h"
    and "wf_heap h"
  shows "\<exists>ch' h'. smMemoryGroupFreeFrom i c h = Ok (c\<lparr>chunks := ch'\<rparr>, h') \<and> length ch' = length (chunks c) \<and>
    wf_heap h' \<and> live h' = live h - set (nonzero (drop (nat i) (recorded c))) \<and> bytes h' = bytes h \<and> brk h' = brk h"
  using assms
proof (induction i c h rule: smMemoryGroupFreeFrom.induct)
  case (1 i c h)
  show ?case
  proof (cases "i \<le> lastChunk c")
    case False
    then have "drop (nat i) (recorded c) = []" by (simp add: recorded_def nat_le_iff)
    with False 1(8) show ?thesis
      by (auto simp: smMemoryGroupFreeFrom.simps intro: exI [of _ "chunks c"])
  next
    case True
    obtain a where a: "chunk_at c i = Ok a" "drop (nat i) (recorded c) = Some a # drop (nat (i + 1)) (recorded c)"
      using recorded_nth [OF 1(3) True 1(4,5)] by metis
    show ?thesis
    proof (cases "a = 0")
      case True
      with 1(2) [OF \<open>i \<le> lastChunk c\<close> a(1)] 1(3-8) a \<open>i \<le> lastChunk c\<close> show ?thesis
        by (simp add: smMemoryGroupFreeFrom.simps [of i])
    next
      case False
      let ?c = "c\<lparr>chunks := (chunks c)[nat i := Some 0]\<rparr>"
      have rec: "recorded ?c = (recorded c)[nat i := Some 0]" by (simp add: recorded_def take_update_swap)
      then have rest: "drop (nat (i + 1)) (recorded ?c) = drop (nat (i + 1)) (recorded c)"
        using 1(3) by (simp add: nat_add_distrib)
      have mem: "a \<in> live h" "a \<notin> set (nonzero (drop (nat (i + 1)) (recorded c)))" using 1(6,7) a(2) False by auto
      obtain h1 where h1: "c_free a h = Ok h1" "live h1 = live h - {a}" "bytes h1 = bytes h" "brk h1 = brk h"
        using c_free_live [OF mem(1) False] by blast
      have none: "None \<notin> set (recorded ?c)" unfolding rec using set_update_subset_insert 1(5) by fastforce
      have "\<exists>ch' h'. smMemoryGroupFreeFrom (i + 1) ?c h1 = Ok (?c\<lparr>chunks := ch'\<rparr>, h') \<and> length ch' = length (chunks ?c) \<and>
        wf_heap h' \<and> live h' = live h1 - set (nonzero (drop (nat (i + 1)) (recorded ?c))) \<and> bytes h' = bytes h1 \<and> brk h' = brk h1"
        by (rule 1(1) [OF True a(1) False h1(1)])
          (use 1(3,4,6-8) a(2) False mem none rest h1 c_free_wf [OF 1(8) h1(1)] in auto)
      then obtain ch' h' where "smMemoryGroupFreeFrom (i + 1) ?c h1 = Ok (c\<lparr>chunks := ch'\<rparr>, h')" "length ch' = length (chunks c)"
        "wf_heap h'" "live h' = live h - {a} - set (nonzero (drop (nat (i + 1)) (recorded c)))" "bytes h' = bytes h" "brk h' = brk h"
        using rest h1(2-4) by auto
      then show ?thesis
        using True a False h1(1)
        by (intro exI [of _ ch'] exI [of _ h']) (auto simp: smMemoryGroupFreeFrom.simps [of i])
    qed
  qed
qed

lemma FreeAll_frees:
  assumes ok: "mg_ok c h"
  obtains c' h' where "smMemoryGroupFreeAll g c h = Ok (0, c', h')" "mg_ok c' h'" "members c' = []"
    "live h' \<inter> set (members c) = {}" "\<forall>x < brk h. bytes h' x = bytes h x"
    "live h' - owned c' = live h - owned c \<union> (if \<not> unset c \<and> unset c' then {chunks_ptr c} else {})"
proof (cases "unset c")
  case True
  then show ?thesis using that [of c h] ok by (simp add: smMemoryGroupFreeAll_def members_def)
next
  case False
  note wf = mg_okD(1) [OF ok] and set = mg_okD(2) [OF ok False]
  have mem: "members c = nonzero (recorded c)" using False by (simp add: members_def)
  obtain ch' h1 where h1: "smMemoryGroupFreeFrom 0 c h = Ok (c\<lparr>chunks := ch'\<rparr>, h1)" "length ch' = length (chunks c)"
    "wf_heap h1" "live h1 = live h - set (members c)" "bytes h1 = bytes h" "brk h1 = brk h"
    using FreeFrom_frees [of 0 c h] set wf by (auto simp: mg_set_def mem)
  have ptr: "chunks_ptr c \<in> live h1" using set h1(4) by (simp add: mg_set_def)
  have own: "owned c = insert (chunks_ptr c) (set (members c))" using False by (simp add: owned_def)
  show ?thesis
  proof (cases "arraySize c = quantum")
    case True
    let ?c = "c\<lparr>chunks := ch', lastChunk := -1\<rparr>"
    have "\<not> unset ?c" "members ?c = []" "recorded ?c = []" using False by (simp_all add: unset_def members_def recorded_def)
    moreover from this have "mg_ok ?c h1"
      using set h1 ptr by (auto simp: mg_ok_def mg_set_def)
    moreover have "smMemoryGroupFreeAll g c h = Ok (0, ?c, h1)"
      using False True h1(1) by (simp add: smMemoryGroupFreeAll_def)
    ultimately show ?thesis
      using that [of ?c h1] h1(4,5) False own by (auto simp: owned_def)
  next
    case size: False
    show ?thesis
    proof (cases rule: c_realloc_live [OF h1(3) ptr, of g "quantum * 8", case_names none' some'])
      case (none' h')
      let ?c = "c\<lparr>chunks := resize_chunks quantum ch', arraySize := quantum, chunks_ptr := 0, lastChunk := -1\<rparr>"
      have "unset ?c" by (simp add: unset_def)
      moreover have "smMemoryGroupFreeAll g c h = Ok (0, ?c, h')"
        using False size h1(1) none'(1) by (simp add: smMemoryGroupFreeAll_def Let_def)
      moreover have "live h' = live h - owned c \<union> {chunks_ptr c}" "live h' \<inter> set (members c) = {}"
        using none'(3) h1(4) ptr own by auto
      ultimately show ?thesis
        using that [of ?c h'] none' h1 False by (simp add: mg_ok_def members_def owned_def)
    next
      case (some' p h')
      let ?c = "c\<lparr>chunks := resize_chunks quantum ch', arraySize := quantum, chunks_ptr := p, lastChunk := -1\<rparr>"
      have ready: "\<not> unset ?c" "members ?c = []" "recorded ?c = []" "owned ?c = {p}"
        using some'(3) by (simp_all add: unset_def members_def recorded_def owned_def)
      have "length (resize_chunks quantum ch') = nat quantum"
        by (simp add: resize_chunks_def quantum_def)
      then have ok': "mg_ok ?c h'"
        using ready some'(2,5) by (simp add: mg_ok_def mg_set_def quantum_def)
      have freed: "smMemoryGroupFreeAll g c h = Ok (0, ?c, h')"
        using False size h1(1) some'(1) by (simp add: smMemoryGroupFreeAll_def Let_def)
      have "p \<notin> live h" using live_below_brk [OF wf, of p] some'(8) h1(6) by (metis less_irrefl)
      moreover from this have "p \<notin> set (members c)" using set by (auto simp: mg_set_def)
      ultimately have "live h' - owned ?c = live h - owned c" "live h' \<inter> set (members c) = {}"
        using some'(5) h1(4) own ready(4) by auto
      then show ?thesis
        using that [of ?c h'] ready some'(6) h1(5,6) ok' freed by simp
    qed
  qed
qed

lemma filter_update_fresh:
  assumes "i < length xs" and "distinct (filter P xs)" and "P p" and "p \<notin> set xs"
  shows "distinct (filter P (xs[i := p]))" and "set (filter P (xs[i := p])) = insert p (set (filter P xs) - {xs ! i})"
proof -
  have "distinct (filter P (xs[i := p])) \<and> set (filter P (xs[i := p])) = insert p (set (filter P xs) - {xs ! i})"
    using assms
  proof (induction xs arbitrary: i)
    case (Cons x xs)
    show ?case
    proof (cases i)
      case 0
      with Cons.prems show ?thesis by auto
    next
      case (Suc j)
      have xs: "distinct (filter P xs)" "P x \<Longrightarrow> x \<notin> set xs" "j < length xs" "p \<notin> set xs" "p \<noteq> x"
        using Cons.prems Suc by (auto split: if_splits)
      with Cons.IH [of j] \<open>P p\<close> have "distinct (filter P (xs[j := p]))"
        "set (filter P (xs[j := p])) = insert p (set (filter P xs) - {xs ! j})" by auto
      moreover from this xs have "P x \<Longrightarrow> x \<notin> set (xs[j := p])" using set_update_subset_insert [of xs j p] by auto
      moreover have "P x \<Longrightarrow> x \<noteq> xs ! j" using xs nth_mem by metis
      ultimately show ?thesis using Suc by auto
    qed
  qed simp
  then show "distinct (filter P (xs[i := p]))" "set (filter P (xs[i := p])) = insert p (set (filter P xs) - {xs ! i})"
    by simp_all
qed

lemma Find_ok:
  assumes "0 \<le> i" and "mg_ok c h" and "\<not> unset c" and "chunk \<noteq> 0"
  shows "\<exists>p c' h'. smMemoryGroupFind g chunk n i c h = Ok (p, c', h') \<and> mg_ok c' h' \<and> undisturbed c h c' h' \<and>
    (p = 0 \<and> members c' = members c \<or> p \<noteq> 0 \<and> set (members c') = insert p (set (members c) - {chunk}))"
  using assms
proof (induction g chunk n i c h rule: smMemoryGroupFind.induct)
  case (1 g chunk n i c h)
  note wf = mg_okD(1) [OF 1(3)] and set = mg_okD(2) [OF 1(3,4)]
  show ?case
  proof (cases "i \<le> lastChunk c")
    case False
    then show ?thesis
      using 1(3) wf by (auto simp: smMemoryGroupFind.simps [of g] undisturbed_def)
  next
    case True
    obtain a where a: "chunk_at c i = Ok a" "recorded c ! nat i = Some a"
      using recorded_nth [OF 1(2) True] set by (auto simp: mg_set_def)
    show ?thesis
    proof (cases "a = chunk")
      case False
      then show ?thesis using 1(1) [OF True a(1) False] 1(2-5) a(1) True
        by (simp add: smMemoryGroupFind.simps [of g chunk n i])
    next
      case eq: True
      have i: "nat i < length (recorded c)" "nat i < length (chunks c)"
        using 1(2) True set length_recorded [OF set] by (auto simp: mg_set_def)
      have mem: "members c = nonzero (recorded c)" using 1(4) by (simp add: members_def)
      have "chunk \<in> set (map the (recorded c))" using i(1) a(2) eq by (force simp: in_set_conv_nth)
      then have chunk: "chunk \<in> set (members c)" "chunk \<in> live h" using 1(5) set mem by (auto simp: mg_set_def)
      show ?thesis
      proof (cases rule: c_realloc_live [OF wf chunk(2), of g n, case_names none' some'])
        case (none' h')
        have "mg_ok c h'" using none' 1(3,4) by (auto simp: mg_ok_def mg_set_def)
        then show ?thesis
          using none' True a(1) eq by (auto simp: smMemoryGroupFind.simps [of g chunk n i] undisturbed_def)
      next
        case (some' p h')
        let ?c = "c\<lparr>chunks := (chunks c)[nat i := Some p]\<rparr>"
        have rec: "recorded ?c = (recorded c)[nat i := Some p]" by (simp add: recorded_def take_update_swap)
        have ready: "\<not> unset ?c" using 1(4) by (simp add: unset_def)
        have mem': "members ?c = filter (\<lambda>a. a \<noteq> 0) ((map the (recorded c))[nat i := p])"
          using ready rec by (simp add: members_def map_update)
        have "p \<notin> set (map the (recorded c))"
        proof
          assume "p \<in> set (map the (recorded c))"
          then have "p \<in> set (members c)" using some'(3) mem by simp
          then show False using some'(4) set by (auto simp: mg_set_def)
        qed
        then have upd: "distinct (members ?c)" "set (members ?c) = insert p (set (members c) - {chunk})"
          using filter_update_fresh [of "nat i" "map the (recorded c)" "\<lambda>a. a \<noteq> 0" p] i(1) a(2) eq some'(3) set mem mem'
          by (simp_all add: mg_set_def)
        have none: "None \<notin> set (recorded ?c)" unfolding rec using set_update_subset_insert set by (fastforce simp: mg_set_def)
        have ptr: "chunks_ptr c \<in> live h" "chunks_ptr c \<noteq> chunk" "chunks_ptr c \<noteq> p" "chunks_ptr c \<notin> set (members c)"
          "set (members c) \<subseteq> live h"
          using set chunk some'(4) by (auto simp: mg_set_def)
        have "distinct (chunks_ptr ?c # members ?c)" "set (chunks_ptr ?c # members ?c) \<subseteq> live h'"
          using upd ptr some'(5) by auto
        with none set some'(2) have "mg_ok ?c h'" by (auto simp: mg_ok_def mg_set_def)
        moreover have "live h' - owned ?c = live h - owned c"
          using some'(4,5) upd ptr chunk ready 1(4) by (auto simp: owned_def)
        moreover have "smMemoryGroupFind g chunk n i c h = Ok (p, ?c, h')"
          using True a(1) eq some'(1,3) i(2) 1(2) by (simp add: smMemoryGroupFind.simps [of g chunk n i] set_chunk_def)
        ultimately show ?thesis using some'(2,3,6,7) upd by (auto simp: undisturbed_def)
      qed
    qed
  qed
qed

lemma FreeFrom_past_end:
  assumes "i \<le> lastChunk c" and "int (length (chunks c)) \<le> lastChunk c"
  shows "smMemoryGroupFreeFrom i c h = Fault"
  using assms
proof (induction i c h rule: smMemoryGroupFreeFrom.induct)
  case (1 i c h)
  show ?case
  proof (cases "chunk_at c i")
    case (Ok a)
    then have "i < int (length (chunks c))" by (simp add: chunk_at_def split: if_splits)
    then have more: "i + 1 \<le> lastChunk c" using 1(4) by simp
    have "c_free a h = Fault \<or> (\<exists>h'. c_free a h = Ok h')" by (simp add: c_free_def)
    with 1 Ok more show ?thesis by (auto simp: smMemoryGroupFreeFrom.simps [of i])
  qed (use 1(3) in \<open>auto simp: smMemoryGroupFreeFrom.simps [of i] chunk_at_def split: if_splits option.splits\<close>)
qed

lemma Terminate_ok:
  assumes "mg_ok c h"
  obtains c' h' where "smMemoryGroupTerminate c h = Ok (0, c', h')" "mg_ok c' h'" "unset c'"
    "live h' = (if unset c then live h else live h - {chunks_ptr c})"
proof (cases "unset c")
  case True
  then show ?thesis using that [of c h] assms by (simp add: smMemoryGroupTerminate_def)
next
  case False
  have wf: "wf_heap h" and ptr: "chunks_ptr c \<in> live h" "chunks_ptr c \<noteq> 0"
    using mg_okD [OF assms] False by (auto simp: mg_set_def unset_def)
  obtain h' where "c_free (chunks_ptr c) h = Ok h'" "live h' = live h - {chunks_ptr c}"
    using c_free_live [OF ptr] by blast
  then show ?thesis
    using that [of "c\<lparr>chunks_ptr := 0\<rparr>" h'] False c_free_wf [OF wf]
    by (simp add: smMemoryGroupTerminate_def unset_def mg_ok_def)
qed

section \<open>Sequences of calls\<close>

datatype mg_call = Alloc int | Realloc int int | FreeAll | Terminate

fun mg_do :: "grants \<Rightarrow> mg_call \<Rightarrow> smMemoryGroupContext \<Rightarrow> c_heap \<Rightarrow> int mg_run" where
  "mg_do g (Alloc n) = smMemoryGroupAlloc g n"
| "mg_do g (Realloc a n) = smMemoryGroupRealloc g a n"
| "mg_do g FreeAll = smMemoryGroupFreeAll g"
| "mg_do g Terminate = smMemoryGroupTerminate"

text \<open>
  The states a client reaches that does not pass NULL to \<open>smMemoryGroupRealloc\<close> and does not go on
  after the tracking array could not grow.
\<close>

inductive mg_reach :: "grants \<Rightarrow> smMemoryGroupContext \<Rightarrow> c_heap \<Rightarrow> bool" for g where
  start: "arraySize c = 0 \<Longrightarrow> wf_heap h \<Longrightarrow> mg_reach g c h"
| call: "mg_reach g c h \<Longrightarrow> \<forall>n. call \<noteq> Realloc 0 n \<Longrightarrow> mg_do g call c h = Ok (r, c', h') \<Longrightarrow>
    \<not> grow_failed c' \<Longrightarrow> mg_reach g c' h'"

lemma mg_ok_not_failed: "mg_ok c h \<Longrightarrow> \<not> grow_failed c"
  by (auto simp: mg_ok_def grow_failed_def mg_set_def)

lemma mg_do_ok:
  assumes ok: "mg_ok c h" and call: "\<forall>n. call \<noteq> Realloc 0 n"
  shows "\<exists>r c' h'. mg_do g call c h = Ok (r, c', h') \<and> (grow_failed c' \<or> mg_ok c' h')"
proof (cases call)
  case (Alloc n)
  then show ?thesis by (cases rule: Alloc_cases [OF ok, of g n]) auto
next
  case (Realloc a n)
  obtain rc c1 h1 where e: "smMemoryGroupEnsure g c h = Ok (rc, c1, h1)" "mg_ok c1 h1" "rc = 0 \<Longrightarrow> \<not> unset c1"
    using Ensure_ok [OF ok, of g] by blast
  show ?thesis
  proof (cases "rc = 0")
    case True
    with e Realloc call Find_ok [of 0 c1 h1 a g n] show ?thesis by (auto simp: smMemoryGroupRealloc_def)
  qed (use e Realloc in \<open>simp add: smMemoryGroupRealloc_def\<close>)
next
  case FreeAll
  then show ?thesis using FreeAll_frees [OF ok, of g] by fastforce
next
  case Terminate
  then show ?thesis using Terminate_ok [OF ok] by fastforce
qed

lemma mg_reach_ok: "mg_reach g c h \<Longrightarrow> mg_ok c h"
proof (induction rule: mg_reach.induct)
  case (start c h)
  then show ?case by (simp add: mg_ok_def unset_def quantum_def)
next
  case (call c h call r c' h')
  with mg_do_ok [OF call.IH call.hyps(2), of g] show ?case by auto
qed

section \<open>The contract of an allocator of zeroed chunks\<close>

text \<open>
  What the parser relies on: an allocation either gives a chunk of zeros above everything given out
  before and changes no byte below it, or NULL.  \<open>top\<close> is the mark below which addresses are in
  use.
\<close>

locale zeroed_chunks =
  fixes alloc :: "int \<Rightarrow> 's \<Rightarrow> (int \<times> 's) res"
    and inv :: "'s \<Rightarrow> bool"
    and contents :: "'s \<Rightarrow> mem"
    and top :: "'s \<Rightarrow> int"
  assumes alloc_returns: "inv s \<Longrightarrow> \<exists>p s'. alloc n s = Ok (p, s') \<and> top s \<le> top s' \<and> (\<forall>x < top s. contents s' x = contents s x)"
    and alloc_inv: "inv s \<Longrightarrow> alloc n s = Ok (p, s') \<Longrightarrow> p \<noteq> 0 \<Longrightarrow> inv s'"
    and alloc_chunk: "inv s \<Longrightarrow> alloc n s = Ok (p, s') \<Longrightarrow> p \<noteq> 0 \<Longrightarrow> top s \<le> p \<and> p + n < top s' \<and> 0 < p"
    and alloc_zero: "inv s \<Longrightarrow> alloc n s = Ok (p, s') \<Longrightarrow> p \<noteq> 0 \<Longrightarrow> \<forall>x\<in>region p n. contents s' x = 0"
begin

lemma alloc_top:
  assumes "inv s" and "alloc n s = Ok (p, s')"
  shows "top s \<le> top s'" and "\<forall>x < top s. contents s' x = contents s x"
  using alloc_returns [OF assms(1), of n] assms(2) by auto

lemma alloc_keeps_region:
  assumes "inv s" and "alloc n s = Ok (p, s')" and "p \<noteq> 0" and "a + m \<le> top s"
  shows "region a m \<inter> region p n = {}" and "\<forall>x\<in>region a m. contents s' x = contents s x"
  using alloc_chunk [OF assms(1-3)] alloc_top [OF assms(1,2)] assms(4) by (auto simp: region_def)

end

definition group_alloc :: "grants \<Rightarrow> int \<Rightarrow> smMemoryGroupContext \<times> c_heap \<Rightarrow> (int \<times> smMemoryGroupContext \<times> c_heap) res" where
  "group_alloc g n = (\<lambda>(c, h). smMemoryGroupAlloc g n c h)"

interpretation group: zeroed_chunks "group_alloc g" "\<lambda>(c, h). mg_ok c h" "\<lambda>(c, h). bytes h" "\<lambda>(c, h). brk h" for g
proof (unfold_locales, goal_cases)
  case (1 s n)
  obtain c h where s: "s = (c, h)" by (cases s)
  with 1 have "mg_ok c h" by simp
  then show ?case
    by (cases rule: Alloc_cases [of c h g n]) (simp_all add: s group_alloc_def undisturbed_def)
next
  case (2 s n p s')
  obtain c h where s: "s = (c, h)" by (cases s)
  with 2 have ok: "mg_ok c h" by simp
  show ?case using 2 by (cases rule: Alloc_cases [OF ok, of g n]) (auto simp: s group_alloc_def)
next
  case (3 s n p s')
  obtain c h where s: "s = (c, h)" by (cases s)
  with 3 have ok: "mg_ok c h" by simp
  then show ?case
  proof (cases rule: Alloc_cases [of c h g n])
    case (some q c' h')
    with 3 have "q = p" "s' = (c', h')" by (simp_all add: s group_alloc_def)
    with some wf_heapD [OF mg_okD(1) [OF some(3)] some(7)] show ?thesis by (simp add: s)
  qed (use 3 in \<open>auto simp: s group_alloc_def\<close>)
next
  case (4 s n p s')
  obtain c h where s: "s = (c, h)" by (cases s)
  with 4 have ok: "mg_ok c h" by simp
  show ?case using 4 by (cases rule: Alloc_cases [OF ok, of g n]) (auto simp: s group_alloc_def)
qed

section \<open>Properties\<close>

text \<open>
  C14: memory groups keep their invariant.  From a group that is not set up, in every state that a
  sequence of calls reaches, none of which passed NULL to \<open>smMemoryGroupRealloc\<close> or failed to grow the
  tracking array, the tracking array records live and different blocks inside its bounds, and the next call, if it is not \<open>smMemoryGroupRealloc\<close> of NULL, returns
  without reading outside the array, freeing a block twice or freeing what is not a block.
\<close>

theorem memory_group_invariant:
  assumes "mg_reach g c h" and "\<forall>n. call \<noteq> Realloc 0 n"
  shows "mg_ok c h \<and> (\<exists>r c' h'. mg_do g call c h = Ok (r, c', h'))"
  using mg_reach_ok [OF assms(1)] mg_do_ok [OF _ assms(2), of c h g] by blast

definition empty_group :: smMemoryGroupContext where
  "empty_group = \<lparr>arraySize = 0, lastChunk = 0, chunks_ptr = 0, chunks = []\<rparr>"

definition empty_heap :: c_heap where
  "empty_heap = \<lparr>blocks = [], brk = 16, requests = 0, bytes = (\<lambda>_. 7)\<rparr>"

lemma empty_reach: "mg_reach g empty_group empty_heap"
  by (rule mg_reach.start) (simp_all add: empty_group_def empty_heap_def wf_heap_def)

theorem memory_group_invariant_witness:
  "\<exists>r c' h'. mg_do (\<lambda>k n. k < 1) (Alloc 8) empty_group empty_heap = Ok (r, c', h')"
  using memory_group_invariant [OF empty_reach, of "Alloc 8" "\<lambda>k n. k < 1"] by blast

text \<open>
  C15: an allocation gives a fresh chunk of zeros, in every state that calls reach without a failed growth of
  the tracking array and without NULL passed to \<open>smMemoryGroupRealloc\<close>.  The chunk was not live before, has the size
  asked for, is recorded behind the chunks of the group, and no other block and no byte given out
  before changes.
\<close>

theorem group_alloc_fresh:
  assumes "mg_reach g c h" and "smMemoryGroupAlloc g n c h = Ok (p, c', h')" and "p \<noteq> 0"
  shows "p \<notin> live h \<and> (p, n) \<in> set (blocks h') \<and> members c' = members c @ [p] \<and>
    (\<forall>x\<in>region p n. bytes h' x = 0) \<and> live h' - owned c' = live h - owned c \<and>
    (\<forall>x < brk h. bytes h' x = bytes h x)"
  by (cases rule: Alloc_cases [OF mg_reach_ok [OF assms(1)], of g n])
    (use assms(2,3) in \<open>auto simp: undisturbed_def\<close>)

theorem group_alloc_fresh_witness:
  "\<exists>p c' h'. smMemoryGroupAlloc (\<lambda>_ _. True) 8 empty_group empty_heap = Ok (p, c', h') \<and> members c' = [p] \<and>
     bytes h' p = 0"
proof -
  let ?r = "smMemoryGroupAlloc (\<lambda>_ _. True) 8 empty_group empty_heap"
  have "case ?r of Ok (p, c', h') \<Rightarrow> p \<noteq> 0 | _ \<Rightarrow> False" by code_simp
  then obtain p c' h' where r: "?r = Ok (p, c', h')" "p \<noteq> 0" by (auto split: res.splits)
  have "members empty_group = []" by code_simp
  then show ?thesis
    using group_alloc_fresh [OF empty_reach r] r(1) by (auto simp: region_def)
qed

text \<open>
  C16: \<open>smMemoryGroupFreeAll\<close> frees the chunks of the group and nothing else, in every state that calls
  reach without a failed growth of the tracking array and without NULL passed to \<open>smMemoryGroupRealloc\<close>
  (after a failed growth it reads behind the array, see below).  No chunk of the group is live afterwards, every other block stays live and no byte changes; only when the tracking
  array cannot shrink is its old block left behind.
\<close>

theorem free_all_frees_the_group:
  assumes "mg_reach g c h"
  shows "\<exists>c' h'. smMemoryGroupFreeAll g c h = Ok (0, c', h') \<and> members c' = [] \<and>
    live h' \<inter> set (members c) = {} \<and> (\<forall>x < brk h. bytes h' x = bytes h x) \<and>
    live h' - owned c' = live h - owned c \<union> (if \<not> unset c \<and> unset c' then {chunks_ptr c} else {})"
  using FreeAll_frees [OF mg_reach_ok [OF assms], of g] by metis

theorem free_all_frees_the_group_witness:
  "\<exists>p c h c' h'. smMemoryGroupAlloc (\<lambda>_ _. True) 8 empty_group empty_heap = Ok (p, c, h) \<and> p \<in> live h \<and> members c = [p] \<and>
     smMemoryGroupFreeAll (\<lambda>_ _. True) c h = Ok (0, c', h') \<and> members c' = [] \<and> p \<notin> live h'"
proof -
  let ?r = "smMemoryGroupAlloc (\<lambda>_ _. True) 8 empty_group empty_heap"
  have "case ?r of Ok (p, c, h) \<Rightarrow> list_ex (\<lambda>b. fst b = p) (blocks h) \<and> members c = [p] \<and> 
      lastChunk c < int (length (chunks c)) | _ \<Rightarrow> False" by code_simp
  then obtain p c h where r: "?r = Ok (p, c, h)" "p \<in> live h" "members c = [p]" "lastChunk c < int (length (chunks c))"
    by (auto simp: list_ex_iff split: res.splits)
  have "mg_reach (\<lambda>_ _. True) c h"
    by (rule mg_reach.call [OF empty_reach, of "Alloc 8"]) (use r in \<open>simp_all add: grow_failed_def\<close>)
  from free_all_frees_the_group [OF this] r show ?thesis by auto
qed

text \<open>
  After the tracking array could not grow, the group cannot be freed.  \<open>smMemoryGroupAlloc\<close> has
  already moved \<open>lastChunk\<close> and \<open>arraySize\<close> when \<open>realloc\<close> fails, so that \<open>smMemoryGroupFreeAll\<close>
  reads an entry behind the end of the array.
\<close>

theorem failed_growth_breaks_free_all:
  assumes "\<not> unset c" and "arraySize c = int (length (chunks c))" and "lastChunk c + 1 = arraySize c"
    and "chunks_ptr c \<in> live h" and "\<not> g (requests h) ((arraySize c + quantum) * 8)"
  shows "\<exists>c' h'. smMemoryGroupAlloc g n c h = Ok (0, c', h') \<and> smMemoryGroupFreeAll g' c' h' = Fault"
proof -
  let ?c = "c\<lparr>lastChunk := arraySize c, arraySize := arraySize c + quantum\<rparr>"
  have ptr: "chunks_ptr c \<noteq> 0" using assms(1) by (simp add: unset_def)
  have "smMemoryGroupAlloc g n c h = Ok (0, ?c, h\<lparr>requests := Suc (requests h)\<rparr>)"
    using assms ptr
    by (simp add: smMemoryGroupAlloc_def smMemoryGroupEnsure_def smMemoryGroupGrow_def c_realloc_def c_malloc_def Let_def)
  moreover have "\<not> unset ?c" using assms(1) by (simp add: unset_def quantum_def)
  ultimately show ?thesis
    using FreeFrom_past_end [of 0 ?c] assms(2) by (simp add: smMemoryGroupFreeAll_def)
qed

definition full_group :: smMemoryGroupContext where
  "full_group = \<lparr>arraySize = 64, lastChunk = 63, chunks_ptr = 16, chunks = replicate 64 (Some 0)\<rparr>"

theorem failed_growth_breaks_free_all_witness:
  "\<exists>c' h'. smMemoryGroupAlloc (\<lambda>_ _. False) 8 full_group (empty_heap\<lparr>blocks := [(16, 512)], brk := 1000\<rparr>) = Ok (0, c', h') \<and>
     smMemoryGroupFreeAll (\<lambda>_ _. True) c' h' = Fault"
  by (rule failed_growth_breaks_free_all) (simp_all add: full_group_def unset_def quantum_def)

end
