(* ===== verification/Smapi_Request.thy ===== *)
theory Smapi_Request
  imports Zthin_Prelude
begin

text \<open>
  Building a request: every \<^verbatim>\<open>src/vmapi*.c\<close> function computes \<open>inputSize\<close>, allocates a buffer
  of that size and fills it from front to back with the macros of
  \<^verbatim>\<open>include/smapiTableParser.h\<close> and \<open>memcpy\<close>, before it hands the buffer to
  \<open>getAndParseSmapiBuffer\<close>.  A buffer is its size and the bytes written so far; a write behind its
  end is \<open>Fault\<close>, and so is a read behind the end of an argument.  A C string argument is the list
  of the bytes before its NUL; \<open>malloc\<close> is a parameter, true when the allocation succeeds.

  The specification is \<open>request_bytes\<close>: a length word and the fields, one after the other.
\<close>

section \<open>Writing a buffer\<close>

type_synonym put_op = "int \<Rightarrow> byte list \<Rightarrow> byte list res"

definition put_bytes :: "byte list \<Rightarrow> put_op" where
  "put_bytes bs cap out = (if int (length out) + int (length bs) \<le> cap then Ok (out @ bs) else Fault)"

definition PUT_INT :: "int \<Rightarrow> put_op" where
  "PUT_INT v = put_bytes (be_bytes 4 v)"

definition PUT_64INT :: "int \<Rightarrow> put_op" where
  "PUT_64INT v = put_bytes (be_bytes 8 v)"

definition put_char :: "byte \<Rightarrow> put_op" where
  "put_char b = put_bytes [b]"

definition memcpy :: "byte list \<Rightarrow> int \<Rightarrow> put_op" where
  "memcpy src n cap out =
     (if 0 \<le> n \<and> n \<le> int (length src) then put_bytes (take (nat n) src) cap out else Fault)"

definition strlen :: "byte list \<Rightarrow> int" where
  "strlen s = int (length (takeWhile (\<lambda>b. b \<noteq> 0) s))"

definition c_literal :: "string \<Rightarrow> byte list" where
  "c_literal s = map of_char s"

text \<open>The statements that recur in the builders.\<close>

definition put_string :: "byte list \<Rightarrow> put_op" where
  "put_string s cap out =
     (let tempSize = strlen s in
      res_bind (PUT_INT tempSize cap out) (\<lambda>out. memcpy s tempSize cap out))"

definition put_string_opt :: "byte list \<Rightarrow> put_op" where
  "put_string_opt s cap out =
     (let tempSize = strlen s in
      res_bind (PUT_INT tempSize cap out)
        (\<lambda>out. if tempSize > 0 then memcpy s tempSize cap out else Ok out))"

definition put_buffer :: "int \<Rightarrow> byte list \<Rightarrow> put_op" where
  "put_buffer n s cap out = res_bind (PUT_INT n cap out) (\<lambda>out. memcpy s n cap out)"

definition put_buffer_opt :: "int \<Rightarrow> byte list \<Rightarrow> put_op" where
  "put_buffer_opt n s cap out =
     res_bind (PUT_INT n cap out) (\<lambda>out. if n > 0 then memcpy s n cap out else Ok out)"

fun run_puts :: "put_op list \<Rightarrow> put_op" where
  "run_puts [] cap out = Ok out"
| "run_puts (p # ps) cap out = res_bind (p cap out) (run_puts ps cap)"

text \<open>What a builder passes to \<open>getAndParseSmapiBuffer\<close>.\<close>

record smapi_request =
  inputP :: "byte list"
  inputSize :: int
  parser_table :: string

definition smapi_build ::
  "(int \<Rightarrow> bool) \<Rightarrow> int \<Rightarrow> put_op list \<Rightarrow> string \<Rightarrow> smapi_request res" where
  "smapi_build malloc n ops table =
     (if \<not> malloc n then Err MEMORY_ERROR
      else res_bind (run_puts ops n [])
        (\<lambda>out. Ok \<lparr>inputP = out, inputSize = n, parser_table = table\<rparr>))"

section \<open>The request on the wire\<close>

datatype wire_field = Counted "byte list" | Raw byte | Int4 int | Int8 int

fun encode_field :: "wire_field \<Rightarrow> byte list" where
  "encode_field (Counted bs) = be_bytes 4 (int (length bs)) @ bs"
| "encode_field (Raw b) = [b]"
| "encode_field (Int4 v) = be_bytes 4 v"
| "encode_field (Int8 v) = be_bytes 8 v"

definition encode_fields :: "wire_field list \<Rightarrow> byte list" where
  "encode_fields fs = concat (map encode_field fs)"

definition request_bytes :: "wire_field list \<Rightarrow> byte list" where
  "request_bytes fs = be_bytes 4 (int (length (encode_fields fs))) @ encode_fields fs"

definition wire_request :: "string \<Rightarrow> wire_field list \<Rightarrow> smapi_request" where
  "wire_request table fs =
     \<lparr>inputP = request_bytes fs, inputSize = int (length (request_bytes fs)), parser_table = table\<rparr>"

definition c_string :: "byte list \<Rightarrow> byte list" where
  "c_string s = takeWhile (\<lambda>b. b \<noteq> 0) s"

named_theorems put_rules \<open>the field that a statement of a builder writes\<close>

lemma strlen_eq: "strlen s = int (length (c_string s))"
  by (simp add: strlen_def c_string_def)

lemma strlen_nonneg [simp]: "0 \<le> strlen s"
  by (simp add: strlen_def)

lemma put_bytes_append:
  "res_bind (put_bytes bs cap out) (put_bytes cs cap) = put_bytes (bs @ cs) cap out"
  by (auto simp: put_bytes_def)

lemma memcpy_string: "memcpy s (strlen s) = put_bytes (c_string s)"
proof -
  have "take (length (c_string s)) s = c_string s"
    unfolding c_string_def by (rule takeWhile_eq_take [symmetric])
  moreover have "length (c_string s) \<le> length s"
    by (simp add: c_string_def length_takeWhile_le)
  ultimately show ?thesis
    by (intro ext) (simp add: memcpy_def strlen_eq)
qed

lemma put_string_field [put_rules]: "put_string s = put_bytes (encode_field (Counted (c_string s)))"
  by (intro ext)
    (simp add: put_string_def PUT_INT_def memcpy_string put_bytes_append strlen_eq [symmetric]
      del: be_bytes.simps)

lemma put_string_opt_field [put_rules]:
  "put_string_opt s = put_bytes (encode_field (Counted (c_string s)))"
proof (intro ext)
  fix cap out
  show "put_string_opt s cap out = put_bytes (encode_field (Counted (c_string s))) cap out"
  proof (cases "strlen s > 0")
    case True
    then show ?thesis
      by (simp add: put_string_opt_def PUT_INT_def memcpy_string put_bytes_append strlen_eq [symmetric]
          del: be_bytes.simps)
  next
    case False
    then have "c_string s = []" by (simp add: strlen_eq)
    with False show ?thesis
      by (simp add: put_string_opt_def PUT_INT_def strlen_eq del: be_bytes.simps)
  qed
qed

text \<open>A buffer argument comes with its length.\<close>

definition buffer_arg :: "int \<Rightarrow> byte list \<Rightarrow> bool" where
  "buffer_arg n s \<longleftrightarrow> 0 \<le> n \<and> n \<le> int (length s)"

lemma put_buffer_field [put_rules]:
  "buffer_arg n s \<Longrightarrow> put_buffer n s = put_bytes (encode_field (Counted (take (nat n) s)))"
  by (intro ext) (auto simp: put_buffer_def PUT_INT_def memcpy_def buffer_arg_def put_bytes_append
      simp del: be_bytes.simps cong: res_bind_cong)

lemma put_buffer_opt_field [put_rules]:
  assumes "buffer_arg n s"
  shows "put_buffer_opt n s = put_bytes (encode_field (Counted (take (nat n) s)))"
proof (cases "n > 0")
  case True
  then have "put_buffer_opt n s = put_buffer n s" by (intro ext) (simp add: put_buffer_opt_def put_buffer_def)
  with put_buffer_field [OF assms] show ?thesis by simp
next
  case False
  with assms have "n = 0" by (simp add: buffer_arg_def)
  then show ?thesis
    by (intro ext) (simp add: put_buffer_opt_def PUT_INT_def del: be_bytes.simps)
qed

lemma put_scalar_field [put_rules]:
  "put_char b = put_bytes (encode_field (Raw b))"
  "PUT_INT v = put_bytes (encode_field (Int4 v))"
  "PUT_64INT v = put_bytes (encode_field (Int8 v))"
  by (simp_all add: put_char_def PUT_INT_def PUT_64INT_def del: be_bytes.simps)

section \<open>A builder and its request\<close>

definition put_field :: "wire_field \<Rightarrow> put_op" where
  "put_field f = put_bytes (encode_field f)"

lemmas put_fields = put_rules [folded put_field_def]

definition fields_size :: "wire_field list \<Rightarrow> int" where
  "fields_size fs = int (length (encode_fields fs))"

lemma fields_size_simps [simp]:
  "fields_size [] = 0"
  "fields_size (Counted bs # fs) = 4 + int (length bs) + fields_size fs"
  "fields_size (Raw b # fs) = 1 + fields_size fs"
  "fields_size (Int4 v # fs) = 4 + fields_size fs"
  "fields_size (Int8 v # fs) = 8 + fields_size fs"
  by (simp_all add: fields_size_def encode_fields_def del: be_bytes.simps)

lemma fields_size_nonneg: "0 \<le> fields_size fs"
  by (simp add: fields_size_def)

lemma length_request_bytes: "int (length (request_bytes fs)) = 4 + fields_size fs"
  by (simp add: request_bytes_def fields_size_def del: be_bytes.simps)

lemma run_puts_fields: "run_puts (map put_field fs) cap out = put_bytes (encode_fields fs) cap out"
  if "int (length out) \<le> cap"
  using that
proof (induction fs arbitrary: out)
  case Nil
  then show ?case by (simp add: encode_fields_def put_bytes_def)
next
  case (Cons f fs)
  show ?case
  proof (cases "int (length out) + int (length (encode_field f)) \<le> cap")
    case True
    with Cons.IH [of "out @ encode_field f"] show ?thesis
      by (simp add: put_field_def put_bytes_def encode_fields_def)
  next
    case False
    then show ?thesis by (simp add: put_field_def put_bytes_def encode_fields_def)
  qed
qed

text \<open>
  The shape of every builder: the buffer has the size of the request, and the statements write
  the length word and then the fields.
\<close>

lemma smapi_build_fields:
  assumes "4 + fields_size fs < 2 ^ 31"
  shows "smapi_build malloc (c_int (4 + fields_size fs))
      (PUT_INT (c_int (4 + fields_size fs) - 4) # map put_field fs) table =
    (if malloc (4 + fields_size fs) then Ok (wire_request table fs) else Err MEMORY_ERROR)"
proof -
  have n: "c_int (4 + fields_size fs) = 4 + fields_size fs"
    using assms fields_size_nonneg [of fs] by (simp add: c_int_id)
  have "run_puts (PUT_INT (4 + fields_size fs - 4) # map put_field fs) (4 + fields_size fs) [] =
      Ok (request_bytes fs)"
    using fields_size_nonneg [of fs]
    by (simp add: PUT_INT_def put_bytes_def run_puts_fields request_bytes_def fields_size_def
        del: be_bytes.simps)
  then show ?thesis
    unfolding n by (simp add: smapi_build_def wire_request_def length_request_bytes)
qed

section \<open>Arguments of a builder\<close>

datatype smapi_arg = Str "byte list" | Buf int "byte list" | Chr byte | Num int | Num64 int

datatype arg_kind = KStr | KBuf | KChr | KNum | KNum64

fun arg_field :: "smapi_arg \<Rightarrow> wire_field" where
  "arg_field (Str s) = Counted (c_string s)"
| "arg_field (Buf n s) = Counted (take (nat n) s)"
| "arg_field (Chr b) = Raw b"
| "arg_field (Num v) = Int4 v"
| "arg_field (Num64 v) = Int8 v"

fun arg_ok :: "arg_kind \<Rightarrow> smapi_arg \<Rightarrow> bool" where
  "arg_ok KStr (Str s) = True"
| "arg_ok KBuf (Buf n s) = buffer_arg n s"
| "arg_ok KChr (Chr b) = True"
| "arg_ok KNum (Num v) = True"
| "arg_ok KNum64 (Num64 v) = True"
| "arg_ok k a = False"

fun arg_bytes :: "smapi_arg \<Rightarrow> byte list" where
  "arg_bytes (Str s) = s" | "arg_bytes (Buf n s) = s" | "arg_bytes _ = []"

fun arg_num :: "smapi_arg \<Rightarrow> int" where
  "arg_num (Buf n s) = n" | "arg_num (Num v) = v" | "arg_num (Num64 v) = v" | "arg_num _ = 0"

fun arg_chr :: "smapi_arg \<Rightarrow> byte" where
  "arg_chr (Chr b) = b" | "arg_chr _ = 0"

text \<open>An API: its name, the kinds of its arguments, its parser table and its builder.\<close>

record smapi_api =
  api_name :: string
  api_kinds :: "arg_kind list"
  api_table :: string
  api_build :: "(int \<Rightarrow> bool) \<Rightarrow> smapi_arg list \<Rightarrow> smapi_request res"

definition api_fields :: "smapi_api \<Rightarrow> smapi_arg list \<Rightarrow> wire_field list" where
  "api_fields api args = Counted (c_literal (api_name api)) # map arg_field args"

definition api_args_ok :: "smapi_api \<Rightarrow> smapi_arg list \<Rightarrow> bool" where
  "api_args_ok api args \<longleftrightarrow> list_all2 arg_ok (api_kinds api) args \<and>
     4 + fields_size (api_fields api args) < 2 ^ 31"

definition api_ok :: "smapi_api \<Rightarrow> bool" where
  "api_ok api \<longleftrightarrow> (\<forall>malloc args. api_args_ok api args \<longrightarrow>
     api_build api malloc args =
       (if malloc (4 + fields_size (api_fields api args))
        then Ok (wire_request (api_table api) (api_fields api args)) else Err MEMORY_ERROR))"

lemma api_okI:
  assumes "\<And>malloc args. list_all2 arg_ok (api_kinds api) args \<Longrightarrow>
    api_build api malloc args = smapi_build malloc (c_int (4 + fields_size (api_fields api args)))
      (PUT_INT (c_int (4 + fields_size (api_fields api args)) - 4) # map put_field (api_fields api args))
      (api_table api)"
  shows "api_ok api"
  using assms smapi_build_fields by (auto simp: api_ok_def api_args_ok_def)

lemma arg_ok_iff:
  "arg_ok KStr a \<longleftrightarrow> (\<exists>s. a = Str s)" "arg_ok KBuf a \<longleftrightarrow> (\<exists>n s. a = Buf n s \<and> buffer_arg n s)"
  "arg_ok KChr a \<longleftrightarrow> (\<exists>b. a = Chr b)" "arg_ok KNum a \<longleftrightarrow> (\<exists>v. a = Num v)"
  "arg_ok KNum64 a \<longleftrightarrow> (\<exists>v. a = Num64 v)"
  by (cases a; simp)+

lemma of_char_word_eq_0: "(of_char c :: byte) = 0 \<longleftrightarrow> c = CHR 0x00"
proof
  assume "(of_char c :: byte) = 0"
  then have "(of_nat (of_char c) :: byte) = 0" by (simp only: of_nat_of_char)
  then have "(256::nat) dvd of_char c" by (simp add: word_of_nat_eq_0_iff)
  then have "(of_char c :: nat) = 0"
    using nat_dvd_not_less nat_of_char_less_256 [of c] by blast
  then have "(of_char c :: nat) = of_char (CHR 0x00)" by simp
  then show "c = CHR 0x00" by (rule of_char_eqI)
qed simp

lemma c_literal_string:
  assumes "list_all (\<lambda>c. c \<noteq> CHR 0x00) s" shows "c_string (c_literal s) = c_literal s"
  unfolding c_string_def c_literal_def
  by (rule takeWhile_eq_all_conv [THEN iffD2]) (use assms in \<open>auto simp: list_all_iff of_char_word_eq_0\<close>)

lemma buffer_arg_length:
  "buffer_arg n s \<Longrightarrow> int (min (length s) (nat n)) = n"
  by (auto simp: buffer_arg_def min_def)

named_theorems api_rules \<open>builders that write their arguments\<close>

lemmas api_proof =
  api_fields_def list_all2_Cons1 arg_ok_iff put_fields c_literal_string buffer_arg_length
  strlen_eq Let_def add_ac

end
