(* ===== verification/Smapi_Table.thy ===== *)
theory Smapi_Table
  imports Zthin_Prelude
begin

text \<open>
  The parser tables of \<^verbatim>\<open>include/smapiTableParser.h\<close>: the row types (\<open>apitype\<close>), the six
  columns of a row, the parser modes and return codes, and the part of the context the parser
  reads.  A table is a list of rows; reading a row that the table does not have is \<open>Fault\<close>.
  The C layout functions compute \<open>offsetof\<close> and \<open>sizeof\<close> for the LP64 ABI of s390x Linux, so
  the layouts of the API headers can be written as the headers write them.
\<close>

section \<open>Row types, rows and modes\<close>

datatype apitype =
    APITYPE_END_OF_TABLE
  | APITYPE_INT1
  | APITYPE_INT4
  | APITYPE_INT8
  | APITYPE_RC_INT4
  | APITYPE_RS_INT4
  | APITYPE_STRING_LEN
  | APITYPE_ARRAY_LEN
  | APITYPE_ARRAY_COUNT
  | APITYPE_ARRAY_LEN_C_STR
  | APITYPE_ARRAY_STRUCT_COUNT
  | APITYPE_STRUCT_LEN
  | APITYPE_NOBUFFER_STRUCT_LEN
  | APITYPE_CHARBUF_LEN
  | APITYPE_CHARBUF_COUNT
  | APITYPE_C_STR_ARRAY_PTR
  | APITYPE_C_STR_ARRAY_COUNT
  | APITYPE_C_STR_STRUCT_LEN
  | APITYPE_C_STR_PTR
  | APITYPE_FIXED_STR_PTR
  | APITYPE_ARRAY_NULL_TERMINATED
  | APITYPE_ARRAY_NO_LENGTH
  | APITYPE_ERROR_BUFF_LEN
  | APITYPE_ERROR_BUFF_PTR
  | APITYPE_BASE_STRUCT_LEN

record table_row =
  col_type :: apitype
  col_minsize :: int
  col_maxsize :: int
  col_struct_index :: int
  col_nest_level :: int
  col_size_or_offset :: int

type_synonym tableLayout = "table_row list"

abbreviation (input) APITYPE_CHARBUF_PTR :: apitype where
  "APITYPE_CHARBUF_PTR \<equiv> APITYPE_CHARBUF_LEN"

definition mk_row :: "apitype \<Rightarrow> int \<Rightarrow> int \<Rightarrow> int \<Rightarrow> int \<Rightarrow> int \<Rightarrow> table_row" where
  "mk_row t mn mx si nl so =
     \<lparr>col_type = t, col_minsize = mn, col_maxsize = mx, col_struct_index = si,
      col_nest_level = nl, col_size_or_offset = so\<rparr>"

lemma mk_row_sel [simp]:
  "col_type (mk_row t mn mx si nl so) = t"
  "col_minsize (mk_row t mn mx si nl so) = mn"
  "col_maxsize (mk_row t mn mx si nl so) = mx"
  "col_struct_index (mk_row t mn mx si nl so) = si"
  "col_nest_level (mk_row t mn mx si nl so) = nl"
  "col_size_or_offset (mk_row t mn mx si nl so) = so"
  by (simp_all add: mk_row_def)

datatype tableParserModes = scan | populate

definition MAX_STRUCT_ARRAYS :: int where "MAX_STRUCT_ARRAYS = 10"
definition PARSER_ERROR_INVALID_TABLE :: int where "PARSER_ERROR_INVALID_TABLE = -4002"
definition PARSER_ERROR_INVALID_STRING_SIZE :: int where
  "PARSER_ERROR_INVALID_STRING_SIZE = -4003"
definition ERROR_OUTPUT_BUFFER_NOT_AVAILABLE :: int where
  "ERROR_OUTPUT_BUFFER_NOT_AVAILABLE = 0"
definition ERROR_OUTPUT_BUFFER_POSSIBLE_NO_LENGTH_FIELD :: int where
  "ERROR_OUTPUT_BUFFER_POSSIBLE_NO_LENGTH_FIELD = 1"
definition ERROR_OUTPUT_BUFFER_POSSIBLE_WITH_LENGTH_FIELD :: int where
  "ERROR_OUTPUT_BUFFER_POSSIBLE_WITH_LENGTH_FIELD = 2"

lemmas parser_codes =
  PARSER_ERROR_INVALID_TABLE_def PARSER_ERROR_INVALID_STRING_SIZE_def
  ERROR_OUTPUT_BUFFER_NOT_AVAILABLE_def ERROR_OUTPUT_BUFFER_POSSIBLE_NO_LENGTH_FIELD_def
  ERROR_OUTPUT_BUFFER_POSSIBLE_WITH_LENGTH_FIELD_def

text \<open>The fields of \<open>vmApiInternalContext\<close> that the parser consults.\<close>

record parser_context =
  smapiReturnCode :: int
  smapiErrorBufferPossible :: int

definition table_at :: "tableLayout \<Rightarrow> int \<Rightarrow> table_row res" where
  "table_at table i = (if 0 \<le> i \<and> i < int (length table) then Ok (table ! nat i) else Fault)"

lemma table_at_Ok [simp]:
  "table_at table i = Ok r \<longleftrightarrow> 0 \<le> i \<and> i < int (length table) \<and> r = table ! nat i"
  by (auto simp: table_at_def)

lemma table_at_cases: "table_at table i = Fault \<or> (\<exists>r. table_at table i = Ok r)"
  by (auto simp: table_at_def)

section \<open>C structure layout\<close>

datatype ctype = CChar | CInt | CLongLong | CPtr | CStruct "ctype list"

fun ctype_align :: "ctype \<Rightarrow> int" and ctypes_align :: "ctype list \<Rightarrow> int" where
  "ctype_align CChar = 1"
| "ctype_align CInt = 4"
| "ctype_align CLongLong = 8"
| "ctype_align CPtr = 8"
| "ctype_align (CStruct ts) = ctypes_align ts"
| "ctypes_align [] = 1"
| "ctypes_align (t # ts) = max (ctype_align t) (ctypes_align ts)"

definition round_up :: "int \<Rightarrow> int \<Rightarrow> int" where
  "round_up n a = (n + a - 1) div a * a"

fun ctype_size :: "ctype \<Rightarrow> int" and fields_end :: "int \<Rightarrow> ctype list \<Rightarrow> int" where
  "ctype_size CChar = 1"
| "ctype_size CInt = 4"
| "ctype_size CLongLong = 8"
| "ctype_size CPtr = 8"
| "ctype_size (CStruct ts) = round_up (fields_end 0 ts) (ctypes_align ts)"
| "fields_end at [] = at"
| "fields_end at (t # ts) = fields_end (round_up at (ctype_align t) + ctype_size t) ts"

definition c_offsetof :: "ctype list \<Rightarrow> nat \<Rightarrow> int" where
  "c_offsetof ts k = round_up (fields_end 0 (take k ts)) (ctype_align (ts ! k))"

definition c_sizeof :: "ctype list \<Rightarrow> int" where
  "c_sizeof ts = ctype_size (CStruct ts)"

definition commonOutputFields :: "ctype list" where
  "commonOutputFields = [CInt, CInt, CInt]"

end
