(* ===== verification/Smapi_Parser.thy ===== *)
theory Smapi_Parser
  imports Smapi_Table
begin

text \<open>
  The table parser of \<^verbatim>\<open>src/smapiTableParser.c\<close>: \<open>parseBufferWithTable\<close> and its three array
  handlers, in both modes.  The response buffer is the list \<open>data\<close>; \<open>smapiBufferCursor\<close> is an
  offset into it.  The structures and strings that \<open>populate\<close> fills are bytes of \<open>heap\<close>, at the
  addresses in \<open>inStructAddrs\<close> and \<open>inStringCursor\<close>.  Reading the buffer outside its bounds and
  moving the cursor past its end are \<open>Fault\<close>; an error return of the C code is \<open>Err rc\<close> (every one
  of them is preceded by a call of \<open>errorLog\<close> with RcRuntime and RsUnexpected).  Trace output is
  left out.  The array loops take fuel, since some of them need not end.
\<close>

section \<open>State and primitive accesses\<close>

record parser_state =
  cursor :: int
  dataBufferSize :: int
  byteCount :: int
  outStringByteCount :: int
  outStructCount :: "int \<Rightarrow> int"
  outStructSizes :: "int \<Rightarrow> int"
  inStructAddrs :: "int \<Rightarrow> int"
  inStringCursor :: int
  heap :: mem

definition adv :: "byte list \<Rightarrow> int \<Rightarrow> parser_state \<Rightarrow> parser_state res" where
  "adv data n s =
     (if 0 \<le> cursor s + n \<and> cursor s + n \<le> int (length data)
      then Ok (s\<lparr>cursor := cursor s + n\<rparr>) else Fault)"

definition GET_INT :: "byte list \<Rightarrow> parser_state \<Rightarrow> (int \<times> parser_state) res" where
  "GET_INT data s = res_bind (buf_read data (cursor s) 4)
     (\<lambda>bs. Ok (get_int 4 bs, s\<lparr>cursor := cursor s + 4\<rparr>))"

definition GET_64INT :: "byte list \<Rightarrow> parser_state \<Rightarrow> (int \<times> parser_state) res" where
  "GET_64INT data s = res_bind (buf_read data (cursor s) 8)
     (\<lambda>bs. Ok (get_int 8 bs, s\<lparr>cursor := cursor s + 8\<rparr>))"

definition poke :: "int \<Rightarrow> byte list \<Rightarrow> parser_state \<Rightarrow> parser_state" where
  "poke a bs s = s\<lparr>heap := mem_write (heap s) a bs\<rparr>"

abbreviation poke_int :: "int \<Rightarrow> int \<Rightarrow> parser_state \<Rightarrow> parser_state" where
  "poke_int a v \<equiv> poke a (be_bytes 4 v)"

abbreviation poke_ptr :: "int \<Rightarrow> int \<Rightarrow> parser_state \<Rightarrow> parser_state" where
  "poke_ptr a p \<equiv> poke a (be_bytes 8 p)"

definition peek_int :: "int \<Rightarrow> parser_state \<Rightarrow> int" where
  "peek_int a s = get_int 4 (mem_read (heap s) a 4)"

definition peek_ptr :: "int \<Rightarrow> parser_state \<Rightarrow> int" where
  "peek_ptr a s = be_val (mem_read (heap s) a 8)"

text \<open>An index into one of the \<open>MAX_STRUCT_ARRAYS\<close> element arrays of the parameters.\<close>

definition slot :: "int \<Rightarrow> int res" where
  "slot k = (if 0 \<le> k \<and> k < MAX_STRUCT_ARRAYS then Ok k else Fault)"

section \<open>Fields of a structure in an array: the switch of \<open>handleArrays\<close>\<close>

text \<open>
  Each field function returns the table index it stops at, the bytes to add to
  \<open>structByteCount\<close> and the new state.
\<close>

type_synonym field_result = "(int \<times> int \<times> parser_state) res"

definition handleArrays_int ::
  "byte list \<Rightarrow> tableParserModes \<Rightarrow> int \<Rightarrow> table_row \<Rightarrow> int \<Rightarrow> parser_state \<Rightarrow> field_result" where
  "handleArrays_int data mode idx r this s =
     (let off = this + col_size_or_offset r in
      case col_type r of
        APITYPE_INT1 \<Rightarrow>
          res_bind (if mode = populate
                    then res_bind (buf_read data (cursor s) 1) (\<lambda>bs. Ok (poke off bs s))
                    else Ok s)
            (\<lambda>s. res_bind (adv data 1 s) (\<lambda>s. Ok (idx, 1, s)))
      | APITYPE_INT4 \<Rightarrow>
          res_bind (if mode = populate
                    then res_bind (GET_INT data s) (\<lambda>(v, s). Ok (poke_int off v s))
                    else adv data 4 s)
            (\<lambda>s. Ok (idx, 4, s))
      | APITYPE_INT8 \<Rightarrow>
          res_bind (if mode = populate
                    then res_bind (GET_64INT data s) (\<lambda>(v, s). Ok (poke off (be_bytes 8 v) s))
                    else adv data 8 s)
            (\<lambda>s. Ok (idx, 8, s))
      | _ \<Rightarrow> Err PARSER_ERROR_INVALID_TABLE)"

definition handleArrays_fixed ::
  "byte list \<Rightarrow> tableParserModes \<Rightarrow> int \<Rightarrow> table_row \<Rightarrow> int \<Rightarrow> parser_state \<Rightarrow> field_result" where
  "handleArrays_fixed data mode idx r this s =
     (let n = col_maxsize r; s = s\<lparr>byteCount := byteCount s + n\<rparr> in
      res_bind (if mode = scan
                then Ok (s\<lparr>outStringByteCount := outStringByteCount s + (n + 1)\<rparr>)
                else res_bind (buf_read data (cursor s) n)
                  (\<lambda>bs. let sc = inStringCursor s;
                            s = poke_ptr (this + col_size_or_offset r) sc s;
                            s = poke sc bs s;
                            s = poke (sc + n) [0] s
                        in Ok (s\<lparr>inStringCursor := sc + n + 1\<rparr>)))
        (\<lambda>s. res_bind (adv data n s) (\<lambda>s. Ok (idx, n, s))))"

definition handleArrays_string_len ::
  "byte list \<Rightarrow> table_row \<Rightarrow> parser_state \<Rightarrow> (int \<times> int \<times> parser_state) res" where
  "handleArrays_string_len data r s =
     (if col_type r = APITYPE_C_STR_PTR
      then res_bind (c_strlen data (cursor s)) (\<lambda>temp. Ok (temp, 0, s))
      else res_bind (GET_INT data s) (\<lambda>(temp, s). Ok (temp, 4, s)))"

definition handleArrays_string_store ::
  "byte list \<Rightarrow> tableLayout \<Rightarrow> int \<Rightarrow> table_row \<Rightarrow> int \<Rightarrow> int \<Rightarrow> parser_state
     \<Rightarrow> (int \<times> parser_state) res" where
  "handleArrays_string_store data table idx r this temp s =
     (if temp > 0 then
        (let sc = inStringCursor s; s = poke_ptr (this + col_size_or_offset r) sc s in
         if col_type r = APITYPE_C_STR_PTR then
           res_bind (buf_read data (cursor s) (temp + 1))
             (\<lambda>bs. Ok (idx, (poke sc bs s)\<lparr>inStringCursor := sc + (temp + 1)\<rparr>))
         else
           res_bind (buf_read data (cursor s) temp) (\<lambda>bs.
             let s = poke sc bs s in
             if col_type r = APITYPE_STRING_LEN
             then Ok (idx, (poke (sc + temp) [0] s)\<lparr>inStringCursor := sc + temp + 1\<rparr>)
             else res_bind (table_at table (idx + 1)) (\<lambda>rc.
               Ok (idx + 1, (poke_int (this + col_size_or_offset rc) temp s)
                              \<lparr>inStringCursor := sc + temp\<rparr>))))
      else Ok (idx, poke_ptr (this + col_size_or_offset r) 0 s))"

definition handleArrays_string ::
  "byte list \<Rightarrow> tableParserModes \<Rightarrow> tableLayout \<Rightarrow> int \<Rightarrow> table_row \<Rightarrow> int \<Rightarrow> parser_state
     \<Rightarrow> field_result" where
  "handleArrays_string data mode table idx r this s =
     res_bind (handleArrays_string_len data r s) (\<lambda>(temp, n, s).
       if temp < col_minsize r then Err PARSER_ERROR_INVALID_STRING_SIZE
       else if col_maxsize r \<noteq> -1 \<and> temp > col_maxsize r
       then Err PARSER_ERROR_INVALID_STRING_SIZE
       else
         res_bind
           (if mode = scan then
              (let s = (if temp > 0
                        then s\<lparr>outStringByteCount := outStringByteCount s + (temp + 1)\<rparr> else s)
               in Ok (if col_type r = APITYPE_CHARBUF_LEN then idx + 1 else idx, s))
            else handleArrays_string_store data table idx r this temp s)
           (\<lambda>(idx, s).
              let temp = (if col_type r = APITYPE_C_STR_PTR then temp + 1 else temp)
              in res_bind (adv data temp s) (\<lambda>s. Ok (idx, n + temp, s))))"

definition handleArrays_field ::
  "byte list \<Rightarrow> tableParserModes \<Rightarrow> tableLayout \<Rightarrow> int \<Rightarrow> table_row \<Rightarrow> int \<Rightarrow> parser_state
     \<Rightarrow> field_result" where
  "handleArrays_field data mode table idx r this s =
     (case col_type r of
        APITYPE_INT1 \<Rightarrow> handleArrays_int data mode idx r this s
      | APITYPE_INT4 \<Rightarrow> handleArrays_int data mode idx r this s
      | APITYPE_INT8 \<Rightarrow> handleArrays_int data mode idx r this s
      | APITYPE_FIXED_STR_PTR \<Rightarrow> handleArrays_fixed data mode idx r this s
      | APITYPE_STRING_LEN \<Rightarrow> handleArrays_string data mode table idx r this s
      | APITYPE_CHARBUF_LEN \<Rightarrow> handleArrays_string data mode table idx r this s
      | APITYPE_C_STR_PTR \<Rightarrow> handleArrays_string data mode table idx r this s
      | _ \<Rightarrow> Err PARSER_ERROR_INVALID_TABLE)"

text \<open>One more structure of the array: counted in scan mode, carved out in populate mode.\<close>

definition handleArrays_enter ::
  "tableParserModes \<Rightarrow> table_row \<Rightarrow> int \<Rightarrow> int \<Rightarrow> int \<Rightarrow> int \<Rightarrow> int \<Rightarrow> parser_state
     \<Rightarrow> (int \<times> parser_state) res" where
  "handleArrays_enter mode r structIndex outStructSize arrayPointerOffset structCounterField
       previousStruct s =
     res_bind (slot structIndex) (\<lambda>k.
       if mode = scan then
         (let s = s\<lparr>outStructCount := slot_upd (outStructCount s) k (outStructCount s k + 1)\<rparr>;
              s = (if outStructSizes s k = 0
                   then s\<lparr>outStructSizes := slot_upd (outStructSizes s) k (col_size_or_offset r)\<rparr>
                   else s)
          in Ok (0, s))
       else
         (let this = inStructAddrs s k;
              s = s\<lparr>inStructAddrs := slot_upd (inStructAddrs s) k (this + outStructSize)\<rparr>;
              s = (if peek_ptr (previousStruct + arrayPointerOffset) s = 0
                   then poke_ptr (previousStruct + arrayPointerOffset) this s else s);
              s = (if structCounterField \<noteq> 0
                   then poke_int (previousStruct + structCounterField)
                          (1 + peek_int (previousStruct + structCounterField) s) s
                   else s)
          in Ok (this, s)))"

section \<open>The same switch in \<open>handleCountedArrays\<close>\<close>

definition handleCountedArrays_int ::
  "byte list \<Rightarrow> tableParserModes \<Rightarrow> int \<Rightarrow> table_row \<Rightarrow> int \<Rightarrow> parser_state \<Rightarrow> field_result" where
  "handleCountedArrays_int data mode idx r this s =
     (let off = this + col_size_or_offset r in
      case col_type r of
        APITYPE_INT1 \<Rightarrow>
          res_bind (if mode = populate
                    then res_bind (buf_read data (cursor s) 1) (\<lambda>bs. Ok (poke off bs s))
                    else Ok s)
            (\<lambda>s. res_bind (adv data 1 s) (\<lambda>s. Ok (idx, 1, s)))
      | APITYPE_INT4 \<Rightarrow>
          res_bind (if mode = populate
                    then res_bind (GET_INT data s) (\<lambda>(v, s). Ok (poke_int off v s))
                    else adv data 4 s)
            (\<lambda>s. Ok (idx, 4, s))
      | APITYPE_INT8 \<Rightarrow>
          res_bind (if mode = populate
                    then res_bind (GET_64INT data s) (\<lambda>(v, s). Ok (poke off (be_bytes 8 v) s))
                    else adv data 8 s)
            (\<lambda>s. Ok (idx, 8, s))
      | _ \<Rightarrow> Err PARSER_ERROR_INVALID_TABLE)"

definition handleCountedArrays_fixed ::
  "byte list \<Rightarrow> tableParserModes \<Rightarrow> int \<Rightarrow> table_row \<Rightarrow> int \<Rightarrow> parser_state \<Rightarrow> field_result" where
  "handleCountedArrays_fixed data mode idx r this s =
     (let n = col_maxsize r; s = s\<lparr>byteCount := byteCount s + n\<rparr> in
      res_bind (if mode = scan
                then Ok (s\<lparr>outStringByteCount := outStringByteCount s + (n + 1)\<rparr>)
                else
                  (let sc = inStringCursor s;
                       s = poke_ptr (this + col_size_or_offset r) sc s
                   in res_bind (buf_read data (cursor s) n)
                        (\<lambda>bs. Ok ((poke (sc + n) [0] (poke sc bs s))\<lparr>inStringCursor := sc + n + 1\<rparr>))))
        (\<lambda>s. res_bind (adv data n s) (\<lambda>s. Ok (idx, n, s))))"

definition handleCountedArrays_string ::
  "byte list \<Rightarrow> tableParserModes \<Rightarrow> tableLayout \<Rightarrow> int \<Rightarrow> table_row \<Rightarrow> int \<Rightarrow> parser_state
     \<Rightarrow> field_result" where
  "handleCountedArrays_string data mode table idx r this s =
     res_bind
       (if col_type r = APITYPE_C_STR_PTR
        then res_bind (c_strlen data (cursor s)) (\<lambda>temp. Ok (temp, 0, s))
        else res_bind (GET_INT data s) (\<lambda>(temp, s). Ok (temp, 4, s)))
       (\<lambda>(temp, n, s).
         if temp < col_minsize r then Err PARSER_ERROR_INVALID_STRING_SIZE
         else if - 1 \<noteq> col_maxsize r \<and> temp > col_maxsize r
         then Err PARSER_ERROR_INVALID_STRING_SIZE
         else
           res_bind
             (if mode = scan then
                Ok (if col_type r = APITYPE_CHARBUF_LEN then idx + 1 else idx,
                    if temp > 0
                    then s\<lparr>outStringByteCount := outStringByteCount s + (temp + 1)\<rparr> else s)
              else if temp > 0 then
                (let sc = inStringCursor s; s = poke_ptr (this + col_size_or_offset r) sc s in
                 if col_type r = APITYPE_C_STR_PTR then
                   res_bind (buf_read data (cursor s) (temp + 1))
                     (\<lambda>bs. Ok (idx, (poke sc bs s)\<lparr>inStringCursor := sc + (temp + 1)\<rparr>))
                 else
                   res_bind (buf_read data (cursor s) temp) (\<lambda>bs.
                     if col_type r = APITYPE_STRING_LEN
                     then Ok (idx, (poke (sc + temp) [0] (poke sc bs s))
                                     \<lparr>inStringCursor := sc + temp + 1\<rparr>)
                     else res_bind (table_at table (idx + 1)) (\<lambda>rc.
                       Ok (idx + 1, (poke_int (this + col_size_or_offset rc) temp (poke sc bs s))
                                      \<lparr>inStringCursor := sc + temp\<rparr>))))
              else Ok (idx, poke_ptr (this + col_size_or_offset r) 0 s))
             (\<lambda>(idx, s).
                let temp = (if col_type r = APITYPE_C_STR_PTR then temp + 1 else temp)
                in res_bind (adv data temp s) (\<lambda>s. Ok (idx, n + temp, s))))"

definition handleCountedArrays_field ::
  "byte list \<Rightarrow> tableParserModes \<Rightarrow> tableLayout \<Rightarrow> int \<Rightarrow> table_row \<Rightarrow> int \<Rightarrow> parser_state
     \<Rightarrow> field_result" where
  "handleCountedArrays_field data mode table idx r this s =
     (case col_type r of
        APITYPE_INT1 \<Rightarrow> handleCountedArrays_int data mode idx r this s
      | APITYPE_INT4 \<Rightarrow> handleCountedArrays_int data mode idx r this s
      | APITYPE_INT8 \<Rightarrow> handleCountedArrays_int data mode idx r this s
      | APITYPE_FIXED_STR_PTR \<Rightarrow> handleCountedArrays_fixed data mode idx r this s
      | APITYPE_STRING_LEN \<Rightarrow> handleCountedArrays_string data mode table idx r this s
      | APITYPE_CHARBUF_LEN \<Rightarrow> handleCountedArrays_string data mode table idx r this s
      | APITYPE_C_STR_PTR \<Rightarrow> handleCountedArrays_string data mode table idx r this s
      | _ \<Rightarrow> Err PARSER_ERROR_INVALID_TABLE)"

definition handleCountedArrays_enter ::
  "tableParserModes \<Rightarrow> table_row \<Rightarrow> int \<Rightarrow> int \<Rightarrow> int \<Rightarrow> int \<Rightarrow> int \<Rightarrow> parser_state
     \<Rightarrow> (int \<times> parser_state) res" where
  "handleCountedArrays_enter mode r structIndex outStructSize arrayPointerOffset
       structCounterField previousStruct s =
     res_bind (slot structIndex) (\<lambda>k.
       case mode of
         scan \<Rightarrow>
           Ok (0, s\<lparr>outStructCount := slot_upd (outStructCount s) k (outStructCount s k + 1),
                    outStructSizes :=
                      (if outStructSizes s k = 0
                       then slot_upd (outStructSizes s) k (col_size_or_offset r)
                       else outStructSizes s)\<rparr>)
       | populate \<Rightarrow>
           (let this = inStructAddrs s k;
                s = s\<lparr>inStructAddrs := slot_upd (inStructAddrs s) k (this + outStructSize)\<rparr>;
                s = (if peek_ptr (previousStruct + arrayPointerOffset) s = 0
                     then poke_ptr (previousStruct + arrayPointerOffset) this s else s);
                s = (if structCounterField \<noteq> 0
                     then poke_int (previousStruct + structCounterField)
                            (1 + peek_int (previousStruct + structCounterField) s) s
                     else s)
            in Ok (this, s)))"

section \<open>The array handlers\<close>

text \<open>
  The end of the rows of a structure: \<open>while (arrayNestLevel < table[m + 1].nest \<and> table[m + 1]
  is not the end) m++\<close>.
\<close>

definition struct_rows :: "int \<Rightarrow> table_row list \<Rightarrow> table_row list" where
  "struct_rows nest rows =
     takeWhile (\<lambda>r. nest < col_nest_level r \<and> APITYPE_END_OF_TABLE \<noteq> col_type r) rows"

definition tableMaxIndex :: "tableLayout \<Rightarrow> int \<Rightarrow> int \<Rightarrow> int res" where
  "tableMaxIndex table nest m =
     (let rest = drop (nat (m + 1)) table; n = length (struct_rows nest rest)
      in if 0 \<le> m \<and> n < length rest then Ok (m + int n) else Fault)"

record array_shape =
  arrayPointerOffset :: int
  structCounterField :: int
  structIndex :: int
  outStructSize :: int
  tableStart :: int
  tableMax :: int

text \<open>
  Reading the table rows of an array, from the array row at \<open>i\<close>: the optional
  \<open>APITYPE_ARRAY_STRUCT_COUNT\<close> row, the structure row and the last row of the structure.
\<close>

definition handleArrays_shape ::
  "tableParserModes \<Rightarrow> tableLayout \<Rightarrow> int \<Rightarrow> array_shape res" where
  "handleArrays_shape mode table i =
     res_bind (table_at table i) (\<lambda>ra.
     res_bind (table_at table (i + 1)) (\<lambda>rc.
       let has_count = (APITYPE_ARRAY_STRUCT_COUNT = col_type rc);
           counter = (if has_count \<and> mode = populate then col_size_or_offset rc else 0);
           start = (if has_count then i + 2 else i + 1)
       in res_bind (table_at table start) (\<lambda>rs.
          res_bind (tableMaxIndex table (col_nest_level ra) start) (\<lambda>m.
            Ok \<lparr>arrayPointerOffset = col_size_or_offset ra, structCounterField = counter,
                structIndex = col_struct_index rs, outStructSize = col_size_or_offset rs,
                tableStart = start, tableMax = m\<rparr>))))"

definition handleCountedArrays_shape ::
  "tableParserModes \<Rightarrow> tableLayout \<Rightarrow> int \<Rightarrow> array_shape res" where
  "handleCountedArrays_shape mode table i =
     res_bind (table_at table i) (\<lambda>ra.
     res_bind (table_at table (i + 1)) (\<lambda>rc.
       let (counter, start) =
             (if APITYPE_ARRAY_STRUCT_COUNT = col_type rc
              then (if mode = populate then col_size_or_offset rc else 0, i + 2)
              else (0, i + 1))
       in res_bind (table_at table start) (\<lambda>rs.
          res_bind (tableMaxIndex table (col_nest_level ra) start) (\<lambda>m.
            Ok \<lparr>arrayPointerOffset = col_size_or_offset ra, structCounterField = counter,
                structIndex = col_struct_index rs, outStructSize = col_size_or_offset rs,
                tableStart = start, tableMax = m\<rparr>))))"

text \<open>The length of an array in bytes, from the buffer or from what is left of it.\<close>

definition handleArrays_bytes ::
  "byte list \<Rightarrow> apitype \<Rightarrow> parser_state \<Rightarrow> (int \<times> parser_state) res" where
  "handleArrays_bytes data t s =
     (if APITYPE_ARRAY_LEN = t then GET_INT data s
      else if APITYPE_ARRAY_LEN_C_STR = t then
        res_bind (c_strlen data (cursor s)) (\<lambda>l.
        res_bind (buf_read data (cursor s) l) (\<lambda>bs.
        res_bind (adv data (l + 1) s) (\<lambda>s. Ok (c_atoi bs, s))))
      else Ok (dataBufferSize s - byteCount s, s))"

text \<open>
  One call of a handler and one iteration of each of its loops, over the functions they call:
  \<open>loop\<close>, \<open>inner\<close> and \<open>again\<close> are the loops, \<open>arrays\<close> and \<open>counted\<close> the handlers for nested
  arrays.  The recursion is closed below, with fuel.
\<close>

type_synonym array_handler =
  "byte list \<Rightarrow> tableParserModes \<Rightarrow> tableLayout \<Rightarrow> int \<Rightarrow> int \<Rightarrow> parser_state
     \<Rightarrow> (int \<times> parser_state) res"

type_synonym array_loop =
  "byte list \<Rightarrow> tableParserModes \<Rightarrow> tableLayout \<Rightarrow> array_shape \<Rightarrow> int \<Rightarrow> int \<Rightarrow> int
     \<Rightarrow> parser_state \<Rightarrow> parser_state res"

type_synonym field_loop =
  "byte list \<Rightarrow> tableParserModes \<Rightarrow> tableLayout \<Rightarrow> int \<Rightarrow> bool \<Rightarrow> int \<Rightarrow> int \<Rightarrow> int
     \<Rightarrow> int \<Rightarrow> parser_state \<Rightarrow> (int \<times> parser_state) res"

definition handleArrays_call :: "array_loop \<Rightarrow> array_handler" where
  "handleArrays_call loop data mode table i prev s =
     res_bind (table_at table i) (\<lambda>ra.
     res_bind (handleArrays_bytes data (col_type ra) s) (\<lambda>(arrayByteMax, s).
     res_bind (handleArrays_shape mode table i) (\<lambda>sh.
     res_bind (loop data mode table sh prev arrayByteMax 0 s) (\<lambda>s.
       Ok (tableMax sh, s)))))"

definition handleArrays_struct :: "field_loop \<Rightarrow> array_loop \<Rightarrow> array_loop" where
  "handleArrays_struct inner again data mode table sh prev arrayByteMax arrayByteCount s =
     (if arrayByteCount < arrayByteMax then
        res_bind (table_at table (tableStart sh)) (\<lambda>r.
        if APITYPE_STRUCT_LEN \<noteq> col_type r \<and> APITYPE_NOBUFFER_STRUCT_LEN \<noteq> col_type r
        then Err PARSER_ERROR_INVALID_TABLE
        else
          res_bind (GET_INT data s) (\<lambda>(len, s).
          let noBufferStructLen = (APITYPE_NOBUFFER_STRUCT_LEN = col_type r);
              s = (if noBufferStructLen then s\<lparr>cursor := cursor s - 4\<rparr> else s);
              dataBuffStructSize = (if noBufferStructLen then 0 else len)
          in if dataBuffStructSize = 0 \<and> \<not> noBufferStructLen
             then again data mode table sh prev arrayByteMax arrayByteCount s
             else
               res_bind (handleArrays_enter mode r (structIndex sh) (outStructSize sh)
                           (arrayPointerOffset sh) (structCounterField sh) prev s) (\<lambda>(this, s).
               res_bind (inner data mode table (tableMax sh) noBufferStructLen
                           dataBuffStructSize this (tableStart sh + 1) 0 s)
                 (\<lambda>(structByteCount, s).
                 again data mode table sh prev arrayByteMax
                   (if noBufferStructLen then arrayByteCount + structByteCount
                    else arrayByteCount + (structByteCount + 4)) s))))
      else Ok s)"

definition handleArrays_switch ::
  "array_handler \<Rightarrow> array_handler \<Rightarrow> field_loop \<Rightarrow> field_loop" where
  "handleArrays_switch arrays counted again data mode table tmax nobuf dsize this idx sbc s =
     (if \<not> nobuf \<and> sbc < dsize \<or> nobuf \<and> idx \<le> tmax then
        if idx > tmax then Ok (dsize, s)
        else
          res_bind (table_at table idx) (\<lambda>r.
          if col_type r = APITYPE_ARRAY_LEN \<or> col_type r = APITYPE_ARRAY_LEN_C_STR then
            let startData = (if col_type r = APITYPE_ARRAY_LEN then cursor s + 4 else cursor s);
                sbc = (if col_type r = APITYPE_ARRAY_LEN then sbc + 4 else sbc)
            in res_bind (arrays data mode table idx this s) (\<lambda>(idx, s).
               again data mode table tmax nobuf dsize this (idx + 1)
                 (sbc + (cursor s - startData)) s)
          else if col_type r = APITYPE_ARRAY_COUNT then
            let startData = cursor s + 4; sbc = sbc + 4
            in res_bind (counted data mode table idx this s) (\<lambda>(idx, s).
               again data mode table tmax nobuf dsize this (idx + 1)
                 (sbc + (cursor s - startData)) s)
          else
            res_bind (handleArrays_field data mode table idx r this s) (\<lambda>(idx, n, s).
              again data mode table tmax nobuf dsize this (idx + 1) (sbc + n) s))
      else Ok (sbc, s))"

definition handleCountedArrays_call :: "array_loop \<Rightarrow> array_handler" where
  "handleCountedArrays_call loop data mode table i prev s =
     res_bind (GET_INT data s) (\<lambda>(arrayCountMax, s).
     res_bind (handleCountedArrays_shape mode table i) (\<lambda>sh.
     res_bind (loop data mode table sh prev arrayCountMax 0 s) (\<lambda>s.
       Ok (tableMax sh, s))))"

definition handleCountedArrays_struct :: "field_loop \<Rightarrow> array_loop \<Rightarrow> array_loop" where
  "handleCountedArrays_struct inner again data mode table sh prev arrayCountMax
       arrayElementCount s =
     (if arrayElementCount < arrayCountMax then
        res_bind (table_at table (tableStart sh)) (\<lambda>r.
        if APITYPE_STRUCT_LEN \<noteq> col_type r \<and> APITYPE_NOBUFFER_STRUCT_LEN \<noteq> col_type r
        then Err PARSER_ERROR_INVALID_TABLE
        else
          res_bind (GET_INT data s) (\<lambda>(dataBuffStructSize, s).
          let noBufferStructLen = (APITYPE_NOBUFFER_STRUCT_LEN = col_type r);
              s = (if noBufferStructLen then s\<lparr>cursor := cursor s - 4\<rparr> else s)
          in if dataBuffStructSize = 0
             then again data mode table sh prev arrayCountMax arrayElementCount s
             else
               res_bind (handleCountedArrays_enter mode r (structIndex sh) (outStructSize sh)
                           (arrayPointerOffset sh) (structCounterField sh) prev s) (\<lambda>(this, s).
               res_bind (inner data mode table (tableMax sh)
                           noBufferStructLen dataBuffStructSize this (tableStart sh + 1) 0 s)
                 (\<lambda>(structByteCount, s).
                 again data mode table sh prev arrayCountMax (arrayElementCount + 1) s))))
      else Ok s)"

definition handleCountedArrays_switch ::
  "array_handler \<Rightarrow> array_handler \<Rightarrow> field_loop \<Rightarrow> field_loop" where
  "handleCountedArrays_switch arrays counted again data mode table tmax nobuf dsize this idx sbc s =
     (if \<not> nobuf \<and> sbc < dsize \<or> nobuf \<and> idx \<le> tmax then
        if idx > tmax then Ok (dsize, s)
        else
          res_bind (table_at table idx) (\<lambda>r.
          if col_type r = APITYPE_ARRAY_LEN then
            let startData = cursor s + 4; sbc = sbc + 4
            in res_bind (arrays data mode table idx this s) (\<lambda>(idx, s).
               again data mode table tmax nobuf dsize this (idx + 1)
                 (sbc + (cursor s - startData)) s)
          else if col_type r = APITYPE_ARRAY_COUNT then
            let startData = cursor s + 4; sbc = sbc + 4
            in res_bind (counted data mode table idx this s) (\<lambda>(idx, s).
               again data mode table tmax nobuf dsize this (idx + 1)
                 (sbc + (cursor s - startData)) s)
          else
            res_bind (handleCountedArrays_field data mode table idx r this s) (\<lambda>(idx, n, s).
              again data mode table tmax nobuf dsize this (idx + 1) (sbc + n) s))
      else Ok (sbc, s))"

fun handleArrays :: "nat \<Rightarrow> array_handler"
and handleArrays_loop :: "nat \<Rightarrow> array_loop"
and handleArrays_fields :: "nat \<Rightarrow> field_loop"
and handleCountedArrays :: "nat \<Rightarrow> array_handler"
and handleCountedArrays_loop :: "nat \<Rightarrow> array_loop"
and handleCountedArrays_fields :: "nat \<Rightarrow> field_loop"
where
  "handleArrays 0 = (\<lambda>data mode table i prev s. NoFuel)"
| "handleArrays (Suc f) = handleArrays_call (handleArrays_loop f)"
| "handleArrays_loop 0 = (\<lambda>data mode table sh prev mx n s. NoFuel)"
| "handleArrays_loop (Suc f) =
     handleArrays_struct (handleArrays_fields f) (handleArrays_loop f)"
| "handleArrays_fields 0 = (\<lambda>data mode table tmax nobuf dsize this idx sbc s. NoFuel)"
| "handleArrays_fields (Suc f) =
     handleArrays_switch (handleArrays f) (handleCountedArrays f) (handleArrays_fields f)"
| "handleCountedArrays 0 = (\<lambda>data mode table i prev s. NoFuel)"
| "handleCountedArrays (Suc f) = handleCountedArrays_call (handleCountedArrays_loop f)"
| "handleCountedArrays_loop 0 = (\<lambda>data mode table sh prev mx n s. NoFuel)"
| "handleCountedArrays_loop (Suc f) =
     handleCountedArrays_struct (handleCountedArrays_fields f) (handleCountedArrays_loop f)"
| "handleCountedArrays_fields 0 = (\<lambda>data mode table tmax nobuf dsize this idx sbc s. NoFuel)"
| "handleCountedArrays_fields (Suc f) =
     handleCountedArrays_switch (handleArrays f) (handleCountedArrays f)
       (handleCountedArrays_fields f)"

text \<open>The same equations with all arguments, so that evaluation unfolds a call only when it is made.\<close>

lemma handleArrays_eqs [code]:
  "handleArrays 0 data mode table i prev s = NoFuel"
  "handleArrays (Suc f) data mode table i prev s =
     handleArrays_call (handleArrays_loop f) data mode table i prev s"
  by simp_all

lemma handleArrays_loop_eqs [code]:
  "handleArrays_loop 0 data mode table sh prev mx n s = NoFuel"
  "handleArrays_loop (Suc f) data mode table sh prev mx n s =
     handleArrays_struct (handleArrays_fields f) (handleArrays_loop f) data mode table sh prev mx n s"
  by simp_all

lemma handleArrays_fields_eqs [code]:
  "handleArrays_fields 0 data mode table tmax nobuf dsize this idx sbc s = NoFuel"
  "handleArrays_fields (Suc f) data mode table tmax nobuf dsize this idx sbc s =
     handleArrays_switch (handleArrays f) (handleCountedArrays f) (handleArrays_fields f)
       data mode table tmax nobuf dsize this idx sbc s"
  by simp_all

lemma handleCountedArrays_eqs [code]:
  "handleCountedArrays 0 data mode table i prev s = NoFuel"
  "handleCountedArrays (Suc f) data mode table i prev s =
     handleCountedArrays_call (handleCountedArrays_loop f) data mode table i prev s"
  by simp_all

lemma handleCountedArrays_loop_eqs [code]:
  "handleCountedArrays_loop 0 data mode table sh prev mx n s = NoFuel"
  "handleCountedArrays_loop (Suc f) data mode table sh prev mx n s =
     handleCountedArrays_struct (handleCountedArrays_fields f) (handleCountedArrays_loop f)
       data mode table sh prev mx n s"
  by simp_all

lemma handleCountedArrays_fields_eqs [code]:
  "handleCountedArrays_fields 0 data mode table tmax nobuf dsize this idx sbc s = NoFuel"
  "handleCountedArrays_fields (Suc f) data mode table tmax nobuf dsize this idx sbc s =
     handleCountedArrays_switch (handleArrays f) (handleCountedArrays f)
       (handleCountedArrays_fields f) data mode table tmax nobuf dsize this idx sbc s"
  by simp_all

declare handleArrays.simps [simp del] handleArrays_loop.simps [simp del]
  handleArrays_fields.simps [simp del] handleCountedArrays.simps [simp del]
  handleCountedArrays_loop.simps [simp del] handleCountedArrays_fields.simps [simp del]

end
