(* ===== verification/Smapi_Base.thy ===== *)
theory Smapi_Base
  imports Smapi_Parser
begin

text \<open>
  The rest of \<^verbatim>\<open>src/smapiTableParser.c\<close>'s parsing: \<open>handleNullTerminatedArrays\<close> and
  \<open>parseBufferWithTable\<close>, the rows of the base structure one definition per kind of row.
\<close>

section \<open>Null terminated arrays\<close>

text \<open>
  The loop that counts the strings ends with \<open>temp =+ i\<close>, which assigns \<open>i\<close> to \<open>temp\<close>: the
  model keeps that assignment.
\<close>

fun null_array_count :: "nat \<Rightarrow> byte list \<Rightarrow> int \<Rightarrow> int \<Rightarrow> int \<Rightarrow> int \<Rightarrow> int res" where
  "null_array_count 0 data dsize tempStr temp arrayCountMax = NoFuel"
| "null_array_count (Suc f) data dsize tempStr temp arrayCountMax =
     (if temp < dsize then
        res_bind (c_strlen data tempStr) (\<lambda>l.
          let i = l + 1 in null_array_count f data dsize (tempStr + i) i (arrayCountMax + 1))
      else Ok arrayCountMax)"

definition handleNullTerminatedArrays_int ::
  "byte list \<Rightarrow> tableParserModes \<Rightarrow> int \<Rightarrow> table_row \<Rightarrow> int \<Rightarrow> parser_state \<Rightarrow> field_result" where
  "handleNullTerminatedArrays_int data mode idx r this s =
     (let off = this + col_size_or_offset r in
      case col_type r of
        APITYPE_INT1 \<Rightarrow>
          res_bind (if mode = populate
                    then res_bind (buf_read data (cursor s) 1) (\<lambda>bs. Ok (poke off bs s))
                    else Ok s)
            (\<lambda>s. res_bind (adv data 1 s) (\<lambda>s. Ok (idx, 1, s)))
      | APITYPE_INT4 \<Rightarrow>
          res_bind (if mode = populate
                    then res_bind (GET_INT data s) (\<lambda>(v, s). Ok (poke_int off v s))
                    else adv data 4 s)
            (\<lambda>s. Ok (idx, 4, s))
      | APITYPE_INT8 \<Rightarrow>
          res_bind (if mode = populate
                    then res_bind (GET_64INT data s) (\<lambda>(v, s). Ok (poke off (be_bytes 8 v) s))
                    else adv data 8 s)
            (\<lambda>s. Ok (idx, 8, s))
      | _ \<Rightarrow> Err PARSER_ERROR_INVALID_TABLE)"

definition handleNullTerminatedArrays_fixed ::
  "byte list \<Rightarrow> tableParserModes \<Rightarrow> int \<Rightarrow> table_row \<Rightarrow> int \<Rightarrow> parser_state \<Rightarrow> field_result" where
  "handleNullTerminatedArrays_fixed data mode idx r this s =
     (let n = col_maxsize r; s = s\<lparr>byteCount := byteCount s + n\<rparr> in
      res_bind (if mode = scan
                then Ok (s\<lparr>outStringByteCount := outStringByteCount s + (n + 1)\<rparr>)
                else
                  (let sc = inStringCursor s;
                       s = poke_ptr (this + col_size_or_offset r) sc s
                   in res_bind (buf_read data (cursor s) n)
                        (\<lambda>bs. Ok ((poke (sc + n) [0] (poke sc bs s))\<lparr>inStringCursor := sc + n + 1\<rparr>))))
        (\<lambda>s. res_bind (adv data n s) (\<lambda>s. Ok (idx, n, s))))"

definition handleNullTerminatedArrays_string ::
  "byte list \<Rightarrow> tableParserModes \<Rightarrow> tableLayout \<Rightarrow> int \<Rightarrow> table_row \<Rightarrow> int \<Rightarrow> parser_state
     \<Rightarrow> field_result" where
  "handleNullTerminatedArrays_string data mode table idx r this s =
     res_bind
       (if col_type r = APITYPE_C_STR_PTR
        then res_bind (c_strlen data (cursor s)) (\<lambda>temp. Ok (temp, 0, s))
        else res_bind (GET_INT data s) (\<lambda>(temp, s). Ok (temp, 4, s)))
       (\<lambda>(temp, n, s).
         if temp < col_minsize r then Err PARSER_ERROR_INVALID_STRING_SIZE
         else if - 1 \<noteq> col_maxsize r \<and> temp > col_maxsize r
         then Err PARSER_ERROR_INVALID_STRING_SIZE
         else
           res_bind
             (if mode = scan then
                Ok (if col_type r = APITYPE_CHARBUF_LEN then idx + 1 else idx,
                    if temp > 0
                    then s\<lparr>outStringByteCount := outStringByteCount s + (temp + 1)\<rparr> else s)
              else if temp > 0 then
                (let sc = inStringCursor s; s = poke_ptr (this + col_size_or_offset r) sc s in
                 if col_type r = APITYPE_C_STR_PTR then
                   res_bind (buf_read data (cursor s) (temp + 1))
                     (\<lambda>bs. Ok (idx, (poke sc bs s)\<lparr>inStringCursor := sc + (temp + 1)\<rparr>))
                 else
                   res_bind (buf_read data (cursor s) temp) (\<lambda>bs.
                     if col_type r = APITYPE_STRING_LEN
                     then Ok (idx, (poke (sc + temp) [0] (poke sc bs s))
                                     \<lparr>inStringCursor := sc + temp + 1\<rparr>)
                     else res_bind (table_at table (idx + 1)) (\<lambda>rc.
                       Ok (idx + 1, (poke_int (this + col_size_or_offset rc) temp (poke sc bs s))
                                      \<lparr>inStringCursor := sc + temp\<rparr>))))
              else Ok (idx, poke_ptr (this + col_size_or_offset r) 0 s))
             (\<lambda>(idx, s).
                let temp = (if col_type r = APITYPE_C_STR_PTR then temp + 1 else temp)
                in res_bind (adv data temp s) (\<lambda>s. Ok (idx, n + temp, s))))"

definition handleNullTerminatedArrays_field ::
  "byte list \<Rightarrow> tableParserModes \<Rightarrow> tableLayout \<Rightarrow> int \<Rightarrow> table_row \<Rightarrow> int \<Rightarrow> parser_state
     \<Rightarrow> field_result" where
  "handleNullTerminatedArrays_field data mode table idx r this s =
     (case col_type r of
        APITYPE_INT1 \<Rightarrow> handleNullTerminatedArrays_int data mode idx r this s
      | APITYPE_INT4 \<Rightarrow> handleNullTerminatedArrays_int data mode idx r this s
      | APITYPE_INT8 \<Rightarrow> handleNullTerminatedArrays_int data mode idx r this s
      | APITYPE_FIXED_STR_PTR \<Rightarrow> handleNullTerminatedArrays_fixed data mode idx r this s
      | APITYPE_STRING_LEN \<Rightarrow> handleNullTerminatedArrays_string data mode table idx r this s
      | APITYPE_CHARBUF_LEN \<Rightarrow> handleNullTerminatedArrays_string data mode table idx r this s
      | APITYPE_C_STR_PTR \<Rightarrow> handleNullTerminatedArrays_string data mode table idx r this s
      | _ \<Rightarrow> Err PARSER_ERROR_INVALID_TABLE)"

text \<open>
  The table rows of the array; in populate mode the counter field receives the number of
  strings at once.
\<close>

definition handleNullTerminatedArrays_shape ::
  "tableParserModes \<Rightarrow> tableLayout \<Rightarrow> int \<Rightarrow> int \<Rightarrow> int \<Rightarrow> parser_state
     \<Rightarrow> (array_shape \<times> parser_state) res" where
  "handleNullTerminatedArrays_shape mode table i previousStruct arrayCountMax s =
     res_bind (table_at table i) (\<lambda>ra.
     res_bind (table_at table (i + 1)) (\<lambda>rc.
       let has_count = (APITYPE_ARRAY_STRUCT_COUNT = col_type rc);
           counter = (if has_count \<and> mode = populate then col_size_or_offset rc else 0);
           s = (if has_count \<and> mode = populate
                then poke_int (previousStruct + counter) arrayCountMax s else s);
           start = (if has_count then i + 2 else i + 1)
       in res_bind (table_at table start) (\<lambda>rs.
          res_bind (tableMaxIndex table (col_nest_level ra) start) (\<lambda>m.
            Ok (\<lparr>arrayPointerOffset = col_size_or_offset ra, structCounterField = counter,
                 structIndex = col_struct_index rs, outStructSize = col_size_or_offset rs,
                 tableStart = start, tableMax = m\<rparr>, s)))))"

definition handleNullTerminatedArrays_enter ::
  "tableParserModes \<Rightarrow> table_row \<Rightarrow> array_shape \<Rightarrow> int \<Rightarrow> parser_state
     \<Rightarrow> (int \<times> parser_state) res" where
  "handleNullTerminatedArrays_enter mode r sh previousStruct s =
     res_bind (slot (structIndex sh)) (\<lambda>k.
       if mode = scan then
         Ok (0, s\<lparr>outStructCount := slot_upd (outStructCount s) k (outStructCount s k + 1),
                  outStructSizes :=
                    (if outStructSizes s k = 0
                     then slot_upd (outStructSizes s) k (col_size_or_offset r)
                     else outStructSizes s)\<rparr>)
       else
         (let this = inStructAddrs s k;
              s = s\<lparr>inStructAddrs := slot_upd (inStructAddrs s) k (this + outStructSize sh)\<rparr>;
              s = (if peek_ptr (previousStruct + arrayPointerOffset sh) s = 0
                   then poke_ptr (previousStruct + arrayPointerOffset sh) this s else s)
          in Ok (this, s)))"

fun handleNullTerminatedArrays_fields :: "nat \<Rightarrow> field_loop" where
  "handleNullTerminatedArrays_fields 0 data mode table tmax nobuf dsize this idx sbc s = NoFuel"
| "handleNullTerminatedArrays_fields (Suc f) data mode table tmax nobuf dsize this idx sbc s =
     (if \<not> nobuf \<and> sbc < dsize \<or> nobuf \<and> idx \<le> tmax then
        if idx > tmax then Ok (dsize, s)
        else
          res_bind (table_at table idx) (\<lambda>r.
          if col_type r = APITYPE_ARRAY_LEN \<or> col_type r = APITYPE_ARRAY_COUNT then
            let startData = cursor s + 4; sbc = sbc + 4
            in res_bind (if col_type r = APITYPE_ARRAY_LEN
                         then handleArrays f data mode table idx this s
                         else handleCountedArrays f data mode table idx this s) (\<lambda>(idx, s).
               handleNullTerminatedArrays_fields f data mode table tmax nobuf dsize this (idx + 1)
                 (sbc + (cursor s - startData)) s)
          else
            res_bind (handleNullTerminatedArrays_field data mode table idx r this s)
              (\<lambda>(idx, n, s).
                handleNullTerminatedArrays_fields f data mode table tmax nobuf dsize this (idx + 1)
                  (sbc + n) s))
      else Ok (sbc, s))"

fun handleNullTerminatedArrays_loop :: "nat \<Rightarrow> array_loop" where
  "handleNullTerminatedArrays_loop 0 data mode table sh prev arrayCountMax n s = NoFuel"
| "handleNullTerminatedArrays_loop (Suc f) data mode table sh prev arrayCountMax n s =
     (if n < arrayCountMax then
        res_bind (table_at table (tableStart sh)) (\<lambda>r.
        res_bind (c_strlen data (cursor s)) (\<lambda>l.
        let dataBuffStructSize = l + 1 in
        if dataBuffStructSize = 0
        then handleNullTerminatedArrays_loop f data mode table sh prev arrayCountMax n s
        else
          res_bind (handleNullTerminatedArrays_enter mode r sh prev s) (\<lambda>(this, s).
          res_bind (handleNullTerminatedArrays_fields f data mode table (tableMax sh) False
                      dataBuffStructSize this (tableStart sh + 1) 0 s) (\<lambda>(sbc, s).
          handleNullTerminatedArrays_loop f data mode table sh prev arrayCountMax (n + 1)
            (s\<lparr>byteCount := byteCount s + dataBuffStructSize\<rparr>)))))
      else Ok s)"

definition handleNullTerminatedArrays :: "nat \<Rightarrow> array_handler" where
  "handleNullTerminatedArrays f data mode table i prev s =
     res_bind (null_array_count f data (dataBufferSize s) (cursor s) (byteCount s) 0)
       (\<lambda>arrayCountMax.
     res_bind (handleNullTerminatedArrays_shape mode table i prev arrayCountMax s) (\<lambda>(sh, s).
     res_bind (handleNullTerminatedArrays_loop f data mode table sh prev arrayCountMax 0 s) (\<lambda>s.
       Ok (tableMax sh, s))))"

section \<open>Rows of the base structure\<close>

definition base_addr :: "parser_state \<Rightarrow> table_row \<Rightarrow> int" where
  "base_addr s r = inStructAddrs s 0 + col_size_or_offset r"

definition base_int1 ::
  "byte list \<Rightarrow> tableParserModes \<Rightarrow> table_row \<Rightarrow> parser_state \<Rightarrow> parser_state res" where
  "base_int1 data mode r s =
     res_bind (if mode = populate
               then res_bind (buf_read data (cursor s) 1) (\<lambda>bs. Ok (poke (base_addr s r) bs s))
               else Ok s)
       (\<lambda>s. res_bind (adv data 1 s) (\<lambda>s. Ok (s\<lparr>byteCount := byteCount s + 1\<rparr>)))"

text \<open>The rows searched for the place of the error buffer, up to the end of the table.\<close>

fun base_error_buff ::
  "byte list \<Rightarrow> int \<Rightarrow> table_row list \<Rightarrow> parser_state \<Rightarrow> parser_state res" where
  "base_error_buff data temp [] s = Fault"
| "base_error_buff data temp (r # rs) s =
     (if col_type r = APITYPE_END_OF_TABLE then Ok s
      else if col_type r = APITYPE_ERROR_BUFF_LEN
      then base_error_buff data temp rs (poke_int (base_addr s r) temp s)
      else if col_type r = APITYPE_ERROR_BUFF_PTR
      then res_bind (buf_read data (cursor s) temp) (\<lambda>bs.
             base_error_buff data temp rs
               ((poke_ptr (base_addr s r) (inStringCursor s) (poke (inStringCursor s) bs s))
                  \<lparr>inStringCursor := inStringCursor s + temp\<rparr>))
      else base_error_buff data temp rs s)"

definition base_reason_code ::
  "parser_context \<Rightarrow> byte list \<Rightarrow> tableParserModes \<Rightarrow> tableLayout \<Rightarrow> int \<Rightarrow> parser_state
     \<Rightarrow> parser_state res" where
  "base_reason_code ctx data mode table i s =
     (if smapiReturnCode ctx \<noteq> 0
         \<and> smapiErrorBufferPossible ctx > ERROR_OUTPUT_BUFFER_NOT_AVAILABLE
         \<and> byteCount s < dataBufferSize s then
        let temp = dataBufferSize s - byteCount s in
        if mode = scan then
          Ok (s\<lparr>outStringByteCount := outStringByteCount s + temp,
                byteCount := byteCount s + temp\<rparr>)
        else
          res_bind
            (if smapiErrorBufferPossible ctx = ERROR_OUTPUT_BUFFER_POSSIBLE_WITH_LENGTH_FIELD
             then res_bind (adv data 4 s)
                    (\<lambda>s. Ok (temp - 4, s\<lparr>byteCount := byteCount s + 4\<rparr>))
             else Ok (temp, s))
            (\<lambda>(temp, s).
              res_bind (base_error_buff data temp (drop (nat i) table) s)
                (\<lambda>s. Ok (s\<lparr>byteCount := byteCount s + temp\<rparr>)))
      else Ok s)"

definition base_int4 ::
  "parser_context \<Rightarrow> byte list \<Rightarrow> tableParserModes \<Rightarrow> tableLayout \<Rightarrow> int \<Rightarrow> table_row
     \<Rightarrow> parser_state \<Rightarrow> parser_state res" where
  "base_int4 ctx data mode table i r s =
     res_bind (if mode = populate
               then res_bind (GET_INT data s) (\<lambda>(v, s). Ok (poke_int (base_addr s r) v s))
               else adv data 4 s)
       (\<lambda>s. let s = s\<lparr>byteCount := byteCount s + 4\<rparr> in
             if col_type r = APITYPE_RS_INT4 then base_reason_code ctx data mode table i s
             else Ok s)"

definition base_int8 ::
  "byte list \<Rightarrow> tableParserModes \<Rightarrow> table_row \<Rightarrow> parser_state \<Rightarrow> parser_state res" where
  "base_int8 data mode r s =
     res_bind (if mode = populate
               then res_bind (GET_64INT data s)
                      (\<lambda>(v, s). Ok (poke (base_addr s r) (be_bytes 8 v) s))
               else adv data 8 s)
       (\<lambda>s. Ok (s\<lparr>byteCount := byteCount s + 8\<rparr>))"

definition base_fixed ::
  "byte list \<Rightarrow> tableParserModes \<Rightarrow> table_row \<Rightarrow> parser_state \<Rightarrow> parser_state res" where
  "base_fixed data mode r s =
     (let n = col_maxsize r; s = s\<lparr>byteCount := byteCount s + n\<rparr> in
      res_bind (if mode = scan
                then Ok (s\<lparr>outStringByteCount := outStringByteCount s + (n + 1)\<rparr>)
                else
                  (let sc = inStringCursor s; s = poke_ptr (base_addr s r) sc s in
                   res_bind (buf_read data (cursor s) n) (\<lambda>bs.
                     Ok ((poke (sc + n) [0] (poke sc bs s))\<lparr>inStringCursor := sc + n + 1\<rparr>))))
        (\<lambda>s. adv data n s))"

definition base_string_store ::
  "byte list \<Rightarrow> tableLayout \<Rightarrow> int \<Rightarrow> table_row \<Rightarrow> int \<Rightarrow> parser_state
     \<Rightarrow> (int \<times> parser_state) res" where
  "base_string_store data table i r temp s =
     (if temp > 0 then
        (let sc = inStringCursor s; s = poke_ptr (base_addr s r) sc s in
         if col_type r = APITYPE_C_STR_PTR then
           res_bind (buf_read data (cursor s) (temp + 1))
             (\<lambda>bs. Ok (i, (poke sc bs s)\<lparr>inStringCursor := sc + (temp + 1)\<rparr>))
         else
           res_bind (buf_read data (cursor s) temp) (\<lambda>bs.
             let s = poke sc bs s in
             if col_type r = APITYPE_STRING_LEN
             then Ok (i, (poke (sc + temp) [0] s)\<lparr>inStringCursor := sc + temp + 1\<rparr>)
             else res_bind (table_at table (i + 1)) (\<lambda>rc.
               Ok (i + 1, (poke_int (base_addr s rc) temp s)\<lparr>inStringCursor := sc + temp\<rparr>))))
      else
        (let s = poke_ptr (base_addr s r) 0 s in
         if col_type r = APITYPE_CHARBUF_LEN
         then res_bind (table_at table (i + 1)) (\<lambda>rc. Ok (i + 1, poke_int (base_addr s rc) 0 s))
         else Ok (i, s)))"

definition base_string ::
  "byte list \<Rightarrow> tableParserModes \<Rightarrow> tableLayout \<Rightarrow> int \<Rightarrow> table_row \<Rightarrow> parser_state
     \<Rightarrow> (int \<times> parser_state) res" where
  "base_string data mode table i r s =
     res_bind
       (if col_type r = APITYPE_C_STR_PTR
        then res_bind (c_strlen data (cursor s))
               (\<lambda>temp. Ok (temp, s\<lparr>byteCount := byteCount s + (temp + 1)\<rparr>))
        else res_bind (GET_INT data s)
               (\<lambda>(temp, s). Ok (temp, s\<lparr>byteCount := byteCount s + 4 + temp\<rparr>)))
       (\<lambda>(temp, s).
         if temp < col_minsize r then Err PARSER_ERROR_INVALID_STRING_SIZE
         else if - 1 \<noteq> col_maxsize r \<and> temp > col_maxsize r
         then Err PARSER_ERROR_INVALID_STRING_SIZE
         else
           res_bind
             (if mode = scan then
                (let s = (if temp > 0
                          then s\<lparr>outStringByteCount := outStringByteCount s + (temp + 1)\<rparr>
                          else s)
                 in if col_type r = APITYPE_CHARBUF_LEN
                    then Ok (i + 1, s\<lparr>outStringByteCount := outStringByteCount s - 1\<rparr>)
                    else Ok (i, s))
              else base_string_store data table i r temp s)
             (\<lambda>(i, s).
                res_bind (adv data (if col_type r = APITYPE_C_STR_PTR then temp + 1 else temp) s)
                  (\<lambda>s. Ok (i, s))))"

text \<open>Strings up to the end of the buffer; \<open>n\<close> is \<open>cStringCurrentStructCount\<close>.\<close>

record c_str_shape =
  cStringArrayPtrOffset :: int
  cStringArrayPtrIndex :: int
  cStringCounterFieldOffset :: int
  cStringCounterFieldIndex :: int
  cStringStructSize :: int
  cStringStructIndex :: int
  cStringFieldOffset :: int

definition base_c_str_shape :: "tableLayout \<Rightarrow> int \<Rightarrow> c_str_shape res" where
  "base_c_str_shape table i =
     res_bind (table_at table i) (\<lambda>ra.
     res_bind (table_at table (i + 1)) (\<lambda>rc.
     if APITYPE_C_STR_ARRAY_COUNT \<noteq> col_type rc then Err PARSER_ERROR_INVALID_TABLE else
     res_bind (table_at table (i + 2)) (\<lambda>rs.
     if APITYPE_C_STR_STRUCT_LEN \<noteq> col_type rs then Err PARSER_ERROR_INVALID_TABLE else
     res_bind (table_at table (i + 3)) (\<lambda>rp.
     if APITYPE_C_STR_PTR \<noteq> col_type rp then Err PARSER_ERROR_INVALID_TABLE else
     Ok \<lparr>cStringArrayPtrOffset = col_size_or_offset ra,
         cStringArrayPtrIndex = col_struct_index ra,
         cStringCounterFieldOffset = col_size_or_offset rc,
         cStringCounterFieldIndex = col_struct_index rc,
         cStringStructSize = col_size_or_offset rs,
         cStringStructIndex = col_struct_index rs,
         cStringFieldOffset = col_size_or_offset rp\<rparr>))))"

definition base_c_str_scan :: "c_str_shape \<Rightarrow> int \<Rightarrow> parser_state \<Rightarrow> parser_state res" where
  "base_c_str_scan sh iSize s =
     res_bind (slot (cStringStructIndex sh)) (\<lambda>k.
       Ok (s\<lparr>outStringByteCount := outStringByteCount s + iSize,
             outStructCount := slot_upd (outStructCount s) k (outStructCount s k + 1),
             outStructSizes :=
               (if outStructSizes s k = 0 then slot_upd (outStructSizes s) k (cStringStructSize sh)
                else outStructSizes s)\<rparr>))"

definition base_c_str_populate ::
  "byte list \<Rightarrow> c_str_shape \<Rightarrow> int \<Rightarrow> int \<Rightarrow> parser_state \<Rightarrow> parser_state res" where
  "base_c_str_populate data sh n iSize s =
     res_bind (slot (cStringStructIndex sh)) (\<lambda>k.
     res_bind
       (if n = 0 then
          res_bind (slot (cStringArrayPtrIndex sh)) (\<lambda>ka.
          res_bind (slot (cStringCounterFieldIndex sh)) (\<lambda>kc.
            Ok (poke_int (inStructAddrs s kc + cStringCounterFieldOffset sh) (outStructCount s k)
                 (poke_ptr (inStructAddrs s ka + cStringArrayPtrOffset sh) (inStructAddrs s k) s))))
        else Ok s) (\<lambda>s.
     res_bind (buf_read data (cursor s) iSize) (\<lambda>bs.
       let sc = inStringCursor s;
           s = poke sc bs s;
           s = poke_ptr (inStructAddrs s k + n * cStringStructSize sh + cStringFieldOffset sh) sc s
       in Ok (s\<lparr>inStringCursor := sc + iSize\<rparr>))))"

fun base_c_str_loop ::
  "nat \<Rightarrow> byte list \<Rightarrow> tableParserModes \<Rightarrow> c_str_shape \<Rightarrow> int \<Rightarrow> parser_state
     \<Rightarrow> parser_state res" where
  "base_c_str_loop 0 data mode sh n s = NoFuel"
| "base_c_str_loop (Suc f) data mode sh n s =
     (if byteCount s < dataBufferSize s then
        res_bind (c_strlen data (cursor s)) (\<lambda>l.
        let iSize = l + 1 in
        res_bind (if mode = scan then base_c_str_scan sh iSize s
                  else base_c_str_populate data sh n iSize s) (\<lambda>s.
        res_bind (adv data iSize s) (\<lambda>s.
          base_c_str_loop f data mode sh (n + 1) (s\<lparr>byteCount := byteCount s + iSize\<rparr>))))
      else Ok s)"

section \<open>\<open>parseBufferWithTable\<close>\<close>

definition base_row ::
  "nat \<Rightarrow> parser_context \<Rightarrow> byte list \<Rightarrow> tableParserModes \<Rightarrow> tableLayout \<Rightarrow> int \<Rightarrow> table_row
     \<Rightarrow> int \<Rightarrow> parser_state \<Rightarrow> (int \<times> parser_state) res" where
  "base_row f ctx data mode table i r firstStruct s =
     (let keep = (\<lambda>m. res_bind m (\<lambda>s. Ok (i, s))) in
      case col_type r of
        APITYPE_INT1 \<Rightarrow> keep (base_int1 data mode r s)
      | APITYPE_INT4 \<Rightarrow> keep (base_int4 ctx data mode table i r s)
      | APITYPE_RC_INT4 \<Rightarrow> keep (base_int4 ctx data mode table i r s)
      | APITYPE_RS_INT4 \<Rightarrow> keep (base_int4 ctx data mode table i r s)
      | APITYPE_ERROR_BUFF_LEN \<Rightarrow> Ok (i, s)
      | APITYPE_ERROR_BUFF_PTR \<Rightarrow> Ok (i, s)
      | APITYPE_INT8 \<Rightarrow> keep (base_int8 data mode r s)
      | APITYPE_FIXED_STR_PTR \<Rightarrow> keep (base_fixed data mode r s)
      | APITYPE_STRING_LEN \<Rightarrow> base_string data mode table i r s
      | APITYPE_CHARBUF_LEN \<Rightarrow> base_string data mode table i r s
      | APITYPE_C_STR_PTR \<Rightarrow> base_string data mode table i r s
      | APITYPE_ARRAY_LEN \<Rightarrow> handleArrays f data mode table i firstStruct s
      | APITYPE_ARRAY_LEN_C_STR \<Rightarrow> handleArrays f data mode table i firstStruct s
      | APITYPE_ARRAY_NO_LENGTH \<Rightarrow> handleArrays f data mode table i firstStruct s
      | APITYPE_ARRAY_COUNT \<Rightarrow> handleCountedArrays f data mode table i firstStruct s
      | APITYPE_ARRAY_NULL_TERMINATED \<Rightarrow>
          handleNullTerminatedArrays f data mode table i firstStruct s
      | APITYPE_C_STR_ARRAY_PTR \<Rightarrow>
          res_bind (base_c_str_shape table i) (\<lambda>sh.
          res_bind (base_c_str_loop f data mode sh 0 s) (\<lambda>s. Ok (i + 3, s)))
      | _ \<Rightarrow> Err PARSER_ERROR_INVALID_TABLE)"

fun parse_rows ::
  "nat \<Rightarrow> parser_context \<Rightarrow> byte list \<Rightarrow> tableParserModes \<Rightarrow> tableLayout \<Rightarrow> int \<Rightarrow> int
     \<Rightarrow> parser_state \<Rightarrow> parser_state res" where
  "parse_rows 0 ctx data mode table firstStruct i s = NoFuel"
| "parse_rows (Suc f) ctx data mode table firstStruct i s =
     res_bind (table_at table i) (\<lambda>r.
     if col_type r \<noteq> APITYPE_END_OF_TABLE \<and> byteCount s < dataBufferSize s then
       res_bind (base_row f ctx data mode table i r firstStruct s) (\<lambda>(i, s).
       if byteCount s \<ge> dataBufferSize s then Ok s
       else parse_rows f ctx data mode table firstStruct (i + 1) s)
     else Ok s)"

definition cleared :: "(int \<Rightarrow> int) \<Rightarrow> int \<Rightarrow> int" where
  "cleared f k = (if 0 \<le> k \<and> k < MAX_STRUCT_ARRAYS then 0 else f k)"

definition clear_outputs :: "parser_state \<Rightarrow> parser_state" where
  "clear_outputs s =
     s\<lparr>outStringByteCount := 0,
       outStructCount := cleared (outStructCount s), outStructSizes := cleared (outStructSizes s)\<rparr>"

definition parseBufferWithTable ::
  "nat \<Rightarrow> parser_context \<Rightarrow> byte list \<Rightarrow> tableParserModes \<Rightarrow> tableLayout \<Rightarrow> parser_state
     \<Rightarrow> parser_state res" where
  "parseBufferWithTable f ctx data mode table s =
     (let s = (if mode = scan then clear_outputs s else s)\<lparr>byteCount := 0\<rparr> in
      res_bind (table_at table 0) (\<lambda>r0.
      if col_type r0 \<noteq> APITYPE_BASE_STRUCT_LEN then Err PARSER_ERROR_INVALID_TABLE
      else if mode = scan then
        parse_rows f ctx data mode table 0 1
          (s\<lparr>outStructSizes := slot_upd (outStructSizes s) 0 (col_size_or_offset r0),
             outStructCount := slot_upd (outStructCount s) 0 (1)\<rparr>)
      else parse_rows f ctx data mode table (inStructAddrs s 0) 1 s))"

end
