(* ===== verification/Smapi_Scan.thy ===== *)
theory Smapi_Scan
  imports Smapi_Base
begin

text \<open>
  Facts about the parser that every later proof uses: the copies of the field switch agree, what
  a table has to satisfy row by row, and that a successful scan only counts up
  (\<open>scan_le\<close>): the cursor, the byte count, the string bytes and the structure counts.
\<close>


section \<open>The three copies of the field switch agree\<close>

lemma handleCountedArrays_int_eq: "handleCountedArrays_int = handleArrays_int"
  by (intro ext) (simp add: handleCountedArrays_int_def handleArrays_int_def)

lemma handleNullTerminatedArrays_int_eq: "handleNullTerminatedArrays_int = handleArrays_int"
  by (intro ext) (simp add: handleNullTerminatedArrays_int_def handleArrays_int_def)

lemma poke_sel [simp]:
  "cursor (poke a bs s) = cursor s" "dataBufferSize (poke a bs s) = dataBufferSize s"
  "byteCount (poke a bs s) = byteCount s" "outStringByteCount (poke a bs s) = outStringByteCount s"
  "outStructCount (poke a bs s) = outStructCount s"
  "outStructSizes (poke a bs s) = outStructSizes s"
  "inStructAddrs (poke a bs s) = inStructAddrs s"
  "inStringCursor (poke a bs s) = inStringCursor s"
  "heap (poke a bs s) = mem_write (heap s) a bs"
  by (simp_all add: poke_def)

lemma handleCountedArrays_fixed_eq: "handleCountedArrays_fixed = handleArrays_fixed"
  by (intro ext) (simp add: handleCountedArrays_fixed_def handleArrays_fixed_def Let_def)

lemma handleNullTerminatedArrays_fixed_eq: "handleNullTerminatedArrays_fixed = handleArrays_fixed"
  by (intro ext) (simp add: handleNullTerminatedArrays_fixed_def handleArrays_fixed_def Let_def)

lemma handleCountedArrays_string_eq: "handleCountedArrays_string = handleArrays_string"
  by (intro ext, unfold handleCountedArrays_string_def handleArrays_string_def
      handleArrays_string_len_def)
    (auto simp: handleArrays_string_store_def Let_def intro!: res_bind_cong)

lemma handleNullTerminatedArrays_string_eq: "handleNullTerminatedArrays_string = handleArrays_string"
  by (intro ext, unfold handleNullTerminatedArrays_string_def handleArrays_string_def
      handleArrays_string_len_def)
    (auto simp: handleArrays_string_store_def Let_def intro!: res_bind_cong)

lemma handleCountedArrays_field_eq: "handleCountedArrays_field = handleArrays_field"
  by (intro ext) (simp add: handleCountedArrays_field_def handleArrays_field_def
      handleCountedArrays_int_eq handleCountedArrays_fixed_eq handleCountedArrays_string_eq
      cong: apitype.case_cong)

lemma handleNullTerminatedArrays_field_eq: "handleNullTerminatedArrays_field = handleArrays_field"
  by (intro ext) (simp add: handleNullTerminatedArrays_field_def handleArrays_field_def
      handleNullTerminatedArrays_int_eq handleNullTerminatedArrays_fixed_eq
      handleNullTerminatedArrays_string_eq cong: apitype.case_cong)

lemma handleCountedArrays_enter_eq: "handleCountedArrays_enter = handleArrays_enter"
  by (intro ext)
    (auto simp: handleCountedArrays_enter_def handleArrays_enter_def Let_def
      split: tableParserModes.split intro!: res_bind_cong)

lemma handleCountedArrays_shape_eq: "handleCountedArrays_shape = handleArrays_shape"
  by (intro ext)
    (auto simp: handleCountedArrays_shape_def handleArrays_shape_def Let_def intro!: res_bind_cong)

section \<open>What a table has to satisfy row by row\<close>

definition is_struct_row :: "table_row \<Rightarrow> bool" where
  "is_struct_row r \<longleftrightarrow> col_type r \<in> {APITYPE_BASE_STRUCT_LEN, APITYPE_STRUCT_LEN,
     APITYPE_NOBUFFER_STRUCT_LEN, APITYPE_C_STR_STRUCT_LEN}"

definition struct_size :: "tableLayout \<Rightarrow> int \<Rightarrow> int" where
  "struct_size table k =
     (case List.find (\<lambda>r. is_struct_row r \<and> col_struct_index r = k) table of
        Some r \<Rightarrow> col_size_or_offset r | None \<Rightarrow> 0)"

definition row_sane :: "tableLayout \<Rightarrow> table_row \<Rightarrow> bool" where
  "row_sane table r \<longleftrightarrow>
     (col_type r = APITYPE_FIXED_STR_PTR \<longrightarrow> 1 \<le> col_maxsize r) \<and>
     (col_type r \<in> {APITYPE_STRING_LEN, APITYPE_C_STR_PTR} \<longrightarrow> 0 \<le> col_minsize r) \<and>
     (col_type r = APITYPE_CHARBUF_LEN \<longrightarrow> 1 \<le> col_minsize r) \<and>
     (is_struct_row r \<longrightarrow>
        0 < col_size_or_offset r \<and> col_size_or_offset r = struct_size table (col_struct_index r))"

definition rows_sane :: "tableLayout \<Rightarrow> bool" where
  "rows_sane table \<longleftrightarrow> list_all (row_sane table) table"

lemma rows_saneD: "rows_sane table \<Longrightarrow> table_at table i = Ok r \<Longrightarrow> row_sane table r"
  by (auto simp: rows_sane_def list_all_length)

section \<open>Scan only counts up\<close>

definition sizes_ok :: "tableLayout \<Rightarrow> parser_state \<Rightarrow> bool" where
  "sizes_ok table s \<longleftrightarrow>
     (\<forall>k. 0 \<le> k \<longrightarrow> k < MAX_STRUCT_ARRAYS \<longrightarrow>
        0 \<le> outStructCount s k \<and> outStructSizes s k \<in> {0, struct_size table k} \<and>
        (0 < outStructCount s k \<longrightarrow> outStructSizes s k = struct_size table k))"

definition scan_le :: "tableLayout \<Rightarrow> parser_state \<Rightarrow> parser_state \<Rightarrow> bool" where
  "scan_le table s s' \<longleftrightarrow>
     outStringByteCount s \<le> outStringByteCount s' \<and> cursor s \<le> cursor s' \<and>
     byteCount s \<le> byteCount s' \<and> dataBufferSize s' = dataBufferSize s \<and>
     (\<forall>k. outStructCount s k \<le> outStructCount s' k) \<and> (sizes_ok table s \<longrightarrow> sizes_ok table s')"

lemma scan_le_refl [simp]: "scan_le table s s"
  by (simp add: scan_le_def)

lemma scan_le_trans [trans]: "scan_le table s s' \<Longrightarrow> scan_le table s' s'' \<Longrightarrow> scan_le table s s''"
  by (auto simp: scan_le_def intro: order_trans)

lemma adv_OkD: "adv data n s = Ok s' \<Longrightarrow> s' = s\<lparr>cursor := cursor s + n\<rparr> \<and> 0 \<le> cursor s' \<and> cursor s' \<le> int (length data)"
  by (auto simp: adv_def split: if_splits)

lemma GET_INT_OkD:
  "GET_INT data s = Ok (v, s') \<Longrightarrow>
     s' = s\<lparr>cursor := cursor s + 4\<rparr> \<and> 0 \<le> cursor s \<and> cursor s' \<le> int (length data)"
  by (auto simp: GET_INT_def res_bind_eq_Ok dest: buf_read_OkD)

lemma sizes_ok_update [simp]:
  "sizes_ok table (s\<lparr>cursor := c\<rparr>) = sizes_ok table s"
  "sizes_ok table (s\<lparr>byteCount := c\<rparr>) = sizes_ok table s"
  "sizes_ok table (s\<lparr>outStringByteCount := c\<rparr>) = sizes_ok table s"
  by (simp_all add: sizes_ok_def)

text \<open>A field changes only the cursor, the byte count and the string bytes when it is scanned.\<close>

definition scan_step :: "int \<Rightarrow> parser_state \<Rightarrow> parser_state \<Rightarrow> bool" where
  "scan_step n s s' \<longleftrightarrow> 0 \<le> n \<and> (\<exists>b c. 0 \<le> b \<and> 0 \<le> c \<and>
     s' = s\<lparr>cursor := cursor s + n, byteCount := b + byteCount s,
             outStringByteCount := c + outStringByteCount s\<rparr>)"

lemma scan_stepI:
  "0 \<le> n \<Longrightarrow> 0 \<le> b \<Longrightarrow> 0 \<le> c \<Longrightarrow>
     s' = s\<lparr>cursor := cursor s + n, byteCount := b + byteCount s,
             outStringByteCount := c + outStringByteCount s\<rparr> \<Longrightarrow> scan_step n s s'"
  by (auto simp: scan_step_def)

lemma scan_step_le: "scan_step n s s' \<Longrightarrow> scan_le table s s' \<and> cursor s' = cursor s + n"
  by (auto simp: scan_step_def scan_le_def)

lemma handleArrays_int_scan:
  assumes "handleArrays_int data scan idx r this s = Ok (idx', n, s')"
  shows "idx' = idx \<and> scan_step n s s'"
  using assms by (auto simp: handleArrays_int_def res_bind_eq_Ok Let_def
      dest!: adv_OkD split: apitype.splits intro!: scan_stepI [where b = 0 and c = 0])

lemma handleArrays_fixed_scan:
  assumes "handleArrays_fixed data scan idx r this s = Ok (idx', n, s')" and "0 \<le> col_maxsize r"
  shows "idx' = idx \<and> scan_step n s s'"
  using assms by (auto simp: handleArrays_fixed_def res_bind_eq_Ok Let_def dest!: adv_OkD
      intro!: scan_stepI [where b = n and c = "n + 1"])

lemma handleArrays_string_len_OkD:
  assumes "handleArrays_string_len data r s = Ok (temp, n, s')"
  shows "s' = s\<lparr>cursor := cursor s + n\<rparr> \<and> 0 \<le> n"
  using assms by (auto simp: handleArrays_string_len_def res_bind_eq_Ok dest!: GET_INT_OkD
      split: if_splits)

lemma handleArrays_string_scan:
  assumes "handleArrays_string data scan table idx r this s = Ok (idx', n, s')"
    and "0 \<le> col_minsize r"
  shows "idx' = (if col_type r = APITYPE_CHARBUF_LEN then idx + 1 else idx) \<and> scan_step n s s'"
proof -
  obtain temp m s1 where 1: "handleArrays_string_len data r s = Ok (temp, m, s1)"
    and t: "col_minsize r \<le> temp"
    and 2: "res_bind (adv data (if col_type r = APITYPE_C_STR_PTR then temp + 1 else temp)
        (if temp > 0 then s1\<lparr>outStringByteCount := outStringByteCount s1 + (temp + 1)\<rparr> else s1))
        (\<lambda>s. Ok (if col_type r = APITYPE_CHARBUF_LEN then idx + 1 else idx,
                 m + (if col_type r = APITYPE_C_STR_PTR then temp + 1 else temp), s))
        = Ok (idx', n, s')"
    using assms(1) by (auto simp: handleArrays_string_def res_bind_eq_Ok Let_def split: if_splits)
  from handleArrays_string_len_OkD [OF 1] have s1: "s1 = s\<lparr>cursor := cursor s + m\<rparr>" "0 \<le> m" by auto
  from 2 s1 t assms(2) show ?thesis
    by (auto simp: res_bind_eq_Ok dest!: adv_OkD
        intro!: scan_stepI [where b = 0 and c = "if temp > 0 then temp + 1 else 0"] split: if_splits)
qed

lemma handleArrays_field_scan:
  assumes "handleArrays_field data scan table idx r this s = Ok (idx', n, s')"
    and "row_sane table r"
  shows "idx' = (if col_type r = APITYPE_CHARBUF_LEN then idx + 1 else idx) \<and> scan_step n s s'"
  using assms
  by (auto simp: handleArrays_field_def row_sane_def dest: handleArrays_int_scan
      handleArrays_fixed_scan handleArrays_string_scan split: apitype.splits)

text \<open>What the loops rely on: the structure row of the shape is the row at \<open>tableStart\<close>.\<close>

definition shape_of :: "tableLayout \<Rightarrow> array_shape \<Rightarrow> bool" where
  "shape_of table sh \<longleftrightarrow> (\<forall>r. table_at table (tableStart sh) = Ok r \<longrightarrow>
     structIndex sh = col_struct_index r \<and> outStructSize sh = col_size_or_offset r)"

lemma handleArrays_shape_of: "handleArrays_shape mode table i = Ok sh \<Longrightarrow> shape_of table sh"
  by (auto simp: handleArrays_shape_def shape_of_def res_bind_eq_Ok Let_def)

lemma handleArrays_bytes_scan:
  "handleArrays_bytes data t s = Ok (n, s') \<Longrightarrow> scan_le table s s'"
  by (auto simp: handleArrays_bytes_def res_bind_eq_Ok scan_le_def
      dest!: GET_INT_OkD adv_OkD c_strlen_OkD split: if_splits)

lemma sizes_okD:
  "sizes_ok table s \<Longrightarrow> 0 \<le> k \<Longrightarrow> k < MAX_STRUCT_ARRAYS \<Longrightarrow>
     0 \<le> outStructCount s k \<and> outStructSizes s k \<in> {0, struct_size table k} \<and>
     (0 < outStructCount s k \<longrightarrow> outStructSizes s k = struct_size table k)"
  by (simp add: sizes_ok_def)

lemma sizes_ok_count:
  assumes ok: "sizes_ok table s" and n: "0 < n" "n = struct_size table k"
    and k: "0 \<le> k" "k < MAX_STRUCT_ARRAYS"
    and s': "outStructCount s' = (outStructCount s)(k := outStructCount s k + 1)"
      "outStructSizes s' =
         (if outStructSizes s k = 0 then (outStructSizes s)(k := n) else outStructSizes s)"
  shows "sizes_ok table s'"
  unfolding sizes_ok_def
proof (intro allI impI)
  fix j :: int
  assume j: "0 \<le> j" "j < MAX_STRUCT_ARRAYS"
  show "0 \<le> outStructCount s' j \<and> outStructSizes s' j \<in> {0, struct_size table j} \<and>
          (0 < outStructCount s' j \<longrightarrow> outStructSizes s' j = struct_size table j)"
    using sizes_okD [OF ok j] sizes_okD [OF ok k] n s' by (cases "j = k") auto
qed

lemma handleArrays_enter_scan_eq:
  "handleArrays_enter scan r k n a c p s = Ok (this, s') \<longleftrightarrow>
     0 \<le> k \<and> k < MAX_STRUCT_ARRAYS \<and> this = 0 \<and>
     s' = s\<lparr>outStructCount := (outStructCount s)(k := outStructCount s k + 1),
            outStructSizes := if outStructSizes s k = 0
              then (outStructSizes s)(k := col_size_or_offset r) else outStructSizes s\<rparr>"
  by (auto simp: handleArrays_enter_def res_bind_eq_Ok Let_def slot_def)

lemma handleArrays_enter_scan:
  assumes "handleArrays_enter scan r k n a c p s = Ok (this, s')"
    and "row_sane table r" and "is_struct_row r" and "k = col_struct_index r"
  shows "scan_le table s s'"
  using assms sizes_ok_count [of table s "col_size_or_offset r" k s']
  unfolding handleArrays_enter_scan_eq scan_le_def row_sane_def by auto

definition handler_mono :: "tableLayout \<Rightarrow> array_handler \<Rightarrow> bool" where
  "handler_mono table h \<longleftrightarrow> (\<forall>data i prev s i' s'.
     h data scan table i prev s = Ok (i', s') \<longrightarrow> scan_le table s s')"

definition loop_mono :: "tableLayout \<Rightarrow> array_loop \<Rightarrow> bool" where
  "loop_mono table l \<longleftrightarrow> (\<forall>data sh prev mx n s s'. shape_of table sh \<longrightarrow>
     l data scan table sh prev mx n s = Ok s' \<longrightarrow> scan_le table s s')"

definition fields_mono :: "tableLayout \<Rightarrow> field_loop \<Rightarrow> bool" where
  "fields_mono table l \<longleftrightarrow> (\<forall>data tmax nobuf dsize this idx sbc s n s'.
     l data scan table tmax nobuf dsize this idx sbc s = Ok (n, s') \<longrightarrow> scan_le table s s')"

lemma handler_monoD:
  "handler_mono table h \<Longrightarrow> h data scan table i prev s = Ok (i', s') \<Longrightarrow> scan_le table s s'"
  by (auto simp: handler_mono_def)

lemma loop_monoD:
  "loop_mono table l \<Longrightarrow> l data scan table sh prev mx n s = Ok s' \<Longrightarrow> shape_of table sh \<Longrightarrow>
     scan_le table s s'"
  by (auto simp: loop_mono_def)

lemma fields_monoD:
  "fields_mono table l \<Longrightarrow>
     l data scan table tmax nobuf dsize this idx sbc s = Ok (n, s') \<Longrightarrow> scan_le table s s'"
  by (auto simp: fields_mono_def)

lemma GET_INT_scan: "GET_INT data s = Ok (v, s') \<Longrightarrow> scan_le table s s'"
  by (auto simp: scan_le_def dest!: GET_INT_OkD)

lemma handleArrays_call_mono:
  assumes "loop_mono table l" shows "handler_mono table (handleArrays_call l)"
  unfolding handler_mono_def handleArrays_call_def
  by (auto simp: res_bind_eq_Ok simp del: table_at_Ok dest!: handleArrays_shape_of
      loop_monoD [OF assms] handleArrays_bytes_scan [where table = table] intro: scan_le_trans)

lemma handleCountedArrays_call_mono:
  assumes "loop_mono table l" shows "handler_mono table (handleCountedArrays_call l)"
  unfolding handler_mono_def handleCountedArrays_call_def handleCountedArrays_shape_eq
  by (auto simp: res_bind_eq_Ok dest!: handleArrays_shape_of
      loop_monoD [OF assms] GET_INT_scan [where table = table] intro: scan_le_trans)

lemma GET_INT_rewind_scan:
  "GET_INT data s = Ok (v, s1) \<Longrightarrow> scan_le table s (if b then s1\<lparr>cursor := cursor s1 - 4\<rparr> else s1)"
  by (auto simp: scan_le_def dest!: GET_INT_OkD)

lemma handleArrays_enter_shape_scan:
  assumes "handleArrays_enter scan r (structIndex sh) n a c p s = Ok (this, s')"
    and "table_at table (tableStart sh) = Ok r" and "shape_of table sh" and "rows_sane table"
    and "APITYPE_STRUCT_LEN = col_type r \<or> APITYPE_NOBUFFER_STRUCT_LEN = col_type r"
  shows "scan_le table s s'"
  using assms rows_saneD by (intro handleArrays_enter_scan) (auto simp: is_struct_row_def shape_of_def)

text \<open>The ways one iteration of an array loop can end well.\<close>

lemma handleArrays_structE:
  assumes "handleArrays_struct inner again data mode table sh prev mx cnt s = Ok s'"
  obtains (fin) "\<not> cnt < mx" "s' = s"
  | (skip) r s1 where "cnt < mx" "table_at table (tableStart sh) = Ok r"
      "APITYPE_STRUCT_LEN = col_type r" "GET_INT data s = Ok (0, s1)"
      "again data mode table sh prev mx cnt s1 = Ok s'"
  | (struct) r len s1 nb dsize this s2 sbc s3 where
      "cnt < mx" "table_at table (tableStart sh) = Ok r" "GET_INT data s = Ok (len, s1)"
      "nb \<longleftrightarrow> APITYPE_NOBUFFER_STRUCT_LEN = col_type r" "\<not> nb \<longrightarrow> APITYPE_STRUCT_LEN = col_type r"
      "dsize = (if nb then 0 else len)" "nb \<or> len \<noteq> 0"
      "handleArrays_enter mode r (structIndex sh) (outStructSize sh) (arrayPointerOffset sh)
         (structCounterField sh) prev (if nb then s else s1) = Ok (this, s2)"
      "inner data mode table (tableMax sh) nb dsize this (tableStart sh + 1) 0 s2 = Ok (sbc, s3)"
      "again data mode table sh prev mx (if nb then cnt + sbc else cnt + (sbc + 4)) s3 = Ok s'"
proof (cases "cnt < mx")
  case False
  with assms that(1) show ?thesis by (simp add: handleArrays_struct_def)
next
  case True
  obtain r len s1 where r: "table_at table (tableStart sh) = Ok r" and g: "GET_INT data s = Ok (len, s1)"
    and t: "APITYPE_STRUCT_LEN = col_type r \<or> APITYPE_NOBUFFER_STRUCT_LEN = col_type r"
    using assms True by (auto simp: handleArrays_struct_def res_bind_eq_Ok split: if_splits)
  have s1: "s1\<lparr>cursor := cursor s1 - 4\<rparr> = s" using GET_INT_OkD [OF g] by simp
  show ?thesis
  proof (cases "APITYPE_NOBUFFER_STRUCT_LEN = col_type r")
    case nb: True
    from assms True r g t nb s1 obtain this s2 sbc s3 where
      "handleArrays_enter mode r (structIndex sh) (outStructSize sh) (arrayPointerOffset sh)
         (structCounterField sh) prev s = Ok (this, s2)"
      "inner data mode table (tableMax sh) True 0 this (tableStart sh + 1) 0 s2 = Ok (sbc, s3)"
      "again data mode table sh prev mx (cnt + sbc) s3 = Ok s'"
      by (auto simp: handleArrays_struct_def res_bind_eq_Ok Let_def simp del: table_at_Ok)
    with True r g t nb show ?thesis
      by (intro that(3) [where nb = True and r = r]) auto
  next
    case False
    show ?thesis
    proof (cases "len = 0")
      case True
      with assms \<open>cnt < mx\<close> r g t False show ?thesis
        by (intro that(2) [where r = r]) (auto simp: handleArrays_struct_def Let_def simp del: table_at_Ok)
    next
      case len: False
      from assms \<open>cnt < mx\<close> r g t False len obtain this s2 sbc s3 where
        "handleArrays_enter mode r (structIndex sh) (outStructSize sh) (arrayPointerOffset sh)
           (structCounterField sh) prev s1 = Ok (this, s2)"
        "inner data mode table (tableMax sh) False len this (tableStart sh + 1) 0 s2 = Ok (sbc, s3)"
        "again data mode table sh prev mx (cnt + (sbc + 4)) s3 = Ok s'"
        by (auto simp: handleArrays_struct_def res_bind_eq_Ok Let_def simp del: table_at_Ok)
      with \<open>cnt < mx\<close> r g t False len show ?thesis
        by (intro that(3) [where nb = False and r = r]) auto
    qed
  qed
qed


lemma handleCountedArrays_structE:
  assumes "handleCountedArrays_struct inner again data mode table sh prev mx cnt s = Ok s'"
  obtains (fin) "\<not> cnt < mx" "s' = s"
  | (skip) r s1 nb where "cnt < mx" "table_at table (tableStart sh) = Ok r"
      "nb \<longleftrightarrow> APITYPE_NOBUFFER_STRUCT_LEN = col_type r" "\<not> nb \<longrightarrow> APITYPE_STRUCT_LEN = col_type r"
      "GET_INT data s = Ok (0, s1)"
      "again data mode table sh prev mx cnt (if nb then s else s1) = Ok s'"
  | (struct) r len s1 nb this s2 sbc s3 where
      "cnt < mx" "table_at table (tableStart sh) = Ok r" "GET_INT data s = Ok (len, s1)"
      "nb \<longleftrightarrow> APITYPE_NOBUFFER_STRUCT_LEN = col_type r" "\<not> nb \<longrightarrow> APITYPE_STRUCT_LEN = col_type r"
      "len \<noteq> 0"
      "handleArrays_enter mode r (structIndex sh) (outStructSize sh) (arrayPointerOffset sh)
         (structCounterField sh) prev (if nb then s else s1) = Ok (this, s2)"
      "inner data mode table (tableMax sh) nb len this (tableStart sh + 1) 0 s2 = Ok (sbc, s3)"
      "again data mode table sh prev mx (cnt + 1) s3 = Ok s'"
proof (cases "cnt < mx")
  case False
  with assms that(1) show ?thesis by (simp add: handleCountedArrays_struct_def)
next
  case True
  obtain r len s1 where r: "table_at table (tableStart sh) = Ok r" and g: "GET_INT data s = Ok (len, s1)"
    and t: "APITYPE_STRUCT_LEN = col_type r \<or> APITYPE_NOBUFFER_STRUCT_LEN = col_type r"
    using assms True by (auto simp: handleCountedArrays_struct_def res_bind_eq_Ok split: if_splits)
  have s1: "s1\<lparr>cursor := cursor s1 - 4\<rparr> = s" using GET_INT_OkD [OF g] by simp
  define nb where "nb \<longleftrightarrow> APITYPE_NOBUFFER_STRUCT_LEN = col_type r"
  note facts = True r g t s1 nb_def
  show ?thesis
  proof (cases "len = 0")
    case True
    with assms facts show ?thesis
      by (intro that(2) [where r = r and nb = nb])
        (auto simp: handleCountedArrays_struct_def Let_def simp del: table_at_Ok split: if_splits)
  next
    case len: False
    from assms facts len obtain this s2 sbc s3 where
      "handleArrays_enter mode r (structIndex sh) (outStructSize sh) (arrayPointerOffset sh)
         (structCounterField sh) prev (if nb then s else s1) = Ok (this, s2)"
      "inner data mode table (tableMax sh) nb len this (tableStart sh + 1) 0 s2 = Ok (sbc, s3)"
      "again data mode table sh prev mx (cnt + 1) s3 = Ok s'"
      by (auto simp: handleCountedArrays_struct_def handleCountedArrays_enter_eq res_bind_eq_Ok
          Let_def simp del: table_at_Ok split: if_splits)
    with facts len show ?thesis
      by (intro that(3) [where nb = nb and r = r]) auto
  qed
qed

lemma handleArrays_struct_mono:
  assumes sane: "rows_sane table" and inner: "fields_mono table inner" and again: "loop_mono table again"
  shows "loop_mono table (handleArrays_struct inner again)"
  unfolding loop_mono_def
proof (intro allI impI)
  fix data sh prev mx n s s'
  assume sh: "shape_of table sh"
    and "handleArrays_struct inner again data scan table sh prev mx n s = Ok s'"
  from this(2) show "scan_le table s s'"
  proof (cases rule: handleArrays_structE)
    case fin
    then show ?thesis by simp
  next
    case skip
    with sh again show ?thesis by (blast intro: scan_le_trans GET_INT_scan loop_monoD)
  next
    case (struct r len s1 nb dsize this s2 sbc s3)
    have "scan_le table s (if nb then s else s1)" using struct GET_INT_scan by auto
    moreover have "scan_le table (if nb then s else s1) s2"
      using struct sh sane by (intro handleArrays_enter_shape_scan [of r sh]) auto
    moreover have "scan_le table s2 s3" using struct fields_monoD [OF inner] by auto
    moreover have "scan_le table s3 s'" using struct sh loop_monoD [OF again] by auto
    ultimately show ?thesis by (blast intro: scan_le_trans)
  qed
qed

lemma handleCountedArrays_struct_mono:
  assumes sane: "rows_sane table" and inner: "fields_mono table inner" and again: "loop_mono table again"
  shows "loop_mono table (handleCountedArrays_struct inner again)"
  unfolding loop_mono_def
proof (intro allI impI)
  fix data sh prev mx n s s'
  assume sh: "shape_of table sh"
    and "handleCountedArrays_struct inner again data scan table sh prev mx n s = Ok s'"
  from this(2) show "scan_le table s s'"
  proof (cases rule: handleCountedArrays_structE)
    case fin
    then show ?thesis by simp
  next
    case (skip r s1 nb)
    have "scan_le table s (if nb then s else s1)" using skip GET_INT_scan by auto
    with skip sh again show ?thesis by (blast intro: scan_le_trans loop_monoD)
  next
    case (struct r len s1 nb this s2 sbc s3)
    have "scan_le table s (if nb then s else s1)" using struct GET_INT_scan by auto
    moreover have "scan_le table (if nb then s else s1) s2"
      using struct sh sane by (intro handleArrays_enter_shape_scan [of r sh]) auto
    moreover have "scan_le table s2 s3" using struct fields_monoD [OF inner] by auto
    moreover have "scan_le table s3 s'" using struct sh loop_monoD [OF again] by auto
    ultimately show ?thesis by (blast intro: scan_le_trans)
  qed
qed

lemma handleArrays_field_mono:
  "handleArrays_field data scan table idx r this s = Ok (idx', n, s') \<Longrightarrow>
     table_at table i = Ok r \<Longrightarrow> rows_sane table \<Longrightarrow> scan_le table s s'"
  using handleArrays_field_scan rows_saneD scan_step_le by blast

lemma handleArrays_switch_mono:
  assumes sane: "rows_sane table" and h: "handler_mono table h" and c: "handler_mono table c"
    and l: "fields_mono table l"
  shows "fields_mono table (handleArrays_switch h c l)"
  unfolding fields_mono_def handleArrays_switch_def
  by (auto simp: res_bind_eq_Ok Let_def simp del: table_at_Ok split: if_splits
      dest!: fields_monoD [OF l] dest: handler_monoD [OF h] handler_monoD [OF c]
        handleArrays_field_mono [OF _ _ sane] intro: scan_le_trans)

lemma handleCountedArrays_switch_mono:
  assumes sane: "rows_sane table" and h: "handler_mono table h" and c: "handler_mono table c"
    and l: "fields_mono table l"
  shows "fields_mono table (handleCountedArrays_switch h c l)"
  unfolding fields_mono_def handleCountedArrays_switch_def handleCountedArrays_field_eq
  by (auto simp: res_bind_eq_Ok Let_def simp del: table_at_Ok split: if_splits
      dest!: fields_monoD [OF l] dest: handler_monoD [OF h] handler_monoD [OF c]
        handleArrays_field_mono [OF _ _ sane] intro: scan_le_trans)

lemmas handler_equations =
  handleArrays.simps handleArrays_loop.simps handleArrays_fields.simps
  handleCountedArrays.simps handleCountedArrays_loop.simps handleCountedArrays_fields.simps

lemma handlers_mono:
  assumes sane: "rows_sane table"
  shows "handler_mono table (handleArrays f) \<and> loop_mono table (handleArrays_loop f) \<and>
    fields_mono table (handleArrays_fields f) \<and> handler_mono table (handleCountedArrays f) \<and>
    loop_mono table (handleCountedArrays_loop f) \<and> fields_mono table (handleCountedArrays_fields f)"
proof (induction f)
  case 0
  show ?case
    by (simp add: handler_mono_def loop_mono_def fields_mono_def handler_equations)
next
  case (Suc f)
  then show ?case
    by (simp add: handler_equations
        handleArrays_call_mono handleArrays_struct_mono handleArrays_switch_mono
        handleCountedArrays_call_mono handleCountedArrays_struct_mono
        handleCountedArrays_switch_mono sane)
qed

end
