(* ===== verification/Smapi_Lockstep.thy ===== *)
theory Smapi_Lockstep
  imports Smapi_Scan
begin

text \<open>
  The simulation between a scan and the populate run after it, for the array handlers: \<open>sim\<close>
  relates the two states, \<open>room\<close> is the memory the scan has accounted for so far, and
  \<open>lockstep\<close> says that populate has written nowhere else.  \<open>wf_fields\<close> walks the rows of a
  structure in the order of the parser.
\<close>

section \<open>The simulation\<close>


definition sim ::
  "tableLayout \<Rightarrow> (int \<Rightarrow> int) \<Rightarrow> int \<Rightarrow> parser_state \<Rightarrow> parser_state \<Rightarrow> bool" where
  "sim table B sb s p \<longleftrightarrow>
     cursor p = cursor s \<and> byteCount p = byteCount s \<and> dataBufferSize p = dataBufferSize s \<and>
     sb \<le> inStringCursor p \<and> inStringCursor p \<le> sb + outStringByteCount s \<and>
     0 \<le> cursor s \<and> sizes_ok table s \<and> inStructAddrs p 0 = B 0 \<and>
     (\<forall>k. 1 \<le> k \<and> k < MAX_STRUCT_ARRAYS \<longrightarrow>
        inStructAddrs p k = B k + struct_size table k * outStructCount s k)"

definition room :: "tableLayout \<Rightarrow> (int \<Rightarrow> int) \<Rightarrow> int \<Rightarrow> parser_state \<Rightarrow> int set" where
  "room table B sb s =
     region sb (outStringByteCount s) \<union>
     (\<Union>k\<in>{1..<MAX_STRUCT_ARRAYS}. region (B k) (struct_size table k * outStructCount s k))"

definition lockstep ::
  "tableLayout \<Rightarrow> (int \<Rightarrow> int) \<Rightarrow> int \<Rightarrow> int set \<Rightarrow> parser_state \<Rightarrow> mem \<Rightarrow> parser_state \<Rightarrow> bool" where
  "lockstep table B sb R s' m p' \<longleftrightarrow>
     sim table B sb s' p' \<and> frame (room table B sb s' \<union> R) m (heap p')"

lemma rows_sane_sizes: "rows_sane table \<Longrightarrow> 0 \<le> struct_size table k"
  unfolding struct_size_def
  by (auto simp: rows_sane_def list_all_iff row_sane_def find_Some_iff less_imp_le split: option.splits)

lemma room_mono:
  assumes "scan_le table s s'" and "rows_sane table"
  shows "room table B sb s \<subseteq> room table B sb s'"
proof -
  have "region sb (outStringByteCount s) \<subseteq> region sb (outStringByteCount s')"
    using assms(1) by (intro region_mono) (simp add: scan_le_def)
  moreover have "region (B k) (struct_size table k * outStructCount s k)
      \<subseteq> region (B k) (struct_size table k * outStructCount s' k)" for k
    using assms(1) rows_sane_sizes [OF assms(2)]
    by (intro region_mono mult_left_mono) (auto simp: scan_le_def)
  ultimately show ?thesis unfolding room_def by (intro Un_mono UN_mono) auto
qed

lemma lockstep_trans:
  assumes "lockstep table B sb R s1 m p1" and "lockstep table B sb R s2 (heap p1) p2"
    and "scan_le table s1 s2" and "rows_sane table"
  shows "lockstep table B sb R s2 m p2"
  using assms room_mono [OF assms(3,4), of B sb] unfolding lockstep_def
  by (meson Un_mono frame_mono frame_trans order_refl)

definition col_width :: "apitype \<Rightarrow> int" where
  "col_width t = (case t of APITYPE_INT1 \<Rightarrow> 1 | APITYPE_INT4 \<Rightarrow> 4 | APITYPE_RC_INT4 \<Rightarrow> 4 | APITYPE_RS_INT4 \<Rightarrow> 4
     | APITYPE_ARRAY_STRUCT_COUNT \<Rightarrow> 4 | APITYPE_CHARBUF_COUNT \<Rightarrow> 4
     | APITYPE_C_STR_ARRAY_COUNT \<Rightarrow> 4 | APITYPE_ERROR_BUFF_LEN \<Rightarrow> 4 | _ \<Rightarrow> 8)"

definition fits :: "int \<Rightarrow> table_row \<Rightarrow> bool" where
  "fits sz r \<longleftrightarrow> 0 \<le> col_size_or_offset r \<and> col_size_or_offset r + col_width (col_type r) \<le> sz"

definition field_fits :: "tableLayout \<Rightarrow> int \<Rightarrow> int \<Rightarrow> table_row \<Rightarrow> bool" where
  "field_fits table sz idx r \<longleftrightarrow> fits sz r \<and>
     (col_type r = APITYPE_CHARBUF_LEN \<longrightarrow>
        (case table_at table (idx + 1) of
           Ok rc \<Rightarrow> col_type rc = APITYPE_CHARBUF_COUNT \<and> fits sz rc | _ \<Rightarrow> False))"

lemma fits_region:
  "fits sz r \<Longrightarrow> region (this + col_size_or_offset r) (col_width (col_type r)) \<subseteq> region this sz"
  by (auto simp: fits_def region_def)

lemma sim_step:
  assumes "sim table B sb s p" and "scan_step n s s'"
    and "cursor p' = cursor s'" and "byteCount p' = byteCount s'"
    and "dataBufferSize p' = dataBufferSize p" and "inStructAddrs p' = inStructAddrs p"
    and "inStringCursor p \<le> inStringCursor p'"
    and "inStringCursor p' - inStringCursor p \<le> outStringByteCount s' - outStringByteCount s"
  shows "sim table B sb s' p'"
  using assms by (auto simp: sim_def scan_step_def)

lemma scan_step_room:
  "scan_step n s s' \<Longrightarrow> sim table B sb s p \<Longrightarrow> inStringCursor p \<le> a \<Longrightarrow>
     a + k \<le> inStringCursor p + (outStringByteCount s' - outStringByteCount s) \<Longrightarrow>
     region a k \<subseteq> room table B sb s'"
  by (auto simp: sim_def room_def region_def scan_step_def)

lemma handleArrays_int_lockstep:
  assumes scan: "handleArrays_int data scan idx r t0 s = Ok (idx', n, s')"
    and sim: "sim table B sb s p" and fits: "fits sz r"
  shows "\<exists>p'. handleArrays_int data populate idx r this p = Ok (idx', n, p') \<and>
     lockstep table B sb (region this sz) s' (heap p) p'"
proof -
  have step: "idx' = idx" "scan_step n s s'" using handleArrays_int_scan [OF scan] by auto
  have w: "n = col_width (col_type r)" and s': "adv data n s = Ok s'"
    and t: "col_type r \<in> {APITYPE_INT1, APITYPE_INT4, APITYPE_INT8}"
    using scan by (auto simp: handleArrays_int_def Let_def res_bind_eq_Ok col_width_def
        split: apitype.splits)
  have c: "cursor p = cursor s" "byteCount p = byteCount s" "0 \<le> cursor s"
    using sim by (auto simp: sim_def)
  have b: "cursor s + n \<le> int (length data)" "s' = s\<lparr>cursor := cursor s + n\<rparr>" "0 \<le> n"
    using adv_OkD [OF s'] step by (auto simp: scan_step_def)
  define bs where "bs = take (nat n) (drop (nat (cursor s)) data)"
  define p' where "p' = (poke (this + col_size_or_offset r)
    (if n = 1 then bs else be_bytes (nat n) (get_int (nat n) bs)) p)\<lparr>cursor := cursor s + n\<rparr>"
  have bs: "buf_read data (cursor p) n = Ok bs" using c b by (simp add: buf_read_def bs_def)
  then have len: "length bs = nat n" using buf_read_OkD by fastforce
  have "handleArrays_int data populate idx r this p = Ok (idx, n, p')"
    using t bs c b w unfolding handleArrays_int_def Let_def p'_def
    by (auto simp: GET_INT_def GET_64INT_def adv_def col_width_def)
  moreover have "sim table B sb s' p'"
    by (rule sim_step [OF sim step(2)]) (auto simp: p'_def b c)
  moreover have "frame (room table B sb s' \<union> region this sz) (heap p) (heap p')"
    using fits_region [OF fits, of this] w len \<open>0 \<le> n\<close>
    by (auto simp: p'_def intro!: frame_mem_write)
  ultimately show ?thesis using step(1) by (auto simp: lockstep_def)
qed

lemma handleArrays_fixed_lockstep:
  assumes scan: "handleArrays_fixed data scan idx r t0 s = Ok (idx', n, s')"
    and sim: "sim table B sb s p" and fits: "fits sz r" and t: "col_type r = APITYPE_FIXED_STR_PTR"
    and mx: "0 \<le> col_maxsize r"
  shows "\<exists>p'. handleArrays_fixed data populate idx r this p = Ok (idx', n, p') \<and>
     lockstep table B sb (region this sz) s' (heap p) p'"
proof -
  have step: "idx' = idx" "scan_step n s s'" using handleArrays_fixed_scan [OF scan mx] by auto
  have n: "n = col_maxsize r" and b: "cursor s + n \<le> int (length data)"
    "s' = s\<lparr>byteCount := byteCount s + n, outStringByteCount := outStringByteCount s + (n + 1), cursor := cursor s + n\<rparr>"
    using scan by (auto simp: handleArrays_fixed_def Let_def res_bind_eq_Ok dest!: adv_OkD)
  have c: "cursor p = cursor s" "byteCount p = byteCount s" "0 \<le> cursor s"
    using sim by (auto simp: sim_def)
  define bs where "bs = take (nat n) (drop (nat (cursor s)) data)"
  define sc where "sc = inStringCursor p"
  define p' where "p' = (poke (sc + n) [0] (poke sc bs (poke_ptr (this + col_size_or_offset r) sc p)))
    \<lparr>cursor := cursor s + n, byteCount := byteCount s + n, inStringCursor := sc + n + 1\<rparr>"
  have bs: "buf_read data (cursor p) n = Ok bs" using c b mx n by (simp add: buf_read_def bs_def)
  then have len: "int (length bs) = n" using buf_read_OkD by fastforce
  have "handleArrays_fixed data populate idx r this p = Ok (idx, n, p')"
    using bs c b n mx unfolding handleArrays_fixed_def Let_def p'_def sc_def
    by (auto simp: adv_def poke_def)
  moreover have "sim table B sb s' p'"
    by (rule sim_step [OF sim step(2)]) (auto simp: p'_def b c sc_def n mx) 
  moreover have "frame (room table B sb s' \<union> region this sz) (heap p) (heap p')"
    using fits_region [OF fits, of this] t len n mx
      scan_step_room [OF step(2) sim, of sc n] scan_step_room [OF step(2) sim, of "sc + n" 1]
    by (auto simp: p'_def b sc_def col_width_def intro!: frame_mem_write)
  ultimately show ?thesis using step(1) by (auto simp: lockstep_def)
qed

text \<open>What a string costs in string bytes: one more than its length, if it is not empty.\<close>

lemma handleArrays_string_store_room:
  assumes sim: "sim table B sb s p" and step: "scan_step n s s'"
    and out: "outStringByteCount s + (if col_type r = APITYPE_CHARBUF_LEN then temp
        else if temp > 0 then temp + 1 else 0) \<le> outStringByteCount s'"
    and fits: "field_fits table sz idx r" and min: "0 \<le> temp" "col_type r = APITYPE_CHARBUF_LEN \<longrightarrow> 1 \<le> temp"
    and t: "col_type r \<in> {APITYPE_STRING_LEN, APITYPE_CHARBUF_LEN, APITYPE_C_STR_PTR}"
    and buf: "cursor q + (if col_type r = APITYPE_C_STR_PTR then temp + 1 else temp) \<le> int (length data)"
      "0 \<le> cursor q"
    and q: "q = p\<lparr>cursor := c\<rparr>"
  shows "\<exists>q'. handleArrays_string_store data table idx r this temp q =
      Ok (if col_type r = APITYPE_CHARBUF_LEN then idx + 1 else idx, q') \<and>
      q' = q\<lparr>inStringCursor := inStringCursor q', heap := heap q'\<rparr> \<and> inStringCursor p \<le> inStringCursor q' \<and>
      inStringCursor q' - inStringCursor p \<le> outStringByteCount s' - outStringByteCount s \<and>
      frame (room table B sb s' \<union> region this sz) (heap p) (heap q')"
proof -
  let ?A = "room table B sb s' \<union> region this sz"
  have room: "region a k \<subseteq> ?A"
    if "temp > 0" "inStringCursor p \<le> a"
      "a + k \<le> inStringCursor p + (if col_type r = APITYPE_CHARBUF_LEN then temp else temp + 1)" for a k
    using scan_step_room [OF step sim that(2), of k] that(1,3) out by (auto split: if_splits)
  have r: "region (this + col_size_or_offset r) 8 \<subseteq> ?A"
    using fits t fits_region [of sz r this] by (auto simp: field_fits_def col_width_def)
  have rc: "region (this + col_size_or_offset (table ! nat (idx + 1))) 4 \<subseteq> ?A"
    "0 \<le> idx + 1" "idx + 1 < int (length table)" if "col_type r = APITYPE_CHARBUF_LEN"
    using fits that fits_region [of sz "table ! nat (idx + 1)" this]
    by (auto simp: field_fits_def col_width_def table_at_def split: if_splits)
  show ?thesis
  proof (cases "temp > 0")
    case False
    with min t r out show ?thesis
      by (auto simp: handleArrays_string_store_def q poke_def intro!: frame_mem_write)
  next
    case True
    define w where "w = (if col_type r = APITYPE_C_STR_PTR then temp + 1 else temp)"
    define bs where "bs = take (nat w) (drop (nat (cursor q)) data)"
    have "0 \<le> w" using True by (simp add: w_def)
    then have bs: "buf_read data (cursor q) w = Ok bs"
      using buf by (simp add: buf_read_def bs_def w_def)
    have len: "int (length bs) = w" using buf_read_OkD [OF bs] by simp
    from t consider "col_type r = APITYPE_STRING_LEN" | "col_type r = APITYPE_CHARBUF_LEN"
      | "col_type r = APITYPE_C_STR_PTR" by auto
    moreover note str = room [OF True, of "inStringCursor p" w]
      room [OF True, of "inStringCursor p + temp" 1]
    ultimately show ?thesis
    proof cases
      case 1
      with True bs len r str out show ?thesis
        by (auto simp: handleArrays_string_store_def q poke_def w_def Let_def intro!: frame_mem_write)
    next
      case 2
      with True bs len r str out rc show ?thesis
        by (auto simp: handleArrays_string_store_def q poke_def w_def Let_def table_at_def
            intro!: frame_mem_write)
    next
      case 3
      with True bs len r str out show ?thesis
        by (auto simp: handleArrays_string_store_def q poke_def w_def Let_def intro!: frame_mem_write)
    qed
  qed
qed

lemma handleArrays_string_len_sim:
  assumes "handleArrays_string_len data r s = Ok (temp, n, s1)" and "cursor p = cursor s"
  shows "handleArrays_string_len data r p = Ok (temp, n, p\<lparr>cursor := cursor s1\<rparr>)"
  using assms by (auto simp: handleArrays_string_len_def GET_INT_def res_bind_eq_Ok split: if_splits)

lemma handleArrays_string_scanE:
  assumes "handleArrays_string data scan table idx r t0 s = Ok (idx', n, s')"
  obtains temp m s1 w where "handleArrays_string_len data r s = Ok (temp, m, s1)"
    "col_minsize r \<le> temp" "col_maxsize r = -1 \<or> temp \<le> col_maxsize r"
    "w = (if col_type r = APITYPE_C_STR_PTR then temp + 1 else temp)" "n = m + w"
    "idx' = (if col_type r = APITYPE_CHARBUF_LEN then idx + 1 else idx)"
    "0 \<le> cursor s1 + w" "cursor s1 + w \<le> int (length data)"
    "s' = s1\<lparr>cursor := cursor s1 + w, outStringByteCount := outStringByteCount s1 + (if temp > 0 then temp + 1 else 0)\<rparr>"
proof -
  obtain temp m s1 where 1: "handleArrays_string_len data r s = Ok (temp, m, s1)"
    "col_minsize r \<le> temp" "col_maxsize r = -1 \<or> temp \<le> col_maxsize r"
    and 2: "res_bind (adv data (if col_type r = APITYPE_C_STR_PTR then temp + 1 else temp)
        (if temp > 0 then s1\<lparr>outStringByteCount := outStringByteCount s1 + (temp + 1)\<rparr> else s1))
        (\<lambda>s. Ok (if col_type r = APITYPE_CHARBUF_LEN then idx + 1 else idx,
                 m + (if col_type r = APITYPE_C_STR_PTR then temp + 1 else temp), s))
        = Ok (idx', n, s')"
    using assms(1) by (auto simp: handleArrays_string_def res_bind_eq_Ok Let_def split: if_splits)
  show ?thesis
    by (rule that [OF 1 refl]) (use 2 in \<open>auto simp: res_bind_eq_Ok adv_def split: if_splits\<close>)
qed

lemma handleArrays_string_lockstep:
  assumes scan: "handleArrays_string data scan table idx r t0 s = Ok (idx', n, s')"
    and sim: "sim table B sb s p" and fits: "field_fits table sz idx r" and sane: "row_sane table r"
    and t: "col_type r \<in> {APITYPE_STRING_LEN, APITYPE_CHARBUF_LEN, APITYPE_C_STR_PTR}"
  shows "\<exists>p'. handleArrays_string data populate table idx r this p = Ok (idx', n, p') \<and>
     lockstep table B sb (region this sz) s' (heap p) p'"
proof -
  obtain temp m s1 w where 1: "handleArrays_string_len data r s = Ok (temp, m, s1)"
    and w: "w = (if col_type r = APITYPE_C_STR_PTR then temp + 1 else temp)" "n = m + w"
    and mm: "col_minsize r \<le> temp" "col_maxsize r = -1 \<or> temp \<le> col_maxsize r"
    and idx': "idx' = (if col_type r = APITYPE_CHARBUF_LEN then idx + 1 else idx)"
    and b: "0 \<le> cursor s1 + w" "cursor s1 + w \<le> int (length data)"
    and s': "s' = s1\<lparr>cursor := cursor s1 + w,
      outStringByteCount := outStringByteCount s1 + (if temp > 0 then temp + 1 else 0)\<rparr>"
    using scan by (rule handleArrays_string_scanE)
  have c: "cursor p = cursor s" "0 \<le> cursor s" "byteCount p = byteCount s" using sim by (auto simp: sim_def)
  have s1: "s1 = s\<lparr>cursor := cursor s + m\<rparr>" "0 \<le> m" using handleArrays_string_len_OkD [OF 1] by auto
  define q where "q = p\<lparr>cursor := cursor s1\<rparr>"
  have min: "0 \<le> temp" "col_type r = APITYPE_CHARBUF_LEN \<longrightarrow> 1 \<le> temp" "0 \<le> col_minsize r"
    using t sane mm by (auto simp: row_sane_def)
  have step: "scan_step n s s'" using handleArrays_string_scan [OF scan min(3)] by auto
  have out: "outStringByteCount s + (if col_type r = APITYPE_CHARBUF_LEN then temp
      else if temp > 0 then temp + 1 else 0) \<le> outStringByteCount s'"
    using min(1) by (simp add: s' s1)
  obtain q' where st: "handleArrays_string_store data table idx r this temp q = Ok (idx', q')"
    and q': "q' = q\<lparr>inStringCursor := inStringCursor q', heap := heap q'\<rparr>"
    and sc: "inStringCursor p \<le> inStringCursor q'"
      "inStringCursor q' - inStringCursor p \<le> outStringByteCount s' - outStringByteCount s"
    and fr: "frame (room table B sb s' \<union> region this sz) (heap p) (heap q')"
    using handleArrays_string_store_room [OF sim step out fits min(1,2) t, of q data "cursor s1" this]
      b c s1 w idx' by (auto simp: q_def s')
  have sel: "cursor q' = cursor s1" "byteCount q' = byteCount p" "dataBufferSize q' = dataBufferSize p"
    "inStructAddrs q' = inStructAddrs p"
    by (subst q', simp add: q_def)+
  define p' where "p' = q'\<lparr>cursor := cursor s1 + w\<rparr>"
  have "handleArrays_string data populate table idx r this p = Ok (idx', n, p')"
    using st mm handleArrays_string_len_sim [OF 1 c(1)] b w sel
    by (auto simp: handleArrays_string_def Let_def p'_def adv_def q_def)
  moreover have "sim table B sb s' p'"
    by (rule sim_step [OF sim step]) (use sc c sel in \<open>auto simp: p'_def s' s1\<close>)
  ultimately show ?thesis using fr by (auto simp: lockstep_def p'_def)
qed

lemma handleArrays_field_lockstep:
  assumes "handleArrays_field data scan table idx r t0 s = Ok (idx', n, s')"
    and "sim table B sb s p" and "field_fits table sz idx r" and "row_sane table r"
  shows "\<exists>p'. handleArrays_field data populate table idx r this p = Ok (idx', n, p') \<and>
     lockstep table B sb (region this sz) s' (heap p) p'"
proof -
  have "fits sz r" using assms(3) by (simp add: field_fits_def)
  with assms show ?thesis
    using handleArrays_int_lockstep [of data idx r t0 s idx' n s' table B sb p sz this]
      handleArrays_fixed_lockstep [of data idx r t0 s idx' n s' table B sb p sz this]
      handleArrays_string_lockstep [of data table idx r t0 s idx' n s' B sb p sz this]
    by (auto simp: handleArrays_field_def row_sane_def split: apitype.splits)
qed

section \<open>Arrays\<close>

definition wf_shape :: "tableLayout \<Rightarrow> int \<Rightarrow> table_row \<Rightarrow> array_shape \<Rightarrow> bool" where
  "wf_shape table sz r sh \<longleftrightarrow>
     fits sz r \<and> 0 \<le> structCounterField sh \<and> structCounterField sh + 4 \<le> sz \<and>
     1 \<le> structIndex sh \<and> structIndex sh < MAX_STRUCT_ARRAYS \<and> tableStart sh < tableMax sh \<and>
     (case table_at table (tableStart sh) of
        Ok rs \<Rightarrow> col_type rs = APITYPE_STRUCT_LEN \<or>
          col_type rs = APITYPE_NOBUFFER_STRUCT_LEN \<and> col_type r \<noteq> APITYPE_ARRAY_COUNT
      | _ \<Rightarrow> False)"

definition field_types :: "apitype list" where
  "field_types = [APITYPE_INT1, APITYPE_INT4, APITYPE_INT8, APITYPE_FIXED_STR_PTR,
     APITYPE_STRING_LEN, APITYPE_CHARBUF_LEN, APITYPE_C_STR_PTR]"

fun wf_fields :: "nat \<Rightarrow> tableLayout \<Rightarrow> int \<Rightarrow> int \<Rightarrow> int \<Rightarrow> bool" where
  "wf_fields 0 table sz idx tmax \<longleftrightarrow> tmax < idx"
| "wf_fields (Suc g) table sz idx tmax \<longleftrightarrow> tmax < idx \<or>
     (case table_at table idx of
        Ok r \<Rightarrow>
          if col_type r = APITYPE_ARRAY_LEN \<or> col_type r = APITYPE_ARRAY_COUNT then
            (case handleArrays_shape populate table idx of
               Ok sh \<Rightarrow> wf_shape table sz r sh \<and>
                 wf_fields g table (outStructSize sh) (tableStart sh + 1) (tableMax sh) \<and>
                 wf_fields g table sz (tableMax sh + 1) tmax
             | _ \<Rightarrow> False)
          else col_type r \<in> set field_types \<and> field_fits table sz idx r \<and>
            wf_fields g table sz (if col_type r = APITYPE_CHARBUF_LEN then idx + 2 else idx + 1) tmax
      | _ \<Rightarrow> False)"

definition wf_array :: "nat \<Rightarrow> tableLayout \<Rightarrow> int \<Rightarrow> table_row \<Rightarrow> array_shape \<Rightarrow> bool" where
  "wf_array g table sz r sh \<longleftrightarrow> wf_shape table sz r sh \<and> shape_of table sh \<and>
     arrayPointerOffset sh = col_size_or_offset r \<and> col_width (col_type r) = 8 \<and>
     wf_fields g table (outStructSize sh) (tableStart sh + 1) (tableMax sh)"

definition handler_lock :: "tableLayout \<Rightarrow> (int \<Rightarrow> int) \<Rightarrow> int \<Rightarrow> array_handler \<Rightarrow> bool" where
  "handler_lock table B sb h \<longleftrightarrow>
     (\<forall>data i t0 prev sz s i' s' p r sh g.
        h data scan table i t0 s = Ok (i', s') \<longrightarrow> sim table B sb s p \<longrightarrow>
        table_at table i = Ok r \<longrightarrow> handleArrays_shape populate table i = Ok sh \<longrightarrow>
        wf_array g table sz r sh \<longrightarrow>
        i' = tableMax sh \<and> (\<exists>p'. h data populate table i prev p = Ok (i', p') \<and>
          lockstep table B sb (region prev sz) s' (heap p) p'))"

definition loop_lock :: "tableLayout \<Rightarrow> (int \<Rightarrow> int) \<Rightarrow> int \<Rightarrow> array_loop \<Rightarrow> bool" where
  "loop_lock table B sb l \<longleftrightarrow>
     (\<forall>data t0 prev sz mx n s s' p r sh g.
        l data scan table (sh\<lparr>structCounterField := 0\<rparr>) t0 mx n s = Ok s' \<longrightarrow> sim table B sb s p \<longrightarrow>
        wf_array g table sz r sh \<longrightarrow>
        (\<exists>p'. l data populate table sh prev mx n p = Ok p' \<and>
          lockstep table B sb (region prev sz) s' (heap p) p'))"

definition fields_lock :: "tableLayout \<Rightarrow> (int \<Rightarrow> int) \<Rightarrow> int \<Rightarrow> field_loop \<Rightarrow> bool" where
  "fields_lock table B sb l \<longleftrightarrow>
     (\<forall>data tmax nobuf dsize t0 this sz idx sbc s n s' p g.
        l data scan table tmax nobuf dsize t0 idx sbc s = Ok (n, s') \<longrightarrow> sim table B sb s p \<longrightarrow>
        wf_fields g table sz idx tmax \<longrightarrow>
        (\<exists>p'. l data populate table tmax nobuf dsize this idx sbc p = Ok (n, p') \<and>
          lockstep table B sb (region this sz) s' (heap p) p'))"

lemma handleArrays_shape_scan:
  "handleArrays_shape scan table i = Ok sh0 \<longleftrightarrow>
     (\<exists>sh. handleArrays_shape populate table i = Ok sh \<and> sh0 = sh\<lparr>structCounterField := 0\<rparr>)"
  by (auto simp: handleArrays_shape_def res_bind_eq_Ok Let_def)

lemma handleArrays_shape_pointer:
  "handleArrays_shape mode table i = Ok sh \<Longrightarrow> table_at table i = Ok r \<Longrightarrow>
     arrayPointerOffset sh = col_size_or_offset r"
  by (auto simp: handleArrays_shape_def res_bind_eq_Ok Let_def)

lemma GET_INT_sim:
  "GET_INT data s = Ok (v, s1) \<Longrightarrow> cursor p = cursor s \<Longrightarrow>
     GET_INT data p = Ok (v, p\<lparr>cursor := cursor s + 4\<rparr>)"
  by (auto simp: GET_INT_def res_bind_eq_Ok)

lemma GET_INT_lockstep:
  assumes "GET_INT data s = Ok (v, s1)" and "sim table B sb s p"
  shows "\<exists>p1. GET_INT data p = Ok (v, p1) \<and> lockstep table B sb R s1 (heap p) p1"
  using assms GET_INT_sim [OF assms(1), of p] GET_INT_OkD [OF assms(1)]
  by (auto simp: lockstep_def sim_def)

lemma handleArrays_bytes_sim:
  assumes "handleArrays_bytes data t s = Ok (v, s1)" and "cursor p = cursor s"
    and "dataBufferSize p = dataBufferSize s" and "byteCount p = byteCount s"
  shows "handleArrays_bytes data t p = Ok (v, p\<lparr>cursor := cursor s1\<rparr>)
    \<and> s1 = s\<lparr>cursor := cursor s1\<rparr> \<and> cursor s \<le> cursor s1"
  using assms by (auto simp: handleArrays_bytes_def res_bind_eq_Ok adv_def GET_INT_def
      dest!: c_strlen_OkD split: if_splits)

lemma handleArrays_bytes_lockstep:
  assumes "handleArrays_bytes data t s = Ok (v, s1)" and "sim table B sb s p"
  shows "\<exists>p1. handleArrays_bytes data t p = Ok (v, p1) \<and> lockstep table B sb R s1 (heap p) p1"
proof -
  have "handleArrays_bytes data t p = Ok (v, p\<lparr>cursor := cursor s1\<rparr>)"
    and s1: "s1 = s\<lparr>cursor := cursor s1\<rparr>" and c: "cursor s \<le> cursor s1"
    using handleArrays_bytes_sim [OF assms(1), of p] assms(2) by (auto simp: sim_def)
  moreover have "sim table B sb s1 (p\<lparr>cursor := cursor s1\<rparr>)"
    using assms(2) c by (subst s1) (auto simp: sim_def)
  ultimately show ?thesis by (auto simp: lockstep_def)
qed

text \<open>Both handlers read a length, look up the shape and run their loop.\<close>

lemma array_call_lock:
  assumes call: "\<And>data mode i prev s r. table_at table i = Ok r \<Longrightarrow>
      h data mode table i prev s =
        res_bind (rd data r s) (\<lambda>(mx, s).
        res_bind (handleArrays_shape mode table i) (\<lambda>sh.
        res_bind (l data mode table sh prev mx 0 s) (\<lambda>s. Ok (tableMax sh, s))))"
    and rd: "\<And>data r s v s1 p R. rd data r s = Ok (v, s1) \<Longrightarrow> sim table B sb s p \<Longrightarrow>
      \<exists>p1. rd data r p = Ok (v, p1) \<and> lockstep table B sb R s1 (heap p) p1"
    and sane: "rows_sane table" and lock: "loop_lock table B sb l" and mono: "loop_mono table l"
  shows "handler_lock table B sb h"
  unfolding handler_lock_def
proof (intro allI impI)
  fix data i t0 prev sz s i' s' p r sh g
  assume run: "h data scan table i t0 s = Ok (i', s')" and sim: "sim table B sb s p"
    and r: "table_at table i = Ok r" and sh: "handleArrays_shape populate table i = Ok sh"
    and wf: "wf_array g table sz r sh"
  from run sh obtain mx s1 where b: "rd data r s = Ok (mx, s1)"
    and l: "l data scan table (sh\<lparr>structCounterField := 0\<rparr>) t0 mx 0 s1 = Ok s'" and i': "i' = tableMax sh"
    by (auto simp: call [OF r] res_bind_eq_Ok handleArrays_shape_scan)
  obtain p1 where p1: "rd data r p = Ok (mx, p1)"
    "lockstep table B sb (region prev sz) s1 (heap p) p1"
    using rd [OF b sim] by blast
  moreover have "sim table B sb s1 p1" using p1(2) by (simp add: lockstep_def)
  ultimately obtain p' where "l data populate table sh prev mx 0 p1 = Ok p'"
    "lockstep table B sb (region prev sz) s' (heap p1) p'"
    using lock l wf unfolding loop_lock_def by blast
  moreover have "scan_le table s1 s'"
    using loop_monoD [OF mono l] wf by (auto simp: wf_array_def shape_of_def)
  ultimately show "i' = tableMax sh \<and> (\<exists>p'. h data populate table i prev p = Ok (i', p') \<and>
      lockstep table B sb (region prev sz) s' (heap p) p')"
    using p1 sh i' sane lockstep_trans by (auto simp: call [OF r])
qed

lemma handleArrays_call_lock:
  "rows_sane table \<Longrightarrow> loop_lock table B sb l \<Longrightarrow> loop_mono table l \<Longrightarrow>
     handler_lock table B sb (handleArrays_call l)"
  by (rule array_call_lock [where rd = "\<lambda>data r. handleArrays_bytes data (col_type r)"])
    (auto simp: handleArrays_call_def handleArrays_bytes_lockstep simp del: table_at_Ok)

lemma handleCountedArrays_call_lock:
  "rows_sane table \<Longrightarrow> loop_lock table B sb l \<Longrightarrow> loop_mono table l \<Longrightarrow>
     handler_lock table B sb (handleCountedArrays_call l)"
  by (rule array_call_lock [where rd = "\<lambda>data r. GET_INT data"])
    (auto simp: handleCountedArrays_call_def handleCountedArrays_shape_eq GET_INT_lockstep
      simp del: table_at_Ok)

lemma handleArrays_enter_populate:
  assumes "0 \<le> k" "k < MAX_STRUCT_ARRAYS" "region (prev + a) 8 \<subseteq> A" "region (prev + c) 4 \<subseteq> A"
  shows "\<exists>p'. handleArrays_enter populate r k n a c prev p = Ok (inStructAddrs p k, p') \<and>
    cursor p' = cursor p \<and> byteCount p' = byteCount p \<and> dataBufferSize p' = dataBufferSize p \<and>
    inStringCursor p' = inStringCursor p \<and>
    inStructAddrs p' = (inStructAddrs p)(k := inStructAddrs p k + n) \<and> frame A (heap p) (heap p')"
  using assms by (auto simp: handleArrays_enter_def slot_def Let_def intro!: frame_mem_write)

lemma handleArrays_enter_lockstep:
  assumes scan: "handleArrays_enter scan rs (structIndex sh) n a c t0 s = Ok (u, s')"
    and sim: "sim table B sb s p" and wf: "wf_array g table sz r sh" and sane: "rows_sane table"
    and rs: "table_at table (tableStart sh) = Ok rs"
  shows "\<exists>this p'. handleArrays_enter populate rs (structIndex sh) (outStructSize sh)
      (arrayPointerOffset sh) (structCounterField sh) prev p = Ok (this, p') \<and>
    lockstep table B sb (region prev sz) s' (heap p) p' \<and>
    region this (outStructSize sh) \<subseteq> room table B sb s'"
proof -
  let ?k = "structIndex sh" and ?A = "room table B sb s' \<union> region prev sz"
  have k: "1 \<le> ?k" "?k < MAX_STRUCT_ARRAYS" using wf by (auto simp: wf_array_def wf_shape_def)
  have ptr: "region (prev + arrayPointerOffset sh) 8 \<subseteq> ?A"
    using wf fits_region [of sz r prev] by (auto simp: wf_array_def wf_shape_def)
  have cnt: "region (prev + structCounterField sh) 4 \<subseteq> ?A"
    using wf by (auto simp: wf_array_def wf_shape_def region_def)
  have row: "?k = col_struct_index rs" "outStructSize sh = col_size_or_offset rs" "row_sane table rs"
    "is_struct_row rs"
    using wf rs rows_saneD [OF sane rs]
    by (auto simp: wf_array_def shape_of_def wf_shape_def is_struct_row_def)
  then have sz: "outStructSize sh = struct_size table ?k" by (auto simp: row_sane_def)
  have le: "scan_le table s s'" using handleArrays_enter_scan [OF scan row(3,4,1)] .
  note s' = scan [unfolded handleArrays_enter_scan_eq]
  define this where "this = inStructAddrs p ?k"
  have adr: "this = B ?k + struct_size table ?k * outStructCount s ?k"
    using sim k by (simp add: sim_def this_def)
  obtain p' where p': "handleArrays_enter populate rs ?k (outStructSize sh) (arrayPointerOffset sh)
      (structCounterField sh) prev p = Ok (this, p')"
    and sel: "cursor p' = cursor p" "byteCount p' = byteCount p" "dataBufferSize p' = dataBufferSize p"
      "inStringCursor p' = inStringCursor p"
      "inStructAddrs p' = (inStructAddrs p)(?k := this + outStructSize sh)"
    and fr: "frame ?A (heap p) (heap p')"
    using handleArrays_enter_populate [of ?k prev "arrayPointerOffset sh" ?A] k ptr cnt
    unfolding this_def by force
  have "sim table B sb s' p'"
    using sim le k s' unfolding sim_def sel
    by (auto simp: scan_le_def adr sz algebra_simps)
  moreover have "region this (outStructSize sh) \<subseteq> room table B sb s'"
  proof -
    have "region this (outStructSize sh) \<subseteq> region (B ?k) (struct_size table ?k * outStructCount s' ?k)"
      using s' sim rows_sane_sizes [OF sane, of ?k] unfolding adr sz
      by (intro region_subset) (auto simp: sim_def sizes_ok_def algebra_simps)
    with k show ?thesis by (auto simp: room_def)
  qed
  ultimately show ?thesis using p' fr by (auto simp: lockstep_def)
qed

lemma lockstep_sub:
  "lockstep table B sb R s m p \<Longrightarrow> R \<subseteq> room table B sb s \<Longrightarrow> lockstep table B sb R' s m p"
  unfolding lockstep_def by (auto intro: frame_mono)

lemma lockstep_sim: "lockstep table B sb R s m p \<Longrightarrow> sim table B sb s p"
  by (simp add: lockstep_def)

lemma loop_lockD:
  "loop_lock table B sb l \<Longrightarrow> l data scan table (sh\<lparr>structCounterField := 0\<rparr>) t0 mx n s = Ok s' \<Longrightarrow>
     sim table B sb s p \<Longrightarrow> wf_array g table sz r sh \<Longrightarrow>
     \<exists>p'. l data populate table sh prev mx n p = Ok p' \<and>
       lockstep table B sb (region prev sz) s' (heap p) p'"
  unfolding loop_lock_def by blast

lemma fields_lockD:
  "fields_lock table B sb l \<Longrightarrow>
     l data scan table tmax nobuf dsize t0 idx sbc s = Ok (n, s') \<Longrightarrow> sim table B sb s p \<Longrightarrow>
     wf_fields g table sz idx tmax \<Longrightarrow>
     \<exists>p'. l data populate table tmax nobuf dsize this idx sbc p = Ok (n, p') \<and>
       lockstep table B sb (region this sz) s' (heap p) p'"
  unfolding fields_lock_def by blast

text \<open>One structure of an array: entering it, its fields and the rest of the array.\<close>

lemma array_struct_lock:
  assumes sane: "rows_sane table" and wf: "wf_array g table sz r sh"
    and rs: "table_at table (tableStart sh) = Ok rs"
    and enter: "handleArrays_enter scan rs (structIndex sh) n a c t0 s = Ok (u, s2)"
    and inner: "inner data scan table (tableMax sh) nb dsize u (tableStart sh + 1) 0 s2 = Ok (sbc, s3)"
    and again: "again data scan table (sh\<lparr>structCounterField := 0\<rparr>) t0 mx cnt s3 = Ok s'"
    and sim: "sim table B sb s p"
    and locks: "fields_lock table B sb inner" "loop_lock table B sb again"
    and incr: "fields_mono table inner" "loop_mono table again"
  shows "\<exists>this p2 p3 p'. handleArrays_enter populate rs (structIndex sh) (outStructSize sh)
      (arrayPointerOffset sh) (structCounterField sh) prev p = Ok (this, p2) \<and>
    inner data populate table (tableMax sh) nb dsize this (tableStart sh + 1) 0 p2 = Ok (sbc, p3) \<and>
    again data populate table sh prev mx cnt p3 = Ok p' \<and>
    lockstep table B sb (region prev sz) s' (heap p) p'"
proof -
  obtain this p2 where p2: "handleArrays_enter populate rs (structIndex sh) (outStructSize sh)
      (arrayPointerOffset sh) (structCounterField sh) prev p = Ok (this, p2)"
    "lockstep table B sb (region prev sz) s2 (heap p) p2"
    and room2: "region this (outStructSize sh) \<subseteq> room table B sb s2"
    using handleArrays_enter_lockstep [OF enter sim wf sane rs] by blast
  have le3: "scan_le table s2 s3" using fields_monoD [OF incr(1) inner] .
  have le': "scan_le table s3 s'"
    using loop_monoD [OF incr(2) again] wf by (auto simp: wf_array_def shape_of_def)
  have "wf_fields g table (outStructSize sh) (tableStart sh + 1) (tableMax sh)"
    using wf by (simp add: wf_array_def)
  then obtain p3 where p3: "inner data populate table (tableMax sh) nb dsize this (tableStart sh + 1) 0 p2
      = Ok (sbc, p3)"
    "lockstep table B sb (region this (outStructSize sh)) s3 (heap p2) p3"
    using fields_lockD [OF locks(1) inner lockstep_sim [OF p2(2)]] by blast
  have "lockstep table B sb (region prev sz) s3 (heap p2) p3"
    using lockstep_sub [OF p3(2)] room2 room_mono [OF le3 sane] by blast
  then have 3: "lockstep table B sb (region prev sz) s3 (heap p) p3"
    using lockstep_trans [OF p2(2) _ le3 sane] by blast
  obtain p' where "again data populate table sh prev mx cnt p3 = Ok p'"
    "lockstep table B sb (region prev sz) s' (heap p3) p'"
    using loop_lockD [OF locks(2) again lockstep_sim [OF 3] wf] by blast
  with p2 p3 lockstep_trans [OF 3 _ le' sane] show ?thesis by blast
qed

lemma handleArrays_struct_lock:
  assumes sane: "rows_sane table"
    and locks: "fields_lock table B sb inner" "loop_lock table B sb again"
    and incr: "fields_mono table inner" "loop_mono table again"
  shows "loop_lock table B sb (handleArrays_struct inner again)"
  unfolding loop_lock_def
proof (intro allI impI)
  fix data t0 prev sz mx n s s' p r and sh :: array_shape and g
  let ?sh = "sh\<lparr>structCounterField := 0\<rparr>"
  assume run: "handleArrays_struct inner again data scan table ?sh t0 mx n s = Ok s'"
    and sim: "sim table B sb s p" and wf: "wf_array g table sz r sh"
  let ?goal = "\<exists>p'. handleArrays_struct inner again data populate table sh prev mx n p = Ok p' \<and>
      lockstep table B sb (region prev sz) s' (heap p) p'"
  from run show ?goal
  proof (cases rule: handleArrays_structE)
    case fin
    with sim show ?thesis by (auto simp: handleArrays_struct_def lockstep_def)
  next
    case (skip rs s1)
    obtain p1 where p1: "GET_INT data p = Ok (0, p1)" "lockstep table B sb (region prev sz) s1 (heap p) p1"
      using GET_INT_lockstep [OF skip(4) sim] by blast
    obtain p' where p': "again data populate table sh prev mx n p1 = Ok p'"
      "lockstep table B sb (region prev sz) s' (heap p1) p'"
      using loop_lockD [OF locks(2) skip(5) lockstep_sim [OF p1(2)] wf] by blast
    have "scan_le table s1 s'"
      using loop_monoD [OF incr(2) skip(5)] wf by (auto simp: wf_array_def shape_of_def)
    then have "lockstep table B sb (region prev sz) s' (heap p) p'"
      using lockstep_trans [OF p1(2) p'(2) _ sane] by blast
    moreover have "handleArrays_struct inner again data populate table sh prev mx n p = Ok p'"
      using skip p1 p' by (auto simp: handleArrays_struct_def simp del: table_at_Ok)
    ultimately show ?thesis by blast
  next
    case (struct rs len s1 nb dsize this s2 sbc s3)
    obtain p1 where p1: "GET_INT data p = Ok (len, p1)" "lockstep table B sb (region prev sz) s1 (heap p) p1"
      using GET_INT_lockstep [OF struct(3) sim] by blast
    have rewind: "p1\<lparr>cursor := cursor p1 - 4\<rparr> = p" using GET_INT_OkD [OF p1(1)] by simp
    let ?q = "if nb then p else p1" and ?s = "if nb then s else s1"
    have q: "lockstep table B sb (region prev sz) ?s (heap p) ?q"
      using p1 sim by (auto simp: lockstep_def)
    have steps: "table_at table (tableStart sh) = Ok rs"
      "handleArrays_enter scan rs (structIndex sh) (outStructSize sh) (arrayPointerOffset sh) 0 t0 ?s
         = Ok (this, s2)"
      "inner data scan table (tableMax sh) nb dsize this (tableStart sh + 1) 0 s2 = Ok (sbc, s3)"
      "again data scan table ?sh t0 mx (if nb then n + sbc else n + (sbc + 4)) s3 = Ok s'"
      using struct(2,8,9,10) by (simp_all del: table_at_Ok)
    obtain this' p2 p3 p' where p': "handleArrays_enter populate rs (structIndex sh) (outStructSize sh)
        (arrayPointerOffset sh) (structCounterField sh) prev ?q = Ok (this', p2)"
      "inner data populate table (tableMax sh) nb dsize this' (tableStart sh + 1) 0 p2 = Ok (sbc, p3)"
      "again data populate table sh prev mx (if nb then n + sbc else n + (sbc + 4)) p3 = Ok p'"
      "lockstep table B sb (region prev sz) s' (heap ?q) p'"
      using array_struct_lock [OF sane wf steps lockstep_sim [OF q] locks incr, of prev] by blast
    have "heap ?q = heap p" using GET_INT_OkD [OF p1(1)] by simp
    then have "lockstep table B sb (region prev sz) s' (heap p) p'" using p'(4) by simp
    moreover have "handleArrays_struct inner again data populate table sh prev mx n p = Ok p'"
      using struct(1,2,4,5,6,7) p1 p' rewind
      by (cases nb) (auto simp: handleArrays_struct_def simp del: table_at_Ok)
    ultimately show ?thesis by blast
  qed
qed

lemma handleCountedArrays_struct_lock:
  assumes sane: "rows_sane table"
    and locks: "fields_lock table B sb inner" "loop_lock table B sb again"
    and incr: "fields_mono table inner" "loop_mono table again"
  shows "loop_lock table B sb (handleCountedArrays_struct inner again)"
  unfolding loop_lock_def
proof (intro allI impI)
  fix data t0 prev sz mx n s s' p r and sh :: array_shape and g
  let ?sh = "sh\<lparr>structCounterField := 0\<rparr>"
  assume run: "handleCountedArrays_struct inner again data scan table ?sh t0 mx n s = Ok s'"
    and sim: "sim table B sb s p" and wf: "wf_array g table sz r sh"
  let ?goal = "\<exists>p'. handleCountedArrays_struct inner again data populate table sh prev mx n p = Ok p' \<and>
      lockstep table B sb (region prev sz) s' (heap p) p'"
  from run show ?goal
  proof (cases rule: handleCountedArrays_structE)
    case fin
    with sim show ?thesis by (auto simp: handleCountedArrays_struct_def lockstep_def)
  next
    case (skip rs s1 nb)
    obtain p1 where p1: "GET_INT data p = Ok (0, p1)" "lockstep table B sb (region prev sz) s1 (heap p) p1"
      using GET_INT_lockstep [OF skip(5) sim] by blast
    have rewind: "p1\<lparr>cursor := cursor p1 - 4\<rparr> = p" using GET_INT_OkD [OF p1(1)] by simp
    let ?q = "if nb then p else p1" and ?s = "if nb then s else s1"
    have q: "lockstep table B sb (region prev sz) ?s (heap p) ?q"
      using p1 sim by (auto simp: lockstep_def)
    obtain p' where p': "again data populate table sh prev mx n ?q = Ok p'"
      "lockstep table B sb (region prev sz) s' (heap ?q) p'"
      using loop_lockD [OF locks(2) skip(6) lockstep_sim [OF q] wf] by blast
    have "heap ?q = heap p" using GET_INT_OkD [OF p1(1)] by simp
    then have "lockstep table B sb (region prev sz) s' (heap p) p'" using p'(2) by simp
    moreover have "handleCountedArrays_struct inner again data populate table sh prev mx n p = Ok p'"
      using skip p1 p' rewind
      by (cases nb) (auto simp: handleCountedArrays_struct_def simp del: table_at_Ok)
    ultimately show ?thesis by blast
  next
    case (struct rs len s1 nb this s2 sbc s3)
    obtain p1 where p1: "GET_INT data p = Ok (len, p1)" "lockstep table B sb (region prev sz) s1 (heap p) p1"
      using GET_INT_lockstep [OF struct(3) sim] by blast
    have rewind: "p1\<lparr>cursor := cursor p1 - 4\<rparr> = p" using GET_INT_OkD [OF p1(1)] by simp
    let ?q = "if nb then p else p1" and ?s = "if nb then s else s1"
    have q: "lockstep table B sb (region prev sz) ?s (heap p) ?q"
      using p1 sim by (auto simp: lockstep_def)
    have steps: "table_at table (tableStart sh) = Ok rs"
      "handleArrays_enter scan rs (structIndex sh) (outStructSize sh) (arrayPointerOffset sh) 0 t0 ?s
         = Ok (this, s2)"
      "inner data scan table (tableMax sh) nb len this (tableStart sh + 1) 0 s2 = Ok (sbc, s3)"
      "again data scan table ?sh t0 mx (n + 1) s3 = Ok s'"
      using struct(2,7,8,9) by (simp_all del: table_at_Ok)
    obtain this' p2 p3 p' where p': "handleArrays_enter populate rs (structIndex sh) (outStructSize sh)
        (arrayPointerOffset sh) (structCounterField sh) prev ?q = Ok (this', p2)"
      "inner data populate table (tableMax sh) nb len this' (tableStart sh + 1) 0 p2 = Ok (sbc, p3)"
      "again data populate table sh prev mx (n + 1) p3 = Ok p'"
      "lockstep table B sb (region prev sz) s' (heap ?q) p'"
      using array_struct_lock [OF sane wf steps lockstep_sim [OF q] locks incr, of prev] by blast
    have "heap ?q = heap p" using GET_INT_OkD [OF p1(1)] by simp
    then have "lockstep table B sb (region prev sz) s' (heap p) p'" using p'(4) by simp
    moreover have "handleCountedArrays_struct inner again data populate table sh prev mx n p = Ok p'"
      using struct(1,2,4,5,6) p1 p' rewind
      by (cases nb) (auto simp: handleCountedArrays_struct_def handleCountedArrays_enter_eq simp del: table_at_Ok)
    ultimately show ?thesis by blast
  qed
qed

lemma handler_lockD:
  "handler_lock table B sb h \<Longrightarrow> h data scan table i t0 s = Ok (i', s') \<Longrightarrow> sim table B sb s p \<Longrightarrow>
     table_at table i = Ok r \<Longrightarrow> handleArrays_shape populate table i = Ok sh \<Longrightarrow>
     wf_array g table sz r sh \<Longrightarrow>
     i' = tableMax sh \<and> (\<exists>p'. h data populate table i prev p = Ok (i', p') \<and>
       lockstep table B sb (region prev sz) s' (heap p) p')"
  unfolding handler_lock_def by blast

text \<open>What a well-formed row gives: an array with its rows, or a field.\<close>

lemma wf_fieldsE:
  assumes "wf_fields g table sz idx tmax" and "table_at table idx = Ok r" and "idx \<le> tmax"
  obtains (array) h sh where "g = Suc h" "col_type r = APITYPE_ARRAY_LEN \<or> col_type r = APITYPE_ARRAY_COUNT"
      "handleArrays_shape populate table idx = Ok sh" "wf_array h table sz r sh"
      "wf_fields h table sz (tableMax sh + 1) tmax"
  | (field) h where "g = Suc h" "col_type r \<in> set field_types" "field_fits table sz idx r"
      "wf_fields h table sz (if col_type r = APITYPE_CHARBUF_LEN then idx + 2 else idx + 1) tmax"
proof (cases g)
  case 0
  with assms show ?thesis by simp
next
  case (Suc h)
  show ?thesis
  proof (cases "col_type r = APITYPE_ARRAY_LEN \<or> col_type r = APITYPE_ARRAY_COUNT")
    case True
    with assms Suc show ?thesis
      by (intro that(1) [of h "case handleArrays_shape populate table idx of Ok sh \<Rightarrow> sh"])
        (auto simp: wf_array_def col_width_def simp del: table_at_Ok split: res.splits
          dest: handleArrays_shape_of handleArrays_shape_pointer)
  next
    case False
    with assms Suc show ?thesis by (intro that(2) [of h]) (auto simp del: table_at_Ok)
  qed
qed

lemma lock_then:
  assumes "lockstep table B sb R s1 m p1" and "rows_sane table" and "scan_le table s1 s'"
    and "\<exists>p'. run p1 = Ok (n, p') \<and> lockstep table B sb R s' (heap p1) p'"
  shows "\<exists>p'. run p1 = Ok (n, p') \<and> lockstep table B sb R s' m p'"
  using assms lockstep_trans by blast

text \<open>
  A row that is an array in a structure: the handler, then the rest of the fields.  \<open>k\<close> is the
  number of bytes the rest is given from the cursor the handler stops at.
\<close>

lemma switch_array_lock:
  assumes sane: "rows_sane table" and lock: "handler_lock table B sb h" "fields_lock table B sb again"
    and incr: "fields_mono table again"
    and h: "h data scan table idx t0 s = Ok (idx1, s1)"
    and l: "again data scan table tmax nb dsize t0 (idx1 + 1) (k (cursor s1)) s1 = Ok (n, s')"
    and sim: "sim table B sb s p" and r: "table_at table idx = Ok r"
    and sh: "handleArrays_shape populate table idx = Ok sh" "wf_array g table sz r sh"
    and wf: "wf_fields g table sz (tableMax sh + 1) tmax"
  shows "\<exists>p1 p'. h data populate table idx this p = Ok (idx1, p1) \<and>
    again data populate table tmax nb dsize this (idx1 + 1) (k (cursor p1)) p1 = Ok (n, p') \<and>
    lockstep table B sb (region this sz) s' (heap p) p'"
proof -
  obtain p1 where p1: "h data populate table idx this p = Ok (idx1, p1)" "idx1 = tableMax sh"
    "lockstep table B sb (region this sz) s1 (heap p) p1"
    using handler_lockD [OF lock(1) h sim r sh] by blast
  have sim1: "sim table B sb s1 p1" by (rule lockstep_sim [OF p1(3)])
  then have c: "cursor p1 = cursor s1" by (simp add: sim_def)
  have "scan_le table s1 s'" using fields_monoD [OF incr l] .
  moreover have "\<exists>p'. again data populate table tmax nb dsize this (idx1 + 1) (k (cursor p1)) p1 = Ok (n, p') \<and>
      lockstep table B sb (region this sz) s' (heap p1) p'"
    using fields_lockD [OF lock(2) l sim1] wf unfolding p1(2) c by blast
  ultimately have "\<exists>p'. again data populate table tmax nb dsize this (idx1 + 1) (k (cursor p1)) p1 = Ok (n, p') \<and>
      lockstep table B sb (region this sz) s' (heap p) p'"
    by (rule lock_then [OF p1(3) sane])
  with p1(1) show ?thesis by blast
qed

lemma switch_field_lock:
  assumes sane: "rows_sane table" and lock: "fields_lock table B sb again"
    and incr: "fields_mono table again"
    and f: "handleArrays_field data scan table idx r t0 s = Ok (idx1, m, s1)"
    and l: "again data scan table tmax nb dsize t0 (idx1 + 1) (sbc + m) s1 = Ok (n, s')"
    and sim: "sim table B sb s p" and r: "table_at table idx = Ok r"
    and fit: "field_fits table sz idx r"
    and wf: "wf_fields g table sz (if col_type r = APITYPE_CHARBUF_LEN then idx + 2 else idx + 1) tmax"
  shows "\<exists>p1 p'. handleArrays_field data populate table idx r this p = Ok (idx1, m, p1) \<and>
    again data populate table tmax nb dsize this (idx1 + 1) (sbc + m) p1 = Ok (n, p') \<and>
    lockstep table B sb (region this sz) s' (heap p) p'"
proof -
  have row: "row_sane table r" by (rule rows_saneD [OF sane r])
  have idx1: "wf_fields g table sz (idx1 + 1) tmax"
    using handleArrays_field_scan [OF f row] wf by (simp add: add.assoc split: if_splits)
  obtain p1 where p1: "handleArrays_field data populate table idx r this p = Ok (idx1, m, p1)"
    "lockstep table B sb (region this sz) s1 (heap p) p1"
    using handleArrays_field_lockstep [OF f sim fit row] by blast
  have "scan_le table s1 s'" using fields_monoD [OF incr l] .
  moreover have "\<exists>p'. again data populate table tmax nb dsize this (idx1 + 1) (sbc + m) p1 = Ok (n, p') \<and>
      lockstep table B sb (region this sz) s' (heap p1) p'"
    by (rule fields_lockD [OF lock l lockstep_sim [OF p1(2)] idx1])
  ultimately have "\<exists>p'. again data populate table tmax nb dsize this (idx1 + 1) (sbc + m) p1 = Ok (n, p') \<and>
      lockstep table B sb (region this sz) s' (heap p) p'"
    by (rule lock_then [OF p1(2) sane])
  with p1(1) show ?thesis by blast
qed

lemma handleArrays_switch_lock:
  assumes sane: "rows_sane table" and h: "handler_lock table B sb h" and c: "handler_lock table B sb c"
    and l: "fields_lock table B sb l" and incr: "fields_mono table l"
  shows "fields_lock table B sb (handleArrays_switch h c l)"
  unfolding fields_lock_def
proof (intro allI impI)
  fix data tmax nb dsize t0 this sz idx sbc s n s' p g
  assume run: "handleArrays_switch h c l data scan table tmax nb dsize t0 idx sbc s = Ok (n, s')"
    and sim: "sim table B sb s p" and wf: "wf_fields g table sz idx tmax"
  let ?goal = "\<exists>p'. handleArrays_switch h c l data populate table tmax nb dsize this idx sbc p = Ok (n, p') \<and>
      lockstep table B sb (region this sz) s' (heap p) p'"
  have cur: "cursor p = cursor s" using sim by (simp add: sim_def)
  show ?goal
  proof (cases "(\<not> nb \<and> sbc < dsize \<or> nb \<and> idx \<le> tmax) \<and> idx \<le> tmax")
    case False
    with run sim show ?thesis by (auto simp: handleArrays_switch_def lockstep_def split: if_splits)
  next
    case True
    then obtain r where r: "table_at table idx = Ok r"
      using run by (auto simp: handleArrays_switch_def res_bind_eq_Ok split: if_splits)
    from wf r conjunct2 [OF True] show ?thesis
    proof (cases rule: wf_fieldsE)
      case (array g' sh)
      let ?h = "if col_type r = APITYPE_ARRAY_LEN then h else c"
      obtain idx1 s1 where run': "?h data scan table idx t0 s = Ok (idx1, s1)"
        "l data scan table tmax nb dsize t0 (idx1 + 1) (sbc + 4 + (cursor s1 - (cursor s + 4))) s1 = Ok (n, s')"
        using run True r array(2) by (auto simp: handleArrays_switch_def Let_def res_bind_eq_Ok
            simp del: table_at_Ok split: if_splits)
      have lock_h: "handler_lock table B sb ?h" using h c by simp
      note step = switch_array_lock [where h = ?h and k = "\<lambda>x. sbc + 4 + (x - (cursor s + 4))",
          OF sane lock_h l incr run' sim r array(3-5), of this]
      then show ?thesis
        using True r array(2) cur
        by (auto simp: handleArrays_switch_def Let_def simp del: table_at_Ok split: if_splits)
    next
      case (field g')
      then obtain idx1 m s1 where "handleArrays_field data scan table idx r t0 s = Ok (idx1, m, s1)"
        "l data scan table tmax nb dsize t0 (idx1 + 1) (sbc + m) s1 = Ok (n, s')"
        using run True r by (auto simp: handleArrays_switch_def field_types_def Let_def res_bind_eq_Ok
            simp del: table_at_Ok split: if_splits)
      from switch_field_lock [OF sane l incr this sim r field(3,4), of this]
      show ?thesis
        using True r field(2)
        by (auto simp: handleArrays_switch_def field_types_def Let_def simp del: table_at_Ok)
    qed
  qed
qed

text \<open>Apart from \<open>APITYPE_ARRAY_LEN_C_STR\<close> rows the two copies of the loop do the same.\<close>

lemma handleCountedArrays_switch_eq:
  assumes "\<And>r. idx \<le> tmax \<Longrightarrow> table_at table idx = Ok r \<Longrightarrow> col_type r \<noteq> APITYPE_ARRAY_LEN_C_STR"
  shows "handleCountedArrays_switch h c l data mode table tmax nb dsize this idx sbc s =
    handleArrays_switch h c l data mode table tmax nb dsize this idx sbc s"
  unfolding handleCountedArrays_switch_def handleArrays_switch_def handleCountedArrays_field_eq
  using assms by (auto simp: Let_def simp del: table_at_Ok intro!: res_bind_cong)

lemma wf_fields_not_c_str:
  "wf_fields g table sz idx tmax \<Longrightarrow> idx \<le> tmax \<Longrightarrow> table_at table idx = Ok r \<Longrightarrow>
     col_type r \<noteq> APITYPE_ARRAY_LEN_C_STR"
  by (erule wf_fieldsE) (auto simp: field_types_def)

lemma handleCountedArrays_switch_lock:
  assumes "rows_sane table" "handler_lock table B sb h" "handler_lock table B sb c"
    "fields_lock table B sb l" "fields_mono table l"
  shows "fields_lock table B sb (handleCountedArrays_switch h c l)"
  using handleArrays_switch_lock [OF assms] unfolding fields_lock_def
  by (metis handleCountedArrays_switch_eq wf_fields_not_c_str)

lemma handlers_lock:
  assumes sane: "rows_sane table"
  shows "handler_lock table B sb (handleArrays f) \<and> loop_lock table B sb (handleArrays_loop f) \<and>
    fields_lock table B sb (handleArrays_fields f) \<and> handler_lock table B sb (handleCountedArrays f) \<and>
    loop_lock table B sb (handleCountedArrays_loop f) \<and> fields_lock table B sb (handleCountedArrays_fields f)"
proof (induction f)
  case 0
  show ?case
    by (simp add: handler_lock_def loop_lock_def fields_lock_def handler_equations)
next
  case (Suc f)
  then show ?case using handlers_mono [OF sane, of f]
    by (simp add: handler_equations
        handleArrays_call_lock handleArrays_struct_lock handleArrays_switch_lock
        handleCountedArrays_call_lock handleCountedArrays_struct_lock
        handleCountedArrays_switch_lock sane)
qed

end
