(* ===== verification/Smapi_Bounds.thy ===== *)
theory Smapi_Bounds
  imports Smapi_Lockstep
begin

text \<open>
  The rows of the base structure, the error buffer and the whole of \<open>parseBufferWithTable\<close>:
  what scan counts is enough for everything populate writes.
\<close>


section \<open>Scanning the base structure\<close>

text \<open>The rows of the base structure reuse the code of fields, with the byte count added.\<close>

lemma base_fixed_eq:
  "base_fixed data mode r s =
     res_bind (handleArrays_fixed data mode 0 r (inStructAddrs s 0) s) (\<lambda>(_, n, s). Ok s)"
  by (auto simp: base_fixed_def handleArrays_fixed_def base_addr_def Let_def res_bind_assoc
      intro!: res_bind_cong)

lemma sim_byteCount:
  "sim table B sb s p \<Longrightarrow> sim table B sb (s\<lparr>byteCount := byteCount s + n\<rparr>) (p\<lparr>byteCount := byteCount p + n\<rparr>)"
  by (auto simp: sim_def)

lemma room_update [simp]:
  "room table B sb (s\<lparr>byteCount := n\<rparr>) = room table B sb s"
  "room table B sb (s\<lparr>cursor := n\<rparr>) = room table B sb s"
  by (simp_all add: room_def)

lemma lockstep_byteCount:
  "lockstep table B sb R s m p \<Longrightarrow>
     lockstep table B sb R (s\<lparr>byteCount := byteCount s + n\<rparr>) m (p\<lparr>byteCount := byteCount p + n\<rparr>)"
  by (simp add: lockstep_def sim_byteCount)

lemma scan_le_byteCount:
  "scan_le table s s' \<Longrightarrow> 0 \<le> n \<Longrightarrow> scan_le table s (s'\<lparr>byteCount := byteCount s' + n\<rparr>)"
  by (auto simp: scan_le_def)

lemma sim_base: "sim table B sb s p \<Longrightarrow> inStructAddrs p 0 = B 0"
  by (simp add: sim_def)

definition base_int ::
  "byte list \<Rightarrow> tableParserModes \<Rightarrow> table_row \<Rightarrow> parser_state \<Rightarrow> parser_state res" where
  "base_int data mode r s =
     res_bind (handleArrays_int data mode 0 r (inStructAddrs s 0) s)
       (\<lambda>(_, n, s). Ok (s\<lparr>byteCount := byteCount s + n\<rparr>))"

lemma base_int1_eq:
  assumes "col_type r = APITYPE_INT1"
  shows "base_int1 data mode r s =
     base_int data mode r s"
  using assms
  by (simp add: base_int1_def base_int_def handleArrays_int_def base_addr_def Let_def res_bind_assoc split: if_splits)

lemma base_int8_eq:
  assumes "col_type r = APITYPE_INT8"
  shows "base_int8 data mode r s =
     base_int data mode r s"
  using assms
  by (auto simp: base_int8_def base_int_def handleArrays_int_def GET_64INT_def base_addr_def Let_def res_bind_assoc)

lemma base_int4_eq:
  "base_int4 ctx data mode table i r s =
     res_bind (base_int data mode (r\<lparr>col_type := APITYPE_INT4\<rparr>) s)
       (\<lambda>s. if col_type r = APITYPE_RS_INT4 then base_reason_code ctx data mode table i s else Ok s)"
  by (auto simp: base_int4_def base_int_def handleArrays_int_def GET_INT_def base_addr_def Let_def res_bind_assoc)

lemma base_int_lock:
  assumes scan: "base_int data scan r s = Ok s'" and sim: "sim table B sb s p" and fits: "fits sz r"
  shows "scan_le table s s' \<and> (\<exists>p'. base_int data populate r p = Ok p' \<and>
    lockstep table B sb (region (B 0) sz) s' (heap p) p')"
proof -
  obtain i n s1 where 1: "handleArrays_int data scan 0 r (inStructAddrs s 0) s = Ok (i, n, s1)"
    and s': "s' = s1\<lparr>byteCount := byteCount s1 + n\<rparr>"
    using scan unfolding base_int_def by (auto simp: res_bind_eq_Ok)
  have step: "scan_step n s s1" using handleArrays_int_scan [OF 1] by simp
  have "scan_le table s s'" unfolding s'
    using step scan_step_le [OF step] by (intro scan_le_byteCount) (auto simp: scan_step_def)
  moreover obtain p1 where "handleArrays_int data populate 0 r (B 0) p = Ok (i, n, p1)"
    "lockstep table B sb (region (B 0) sz) s1 (heap p) p1"
    using handleArrays_int_lockstep [OF 1 sim fits, of "B 0"] by blast
  ultimately show ?thesis
    using sim_base [OF sim] lockstep_byteCount unfolding base_int_def s' by auto
qed

lemma base_fixed_lock:
  assumes scan: "base_fixed data scan r s = Ok s'" and sim: "sim table B sb s p"
    and t: "col_type r = APITYPE_FIXED_STR_PTR" and fits: "fits sz r" and mx: "0 \<le> col_maxsize r"
  shows "scan_le table s s' \<and> (\<exists>p'. base_fixed data populate r p = Ok p' \<and>
    lockstep table B sb (region (B 0) sz) s' (heap p) p')"
proof -
  obtain i n where 1: "handleArrays_fixed data scan 0 r (inStructAddrs s 0) s = Ok (i, n, s')"
    using scan unfolding base_fixed_eq by (auto simp: res_bind_eq_Ok)
  have "scan_step n s s'" using handleArrays_fixed_scan [OF 1 mx] by simp
  moreover obtain p1 where "handleArrays_fixed data populate 0 r (B 0) p = Ok (i, n, p1)"
    "lockstep table B sb (region (B 0) sz) s' (heap p) p1"
    using handleArrays_fixed_lockstep [OF 1 sim fits t mx, of "B 0"] by blast
  ultimately show ?thesis
    using sim_base [OF sim] scan_step_le unfolding base_fixed_eq by auto
qed

text \<open>Strings: the base structure's copy accounts a character buffer without a terminator.\<close>

lemma base_string_store_eq:
  assumes "col_type r = APITYPE_CHARBUF_LEN \<longrightarrow> 0 < temp"
  shows "base_string_store data table i r temp s =
    handleArrays_string_store data table i r (inStructAddrs s 0) temp s"
  using assms by (auto simp: base_string_store_def handleArrays_string_store_def base_addr_def Let_def
      intro!: res_bind_cong)

definition base_string_len ::
  "byte list \<Rightarrow> table_row \<Rightarrow> parser_state \<Rightarrow> (int \<times> parser_state) res" where
  "base_string_len data r s =
     (if col_type r = APITYPE_C_STR_PTR
      then res_bind (c_strlen data (cursor s))
             (\<lambda>temp. Ok (temp, s\<lparr>byteCount := byteCount s + (temp + 1)\<rparr>))
      else res_bind (GET_INT data s)
             (\<lambda>(temp, s). Ok (temp, s\<lparr>byteCount := byteCount s + 4 + temp\<rparr>)))"

lemma base_string_len_OkD:
  assumes "base_string_len data r s = Ok (temp, s1)"
  shows "\<exists>m. 0 \<le> m \<and> s1 = s\<lparr>cursor := cursor s + m, byteCount := byteCount s +
      (m + (if col_type r = APITYPE_C_STR_PTR then temp + 1 else temp))\<rparr> \<and>
    (cursor p = cursor s \<longrightarrow> byteCount p = byteCount s \<longrightarrow>
      base_string_len data r p = Ok (temp, p\<lparr>cursor := cursor s1, byteCount := byteCount s1\<rparr>))"
proof (cases "col_type r = APITYPE_C_STR_PTR")
  case True
  with assms show ?thesis by (auto simp: base_string_len_def res_bind_eq_Ok intro!: exI [of _ 0])
next
  case False
  with assms show ?thesis
    by (auto simp: base_string_len_def res_bind_eq_Ok GET_INT_def add.assoc intro!: exI [of _ 4])
qed

lemma base_string_scanE:
  assumes "base_string data scan table i r s = Ok (i', s')"
  obtains temp s1 w where "base_string_len data r s = Ok (temp, s1)"
    "col_minsize r \<le> temp" "col_maxsize r = -1 \<or> temp \<le> col_maxsize r"
    "w = (if col_type r = APITYPE_C_STR_PTR then temp + 1 else temp)"
    "i' = (if col_type r = APITYPE_CHARBUF_LEN then i + 1 else i)"
    "0 \<le> cursor s1 + w" "cursor s1 + w \<le> int (length data)"
    "s' = s1\<lparr>cursor := cursor s1 + w, outStringByteCount := outStringByteCount s1 +
       ((if temp > 0 then temp + 1 else 0) - (if col_type r = APITYPE_CHARBUF_LEN then 1 else 0))\<rparr>"
proof -
  obtain temp s1 where 1: "base_string_len data r s = Ok (temp, s1)"
    "col_minsize r \<le> temp" "col_maxsize r = -1 \<or> temp \<le> col_maxsize r"
    and 2: "res_bind (let s2 = if temp > 0
              then s1\<lparr>outStringByteCount := outStringByteCount s1 + (temp + 1)\<rparr> else s1 in
          if col_type r = APITYPE_CHARBUF_LEN
          then Ok (i + 1, s2\<lparr>outStringByteCount := outStringByteCount s2 - 1\<rparr>) else Ok (i, s2))
        (\<lambda>(i, s). res_bind (adv data (if col_type r = APITYPE_C_STR_PTR then temp + 1 else temp) s)
            (\<lambda>s. Ok (i, s))) = Ok (i', s')"
    using assms unfolding base_string_def base_string_len_def [symmetric]
    by (auto simp: res_bind_eq_Ok split: if_splits)
  show ?thesis
    by (rule that [OF 1 refl]) (use 2 in \<open>auto simp: Let_def adv_def split: if_splits\<close>)
qed

lemma base_string_lock:
  assumes scan: "base_string data scan table i r s = Ok (i', s')"
    and sim: "sim table B sb s p" and fits: "field_fits table sz i r" and sane: "row_sane table r"
    and t: "col_type r \<in> {APITYPE_STRING_LEN, APITYPE_CHARBUF_LEN, APITYPE_C_STR_PTR}"
  shows "i' = (if col_type r = APITYPE_CHARBUF_LEN then i + 1 else i) \<and> scan_le table s s' \<and>
    (\<exists>p'. base_string data populate table i r p = Ok (i', p') \<and>
      lockstep table B sb (region (B 0) sz) s' (heap p) p')"
proof -
  obtain temp s1 w where 1: "base_string_len data r s = Ok (temp, s1)"
    and mm: "col_minsize r \<le> temp" "col_maxsize r = -1 \<or> temp \<le> col_maxsize r"
    and w: "w = (if col_type r = APITYPE_C_STR_PTR then temp + 1 else temp)"
    and i': "i' = (if col_type r = APITYPE_CHARBUF_LEN then i + 1 else i)"
    and b: "0 \<le> cursor s1 + w" "cursor s1 + w \<le> int (length data)"
    and s': "s' = s1\<lparr>cursor := cursor s1 + w, outStringByteCount := outStringByteCount s1 +
       ((if temp > 0 then temp + 1 else 0) - (if col_type r = APITYPE_CHARBUF_LEN then 1 else 0))\<rparr>"
    using scan by (rule base_string_scanE)
  have c: "cursor p = cursor s" "0 \<le> cursor s" "byteCount p = byteCount s" using sim by (auto simp: sim_def)
  obtain m where m: "0 \<le> m" "s1 = s\<lparr>cursor := cursor s + m, byteCount := byteCount s + (m + w)\<rparr>"
    and len: "base_string_len data r p = Ok (temp, p\<lparr>cursor := cursor s1, byteCount := byteCount s1\<rparr>)"
    using base_string_len_OkD [OF 1, of p] c w by auto
  have min: "0 \<le> temp" "col_type r = APITYPE_CHARBUF_LEN \<longrightarrow> 1 \<le> temp"
    using t sane mm by (auto simp: row_sane_def)
  have step: "scan_step (m + w) s s'"
    by (rule scan_stepI [where b = "m + w" and c = "(if temp > 0 then temp + 1 else 0) -
          (if col_type r = APITYPE_CHARBUF_LEN then 1 else 0)"]) (use m min w in \<open>auto simp: s'\<close>)
  have out: "outStringByteCount s + (if col_type r = APITYPE_CHARBUF_LEN then temp
      else if temp > 0 then temp + 1 else 0) \<le> outStringByteCount s'"
    using min by (auto simp: s' m)
  define pb where "pb = p\<lparr>byteCount := byteCount s1\<rparr>"
  define q where "q = p\<lparr>cursor := cursor s1, byteCount := byteCount s1\<rparr>"
  have q: "q = pb\<lparr>cursor := cursor s1\<rparr>" by (simp add: q_def pb_def)
  have simb: "sim table B sb (s\<lparr>byteCount := byteCount s1\<rparr>) pb" using sim by (simp add: sim_def pb_def)
  have stepb: "scan_step (m + w) (s\<lparr>byteCount := byteCount s1\<rparr>) s'"
    by (rule scan_stepI [where b = 0 and c = "(if temp > 0 then temp + 1 else 0) -
          (if col_type r = APITYPE_CHARBUF_LEN then 1 else 0)"]) (use m min w in \<open>auto simp: s'\<close>)
  obtain q' where st: "handleArrays_string_store data table i r (B 0) temp q = Ok (i', q')"
    and q': "q' = q\<lparr>inStringCursor := inStringCursor q', heap := heap q'\<rparr>"
    and sc: "inStringCursor p \<le> inStringCursor q'"
      "inStringCursor q' - inStringCursor p \<le> outStringByteCount s' - outStringByteCount s"
    and fr: "frame (room table B sb s' \<union> region (B 0) sz) (heap p) (heap q')"
    using handleArrays_string_store_room [OF simb stepb _ fits min t _ _ q, of data "B 0"]
      b c m w i' out by (auto simp: q_def pb_def)
  have sel: "cursor q' = cursor s1" "byteCount q' = byteCount s1" "dataBufferSize q' = dataBufferSize p"
    "inStructAddrs q' = inStructAddrs p"
    by (subst q', simp add: q_def)+
  define p' where "p' = q'\<lparr>cursor := cursor s1 + w\<rparr>"
  have "base_string_store data table i r temp q = Ok (i', q')"
    using base_string_store_eq [of r temp data table i q] min st sim_base [OF sim] by (auto simp: q_def)
  then have "base_string data populate table i r p = Ok (i', p')"
    using mm len b w sel unfolding base_string_def base_string_len_def [symmetric] q_def [symmetric]
    by (auto simp: p'_def adv_def)
  moreover have "sim table B sb s' p'"
    by (rule sim_step [OF sim step]) (use sc c sel in \<open>auto simp: p'_def s' m\<close>)
  ultimately show ?thesis using fr i' scan_step_le [OF step] by (auto simp: lockstep_def p'_def)
qed

section \<open>The error buffer\<close>

definition error_row :: "table_row \<Rightarrow> bool" where
  "error_row r \<longleftrightarrow> col_type r \<in> {APITYPE_ERROR_BUFF_LEN, APITYPE_ERROR_BUFF_PTR}"

definition error_ptrs :: "table_row list \<Rightarrow> nat" where
  "error_ptrs rows = length (filter (\<lambda>r. col_type r = APITYPE_ERROR_BUFF_PTR) rows)"

lemma base_error_buff_frame:
  assumes "\<exists>r\<in>set rows. col_type r = APITYPE_END_OF_TABLE"
    and "\<forall>r\<in>set rows. error_row r \<longrightarrow> fits sz r"
    and "error_ptrs rows \<le> 1" and "0 < error_ptrs rows \<longrightarrow> region (inStringCursor p) temp \<subseteq> A"
    and "region (inStructAddrs p 0) sz \<subseteq> A"
    and "0 \<le> temp" and "0 \<le> cursor p" and "cursor p + temp \<le> int (length data)"
  shows "\<exists>p'. base_error_buff data temp rows p = Ok p' \<and> byteCount p' = byteCount p \<and>
    dataBufferSize p' = dataBufferSize p \<and> cursor p' = cursor p \<and> frame A (heap p) (heap p')"
  using assms
proof (induction rows arbitrary: p)
  case Nil
  then show ?case by simp
next
  case (Cons r rows)
  have fits: "region (base_addr p r) (col_width (col_type r)) \<subseteq> A" if "error_row r"
    using that Cons.prems(2,5) fits_region [of sz r "inStructAddrs p 0"] by (auto simp: base_addr_def)
  consider "col_type r = APITYPE_END_OF_TABLE" | "col_type r = APITYPE_ERROR_BUFF_LEN"
    | "col_type r = APITYPE_ERROR_BUFF_PTR"
    | "col_type r \<noteq> APITYPE_END_OF_TABLE" "\<not> error_row r"
    by (auto simp: error_row_def)
  then show ?case
  proof cases
    case 1
    then show ?thesis by simp
  next
    case 2
    let ?q = "poke_int (base_addr p r) temp p"
    have "frame A (heap p) (heap ?q)"
      using fits 2 by (auto simp: error_row_def col_width_def intro!: frame_mem_write)
    moreover have "\<exists>p'. base_error_buff data temp rows ?q = Ok p' \<and> byteCount p' = byteCount ?q \<and>
        dataBufferSize p' = dataBufferSize ?q \<and> cursor p' = cursor ?q \<and> frame A (heap ?q) (heap p')"
      by (rule Cons.IH) (use Cons.prems 2 in \<open>auto simp: error_ptrs_def\<close>)
    ultimately show ?thesis using 2 by (auto intro: frame_trans)
  next
    case 3
    let ?sc = "inStringCursor p"
    obtain bs where bs: "buf_read data (cursor p) temp = Ok bs" "int (length bs) = temp"
      using Cons.prems(6-8) buf_read_Ok buf_read_OkD by metis
    let ?q = "(poke_ptr (base_addr p r) ?sc (poke ?sc bs p))\<lparr>inStringCursor := ?sc + temp\<rparr>"
    have "frame A (heap p) (heap ?q)"
      using fits 3 bs Cons.prems(4)
      by (auto simp: error_row_def error_ptrs_def col_width_def intro!: frame_mem_write)
    moreover have "\<exists>p'. base_error_buff data temp rows ?q = Ok p' \<and> byteCount p' = byteCount ?q \<and>
        dataBufferSize p' = dataBufferSize ?q \<and> cursor p' = cursor ?q \<and> frame A (heap ?q) (heap p')"
      by (rule Cons.IH) (use Cons.prems 3 in \<open>auto simp: error_ptrs_def\<close>)
    ultimately show ?thesis using 3 bs by (auto intro: frame_trans)
  next
    case 4
    then have "base_error_buff data temp (r # rows) p = base_error_buff data temp rows p"
      by (simp add: error_row_def)
    moreover have "\<exists>p'. base_error_buff data temp rows p = Ok p' \<and> byteCount p' = byteCount p \<and>
        dataBufferSize p' = dataBufferSize p \<and> cursor p' = cursor p \<and> frame A (heap p) (heap p')"
      by (rule Cons.IH) (use Cons.prems 4 in \<open>auto simp: error_ptrs_def error_row_def\<close>)
    ultimately show ?thesis by simp
  qed
qed

text \<open>The outcome of a row: in step, or both runs have used the whole buffer.\<close>

definition base_lock ::
  "tableLayout \<Rightarrow> (int \<Rightarrow> int) \<Rightarrow> int \<Rightarrow> int \<Rightarrow> parser_state \<Rightarrow> mem \<Rightarrow> parser_state \<Rightarrow> bool" where
  "base_lock table B sb sz s m p \<longleftrightarrow>
     frame (room table B sb s \<union> region (B 0) sz) m (heap p) \<and>
     (sim table B sb s p \<or> dataBufferSize s \<le> byteCount s \<and> dataBufferSize p \<le> byteCount p)"

lemma base_lockI: "lockstep table B sb (region (B 0) sz) s m p \<Longrightarrow> base_lock table B sb sz s m p"
  by (simp add: base_lock_def lockstep_def)

lemma base_lock_frame:
  assumes "frame (room table B sb s1 \<union> region (B 0) sz) m m1" and "base_lock table B sb sz s' m1 p'"
    and "room table B sb s1 \<subseteq> room table B sb s'"
  shows "base_lock table B sb sz s' m p'"
proof -
  have "frame (room table B sb s' \<union> region (B 0) sz) m m1"
    using assms(1) by (rule frame_mono) (use assms(3) in blast)
  with assms(2) show ?thesis unfolding base_lock_def by (blast intro: frame_trans)
qed

definition error_rows_ok :: "tableLayout \<Rightarrow> bool" where
  "error_rows_ok table \<longleftrightarrow> table \<noteq> [] \<and> col_type (last table) = APITYPE_END_OF_TABLE \<and>
     error_ptrs table \<le> 1 \<and>
     list_all (\<lambda>r. error_row r \<longrightarrow> fits (struct_size table 0) r) table"

definition error_buffer_fits :: "parser_context \<Rightarrow> parser_state \<Rightarrow> bool" where
  "error_buffer_fits ctx s \<longleftrightarrow>
     smapiReturnCode ctx = 0 \<or>
     smapiErrorBufferPossible ctx \<noteq> ERROR_OUTPUT_BUFFER_POSSIBLE_WITH_LENGTH_FIELD \<or>
     dataBufferSize s \<le> byteCount s \<or> byteCount s + 4 \<le> dataBufferSize s"

lemma error_rows_drop:
  assumes "error_rows_ok table" and "0 \<le> i" and "i < int (length table)"
  shows "\<exists>r\<in>set (drop (nat i) table). col_type r = APITYPE_END_OF_TABLE"
    and "\<forall>r\<in>set (drop (nat i) table). error_row r \<longrightarrow> fits (struct_size table 0) r"
    and "error_ptrs (drop (nat i) table) \<le> 1"
proof -
  have "drop (nat i) table \<noteq> []" using assms(2,3) by simp
  then have "last (drop (nat i) table) \<in> set (drop (nat i) table)" "last (drop (nat i) table) = last table"
    by (rule last_in_set) (use assms(2,3) in simp)
  then show "\<exists>r\<in>set (drop (nat i) table). col_type r = APITYPE_END_OF_TABLE"
    using assms(1) by (auto simp: error_rows_ok_def)
  show "\<forall>r\<in>set (drop (nat i) table). error_row r \<longrightarrow> fits (struct_size table 0) r"
    using assms(1) by (auto simp: error_rows_ok_def list_all_iff dest: in_set_dropD)
  have "error_ptrs table = error_ptrs (take (nat i) table) + error_ptrs (drop (nat i) table)"
    unfolding error_ptrs_def length_append [symmetric] filter_append [symmetric] by simp
  with assms(1) show "error_ptrs (drop (nat i) table) \<le> 1" by (simp add: error_rows_ok_def)
qed

lemma base_reason_code_lock:
  assumes scan: "base_reason_code ctx data scan table i s = Ok s'" and sim: "sim table B sb s p"
    and rows: "error_rows_ok table" "0 \<le> i" "i < int (length table)"
    and fit: "error_buffer_fits ctx s"
    and hdr: "cursor s = byteCount s" "dataBufferSize s \<le> int (length data)"
  shows "scan_le table s s' \<and> (s' = s \<or> dataBufferSize s' \<le> byteCount s') \<and>
    (\<exists>p'. base_reason_code ctx data populate table i p = Ok p' \<and>
      base_lock table B sb (struct_size table 0) s' (heap p) p')"
proof (cases "smapiReturnCode ctx \<noteq> 0 \<and>
    smapiErrorBufferPossible ctx > ERROR_OUTPUT_BUFFER_NOT_AVAILABLE \<and> byteCount s < dataBufferSize s")
  case False
  with scan sim show ?thesis by (auto simp: base_reason_code_def base_lock_def sim_def)
next
  case True
  define temp where "temp = dataBufferSize s - byteCount s"
  have s': "s' = s\<lparr>outStringByteCount := outStringByteCount s + temp, byteCount := byteCount s + temp\<rparr>"
    using scan True by (simp add: base_reason_code_def temp_def Let_def)
  have temp: "0 < temp" "cursor s + temp \<le> int (length data)" using True hdr by (auto simp: temp_def)
  have c: "cursor p = cursor s" "byteCount p = byteCount s" "dataBufferSize p = dataBufferSize s"
    "0 \<le> cursor s" "inStructAddrs p 0 = B 0" using sim by (auto simp: sim_def)
  define k where "k = (if smapiErrorBufferPossible ctx = ERROR_OUTPUT_BUFFER_POSSIBLE_WITH_LENGTH_FIELD
    then 4 else 0 :: int)"
  have k: "0 \<le> k" "k \<le> temp"
    using fit True temp by (auto simp: k_def error_buffer_fits_def temp_def)
  define q where "q = p\<lparr>cursor := cursor p + k, byteCount := byteCount p + k\<rparr>"
  let ?A = "room table B sb s' \<union> region (B 0) (struct_size table 0)"
  have "region (inStringCursor q) (temp - k) \<subseteq> ?A"
    using sim k by (auto simp: q_def s' room_def region_def sim_def)
  then obtain p1 where p1: "base_error_buff data (temp - k) (drop (nat i) table) q = Ok p1"
    "byteCount p1 = byteCount q" "dataBufferSize p1 = dataBufferSize q" "frame ?A (heap q) (heap p1)"
    using base_error_buff_frame [OF error_rows_drop [OF rows], of q "temp - k" ?A data] k temp c
    by (auto simp: q_def)
  have id: "p\<lparr>cursor := cursor s, byteCount := byteCount s\<rparr> = p" by (simp flip: c(1,2))
  have "base_reason_code ctx data populate table i p = Ok (p1\<lparr>byteCount := byteCount p1 + (temp - k)\<rparr>)"
    using True p1(1) c temp k unfolding base_reason_code_def Let_def temp_def [symmetric] q_def k_def
    by (auto simp: adv_def temp_def id split: if_splits)
  moreover have "base_lock table B sb (struct_size table 0) s' (heap p)
      (p1\<lparr>byteCount := byteCount p1 + (temp - k)\<rparr>)"
    using p1(2-4) c by (auto simp: base_lock_def q_def s' temp_def)
  moreover have "scan_le table s s'" using temp by (auto simp: s' scan_le_def)
  ultimately show ?thesis by (auto simp: s' temp_def)
qed

section \<open>The trailing array of C strings\<close>

definition wf_c_str :: "tableLayout \<Rightarrow> int \<Rightarrow> c_str_shape \<Rightarrow> bool" where
  "wf_c_str table sz sh \<longleftrightarrow>
     cStringArrayPtrIndex sh = 0 \<and> cStringCounterFieldIndex sh = 0 \<and>
     0 \<le> cStringArrayPtrOffset sh \<and> cStringArrayPtrOffset sh + 8 \<le> sz \<and>
     0 \<le> cStringCounterFieldOffset sh \<and> cStringCounterFieldOffset sh + 4 \<le> sz \<and>
     1 \<le> cStringStructIndex sh \<and> cStringStructIndex sh < MAX_STRUCT_ARRAYS \<and>
     cStringStructSize sh = struct_size table (cStringStructIndex sh) \<and>
     0 \<le> cStringFieldOffset sh \<and> cStringFieldOffset sh + 8 \<le> cStringStructSize sh"

text \<open>Populating leaves the address of the string structures alone; \<open>n\<close> of them are filled.\<close>

definition c_str_sim ::
  "tableLayout \<Rightarrow> (int \<Rightarrow> int) \<Rightarrow> int \<Rightarrow> c_str_shape \<Rightarrow> int \<Rightarrow> parser_state \<Rightarrow> parser_state \<Rightarrow> bool" where
  "c_str_sim table B sb sh n s p \<longleftrightarrow>
     cursor p = cursor s \<and> byteCount p = byteCount s \<and> dataBufferSize p = dataBufferSize s \<and>
     sb \<le> inStringCursor p \<and> inStringCursor p \<le> sb + outStringByteCount s \<and>
     0 \<le> cursor s \<and> sizes_ok table s \<and> inStructAddrs p 0 = B 0 \<and>
     inStructAddrs p (cStringStructIndex sh) + n * cStringStructSize sh =
       B (cStringStructIndex sh) + cStringStructSize sh * outStructCount s (cStringStructIndex sh)"

lemma base_c_str_scan_le:
  assumes "base_c_str_scan sh k s = Ok s'" and wf: "wf_c_str table sz sh" and "0 \<le> k"
  shows "scan_le table s s'" and "cursor s' = cursor s"
    and "outStringByteCount s' = outStringByteCount s + k" and "byteCount s' = byteCount s"
    and "outStructCount s' (cStringStructIndex sh) = outStructCount s (cStringStructIndex sh) + 1"
proof -
  let ?k = "cStringStructIndex sh"
  have s': "s' = s\<lparr>outStringByteCount := outStringByteCount s + k,
             outStructCount := (outStructCount s)(?k := outStructCount s ?k + 1),
             outStructSizes :=
               (if outStructSizes s ?k = 0 then (outStructSizes s)(?k := cStringStructSize sh)
                else outStructSizes s)\<rparr>"
    using assms(1) by (auto simp: base_c_str_scan_def res_bind_eq_Ok slot_def split: if_splits)
  have "sizes_ok table s'" if "sizes_ok table s"
    by (rule sizes_ok_count [OF that, where k = ?k and n = "cStringStructSize sh"])
      (use wf in \<open>auto simp: s' wf_c_str_def\<close>)
  then show "scan_le table s s'" using \<open>0 \<le> k\<close> by (auto simp: scan_le_def s')
  show "cursor s' = cursor s" "outStringByteCount s' = outStringByteCount s + k" "byteCount s' = byteCount s"
    "outStructCount s' ?k = outStructCount s ?k + 1"
    by (simp_all add: s')
qed

lemma base_c_str_populate_frame:
  assumes wf: "wf_c_str table sz sh" and "0 \<le> k" and "0 \<le> cursor p" "cursor p + k \<le> int (length data)"
    and "region (inStringCursor p) k \<subseteq> A" and "region (inStructAddrs p 0) sz \<subseteq> A"
    and "region (inStructAddrs p (cStringStructIndex sh) + n * cStringStructSize sh) (cStringStructSize sh) \<subseteq> A"
  shows "\<exists>p'. base_c_str_populate data sh n k p = Ok p' \<and> cursor p' = cursor p \<and>
    byteCount p' = byteCount p \<and> dataBufferSize p' = dataBufferSize p \<and>
    inStringCursor p' = inStringCursor p + k \<and> inStructAddrs p' = inStructAddrs p \<and>
    frame A (heap p) (heap p')"
proof -
  let ?k = "cStringStructIndex sh"
  obtain bs where bs: "buf_read data (cursor p) k = Ok bs" "int (length bs) = k"
    using assms(2-4) buf_read_Ok buf_read_OkD by metis
  have "region (inStructAddrs p 0 + cStringArrayPtrOffset sh) 8 \<subseteq> region (inStructAddrs p 0) sz"
    "region (inStructAddrs p 0 + cStringCounterFieldOffset sh) 4 \<subseteq> region (inStructAddrs p 0) sz"
    "region (inStructAddrs p ?k + n * cStringStructSize sh + cStringFieldOffset sh) 8
       \<subseteq> region (inStructAddrs p ?k + n * cStringStructSize sh) (cStringStructSize sh)"
    using wf by (auto simp: wf_c_str_def region_def)
  with assms(5-7) have "region (inStructAddrs p 0 + cStringArrayPtrOffset sh) 8 \<subseteq> A"
    "region (inStructAddrs p 0 + cStringCounterFieldOffset sh) 4 \<subseteq> A"
    "region (inStructAddrs p ?k + n * cStringStructSize sh + cStringFieldOffset sh) 8 \<subseteq> A"
    by blast+
  with assms(5) bs wf show ?thesis
    by (cases "n = 0") (auto simp: base_c_str_populate_def slot_def wf_c_str_def MAX_STRUCT_ARRAYS_def Let_def
        intro!: frame_mem_write)
qed

lemma base_c_str_loop_lock:
  assumes "base_c_str_loop f data scan sh n s = Ok s'" and "c_str_sim table B sb sh n s p"
    and wf: "wf_c_str table sz sh" and sane: "rows_sane table"
  shows "scan_le table s s' \<and> dataBufferSize s' \<le> byteCount s' \<and>
    (\<exists>p'. base_c_str_loop f data populate sh n p = Ok p' \<and> base_lock table B sb sz s' (heap p) p')"
  using assms(1,2)
proof (induction f arbitrary: n s p)
  case 0
  then show ?case by simp
next
  case (Suc f)
  note sim = Suc.prems(2) [unfolded c_str_sim_def]
  show ?case
  proof (cases "byteCount s < dataBufferSize s")
    case False
    with Suc.prems sim show ?thesis by (auto simp: base_lock_def)
  next
    case True
    let ?k = "cStringStructIndex sh"
    obtain l s1 s2 where l: "c_strlen data (cursor s) = Ok l" and s1: "base_c_str_scan sh (l + 1) s = Ok s1"
      and s2: "adv data (l + 1) s1 = Ok s2"
      and rest: "base_c_str_loop f data scan sh (n + 1) (s2\<lparr>byteCount := byteCount s2 + (l + 1)\<rparr>) = Ok s'"
      using Suc.prems(1) True by (auto simp: res_bind_eq_Ok Let_def)
    have l0: "0 \<le> l" "cursor s + l + 1 \<le> int (length data)" using c_strlen_OkD [OF l] by auto
    note scan1 = base_c_str_scan_le [OF s1 wf, OF add_nonneg_nonneg [OF l0(1) zero_le_one]]
    let ?A = "room table B sb s1 \<union> region (B 0) sz"
    define s3 where "s3 = s2\<lparr>byteCount := byteCount s2 + (l + 1)\<rparr>"
    have s3: "s3 = s1\<lparr>cursor := cursor s1 + (l + 1), byteCount := byteCount s1 + (l + 1)\<rparr>"
      using adv_OkD [OF s2] by (simp add: s3_def)
    have le: "scan_le table s s3" using scan1 l0 by (auto simp: s3 scan_le_def)
    have "region (inStringCursor p) (l + 1) \<subseteq> ?A"
      using sim scan1(3) by (auto simp: room_def region_def)
    moreover have "region (inStructAddrs p ?k + n * cStringStructSize sh) (cStringStructSize sh) \<subseteq> ?A"
    proof -
      have "0 \<le> outStructCount s ?k" using sizes_okD [of table s ?k] sim wf by (auto simp: wf_c_str_def)
      moreover have "0 \<le> cStringStructSize sh" using wf by (auto simp: wf_c_str_def)
      ultimately have "region (inStructAddrs p ?k + n * cStringStructSize sh) (cStringStructSize sh)
          \<subseteq> region (B ?k) (struct_size table ?k * outStructCount s1 ?k)"
        using sim wf unfolding scan1(5) by (intro region_subset) (auto simp: wf_c_str_def algebra_simps)
      then show ?thesis using wf by (auto simp: room_def wf_c_str_def)
    qed
    ultimately obtain p1 where p1: "base_c_str_populate data sh n (l + 1) p = Ok p1" "cursor p1 = cursor p"
      "byteCount p1 = byteCount p" "dataBufferSize p1 = dataBufferSize p"
      "inStringCursor p1 = inStringCursor p + (l + 1)" "inStructAddrs p1 = inStructAddrs p"
      "frame ?A (heap p) (heap p1)"
      using base_c_str_populate_frame [OF wf, of "l + 1" p data ?A n] sim l0 by auto
    define p3 where "p3 = p1\<lparr>cursor := cursor p1 + (l + 1), byteCount := byteCount p1 + (l + 1)\<rparr>"
    have "c_str_sim table B sb sh (n + 1) s3 p3"
      using sim p1 scan1 l0 le unfolding c_str_sim_def
      by (auto simp: p3_def s3 scan_le_def algebra_simps)
    from Suc.IH [OF rest [folded s3_def] this]
    obtain p' where IH: "scan_le table s3 s'" "dataBufferSize s' \<le> byteCount s'"
      "base_c_str_loop f data populate sh (n + 1) p3 = Ok p'" "base_lock table B sb sz s' (heap p3) p'"
      by blast
    have "room table B sb s1 \<subseteq> room table B sb s'" using room_mono [OF IH(1) sane, of B sb] by (simp add: s3)
    then have "base_lock table B sb sz s' (heap p) p'"
      using base_lock_frame [OF p1(7)] IH(4) by (simp add: p3_def)
    moreover have "base_c_str_loop (Suc f) data populate sh n p = Ok p'"
      using True l p1 IH(3) sim l0 by (auto simp: adv_def p3_def Let_def)
    ultimately show ?thesis using le IH(1,2) scan_le_trans by blast
  qed
qed

section \<open>Well-formed tables\<close>

text \<open>
  A walk over the rows of the base structure in the order the parser takes; \<open>hdr\<close> is true while
  only four byte integers have been passed, the part in which a reason code may stand.
\<close>

fun wf_base :: "nat \<Rightarrow> bool \<Rightarrow> tableLayout \<Rightarrow> int \<Rightarrow> int \<Rightarrow> bool" where
  "wf_base 0 hdr table sz i \<longleftrightarrow> False"
| "wf_base (Suc g) hdr table sz i \<longleftrightarrow>
     (case table_at table i of
        Ok r \<Rightarrow>
          if col_type r = APITYPE_END_OF_TABLE then True
          else if col_type r \<in> {APITYPE_INT4, APITYPE_RC_INT4}
          then fits sz r \<and> wf_base g hdr table sz (i + 1)
          else if col_type r = APITYPE_RS_INT4
          then hdr \<and> fits sz r \<and> wf_base g hdr table sz (i + 1)
          else if error_row r then wf_base g False table sz (i + 1)
          else if col_type r \<in> {APITYPE_ARRAY_LEN, APITYPE_ARRAY_LEN_C_STR,
                                APITYPE_ARRAY_NO_LENGTH, APITYPE_ARRAY_COUNT}
          then (case handleArrays_shape populate table i of
                  Ok sh \<Rightarrow> wf_shape table sz r sh \<and>
                    wf_fields g table (outStructSize sh) (tableStart sh + 1) (tableMax sh) \<and>
                    wf_base g False table sz (tableMax sh + 1)
                | _ \<Rightarrow> False)
          else if col_type r = APITYPE_C_STR_ARRAY_PTR
          then (case base_c_str_shape table i of
                  Ok sh \<Rightarrow> wf_c_str table sz sh \<and> wf_base g False table sz (i + 4)
                | _ \<Rightarrow> False)
          else col_type r \<in> set field_types \<and> field_fits table sz i r \<and>
            wf_base g False table sz (if col_type r = APITYPE_CHARBUF_LEN then i + 2 else i + 1)
      | _ \<Rightarrow> False)"

definition wf_table :: "tableLayout \<Rightarrow> bool" where
  "wf_table table \<longleftrightarrow>
     rows_sane table \<and> error_rows_ok table \<and>
     (case table of [] \<Rightarrow> False
      | r # _ \<Rightarrow> col_type r = APITYPE_BASE_STRUCT_LEN \<and> col_struct_index r = 0) \<and>
     wf_base (length table) True table (struct_size table 0) 1"

text \<open>
  The premise about the error buffer: when a length field precedes it, the four bytes of the
  length are there.
\<close>

definition error_length_present :: "parser_context \<Rightarrow> tableLayout \<Rightarrow> int \<Rightarrow> bool" where
  "error_length_present ctx table n \<longleftrightarrow>
     smapiReturnCode ctx = 0 \<or>
     smapiErrorBufferPossible ctx \<noteq> ERROR_OUTPUT_BUFFER_POSSIBLE_WITH_LENGTH_FIELD \<or>
     list_all (\<lambda>i. col_type (table ! i) = APITYPE_RS_INT4 \<longrightarrow> n \<le> 4 * int i \<or> 4 * int i + 4 \<le> n)
       [0..<length table]"

definition in_header :: "int \<Rightarrow> byte list \<Rightarrow> parser_state \<Rightarrow> bool" where
  "in_header i data s \<longleftrightarrow> cursor s = 4 * (i - 1) \<and> byteCount s = 4 * (i - 1) \<and>
     dataBufferSize s = int (length data)"

lemma error_length_present_fits:
  assumes "error_length_present ctx table (int (length data))" and "in_header (i + 1) data s"
    and "table_at table i = Ok r" and "col_type r = APITYPE_RS_INT4"
  shows "error_buffer_fits ctx s"
  using assms by (auto simp: error_length_present_def in_header_def error_buffer_fits_def list_all_iff)

definition row_outcome ::
  "byte list \<Rightarrow> tableLayout \<Rightarrow> (int \<Rightarrow> int) \<Rightarrow> int \<Rightarrow> bool \<Rightarrow> parser_state \<Rightarrow> int \<times> parser_state
     \<Rightarrow> mem \<Rightarrow> (int \<times> parser_state) res \<Rightarrow> bool" where
  "row_outcome data table B sb hdr s q m res \<longleftrightarrow>
     (case q of (i', s') \<Rightarrow> scan_le table s s' \<and>
        (\<exists>p' g' hdr'. res = Ok (i', p') \<and> base_lock table B sb (struct_size table 0) s' m p' \<and>
          (dataBufferSize s' \<le> byteCount s' \<or>
           wf_base g' hdr' table (struct_size table 0) (i' + 1) \<and> (hdr' \<longrightarrow> in_header (i' + 1) data s'))))"

lemma row_outcomeI:
  assumes "scan_le table s s'" and "res = Ok (i', p')"
    and "lockstep table B sb (region (B 0) (struct_size table 0)) s' m p'"
    and "wf_base g' hdr' table (struct_size table 0) (i' + 1)" and "hdr' \<longrightarrow> in_header (i' + 1) data s'"
  shows "row_outcome data table B sb hdr s (i', s') m res"
  using assms base_lockI unfolding row_outcome_def by (simp, blast)

lemma base_row_int4_lock:
  assumes run: "base_int4 ctx data scan table i r s = Ok s'" and sim: "sim table B sb s p"
    and r: "table_at table i = Ok r" "fits (struct_size table 0) r"
    and t: "col_type r \<in> {APITYPE_INT4, APITYPE_RC_INT4, APITYPE_RS_INT4}"
    and tab: "error_rows_ok table" "error_length_present ctx table (int (length data))" "rows_sane table"
    and hdr: "hdr \<longrightarrow> in_header i data s" "col_type r = APITYPE_RS_INT4 \<longrightarrow> hdr"
    and wf: "wf_base g hdr table (struct_size table 0) (i + 1)"
  shows "row_outcome data table B sb hdr s (i, s') (heap p)
    (res_bind (base_int4 ctx data populate table i r p) (\<lambda>p. Ok (i, p)))"
proof -
  let ?r = "r\<lparr>col_type := APITYPE_INT4\<rparr>" and ?sz = "struct_size table 0"
  have fits: "fits ?sz ?r" using r(2) t by (auto simp: fits_def col_width_def)
  obtain s1 where s1: "base_int data scan ?r s = Ok s1"
    and s': "(if col_type r = APITYPE_RS_INT4 then base_reason_code ctx data scan table i s1 else Ok s1) = Ok s'"
    using run unfolding base_int4_eq by (auto simp: res_bind_eq_Ok)
  from base_int_lock [OF s1 sim fits] obtain p1 where le1: "scan_le table s s1"
    and p1: "base_int data populate ?r p = Ok p1" "lockstep table B sb (region (B 0) ?sz) s1 (heap p) p1"
    by blast
  have eq1: "s1 = s\<lparr>cursor := cursor s + 4, byteCount := byteCount s + 4\<rparr>"
    using s1 by (auto simp: base_int_def handleArrays_int_def res_bind_eq_Ok dest!: adv_OkD)
  have hdr1: "hdr \<longrightarrow> in_header (i + 1) data s1" using hdr(1) by (auto simp: eq1 in_header_def)
  show ?thesis
  proof (cases "col_type r = APITYPE_RS_INT4")
    case False
    show ?thesis
      by (rule row_outcomeI [where p' = p1, OF _ _ _ wf]) (use False s' le1 p1 hdr1 in \<open>auto simp: base_int4_eq\<close>)
  next
    case True
    have in1: "in_header (i + 1) data s1" using True hdr(2) hdr1 by simp
    have "error_buffer_fits ctx s1" by (rule error_length_present_fits [OF tab(2) in1 r(1) True])
    moreover have "cursor s1 = byteCount s1" "dataBufferSize s1 \<le> int (length data)"
      using in1 by (auto simp: in_header_def)
    ultimately obtain p2 where p2: "scan_le table s1 s'" "s' = s1 \<or> dataBufferSize s' \<le> byteCount s'"
      "base_reason_code ctx data populate table i p1 = Ok p2" "base_lock table B sb ?sz s' (heap p1) p2"
      using base_reason_code_lock [OF _ lockstep_sim [OF p1(2)] tab(1), of ctx data i s'] s' True r(1) by auto
    have "frame (room table B sb s1 \<union> region (B 0) ?sz) (heap p) (heap p1)"
      using p1(2) by (simp add: lockstep_def)
    then have "base_lock table B sb ?sz s' (heap p) p2"
      using p2(4) room_mono [OF p2(1) tab(3)] by (rule base_lock_frame)
    then show ?thesis
      using p1(1) p2(1-3) True le1 scan_le_trans wf in1 unfolding row_outcome_def base_int4_eq
      by (auto simp: in1 intro: scan_le_trans)
  qed
qed

text \<open>The same for the other rows of the base structure.\<close>

lemma base_row_field_lock:
  assumes run: "base_row f ctx data scan table i r b0 s = Ok (i', s')" and sim: "sim table B sb s p"
    and r: "table_at table i = Ok r" "field_fits table (struct_size table 0) i r"
    and t: "col_type r \<in> set field_types - {APITYPE_INT4}" and sane: "rows_sane table"
    and wf: "wf_base g False table (struct_size table 0) (if col_type r = APITYPE_CHARBUF_LEN then i + 2 else i + 1)"
  shows "row_outcome data table B sb hdr s (i', s') (heap p)
    (base_row f ctx data populate table i r (B 0) p)"
proof -
  let ?R = "region (B 0) (struct_size table 0)"
  have row: "row_sane table r" and fits: "fits (struct_size table 0) r"
    using rows_saneD [OF sane r(1)] r(2) by (auto simp: field_fits_def)
  have "i' = (if col_type r = APITYPE_CHARBUF_LEN then i + 1 else i) \<and> scan_le table s s' \<and>
     (\<exists>p'. base_row f ctx data populate table i r (B 0) p = Ok (i', p') \<and> lockstep table B sb ?R s' (heap p) p')"
  proof (cases "col_type r \<in> {APITYPE_STRING_LEN, APITYPE_CHARBUF_LEN, APITYPE_C_STR_PTR}")
    case True
    then have "base_row f ctx data mode table i r b s = base_string data mode table i r s" for mode b s
      by (auto simp: base_row_def)
    with base_string_lock [OF _ sim r(2) row True] run show ?thesis by simp
  next
    case False
    then consider "col_type r = APITYPE_INT1" | "col_type r = APITYPE_INT8" | "col_type r = APITYPE_FIXED_STR_PTR"
      using t by (auto simp: field_types_def)
    then show ?thesis
    proof cases
      case 1
      then show ?thesis using run base_int_lock [OF _ sim fits, of data s']
        by (auto simp: base_row_def base_int1_eq res_bind_eq_Ok)
    next
      case 2
      then show ?thesis using run base_int_lock [OF _ sim fits, of data s']
        by (auto simp: base_row_def base_int8_eq res_bind_eq_Ok)
    next
      case 3
      then show ?thesis using run base_fixed_lock [OF _ sim _ fits, of data s'] row
        by (auto simp: base_row_def row_sane_def res_bind_eq_Ok)
    qed
  qed
  then obtain p' where "i' = (if col_type r = APITYPE_CHARBUF_LEN then i + 1 else i)" "scan_le table s s'"
    "base_row f ctx data populate table i r (B 0) p = Ok (i', p')" "lockstep table B sb ?R s' (heap p) p'"
    by blast
  with wf show ?thesis
    by (intro row_outcomeI [where p' = p' and hdr' = False and g' = g]) (auto simp: add.assoc split: if_splits)
qed

lemma base_row_array_lock:
  assumes run: "base_row f ctx data scan table i r b0 s = Ok (i', s')" and sim: "sim table B sb s p"
    and r: "table_at table i = Ok r"
    and t: "col_type r \<in> {APITYPE_ARRAY_LEN, APITYPE_ARRAY_LEN_C_STR, APITYPE_ARRAY_NO_LENGTH, APITYPE_ARRAY_COUNT}"
    and sane: "rows_sane table"
    and sh: "handleArrays_shape populate table i = Ok sh" "wf_shape table (struct_size table 0) r sh"
      "wf_fields g table (outStructSize sh) (tableStart sh + 1) (tableMax sh)"
    and wf: "wf_base g False table (struct_size table 0) (tableMax sh + 1)"
  shows "row_outcome data table B sb hdr s (i', s') (heap p)
    (base_row f ctx data populate table i r (B 0) p)"
proof -
  let ?R = "region (B 0) (struct_size table 0)"
  define h where "h = (if col_type r = APITYPE_ARRAY_COUNT then handleCountedArrays f else handleArrays f)"
  have eq: "base_row f ctx data mode table i r b s = h data mode table i b s" for mode b s
    using t by (auto simp: base_row_def h_def)
  have lock: "handler_lock table B sb h" and mono: "handler_mono table h"
    using handlers_lock [OF sane, of B sb f] handlers_mono [OF sane, of f] by (auto simp: h_def)
  have "wf_array g table (struct_size table 0) r sh"
    using sh t handleArrays_shape_of [OF sh(1)] handleArrays_shape_pointer [OF sh(1) r]
    by (auto simp: wf_array_def col_width_def)
  then obtain p' where "i' = tableMax sh" "h data populate table i (B 0) p = Ok (i', p')"
    "lockstep table B sb ?R s' (heap p) p'"
    using handler_lockD [OF lock _ sim r sh(1), of data b0 i' s'] run unfolding eq by blast
  moreover have "scan_le table s s'" using handler_monoD [OF mono] run unfolding eq by blast
  ultimately show ?thesis
    using wf by (intro row_outcomeI [where p' = p' and hdr' = False and g' = g]) (auto simp: eq)
qed

lemma base_row_c_str_lock:
  assumes run: "base_row f ctx data scan table i r b0 s = Ok (i', s')" and sim: "sim table B sb s p"
    and t: "col_type r = APITYPE_C_STR_ARRAY_PTR" and sane: "rows_sane table"
    and sh: "base_c_str_shape table i = Ok sh" "wf_c_str table (struct_size table 0) sh"
  shows "row_outcome data table B sb hdr s (i', s') (heap p)
    (base_row f ctx data populate table i r (B 0) p)"
proof -
  have "c_str_sim table B sb sh 0 s p" using sim sh(2) by (auto simp: c_str_sim_def sim_def wf_c_str_def)
  moreover have "base_c_str_loop f data scan sh 0 s = Ok s'"
    using run t sh(1) by (auto simp: base_row_def res_bind_eq_Ok)
  ultimately show ?thesis
    using base_c_str_loop_lock [OF _ _ sh(2) sane, of f data 0 s s' B sb p] run t sh(1)
    by (auto simp: base_row_def row_outcome_def res_bind_eq_Ok)
qed

lemma base_row_lock:
  assumes run: "base_row f ctx data scan table i r b0 s = Ok (i', s')" and sim: "sim table B sb s p"
    and r: "table_at table i = Ok r" "col_type r \<noteq> APITYPE_END_OF_TABLE"
    and tab: "error_rows_ok table" "error_length_present ctx table (int (length data))" "rows_sane table"
    and wf: "wf_base g hdr table (struct_size table 0) i" "hdr \<longrightarrow> in_header i data s"
  shows "row_outcome data table B sb hdr s (i', s') (heap p)
    (base_row f ctx data populate table i r (B 0) p)"
proof -
  obtain g' where g: "g = Suc g'" using wf(1) by (cases g) auto
  consider (int4) "col_type r \<in> {APITYPE_INT4, APITYPE_RC_INT4, APITYPE_RS_INT4}"
    | (error) "error_row r"
    | (array) "col_type r \<in> {APITYPE_ARRAY_LEN, APITYPE_ARRAY_LEN_C_STR, APITYPE_ARRAY_NO_LENGTH, APITYPE_ARRAY_COUNT}"
    | (c_str) "col_type r = APITYPE_C_STR_ARRAY_PTR"
    | (field) "col_type r \<in> set field_types - {APITYPE_INT4}"
    using wf(1) r unfolding g by (auto simp del: table_at_Ok split: if_splits)
  then show ?thesis
  proof cases
    case int4
    have eq: "base_row f ctx data mode table i r b s =
        res_bind (base_int4 ctx data mode table i r s) (\<lambda>s. Ok (i, s))" for mode b s
      using int4 by (auto simp: base_row_def)
    have "fits (struct_size table 0) r" "wf_base g' hdr table (struct_size table 0) (i + 1)"
      "col_type r = APITYPE_RS_INT4 \<longrightarrow> hdr"
      using wf(1) r(1) int4 unfolding g by (auto simp del: table_at_Ok)
    then show ?thesis
      using base_row_int4_lock [OF _ sim r(1) _ int4 tab wf(2)] run
      unfolding eq by (auto simp: res_bind_eq_Ok)
  next
    case error
    then have "base_row f ctx data mode table i r b s = Ok (i, s)" for mode b s
      by (auto simp: error_row_def base_row_def)
    then show ?thesis
      using run wf(1) r error sim unfolding g
      by (intro row_outcomeI [where p' = p and hdr' = False and g' = g'])
        (auto simp: lockstep_def error_row_def simp del: table_at_Ok)
  next
    case array
    then obtain sh where "handleArrays_shape populate table i = Ok sh" "wf_shape table (struct_size table 0) r sh"
      "wf_fields g' table (outStructSize sh) (tableStart sh + 1) (tableMax sh)"
      "wf_base g' False table (struct_size table 0) (tableMax sh + 1)"
      using wf(1) r(1) unfolding g by (auto simp: error_row_def simp del: table_at_Ok split: res.splits)
    then show ?thesis by (rule base_row_array_lock [OF run sim r(1) array tab(3)])
  next
    case c_str
    then obtain sh where "base_c_str_shape table i = Ok sh" "wf_c_str table (struct_size table 0) sh"
      using wf(1) r(1) unfolding g by (auto simp: error_row_def simp del: table_at_Ok split: res.splits)
    then show ?thesis by (rule base_row_c_str_lock [OF run sim c_str tab(3)])
  next
    case field
    then have "field_fits table (struct_size table 0) i r"
      "wf_base g' False table (struct_size table 0) (if col_type r = APITYPE_CHARBUF_LEN then i + 2 else i + 1)"
      using wf(1) r unfolding g
      by (auto simp: error_row_def field_types_def simp del: table_at_Ok)
    then show ?thesis using base_row_field_lock [OF run sim r(1) _ field tab(3)] by blast
  qed
qed

lemma parse_rows_lock:
  assumes "parse_rows f ctx data scan table b0 i s = Ok s'" and "sim table B sb s p"
    and tab: "error_rows_ok table" "error_length_present ctx table (int (length data))" "rows_sane table"
    and "wf_base g hdr table (struct_size table 0) i" and "hdr \<longrightarrow> in_header i data s"
  shows "scan_le table s s' \<and> (\<exists>p'. parse_rows f ctx data populate table (B 0) i p = Ok p' \<and>
    base_lock table B sb (struct_size table 0) s' (heap p) p')"
  using assms(1,2,6,7)
proof (induction f arbitrary: i s p g hdr)
  case 0
  then show ?case by simp
next
  case (Suc f)
  note sim = Suc.prems(2)
  have eqs: "byteCount p = byteCount s" "dataBufferSize p = dataBufferSize s" using sim by (auto simp: sim_def)
  obtain r where r: "table_at table i = Ok r" using Suc.prems(1) by (auto simp: res_bind_eq_Ok)
  show ?case
  proof (cases "col_type r \<noteq> APITYPE_END_OF_TABLE \<and> byteCount s < dataBufferSize s")
    case False
    with Suc.prems(1) r sim eqs have "s' = s" "parse_rows (Suc f) ctx data populate table (B 0) i p = Ok p"
      by (auto simp del: table_at_Ok split: if_splits)
    then show ?thesis using sim by (auto simp: base_lock_def)
  next
    case True
    then obtain i1 s1 where row: "base_row f ctx data scan table i r b0 s = Ok (i1, s1)"
      and rest: "(if dataBufferSize s1 \<le> byteCount s1 then Ok s1
                 else parse_rows f ctx data scan table b0 (i1 + 1) s1) = Ok s'"
      using Suc.prems(1) r by (auto simp: res_bind_eq_Ok simp del: table_at_Ok)
    from base_row_lock [OF row sim r conjunct1 [OF True] tab Suc.prems(3,4)]
    obtain p1 g1 hdr1 where le1: "scan_le table s s1"
      and p1: "base_row f ctx data populate table i r (B 0) p = Ok (i1, p1)"
        "base_lock table B sb (struct_size table 0) s1 (heap p) p1"
      and next1: "dataBufferSize s1 \<le> byteCount s1 \<or>
        wf_base g1 hdr1 table (struct_size table 0) (i1 + 1) \<and> (hdr1 \<longrightarrow> in_header (i1 + 1) data s1)"
      by (auto simp: row_outcome_def)
    show ?thesis
    proof (cases "dataBufferSize s1 \<le> byteCount s1")
      case stop: True
      then have "dataBufferSize p1 \<le> byteCount p1"
        using p1(2) by (auto simp: base_lock_def sim_def)
      with True r p1 stop rest le1 eqs show ?thesis by (auto simp del: table_at_Ok)
    next
      case go: False
      then have sim1: "sim table B sb s1 p1" using p1(2) by (auto simp: base_lock_def)
      then have "\<not> dataBufferSize p1 \<le> byteCount p1" using go by (auto simp: sim_def)
      moreover obtain p' where p': "scan_le table s1 s'" "parse_rows f ctx data populate table (B 0) (i1 + 1) p1 = Ok p'"
        "base_lock table B sb (struct_size table 0) s' (heap p1) p'"
        using Suc.IH [OF _ sim1, of "i1 + 1" g1 hdr1] go rest next1 by auto
      moreover have "base_lock table B sb (struct_size table 0) s' (heap p) p'"
        using p1(2) p'(3) room_mono [OF p'(1) tab(3)] base_lock_frame by (auto simp: base_lock_def)
      ultimately show ?thesis
        using True r p1 le1 eqs scan_le_trans [OF le1 p'(1)] by (auto simp del: table_at_Ok)
    qed
  qed
qed

end
