(* ===== verification/Smapi_Termination.thy ===== *)
theory Smapi_Termination
  imports Smapi_Bounds
begin

text \<open>
  How a scan of a well-formed table can end.  A read outside the response buffer (\<open>Fault\<close>) and a
  string whose length the table forbids are the only ways not to return the counts: the parser
  never rejects the table and its loops end, with fuel linear in the response and the table.
\<close>


section \<open>Outcomes of a scan of a well-formed table\<close>

definition regular :: "'a res \<Rightarrow> bool" where
  "regular m \<longleftrightarrow> m = Fault \<or> m = Err PARSER_ERROR_INVALID_STRING_SIZE \<or> (\<exists>x. m = Ok x)"

lemma regular_simps [simp]:
  "regular (Ok x)" "regular Fault" "regular (Err PARSER_ERROR_INVALID_STRING_SIZE)" "\<not> regular NoFuel"
  by (auto simp: regular_def)

lemma regular_bind:
  "regular m \<Longrightarrow> (\<And>x. m = Ok x \<Longrightarrow> regular (f x)) \<Longrightarrow> regular (res_bind m f)"
  by (auto simp: regular_def)

lemma regular_prims [simp]:
  "regular (buf_read data c n)" "regular (c_strlen data c)" "regular (adv data n s)"
  "regular (GET_INT data s)" "regular (GET_64INT data s)" "regular (table_at table i)" "regular (slot k)"
  by (simp_all add: buf_read_def c_strlen_def adv_def GET_INT_def GET_64INT_def table_at_def slot_def Let_def)

definition in_buffer :: "byte list \<Rightarrow> parser_state \<Rightarrow> bool" where
  "in_buffer data s \<longleftrightarrow> 0 \<le> cursor s \<and> cursor s \<le> int (length data)"

lemma handleArrays_field_regular:
  assumes "col_type r \<in> set field_types"
  shows "regular (handleArrays_field data scan table idx r this s)"
proof -
  have "regular (handleArrays_int data scan idx r this s)"
    if "col_type r \<in> {APITYPE_INT1, APITYPE_INT4, APITYPE_INT8}"
    using that by (auto simp: handleArrays_int_def intro!: regular_bind)
  moreover have "regular (handleArrays_fixed data scan idx r this s)"
    by (auto simp: handleArrays_fixed_def Let_def intro!: regular_bind)
  moreover have "regular (handleArrays_string data scan table idx r this s)"
    by (auto simp: handleArrays_string_def handleArrays_string_len_def Let_def split: if_splits
        intro!: regular_bind)
  ultimately show ?thesis
    using assms by (auto simp: handleArrays_field_def field_types_def)
qed

lemma handleArrays_field_progress:
  assumes "handleArrays_field data scan table idx r this s = Ok (idx', n, s')"
    and "row_sane table r" and "in_buffer data s"
  shows "in_buffer data s' \<and> cursor s < cursor s'"
proof -
  have c: "cursor s' = cursor s + n" using handleArrays_field_scan [OF assms(1,2)] scan_step_le by blast
  have "1 \<le> n \<and> cursor s' \<le> int (length data)"
  proof (cases "col_type r \<in> {APITYPE_STRING_LEN, APITYPE_CHARBUF_LEN, APITYPE_C_STR_PTR}")
    case True
    then have "handleArrays_string data scan table idx r this s = Ok (idx', n, s')"
      using assms(1) by (auto simp: handleArrays_field_def)
    then show ?thesis
      by (rule handleArrays_string_scanE)
        (use True assms(2) in \<open>auto simp: row_sane_def handleArrays_string_len_def res_bind_eq_Ok split: if_splits\<close>)
  next
    case False
    then show ?thesis
      using assms(1,2) by (auto simp: handleArrays_field_def handleArrays_int_def handleArrays_fixed_def
          row_sane_def res_bind_eq_Ok Let_def dest!: adv_OkD split: apitype.splits)
  qed
  with c assms(3) show ?thesis by (auto simp: in_buffer_def)
qed

text \<open>
  Fuel that is enough: the bytes left, and three times the rows left.  A round of an array loop
  uses up a byte, a row of a structure uses up a row.
\<close>

definition work :: "byte list \<Rightarrow> tableLayout \<Rightarrow> int \<Rightarrow> parser_state \<Rightarrow> int" where
  "work data table i s = (int (length data) - cursor s) + 3 * (int (length table) - i)"

definition handler_ends :: "tableLayout \<Rightarrow> nat \<Rightarrow> bool \<Rightarrow> array_handler \<Rightarrow> bool" where
  "handler_ends table f cnt h \<longleftrightarrow>
     (\<forall>data i t0 s r sh g sz. in_buffer data s \<longrightarrow> table_at table i = Ok r \<longrightarrow>
        handleArrays_shape populate table i = Ok sh \<longrightarrow> wf_array g table sz r sh \<longrightarrow>
        (cnt \<longrightarrow> col_type r = APITYPE_ARRAY_COUNT) \<longrightarrow> work data table i s + 1 < int f \<longrightarrow>
        regular (h data scan table i t0 s) \<and>
        (\<forall>i' s'. h data scan table i t0 s = Ok (i', s') \<longrightarrow> i' = tableMax sh \<and> in_buffer data s' \<and>
          (cnt \<or> col_type r = APITYPE_ARRAY_LEN \<longrightarrow> cursor s < cursor s')))"

definition loop_ends :: "tableLayout \<Rightarrow> nat \<Rightarrow> bool \<Rightarrow> array_loop \<Rightarrow> bool" where
  "loop_ends table f cnt l \<longleftrightarrow>
     (\<forall>data i t0 mx n s r sh g sz. in_buffer data s \<longrightarrow> 0 \<le> i \<longrightarrow> i < tableStart sh \<longrightarrow>
        tableMax sh < int (length table) \<longrightarrow> wf_array g table sz r sh \<longrightarrow> (cnt \<longrightarrow> col_type r = APITYPE_ARRAY_COUNT) \<longrightarrow>
        work data table i s < int f \<longrightarrow>
        regular (l data scan table (sh\<lparr>structCounterField := 0\<rparr>) t0 mx n s) \<and>
        (\<forall>s'. l data scan table (sh\<lparr>structCounterField := 0\<rparr>) t0 mx n s = Ok s' \<longrightarrow> in_buffer data s'))"

definition fields_ends :: "tableLayout \<Rightarrow> nat \<Rightarrow> field_loop \<Rightarrow> bool" where
  "fields_ends table f l \<longleftrightarrow>
     (\<forall>data tmax nb dsize t0 idx sbc s g sz. in_buffer data s \<longrightarrow> wf_fields g table sz idx tmax \<longrightarrow>
        0 \<le> idx \<longrightarrow> tmax < int (length table) \<longrightarrow> 0 < f \<longrightarrow> work data table idx s + 2 < int f \<longrightarrow>
        regular (l data scan table tmax nb dsize t0 idx sbc s) \<and>
        (\<forall>n s'. l data scan table tmax nb dsize t0 idx sbc s = Ok (n, s') \<longrightarrow> in_buffer data s' \<and>
          (nb \<and> idx \<le> tmax \<longrightarrow> cursor s < cursor s')))"

lemma handleArrays_shape_bounds:
  assumes "handleArrays_shape mode table i = Ok sh"
  shows "0 \<le> i \<and> i < tableStart sh \<and> tableStart sh \<le> tableMax sh \<and> tableMax sh + 1 < int (length table)"
  using assms by (auto simp: handleArrays_shape_def tableMaxIndex_def res_bind_eq_Ok Let_def split: if_splits)

lemma handler_endsD:
  assumes "handler_ends table f cnt h" and "in_buffer data s" and "table_at table i = Ok r"
    and "handleArrays_shape populate table i = Ok sh" and "wf_array g table sz r sh"
    and "cnt \<longrightarrow> col_type r = APITYPE_ARRAY_COUNT" and "work data table i s + 1 < int f"
  shows "regular (h data scan table i t0 s)"
    and "h data scan table i t0 s = Ok (i', s') \<Longrightarrow> i' = tableMax sh \<and> in_buffer data s' \<and>
      (cnt \<or> col_type r = APITYPE_ARRAY_LEN \<longrightarrow> cursor s < cursor s')"
  using assms unfolding handler_ends_def by blast+

lemma loop_endsD:
  assumes "loop_ends table f cnt l" and "in_buffer data s" and "0 \<le> i" and "i < tableStart sh"
    and "tableMax sh < int (length table)" and "wf_array g table sz r sh"
    and "cnt \<longrightarrow> col_type r = APITYPE_ARRAY_COUNT" and "work data table i s < int f"
  shows "regular (l data scan table (sh\<lparr>structCounterField := 0\<rparr>) t0 mx n s)"
    and "l data scan table (sh\<lparr>structCounterField := 0\<rparr>) t0 mx n s = Ok s' \<Longrightarrow> in_buffer data s'"
  using assms unfolding loop_ends_def by blast+

lemma fields_endsD:
  assumes "fields_ends table f l" and "in_buffer data s" and "wf_fields g table sz idx tmax"
    and "0 \<le> idx" and "tmax < int (length table)" and "0 < f" and "work data table idx s + 2 < int f"
  shows "regular (l data scan table tmax nb dsize t0 idx sbc s)"
    and "l data scan table tmax nb dsize t0 idx sbc s = Ok (n, s') \<Longrightarrow>
      in_buffer data s' \<and> (nb \<and> idx \<le> tmax \<longrightarrow> cursor s < cursor s')"
  using assms unfolding fields_ends_def by blast+

lemma array_call_ends:
  assumes call: "\<And>data mode i prev s r. table_at table i = Ok r \<Longrightarrow>
      h data mode table i prev s =
        res_bind (rd data r s) (\<lambda>(mx, s).
        res_bind (handleArrays_shape mode table i) (\<lambda>sh.
        res_bind (l data mode table sh prev mx 0 s) (\<lambda>s. Ok (tableMax sh, s))))"
    and reg: "\<And>data r s. regular (rd data r s)"
    and rd: "\<And>data r s v s1. rd data r s = Ok (v, s1) \<Longrightarrow> in_buffer data s \<Longrightarrow>
      in_buffer data s1 \<and> cursor s \<le> cursor s1 \<and>
      (cnt \<or> col_type r = APITYPE_ARRAY_LEN \<longrightarrow> cursor s < cursor s1)"
    and loop: "loop_ends table f cnt l" "loop_mono table l"
  shows "handler_ends table (Suc f) cnt h"
  unfolding handler_ends_def
proof (intro allI impI)
  fix data i t0 s r sh g sz
  assume s: "in_buffer data s" and r: "table_at table i = Ok r"
    and sh: "handleArrays_shape populate table i = Ok sh" and wf: "wf_array g table sz r sh"
    and t: "cnt \<longrightarrow> col_type r = APITYPE_ARRAY_COUNT" and w: "work data table i s + 1 < int (Suc f)"
  let ?sh = "sh\<lparr>structCounterField := 0\<rparr>"
  note bounds = handleArrays_shape_bounds [OF sh]
  have ends: "regular (l data scan table ?sh t0 mx 0 s1) \<and>
      (\<forall>s'. l data scan table ?sh t0 mx 0 s1 = Ok s' \<longrightarrow> in_buffer data s' \<and> cursor s1 \<le> cursor s')"
    if "rd data r s = Ok (mx, s1)" for mx s1
  proof -
    have "regular (l data scan table ?sh t0 mx 0 s1) \<and>
      (\<forall>s'. l data scan table ?sh t0 mx 0 s1 = Ok s' \<longrightarrow> in_buffer data s')"
    proof -
      have "in_buffer data s1" "work data table i s1 < int f"
        using rd [OF that s] w by (auto simp: work_def)
      then show ?thesis
        using loop_endsD [OF loop(1) _ _ _ _ wf t, of data s1 i] bounds by auto
    qed
    moreover have "cursor s1 \<le> cursor s'" if "l data scan table ?sh t0 mx 0 s1 = Ok s'" for s'
      using loop_monoD [OF loop(2) that] wf by (auto simp: wf_array_def shape_of_def scan_le_def)
    ultimately show ?thesis by blast
  qed
  have shape: "handleArrays_shape scan table i = Ok ?sh" using sh by (simp add: handleArrays_shape_scan)
  show "regular (h data scan table i t0 s) \<and> (\<forall>i' s'. h data scan table i t0 s = Ok (i', s') \<longrightarrow>
      i' = tableMax sh \<and> in_buffer data s' \<and>
      (cnt \<or> col_type r = APITYPE_ARRAY_LEN \<longrightarrow> cursor s < cursor s'))"
    unfolding call [OF r] using ends rd [OF _ s] reg
    by (fastforce simp: shape res_bind_eq_Ok intro!: regular_bind split: prod.splits)
qed

lemma handleArrays_call_ends:
  "loop_ends table f False l \<Longrightarrow> loop_mono table l \<Longrightarrow> handler_ends table (Suc f) False (handleArrays_call l)"
proof (rule array_call_ends [where rd = "\<lambda>data r. handleArrays_bytes data (col_type r)"])
  show "regular (handleArrays_bytes data (col_type r) s)" for data r s
    by (auto simp: handleArrays_bytes_def intro!: regular_bind)
  fix data r s v s1
  assume "handleArrays_bytes data (col_type r) s = Ok (v, s1)" "in_buffer data s"
  then show "in_buffer data s1 \<and> cursor s \<le> cursor s1 \<and>
      (False \<or> col_type r = APITYPE_ARRAY_LEN \<longrightarrow> cursor s < cursor s1)"
    by (auto simp: handleArrays_bytes_def in_buffer_def res_bind_eq_Ok
        dest!: GET_INT_OkD adv_OkD c_strlen_OkD split: if_splits)
qed (auto simp: handleArrays_call_def simp del: table_at_Ok)

lemma handleCountedArrays_call_ends:
  "loop_ends table f True l \<Longrightarrow> loop_mono table l \<Longrightarrow>
     handler_ends table (Suc f) True (handleCountedArrays_call l)"
  by (rule array_call_ends [where rd = "\<lambda>data r. GET_INT data"])
    (auto simp: handleCountedArrays_call_def handleCountedArrays_shape_eq in_buffer_def
      simp del: table_at_Ok dest!: GET_INT_OkD)

lemma handleArrays_enter_regular: "regular (handleArrays_enter scan r k n a c p s)"
  by (auto simp: handleArrays_enter_def Let_def intro!: regular_bind)

lemma handleArrays_enter_in_buffer:
  "handleArrays_enter scan r k n a c p s = Ok (this, s') \<Longrightarrow> cursor s' = cursor s"
  by (simp add: handleArrays_enter_scan_eq)

text \<open>One structure of an array, after its length has been read.\<close>

lemma array_struct_ends:
  assumes wf: "wf_array g table sz r sh" and i: "0 \<le> i" "i < tableStart sh" "tableMax sh < int (length table)"
    and t: "cnt \<longrightarrow> col_type r = APITYPE_ARRAY_COUNT"
    and w: "work data table i s0 < int (Suc f)"
    and s: "in_buffer data s" "cursor s0 \<le> cursor s" "nb \<or> cursor s0 < cursor s"
    and inner: "fields_ends table f inner" "fields_mono table inner" and again: "loop_ends table f cnt again"
  shows "regular (res_bind (handleArrays_enter scan rs k n a c t0 s) (\<lambda>(this, s).
      res_bind (inner data scan table (tableMax sh) nb dsize this (tableStart sh + 1) 0 s) (\<lambda>(sbc, s).
      again data scan table (sh\<lparr>structCounterField := 0\<rparr>) t0 mx (cnt' sbc) s)))"
    and "res_bind (handleArrays_enter scan rs k n a c t0 s) (\<lambda>(this, s).
      res_bind (inner data scan table (tableMax sh) nb dsize this (tableStart sh + 1) 0 s) (\<lambda>(sbc, s).
      again data scan table (sh\<lparr>structCounterField := 0\<rparr>) t0 mx (cnt' sbc) s)) = Ok s' \<Longrightarrow> in_buffer data s'"
proof -
  have shape: "tableStart sh < tableMax sh" "wf_fields g table (outStructSize sh) (tableStart sh + 1) (tableMax sh)"
    using wf by (auto simp: wf_array_def wf_shape_def)
  have f: "0 < f" using w i s shape by (auto simp: work_def in_buffer_def)
  have enter: "in_buffer data s1" "work data table (tableStart sh + 1) s1 + 2 < int f"
    if "handleArrays_enter scan rs k n a c t0 s = Ok (this, s1)" for this s1
    using handleArrays_enter_in_buffer [OF that] s w i by (auto simp: in_buffer_def work_def)
  have fields: "regular (inner data scan table (tableMax sh) nb dsize this (tableStart sh + 1) 0 s1)"
    if "handleArrays_enter scan rs k n a c t0 s = Ok (this, s1)" for this s1
    by (rule fields_endsD(1) [OF inner(1) enter(1) [OF that] shape(2) _ i(3) f enter(2) [OF that]])
      (use i in simp)
  have rest: "in_buffer data s2 \<and> work data table i s2 < int f"
    if 1: "handleArrays_enter scan rs k n a c t0 s = Ok (this, s1)"
      and 2: "inner data scan table (tableMax sh) nb dsize this (tableStart sh + 1) 0 s1 = Ok (sbc, s2)"
    for this s1 sbc s2
  proof -
    have "in_buffer data s2 \<and> (nb \<and> tableStart sh + 1 \<le> tableMax sh \<longrightarrow> cursor s1 < cursor s2)"
      by (rule fields_endsD(2) [OF inner(1) enter(1) [OF 1] shape(2) _ i(3) f enter(2) [OF 1] 2])
        (use i in simp)
    moreover have "cursor s1 \<le> cursor s2" using fields_monoD [OF inner(2) 2] by (simp add: scan_le_def)
    ultimately show ?thesis
      using handleArrays_enter_in_buffer [OF 1] s w shape(1) by (auto simp: work_def)
  qed
  have again': "regular (again data scan table (sh\<lparr>structCounterField := 0\<rparr>) t0 mx n s2)"
    "again data scan table (sh\<lparr>structCounterField := 0\<rparr>) t0 mx n s2 = Ok s' \<Longrightarrow> in_buffer data s'"
    if "in_buffer data s2 \<and> work data table i s2 < int f" for s2 n s'
    using loop_endsD [OF again _ i wf t] that by blast+
  show "regular (res_bind (handleArrays_enter scan rs k n a c t0 s) (\<lambda>(this, s).
      res_bind (inner data scan table (tableMax sh) nb dsize this (tableStart sh + 1) 0 s) (\<lambda>(sbc, s).
      again data scan table (sh\<lparr>structCounterField := 0\<rparr>) t0 mx (cnt' sbc) s)))"
    using fields rest again'(1) by (auto intro!: regular_bind handleArrays_enter_regular)
  show "in_buffer data s'" if run: "res_bind (handleArrays_enter scan rs k n a c t0 s) (\<lambda>(this, s).
      res_bind (inner data scan table (tableMax sh) nb dsize this (tableStart sh + 1) 0 s) (\<lambda>(sbc, s).
      again data scan table (sh\<lparr>structCounterField := 0\<rparr>) t0 mx (cnt' sbc) s)) = Ok s'"
  proof -
    obtain this s1 sbc s2 where "handleArrays_enter scan rs k n a c t0 s = Ok (this, s1)"
      "inner data scan table (tableMax sh) nb dsize this (tableStart sh + 1) 0 s1 = Ok (sbc, s2)"
      "again data scan table (sh\<lparr>structCounterField := 0\<rparr>) t0 mx (cnt' sbc) s2 = Ok s'"
      using run by (auto simp: res_bind_eq_Ok)
    then show ?thesis using again'(2) rest by blast
  qed
qed

lemma handleArrays_struct_ends:
  assumes inner: "fields_ends table f inner" "fields_mono table inner"
    and again: "loop_ends table f False again"
  shows "loop_ends table (Suc f) False (handleArrays_struct inner again)"
  unfolding loop_ends_def
proof (intro allI impI)
  fix data i t0 mx n s r and sh :: array_shape and g sz
  assume s: "in_buffer data s" and i: "0 \<le> i" "i < tableStart sh" "tableMax sh < int (length table)"
    and wf: "wf_array g table sz r sh" and t: "False \<longrightarrow> col_type r = APITYPE_ARRAY_COUNT"
    and w: "work data table i s < int (Suc f)"
  let ?sh = "sh\<lparr>structCounterField := 0\<rparr>"
  let ?run = "handleArrays_struct inner again data scan table ?sh t0 mx n s"
  obtain rs where rs: "table_at table (tableStart sh) = Ok rs"
    and ty: "APITYPE_STRUCT_LEN = col_type rs \<or> APITYPE_NOBUFFER_STRUCT_LEN = col_type rs"
    using wf by (auto simp: wf_array_def wf_shape_def simp del: table_at_Ok split: res.splits)
  show "regular ?run \<and> (\<forall>s'. ?run = Ok s' \<longrightarrow> in_buffer data s')"
  proof (cases "n < mx")
    case False
    then show ?thesis using s by (simp add: handleArrays_struct_def)
  next
    case True
    show ?thesis
    proof (cases "GET_INT data s")
      case (Ok v)
      obtain len s1 where v: "v = (len, s1)" by fastforce
      have s1: "s1\<lparr>cursor := cursor s1 - 4\<rparr> = s" "in_buffer data s1" "cursor s < cursor s1"
        using GET_INT_OkD [OF Ok [unfolded v]] s by (auto simp: in_buffer_def)
      define nb where "nb \<longleftrightarrow> APITYPE_NOBUFFER_STRUCT_LEN = col_type rs"
      show ?thesis
      proof (cases "\<not> nb \<and> len = 0")
        case True
        then have run: "?run = again data scan table ?sh t0 mx n s1"
          using \<open>n < mx\<close> rs ty Ok v by (auto simp: handleArrays_struct_def nb_def Let_def simp del: table_at_Ok)
        have "work data table i s1 < int f" using w s1(3) by (simp add: work_def)
        then show ?thesis unfolding run using loop_endsD [OF again s1(2) i wf t] by blast
      next
        case False
        let ?s = "if nb then s else s1"
        have run: "?run = res_bind (handleArrays_enter scan rs (structIndex ?sh) (outStructSize ?sh)
            (arrayPointerOffset ?sh) (structCounterField ?sh) t0 ?s) (\<lambda>(this, s).
          res_bind (inner data scan table (tableMax sh) nb (if nb then 0 else len) this (tableStart sh + 1) 0 s)
            (\<lambda>(sbc, s). again data scan table ?sh t0 mx (if nb then n + sbc else n + (sbc + 4)) s))"
          using False \<open>n < mx\<close> rs ty Ok v unfolding nb_def
          by (cases "APITYPE_NOBUFFER_STRUCT_LEN = col_type rs")
            (auto simp add: handleArrays_struct_def Let_def s1(1) simp del: table_at_Ok)
        have "in_buffer data ?s" "cursor s \<le> cursor ?s" "nb \<or> cursor s < cursor ?s" using s s1 by auto
        note ends = array_struct_ends [OF wf i t w this inner again]
        show ?thesis unfolding run by (intro conjI allI impI, rule ends(1), erule ends(2))
      qed
    qed (use \<open>n < mx\<close> rs ty in \<open>auto simp: handleArrays_struct_def GET_INT_def buf_read_def
        simp del: table_at_Ok split: if_splits\<close>)
  qed
qed

lemma handleCountedArrays_struct_ends:
  assumes inner: "fields_ends table f inner" "fields_mono table inner"
    and again: "loop_ends table f True again"
  shows "loop_ends table (Suc f) True (handleCountedArrays_struct inner again)"
  unfolding loop_ends_def
proof (intro allI impI)
  fix data i t0 mx n s r and sh :: array_shape and g sz
  assume s: "in_buffer data s" and i: "0 \<le> i" "i < tableStart sh" "tableMax sh < int (length table)"
    and wf: "wf_array g table sz r sh" and t: "True \<longrightarrow> col_type r = APITYPE_ARRAY_COUNT"
    and w: "work data table i s < int (Suc f)"
  let ?sh = "sh\<lparr>structCounterField := 0\<rparr>"
  let ?run = "handleCountedArrays_struct inner again data scan table ?sh t0 mx n s"
  obtain rs where rs: "table_at table (tableStart sh) = Ok rs" and ty: "APITYPE_STRUCT_LEN = col_type rs"
    using wf t by (auto simp: wf_array_def wf_shape_def simp del: table_at_Ok split: res.splits)
  show "regular ?run \<and> (\<forall>s'. ?run = Ok s' \<longrightarrow> in_buffer data s')"
  proof (cases "n < mx")
    case False
    then show ?thesis using s by (simp add: handleCountedArrays_struct_def)
  next
    case True
    show ?thesis
    proof (cases "GET_INT data s")
      case (Ok v)
      obtain len s1 where v: "v = (len, s1)" by fastforce
      have s1: "in_buffer data s1" "cursor s \<le> cursor s1" "False \<or> cursor s < cursor s1"
        using GET_INT_OkD [OF Ok [unfolded v]] s by (auto simp: in_buffer_def)
      show ?thesis
      proof (cases "len = 0")
        case True
        then have run: "?run = again data scan table ?sh t0 mx n s1"
          using \<open>n < mx\<close> rs ty Ok v by (auto simp: handleCountedArrays_struct_def Let_def simp del: table_at_Ok)
        have "work data table i s1 < int f" using w s1(3) by (simp add: work_def)
        then show ?thesis unfolding run using loop_endsD [OF again s1(1) i wf t] by blast
      next
        case False
        have run: "?run = res_bind (handleArrays_enter scan rs (structIndex ?sh) (outStructSize ?sh)
            (arrayPointerOffset ?sh) (structCounterField ?sh) t0 s1) (\<lambda>(this, s).
          res_bind (inner data scan table (tableMax sh) False len this (tableStart sh + 1) 0 s)
            (\<lambda>(sbc, s). again data scan table ?sh t0 mx (n + 1) s))"
          using False \<open>n < mx\<close> rs ty Ok v
          by (auto simp add: handleCountedArrays_struct_def handleCountedArrays_enter_eq Let_def simp del: table_at_Ok)
        note ends = array_struct_ends [OF wf i t w s1 inner again]
        show ?thesis unfolding run by (intro conjI allI impI, rule ends(1), erule ends(2))
      qed
    qed (use \<open>n < mx\<close> rs ty in \<open>auto simp: handleCountedArrays_struct_def GET_INT_def buf_read_def
        simp del: table_at_Ok split: if_splits\<close>)
  qed
qed

text \<open>A row of a structure and the rest of it.\<close>

lemma switch_then_ends:
  assumes l: "fields_ends table f l" "fields_mono table l" and reg: "regular m"
    and idx: "0 \<le> idx" "idx \<le> tmax" "tmax < int (length table)"
    and w: "work data table idx s + 2 < int (Suc f)"
    and ok: "\<And>x. m = Ok x \<Longrightarrow> in_buffer data (st x) \<and> cursor s < cursor (st x) \<and> idx \<le> ix x \<and>
      wf_fields g table sz (ix x + 1) tmax"
  shows "regular (res_bind m (\<lambda>x. l data scan table tmax nb dsize t0 (ix x + 1) (cn x) (st x)))"
    and "res_bind m (\<lambda>x. l data scan table tmax nb dsize t0 (ix x + 1) (cn x) (st x)) = Ok (n, s') \<Longrightarrow>
      in_buffer data s' \<and> cursor s < cursor s'"
proof -
  have rest: "regular (l data scan table tmax nb dsize t0 (ix x + 1) (cn x) (st x))"
    "l data scan table tmax nb dsize t0 (ix x + 1) (cn x) (st x) = Ok (n, s') \<Longrightarrow> in_buffer data s' \<and> cursor s < cursor s'"
    if x: "m = Ok x" for x n s'
  proof -
    note okx = ok [OF x]
    have "work data table (ix x + 1) (st x) + 2 < int f" using okx w by (auto simp: work_def)
    moreover have "0 < f" using w idx okx by (auto simp: work_def in_buffer_def)
    ultimately have ends: "regular (l data scan table tmax nb dsize t0 (ix x + 1) (cn x) (st x))"
      "l data scan table tmax nb dsize t0 (ix x + 1) (cn x) (st x) = Ok (n, s') \<Longrightarrow> in_buffer data s'" for n s'
      using fields_endsD [OF l(1) _ _ _ idx(3), of data "st x" g sz "ix x + 1"] okx idx by auto
    show "regular (l data scan table tmax nb dsize t0 (ix x + 1) (cn x) (st x))" by (rule ends(1))
    show "in_buffer data s' \<and> cursor s < cursor s'"
      if "l data scan table tmax nb dsize t0 (ix x + 1) (cn x) (st x) = Ok (n, s')"
      using ends(2) [OF that] fields_monoD [OF l(2) that] okx by (auto simp: scan_le_def)
  qed
  show "regular (res_bind m (\<lambda>x. l data scan table tmax nb dsize t0 (ix x + 1) (cn x) (st x)))"
    using reg rest(1) by (rule regular_bind)
  show "in_buffer data s' \<and> cursor s < cursor s'"
    if "res_bind m (\<lambda>x. l data scan table tmax nb dsize t0 (ix x + 1) (cn x) (st x)) = Ok (n, s')"
    using that rest(2) by (auto simp: res_bind_eq_Ok)
qed

lemma handleArrays_switch_ends:
  assumes sane: "rows_sane table" and h: "handler_ends table f False h" and c: "handler_ends table f True c"
    and l: "fields_ends table f l" "fields_mono table l"
  shows "fields_ends table (Suc f) (handleArrays_switch h c l)"
  unfolding fields_ends_def
proof (intro allI impI)
  fix data tmax nb dsize t0 idx sbc s g sz
  assume s: "in_buffer data s" and wf: "wf_fields g table sz idx tmax" and idx: "0 \<le> idx"
    and tm: "tmax < int (length table)" and w: "work data table idx s + 2 < int (Suc f)"
  let ?run = "handleArrays_switch h c l data scan table tmax nb dsize t0 idx sbc s"
  show "regular ?run \<and> (\<forall>n s'. ?run = Ok (n, s') \<longrightarrow> in_buffer data s' \<and> (nb \<and> idx \<le> tmax \<longrightarrow> cursor s < cursor s'))"
  proof (cases "(\<not> nb \<and> sbc < dsize \<or> nb \<and> idx \<le> tmax) \<and> idx \<le> tmax")
    case False
    then show ?thesis using s by (auto simp: handleArrays_switch_def)
  next
    case True
    then obtain r where r: "table_at table idx = Ok r" using idx tm by auto
    have row: "row_sane table r" by (rule rows_saneD [OF sane r])
    from wf r conjunct2 [OF True] show ?thesis
    proof (cases rule: wf_fieldsE)
      case (array g' sh)
      let ?h = "if col_type r = APITYPE_ARRAY_LEN then h else c"
      have run: "?run = res_bind (?h data scan table idx t0 s) (\<lambda>x.
          l data scan table tmax nb dsize t0 (fst x + 1) (sbc + 4 + (cursor (snd x) - (cursor s + 4))) (snd x))"
        using True r array(2) by (auto simp: handleArrays_switch_def Let_def case_prod_beta' simp del: table_at_Ok)
      have ends: "regular (?h data scan table idx t0 s)"
        "?h data scan table idx t0 s = Ok (i', s') \<Longrightarrow> i' = tableMax sh \<and> in_buffer data s' \<and> cursor s < cursor s'"
        for i' s'
        using handler_endsD [OF h s r array(3,4)] handler_endsD [OF c s r array(3,4)] array(2) w by auto
      have ok: "in_buffer data (snd x) \<and> cursor s < cursor (snd x) \<and> idx \<le> fst x \<and>
          wf_fields g' table sz (fst x + 1) tmax" if "?h data scan table idx t0 s = Ok x" for x
        using ends(2) [of "fst x" "snd x"] that array(5) handleArrays_shape_bounds [OF array(3)] by auto
      note rest = switch_then_ends [OF l ends(1) idx conjunct2 [OF True] tm w ok]
      show ?thesis unfolding run by (intro conjI allI impI, rule rest(1), assumption) (drule rest(2) [rotated], assumption, simp)+
    next
      case (field g')
      let ?f = "handleArrays_field data scan table idx r t0 s"
      have run: "?run = res_bind ?f (\<lambda>x.
          l data scan table tmax nb dsize t0 (fst x + 1) (sbc + fst (snd x)) (snd (snd x)))"
        using True r field(2)
        by (auto simp: handleArrays_switch_def field_types_def case_prod_beta' simp del: table_at_Ok)
      have ok: "in_buffer data (snd (snd x)) \<and> cursor s < cursor (snd (snd x)) \<and> idx \<le> fst x \<and>
          wf_fields g' table sz (fst x + 1) tmax" if "?f = Ok x" for x
      proof -
        obtain idx' m s' where x: "x = (idx', m, s')" by (cases x)
        show ?thesis
          using handleArrays_field_progress [OF that [unfolded x] row s]
            handleArrays_field_scan [OF that [unfolded x] row] field(4)
          by (auto simp: x add.assoc split: if_splits)
      qed
      note rest = switch_then_ends [OF l handleArrays_field_regular [OF field(2)] idx conjunct2 [OF True] tm w ok]
      show ?thesis unfolding run by (intro conjI allI impI, rule rest(1), assumption) (drule rest(2) [rotated], assumption, simp)+
    qed
  qed
qed

lemma handleCountedArrays_switch_ends:
  assumes "rows_sane table" "handler_ends table f False h" "handler_ends table f True c"
    "fields_ends table f l" "fields_mono table l"
  shows "fields_ends table (Suc f) (handleCountedArrays_switch h c l)"
  using handleArrays_switch_ends [OF assms] unfolding fields_ends_def
  by (metis handleCountedArrays_switch_eq wf_fields_not_c_str)

lemma handlers_end:
  assumes sane: "rows_sane table"
  shows "handler_ends table f False (handleArrays f) \<and> loop_ends table f False (handleArrays_loop f) \<and>
    fields_ends table f (handleArrays_fields f) \<and> handler_ends table f True (handleCountedArrays f) \<and>
    loop_ends table f True (handleCountedArrays_loop f) \<and> fields_ends table f (handleCountedArrays_fields f)"
proof (induction f)
  case 0
  show ?case
  proof -
    have "\<not> work data table i s < 0" if "in_buffer data s" "i < int (length table)" for data i s
      using that by (simp add: work_def in_buffer_def)
    then show ?thesis
      by (fastforce simp: handler_ends_def loop_ends_def fields_ends_def work_def in_buffer_def
          wf_array_def wf_shape_def)
  qed
next
  case (Suc f)
  then show ?case using handlers_mono [OF sane, of f]
    by (simp add: handler_equations
        handleArrays_call_ends handleArrays_struct_ends handleArrays_switch_ends
        handleCountedArrays_call_ends handleCountedArrays_struct_ends
        handleCountedArrays_switch_ends sane)
qed

section \<open>The base structure\<close>

lemma base_int_ends:
  assumes "col_type r \<in> {APITYPE_INT1, APITYPE_INT4, APITYPE_INT8}"
  shows "regular (base_int data scan r s)"
    and "base_int data scan r s = Ok s' \<Longrightarrow> in_buffer data s \<Longrightarrow> in_buffer data s' \<and> cursor s \<le> cursor s'"
  using assms by (auto simp: base_int_def handleArrays_int_def in_buffer_def res_bind_eq_Ok
      dest!: adv_OkD intro!: regular_bind)

lemma base_int4_ends:
  shows "regular (base_int4 ctx data scan table i r s)"
    and "base_int4 ctx data scan table i r s = Ok s' \<Longrightarrow> in_buffer data s \<Longrightarrow> in_buffer data s' \<and> cursor s \<le> cursor s'"
  by (auto simp: base_int4_def base_reason_code_def in_buffer_def res_bind_eq_Ok Let_def
      dest!: adv_OkD intro!: regular_bind split: if_splits)

lemma base_fixed_ends:
  assumes "0 \<le> col_maxsize r"
  shows "regular (base_fixed data scan r s)"
    and "base_fixed data scan r s = Ok s' \<Longrightarrow> in_buffer data s \<Longrightarrow> in_buffer data s' \<and> cursor s \<le> cursor s'"
  using assms by (auto simp: base_fixed_def in_buffer_def Let_def dest!: adv_OkD)

lemma base_string_ends:
  assumes "0 \<le> col_minsize r"
  shows "regular (base_string data scan table i r s)"
    and "base_string data scan table i r s = Ok (i', s') \<Longrightarrow> in_buffer data s' \<and> cursor s \<le> cursor s' \<and> i \<le> i'"
proof -
  show "regular (base_string data scan table i r s)"
    unfolding base_string_def by (auto simp: Let_def intro!: regular_bind split: if_splits)
  show "in_buffer data s' \<and> cursor s \<le> cursor s' \<and> i \<le> i'" if "base_string data scan table i r s = Ok (i', s')"
    using that
  proof (rule base_string_scanE)
    fix temp s1 w
    assume "base_string_len data r s = Ok (temp, s1)" "col_minsize r \<le> temp"
      "w = (if col_type r = APITYPE_C_STR_PTR then temp + 1 else temp)"
      "i' = (if col_type r = APITYPE_CHARBUF_LEN then i + 1 else i)"
      "0 \<le> cursor s1 + w" "cursor s1 + w \<le> int (length data)"
      "s' = s1\<lparr>cursor := cursor s1 + w, outStringByteCount := outStringByteCount s1 +
       ((if temp > 0 then temp + 1 else 0) - (if col_type r = APITYPE_CHARBUF_LEN then 1 else 0))\<rparr>"
    with assms base_string_len_OkD [of data r s temp s1 s] show ?thesis
      by (auto simp: in_buffer_def split: if_splits)
  qed
qed

lemma base_c_str_loop_ends:
  assumes "in_buffer data s" and "int (length data) - cursor s < int f"
  shows "regular (base_c_str_loop f data scan sh n s) \<and>
    (\<forall>s'. base_c_str_loop f data scan sh n s = Ok s' \<longrightarrow> in_buffer data s' \<and> cursor s \<le> cursor s')"
  using assms
proof (induction f arbitrary: n s)
  case 0
  then show ?case by (simp add: in_buffer_def)
next
  case (Suc f)
  have step: "regular (base_c_str_loop f data scan sh (n + 1) (s2\<lparr>byteCount := b\<rparr>)) \<and>
      (\<forall>s'. base_c_str_loop f data scan sh (n + 1) (s2\<lparr>byteCount := b\<rparr>) = Ok s' \<longrightarrow> in_buffer data s' \<and> cursor s \<le> cursor s')"
    if "c_strlen data (cursor s) = Ok l" "base_c_str_scan sh (l + 1) s = Ok s1" "adv data (l + 1) s1 = Ok s2"
    for l s1 s2 b
  proof -
    have "cursor s1 = cursor s" using that(2) by (auto simp: base_c_str_scan_def res_bind_eq_Ok)
    with that Suc.prems have "in_buffer data (s2\<lparr>byteCount := b\<rparr>)" "cursor s < cursor s2"
      "int (length data) - cursor (s2\<lparr>byteCount := b\<rparr>) < int f"
      by (auto simp: in_buffer_def dest!: c_strlen_OkD adv_OkD)
    with Suc.IH [of "s2\<lparr>byteCount := b\<rparr>" "n + 1"] show ?thesis by fastforce
  qed
  have "regular (base_c_str_scan sh k s)" for k by (simp add: base_c_str_scan_def regular_bind)
  with step Suc.prems(1) show ?case
    by (auto simp: Let_def res_bind_eq_Ok intro!: regular_bind)
qed

lemma wf_base_row:
  assumes "wf_base g hdr table sz i"
  obtains g' r where "g = Suc g'" "table_at table i = Ok r" "0 \<le> i" "i < int (length table)"
  using assms by (cases g) (auto simp: table_at_def split: res.splits if_splits)

lemma base_row_ends:
  assumes wf: "wf_base (Suc g) hdr table sz i" and sane: "rows_sane table"
    and r: "table_at table i = Ok r" "col_type r \<noteq> APITYPE_END_OF_TABLE"
    and s: "in_buffer data s" and w: "work data table i s + 1 < int f"
  shows "regular (base_row f ctx data scan table i r b0 s) \<and>
    (\<forall>i' s'. base_row f ctx data scan table i r b0 s = Ok (i', s') \<longrightarrow> in_buffer data s' \<and> cursor s \<le> cursor s' \<and> i \<le> i' \<and>
      (\<exists>hdr'. wf_base g hdr' table sz (i' + 1)))"
proof -
  let ?run = "base_row f ctx data scan table i r b0 s"
  have row: "row_sane table r" by (rule rows_saneD [OF sane r(1)])
  consider (int4) "col_type r \<in> {APITYPE_INT4, APITYPE_RC_INT4, APITYPE_RS_INT4}"
    | (error) "error_row r"
    | (array) "col_type r \<in> {APITYPE_ARRAY_LEN, APITYPE_ARRAY_LEN_C_STR, APITYPE_ARRAY_NO_LENGTH, APITYPE_ARRAY_COUNT}"
    | (c_str) "col_type r = APITYPE_C_STR_ARRAY_PTR"
    | (string) "col_type r \<in> {APITYPE_STRING_LEN, APITYPE_CHARBUF_LEN, APITYPE_C_STR_PTR}"
    | (int) "col_type r \<in> {APITYPE_INT1, APITYPE_INT8}"
    | (fixed) "col_type r = APITYPE_FIXED_STR_PTR"
    using wf r by (auto simp: field_types_def simp del: table_at_Ok split: if_splits)
  then show ?thesis
  proof cases
    case int4
    then have "?run = res_bind (base_int4 ctx data scan table i r s) (\<lambda>s. Ok (i, s))"
      by (auto simp: base_row_def)
    moreover have "\<exists>hdr'. wf_base g hdr' table sz (i + 1)"
      using wf r int4 by (auto simp del: table_at_Ok)
    ultimately show ?thesis
      using s base_int4_ends by (auto simp: res_bind_eq_Ok intro!: regular_bind)
  next
    case error
    then have "?run = Ok (i, s)" by (auto simp: error_row_def base_row_def)
    then show ?thesis using wf r error s by (auto simp: error_row_def simp del: table_at_Ok)
  next
    case array
    then obtain sh where sh: "handleArrays_shape populate table i = Ok sh" "wf_shape table sz r sh"
      "wf_fields g table (outStructSize sh) (tableStart sh + 1) (tableMax sh)"
      "wf_base g False table sz (tableMax sh + 1)"
      using wf r(1) by (auto simp: error_row_def simp del: table_at_Ok split: res.splits)
    have wfa: "wf_array g table sz r sh"
      using sh array handleArrays_shape_of [OF sh(1)] handleArrays_shape_pointer [OF sh(1) r(1)]
      by (auto simp: wf_array_def col_width_def)
    define cnt where "cnt \<longleftrightarrow> col_type r = APITYPE_ARRAY_COUNT"
    define h where "h = (if cnt then handleCountedArrays f else handleArrays f)"
    have "?run = h data scan table i b0 s" using array by (auto simp: base_row_def h_def cnt_def)
    moreover have "handler_ends table f cnt h" using handlers_end [OF sane, of f] by (simp add: h_def)
    moreover have "handler_mono table h" using handlers_mono [OF sane, of f] by (simp add: h_def)
    then have "cursor s \<le> cursor s'" if "h data scan table i b0 s = Ok (i', s')" for i' s'
      using handler_monoD that by (auto simp: scan_le_def)
    ultimately show ?thesis
      using handler_endsD [OF _ s r(1) sh(1) wfa, of f cnt h] w sh(4) handleArrays_shape_bounds [OF sh(1)]
      by (auto simp: cnt_def)
  next
    case c_str
    then obtain sh where sh: "base_c_str_shape table i = Ok sh" "wf_base g False table sz (i + 4)"
      using wf r(1) by (auto simp: error_row_def simp del: table_at_Ok split: res.splits)
    have "?run = res_bind (base_c_str_loop f data scan sh 0 s) (\<lambda>s. Ok (i + 3, s))"
      using c_str sh(1) by (simp add: base_row_def)
    moreover have "int (length data) - cursor s < int f" using w r(1) by (auto simp: work_def)
    ultimately show ?thesis
      using base_c_str_loop_ends [OF s, of f sh 0] sh(2)
      by (auto simp: res_bind_eq_Ok add.assoc intro!: regular_bind)
  next
    case string
    then have "?run = base_string data scan table i r s" by (auto simp: base_row_def)
    moreover have "i' = (if col_type r = APITYPE_CHARBUF_LEN then i + 1 else i)"
      if "base_string data scan table i r s = Ok (i', s')" for i' s'
      using that by (rule base_string_scanE)
    moreover have "0 \<le> col_minsize r" using row string by (auto simp: row_sane_def)
    ultimately show ?thesis
      using wf r string base_string_ends [of r data table i s]
      by (auto simp: error_row_def add.assoc simp del: table_at_Ok split: if_splits)
  next
    case int
    then have "?run = res_bind (base_int data scan r s) (\<lambda>s. Ok (i, s))"
      by (auto simp: base_row_def base_int1_eq base_int8_eq)
    then show ?thesis
      using s wf r int base_int_ends [of r data s]
      by (auto simp: res_bind_eq_Ok error_row_def simp del: table_at_Ok intro!: regular_bind)
  next
    case fixed
    then have "?run = res_bind (base_fixed data scan r s) (\<lambda>s. Ok (i, s))" by (auto simp: base_row_def)
    then show ?thesis
      using s wf r fixed base_fixed_ends [of r data s] row
      by (auto simp: res_bind_eq_Ok error_row_def row_sane_def simp del: table_at_Ok intro!: regular_bind)
  qed
qed

lemma parse_rows_ends:
  assumes "wf_base g hdr table sz i" and "rows_sane table" and "in_buffer data s"
    and "work data table i s + 2 < int f"
  shows "regular (parse_rows f ctx data scan table b0 i s)"
  using assms
proof (induction f arbitrary: g hdr i s)
  case 0
  then show ?case by (auto simp: work_def in_buffer_def elim!: wf_base_row)
next
  case (Suc f)
  obtain g' r where g: "g = Suc g'" and r: "table_at table i = Ok r"
    using Suc.prems(1) by (rule wf_base_row)
  show ?case
  proof (cases "col_type r \<noteq> APITYPE_END_OF_TABLE \<and> byteCount s < dataBufferSize s")
    case False
    then show ?thesis using r by (auto simp del: table_at_Ok)
  next
    case True
    have row: "regular (base_row f ctx data scan table i r b0 s)"
      "base_row f ctx data scan table i r b0 s = Ok (i', s') \<Longrightarrow> in_buffer data s' \<and> cursor s \<le> cursor s' \<and> i \<le> i' \<and>
        (\<exists>hdr'. wf_base g' hdr' table sz (i' + 1))" for i' s'
      using base_row_ends [OF Suc.prems(1) [unfolded g] Suc.prems(2) r _ Suc.prems(3), of f ctx b0] True Suc.prems(4)
      by auto
    have "regular (parse_rows f ctx data scan table b0 (i' + 1) s')"
      if "base_row f ctx data scan table i r b0 s = Ok (i', s')" for i' s'
      using row(2) [OF that] Suc.IH [of g' _ "i' + 1" s'] Suc.prems(2,4) by (auto simp: work_def)
    then show ?thesis using r row(1) True
      by (auto simp del: table_at_Ok intro!: regular_bind split: prod.splits)
  qed
qed


section \<open>Integers of the base structure\<close>

lemma be_bytes_mod: "be_bytes n (v mod 256 ^ n) = be_bytes n v"
  using be_bytes_be_val [of "be_bytes n v"] by (simp add: be_val_be_bytes)

lemma be_bytes_get_int:
  assumes "length bs = n" shows "be_bytes n (get_int n bs) = bs"
proof -
  have "get_int n bs mod 256 ^ n = be_val bs mod 256 ^ n"
    by (simp add: get_int_def signed_of_def power_mult [of 2 8 n, simplified])
  then have "be_bytes n (get_int n bs) = be_bytes n (be_val bs)" by (metis be_bytes_mod)
  with assms show ?thesis using be_bytes_be_val [of bs] by simp
qed

definition flat_types :: "apitype list" where
  "flat_types = [APITYPE_INT1, APITYPE_INT4, APITYPE_RC_INT4, APITYPE_RS_INT4, APITYPE_INT8]"

text \<open>The bytes on the wire of the rows of a table of integers, and where populate puts them.\<close>

fun flat_fields :: "table_row list \<Rightarrow> int \<Rightarrow> (int \<times> int \<times> int) list" where
  "flat_fields [] c = []"
| "flat_fields (r # rs) c = (col_size_or_offset r, c, col_width (col_type r)) # flat_fields rs (c + col_width (col_type r))"

definition flat_width :: "table_row list \<Rightarrow> int" where
  "flat_width rows = sum_list (map (\<lambda>r. col_width (col_type r)) rows)"

fun flat_disjoint :: "table_row list \<Rightarrow> bool" where
  "flat_disjoint [] \<longleftrightarrow> True"
| "flat_disjoint (r # rs) \<longleftrightarrow>
     list_all (\<lambda>q. col_size_or_offset r + col_width (col_type r) \<le> col_size_or_offset q \<or>
                   col_size_or_offset q + col_width (col_type q) \<le> col_size_or_offset r) rs \<and>
     flat_disjoint rs"

lemma base_row_flat:
  assumes t: "col_type r \<in> set flat_types" and err: "smapiReturnCode ctx = 0"
    and c: "0 \<le> cursor p" "cursor p + col_width (col_type r) \<le> int (length data)"
  shows "base_row f ctx data populate table i r b p = Ok (i, p\<lparr>cursor := cursor p + col_width (col_type r),
     byteCount := byteCount p + col_width (col_type r),
     heap := mem_write (heap p) (inStructAddrs p 0 + col_size_or_offset r)
       (take (nat (col_width (col_type r))) (drop (nat (cursor p)) data))\<rparr>)"
proof -
  let ?w = "col_width (col_type r)"
  define bs where "bs = take (nat ?w) (drop (nat (cursor p)) data)"
  have w: "0 \<le> ?w" using t by (auto simp: flat_types_def col_width_def)
  have rd: "buf_read data (cursor p) ?w = Ok bs" using c w by (simp add: buf_read_def bs_def)
  then have "int (length bs) = ?w" using buf_read_OkD by blast
  then have len: "length bs = nat ?w" by simp
  from t consider "col_type r = APITYPE_INT1" | "col_type r = APITYPE_INT8"
    | "col_type r \<in> {APITYPE_INT4, APITYPE_RC_INT4, APITYPE_RS_INT4}" by (auto simp: flat_types_def)
  then show ?thesis
  proof cases
    case 1
    with rd c show ?thesis unfolding bs_def [symmetric]
      by (simp add: base_row_def base_int1_def base_addr_def adv_def poke_def col_width_def)
  next
    case 2
    with rd c len show ?thesis unfolding bs_def [symmetric]
      by (simp add: base_row_def base_int8_def base_addr_def GET_64INT_def poke_def col_width_def
          be_bytes_get_int del: be_bytes.simps)
  next
    case 3
    with rd c len err show ?thesis unfolding bs_def [symmetric]
      by (auto simp add: base_row_def base_int4_def base_addr_def GET_INT_def poke_def col_width_def
          base_reason_code_def be_bytes_get_int simp del: be_bytes.simps)
  qed
qed

definition flat_region :: "int \<Rightarrow> table_row list \<Rightarrow> int set" where
  "flat_region b rows = (\<Union>r\<in>set rows. region (b + col_size_or_offset r) (col_width (col_type r)))"

lemma flat_width_pos: "list_all (\<lambda>r. col_type r \<in> set flat_types) rows \<Longrightarrow> 0 \<le> flat_width rows"
  by (induction rows) (auto simp: flat_width_def flat_types_def col_width_def)

lemma flat_width_gt:
  assumes "list_all (\<lambda>r. col_type r \<in> set flat_types) rows" and "rows \<noteq> []"
  shows "0 < flat_width rows"
proof -
  obtain r rs where rows: "rows = r # rs" using assms(2) by (cases rows) auto
  then have "0 < col_width (col_type r)" using assms(1) by (auto simp: flat_types_def col_width_def)
  moreover have "0 \<le> flat_width rs" using assms(1) by (intro flat_width_pos) (simp add: rows)
  ultimately show ?thesis by (simp add: flat_width_def rows)
qed

lemma parse_rows_flat:
  assumes "drop (nat i) table = rows @ e # rest" and "col_type e = APITYPE_END_OF_TABLE" and "0 \<le> i"
    and "list_all (\<lambda>r. col_type r \<in> set flat_types) rows" and "flat_disjoint rows"
    and "smapiReturnCode ctx = 0" and "length rows < f"
    and "0 \<le> cursor p" and "cursor p + flat_width rows \<le> int (length data)"
    and "byteCount p = cursor p" and "dataBufferSize p = int (length data)"
  shows "\<exists>p'. parse_rows f ctx data populate table b i p = Ok p' \<and>
    frame (flat_region (inStructAddrs p 0) rows) (heap p) (heap p') \<and>
    (\<forall>(off, c, w) \<in> set (flat_fields rows (cursor p)).
       mem_read (heap p') (inStructAddrs p 0 + off) (nat w) = take (nat w) (drop (nat c) data))"
  using assms
proof (induction rows arbitrary: f i p)
  case Nil
  then have "table_at table i = Ok e"
    by (metis append_Nil drop_eq_Nil int_nat_eq linorder_not_le list.distinct(1) nth_via_drop of_nat_less_iff table_at_Ok)
  with Nil show ?case by (cases f) (auto simp: flat_region_def simp del: table_at_Ok)
next
  case (Cons r rows)
  let ?w = "col_width (col_type r)" and ?b = "inStructAddrs p 0"
  obtain f' where f: "f = Suc f'" using Cons.prems(7) by (cases f) auto
  have i: "i < int (length table)" using Cons.prems(1,3) by (metis append_is_Nil_conv drop_eq_Nil list.distinct(1) nat_less_iff linorder_not_le)
  have r: "table_at table i = Ok r"
    using Cons.prems(1,3) i by (simp add: nth_via_drop)
  have drop1: "drop (nat (i + 1)) table = rows @ e # rest"
    using Cons.prems(1,3) by (metis Suc_nat_eq_nat_zadd1 add.commute append_Cons drop_Suc list.sel(3) tl_drop)
  have t: "col_type r \<in> set flat_types" "col_type r \<noteq> APITYPE_END_OF_TABLE"
    using Cons.prems(4) by (auto simp: flat_types_def)
  have w: "0 < ?w" using t(1) by (auto simp: flat_types_def col_width_def)
  have rows0: "0 \<le> flat_width rows" using Cons.prems(4) by (intro flat_width_pos) simp
  have room: "cursor p + ?w + flat_width rows \<le> int (length data)"
    using Cons.prems(9) by (simp add: flat_width_def)
  define bs where "bs = take (nat ?w) (drop (nat (cursor p)) data)"
  have len: "length bs = nat ?w" using room rows0 w Cons.prems(8) by (simp add: bs_def)
  define p1 where "p1 = p\<lparr>cursor := cursor p + ?w, byteCount := byteCount p + ?w,
    heap := mem_write (heap p) (?b + col_size_or_offset r) bs\<rparr>"
  have row: "base_row f' ctx data populate table i r b p = Ok (i, p1)"
    using base_row_flat [OF t(1) Cons.prems(6) Cons.prems(8)] room rows0 by (simp add: p1_def bs_def)
  show ?case
  proof (cases "dataBufferSize p1 \<le> byteCount p1")
    case True
    then have "\<not> 0 < flat_width rows" using room Cons.prems(10,11) by (simp add: p1_def)
    then have "rows = []" using flat_width_gt [of rows] Cons.prems(4) by auto
    moreover have "parse_rows f ctx data populate table b i p = Ok p1"
      using r t(2) row True w room rows0 Cons.prems(10,11) by (simp add: f del: table_at_Ok)
    ultimately show ?thesis
      using len w by (auto simp: p1_def flat_region_def bs_def intro!: frame_mem_write)
  next
    case False
    have "\<exists>p'. parse_rows f' ctx data populate table b (i + 1) p1 = Ok p' \<and>
      frame (flat_region (inStructAddrs p1 0) rows) (heap p1) (heap p') \<and>
      (\<forall>(off, c, w) \<in> set (flat_fields rows (cursor p1)).
         mem_read (heap p') (inStructAddrs p1 0 + off) (nat w) = take (nat w) (drop (nat c) data))"
      by (rule Cons.IH [OF drop1 Cons.prems(2)]) (use Cons.prems w room in \<open>auto simp: f p1_def\<close>)
    then obtain p' where p': "parse_rows f' ctx data populate table b (i + 1) p1 = Ok p'"
      "frame (flat_region ?b rows) (heap p1) (heap p')"
      "\<forall>(off, c, w) \<in> set (flat_fields rows (cursor p + ?w)).
         mem_read (heap p') (?b + off) (nat w) = take (nat w) (drop (nat c) data)"
      by (auto simp: p1_def)
    have "parse_rows f ctx data populate table b i p = Ok p'"
      using r t(2) row False p'(1) w room rows0 Cons.prems(10,11) by (simp add: f del: table_at_Ok)
    moreover have "frame (flat_region ?b (r # rows)) (heap p) (heap p')"
    proof (rule frame_trans)
      show "frame (flat_region ?b (r # rows)) (heap p) (heap p1)"
        using len w by (auto simp: p1_def flat_region_def intro!: frame_mem_write)
      show "frame (flat_region ?b (r # rows)) (heap p1) (heap p')"
        by (rule frame_mono [OF p'(2)]) (auto simp: flat_region_def)
    qed
    moreover have "mem_read (heap p') (?b + col_size_or_offset r) (nat ?w) = bs"
    proof -
      have "region (?b + col_size_or_offset r) (int (nat ?w)) \<inter> flat_region ?b rows = {}"
        using Cons.prems(5) w by (fastforce simp: flat_region_def region_def list_all_iff)
      from frame_read [OF p'(2) this] show ?thesis using len by (simp add: p1_def)
    qed
    ultimately show ?thesis using p'(3) by (auto simp: bs_def)
  qed
qed

end
