(* ===== verification/Smapi_Layouts.thy ===== *)
theory Smapi_Layouts
  imports Smapi_Table
begin

text \<open>
  Output structures and parser tables of the API headers under \<^verbatim>\<open>include/\<close>, written with
  \<open>offsetof\<close> and \<open>sizeof\<close> as the headers write them: plain return codes with an operation id,
  arrays with and without structure lengths, nested arrays, character buffers, C string arrays,
  counted arrays and an error buffer.
\<close>

definition vmApiImageDeleteDmOutput :: "ctype list" where
  "vmApiImageDeleteDmOutput = [CStruct commonOutputFields, CInt]"

definition vmApiImageDiskCreateDmOutput :: "ctype list" where
  "vmApiImageDiskCreateDmOutput = [CStruct commonOutputFields, CInt]"

definition vmApiImageDiskQueryOutput :: "ctype list" where
  "vmApiImageDiskQueryOutput = [CStruct commonOutputFields, CInt, CPtr]"

definition vmApiImageDiskDASD :: "ctype list" where
  "vmApiImageDiskDASD = [CPtr, CPtr, CChar, CPtr, CLongLong, CChar, CPtr]"

definition vmApiImageQueryDmOutput :: "ctype list" where
  "vmApiImageQueryDmOutput = [CStruct commonOutputFields, CInt, CPtr]"

definition vmApiImageRecord :: "ctype list" where
  "vmApiImageRecord = [CInt, CPtr]"

definition vmApiImageScsiCharacteristicsQueryDmOutput :: "ctype list" where
  "vmApiImageScsiCharacteristicsQueryDmOutput = [CStruct commonOutputFields, CPtr, CPtr, CPtr, CPtr, CChar, CPtr, CInt]"

definition vmApiImageStatusQueryOutput :: "ctype list" where
  "vmApiImageStatusQueryOutput = [CStruct commonOutputFields, CInt, CPtr]"

definition vmApiImageName :: "ctype list" where
  "vmApiImageName = [CPtr]"

definition vmApiProfileQueryDmOutput :: "ctype list" where
  "vmApiProfileQueryDmOutput = [CStruct commonOutputFields, CInt, CPtr]"

definition vmApiProfileRecord :: "ctype list" where
  "vmApiProfileRecord = [CInt, CPtr]"

definition vmApiQueryAllDmOutput :: "ctype list" where
  "vmApiQueryAllDmOutput = [CStruct commonOutputFields, CInt, CPtr]"

definition vmapiDirectoryEntryStructure :: "ctype list" where
  "vmapiDirectoryEntryStructure = [CInt, CPtr, CInt, CPtr, CInt, CPtr]"

definition vmApiDirectoryEntryRecord :: "ctype list" where
  "vmApiDirectoryEntryRecord = [CInt, CPtr]"

definition vmApiSSIQueryOutput :: "ctype list" where
  "vmApiSSIQueryOutput = [CStruct commonOutputFields, CPtr, CPtr, CPtr, CPtr, CInt, CPtr]"

definition vmApiCStringInfo :: "ctype list" where
  "vmApiCStringInfo = [CPtr]"

definition vmApiSystemImagePerformanceQueryOutput :: "ctype list" where
  "vmApiSystemImagePerformanceQueryOutput = [CStruct commonOutputFields, CInt, CPtr]"

definition vmApiSystemImagePerformanceRecord :: "ctype list" where
  "vmApiSystemImagePerformanceRecord = [CInt, CInt, CLongLong, CLongLong, CLongLong, CLongLong, CLongLong, CLongLong, CInt, CInt, CInt, CInt, CInt, CInt, CInt, CInt, CInt, CInt, CInt, CInt, CPtr]"

definition vmApiImageDefinitionCreateDMOutput :: "ctype list" where
  "vmApiImageDefinitionCreateDMOutput = [CStruct commonOutputFields, CInt, CPtr, CInt, CPtr]"

definition vmApiVirtualNetworkVLANQueryStatsOutput :: "ctype list" where
  "vmApiVirtualNetworkVLANQueryStatsOutput = [CStruct commonOutputFields, CInt, CPtr]"

definition vmApiPortNic_structure :: "ctype list" where
  "vmApiPortNic_structure = [CPtr, CInt, CPtr]"

definition vmApiPsegArray_structure :: "ctype list" where
  "vmApiPsegArray_structure = [CPtr]"

definition vmApiVirtualNetworkVswitchQueryExtendedOutput :: "ctype list" where
  "vmApiVirtualNetworkVswitchQueryExtendedOutput = [CStruct commonOutputFields, CInt, CPtr]"

definition vswitch_array_structure :: "ctype list" where
  "vswitch_array_structure = [CInt, CPtr, CInt, CPtr, CInt, CPtr, CInt, CPtr, CInt, CPtr, CInt, CPtr]"

definition real_device_info_structure :: "ctype list" where
  "real_device_info_structure = [CPtr]"

definition authorized_user_structure :: "ctype list" where
  "authorized_user_structure = [CPtr]"

definition connected_adapter_structure :: "ctype list" where
  "connected_adapter_structure = [CPtr]"

definition uplink_NIC_structure :: "ctype list" where
  "uplink_NIC_structure = [CPtr]"

definition global_member_structure :: "ctype list" where
  "global_member_structure = [CPtr]"

definition vmApiVirtualNetworkVswitchQueryStatsOutput :: "ctype list" where
  "vmApiVirtualNetworkVswitchQueryStatsOutput = [CStruct commonOutputFields, CInt, CPtr]"

definition vmApiVswitch_structure :: "ctype list" where
  "vmApiVswitch_structure = [CPtr, CInt, CPtr]"

definition vmApiVswitchPsegArray_structure :: "ctype list" where
  "vmApiVswitchPsegArray_structure = [CPtr]"

definition Image_Delete_DM_Layout :: tableLayout where
  "Image_Delete_DM_Layout =
   [mk_row APITYPE_BASE_STRUCT_LEN 4 4 0 0 (c_sizeof vmApiImageDeleteDmOutput),
    mk_row APITYPE_INT4 4 4 0 0 (c_offsetof vmApiImageDeleteDmOutput 0 + c_offsetof commonOutputFields 0),
    mk_row APITYPE_RC_INT4 4 4 0 0 (c_offsetof vmApiImageDeleteDmOutput 0 + c_offsetof commonOutputFields 1),
    mk_row APITYPE_RS_INT4 4 4 0 0 (c_offsetof vmApiImageDeleteDmOutput 0 + c_offsetof commonOutputFields 2),
    mk_row APITYPE_INT4 4 4 0 0 (c_offsetof vmApiImageDeleteDmOutput 1),
    mk_row APITYPE_END_OF_TABLE 0 0 0 0 0]"

definition Image_Disk_Create_DM_Layout :: tableLayout where
  "Image_Disk_Create_DM_Layout =
   [mk_row APITYPE_BASE_STRUCT_LEN 4 4 0 0 (c_sizeof vmApiImageDiskCreateDmOutput),
    mk_row APITYPE_INT4 4 4 0 0 (c_offsetof vmApiImageDiskCreateDmOutput 0 + c_offsetof commonOutputFields 0),
    mk_row APITYPE_RC_INT4 4 4 0 0 (c_offsetof vmApiImageDiskCreateDmOutput 0 + c_offsetof commonOutputFields 1),
    mk_row APITYPE_RS_INT4 4 4 0 0 (c_offsetof vmApiImageDiskCreateDmOutput 0 + c_offsetof commonOutputFields 2),
    mk_row APITYPE_INT4 4 4 0 0 (c_offsetof vmApiImageDiskCreateDmOutput 1),
    mk_row APITYPE_END_OF_TABLE 0 0 0 0 0]"

definition Image_Disk_Query_Layout :: tableLayout where
  "Image_Disk_Query_Layout =
   [mk_row APITYPE_BASE_STRUCT_LEN 4 4 0 0 (c_sizeof vmApiImageDiskQueryOutput),
    mk_row APITYPE_INT4 4 4 0 0 (c_offsetof vmApiImageDiskQueryOutput 0 + c_offsetof commonOutputFields 0),
    mk_row APITYPE_RC_INT4 4 4 0 0 (c_offsetof vmApiImageDiskQueryOutput 0 + c_offsetof commonOutputFields 1),
    mk_row APITYPE_RS_INT4 4 4 0 0 (c_offsetof vmApiImageDiskQueryOutput 0 + c_offsetof commonOutputFields 2),
    mk_row APITYPE_ARRAY_NO_LENGTH 4 4 0 0 (c_offsetof vmApiImageDiskQueryOutput 2),
    mk_row APITYPE_ARRAY_STRUCT_COUNT 4 4 0 0 (c_offsetof vmApiImageDiskQueryOutput 1),
    mk_row APITYPE_NOBUFFER_STRUCT_LEN 4 4 1 1 (c_sizeof vmApiImageDiskDASD),
    mk_row APITYPE_FIXED_STR_PTR 4 4 1 1 (c_offsetof vmApiImageDiskDASD 0),
    mk_row APITYPE_FIXED_STR_PTR 4 4 1 1 (c_offsetof vmApiImageDiskDASD 1),
    mk_row APITYPE_INT1 1 1 1 1 (c_offsetof vmApiImageDiskDASD 2),
    mk_row APITYPE_FIXED_STR_PTR 4 4 1 1 (c_offsetof vmApiImageDiskDASD 3),
    mk_row APITYPE_INT8 8 8 1 1 (c_offsetof vmApiImageDiskDASD 4),
    mk_row APITYPE_INT1 1 1 1 1 (c_offsetof vmApiImageDiskDASD 5),
    mk_row APITYPE_C_STR_PTR 1 6 1 1 (c_offsetof vmApiImageDiskDASD 6),
    mk_row APITYPE_END_OF_TABLE 0 0 0 0 0]"

definition Image_Query_DM_Layout :: tableLayout where
  "Image_Query_DM_Layout =
   [mk_row APITYPE_BASE_STRUCT_LEN 4 4 0 0 (c_sizeof vmApiImageQueryDmOutput),
    mk_row APITYPE_RC_INT4 4 4 0 0 (c_offsetof vmApiImageQueryDmOutput 0 + c_offsetof commonOutputFields 0),
    mk_row APITYPE_RS_INT4 4 4 0 0 (c_offsetof vmApiImageQueryDmOutput 0 + c_offsetof commonOutputFields 1),
    mk_row APITYPE_INT4 4 4 0 0 (c_offsetof vmApiImageQueryDmOutput 0 + c_offsetof commonOutputFields 2),
    mk_row APITYPE_ARRAY_LEN 4 4 0 0 (c_offsetof vmApiImageQueryDmOutput 2),
    mk_row APITYPE_ARRAY_STRUCT_COUNT 4 4 0 0 (c_offsetof vmApiImageQueryDmOutput 1),
    mk_row APITYPE_NOBUFFER_STRUCT_LEN 4 4 1 1 (c_sizeof vmApiImageRecord),
    mk_row APITYPE_CHARBUF_LEN 1 80 1 1 (c_offsetof vmApiImageRecord 1),
    mk_row APITYPE_CHARBUF_COUNT 4 4 1 1 (c_offsetof vmApiImageRecord 0),
    mk_row APITYPE_END_OF_TABLE 0 0 0 0 0]"

definition Image_SCSI_Characteristics_Query_DM_Layout :: tableLayout where
  "Image_SCSI_Characteristics_Query_DM_Layout =
   [mk_row APITYPE_BASE_STRUCT_LEN 4 4 0 0 (c_sizeof vmApiImageScsiCharacteristicsQueryDmOutput),
    mk_row APITYPE_INT4 4 4 0 0 (c_offsetof vmApiImageScsiCharacteristicsQueryDmOutput 0 + c_offsetof commonOutputFields 0),
    mk_row APITYPE_RC_INT4 4 4 0 0 (c_offsetof vmApiImageScsiCharacteristicsQueryDmOutput 0 + c_offsetof commonOutputFields 1),
    mk_row APITYPE_RS_INT4 4 4 0 0 (c_offsetof vmApiImageScsiCharacteristicsQueryDmOutput 0 + c_offsetof commonOutputFields 2),
    mk_row APITYPE_STRING_LEN 0 6 0 0 (c_offsetof vmApiImageScsiCharacteristicsQueryDmOutput 1),
    mk_row APITYPE_STRING_LEN 0 16 0 0 (c_offsetof vmApiImageScsiCharacteristicsQueryDmOutput 2),
    mk_row APITYPE_STRING_LEN 0 16 0 0 (c_offsetof vmApiImageScsiCharacteristicsQueryDmOutput 3),
    mk_row APITYPE_STRING_LEN 0 16 0 0 (c_offsetof vmApiImageScsiCharacteristicsQueryDmOutput 4),
    mk_row APITYPE_INT1 1 1 0 0 (c_offsetof vmApiImageScsiCharacteristicsQueryDmOutput 5),
    mk_row APITYPE_CHARBUF_LEN 0 4102 0 0 (c_offsetof vmApiImageScsiCharacteristicsQueryDmOutput 6),
    mk_row APITYPE_CHARBUF_COUNT 0 4 0 0 (c_offsetof vmApiImageScsiCharacteristicsQueryDmOutput 7),
    mk_row APITYPE_END_OF_TABLE 0 0 0 0 0]"

definition Image_Status_Query_Layout :: tableLayout where
  "Image_Status_Query_Layout =
   [mk_row APITYPE_BASE_STRUCT_LEN 4 4 0 0 (c_sizeof vmApiImageStatusQueryOutput),
    mk_row APITYPE_INT4 4 4 0 0 (c_offsetof vmApiImageStatusQueryOutput 0 + c_offsetof commonOutputFields 0),
    mk_row APITYPE_RC_INT4 4 4 0 0 (c_offsetof vmApiImageStatusQueryOutput 0 + c_offsetof commonOutputFields 1),
    mk_row APITYPE_RS_INT4 4 4 0 0 (c_offsetof vmApiImageStatusQueryOutput 0 + c_offsetof commonOutputFields 2),
    mk_row APITYPE_ARRAY_LEN 4 4 0 0 (c_offsetof vmApiImageStatusQueryOutput 2),
    mk_row APITYPE_ARRAY_STRUCT_COUNT 4 4 0 0 (c_offsetof vmApiImageStatusQueryOutput 1),
    mk_row APITYPE_NOBUFFER_STRUCT_LEN 4 4 1 1 (c_sizeof vmApiImageName),
    mk_row APITYPE_STRING_LEN 1 8 1 1 (c_offsetof vmApiImageName 0),
    mk_row APITYPE_END_OF_TABLE 0 0 0 0 0]"

definition Profile_Query_DM_Layout :: tableLayout where
  "Profile_Query_DM_Layout =
   [mk_row APITYPE_BASE_STRUCT_LEN 4 4 0 0 (c_sizeof vmApiProfileQueryDmOutput),
    mk_row APITYPE_INT4 4 4 0 0 (c_offsetof vmApiProfileQueryDmOutput 0 + c_offsetof commonOutputFields 0),
    mk_row APITYPE_RC_INT4 4 4 0 0 (c_offsetof vmApiProfileQueryDmOutput 0 + c_offsetof commonOutputFields 1),
    mk_row APITYPE_RS_INT4 4 4 0 0 (c_offsetof vmApiProfileQueryDmOutput 0 + c_offsetof commonOutputFields 2),
    mk_row APITYPE_ARRAY_LEN 4 4 0 0 (c_offsetof vmApiProfileQueryDmOutput 2),
    mk_row APITYPE_ARRAY_STRUCT_COUNT 4 4 0 0 (c_offsetof vmApiProfileQueryDmOutput 1),
    mk_row APITYPE_NOBUFFER_STRUCT_LEN 4 4 1 1 (c_sizeof vmApiProfileRecord),
    mk_row APITYPE_CHARBUF_LEN 0 80 1 1 (c_offsetof vmApiProfileRecord 1),
    mk_row APITYPE_CHARBUF_COUNT 0 4 1 1 (c_offsetof vmApiProfileRecord 0),
    mk_row APITYPE_END_OF_TABLE 0 0 0 0 0]"

definition Query_All_DM_NO_Layout :: tableLayout where
  "Query_All_DM_NO_Layout =
   [mk_row APITYPE_BASE_STRUCT_LEN 4 4 0 0 (c_sizeof vmApiQueryAllDmOutput),
    mk_row APITYPE_INT4 4 4 0 0 (c_offsetof vmApiQueryAllDmOutput 0 + c_offsetof commonOutputFields 0),
    mk_row APITYPE_RC_INT4 4 4 0 0 (c_offsetof vmApiQueryAllDmOutput 0 + c_offsetof commonOutputFields 1),
    mk_row APITYPE_RS_INT4 4 4 0 0 (c_offsetof vmApiQueryAllDmOutput 0 + c_offsetof commonOutputFields 2),
    mk_row APITYPE_ARRAY_LEN 4 4 0 0 (c_offsetof vmApiQueryAllDmOutput 2),
    mk_row APITYPE_ARRAY_STRUCT_COUNT 4 4 0 0 (c_offsetof vmApiQueryAllDmOutput 1),
    mk_row APITYPE_STRUCT_LEN 4 4 1 1 (c_sizeof vmapiDirectoryEntryStructure),
    mk_row APITYPE_INT4 4 4 1 1 (c_offsetof vmapiDirectoryEntryStructure 0),
    mk_row APITYPE_STRING_LEN 1 10 1 1 (c_offsetof vmapiDirectoryEntryStructure 1),
    mk_row APITYPE_ARRAY_LEN 4 4 1 1 (c_offsetof vmapiDirectoryEntryStructure 5),
    mk_row APITYPE_ARRAY_STRUCT_COUNT 4 4 1 1 (c_offsetof vmapiDirectoryEntryStructure 4),
    mk_row APITYPE_NOBUFFER_STRUCT_LEN 4 4 2 2 (c_sizeof vmApiDirectoryEntryRecord),
    mk_row APITYPE_CHARBUF_LEN 1 80 2 2 (c_offsetof vmApiDirectoryEntryRecord 1),
    mk_row APITYPE_CHARBUF_COUNT 4 4 2 2 (c_offsetof vmApiDirectoryEntryRecord 0),
    mk_row APITYPE_END_OF_TABLE 0 0 0 0 0]"

definition Query_All_DM_YES_Layout :: tableLayout where
  "Query_All_DM_YES_Layout =
   [mk_row APITYPE_BASE_STRUCT_LEN 4 4 0 0 (c_sizeof vmApiQueryAllDmOutput),
    mk_row APITYPE_INT4 4 4 0 0 (c_offsetof vmApiQueryAllDmOutput 0 + c_offsetof commonOutputFields 0),
    mk_row APITYPE_RC_INT4 4 4 0 0 (c_offsetof vmApiQueryAllDmOutput 0 + c_offsetof commonOutputFields 1),
    mk_row APITYPE_RS_INT4 4 4 0 0 (c_offsetof vmApiQueryAllDmOutput 0 + c_offsetof commonOutputFields 2),
    mk_row APITYPE_ARRAY_LEN 4 4 0 0 (c_offsetof vmApiQueryAllDmOutput 2),
    mk_row APITYPE_ARRAY_STRUCT_COUNT 4 4 0 0 (c_offsetof vmApiQueryAllDmOutput 1),
    mk_row APITYPE_STRUCT_LEN 4 4 1 1 (c_sizeof vmapiDirectoryEntryStructure),
    mk_row APITYPE_INT4 4 4 1 1 (c_offsetof vmapiDirectoryEntryStructure 0),
    mk_row APITYPE_STRING_LEN 1 10 1 1 (c_offsetof vmapiDirectoryEntryStructure 1),
    mk_row APITYPE_CHARBUF_PTR 0 (-1) 1 1 (c_offsetof vmapiDirectoryEntryStructure 3),
    mk_row APITYPE_CHARBUF_COUNT 4 4 1 1 (c_offsetof vmapiDirectoryEntryStructure 2),
    mk_row APITYPE_END_OF_TABLE 0 0 0 0 0]"

definition SSI_Query_Layout :: tableLayout where
  "SSI_Query_Layout =
   [mk_row APITYPE_BASE_STRUCT_LEN 4 4 0 0 (c_sizeof vmApiSSIQueryOutput),
    mk_row APITYPE_INT4 4 4 0 0 (c_offsetof vmApiSSIQueryOutput 0 + c_offsetof commonOutputFields 0),
    mk_row APITYPE_RC_INT4 4 4 0 0 (c_offsetof vmApiSSIQueryOutput 0 + c_offsetof commonOutputFields 1),
    mk_row APITYPE_RS_INT4 4 4 0 0 (c_offsetof vmApiSSIQueryOutput 0 + c_offsetof commonOutputFields 2),
    mk_row APITYPE_C_STR_PTR 1 8 0 0 (c_offsetof vmApiSSIQueryOutput 1),
    mk_row APITYPE_C_STR_PTR 4 6 0 0 (c_offsetof vmApiSSIQueryOutput 2),
    mk_row APITYPE_C_STR_PTR 7 8 0 0 (c_offsetof vmApiSSIQueryOutput 3),
    mk_row APITYPE_C_STR_PTR 6 14 0 0 (c_offsetof vmApiSSIQueryOutput 4),
    mk_row APITYPE_C_STR_ARRAY_PTR 4 4 0 0 (c_offsetof vmApiSSIQueryOutput 6),
    mk_row APITYPE_C_STR_ARRAY_COUNT 4 4 0 0 (c_offsetof vmApiSSIQueryOutput 5),
    mk_row APITYPE_C_STR_STRUCT_LEN 4 4 1 1 (c_sizeof vmApiCStringInfo),
    mk_row APITYPE_C_STR_PTR 4 4 1 1 (c_offsetof vmApiCStringInfo 0),
    mk_row APITYPE_END_OF_TABLE 0 0 0 0 0]"

definition System_Image_Performance_Query_Layout :: tableLayout where
  "System_Image_Performance_Query_Layout =
   [mk_row APITYPE_BASE_STRUCT_LEN 4 4 0 0 (c_sizeof vmApiSystemImagePerformanceQueryOutput),
    mk_row APITYPE_INT4 4 4 0 0 (c_offsetof vmApiSystemImagePerformanceQueryOutput 0 + c_offsetof commonOutputFields 0),
    mk_row APITYPE_RC_INT4 4 4 0 0 (c_offsetof vmApiSystemImagePerformanceQueryOutput 0 + c_offsetof commonOutputFields 1),
    mk_row APITYPE_RS_INT4 4 4 0 0 (c_offsetof vmApiSystemImagePerformanceQueryOutput 0 + c_offsetof commonOutputFields 2),
    mk_row APITYPE_ARRAY_COUNT 4 4 0 0 (c_offsetof vmApiSystemImagePerformanceQueryOutput 2),
    mk_row APITYPE_ARRAY_STRUCT_COUNT 4 4 0 0 (c_offsetof vmApiSystemImagePerformanceQueryOutput 1),
    mk_row APITYPE_STRUCT_LEN 4 4 1 1 (c_sizeof vmApiSystemImagePerformanceRecord),
    mk_row APITYPE_INT4 4 4 1 1 (c_offsetof vmApiSystemImagePerformanceRecord 0),
    mk_row APITYPE_INT4 4 4 1 1 (c_offsetof vmApiSystemImagePerformanceRecord 1),
    mk_row APITYPE_INT8 8 8 1 1 (c_offsetof vmApiSystemImagePerformanceRecord 2),
    mk_row APITYPE_INT8 8 8 1 1 (c_offsetof vmApiSystemImagePerformanceRecord 3),
    mk_row APITYPE_INT8 8 8 1 1 (c_offsetof vmApiSystemImagePerformanceRecord 4),
    mk_row APITYPE_INT8 8 8 1 1 (c_offsetof vmApiSystemImagePerformanceRecord 5),
    mk_row APITYPE_INT8 8 8 1 1 (c_offsetof vmApiSystemImagePerformanceRecord 6),
    mk_row APITYPE_INT8 8 8 1 1 (c_offsetof vmApiSystemImagePerformanceRecord 7),
    mk_row APITYPE_INT4 4 4 1 1 (c_offsetof vmApiSystemImagePerformanceRecord 8),
    mk_row APITYPE_INT4 4 4 1 1 (c_offsetof vmApiSystemImagePerformanceRecord 9),
    mk_row APITYPE_INT4 4 4 1 1 (c_offsetof vmApiSystemImagePerformanceRecord 10),
    mk_row APITYPE_INT4 4 4 1 1 (c_offsetof vmApiSystemImagePerformanceRecord 11),
    mk_row APITYPE_INT4 4 4 1 1 (c_offsetof vmApiSystemImagePerformanceRecord 12),
    mk_row APITYPE_INT4 4 4 1 1 (c_offsetof vmApiSystemImagePerformanceRecord 13),
    mk_row APITYPE_INT4 4 4 1 1 (c_offsetof vmApiSystemImagePerformanceRecord 14),
    mk_row APITYPE_INT4 4 4 1 1 (c_offsetof vmApiSystemImagePerformanceRecord 15),
    mk_row APITYPE_INT4 4 4 1 1 (c_offsetof vmApiSystemImagePerformanceRecord 16),
    mk_row APITYPE_INT4 4 4 1 1 (c_offsetof vmApiSystemImagePerformanceRecord 17),
    mk_row APITYPE_INT4 4 4 1 1 (c_offsetof vmApiSystemImagePerformanceRecord 18),
    mk_row APITYPE_INT4 4 4 1 1 (c_offsetof vmApiSystemImagePerformanceRecord 19),
    mk_row APITYPE_FIXED_STR_PTR 8 8 1 1 (c_offsetof vmApiSystemImagePerformanceRecord 20),
    mk_row APITYPE_END_OF_TABLE 0 0 0 0 0]"

definition Image_Definition_Create_DM_Layout :: tableLayout where
  "Image_Definition_Create_DM_Layout =
   [mk_row APITYPE_BASE_STRUCT_LEN 4 4 0 0 (c_sizeof vmApiImageDefinitionCreateDMOutput),
    mk_row APITYPE_INT4 4 4 0 0 (c_offsetof vmApiImageDefinitionCreateDMOutput 0 + c_offsetof commonOutputFields 0),
    mk_row APITYPE_RC_INT4 4 4 0 0 (c_offsetof vmApiImageDefinitionCreateDMOutput 0 + c_offsetof commonOutputFields 1),
    mk_row APITYPE_RS_INT4 4 4 0 0 (c_offsetof vmApiImageDefinitionCreateDMOutput 0 + c_offsetof commonOutputFields 2),
    mk_row APITYPE_CHARBUF_PTR 0 (-1) 0 0 (c_offsetof vmApiImageDefinitionCreateDMOutput 2),
    mk_row APITYPE_CHARBUF_COUNT 4 4 0 0 (c_offsetof vmApiImageDefinitionCreateDMOutput 1),
    mk_row APITYPE_ERROR_BUFF_LEN 4 4 0 0 (c_offsetof vmApiImageDefinitionCreateDMOutput 3),
    mk_row APITYPE_ERROR_BUFF_PTR 4 4 0 0 (c_offsetof vmApiImageDefinitionCreateDMOutput 4),
    mk_row APITYPE_END_OF_TABLE 0 0 0 0 0]"

definition Virtual_Network_VLAN_Query_Stats_Layout :: tableLayout where
  "Virtual_Network_VLAN_Query_Stats_Layout =
   [mk_row APITYPE_BASE_STRUCT_LEN 4 4 0 0 (c_sizeof vmApiVirtualNetworkVLANQueryStatsOutput),
    mk_row APITYPE_INT4 4 4 0 0 (c_offsetof vmApiVirtualNetworkVLANQueryStatsOutput 0 + c_offsetof commonOutputFields 0),
    mk_row APITYPE_RC_INT4 4 4 0 0 (c_offsetof vmApiVirtualNetworkVLANQueryStatsOutput 0 + c_offsetof commonOutputFields 1),
    mk_row APITYPE_RS_INT4 4 4 0 0 (c_offsetof vmApiVirtualNetworkVLANQueryStatsOutput 0 + c_offsetof commonOutputFields 2),
    mk_row APITYPE_ARRAY_LEN 4 4 0 0 (c_offsetof vmApiVirtualNetworkVLANQueryStatsOutput 2),
    mk_row APITYPE_ARRAY_STRUCT_COUNT 4 4 0 0 (c_offsetof vmApiVirtualNetworkVLANQueryStatsOutput 1),
    mk_row APITYPE_STRUCT_LEN 4 4 1 1 (c_sizeof vmApiPortNic_structure),
    mk_row APITYPE_C_STR_PTR 1 24 1 1 (c_offsetof vmApiPortNic_structure 0),
    mk_row APITYPE_ARRAY_LEN 4 4 1 1 (c_offsetof vmApiPortNic_structure 2),
    mk_row APITYPE_ARRAY_STRUCT_COUNT 4 4 1 1 (c_offsetof vmApiPortNic_structure 1),
    mk_row APITYPE_NOBUFFER_STRUCT_LEN 4 4 2 2 (c_sizeof vmApiPsegArray_structure),
    mk_row APITYPE_C_STR_PTR 1 50 2 2 (c_offsetof vmApiPsegArray_structure 0),
    mk_row APITYPE_END_OF_TABLE 0 0 0 0 0]"

definition Virtual_Network_VSwitch_Query_Extended_Layout :: tableLayout where
  "Virtual_Network_VSwitch_Query_Extended_Layout =
   [mk_row APITYPE_BASE_STRUCT_LEN 4 4 0 0 (c_sizeof vmApiVirtualNetworkVswitchQueryExtendedOutput),
    mk_row APITYPE_INT4 4 4 0 0 (c_offsetof vmApiVirtualNetworkVswitchQueryExtendedOutput 0 + c_offsetof commonOutputFields 0),
    mk_row APITYPE_RC_INT4 4 4 0 0 (c_offsetof vmApiVirtualNetworkVswitchQueryExtendedOutput 0 + c_offsetof commonOutputFields 1),
    mk_row APITYPE_RS_INT4 4 4 0 0 (c_offsetof vmApiVirtualNetworkVswitchQueryExtendedOutput 0 + c_offsetof commonOutputFields 2),
    mk_row APITYPE_ARRAY_COUNT 4 4 0 0 (c_offsetof vmApiVirtualNetworkVswitchQueryExtendedOutput 2),
    mk_row APITYPE_ARRAY_STRUCT_COUNT 4 4 0 0 (c_offsetof vmApiVirtualNetworkVswitchQueryExtendedOutput 1),
    mk_row APITYPE_STRUCT_LEN 4 4 1 1 (c_sizeof vswitch_array_structure),
    mk_row APITYPE_INT4 4 4 1 1 (c_offsetof vswitch_array_structure 0),
    mk_row APITYPE_C_STR_PTR 1 400 1 1 (c_offsetof vswitch_array_structure 1),
    mk_row APITYPE_ARRAY_LEN 4 4 1 1 (c_offsetof vswitch_array_structure 3),
    mk_row APITYPE_ARRAY_STRUCT_COUNT 4 4 1 1 (c_offsetof vswitch_array_structure 2),
    mk_row APITYPE_NOBUFFER_STRUCT_LEN 4 4 2 2 (c_sizeof real_device_info_structure),
    mk_row APITYPE_C_STR_PTR 0 90 2 2 (c_offsetof real_device_info_structure 0),
    mk_row APITYPE_ARRAY_LEN 4 4 1 1 (c_offsetof vswitch_array_structure 5),
    mk_row APITYPE_ARRAY_STRUCT_COUNT 4 4 1 1 (c_offsetof vswitch_array_structure 4),
    mk_row APITYPE_NOBUFFER_STRUCT_LEN 4 4 3 3 (c_sizeof authorized_user_structure),
    mk_row APITYPE_C_STR_PTR 0 (-1) 3 3 (c_offsetof authorized_user_structure 0),
    mk_row APITYPE_ARRAY_LEN 4 4 1 1 (c_offsetof vswitch_array_structure 7),
    mk_row APITYPE_ARRAY_STRUCT_COUNT 4 4 1 1 (c_offsetof vswitch_array_structure 6),
    mk_row APITYPE_NOBUFFER_STRUCT_LEN 4 4 4 4 (c_sizeof connected_adapter_structure),
    mk_row APITYPE_C_STR_PTR 0 41 4 4 (c_offsetof connected_adapter_structure 0),
    mk_row APITYPE_ARRAY_LEN 4 4 1 1 (c_offsetof vswitch_array_structure 9),
    mk_row APITYPE_ARRAY_STRUCT_COUNT 4 4 1 1 (c_offsetof vswitch_array_structure 8),
    mk_row APITYPE_NOBUFFER_STRUCT_LEN 4 4 5 5 (c_sizeof uplink_NIC_structure),
    mk_row APITYPE_C_STR_PTR 0 15 5 5 (c_offsetof uplink_NIC_structure 0),
    mk_row APITYPE_ARRAY_LEN 4 4 1 1 (c_offsetof vswitch_array_structure 11),
    mk_row APITYPE_ARRAY_STRUCT_COUNT 4 4 1 1 (c_offsetof vswitch_array_structure 10),
    mk_row APITYPE_NOBUFFER_STRUCT_LEN 4 4 6 6 (c_sizeof global_member_structure),
    mk_row APITYPE_C_STR_PTR 0 99 6 6 (c_offsetof global_member_structure 0),
    mk_row APITYPE_END_OF_TABLE 0 0 0 0 0]"

definition Virtual_Network_Vswitch_Query_Stats_Layout :: tableLayout where
  "Virtual_Network_Vswitch_Query_Stats_Layout =
   [mk_row APITYPE_BASE_STRUCT_LEN 4 4 0 0 (c_sizeof vmApiVirtualNetworkVswitchQueryStatsOutput),
    mk_row APITYPE_INT4 4 4 0 0 (c_offsetof vmApiVirtualNetworkVswitchQueryStatsOutput 0 + c_offsetof commonOutputFields 0),
    mk_row APITYPE_RC_INT4 4 4 0 0 (c_offsetof vmApiVirtualNetworkVswitchQueryStatsOutput 0 + c_offsetof commonOutputFields 1),
    mk_row APITYPE_RS_INT4 4 4 0 0 (c_offsetof vmApiVirtualNetworkVswitchQueryStatsOutput 0 + c_offsetof commonOutputFields 2),
    mk_row APITYPE_ARRAY_LEN 4 4 0 0 (c_offsetof vmApiVirtualNetworkVswitchQueryStatsOutput 2),
    mk_row APITYPE_ARRAY_STRUCT_COUNT 4 4 0 0 (c_offsetof vmApiVirtualNetworkVswitchQueryStatsOutput 1),
    mk_row APITYPE_NOBUFFER_STRUCT_LEN 4 4 1 1 (c_sizeof vmApiVswitch_structure),
    mk_row APITYPE_STRING_LEN 1 8 1 1 (c_offsetof vmApiVswitch_structure 0),
    mk_row APITYPE_ARRAY_LEN 4 4 1 1 (c_offsetof vmApiVswitch_structure 2),
    mk_row APITYPE_ARRAY_STRUCT_COUNT 4 4 1 1 (c_offsetof vmApiVswitch_structure 1),
    mk_row APITYPE_NOBUFFER_STRUCT_LEN 4 4 2 2 (c_sizeof vmApiVswitchPsegArray_structure),
    mk_row APITYPE_C_STR_PTR 1 111 2 2 (c_offsetof vmApiVswitchPsegArray_structure 0),
    mk_row APITYPE_END_OF_TABLE 0 0 0 0 0]"

end
