(* ===== verification/Smapi_Responses.thy ===== *)
theory Smapi_Responses
  imports Smapi_Termination Smapi_Layouts
begin

text \<open>
  What \<open>parseBufferWithTable\<close> does with the responses of the server: the properties of the parser
  on well-formed tables, the tables of the API headers that are well formed, and the inputs on
  which the parser departs from what it means to do.
\<close>

section \<open>States and replies for the examples\<close>

definition fresh_state :: "byte list \<Rightarrow> int \<Rightarrow> (int \<Rightarrow> int) \<Rightarrow> parser_state" where
  "fresh_state data str addrs =
     \<lparr>cursor = 0, dataBufferSize = int (length data), byteCount = 0, outStringByteCount = 0,
      outStructCount = (\<lambda>_. 0), outStructSizes = (\<lambda>_. 0), inStructAddrs = addrs,
      inStringCursor = str, heap = (\<lambda>_. 0)\<rparr>"

definition no_errors :: parser_context where
  "no_errors = \<lparr>smapiReturnCode = 0, smapiErrorBufferPossible = 0\<rparr>"

definition image_query_reply :: "byte list" where
  "image_query_reply =
     be_bytes 4 1 @ be_bytes 4 0 @ be_bytes 4 0 @ be_bytes 4 9 @ be_bytes 4 5 @ [65, 66, 67, 68, 69]"

definition delete_reply :: "byte list" where
  "delete_reply = be_bytes 4 7 @ be_bytes 4 0 @ be_bytes 4 0 @ be_bytes 4 42"

section \<open>Scan makes room for populate\<close>

text \<open>
  The memory that \<open>getAndParseSmapiBuffer\<close> allocates after a scan that ended in \<open>s\<close>, at the
  addresses that \<open>p\<close> holds.
\<close>

definition allocated :: "parser_state \<Rightarrow> parser_state \<Rightarrow> int set" where
  "allocated s p =
     region (inStringCursor p) (outStringByteCount s) \<union>
     (\<Union>k\<in>{0..<MAX_STRUCT_ARRAYS}. region (inStructAddrs p k) (outStructSizes s k * outStructCount s k))"

lemma scan_makes_room:
  assumes wf: "wf_table table"
    and scanned: "parseBufferWithTable f ctx data scan table s = Ok s'"
    and err: "error_length_present ctx table (int (length data))"
    and s: "cursor s = 0" "dataBufferSize s = int (length data)"
    and p: "cursor p = 0" "dataBufferSize p = int (length data)"
  shows "(\<exists>p'. parseBufferWithTable f ctx data populate table p = Ok p' \<and>
    frame (allocated s' p) (heap p) (heap p')) \<and>
    sizes_ok table s' \<and> outStructSizes s' 0 = struct_size table 0 \<and> 0 < struct_size table 0 \<and> 1 \<le> outStructCount s' 0 \<and>
    dataBufferSize s' = int (length data)"
proof -
  let ?n = "struct_size table 0"
  have tab: "rows_sane table" "error_rows_ok table" "wf_base (length table) True table ?n 1"
    using wf by (auto simp: wf_table_def)
  obtain r rest where table: "table = r # rest" and r: "col_type r = APITYPE_BASE_STRUCT_LEN" "col_struct_index r = 0"
    using wf by (auto simp: wf_table_def split: list.splits)
  have r_size: "col_size_or_offset r = ?n" "0 < ?n"
    using tab(1) r by (auto simp: table rows_sane_def row_sane_def is_struct_row_def)
  define s0 where "s0 = (clear_outputs s)\<lparr>byteCount := 0,
    outStructSizes := (outStructSizes (clear_outputs s))(0 := ?n),
    outStructCount := (outStructCount (clear_outputs s))(0 := 1)\<rparr>"
  have rows: "parse_rows f ctx data scan table 0 1 s0 = Ok s'"
    using scanned r r_size by (simp add: parseBufferWithTable_def table table_at_def Let_def s0_def)
  define p0 where "p0 = p\<lparr>byteCount := 0\<rparr>"
  let ?B = "inStructAddrs p" and ?sb = "inStringCursor p"
  have count0: "outStructCount s0 k = (if k = 0 then 1 else 0)" "outStructSizes s0 k = (if k = 0 then ?n else 0)"
    if "0 \<le> k" "k < MAX_STRUCT_ARRAYS" for k
    using that by (auto simp: s0_def clear_outputs_def cleared_def)
  have sim0: "sim table ?B ?sb s0 p0"
    using s p count0 by (auto simp: sim_def s0_def p0_def clear_outputs_def cleared_def sizes_ok_def)
  have "in_header 1 data s0" using s by (simp add: in_header_def s0_def clear_outputs_def)
  with parse_rows_lock [OF rows sim0 tab(2) err tab(1,3)]
  obtain p' where le: "scan_le table s0 s'"
    and p': "parse_rows f ctx data populate table (?B 0) 1 p0 = Ok p'"
    and fr: "frame (room table ?B ?sb s' \<union> region (?B 0) ?n) (heap p0) (heap p')"
    by (auto simp: base_lock_def)
  have ok: "sizes_ok table s'" using le sim0 by (auto simp: scan_le_def sim_def)
  have all: "region (?B k) (struct_size table k * outStructCount s' k) \<subseteq> allocated s' p"
    if "0 \<le> k" "k < MAX_STRUCT_ARRAYS" for k
  proof (cases "0 < outStructCount s' k")
    case True
    then show ?thesis using sizes_okD [OF ok that] that by (auto simp: allocated_def)
  next
    case False
    then show ?thesis using sizes_okD [OF ok that] by (simp add: region_def)
  qed
  have one: "1 \<le> outStructCount s' 0" using le count0 [of 0]
    by (auto simp: scan_le_def MAX_STRUCT_ARRAYS_def dest: spec [of _ 0])
  then have "region (?B 0) ?n \<subseteq> region (?B 0) (?n * outStructCount s' 0)"
    using r_size(2) by (intro region_mono) (simp add: mult_le_cancel_left1)
  with all [of 0] have "region (?B 0) ?n \<subseteq> allocated s' p" by (auto simp: MAX_STRUCT_ARRAYS_def)
  moreover have "room table ?B ?sb s' \<subseteq> allocated s' p"
    unfolding room_def by (intro Un_least UN_least all) (auto simp: allocated_def)
  ultimately have "frame (allocated s' p) (heap p) (heap p')"
    using frame_mono [OF fr] by (simp add: p0_def)
  moreover have "parseBufferWithTable f ctx data populate table p = Ok p'"
    using p' r by (simp add: parseBufferWithTable_def table table_at_def p0_def)
  moreover have "outStructSizes s' 0 = ?n" using sizes_okD [OF ok, of 0] one by (simp add: MAX_STRUCT_ARRAYS_def)
  moreover have "dataBufferSize s' = int (length data)" using le s by (simp add: scan_le_def s0_def clear_outputs_def)
  ultimately show ?thesis using ok one r_size(2) by blast
qed

text \<open>
  C1: scan makes room for populate.  For a well-formed table, if the scan pass returns (with no
  error) then the populate pass over the same response returns too, and every byte it writes lies
  in the memory that the scan counted: the string area and the structure arrays.  The only
  condition on the response is that an error buffer that is announced with a length field has the
  four bytes of that field; without them the scan may return and populate copies a negative number
  of bytes.
\<close>

theorem populate_in_bounds:
  assumes wf: "wf_table table"
    and scanned: "parseBufferWithTable f ctx data scan table s = Ok s'"
    and err: "error_length_present ctx table (int (length data))"
    and s: "cursor s = 0" "dataBufferSize s = int (length data)"
    and p: "cursor p = 0" "dataBufferSize p = int (length data)"
  shows "\<exists>p'. parseBufferWithTable f ctx data populate table p = Ok p' \<and>
    frame (allocated s' p) (heap p) (heap p')"
  using scan_makes_room [OF assms] by blast

theorem populate_in_bounds_witness:
  "\<exists>s' p'. parseBufferWithTable 60 no_errors image_query_reply scan Image_Query_DM_Layout
        (fresh_state image_query_reply 0 (\<lambda>_. 0)) = Ok s' \<and>
     outStringByteCount s' = 6 \<and> outStructCount s' 1 = 1 \<and>
     parseBufferWithTable 60 no_errors image_query_reply populate Image_Query_DM_Layout
        (fresh_state image_query_reply 5000 (\<lambda>k. 100 * k)) = Ok p' \<and>
     frame (allocated s' (fresh_state image_query_reply 5000 (\<lambda>k. 100 * k)))
       (heap (fresh_state image_query_reply 5000 (\<lambda>k. 100 * k))) (heap p')"
proof -
  let ?s = "fresh_state image_query_reply 0 (\<lambda>_. 0)"
  let ?p = "fresh_state image_query_reply 5000 (\<lambda>k. 100 * k)"
  have wf: "wf_table Image_Query_DM_Layout" by code_simp
  have err: "error_length_present no_errors Image_Query_DM_Layout (int (length image_query_reply))"
    by (simp add: error_length_present_def no_errors_def)
  have "case parseBufferWithTable 60 no_errors image_query_reply scan Image_Query_DM_Layout ?s of
      Ok s' \<Rightarrow> outStringByteCount s' = 6 \<and> outStructCount s' 1 = 1 | _ \<Rightarrow> False"
    by code_simp
  then obtain s' where s': "parseBufferWithTable 60 no_errors image_query_reply scan Image_Query_DM_Layout ?s = Ok s'"
    "outStringByteCount s' = 6" "outStructCount s' 1 = 1"
    by (auto split: res.splits)
  from populate_in_bounds [OF wf s'(1) err, of ?p] s' show ?thesis by (auto simp: fresh_state_def)
qed

definition parser_fuel :: "byte list \<Rightarrow> tableLayout \<Rightarrow> nat" where
  "parser_fuel data table = length data + 3 * length table"

lemma scan_regular:
  assumes "wf_table table" and "cursor s = 0" and "parser_fuel data table \<le> f"
  shows "regular (parseBufferWithTable f ctx data scan table s)"
proof -
  obtain r rest where table: "table = r # rest" and r: "col_type r = APITYPE_BASE_STRUCT_LEN"
    using assms(1) by (auto simp: wf_table_def split: list.splits)
  have "regular (parse_rows f ctx data scan table b0 1 s0)" if "cursor s0 = 0" for b0 s0
    by (rule parse_rows_ends [where g = "length table" and hdr = True])
      (use assms that in \<open>auto simp: wf_table_def in_buffer_def work_def parser_fuel_def\<close>)
  then show ?thesis
    using r assms(2) by (simp add: parseBufferWithTable_def table table_at_def Let_def clear_outputs_def)
qed

text \<open>
  C6: a scan of a well-formed table ends.  With fuel for the bytes of the response and three times
  the rows of the table the scan pass never runs out of fuel and never reports an invalid table:
  it returns counts, or rejects the length of a string, or the response is too short for a read.
\<close>

theorem scan_ends:
  assumes "wf_table table" and "cursor s = 0" and "parser_fuel data table \<le> f"
  shows "parseBufferWithTable f ctx data scan table s = Fault \<or>
    parseBufferWithTable f ctx data scan table s = Err PARSER_ERROR_INVALID_STRING_SIZE \<or>
    (\<exists>s'. parseBufferWithTable f ctx data scan table s = Ok s')"
  using scan_regular [OF assms] by (simp add: regular_def)

theorem scan_ends_witness:
  "parseBufferWithTable 60 no_errors image_query_reply scan Image_Query_DM_Layout
      (fresh_state image_query_reply 0 (\<lambda>_. 0)) \<noteq> NoFuel"
proof -
  have "wf_table Image_Query_DM_Layout" by code_simp
  moreover have "parser_fuel image_query_reply Image_Query_DM_Layout \<le> 60" by code_simp
  ultimately show ?thesis
    using scan_ends [of Image_Query_DM_Layout "fresh_state image_query_reply 0 (\<lambda>_. 0)" image_query_reply 60 no_errors]
    by (auto simp: fresh_state_def)
qed

section \<open>The tables of the API headers\<close>

definition sound_layouts :: "tableLayout list" where
  "sound_layouts =
     [Image_Delete_DM_Layout, Image_Disk_Create_DM_Layout, Image_Disk_Query_Layout,
      Image_Query_DM_Layout, Image_Status_Query_Layout, Query_All_DM_NO_Layout, SSI_Query_Layout,
      System_Image_Performance_Query_Layout, Virtual_Network_VLAN_Query_Stats_Layout,
      Virtual_Network_VSwitch_Query_Extended_Layout, Virtual_Network_Vswitch_Query_Stats_Layout]"

lemma sound_layouts_wf: "list_all wf_table sound_layouts"
  by code_simp

text \<open>
  C8: the responses of eleven APIs are parsed safely.  For each of the parser tables of
  \<open>sound_layouts\<close>, as the headers have them, and whatever bytes the server sends: with enough fuel the
  scan pass ends, and it does so with counts, or with the error for the length of a string, or
  because the response is too short for a read, never with an invalid table; and if it ends with
  counts, and an error buffer that is announced with a length field has the four bytes of that field, then the
  populate pass ends too and writes only inside the memory that was counted.
\<close>

theorem api_responses_parsed_safely:
  assumes "table \<in> set sound_layouts" and "parser_fuel data table \<le> f"
    and s: "cursor s = 0" "dataBufferSize s = int (length data)"
    and p: "cursor p = 0" "dataBufferSize p = int (length data)"
  shows "case parseBufferWithTable f ctx data scan table s of
      Ok s' \<Rightarrow> error_length_present ctx table (int (length data)) \<longrightarrow>
        (\<exists>p'. parseBufferWithTable f ctx data populate table p = Ok p' \<and> frame (allocated s' p) (heap p) (heap p'))
    | Err rc \<Rightarrow> rc = PARSER_ERROR_INVALID_STRING_SIZE
    | Fault \<Rightarrow> True
    | NoFuel \<Rightarrow> False"
proof -
  have wf: "wf_table table" using sound_layouts_wf assms(1) by (auto simp: list_all_iff)
  show ?thesis
    using scan_regular [OF wf s(1) assms(2), of ctx] scan_makes_room [OF wf _ _ s p, of f ctx]
    by (auto simp: regular_def split: res.splits)
qed

theorem api_responses_parsed_safely_witness:
  "\<exists>s' p'. parseBufferWithTable 60 no_errors image_query_reply scan Image_Query_DM_Layout
        (fresh_state image_query_reply 0 (\<lambda>_. 0)) = Ok s' \<and> outStringByteCount s' = 6 \<and>
     parseBufferWithTable 60 no_errors image_query_reply populate Image_Query_DM_Layout
        (fresh_state image_query_reply 9000 (\<lambda>k. 200 * k)) = Ok p' \<and>
     frame (allocated s' (fresh_state image_query_reply 9000 (\<lambda>k. 200 * k)))
       (heap (fresh_state image_query_reply 9000 (\<lambda>k. 200 * k))) (heap p')"
proof -
  let ?s = "fresh_state image_query_reply 0 (\<lambda>_. 0)" and ?p = "fresh_state image_query_reply 9000 (\<lambda>k. 200 * k)"
  have layout: "Image_Query_DM_Layout \<in> set sound_layouts" by (simp add: sound_layouts_def)
  have fuel: "parser_fuel image_query_reply Image_Query_DM_Layout \<le> 60" by code_simp
  have "case parseBufferWithTable 60 no_errors image_query_reply scan Image_Query_DM_Layout ?s of
      Ok s' \<Rightarrow> outStringByteCount s' = 6 | _ \<Rightarrow> False"
    by code_simp
  then obtain s' where s': "parseBufferWithTable 60 no_errors image_query_reply scan Image_Query_DM_Layout ?s = Ok s'"
    "outStringByteCount s' = 6" by (auto split: res.splits)
  from api_responses_parsed_safely [OF layout fuel, of ?s ?p no_errors] s' show ?thesis
    by (auto simp: fresh_state_def error_length_present_def no_errors_def)
qed

text \<open>
  C7: populate decodes integers.  For a table of integer fields that do not overlap, populate
  leaves in the base structure, at the offset of each row, the bytes of the response at the place
  of that field, and writes nothing else.
\<close>

theorem populate_decodes_integers:
  assumes "col_type r0 = APITYPE_BASE_STRUCT_LEN"
    and "list_all (\<lambda>r. col_type r \<in> set flat_types) rows" and "flat_disjoint rows"
    and "col_type e = APITYPE_END_OF_TABLE"
    and "smapiReturnCode ctx = 0" and "length rows < f"
    and "cursor p = 0" and "dataBufferSize p = int (length data)"
    and "flat_width rows \<le> int (length data)"
  shows "\<exists>p'. parseBufferWithTable f ctx data populate (r0 # rows @ [e]) p = Ok p' \<and>
    frame (flat_region (inStructAddrs p 0) rows) (heap p) (heap p') \<and>
    (\<forall>(off, c, w) \<in> set (flat_fields rows 0).
       mem_read (heap p') (inStructAddrs p 0 + off) (nat w) = take (nat w) (drop (nat c) data))"
proof -
  have "\<exists>p'. parse_rows f ctx data populate (r0 # rows @ [e]) (inStructAddrs p 0) 1 (p\<lparr>byteCount := 0\<rparr>) = Ok p' \<and>
    frame (flat_region (inStructAddrs (p\<lparr>byteCount := 0\<rparr>) 0) rows) (heap (p\<lparr>byteCount := 0\<rparr>)) (heap p') \<and>
    (\<forall>(off, c, w) \<in> set (flat_fields rows (cursor (p\<lparr>byteCount := 0\<rparr>))).
       mem_read (heap p') (inStructAddrs (p\<lparr>byteCount := 0\<rparr>) 0 + off) (nat w) = take (nat w) (drop (nat c) data))"
    by (rule parse_rows_flat [where rest = "[]"]) (use assms in auto)
  then show ?thesis
    using assms(1,7) by (simp add: parseBufferWithTable_def table_at_def)
qed

definition reply_rows :: "table_row list" where
  "reply_rows = butlast (tl Image_Delete_DM_Layout)"

theorem populate_decodes_integers_witness:
  "\<exists>p'. parseBufferWithTable 9 no_errors delete_reply populate Image_Delete_DM_Layout
      (fresh_state delete_reply 0 (\<lambda>_. 0)) = Ok p' \<and> mem_read (heap p') 12 4 = be_bytes 4 42"
proof -
  have table: "Image_Delete_DM_Layout = hd Image_Delete_DM_Layout # reply_rows @ [last Image_Delete_DM_Layout]"
    by (simp add: reply_rows_def Image_Delete_DM_Layout_def)
  have side: "list_all (\<lambda>r. col_type r \<in> set flat_types) reply_rows" "flat_disjoint reply_rows"
    "col_type (hd Image_Delete_DM_Layout) = APITYPE_BASE_STRUCT_LEN"
    "col_type (last Image_Delete_DM_Layout) = APITYPE_END_OF_TABLE" "length reply_rows < 9"
    "flat_width reply_rows \<le> int (length delete_reply)"
    "(12, 12, 4) \<in> set (flat_fields reply_rows 0)"
    by code_simp+
  from populate_decodes_integers [OF side(3,1,2,4) _ side(5) _ _ side(6), of no_errors "fresh_state delete_reply 0 (\<lambda>_. 0)"]
  obtain p' where "parseBufferWithTable 9 no_errors delete_reply populate Image_Delete_DM_Layout
      (fresh_state delete_reply 0 (\<lambda>_. 0)) = Ok p'"
    and "\<forall>(off, c, w) \<in> set (flat_fields reply_rows 0).
       mem_read (heap p') (0 + off) (nat w) = take (nat w) (drop (nat c) delete_reply)"
    using table by (auto simp: fresh_state_def no_errors_def)
  moreover have "take (nat 4) (drop (nat 12) delete_reply) = be_bytes 4 42" by code_simp
  ultimately show ?thesis using side(7) by force
qed

text \<open>
  C9: the three copies of the switch over the fields of a structure, in \<open>handleArrays\<close>,
  \<open>handleCountedArrays\<close> and \<open>handleNullTerminatedArrays\<close>, do the same in both modes.
\<close>

theorem field_switches_agree:
  "handleCountedArrays_field data mode table idx r this s = handleArrays_field data mode table idx r this s \<and>
   handleNullTerminatedArrays_field data mode table idx r this s =
     handleArrays_field data mode table idx r this s"
  by (simp add: handleCountedArrays_field_eq handleNullTerminatedArrays_field_eq)

section \<open>Where the parser departs from its intent\<close>

definition scsi_reply :: "byte list" where
  "scsi_reply =
     be_bytes 4 1 @ be_bytes 4 0 @ be_bytes 4 0 @ be_bytes 4 2 @ [65, 66] @ be_bytes 4 0 @
     be_bytes 4 0 @ be_bytes 4 1 @ [67] @ [1] @ be_bytes 4 0"

definition marked_state :: "byte list \<Rightarrow> int \<Rightarrow> (int \<Rightarrow> int) \<Rightarrow> parser_state" where
  "marked_state data str addrs = (fresh_state data str addrs)\<lparr>heap := (\<lambda>_. 255)\<rparr>"

text \<open>
  C10: an empty character buffer in the base structure makes the string area one byte too small.
  The scan takes one byte off the count for a character buffer even if it counted none; on a
  reply of \<open>Image_SCSI_Characteristics_Query_DM\<close> with two strings and empty SCP data it counts
  four bytes, and populate writes a fifth, outside everything allocated.
\<close>

theorem empty_charbuf_overflows:
  "\<exists>s' p'. parseBufferWithTable 80 no_errors scsi_reply scan Image_SCSI_Characteristics_Query_DM_Layout
        (marked_state scsi_reply 0 (\<lambda>_. 0)) = Ok s' \<and>
     parseBufferWithTable 80 no_errors scsi_reply populate Image_SCSI_Characteristics_Query_DM_Layout
        (marked_state scsi_reply 5000 (\<lambda>k. 100 * k)) = Ok p' \<and>
     outStringByteCount s' = 4 \<and> heap p' 5004 = 0 \<and>
     \<not> frame (allocated s' (marked_state scsi_reply 5000 (\<lambda>k. 100 * k)))
         (heap (marked_state scsi_reply 5000 (\<lambda>k. 100 * k))) (heap p')"
proof -
  let ?p = "marked_state scsi_reply 5000 (\<lambda>k. 100 * k)"
  have "case parseBufferWithTable 80 no_errors scsi_reply scan Image_SCSI_Characteristics_Query_DM_Layout
      (marked_state scsi_reply 0 (\<lambda>_. 0)) of
      Ok s' \<Rightarrow> outStringByteCount s' = 4 \<and>
        list_all (\<lambda>k. outStructSizes s' k * outStructCount s' k \<le> 100) [0, 1, 2, 3, 4, 5, 6, 7, 8, 9]
    | _ \<Rightarrow> False"
    by code_simp
  then obtain s' where s': "parseBufferWithTable 80 no_errors scsi_reply scan
      Image_SCSI_Characteristics_Query_DM_Layout (marked_state scsi_reply 0 (\<lambda>_. 0)) = Ok s'"
    "outStringByteCount s' = 4"
    and sizes: "\<forall>k\<in>set [0, 1, 2, 3, 4, 5, 6, 7, 8, 9]. outStructSizes s' k * outStructCount s' k \<le> 100"
    by (auto simp: list_all_iff split: res.splits)
  have "case parseBufferWithTable 80 no_errors scsi_reply populate Image_SCSI_Characteristics_Query_DM_Layout ?p of
      Ok p' \<Rightarrow> heap p' 5004 = 0 | _ \<Rightarrow> False"
    by code_simp
  then obtain p' where p': "parseBufferWithTable 80 no_errors scsi_reply populate
      Image_SCSI_Characteristics_Query_DM_Layout ?p = Ok p'" "heap p' 5004 = 0"
    by (auto split: res.splits)
  have "k \<in> set [0, 1, 2, 3, 4, 5, 6, 7, 8, 9]" if "0 \<le> k" "k < MAX_STRUCT_ARRAYS" for k
    using that unfolding MAX_STRUCT_ARRAYS_def by (simp, presburger)
  with sizes have "5004 \<notin> allocated s' ?p"
    by (fastforce simp: allocated_def region_def s'(2) marked_state_def fresh_state_def MAX_STRUCT_ARRAYS_def)
  then have "\<not> frame (allocated s' ?p) (heap ?p) (heap p')"
    using p'(2) by (auto simp: frame_def marked_state_def)
  with s' p' show ?thesis by blast
qed

definition profile_reply :: "byte list" where
  "profile_reply = be_bytes 4 1 @ be_bytes 4 0 @ be_bytes 4 0 @ be_bytes 4 4 @ be_bytes 4 0"

text \<open>
  An empty record in an array is accepted by the scan pass and rejected by the populate pass,
  which does not skip the length row of an empty character buffer and takes it for a field.
\<close>

theorem empty_record_rejected:
  "(case parseBufferWithTable 60 no_errors profile_reply scan Profile_Query_DM_Layout
      (fresh_state profile_reply 0 (\<lambda>_. 0)) of Ok s' \<Rightarrow> outStructCount s' 1 = 1 | _ \<Rightarrow> False) \<and>
   parseBufferWithTable 60 no_errors profile_reply populate Profile_Query_DM_Layout
      (fresh_state profile_reply 5000 (\<lambda>k. 100 * k)) = Err PARSER_ERROR_INVALID_TABLE"
proof
  show "case parseBufferWithTable 60 no_errors profile_reply scan Profile_Query_DM_Layout
      (fresh_state profile_reply 0 (\<lambda>_. 0)) of Ok s' \<Rightarrow> outStructCount s' 1 = 1 | _ \<Rightarrow> False"
    by code_simp
  have "case parseBufferWithTable 60 no_errors profile_reply populate Profile_Query_DM_Layout
      (fresh_state profile_reply 5000 (\<lambda>k. 100 * k)) of Err c \<Rightarrow> c = PARSER_ERROR_INVALID_TABLE | _ \<Rightarrow> False"
    by code_simp
  then show "parseBufferWithTable 60 no_errors profile_reply populate Profile_Query_DM_Layout
      (fresh_state profile_reply 5000 (\<lambda>k. 100 * k)) = Err PARSER_ERROR_INVALID_TABLE"
    by (auto split: res.splits)
qed

text \<open>
  A counted array of structures without a length does not end on an element whose first four
  bytes are zero: \<open>handleCountedArrays\<close> moves the cursor back and continues with the same element.
\<close>

theorem counted_nobuffer_hangs:
  assumes "table_at table (tableStart sh) = Ok r" and "col_type r = APITYPE_NOBUFFER_STRUCT_LEN"
    and "buf_read data (cursor s) 4 = Ok [0, 0, 0, 0]" and "n < mx"
  shows "handleCountedArrays_loop f data mode table sh prev mx n s = NoFuel"
proof (induction f)
  case 0
  show ?case by (simp add: handleCountedArrays_loop_eqs)
next
  case (Suc f)
  have "get_int 4 [0, 0, 0, 0] = 0" by code_simp
  then have "GET_INT data s = Ok (0, s\<lparr>cursor := cursor s + 4\<rparr>)"
    using assms(3) by (simp add: GET_INT_def)
  then show ?case
    using assms(1,2,4) Suc by (simp add: handleCountedArrays_loop_eqs handleCountedArrays_struct_def del: table_at_Ok)
qed

definition counted_table :: tableLayout where
  "counted_table =
     [mk_row APITYPE_ARRAY_COUNT 4 4 0 0 8, mk_row APITYPE_NOBUFFER_STRUCT_LEN 4 4 1 1 4,
      mk_row APITYPE_INT4 4 4 1 1 0, mk_row APITYPE_END_OF_TABLE 0 0 0 0 0]"

theorem counted_nobuffer_hangs_witness:
  "\<forall>f. handleCountedArrays_loop f (be_bytes 4 0) scan counted_table
     \<lparr>arrayPointerOffset = 8, structCounterField = 0, structIndex = 1, outStructSize = 4, tableStart = 1,
      tableMax = 2\<rparr> 0 1 0 (fresh_state (be_bytes 4 0) 0 (\<lambda>_. 0)) = NoFuel"
  by (rule allI, rule counted_nobuffer_hangs [where r = "mk_row APITYPE_NOBUFFER_STRUCT_LEN 4 4 1 1 4"])
    (simp_all add: counted_table_def fresh_state_def buf_read_def numeral_eq_Suc)

text \<open>
  The loop that counts the strings of a null terminated array overruns the response.  Since it
  ends with \<open>temp =+ i\<close>, an assignment, it stops only after a string as long as the whole
  response, and there is none after a non-empty header: it never returns a count.
\<close>

theorem null_array_never_counted:
  assumes "dsize = int (length data)" and "0 < tempStr" and "temp < dsize"
  shows "null_array_count f data dsize tempStr temp n \<noteq> Ok m"
  using assms
proof (induction f arbitrary: tempStr temp n)
  case 0
  then show ?case by simp
next
  case (Suc f)
  show ?case
  proof (cases "c_strlen data tempStr")
    case (Ok l)
    with c_strlen_OkD [OF Ok] Suc.prems Suc.IH [of "tempStr + (l + 1)" "l + 1"] show ?thesis by (simp add: Let_def)
  qed (use Suc.prems in auto)
qed

theorem null_array_never_counted_witness:
  "null_array_count 9 (be_bytes 4 0 @ [65, 0, 66, 67, 0]) 9 4 4 0 \<noteq> Ok 2"
  by (rule null_array_never_counted) simp_all

end
