(* ===== verification/Smapi_Exchange.thy ===== *)
theory Smapi_Exchange
  imports Smapi_Socket Memory_Group Smapi_Request Smapi_Responses
begin

text \<open>
  One exchange with the SMAPI server, \<open>getAndParseSmapiBuffer\<close> and \<open>tryRecoveryUsingRequestId\<close> of
  \<^verbatim>\<open>src/smapiTableParser.c\<close>: connect and send with retries, read the request id and the length of
  the response, recover a lost response by its request id, read the response, scan it, allocate
  from the memory group, populate.  It composes the models of \<^verbatim>\<open>smSocket.c\<close>, \<^verbatim>\<open>smMemoryGroup.c\<close>
  and the table parser.  Integers in memory are big-endian, as on s390x, so that \<open>ntohl\<close> is the
  identity.  \<open>parserParms\<close> is a variable on the stack with no initial value: its fields are an
  argument, \<open>junk\<close>.
\<close>

section \<open>Sending the request\<close>

definition SEND_RETRY_LIMIT :: int where "SEND_RETRY_LIMIT = 8"
definition ResponseRecoveryDelay :: int where "ResponseRecoveryDelay = 2"
definition INVALID_DATA :: int where "INVALID_DATA = -2"

definition SEND_SLEEP_TIMES :: "int list" where
  "SEND_SLEEP_TIMES = [0, 8, 16, 16, 15, 15, 15, 15]"

definition retryable :: "int \<Rightarrow> bool" where
  "retryable rc \<longleftrightarrow> rc = SOCKET_TIMEOUT_ERROR \<or> rc = SOCKET_NOT_CONNECTED_ERROR \<or> rc = SOCKET_CONNECT_REFUSED_ERROR"

text \<open>The loop over \<open>j\<close> that sends the request on one socket.\<close>

function send_loop :: "nat \<Rightarrow> os \<Rightarrow> int \<Rightarrow> byte list \<Rightarrow> int \<Rightarrow> net_state \<Rightarrow> (int \<times> net_state) res" where
  "send_loop f os sockDesc input j s =
     res_bind (smSocketWrite f os sockDesc input s) (\<lambda>(rc, s).
       if rc \<noteq> 0 then
         if retryable rc \<and> j < SEND_RETRY_LIMIT
         then send_loop f os sockDesc input (j + 1) (sleep_positive (SEND_SLEEP_TIMES ! nat j) s)
         else Ok (if retryable rc then SOCKET_WRITE_ERROR else rc, errorLog RcIucv RsUnexpected s)
       else Ok (0, s))"
  by pat_completeness auto

termination
  by (relation "measure (\<lambda>(f, os, sockDesc, input, j, s). nat (SEND_RETRY_LIMIT - j))") auto

declare send_loop.simps [simp del]

section \<open>Recovering a response\<close>

definition recovery_request :: "int \<Rightarrow> byte list res" where
  "recovery_request requestId =
     run_puts
       [PUT_INT 42, PUT_INT 17, memcpy (c_literal ''Response_Recovery'') 17, PUT_INT 0, PUT_INT 0,
        PUT_INT 5, memcpy (c_literal ''MAINT'') 5, PUT_INT requestId]
       46 []"

text \<open>The return code and the data size that it stores through \<open>inputSize\<close> when it is 0.\<close>

definition tryRecoveryUsingRequestId ::
  "nat \<Rightarrow> os \<Rightarrow> int \<Rightarrow> int \<Rightarrow> net_state \<Rightarrow> (int \<times> int \<times> net_state) res" where
  "tryRecoveryUsingRequestId f os sockId requestId s =
     res_bind (recovery_request requestId) (\<lambda>smapiAPI.
     res_bind (smSocketWrite f os sockId smapiAPI s) (\<lambda>(rc, s).
     if rc \<noteq> 0 then Ok (rc, 0, errorLog RcRuntime RsUnexpected s)
     else
       res_bind (smSocketRead f os sockId 4 s) (\<lambda>(rc, recoveryRQid, s).
       if rc \<noteq> 0 then Ok (rc, 0, errorLog RcRuntime RsUnexpected s)
       else
         res_bind (smSocketRead f os sockId 4 s) (\<lambda>(rc, recoverySize, s).
         if rc \<noteq> 0 then Ok (rc, 0, errorLog RcRuntime RsUnexpected s)
         else
           res_bind (smSocketRead f os sockId 12 s) (\<lambda>(rc, recoveryCodes, s).
           if rc \<noteq> 0 then Ok (rc, 0, errorLog RcRuntime RsUnexpected s)
           else
             let recoveryRC = get_int 4 (take 4 (drop 4 recoveryCodes));
                 recoveryRS = get_int 4 (drop 8 recoveryCodes)
             in if recoveryRC \<noteq> 0 then
                  let s = errorLog RcRuntime RsUnexpected s in
                  Ok (if recoveryRC = 4
                      then if recoveryRS = 4 then SOCKET_RETRY_SMAPI_POSSIBLE else SOCKET_RETRY_NO_DATA
                      else recoveryRC, 0, s)
                else Ok (0, get_int 4 recoverySize - 12, errorLog RcRuntime RsUnexpected s))))))"

text \<open>
  How the loops end: with the size of the response (\<open>Answered\<close>), with another attempt
  (\<open>Redrive\<close>), or with a return code; \<open>Stopped\<close> has freed the request buffer, \<open>Abandoned\<close> has
  not.
\<close>

datatype outcome = Answered int | Redrive int | Stopped int | Abandoned int

type_synonym semaphores = "net_state \<Rightarrow> int \<times> net_state"

text \<open>The loop over \<open>jk\<close>: the length word, with \<open>Response_Recovery\<close> on a lost connection.\<close>

function length_loop ::
  "nat \<Rightarrow> os \<Rightarrow> semaphores \<Rightarrow> int \<Rightarrow> int \<Rightarrow> int \<Rightarrow> int \<Rightarrow> net_state \<Rightarrow> (outcome \<times> int \<times> net_state) res" where
  "length_loop f os sem requestId jk saverc sockDesc s =
     (if jk \<ge> SEND_RETRY_LIMIT
      then Ok (Stopped saverc, sockDesc, errorLog RcIucv RsUnexpected s)
      else
        res_bind (smSocketRead f os sockDesc 4 s) (\<lambda>(rc, tempSize, s).
        if rc \<noteq> 0 then
          if retryable rc then
            let (r, s) = sys_close os sockDesc s;
                s = (if r \<noteq> 0 then errorLog RcIucv RsUnexpected s else s);
                s = sys_sleep ResponseRecoveryDelay s;
                (rc, sockDesc, s) = smSocketInitialize os sem sockDesc s
            in if rc \<noteq> 0 then Ok (Abandoned rc, sockDesc, s)
               else
                 res_bind (tryRecoveryUsingRequestId f os sockDesc requestId (errorLog RcIucv RsUnexpected s))
                   (\<lambda>(rc, tempSize, s).
                   if rc = SOCKET_RETRY_SMAPI_POSSIBLE then Ok (Redrive rc, sockDesc, s)
                   else if retryable rc then length_loop f os sem requestId (jk + 1) rc sockDesc s
                   else if rc \<noteq> 0 then Ok (Stopped rc, sockDesc, errorLog RcIucv RsUnexpected s)
                   else Ok (Answered tempSize, sockDesc, s))
          else Ok (Stopped rc, sockDesc, errorLog RcIucv RsUnexpected s)
        else Ok (Answered (get_int 4 tempSize), sockDesc, s)))"
  by pat_completeness auto

termination
  by (relation "measure (\<lambda>(f, os, sem, requestId, jk, saverc, sockDesc, s). nat (SEND_RETRY_LIMIT - jk))") auto

declare length_loop.simps [simp del]

section \<open>The main retry loop\<close>

text \<open>One round: connect, send, read the request id, read the length.\<close>

definition request_round ::
  "nat \<Rightarrow> os \<Rightarrow> semaphores \<Rightarrow> byte list \<Rightarrow> int \<Rightarrow> int \<Rightarrow> net_state \<Rightarrow> (outcome \<times> int \<times> net_state) res" where
  "request_round f os sem input k sockDesc s =
     (let s = (if k > 0 then
                 let (rc, s) = sys_close os sockDesc s in
                 if rc \<noteq> 0 then errorLog RcIucv RsUnexpected s else s
               else s);
          s = sleep_positive (SEND_SLEEP_TIMES ! nat k) s;
          s = (if k > 0 then errorLog RcIucv RsUnexpected s else s);
          (rc, sockDesc, s) = smSocketInitialize os sem sockDesc s
      in if rc \<noteq> 0 then Ok (Stopped rc, sockDesc, s)
         else
           res_bind (send_loop f os sockDesc input 0 s) (\<lambda>(rc, s).
           if rc \<noteq> 0 then Ok (Stopped rc, sockDesc, s)
           else
             res_bind (smSocketRead f os sockDesc 4 s) (\<lambda>(rc, requestId, s).
             if rc \<noteq> 0 then
               if retryable rc then Ok (Redrive rc, sockDesc, s)
               else Ok (Stopped rc, sockDesc, errorLog RcIucv RsUnexpected s)
             else length_loop f os sem (get_int 4 requestId) 0 0 sockDesc s)))"

function request_loop ::
  "nat \<Rightarrow> os \<Rightarrow> semaphores \<Rightarrow> byte list \<Rightarrow> int \<Rightarrow> int \<Rightarrow> int \<Rightarrow> net_state \<Rightarrow> (outcome \<times> int \<times> net_state) res" where
  "request_loop f os sem input k saverc sockDesc s =
     (if k \<ge> SEND_RETRY_LIMIT then Ok (Stopped saverc, sockDesc, errorLog RcIucv RsUnexpected s)
      else
        res_bind (request_round f os sem input k sockDesc s) (\<lambda>(out, sockDesc, s).
        case out of
          Redrive rc \<Rightarrow> request_loop f os sem input (k + 1) rc sockDesc s
        | _ \<Rightarrow> Ok (out, sockDesc, s)))"
  by pat_completeness auto

termination
  by (relation "measure (\<lambda>(f, os, sem, input, k, saverc, sockDesc, s). nat (SEND_RETRY_LIMIT - k))") auto

declare request_loop.simps [simp del]

section \<open>Storage for the response\<close>

text \<open>
  The loop that allocates the structure arrays, from slot \<open>i\<close> on.  The product is an \<open>int\<close>;
  a negative one becomes a \<open>size_t\<close> that no allocation satisfies.
\<close>

function alloc_structs ::
  "grants \<Rightarrow> int \<Rightarrow> parser_state \<Rightarrow> smMemoryGroupContext \<Rightarrow> c_heap
     \<Rightarrow> (int \<times> parser_state \<times> smMemoryGroupContext \<times> c_heap) res" where
  "alloc_structs g i parms mg h =
     (if i < MAX_STRUCT_ARRAYS then
        if outStructSizes parms i = 0 \<or> outStructCount parms i = 0
        then alloc_structs g (i + 1) parms mg h
        else
          res_bind (smMemoryGroupAlloc g (c_int (outStructSizes parms i * outStructCount parms i)) mg h)
            (\<lambda>(p, mg, h).
            let parms = parms\<lparr>inStructAddrs := slot_upd (inStructAddrs parms) i p\<rparr> in
            if p = 0 then Ok (MEMORY_ERROR, parms, mg, h)
            else alloc_structs g (i + 1) parms mg h)
      else Ok (0, parms, mg, h))"
  by pat_completeness auto

termination
  by (relation "measure (\<lambda>(g, i, parms, mg, h). nat (MAX_STRUCT_ARRAYS - i))") auto

declare alloc_structs.simps [simp del]

definition alloc_strings ::
  "grants \<Rightarrow> parser_state \<Rightarrow> smMemoryGroupContext \<Rightarrow> c_heap
     \<Rightarrow> (int \<times> parser_state \<times> smMemoryGroupContext \<times> c_heap) res" where
  "alloc_strings g parms mg h =
     (if outStringByteCount parms > 0 then
        res_bind (smMemoryGroupAlloc g (outStringByteCount parms) mg h) (\<lambda>(p, mg, h).
          Ok (if p = 0 then MEMORY_ERROR else 0, parms\<lparr>inStringCursor := p\<rparr>, mg, h))
      else Ok (0, parms, mg, h))"

section \<open>The response\<close>

record session =
  net :: net_state
  memContext :: smMemoryGroupContext
  store :: c_heap
  sm_returnCode :: int
  sm_reasonCode :: int
  errorBufferPossible :: int

definition session_log :: "int \<Rightarrow> int \<Rightarrow> session \<Rightarrow> session" where
  "session_log rc rs s = s\<lparr>net := errorLog rc rs (net s)\<rparr>"

definition RsNoMemory :: int where "RsNoMemory = 10001"

definition session_context :: "session \<Rightarrow> parser_context" where
  "session_context s = \<lparr>smapiReturnCode = sm_returnCode s, smapiErrorBufferPossible = errorBufferPossible s\<rparr>"

text \<open>\<open>FREE_MEMORY(smapiOutputP)\<close> and a return.\<close>

definition free_and_return :: "int \<Rightarrow> int \<Rightarrow> int \<Rightarrow> session \<Rightarrow> (int \<times> int \<times> session) res" where
  "free_and_return p rc out s = res_bind (c_free p (store s)) (\<lambda>h. Ok (rc, out, s\<lparr>store := h\<rparr>))"

text \<open>
  Scan, allocate and populate.  A parser that leaves its buffer or its table is \<open>Fault\<close>; every
  error return of it is a branch.  \<open>out\<close> is \<open>*outData\<close>.
\<close>

definition parse_response ::
  "nat \<Rightarrow> grants \<Rightarrow> tableLayout \<Rightarrow> parser_state \<Rightarrow> byte list \<Rightarrow> int \<Rightarrow> int \<Rightarrow> session
     \<Rightarrow> (int \<times> int \<times> session) res" where
  "parse_response f g table junk data p out s =
     (let parms = junk\<lparr>cursor := 0, dataBufferSize := int (length data), heap := bytes (store s)\<rparr> in
      case parseBufferWithTable f (session_context s) data scan table parms of
        Fault \<Rightarrow> Fault
      | NoFuel \<Rightarrow> NoFuel
      | Err rc \<Rightarrow> free_and_return p rc out (session_log RcRuntime RsUnexpected s)
      | Ok parms \<Rightarrow>
          res_bind (alloc_structs g 0 parms (memContext s) (store s)) (\<lambda>(rc, parms, grp, h).
          let s = s\<lparr>memContext := grp, store := h\<rparr> in
          if rc \<noteq> 0 then free_and_return p rc out (session_log RcRuntime RsNoMemory s)
          else
            res_bind (alloc_strings g parms (memContext s) (store s)) (\<lambda>(rc, parms, grp, h).
            let s = s\<lparr>memContext := grp, store := h\<rparr> in
            if rc \<noteq> 0 then free_and_return p rc out (session_log RcRuntime RsNoMemory s)
            else
              let out = inStructAddrs parms 0;
                  parms = parms\<lparr>cursor := 0, heap := bytes (store s)\<rparr>
              in case parseBufferWithTable f (session_context s) data populate table parms of
                   Fault \<Rightarrow> Fault
                 | NoFuel \<Rightarrow> NoFuel
                 | Err rc \<Rightarrow> free_and_return p rc out (session_log RcRuntime RsUnexpected s)
                 | Ok parms \<Rightarrow>
                     free_and_return p 0 out (s\<lparr>store := (store s)\<lparr>bytes := heap parms\<rparr>\<rparr>))))"

definition receive_response ::
  "nat \<Rightarrow> os \<Rightarrow> grants \<Rightarrow> tableLayout \<Rightarrow> parser_state \<Rightarrow> int \<Rightarrow> int \<Rightarrow> int \<Rightarrow> session
     \<Rightarrow> (int \<times> int \<times> session) res" where
  "receive_response f os g table junk tempSize sockDesc out s =
     (if tempSize \<ge> 3 * 4 then
        let (p, h) = c_malloc g tempSize (store s); s = s\<lparr>store := h\<rparr> in
        if p = 0 then Ok (MEMORY_ERROR, out, session_log RcRuntime RsNoMemory s)
        else
          res_bind (smSocketRead f os sockDesc tempSize (net s)) (\<lambda>(rc, data, n).
          let s = s\<lparr>net := n\<rparr> in
          if rc \<noteq> 0 then free_and_return p rc out s
          else
            let (rc, n) = smSocketTerminate os sockDesc (net s); s = s\<lparr>net := n\<rparr> in
            if rc \<noteq> 0 then free_and_return p rc out s
            else
              let s = s\<lparr>sm_returnCode := get_int 4 (take 4 (drop 4 data)),
                        sm_reasonCode := get_int 4 (take 4 (drop 8 data))\<rparr>
              in parse_response f g table junk data p out s)
      else Ok (INVALID_DATA, out, session_log RcRuntime RsUnexpected s))"

text \<open>\<open>inputPp\<close> is the address of the request in the heap; \<open>input\<close> are its bytes.\<close>

definition getAndParseSmapiBuffer ::
  "nat \<Rightarrow> os \<Rightarrow> semaphores \<Rightarrow> grants \<Rightarrow> int \<Rightarrow> byte list \<Rightarrow> tableLayout \<Rightarrow> parser_state \<Rightarrow> int \<Rightarrow> int \<Rightarrow> session
     \<Rightarrow> (int \<times> int \<times> session) res" where
  "getAndParseSmapiBuffer f os sem g inputPp input table junk sock0 out s =
     res_bind (request_loop f os sem input 0 0 sock0 (net s)) (\<lambda>(res, sockDesc, n).
     let s = s\<lparr>net := n\<rparr> in
     case res of
       Abandoned rc \<Rightarrow> Ok (rc, out, s)
     | Stopped rc \<Rightarrow> free_and_return inputPp rc out s
     | Redrive rc \<Rightarrow> free_and_return inputPp rc out s
     | Answered tempSize \<Rightarrow>
         res_bind (c_free inputPp (store s)) (\<lambda>h.
           receive_response f os g table junk tempSize sockDesc out (s\<lparr>store := h\<rparr>)))"

section \<open>Descriptors and time\<close>

text \<open>
  The descriptors during an exchange: those of the caller, and possibly the socket of the exchange.
\<close>

definition fd_state :: "int list \<Rightarrow> int \<Rightarrow> net_state \<Rightarrow> bool" where
  "fd_state F fd s \<longleftrightarrow> fd \<notin> set F \<and> (open_fds s = F \<or> open_fds s = fd # F)"

definition sem_neutral :: "semaphores \<Rightarrow> bool" where
  "sem_neutral sem \<longleftrightarrow> (\<forall>s. open_fds (snd (sem s)) = open_fds s \<and> quiet s (snd (sem s)))"

lemma fd_state_log [simp]: "fd_state F fd (errorLog a b s) = fd_state F fd s"
  by (simp add: fd_state_def)

lemma slept_log [simp]: "slept (errorLog a b s) = slept s"
  by (simp add: errorLog_def)

lemma fd_state_closed: "fd_state F fd s \<Longrightarrow> removeAll fd (open_fds s) = F"
  by (auto simp: fd_state_def)

lemma read_fd:
  assumes "smSocketRead f os fd len s = Ok (rc, buff, s')" and "0 \<le> len" and "fd_state F fd s"
  shows "fd_state F fd s'" and "slept s' = slept s" and "rc = 0 \<Longrightarrow> open_fds s' = fd # F" and "rc \<noteq> 0 \<Longrightarrow> open_fds s' = F"
  using smSocketRead_result [OF assms(1,2)] smSocketRead_open [of f os fd len s buff s'] assms(1,3)
  by (auto simp: fd_state_def split: if_splits)

lemma write_fd:
  assumes "smSocketWrite f os fd data s = Ok (rc, s')" and "fd_state F fd s"
  shows "fd_state F fd s'" and "slept s' = slept s" and "rc \<noteq> 0 \<Longrightarrow> open_fds s' = F"
  using smSocketWrite_result [OF assms(1)] assms(2) by (auto simp: fd_state_def split: if_splits)

lemma close_fd:
  assumes "fd_state F fd s" and "sys_close os fd s = (r, s')"
  shows "open_fds s' = F" and "slept s' = slept s"
  using assms sys_close_cases [of os fd s "open_fds s' = F \<and> slept s' = slept s"]
  by (auto simp: fd_state_closed quiet_def)

lemma initialize_fd:
  assumes "smSocketInitialize os sem fd s = (rc, fd', s')" and "sem_neutral sem" and "open_fds s = F"
  shows "rc = 0 \<Longrightarrow> fd_state F fd' s'" and "rc \<noteq> 0 \<Longrightarrow> open_fds s' = F" and "slept s' \<le> slept s + 70"
  using smSocketInitialize_result [OF assms(1)] assms(2,3) by (auto simp: fd_state_def sem_neutral_def split: if_splits)

lemma recovery_fd:
  assumes "tryRecoveryUsingRequestId f os fd rid s = Ok (rc, n, s')" and "fd_state F fd s"
  shows "fd_state F fd s' \<and> slept s' = slept s \<and> (rc = 0 \<longrightarrow> open_fds s' = fd # F)"
proof -
  obtain req c s1 where w: "recovery_request rid = Ok req" "smSocketWrite f os fd req s = Ok (c, s1)"
    using assms(1) by (auto simp: tryRecoveryUsingRequestId_def res_bind_eq_Ok)
  note w' = write_fd [OF w(2) assms(2)]
  show ?thesis
  proof (cases "c = 0")
    case False
    then show ?thesis using assms(1) w w' by (auto simp: tryRecoveryUsingRequestId_def)
  next
    case c: True
    then obtain c2 b2 s2 where r2: "smSocketRead f os fd 4 s1 = Ok (c2, b2, s2)"
      using assms(1) w by (auto simp: tryRecoveryUsingRequestId_def res_bind_eq_Ok)
    note r2' = read_fd [OF r2 _ w'(1)]
    show ?thesis
    proof (cases "c2 = 0")
      case False
      then show ?thesis using assms(1) w w' c r2 r2' by (auto simp: tryRecoveryUsingRequestId_def)
    next
      case c2: True
      then obtain c3 b3 s3 where r3: "smSocketRead f os fd 4 s2 = Ok (c3, b3, s3)"
        using assms(1) w c r2 by (auto simp: tryRecoveryUsingRequestId_def res_bind_eq_Ok)
      note r3' = read_fd [OF r3 _ r2'(1)]
      show ?thesis
      proof (cases "c3 = 0")
        case False
        then show ?thesis using assms(1) w w' c c2 r2 r2' r3 r3' by (auto simp: tryRecoveryUsingRequestId_def)
      next
        case c3: True
        then obtain c4 b4 s4 where r4: "smSocketRead f os fd 12 s3 = Ok (c4, b4, s4)"
          using assms(1) w c r2 c2 r3 by (auto simp: tryRecoveryUsingRequestId_def res_bind_eq_Ok)
        note r4' = read_fd [OF r4 _ r3'(1)]
        show ?thesis
          using assms(1) w w' c c2 c3 r2 r2' r3 r3' r4 r4'
          by (auto simp: tryRecoveryUsingRequestId_def Let_def socket_codes split: if_splits)
      qed
    qed
  qed
qed

text \<open>What the loops guarantee of descriptors and time, by how they end.\<close>

definition loop_post :: "int list \<Rightarrow> outcome \<Rightarrow> int \<Rightarrow> net_state \<Rightarrow> bool" where
  "loop_post F out fd s \<longleftrightarrow>
     (case out of
        Answered n \<Rightarrow> fd \<notin> set F \<and> open_fds s = fd # F
      | Redrive rc \<Rightarrow> rc \<noteq> 0 \<and> fd_state F fd s
      | Stopped rc \<Rightarrow> rc \<noteq> 0 \<and> (open_fds s = F \<or> fd_state F fd s)
      | Abandoned rc \<Rightarrow> rc \<noteq> 0 \<and> open_fds s = F)"

lemma loop_post_log [simp]: "loop_post F out fd (errorLog a b s) = loop_post F out fd s"
  by (simp add: loop_post_def split: outcome.splits)

lemma retryable_nonzero: "retryable rc \<Longrightarrow> rc \<noteq> 0" "SOCKET_RETRY_SMAPI_POSSIBLE \<noteq> 0" "SOCKET_WRITE_ERROR \<noteq> 0"
  by (auto simp: retryable_def socket_codes)

lemma length_loop_fd:
  assumes "length_loop f os sem rid jk saverc fd s = Ok (out, fd', s')" and "fd_state F fd s" and "sem_neutral sem" and "0 \<le> jk"
    and "saverc = 0 \<Longrightarrow> jk < SEND_RETRY_LIMIT"
  shows "loop_post F out fd' s' \<and> slept s' \<le> slept s + 72 * max 0 (SEND_RETRY_LIMIT - jk)"
  using assms
proof (induction f os sem rid jk saverc fd s rule: length_loop.induct)
  case (1 f os sem rid jk saverc fd s)
  show ?case
  proof (cases "jk \<ge> SEND_RETRY_LIMIT")
    case True
    then show ?thesis using 1(2,3,6) by (auto simp: length_loop.simps [of f] loop_post_def)
  next
    case False
    then obtain c b t where r: "smSocketRead f os fd 4 s = Ok (c, b, t)"
      using 1(2) by (auto simp: length_loop.simps [of f] res_bind_eq_Ok)
    note r' = read_fd [OF r _ 1(3)]
    show ?thesis
    proof (cases "c \<noteq> 0 \<and> retryable c")
      case no: False
      then have "out = (if c = 0 then Answered (get_int 4 b) else Stopped c)" "fd' = fd"
        "s' = (if c = 0 then t else errorLog RcIucv RsUnexpected t)"
        using 1(2) False r by (cases "c = 0"; simp add: length_loop.simps [of f])+
      then show ?thesis using r' False by (auto simp: loop_post_def fd_state_def)
    next
      case yes: True
      obtain q u where q: "sys_close os fd t = (q, u)" by fastforce
      define v where "v = sys_sleep ResponseRecoveryDelay (if q \<noteq> 0 then errorLog RcIucv RsUnexpected u else u)"
      have v: "open_fds v = F" "slept v = slept s + 2"
        using close_fd [OF r'(1) q] r'(2) by (simp_all add: v_def sys_sleep_def ResponseRecoveryDelay_def)
      obtain i fd2 w where i: "smSocketInitialize os sem fd v = (i, fd2, w)" by (cases "smSocketInitialize os sem fd v")
      note i' = initialize_fd [OF i 1(4) v(1)]
      show ?thesis
      proof (cases "i = 0")
        case no_init: False
        then show ?thesis
          using 1(2) False r yes q i i' v by (auto simp: length_loop.simps [of f] Let_def v_def loop_post_def)
      next
        case init: True
        let ?w = "errorLog RcIucv RsUnexpected w"
        obtain c3 n x where t: "tryRecoveryUsingRequestId f os fd2 rid ?w = Ok (c3, n, x)"
          and res: "(if c3 = SOCKET_RETRY_SMAPI_POSSIBLE then Ok (Redrive c3, fd2, x)
                   else if retryable c3 then length_loop f os sem rid (jk + 1) c3 fd2 x
                   else if c3 \<noteq> 0 then Ok (Stopped c3, fd2, errorLog RcIucv RsUnexpected x)
                   else Ok (Answered n, fd2, x)) = Ok (out, fd', s')"
          using 1(2) False r yes q i init by (auto simp: length_loop.simps [of f] Let_def v_def res_bind_eq_Ok)
        note t' = recovery_fd [OF t, of F]
        have x: "fd_state F fd2 x" "slept x \<le> slept s + 72" "c3 = 0 \<Longrightarrow> open_fds x = fd2 # F"
          using t' i' v init by auto
        show ?thesis
        proof (cases "c3 \<noteq> SOCKET_RETRY_SMAPI_POSSIBLE \<and> retryable c3")
          case again: True
          then have rec: "length_loop f os sem rid (jk + 1) c3 fd2 x = Ok (out, fd', s')" using res by simp
          have "loop_post F out fd' s' \<and> slept s' \<le> slept x + 72 * max 0 (SEND_RETRY_LIMIT - (jk + 1))"
            by (rule 1(1) [OF False r refl refl _ _ refl q [symmetric] refl refl refl i [unfolded v_def, symmetric] refl _ t refl refl _ _ rec x(1) 1(4)])
              (use yes again init 1(5) retryable_nonzero(1) [of c3] in auto)
          with x(2) False show ?thesis by auto
        next
          case stop: False
          then show ?thesis using res x False retryable_nonzero(2) by (auto simp: loop_post_def fd_state_def split: if_splits)
        qed
      qed
    qed
  qed
qed

lemma send_loop_fd:
  assumes "send_loop f os fd input j s = Ok (rc, s')" and "fd_state F fd s" and "0 \<le> j"
  shows "fd_state F fd s'" and "rc \<noteq> 0 \<Longrightarrow> open_fds s' = F" and "slept s' \<le> slept s + 16 * max 0 (SEND_RETRY_LIMIT - j)"
proof -
  have "fd_state F fd s' \<and> (rc \<noteq> 0 \<longrightarrow> open_fds s' = F) \<and> slept s' \<le> slept s + 16 * max 0 (SEND_RETRY_LIMIT - j)"
    using assms
  proof (induction f os fd input j s rule: send_loop.induct)
    case (1 f os fd input j s)
    obtain c t where w: "smSocketWrite f os fd input s = Ok (c, t)"
      using 1(2) by (auto simp: send_loop.simps [of f] res_bind_eq_Ok)
    note w' = write_fd [OF w 1(3)]
    show ?case
    proof (cases "c \<noteq> 0 \<and> retryable c \<and> j < SEND_RETRY_LIMIT")
      case False
      then show ?thesis
        using 1(2) w w' by (auto simp: send_loop.simps [of f] split: if_splits)
    next
      case True
      let ?t = "sleep_positive (SEND_SLEEP_TIMES ! nat j) t"
      have "nat j < length SEND_SLEEP_TIMES"
        using True 1(4) by (simp add: SEND_SLEEP_TIMES_def SEND_RETRY_LIMIT_def nat_less_iff)
      then have "SEND_SLEEP_TIMES ! nat j \<in> set SEND_SLEEP_TIMES" by (rule nth_mem)
      then have t: "fd_state F fd ?t" "slept ?t \<le> slept s + 16"
        using w' by (auto simp: SEND_SLEEP_TIMES_def sleep_positive_def sys_sleep_def fd_state_def)
      have "send_loop f os fd input (j + 1) ?t = Ok (rc, s')"
        using 1(2) w True by (simp add: send_loop.simps [of f])
      with 1(1) [OF w refl _ _ _ t(1)] True 1(4) t(2) show ?thesis by auto
    qed
  qed
  then show "fd_state F fd s'" "rc \<noteq> 0 \<Longrightarrow> open_fds s' = F" "slept s' \<le> slept s + 16 * max 0 (SEND_RETRY_LIMIT - j)"
    by blast+
qed

text \<open>A round sleeps at most 16 + 70 + 8 * 16 + 8 * 72 seconds.\<close>

lemma request_round_fd:
  assumes "request_round f os sem input k fd s = Ok (out, fd', s')" and "sem_neutral sem" and "0 \<le> k" and "k < SEND_RETRY_LIMIT"
    and "if k = 0 then open_fds s = F else fd_state F fd s"
  shows "loop_post F out fd' s' \<and> slept s' \<le> slept s + 790"
proof -
  define s1 where "s1 = (if k > 0 then let (rc, s) = sys_close os fd s in if rc \<noteq> 0 then errorLog RcIucv RsUnexpected s else s else s)"
  define s2 where "s2 = (let s = sleep_positive (SEND_SLEEP_TIMES ! nat k) s1 in if k > 0 then errorLog RcIucv RsUnexpected s else s)"
  have s1: "open_fds s1 = F" "slept s1 = slept s"
    using close_fd [of F fd s os] assms(3,5) by (auto simp: s1_def Let_def split: prod.splits if_splits)
  have "nat k < length SEND_SLEEP_TIMES"
    using assms(3,4) by (simp add: SEND_SLEEP_TIMES_def SEND_RETRY_LIMIT_def nat_less_iff)
  then have "SEND_SLEEP_TIMES ! nat k \<in> set SEND_SLEEP_TIMES" by (rule nth_mem)
  then have s2: "open_fds s2 = F" "slept s2 \<le> slept s + 16"
    using s1 by (auto simp: s2_def SEND_SLEEP_TIMES_def sleep_positive_def sys_sleep_def Let_def)
  obtain c fd1 s3 where i: "smSocketInitialize os sem fd s2 = (c, fd1, s3)" by (cases "smSocketInitialize os sem fd s2")
  note i' = initialize_fd [OF i assms(2) s2(1)]
  have round: "(if c \<noteq> 0 then Ok (Stopped c, fd1, s3)
      else res_bind (send_loop f os fd1 input 0 s3) (\<lambda>(rc, s).
           if rc \<noteq> 0 then Ok (Stopped rc, fd1, s)
           else res_bind (smSocketRead f os fd1 4 s) (\<lambda>(rc, requestId, s).
             if rc \<noteq> 0 then
               if retryable rc then Ok (Redrive rc, fd1, s)
               else Ok (Stopped rc, fd1, errorLog RcIucv RsUnexpected s)
             else length_loop f os sem (get_int 4 requestId) 0 0 fd1 s))) = Ok (out, fd', s')"
    using assms(1) i unfolding request_round_def s1_def [symmetric] by (simp add: Let_def s2_def)
  show ?thesis
  proof (cases "c = 0")
    case False
    then show ?thesis using round i' s2 by (auto simp: loop_post_def)
  next
    case c: True
    with round obtain c2 s4 where w: "send_loop f os fd1 input 0 s3 = Ok (c2, s4)" by (auto simp: res_bind_eq_Ok)
    have w': "fd_state F fd1 s4" "c2 \<noteq> 0 \<Longrightarrow> open_fds s4 = F" "slept s4 \<le> slept s + 214"
      using send_loop_fd [OF w, of F] i' c s2 by (auto simp: SEND_RETRY_LIMIT_def)
    show ?thesis
    proof (cases "c2 = 0")
      case False
      then show ?thesis using round w w' c by (auto simp: loop_post_def)
    next
      case c2: True
      with round c w obtain c3 b s5 where r: "smSocketRead f os fd1 4 s4 = Ok (c3, b, s5)" by (auto simp: res_bind_eq_Ok)
      note r' = read_fd [OF r _ w'(1)]
      show ?thesis
      proof (cases "c3 = 0")
        case False
        then show ?thesis
          using round c c2 w r r' w' retryable_nonzero(1) [of c3] by (auto simp: loop_post_def split: if_splits)
      next
        case True
        with round c c2 w r have l: "length_loop f os sem (get_int 4 b) 0 0 fd1 s5 = Ok (out, fd', s')" by simp
        from length_loop_fd [OF l, of F] r' w' assms(2) show ?thesis by (simp add: SEND_RETRY_LIMIT_def)
      qed
    qed
  qed
qed

lemma request_loop_fd:
  assumes "request_loop f os sem input k saverc fd s = Ok (out, fd', s')" and "sem_neutral sem" and "0 \<le> k"
    and "if k = 0 then open_fds s = F else fd_state F fd s" and "saverc = 0 \<Longrightarrow> k < SEND_RETRY_LIMIT"
  shows "loop_post F out fd' s' \<and> (\<forall>rc. out \<noteq> Redrive rc) \<and> slept s' \<le> slept s + 790 * max 0 (SEND_RETRY_LIMIT - k)"
  using assms
proof (induction f os sem input k saverc fd s rule: request_loop.induct)
  case (1 f os sem input k saverc fd s)
  show ?case
  proof (cases "k \<ge> SEND_RETRY_LIMIT")
    case True
    then show ?thesis
      using 1(2,4-6) by (auto simp: request_loop.simps [of f] loop_post_def SEND_RETRY_LIMIT_def)
  next
    case False
    then obtain o1 fd1 s1 where r: "request_round f os sem input k fd s = Ok (o1, fd1, s1)"
      using 1(2) by (auto simp: request_loop.simps [of f] res_bind_eq_Ok)
    have r': "loop_post F o1 fd1 s1" "slept s1 \<le> slept s + 790"
      using request_round_fd [OF r 1(3,4) _ 1(5)] False by auto
    show ?thesis
    proof (cases o1)
      case (Redrive rc)
      with 1(2) False r have rec: "request_loop f os sem input (k + 1) rc fd1 s1 = Ok (out, fd', s')"
        by (simp add: request_loop.simps [of f])
      have "loop_post F out fd' s' \<and> (\<forall>rc. out \<noteq> Redrive rc) \<and> slept s' \<le> slept s1 + 790 * max 0 (SEND_RETRY_LIMIT - (k + 1))"
        by (rule 1(1) [OF False r refl refl Redrive rec 1(3)]) (use 1(4) r'(1) Redrive in \<open>auto simp: loop_post_def\<close>)
      with r'(2) False show ?thesis by auto
    qed (use 1(2) False r r' in \<open>auto simp: request_loop.simps [of f]\<close>)
  qed
qed

section \<open>Allocation\<close>

text \<open>One chunk of the group, by the contract of its allocator.\<close>

lemma chunk_alloc:
  assumes ok: "mg_ok mg h" and alloc: "smMemoryGroupAlloc g n mg h = Ok (p, mg', h')" and p: "p \<noteq> 0"
  shows "mg_ok mg' h'" and "undisturbed mg h mg' h'" and "members mg' = members mg @ [p]"
    and "region p n \<subseteq> {brk h ..< brk h'}" and "brk h \<le> brk h'" and "clear_above h h'"
proof -
  show "clear_above h h'" by (rule Alloc_above [OF mg_okD(1) [OF ok] alloc])
  show inv: "mg_ok mg' h'" "undisturbed mg h mg' h'" "members mg' = members mg @ [p]"
    by (cases rule: Alloc_cases [OF ok, of g n]; use alloc p in auto)+
  have s: "case (mg, h) of (c, h) \<Rightarrow> mg_ok c h" and a: "group_alloc g n (mg, h) = Ok (p, mg', h')"
    using ok alloc by (simp_all add: group_alloc_def)
  show "region p n \<subseteq> {brk h ..< brk h'}" "brk h \<le> brk h'"
    using group.alloc_chunk [OF s a p] group.alloc_top(1) [OF s a] by (auto simp: region_def)
qed

definition no_wrap :: "parser_state \<Rightarrow> bool" where
  "no_wrap s \<longleftrightarrow>
     list_all (\<lambda>k. 0 \<le> outStructSizes s k * outStructCount s k \<and> outStructSizes s k * outStructCount s k < 2 ^ 31)
       [0 .. MAX_STRUCT_ARRAYS - 1]"

lemma no_wrapD:
  "no_wrap s \<Longrightarrow> 0 \<le> k \<Longrightarrow> k < MAX_STRUCT_ARRAYS \<Longrightarrow>
     0 \<le> outStructSizes s k * outStructCount s k \<and> outStructSizes s k * outStructCount s k < 2 ^ 31"
  by (simp add: no_wrap_def list_all_iff)

text \<open>What is known after the structure arrays from slot \<open>i\<close> on have been allocated.\<close>

definition structs_post ::
  "int \<Rightarrow> parser_state \<Rightarrow> smMemoryGroupContext \<Rightarrow> c_heap \<Rightarrow> parser_state \<Rightarrow> smMemoryGroupContext \<Rightarrow> c_heap \<Rightarrow> bool" where
  "structs_post i parms mg h parms' mg' h' \<longleftrightarrow>
     mg_ok mg' h' \<and> undisturbed mg h mg' h' \<and> clear_above h h' \<and> set (members mg) \<subseteq> set (members mg') \<and>
     parms' = parms\<lparr>inStructAddrs := inStructAddrs parms'\<rparr> \<and>
     (\<forall>k < i. inStructAddrs parms' k = inStructAddrs parms k) \<and>
     (\<forall>k. i \<le> k \<and> k < MAX_STRUCT_ARRAYS \<longrightarrow>
        region (inStructAddrs parms' k) (outStructSizes parms k * outStructCount parms k) \<subseteq> {brk h ..< brk h'} \<and>
        (outStructSizes parms k * outStructCount parms k \<noteq> 0 \<longrightarrow> inStructAddrs parms' k \<in> set (members mg')))"

lemma structs_post_step:
  assumes q: "mg_ok mg1 h1" "undisturbed mg h mg1 h1" "members mg1 = members mg @ [q]"
      "region q (outStructSizes parms i * outStructCount parms i) \<subseteq> {brk h ..< brk h1}" "clear_above h h1"
    and rest: "structs_post (i + 1) (parms\<lparr>inStructAddrs := (inStructAddrs parms)(i := q)\<rparr>) mg1 h1 parms' mg' h'"
  shows "structs_post i parms mg h parms' mg' h'"
proof -
  let ?p = "parms\<lparr>inStructAddrs := (inStructAddrs parms)(i := q)\<rparr>"
  have brk: "brk h \<le> brk h1" "brk h1 \<le> brk h'" using q(2) rest by (auto simp: undisturbed_def structs_post_def)
  have at_i: "inStructAddrs parms' i = q" using rest by (simp add: structs_post_def)
  have "region (inStructAddrs parms' k) (outStructSizes parms k * outStructCount parms k) \<subseteq> {brk h ..< brk h'} \<and>
      (outStructSizes parms k * outStructCount parms k \<noteq> 0 \<longrightarrow> inStructAddrs parms' k \<in> set (members mg'))"
    if k: "i \<le> k" "k < MAX_STRUCT_ARRAYS" for k
  proof (cases "k = i")
    case True
    have "q \<in> set (members mg')" using rest q(3) by (auto simp: structs_post_def)
    moreover have "{brk h ..< brk h1} \<subseteq> {brk h ..< brk h'}" using brk by auto
    ultimately show ?thesis using q(4) at_i True by blast
  next
    case False
    then have "region (inStructAddrs parms' k) (outStructSizes parms k * outStructCount parms k) \<subseteq> {brk h1 ..< brk h'} \<and>
      (outStructSizes parms k * outStructCount parms k \<noteq> 0 \<longrightarrow> inStructAddrs parms' k \<in> set (members mg'))"
      using rest k by (simp add: structs_post_def)
    moreover have "{brk h1 ..< brk h'} \<subseteq> {brk h ..< brk h'}" using brk by auto
    ultimately show ?thesis by blast
  qed
  moreover have "parms' = parms\<lparr>inStructAddrs := inStructAddrs parms'\<rparr>" using rest by (simp add: structs_post_def)
  moreover have "undisturbed mg h mg' h'" "clear_above h h'"
    using rest undisturbed_trans [OF q(2)] clear_above_trans [OF q(5)] by (simp_all add: structs_post_def)
  ultimately show ?thesis using rest q(3) by (auto simp: structs_post_def)
qed

lemma alloc_structs_result:
  assumes "alloc_structs g i parms mg h = Ok (0, parms', mg', h')" and "mg_ok mg h" and "0 \<le> i" and "no_wrap parms"
  shows "structs_post i parms mg h parms' mg' h'"
  using assms
proof (induction g i parms mg h rule: alloc_structs.induct)
  case (1 g i parms mg h)
  show ?case
  proof (cases "i < MAX_STRUCT_ARRAYS")
    case False
    then show ?thesis
      using 1(3,4) mg_okD(1) [OF 1(4)] by (auto simp: alloc_structs.simps [of g i] structs_post_def undisturbed_def clear_above_refl)
  next
    case i: True
    show ?thesis
    proof (cases "outStructSizes parms i = 0 \<or> outStructCount parms i = 0")
      case True
      then have rest: "structs_post (i + 1) parms mg h parms' mg' h'"
        using 1(1) [OF i True] 1(3-6) i by (simp add: alloc_structs.simps [of g i])
      have "outStructSizes parms i * outStructCount parms i = 0" using True by auto
      then have "region (inStructAddrs parms' k) (outStructSizes parms k * outStructCount parms k) \<subseteq> {brk h ..< brk h'} \<and>
        (outStructSizes parms k * outStructCount parms k \<noteq> 0 \<longrightarrow> inStructAddrs parms' k \<in> set (members mg'))"
        if "i \<le> k" "k < MAX_STRUCT_ARRAYS" for k
        using rest that by (cases "k = i") (auto simp: structs_post_def region_def)
      with rest show ?thesis by (simp add: structs_post_def)
    next
      case False
      let ?n = "outStructSizes parms i * outStructCount parms i"
      have n: "c_int ?n = ?n" using no_wrapD [OF 1(6,5) i] by (simp add: c_int_id)
      obtain q mg1 h1 where q: "smMemoryGroupAlloc g ?n mg h = Ok (q, mg1, h1)"
        using 1(3) i False n by (auto simp: alloc_structs.simps [of g i] res_bind_eq_Ok)
      have q0: "q \<noteq> 0"
        using 1(3) i False n q by (auto simp: alloc_structs.simps [of g i] MEMORY_ERROR_def)
      let ?p = "parms\<lparr>inStructAddrs := (inStructAddrs parms)(i := q)\<rparr>"
      note c = chunk_alloc [OF 1(4) q q0]
      have rec: "alloc_structs g (i + 1) ?p mg1 h1 = Ok (0, parms', mg', h')"
        using 1(3) i False n q q0 by (simp add: alloc_structs.simps [of g i])
      have "structs_post (i + 1) ?p mg1 h1 parms' mg' h'"
        by (rule 1(2) [OF i False]) (use q n q0 rec c 1(5,6) in \<open>auto simp: no_wrap_def\<close>)
      then show ?thesis by (rule structs_post_step [OF c(1-4,6)])
    qed
  qed
qed

lemma alloc_strings_result:
  assumes "alloc_strings g parms mg h = Ok (0, parms', mg', h')" and "mg_ok mg h"
  shows "mg_ok mg' h'" and "undisturbed mg h mg' h'" and "set (members mg) \<subseteq> set (members mg')"
    and "parms' = parms\<lparr>inStringCursor := inStringCursor parms'\<rparr>"
    and "region (inStringCursor parms') (outStringByteCount parms) \<subseteq> {brk h ..< brk h'}" and "clear_above h h'"
proof -
  show "clear_above h h'"
  proof (cases "outStringByteCount parms > 0")
    case False
    then show ?thesis using assms(1) clear_above_refl [OF mg_okD(1) [OF assms(2)]] by (simp add: alloc_strings_def)
  next
    case True
    then obtain q mg1 h1 where q: "smMemoryGroupAlloc g (outStringByteCount parms) mg h = Ok (q, mg1, h1)" and "h' = h1"
      using assms(1) by (auto simp: alloc_strings_def res_bind_eq_Ok MEMORY_ERROR_def split: if_splits)
    then show ?thesis using Alloc_above [OF mg_okD(1) [OF assms(2)] q] by simp
  qed
  have "mg_ok mg' h' \<and> undisturbed mg h mg' h' \<and> set (members mg) \<subseteq> set (members mg') \<and>
    parms' = parms\<lparr>inStringCursor := inStringCursor parms'\<rparr> \<and>
    region (inStringCursor parms') (outStringByteCount parms) \<subseteq> {brk h ..< brk h'}"
  proof (cases "outStringByteCount parms > 0")
    case False
    then show ?thesis
      using assms mg_okD(1) [OF assms(2)] by (auto simp: alloc_strings_def undisturbed_def region_def)
  next
    case True
    obtain q mg1 h1 where q: "smMemoryGroupAlloc g (outStringByteCount parms) mg h = Ok (q, mg1, h1)" "q \<noteq> 0"
      "parms' = parms\<lparr>inStringCursor := q\<rparr>" "mg' = mg1" "h' = h1"
      using assms(1) True by (auto simp: alloc_strings_def res_bind_eq_Ok MEMORY_ERROR_def split: if_splits)
    with chunk_alloc [OF assms(2) q(1,2)] show ?thesis by auto
  qed
  then show "mg_ok mg' h'" "undisturbed mg h mg' h'" "set (members mg) \<subseteq> set (members mg')"
    "parms' = parms\<lparr>inStringCursor := inStringCursor parms'\<rparr>"
    "region (inStringCursor parms') (outStringByteCount parms) \<subseteq> {brk h ..< brk h'}"
    by blast+
qed

section \<open>The response in memory\<close>

text \<open>What an exchange leaves: the caller's bytes and blocks, the buffer \<open>p\<close> freed, \<open>out\<close> a chunk.\<close>

definition response_post :: "int \<Rightarrow> int \<Rightarrow> session \<Rightarrow> session \<Rightarrow> bool" where
  "response_post p out s s' \<longleftrightarrow>
     mg_ok (memContext s') (store s') \<and> out \<in> set (members (memContext s')) \<and>
     live (store s') - owned (memContext s') = live (store s) - owned (memContext s) - {p} \<and>
     (\<forall>x. bytes (store s') x \<noteq> bytes (store s) x \<longrightarrow> brk (store s) \<le> x \<and> x < brk (store s')) \<and> brk (store s) \<le> out"

lemma mg_ok_free:
  assumes "mg_ok mg h" and "p \<in> live h" and "p \<notin> owned mg" and "c_free p h = Ok h'"
  shows "mg_ok mg h'" and "live h' = live h - {p}" and "bytes h' = bytes h" and "brk h' = brk h"
proof -
  have "p \<noteq> 0" using live_below_brk [OF mg_okD(1) [OF assms(1)] assms(2)] by simp
  from c_free_live [OF assms(2) this] assms(4) show h': "live h' = live h - {p}" "bytes h' = bytes h" "brk h' = brk h" by auto
  show "mg_ok mg h'"
    using assms(1,3) h'(1) c_free_wf [OF _ assms(4)] by (auto simp: mg_ok_def mg_set_def owned_def)
qed

lemma mg_ok_bytes [simp]: "mg_ok mg (h\<lparr>bytes := m\<rparr>) = mg_ok mg h"
  by (simp add: mg_ok_def mg_set_def)

lemma first_of_region: "region a n \<subseteq> {b ..< c} \<Longrightarrow> 0 < n \<Longrightarrow> b \<le> a"
  by (auto simp: region_def dest: subsetD [of _ _ a])

lemma populate_in_new_memory:
  assumes wf: "wf_table table" and scanned: "parseBufferWithTable f ctx data scan table junk = Ok parms"
    and err: "error_length_present ctx table (int (length data))"
    and junk: "cursor junk = 0" "dataBufferSize junk = int (length data)"
    and structs: "structs_post 0 parms mg h parms1 mg1 h1"
    and strings: "parms2 = parms1\<lparr>inStringCursor := sc\<rparr>" "region sc (outStringByteCount parms1) \<subseteq> {brk h1 ..< brk h2}" "brk h1 \<le> brk h2"
  obtains parms3 where "parseBufferWithTable f ctx data populate table (parms2\<lparr>cursor := 0, heap := m\<rparr>) = Ok parms3"
    "\<forall>x. heap parms3 x \<noteq> m x \<longrightarrow> brk h \<le> x \<and> x < brk h2"
proof -
  let ?p = "parms2\<lparr>cursor := 0, heap := m\<rparr>"
  have size: "dataBufferSize parms = int (length data)"
    using scan_makes_room [OF wf scanned err junk junk] by blast
  obtain A where A: "parms1 = parms\<lparr>inStructAddrs := A\<rparr>" using structs unfolding structs_post_def by blast
  have fields: "dataBufferSize ?p = int (length data)" "outStringByteCount parms1 = outStringByteCount parms"
    "inStructAddrs ?p = inStructAddrs parms1" "inStringCursor ?p = sc"
    unfolding strings(1) A by (simp_all add: size)
  obtain parms3 where run: "parseBufferWithTable f ctx data populate table ?p = Ok parms3" "frame (allocated parms ?p) m (heap parms3)"
    using scan_makes_room [OF wf scanned err junk, of ?p] fields(1) by auto
  have "allocated parms ?p \<subseteq> {brk h ..< brk h2}"
  proof -
    have "brk h \<le> brk h1" using structs by (simp add: structs_post_def undisturbed_def)
    then have "region (inStringCursor ?p) (outStringByteCount parms) \<subseteq> {brk h ..< brk h2}"
      using strings(2) fields(2,4) by auto
    moreover have "region (inStructAddrs ?p k) (outStructSizes parms k * outStructCount parms k) \<subseteq> {brk h ..< brk h2}"
      if "0 \<le> k" "k < MAX_STRUCT_ARRAYS" for k
    proof -
      have "region (inStructAddrs ?p k) (outStructSizes parms k * outStructCount parms k) \<subseteq> {brk h ..< brk h1}"
        unfolding fields(3) using structs that unfolding structs_post_def by blast
      then show ?thesis using strings(3) by auto
    qed
    ultimately show ?thesis unfolding allocated_def by (intro Un_least UN_least) auto
  qed
  with run(2) have "\<forall>x. heap parms3 x \<noteq> m x \<longrightarrow> brk h \<le> x \<and> x < brk h2" unfolding frame_def by force
  with run(1) show thesis by (rule that)
qed

lemma free_and_return_Ok:
  assumes "free_and_return p rc out s = Ok (rc', out', s')"
  obtains h where "c_free p (store s) = Ok h" "s' = s\<lparr>store := h\<rparr>" "rc' = rc" "out' = out"
  using assms by (auto simp: free_and_return_def res_bind_eq_Ok)

definition scan_result :: "nat \<Rightarrow> tableLayout \<Rightarrow> parser_state \<Rightarrow> byte list \<Rightarrow> session \<Rightarrow> parser_state res" where
  "scan_result f table junk data s =
     parseBufferWithTable f (session_context s) data scan table
       (junk\<lparr>cursor := 0, dataBufferSize := int (length data), heap := bytes (store s)\<rparr>)"

lemma parse_response_ok:
  assumes wf: "wf_table table" and scanned: "scan_result f table junk data s = Ok parms" and nw: "no_wrap parms"
    and err: "error_length_present (session_context s) table (int (length data))"
    and ok: "mg_ok (memContext s) (store s)" and p: "p \<in> live (store s)" "p \<notin> owned (memContext s)"
    and run: "parse_response f g table junk data p out s = Ok (0, out', s')"
  shows "response_post p out' s s'"
proof -
  let ?j = "junk\<lparr>cursor := 0, dataBufferSize := int (length data), heap := bytes (store s)\<rparr>"
  have scan': "parseBufferWithTable f (session_context s) data scan table ?j = Ok parms" using scanned by (simp add: scan_result_def)
  note counts = scan_makes_room [OF wf scan' err, of ?j]
  obtain rc1 parms1 mg1 h1 where a1: "alloc_structs g 0 parms (memContext s) (store s) = Ok (rc1, parms1, mg1, h1)"
    using run scan' by (auto simp: parse_response_def Let_def res_bind_eq_Ok)
  have mem_err: "MEMORY_ERROR \<noteq> 0" by (simp add: MEMORY_ERROR_def)
  have rc1: "rc1 = 0"
    using run scan' a1 by (auto simp: parse_response_def Let_def free_and_return_def res_bind_eq_Ok split: if_splits)
  note post1 = alloc_structs_result [OF a1 [unfolded rc1] ok _ nw]
  have ok1: "mg_ok mg1 h1" "undisturbed (memContext s) (store s) mg1 h1" using post1 by (simp_all add: structs_post_def)
  obtain rc2 parms2 mg2 h2 where a2: "alloc_strings g parms1 mg1 h1 = Ok (rc2, parms2, mg2, h2)"
    using run scan' a1 rc1 by (auto simp: parse_response_def Let_def res_bind_eq_Ok)
  have rc2: "rc2 = 0"
    using run scan' a1 rc1 a2 by (auto simp: parse_response_def Let_def free_and_return_def res_bind_eq_Ok split: if_splits)
  note post2 = alloc_strings_result [OF a2 [unfolded rc2] ok1(1)]
  let ?s = "s\<lparr>memContext := mg2, store := h2\<rparr>"
  have ctx: "session_context ?s = session_context s" by (simp add: session_context_def)
  obtain parms3 where a3: "parseBufferWithTable f (session_context s) data populate table (parms2\<lparr>cursor := 0, heap := bytes h2\<rparr>) = Ok parms3"
    and mem: "\<forall>x. heap parms3 x \<noteq> bytes h2 x \<longrightarrow> brk (store s) \<le> x \<and> x < brk h2"
    by (rule populate_in_new_memory [OF wf scan' err _ _ post1 [simplified] post2(4,5)])
      (use post2(2) in \<open>simp_all add: undisturbed_def\<close>)
  have fin: "free_and_return p 0 (inStructAddrs parms2 0) (?s\<lparr>store := h2\<lparr>bytes := heap parms3\<rparr>\<rparr>) = Ok (0, out', s')"
    using run scan' a1 rc1 a2 rc2 a3 ctx by (simp add: parse_response_def Let_def)
  then obtain h3 where h3: "c_free p (h2\<lparr>bytes := heap parms3\<rparr>) = Ok h3" "s' = ?s\<lparr>store := h3\<rparr>" "out' = inStructAddrs parms2 0"
    by (auto elim: free_and_return_Ok)
  have und: "undisturbed (memContext s) (store s) mg2 h2" by (rule undisturbed_trans [OF ok1(2) post2(2)])
  have p2: "p \<in> live h2" "p \<notin> owned mg2" using und p by (auto simp: undisturbed_def)
  note h3' = mg_ok_free [of mg2 "h2\<lparr>bytes := heap parms3\<rparr>" p h3, simplified, OF post2(1) p2 h3(1)]
  have "inStructAddrs parms2 = inStructAddrs parms1" by (subst post2(4)) simp
  moreover have "inStructAddrs parms1 0 \<in> set (members mg1)" "0 < outStructSizes parms 0 * outStructCount parms 0"
    using post1 counts by (simp_all add: structs_post_def MAX_STRUCT_ARRAYS_def)
  moreover have "region (inStructAddrs parms1 0) (outStructSizes parms 0 * outStructCount parms 0) \<subseteq> {brk (store s) ..< brk h1}"
    using post1 by (simp add: structs_post_def MAX_STRUCT_ARRAYS_def)
  ultimately have "out' \<in> set (members mg2)" "brk (store s) \<le> out'"
    using post2(3) h3(3) first_of_region by auto
  moreover have "live h3 - owned mg2 = live (store s) - owned (memContext s) - {p}"
    using h3'(2) und by (auto simp: undisturbed_def)
  moreover have "clear_above (store s) h2"
    using post1 clear_above_trans [OF _ post2(6)] by (simp add: structs_post_def)
  then have "brk (store s) \<le> x \<and> x < brk h3" if "bytes h3 x \<noteq> bytes (store s) x" for x
    using h3'(3,4) mem und that by (cases "heap parms3 x = bytes h2 x") (force simp: undisturbed_def clear_above_def)+
  ultimately show ?thesis using h3'(1) h3(2) by (simp add: response_post_def)
qed

section \<open>Descriptors of a whole exchange\<close>

lemma terminate_fd:
  assumes "fd_state F fd s"
  obtains rc s' where "smSocketTerminate os fd s = (rc, s')" "open_fds s' = F" "slept s' = slept s"
proof -
  obtain r t where t: "fd_call os fd s = (r, t)" "open_fds t = open_fds s" "quiet s t" by (rule fd_call_cases [of os fd s])
  define t1 where "t1 = (if r \<noteq> 0 \<and> errno t \<noteq> 107 then errorLog RcIucv r t else t)"
  have t1: "fd_state F fd t1" "slept t1 = slept s" using t assms by (auto simp: t1_def fd_state_def quiet_def)
  obtain q u where u: "sys_close os fd t1 = (q, u)" by fastforce
  note u' = close_fd [OF t1(1) u]
  obtain q2 v where v: "sys_close os fd (errorLog RcIucv q u) = (q2, v)" by fastforce
  have "fd_state F fd (errorLog RcIucv q u)" using u' assms by (simp add: fd_state_def)
  note v' = close_fd [OF this v]
  show thesis
    using that t(1) u v u' v' t1(2) unfolding smSocketTerminate_def t1_def [symmetric]
    by (cases "q = 0"; cases "errno u = EINTR"; cases "q2 = 0") (auto simp: Let_def t1_def [symmetric])
qed

lemma free_and_return_net:
  "free_and_return p rc out s = Ok (rc', out', s') \<Longrightarrow> net s' = net s"
  by (auto elim: free_and_return_Ok)

lemma parse_response_net:
  assumes "parse_response f g table junk data p out s = Ok (rc, out', s')"
  shows "open_fds (net s') = open_fds (net s) \<and> slept (net s') = slept (net s)"
proof -
  have free: ?thesis if "free_and_return q c o1 s1 = Ok (rc, out', s')" 
    "open_fds (net s1) = open_fds (net s) \<and> slept (net s1) = slept (net s)" for q c o1 s1
    using that(2) free_and_return_net [OF that(1)] by auto
  let ?j = "junk\<lparr>cursor := 0, dataBufferSize := int (length data), heap := bytes (store s)\<rparr>"
  show ?thesis
  proof (cases "parseBufferWithTable f (session_context s) data scan table ?j")
    case (Err c)
    then show ?thesis using assms by (auto simp: parse_response_def Let_def session_log_def intro!: free)
  next
    case (Ok parms)
    then obtain c1 parms1 mg1 h1 where a1: "alloc_structs g 0 parms (memContext s) (store s) = Ok (c1, parms1, mg1, h1)"
      using assms by (auto simp: parse_response_def Let_def res_bind_eq_Ok)
    show ?thesis
    proof (cases "c1 = 0")
      case False
      then show ?thesis using assms Ok a1 by (auto simp: parse_response_def Let_def session_log_def intro!: free)
    next
      case c1: True
      then obtain c2 parms2 mg2 h2 where a2: "alloc_strings g parms1 mg1 h1 = Ok (c2, parms2, mg2, h2)"
        using assms Ok a1 by (auto simp: parse_response_def Let_def res_bind_eq_Ok)
      let ?s = "s\<lparr>memContext := mg2, store := h2\<rparr>"
      show ?thesis
        using assms Ok a1 c1 a2
        by (cases "c2 = 0"; cases "parseBufferWithTable f (session_context ?s) data populate table (parms2\<lparr>cursor := 0, heap := bytes h2\<rparr>)")
          (auto simp: parse_response_def Let_def session_log_def intro!: free)
    qed
  qed (use assms in \<open>simp_all add: parse_response_def Let_def\<close>)
qed

lemma receive_response_fd:
  assumes run: "receive_response f os g table junk n fd out s = Ok (rc, out', s')"
    and fd: "fd \<notin> set F" "open_fds (net s) = fd # F"
  shows "slept (net s') = slept (net s) \<and> (rc = 0 \<longrightarrow> open_fds (net s') = F) \<and>
    (open_fds (net s') = F \<or> open_fds (net s') = fd # F)"
proof (cases "n \<ge> 3 * 4")
  case False
  then show ?thesis using run fd by (auto simp: receive_response_def session_log_def INVALID_DATA_def)
next
  case n: True
  obtain p h where m: "c_malloc g n (store s) = (p, h)" by fastforce
  show ?thesis
  proof (cases "p = 0")
    case True
    then show ?thesis using run n m fd by (auto simp: receive_response_def session_log_def MEMORY_ERROR_def)
  next
    case p: False
    obtain c data t where r: "smSocketRead f os fd n (net s) = Ok (c, data, t)"
      using run n m p by (auto simp: receive_response_def res_bind_eq_Ok)
    have st: "fd_state F fd (net s)" using fd by (simp add: fd_state_def)
    note r' = read_fd [OF r _ st]
    show ?thesis
    proof (cases "c = 0")
      case False
      then show ?thesis
        using run n m p r r' by (auto simp: receive_response_def Let_def dest!: free_and_return_net)
    next
      case c: True
      obtain c2 u where u: "smSocketTerminate os fd t = (c2, u)" "open_fds u = F" "slept u = slept t"
        using terminate_fd [OF r'(1)] n by auto
      show ?thesis
        using run n m p r r' c u
        by (cases "c2 = 0")
          (auto simp: receive_response_def Let_def dest!: free_and_return_net parse_response_net)
    qed
  qed
qed

lemma exchange_fd:
  assumes run: "getAndParseSmapiBuffer f os sem g inputPp input table junk sock0 out s = Ok (rc, out', s')" and "sem_neutral sem"
  shows "slept (net s') \<le> slept (net s) + 6320 \<and> (rc = 0 \<longrightarrow> open_fds (net s') = open_fds (net s)) \<and>
    (open_fds (net s') = open_fds (net s) \<or> (\<exists>fd. open_fds (net s') = fd # open_fds (net s)))"
proof -
  let ?F = "open_fds (net s)"
  obtain res fd n where l: "request_loop f os sem input 0 0 sock0 (net s) = Ok (res, fd, n)"
    using run by (auto simp: getAndParseSmapiBuffer_def res_bind_eq_Ok)
  have post: "loop_post ?F res fd n" "\<forall>rc. res \<noteq> Redrive rc" "slept n \<le> slept (net s) + 6320"
    using request_loop_fd [OF l assms(2), of ?F] by (auto simp: SEND_RETRY_LIMIT_def)
  show ?thesis
  proof (cases res)
    case (Answered k)
    then obtain h where "receive_response f os g table junk k fd out (s\<lparr>net := n, store := h\<rparr>) = Ok (rc, out', s')"
      using run l by (auto simp: getAndParseSmapiBuffer_def res_bind_eq_Ok Let_def)
    from receive_response_fd [OF this, of ?F] post Answered show ?thesis by (auto simp: loop_post_def)
  next
    case (Stopped c)
    then have "rc = c" "net s' = n"
      using run l by (auto simp: getAndParseSmapiBuffer_def Let_def elim: free_and_return_Ok)
    with post Stopped show ?thesis by (auto simp: loop_post_def fd_state_def)
  next
    case (Abandoned c)
    then show ?thesis using run l post by (auto simp: getAndParseSmapiBuffer_def Let_def loop_post_def)
  qed (use post in auto)
qed

section \<open>Ending of an exchange\<close>

text \<open>The peer makes progress: it takes and delivers at least one byte in every call.\<close>

definition progress :: "os \<Rightarrow> bool" where
  "progress os \<longleftrightarrow> (\<forall>k n bs. os k = Done n bs \<longrightarrow> 0 < n \<and> bs \<noteq> [])"

lemma progress_write: "progress os \<Longrightarrow> length data < f \<Longrightarrow> \<exists>rc s'. smSocketWrite f os fd data s = Ok (rc, s')"
  by (rule smSocketWrite_returns) (auto simp: progress_def)

lemma progress_read: "progress os \<Longrightarrow> nat len < f \<Longrightarrow> \<exists>rc buff s'. smSocketRead f os fd len s = Ok (rc, buff, s')"
  by (rule smSocketRead_returns) (auto simp: progress_def)

definition recovery_fields :: "int \<Rightarrow> wire_field list" where
  "recovery_fields rid =
     [Counted (c_literal ''Response_Recovery''), Counted [], Counted [], Counted (c_literal ''MAINT''), Int4 rid]"

lemma recovery_request_wire: "recovery_request rid = Ok (request_bytes (recovery_fields rid))"
proof -
  have lit: "length (c_literal ''Response_Recovery'') = 17" "length (c_literal ''MAINT'') = 5" by code_simp+
  show ?thesis
    by (simp add: recovery_request_def recovery_fields_def PUT_INT_def memcpy_def put_bytes_def lit
        request_bytes_def encode_fields_def del: be_bytes.simps)
qed

lemma recovery_returns:
  assumes "progress os" and "46 < f"
  shows "\<exists>rc n s'. tryRecoveryUsingRequestId f os fd rid s = Ok (rc, n, s')"
proof -
  have len: "length (request_bytes (recovery_fields rid)) = 46"
    by (simp add: recovery_fields_def request_bytes_def encode_fields_def c_literal_def del: be_bytes.simps)
  have rd: "\<exists>rc b s'. smSocketRead f os fd n s = Ok (rc, b, s')" if "n \<le> 12" for n s
    by (rule progress_read [OF assms(1)]) (use that assms(2) in linarith)
  obtain c s1 where w: "smSocketWrite f os fd (request_bytes (recovery_fields rid)) s = Ok (c, s1)"
    using progress_write [OF assms(1), of "request_bytes (recovery_fields rid)" f fd s] assms(2) len by auto
  obtain c2 b2 s2 where r2: "smSocketRead f os fd 4 s1 = Ok (c2, b2, s2)" using rd [of 4 s1] by auto
  obtain c3 b3 s3 where r3: "smSocketRead f os fd 4 s2 = Ok (c3, b3, s3)" using rd [of 4 s2] by auto
  obtain c4 b4 s4 where r4: "smSocketRead f os fd 12 s3 = Ok (c4, b4, s4)" using rd [of 12 s3] by auto
  show ?thesis
    by (simp add: tryRecoveryUsingRequestId_def recovery_request_wire w r2 r3 r4 Let_def)
qed

lemma length_loop_returns:
  assumes "progress os" and "46 < f"
  shows "\<exists>r. length_loop f os sem rid jk saverc fd s = Ok r"
  using assms
proof (induction f os sem rid jk saverc fd s rule: length_loop.induct)
  case (1 f os sem rid jk saverc fd s)
  show ?case
  proof (cases "jk \<ge> SEND_RETRY_LIMIT")
    case False
    obtain c b t where r: "smSocketRead f os fd 4 s = Ok (c, b, t)" using progress_read [OF 1(2), of 4 f fd s] 1(3) by auto
    show ?thesis
    proof (cases "c \<noteq> 0 \<and> retryable c")
      case yes: True
      obtain q u where q: "sys_close os fd t = (q, u)" by fastforce
      define v where "v = sys_sleep ResponseRecoveryDelay (if q \<noteq> 0 then errorLog RcIucv RsUnexpected u else u)"
      obtain i fd2 w where i: "smSocketInitialize os sem fd v = (i, fd2, w)" by (cases "smSocketInitialize os sem fd v")
      obtain c3 n x where t: "tryRecoveryUsingRequestId f os fd2 rid (errorLog RcIucv RsUnexpected w) = Ok (c3, n, x)"
        using recovery_returns [OF 1(2,3)] by blast
      have "\<exists>r. length_loop f os sem rid (jk + 1) c3 fd2 x = Ok r"
        if "i = 0" "c3 \<noteq> SOCKET_RETRY_SMAPI_POSSIBLE" "retryable c3"
        by (rule 1(1) [OF False r refl refl _ _ refl q [symmetric] refl refl refl i [unfolded v_def, symmetric] refl _ t refl refl _ _ 1(2,3)])
          (use yes that in auto)
      with False r yes q i t show ?thesis by (auto simp: length_loop.simps [of f] Let_def v_def)
    next
      case no: False
      then show ?thesis using False r by (cases "c = 0") (simp_all add: length_loop.simps [of f])
    qed
  qed (simp add: length_loop.simps [of f])
qed

lemma send_loop_returns:
  assumes "progress os" and "length input < f"
  shows "\<exists>rc s'. send_loop f os fd input j s = Ok (rc, s')"
  using assms
proof (induction f os fd input j s rule: send_loop.induct)
  case (1 f os fd input j s)
  obtain c t where w: "smSocketWrite f os fd input s = Ok (c, t)" using progress_write [OF 1(2,3)] by blast
  with 1(1) [OF w refl _ _ 1(2,3)] show ?case by (auto simp: send_loop.simps [of f])
qed

lemma request_round_returns:
  assumes "progress os" and "46 < f" and "length input < f"
  shows "\<exists>r. request_round f os sem input k fd s = Ok r"
proof -
  have rest: "\<exists>r. res_bind (send_loop f os fd1 input 0 s3) (\<lambda>(rc, s).
           if rc \<noteq> 0 then Ok (Stopped rc, fd1, s)
           else res_bind (smSocketRead f os fd1 4 s) (\<lambda>(rc, requestId, s).
             if rc \<noteq> 0 then
               if retryable rc then Ok (Redrive rc, fd1, s)
               else Ok (Stopped rc, fd1, errorLog RcIucv RsUnexpected s)
             else length_loop f os sem (get_int 4 requestId) 0 0 fd1 s)) = Ok r" for fd1 s3
  proof -
    obtain c2 s4 where w: "send_loop f os fd1 input 0 s3 = Ok (c2, s4)" using send_loop_returns [OF assms(1,3)] by blast
    obtain c3 b s5 where r: "smSocketRead f os fd1 4 s4 = Ok (c3, b, s5)" using progress_read [OF assms(1), of 4 f fd1 s4] assms(2) by auto
    show ?thesis using length_loop_returns [OF assms(1,2), of sem "get_int 4 b" 0 0 fd1 s5] by (auto simp: w r)
  qed
  show ?thesis by (simp only: request_round_def Let_def split: prod.split) (use rest in auto)
qed

lemma request_loop_returns:
  assumes "progress os" and "46 < f" and "length input < f"
  shows "\<exists>r. request_loop f os sem input k saverc fd s = Ok r"
  using assms
proof (induction f os sem input k saverc fd s rule: request_loop.induct)
  case (1 f os sem input k saverc fd s)
  show ?case
  proof (cases "k \<ge> SEND_RETRY_LIMIT")
    case False
    obtain o1 fd1 s1 where r: "request_round f os sem input k fd s = Ok (o1, fd1, s1)"
      using request_round_returns [OF 1(2-4), of sem k fd s] by (metis prod_cases3)
    with False 1(1) [OF False r refl refl _ 1(2-4)] show ?thesis
      by (cases o1) (simp_all add: request_loop.simps [of f])
  qed (simp add: request_loop.simps [of f])
qed

section \<open>Properties\<close>

definition example_session :: session where
  "example_session =
     \<lparr>net = example_net, memContext = empty_group, store = empty_heap\<lparr>blocks := [(16, 21)], brk := 40\<rparr>,
      sm_returnCode = 0, sm_reasonCode = 0, errorBufferPossible = 0\<rparr>"

text \<open>
  C11: a response is stored in new memory.  The table is well formed, the size times the count of every
  structure array that the scan found fits an \<open>int\<close>, and an error buffer that is announced with a length
  field has the four bytes of that field.  Then the handling of a received response, if it returns 0, changes bytes only at addresses that \<open>malloc\<close> has
  given out since it began (which never gives an address out twice): from the old end of the heap up to the new
  one.  \<open>outData\<close> is a chunk of the group in that memory, the memory group keeps its
  invariant, the response buffer is freed and no other block of the caller is freed or added.
\<close>

theorem response_stored_in_new_memory:
  assumes "wf_table table" and "scan_result f table junk data s = Ok parms" and "no_wrap parms"
    and "error_length_present (session_context s) table (int (length data))"
    and "mg_ok (memContext s) (store s)" and "p \<in> live (store s)" and "p \<notin> owned (memContext s)"
    and "parse_response f g table junk data p out s = Ok (0, out', s')"
  shows "mg_ok (memContext s') (store s') \<and> out' \<in> set (members (memContext s')) \<and>
    live (store s') - owned (memContext s') = live (store s) - owned (memContext s) - {p} \<and>
    (\<forall>x. bytes (store s') x \<noteq> bytes (store s) x \<longrightarrow> brk (store s) \<le> x \<and> x < brk (store s')) \<and> brk (store s) \<le> out'"
  using parse_response_ok [OF assms] by (simp add: response_post_def)

lemma example_session_ok: "mg_ok (memContext example_session) (store example_session)"
  by (simp add: example_session_def mg_ok_def empty_group_def empty_heap_def unset_def quantum_def wf_heap_def)

abbreviation example_junk :: parser_state where
  "example_junk \<equiv> fresh_state [] 0 (\<lambda>_. 0)"

theorem response_stored_in_new_memory_witness:
  "\<exists>out' s'. parse_response 60 (\<lambda>_ _. True) Image_Query_DM_Layout example_junk image_query_reply 16 0 example_session = Ok (0, out', s') \<and>
     out' \<in> set (members (memContext s')) \<and> live (store s') \<subseteq> owned (memContext s')"
proof -
  have wf: "wf_table Image_Query_DM_Layout" by code_simp
  have "case scan_result 60 Image_Query_DM_Layout example_junk image_query_reply example_session of
      Ok parms \<Rightarrow> no_wrap parms | _ \<Rightarrow> False"
    by code_simp
  then obtain parms where parms: "scan_result 60 Image_Query_DM_Layout example_junk image_query_reply example_session = Ok parms" "no_wrap parms"
    by (auto split: res.splits)
  have err: "error_length_present (session_context example_session) Image_Query_DM_Layout (int (length image_query_reply))"
    by (simp add: error_length_present_def session_context_def example_session_def)
  let ?r = "parse_response 60 (\<lambda>_ _. True) Image_Query_DM_Layout example_junk image_query_reply 16 0 example_session"
  have "case ?r of Ok (rc, _) \<Rightarrow> rc = 0 | _ \<Rightarrow> False" by code_simp
  then obtain out' s' where r: "?r = Ok (0, out', s')" by (auto split: res.splits)
  have unset: "owned (memContext example_session) = {}"
    by (simp add: owned_def unset_def example_session_def empty_group_def quantum_def)
  have "16 \<in> live (store example_session)" by (simp add: example_session_def)
  from response_stored_in_new_memory [OF wf parms err example_session_ok this _ r] unset
  have post: "mg_ok (memContext s') (store s')" "out' \<in> set (members (memContext s'))"
    "live (store s') - owned (memContext s') = {}"
    by (auto simp: example_session_def)
  then show ?thesis using r by blast
qed

text \<open>
  C12: an exchange leaves no descriptor open when it succeeds, and at most one when it fails.
  Over all its retries, reconnections and recoveries it sleeps at most 6320 seconds.
\<close>

theorem exchange_descriptors:
  assumes "getAndParseSmapiBuffer f os sem g inputPp input table junk sock0 out s = Ok (rc, out', s')" and "sem_neutral sem"
  shows "(rc = 0 \<longrightarrow> open_fds (net s') = open_fds (net s)) \<and>
    (open_fds (net s') = open_fds (net s) \<or> (\<exists>fd. open_fds (net s') = fd # open_fds (net s))) \<and>
    slept (net s') \<le> slept (net s) + 6320"
  using exchange_fd [OF assms] by blast

definition answers :: "answer list \<Rightarrow> os" where
  "answers as k = (if k < length as then as ! k else Failed EAGAIN)"

definition delete_session :: "answer list" where
  "delete_session =
     replicate 5 (Done 0 []) @ [Done 100 []] @
     replicate 2 (Done 0 []) @ [Done 0 (be_bytes 4 7)] @
     replicate 2 (Done 0 []) @ [Done 0 (be_bytes 4 16)] @
     replicate 2 (Done 0 []) @ [Done 0 delete_reply] @ replicate 2 (Done 0 [])"

theorem exchange_descriptors_witness:
  "\<exists>out' s'. getAndParseSmapiBuffer 90 (answers delete_session) (\<lambda>s. (0, s)) (\<lambda>_ _. True) 16 [1, 2, 3] Image_Delete_DM_Layout
     example_junk 0 0 example_session = Ok (0, out', s') \<and> open_fds (net s') = [2, 1, 0]"
proof -
  let ?r = "getAndParseSmapiBuffer 90 (answers delete_session) (\<lambda>s. (0, s)) (\<lambda>_ _. True) 16 [1, 2, 3] Image_Delete_DM_Layout
     example_junk 0 0 example_session"
  have "case ?r of Ok (rc, _) \<Rightarrow> rc = 0 | _ \<Rightarrow> False" by code_simp
  then obtain out' s' where r: "?r = Ok (0, out', s')" by (auto split: res.splits)
  have "sem_neutral (\<lambda>s. (0, s))" by (simp add: sem_neutral_def)
  from exchange_descriptors [OF r this] show ?thesis using r by (auto simp: example_session_def example_net_def)
qed

text \<open>
  C13: an exchange gets an answer or gives up.  With a peer that makes progress the retry loops end,
  whatever errors the system calls return.
\<close>

theorem request_loop_ends:
  assumes "progress os" and "46 < f" and "length input < f"
  shows "\<exists>r. request_loop f os sem input 0 0 sock0 s = Ok r"
  by (rule request_loop_returns [OF assms])

theorem request_loop_ends_witness:
  "\<exists>r. request_loop 50 (\<lambda>k. if k mod 3 = 0 then Done 1 [7] else Failed EAGAIN) (\<lambda>s. (0, s)) [1, 2, 3] 0 0 0 example_net = Ok r"
  by (rule request_loop_ends) (simp_all add: progress_def)

text \<open>
  A repeated send is futile.  When \<open>smSocketWrite\<close> fails with a code that the loop retries, it has
  closed the socket; the next attempt uses the same descriptor and ends the exchange with
  \<open>SOCKET_PROCESSING_ERROR\<close>, and not a byte more is sent.
\<close>

theorem resend_on_closed_socket:
  assumes "smSocketWrite f os fd input s = Ok (c, t)" and "retryable c" and "j < SEND_RETRY_LIMIT"
  shows "\<exists>s'. send_loop f os fd input j s = Ok (SOCKET_PROCESSING_ERROR, s') \<and> sent s' = sent t"
proof -
  let ?t = "sleep_positive (SEND_SLEEP_TIMES ! nat j) t"
  have c: "c \<noteq> 0" by (rule retryable_nonzero(1) [OF assms(2)])
  have "open_fds t = removeAll fd (open_fds s)" using smSocketWrite_result [OF assms(1)] c by auto
  then have "fd \<notin> set (open_fds ?t)" by (simp add: sleep_positive_def sys_sleep_def)
  then obtain u where u: "smSocketWrite f os fd input ?t = Ok (SOCKET_PROCESSING_ERROR, u)" "sent u = sent ?t"
    by (rule smSocketWrite_closed)
  have "\<not> retryable SOCKET_PROCESSING_ERROR" "SOCKET_PROCESSING_ERROR \<noteq> 0" by (simp_all add: retryable_def socket_codes)
  then have "send_loop f os fd input (j + 1) ?t = Ok (SOCKET_PROCESSING_ERROR, errorLog RcIucv RsUnexpected u)"
    using u(1) by (simp add: send_loop.simps [of f])
  moreover have "send_loop f os fd input j s = send_loop f os fd input (j + 1) ?t"
    using assms c by (simp add: send_loop.simps [of f os fd input j])
  moreover have "sent u = sent t" using u(2) by (simp add: sleep_positive_def sys_sleep_def)
  ultimately show ?thesis by (simp add: errorLog_def)
qed

theorem resend_on_closed_socket_witness:
  "\<exists>s'. send_loop 9 (answers [Done 0 [], Done 0 [], Failed EAGAIN]) 3 [1, 2] 0 connected_net = Ok (SOCKET_PROCESSING_ERROR, s') \<and> sent s' = []"
proof -
  let ?r = "smSocketWrite 9 (answers [Done 0 [], Done 0 [], Failed EAGAIN]) 3 [1, 2] connected_net"
  have "case ?r of Ok (c, t) \<Rightarrow> retryable c \<and> sent t = [] | _ \<Rightarrow> False" by code_simp
  then obtain c t where r: "?r = Ok (c, t)" "retryable c" "sent t = []" by (auto split: res.splits)
  from resend_on_closed_socket [OF r(1,2), of 0] r(3) show ?thesis by (simp add: SEND_RETRY_LIMIT_def)
qed

text \<open>
  A lost response is asked for with a well-formed request.  \<open>tryRecoveryUsingRequestId\<close> fills its
  buffer of 46 bytes exactly with the length word, the name \<open>Response_Recovery\<close>, an empty userid and
  password, the target MAINT and the id of the lost request.
\<close>

theorem recovery_request_on_the_wire:
  "recovery_request rid =
     Ok (request_bytes [Counted (c_literal ''Response_Recovery''), Counted [], Counted [], Counted (c_literal ''MAINT''), Int4 rid])"
  using recovery_request_wire [of rid] by (simp add: recovery_fields_def)

text \<open>
  A response that is too short leaves the socket open.  When the server announces fewer than
  twelve bytes the exchange returns \<open>INVALID_DATA\<close> without closing the connection.
\<close>

theorem short_response_leaks_socket:
  assumes "request_loop f os sem input 0 0 sock0 (net s) = Ok (Answered n, fd, t)" and "n < 12"
    and "inputPp \<in> live (store s)" and "sem_neutral sem"
  shows "\<exists>s'. getAndParseSmapiBuffer f os sem g inputPp input table junk sock0 out s = Ok (INVALID_DATA, out, s') \<and>
    open_fds (net s') = fd # open_fds (net s)"
proof -
  have "\<exists>h. c_free inputPp (store s) = Ok h" using assms(3) by (simp add: c_free_def)
  moreover have "open_fds t = fd # open_fds (net s)"
    using request_loop_fd [OF assms(1,4), of "open_fds (net s)"] by (simp add: loop_post_def SEND_RETRY_LIMIT_def)
  ultimately show ?thesis
    using assms(1,2) by (auto simp: getAndParseSmapiBuffer_def receive_response_def session_log_def Let_def)
qed

definition short_session :: "answer list" where
  "short_session =
     replicate 5 (Done 0 []) @ [Done 100 []] @
     replicate 2 (Done 0 []) @ [Done 0 (be_bytes 4 7)] @
     replicate 2 (Done 0 []) @ [Done 0 (be_bytes 4 8)]"

theorem short_response_leaks_socket_witness:
  "\<exists>s'. getAndParseSmapiBuffer 90 (answers short_session) (\<lambda>s. (0, s)) (\<lambda>_ _. True) 16 [1, 2, 3] Image_Delete_DM_Layout
     example_junk 0 0 example_session = Ok (INVALID_DATA, 0, s') \<and> open_fds (net s') = [3, 2, 1, 0]"
proof -
  let ?r = "request_loop 90 (answers short_session) (\<lambda>s. (0, s)) [1, 2, 3] 0 0 0 (net example_session)"
  have "case ?r of Ok (o1, fd, t) \<Rightarrow> o1 = Answered 8 \<and> fd = 3 | _ \<Rightarrow> False" by code_simp
  then obtain t where r: "?r = Ok (Answered 8, 3, t)" by (auto split: res.splits)
  have "sem_neutral (\<lambda>s. (0, s))" by (simp add: sem_neutral_def)
  with short_response_leaks_socket [OF r, of 16 "\<lambda>_ _. True" Image_Delete_DM_Layout example_junk 0] show ?thesis
    by (simp add: example_session_def example_net_def)
qed

definition lost_session :: "answer list" where
  "lost_session =
     replicate 5 (Done 0 []) @ [Done 100 []] @
     replicate 2 (Done 0 []) @ [Done 0 (be_bytes 4 7)] @
     replicate 2 (Done 0 []) @ [Failed ENOTCONN, Done 0 []]"

text \<open>
  The request buffer leaks when the connection cannot be opened again.  The length of the
  response is lost with the connection, the socket for the recovery cannot be obtained, and the
  exchange returns without freeing the request, which it frees in every other case.
\<close>

theorem lost_connection_leaks_request:
  "\<exists>s'. getAndParseSmapiBuffer 90 (answers lost_session) (\<lambda>s. (0, s)) (\<lambda>_ _. True) 16 [1, 2, 3] Image_Delete_DM_Layout
     example_junk 0 0 example_session = Ok (SOCKET_OBTAIN_ERROR, 0, s') \<and> 16 \<in> live (store s')"
proof -
  let ?r = "getAndParseSmapiBuffer 90 (answers lost_session) (\<lambda>s. (0, s)) (\<lambda>_ _. True) 16 [1, 2, 3] Image_Delete_DM_Layout
     example_junk 0 0 example_session"
  have "case ?r of Ok (rc, out, s') \<Rightarrow> rc = SOCKET_OBTAIN_ERROR \<and> out = 0 \<and> 16 \<in> live (store s') | _ \<Rightarrow> False" by code_simp
  then show ?thesis by (auto split: res.splits)
qed

end
