(* ===== verification/Requests_Image.thy ===== *)
theory Requests_Image
  imports Smapi_Request
begin

text \<open>
  The request builders of virtual images (the Image APIs), one definition per
  \<^verbatim>\<open>src/vmapi*.c\<close> file, named after its C function: the sum that gives \<open>inputSize\<close>, and the statements
  that fill the buffer in their order.  Each is described by an \<open>api\<close> record and shown to write
  its arguments.
\<close>

section \<open>The builders\<close>

definition smImage_Activate ::
  "(int \<Rightarrow> bool) \<Rightarrow> byte list \<Rightarrow> int \<Rightarrow> byte list \<Rightarrow>
    byte list \<Rightarrow> smapi_request res" where
  "smImage_Activate malloc userid passwordLength password targetIdentifier =
     (let functionName = c_literal ''Image_Activate'';
        inputSize = c_int
          (4 + 4 + strlen functionName + 4 + strlen userid + 4 + passwordLength + 4 +
          strlen targetIdentifier)
      in smapi_build malloc inputSize
        [PUT_INT (inputSize - 4), put_string functionName, put_string_opt userid,
         put_buffer_opt passwordLength password, put_string targetIdentifier]
        ''Image_Activate_Layout'')"

definition smImage_Active_Configuration_Query ::
  "(int \<Rightarrow> bool) \<Rightarrow> byte list \<Rightarrow> int \<Rightarrow> byte list \<Rightarrow>
    byte list \<Rightarrow> smapi_request res" where
  "smImage_Active_Configuration_Query malloc userid passwordLength password targetIdentifier =
     (let functionName = c_literal ''Image_Active_Configuration_Query'';
        inputSize = c_int
          (4 + 4 + strlen functionName + 4 + strlen userid + 4 + passwordLength + 4 +
          strlen targetIdentifier)
      in smapi_build malloc inputSize
        [PUT_INT (inputSize - 4), put_string functionName, put_string_opt userid,
         put_buffer_opt passwordLength password, put_string targetIdentifier]
        ''Image_Active_Configuration_Query_Layout'')"

definition smImage_Console_Get ::
  "(int \<Rightarrow> bool) \<Rightarrow> byte list \<Rightarrow> int \<Rightarrow> byte list \<Rightarrow>
    byte list \<Rightarrow> smapi_request res" where
  "smImage_Console_Get malloc userid passwordLength password targetIdentifier =
     (let functionName = c_literal ''Image_Console_Get'';
        inputSize = c_int
          (4 + 4 + strlen functionName + 4 + strlen userid + 4 + passwordLength + 4 +
          strlen targetIdentifier)
      in smapi_build malloc inputSize
        [PUT_INT (inputSize - 4), put_string functionName, put_string_opt userid,
         put_buffer_opt passwordLength password, put_string targetIdentifier]
        ''Image_Console_Get_Layout'')"

definition smImage_CPU_Define ::
  "(int \<Rightarrow> bool) \<Rightarrow> byte list \<Rightarrow> int \<Rightarrow> byte list \<Rightarrow>
    byte list \<Rightarrow> byte list \<Rightarrow> byte \<Rightarrow> smapi_request res" where
  "smImage_CPU_Define malloc userid passwordLength password targetIdentifier cpuAddress cpuType =
     (let functionName = c_literal ''Image_CPU_Define'';
        inputSize = c_int
          (4 + 4 + strlen functionName + 4 + strlen userid + 4 + passwordLength + 4 +
          strlen targetIdentifier + 4 + strlen cpuAddress + 1)
      in smapi_build malloc inputSize
        [PUT_INT (inputSize - 4), put_string functionName, put_string_opt userid,
         put_buffer_opt passwordLength password, put_string targetIdentifier,
         put_string cpuAddress, put_char cpuType]
        ''Image_CPU_Define_Layout'')"

definition smImage_CPU_Define_DM ::
  "(int \<Rightarrow> bool) \<Rightarrow> byte list \<Rightarrow> int \<Rightarrow> byte list \<Rightarrow>
    byte list \<Rightarrow> byte list \<Rightarrow> byte \<Rightarrow> byte list \<Rightarrow>
    byte \<Rightarrow> byte \<Rightarrow> smapi_request res" where
  "smImage_CPU_Define_DM malloc userid passwordLength password targetIdentifier cpuAddress baseCpu cpuId dedicateCpu
      cryptoCpu =
     (let functionName = c_literal ''Image_CPU_Define_DM'';
        inputSize = c_int
          (4 + 4 + strlen functionName + 4 + strlen userid + 4 + passwordLength + 4 +
          strlen targetIdentifier + 4 + strlen cpuAddress + 1 + 4 + strlen cpuId + 1 + 1)
      in smapi_build malloc inputSize
        [PUT_INT (inputSize - 4), put_string functionName, put_string_opt userid,
         put_buffer_opt passwordLength password, put_string targetIdentifier,
         put_string cpuAddress, put_char baseCpu, put_string_opt cpuId, put_char dedicateCpu,
         put_char cryptoCpu]
        ''Image_CPU_Define_DM_Layout'')"

definition smImage_CPU_Delete ::
  "(int \<Rightarrow> bool) \<Rightarrow> byte list \<Rightarrow> int \<Rightarrow> byte list \<Rightarrow>
    byte list \<Rightarrow> byte list \<Rightarrow> smapi_request res" where
  "smImage_CPU_Delete malloc userid passwordLength password targetIdentifier cpuAddress =
     (let functionName = c_literal ''Image_CPU_Delete'';
        inputSize = c_int
          (4 + 4 + strlen functionName + 4 + strlen userid + 4 + passwordLength + 4 +
          strlen targetIdentifier + 4 + strlen cpuAddress)
      in smapi_build malloc inputSize
        [PUT_INT (inputSize - 4), put_string functionName, put_string_opt userid,
         put_buffer_opt passwordLength password, put_string targetIdentifier,
         put_string cpuAddress]
        ''Image_CPU_Delete_Layout'')"

definition smImage_CPU_Delete_DM ::
  "(int \<Rightarrow> bool) \<Rightarrow> byte list \<Rightarrow> int \<Rightarrow> byte list \<Rightarrow>
    byte list \<Rightarrow> byte list \<Rightarrow> smapi_request res" where
  "smImage_CPU_Delete_DM malloc userid passwordLength password targetIdentifier cpuAddress =
     (let functionName = c_literal ''Image_CPU_Delete_DM'';
        inputSize = c_int
          (4 + 4 + strlen functionName + 4 + strlen userid + 4 + passwordLength + 4 +
          strlen targetIdentifier + 4 + strlen cpuAddress)
      in smapi_build malloc inputSize
        [PUT_INT (inputSize - 4), put_string functionName, put_string_opt userid,
         put_buffer_opt passwordLength password, put_string targetIdentifier,
         put_string cpuAddress]
        ''Image_CPU_Delete_DM_Layout'')"

definition smImage_CPU_Query ::
  "(int \<Rightarrow> bool) \<Rightarrow> byte list \<Rightarrow> int \<Rightarrow> byte list \<Rightarrow>
    byte list \<Rightarrow> smapi_request res" where
  "smImage_CPU_Query malloc userid passwordLength password targetIdentifier =
     (let functionName = c_literal ''Image_CPU_Query'';
        inputSize = c_int
          (4 + 4 + strlen functionName + 4 + strlen userid + 4 + passwordLength + 4 +
          strlen targetIdentifier)
      in smapi_build malloc inputSize
        [PUT_INT (inputSize - 4), put_string functionName, put_string_opt userid,
         put_buffer_opt passwordLength password, put_string targetIdentifier]
        ''Image_CPU_Query_Layout'')"

definition smImage_CPU_Query_DM ::
  "(int \<Rightarrow> bool) \<Rightarrow> byte list \<Rightarrow> int \<Rightarrow> byte list \<Rightarrow>
    byte list \<Rightarrow> byte list \<Rightarrow> smapi_request res" where
  "smImage_CPU_Query_DM malloc userid passwordLength password targetIdentifier cpuAddress =
     (let functionName = c_literal ''Image_CPU_Query_DM'';
        inputSize = c_int
          (4 + 4 + strlen functionName + 4 + strlen userid + 4 + passwordLength + 4 +
          strlen targetIdentifier + 4 + strlen cpuAddress)
      in smapi_build malloc inputSize
        [PUT_INT (inputSize - 4), put_string functionName, put_string_opt userid,
         put_buffer_opt passwordLength password, put_string targetIdentifier,
         put_string cpuAddress]
        ''Image_CPU_Query_DM_Layout'')"

definition smImage_CPU_Set_Maximum_DM ::
  "(int \<Rightarrow> bool) \<Rightarrow> byte list \<Rightarrow> int \<Rightarrow> byte list \<Rightarrow>
    byte list \<Rightarrow> int \<Rightarrow> smapi_request res" where
  "smImage_CPU_Set_Maximum_DM malloc userid passwordLength password targetIdentifier maxCpus =
     (let functionName = c_literal ''Image_CPU_Set_Maximum_DM'';
        inputSize = c_int
          (4 + 4 + strlen functionName + 4 + strlen userid + 4 + passwordLength + 4 +
          strlen targetIdentifier + 4)
      in smapi_build malloc inputSize
        [PUT_INT (inputSize - 4), put_string functionName, put_string_opt userid,
         put_buffer_opt passwordLength password, put_string targetIdentifier, PUT_INT maxCpus]
        ''Image_CPU_Set_Maximum_DM_Layout'')"

definition smImage_Deactivate ::
  "(int \<Rightarrow> bool) \<Rightarrow> byte list \<Rightarrow> int \<Rightarrow> byte list \<Rightarrow>
    byte list \<Rightarrow> byte list \<Rightarrow> smapi_request res" where
  "smImage_Deactivate malloc userid passwordLength password targetIdentifier forceTime =
     (let functionName = c_literal ''Image_Deactivate'';
        inputSize = c_int
          (4 + 4 + strlen functionName + 4 + strlen userid + 4 + passwordLength + 4 +
          strlen targetIdentifier + 4 + strlen forceTime)
      in smapi_build malloc inputSize
        [PUT_INT (inputSize - 4), put_string functionName, put_string_opt userid,
         put_buffer_opt passwordLength password, put_string targetIdentifier,
         put_string_opt forceTime]
        ''Image_Deactivate_Layout'')"

definition smImage_Delete_DM ::
  "(int \<Rightarrow> bool) \<Rightarrow> byte list \<Rightarrow> int \<Rightarrow> byte list \<Rightarrow>
    byte list \<Rightarrow> byte \<Rightarrow> smapi_request res" where
  "smImage_Delete_DM malloc userid passwordLength password targetIdentifier dataSecurityErase =
     (let functionName = c_literal ''Image_Delete_DM'';
        inputSize = c_int
          (4 + 4 + strlen functionName + 4 + strlen userid + 4 + passwordLength + 4 +
          strlen targetIdentifier + 1)
      in smapi_build malloc inputSize
        [PUT_INT (inputSize - 4), put_string functionName, put_string_opt userid,
         put_buffer_opt passwordLength password, put_string targetIdentifier,
         put_char dataSecurityErase]
        ''Image_Delete_DM_Layout'')"

definition smImage_Device_Dedicate ::
  "(int \<Rightarrow> bool) \<Rightarrow> byte list \<Rightarrow> int \<Rightarrow> byte list \<Rightarrow>
    byte list \<Rightarrow> byte list \<Rightarrow> byte list \<Rightarrow> byte \<Rightarrow>
    smapi_request res" where
  "smImage_Device_Dedicate malloc userid passwordLength password targetIdentifier imageDeviceNumber realDeviceNumber
      readonly =
     (let functionName = c_literal ''Image_Device_Dedicate'';
        inputSize = c_int
          (4 + 4 + strlen functionName + 4 + strlen userid + 4 + passwordLength + 4 +
          strlen targetIdentifier + 4 + strlen imageDeviceNumber + 4 + strlen realDeviceNumber +
          1)
      in smapi_build malloc inputSize
        [PUT_INT (inputSize - 4), put_string functionName, put_string_opt userid,
         put_buffer_opt passwordLength password, put_string targetIdentifier,
         put_string imageDeviceNumber, put_string realDeviceNumber, put_char readonly]
        ''Image_Device_Dedicate_Layout'')"

definition smImage_Device_Dedicate_DM ::
  "(int \<Rightarrow> bool) \<Rightarrow> byte list \<Rightarrow> int \<Rightarrow> byte list \<Rightarrow>
    byte list \<Rightarrow> byte list \<Rightarrow> byte list \<Rightarrow> byte \<Rightarrow>
    smapi_request res" where
  "smImage_Device_Dedicate_DM malloc userid passwordLength password targetIdentifier imageDeviceNumber realDeviceNumber
      readonly =
     (let functionName = c_literal ''Image_Device_Dedicate_DM'';
        inputSize = c_int
          (4 + 4 + strlen functionName + 4 + strlen userid + 4 + passwordLength + 4 +
          strlen targetIdentifier + 4 + strlen imageDeviceNumber + 4 + strlen realDeviceNumber +
          1)
      in smapi_build malloc inputSize
        [PUT_INT (inputSize - 4), put_string functionName, put_string_opt userid,
         put_buffer_opt passwordLength password, put_string targetIdentifier,
         put_string imageDeviceNumber, put_string realDeviceNumber, put_char readonly]
        ''Image_Device_Dedicate_DM_Layout'')"

definition smImage_Device_Reset ::
  "(int \<Rightarrow> bool) \<Rightarrow> byte list \<Rightarrow> int \<Rightarrow> byte list \<Rightarrow>
    byte list \<Rightarrow> byte list \<Rightarrow> smapi_request res" where
  "smImage_Device_Reset malloc userid passwordLength password targetIdentifier imageDeviceNumber =
     (let functionName = c_literal ''Image_Device_Reset'';
        inputSize = c_int
          (4 + 4 + strlen functionName + 4 + strlen userid + 4 + passwordLength + 4 +
          strlen targetIdentifier + 4 + strlen imageDeviceNumber)
      in smapi_build malloc inputSize
        [PUT_INT (inputSize - 4), put_string functionName, put_string_opt userid,
         put_buffer_opt passwordLength password, put_string targetIdentifier,
         put_string imageDeviceNumber]
        ''Image_Device_Reset_Layout'')"

definition smImage_Device_Undedicate ::
  "(int \<Rightarrow> bool) \<Rightarrow> byte list \<Rightarrow> int \<Rightarrow> byte list \<Rightarrow>
    byte list \<Rightarrow> byte list \<Rightarrow> smapi_request res" where
  "smImage_Device_Undedicate malloc userid passwordLength password targetIdentifier imageDeviceNumber =
     (let functionName = c_literal ''Image_Device_Undedicate'';
        inputSize = c_int
          (4 + 4 + strlen functionName + 4 + strlen userid + 4 + passwordLength + 4 +
          strlen targetIdentifier + 4 + strlen imageDeviceNumber)
      in smapi_build malloc inputSize
        [PUT_INT (inputSize - 4), put_string functionName, put_string_opt userid,
         put_buffer_opt passwordLength password, put_string targetIdentifier,
         put_string imageDeviceNumber]
        ''Image_Device_Undedicate_Layout'')"

definition smImage_Device_Undedicate_DM ::
  "(int \<Rightarrow> bool) \<Rightarrow> byte list \<Rightarrow> int \<Rightarrow> byte list \<Rightarrow>
    byte list \<Rightarrow> byte list \<Rightarrow> smapi_request res" where
  "smImage_Device_Undedicate_DM malloc userid passwordLength password targetIdentifier imageDeviceNumber =
     (let functionName = c_literal ''Image_Device_Undedicate_DM'';
        inputSize = c_int
          (4 + 4 + strlen functionName + 4 + strlen userid + 4 + passwordLength + 4 +
          strlen targetIdentifier + 4 + strlen imageDeviceNumber)
      in smapi_build malloc inputSize
        [PUT_INT (inputSize - 4), put_string functionName, put_string_opt userid,
         put_buffer_opt passwordLength password, put_string targetIdentifier,
         put_string imageDeviceNumber]
        ''Image_Device_Undedicate_Layout'')"

definition smImage_Disk_Copy ::
  "(int \<Rightarrow> bool) \<Rightarrow> byte list \<Rightarrow> int \<Rightarrow> byte list \<Rightarrow>
    byte list \<Rightarrow> byte list \<Rightarrow> smapi_request res" where
  "smImage_Disk_Copy malloc userid passwordLength password targetIdentifier imageDiskNumber =
     (let functionName = c_literal ''Image_Disk_Copy'';
        inputSize = c_int
          (4 + 4 + strlen functionName + 4 + strlen userid + 4 + passwordLength + 4 +
          strlen targetIdentifier + 4 + strlen imageDiskNumber)
      in smapi_build malloc inputSize
        [PUT_INT (inputSize - 4), put_string functionName, put_string_opt userid,
         put_buffer_opt passwordLength password, put_string targetIdentifier,
         put_string imageDiskNumber]
        ''Image_Disk_Copy_Layout'')"

definition smImage_Disk_Copy_DM ::
  "(int \<Rightarrow> bool) \<Rightarrow> byte list \<Rightarrow> int \<Rightarrow> byte list \<Rightarrow>
    byte list \<Rightarrow> byte list \<Rightarrow> byte list \<Rightarrow> byte list \<Rightarrow>
    byte list \<Rightarrow> byte list \<Rightarrow> byte list \<Rightarrow> byte list \<Rightarrow>
    byte list \<Rightarrow> byte list \<Rightarrow> smapi_request res" where
  "smImage_Disk_Copy_DM malloc userid passwordLength password targetIdentifier imageDiskNumber sourceImageName
      sourceImageDiskNumber imageDiskAllocationType allocationAreaName imageDiskMode
      readPassword writePassword multiPassword =
     (let functionName = c_literal ''Image_Disk_Copy_DM'';
        inputSize = c_int
          (4 + 4 + strlen functionName + 4 + strlen userid + 4 + passwordLength + 4 +
          strlen targetIdentifier + 4 + strlen imageDiskNumber + 4 + strlen sourceImageName +
          4 + strlen sourceImageDiskNumber + 4 + strlen imageDiskAllocationType + 4 +
          strlen allocationAreaName + 4 + strlen imageDiskMode + 4 + strlen readPassword + 4 +
          strlen writePassword + 4 + strlen multiPassword)
      in smapi_build malloc inputSize
        [PUT_INT (inputSize - 4), put_string functionName, put_string_opt userid,
         put_buffer_opt passwordLength password, put_string targetIdentifier,
         put_string imageDiskNumber, put_string_opt sourceImageName,
         put_string sourceImageDiskNumber, put_string_opt imageDiskAllocationType,
         put_string_opt allocationAreaName, put_string_opt imageDiskMode,
         put_string_opt readPassword, put_string_opt writePassword, put_string_opt multiPassword]
        ''Image_Disk_Copy_DM_Layout'')"

definition smImage_Disk_Create ::
  "(int \<Rightarrow> bool) \<Rightarrow> byte list \<Rightarrow> int \<Rightarrow> byte list \<Rightarrow>
    byte list \<Rightarrow> byte list \<Rightarrow> byte list \<Rightarrow> smapi_request res" where
  "smImage_Disk_Create malloc userid passwordLength password targetIdentifier imageDiskNumber imageDiskMode =
     (let functionName = c_literal ''Image_Disk_Create'';
        inputSize = c_int
          (4 + 4 + strlen functionName + 4 + strlen userid + 4 + passwordLength + 4 +
          strlen targetIdentifier + 4 + strlen imageDiskNumber + 4 + strlen imageDiskMode)
      in smapi_build malloc inputSize
        [PUT_INT (inputSize - 4), put_string functionName, put_string_opt userid,
         put_buffer_opt passwordLength password, put_string targetIdentifier,
         put_string imageDiskNumber, put_string_opt imageDiskMode]
        ''Image_Disk_Create_Layout'')"

definition smImage_Disk_Create_DM ::
  "(int \<Rightarrow> bool) \<Rightarrow> byte list \<Rightarrow> int \<Rightarrow> byte list \<Rightarrow>
    byte list \<Rightarrow> byte list \<Rightarrow> byte list \<Rightarrow> byte list \<Rightarrow>
    byte list \<Rightarrow> byte \<Rightarrow> int \<Rightarrow> byte list \<Rightarrow> byte \<Rightarrow>
    byte list \<Rightarrow> byte list \<Rightarrow> byte list \<Rightarrow> byte list \<Rightarrow>
    smapi_request res" where
  "smImage_Disk_Create_DM malloc userid passwordLength password targetIdentifier imageDiskNumber imageDiskDeviceType
      imageDiskAllocationType allocationAreaNameOrVolser allocationUnitSize imageDiskSize
      imageDiskMode imageDiskFormatting imageDiskLabel readPassword writePassword multiPassword =
     (let functionName = c_literal ''Image_Disk_Create_DM'';
        inputSize = c_int
          (4 + 4 + strlen functionName + 4 + strlen userid + 4 + passwordLength + 4 +
          strlen targetIdentifier + 4 + strlen imageDiskNumber + 4 +
          strlen imageDiskDeviceType + 4 + strlen imageDiskAllocationType + 4 +
          strlen allocationAreaNameOrVolser + 1 + 4 + 4 + strlen imageDiskMode + 1 + 4 +
          strlen imageDiskLabel + 4 + strlen readPassword + 4 + strlen writePassword + 4 +
          strlen multiPassword)
      in smapi_build malloc inputSize
        [PUT_INT (inputSize - 4), put_string functionName, put_string_opt userid,
         put_buffer_opt passwordLength password, put_string targetIdentifier,
         put_string imageDiskNumber, put_string imageDiskDeviceType,
         put_string imageDiskAllocationType, put_string_opt allocationAreaNameOrVolser,
         put_char allocationUnitSize, PUT_INT imageDiskSize, put_string imageDiskMode,
         put_char imageDiskFormatting, put_string_opt imageDiskLabel,
         put_string_opt readPassword, put_string_opt writePassword, put_string_opt multiPassword]
        ''Image_Disk_Create_DM_Layout'')"

definition smImage_Disk_Delete ::
  "(int \<Rightarrow> bool) \<Rightarrow> byte list \<Rightarrow> int \<Rightarrow> byte list \<Rightarrow>
    byte list \<Rightarrow> byte list \<Rightarrow> smapi_request res" where
  "smImage_Disk_Delete malloc userid passwordLength password targetIdentifier imageDiskNumber =
     (let functionName = c_literal ''Image_Disk_Delete'';
        inputSize = c_int
          (4 + 4 + strlen functionName + 4 + strlen userid + 4 + passwordLength + 4 +
          strlen targetIdentifier + 4 + strlen imageDiskNumber)
      in smapi_build malloc inputSize
        [PUT_INT (inputSize - 4), put_string functionName, put_string_opt userid,
         put_buffer_opt passwordLength password, put_string targetIdentifier,
         put_string imageDiskNumber]
        ''Image_Disk_Delete_Layout'')"

definition smImage_Disk_Delete_DM ::
  "(int \<Rightarrow> bool) \<Rightarrow> byte list \<Rightarrow> int \<Rightarrow> byte list \<Rightarrow>
    byte list \<Rightarrow> byte list \<Rightarrow> byte \<Rightarrow> smapi_request res" where
  "smImage_Disk_Delete_DM malloc userid passwordLength password targetIdentifier imageDiskNumber dataSecurityErase =
     (let functionName = c_literal ''Image_Disk_Delete_DM'';
        inputSize = c_int
          (4 + 4 + strlen functionName + 4 + strlen userid + 4 + passwordLength + 4 +
          strlen targetIdentifier + 4 + strlen imageDiskNumber + 1)
      in smapi_build malloc inputSize
        [PUT_INT (inputSize - 4), put_string functionName, put_string_opt userid,
         put_buffer_opt passwordLength password, put_string targetIdentifier,
         put_string imageDiskNumber, put_char dataSecurityErase]
        ''Image_Disk_Delete_DM_Layout'')"

definition smImage_Disk_Share ::
  "(int \<Rightarrow> bool) \<Rightarrow> byte list \<Rightarrow> int \<Rightarrow> byte list \<Rightarrow>
    byte list \<Rightarrow> byte list \<Rightarrow> byte list \<Rightarrow> byte list \<Rightarrow>
    byte list \<Rightarrow> byte list \<Rightarrow> smapi_request res" where
  "smImage_Disk_Share malloc userid passwordLength password targetIdentifier imageDiskNumber targetImageName
      targetImageDiskNumber readWriteMode optionalPassword =
     (let functionName = c_literal ''Image_Disk_Share'';
        inputSize = c_int
          (4 + 4 + strlen functionName + 4 + strlen userid + 4 + passwordLength + 4 +
          strlen targetIdentifier + 4 + strlen imageDiskNumber + 4 + strlen targetImageName +
          4 + strlen targetImageDiskNumber + 4 + strlen readWriteMode + 4 +
          strlen optionalPassword)
      in smapi_build malloc inputSize
        [PUT_INT (inputSize - 4), put_string functionName, put_string_opt userid,
         put_buffer_opt passwordLength password, put_string targetIdentifier,
         put_string imageDiskNumber, put_string targetImageName,
         put_string targetImageDiskNumber, put_string_opt readWriteMode,
         put_string_opt optionalPassword]
        ''Image_Disk_Share_Layout'')"

definition smImage_Disk_Share_DM ::
  "(int \<Rightarrow> bool) \<Rightarrow> byte list \<Rightarrow> int \<Rightarrow> byte list \<Rightarrow>
    byte list \<Rightarrow> byte list \<Rightarrow> byte list \<Rightarrow> byte list \<Rightarrow>
    byte list \<Rightarrow> byte list \<Rightarrow> smapi_request res" where
  "smImage_Disk_Share_DM malloc userid passwordLength password targetIdentifier targetImageDiskNumber targetImageName
      imageDiskNumber readWriteMode optionalPassword =
     (let functionName = c_literal ''Image_Disk_Share_DM'';
        inputSize = c_int
          (4 + 4 + strlen functionName + 4 + strlen userid + 4 + passwordLength + 4 +
          strlen targetIdentifier + 4 + strlen targetImageDiskNumber + 4 +
          strlen targetImageName + 4 + strlen imageDiskNumber + 4 + strlen readWriteMode + 4 +
          strlen optionalPassword)
      in smapi_build malloc inputSize
        [PUT_INT (inputSize - 4), put_string functionName, put_string_opt userid,
         put_buffer_opt passwordLength password, put_string targetIdentifier,
         put_string targetImageDiskNumber, put_string targetImageName,
         put_string imageDiskNumber, put_string_opt readWriteMode,
         put_string_opt optionalPassword]
        ''Image_Disk_Share_DM_Layout'')"

definition smImage_Disk_Unshare ::
  "(int \<Rightarrow> bool) \<Rightarrow> byte list \<Rightarrow> int \<Rightarrow> byte list \<Rightarrow>
    byte list \<Rightarrow> byte list \<Rightarrow> smapi_request res" where
  "smImage_Disk_Unshare malloc userid passwordLength password targetIdentifier imageDiskNumber =
     (let functionName = c_literal ''Image_Disk_Unshare'';
        inputSize = c_int
          (4 + 4 + strlen functionName + 4 + strlen userid + 4 + passwordLength + 4 +
          strlen targetIdentifier + 4 + strlen imageDiskNumber)
      in smapi_build malloc inputSize
        [PUT_INT (inputSize - 4), put_string functionName, put_string_opt userid,
         put_buffer_opt passwordLength password, put_string targetIdentifier,
         put_string imageDiskNumber]
        ''Image_Disk_Unshare_Layout'')"

definition smImage_Disk_Unshare_DM ::
  "(int \<Rightarrow> bool) \<Rightarrow> byte list \<Rightarrow> int \<Rightarrow> byte list \<Rightarrow>
    byte list \<Rightarrow> byte list \<Rightarrow> byte list \<Rightarrow> byte list \<Rightarrow>
    smapi_request res" where
  "smImage_Disk_Unshare_DM malloc userid passwordLength password targetIdentifier imageDiskNumber targetImageName
      targetImageDiskNumber =
     (let functionName = c_literal ''Image_Disk_Unshare_DM'';
        inputSize = c_int
          (4 + 4 + strlen functionName + 4 + strlen userid + 4 + passwordLength + 4 +
          strlen targetIdentifier + 4 + strlen imageDiskNumber + 4 + strlen targetImageName +
          4 + strlen targetImageDiskNumber)
      in smapi_build malloc inputSize
        [PUT_INT (inputSize - 4), put_string functionName, put_string_opt userid,
         put_buffer_opt passwordLength password, put_string targetIdentifier,
         put_string imageDiskNumber, put_string targetImageName,
         put_string targetImageDiskNumber]
        ''Image_Disk_Unshare_DM_Layout'')"

definition smImage_IPL_Delete_DM ::
  "(int \<Rightarrow> bool) \<Rightarrow> byte list \<Rightarrow> int \<Rightarrow> byte list \<Rightarrow>
    byte list \<Rightarrow> smapi_request res" where
  "smImage_IPL_Delete_DM malloc userid passwordLength password targetIdentifier =
     (let functionName = c_literal ''Image_IPL_Delete_DM'';
        inputSize = c_int
          (4 + 4 + strlen functionName + 4 + strlen userid + 4 + passwordLength + 4 +
          strlen targetIdentifier)
      in smapi_build malloc inputSize
        [PUT_INT (inputSize - 4), put_string functionName, put_string_opt userid,
         put_buffer_opt passwordLength password, put_string targetIdentifier]
        ''Image_IPL_Delete_DM_Layout'')"

definition smImage_IPL_Query_DM ::
  "(int \<Rightarrow> bool) \<Rightarrow> byte list \<Rightarrow> int \<Rightarrow> byte list \<Rightarrow>
    byte list \<Rightarrow> smapi_request res" where
  "smImage_IPL_Query_DM malloc userid passwordLength password targetIdentifier =
     (let functionName = c_literal ''Image_IPL_Query_DM'';
        inputSize = c_int
          (4 + 4 + strlen functionName + 4 + strlen userid + 4 + passwordLength + 4 +
          strlen targetIdentifier)
      in smapi_build malloc inputSize
        [PUT_INT (inputSize - 4), put_string functionName, put_string_opt userid,
         put_buffer_opt passwordLength password, put_string targetIdentifier]
        ''Image_IPL_Query_DM_Layout'')"

definition smImage_IPL_Set_DM ::
  "(int \<Rightarrow> bool) \<Rightarrow> byte list \<Rightarrow> int \<Rightarrow> byte list \<Rightarrow>
    byte list \<Rightarrow> byte list \<Rightarrow> byte list \<Rightarrow> byte list \<Rightarrow>
    smapi_request res" where
  "smImage_IPL_Set_DM malloc userid passwordLength password targetIdentifier savedSystem loadParameter parameterString =
     (let functionName = c_literal ''Image_IPL_Set_DM'';
        inputSize = c_int
          (4 + 4 + strlen functionName + 4 + strlen userid + 4 + passwordLength + 4 +
          strlen targetIdentifier + 4 + strlen savedSystem + 4 + strlen loadParameter + 4 +
          strlen parameterString)
      in smapi_build malloc inputSize
        [PUT_INT (inputSize - 4), put_string functionName, put_string_opt userid,
         put_buffer_opt passwordLength password, put_string targetIdentifier,
         put_string savedSystem, put_string_opt loadParameter, put_string_opt parameterString]
        ''Image_IPL_Set_DM_Layout'')"

definition smImage_Lock_DM ::
  "(int \<Rightarrow> bool) \<Rightarrow> byte list \<Rightarrow> int \<Rightarrow> byte list \<Rightarrow>
    byte list \<Rightarrow> byte list \<Rightarrow> smapi_request res" where
  "smImage_Lock_DM malloc userid passwordLength password targetIdentifier deviceAddress =
     (let functionName = c_literal ''Image_Lock_DM'';
        inputSize = c_int
          (4 + 4 + strlen functionName + 4 + strlen userid + 4 + passwordLength + 4 +
          strlen targetIdentifier + 4 + strlen deviceAddress)
      in smapi_build malloc inputSize
        [PUT_INT (inputSize - 4), put_string functionName, put_string_opt userid,
         put_buffer_opt passwordLength password, put_string targetIdentifier,
         put_string_opt deviceAddress]
        ''Image_Lock_DM_Layout'')"

definition smImage_Lock_Query_DM ::
  "(int \<Rightarrow> bool) \<Rightarrow> byte list \<Rightarrow> int \<Rightarrow> byte list \<Rightarrow>
    byte list \<Rightarrow> smapi_request res" where
  "smImage_Lock_Query_DM malloc userid passwordLength password targetIdentifier =
     (let functionName = c_literal ''Image_Lock_Query_DM'';
        inputSize = c_int
          (4 + 4 + strlen functionName + 4 + strlen userid + 4 + passwordLength + 4 +
          strlen targetIdentifier)
      in smapi_build malloc inputSize
        [PUT_INT (inputSize - 4), put_string functionName, put_string_opt userid,
         put_buffer_opt passwordLength password, put_string targetIdentifier]
        ''Image_Lock_Query_DM_Layout'')"

definition smImage_Password_Set_DM ::
  "(int \<Rightarrow> bool) \<Rightarrow> byte list \<Rightarrow> int \<Rightarrow> byte list \<Rightarrow>
    byte list \<Rightarrow> int \<Rightarrow> byte list \<Rightarrow> smapi_request res" where
  "smImage_Password_Set_DM malloc userid passwordLength password targetIdentifier imagePasswordLength imagePassword =
     (let functionName = c_literal ''Image_Password_Set_DM'';
        inputSize = c_int
          (4 + 4 + strlen functionName + 4 + strlen userid + 4 + passwordLength + 4 +
          strlen targetIdentifier + 4 + imagePasswordLength)
      in smapi_build malloc inputSize
        [PUT_INT (inputSize - 4), put_string functionName, put_string_opt userid,
         put_buffer_opt passwordLength password, put_string targetIdentifier,
         put_buffer imagePasswordLength imagePassword]
        ''Image_Password_Set_DM_Layout'')"

definition smImage_Query_Activate_Time ::
  "(int \<Rightarrow> bool) \<Rightarrow> byte list \<Rightarrow> int \<Rightarrow> byte list \<Rightarrow>
    byte list \<Rightarrow> byte \<Rightarrow> smapi_request res" where
  "smImage_Query_Activate_Time malloc userid passwordLength password targetIdentifier dateFormat =
     (let functionName = c_literal ''Image_Query_Activate_Time'';
        inputSize = c_int
          (4 + 4 + strlen functionName + 4 + strlen userid + 4 + passwordLength + 4 +
          strlen targetIdentifier + 1)
      in smapi_build malloc inputSize
        [PUT_INT (inputSize - 4), put_string functionName, put_string_opt userid,
         put_buffer_opt passwordLength password, put_string targetIdentifier,
         put_char dateFormat]
        ''Image_Query_Activate_Time_Layout'')"

definition smImage_Recycle ::
  "(int \<Rightarrow> bool) \<Rightarrow> byte list \<Rightarrow> int \<Rightarrow> byte list \<Rightarrow>
    byte list \<Rightarrow> smapi_request res" where
  "smImage_Recycle malloc userid passwordLength password targetIdentifier =
     (let functionName = c_literal ''Image_Recycle'';
        inputSize = c_int
          (4 + 4 + strlen functionName + 4 + strlen userid + 4 + passwordLength + 4 +
          strlen targetIdentifier)
      in smapi_build malloc inputSize
        [PUT_INT (inputSize - 4), put_string functionName, put_string_opt userid,
         put_buffer_opt passwordLength password, put_string targetIdentifier]
        ''Image_Recycle_Layout'')"

definition smImage_SCSI_Characteristics_Query_DM ::
  "(int \<Rightarrow> bool) \<Rightarrow> byte list \<Rightarrow> int \<Rightarrow> byte list \<Rightarrow>
    byte list \<Rightarrow> smapi_request res" where
  "smImage_SCSI_Characteristics_Query_DM malloc userid passwordLength password targetIdentifier =
     (let functionName = c_literal ''Image_SCSI_Characteristics_Query_DM'';
        inputSize = c_int
          (4 + 4 + strlen functionName + 4 + strlen userid + 4 + passwordLength + 4 +
          strlen targetIdentifier)
      in smapi_build malloc inputSize
        [PUT_INT (inputSize - 4), put_string functionName, put_string_opt userid,
         put_buffer_opt passwordLength password, put_string targetIdentifier]
        ''Image_SCSI_Characteristics_Query_DM_Layout'')"

definition smImage_Status_Query ::
  "(int \<Rightarrow> bool) \<Rightarrow> byte list \<Rightarrow> int \<Rightarrow> byte list \<Rightarrow>
    byte list \<Rightarrow> smapi_request res" where
  "smImage_Status_Query malloc userid passwordLength password targetIdentifier =
     (let functionName = c_literal ''Image_Status_Query'';
        inputSize = c_int
          (4 + 4 + strlen functionName + 4 + strlen userid + 4 + passwordLength + 4 +
          strlen targetIdentifier)
      in smapi_build malloc inputSize
        [PUT_INT (inputSize - 4), put_string functionName, put_string_opt userid,
         put_buffer_opt passwordLength password, put_string targetIdentifier]
        ''Image_Status_Query_Layout'')"

definition smImage_Unlock_DM ::
  "(int \<Rightarrow> bool) \<Rightarrow> byte list \<Rightarrow> int \<Rightarrow> byte list \<Rightarrow>
    byte list \<Rightarrow> byte list \<Rightarrow> smapi_request res" where
  "smImage_Unlock_DM malloc userid passwordLength password targetIdentifier deviceAddress =
     (let functionName = c_literal ''Image_Unlock_DM'';
        inputSize = c_int
          (4 + 4 + strlen functionName + 4 + strlen userid + 4 + passwordLength + 4 +
          strlen targetIdentifier + 4 + strlen deviceAddress)
      in smapi_build malloc inputSize
        [PUT_INT (inputSize - 4), put_string functionName, put_string_opt userid,
         put_buffer_opt passwordLength password, put_string targetIdentifier,
         put_string_opt deviceAddress]
        ''Image_Unlock_DM_Layout'')"

definition smImage_Volume_Add ::
  "(int \<Rightarrow> bool) \<Rightarrow> byte list \<Rightarrow> int \<Rightarrow> byte list \<Rightarrow>
    byte list \<Rightarrow> byte list \<Rightarrow> byte list \<Rightarrow> byte list \<Rightarrow>
    byte list \<Rightarrow> byte list \<Rightarrow> byte list \<Rightarrow> byte list \<Rightarrow>
    byte list \<Rightarrow> byte list \<Rightarrow> byte list \<Rightarrow> byte list \<Rightarrow>
    byte list \<Rightarrow> smapi_request res" where
  "smImage_Volume_Add malloc userid passwordLength password targetIdentifier imageDeviceNumer imageVolumeLabel
      systemConfigName systemConfigType parmDiskOwner parmDiskNumber parmDiskPassword
      altSystemConfigName altSystemConfigType altParmDiskOwner altParmDiskNumber
      altParmDiskPassword =
     (let functionName = c_literal ''Image_Volume_Add'';
        inputSize = c_int
          (4 + 4 + strlen functionName + 4 + strlen userid + 4 + passwordLength + 4 +
          strlen targetIdentifier + 4 + strlen imageDeviceNumer + 4 + strlen imageVolumeLabel +
          4 + strlen systemConfigName + 4 + strlen systemConfigType + 4 + strlen parmDiskOwner +
          4 + strlen parmDiskNumber + 4 + strlen parmDiskPassword + 4 +
          strlen altSystemConfigName + 4 + strlen altSystemConfigType + 4 +
          strlen altParmDiskOwner + 4 + strlen altParmDiskNumber + 4 +
          strlen altParmDiskPassword)
      in smapi_build malloc inputSize
        [PUT_INT (inputSize - 4), put_string functionName, put_string_opt userid,
         put_buffer_opt passwordLength password, put_string targetIdentifier,
         put_string imageDeviceNumer, put_string imageVolumeLabel,
         put_string_opt systemConfigName, put_string systemConfigType, put_string parmDiskOwner,
         put_string parmDiskNumber, put_string parmDiskPassword, put_string altSystemConfigName,
         put_string altSystemConfigType, put_string altParmDiskOwner,
         put_string altParmDiskNumber, put_string altParmDiskPassword]
        ''Image_Volume_Add_Layout'')"

definition smImage_Volume_Delete ::
  "(int \<Rightarrow> bool) \<Rightarrow> byte list \<Rightarrow> int \<Rightarrow> byte list \<Rightarrow>
    byte list \<Rightarrow> byte list \<Rightarrow> byte list \<Rightarrow> byte list \<Rightarrow>
    byte list \<Rightarrow> byte list \<Rightarrow> byte list \<Rightarrow> byte list \<Rightarrow>
    byte list \<Rightarrow> byte list \<Rightarrow> byte list \<Rightarrow> byte list \<Rightarrow>
    byte list \<Rightarrow> smapi_request res" where
  "smImage_Volume_Delete malloc userid passwordLength password targetIdentifier imageDeviceNumer imageVolumeLabel
      systemConfigName systemConfigType parmDiskOwner parmDiskNumber parmDiskPassword
      altSystemConfigName altSystemConfigType altParmDiskOwner altParmDiskNumber
      altParmDiskPassword =
     (let functionName = c_literal ''Image_Volume_Delete'';
        inputSize = c_int
          (4 + 4 + strlen functionName + 4 + strlen userid + 4 + strlen password + 4 +
          strlen targetIdentifier + 4 + strlen imageDeviceNumer + 4 + strlen imageVolumeLabel +
          4 + strlen systemConfigName + 4 + strlen systemConfigType + 4 + strlen parmDiskOwner +
          4 + strlen parmDiskNumber + 4 + strlen parmDiskPassword + 4 +
          strlen altSystemConfigName + 4 + strlen altSystemConfigType + 4 +
          strlen altParmDiskOwner + 4 + strlen altParmDiskNumber + 4 +
          strlen altParmDiskPassword)
      in smapi_build malloc inputSize
        [PUT_INT (inputSize - 4), put_string functionName, put_string_opt userid,
         put_string_opt password, put_string targetIdentifier, put_string imageDeviceNumer,
         put_string imageVolumeLabel, put_string_opt systemConfigName,
         put_string systemConfigType, put_string parmDiskOwner, put_string parmDiskNumber,
         put_string parmDiskPassword, put_string altSystemConfigName,
         put_string altSystemConfigType, put_string altParmDiskOwner,
         put_string altParmDiskNumber, put_string altParmDiskPassword]
        ''Image_Volume_Delete_Layout'')"

definition smImage_Volume_Space_Define_DM ::
  "(int \<Rightarrow> bool) \<Rightarrow> byte list \<Rightarrow> int \<Rightarrow> byte list \<Rightarrow>
    byte list \<Rightarrow> byte \<Rightarrow> byte list \<Rightarrow> byte list \<Rightarrow>
    int \<Rightarrow> int \<Rightarrow> byte list \<Rightarrow> byte \<Rightarrow> smapi_request res" where
  "smImage_Volume_Space_Define_DM malloc userid passwordLength password targetIdentifier functionType regionName imageVolumeId
      startCyl regionSize groupName deviceType =
     (let functionName = c_literal ''Image_Volume_Space_Define_DM'';
        inputSize = c_int
          (4 + 4 + strlen functionName + 4 + strlen userid + 4 + passwordLength + 4 +
          strlen targetIdentifier + 1 + 4 + strlen regionName + 4 + strlen imageVolumeId + 4 +
          4 + 4 + strlen groupName + 1)
      in smapi_build malloc inputSize
        [PUT_INT (inputSize - 4), put_string functionName, put_string_opt userid,
         put_buffer_opt passwordLength password, put_string targetIdentifier,
         put_char functionType, put_string_opt regionName, put_string_opt imageVolumeId,
         PUT_INT startCyl, PUT_INT regionSize, put_string_opt groupName, put_char deviceType]
        ''Image_Volume_Space_Define_DM_Layout'')"

definition smImage_Volume_Space_Query_DM ::
  "(int \<Rightarrow> bool) \<Rightarrow> byte list \<Rightarrow> int \<Rightarrow> byte list \<Rightarrow>
    byte list \<Rightarrow> byte \<Rightarrow> byte \<Rightarrow> byte list \<Rightarrow> smapi_request res" where
  "smImage_Volume_Space_Query_DM malloc userid passwordLength password targetIdentifier queryType entryType entryNames =
     (let functionName = c_literal ''Image_Volume_Space_Query_DM'';
        inputSize = c_int
          (4 + 4 + strlen functionName + 4 + strlen userid + 4 + passwordLength + 4 +
          strlen targetIdentifier + 1 + 1 + 4 + strlen entryNames)
      in smapi_build malloc inputSize
        [PUT_INT (inputSize - 4), put_string functionName, put_string_opt userid,
         put_buffer_opt passwordLength password, put_string targetIdentifier,
         put_char queryType, put_char entryType, put_string_opt entryNames]
        ''Image_Volume_Space_Query_DM_Layout'')"

definition smImage_Volume_Space_Remove_DM ::
  "(int \<Rightarrow> bool) \<Rightarrow> byte list \<Rightarrow> int \<Rightarrow> byte list \<Rightarrow>
    byte list \<Rightarrow> byte \<Rightarrow> byte list \<Rightarrow> byte list \<Rightarrow>
    byte list \<Rightarrow> smapi_request res" where
  "smImage_Volume_Space_Remove_DM malloc userid passwordLength password targetIdentifier functionType regionName imageVolumeId
      groupName =
     (let functionName = c_literal ''Image_Volume_Space_Remove_DM'';
        inputSize = c_int
          (4 + 4 + strlen functionName + 4 + strlen userid + 4 + passwordLength + 4 +
          strlen targetIdentifier + 1 + 4 + strlen regionName + 4 + strlen imageVolumeId + 4 +
          strlen groupName)
      in smapi_build malloc inputSize
        [PUT_INT (inputSize - 4), put_string functionName, put_string_opt userid,
         put_buffer_opt passwordLength password, put_string targetIdentifier,
         put_char functionType, put_string_opt regionName, put_string_opt imageVolumeId,
         put_string_opt groupName]
        ''Image_Volume_Space_Remove_DM_Layout'')"

section \<open>What they write\<close>

definition smImage_Activate_api :: smapi_api where
  "smImage_Activate_api =
     \<lparr>api_name = ''Image_Activate'',
      api_kinds = [KStr, KBuf, KStr],
      api_table = ''Image_Activate_Layout'',
      api_build = (\<lambda>malloc args. smImage_Activate malloc
        (arg_bytes (args ! 0)) (arg_num (args ! 1)) (arg_bytes (args ! 1))
        (arg_bytes (args ! 2)))\<rparr>"

lemma smImage_Activate_api_ok [api_rules]: "api_ok smImage_Activate_api"
  by (rule api_okI) (clarsimp simp: smImage_Activate_api_def smImage_Activate_def api_proof)

definition smImage_Active_Configuration_Query_api :: smapi_api where
  "smImage_Active_Configuration_Query_api =
     \<lparr>api_name = ''Image_Active_Configuration_Query'',
      api_kinds = [KStr, KBuf, KStr],
      api_table = ''Image_Active_Configuration_Query_Layout'',
      api_build = (\<lambda>malloc args. smImage_Active_Configuration_Query malloc
        (arg_bytes (args ! 0)) (arg_num (args ! 1)) (arg_bytes (args ! 1))
        (arg_bytes (args ! 2)))\<rparr>"

lemma smImage_Active_Configuration_Query_api_ok [api_rules]: "api_ok smImage_Active_Configuration_Query_api"
  by (rule api_okI) (clarsimp simp: smImage_Active_Configuration_Query_api_def smImage_Active_Configuration_Query_def api_proof)

definition smImage_Console_Get_api :: smapi_api where
  "smImage_Console_Get_api =
     \<lparr>api_name = ''Image_Console_Get'',
      api_kinds = [KStr, KBuf, KStr],
      api_table = ''Image_Console_Get_Layout'',
      api_build = (\<lambda>malloc args. smImage_Console_Get malloc
        (arg_bytes (args ! 0)) (arg_num (args ! 1)) (arg_bytes (args ! 1))
        (arg_bytes (args ! 2)))\<rparr>"

lemma smImage_Console_Get_api_ok [api_rules]: "api_ok smImage_Console_Get_api"
  by (rule api_okI) (clarsimp simp: smImage_Console_Get_api_def smImage_Console_Get_def api_proof)

definition smImage_CPU_Define_api :: smapi_api where
  "smImage_CPU_Define_api =
     \<lparr>api_name = ''Image_CPU_Define'',
      api_kinds = [KStr, KBuf, KStr, KStr, KChr],
      api_table = ''Image_CPU_Define_Layout'',
      api_build = (\<lambda>malloc args. smImage_CPU_Define malloc
        (arg_bytes (args ! 0)) (arg_num (args ! 1)) (arg_bytes (args ! 1))
        (arg_bytes (args ! 2)) (arg_bytes (args ! 3)) (arg_chr (args ! 4)))\<rparr>"

lemma smImage_CPU_Define_api_ok [api_rules]: "api_ok smImage_CPU_Define_api"
  by (rule api_okI) (clarsimp simp: smImage_CPU_Define_api_def smImage_CPU_Define_def api_proof)

definition smImage_CPU_Define_DM_api :: smapi_api where
  "smImage_CPU_Define_DM_api =
     \<lparr>api_name = ''Image_CPU_Define_DM'',
      api_kinds = [KStr, KBuf, KStr, KStr, KChr, KStr, KChr, KChr],
      api_table = ''Image_CPU_Define_DM_Layout'',
      api_build = (\<lambda>malloc args. smImage_CPU_Define_DM malloc
        (arg_bytes (args ! 0)) (arg_num (args ! 1)) (arg_bytes (args ! 1))
        (arg_bytes (args ! 2)) (arg_bytes (args ! 3)) (arg_chr (args ! 4))
        (arg_bytes (args ! 5)) (arg_chr (args ! 6)) (arg_chr (args ! 7)))\<rparr>"

lemma smImage_CPU_Define_DM_api_ok [api_rules]: "api_ok smImage_CPU_Define_DM_api"
  by (rule api_okI) (clarsimp simp: smImage_CPU_Define_DM_api_def smImage_CPU_Define_DM_def api_proof)

definition smImage_CPU_Delete_api :: smapi_api where
  "smImage_CPU_Delete_api =
     \<lparr>api_name = ''Image_CPU_Delete'',
      api_kinds = [KStr, KBuf, KStr, KStr],
      api_table = ''Image_CPU_Delete_Layout'',
      api_build = (\<lambda>malloc args. smImage_CPU_Delete malloc
        (arg_bytes (args ! 0)) (arg_num (args ! 1)) (arg_bytes (args ! 1))
        (arg_bytes (args ! 2)) (arg_bytes (args ! 3)))\<rparr>"

lemma smImage_CPU_Delete_api_ok [api_rules]: "api_ok smImage_CPU_Delete_api"
  by (rule api_okI) (clarsimp simp: smImage_CPU_Delete_api_def smImage_CPU_Delete_def api_proof)

definition smImage_CPU_Delete_DM_api :: smapi_api where
  "smImage_CPU_Delete_DM_api =
     \<lparr>api_name = ''Image_CPU_Delete_DM'',
      api_kinds = [KStr, KBuf, KStr, KStr],
      api_table = ''Image_CPU_Delete_DM_Layout'',
      api_build = (\<lambda>malloc args. smImage_CPU_Delete_DM malloc
        (arg_bytes (args ! 0)) (arg_num (args ! 1)) (arg_bytes (args ! 1))
        (arg_bytes (args ! 2)) (arg_bytes (args ! 3)))\<rparr>"

lemma smImage_CPU_Delete_DM_api_ok [api_rules]: "api_ok smImage_CPU_Delete_DM_api"
  by (rule api_okI) (clarsimp simp: smImage_CPU_Delete_DM_api_def smImage_CPU_Delete_DM_def api_proof)

definition smImage_CPU_Query_api :: smapi_api where
  "smImage_CPU_Query_api =
     \<lparr>api_name = ''Image_CPU_Query'',
      api_kinds = [KStr, KBuf, KStr],
      api_table = ''Image_CPU_Query_Layout'',
      api_build = (\<lambda>malloc args. smImage_CPU_Query malloc
        (arg_bytes (args ! 0)) (arg_num (args ! 1)) (arg_bytes (args ! 1))
        (arg_bytes (args ! 2)))\<rparr>"

lemma smImage_CPU_Query_api_ok [api_rules]: "api_ok smImage_CPU_Query_api"
  by (rule api_okI) (clarsimp simp: smImage_CPU_Query_api_def smImage_CPU_Query_def api_proof)

definition smImage_CPU_Query_DM_api :: smapi_api where
  "smImage_CPU_Query_DM_api =
     \<lparr>api_name = ''Image_CPU_Query_DM'',
      api_kinds = [KStr, KBuf, KStr, KStr],
      api_table = ''Image_CPU_Query_DM_Layout'',
      api_build = (\<lambda>malloc args. smImage_CPU_Query_DM malloc
        (arg_bytes (args ! 0)) (arg_num (args ! 1)) (arg_bytes (args ! 1))
        (arg_bytes (args ! 2)) (arg_bytes (args ! 3)))\<rparr>"

lemma smImage_CPU_Query_DM_api_ok [api_rules]: "api_ok smImage_CPU_Query_DM_api"
  by (rule api_okI) (clarsimp simp: smImage_CPU_Query_DM_api_def smImage_CPU_Query_DM_def api_proof)

definition smImage_CPU_Set_Maximum_DM_api :: smapi_api where
  "smImage_CPU_Set_Maximum_DM_api =
     \<lparr>api_name = ''Image_CPU_Set_Maximum_DM'',
      api_kinds = [KStr, KBuf, KStr, KNum],
      api_table = ''Image_CPU_Set_Maximum_DM_Layout'',
      api_build = (\<lambda>malloc args. smImage_CPU_Set_Maximum_DM malloc
        (arg_bytes (args ! 0)) (arg_num (args ! 1)) (arg_bytes (args ! 1))
        (arg_bytes (args ! 2)) (arg_num (args ! 3)))\<rparr>"

lemma smImage_CPU_Set_Maximum_DM_api_ok [api_rules]: "api_ok smImage_CPU_Set_Maximum_DM_api"
  by (rule api_okI) (clarsimp simp: smImage_CPU_Set_Maximum_DM_api_def smImage_CPU_Set_Maximum_DM_def api_proof)

definition smImage_Deactivate_api :: smapi_api where
  "smImage_Deactivate_api =
     \<lparr>api_name = ''Image_Deactivate'',
      api_kinds = [KStr, KBuf, KStr, KStr],
      api_table = ''Image_Deactivate_Layout'',
      api_build = (\<lambda>malloc args. smImage_Deactivate malloc
        (arg_bytes (args ! 0)) (arg_num (args ! 1)) (arg_bytes (args ! 1))
        (arg_bytes (args ! 2)) (arg_bytes (args ! 3)))\<rparr>"

lemma smImage_Deactivate_api_ok [api_rules]: "api_ok smImage_Deactivate_api"
  by (rule api_okI) (clarsimp simp: smImage_Deactivate_api_def smImage_Deactivate_def api_proof)

definition smImage_Delete_DM_api :: smapi_api where
  "smImage_Delete_DM_api =
     \<lparr>api_name = ''Image_Delete_DM'',
      api_kinds = [KStr, KBuf, KStr, KChr],
      api_table = ''Image_Delete_DM_Layout'',
      api_build = (\<lambda>malloc args. smImage_Delete_DM malloc
        (arg_bytes (args ! 0)) (arg_num (args ! 1)) (arg_bytes (args ! 1))
        (arg_bytes (args ! 2)) (arg_chr (args ! 3)))\<rparr>"

lemma smImage_Delete_DM_api_ok [api_rules]: "api_ok smImage_Delete_DM_api"
  by (rule api_okI) (clarsimp simp: smImage_Delete_DM_api_def smImage_Delete_DM_def api_proof)

definition smImage_Device_Dedicate_api :: smapi_api where
  "smImage_Device_Dedicate_api =
     \<lparr>api_name = ''Image_Device_Dedicate'',
      api_kinds = [KStr, KBuf, KStr, KStr, KStr, KChr],
      api_table = ''Image_Device_Dedicate_Layout'',
      api_build = (\<lambda>malloc args. smImage_Device_Dedicate malloc
        (arg_bytes (args ! 0)) (arg_num (args ! 1)) (arg_bytes (args ! 1))
        (arg_bytes (args ! 2)) (arg_bytes (args ! 3)) (arg_bytes (args ! 4))
        (arg_chr (args ! 5)))\<rparr>"

lemma smImage_Device_Dedicate_api_ok [api_rules]: "api_ok smImage_Device_Dedicate_api"
  by (rule api_okI) (clarsimp simp: smImage_Device_Dedicate_api_def smImage_Device_Dedicate_def api_proof)

definition smImage_Device_Dedicate_DM_api :: smapi_api where
  "smImage_Device_Dedicate_DM_api =
     \<lparr>api_name = ''Image_Device_Dedicate_DM'',
      api_kinds = [KStr, KBuf, KStr, KStr, KStr, KChr],
      api_table = ''Image_Device_Dedicate_DM_Layout'',
      api_build = (\<lambda>malloc args. smImage_Device_Dedicate_DM malloc
        (arg_bytes (args ! 0)) (arg_num (args ! 1)) (arg_bytes (args ! 1))
        (arg_bytes (args ! 2)) (arg_bytes (args ! 3)) (arg_bytes (args ! 4))
        (arg_chr (args ! 5)))\<rparr>"

lemma smImage_Device_Dedicate_DM_api_ok [api_rules]: "api_ok smImage_Device_Dedicate_DM_api"
  by (rule api_okI) (clarsimp simp: smImage_Device_Dedicate_DM_api_def smImage_Device_Dedicate_DM_def api_proof)

definition smImage_Device_Reset_api :: smapi_api where
  "smImage_Device_Reset_api =
     \<lparr>api_name = ''Image_Device_Reset'',
      api_kinds = [KStr, KBuf, KStr, KStr],
      api_table = ''Image_Device_Reset_Layout'',
      api_build = (\<lambda>malloc args. smImage_Device_Reset malloc
        (arg_bytes (args ! 0)) (arg_num (args ! 1)) (arg_bytes (args ! 1))
        (arg_bytes (args ! 2)) (arg_bytes (args ! 3)))\<rparr>"

lemma smImage_Device_Reset_api_ok [api_rules]: "api_ok smImage_Device_Reset_api"
  by (rule api_okI) (clarsimp simp: smImage_Device_Reset_api_def smImage_Device_Reset_def api_proof)

definition smImage_Device_Undedicate_api :: smapi_api where
  "smImage_Device_Undedicate_api =
     \<lparr>api_name = ''Image_Device_Undedicate'',
      api_kinds = [KStr, KBuf, KStr, KStr],
      api_table = ''Image_Device_Undedicate_Layout'',
      api_build = (\<lambda>malloc args. smImage_Device_Undedicate malloc
        (arg_bytes (args ! 0)) (arg_num (args ! 1)) (arg_bytes (args ! 1))
        (arg_bytes (args ! 2)) (arg_bytes (args ! 3)))\<rparr>"

lemma smImage_Device_Undedicate_api_ok [api_rules]: "api_ok smImage_Device_Undedicate_api"
  by (rule api_okI) (clarsimp simp: smImage_Device_Undedicate_api_def smImage_Device_Undedicate_def api_proof)

definition smImage_Device_Undedicate_DM_api :: smapi_api where
  "smImage_Device_Undedicate_DM_api =
     \<lparr>api_name = ''Image_Device_Undedicate_DM'',
      api_kinds = [KStr, KBuf, KStr, KStr],
      api_table = ''Image_Device_Undedicate_Layout'',
      api_build = (\<lambda>malloc args. smImage_Device_Undedicate_DM malloc
        (arg_bytes (args ! 0)) (arg_num (args ! 1)) (arg_bytes (args ! 1))
        (arg_bytes (args ! 2)) (arg_bytes (args ! 3)))\<rparr>"

lemma smImage_Device_Undedicate_DM_api_ok [api_rules]: "api_ok smImage_Device_Undedicate_DM_api"
  by (rule api_okI) (clarsimp simp: smImage_Device_Undedicate_DM_api_def smImage_Device_Undedicate_DM_def api_proof)

definition smImage_Disk_Copy_api :: smapi_api where
  "smImage_Disk_Copy_api =
     \<lparr>api_name = ''Image_Disk_Copy'',
      api_kinds = [KStr, KBuf, KStr, KStr],
      api_table = ''Image_Disk_Copy_Layout'',
      api_build = (\<lambda>malloc args. smImage_Disk_Copy malloc
        (arg_bytes (args ! 0)) (arg_num (args ! 1)) (arg_bytes (args ! 1))
        (arg_bytes (args ! 2)) (arg_bytes (args ! 3)))\<rparr>"

lemma smImage_Disk_Copy_api_ok [api_rules]: "api_ok smImage_Disk_Copy_api"
  by (rule api_okI) (clarsimp simp: smImage_Disk_Copy_api_def smImage_Disk_Copy_def api_proof)

definition smImage_Disk_Copy_DM_api :: smapi_api where
  "smImage_Disk_Copy_DM_api =
     \<lparr>api_name = ''Image_Disk_Copy_DM'',
      api_kinds = [KStr, KBuf, KStr, KStr, KStr, KStr, KStr, KStr, KStr, KStr, KStr, KStr],
      api_table = ''Image_Disk_Copy_DM_Layout'',
      api_build = (\<lambda>malloc args. smImage_Disk_Copy_DM malloc
        (arg_bytes (args ! 0)) (arg_num (args ! 1)) (arg_bytes (args ! 1))
        (arg_bytes (args ! 2)) (arg_bytes (args ! 3)) (arg_bytes (args ! 4))
        (arg_bytes (args ! 5)) (arg_bytes (args ! 6)) (arg_bytes (args ! 7))
        (arg_bytes (args ! 8)) (arg_bytes (args ! 9)) (arg_bytes (args ! 10))
        (arg_bytes (args ! 11)))\<rparr>"

lemma smImage_Disk_Copy_DM_api_ok [api_rules]: "api_ok smImage_Disk_Copy_DM_api"
  by (rule api_okI) (clarsimp simp: smImage_Disk_Copy_DM_api_def smImage_Disk_Copy_DM_def api_proof)

definition smImage_Disk_Create_api :: smapi_api where
  "smImage_Disk_Create_api =
     \<lparr>api_name = ''Image_Disk_Create'',
      api_kinds = [KStr, KBuf, KStr, KStr, KStr],
      api_table = ''Image_Disk_Create_Layout'',
      api_build = (\<lambda>malloc args. smImage_Disk_Create malloc
        (arg_bytes (args ! 0)) (arg_num (args ! 1)) (arg_bytes (args ! 1))
        (arg_bytes (args ! 2)) (arg_bytes (args ! 3)) (arg_bytes (args ! 4)))\<rparr>"

lemma smImage_Disk_Create_api_ok [api_rules]: "api_ok smImage_Disk_Create_api"
  by (rule api_okI) (clarsimp simp: smImage_Disk_Create_api_def smImage_Disk_Create_def api_proof)

definition smImage_Disk_Create_DM_api :: smapi_api where
  "smImage_Disk_Create_DM_api =
     \<lparr>api_name = ''Image_Disk_Create_DM'',
      api_kinds = [KStr, KBuf, KStr, KStr, KStr, KStr, KStr, KChr, KNum, KStr, KChr, KStr, KStr,
                   KStr, KStr],
      api_table = ''Image_Disk_Create_DM_Layout'',
      api_build = (\<lambda>malloc args. smImage_Disk_Create_DM malloc
        (arg_bytes (args ! 0)) (arg_num (args ! 1)) (arg_bytes (args ! 1))
        (arg_bytes (args ! 2)) (arg_bytes (args ! 3)) (arg_bytes (args ! 4))
        (arg_bytes (args ! 5)) (arg_bytes (args ! 6)) (arg_chr (args ! 7)) (arg_num (args ! 8))
        (arg_bytes (args ! 9)) (arg_chr (args ! 10)) (arg_bytes (args ! 11))
        (arg_bytes (args ! 12)) (arg_bytes (args ! 13)) (arg_bytes (args ! 14)))\<rparr>"

lemma smImage_Disk_Create_DM_api_ok [api_rules]: "api_ok smImage_Disk_Create_DM_api"
  by (rule api_okI) (clarsimp simp: smImage_Disk_Create_DM_api_def smImage_Disk_Create_DM_def api_proof)

definition smImage_Disk_Delete_api :: smapi_api where
  "smImage_Disk_Delete_api =
     \<lparr>api_name = ''Image_Disk_Delete'',
      api_kinds = [KStr, KBuf, KStr, KStr],
      api_table = ''Image_Disk_Delete_Layout'',
      api_build = (\<lambda>malloc args. smImage_Disk_Delete malloc
        (arg_bytes (args ! 0)) (arg_num (args ! 1)) (arg_bytes (args ! 1))
        (arg_bytes (args ! 2)) (arg_bytes (args ! 3)))\<rparr>"

lemma smImage_Disk_Delete_api_ok [api_rules]: "api_ok smImage_Disk_Delete_api"
  by (rule api_okI) (clarsimp simp: smImage_Disk_Delete_api_def smImage_Disk_Delete_def api_proof)

definition smImage_Disk_Delete_DM_api :: smapi_api where
  "smImage_Disk_Delete_DM_api =
     \<lparr>api_name = ''Image_Disk_Delete_DM'',
      api_kinds = [KStr, KBuf, KStr, KStr, KChr],
      api_table = ''Image_Disk_Delete_DM_Layout'',
      api_build = (\<lambda>malloc args. smImage_Disk_Delete_DM malloc
        (arg_bytes (args ! 0)) (arg_num (args ! 1)) (arg_bytes (args ! 1))
        (arg_bytes (args ! 2)) (arg_bytes (args ! 3)) (arg_chr (args ! 4)))\<rparr>"

lemma smImage_Disk_Delete_DM_api_ok [api_rules]: "api_ok smImage_Disk_Delete_DM_api"
  by (rule api_okI) (clarsimp simp: smImage_Disk_Delete_DM_api_def smImage_Disk_Delete_DM_def api_proof)

definition smImage_Disk_Share_api :: smapi_api where
  "smImage_Disk_Share_api =
     \<lparr>api_name = ''Image_Disk_Share'',
      api_kinds = [KStr, KBuf, KStr, KStr, KStr, KStr, KStr, KStr],
      api_table = ''Image_Disk_Share_Layout'',
      api_build = (\<lambda>malloc args. smImage_Disk_Share malloc
        (arg_bytes (args ! 0)) (arg_num (args ! 1)) (arg_bytes (args ! 1))
        (arg_bytes (args ! 2)) (arg_bytes (args ! 3)) (arg_bytes (args ! 4))
        (arg_bytes (args ! 5)) (arg_bytes (args ! 6)) (arg_bytes (args ! 7)))\<rparr>"

lemma smImage_Disk_Share_api_ok [api_rules]: "api_ok smImage_Disk_Share_api"
  by (rule api_okI) (clarsimp simp: smImage_Disk_Share_api_def smImage_Disk_Share_def api_proof)

definition smImage_Disk_Share_DM_api :: smapi_api where
  "smImage_Disk_Share_DM_api =
     \<lparr>api_name = ''Image_Disk_Share_DM'',
      api_kinds = [KStr, KBuf, KStr, KStr, KStr, KStr, KStr, KStr],
      api_table = ''Image_Disk_Share_DM_Layout'',
      api_build = (\<lambda>malloc args. smImage_Disk_Share_DM malloc
        (arg_bytes (args ! 0)) (arg_num (args ! 1)) (arg_bytes (args ! 1))
        (arg_bytes (args ! 2)) (arg_bytes (args ! 3)) (arg_bytes (args ! 4))
        (arg_bytes (args ! 5)) (arg_bytes (args ! 6)) (arg_bytes (args ! 7)))\<rparr>"

lemma smImage_Disk_Share_DM_api_ok [api_rules]: "api_ok smImage_Disk_Share_DM_api"
  by (rule api_okI) (clarsimp simp: smImage_Disk_Share_DM_api_def smImage_Disk_Share_DM_def api_proof)

definition smImage_Disk_Unshare_api :: smapi_api where
  "smImage_Disk_Unshare_api =
     \<lparr>api_name = ''Image_Disk_Unshare'',
      api_kinds = [KStr, KBuf, KStr, KStr],
      api_table = ''Image_Disk_Unshare_Layout'',
      api_build = (\<lambda>malloc args. smImage_Disk_Unshare malloc
        (arg_bytes (args ! 0)) (arg_num (args ! 1)) (arg_bytes (args ! 1))
        (arg_bytes (args ! 2)) (arg_bytes (args ! 3)))\<rparr>"

lemma smImage_Disk_Unshare_api_ok [api_rules]: "api_ok smImage_Disk_Unshare_api"
  by (rule api_okI) (clarsimp simp: smImage_Disk_Unshare_api_def smImage_Disk_Unshare_def api_proof)

definition smImage_Disk_Unshare_DM_api :: smapi_api where
  "smImage_Disk_Unshare_DM_api =
     \<lparr>api_name = ''Image_Disk_Unshare_DM'',
      api_kinds = [KStr, KBuf, KStr, KStr, KStr, KStr],
      api_table = ''Image_Disk_Unshare_DM_Layout'',
      api_build = (\<lambda>malloc args. smImage_Disk_Unshare_DM malloc
        (arg_bytes (args ! 0)) (arg_num (args ! 1)) (arg_bytes (args ! 1))
        (arg_bytes (args ! 2)) (arg_bytes (args ! 3)) (arg_bytes (args ! 4))
        (arg_bytes (args ! 5)))\<rparr>"

lemma smImage_Disk_Unshare_DM_api_ok [api_rules]: "api_ok smImage_Disk_Unshare_DM_api"
  by (rule api_okI) (clarsimp simp: smImage_Disk_Unshare_DM_api_def smImage_Disk_Unshare_DM_def api_proof)

definition smImage_IPL_Delete_DM_api :: smapi_api where
  "smImage_IPL_Delete_DM_api =
     \<lparr>api_name = ''Image_IPL_Delete_DM'',
      api_kinds = [KStr, KBuf, KStr],
      api_table = ''Image_IPL_Delete_DM_Layout'',
      api_build = (\<lambda>malloc args. smImage_IPL_Delete_DM malloc
        (arg_bytes (args ! 0)) (arg_num (args ! 1)) (arg_bytes (args ! 1))
        (arg_bytes (args ! 2)))\<rparr>"

lemma smImage_IPL_Delete_DM_api_ok [api_rules]: "api_ok smImage_IPL_Delete_DM_api"
  by (rule api_okI) (clarsimp simp: smImage_IPL_Delete_DM_api_def smImage_IPL_Delete_DM_def api_proof)

definition smImage_IPL_Query_DM_api :: smapi_api where
  "smImage_IPL_Query_DM_api =
     \<lparr>api_name = ''Image_IPL_Query_DM'',
      api_kinds = [KStr, KBuf, KStr],
      api_table = ''Image_IPL_Query_DM_Layout'',
      api_build = (\<lambda>malloc args. smImage_IPL_Query_DM malloc
        (arg_bytes (args ! 0)) (arg_num (args ! 1)) (arg_bytes (args ! 1))
        (arg_bytes (args ! 2)))\<rparr>"

lemma smImage_IPL_Query_DM_api_ok [api_rules]: "api_ok smImage_IPL_Query_DM_api"
  by (rule api_okI) (clarsimp simp: smImage_IPL_Query_DM_api_def smImage_IPL_Query_DM_def api_proof)

definition smImage_IPL_Set_DM_api :: smapi_api where
  "smImage_IPL_Set_DM_api =
     \<lparr>api_name = ''Image_IPL_Set_DM'',
      api_kinds = [KStr, KBuf, KStr, KStr, KStr, KStr],
      api_table = ''Image_IPL_Set_DM_Layout'',
      api_build = (\<lambda>malloc args. smImage_IPL_Set_DM malloc
        (arg_bytes (args ! 0)) (arg_num (args ! 1)) (arg_bytes (args ! 1))
        (arg_bytes (args ! 2)) (arg_bytes (args ! 3)) (arg_bytes (args ! 4))
        (arg_bytes (args ! 5)))\<rparr>"

lemma smImage_IPL_Set_DM_api_ok [api_rules]: "api_ok smImage_IPL_Set_DM_api"
  by (rule api_okI) (clarsimp simp: smImage_IPL_Set_DM_api_def smImage_IPL_Set_DM_def api_proof)

definition smImage_Lock_DM_api :: smapi_api where
  "smImage_Lock_DM_api =
     \<lparr>api_name = ''Image_Lock_DM'',
      api_kinds = [KStr, KBuf, KStr, KStr],
      api_table = ''Image_Lock_DM_Layout'',
      api_build = (\<lambda>malloc args. smImage_Lock_DM malloc
        (arg_bytes (args ! 0)) (arg_num (args ! 1)) (arg_bytes (args ! 1))
        (arg_bytes (args ! 2)) (arg_bytes (args ! 3)))\<rparr>"

lemma smImage_Lock_DM_api_ok [api_rules]: "api_ok smImage_Lock_DM_api"
  by (rule api_okI) (clarsimp simp: smImage_Lock_DM_api_def smImage_Lock_DM_def api_proof)

definition smImage_Lock_Query_DM_api :: smapi_api where
  "smImage_Lock_Query_DM_api =
     \<lparr>api_name = ''Image_Lock_Query_DM'',
      api_kinds = [KStr, KBuf, KStr],
      api_table = ''Image_Lock_Query_DM_Layout'',
      api_build = (\<lambda>malloc args. smImage_Lock_Query_DM malloc
        (arg_bytes (args ! 0)) (arg_num (args ! 1)) (arg_bytes (args ! 1))
        (arg_bytes (args ! 2)))\<rparr>"

lemma smImage_Lock_Query_DM_api_ok [api_rules]: "api_ok smImage_Lock_Query_DM_api"
  by (rule api_okI) (clarsimp simp: smImage_Lock_Query_DM_api_def smImage_Lock_Query_DM_def api_proof)

definition smImage_Password_Set_DM_api :: smapi_api where
  "smImage_Password_Set_DM_api =
     \<lparr>api_name = ''Image_Password_Set_DM'',
      api_kinds = [KStr, KBuf, KStr, KBuf],
      api_table = ''Image_Password_Set_DM_Layout'',
      api_build = (\<lambda>malloc args. smImage_Password_Set_DM malloc
        (arg_bytes (args ! 0)) (arg_num (args ! 1)) (arg_bytes (args ! 1))
        (arg_bytes (args ! 2)) (arg_num (args ! 3)) (arg_bytes (args ! 3)))\<rparr>"

lemma smImage_Password_Set_DM_api_ok [api_rules]: "api_ok smImage_Password_Set_DM_api"
  by (rule api_okI) (clarsimp simp: smImage_Password_Set_DM_api_def smImage_Password_Set_DM_def api_proof)

definition smImage_Query_Activate_Time_api :: smapi_api where
  "smImage_Query_Activate_Time_api =
     \<lparr>api_name = ''Image_Query_Activate_Time'',
      api_kinds = [KStr, KBuf, KStr, KChr],
      api_table = ''Image_Query_Activate_Time_Layout'',
      api_build = (\<lambda>malloc args. smImage_Query_Activate_Time malloc
        (arg_bytes (args ! 0)) (arg_num (args ! 1)) (arg_bytes (args ! 1))
        (arg_bytes (args ! 2)) (arg_chr (args ! 3)))\<rparr>"

lemma smImage_Query_Activate_Time_api_ok [api_rules]: "api_ok smImage_Query_Activate_Time_api"
  by (rule api_okI) (clarsimp simp: smImage_Query_Activate_Time_api_def smImage_Query_Activate_Time_def api_proof)

definition smImage_Recycle_api :: smapi_api where
  "smImage_Recycle_api =
     \<lparr>api_name = ''Image_Recycle'',
      api_kinds = [KStr, KBuf, KStr],
      api_table = ''Image_Recycle_Layout'',
      api_build = (\<lambda>malloc args. smImage_Recycle malloc
        (arg_bytes (args ! 0)) (arg_num (args ! 1)) (arg_bytes (args ! 1))
        (arg_bytes (args ! 2)))\<rparr>"

lemma smImage_Recycle_api_ok [api_rules]: "api_ok smImage_Recycle_api"
  by (rule api_okI) (clarsimp simp: smImage_Recycle_api_def smImage_Recycle_def api_proof)

definition smImage_SCSI_Characteristics_Query_DM_api :: smapi_api where
  "smImage_SCSI_Characteristics_Query_DM_api =
     \<lparr>api_name = ''Image_SCSI_Characteristics_Query_DM'',
      api_kinds = [KStr, KBuf, KStr],
      api_table = ''Image_SCSI_Characteristics_Query_DM_Layout'',
      api_build = (\<lambda>malloc args. smImage_SCSI_Characteristics_Query_DM malloc
        (arg_bytes (args ! 0)) (arg_num (args ! 1)) (arg_bytes (args ! 1))
        (arg_bytes (args ! 2)))\<rparr>"

lemma smImage_SCSI_Characteristics_Query_DM_api_ok [api_rules]: "api_ok smImage_SCSI_Characteristics_Query_DM_api"
  by (rule api_okI) (clarsimp simp: smImage_SCSI_Characteristics_Query_DM_api_def smImage_SCSI_Characteristics_Query_DM_def api_proof)

definition smImage_Status_Query_api :: smapi_api where
  "smImage_Status_Query_api =
     \<lparr>api_name = ''Image_Status_Query'',
      api_kinds = [KStr, KBuf, KStr],
      api_table = ''Image_Status_Query_Layout'',
      api_build = (\<lambda>malloc args. smImage_Status_Query malloc
        (arg_bytes (args ! 0)) (arg_num (args ! 1)) (arg_bytes (args ! 1))
        (arg_bytes (args ! 2)))\<rparr>"

lemma smImage_Status_Query_api_ok [api_rules]: "api_ok smImage_Status_Query_api"
  by (rule api_okI) (clarsimp simp: smImage_Status_Query_api_def smImage_Status_Query_def api_proof)

definition smImage_Unlock_DM_api :: smapi_api where
  "smImage_Unlock_DM_api =
     \<lparr>api_name = ''Image_Unlock_DM'',
      api_kinds = [KStr, KBuf, KStr, KStr],
      api_table = ''Image_Unlock_DM_Layout'',
      api_build = (\<lambda>malloc args. smImage_Unlock_DM malloc
        (arg_bytes (args ! 0)) (arg_num (args ! 1)) (arg_bytes (args ! 1))
        (arg_bytes (args ! 2)) (arg_bytes (args ! 3)))\<rparr>"

lemma smImage_Unlock_DM_api_ok [api_rules]: "api_ok smImage_Unlock_DM_api"
  by (rule api_okI) (clarsimp simp: smImage_Unlock_DM_api_def smImage_Unlock_DM_def api_proof)

definition smImage_Volume_Add_api :: smapi_api where
  "smImage_Volume_Add_api =
     \<lparr>api_name = ''Image_Volume_Add'',
      api_kinds = [KStr, KBuf, KStr, KStr, KStr, KStr, KStr, KStr, KStr, KStr, KStr, KStr, KStr,
                   KStr, KStr],
      api_table = ''Image_Volume_Add_Layout'',
      api_build = (\<lambda>malloc args. smImage_Volume_Add malloc
        (arg_bytes (args ! 0)) (arg_num (args ! 1)) (arg_bytes (args ! 1))
        (arg_bytes (args ! 2)) (arg_bytes (args ! 3)) (arg_bytes (args ! 4))
        (arg_bytes (args ! 5)) (arg_bytes (args ! 6)) (arg_bytes (args ! 7))
        (arg_bytes (args ! 8)) (arg_bytes (args ! 9)) (arg_bytes (args ! 10))
        (arg_bytes (args ! 11)) (arg_bytes (args ! 12)) (arg_bytes (args ! 13))
        (arg_bytes (args ! 14)))\<rparr>"

lemma smImage_Volume_Add_api_ok [api_rules]: "api_ok smImage_Volume_Add_api"
  by (rule api_okI) (clarsimp simp: smImage_Volume_Add_api_def smImage_Volume_Add_def api_proof)

definition smImage_Volume_Space_Define_DM_api :: smapi_api where
  "smImage_Volume_Space_Define_DM_api =
     \<lparr>api_name = ''Image_Volume_Space_Define_DM'',
      api_kinds = [KStr, KBuf, KStr, KChr, KStr, KStr, KNum, KNum, KStr, KChr],
      api_table = ''Image_Volume_Space_Define_DM_Layout'',
      api_build = (\<lambda>malloc args. smImage_Volume_Space_Define_DM malloc
        (arg_bytes (args ! 0)) (arg_num (args ! 1)) (arg_bytes (args ! 1))
        (arg_bytes (args ! 2)) (arg_chr (args ! 3)) (arg_bytes (args ! 4))
        (arg_bytes (args ! 5)) (arg_num (args ! 6)) (arg_num (args ! 7)) (arg_bytes (args ! 8))
        (arg_chr (args ! 9)))\<rparr>"

lemma smImage_Volume_Space_Define_DM_api_ok [api_rules]: "api_ok smImage_Volume_Space_Define_DM_api"
  by (rule api_okI) (clarsimp simp: smImage_Volume_Space_Define_DM_api_def smImage_Volume_Space_Define_DM_def api_proof)

definition smImage_Volume_Space_Query_DM_api :: smapi_api where
  "smImage_Volume_Space_Query_DM_api =
     \<lparr>api_name = ''Image_Volume_Space_Query_DM'',
      api_kinds = [KStr, KBuf, KStr, KChr, KChr, KStr],
      api_table = ''Image_Volume_Space_Query_DM_Layout'',
      api_build = (\<lambda>malloc args. smImage_Volume_Space_Query_DM malloc
        (arg_bytes (args ! 0)) (arg_num (args ! 1)) (arg_bytes (args ! 1))
        (arg_bytes (args ! 2)) (arg_chr (args ! 3)) (arg_chr (args ! 4)) (arg_bytes (args ! 5)))\<rparr>"

lemma smImage_Volume_Space_Query_DM_api_ok [api_rules]: "api_ok smImage_Volume_Space_Query_DM_api"
  by (rule api_okI) (clarsimp simp: smImage_Volume_Space_Query_DM_api_def smImage_Volume_Space_Query_DM_def api_proof)

definition smImage_Volume_Space_Remove_DM_api :: smapi_api where
  "smImage_Volume_Space_Remove_DM_api =
     \<lparr>api_name = ''Image_Volume_Space_Remove_DM'',
      api_kinds = [KStr, KBuf, KStr, KChr, KStr, KStr, KStr],
      api_table = ''Image_Volume_Space_Remove_DM_Layout'',
      api_build = (\<lambda>malloc args. smImage_Volume_Space_Remove_DM malloc
        (arg_bytes (args ! 0)) (arg_num (args ! 1)) (arg_bytes (args ! 1))
        (arg_bytes (args ! 2)) (arg_chr (args ! 3)) (arg_bytes (args ! 4))
        (arg_bytes (args ! 5)) (arg_bytes (args ! 6)))\<rparr>"

lemma smImage_Volume_Space_Remove_DM_api_ok [api_rules]: "api_ok smImage_Volume_Space_Remove_DM_api"
  by (rule api_okI) (clarsimp simp: smImage_Volume_Space_Remove_DM_api_def smImage_Volume_Space_Remove_DM_def api_proof)

definition requests_image :: "smapi_api list" where
  "requests_image =
     [smImage_Activate_api, smImage_Active_Configuration_Query_api, smImage_Console_Get_api,
      smImage_CPU_Define_api, smImage_CPU_Define_DM_api, smImage_CPU_Delete_api,
      smImage_CPU_Delete_DM_api, smImage_CPU_Query_api, smImage_CPU_Query_DM_api,
      smImage_CPU_Set_Maximum_DM_api, smImage_Deactivate_api, smImage_Delete_DM_api,
      smImage_Device_Dedicate_api, smImage_Device_Dedicate_DM_api, smImage_Device_Reset_api,
      smImage_Device_Undedicate_api, smImage_Device_Undedicate_DM_api, smImage_Disk_Copy_api,
      smImage_Disk_Copy_DM_api, smImage_Disk_Create_api, smImage_Disk_Create_DM_api,
      smImage_Disk_Delete_api, smImage_Disk_Delete_DM_api, smImage_Disk_Share_api,
      smImage_Disk_Share_DM_api, smImage_Disk_Unshare_api, smImage_Disk_Unshare_DM_api,
      smImage_IPL_Delete_DM_api, smImage_IPL_Query_DM_api, smImage_IPL_Set_DM_api,
      smImage_Lock_DM_api, smImage_Lock_Query_DM_api, smImage_Password_Set_DM_api,
      smImage_Query_Activate_Time_api, smImage_Recycle_api, smImage_SCSI_Characteristics_Query_DM_api,
      smImage_Status_Query_api, smImage_Unlock_DM_api, smImage_Volume_Add_api,
      smImage_Volume_Space_Define_DM_api, smImage_Volume_Space_Query_DM_api, smImage_Volume_Space_Remove_DM_api]"

lemma requests_image_ok: "list_all api_ok requests_image"
  by (simp add: requests_image_def api_rules)

end
