(* ===== verification/Requests_Network.thy ===== *)
theory Requests_Network
  imports Smapi_Request
begin

text \<open>
  The request builders of virtual networks and channels (the Virtual APIs), one definition per
  \<^verbatim>\<open>src/vmapi*.c\<close> file, named after its C function: the sum that gives \<open>inputSize\<close>, and the statements
  that fill the buffer in their order.  Each is described by an \<open>api\<close> record and shown to write
  its arguments.
\<close>

section \<open>The builders\<close>

definition smVirtual_Channel_Connection_Create ::
  "(int \<Rightarrow> bool) \<Rightarrow> byte list \<Rightarrow> int \<Rightarrow> byte list \<Rightarrow>
    byte list \<Rightarrow> byte list \<Rightarrow> byte list \<Rightarrow> byte list \<Rightarrow>
    smapi_request res" where
  "smVirtual_Channel_Connection_Create malloc userid passwordLength password targetIdentifier imageDeviceNumber coupledImageName
      coupledImageDeviceNumber =
     (let functionName = c_literal ''Virtual_Channel_Connection_Create'';
        inputSize = c_int
          (4 + 4 + strlen functionName + 4 + strlen userid + 4 + passwordLength + 4 +
          strlen targetIdentifier + 4 + strlen imageDeviceNumber + 4 + strlen coupledImageName +
          4 + strlen coupledImageDeviceNumber)
      in smapi_build malloc inputSize
        [PUT_INT (inputSize - 4), put_string functionName, put_string_opt userid,
         put_buffer_opt passwordLength password, put_string targetIdentifier,
         put_string imageDeviceNumber, put_string coupledImageName,
         put_string coupledImageDeviceNumber]
        ''Virtual_Channel_Connection_Create_Layout'')"

definition smVirtual_Channel_Connection_Create_DM ::
  "(int \<Rightarrow> bool) \<Rightarrow> byte list \<Rightarrow> int \<Rightarrow> byte list \<Rightarrow>
    byte list \<Rightarrow> byte list \<Rightarrow> byte list \<Rightarrow> smapi_request res" where
  "smVirtual_Channel_Connection_Create_DM malloc userid passwordLength password targetIdentifier imageDeviceNumber coupledImageName =
     (let functionName = c_literal ''Virtual_Channel_Connection_Create_DM'';
        inputSize = c_int
          (4 + 4 + strlen functionName + 4 + strlen userid + 4 + passwordLength + 4 +
          strlen targetIdentifier + 4 + strlen imageDeviceNumber + 4 + strlen coupledImageName)
      in smapi_build malloc inputSize
        [PUT_INT (inputSize - 4), put_string functionName, put_string_opt userid,
         put_buffer_opt passwordLength password, put_string targetIdentifier,
         put_string imageDeviceNumber, put_string_opt coupledImageName]
        ''Virtual_Channel_Connection_Create_DM_Layout'')"

definition smVirtual_Channel_Connection_Delete ::
  "(int \<Rightarrow> bool) \<Rightarrow> byte list \<Rightarrow> int \<Rightarrow> byte list \<Rightarrow>
    byte list \<Rightarrow> byte list \<Rightarrow> smapi_request res" where
  "smVirtual_Channel_Connection_Delete malloc userid passwordLength password targetIdentifier imageDeviceNumber =
     (let functionName = c_literal ''Virtual_Channel_Connection_Delete'';
        inputSize = c_int
          (4 + 4 + strlen functionName + 4 + strlen userid + 4 + passwordLength + 4 +
          strlen targetIdentifier + 4 + strlen imageDeviceNumber)
      in smapi_build malloc inputSize
        [PUT_INT (inputSize - 4), put_string functionName, put_string_opt userid,
         put_buffer_opt passwordLength password, put_string targetIdentifier,
         put_string imageDeviceNumber]
        ''Virtual_Channel_Connection_Delete_Layout'')"

definition smVirtual_Channel_Connection_Delete_DM ::
  "(int \<Rightarrow> bool) \<Rightarrow> byte list \<Rightarrow> int \<Rightarrow> byte list \<Rightarrow>
    byte list \<Rightarrow> byte list \<Rightarrow> smapi_request res" where
  "smVirtual_Channel_Connection_Delete_DM malloc userid passwordLength password targetIdentifier imageDeviceNumber =
     (let functionName = c_literal ''Virtual_Channel_Connection_Delete_DM'';
        inputSize = c_int
          (4 + 4 + strlen functionName + 4 + strlen userid + 4 + passwordLength + 4 +
          strlen targetIdentifier + 4 + strlen imageDeviceNumber)
      in smapi_build malloc inputSize
        [PUT_INT (inputSize - 4), put_string functionName, put_string_opt userid,
         put_buffer_opt passwordLength password, put_string targetIdentifier,
         put_string imageDeviceNumber]
        ''Virtual_Channel_Connection_Delete_DM_Layout'')"

definition smVirtual_Network_Adapter_Connect_LAN ::
  "(int \<Rightarrow> bool) \<Rightarrow> byte list \<Rightarrow> int \<Rightarrow> byte list \<Rightarrow>
    byte list \<Rightarrow> byte list \<Rightarrow> byte list \<Rightarrow> byte list \<Rightarrow>
    smapi_request res" where
  "smVirtual_Network_Adapter_Connect_LAN malloc userid passwordLength password targetIdentifier imageDeviceNumber lanName lanOwner =
     (let functionName = c_literal ''Virtual_Network_Adapter_Connect_LAN'';
        inputSize = c_int
          (4 + 4 + strlen functionName + 4 + strlen userid + 4 + passwordLength + 4 +
          strlen targetIdentifier + 4 + strlen imageDeviceNumber + 4 + strlen lanName + 4 +
          strlen lanOwner)
      in smapi_build malloc inputSize
        [PUT_INT (inputSize - 4), put_string functionName, put_string_opt userid,
         put_buffer_opt passwordLength password, put_string targetIdentifier,
         put_string imageDeviceNumber, put_string lanName, put_string lanOwner]
        ''Virtual_Network_Adapter_Connect_LAN_Layout'')"

definition smVirtual_Network_Adapter_Connect_LAN_DM ::
  "(int \<Rightarrow> bool) \<Rightarrow> byte list \<Rightarrow> int \<Rightarrow> byte list \<Rightarrow>
    byte list \<Rightarrow> byte list \<Rightarrow> byte list \<Rightarrow> byte list \<Rightarrow>
    smapi_request res" where
  "smVirtual_Network_Adapter_Connect_LAN_DM malloc userid passwordLength password targetIdentifier imageDeviceNumber lanName lanOwner =
     (let functionName = c_literal ''Virtual_Network_Adapter_Connect_LAN_DM'';
        inputSize = c_int
          (4 + 4 + strlen functionName + 4 + strlen userid + 4 + passwordLength + 4 +
          strlen targetIdentifier + 4 + strlen imageDeviceNumber + 4 + strlen lanName + 4 +
          strlen lanOwner)
      in smapi_build malloc inputSize
        [PUT_INT (inputSize - 4), put_string functionName, put_string_opt userid,
         put_buffer_opt passwordLength password, put_string targetIdentifier,
         put_string imageDeviceNumber, put_string lanName, put_string lanOwner]
        ''Virtual_Network_Adapter_Connect_LAN_DM_Layout'')"

definition smVirtual_Network_Adapter_Connect_Vswitch ::
  "(int \<Rightarrow> bool) \<Rightarrow> byte list \<Rightarrow> int \<Rightarrow> byte list \<Rightarrow>
    byte list \<Rightarrow> byte list \<Rightarrow> byte list \<Rightarrow> smapi_request res" where
  "smVirtual_Network_Adapter_Connect_Vswitch malloc userid passwordLength password targetIdentifier imageDeviceNumber switchName =
     (let functionName = c_literal ''Virtual_Network_Adapter_Connect_Vswitch'';
        inputSize = c_int
          (4 + 4 + strlen functionName + 4 + strlen userid + 4 + passwordLength + 4 +
          strlen targetIdentifier + 4 + strlen imageDeviceNumber + 4 + strlen switchName)
      in smapi_build malloc inputSize
        [PUT_INT (inputSize - 4), put_string functionName, put_string_opt userid,
         put_buffer_opt passwordLength password, put_string targetIdentifier,
         put_string imageDeviceNumber, put_string switchName]
        ''Virtual_Network_Adapter_Connect_Vswitch_Layout'')"

definition smVirtual_Network_Adapter_Connect_Vswitch_DM ::
  "(int \<Rightarrow> bool) \<Rightarrow> byte list \<Rightarrow> int \<Rightarrow> byte list \<Rightarrow>
    byte list \<Rightarrow> byte list \<Rightarrow> byte list \<Rightarrow> smapi_request res" where
  "smVirtual_Network_Adapter_Connect_Vswitch_DM malloc userid passwordLength password targetIdentifier imageDeviceNumber switchName =
     (let functionName = c_literal ''Virtual_Network_Adapter_Connect_Vswitch_DM'';
        inputSize = c_int
          (4 + 4 + strlen functionName + 4 + strlen userid + 4 + passwordLength + 4 +
          strlen targetIdentifier + 4 + strlen imageDeviceNumber + 4 + strlen switchName)
      in smapi_build malloc inputSize
        [PUT_INT (inputSize - 4), put_string functionName, put_string_opt userid,
         put_buffer_opt passwordLength password, put_string targetIdentifier,
         put_string imageDeviceNumber, put_string switchName]
        ''Virtual_Network_Adapter_Connect_Vswitch_DM_Layout'')"

definition smVirtual_Network_Adapter_Create ::
  "(int \<Rightarrow> bool) \<Rightarrow> byte list \<Rightarrow> int \<Rightarrow> byte list \<Rightarrow>
    byte list \<Rightarrow> byte list \<Rightarrow> byte \<Rightarrow> int \<Rightarrow>
    byte list \<Rightarrow> smapi_request res" where
  "smVirtual_Network_Adapter_Create malloc userid passwordLength password targetIdentifier imageDeviceNumber adapterType
      networkAdapterDevices channelPathId =
     (let functionName = c_literal ''Virtual_Network_Adapter_Create'';
        inputSize = c_int
          (4 + 4 + strlen functionName + 4 + strlen userid + 4 + passwordLength + 4 +
          strlen targetIdentifier + 4 + strlen imageDeviceNumber + 1 + 4 + 4 +
          strlen channelPathId)
      in smapi_build malloc inputSize
        [PUT_INT (inputSize - 4), put_string functionName, put_string_opt userid,
         put_buffer_opt passwordLength password, put_string targetIdentifier,
         put_string imageDeviceNumber, put_char adapterType, PUT_INT networkAdapterDevices,
         put_string_opt channelPathId]
        ''Virtual_Network_Adapter_Create_Layout'')"

definition smVirtual_Network_Adapter_Create_DM ::
  "(int \<Rightarrow> bool) \<Rightarrow> byte list \<Rightarrow> int \<Rightarrow> byte list \<Rightarrow>
    byte list \<Rightarrow> byte list \<Rightarrow> byte \<Rightarrow> int \<Rightarrow>
    byte list \<Rightarrow> byte list \<Rightarrow> smapi_request res" where
  "smVirtual_Network_Adapter_Create_DM malloc userid passwordLength password targetIdentifier imageDeviceNumber adapterType
      networkAdapterDevices channelPathId macId =
     (let functionName = c_literal ''Virtual_Network_Adapter_Create_DM'';
        inputSize = c_int
          (4 + 4 + strlen functionName + 4 + strlen userid + 4 + passwordLength + 4 +
          strlen targetIdentifier + 4 + strlen imageDeviceNumber + 1 + 4 + 4 +
          strlen channelPathId + 4 + strlen macId)
      in smapi_build malloc inputSize
        [PUT_INT (inputSize - 4), put_string functionName, put_string_opt userid,
         put_buffer_opt passwordLength password, put_string targetIdentifier,
         put_string imageDeviceNumber, put_char adapterType, PUT_INT networkAdapterDevices,
         put_string_opt channelPathId, put_string_opt macId]
        ''Virtual_Network_Adapter_Create_DM_Layout'')"

definition smVirtual_Network_Adapter_Delete ::
  "(int \<Rightarrow> bool) \<Rightarrow> byte list \<Rightarrow> int \<Rightarrow> byte list \<Rightarrow>
    byte list \<Rightarrow> byte list \<Rightarrow> smapi_request res" where
  "smVirtual_Network_Adapter_Delete malloc userid passwordLength password targetIdentifier imageDeviceNumber =
     (let functionName = c_literal ''Virtual_Network_Adapter_Delete'';
        inputSize = c_int
          (4 + 4 + strlen functionName + 4 + strlen userid + 4 + passwordLength + 4 +
          strlen targetIdentifier + 4 + strlen imageDeviceNumber)
      in smapi_build malloc inputSize
        [PUT_INT (inputSize - 4), put_string functionName, put_string_opt userid,
         put_buffer_opt passwordLength password, put_string targetIdentifier,
         put_string imageDeviceNumber]
        ''Virtual_Network_Adapter_Delete_Layout'')"

definition smVirtual_Network_Adapter_Delete_DM ::
  "(int \<Rightarrow> bool) \<Rightarrow> byte list \<Rightarrow> int \<Rightarrow> byte list \<Rightarrow>
    byte list \<Rightarrow> byte list \<Rightarrow> smapi_request res" where
  "smVirtual_Network_Adapter_Delete_DM malloc userid passwordLength password targetIdentifier imageDeviceNumber =
     (let functionName = c_literal ''Virtual_Network_Adapter_Delete_DM'';
        inputSize = c_int
          (4 + 4 + strlen functionName + 4 + strlen userid + 4 + passwordLength + 4 +
          strlen targetIdentifier + 4 + strlen imageDeviceNumber)
      in smapi_build malloc inputSize
        [PUT_INT (inputSize - 4), put_string functionName, put_string_opt userid,
         put_buffer_opt passwordLength password, put_string targetIdentifier,
         put_string imageDeviceNumber]
        ''Virtual_Network_Adapter_Delete_DM_Layout'')"

definition smVirtual_Network_Adapter_Disconnect ::
  "(int \<Rightarrow> bool) \<Rightarrow> byte list \<Rightarrow> int \<Rightarrow> byte list \<Rightarrow>
    byte list \<Rightarrow> byte list \<Rightarrow> smapi_request res" where
  "smVirtual_Network_Adapter_Disconnect malloc userid passwordLength password targetIdentifier imageDeviceNumber =
     (let functionName = c_literal ''Virtual_Network_Adapter_Disconnect'';
        inputSize = c_int
          (4 + 4 + strlen functionName + 4 + strlen userid + 4 + passwordLength + 4 +
          strlen targetIdentifier + 4 + strlen imageDeviceNumber)
      in smapi_build malloc inputSize
        [PUT_INT (inputSize - 4), put_string functionName, put_string_opt userid,
         put_buffer_opt passwordLength password, put_string targetIdentifier,
         put_string imageDeviceNumber]
        ''Virtual_Network_Adapter_Disconnect_Layout'')"

definition smVirtual_Network_Adapter_Disconnect_DM ::
  "(int \<Rightarrow> bool) \<Rightarrow> byte list \<Rightarrow> int \<Rightarrow> byte list \<Rightarrow>
    byte list \<Rightarrow> byte list \<Rightarrow> smapi_request res" where
  "smVirtual_Network_Adapter_Disconnect_DM malloc userid passwordLength password targetIdentifier imageDeviceNumber =
     (let functionName = c_literal ''Virtual_Network_Adapter_Disconnect_DM'';
        inputSize = c_int
          (4 + 4 + strlen functionName + 4 + strlen userid + 4 + passwordLength + 4 +
          strlen targetIdentifier + 4 + strlen imageDeviceNumber)
      in smapi_build malloc inputSize
        [PUT_INT (inputSize - 4), put_string functionName, put_string_opt userid,
         put_buffer_opt passwordLength password, put_string targetIdentifier,
         put_string imageDeviceNumber]
        ''Virtual_Network_Adapter_Disconnect_DM_Layout'')"

definition smVirtual_Network_Adapter_Query ::
  "(int \<Rightarrow> bool) \<Rightarrow> byte list \<Rightarrow> int \<Rightarrow> byte list \<Rightarrow>
    byte list \<Rightarrow> byte list \<Rightarrow> smapi_request res" where
  "smVirtual_Network_Adapter_Query malloc userid passwordLength password targetIdentifier imageDeviceNumber =
     (let functionName = c_literal ''Virtual_Network_Adapter_Query'';
        inputSize = c_int
          (4 + 4 + strlen functionName + 4 + strlen userid + 4 + passwordLength + 4 +
          strlen targetIdentifier + 4 + strlen imageDeviceNumber)
      in smapi_build malloc inputSize
        [PUT_INT (inputSize - 4), put_string functionName, put_string_opt userid,
         put_buffer_opt passwordLength password, put_string targetIdentifier,
         put_string imageDeviceNumber]
        ''Virtual_Network_Adapter_Query_Layout'')"

definition smVirtual_Network_LAN_Create ::
  "(int \<Rightarrow> bool) \<Rightarrow> byte list \<Rightarrow> int \<Rightarrow> byte list \<Rightarrow>
    byte list \<Rightarrow> byte list \<Rightarrow> byte list \<Rightarrow> byte \<Rightarrow>
    byte \<Rightarrow> smapi_request res" where
  "smVirtual_Network_LAN_Create malloc userid passwordLength password targetIdentifier lanName lanOwner lanType transportType =
     (let functionName = c_literal ''Virtual_Network_LAN_Create'';
        inputSize = c_int
          (4 + 4 + strlen functionName + 4 + strlen userid + 4 + passwordLength + 4 +
          strlen targetIdentifier + 4 + strlen lanName + 4 + strlen lanOwner + 1 + 1)
      in smapi_build malloc inputSize
        [PUT_INT (inputSize - 4), put_string functionName, put_string_opt userid,
         put_buffer_opt passwordLength password, put_string targetIdentifier,
         put_string lanName, put_string lanOwner, put_char lanType, put_char transportType]
        ''Virtual_Network_LAN_Create_Layout'')"

definition smVirtual_Network_LAN_Delete ::
  "(int \<Rightarrow> bool) \<Rightarrow> byte list \<Rightarrow> int \<Rightarrow> byte list \<Rightarrow>
    byte list \<Rightarrow> byte list \<Rightarrow> byte list \<Rightarrow> smapi_request res" where
  "smVirtual_Network_LAN_Delete malloc userid passwordLength password targetIdentifier lanName lanOwner =
     (let functionName = c_literal ''Virtual_Network_LAN_Delete'';
        inputSize = c_int
          (4 + 4 + strlen functionName + 4 + strlen userid + 4 + passwordLength + 4 +
          strlen targetIdentifier + 4 + strlen lanName + 4 + strlen lanOwner)
      in smapi_build malloc inputSize
        [PUT_INT (inputSize - 4), put_string functionName, put_string_opt userid,
         put_buffer_opt passwordLength password, put_string targetIdentifier,
         put_string lanName, put_string lanOwner]
        ''Virtual_Network_LAN_Delete_Layout'')"

definition smVirtual_Network_LAN_Query ::
  "(int \<Rightarrow> bool) \<Rightarrow> byte list \<Rightarrow> int \<Rightarrow> byte list \<Rightarrow>
    byte list \<Rightarrow> byte list \<Rightarrow> byte list \<Rightarrow> smapi_request res" where
  "smVirtual_Network_LAN_Query malloc userid passwordLength password targetIdentifier lanName lanOwner =
     (let functionName = c_literal ''Virtual_Network_LAN_Query'';
        inputSize = c_int
          (4 + 4 + strlen functionName + 4 + strlen userid + 4 + passwordLength + 4 +
          strlen targetIdentifier + 4 + strlen lanName + 4 + strlen lanOwner)
      in smapi_build malloc inputSize
        [PUT_INT (inputSize - 4), put_string functionName, put_string_opt userid,
         put_buffer_opt passwordLength password, put_string targetIdentifier,
         put_string lanName, put_string lanOwner]
        ''Virtual_Network_LAN_Query_Layout'')"

definition smVirtual_Network_OSA_Query ::
  "(int \<Rightarrow> bool) \<Rightarrow> byte list \<Rightarrow> int \<Rightarrow> byte list \<Rightarrow>
    byte list \<Rightarrow> smapi_request res" where
  "smVirtual_Network_OSA_Query malloc userid passwordLength password targetIdentifier =
     (let functionName = c_literal ''Virtual_Network_OSA_Query'';
        inputSize = c_int
          (4 + 4 + strlen functionName + 4 + strlen userid + 4 + passwordLength + 4 +
          strlen targetIdentifier)
      in smapi_build malloc inputSize
        [PUT_INT (inputSize - 4), put_string functionName, put_string_opt userid,
         put_buffer_opt passwordLength password, put_string targetIdentifier]
        ''Virtual_Network_OSA_Query_Layout'')"

definition smVirtual_Network_Vswitch_Create ::
  "(int \<Rightarrow> bool) \<Rightarrow> byte list \<Rightarrow> int \<Rightarrow> byte list \<Rightarrow>
    byte list \<Rightarrow> byte list \<Rightarrow> byte list \<Rightarrow> byte list \<Rightarrow>
    byte list \<Rightarrow> byte \<Rightarrow> int \<Rightarrow> byte \<Rightarrow> byte \<Rightarrow>
    int \<Rightarrow> byte \<Rightarrow> byte \<Rightarrow> byte list \<Rightarrow> byte list \<Rightarrow>
    byte list \<Rightarrow> byte list \<Rightarrow> byte list \<Rightarrow> byte list \<Rightarrow>
    byte list \<Rightarrow> byte list \<Rightarrow> byte list \<Rightarrow> byte list \<Rightarrow>
    byte \<Rightarrow> int \<Rightarrow> smapi_request res" where
  "smVirtual_Network_Vswitch_Create malloc userid passwordLength password targetIdentifier switchName realDeviceAddress portName
      controllerName connectionValue queueMemoryLimit routingValue transportType vlanId portType
      updateSystemConfigIndicator systemConfigName systemConfigType parmDiskOwner parmDiskNumber
      parmDiskPassword altSystemConfigName altSystemConfigType altParmDiskOwner
      altParmDiskNumber altParmDiskPassword gvrpValue nativeVlanId =
     (let functionName = c_literal ''Virtual_Network_Vswitch_Create'';
        inputSize = c_int
          (4 + 4 + strlen functionName + 4 + strlen userid + 4 + passwordLength + 4 +
          strlen targetIdentifier + 4 + strlen switchName + 4 + strlen realDeviceAddress + 4 +
          strlen portName + 4 + strlen controllerName + 1 + 4 + 1 + 1 + 4 + 1 + 1 + 4 +
          strlen systemConfigName + 4 + strlen systemConfigType + 4 + strlen parmDiskOwner + 4 +
          strlen parmDiskNumber + 4 + strlen parmDiskPassword + 4 + strlen altSystemConfigName +
          4 + strlen altSystemConfigType + 4 + strlen altParmDiskOwner + 4 +
          strlen altParmDiskNumber + 4 + strlen altParmDiskPassword + 1 + 4)
      in smapi_build malloc inputSize
        [PUT_INT (inputSize - 4), put_string functionName, put_string_opt userid,
         put_buffer_opt passwordLength password, put_string targetIdentifier,
         put_string switchName, put_string_opt realDeviceAddress, put_string_opt portName,
         put_string_opt controllerName, put_char connectionValue, PUT_INT queueMemoryLimit,
         put_char routingValue, put_char transportType, PUT_INT vlanId, put_char portType,
         put_char updateSystemConfigIndicator, put_string_opt systemConfigName,
         put_string_opt systemConfigType, put_string_opt parmDiskOwner,
         put_string_opt parmDiskNumber, put_string_opt parmDiskPassword,
         put_string_opt altSystemConfigName, put_string_opt altSystemConfigType,
         put_string_opt altParmDiskOwner, put_string_opt altParmDiskNumber,
         put_string_opt altParmDiskPassword, put_char gvrpValue, PUT_INT nativeVlanId]
        ''Virtual_Network_Vswitch_Create_Layout'')"

definition smVirtual_Network_Vswitch_Delete ::
  "(int \<Rightarrow> bool) \<Rightarrow> byte list \<Rightarrow> int \<Rightarrow> byte list \<Rightarrow>
    byte list \<Rightarrow> byte list \<Rightarrow> byte \<Rightarrow> byte list \<Rightarrow>
    byte list \<Rightarrow> byte list \<Rightarrow> byte list \<Rightarrow> byte list \<Rightarrow>
    byte list \<Rightarrow> byte list \<Rightarrow> byte list \<Rightarrow> byte list \<Rightarrow>
    byte list \<Rightarrow> smapi_request res" where
  "smVirtual_Network_Vswitch_Delete malloc userid passwordLength password targetIdentifier switchName updateSystemConfigIndicator
      systemConfigName systemConfigType parmDiskOwner parmDiskNumber parmDiskPassword
      altSystemConfigName altSystemConfigType altParmDiskOwner altParmDiskNumber
      altParmDiskPassword =
     (let functionName = c_literal ''Virtual_Network_Vswitch_Delete'';
        inputSize = c_int
          (4 + 4 + strlen functionName + 4 + strlen userid + 4 + passwordLength + 4 +
          strlen targetIdentifier + 4 + strlen switchName + 1 + 4 + strlen systemConfigName +
          4 + strlen systemConfigType + 4 + strlen parmDiskOwner + 4 + strlen parmDiskNumber +
          4 + strlen parmDiskPassword + 4 + strlen altSystemConfigName + 4 +
          strlen altSystemConfigType + 4 + strlen altParmDiskOwner + 4 +
          strlen altParmDiskNumber + 4 + strlen altParmDiskPassword)
      in smapi_build malloc inputSize
        [PUT_INT (inputSize - 4), put_string functionName, put_string_opt userid,
         put_buffer_opt passwordLength password, put_string targetIdentifier,
         put_string switchName, put_char updateSystemConfigIndicator,
         put_string_opt systemConfigName, put_string_opt systemConfigType,
         put_string_opt parmDiskOwner, put_string_opt parmDiskNumber,
         put_string_opt parmDiskPassword, put_string_opt altSystemConfigName,
         put_string_opt altSystemConfigType, put_string_opt altParmDiskOwner,
         put_string_opt altParmDiskNumber, put_string_opt altParmDiskPassword]
        ''Virtual_Network_Vswitch_Delete_Layout'')"

definition smVirtual_Network_Vswitch_Query ::
  "(int \<Rightarrow> bool) \<Rightarrow> byte list \<Rightarrow> int \<Rightarrow> byte list \<Rightarrow>
    byte list \<Rightarrow> byte list \<Rightarrow> smapi_request res" where
  "smVirtual_Network_Vswitch_Query malloc userid passwordLength password targetIdentifier switchName =
     (let functionName = c_literal ''Virtual_Network_Vswitch_Query'';
        inputSize = c_int
          (4 + 4 + strlen functionName + 4 + strlen userid + 4 + passwordLength + 4 +
          strlen targetIdentifier + 4 + strlen switchName)
      in smapi_build malloc inputSize
        [PUT_INT (inputSize - 4), put_string functionName, put_string_opt userid,
         put_buffer_opt passwordLength password, put_string targetIdentifier,
         put_string switchName]
        ''Virtual_Network_Vswitch_Query_Layout'')"

definition smVirtual_Network_Vswitch_Set ::
  "(int \<Rightarrow> bool) \<Rightarrow> byte list \<Rightarrow> int \<Rightarrow> byte list \<Rightarrow>
    byte list \<Rightarrow> byte list \<Rightarrow> byte list \<Rightarrow> byte list \<Rightarrow>
    byte list \<Rightarrow> byte list \<Rightarrow> byte list \<Rightarrow> byte list \<Rightarrow>
    byte \<Rightarrow> int \<Rightarrow> byte \<Rightarrow> byte \<Rightarrow> byte \<Rightarrow>
    byte list \<Rightarrow> byte list \<Rightarrow> byte list \<Rightarrow> byte list \<Rightarrow>
    byte list \<Rightarrow> byte list \<Rightarrow> byte list \<Rightarrow> byte list \<Rightarrow>
    byte list \<Rightarrow> byte list \<Rightarrow> byte \<Rightarrow> byte list \<Rightarrow>
    smapi_request res" where
  "smVirtual_Network_Vswitch_Set malloc userid passwordLength password targetIdentifier switchName grantUserid userVlanId
      revokeUserid realDeviceAddress portName controllerName connectionValue queueMemoryLimit
      routingValue portType updateSystemConfigIndicator systemConfigName systemConfigType
      parmDiskOwner parmDiskNumber parmDiskPassword altSystemConfigName altSystemConfigType
      altParmDiskOwner altParmDiskNumber altParmDiskPassword gvrpValue macId =
     (let functionName = c_literal ''Virtual_Network_Vswitch_Set'';
        inputSize = c_int
          (4 + 4 + strlen functionName + 4 + strlen userid + 4 + passwordLength + 4 +
          strlen targetIdentifier + 4 + strlen switchName + 4 + strlen grantUserid + 4 +
          strlen userVlanId + 4 + strlen revokeUserid + 4 + strlen realDeviceAddress + 4 +
          strlen portName + 4 + strlen controllerName + 1 + 4 + 1 + 1 + 1 + 4 +
          strlen systemConfigName + 4 + strlen systemConfigType + 4 + strlen parmDiskOwner + 4 +
          strlen parmDiskNumber + 4 + strlen parmDiskPassword + 4 + strlen altSystemConfigName +
          4 + strlen altSystemConfigType + 4 + strlen altParmDiskOwner + 4 +
          strlen altParmDiskNumber + 4 + strlen altParmDiskPassword + 1 + 4 + strlen macId)
      in smapi_build malloc inputSize
        [PUT_INT (inputSize - 4), put_string functionName, put_string_opt userid,
         put_buffer_opt passwordLength password, put_string targetIdentifier,
         put_string switchName, put_string_opt grantUserid, put_string_opt userVlanId,
         put_string_opt revokeUserid, put_string_opt realDeviceAddress, put_string_opt portName,
         put_string_opt controllerName, put_char connectionValue, PUT_INT queueMemoryLimit,
         put_char routingValue, put_char portType, put_char updateSystemConfigIndicator,
         put_string_opt systemConfigName, put_string_opt systemConfigType,
         put_string_opt parmDiskOwner, put_string_opt parmDiskNumber,
         put_string_opt parmDiskPassword, put_string_opt altSystemConfigName,
         put_string_opt altSystemConfigType, put_string_opt altParmDiskOwner,
         put_string_opt altParmDiskNumber, put_string_opt altParmDiskPassword,
         put_char gvrpValue, put_string_opt macId]
        ''Virtual_Network_Vswitch_Set_Layout'')"

section \<open>What they write\<close>

definition smVirtual_Channel_Connection_Create_api :: smapi_api where
  "smVirtual_Channel_Connection_Create_api =
     \<lparr>api_name = ''Virtual_Channel_Connection_Create'',
      api_kinds = [KStr, KBuf, KStr, KStr, KStr, KStr],
      api_table = ''Virtual_Channel_Connection_Create_Layout'',
      api_build = (\<lambda>malloc args. smVirtual_Channel_Connection_Create malloc
        (arg_bytes (args ! 0)) (arg_num (args ! 1)) (arg_bytes (args ! 1))
        (arg_bytes (args ! 2)) (arg_bytes (args ! 3)) (arg_bytes (args ! 4))
        (arg_bytes (args ! 5)))\<rparr>"

lemma smVirtual_Channel_Connection_Create_api_ok [api_rules]: "api_ok smVirtual_Channel_Connection_Create_api"
  by (rule api_okI) (clarsimp simp: smVirtual_Channel_Connection_Create_api_def smVirtual_Channel_Connection_Create_def api_proof)

definition smVirtual_Channel_Connection_Create_DM_api :: smapi_api where
  "smVirtual_Channel_Connection_Create_DM_api =
     \<lparr>api_name = ''Virtual_Channel_Connection_Create_DM'',
      api_kinds = [KStr, KBuf, KStr, KStr, KStr],
      api_table = ''Virtual_Channel_Connection_Create_DM_Layout'',
      api_build = (\<lambda>malloc args. smVirtual_Channel_Connection_Create_DM malloc
        (arg_bytes (args ! 0)) (arg_num (args ! 1)) (arg_bytes (args ! 1))
        (arg_bytes (args ! 2)) (arg_bytes (args ! 3)) (arg_bytes (args ! 4)))\<rparr>"

lemma smVirtual_Channel_Connection_Create_DM_api_ok [api_rules]: "api_ok smVirtual_Channel_Connection_Create_DM_api"
  by (rule api_okI) (clarsimp simp: smVirtual_Channel_Connection_Create_DM_api_def smVirtual_Channel_Connection_Create_DM_def api_proof)

definition smVirtual_Channel_Connection_Delete_api :: smapi_api where
  "smVirtual_Channel_Connection_Delete_api =
     \<lparr>api_name = ''Virtual_Channel_Connection_Delete'',
      api_kinds = [KStr, KBuf, KStr, KStr],
      api_table = ''Virtual_Channel_Connection_Delete_Layout'',
      api_build = (\<lambda>malloc args. smVirtual_Channel_Connection_Delete malloc
        (arg_bytes (args ! 0)) (arg_num (args ! 1)) (arg_bytes (args ! 1))
        (arg_bytes (args ! 2)) (arg_bytes (args ! 3)))\<rparr>"

lemma smVirtual_Channel_Connection_Delete_api_ok [api_rules]: "api_ok smVirtual_Channel_Connection_Delete_api"
  by (rule api_okI) (clarsimp simp: smVirtual_Channel_Connection_Delete_api_def smVirtual_Channel_Connection_Delete_def api_proof)

definition smVirtual_Channel_Connection_Delete_DM_api :: smapi_api where
  "smVirtual_Channel_Connection_Delete_DM_api =
     \<lparr>api_name = ''Virtual_Channel_Connection_Delete_DM'',
      api_kinds = [KStr, KBuf, KStr, KStr],
      api_table = ''Virtual_Channel_Connection_Delete_DM_Layout'',
      api_build = (\<lambda>malloc args. smVirtual_Channel_Connection_Delete_DM malloc
        (arg_bytes (args ! 0)) (arg_num (args ! 1)) (arg_bytes (args ! 1))
        (arg_bytes (args ! 2)) (arg_bytes (args ! 3)))\<rparr>"

lemma smVirtual_Channel_Connection_Delete_DM_api_ok [api_rules]: "api_ok smVirtual_Channel_Connection_Delete_DM_api"
  by (rule api_okI) (clarsimp simp: smVirtual_Channel_Connection_Delete_DM_api_def smVirtual_Channel_Connection_Delete_DM_def api_proof)

definition smVirtual_Network_Adapter_Connect_LAN_api :: smapi_api where
  "smVirtual_Network_Adapter_Connect_LAN_api =
     \<lparr>api_name = ''Virtual_Network_Adapter_Connect_LAN'',
      api_kinds = [KStr, KBuf, KStr, KStr, KStr, KStr],
      api_table = ''Virtual_Network_Adapter_Connect_LAN_Layout'',
      api_build = (\<lambda>malloc args. smVirtual_Network_Adapter_Connect_LAN malloc
        (arg_bytes (args ! 0)) (arg_num (args ! 1)) (arg_bytes (args ! 1))
        (arg_bytes (args ! 2)) (arg_bytes (args ! 3)) (arg_bytes (args ! 4))
        (arg_bytes (args ! 5)))\<rparr>"

lemma smVirtual_Network_Adapter_Connect_LAN_api_ok [api_rules]: "api_ok smVirtual_Network_Adapter_Connect_LAN_api"
  by (rule api_okI) (clarsimp simp: smVirtual_Network_Adapter_Connect_LAN_api_def smVirtual_Network_Adapter_Connect_LAN_def api_proof)

definition smVirtual_Network_Adapter_Connect_LAN_DM_api :: smapi_api where
  "smVirtual_Network_Adapter_Connect_LAN_DM_api =
     \<lparr>api_name = ''Virtual_Network_Adapter_Connect_LAN_DM'',
      api_kinds = [KStr, KBuf, KStr, KStr, KStr, KStr],
      api_table = ''Virtual_Network_Adapter_Connect_LAN_DM_Layout'',
      api_build = (\<lambda>malloc args. smVirtual_Network_Adapter_Connect_LAN_DM malloc
        (arg_bytes (args ! 0)) (arg_num (args ! 1)) (arg_bytes (args ! 1))
        (arg_bytes (args ! 2)) (arg_bytes (args ! 3)) (arg_bytes (args ! 4))
        (arg_bytes (args ! 5)))\<rparr>"

lemma smVirtual_Network_Adapter_Connect_LAN_DM_api_ok [api_rules]: "api_ok smVirtual_Network_Adapter_Connect_LAN_DM_api"
  by (rule api_okI) (clarsimp simp: smVirtual_Network_Adapter_Connect_LAN_DM_api_def smVirtual_Network_Adapter_Connect_LAN_DM_def api_proof)

definition smVirtual_Network_Adapter_Connect_Vswitch_api :: smapi_api where
  "smVirtual_Network_Adapter_Connect_Vswitch_api =
     \<lparr>api_name = ''Virtual_Network_Adapter_Connect_Vswitch'',
      api_kinds = [KStr, KBuf, KStr, KStr, KStr],
      api_table = ''Virtual_Network_Adapter_Connect_Vswitch_Layout'',
      api_build = (\<lambda>malloc args. smVirtual_Network_Adapter_Connect_Vswitch malloc
        (arg_bytes (args ! 0)) (arg_num (args ! 1)) (arg_bytes (args ! 1))
        (arg_bytes (args ! 2)) (arg_bytes (args ! 3)) (arg_bytes (args ! 4)))\<rparr>"

lemma smVirtual_Network_Adapter_Connect_Vswitch_api_ok [api_rules]: "api_ok smVirtual_Network_Adapter_Connect_Vswitch_api"
  by (rule api_okI) (clarsimp simp: smVirtual_Network_Adapter_Connect_Vswitch_api_def smVirtual_Network_Adapter_Connect_Vswitch_def api_proof)

definition smVirtual_Network_Adapter_Connect_Vswitch_DM_api :: smapi_api where
  "smVirtual_Network_Adapter_Connect_Vswitch_DM_api =
     \<lparr>api_name = ''Virtual_Network_Adapter_Connect_Vswitch_DM'',
      api_kinds = [KStr, KBuf, KStr, KStr, KStr],
      api_table = ''Virtual_Network_Adapter_Connect_Vswitch_DM_Layout'',
      api_build = (\<lambda>malloc args. smVirtual_Network_Adapter_Connect_Vswitch_DM malloc
        (arg_bytes (args ! 0)) (arg_num (args ! 1)) (arg_bytes (args ! 1))
        (arg_bytes (args ! 2)) (arg_bytes (args ! 3)) (arg_bytes (args ! 4)))\<rparr>"

lemma smVirtual_Network_Adapter_Connect_Vswitch_DM_api_ok [api_rules]: "api_ok smVirtual_Network_Adapter_Connect_Vswitch_DM_api"
  by (rule api_okI) (clarsimp simp: smVirtual_Network_Adapter_Connect_Vswitch_DM_api_def smVirtual_Network_Adapter_Connect_Vswitch_DM_def api_proof)

definition smVirtual_Network_Adapter_Create_api :: smapi_api where
  "smVirtual_Network_Adapter_Create_api =
     \<lparr>api_name = ''Virtual_Network_Adapter_Create'',
      api_kinds = [KStr, KBuf, KStr, KStr, KChr, KNum, KStr],
      api_table = ''Virtual_Network_Adapter_Create_Layout'',
      api_build = (\<lambda>malloc args. smVirtual_Network_Adapter_Create malloc
        (arg_bytes (args ! 0)) (arg_num (args ! 1)) (arg_bytes (args ! 1))
        (arg_bytes (args ! 2)) (arg_bytes (args ! 3)) (arg_chr (args ! 4)) (arg_num (args ! 5))
        (arg_bytes (args ! 6)))\<rparr>"

lemma smVirtual_Network_Adapter_Create_api_ok [api_rules]: "api_ok smVirtual_Network_Adapter_Create_api"
  by (rule api_okI) (clarsimp simp: smVirtual_Network_Adapter_Create_api_def smVirtual_Network_Adapter_Create_def api_proof)

definition smVirtual_Network_Adapter_Create_DM_api :: smapi_api where
  "smVirtual_Network_Adapter_Create_DM_api =
     \<lparr>api_name = ''Virtual_Network_Adapter_Create_DM'',
      api_kinds = [KStr, KBuf, KStr, KStr, KChr, KNum, KStr, KStr],
      api_table = ''Virtual_Network_Adapter_Create_DM_Layout'',
      api_build = (\<lambda>malloc args. smVirtual_Network_Adapter_Create_DM malloc
        (arg_bytes (args ! 0)) (arg_num (args ! 1)) (arg_bytes (args ! 1))
        (arg_bytes (args ! 2)) (arg_bytes (args ! 3)) (arg_chr (args ! 4)) (arg_num (args ! 5))
        (arg_bytes (args ! 6)) (arg_bytes (args ! 7)))\<rparr>"

lemma smVirtual_Network_Adapter_Create_DM_api_ok [api_rules]: "api_ok smVirtual_Network_Adapter_Create_DM_api"
  by (rule api_okI) (clarsimp simp: smVirtual_Network_Adapter_Create_DM_api_def smVirtual_Network_Adapter_Create_DM_def api_proof)

definition smVirtual_Network_Adapter_Delete_api :: smapi_api where
  "smVirtual_Network_Adapter_Delete_api =
     \<lparr>api_name = ''Virtual_Network_Adapter_Delete'',
      api_kinds = [KStr, KBuf, KStr, KStr],
      api_table = ''Virtual_Network_Adapter_Delete_Layout'',
      api_build = (\<lambda>malloc args. smVirtual_Network_Adapter_Delete malloc
        (arg_bytes (args ! 0)) (arg_num (args ! 1)) (arg_bytes (args ! 1))
        (arg_bytes (args ! 2)) (arg_bytes (args ! 3)))\<rparr>"

lemma smVirtual_Network_Adapter_Delete_api_ok [api_rules]: "api_ok smVirtual_Network_Adapter_Delete_api"
  by (rule api_okI) (clarsimp simp: smVirtual_Network_Adapter_Delete_api_def smVirtual_Network_Adapter_Delete_def api_proof)

definition smVirtual_Network_Adapter_Delete_DM_api :: smapi_api where
  "smVirtual_Network_Adapter_Delete_DM_api =
     \<lparr>api_name = ''Virtual_Network_Adapter_Delete_DM'',
      api_kinds = [KStr, KBuf, KStr, KStr],
      api_table = ''Virtual_Network_Adapter_Delete_DM_Layout'',
      api_build = (\<lambda>malloc args. smVirtual_Network_Adapter_Delete_DM malloc
        (arg_bytes (args ! 0)) (arg_num (args ! 1)) (arg_bytes (args ! 1))
        (arg_bytes (args ! 2)) (arg_bytes (args ! 3)))\<rparr>"

lemma smVirtual_Network_Adapter_Delete_DM_api_ok [api_rules]: "api_ok smVirtual_Network_Adapter_Delete_DM_api"
  by (rule api_okI) (clarsimp simp: smVirtual_Network_Adapter_Delete_DM_api_def smVirtual_Network_Adapter_Delete_DM_def api_proof)

definition smVirtual_Network_Adapter_Disconnect_api :: smapi_api where
  "smVirtual_Network_Adapter_Disconnect_api =
     \<lparr>api_name = ''Virtual_Network_Adapter_Disconnect'',
      api_kinds = [KStr, KBuf, KStr, KStr],
      api_table = ''Virtual_Network_Adapter_Disconnect_Layout'',
      api_build = (\<lambda>malloc args. smVirtual_Network_Adapter_Disconnect malloc
        (arg_bytes (args ! 0)) (arg_num (args ! 1)) (arg_bytes (args ! 1))
        (arg_bytes (args ! 2)) (arg_bytes (args ! 3)))\<rparr>"

lemma smVirtual_Network_Adapter_Disconnect_api_ok [api_rules]: "api_ok smVirtual_Network_Adapter_Disconnect_api"
  by (rule api_okI) (clarsimp simp: smVirtual_Network_Adapter_Disconnect_api_def smVirtual_Network_Adapter_Disconnect_def api_proof)

definition smVirtual_Network_Adapter_Disconnect_DM_api :: smapi_api where
  "smVirtual_Network_Adapter_Disconnect_DM_api =
     \<lparr>api_name = ''Virtual_Network_Adapter_Disconnect_DM'',
      api_kinds = [KStr, KBuf, KStr, KStr],
      api_table = ''Virtual_Network_Adapter_Disconnect_DM_Layout'',
      api_build = (\<lambda>malloc args. smVirtual_Network_Adapter_Disconnect_DM malloc
        (arg_bytes (args ! 0)) (arg_num (args ! 1)) (arg_bytes (args ! 1))
        (arg_bytes (args ! 2)) (arg_bytes (args ! 3)))\<rparr>"

lemma smVirtual_Network_Adapter_Disconnect_DM_api_ok [api_rules]: "api_ok smVirtual_Network_Adapter_Disconnect_DM_api"
  by (rule api_okI) (clarsimp simp: smVirtual_Network_Adapter_Disconnect_DM_api_def smVirtual_Network_Adapter_Disconnect_DM_def api_proof)

definition smVirtual_Network_Adapter_Query_api :: smapi_api where
  "smVirtual_Network_Adapter_Query_api =
     \<lparr>api_name = ''Virtual_Network_Adapter_Query'',
      api_kinds = [KStr, KBuf, KStr, KStr],
      api_table = ''Virtual_Network_Adapter_Query_Layout'',
      api_build = (\<lambda>malloc args. smVirtual_Network_Adapter_Query malloc
        (arg_bytes (args ! 0)) (arg_num (args ! 1)) (arg_bytes (args ! 1))
        (arg_bytes (args ! 2)) (arg_bytes (args ! 3)))\<rparr>"

lemma smVirtual_Network_Adapter_Query_api_ok [api_rules]: "api_ok smVirtual_Network_Adapter_Query_api"
  by (rule api_okI) (clarsimp simp: smVirtual_Network_Adapter_Query_api_def smVirtual_Network_Adapter_Query_def api_proof)

definition smVirtual_Network_LAN_Create_api :: smapi_api where
  "smVirtual_Network_LAN_Create_api =
     \<lparr>api_name = ''Virtual_Network_LAN_Create'',
      api_kinds = [KStr, KBuf, KStr, KStr, KStr, KChr, KChr],
      api_table = ''Virtual_Network_LAN_Create_Layout'',
      api_build = (\<lambda>malloc args. smVirtual_Network_LAN_Create malloc
        (arg_bytes (args ! 0)) (arg_num (args ! 1)) (arg_bytes (args ! 1))
        (arg_bytes (args ! 2)) (arg_bytes (args ! 3)) (arg_bytes (args ! 4))
        (arg_chr (args ! 5)) (arg_chr (args ! 6)))\<rparr>"

lemma smVirtual_Network_LAN_Create_api_ok [api_rules]: "api_ok smVirtual_Network_LAN_Create_api"
  by (rule api_okI) (clarsimp simp: smVirtual_Network_LAN_Create_api_def smVirtual_Network_LAN_Create_def api_proof)

definition smVirtual_Network_LAN_Delete_api :: smapi_api where
  "smVirtual_Network_LAN_Delete_api =
     \<lparr>api_name = ''Virtual_Network_LAN_Delete'',
      api_kinds = [KStr, KBuf, KStr, KStr, KStr],
      api_table = ''Virtual_Network_LAN_Delete_Layout'',
      api_build = (\<lambda>malloc args. smVirtual_Network_LAN_Delete malloc
        (arg_bytes (args ! 0)) (arg_num (args ! 1)) (arg_bytes (args ! 1))
        (arg_bytes (args ! 2)) (arg_bytes (args ! 3)) (arg_bytes (args ! 4)))\<rparr>"

lemma smVirtual_Network_LAN_Delete_api_ok [api_rules]: "api_ok smVirtual_Network_LAN_Delete_api"
  by (rule api_okI) (clarsimp simp: smVirtual_Network_LAN_Delete_api_def smVirtual_Network_LAN_Delete_def api_proof)

definition smVirtual_Network_LAN_Query_api :: smapi_api where
  "smVirtual_Network_LAN_Query_api =
     \<lparr>api_name = ''Virtual_Network_LAN_Query'',
      api_kinds = [KStr, KBuf, KStr, KStr, KStr],
      api_table = ''Virtual_Network_LAN_Query_Layout'',
      api_build = (\<lambda>malloc args. smVirtual_Network_LAN_Query malloc
        (arg_bytes (args ! 0)) (arg_num (args ! 1)) (arg_bytes (args ! 1))
        (arg_bytes (args ! 2)) (arg_bytes (args ! 3)) (arg_bytes (args ! 4)))\<rparr>"

lemma smVirtual_Network_LAN_Query_api_ok [api_rules]: "api_ok smVirtual_Network_LAN_Query_api"
  by (rule api_okI) (clarsimp simp: smVirtual_Network_LAN_Query_api_def smVirtual_Network_LAN_Query_def api_proof)

definition smVirtual_Network_OSA_Query_api :: smapi_api where
  "smVirtual_Network_OSA_Query_api =
     \<lparr>api_name = ''Virtual_Network_OSA_Query'',
      api_kinds = [KStr, KBuf, KStr],
      api_table = ''Virtual_Network_OSA_Query_Layout'',
      api_build = (\<lambda>malloc args. smVirtual_Network_OSA_Query malloc
        (arg_bytes (args ! 0)) (arg_num (args ! 1)) (arg_bytes (args ! 1))
        (arg_bytes (args ! 2)))\<rparr>"

lemma smVirtual_Network_OSA_Query_api_ok [api_rules]: "api_ok smVirtual_Network_OSA_Query_api"
  by (rule api_okI) (clarsimp simp: smVirtual_Network_OSA_Query_api_def smVirtual_Network_OSA_Query_def api_proof)

definition smVirtual_Network_Vswitch_Create_api :: smapi_api where
  "smVirtual_Network_Vswitch_Create_api =
     \<lparr>api_name = ''Virtual_Network_Vswitch_Create'',
      api_kinds = [KStr, KBuf, KStr, KStr, KStr, KStr, KStr, KChr, KNum, KChr, KChr, KNum, KChr,
                   KChr, KStr, KStr, KStr, KStr, KStr, KStr, KStr, KStr, KStr, KStr, KChr, KNum],
      api_table = ''Virtual_Network_Vswitch_Create_Layout'',
      api_build = (\<lambda>malloc args. smVirtual_Network_Vswitch_Create malloc
        (arg_bytes (args ! 0)) (arg_num (args ! 1)) (arg_bytes (args ! 1))
        (arg_bytes (args ! 2)) (arg_bytes (args ! 3)) (arg_bytes (args ! 4))
        (arg_bytes (args ! 5)) (arg_bytes (args ! 6)) (arg_chr (args ! 7)) (arg_num (args ! 8))
        (arg_chr (args ! 9)) (arg_chr (args ! 10)) (arg_num (args ! 11)) (arg_chr (args ! 12))
        (arg_chr (args ! 13)) (arg_bytes (args ! 14)) (arg_bytes (args ! 15))
        (arg_bytes (args ! 16)) (arg_bytes (args ! 17)) (arg_bytes (args ! 18))
        (arg_bytes (args ! 19)) (arg_bytes (args ! 20)) (arg_bytes (args ! 21))
        (arg_bytes (args ! 22)) (arg_bytes (args ! 23)) (arg_chr (args ! 24))
        (arg_num (args ! 25)))\<rparr>"

lemma smVirtual_Network_Vswitch_Create_api_ok [api_rules]: "api_ok smVirtual_Network_Vswitch_Create_api"
  by (rule api_okI) (clarsimp simp: smVirtual_Network_Vswitch_Create_api_def smVirtual_Network_Vswitch_Create_def api_proof)

definition smVirtual_Network_Vswitch_Delete_api :: smapi_api where
  "smVirtual_Network_Vswitch_Delete_api =
     \<lparr>api_name = ''Virtual_Network_Vswitch_Delete'',
      api_kinds = [KStr, KBuf, KStr, KStr, KChr, KStr, KStr, KStr, KStr, KStr, KStr, KStr, KStr,
                   KStr, KStr],
      api_table = ''Virtual_Network_Vswitch_Delete_Layout'',
      api_build = (\<lambda>malloc args. smVirtual_Network_Vswitch_Delete malloc
        (arg_bytes (args ! 0)) (arg_num (args ! 1)) (arg_bytes (args ! 1))
        (arg_bytes (args ! 2)) (arg_bytes (args ! 3)) (arg_chr (args ! 4))
        (arg_bytes (args ! 5)) (arg_bytes (args ! 6)) (arg_bytes (args ! 7))
        (arg_bytes (args ! 8)) (arg_bytes (args ! 9)) (arg_bytes (args ! 10))
        (arg_bytes (args ! 11)) (arg_bytes (args ! 12)) (arg_bytes (args ! 13))
        (arg_bytes (args ! 14)))\<rparr>"

lemma smVirtual_Network_Vswitch_Delete_api_ok [api_rules]: "api_ok smVirtual_Network_Vswitch_Delete_api"
  by (rule api_okI) (clarsimp simp: smVirtual_Network_Vswitch_Delete_api_def smVirtual_Network_Vswitch_Delete_def api_proof)

definition smVirtual_Network_Vswitch_Query_api :: smapi_api where
  "smVirtual_Network_Vswitch_Query_api =
     \<lparr>api_name = ''Virtual_Network_Vswitch_Query'',
      api_kinds = [KStr, KBuf, KStr, KStr],
      api_table = ''Virtual_Network_Vswitch_Query_Layout'',
      api_build = (\<lambda>malloc args. smVirtual_Network_Vswitch_Query malloc
        (arg_bytes (args ! 0)) (arg_num (args ! 1)) (arg_bytes (args ! 1))
        (arg_bytes (args ! 2)) (arg_bytes (args ! 3)))\<rparr>"

lemma smVirtual_Network_Vswitch_Query_api_ok [api_rules]: "api_ok smVirtual_Network_Vswitch_Query_api"
  by (rule api_okI) (clarsimp simp: smVirtual_Network_Vswitch_Query_api_def smVirtual_Network_Vswitch_Query_def api_proof)

definition smVirtual_Network_Vswitch_Set_api :: smapi_api where
  "smVirtual_Network_Vswitch_Set_api =
     \<lparr>api_name = ''Virtual_Network_Vswitch_Set'',
      api_kinds = [KStr, KBuf, KStr, KStr, KStr, KStr, KStr, KStr, KStr, KStr, KChr, KNum, KChr,
                   KChr, KChr, KStr, KStr, KStr, KStr, KStr, KStr, KStr, KStr, KStr, KStr, KChr,
                   KStr],
      api_table = ''Virtual_Network_Vswitch_Set_Layout'',
      api_build = (\<lambda>malloc args. smVirtual_Network_Vswitch_Set malloc
        (arg_bytes (args ! 0)) (arg_num (args ! 1)) (arg_bytes (args ! 1))
        (arg_bytes (args ! 2)) (arg_bytes (args ! 3)) (arg_bytes (args ! 4))
        (arg_bytes (args ! 5)) (arg_bytes (args ! 6)) (arg_bytes (args ! 7))
        (arg_bytes (args ! 8)) (arg_bytes (args ! 9)) (arg_chr (args ! 10))
        (arg_num (args ! 11)) (arg_chr (args ! 12)) (arg_chr (args ! 13)) (arg_chr (args ! 14))
        (arg_bytes (args ! 15)) (arg_bytes (args ! 16)) (arg_bytes (args ! 17))
        (arg_bytes (args ! 18)) (arg_bytes (args ! 19)) (arg_bytes (args ! 20))
        (arg_bytes (args ! 21)) (arg_bytes (args ! 22)) (arg_bytes (args ! 23))
        (arg_bytes (args ! 24)) (arg_chr (args ! 25)) (arg_bytes (args ! 26)))\<rparr>"

lemma smVirtual_Network_Vswitch_Set_api_ok [api_rules]: "api_ok smVirtual_Network_Vswitch_Set_api"
  by (rule api_okI) (clarsimp simp: smVirtual_Network_Vswitch_Set_api_def smVirtual_Network_Vswitch_Set_def api_proof)

definition requests_network :: "smapi_api list" where
  "requests_network =
     [smVirtual_Channel_Connection_Create_api, smVirtual_Channel_Connection_Create_DM_api, smVirtual_Channel_Connection_Delete_api,
      smVirtual_Channel_Connection_Delete_DM_api, smVirtual_Network_Adapter_Connect_LAN_api, smVirtual_Network_Adapter_Connect_LAN_DM_api,
      smVirtual_Network_Adapter_Connect_Vswitch_api, smVirtual_Network_Adapter_Connect_Vswitch_DM_api, smVirtual_Network_Adapter_Create_api,
      smVirtual_Network_Adapter_Create_DM_api, smVirtual_Network_Adapter_Delete_api, smVirtual_Network_Adapter_Delete_DM_api,
      smVirtual_Network_Adapter_Disconnect_api, smVirtual_Network_Adapter_Disconnect_DM_api, smVirtual_Network_Adapter_Query_api,
      smVirtual_Network_LAN_Create_api, smVirtual_Network_LAN_Delete_api, smVirtual_Network_LAN_Query_api,
      smVirtual_Network_OSA_Query_api, smVirtual_Network_Vswitch_Create_api, smVirtual_Network_Vswitch_Delete_api,
      smVirtual_Network_Vswitch_Query_api, smVirtual_Network_Vswitch_Set_api]"

lemma requests_network_ok: "list_all api_ok requests_network"
  by (simp add: requests_network_def api_rules)

end
