(* ===== verification/Requests_System.thy ===== *)
theory Requests_System
  imports Smapi_Request
begin

text \<open>
  The request builders of profiles, prototypes, name lists, shared memory, directory manager and system, one definition per
  \<^verbatim>\<open>src/vmapi*.c\<close> file, named after its C function: the sum that gives \<open>inputSize\<close>, and the statements
  that fill the buffer in their order.  Each is described by an \<open>api\<close> record and shown to write
  its arguments.
\<close>

section \<open>The builders\<close>

definition smAsynchronous_Notification_Disable_DM ::
  "(int \<Rightarrow> bool) \<Rightarrow> byte list \<Rightarrow> int \<Rightarrow> byte list \<Rightarrow>
    byte list \<Rightarrow> byte \<Rightarrow> byte \<Rightarrow> int \<Rightarrow> byte list \<Rightarrow>
    byte \<Rightarrow> int \<Rightarrow> byte list \<Rightarrow> smapi_request res" where
  "smAsynchronous_Notification_Disable_DM malloc userid passwordLength password targetIdentifier entity_type communication_type port_number
      ip_address encoding subscriber_data_length subscriber_data =
     (let functionName = c_literal ''Asynchronous_Notification_Disable_DM'';
        inputSize = c_int
          (4 + 4 + strlen functionName + 4 + strlen userid + 4 + passwordLength + 4 +
          strlen targetIdentifier + 1 + 1 + 4 + 4 + strlen ip_address + 1 + 4 +
          subscriber_data_length)
      in smapi_build malloc inputSize
        [PUT_INT (inputSize - 4), put_string functionName, put_string_opt userid,
         put_buffer_opt passwordLength password, put_string targetIdentifier,
         put_char entity_type, put_char communication_type, PUT_INT port_number,
         put_string ip_address, put_char encoding,
         put_buffer subscriber_data_length subscriber_data]
        ''Asynchronous_Notification_Disable_DM_Layout'')"

definition smAsynchronous_Notification_Enable_DM ::
  "(int \<Rightarrow> bool) \<Rightarrow> byte list \<Rightarrow> int \<Rightarrow> byte list \<Rightarrow>
    byte list \<Rightarrow> byte \<Rightarrow> byte \<Rightarrow> byte \<Rightarrow> int \<Rightarrow>
    byte list \<Rightarrow> byte \<Rightarrow> int \<Rightarrow> byte list \<Rightarrow> smapi_request res" where
  "smAsynchronous_Notification_Enable_DM malloc userid passwordLength password targetIdentifier entity_type subscription_type
      communication_type port_number ip_address encoding subscriber_data_length subscriber_data =
     (let functionName = c_literal ''Asynchronous_Notification_Enable_DM'';
        inputSize = c_int
          (4 + 4 + strlen functionName + 4 + strlen userid + 4 + passwordLength + 4 +
          strlen targetIdentifier + 1 + 1 + 1 + 4 + 4 + strlen ip_address + 1 + 4 +
          subscriber_data_length)
      in smapi_build malloc inputSize
        [PUT_INT (inputSize - 4), put_string functionName, put_string_opt userid,
         put_buffer_opt passwordLength password, put_string targetIdentifier,
         put_char entity_type, put_char subscription_type, put_char communication_type,
         PUT_INT port_number, put_string ip_address, put_char encoding,
         put_buffer subscriber_data_length subscriber_data]
        ''Asynchronous_Notification_Enable_DM_Layout'')"

definition smAsynchronous_Notification_Query_DM ::
  "(int \<Rightarrow> bool) \<Rightarrow> byte list \<Rightarrow> int \<Rightarrow> byte list \<Rightarrow>
    byte list \<Rightarrow> byte \<Rightarrow> byte \<Rightarrow> int \<Rightarrow> byte list \<Rightarrow>
    byte \<Rightarrow> int \<Rightarrow> byte list \<Rightarrow> smapi_request res" where
  "smAsynchronous_Notification_Query_DM malloc userid passwordLength password targetIdentifier entity_type communication_type port_number
      ip_address encoding subscriber_data_length subscriber_data =
     (let functionName = c_literal ''Asynchronous_Notification_Query_DM'';
        inputSize = c_int
          (4 + 4 + strlen functionName + 4 + strlen userid + 4 + passwordLength + 4 +
          strlen targetIdentifier + 1 + 1 + 4 + 4 + strlen ip_address + 1 + 4 +
          subscriber_data_length)
      in smapi_build malloc inputSize
        [PUT_INT (inputSize - 4), put_string functionName, put_string_opt userid,
         put_buffer_opt passwordLength password, put_string targetIdentifier,
         put_char entity_type, put_char communication_type, PUT_INT port_number,
         put_string ip_address, put_char encoding,
         put_buffer_opt subscriber_data_length subscriber_data]
        ''Asynchronous_Notification_Query_DM_Layout'')"

definition smAuthorization_List_Add ::
  "(int \<Rightarrow> bool) \<Rightarrow> byte list \<Rightarrow> int \<Rightarrow> byte list \<Rightarrow>
    byte list \<Rightarrow> byte list \<Rightarrow> byte list \<Rightarrow> smapi_request res" where
  "smAuthorization_List_Add malloc userid passwordLength password targetIdentifier for_id function_id =
     (let functionName = c_literal ''Authorization_List_Add'';
        inputSize = c_int
          (4 + 4 + strlen functionName + 4 + strlen userid + 4 + passwordLength + 4 +
          strlen targetIdentifier + 4 + strlen for_id + 4 + strlen function_id)
      in smapi_build malloc inputSize
        [PUT_INT (inputSize - 4), put_string functionName, put_string_opt userid,
         put_buffer_opt passwordLength password, put_string targetIdentifier, put_string for_id,
         put_string function_id]
        ''Authorization_List_Add_Layout'')"

definition smAuthorization_List_Query ::
  "(int \<Rightarrow> bool) \<Rightarrow> byte list \<Rightarrow> int \<Rightarrow> byte list \<Rightarrow>
    byte list \<Rightarrow> byte list \<Rightarrow> byte list \<Rightarrow> smapi_request res" where
  "smAuthorization_List_Query malloc userid passwordLength password targetIdentifier for_id function_id =
     (let functionName = c_literal ''Authorization_List_Query'';
        inputSize = c_int
          (4 + 4 + strlen functionName + 4 + strlen userid + 4 + passwordLength + 4 +
          strlen targetIdentifier + 4 + strlen for_id + 4 + strlen function_id)
      in smapi_build malloc inputSize
        [PUT_INT (inputSize - 4), put_string functionName, put_string_opt userid,
         put_buffer_opt passwordLength password, put_string targetIdentifier, put_string for_id,
         put_string function_id]
        ''Authorization_List_Query_Layout'')"

definition smAuthorization_List_Remove ::
  "(int \<Rightarrow> bool) \<Rightarrow> byte list \<Rightarrow> int \<Rightarrow> byte list \<Rightarrow>
    byte list \<Rightarrow> byte list \<Rightarrow> byte list \<Rightarrow> smapi_request res" where
  "smAuthorization_List_Remove malloc userid passwordLength password targetIdentifier for_id function_id =
     (let functionName = c_literal ''Authorization_List_Remove'';
        inputSize = c_int
          (4 + 4 + strlen functionName + 4 + strlen userid + 4 + passwordLength + 4 +
          strlen targetIdentifier + 4 + strlen for_id + 4 + strlen function_id)
      in smapi_build malloc inputSize
        [PUT_INT (inputSize - 4), put_string functionName, put_string_opt userid,
         put_buffer_opt passwordLength password, put_string targetIdentifier, put_string for_id,
         put_string function_id]
        ''Authorization_List_Remove_Layout'')"

definition smCheck_Authentication ::
  "(int \<Rightarrow> bool) \<Rightarrow> byte list \<Rightarrow> int \<Rightarrow> byte list \<Rightarrow>
    smapi_request res" where
  "smCheck_Authentication malloc userid passwordLength password =
     (let functionName = c_literal ''Check_Authentication'';
        inputSize = c_int
          (4 + 4 + strlen functionName + 4 + strlen userid + 4 + passwordLength)
      in smapi_build malloc inputSize
        [PUT_INT (inputSize - 4), put_string functionName, put_string_opt userid,
         put_buffer_opt passwordLength password]
        ''Check_Authentication_Layout'')"

definition smDirectory_Manager_Local_Tag_Delete_DM ::
  "(int \<Rightarrow> bool) \<Rightarrow> byte list \<Rightarrow> int \<Rightarrow> byte list \<Rightarrow>
    byte list \<Rightarrow> byte list \<Rightarrow> smapi_request res" where
  "smDirectory_Manager_Local_Tag_Delete_DM malloc userid passwordLength password targetIdentifier tag_name =
     (let functionName = c_literal ''Directory_Manager_Local_Tag_Delete_DM'';
        inputSize = c_int
          (4 + 4 + strlen functionName + 4 + strlen userid + 4 + passwordLength + 4 +
          strlen targetIdentifier + 4 + strlen tag_name)
      in smapi_build malloc inputSize
        [PUT_INT (inputSize - 4), put_string functionName, put_string_opt userid,
         put_buffer_opt passwordLength password, put_string targetIdentifier,
         put_string tag_name]
        ''Directory_Manager_Local_Tag_Delete_DM_Layout'')"

definition smDirectory_Manager_Local_Tag_Query_DM ::
  "(int \<Rightarrow> bool) \<Rightarrow> byte list \<Rightarrow> int \<Rightarrow> byte list \<Rightarrow>
    byte list \<Rightarrow> byte list \<Rightarrow> smapi_request res" where
  "smDirectory_Manager_Local_Tag_Query_DM malloc userid passwordLength password targetIdentifier tag_name =
     (let functionName = c_literal ''Directory_Manager_Local_Tag_Query_DM'';
        inputSize = c_int
          (4 + 4 + strlen functionName + 4 + strlen userid + 4 + passwordLength + 4 +
          strlen targetIdentifier + 4 + strlen tag_name)
      in smapi_build malloc inputSize
        [PUT_INT (inputSize - 4), put_string functionName, put_string_opt userid,
         put_buffer_opt passwordLength password, put_string targetIdentifier,
         put_string tag_name]
        ''Directory_Manager_Local_Tag_Query_DM_Layout'')"

definition smDirectory_Manager_Local_Tag_Set_DM ::
  "(int \<Rightarrow> bool) \<Rightarrow> byte list \<Rightarrow> int \<Rightarrow> byte list \<Rightarrow>
    byte list \<Rightarrow> byte list \<Rightarrow> int \<Rightarrow> byte list \<Rightarrow>
    smapi_request res" where
  "smDirectory_Manager_Local_Tag_Set_DM malloc userid passwordLength password targetIdentifier tag_name tag_value_length tag_value =
     (let functionName = c_literal ''Directory_Manager_Local_Tag_Set_DM'';
        inputSize = c_int
          (4 + 4 + strlen functionName + 4 + strlen userid + 4 + passwordLength + 4 +
          strlen targetIdentifier + 4 + strlen tag_name + 4 + tag_value_length)
      in smapi_build malloc inputSize
        [PUT_INT (inputSize - 4), put_string functionName, put_string_opt userid,
         put_buffer_opt passwordLength password, put_string targetIdentifier,
         put_string tag_name, put_buffer tag_value_length tag_value]
        ''Directory_Manager_Local_Tag_Set_DM_Layout'')"

definition smDirectory_Manager_Search_DM ::
  "(int \<Rightarrow> bool) \<Rightarrow> byte list \<Rightarrow> int \<Rightarrow> byte list \<Rightarrow>
    byte list \<Rightarrow> int \<Rightarrow> byte list \<Rightarrow> smapi_request res" where
  "smDirectory_Manager_Search_DM malloc userid passwordLength password targetIdentifier search_pattern_length search_pattern =
     (let functionName = c_literal ''Directory_Manager_Search_DM'';
        inputSize = c_int
          (4 + 4 + strlen functionName + 4 + strlen userid + 4 + passwordLength + 4 +
          strlen targetIdentifier + 4 + search_pattern_length)
      in smapi_build malloc inputSize
        [PUT_INT (inputSize - 4), put_string functionName, put_string_opt userid,
         put_buffer_opt passwordLength password, put_string targetIdentifier,
         put_buffer search_pattern_length search_pattern]
        ''Directory_Manager_Search_DM_Layout'')"

definition smEvent_Unsubscribe ::
  "(int \<Rightarrow> bool) \<Rightarrow> byte list \<Rightarrow> int \<Rightarrow> byte list \<Rightarrow>
    byte list \<Rightarrow> smapi_request res" where
  "smEvent_Unsubscribe malloc userid passwordLength password targetIdentifier =
     (let functionName = c_literal ''Event_Unsubscribe'';
        inputSize = c_int
          (4 + 4 + strlen functionName + 4 + strlen userid + 4 + passwordLength + 4 +
          strlen targetIdentifier)
      in smapi_build malloc inputSize
        [PUT_INT (inputSize - 4), put_string functionName, put_string_opt userid,
         put_buffer_opt passwordLength password, put_string targetIdentifier]
        ''Event_Unsubscribe_Layout'')"

definition smName_List_Add ::
  "(int \<Rightarrow> bool) \<Rightarrow> byte list \<Rightarrow> int \<Rightarrow> byte list \<Rightarrow>
    byte list \<Rightarrow> byte list \<Rightarrow> smapi_request res" where
  "smName_List_Add malloc userid passwordLength password targetIdentifier name_arg =
     (let functionName = c_literal ''Name_List_Add'';
        inputSize = c_int
          (4 + 4 + strlen functionName + 4 + strlen userid + 4 + passwordLength + 4 +
          strlen targetIdentifier + 4 + strlen name_arg)
      in smapi_build malloc inputSize
        [PUT_INT (inputSize - 4), put_string functionName, put_string_opt userid,
         put_buffer_opt passwordLength password, put_string targetIdentifier,
         put_string name_arg]
        ''Name_List_Add_Layout'')"

definition smName_List_Destroy ::
  "(int \<Rightarrow> bool) \<Rightarrow> byte list \<Rightarrow> int \<Rightarrow> byte list \<Rightarrow>
    byte list \<Rightarrow> smapi_request res" where
  "smName_List_Destroy malloc userid passwordLength password targetIdentifier =
     (let functionName = c_literal ''Name_List_Destroy'';
        inputSize = c_int
          (4 + 4 + strlen functionName + 4 + strlen userid + 4 + passwordLength + 4 +
          strlen targetIdentifier)
      in smapi_build malloc inputSize
        [PUT_INT (inputSize - 4), put_string functionName, put_string_opt userid,
         put_buffer_opt passwordLength password, put_string targetIdentifier]
        ''Name_List_Destroy_Layout'')"

definition smName_List_Query ::
  "(int \<Rightarrow> bool) \<Rightarrow> byte list \<Rightarrow> int \<Rightarrow> byte list \<Rightarrow>
    byte list \<Rightarrow> smapi_request res" where
  "smName_List_Query malloc userid passwordLength password targetIdentifier =
     (let functionName = c_literal ''Name_List_Query'';
        inputSize = c_int
          (4 + 4 + strlen functionName + 4 + strlen userid + 4 + passwordLength + 4 +
          strlen targetIdentifier)
      in smapi_build malloc inputSize
        [PUT_INT (inputSize - 4), put_string functionName, put_string_opt userid,
         put_buffer_opt passwordLength password, put_string targetIdentifier]
        ''Name_List_Query_Layout'')"

definition smName_List_Remove ::
  "(int \<Rightarrow> bool) \<Rightarrow> byte list \<Rightarrow> int \<Rightarrow> byte list \<Rightarrow>
    byte list \<Rightarrow> byte list \<Rightarrow> smapi_request res" where
  "smName_List_Remove malloc userid passwordLength password targetIdentifier name_arg =
     (let functionName = c_literal ''Name_List_Remove'';
        inputSize = c_int
          (4 + 4 + strlen functionName + 4 + strlen userid + 4 + passwordLength + 4 +
          strlen targetIdentifier + 4 + strlen name_arg)
      in smapi_build malloc inputSize
        [PUT_INT (inputSize - 4), put_string functionName, put_string_opt userid,
         put_buffer_opt passwordLength password, put_string targetIdentifier,
         put_string name_arg]
        ''Name_List_Remove_Layout'')"

definition smProfile_Delete_DM ::
  "(int \<Rightarrow> bool) \<Rightarrow> byte list \<Rightarrow> int \<Rightarrow> byte list \<Rightarrow>
    byte list \<Rightarrow> smapi_request res" where
  "smProfile_Delete_DM malloc userid passwordLength password targetIdentifier =
     (let functionName = c_literal ''Profile_Delete_DM'';
        inputSize = c_int
          (4 + 4 + strlen functionName + 4 + strlen userid + 4 + passwordLength + 4 +
          strlen targetIdentifier)
      in smapi_build malloc inputSize
        [PUT_INT (inputSize - 4), put_string functionName, put_string_opt userid,
         put_buffer_opt passwordLength password, put_string targetIdentifier]
        ''Profile_Delete_DM_Layout'')"

definition smProfile_Lock_DM ::
  "(int \<Rightarrow> bool) \<Rightarrow> byte list \<Rightarrow> int \<Rightarrow> byte list \<Rightarrow>
    byte list \<Rightarrow> smapi_request res" where
  "smProfile_Lock_DM malloc userid passwordLength password targetIdentifier =
     (let functionName = c_literal ''Profile_Lock_DM'';
        inputSize = c_int
          (4 + 4 + strlen functionName + 4 + strlen userid + 4 + passwordLength + 4 +
          strlen targetIdentifier)
      in smapi_build malloc inputSize
        [PUT_INT (inputSize - 4), put_string functionName, put_string_opt userid,
         put_buffer_opt passwordLength password, put_string targetIdentifier]
        ''Profile_Lock_DM_Layout'')"

definition smProfile_Lock_Query_DM ::
  "(int \<Rightarrow> bool) \<Rightarrow> byte list \<Rightarrow> int \<Rightarrow> byte list \<Rightarrow>
    byte list \<Rightarrow> smapi_request res" where
  "smProfile_Lock_Query_DM malloc userid passwordLength password targetIdentifier =
     (let functionName = c_literal ''Profile_Lock_Query_DM'';
        inputSize = c_int
          (4 + 4 + strlen functionName + 4 + strlen userid + 4 + passwordLength + 4 +
          strlen targetIdentifier)
      in smapi_build malloc inputSize
        [PUT_INT (inputSize - 4), put_string functionName, put_string_opt userid,
         put_buffer_opt passwordLength password, put_string targetIdentifier]
        ''Profile_Lock_Query_DM_Layout'')"

definition smProfile_Unlock_DM ::
  "(int \<Rightarrow> bool) \<Rightarrow> byte list \<Rightarrow> int \<Rightarrow> byte list \<Rightarrow>
    byte list \<Rightarrow> smapi_request res" where
  "smProfile_Unlock_DM malloc userid passwordLength password targetIdentifier =
     (let functionName = c_literal ''Profile_Unlock_DM'';
        inputSize = c_int
          (4 + 4 + strlen functionName + 4 + strlen userid + 4 + passwordLength + 4 +
          strlen targetIdentifier)
      in smapi_build malloc inputSize
        [PUT_INT (inputSize - 4), put_string functionName, put_string_opt userid,
         put_buffer_opt passwordLength password, put_string targetIdentifier]
        ''Profile_Unlock_DM_Layout'')"

definition smPrototype_Delete_DM ::
  "(int \<Rightarrow> bool) \<Rightarrow> byte list \<Rightarrow> int \<Rightarrow> byte list \<Rightarrow>
    byte list \<Rightarrow> smapi_request res" where
  "smPrototype_Delete_DM malloc userid passwordLength password targetIdentifier =
     (let functionName = c_literal ''Prototype_Delete_DM'';
        inputSize = c_int
          (4 + 4 + strlen functionName + 4 + strlen userid + 4 + passwordLength + 4 +
          strlen targetIdentifier)
      in smapi_build malloc inputSize
        [PUT_INT (inputSize - 4), put_string functionName, put_string_opt userid,
         put_buffer_opt passwordLength password, put_string targetIdentifier]
        ''Prototype_Delete_DM_Layout'')"

definition smPrototype_Name_Query_DM ::
  "(int \<Rightarrow> bool) \<Rightarrow> byte list \<Rightarrow> int \<Rightarrow> byte list \<Rightarrow>
    byte list \<Rightarrow> smapi_request res" where
  "smPrototype_Name_Query_DM malloc userid passwordLength password targetIdentifier =
     (let functionName = c_literal ''Prototype_Name_Query_DM'';
        inputSize = c_int
          (4 + 4 + strlen functionName + 4 + strlen userid + 4 + passwordLength + 4 +
          strlen targetIdentifier)
      in smapi_build malloc inputSize
        [PUT_INT (inputSize - 4), put_string functionName, put_string_opt userid,
         put_buffer_opt passwordLength password, put_string targetIdentifier]
        ''Prototype_Name_Query_DM_Layout'')"

definition smPrototype_Query_DM ::
  "(int \<Rightarrow> bool) \<Rightarrow> byte list \<Rightarrow> int \<Rightarrow> byte list \<Rightarrow>
    byte list \<Rightarrow> smapi_request res" where
  "smPrototype_Query_DM malloc userid passwordLength password targetIdentifier =
     (let functionName = c_literal ''Prototype_Query_DM'';
        inputSize = c_int
          (4 + 4 + strlen functionName + 4 + strlen userid + 4 + passwordLength + 4 +
          strlen targetIdentifier)
      in smapi_build malloc inputSize
        [PUT_INT (inputSize - 4), put_string functionName, put_string_opt userid,
         put_buffer_opt passwordLength password, put_string targetIdentifier]
        ''Prototype_Query_DM_Layout'')"

definition smQuery_API_Functional_Level ::
  "(int \<Rightarrow> bool) \<Rightarrow> byte list \<Rightarrow> int \<Rightarrow> byte list \<Rightarrow>
    byte list \<Rightarrow> smapi_request res" where
  "smQuery_API_Functional_Level malloc userid passwordLength password targetIdentifier =
     (let functionName = c_literal ''Query_API_Functional_Level'';
        inputSize = c_int
          (4 + 4 + strlen functionName + 4 + strlen userid + 4 + passwordLength + 4 +
          strlen targetIdentifier)
      in smapi_build malloc inputSize
        [PUT_INT (inputSize - 4), put_string functionName, put_string_opt userid,
         put_buffer_opt passwordLength password, put_string targetIdentifier]
        ''Query_API_Functional_Level_Layout'')"

definition smQuery_Asychronous_Operation_DM ::
  "(int \<Rightarrow> bool) \<Rightarrow> byte list \<Rightarrow> int \<Rightarrow> byte list \<Rightarrow>
    byte list \<Rightarrow> int \<Rightarrow> smapi_request res" where
  "smQuery_Asychronous_Operation_DM malloc userid passwordLength password targetIdentifier operationId =
     (let functionName = c_literal ''Query_Asynchronous_Operation_DM'';
        inputSize = c_int
          (4 + 4 + strlen functionName + 4 + strlen userid + 4 + passwordLength + 4 +
          strlen targetIdentifier + 4)
      in smapi_build malloc inputSize
        [PUT_INT (inputSize - 4), put_string functionName, put_string_opt userid,
         put_buffer_opt passwordLength password, put_string targetIdentifier,
         PUT_INT operationId]
        ''Query_Asynchronous_Operation_DM_Layout'')"

definition smQuery_Directory_Manager_Level_DM ::
  "(int \<Rightarrow> bool) \<Rightarrow> byte list \<Rightarrow> int \<Rightarrow> byte list \<Rightarrow>
    byte list \<Rightarrow> smapi_request res" where
  "smQuery_Directory_Manager_Level_DM malloc userid passwordLength password targetIdentifier =
     (let functionName = c_literal ''Query_Directory_Manager_Level_DM'';
        inputSize = c_int
          (4 + 4 + strlen functionName + 4 + strlen userid + 4 + passwordLength + 4 +
          strlen targetIdentifier)
      in smapi_build malloc inputSize
        [PUT_INT (inputSize - 4), put_string functionName, put_string_opt userid,
         put_buffer_opt passwordLength password, put_string targetIdentifier]
        ''Query_Directory_Manager_Level_DM_Layout'')"

definition smResponse_Recovery ::
  "(int \<Rightarrow> bool) \<Rightarrow> byte list \<Rightarrow> int \<Rightarrow> byte list \<Rightarrow>
    byte list \<Rightarrow> int \<Rightarrow> smapi_request res" where
  "smResponse_Recovery malloc userid passwordLength password targetIdentifier failedRequestID =
     (let functionName = c_literal ''Response_Recovery'';
        inputSize = c_int
          (4 + 4 + strlen functionName + 4 + strlen userid + 4 + passwordLength + 4 +
          strlen targetIdentifier + 4)
      in smapi_build malloc inputSize
        [PUT_INT (inputSize - 4), put_string functionName, put_string_opt userid,
         put_buffer_opt passwordLength password, put_string targetIdentifier,
         PUT_INT failedRequestID]
        ''Response_Recovery_Layout'')"

definition smSMAPI_Status_Capture ::
  "(int \<Rightarrow> bool) \<Rightarrow> byte list \<Rightarrow> int \<Rightarrow> byte list \<Rightarrow>
    byte list \<Rightarrow> smapi_request res" where
  "smSMAPI_Status_Capture malloc userid passwordLength password targetIdentifier =
     (let functionName = c_literal ''SMAPI_Status_Capture'';
        inputSize = c_int
          (4 + 4 + strlen functionName + 4 + strlen userid + 4 + passwordLength + 4 +
          strlen targetIdentifier)
      in smapi_build malloc inputSize
        [PUT_INT (inputSize - 4), put_string functionName, put_string_opt userid,
         put_buffer_opt passwordLength password, put_string targetIdentifier]
        ''SMAPI_Status_Capture_Layout'')"

definition smShared_Memory_Access_Add_DM ::
  "(int \<Rightarrow> bool) \<Rightarrow> byte list \<Rightarrow> int \<Rightarrow> byte list \<Rightarrow>
    byte list \<Rightarrow> byte list \<Rightarrow> smapi_request res" where
  "smShared_Memory_Access_Add_DM malloc userid passwordLength password targetIdentifier memorySegmentName =
     (let functionName = c_literal ''Shared_Memory_Access_Add_DM'';
        inputSize = c_int
          (4 + 4 + strlen functionName + 4 + strlen userid + 4 + passwordLength + 4 +
          strlen targetIdentifier + 4 + strlen memorySegmentName)
      in smapi_build malloc inputSize
        [PUT_INT (inputSize - 4), put_string functionName, put_string_opt userid,
         put_buffer_opt passwordLength password, put_string targetIdentifier,
         put_string memorySegmentName]
        ''Shared_Memory_Access_Add_DM_Layout'')"

definition smShared_Memory_Access_Query_DM ::
  "(int \<Rightarrow> bool) \<Rightarrow> byte list \<Rightarrow> int \<Rightarrow> byte list \<Rightarrow>
    byte list \<Rightarrow> byte list \<Rightarrow> smapi_request res" where
  "smShared_Memory_Access_Query_DM malloc userid passwordLength password targetIdentifier memorySegmentName =
     (let functionName = c_literal ''Shared_Memory_Access_Query_DM'';
        inputSize = c_int
          (4 + 4 + strlen functionName + 4 + strlen userid + 4 + passwordLength + 4 +
          strlen targetIdentifier + 4 + strlen memorySegmentName)
      in smapi_build malloc inputSize
        [PUT_INT (inputSize - 4), put_string functionName, put_string_opt userid,
         put_buffer_opt passwordLength password, put_string targetIdentifier,
         put_string memorySegmentName]
        ''Shared_Memory_Access_Query_DM_Layout'')"

definition smShared_Memory_Access_Remove_DM ::
  "(int \<Rightarrow> bool) \<Rightarrow> byte list \<Rightarrow> int \<Rightarrow> byte list \<Rightarrow>
    byte list \<Rightarrow> byte list \<Rightarrow> smapi_request res" where
  "smShared_Memory_Access_Remove_DM malloc userid passwordLength password targetIdentifier memorySegmentName =
     (let functionName = c_literal ''Shared_Memory_Access_Remove_DM'';
        inputSize = c_int
          (4 + 4 + strlen functionName + 4 + strlen userid + 4 + passwordLength + 4 +
          strlen targetIdentifier + 4 + strlen memorySegmentName)
      in smapi_build malloc inputSize
        [PUT_INT (inputSize - 4), put_string functionName, put_string_opt userid,
         put_buffer_opt passwordLength password, put_string targetIdentifier,
         put_string memorySegmentName]
        ''Shared_Memory_Access_Remove_DM_Layout'')"

definition smShared_Memory_Create ::
  "(int \<Rightarrow> bool) \<Rightarrow> byte list \<Rightarrow> int \<Rightarrow> byte list \<Rightarrow>
    byte list \<Rightarrow> byte list \<Rightarrow> int \<Rightarrow> int \<Rightarrow> byte \<Rightarrow>
    byte \<Rightarrow> byte list \<Rightarrow> smapi_request res" where
  "smShared_Memory_Create malloc userid passwordLength password targetIdentifier memorySegmentName beginPage endPage
      pageAccessDescriptor memoryAttributes memoryAccessIdentifier =
     (let functionName = c_literal ''Shared_Memory_Create'';
        inputSize = c_int
          (4 + 4 + strlen functionName + 4 + strlen userid + 4 + passwordLength + 4 +
          strlen targetIdentifier + 4 + strlen memorySegmentName + 8 + 8 + 1 + 1 + 4 +
          strlen memoryAccessIdentifier)
      in smapi_build malloc inputSize
        [PUT_INT (inputSize - 4), put_string functionName, put_string_opt userid,
         put_buffer_opt passwordLength password, put_string targetIdentifier,
         put_string memorySegmentName, PUT_64INT beginPage, PUT_64INT endPage,
         put_char pageAccessDescriptor, put_char memoryAttributes,
         put_string_opt memoryAccessIdentifier]
        ''Shared_Memory_Create_Layout'')"

definition smShared_Memory_Delete ::
  "(int \<Rightarrow> bool) \<Rightarrow> byte list \<Rightarrow> int \<Rightarrow> byte list \<Rightarrow>
    byte list \<Rightarrow> byte list \<Rightarrow> smapi_request res" where
  "smShared_Memory_Delete malloc userid passwordLength password targetIdentifier memorySegmentName =
     (let functionName = c_literal ''Shared_Memory_Delete'';
        inputSize = c_int
          (4 + 4 + strlen functionName + 4 + strlen userid + 4 + passwordLength + 4 +
          strlen targetIdentifier + 4 + strlen memorySegmentName)
      in smapi_build malloc inputSize
        [PUT_INT (inputSize - 4), put_string functionName, put_string_opt userid,
         put_buffer_opt passwordLength password, put_string targetIdentifier,
         put_string memorySegmentName]
        ''Shared_Memory_Delete_Layout'')"

definition smShared_Memory_Query ::
  "(int \<Rightarrow> bool) \<Rightarrow> byte list \<Rightarrow> int \<Rightarrow> byte list \<Rightarrow>
    byte list \<Rightarrow> byte list \<Rightarrow> smapi_request res" where
  "smShared_Memory_Query malloc userid passwordLength password targetIdentifier memorySegmentName =
     (let functionName = c_literal ''Shared_Memory_Query'';
        inputSize = c_int
          (4 + 4 + strlen functionName + 4 + strlen userid + 4 + passwordLength + 4 +
          strlen targetIdentifier + 4 + strlen memorySegmentName)
      in smapi_build malloc inputSize
        [PUT_INT (inputSize - 4), put_string functionName, put_string_opt userid,
         put_buffer_opt passwordLength password, put_string targetIdentifier,
         put_string memorySegmentName]
        ''Shared_Memory_Query_Layout'')"

definition smShared_Memory_Replace ::
  "(int \<Rightarrow> bool) \<Rightarrow> byte list \<Rightarrow> int \<Rightarrow> byte list \<Rightarrow>
    byte list \<Rightarrow> byte list \<Rightarrow> byte list \<Rightarrow> smapi_request res" where
  "smShared_Memory_Replace malloc userid passwordLength password targetIdentifier memorySegmentName memoryAccessIdentifier =
     (let functionName = c_literal ''Shared_Memory_Replace'';
        inputSize = c_int
          (4 + 4 + strlen functionName + 4 + strlen userid + 4 + passwordLength + 4 +
          strlen targetIdentifier + 4 + strlen memorySegmentName + 4 +
          strlen memoryAccessIdentifier)
      in smapi_build malloc inputSize
        [PUT_INT (inputSize - 4), put_string functionName, put_string_opt userid,
         put_buffer_opt passwordLength password, put_string targetIdentifier,
         put_string memorySegmentName, put_string_opt memoryAccessIdentifier]
        ''Shared_Memory_Replace_Layout'')"

definition smStatic_Image_Changes_Activate_DM ::
  "(int \<Rightarrow> bool) \<Rightarrow> byte list \<Rightarrow> int \<Rightarrow> byte list \<Rightarrow>
    byte list \<Rightarrow> smapi_request res" where
  "smStatic_Image_Changes_Activate_DM malloc userid passwordLength password targetIdentifier =
     (let functionName = c_literal ''Static_Image_Changes_Activate_DM'';
        inputSize = c_int
          (4 + 4 + strlen functionName + 4 + strlen userid + 4 + passwordLength + 4 +
          strlen targetIdentifier)
      in smapi_build malloc inputSize
        [PUT_INT (inputSize - 4), put_string functionName, put_string_opt userid,
         put_buffer_opt passwordLength password, put_string targetIdentifier]
        ''Static_Image_Changes_Activate_DM_Layout'')"

definition smStatic_Image_Changes_Deactivate_DM ::
  "(int \<Rightarrow> bool) \<Rightarrow> byte list \<Rightarrow> int \<Rightarrow> byte list \<Rightarrow>
    byte list \<Rightarrow> smapi_request res" where
  "smStatic_Image_Changes_Deactivate_DM malloc userid passwordLength password targetIdentifier =
     (let functionName = c_literal ''Static_Image_Changes_Deactivate_DM'';
        inputSize = c_int
          (4 + 4 + strlen functionName + 4 + strlen userid + 4 + passwordLength + 4 +
          strlen targetIdentifier)
      in smapi_build malloc inputSize
        [PUT_INT (inputSize - 4), put_string functionName, put_string_opt userid,
         put_buffer_opt passwordLength password, put_string targetIdentifier]
        ''Static_Image_Changes_Deactivate_DM_Layout'')"

definition smStatic_Image_Changes_Immediate_DM ::
  "(int \<Rightarrow> bool) \<Rightarrow> byte list \<Rightarrow> int \<Rightarrow> byte list \<Rightarrow>
    byte list \<Rightarrow> smapi_request res" where
  "smStatic_Image_Changes_Immediate_DM malloc userid passwordLength password targetIdentifier =
     (let functionName = c_literal ''Static_Image_Changes_Immediate_DM'';
        inputSize = c_int
          (4 + 4 + strlen functionName + 4 + strlen userid + 4 + passwordLength + 4 +
          strlen targetIdentifier)
      in smapi_build malloc inputSize
        [PUT_INT (inputSize - 4), put_string functionName, put_string_opt userid,
         put_buffer_opt passwordLength password, put_string targetIdentifier]
        ''Static_Image_Changes_Immediate_DM_Layout'')"

definition smVMRM_Configuration_Query ::
  "(int \<Rightarrow> bool) \<Rightarrow> byte list \<Rightarrow> int \<Rightarrow> byte list \<Rightarrow>
    byte list \<Rightarrow> byte list \<Rightarrow> byte list \<Rightarrow> byte list \<Rightarrow>
    smapi_request res" where
  "smVMRM_Configuration_Query malloc userid passwordLength password targetIdentifier configurationFileName
      configurationFileType configurationDirName =
     (let functionName = c_literal ''VMRM_Configuration_Query'';
        inputSize = c_int
          (4 + 4 + strlen functionName + 4 + strlen userid + 4 + passwordLength + 4 +
          strlen targetIdentifier + 4 + strlen configurationFileName + 4 +
          strlen configurationFileType + 4 + strlen configurationDirName)
      in smapi_build malloc inputSize
        [PUT_INT (inputSize - 4), put_string functionName, put_string_opt userid,
         put_buffer_opt passwordLength password, put_string targetIdentifier,
         put_string configurationFileName, put_string configurationFileType,
         put_string configurationDirName]
        ''VMRM_Configuration_Query_Layout'')"

definition smVMRM_Measurement_Query ::
  "(int \<Rightarrow> bool) \<Rightarrow> byte list \<Rightarrow> int \<Rightarrow> byte list \<Rightarrow>
    byte list \<Rightarrow> smapi_request res" where
  "smVMRM_Measurement_Query malloc userid passwordLength password targetIdentifier =
     (let functionName = c_literal ''VMRM_Measurement_Query'';
        inputSize = c_int
          (4 + 4 + strlen functionName + 4 + strlen userid + 4 + passwordLength + 4 +
          strlen targetIdentifier)
      in smapi_build malloc inputSize
        [PUT_INT (inputSize - 4), put_string functionName, put_string_opt userid,
         put_buffer_opt passwordLength password, put_string targetIdentifier]
        ''VMRM_Measurement_Query_Layout'')"

section \<open>What they write\<close>

definition smAsynchronous_Notification_Disable_DM_api :: smapi_api where
  "smAsynchronous_Notification_Disable_DM_api =
     \<lparr>api_name = ''Asynchronous_Notification_Disable_DM'',
      api_kinds = [KStr, KBuf, KStr, KChr, KChr, KNum, KStr, KChr, KBuf],
      api_table = ''Asynchronous_Notification_Disable_DM_Layout'',
      api_build = (\<lambda>malloc args. smAsynchronous_Notification_Disable_DM malloc
        (arg_bytes (args ! 0)) (arg_num (args ! 1)) (arg_bytes (args ! 1))
        (arg_bytes (args ! 2)) (arg_chr (args ! 3)) (arg_chr (args ! 4)) (arg_num (args ! 5))
        (arg_bytes (args ! 6)) (arg_chr (args ! 7)) (arg_num (args ! 8)) (arg_bytes (args ! 8)))\<rparr>"

lemma smAsynchronous_Notification_Disable_DM_api_ok [api_rules]: "api_ok smAsynchronous_Notification_Disable_DM_api"
  by (rule api_okI) (clarsimp simp: smAsynchronous_Notification_Disable_DM_api_def smAsynchronous_Notification_Disable_DM_def api_proof)

definition smAsynchronous_Notification_Enable_DM_api :: smapi_api where
  "smAsynchronous_Notification_Enable_DM_api =
     \<lparr>api_name = ''Asynchronous_Notification_Enable_DM'',
      api_kinds = [KStr, KBuf, KStr, KChr, KChr, KChr, KNum, KStr, KChr, KBuf],
      api_table = ''Asynchronous_Notification_Enable_DM_Layout'',
      api_build = (\<lambda>malloc args. smAsynchronous_Notification_Enable_DM malloc
        (arg_bytes (args ! 0)) (arg_num (args ! 1)) (arg_bytes (args ! 1))
        (arg_bytes (args ! 2)) (arg_chr (args ! 3)) (arg_chr (args ! 4)) (arg_chr (args ! 5))
        (arg_num (args ! 6)) (arg_bytes (args ! 7)) (arg_chr (args ! 8)) (arg_num (args ! 9))
        (arg_bytes (args ! 9)))\<rparr>"

lemma smAsynchronous_Notification_Enable_DM_api_ok [api_rules]: "api_ok smAsynchronous_Notification_Enable_DM_api"
  by (rule api_okI) (clarsimp simp: smAsynchronous_Notification_Enable_DM_api_def smAsynchronous_Notification_Enable_DM_def api_proof)

definition smAsynchronous_Notification_Query_DM_api :: smapi_api where
  "smAsynchronous_Notification_Query_DM_api =
     \<lparr>api_name = ''Asynchronous_Notification_Query_DM'',
      api_kinds = [KStr, KBuf, KStr, KChr, KChr, KNum, KStr, KChr, KBuf],
      api_table = ''Asynchronous_Notification_Query_DM_Layout'',
      api_build = (\<lambda>malloc args. smAsynchronous_Notification_Query_DM malloc
        (arg_bytes (args ! 0)) (arg_num (args ! 1)) (arg_bytes (args ! 1))
        (arg_bytes (args ! 2)) (arg_chr (args ! 3)) (arg_chr (args ! 4)) (arg_num (args ! 5))
        (arg_bytes (args ! 6)) (arg_chr (args ! 7)) (arg_num (args ! 8)) (arg_bytes (args ! 8)))\<rparr>"

lemma smAsynchronous_Notification_Query_DM_api_ok [api_rules]: "api_ok smAsynchronous_Notification_Query_DM_api"
  by (rule api_okI) (clarsimp simp: smAsynchronous_Notification_Query_DM_api_def smAsynchronous_Notification_Query_DM_def api_proof)

definition smAuthorization_List_Add_api :: smapi_api where
  "smAuthorization_List_Add_api =
     \<lparr>api_name = ''Authorization_List_Add'',
      api_kinds = [KStr, KBuf, KStr, KStr, KStr],
      api_table = ''Authorization_List_Add_Layout'',
      api_build = (\<lambda>malloc args. smAuthorization_List_Add malloc
        (arg_bytes (args ! 0)) (arg_num (args ! 1)) (arg_bytes (args ! 1))
        (arg_bytes (args ! 2)) (arg_bytes (args ! 3)) (arg_bytes (args ! 4)))\<rparr>"

lemma smAuthorization_List_Add_api_ok [api_rules]: "api_ok smAuthorization_List_Add_api"
  by (rule api_okI) (clarsimp simp: smAuthorization_List_Add_api_def smAuthorization_List_Add_def api_proof)

definition smAuthorization_List_Query_api :: smapi_api where
  "smAuthorization_List_Query_api =
     \<lparr>api_name = ''Authorization_List_Query'',
      api_kinds = [KStr, KBuf, KStr, KStr, KStr],
      api_table = ''Authorization_List_Query_Layout'',
      api_build = (\<lambda>malloc args. smAuthorization_List_Query malloc
        (arg_bytes (args ! 0)) (arg_num (args ! 1)) (arg_bytes (args ! 1))
        (arg_bytes (args ! 2)) (arg_bytes (args ! 3)) (arg_bytes (args ! 4)))\<rparr>"

lemma smAuthorization_List_Query_api_ok [api_rules]: "api_ok smAuthorization_List_Query_api"
  by (rule api_okI) (clarsimp simp: smAuthorization_List_Query_api_def smAuthorization_List_Query_def api_proof)

definition smAuthorization_List_Remove_api :: smapi_api where
  "smAuthorization_List_Remove_api =
     \<lparr>api_name = ''Authorization_List_Remove'',
      api_kinds = [KStr, KBuf, KStr, KStr, KStr],
      api_table = ''Authorization_List_Remove_Layout'',
      api_build = (\<lambda>malloc args. smAuthorization_List_Remove malloc
        (arg_bytes (args ! 0)) (arg_num (args ! 1)) (arg_bytes (args ! 1))
        (arg_bytes (args ! 2)) (arg_bytes (args ! 3)) (arg_bytes (args ! 4)))\<rparr>"

lemma smAuthorization_List_Remove_api_ok [api_rules]: "api_ok smAuthorization_List_Remove_api"
  by (rule api_okI) (clarsimp simp: smAuthorization_List_Remove_api_def smAuthorization_List_Remove_def api_proof)

definition smCheck_Authentication_api :: smapi_api where
  "smCheck_Authentication_api =
     \<lparr>api_name = ''Check_Authentication'',
      api_kinds = [KStr, KBuf],
      api_table = ''Check_Authentication_Layout'',
      api_build = (\<lambda>malloc args. smCheck_Authentication malloc
        (arg_bytes (args ! 0)) (arg_num (args ! 1)) (arg_bytes (args ! 1)))\<rparr>"

lemma smCheck_Authentication_api_ok [api_rules]: "api_ok smCheck_Authentication_api"
  by (rule api_okI) (clarsimp simp: smCheck_Authentication_api_def smCheck_Authentication_def api_proof)

definition smDirectory_Manager_Local_Tag_Delete_DM_api :: smapi_api where
  "smDirectory_Manager_Local_Tag_Delete_DM_api =
     \<lparr>api_name = ''Directory_Manager_Local_Tag_Delete_DM'',
      api_kinds = [KStr, KBuf, KStr, KStr],
      api_table = ''Directory_Manager_Local_Tag_Delete_DM_Layout'',
      api_build = (\<lambda>malloc args. smDirectory_Manager_Local_Tag_Delete_DM malloc
        (arg_bytes (args ! 0)) (arg_num (args ! 1)) (arg_bytes (args ! 1))
        (arg_bytes (args ! 2)) (arg_bytes (args ! 3)))\<rparr>"

lemma smDirectory_Manager_Local_Tag_Delete_DM_api_ok [api_rules]: "api_ok smDirectory_Manager_Local_Tag_Delete_DM_api"
  by (rule api_okI) (clarsimp simp: smDirectory_Manager_Local_Tag_Delete_DM_api_def smDirectory_Manager_Local_Tag_Delete_DM_def api_proof)

definition smDirectory_Manager_Local_Tag_Query_DM_api :: smapi_api where
  "smDirectory_Manager_Local_Tag_Query_DM_api =
     \<lparr>api_name = ''Directory_Manager_Local_Tag_Query_DM'',
      api_kinds = [KStr, KBuf, KStr, KStr],
      api_table = ''Directory_Manager_Local_Tag_Query_DM_Layout'',
      api_build = (\<lambda>malloc args. smDirectory_Manager_Local_Tag_Query_DM malloc
        (arg_bytes (args ! 0)) (arg_num (args ! 1)) (arg_bytes (args ! 1))
        (arg_bytes (args ! 2)) (arg_bytes (args ! 3)))\<rparr>"

lemma smDirectory_Manager_Local_Tag_Query_DM_api_ok [api_rules]: "api_ok smDirectory_Manager_Local_Tag_Query_DM_api"
  by (rule api_okI) (clarsimp simp: smDirectory_Manager_Local_Tag_Query_DM_api_def smDirectory_Manager_Local_Tag_Query_DM_def api_proof)

definition smDirectory_Manager_Local_Tag_Set_DM_api :: smapi_api where
  "smDirectory_Manager_Local_Tag_Set_DM_api =
     \<lparr>api_name = ''Directory_Manager_Local_Tag_Set_DM'',
      api_kinds = [KStr, KBuf, KStr, KStr, KBuf],
      api_table = ''Directory_Manager_Local_Tag_Set_DM_Layout'',
      api_build = (\<lambda>malloc args. smDirectory_Manager_Local_Tag_Set_DM malloc
        (arg_bytes (args ! 0)) (arg_num (args ! 1)) (arg_bytes (args ! 1))
        (arg_bytes (args ! 2)) (arg_bytes (args ! 3)) (arg_num (args ! 4))
        (arg_bytes (args ! 4)))\<rparr>"

lemma smDirectory_Manager_Local_Tag_Set_DM_api_ok [api_rules]: "api_ok smDirectory_Manager_Local_Tag_Set_DM_api"
  by (rule api_okI) (clarsimp simp: smDirectory_Manager_Local_Tag_Set_DM_api_def smDirectory_Manager_Local_Tag_Set_DM_def api_proof)

definition smDirectory_Manager_Search_DM_api :: smapi_api where
  "smDirectory_Manager_Search_DM_api =
     \<lparr>api_name = ''Directory_Manager_Search_DM'',
      api_kinds = [KStr, KBuf, KStr, KBuf],
      api_table = ''Directory_Manager_Search_DM_Layout'',
      api_build = (\<lambda>malloc args. smDirectory_Manager_Search_DM malloc
        (arg_bytes (args ! 0)) (arg_num (args ! 1)) (arg_bytes (args ! 1))
        (arg_bytes (args ! 2)) (arg_num (args ! 3)) (arg_bytes (args ! 3)))\<rparr>"

lemma smDirectory_Manager_Search_DM_api_ok [api_rules]: "api_ok smDirectory_Manager_Search_DM_api"
  by (rule api_okI) (clarsimp simp: smDirectory_Manager_Search_DM_api_def smDirectory_Manager_Search_DM_def api_proof)

definition smEvent_Unsubscribe_api :: smapi_api where
  "smEvent_Unsubscribe_api =
     \<lparr>api_name = ''Event_Unsubscribe'',
      api_kinds = [KStr, KBuf, KStr],
      api_table = ''Event_Unsubscribe_Layout'',
      api_build = (\<lambda>malloc args. smEvent_Unsubscribe malloc
        (arg_bytes (args ! 0)) (arg_num (args ! 1)) (arg_bytes (args ! 1))
        (arg_bytes (args ! 2)))\<rparr>"

lemma smEvent_Unsubscribe_api_ok [api_rules]: "api_ok smEvent_Unsubscribe_api"
  by (rule api_okI) (clarsimp simp: smEvent_Unsubscribe_api_def smEvent_Unsubscribe_def api_proof)

definition smName_List_Add_api :: smapi_api where
  "smName_List_Add_api =
     \<lparr>api_name = ''Name_List_Add'',
      api_kinds = [KStr, KBuf, KStr, KStr],
      api_table = ''Name_List_Add_Layout'',
      api_build = (\<lambda>malloc args. smName_List_Add malloc
        (arg_bytes (args ! 0)) (arg_num (args ! 1)) (arg_bytes (args ! 1))
        (arg_bytes (args ! 2)) (arg_bytes (args ! 3)))\<rparr>"

lemma smName_List_Add_api_ok [api_rules]: "api_ok smName_List_Add_api"
  by (rule api_okI) (clarsimp simp: smName_List_Add_api_def smName_List_Add_def api_proof)

definition smName_List_Destroy_api :: smapi_api where
  "smName_List_Destroy_api =
     \<lparr>api_name = ''Name_List_Destroy'',
      api_kinds = [KStr, KBuf, KStr],
      api_table = ''Name_List_Destroy_Layout'',
      api_build = (\<lambda>malloc args. smName_List_Destroy malloc
        (arg_bytes (args ! 0)) (arg_num (args ! 1)) (arg_bytes (args ! 1))
        (arg_bytes (args ! 2)))\<rparr>"

lemma smName_List_Destroy_api_ok [api_rules]: "api_ok smName_List_Destroy_api"
  by (rule api_okI) (clarsimp simp: smName_List_Destroy_api_def smName_List_Destroy_def api_proof)

definition smName_List_Query_api :: smapi_api where
  "smName_List_Query_api =
     \<lparr>api_name = ''Name_List_Query'',
      api_kinds = [KStr, KBuf, KStr],
      api_table = ''Name_List_Query_Layout'',
      api_build = (\<lambda>malloc args. smName_List_Query malloc
        (arg_bytes (args ! 0)) (arg_num (args ! 1)) (arg_bytes (args ! 1))
        (arg_bytes (args ! 2)))\<rparr>"

lemma smName_List_Query_api_ok [api_rules]: "api_ok smName_List_Query_api"
  by (rule api_okI) (clarsimp simp: smName_List_Query_api_def smName_List_Query_def api_proof)

definition smName_List_Remove_api :: smapi_api where
  "smName_List_Remove_api =
     \<lparr>api_name = ''Name_List_Remove'',
      api_kinds = [KStr, KBuf, KStr, KStr],
      api_table = ''Name_List_Remove_Layout'',
      api_build = (\<lambda>malloc args. smName_List_Remove malloc
        (arg_bytes (args ! 0)) (arg_num (args ! 1)) (arg_bytes (args ! 1))
        (arg_bytes (args ! 2)) (arg_bytes (args ! 3)))\<rparr>"

lemma smName_List_Remove_api_ok [api_rules]: "api_ok smName_List_Remove_api"
  by (rule api_okI) (clarsimp simp: smName_List_Remove_api_def smName_List_Remove_def api_proof)

definition smProfile_Delete_DM_api :: smapi_api where
  "smProfile_Delete_DM_api =
     \<lparr>api_name = ''Profile_Delete_DM'',
      api_kinds = [KStr, KBuf, KStr],
      api_table = ''Profile_Delete_DM_Layout'',
      api_build = (\<lambda>malloc args. smProfile_Delete_DM malloc
        (arg_bytes (args ! 0)) (arg_num (args ! 1)) (arg_bytes (args ! 1))
        (arg_bytes (args ! 2)))\<rparr>"

lemma smProfile_Delete_DM_api_ok [api_rules]: "api_ok smProfile_Delete_DM_api"
  by (rule api_okI) (clarsimp simp: smProfile_Delete_DM_api_def smProfile_Delete_DM_def api_proof)

definition smProfile_Lock_DM_api :: smapi_api where
  "smProfile_Lock_DM_api =
     \<lparr>api_name = ''Profile_Lock_DM'',
      api_kinds = [KStr, KBuf, KStr],
      api_table = ''Profile_Lock_DM_Layout'',
      api_build = (\<lambda>malloc args. smProfile_Lock_DM malloc
        (arg_bytes (args ! 0)) (arg_num (args ! 1)) (arg_bytes (args ! 1))
        (arg_bytes (args ! 2)))\<rparr>"

lemma smProfile_Lock_DM_api_ok [api_rules]: "api_ok smProfile_Lock_DM_api"
  by (rule api_okI) (clarsimp simp: smProfile_Lock_DM_api_def smProfile_Lock_DM_def api_proof)

definition smProfile_Lock_Query_DM_api :: smapi_api where
  "smProfile_Lock_Query_DM_api =
     \<lparr>api_name = ''Profile_Lock_Query_DM'',
      api_kinds = [KStr, KBuf, KStr],
      api_table = ''Profile_Lock_Query_DM_Layout'',
      api_build = (\<lambda>malloc args. smProfile_Lock_Query_DM malloc
        (arg_bytes (args ! 0)) (arg_num (args ! 1)) (arg_bytes (args ! 1))
        (arg_bytes (args ! 2)))\<rparr>"

lemma smProfile_Lock_Query_DM_api_ok [api_rules]: "api_ok smProfile_Lock_Query_DM_api"
  by (rule api_okI) (clarsimp simp: smProfile_Lock_Query_DM_api_def smProfile_Lock_Query_DM_def api_proof)

definition smProfile_Unlock_DM_api :: smapi_api where
  "smProfile_Unlock_DM_api =
     \<lparr>api_name = ''Profile_Unlock_DM'',
      api_kinds = [KStr, KBuf, KStr],
      api_table = ''Profile_Unlock_DM_Layout'',
      api_build = (\<lambda>malloc args. smProfile_Unlock_DM malloc
        (arg_bytes (args ! 0)) (arg_num (args ! 1)) (arg_bytes (args ! 1))
        (arg_bytes (args ! 2)))\<rparr>"

lemma smProfile_Unlock_DM_api_ok [api_rules]: "api_ok smProfile_Unlock_DM_api"
  by (rule api_okI) (clarsimp simp: smProfile_Unlock_DM_api_def smProfile_Unlock_DM_def api_proof)

definition smPrototype_Delete_DM_api :: smapi_api where
  "smPrototype_Delete_DM_api =
     \<lparr>api_name = ''Prototype_Delete_DM'',
      api_kinds = [KStr, KBuf, KStr],
      api_table = ''Prototype_Delete_DM_Layout'',
      api_build = (\<lambda>malloc args. smPrototype_Delete_DM malloc
        (arg_bytes (args ! 0)) (arg_num (args ! 1)) (arg_bytes (args ! 1))
        (arg_bytes (args ! 2)))\<rparr>"

lemma smPrototype_Delete_DM_api_ok [api_rules]: "api_ok smPrototype_Delete_DM_api"
  by (rule api_okI) (clarsimp simp: smPrototype_Delete_DM_api_def smPrototype_Delete_DM_def api_proof)

definition smPrototype_Name_Query_DM_api :: smapi_api where
  "smPrototype_Name_Query_DM_api =
     \<lparr>api_name = ''Prototype_Name_Query_DM'',
      api_kinds = [KStr, KBuf, KStr],
      api_table = ''Prototype_Name_Query_DM_Layout'',
      api_build = (\<lambda>malloc args. smPrototype_Name_Query_DM malloc
        (arg_bytes (args ! 0)) (arg_num (args ! 1)) (arg_bytes (args ! 1))
        (arg_bytes (args ! 2)))\<rparr>"

lemma smPrototype_Name_Query_DM_api_ok [api_rules]: "api_ok smPrototype_Name_Query_DM_api"
  by (rule api_okI) (clarsimp simp: smPrototype_Name_Query_DM_api_def smPrototype_Name_Query_DM_def api_proof)

definition smPrototype_Query_DM_api :: smapi_api where
  "smPrototype_Query_DM_api =
     \<lparr>api_name = ''Prototype_Query_DM'',
      api_kinds = [KStr, KBuf, KStr],
      api_table = ''Prototype_Query_DM_Layout'',
      api_build = (\<lambda>malloc args. smPrototype_Query_DM malloc
        (arg_bytes (args ! 0)) (arg_num (args ! 1)) (arg_bytes (args ! 1))
        (arg_bytes (args ! 2)))\<rparr>"

lemma smPrototype_Query_DM_api_ok [api_rules]: "api_ok smPrototype_Query_DM_api"
  by (rule api_okI) (clarsimp simp: smPrototype_Query_DM_api_def smPrototype_Query_DM_def api_proof)

definition smQuery_API_Functional_Level_api :: smapi_api where
  "smQuery_API_Functional_Level_api =
     \<lparr>api_name = ''Query_API_Functional_Level'',
      api_kinds = [KStr, KBuf, KStr],
      api_table = ''Query_API_Functional_Level_Layout'',
      api_build = (\<lambda>malloc args. smQuery_API_Functional_Level malloc
        (arg_bytes (args ! 0)) (arg_num (args ! 1)) (arg_bytes (args ! 1))
        (arg_bytes (args ! 2)))\<rparr>"

lemma smQuery_API_Functional_Level_api_ok [api_rules]: "api_ok smQuery_API_Functional_Level_api"
  by (rule api_okI) (clarsimp simp: smQuery_API_Functional_Level_api_def smQuery_API_Functional_Level_def api_proof)

definition smQuery_Asychronous_Operation_DM_api :: smapi_api where
  "smQuery_Asychronous_Operation_DM_api =
     \<lparr>api_name = ''Query_Asynchronous_Operation_DM'',
      api_kinds = [KStr, KBuf, KStr, KNum],
      api_table = ''Query_Asynchronous_Operation_DM_Layout'',
      api_build = (\<lambda>malloc args. smQuery_Asychronous_Operation_DM malloc
        (arg_bytes (args ! 0)) (arg_num (args ! 1)) (arg_bytes (args ! 1))
        (arg_bytes (args ! 2)) (arg_num (args ! 3)))\<rparr>"

lemma smQuery_Asychronous_Operation_DM_api_ok [api_rules]: "api_ok smQuery_Asychronous_Operation_DM_api"
  by (rule api_okI) (clarsimp simp: smQuery_Asychronous_Operation_DM_api_def smQuery_Asychronous_Operation_DM_def api_proof)

definition smQuery_Directory_Manager_Level_DM_api :: smapi_api where
  "smQuery_Directory_Manager_Level_DM_api =
     \<lparr>api_name = ''Query_Directory_Manager_Level_DM'',
      api_kinds = [KStr, KBuf, KStr],
      api_table = ''Query_Directory_Manager_Level_DM_Layout'',
      api_build = (\<lambda>malloc args. smQuery_Directory_Manager_Level_DM malloc
        (arg_bytes (args ! 0)) (arg_num (args ! 1)) (arg_bytes (args ! 1))
        (arg_bytes (args ! 2)))\<rparr>"

lemma smQuery_Directory_Manager_Level_DM_api_ok [api_rules]: "api_ok smQuery_Directory_Manager_Level_DM_api"
  by (rule api_okI) (clarsimp simp: smQuery_Directory_Manager_Level_DM_api_def smQuery_Directory_Manager_Level_DM_def api_proof)

definition smResponse_Recovery_api :: smapi_api where
  "smResponse_Recovery_api =
     \<lparr>api_name = ''Response_Recovery'',
      api_kinds = [KStr, KBuf, KStr, KNum],
      api_table = ''Response_Recovery_Layout'',
      api_build = (\<lambda>malloc args. smResponse_Recovery malloc
        (arg_bytes (args ! 0)) (arg_num (args ! 1)) (arg_bytes (args ! 1))
        (arg_bytes (args ! 2)) (arg_num (args ! 3)))\<rparr>"

lemma smResponse_Recovery_api_ok [api_rules]: "api_ok smResponse_Recovery_api"
  by (rule api_okI) (clarsimp simp: smResponse_Recovery_api_def smResponse_Recovery_def api_proof)

definition smSMAPI_Status_Capture_api :: smapi_api where
  "smSMAPI_Status_Capture_api =
     \<lparr>api_name = ''SMAPI_Status_Capture'',
      api_kinds = [KStr, KBuf, KStr],
      api_table = ''SMAPI_Status_Capture_Layout'',
      api_build = (\<lambda>malloc args. smSMAPI_Status_Capture malloc
        (arg_bytes (args ! 0)) (arg_num (args ! 1)) (arg_bytes (args ! 1))
        (arg_bytes (args ! 2)))\<rparr>"

lemma smSMAPI_Status_Capture_api_ok [api_rules]: "api_ok smSMAPI_Status_Capture_api"
  by (rule api_okI) (clarsimp simp: smSMAPI_Status_Capture_api_def smSMAPI_Status_Capture_def api_proof)

definition smShared_Memory_Access_Add_DM_api :: smapi_api where
  "smShared_Memory_Access_Add_DM_api =
     \<lparr>api_name = ''Shared_Memory_Access_Add_DM'',
      api_kinds = [KStr, KBuf, KStr, KStr],
      api_table = ''Shared_Memory_Access_Add_DM_Layout'',
      api_build = (\<lambda>malloc args. smShared_Memory_Access_Add_DM malloc
        (arg_bytes (args ! 0)) (arg_num (args ! 1)) (arg_bytes (args ! 1))
        (arg_bytes (args ! 2)) (arg_bytes (args ! 3)))\<rparr>"

lemma smShared_Memory_Access_Add_DM_api_ok [api_rules]: "api_ok smShared_Memory_Access_Add_DM_api"
  by (rule api_okI) (clarsimp simp: smShared_Memory_Access_Add_DM_api_def smShared_Memory_Access_Add_DM_def api_proof)

definition smShared_Memory_Access_Query_DM_api :: smapi_api where
  "smShared_Memory_Access_Query_DM_api =
     \<lparr>api_name = ''Shared_Memory_Access_Query_DM'',
      api_kinds = [KStr, KBuf, KStr, KStr],
      api_table = ''Shared_Memory_Access_Query_DM_Layout'',
      api_build = (\<lambda>malloc args. smShared_Memory_Access_Query_DM malloc
        (arg_bytes (args ! 0)) (arg_num (args ! 1)) (arg_bytes (args ! 1))
        (arg_bytes (args ! 2)) (arg_bytes (args ! 3)))\<rparr>"

lemma smShared_Memory_Access_Query_DM_api_ok [api_rules]: "api_ok smShared_Memory_Access_Query_DM_api"
  by (rule api_okI) (clarsimp simp: smShared_Memory_Access_Query_DM_api_def smShared_Memory_Access_Query_DM_def api_proof)

definition smShared_Memory_Access_Remove_DM_api :: smapi_api where
  "smShared_Memory_Access_Remove_DM_api =
     \<lparr>api_name = ''Shared_Memory_Access_Remove_DM'',
      api_kinds = [KStr, KBuf, KStr, KStr],
      api_table = ''Shared_Memory_Access_Remove_DM_Layout'',
      api_build = (\<lambda>malloc args. smShared_Memory_Access_Remove_DM malloc
        (arg_bytes (args ! 0)) (arg_num (args ! 1)) (arg_bytes (args ! 1))
        (arg_bytes (args ! 2)) (arg_bytes (args ! 3)))\<rparr>"

lemma smShared_Memory_Access_Remove_DM_api_ok [api_rules]: "api_ok smShared_Memory_Access_Remove_DM_api"
  by (rule api_okI) (clarsimp simp: smShared_Memory_Access_Remove_DM_api_def smShared_Memory_Access_Remove_DM_def api_proof)

definition smShared_Memory_Create_api :: smapi_api where
  "smShared_Memory_Create_api =
     \<lparr>api_name = ''Shared_Memory_Create'',
      api_kinds = [KStr, KBuf, KStr, KStr, KNum64, KNum64, KChr, KChr, KStr],
      api_table = ''Shared_Memory_Create_Layout'',
      api_build = (\<lambda>malloc args. smShared_Memory_Create malloc
        (arg_bytes (args ! 0)) (arg_num (args ! 1)) (arg_bytes (args ! 1))
        (arg_bytes (args ! 2)) (arg_bytes (args ! 3)) (arg_num (args ! 4)) (arg_num (args ! 5))
        (arg_chr (args ! 6)) (arg_chr (args ! 7)) (arg_bytes (args ! 8)))\<rparr>"

lemma smShared_Memory_Create_api_ok [api_rules]: "api_ok smShared_Memory_Create_api"
  by (rule api_okI) (clarsimp simp: smShared_Memory_Create_api_def smShared_Memory_Create_def api_proof)

definition smShared_Memory_Delete_api :: smapi_api where
  "smShared_Memory_Delete_api =
     \<lparr>api_name = ''Shared_Memory_Delete'',
      api_kinds = [KStr, KBuf, KStr, KStr],
      api_table = ''Shared_Memory_Delete_Layout'',
      api_build = (\<lambda>malloc args. smShared_Memory_Delete malloc
        (arg_bytes (args ! 0)) (arg_num (args ! 1)) (arg_bytes (args ! 1))
        (arg_bytes (args ! 2)) (arg_bytes (args ! 3)))\<rparr>"

lemma smShared_Memory_Delete_api_ok [api_rules]: "api_ok smShared_Memory_Delete_api"
  by (rule api_okI) (clarsimp simp: smShared_Memory_Delete_api_def smShared_Memory_Delete_def api_proof)

definition smShared_Memory_Query_api :: smapi_api where
  "smShared_Memory_Query_api =
     \<lparr>api_name = ''Shared_Memory_Query'',
      api_kinds = [KStr, KBuf, KStr, KStr],
      api_table = ''Shared_Memory_Query_Layout'',
      api_build = (\<lambda>malloc args. smShared_Memory_Query malloc
        (arg_bytes (args ! 0)) (arg_num (args ! 1)) (arg_bytes (args ! 1))
        (arg_bytes (args ! 2)) (arg_bytes (args ! 3)))\<rparr>"

lemma smShared_Memory_Query_api_ok [api_rules]: "api_ok smShared_Memory_Query_api"
  by (rule api_okI) (clarsimp simp: smShared_Memory_Query_api_def smShared_Memory_Query_def api_proof)

definition smShared_Memory_Replace_api :: smapi_api where
  "smShared_Memory_Replace_api =
     \<lparr>api_name = ''Shared_Memory_Replace'',
      api_kinds = [KStr, KBuf, KStr, KStr, KStr],
      api_table = ''Shared_Memory_Replace_Layout'',
      api_build = (\<lambda>malloc args. smShared_Memory_Replace malloc
        (arg_bytes (args ! 0)) (arg_num (args ! 1)) (arg_bytes (args ! 1))
        (arg_bytes (args ! 2)) (arg_bytes (args ! 3)) (arg_bytes (args ! 4)))\<rparr>"

lemma smShared_Memory_Replace_api_ok [api_rules]: "api_ok smShared_Memory_Replace_api"
  by (rule api_okI) (clarsimp simp: smShared_Memory_Replace_api_def smShared_Memory_Replace_def api_proof)

definition smStatic_Image_Changes_Activate_DM_api :: smapi_api where
  "smStatic_Image_Changes_Activate_DM_api =
     \<lparr>api_name = ''Static_Image_Changes_Activate_DM'',
      api_kinds = [KStr, KBuf, KStr],
      api_table = ''Static_Image_Changes_Activate_DM_Layout'',
      api_build = (\<lambda>malloc args. smStatic_Image_Changes_Activate_DM malloc
        (arg_bytes (args ! 0)) (arg_num (args ! 1)) (arg_bytes (args ! 1))
        (arg_bytes (args ! 2)))\<rparr>"

lemma smStatic_Image_Changes_Activate_DM_api_ok [api_rules]: "api_ok smStatic_Image_Changes_Activate_DM_api"
  by (rule api_okI) (clarsimp simp: smStatic_Image_Changes_Activate_DM_api_def smStatic_Image_Changes_Activate_DM_def api_proof)

definition smStatic_Image_Changes_Deactivate_DM_api :: smapi_api where
  "smStatic_Image_Changes_Deactivate_DM_api =
     \<lparr>api_name = ''Static_Image_Changes_Deactivate_DM'',
      api_kinds = [KStr, KBuf, KStr],
      api_table = ''Static_Image_Changes_Deactivate_DM_Layout'',
      api_build = (\<lambda>malloc args. smStatic_Image_Changes_Deactivate_DM malloc
        (arg_bytes (args ! 0)) (arg_num (args ! 1)) (arg_bytes (args ! 1))
        (arg_bytes (args ! 2)))\<rparr>"

lemma smStatic_Image_Changes_Deactivate_DM_api_ok [api_rules]: "api_ok smStatic_Image_Changes_Deactivate_DM_api"
  by (rule api_okI) (clarsimp simp: smStatic_Image_Changes_Deactivate_DM_api_def smStatic_Image_Changes_Deactivate_DM_def api_proof)

definition smStatic_Image_Changes_Immediate_DM_api :: smapi_api where
  "smStatic_Image_Changes_Immediate_DM_api =
     \<lparr>api_name = ''Static_Image_Changes_Immediate_DM'',
      api_kinds = [KStr, KBuf, KStr],
      api_table = ''Static_Image_Changes_Immediate_DM_Layout'',
      api_build = (\<lambda>malloc args. smStatic_Image_Changes_Immediate_DM malloc
        (arg_bytes (args ! 0)) (arg_num (args ! 1)) (arg_bytes (args ! 1))
        (arg_bytes (args ! 2)))\<rparr>"

lemma smStatic_Image_Changes_Immediate_DM_api_ok [api_rules]: "api_ok smStatic_Image_Changes_Immediate_DM_api"
  by (rule api_okI) (clarsimp simp: smStatic_Image_Changes_Immediate_DM_api_def smStatic_Image_Changes_Immediate_DM_def api_proof)

definition smVMRM_Configuration_Query_api :: smapi_api where
  "smVMRM_Configuration_Query_api =
     \<lparr>api_name = ''VMRM_Configuration_Query'',
      api_kinds = [KStr, KBuf, KStr, KStr, KStr, KStr],
      api_table = ''VMRM_Configuration_Query_Layout'',
      api_build = (\<lambda>malloc args. smVMRM_Configuration_Query malloc
        (arg_bytes (args ! 0)) (arg_num (args ! 1)) (arg_bytes (args ! 1))
        (arg_bytes (args ! 2)) (arg_bytes (args ! 3)) (arg_bytes (args ! 4))
        (arg_bytes (args ! 5)))\<rparr>"

lemma smVMRM_Configuration_Query_api_ok [api_rules]: "api_ok smVMRM_Configuration_Query_api"
  by (rule api_okI) (clarsimp simp: smVMRM_Configuration_Query_api_def smVMRM_Configuration_Query_def api_proof)

definition smVMRM_Measurement_Query_api :: smapi_api where
  "smVMRM_Measurement_Query_api =
     \<lparr>api_name = ''VMRM_Measurement_Query'',
      api_kinds = [KStr, KBuf, KStr],
      api_table = ''VMRM_Measurement_Query_Layout'',
      api_build = (\<lambda>malloc args. smVMRM_Measurement_Query malloc
        (arg_bytes (args ! 0)) (arg_num (args ! 1)) (arg_bytes (args ! 1))
        (arg_bytes (args ! 2)))\<rparr>"

lemma smVMRM_Measurement_Query_api_ok [api_rules]: "api_ok smVMRM_Measurement_Query_api"
  by (rule api_okI) (clarsimp simp: smVMRM_Measurement_Query_api_def smVMRM_Measurement_Query_def api_proof)

definition requests_system :: "smapi_api list" where
  "requests_system =
     [smAsynchronous_Notification_Disable_DM_api, smAsynchronous_Notification_Enable_DM_api, smAsynchronous_Notification_Query_DM_api,
      smAuthorization_List_Add_api, smAuthorization_List_Query_api, smAuthorization_List_Remove_api,
      smCheck_Authentication_api, smDirectory_Manager_Local_Tag_Delete_DM_api, smDirectory_Manager_Local_Tag_Query_DM_api,
      smDirectory_Manager_Local_Tag_Set_DM_api, smDirectory_Manager_Search_DM_api, smEvent_Unsubscribe_api,
      smName_List_Add_api, smName_List_Destroy_api, smName_List_Query_api,
      smName_List_Remove_api, smProfile_Delete_DM_api, smProfile_Lock_DM_api,
      smProfile_Lock_Query_DM_api, smProfile_Unlock_DM_api, smPrototype_Delete_DM_api,
      smPrototype_Name_Query_DM_api, smPrototype_Query_DM_api, smQuery_API_Functional_Level_api,
      smQuery_Asychronous_Operation_DM_api, smQuery_Directory_Manager_Level_DM_api, smResponse_Recovery_api,
      smSMAPI_Status_Capture_api, smShared_Memory_Access_Add_DM_api, smShared_Memory_Access_Query_DM_api,
      smShared_Memory_Access_Remove_DM_api, smShared_Memory_Create_api, smShared_Memory_Delete_api,
      smShared_Memory_Query_api, smShared_Memory_Replace_api, smStatic_Image_Changes_Activate_DM_api,
      smStatic_Image_Changes_Deactivate_DM_api, smStatic_Image_Changes_Immediate_DM_api, smVMRM_Configuration_Query_api,
      smVMRM_Measurement_Query_api]"

lemma requests_system_ok: "list_all api_ok requests_system"
  by (simp add: requests_system_def api_rules)

end
