(* ===== verification/Smapi_Wire.thy ===== *)
theory Smapi_Wire
  imports Requests_Image Requests_Network Requests_System
begin

text \<open>
  The requests of all builders, seen from the server: a decoder that reads a request back, the
  interface \<open>request_protocol\<close> between a builder and that decoder, and its interpretation on the
  builders of the three request theories.
\<close>

section \<open>Reading a request back\<close>

datatype wire_kind = WCounted | WRaw | WInt4 | WInt8

fun field_kind :: "wire_field \<Rightarrow> wire_kind" where
  "field_kind (Counted bs) = WCounted"
| "field_kind (Raw b) = WRaw"
| "field_kind (Int4 v) = WInt4"
| "field_kind (Int8 v) = WInt8"

fun decode_field :: "wire_kind \<Rightarrow> byte list \<Rightarrow> (wire_field \<times> byte list) option" where
  "decode_field WCounted bs =
     (let n = get_int 4 (take 4 bs); rest = drop 4 bs
      in if 4 \<le> length bs \<and> 0 \<le> n \<and> n \<le> int (length rest)
         then Some (Counted (take (nat n) rest), drop (nat n) rest) else None)"
| "decode_field WRaw bs = (case bs of [] \<Rightarrow> None | b # rest \<Rightarrow> Some (Raw b, rest))"
| "decode_field WInt4 bs =
     (if 4 \<le> length bs then Some (Int4 (get_int 4 (take 4 bs)), drop 4 bs) else None)"
| "decode_field WInt8 bs =
     (if 8 \<le> length bs then Some (Int8 (get_int 8 (take 8 bs)), drop 8 bs) else None)"

fun decode_fields :: "wire_kind list \<Rightarrow> byte list \<Rightarrow> wire_field list option" where
  "decode_fields [] bs = (if bs = [] then Some [] else None)"
| "decode_fields (k # ks) bs =
     (case decode_field k bs of
        None \<Rightarrow> None
      | Some (f, rest) \<Rightarrow>
          (case decode_fields ks rest of None \<Rightarrow> None | Some fs \<Rightarrow> Some (f # fs)))"

definition decode_request :: "wire_kind list \<Rightarrow> byte list \<Rightarrow> wire_field list option" where
  "decode_request ks bs =
     (if 4 \<le> length bs \<and> get_int 4 (take 4 bs) = int (length bs) - 4
      then decode_fields ks (drop 4 bs) else None)"

fun field_ok :: "wire_field \<Rightarrow> bool" where
  "field_ok (Counted bs) \<longleftrightarrow> int (length bs) < 2 ^ 31"
| "field_ok (Raw b) \<longleftrightarrow> True"
| "field_ok (Int4 v) \<longleftrightarrow> - (2 ^ 31) \<le> v \<and> v < 2 ^ 31"
| "field_ok (Int8 v) \<longleftrightarrow> - (2 ^ 63) \<le> v \<and> v < 2 ^ 63"

lemma decode_encode_field:
  assumes "field_ok f" shows "decode_field (field_kind f) (encode_field f @ rest) = Some (f, rest)"
proof (cases f)
  case (Counted bs)
  then have "get_int 4 (take 4 (encode_field f @ rest)) = int (length bs)"
    using assms int4.get_take_put [of "int (length bs)" "bs @ rest"] by (simp del: be_bytes.simps)
  then show ?thesis by (simp add: Counted Let_def del: be_bytes.simps)
next
  case (Int4 v)
  then show ?thesis using assms int4.get_take_put [of v rest] by (simp del: be_bytes.simps)
next
  case (Int8 v)
  then show ?thesis using assms int8.get_take_put [of v rest] by (simp del: be_bytes.simps)
qed simp

lemma decode_encode_fields:
  "list_all field_ok fs \<Longrightarrow> decode_fields (map field_kind fs) (encode_fields fs) = Some fs"
  by (induction fs) (simp_all add: encode_fields_def decode_encode_field)

lemma decode_request_bytes:
  assumes "list_all field_ok fs" and "4 + fields_size fs < 2 ^ 31"
  shows "decode_request (map field_kind fs) (request_bytes fs) = Some fs"
proof -
  have "get_int 4 (take 4 (request_bytes fs)) = fields_size fs"
    using int4.get_take_put [of "fields_size fs" "encode_fields fs"] assms(2) fields_size_nonneg [of fs]
    by (simp add: request_bytes_def fields_size_def del: be_bytes.simps)
  moreover have "drop 4 (request_bytes fs) = encode_fields fs"
    by (simp add: request_bytes_def del: be_bytes.simps)
  ultimately show ?thesis
    using length_request_bytes [of fs] fields_size_nonneg [of fs] decode_encode_fields [OF assms(1)]
    by (simp add: decode_request_def)
qed

section \<open>Builder and decoder\<close>

text \<open>
  What the sender of a request relies on: a builder that returns a buffer has written the request
  of its arguments into it, and with memory it does return one.
\<close>

locale request_protocol =
  fixes build :: "(int \<Rightarrow> bool) \<Rightarrow> 'c \<Rightarrow> smapi_request res"
    and fields :: "'c \<Rightarrow> wire_field list"
    and valid :: "'c \<Rightarrow> bool"
    and table :: "'c \<Rightarrow> string"
  assumes build_wire: "valid c \<Longrightarrow> malloc (4 + fields_size (fields c)) \<Longrightarrow>
      build malloc c = Ok (wire_request (table c) (fields c))"
    and build_memory: "valid c \<Longrightarrow> \<not> malloc (4 + fields_size (fields c)) \<Longrightarrow>
      build malloc c = Err MEMORY_ERROR"
    and valid_size: "valid c \<Longrightarrow> 4 + fields_size (fields c) < 2 ^ 31"
begin

lemma build_cases:
  assumes "valid c"
  obtains "build malloc c = Ok (wire_request (table c) (fields c))" | "build malloc c = Err MEMORY_ERROR"
  using assms build_wire build_memory by blast

lemma in_bounds: "valid c \<Longrightarrow> build malloc c \<noteq> Fault"
  by (rule build_cases [of c malloc]) auto

lemma build_Ok: "valid c \<Longrightarrow> build malloc c = Ok req \<Longrightarrow> req = wire_request (table c) (fields c)"
  by (rule build_cases [of c malloc]) auto

lemma exact_size: "valid c \<Longrightarrow> build malloc c = Ok req \<Longrightarrow> inputSize req = int (length (inputP req))"
  using build_Ok [of c malloc req] by (auto simp: wire_request_def)

lemma decodes:
  assumes "valid c" and "build malloc c = Ok req" and "list_all field_ok (fields c)"
  shows "decode_request (map field_kind (fields c)) (inputP req) = Some (fields c)"
  using build_Ok [OF assms(1,2)] decode_request_bytes [OF assms(3) valid_size [OF assms(1)]]
  by (simp add: wire_request_def)

lemma injective:
  assumes "valid c" "valid d" and "build malloc c = Ok req" "build malloc d = Ok req"
    and "list_all field_ok (fields c)" "list_all field_ok (fields d)"
    and "map field_kind (fields c) = map field_kind (fields d)"
  shows "fields c = fields d"
proof -
  have "Some (fields c) = decode_request (map field_kind (fields c)) (inputP req)"
    by (rule decodes [OF assms(1,3,5), symmetric])
  also have "\<dots> = decode_request (map field_kind (fields d)) (inputP req)"
    by (simp only: assms(7))
  also have "\<dots> = Some (fields d)" by (rule decodes [OF assms(2,4,6)])
  finally show ?thesis by simp
qed

end

section \<open>All builders\<close>

definition smapi_apis :: "smapi_api list" where
  "smapi_apis = requests_image @ requests_network @ requests_system"

definition api_call :: "(int \<Rightarrow> bool) \<Rightarrow> smapi_api \<times> smapi_arg list \<Rightarrow> smapi_request res" where
  "api_call malloc = (\<lambda>(api, args). api_build api malloc args)"

definition api_call_ok :: "smapi_api \<times> smapi_arg list \<Rightarrow> bool" where
  "api_call_ok = (\<lambda>(api, args). api \<in> set smapi_apis \<and> api_args_ok api args)"

lemma smapi_apis_ok: "api \<in> set smapi_apis \<Longrightarrow> api_ok api"
  using requests_image_ok requests_network_ok requests_system_ok
  by (auto simp: smapi_apis_def list_all_iff)

interpretation apis: request_protocol api_call "\<lambda>(api, args). api_fields api args" api_call_ok
  "\<lambda>(api, args). api_table api"
proof unfold_locales
  fix c :: "smapi_api \<times> smapi_arg list" and malloc :: "int \<Rightarrow> bool"
  obtain api args where c: "c = (api, args)" by (cases c)
  assume "api_call_ok c"
  then have "api_ok api" "api_args_ok api args" by (auto simp: c api_call_ok_def smapi_apis_ok)
  note call = this [unfolded api_ok_def]
  show "4 + fields_size (case c of (api, args) \<Rightarrow> api_fields api args) < 2 ^ 31"
    using call(2) by (simp add: c api_args_ok_def)
  show "api_call malloc c = Ok (wire_request (case c of (api, args) \<Rightarrow> api_table api)
      (case c of (api, args) \<Rightarrow> api_fields api args))"
    if "malloc (4 + fields_size (case c of (api, args) \<Rightarrow> api_fields api args))"
    using call that by (simp add: c api_call_def)
  show "api_call malloc c = Err MEMORY_ERROR"
    if "\<not> malloc (4 + fields_size (case c of (api, args) \<Rightarrow> api_fields api args))"
    using call that by (simp add: c api_call_def)
qed

definition name_list_args :: "smapi_arg list" where
  "name_list_args =
     [Str (c_literal ''MAINT''), Buf 2 (c_literal ''PWX''), Str (c_literal ''LIST''), Str (c_literal ''LNX1'')]"

lemma name_list_in_apis: "smName_List_Add_api \<in> set smapi_apis"
  by (simp add: smapi_apis_def requests_system_def)

lemma name_list_args_ok: "api_args_ok smName_List_Add_api name_list_args"
proof -
  have "list_all2 arg_ok (api_kinds smName_List_Add_api) name_list_args" by code_simp
  moreover have "4 + fields_size (api_fields smName_List_Add_api name_list_args) < 2 ^ 31" by code_simp
  ultimately show ?thesis by (simp add: api_args_ok_def)
qed

text \<open>
  C2: every builder writes its request.  For each of the 105 APIs of \<open>smapi_apis\<close>, with arguments of
  the kinds its C function takes (a buffer argument with a length that is not negative and not
  beyond the buffer) and a total below two gigabytes, the builder returns \<open>MEMORY_ERROR\<close> when
  \<open>malloc\<close> fails, and otherwise a buffer that holds the length word, the name of the API and the
  arguments in the order of the parameters, filled to its last byte with no write behind its end,
  for the parser table of the API.
\<close>

theorem requests_on_the_wire:
  assumes "api \<in> set smapi_apis" and "api_args_ok api args"
  shows "api_build api malloc args =
    (if malloc (int (length (request_bytes (api_fields api args))))
     then Ok \<lparr>inputP = request_bytes (api_fields api args),
              inputSize = int (length (request_bytes (api_fields api args))),
              parser_table = api_table api\<rparr>
     else Err MEMORY_ERROR)"
  using smapi_apis_ok [OF assms(1)] assms(2)
  by (simp add: api_ok_def wire_request_def length_request_bytes)

theorem requests_on_the_wire_witness:
  "smName_List_Add (\<lambda>n. n < 1000) (c_literal ''MAINT'') 2 (c_literal ''PWX'') (c_literal ''LIST'')
     (c_literal ''LNX1'') =
   Ok \<lparr>inputP = request_bytes (api_fields smName_List_Add_api name_list_args), inputSize = 52,
      parser_table = ''Name_List_Add_Layout''\<rparr>"
proof -
  have "length (request_bytes (api_fields smName_List_Add_api name_list_args)) = 52" by code_simp
  then show ?thesis
    using requests_on_the_wire [OF name_list_in_apis name_list_args_ok, of "\<lambda>n. n < 1000"]
    by (simp add: smName_List_Add_api_def name_list_args_def)
qed

text \<open>
  C3: the server reads back what the caller passed.  Decoding the buffer of a builder by the kinds
  of its fields gives the name of the API and the arguments.
\<close>

theorem request_roundtrip:
  assumes "api \<in> set smapi_apis" and "api_args_ok api args" and "list_all field_ok (api_fields api args)"
    and "api_build api malloc args = Ok req"
  shows "decode_request (map field_kind (api_fields api args)) (inputP req) = Some (api_fields api args)"
  using apis.decodes [of "(api, args)" malloc req] assms by (simp add: api_call_def api_call_ok_def)

theorem request_roundtrip_witness:
  "\<exists>req. smName_List_Add (\<lambda>n. n < 1000) (c_literal ''MAINT'') 2 (c_literal ''PWX'') (c_literal ''LIST'')
     (c_literal ''LNX1'') = Ok req \<and>
   decode_request [WCounted, WCounted, WCounted, WCounted, WCounted] (inputP req) =
     Some [Counted (c_literal ''Name_List_Add''), Counted (c_literal ''MAINT''), Counted (c_literal ''PW''),
       Counted (c_literal ''LIST''), Counted (c_literal ''LNX1'')]"
proof -
  let ?fs = "api_fields smName_List_Add_api name_list_args"
  have fs: "?fs = [Counted (c_literal ''Name_List_Add''), Counted (c_literal ''MAINT''), Counted (c_literal ''PW''),
       Counted (c_literal ''LIST''), Counted (c_literal ''LNX1'')]"
    by code_simp
  have ok: "list_all field_ok ?fs" by code_simp
  obtain req where req: "api_build smName_List_Add_api (\<lambda>n. n < 1000) name_list_args = Ok req"
  proof -
    have "4 + fields_size ?fs < 1000" by code_simp
    then show ?thesis
      using that smapi_apis_ok [OF name_list_in_apis] name_list_args_ok by (auto simp: api_ok_def)
  qed
  from request_roundtrip [OF name_list_in_apis name_list_args_ok ok req] req show ?thesis
    unfolding fs by (simp add: smName_List_Add_api_def name_list_args_def)
qed

text \<open>
  A negative password length overruns the buffer.  The size of the buffer is computed with the
  length, so that it is too small by as much, while the length word and the other arguments are
  written in full: the last argument is copied behind the end.
\<close>

theorem negative_password_length_overruns:
  assumes "n < 0" and "malloc (c_int (37 + strlen userid + n + strlen targetIdentifier + strlen name_arg))"
    and "0 \<le> 37 + strlen userid + n + strlen targetIdentifier + strlen name_arg"
    and "37 + strlen userid + strlen targetIdentifier + strlen name_arg < 2 ^ 31"
  shows "smName_List_Add malloc userid n password targetIdentifier name_arg = Fault"
proof -
  let ?name = "c_literal ''Name_List_Add''"
  define cap where "cap = 37 + strlen userid + n + strlen targetIdentifier + strlen name_arg"
  let ?fs = "[Int4 (cap - 4), Counted ?name, Counted (c_string userid), Int4 n,
    Counted (c_string targetIdentifier), Counted (c_string name_arg)]"
  have cap: "c_int cap = cap" using assms(1,3,4) by (simp add: c_int_id cap_def)
  have len: "length ?name = 13" by code_simp
  have pw: "put_buffer_opt n password = put_field (Int4 n)"
    using assms(1) by (intro ext) (simp add: put_buffer_opt_def put_field_def PUT_INT_def del: be_bytes.simps)
  have "fields_size ?fs > cap" using assms(1) by (simp add: len cap_def strlen_eq)
  then have "run_puts (map put_field ?fs) cap [] = Fault"
    using run_puts_fields [of "[]" cap ?fs] assms(3) by (simp add: put_bytes_def fields_size_def cap_def)
  moreover have "4 + 4 + strlen ?name + 4 + strlen userid + 4 + n + 4 + strlen targetIdentifier + 4 + strlen name_arg = cap"
    by (simp add: cap_def strlen_eq [of ?name] c_literal_string len)
  ultimately show ?thesis
    using assms(2) cap unfolding cap_def [symmetric]
    by (simp add: smName_List_Add_def Let_def smapi_build_def put_fields pw c_literal_string)
qed

theorem negative_password_length_overruns_witness:
  "smName_List_Add (\<lambda>_. True) (c_literal ''A'') (- 1) [] (c_literal ''B'') (c_literal ''C'') = Fault"
  by (rule negative_password_length_overruns) (simp_all add: strlen_eq c_string_def c_literal_def)

text \<open>
  \<open>smImage_Volume_Delete\<close> does not use the length of the password: it copies the bytes before
  the first NUL, where every other builder copies \<open>passwordLength\<close> bytes.
\<close>

theorem volume_delete_ignores_password_length:
  "smImage_Volume_Delete malloc userid n password = smImage_Volume_Delete malloc userid m password"
  by (intro ext) (simp add: smImage_Volume_Delete_def)

end
