(* ===== verification/Smapi_Lists.thy ===== *)
theory Smapi_Lists
  imports Smapi_Request Smapi_Table
begin

text \<open>
  Requests with lists: the builders of \<^verbatim>\<open>src/vmapi*.c\<close> that take an array of \<open>keyword=value\<close> strings
  or of records.  A first loop adds the sizes of the elements to \<open>inputSize\<close>, a second one copies
  the elements.  Many of them remember the position of each keyword in a local array
  \<open>targetStart\<close> of a fixed size for a later trace; a store behind its end is \<open>Fault\<close>.  An array
  argument is the list of its elements beside the count that the caller passes; an element behind
  the end of the list is a read outside the array.
\<close>

section \<open>Statements\<close>

fun for_each :: "(int \<Rightarrow> 'e \<Rightarrow> 'a \<Rightarrow> 'a res) \<Rightarrow> int \<Rightarrow> int \<Rightarrow> 'e list \<Rightarrow> 'a \<Rightarrow> 'a res" where
  "for_each f count i [] a = (if i < count then Fault else Ok a)"
| "for_each f count i (e # es) a =
     (if i < count then res_bind (f i e a) (for_each f count (i + 1) es) else Ok a)"

text \<open>\<open>strcpy\<close> and a cursor that moves behind the NUL; \<open>memcpy\<close> of the NUL with the string; the
  bytes of a string alone; a \<open>memcpy\<close> guarded by a length that is not zero.\<close>

definition put_asciiz :: "byte list \<Rightarrow> put_op" where
  "put_asciiz s = put_bytes (c_string s @ [0])"

definition put_with_nul :: "byte list \<Rightarrow> put_op" where
  "put_with_nul s = memcpy (s @ [0]) (strlen s + 1)"

definition put_chars :: "byte list \<Rightarrow> put_op" where
  "put_chars s = memcpy s (strlen s)"

text \<open>A string and a NUL behind it; a string with its NUL, behind their length.\<close>

definition put_chars_nul :: "byte list \<Rightarrow> put_op" where
  "put_chars_nul s cap out = res_bind (put_chars s cap out) (put_char 0 cap)"

definition put_counted_asciiz :: "byte list \<Rightarrow> put_op" where
  "put_counted_asciiz s cap out = res_bind (PUT_INT (strlen s + 1) cap out) (put_asciiz s cap)"

definition put_buffer_nz :: "int \<Rightarrow> byte list \<Rightarrow> put_op" where
  "put_buffer_nz n s cap out =
     res_bind (PUT_INT n cap out) (\<lambda>out. if n \<noteq> 0 then memcpy s n cap out else Ok out)"

text \<open>A store to \<open>targetStart[i]\<close>, which has \<open>room\<close> elements.\<close>

definition mark :: "int \<Rightarrow> int \<Rightarrow> put_op" where
  "mark room i cap out = (if 0 \<le> i \<and> i < room then Ok out else Fault)"

definition no_mark :: "int \<Rightarrow> put_op" where
  "no_mark i cap out = Ok out"

definition put_string_marked :: "put_op \<Rightarrow> byte list \<Rightarrow> put_op" where
  "put_string_marked marks s cap out =
     (let tempSize = strlen s in
      res_bind (PUT_INT tempSize cap out) (\<lambda>out.
      res_bind (marks cap out) (\<lambda>out. memcpy s tempSize cap out)))"

text \<open>The two loops over the keywords.\<close>

fun key_step :: "byte list \<Rightarrow> int \<times> int \<Rightarrow> (int \<times> int) res" where
  "key_step k (input_size, keyValueSize) =
     Ok (c_int (input_size + (strlen k + 1)), c_int (keyValueSize + (strlen k + 1)))"

definition key_sizes :: "int \<Rightarrow> byte list list \<Rightarrow> int \<Rightarrow> (int \<times> int) res" where
  "key_sizes keyValueCount keyValueArray n =
     for_each (\<lambda>i. key_step) keyValueCount 0 keyValueArray (n, 0)"

definition put_keys :: "(int \<Rightarrow> put_op) \<Rightarrow> (byte list \<Rightarrow> put_op) \<Rightarrow> int \<Rightarrow> byte list list \<Rightarrow> put_op" where
  "put_keys marks put keyValueCount keyValueArray cap =
     for_each (\<lambda>i k out. res_bind (marks i cap out) (put k cap)) keyValueCount 0 keyValueArray"

definition put_counted_keys ::
  "int \<Rightarrow> (int \<Rightarrow> put_op) \<Rightarrow> (byte list \<Rightarrow> put_op) \<Rightarrow> int \<Rightarrow> byte list list \<Rightarrow> put_op" where
  "put_counted_keys keyValueSize marks put keyValueCount keyValueArray cap out =
     res_bind (PUT_INT keyValueSize cap out) (put_keys marks put keyValueCount keyValueArray cap)"

text \<open>The two loops over records, each with its length before the bytes.\<close>

fun record_step :: "int \<times> byte list \<Rightarrow> int \<times> int \<Rightarrow> (int \<times> int) res" where
  "record_step (recordLength, rec) (input_size, recordTotal) =
     Ok (c_int (c_int (input_size + 4) + recordLength), c_int (c_int (recordTotal + 4) + recordLength))"

definition record_sizes :: "int \<Rightarrow> (int \<times> byte list) list \<Rightarrow> int \<Rightarrow> (int \<times> int) res" where
  "record_sizes recordCount recordList n =
     for_each (\<lambda>i. record_step) recordCount 0 recordList (n, 0)"

definition put_records :: "int \<Rightarrow> int \<Rightarrow> (int \<times> byte list) list \<Rightarrow> put_op" where
  "put_records recordTotal recordCount recordList cap out =
     res_bind (PUT_INT recordTotal cap out) (\<lambda>out.
       if recordTotal > 0
       then for_each (\<lambda>i (recordLength, record) out. put_buffer recordLength record cap out)
         recordCount 0 recordList out
       else Ok out)"

text \<open>The buffer may be allocated larger than \<open>inputSize\<close>, and the builder may set
  \<open>smapiErrorBufferPossible\<close> of the context.\<close>

definition smapi_build_list ::
  "(int \<Rightarrow> bool) \<Rightarrow> int \<Rightarrow> int \<Rightarrow> put_op list \<Rightarrow> string \<Rightarrow> int option \<Rightarrow> (smapi_request \<times> int option) res" where
  "smapi_build_list malloc room n ops table errorBuffer =
     (if \<not> malloc room then Err MEMORY_ERROR
      else res_bind (run_puts ops room [])
        (\<lambda>out. Ok (\<lparr>inputP = out, inputSize = n, parser_table = table\<rparr>, errorBuffer)))"

section \<open>What the loops do\<close>

lemma for_each_take:
  assumes "count - i \<le> int (length es)"
  shows "for_each f count i es a = for_each f (i + int (length (take (nat (count - i)) es))) i (take (nat (count - i)) es) a"
  using assms
proof (induction es arbitrary: i a)
  case Nil
  then show ?case by simp
next
  case (Cons e es)
  show ?case
  proof (cases "i < count")
    case True
    define m where "m = nat (count - (i + 1))"
    have m: "nat (count - i) = Suc m" using True by (simp add: m_def)
    have "for_each f count (i + 1) es b =
        for_each f (i + 1 + int (length (take m es))) (i + 1) (take m es) b" for b
      unfolding m_def by (rule Cons.IH) (use Cons.prems in simp)
    then have rest: "for_each f count (i + 1) es =
        for_each f (i + 1 + int (length (take m es))) (i + 1) (take m es)"
      by (rule ext)
    show ?thesis
      using True unfolding m take_Suc_Cons for_each.simps rest by (simp add: add_ac)
  next
    case False
    then show ?thesis by simp
  qed
qed

lemma for_each_whole:
  "count \<le> int (length es) \<Longrightarrow>
    for_each f count 0 es = for_each f (int (length (take (nat count) es))) 0 (take (nat count) es)"
  using for_each_take [of count 0 es f] by (intro ext) simp

lemma for_each_short:
  assumes "i + int (length es) < count" and "\<And>i e a. \<exists>b. f i e a = Ok b"
  shows "for_each f count i es a = Fault"
  using assms(1)
proof (induction es arbitrary: i a)
  case (Cons e es)
  obtain b where "f i e a = Ok b" using assms(2) by blast
  then show ?case using Cons.prems Cons.IH [of "i + 1" b] by simp
qed simp

lemma c_int_mod: "c_int v mod 256 ^ 4 = v mod 256 ^ 4"
  by (auto simp: c_int_def signed_of_def mod_diff_left_eq)

lemma c_int_cong: "v mod 256 ^ 4 = w mod 256 ^ 4 \<Longrightarrow> c_int v = c_int w"
  by (simp add: c_int_def)

lemma c_int_add [simp]: "c_int (c_int v + w) = c_int (v + w)"
  by (rule c_int_cong) (metis c_int_mod mod_add_left_eq)

lemma c_int_0 [simp]: "c_int 0 = 0"
  by (simp add: c_int_id)

definition keys_bytes :: "byte list list \<Rightarrow> byte list" where
  "keys_bytes ks = concat (map (\<lambda>k. c_string k @ [0]) ks)"

definition keys_size :: "byte list list \<Rightarrow> int" where
  "keys_size ks = int (length (keys_bytes ks))"

lemma keys_simps [simp]:
  "keys_bytes [] = []" "keys_bytes (k # ks) = c_string k @ 0 # keys_bytes ks"
  "keys_size [] = 0" "keys_size (k # ks) = strlen k + 1 + keys_size ks"
  by (simp_all add: keys_bytes_def keys_size_def strlen_eq)

lemma key_sizes_loop:
  "for_each (\<lambda>i. key_step) (i + int (length ks)) i ks (c_int n, c_int m) =
    Ok (c_int (n + keys_size ks), c_int (m + keys_size ks))"
proof (induction ks arbitrary: i n m)
  case (Cons k ks)
  show ?case using Cons.IH [of "i + 1" "n + (strlen k + 1)" "m + (strlen k + 1)"]
    by (simp add: add.assoc)
qed simp

lemma key_sizes_eq:
  assumes "count \<le> int (length ks)"
  shows "key_sizes count ks (c_int n) =
    Ok (c_int (n + keys_size (take (nat count) ks)), c_int (keys_size (take (nat count) ks)))"
  using key_sizes_loop [of 0 "take (nat count) ks" n 0]
  by (simp add: key_sizes_def for_each_whole [OF assms])

lemma key_sizes_short: "int (length ks) < count \<Longrightarrow> key_sizes count ks n = Fault"
  unfolding key_sizes_def by (rule for_each_short) (auto simp: split_paired_all)


definition recs_fields :: "(int \<times> byte list) list \<Rightarrow> wire_field list" where
  "recs_fields rs = map (\<lambda>(n, r). Counted (take (nat n) r)) rs"

lemma recs_fields_simps [simp]:
  "recs_fields [] = []" "recs_fields ((n, r) # rs) = Counted (take (nat n) r) # recs_fields rs"
  by (simp_all add: recs_fields_def)

definition recs_ok :: "(int \<times> byte list) list \<Rightarrow> bool" where
  "recs_ok rs \<longleftrightarrow> list_all (\<lambda>(n, r). buffer_arg n r) rs"

lemma recs_ok_simps [simp]: "recs_ok []" "recs_ok ((n, r) # rs) \<longleftrightarrow> buffer_arg n r \<and> recs_ok rs"
  by (simp_all add: recs_ok_def)

lemma record_sizes_loop:
  "recs_ok rs \<Longrightarrow> for_each (\<lambda>i. record_step) (i + int (length rs)) i rs (c_int n, c_int m) =
    Ok (c_int (n + fields_size (recs_fields rs)), c_int (m + fields_size (recs_fields rs)))"
proof (induction rs arbitrary: i n m)
  case (Cons r rs)
  obtain l bs where r: "r = (l, bs)" by (cases r)
  have l: "int (min (length bs) (nat l)) = l"
    using Cons.prems by (simp add: r buffer_arg_length)
  show ?case
    using Cons.IH [of "i + 1" "n + 4 + l" "m + 4 + l"] Cons.prems l by (simp add: r add.assoc)
qed simp

lemma record_sizes_eq:
  assumes "count \<le> int (length rs)" and "recs_ok (take (nat count) rs)"
  shows "record_sizes count rs (c_int n) =
    Ok (c_int (n + fields_size (recs_fields (take (nat count) rs))),
        c_int (fields_size (recs_fields (take (nat count) rs))))"
  using record_sizes_loop [OF assms(2), of 0 n 0]
  by (simp add: record_sizes_def for_each_whole [OF assms(1)])

section \<open>What a statement writes\<close>

text \<open>A statement writes fields when, inside the buffer, it appends their bytes or runs over its end.\<close>

definition writes :: "put_op \<Rightarrow> wire_field list \<Rightarrow> bool" where
  "writes p fs \<longleftrightarrow> (\<forall>cap out. int (length out) \<le> cap \<longrightarrow> p cap out = put_bytes (encode_fields fs) cap out)"

named_theorems writes_rules \<open>the fields that a statement of a list builder writes\<close>

lemma encode_fields_simps [simp]:
  "encode_fields [] = []" "encode_fields (f # fs) = encode_field f @ encode_fields fs"
  "encode_fields (fs @ gs) = encode_fields fs @ encode_fields gs"
  by (simp_all add: encode_fields_def)

lemma encode_raw [simp]: "encode_fields (map Raw bs) = bs"
  by (induction bs) simp_all

lemma fields_size_append [simp]: "fields_size (fs @ gs) = fields_size fs + fields_size gs"
  by (simp add: fields_size_def)

lemma fields_size_raw [simp]: "fields_size (map Raw bs) = int (length bs)"
  by (simp add: fields_size_def)

lemma writes_put_bytes: "writes (put_bytes (encode_fields fs)) fs"
  by (simp add: writes_def)

lemma writes_put_field [writes_rules]: "writes (put_field f) [f]"
  using writes_put_bytes [of "[f]"] by (simp add: put_field_def)

lemma writes_bind:
  assumes "writes p fs" "writes q gs"
  shows "writes (\<lambda>cap out. res_bind (p cap out) (q cap)) (fs @ gs)"
  unfolding writes_def
proof (intro allI impI)
  fix cap :: int and out :: "byte list"
  assume "int (length out) \<le> cap"
  with assms show "res_bind (p cap out) (q cap) = put_bytes (encode_fields (fs @ gs)) cap out"
    by (auto simp: writes_def put_bytes_def)
qed

lemma writes_Ok [writes_rules]: "writes (\<lambda>cap out. Ok out) []"
  by (simp add: writes_def put_bytes_def)

lemma writes_run_puts: "list_all2 writes ops parts \<Longrightarrow> writes (run_puts ops) (concat parts)"
proof (induction ops parts rule: list_all2_induct)
  case Nil
  then show ?case by (simp add: writes_def put_bytes_def)
next
  case (Cons p ps fs parts)
  have "run_puts (p # ps) = (\<lambda>cap out. res_bind (p cap out) (run_puts ps cap))" by (intro ext) simp
  with writes_bind [OF Cons(1,3)] show ?case by simp
qed

lemma writes_for_each:
  assumes "\<And>j e. i \<le> j \<Longrightarrow> j < i + int (length es) \<Longrightarrow> e \<in> set es \<Longrightarrow> writes (\<lambda>cap. f cap j e) (g e)"
  shows "writes (\<lambda>cap. for_each (f cap) (i + int (length es)) i es) (concat (map g es))"
  using assms
proof (induction es arbitrary: i)
  case Nil
  show ?case using writes_Ok by simp
next
  case (Cons e es)
  have head: "writes (\<lambda>cap. f cap i e) (g e)" using Cons.prems by simp
  have "writes (\<lambda>cap. for_each (f cap) (i + 1 + int (length es)) (i + 1) es) (concat (map g es))"
    by (rule Cons.IH) (use Cons.prems in auto)
  from writes_bind [OF head this] show ?case by (simp add: add_ac)
qed

lemma writes_for_each_take:
  assumes "count \<le> int (length es)"
    and "\<And>j e. 0 \<le> j \<Longrightarrow> j < count \<Longrightarrow> e \<in> set (take (nat count) es) \<Longrightarrow> writes (\<lambda>cap. f cap j e) (g e)"
  shows "writes (\<lambda>cap. for_each (f cap) count 0 es) (concat (map g (take (nat count) es)))"
proof -
  have "writes (\<lambda>cap. for_each (f cap) (0 + int (length (take (nat count) es))) 0 (take (nat count) es))
      (concat (map g (take (nat count) es)))"
    by (rule writes_for_each) (use assms(2) in auto)
  then show ?thesis by (simp add: for_each_whole [OF assms(1)])
qed

lemma writes_asciiz [writes_rules]: "writes (put_asciiz s) (map Raw (c_string s) @ [Raw 0])"
  by (simp add: writes_def put_asciiz_def)

lemma writes_asciiz_literal [writes_rules]:
  "c_string s = t \<Longrightarrow> writes (put_asciiz s) (map Raw t @ [Raw 0])"
  using writes_asciiz [of s] by simp

lemma writes_chars [writes_rules]: "writes (put_chars s) (map Raw (c_string s))"
  by (simp add: writes_def put_chars_def memcpy_string)


lemma writes_with_nul [writes_rules]: "writes (put_with_nul s) (map Raw (c_string s) @ [Raw 0])"
proof -
  obtain r where s: "s = c_string s @ r" and r: "r = [] \<or> hd r = 0"
    using takeWhile_dropWhile_id [of "\<lambda>b. b \<noteq> 0" s] hd_dropWhile [of "\<lambda>b. b \<noteq> 0" s]
    by (metis c_string_def)
  have "take (nat (strlen s + 1)) (s @ [0]) = c_string s @ take 1 (r @ [0])"
    by (subst s) (simp add: strlen_eq nat_add_distrib)
  also have "take 1 (r @ [0]) = [0]" using r by (cases r) auto
  finally have "take (nat (strlen s + 1)) (s @ [0]) = c_string s @ [0]" .
  moreover have "strlen s \<le> int (length s)"
    by (simp add: strlen_def length_takeWhile_le)
  ultimately show ?thesis
    by (simp add: writes_def put_with_nul_def memcpy_def)
qed

lemma writes_put_buffer: "buffer_arg n s \<Longrightarrow> writes (put_buffer n s) [Counted (take (nat n) s)]"
  using writes_put_field [of "Counted (take (nat n) s)"] by (simp add: put_fields)

lemma put_buffer_nz_field:
  "buffer_arg n s \<Longrightarrow> put_buffer_nz n s = put_bytes (encode_field (Counted (take (nat n) s)))"
proof -
  assume "buffer_arg n s"
  moreover from this have "put_buffer_nz n s = put_buffer_opt n s"
    by (intro ext) (auto simp: put_buffer_nz_def put_buffer_opt_def buffer_arg_def intro!: res_bind_cong)
  ultimately show ?thesis by (simp add: put_buffer_opt_field)
qed

lemma writes_put_buffer_nz [writes_rules]:
  "buffer_arg n s \<Longrightarrow> writes (put_buffer_nz n s) [Counted (take (nat n) s)]"
  using writes_put_field [of "Counted (take (nat n) s)"] by (simp add: put_buffer_nz_field put_field_def)

lemma PUT_INT_c_int [simp]: "PUT_INT (c_int v) = PUT_INT v"
proof -
  have "be_bytes 4 (c_int v) = be_bytes 4 v"
    using be_bytes_be_val [of "be_bytes 4 (c_int v)"] be_bytes_be_val [of "be_bytes 4 v"]
    by (simp add: be_val_be_bytes c_int_mod [simplified] del: be_bytes.simps)
  then show ?thesis by (simp add: PUT_INT_def del: be_bytes.simps)
qed

lemma writes_mark: "writes p fs \<Longrightarrow> writes (\<lambda>cap out. res_bind (no_mark i cap out) (p cap)) fs"
  "writes p fs \<Longrightarrow> 0 \<le> i \<Longrightarrow> i < room \<Longrightarrow> writes (\<lambda>cap out. res_bind (mark room i cap out) (p cap)) fs"
  by (simp_all add: writes_def no_mark_def mark_def)

lemma writes_string_marked [writes_rules]:
  "0 \<le> i \<Longrightarrow> i < room \<Longrightarrow> writes (put_string_marked (mark room i) s) [Counted (c_string s)]"
  using writes_put_field [of "Counted (c_string s)"]
  by (auto simp: writes_def put_string_marked_def mark_def put_string_def Let_def res_bind_case
      simp flip: put_fields split: res.splits)

lemma writes_chars_nul [writes_rules]: "writes (put_chars_nul s) (map Raw (c_string s) @ [Raw 0])"
  using writes_bind [OF writes_chars [of s] writes_put_field [of "Raw 0"]]
  by (simp add: put_chars_nul_def [abs_def] put_fields)

text \<open>A way to copy a keyword, and the positions that are remembered for the first \<open>n\<close> keywords.\<close>

definition copies_key :: "(byte list \<Rightarrow> put_op) \<Rightarrow> bool" where
  "copies_key put \<longleftrightarrow> (\<forall>k. writes (put k) (map Raw (c_string k) @ [Raw 0]))"

definition marks_ok :: "(int \<Rightarrow> put_op) \<Rightarrow> int \<Rightarrow> bool" where
  "marks_ok marks n \<longleftrightarrow> (\<forall>i cap out. 0 \<le> i \<and> i < n \<longrightarrow> marks i cap out = Ok out)"

lemma copies_key_simps [simp]: "copies_key put_asciiz" "copies_key put_with_nul"
  by (simp_all only: copies_key_def writes_rules simp_thms)

lemma marks_ok_simps [simp]:
  "marks_ok no_mark n" "n \<le> room \<Longrightarrow> marks_ok (mark room) n"
  "n < room \<Longrightarrow> marks_ok (\<lambda>i. mark room (i + 1)) n"
  by (auto simp: marks_ok_def no_mark_def mark_def)

lemma concat_raw_keys: "concat (map (\<lambda>k. map Raw (c_string k @ [0])) ks) = map Raw (keys_bytes ks)"
  by (induction ks) simp_all

lemma writes_keys [writes_rules]:
  assumes "count \<le> int (length ks)" and "copies_key put" and "marks_ok marks count"
  shows "writes (put_keys marks put count ks) (map Raw (keys_bytes (take (nat count) ks)))"
proof -
  have "writes (\<lambda>cap. for_each (\<lambda>i k out. res_bind (marks i cap out) (put k cap)) count 0 ks)
      (concat (map (\<lambda>k. map Raw (c_string k @ [0])) (take (nat count) ks)))"
    by (rule writes_for_each_take [OF assms(1)])
      (use assms(2,3) in \<open>simp add: copies_key_def marks_ok_def writes_def\<close>)
  then show ?thesis by (simp only: put_keys_def [abs_def] concat_raw_keys)
qed

lemma writes_no_keys [writes_rules]: "count \<le> 0 \<Longrightarrow> writes (put_keys marks put count ks) []"
  by (cases ks) (simp_all add: writes_def put_keys_def put_bytes_def)

lemma writes_counted:
  assumes "writes p fs" shows "writes (\<lambda>cap out. res_bind (PUT_INT (fields_size fs) cap out) (p cap)) [Counted (encode_fields fs)]"
  using writes_bind [OF writes_put_field [of "Int4 (fields_size fs)"] assms]
  by (simp add: writes_def put_fields fields_size_def)

lemma writes_counted_asciiz [writes_rules]: "writes (put_counted_asciiz s) [Counted (c_string s @ [0])]"
  using writes_counted [OF writes_asciiz [of s]]
  by (simp add: put_counted_asciiz_def [abs_def] strlen_eq add_ac)

lemma writes_counted_keys [writes_rules]:
  assumes "count \<le> int (length ks)" and "copies_key put" and "marks_ok marks count"
  shows "writes (put_counted_keys (c_int (keys_size (take (nat count) ks))) marks put count ks)
    [Counted (keys_bytes (take (nat count) ks))]"
  using writes_counted [OF writes_keys [OF assms]]
  by (simp add: put_counted_keys_def [abs_def] keys_size_def)


lemma writes_records [writes_rules]:
  assumes "count \<le> int (length rs)" and "recs_ok (take (nat count) rs)"
    and "fields_size (recs_fields (take (nat count) rs)) < 2 ^ 31"
  shows "writes (put_records (c_int (fields_size (recs_fields (take (nat count) rs)))) count rs)
    [Counted (encode_fields (recs_fields (take (nat count) rs)))]"
proof -
  define es where "es = take (nat count) rs"
  let ?loop = "\<lambda>cap. for_each (\<lambda>i (l, bs) out. put_buffer l bs cap out) count 0 rs"
  have loop: "writes ?loop (recs_fields es)"
  proof -
    have "writes ?loop (concat (map (\<lambda>(l, bs). [Counted (take (nat l) bs)]) es))"
      unfolding es_def
    proof (rule writes_for_each_take [OF assms(1)])
      fix j e assume "e \<in> set (take (nat count) rs)"
      then have "buffer_arg (fst e) (snd e)" using assms(2) by (auto simp: recs_ok_def list_all_iff)
      then show "writes (\<lambda>cap out. (case e of (l, bs) \<Rightarrow> \<lambda>out. put_buffer l bs cap out) out)
          (case e of (l, bs) \<Rightarrow> [Counted (take (nat l) bs)])"
        using writes_put_buffer by (simp add: case_prod_beta writes_def)
    qed
    moreover have "concat (map (\<lambda>(l, bs). [Counted (take (nat l) bs)]) es) = recs_fields es"
      by (induction es) auto
    ultimately show ?thesis by simp
  qed
  have "fields_size (recs_fields es) > 0 \<or> ?loop = (\<lambda>cap. Ok)"
  proof (cases es)
    case Nil
    then have "?loop = (\<lambda>cap. Ok)"
      by (intro ext) (simp add: for_each_whole [OF assms(1)] es_def [symmetric])
    then show ?thesis ..
  next
    case (Cons e es')
    then show ?thesis using fields_size_nonneg [of "recs_fields es'"] by (cases e) simp
  qed
  then have "put_records (c_int (fields_size (recs_fields es))) count rs =
      (\<lambda>cap out. res_bind (PUT_INT (fields_size (recs_fields es)) cap out) (?loop cap))"
    using assms(3) fields_size_nonneg [of "recs_fields es"]
    by (intro ext) (auto simp: put_records_def c_int_id es_def [symmetric] fun_eq_iff intro!: res_bind_cong)
  then show ?thesis using writes_counted [OF loop] by (simp add: es_def)
qed

section \<open>Builders with lists\<close>

datatype list_arg = Plain smapi_arg | Text "byte list" | Keys int "byte list list"
  | Recs int "(int \<times> byte list) list"

text \<open>
  The kinds of argument of these builders: a plain argument, a NUL terminated string, a string
  without end, a NUL terminated string with its length, keywords without and with their total
  length, each with the number of keywords that \<open>targetStart\<close> has room for, and records.
\<close>

datatype list_kind = LPlain arg_kind | LAsciiz | LChars | LCountedZ
  | LKeys "int option" | LCountedKeys "int option" | LRecs

fun larg_fields :: "list_kind \<Rightarrow> list_arg \<Rightarrow> wire_field list" where
  "larg_fields (LPlain k) (Plain a) = [arg_field a]"
| "larg_fields LAsciiz (Text s) = map Raw (c_string s @ [0])"
| "larg_fields LChars (Text s) = map Raw (c_string s)"
| "larg_fields LCountedZ (Text s) = [Counted (c_string s @ [0])]"
| "larg_fields (LKeys r) (Keys n ks) = map Raw (keys_bytes (take (nat n) ks))"
| "larg_fields (LCountedKeys r) (Keys n ks) = [Counted (keys_bytes (take (nat n) ks))]"
| "larg_fields LRecs (Recs n rs) = [Counted (encode_fields (recs_fields (take (nat n) rs)))]"
| "larg_fields k a = []"

fun has_room :: "int option \<Rightarrow> int \<Rightarrow> bool" where
  "has_room None n \<longleftrightarrow> True"
| "has_room (Some r) n \<longleftrightarrow> n \<le> r"

fun larg_ok :: "list_kind \<Rightarrow> list_arg \<Rightarrow> bool" where
  "larg_ok (LPlain k) (Plain a) \<longleftrightarrow> arg_ok k a"
| "larg_ok LAsciiz (Text s) \<longleftrightarrow> True"
| "larg_ok LChars (Text s) \<longleftrightarrow> True"
| "larg_ok LCountedZ (Text s) \<longleftrightarrow> True"
| "larg_ok (LKeys r) (Keys n ks) \<longleftrightarrow> n \<le> int (length ks) \<and> has_room r n"
| "larg_ok (LCountedKeys r) (Keys n ks) \<longleftrightarrow> n \<le> int (length ks) \<and> has_room r n"
| "larg_ok LRecs (Recs n rs) \<longleftrightarrow> n \<le> int (length rs) \<and> recs_ok (take (nat n) rs) \<and>
     fields_size (recs_fields (take (nat n) rs)) < 2 ^ 31"
| "larg_ok k a \<longleftrightarrow> False"

lemma larg_ok_iff:
  "larg_ok (LPlain k) a \<longleftrightarrow> (\<exists>b. a = Plain b \<and> arg_ok k b)"
  "larg_ok LAsciiz a \<longleftrightarrow> (\<exists>s. a = Text s)" "larg_ok LChars a \<longleftrightarrow> (\<exists>s. a = Text s)"
  "larg_ok LCountedZ a \<longleftrightarrow> (\<exists>s. a = Text s)"
  "larg_ok (LKeys r) a \<longleftrightarrow> (\<exists>n ks. a = Keys n ks \<and> n \<le> int (length ks) \<and> has_room r n)"
  "larg_ok (LCountedKeys r) a \<longleftrightarrow> (\<exists>n ks. a = Keys n ks \<and> n \<le> int (length ks) \<and> has_room r n)"
  "larg_ok LRecs a \<longleftrightarrow> (\<exists>n rs. a = Recs n rs \<and> n \<le> int (length rs) \<and> recs_ok (take (nat n) rs) \<and>
     fields_size (recs_fields (take (nat n) rs)) < 2 ^ 31)"
  by (cases a; simp)+

fun larg_plain :: "list_arg \<Rightarrow> smapi_arg" where
  "larg_plain (Plain a) = a" | "larg_plain _ = Num 0"

fun larg_text :: "list_arg \<Rightarrow> byte list" where
  "larg_text (Text s) = s" | "larg_text _ = []"

fun larg_count :: "list_arg \<Rightarrow> int" where
  "larg_count (Keys n ks) = n" | "larg_count (Recs n rs) = n" | "larg_count _ = 0"

fun larg_keys :: "list_arg \<Rightarrow> byte list list" where
  "larg_keys (Keys n ks) = ks" | "larg_keys _ = []"

fun larg_recs :: "list_arg \<Rightarrow> (int \<times> byte list) list" where
  "larg_recs (Recs n rs) = rs" | "larg_recs _ = []"

text \<open>
  An API with lists: the fields before its arguments, the kinds of the arguments, the bytes that
  are allocated behind the request, its parser table, the value it gives to
  \<open>smapiErrorBufferPossible\<close> and its builder.
\<close>

record list_api =
  lapi_head :: "wire_field list list"
  lapi_kinds :: "list_kind list"
  lapi_slack :: int
  lapi_table :: string
  lapi_error_buffer :: "int option"
  lapi_build :: "(int \<Rightarrow> bool) \<Rightarrow> list_arg list \<Rightarrow> (smapi_request \<times> int option) res"

definition lapi_parts :: "list_api \<Rightarrow> list_arg list \<Rightarrow> wire_field list list" where
  "lapi_parts api args = lapi_head api @ map2 larg_fields (lapi_kinds api) args"

definition lapi_fields :: "list_api \<Rightarrow> list_arg list \<Rightarrow> wire_field list" where
  "lapi_fields api args = concat (lapi_parts api args)"

definition lapi_args_ok :: "list_api \<Rightarrow> list_arg list \<Rightarrow> bool" where
  "lapi_args_ok api args \<longleftrightarrow> list_all2 larg_ok (lapi_kinds api) args \<and>
     4 + fields_size (lapi_fields api args) < 2 ^ 31"

definition lapi_ok :: "list_api \<Rightarrow> bool" where
  "lapi_ok api \<longleftrightarrow> (\<forall>malloc args. lapi_args_ok api args \<longrightarrow>
     lapi_build api malloc args =
       (if malloc (4 + fields_size (lapi_fields api args) + lapi_slack api)
        then Ok (wire_request (lapi_table api) (lapi_fields api args), lapi_error_buffer api)
        else Err MEMORY_ERROR))"

lemma smapi_build_list_eq:
  assumes "n = c_int (4 + fields_size (concat parts))" and "room = n + slack" and "0 \<le> slack"
    and "4 + fields_size (concat parts) < 2 ^ 31" and "list_all2 writes ops parts"
  shows "smapi_build_list malloc room n (PUT_INT (n - 4) # ops) table eb =
    (if malloc (4 + fields_size (concat parts) + slack)
     then Ok (wire_request table (concat parts), eb) else Err MEMORY_ERROR)"
proof -
  let ?F = "concat parts"
  have n: "n = 4 + fields_size ?F"
    using assms(1,4) fields_size_nonneg [of ?F] by (simp add: c_int_id)
  have "run_puts ops room (be_bytes 4 (n - 4)) = put_bytes (encode_fields ?F) room (be_bytes 4 (n - 4))"
    using writes_run_puts [OF assms(5)] fields_size_nonneg [of ?F] assms(2,3) n
    by (simp add: writes_def del: be_bytes.simps)
  then have "run_puts (PUT_INT (n - 4) # ops) room [] = Ok (request_bytes ?F)"
    using fields_size_nonneg [of ?F] assms(3)
    by (simp add: PUT_INT_def put_bytes_def request_bytes_def n assms(2) fields_size_def del: be_bytes.simps)
  then show ?thesis
    unfolding smapi_build_list_def assms(2) n by (simp add: wire_request_def length_request_bytes)
qed


text \<open>A builder that writes parts: its statements write them one by one into a buffer of their size.\<close>

definition built_from ::
  "(smapi_request \<times> int option) res \<Rightarrow> (int \<Rightarrow> bool) \<Rightarrow> int \<Rightarrow> string \<Rightarrow> int option \<Rightarrow> wire_field list list \<Rightarrow> bool" where
  "built_from r malloc slack table eb parts \<longleftrightarrow>
     (\<exists>ops. list_all2 writes ops parts \<and>
        r = smapi_build_list malloc (c_int (4 + fields_size (concat parts)) + slack)
          (c_int (4 + fields_size (concat parts)))
          (PUT_INT (c_int (4 + fields_size (concat parts)) - 4) # ops) table eb)"

lemma built_fromI:
  "n = c_int (4 + fields_size (concat parts)) \<Longrightarrow> room = n + slack \<Longrightarrow> list_all2 writes ops parts \<Longrightarrow>
    built_from (smapi_build_list malloc room n (PUT_INT (n - 4) # ops) table eb) malloc slack table eb parts"
  by (auto simp: built_from_def)

lemma lapi_okI:
  assumes "0 \<le> lapi_slack api"
    and "\<And>malloc args. list_all2 larg_ok (lapi_kinds api) args \<Longrightarrow>
      built_from (lapi_build api malloc args) malloc (lapi_slack api) (lapi_table api)
        (lapi_error_buffer api) (lapi_parts api args)"
  shows "lapi_ok api"
  unfolding lapi_ok_def
proof (intro allI impI)
  fix malloc args
  assume "lapi_args_ok api args"
  then have args: "list_all2 larg_ok (lapi_kinds api) args"
    and bound: "4 + fields_size (concat (lapi_parts api args)) < 2 ^ 31"
    by (auto simp: lapi_args_ok_def lapi_fields_def)
  from assms(2) [OF args, of malloc] show "lapi_build api malloc args =
      (if malloc (4 + fields_size (lapi_fields api args) + lapi_slack api)
       then Ok (wire_request (lapi_table api) (lapi_fields api args), lapi_error_buffer api)
       else Err MEMORY_ERROR)"
    unfolding built_from_def lapi_fields_def
    using smapi_build_list_eq [OF refl refl assms(1) bound] by auto
qed

named_theorems lapi_rules \<open>builders with lists that write their arguments\<close>

lemmas lapi_args = lapi_parts_def list_all2_Cons1 arg_ok_iff larg_ok_iff Let_def key_sizes_eq record_sizes_eq

lemmas lapi_size = keys_size_def strlen_eq buffer_arg_length c_literal_string fields_size_def add_ac

lemmas lapi_writes = writes_rules put_fields c_literal_string

section \<open>Too many keywords\<close>

text \<open>
  Every statement of a builder continues or faults, so one that always faults decides the run.
\<close>

definition op_total :: "put_op \<Rightarrow> bool" where
  "op_total p \<longleftrightarrow> (\<forall>cap out. p cap out = Fault \<or> (\<exists>out'. p cap out = Ok out'))"

definition op_faults :: "put_op \<Rightarrow> bool" where
  "op_faults p \<longleftrightarrow> (\<forall>cap out. p cap out = Fault)"

named_theorems total_rules \<open>statements that continue or fault\<close>

lemma op_total_cases:
  assumes "op_total p" obtains "p cap out = Fault" | out' where "p cap out = Ok out'"
  using assms by (auto simp: op_total_def)

lemma total_bind:
  assumes "op_total p" "op_total q" shows "op_total (\<lambda>cap out. res_bind (p cap out) (q cap))"
  unfolding op_total_def
proof (intro allI)
  fix cap out
  show "res_bind (p cap out) (q cap) = Fault \<or> (\<exists>out'. res_bind (p cap out) (q cap) = Ok out')"
    by (rule op_total_cases [OF assms(1), of cap out]) (use assms(2) in \<open>auto simp: op_total_def\<close>)
qed

lemma bind_fault: "op_total p \<Longrightarrow> (\<And>out'. f out' = Fault) \<Longrightarrow> res_bind (p cap out) f = Fault"
  by (rule op_total_cases [of p cap out]) auto

lemma total_put_bytes [total_rules]: "op_total (put_bytes bs)"
  by (simp add: op_total_def put_bytes_def)

lemma total_memcpy [total_rules]: "op_total (memcpy s n)"
  by (simp add: op_total_def memcpy_def put_bytes_def)

lemma total_PUT_INT [total_rules]: "op_total (PUT_INT v)"
  by (simp add: PUT_INT_def total_rules)

lemma total_put_buffer_opt [total_rules]: "op_total (put_buffer_opt n s)"
  using total_bind [OF total_PUT_INT [of n] total_memcpy [of s n]] total_PUT_INT [of n]
  by (cases "n > 0") (simp_all add: put_buffer_opt_def [abs_def] op_total_def res_bind_case split: res.splits)

lemma total_put_field [total_rules]: "op_total (put_field f)"
  by (simp add: put_field_def total_rules)

lemma total_put_string [total_rules]: "op_total (put_string s)" "op_total (put_string_opt s)"
  by (simp_all add: put_fields total_rules)

lemma total_string_marked [total_rules]: "op_total (put_string_marked (mark room i) s)"
proof -
  have "op_total (mark room i)" by (simp add: op_total_def mark_def)
  from total_bind [OF total_PUT_INT total_bind [OF this total_memcpy]] show ?thesis
    by (simp add: put_string_marked_def [abs_def] Let_def)
qed

lemma total_copies_key: "op_total (put_asciiz s)" "op_total (put_with_nul s)"
  by (simp_all add: put_asciiz_def put_with_nul_def total_rules)

lemma run_puts_fault:
  assumes "list_all op_total ops" and "op_faults p"
  shows "run_puts (ops @ [p]) cap out = Fault"
  using assms(1)
proof (induction ops arbitrary: out)
  case Nil
  then show ?case using assms(2) by (simp add: op_faults_def)
next
  case (Cons q ops)
  then show ?case by (simp add: bind_fault)
qed

lemma for_each_fault:
  assumes "i \<le> j" "j < count" "j < i + int (length es)"
    and "\<And>e a. f j e a = Fault" and "\<And>i e a. f i e a = Fault \<or> (\<exists>b. f i e a = Ok b)"
  shows "for_each f count i es a = Fault"
  using assms(1-3)
proof (induction es arbitrary: i a)
  case (Cons e es)
  show ?case
  proof (cases "i = j")
    case True
    then show ?thesis using Cons.prems assms(4) by simp
  next
    case False
    then have "for_each f count (i + 1) es b = Fault" for b
      using Cons.prems by (intro Cons.IH) auto
    then show ?thesis using Cons.prems assms(5) [of i e a] by auto
  qed
qed simp

lemma put_keys_fault:
  assumes "0 \<le> j" "j < count" "count \<le> int (length ks)"
    and "\<And>cap out. marks j cap out = Fault" and "\<And>i. op_total (marks i)" and "\<And>k. op_total (put k)"
  shows "op_faults (put_keys marks put count ks)"
    and "op_faults (put_counted_keys v marks put count ks)"
proof -
  have step: "res_bind (marks i cap out) (put k cap) = Fault \<or> (\<exists>b. res_bind (marks i cap out) (put k cap) = Ok b)"
    for i k cap out
    using total_bind [OF assms(5) assms(6), of i k] by (simp add: op_total_def)
  have loop: "put_keys marks put count ks cap out = Fault" for cap out
    unfolding put_keys_def by (rule for_each_fault [of 0 j]) (use assms(1-4) step in auto)
  then show "op_faults (put_keys marks put count ks)" by (simp add: op_faults_def)
  show "op_faults (put_counted_keys v marks put count ks)"
    using total_PUT_INT [of v] loop by (simp add: op_faults_def put_counted_keys_def bind_fault)
qed

lemma mark_overflows:
  assumes "count \<le> int (length ks)" and "\<And>k. op_total (put k)"
  shows "0 \<le> room \<Longrightarrow> room < count \<Longrightarrow> op_faults (put_keys (mark room) put count ks)"
    and "0 < room \<Longrightarrow> room \<le> count \<Longrightarrow> op_faults (put_keys (\<lambda>i. mark room (i + 1)) put count ks)"
    and "0 < room \<Longrightarrow> room \<le> count \<Longrightarrow> op_faults (put_counted_keys v (\<lambda>i. mark room (i + 1)) put count ks)"
proof -
  have total: "op_total (mark room i)" for i by (simp add: op_total_def mark_def)
  show "op_faults (put_keys (mark room) put count ks)" if "0 \<le> room" "room < count"
    by (rule put_keys_fault(1) [of room]) (use assms that total in \<open>auto simp: mark_def\<close>)
  show "op_faults (put_keys (\<lambda>i. mark room (i + 1)) put count ks)" if "0 < room" "room \<le> count"
    by (rule put_keys_fault(1) [of "room - 1"]) (use assms that total in \<open>auto simp: mark_def\<close>)
  show "op_faults (put_counted_keys v (\<lambda>i. mark room (i + 1)) put count ks)" if "0 < room" "room \<le> count"
    by (rule put_keys_fault(2) [of "room - 1"]) (use assms that total in \<open>auto simp: mark_def\<close>)
qed

text \<open>
  A builder with room for \<open>r\<close> keywords writes behind \<open>targetStart\<close> when it is given more, whatever
  its other arguments are.
\<close>

definition lapi_overflows :: "list_api \<Rightarrow> int \<Rightarrow> bool" where
  "lapi_overflows api r \<longleftrightarrow> (\<forall>malloc u n p t k ks. r < k \<and> k \<le> int (length ks) \<and> (\<forall>m. malloc m) \<longrightarrow>
     lapi_build api malloc [Plain (Str u), Plain (Buf n p), Plain (Str t), Keys k ks] = Fault)"

lemma build_list_fault:
  assumes "list_all op_total [a, b, c, d, e]" and "op_faults p" and "malloc room"
  shows "smapi_build_list malloc room n [a, b, c, d, e, p] table eb = Fault"
  using run_puts_fault [OF assms(1,2), of room "[]"] assms(3) by (simp add: smapi_build_list_def)

named_theorems overflow_rules \<open>builders that overflow \<open>targetStart\<close>\<close>

end
