(* ===== verification/Requests_Keywords.thy ===== *)
theory Requests_Keywords
  imports Smapi_Lists
begin

text \<open>
  The request builders that take \<open>keyword=value\<close> strings, one definition per \<^verbatim>\<open>src/vmapi*.c\<close> file,
  named after its C function: the sum that gives \<open>inputSize\<close>, the loop that adds the keywords to it, and the
  statements that fill the buffer in their order.  Each is described by an \<open>api\<close> record and shown
  to write its arguments.
\<close>

section \<open>The builders\<close>

definition smImage_Definition_Async_Updates ::
  "(int \<Rightarrow> bool) \<Rightarrow> byte list \<Rightarrow> int \<Rightarrow>
    byte list \<Rightarrow> byte list \<Rightarrow> int \<Rightarrow> byte list list \<Rightarrow>
    (smapi_request \<times> int option) res" where
  "smImage_Definition_Async_Updates malloc userid passwordLength password targetIdentifier
      keyValueCount keyValueArray =
     (let functionName = c_literal ''Image_Definition_Async_Updates'';
        inputSize = c_int
          (4 + 4 + strlen functionName + 4 + strlen userid + 4 + passwordLength + 4 +
           strlen targetIdentifier)
      in res_bind (key_sizes keyValueCount keyValueArray inputSize) (\<lambda>(inputSize, keyValueSize).
      smapi_build_list malloc inputSize inputSize
        [PUT_INT (inputSize - 4), put_string functionName, put_string_opt userid,
         put_buffer_opt passwordLength password, put_string targetIdentifier,
         put_keys no_mark put_with_nul keyValueCount keyValueArray]
        ''Image_Definition_Async_Updates_Layout'' None))"

definition smImage_Definition_Create_DM ::
  "(int \<Rightarrow> bool) \<Rightarrow> byte list \<Rightarrow> int \<Rightarrow>
    byte list \<Rightarrow> byte list \<Rightarrow> int \<Rightarrow> byte list list \<Rightarrow>
    (smapi_request \<times> int option) res" where
  "smImage_Definition_Create_DM malloc userid passwordLength password targetIdentifier
      keyValueCount keyValueArray =
     (let functionName = c_literal ''Image_Definition_Create_DM'';
        inputSize = c_int
          (4 + 4 + strlen functionName + 4 + strlen userid + 4 + passwordLength + 4 +
           strlen targetIdentifier + 4)
      in res_bind (key_sizes keyValueCount keyValueArray inputSize) (\<lambda>(inputSize, keyValueSize).
      smapi_build_list malloc inputSize inputSize
        [PUT_INT (inputSize - 4), put_string functionName, put_string_opt userid,
         put_buffer_opt passwordLength password, put_string targetIdentifier,
         put_counted_keys keyValueSize no_mark put_with_nul keyValueCount keyValueArray]
        ''Image_Definition_Create_DM_Layout'' (Some ERROR_OUTPUT_BUFFER_POSSIBLE_WITH_LENGTH_FIELD)))"

definition smImage_Definition_Delete_DM ::
  "(int \<Rightarrow> bool) \<Rightarrow> byte list \<Rightarrow> int \<Rightarrow>
    byte list \<Rightarrow> byte list \<Rightarrow> int \<Rightarrow> byte list list \<Rightarrow>
    (smapi_request \<times> int option) res" where
  "smImage_Definition_Delete_DM malloc userid passwordLength password targetIdentifier
      keyValueCount keyValueArray =
     (let functionName = c_literal ''Image_Definition_Delete_DM'';
        inputSize = c_int
          (4 + 4 + strlen functionName + 4 + strlen userid + 4 + passwordLength + 4 +
           strlen targetIdentifier + 4)
      in res_bind (key_sizes keyValueCount keyValueArray inputSize) (\<lambda>(inputSize, keyValueSize).
      smapi_build_list malloc inputSize inputSize
        [PUT_INT (inputSize - 4), put_string functionName, put_string_opt userid,
         put_buffer_opt passwordLength password, put_string targetIdentifier,
         put_counted_keys keyValueSize no_mark put_with_nul keyValueCount keyValueArray]
        ''Image_Definition_Delete_DM_Layout'' (Some ERROR_OUTPUT_BUFFER_POSSIBLE_WITH_LENGTH_FIELD)))"

definition smImage_Definition_Update_DM ::
  "(int \<Rightarrow> bool) \<Rightarrow> byte list \<Rightarrow> int \<Rightarrow>
    byte list \<Rightarrow> byte list \<Rightarrow> int \<Rightarrow> byte list list \<Rightarrow>
    (smapi_request \<times> int option) res" where
  "smImage_Definition_Update_DM malloc userid passwordLength password targetIdentifier
      keyValueCount keyValueArray =
     (let functionName = c_literal ''Image_Definition_Update_DM'';
        inputSize = c_int
          (4 + 4 + strlen functionName + 4 + strlen userid + 4 + passwordLength + 4 +
           strlen targetIdentifier + 4)
      in res_bind (key_sizes keyValueCount keyValueArray inputSize) (\<lambda>(inputSize, keyValueSize).
      smapi_build_list malloc inputSize inputSize
        [PUT_INT (inputSize - 4), put_string functionName, put_string_opt userid,
         put_buffer_opt passwordLength password, put_string targetIdentifier,
         put_counted_keys keyValueSize no_mark put_asciiz keyValueCount keyValueArray]
        ''Image_Definition_Update_DM_Layout'' (Some ERROR_OUTPUT_BUFFER_POSSIBLE_WITH_LENGTH_FIELD)))"

definition smImage_Volume_Share ::
  "(int \<Rightarrow> bool) \<Rightarrow> byte list \<Rightarrow> int \<Rightarrow>
    byte list \<Rightarrow> byte list \<Rightarrow> int \<Rightarrow> byte list list \<Rightarrow>
    (smapi_request \<times> int option) res" where
  "smImage_Volume_Share malloc userid passwordLength password targetIdentifier keyValueCount
      keyValueArray =
     (let functionName = c_literal ''Image_Volume_Share'';
        inputSize = c_int
          (4 + 4 + strlen functionName + 4 + strlen userid + 4 + passwordLength + 4 +
           strlen targetIdentifier)
      in res_bind (key_sizes keyValueCount keyValueArray inputSize) (\<lambda>(inputSize, keyValueSize).
      smapi_build_list malloc inputSize inputSize
        [PUT_INT (inputSize - 4), put_string functionName, put_string_opt userid,
         put_buffer_opt passwordLength password, put_string targetIdentifier,
         put_keys no_mark put_asciiz keyValueCount keyValueArray]
        ''Image_Volume_Share_Layout'' None))"

definition smImage_Volume_Space_Define_Extended_DM ::
  "(int \<Rightarrow> bool) \<Rightarrow> byte list \<Rightarrow> int \<Rightarrow>
    byte list \<Rightarrow> byte list \<Rightarrow> int \<Rightarrow> byte list list \<Rightarrow>
    (smapi_request \<times> int option) res" where
  "smImage_Volume_Space_Define_Extended_DM malloc userid passwordLength password
      targetIdentifier keyValueCount keyValueArray =
     (let functionName = c_literal ''Image_Volume_Space_Define_Extended_DM'';
        inputSize = c_int
          (4 + 4 + strlen functionName + 4 + strlen userid + 4 + passwordLength + 4 +
           strlen targetIdentifier + 4)
      in res_bind (key_sizes keyValueCount keyValueArray inputSize) (\<lambda>(inputSize, keyValueSize).
      smapi_build_list malloc inputSize inputSize
        [PUT_INT (inputSize - 4), put_string functionName, put_string_opt userid,
         put_buffer_opt passwordLength password, put_string targetIdentifier,
         put_counted_keys keyValueSize no_mark put_asciiz keyValueCount keyValueArray]
        ''Image_Volume_Space_Define_Extended_DM_Layout'' None))"

definition smImage_Volume_Space_Query_Extended_DM ::
  "(int \<Rightarrow> bool) \<Rightarrow> byte list \<Rightarrow> int \<Rightarrow>
    byte list \<Rightarrow> byte list \<Rightarrow> int \<Rightarrow> byte list list \<Rightarrow>
    (smapi_request \<times> int option) res" where
  "smImage_Volume_Space_Query_Extended_DM malloc userid passwordLength password
      targetIdentifier keyValueCount keyValueArray =
     (let functionName = c_literal ''Image_Volume_Space_Query_Extended_DM'';
        inputSize = c_int
          (4 + 4 + strlen functionName + 4 + strlen userid + 4 + passwordLength + 4 +
           strlen targetIdentifier + 4)
      in res_bind (key_sizes keyValueCount keyValueArray inputSize) (\<lambda>(inputSize, keyValueSize).
      smapi_build_list malloc inputSize inputSize
        [PUT_INT (inputSize - 4), put_string functionName, put_string_opt userid,
         put_buffer_opt passwordLength password, put_string targetIdentifier,
         put_counted_keys keyValueSize no_mark put_asciiz keyValueCount keyValueArray]
        ''Image_Volume_Space_Query_Extended_DM_Layout'' None))"

definition smNetwork_IP_Interface_Create ::
  "(int \<Rightarrow> bool) \<Rightarrow> byte list \<Rightarrow> int \<Rightarrow>
    byte list \<Rightarrow> byte list \<Rightarrow> int \<Rightarrow> byte list list \<Rightarrow>
    (smapi_request \<times> int option) res" where
  "smNetwork_IP_Interface_Create malloc userid passwordLength password targetIdentifier
      keyValueCount keyValueArray =
     (let functionName = c_literal ''Network_IP_Interface_Create'';
        inputSize = c_int
          (4 + 4 + strlen functionName + 4 + strlen userid + 4 + passwordLength + 4 +
           strlen targetIdentifier)
      in res_bind (key_sizes keyValueCount keyValueArray inputSize) (\<lambda>(inputSize, keyValueSize).
      smapi_build_list malloc inputSize inputSize
        [PUT_INT (inputSize - 4), put_string functionName, put_string_opt userid,
         put_buffer_opt passwordLength password, put_string targetIdentifier,
         put_keys no_mark put_asciiz keyValueCount keyValueArray]
        ''Network_IP_Interface_Create_Layout'' (Some ERROR_OUTPUT_BUFFER_POSSIBLE_WITH_LENGTH_FIELD)))"

definition smNetwork_IP_Interface_Modify ::
  "(int \<Rightarrow> bool) \<Rightarrow> byte list \<Rightarrow> int \<Rightarrow>
    byte list \<Rightarrow> byte list \<Rightarrow> int \<Rightarrow> byte list list \<Rightarrow>
    (smapi_request \<times> int option) res" where
  "smNetwork_IP_Interface_Modify malloc userid passwordLength password targetIdentifier
      keyValueCount keyValueArray =
     (let functionName = c_literal ''Network_IP_Interface_Modify'';
        inputSize = c_int
          (4 + 4 + strlen functionName + 4 + strlen userid + 4 + passwordLength + 4 +
           strlen targetIdentifier)
      in res_bind (key_sizes keyValueCount keyValueArray inputSize) (\<lambda>(inputSize, keyValueSize).
      smapi_build_list malloc inputSize inputSize
        [PUT_INT (inputSize - 4), put_string functionName, put_string_opt userid,
         put_buffer_opt passwordLength password, put_string targetIdentifier,
         put_keys no_mark put_asciiz keyValueCount keyValueArray]
        ''Network_IP_Interface_Modify_Layout'' (Some ERROR_OUTPUT_BUFFER_POSSIBLE_WITH_LENGTH_FIELD)))"

definition smNetwork_IP_Interface_Query ::
  "(int \<Rightarrow> bool) \<Rightarrow> byte list \<Rightarrow> int \<Rightarrow>
    byte list \<Rightarrow> byte list \<Rightarrow> int \<Rightarrow> byte list list \<Rightarrow>
    (smapi_request \<times> int option) res" where
  "smNetwork_IP_Interface_Query malloc userid passwordLength password targetIdentifier
      keyValueCount keyValueArray =
     (let functionName = c_literal ''Network_IP_Interface_Query'';
        inputSize = c_int
          (4 + 4 + strlen functionName + 4 + strlen userid + 4 + passwordLength + 4 +
           strlen targetIdentifier)
      in res_bind (key_sizes keyValueCount keyValueArray inputSize) (\<lambda>(inputSize, keyValueSize).
      smapi_build_list malloc inputSize inputSize
        [PUT_INT (inputSize - 4), put_string functionName, put_string_opt userid,
         put_buffer_opt passwordLength password, put_string targetIdentifier,
         put_keys no_mark put_asciiz keyValueCount keyValueArray]
        ''Network_IP_Interface_Query_Layout'' None))"

definition smNetwork_IP_Interface_Remove ::
  "(int \<Rightarrow> bool) \<Rightarrow> byte list \<Rightarrow> int \<Rightarrow>
    byte list \<Rightarrow> byte list \<Rightarrow> int \<Rightarrow> byte list list \<Rightarrow>
    (smapi_request \<times> int option) res" where
  "smNetwork_IP_Interface_Remove malloc userid passwordLength password targetIdentifier
      keyValueCount keyValueArray =
     (let functionName = c_literal ''Network_IP_Interface_Remove'';
        inputSize = c_int
          (4 + 4 + strlen functionName + 4 + strlen userid + 4 + passwordLength + 4 +
           strlen targetIdentifier)
      in res_bind (key_sizes keyValueCount keyValueArray inputSize) (\<lambda>(inputSize, keyValueSize).
      smapi_build_list malloc inputSize inputSize
        [PUT_INT (inputSize - 4), put_string functionName, put_string_opt userid,
         put_buffer_opt passwordLength password, put_string targetIdentifier,
         put_keys no_mark put_asciiz keyValueCount keyValueArray]
        ''Network_IP_Interface_Remove_Layout'' (Some ERROR_OUTPUT_BUFFER_POSSIBLE_WITH_LENGTH_FIELD)))"

definition smPage_or_Spool_Volume_Add ::
  "(int \<Rightarrow> bool) \<Rightarrow> byte list \<Rightarrow> int \<Rightarrow>
    byte list \<Rightarrow> byte list \<Rightarrow> int \<Rightarrow> byte list list \<Rightarrow>
    (smapi_request \<times> int option) res" where
  "smPage_or_Spool_Volume_Add malloc userid passwordLength password targetIdentifier
      keyValueCount keyValueArray =
     (let functionName = c_literal ''Page_or_Spool_Volume_Add'';
        inputSize = c_int
          (4 + 4 + strlen functionName + 4 + strlen userid + 4 + passwordLength + 4 +
           strlen targetIdentifier)
      in res_bind (key_sizes keyValueCount keyValueArray inputSize) (\<lambda>(inputSize, keyValueSize).
      smapi_build_list malloc inputSize inputSize
        [PUT_INT (inputSize - 4), put_string functionName, put_string_opt userid,
         put_buffer_opt passwordLength password, put_string targetIdentifier,
         put_keys (mark 8) put_asciiz keyValueCount keyValueArray]
        ''Page_or_Spool_Volume_Add_Layout'' None))"

definition smProcess_ABEND_Dump ::
  "(int \<Rightarrow> bool) \<Rightarrow> byte list \<Rightarrow> int \<Rightarrow>
    byte list \<Rightarrow> byte list \<Rightarrow> int \<Rightarrow> byte list list \<Rightarrow>
    (smapi_request \<times> int option) res" where
  "smProcess_ABEND_Dump malloc userid passwordLength password targetIdentifier keyValueCount
      keyValueArray =
     (let functionName = c_literal ''Process_ABEND_Dump'';
        inputSize = c_int
          (4 + 4 + strlen functionName + 4 + strlen userid + 4 + passwordLength + 4 +
           strlen targetIdentifier)
      in res_bind (key_sizes keyValueCount keyValueArray inputSize) (\<lambda>(inputSize, keyValueSize).
      smapi_build_list malloc inputSize inputSize
        [PUT_INT (inputSize - 4), put_string functionName, put_string_opt userid,
         put_buffer_opt passwordLength password, put_string targetIdentifier,
         put_keys (mark 1) put_asciiz keyValueCount keyValueArray]
        ''Process_ABEND_Dump_Layout'' None))"

definition smQuery_ABEND_Dump ::
  "(int \<Rightarrow> bool) \<Rightarrow> byte list \<Rightarrow> int \<Rightarrow>
    byte list \<Rightarrow> byte list \<Rightarrow> int \<Rightarrow> byte list list \<Rightarrow>
    (smapi_request \<times> int option) res" where
  "smQuery_ABEND_Dump malloc userid passwordLength password targetIdentifier keyValueCount
      keyValueArray =
     (let functionName = c_literal ''Query_ABEND_Dump'';
        inputSize = c_int
          (4 + 4 + strlen functionName + 4 + strlen userid + 4 + passwordLength + 4 +
           strlen targetIdentifier)
      in res_bind (key_sizes keyValueCount keyValueArray inputSize) (\<lambda>(inputSize, keyValueSize).
      smapi_build_list malloc inputSize inputSize
        [PUT_INT (inputSize - 4), put_string functionName, put_string_opt userid,
         put_buffer_opt passwordLength password, put_string_marked (mark 1 0) targetIdentifier,
         put_keys (\<lambda>i. mark 1 (i + 1)) put_asciiz keyValueCount keyValueArray]
        ''Query_ABEND_Dump_Layout'' None))"

definition smQuery_All_DM_NO ::
  "(int \<Rightarrow> bool) \<Rightarrow> byte list \<Rightarrow> int \<Rightarrow>
    byte list \<Rightarrow> byte list \<Rightarrow> int \<Rightarrow> byte list list \<Rightarrow>
    (smapi_request \<times> int option) res" where
  "smQuery_All_DM_NO malloc userid passwordLength password targetIdentifier keyValueCount
      keyValueArray =
     (let functionName = c_literal ''Query_All_DM'';
        inputSize = c_int
          (4 + 4 + strlen functionName + 4 + strlen userid + 4 + passwordLength + 4 +
           strlen targetIdentifier + 4)
      in res_bind (key_sizes keyValueCount keyValueArray inputSize) (\<lambda>(inputSize, keyValueSize).
      smapi_build_list malloc inputSize inputSize
        [PUT_INT (inputSize - 4), put_string functionName, put_string_opt userid,
         put_buffer_opt passwordLength password, put_string targetIdentifier,
         put_counted_keys keyValueSize no_mark put_with_nul keyValueCount keyValueArray]
        ''Query_All_DM_NO_Layout'' None))"

definition smQuery_All_DM_YES ::
  "(int \<Rightarrow> bool) \<Rightarrow> byte list \<Rightarrow> int \<Rightarrow>
    byte list \<Rightarrow> byte list \<Rightarrow> int \<Rightarrow> byte list list \<Rightarrow>
    (smapi_request \<times> int option) res" where
  "smQuery_All_DM_YES malloc userid passwordLength password targetIdentifier keyValueCount
      keyValueArray =
     (let functionName = c_literal ''Query_All_DM'';
        inputSize = c_int
          (4 + 4 + strlen functionName + 4 + strlen userid + 4 + passwordLength + 4 +
           strlen targetIdentifier + 4)
      in res_bind (key_sizes keyValueCount keyValueArray inputSize) (\<lambda>(inputSize, keyValueSize).
      smapi_build_list malloc inputSize inputSize
        [PUT_INT (inputSize - 4), put_string functionName, put_string_opt userid,
         put_buffer_opt passwordLength password, put_string targetIdentifier,
         put_counted_keys keyValueSize no_mark put_with_nul keyValueCount keyValueArray]
        ''Query_All_DM_YES_Layout'' None))"

definition smSystem_Config_Syntax_Check ::
  "(int \<Rightarrow> bool) \<Rightarrow> byte list \<Rightarrow> int \<Rightarrow>
    byte list \<Rightarrow> byte list \<Rightarrow> int \<Rightarrow> byte list list \<Rightarrow>
    (smapi_request \<times> int option) res" where
  "smSystem_Config_Syntax_Check malloc userid passwordLength password targetIdentifier
      keyValueCount keyValueArray =
     (let functionName = c_literal ''System_Config_Syntax_Check'';
        inputSize = c_int
          (4 + 4 + strlen functionName + 4 + strlen userid + 4 + passwordLength + 4 +
           strlen targetIdentifier)
      in res_bind (key_sizes keyValueCount keyValueArray inputSize) (\<lambda>(inputSize, keyValueSize).
      smapi_build_list malloc inputSize inputSize
        [PUT_INT (inputSize - 4), put_string functionName, put_string_opt userid,
         put_buffer_opt passwordLength password, put_string targetIdentifier,
         put_keys no_mark put_asciiz keyValueCount keyValueArray]
        ''System_Config_Syntax_Check_Layout'' (Some ERROR_OUTPUT_BUFFER_POSSIBLE_NO_LENGTH_FIELD)))"

definition smSystem_Disk_Accessibility ::
  "(int \<Rightarrow> bool) \<Rightarrow> byte list \<Rightarrow> int \<Rightarrow>
    byte list \<Rightarrow> byte list \<Rightarrow> int \<Rightarrow> byte list list \<Rightarrow>
    (smapi_request \<times> int option) res" where
  "smSystem_Disk_Accessibility malloc userid passwordLength password targetIdentifier
      keyValueCount keyValueArray =
     (let functionName = c_literal ''System_Disk_Accessibility'';
        inputSize = c_int
          (4 + 4 + strlen functionName + 4 + strlen userid + 4 + passwordLength + 4 +
           strlen targetIdentifier)
      in res_bind (key_sizes keyValueCount keyValueArray inputSize) (\<lambda>(inputSize, keyValueSize).
      smapi_build_list malloc inputSize inputSize
        [PUT_INT (inputSize - 4), put_string functionName, put_string_opt userid,
         put_buffer_opt passwordLength password, put_string_marked (mark 2 0) targetIdentifier,
         put_keys (\<lambda>i. mark 2 (i + 1)) put_asciiz keyValueCount keyValueArray]
        ''System_Disk_Accessibility_Layout'' None))"

definition smSystem_Disk_Add ::
  "(int \<Rightarrow> bool) \<Rightarrow> byte list \<Rightarrow> int \<Rightarrow>
    byte list \<Rightarrow> byte list \<Rightarrow> int \<Rightarrow> byte list list \<Rightarrow>
    (smapi_request \<times> int option) res" where
  "smSystem_Disk_Add malloc userid passwordLength password targetIdentifier keyValueCount
      keyValueArray =
     (let functionName = c_literal ''System_Disk_Add'';
        inputSize = c_int
          (4 + 4 + strlen functionName + 4 + strlen userid + 4 + passwordLength + 4 +
           strlen targetIdentifier)
      in res_bind (key_sizes keyValueCount keyValueArray inputSize) (\<lambda>(inputSize, keyValueSize).
      smapi_build_list malloc inputSize inputSize
        [PUT_INT (inputSize - 4), put_string functionName, put_string_opt userid,
         put_buffer_opt passwordLength password, put_string_marked (mark 2 0) targetIdentifier,
         put_keys (\<lambda>i. mark 2 (i + 1)) put_asciiz keyValueCount keyValueArray]
        ''System_Disk_Add_Layout'' None))"

definition smSystem_Disk_IO_Query ::
  "(int \<Rightarrow> bool) \<Rightarrow> byte list \<Rightarrow> int \<Rightarrow>
    byte list \<Rightarrow> byte list \<Rightarrow> int \<Rightarrow> byte list list \<Rightarrow>
    (smapi_request \<times> int option) res" where
  "smSystem_Disk_IO_Query malloc userid passwordLength password targetIdentifier
      keyValueCount keyValueArray =
     (let functionName = c_literal ''System_Disk_IO_Query'';
        inputSize = c_int
          (4 + 4 + strlen functionName + 4 + strlen userid + 4 + passwordLength +
           strlen password + 4 + strlen targetIdentifier + 4)
      in res_bind (key_sizes keyValueCount keyValueArray inputSize) (\<lambda>(inputSize, keyValueSize).
      smapi_build_list malloc inputSize inputSize
        [PUT_INT (inputSize - 4), put_string functionName, put_string_opt userid,
         put_buffer_opt passwordLength password, put_string targetIdentifier,
         put_counted_keys keyValueSize no_mark put_asciiz keyValueCount keyValueArray]
        ''System_Disk_IO_Query_Layout'' None))"

definition smSystem_Disk_Query ::
  "(int \<Rightarrow> bool) \<Rightarrow> byte list \<Rightarrow> int \<Rightarrow>
    byte list \<Rightarrow> byte list \<Rightarrow> int \<Rightarrow> byte list list \<Rightarrow>
    (smapi_request \<times> int option) res" where
  "smSystem_Disk_Query malloc userid passwordLength password targetIdentifier keyValueCount
      keyValueArray =
     (let functionName = c_literal ''System_Disk_Query'';
        inputSize = c_int
          (4 + 4 + strlen functionName + 4 + strlen userid + 4 + passwordLength + 4 +
           strlen targetIdentifier)
      in res_bind (key_sizes keyValueCount keyValueArray inputSize) (\<lambda>(inputSize, keyValueSize).
      smapi_build_list malloc inputSize inputSize
        [PUT_INT (inputSize - 4), put_string functionName, put_string_opt userid,
         put_buffer_opt passwordLength password, put_string_marked (mark 2 0) targetIdentifier,
         put_keys (\<lambda>i. mark 2 (i + 1)) put_asciiz keyValueCount keyValueArray]
        ''System_Disk_Query_Layout'' None))"

definition smSystem_EQID_Query ::
  "(int \<Rightarrow> bool) \<Rightarrow> byte list \<Rightarrow> int \<Rightarrow>
    byte list \<Rightarrow> byte list \<Rightarrow> int \<Rightarrow> byte list list \<Rightarrow>
    (smapi_request \<times> int option) res" where
  "smSystem_EQID_Query malloc userid passwordLength password targetIdentifier keyValueCount
      keyValueArray =
     (let functionName = c_literal ''System_EQID_Query'';
        inputSize = c_int
          (4 + 4 + strlen functionName + 4 + strlen userid + 4 + passwordLength + 4 +
           strlen targetIdentifier)
      in res_bind (key_sizes keyValueCount keyValueArray inputSize) (\<lambda>(inputSize, keyValueSize).
      smapi_build_list malloc inputSize inputSize
        [PUT_INT (inputSize - 4), put_string functionName, put_string_opt userid,
         put_buffer_opt passwordLength password, put_string_marked (mark 2 0) targetIdentifier,
         put_keys (\<lambda>i. mark 2 (i + 1)) put_asciiz keyValueCount keyValueArray]
        ''System_EQID_Query_Layout'' (Some ERROR_OUTPUT_BUFFER_POSSIBLE_WITH_LENGTH_FIELD)))"

definition smSystem_FCP_Free_Query ::
  "(int \<Rightarrow> bool) \<Rightarrow> byte list \<Rightarrow> int \<Rightarrow>
    byte list \<Rightarrow> byte list \<Rightarrow> int \<Rightarrow> byte list list \<Rightarrow>
    (smapi_request \<times> int option) res" where
  "smSystem_FCP_Free_Query malloc userid passwordLength password targetIdentifier
      keyValueCount keyValueArray =
     (let functionName = c_literal ''System_FCP_Free_Query'';
        inputSize = c_int
          (4 + 4 + strlen functionName + 4 + strlen userid + 4 + passwordLength + 4 +
           strlen targetIdentifier)
      in res_bind (key_sizes keyValueCount keyValueArray inputSize) (\<lambda>(inputSize, keyValueSize).
      smapi_build_list malloc inputSize inputSize
        [PUT_INT (inputSize - 4), put_string functionName, put_string_opt userid,
         put_buffer_opt passwordLength password, put_string_marked (mark 2 0) targetIdentifier,
         put_keys (\<lambda>i. mark 2 (i + 1)) put_asciiz keyValueCount keyValueArray]
        ''System_FCP_Free_Query_Layout'' None))"

definition smSystem_Performance_Information_Query ::
  "(int \<Rightarrow> bool) \<Rightarrow> byte list \<Rightarrow> int \<Rightarrow>
    byte list \<Rightarrow> byte list \<Rightarrow> int \<Rightarrow> byte list list \<Rightarrow>
    (smapi_request \<times> int option) res" where
  "smSystem_Performance_Information_Query malloc userid passwordLength password
      targetIdentifier keyValueCount keyValueArray =
     (let functionName = c_literal ''System_Performance_Information_Query'';
        inputSize = c_int
          (4 + 4 + strlen functionName + 4 + strlen userid + 4 + passwordLength + 4 +
           strlen targetIdentifier + 4)
      in res_bind (key_sizes keyValueCount keyValueArray inputSize) (\<lambda>(inputSize, keyValueSize).
      smapi_build_list malloc inputSize inputSize
        [PUT_INT (inputSize - 4), put_string functionName, put_string_opt userid,
         put_buffer_opt passwordLength password, put_string targetIdentifier,
         put_counted_keys keyValueSize no_mark put_asciiz keyValueCount keyValueArray]
        ''System_Performance_Information_Query_Layout'' (Some ERROR_OUTPUT_BUFFER_POSSIBLE_WITH_LENGTH_FIELD)))"

definition smSystem_RDR_File_Manage ::
  "(int \<Rightarrow> bool) \<Rightarrow> byte list \<Rightarrow> int \<Rightarrow>
    byte list \<Rightarrow> byte list \<Rightarrow> int \<Rightarrow> byte list list \<Rightarrow>
    (smapi_request \<times> int option) res" where
  "smSystem_RDR_File_Manage malloc userid passwordLength password targetIdentifier
      keyValueCount keyValueArray =
     (let functionName = c_literal ''System_RDR_File_Manage'';
        inputSize = c_int
          (4 + 4 + strlen functionName + 4 + strlen userid + 4 + passwordLength + 4 +
           strlen targetIdentifier)
      in res_bind (key_sizes keyValueCount keyValueArray inputSize) (\<lambda>(inputSize, keyValueSize).
      smapi_build_list malloc inputSize inputSize
        [PUT_INT (inputSize - 4), put_string functionName, put_string_opt userid,
         put_buffer_opt passwordLength password, put_string_marked (mark 5 0) targetIdentifier,
         put_keys (\<lambda>i. mark 5 (i + 1)) put_asciiz keyValueCount keyValueArray]
        ''System_RDR_File_Manage_Layout'' None))"

definition smSystem_SCSI_Disk_Add ::
  "(int \<Rightarrow> bool) \<Rightarrow> byte list \<Rightarrow> int \<Rightarrow>
    byte list \<Rightarrow> byte list \<Rightarrow> int \<Rightarrow> byte list list \<Rightarrow>
    (smapi_request \<times> int option) res" where
  "smSystem_SCSI_Disk_Add malloc userid passwordLength password targetIdentifier
      keyValueCount keyValueArray =
     (let functionName = c_literal ''System_SCSI_Disk_Add'';
        inputSize = c_int
          (4 + 4 + strlen functionName + 4 + strlen userid + 4 + passwordLength + 4 +
           strlen targetIdentifier)
      in res_bind (key_sizes keyValueCount keyValueArray inputSize) (\<lambda>(inputSize, keyValueSize).
      smapi_build_list malloc inputSize inputSize
        [PUT_INT (inputSize - 4), put_string functionName, put_string_opt userid,
         put_buffer_opt passwordLength password, put_string_marked (mark 5 0) targetIdentifier,
         put_keys (\<lambda>i. mark 5 (i + 1)) put_asciiz keyValueCount keyValueArray]
        ''System_SCSI_Disk_Add_Layout'' None))"

definition smSystem_SCSI_Disk_Delete ::
  "(int \<Rightarrow> bool) \<Rightarrow> byte list \<Rightarrow> int \<Rightarrow>
    byte list \<Rightarrow> byte list \<Rightarrow> int \<Rightarrow> byte list list \<Rightarrow>
    (smapi_request \<times> int option) res" where
  "smSystem_SCSI_Disk_Delete malloc userid passwordLength password targetIdentifier
      keyValueCount keyValueArray =
     (let functionName = c_literal ''System_SCSI_Disk_Delete'';
        inputSize = c_int
          (4 + 4 + strlen functionName + 4 + strlen userid + 4 + passwordLength + 4 +
           strlen targetIdentifier)
      in res_bind (key_sizes keyValueCount keyValueArray inputSize) (\<lambda>(inputSize, keyValueSize).
      smapi_build_list malloc inputSize inputSize
        [PUT_INT (inputSize - 4), put_string functionName, put_string_opt userid,
         put_buffer_opt passwordLength password, put_string_marked (mark 3 0) targetIdentifier,
         put_keys (\<lambda>i. mark 3 (i + 1)) put_asciiz keyValueCount keyValueArray]
        ''System_SCSI_Disk_Delete_Layout'' None))"

definition smSystem_SCSI_Disk_Query ::
  "(int \<Rightarrow> bool) \<Rightarrow> byte list \<Rightarrow> int \<Rightarrow>
    byte list \<Rightarrow> byte list \<Rightarrow> int \<Rightarrow> byte list list \<Rightarrow>
    (smapi_request \<times> int option) res" where
  "smSystem_SCSI_Disk_Query malloc userid passwordLength password targetIdentifier
      keyValueCount keyValueArray =
     (let functionName = c_literal ''System_SCSI_Disk_Query'';
        inputSize = c_int
          (4 + 4 + strlen functionName + 4 + strlen userid + 4 + passwordLength + 4 +
           strlen targetIdentifier)
      in res_bind (key_sizes keyValueCount keyValueArray inputSize) (\<lambda>(inputSize, keyValueSize).
      smapi_build_list malloc inputSize inputSize
        [PUT_INT (inputSize - 4), put_string functionName, put_string_opt userid,
         put_buffer_opt passwordLength password, put_string targetIdentifier,
         put_keys no_mark put_asciiz keyValueCount keyValueArray]
        ''System_SCSI_Disk_Query_Layout'' None))"

definition smSystem_Service_Query ::
  "(int \<Rightarrow> bool) \<Rightarrow> byte list \<Rightarrow> int \<Rightarrow>
    byte list \<Rightarrow> byte list \<Rightarrow> int \<Rightarrow> byte list list \<Rightarrow>
    (smapi_request \<times> int option) res" where
  "smSystem_Service_Query malloc userid passwordLength password targetIdentifier
      keyValueCount keyValueArray =
     (let functionName = c_literal ''System_Service_Query'';
        inputSize = c_int
          (4 + 4 + strlen functionName + 4 + strlen userid + 4 + passwordLength + 4 +
           strlen targetIdentifier + 4)
      in res_bind (key_sizes keyValueCount keyValueArray inputSize) (\<lambda>(inputSize, keyValueSize).
      smapi_build_list malloc inputSize inputSize
        [PUT_INT (inputSize - 4), put_string functionName, put_string_opt userid,
         put_buffer_opt passwordLength password, put_string targetIdentifier,
         put_counted_keys keyValueSize no_mark put_asciiz keyValueCount keyValueArray]
        ''System_Service_Query_Layout'' (Some ERROR_OUTPUT_BUFFER_POSSIBLE_WITH_LENGTH_FIELD)))"

definition smSystem_Shutdown ::
  "(int \<Rightarrow> bool) \<Rightarrow> byte list \<Rightarrow> int \<Rightarrow>
    byte list \<Rightarrow> byte list \<Rightarrow> int \<Rightarrow> byte list list \<Rightarrow>
    (smapi_request \<times> int option) res" where
  "smSystem_Shutdown malloc userid passwordLength password targetIdentifier keyValueCount
      keyValueArray =
     (let functionName = c_literal ''System_Shutdown'';
        inputSize = c_int
          (4 + 4 + strlen functionName + 4 + strlen userid + 4 + passwordLength + 4 +
           strlen targetIdentifier)
      in res_bind (key_sizes keyValueCount keyValueArray inputSize) (\<lambda>(inputSize, keyValueSize).
      smapi_build_list malloc inputSize inputSize
        [PUT_INT (inputSize - 4), put_string functionName, put_string_opt userid,
         put_buffer_opt passwordLength password, put_string targetIdentifier,
         put_keys no_mark put_asciiz keyValueCount keyValueArray]
        ''System_Shutdown_Layout'' None))"

definition smSystem_WWPN_Query ::
  "(int \<Rightarrow> bool) \<Rightarrow> byte list \<Rightarrow> int \<Rightarrow>
    byte list \<Rightarrow> byte list \<Rightarrow> int \<Rightarrow> byte list list \<Rightarrow>
    (smapi_request \<times> int option) res" where
  "smSystem_WWPN_Query malloc userid passwordLength password targetIdentifier keyValueCount
      keyValueArray =
     (let functionName = c_literal ''System_WWPN_Query'';
        inputSize = c_int
          (4 + 4 + strlen functionName + 4 + strlen userid + 4 + passwordLength + 4 +
           strlen targetIdentifier)
      in res_bind (key_sizes keyValueCount keyValueArray inputSize) (\<lambda>(inputSize, keyValueSize).
      smapi_build_list malloc inputSize inputSize
        [PUT_INT (inputSize - 4), put_string functionName, put_string_opt userid,
         put_buffer_opt passwordLength password, put_string targetIdentifier,
         put_keys no_mark put_asciiz keyValueCount keyValueArray]
        ''System_WWPN_Query_Layout'' None))"

definition smVMRELOCATE ::
  "(int \<Rightarrow> bool) \<Rightarrow> byte list \<Rightarrow> int \<Rightarrow>
    byte list \<Rightarrow> byte list \<Rightarrow> int \<Rightarrow> byte list list \<Rightarrow>
    (smapi_request \<times> int option) res" where
  "smVMRELOCATE malloc userid passwordLength password targetIdentifier keyValueCount
      keyValueArray =
     (let functionName = c_literal ''VMRELOCATE'';
        inputSize = c_int
          (4 + 4 + strlen functionName + 4 + strlen userid + 4 + passwordLength + 4 +
           strlen targetIdentifier)
      in res_bind (key_sizes keyValueCount keyValueArray inputSize) (\<lambda>(inputSize, keyValueSize).
      smapi_build_list malloc inputSize inputSize
        [PUT_INT (inputSize - 4), put_string functionName, put_string_opt userid,
         put_buffer_opt passwordLength password, put_string targetIdentifier,
         put_keys (mark 6) put_asciiz keyValueCount keyValueArray]
        ''VMRELOCATE_Layout'' (Some ERROR_OUTPUT_BUFFER_POSSIBLE_NO_LENGTH_FIELD)))"

definition smVMRELOCATE_Image_Attributes ::
  "(int \<Rightarrow> bool) \<Rightarrow> byte list \<Rightarrow> int \<Rightarrow>
    byte list \<Rightarrow> byte list \<Rightarrow> int \<Rightarrow> byte list list \<Rightarrow>
    (smapi_request \<times> int option) res" where
  "smVMRELOCATE_Image_Attributes malloc userid passwordLength password targetIdentifier
      keyValueCount keyValueArray =
     (let functionName = c_literal ''VMRELOCATE_Image_Attributes'';
        inputSize = c_int
          (4 + 4 + strlen functionName + 4 + strlen userid + 4 + passwordLength + 4 +
           strlen targetIdentifier)
      in res_bind (key_sizes keyValueCount keyValueArray inputSize) (\<lambda>(inputSize, keyValueSize).
      smapi_build_list malloc inputSize inputSize
        [PUT_INT (inputSize - 4), put_string functionName, put_string_opt userid,
         put_buffer_opt passwordLength password, put_string_marked (mark 4 0) targetIdentifier,
         put_keys (\<lambda>i. mark 4 (i + 1)) put_asciiz keyValueCount keyValueArray]
        ''VMRELOCATE_Image_Attributes_Layout'' None))"

definition smVMRELOCATE_Modify ::
  "(int \<Rightarrow> bool) \<Rightarrow> byte list \<Rightarrow> int \<Rightarrow>
    byte list \<Rightarrow> byte list \<Rightarrow> int \<Rightarrow> byte list list \<Rightarrow>
    (smapi_request \<times> int option) res" where
  "smVMRELOCATE_Modify malloc userid passwordLength password targetIdentifier keyValueCount
      keyValueArray =
     (let functionName = c_literal ''VMRELOCATE_Modify'';
        inputSize = c_int
          (4 + 4 + strlen functionName + 4 + strlen userid + 4 + passwordLength + 4 +
           strlen targetIdentifier)
      in res_bind (key_sizes keyValueCount keyValueArray inputSize) (\<lambda>(inputSize, keyValueSize).
      smapi_build_list malloc inputSize inputSize
        [PUT_INT (inputSize - 4), put_string functionName, put_string_opt userid,
         put_buffer_opt passwordLength password, put_string_marked (mark 3 0) targetIdentifier,
         put_keys (\<lambda>i. mark 3 (i + 1)) put_asciiz keyValueCount keyValueArray]
        ''VMRELOCATE_Modify_Layout'' (Some ERROR_OUTPUT_BUFFER_POSSIBLE_NO_LENGTH_FIELD)))"

definition smVMRELOCATE_Status ::
  "(int \<Rightarrow> bool) \<Rightarrow> byte list \<Rightarrow> int \<Rightarrow>
    byte list \<Rightarrow> byte list \<Rightarrow> int \<Rightarrow> byte list list \<Rightarrow>
    (smapi_request \<times> int option) res" where
  "smVMRELOCATE_Status malloc userid passwordLength password targetIdentifier keyValueCount
      keyValueArray =
     (let functionName = c_literal ''VMRELOCATE_Status'';
        inputSize = c_int
          (4 + 4 + strlen functionName + 4 + strlen userid + 4 + passwordLength + 4 +
           strlen targetIdentifier)
      in res_bind (key_sizes keyValueCount keyValueArray inputSize) (\<lambda>(inputSize, keyValueSize).
      smapi_build_list malloc inputSize inputSize
        [PUT_INT (inputSize - 4), put_string functionName, put_string_opt userid,
         put_buffer_opt passwordLength password, put_string_marked (mark 2 0) targetIdentifier,
         put_keys (\<lambda>i. mark 2 (i + 1)) put_asciiz keyValueCount keyValueArray]
        ''VMRELOCATE_Status_Layout'' None))"

definition smVirtual_Network_Adapter_Connect_Vswitch_Extended ::
  "(int \<Rightarrow> bool) \<Rightarrow> byte list \<Rightarrow> int \<Rightarrow>
    byte list \<Rightarrow> byte list \<Rightarrow> int \<Rightarrow> byte list list \<Rightarrow>
    (smapi_request \<times> int option) res" where
  "smVirtual_Network_Adapter_Connect_Vswitch_Extended malloc userid passwordLength password
      targetIdentifier keyValueCount keyValueArray =
     (let functionName = c_literal ''Virtual_Network_Adapter_Connect_Vswitch_Extended'';
        inputSize = c_int
          (4 + 4 + strlen functionName + 4 + strlen userid + 4 + passwordLength + 4 +
           strlen targetIdentifier)
      in res_bind (key_sizes keyValueCount keyValueArray inputSize) (\<lambda>(inputSize, keyValueSize).
      smapi_build_list malloc inputSize inputSize
        [PUT_INT (inputSize - 4), put_string functionName, put_string_opt userid,
         put_buffer_opt passwordLength password, put_string_marked (mark 3 0) targetIdentifier,
         put_keys (\<lambda>i. mark 3 (i + 1)) put_asciiz keyValueCount keyValueArray]
        ''Virtual_Network_Adapter_Connect_Vswitch_Extended_Layout'' None))"

definition smVirtual_Network_Adapter_Create_Extended ::
  "(int \<Rightarrow> bool) \<Rightarrow> byte list \<Rightarrow> int \<Rightarrow>
    byte list \<Rightarrow> byte list \<Rightarrow> int \<Rightarrow> byte list list \<Rightarrow>
    (smapi_request \<times> int option) res" where
  "smVirtual_Network_Adapter_Create_Extended malloc userid passwordLength password
      targetIdentifier keyValueCount keyValueArray =
     (let functionName = c_literal ''Virtual_Network_Adapter_Create_Extended'';
        inputSize = c_int
          (4 + 4 + strlen functionName + 4 + strlen userid + 4 + passwordLength + 4 +
           strlen targetIdentifier)
      in res_bind (key_sizes keyValueCount keyValueArray inputSize) (\<lambda>(inputSize, keyValueSize).
      smapi_build_list malloc inputSize inputSize
        [PUT_INT (inputSize - 4), put_string functionName, put_string_opt userid,
         put_buffer_opt passwordLength password, put_string_marked (mark 4 0) targetIdentifier,
         put_keys (\<lambda>i. mark 4 (i + 1)) put_asciiz keyValueCount keyValueArray]
        ''Virtual_Network_Adapter_Create_Extended_Layout'' None))"

definition smVirtual_Network_Adapter_Create_Extended_DM ::
  "(int \<Rightarrow> bool) \<Rightarrow> byte list \<Rightarrow> int \<Rightarrow>
    byte list \<Rightarrow> byte list \<Rightarrow> int \<Rightarrow> byte list list \<Rightarrow>
    (smapi_request \<times> int option) res" where
  "smVirtual_Network_Adapter_Create_Extended_DM malloc userid passwordLength password
      targetIdentifier keyValueCount keyValueArray =
     (let functionName = c_literal ''Virtual_Network_Adapter_Create_Extended_DM'';
        inputSize = c_int
          (4 + 4 + strlen functionName + 4 + strlen userid + 4 + passwordLength + 4 +
           strlen targetIdentifier + 4)
      in res_bind (key_sizes keyValueCount keyValueArray inputSize) (\<lambda>(inputSize, keyValueSize).
      smapi_build_list malloc inputSize inputSize
        [PUT_INT (inputSize - 4), put_string functionName, put_string_opt userid,
         put_buffer_opt passwordLength password, put_string_marked (mark 5 0) targetIdentifier,
         put_counted_keys keyValueSize (\<lambda>i. mark 5 (i + 1)) put_asciiz keyValueCount keyValueArray]
        ''Virtual_Network_Adapter_Create_Extended_DM_Layout'' None))"

definition smVirtual_Network_Adapter_Query_Extended ::
  "(int \<Rightarrow> bool) \<Rightarrow> byte list \<Rightarrow> int \<Rightarrow>
    byte list \<Rightarrow> byte list \<Rightarrow> int \<Rightarrow> byte list list \<Rightarrow>
    (smapi_request \<times> int option) res" where
  "smVirtual_Network_Adapter_Query_Extended malloc userid passwordLength password
      targetIdentifier keyValueCount keyValueArray =
     (let functionName = c_literal ''Virtual_Network_Adapter_Query_Extended'';
        inputSize = c_int
          (4 + 4 + strlen functionName + 4 + strlen userid + 4 + passwordLength + 4 +
           strlen targetIdentifier + 4)
      in res_bind (key_sizes keyValueCount keyValueArray inputSize) (\<lambda>(inputSize, keyValueSize).
      smapi_build_list malloc inputSize inputSize
        [PUT_INT (inputSize - 4), put_string functionName, put_string_opt userid,
         put_buffer_opt passwordLength password, put_string targetIdentifier,
         put_counted_keys keyValueSize no_mark put_asciiz keyValueCount keyValueArray]
        ''Virtual_Network_Adapter_Query_Extended_Layout'' None))"

definition smVirtual_Network_VLAN_Query_Stats ::
  "(int \<Rightarrow> bool) \<Rightarrow> byte list \<Rightarrow> int \<Rightarrow>
    byte list \<Rightarrow> byte list \<Rightarrow> int \<Rightarrow> byte list list \<Rightarrow>
    (smapi_request \<times> int option) res" where
  "smVirtual_Network_VLAN_Query_Stats malloc userid passwordLength password targetIdentifier
      keyValueCount keyValueArray =
     (let functionName = c_literal ''Virtual_Network_VLAN_Query_Stats'';
        inputSize = c_int
          (4 + 4 + strlen functionName + 4 + strlen userid + 4 + passwordLength + 4 +
           strlen targetIdentifier)
      in res_bind (key_sizes keyValueCount keyValueArray inputSize) (\<lambda>(inputSize, keyValueSize).
      smapi_build_list malloc inputSize inputSize
        [PUT_INT (inputSize - 4), put_string functionName, put_string_opt userid,
         put_buffer_opt passwordLength password, put_string targetIdentifier,
         put_keys no_mark put_asciiz keyValueCount keyValueArray]
        ''Virtual_Network_VLAN_Query_Stats_Layout'' None))"

definition smVirtual_Network_Vswitch_Create_Extended ::
  "(int \<Rightarrow> bool) \<Rightarrow> byte list \<Rightarrow> int \<Rightarrow>
    byte list \<Rightarrow> byte list \<Rightarrow> int \<Rightarrow> byte list list \<Rightarrow>
    (smapi_request \<times> int option) res" where
  "smVirtual_Network_Vswitch_Create_Extended malloc userid passwordLength password
      targetIdentifier keyValueCount keyValueArray =
     (let functionName = c_literal ''Virtual_Network_Vswitch_Create_Extended'';
        inputSize = c_int
          (4 + 4 + strlen functionName + 4 + strlen userid + 4 + passwordLength + 4 +
           strlen targetIdentifier)
      in res_bind (key_sizes keyValueCount keyValueArray inputSize) (\<lambda>(inputSize, keyValueSize).
      smapi_build_list malloc inputSize inputSize
        [PUT_INT (inputSize - 4), put_string functionName, put_string_opt userid,
         put_buffer_opt passwordLength password, put_string_marked (mark 16 0) targetIdentifier,
         put_keys (\<lambda>i. mark 16 (i + 1)) put_asciiz keyValueCount keyValueArray]
        ''Virtual_Network_Vswitch_Create_Extended_Layout'' None))"

definition smVirtual_Network_Vswitch_Delete_Extended ::
  "(int \<Rightarrow> bool) \<Rightarrow> byte list \<Rightarrow> int \<Rightarrow>
    byte list \<Rightarrow> byte list \<Rightarrow> int \<Rightarrow> byte list list \<Rightarrow>
    (smapi_request \<times> int option) res" where
  "smVirtual_Network_Vswitch_Delete_Extended malloc userid passwordLength password
      targetIdentifier keyValueCount keyValueArray =
     (let functionName = c_literal ''Virtual_Network_Vswitch_Delete_Extended'';
        inputSize = c_int
          (4 + 4 + strlen functionName + 4 + strlen userid + 4 + passwordLength + 4 +
           strlen targetIdentifier)
      in res_bind (key_sizes keyValueCount keyValueArray inputSize) (\<lambda>(inputSize, keyValueSize).
      smapi_build_list malloc inputSize inputSize
        [PUT_INT (inputSize - 4), put_string functionName, put_string_opt userid,
         put_buffer_opt passwordLength password, put_string_marked (mark 2 0) targetIdentifier,
         put_keys (\<lambda>i. mark 2 (i + 1)) put_asciiz keyValueCount keyValueArray]
        ''Virtual_Network_Vswitch_Delete_Extended_Layout'' None))"

definition smVirtual_Network_Vswitch_Query_Byte_Stats ::
  "(int \<Rightarrow> bool) \<Rightarrow> byte list \<Rightarrow> int \<Rightarrow>
    byte list \<Rightarrow> byte list \<Rightarrow> int \<Rightarrow> byte list list \<Rightarrow>
    (smapi_request \<times> int option) res" where
  "smVirtual_Network_Vswitch_Query_Byte_Stats malloc userid passwordLength password
      targetIdentifier keyValueCount keyValueArray =
     (let functionName = c_literal ''Virtual_Network_Vswitch_Query_Byte_Stats'';
        inputSize = c_int
          (4 + 4 + strlen functionName + 4 + strlen userid + 4 + passwordLength + 4 +
           strlen targetIdentifier)
      in res_bind (key_sizes keyValueCount keyValueArray inputSize) (\<lambda>(inputSize, keyValueSize).
      smapi_build_list malloc inputSize inputSize
        [PUT_INT (inputSize - 4), put_string functionName, put_string_opt userid,
         put_buffer_opt passwordLength password, put_string_marked (mark 2 0) targetIdentifier,
         put_keys (\<lambda>i. mark 2 (i + 1)) put_asciiz keyValueCount keyValueArray]
        ''Virtual_Network_Vswitch_Query_Byte_Stats_Layout'' None))"

definition smVirtual_Network_Vswitch_Query_Extended ::
  "(int \<Rightarrow> bool) \<Rightarrow> byte list \<Rightarrow> int \<Rightarrow>
    byte list \<Rightarrow> byte list \<Rightarrow> int \<Rightarrow> byte list list \<Rightarrow>
    (smapi_request \<times> int option) res" where
  "smVirtual_Network_Vswitch_Query_Extended malloc userid passwordLength password
      targetIdentifier keyValueCount keyValueArray =
     (let functionName = c_literal ''Virtual_Network_Vswitch_Query_Extended'';
        inputSize = c_int
          (4 + 4 + strlen functionName + 4 + strlen userid + 4 + passwordLength + 4 +
           strlen targetIdentifier)
      in res_bind (key_sizes keyValueCount keyValueArray inputSize) (\<lambda>(inputSize, keyValueSize).
      smapi_build_list malloc inputSize inputSize
        [PUT_INT (inputSize - 4), put_string functionName, put_string_opt userid,
         put_buffer_opt passwordLength password, put_string_marked (mark 2 0) targetIdentifier,
         put_keys (\<lambda>i. mark 2 (i + 1)) put_asciiz keyValueCount keyValueArray]
        ''Virtual_Network_VSwitch_Query_Extended_Layout'' None))"

definition smVirtual_Network_Vswitch_Query_IUO_Stats ::
  "(int \<Rightarrow> bool) \<Rightarrow> byte list \<Rightarrow> int \<Rightarrow>
    byte list \<Rightarrow> byte list \<Rightarrow> int \<Rightarrow> byte list list \<Rightarrow>
    (smapi_request \<times> int option) res" where
  "smVirtual_Network_Vswitch_Query_IUO_Stats malloc userid passwordLength password
      targetIdentifier keyValueCount keyValueArray =
     (let functionName = c_literal ''Virtual_Network_Vswitch_Query_IUO_Stats'';
        inputSize = c_int
          (4 + 4 + strlen functionName + 4 + strlen userid + 4 + passwordLength + 4 +
           strlen targetIdentifier)
      in res_bind (key_sizes keyValueCount keyValueArray inputSize) (\<lambda>(inputSize, keyValueSize).
      smapi_build_list malloc inputSize inputSize
        [PUT_INT (inputSize - 4), put_string functionName, put_string_opt userid,
         put_buffer_opt passwordLength password, put_string_marked (mark 2 0) targetIdentifier,
         put_keys (\<lambda>i. mark 2 (i + 1)) put_asciiz keyValueCount keyValueArray]
        ''Virtual_Network_Vswitch_Query_IUO_Stats_Layout'' None))"

definition smVirtual_Network_Vswitch_Query_Stats ::
  "(int \<Rightarrow> bool) \<Rightarrow> byte list \<Rightarrow> int \<Rightarrow>
    byte list \<Rightarrow> byte list \<Rightarrow> int \<Rightarrow> byte list list \<Rightarrow>
    (smapi_request \<times> int option) res" where
  "smVirtual_Network_Vswitch_Query_Stats malloc userid passwordLength password
      targetIdentifier keyValueCount keyValueArray =
     (let functionName = c_literal ''Virtual_Network_Vswitch_Query_Stats'';
        inputSize = c_int
          (4 + 4 + strlen functionName + 4 + strlen userid + 4 + passwordLength + 4 +
           strlen targetIdentifier)
      in res_bind (key_sizes keyValueCount keyValueArray inputSize) (\<lambda>(inputSize, keyValueSize).
      smapi_build_list malloc inputSize inputSize
        [PUT_INT (inputSize - 4), put_string functionName, put_string_opt userid,
         put_buffer_opt passwordLength password, put_string_marked (mark 2 0) targetIdentifier,
         put_keys (\<lambda>i. mark 2 (i + 1)) put_asciiz keyValueCount keyValueArray]
        ''Virtual_Network_Vswitch_Query_Stats_Layout'' None))"

definition smVirtual_Network_Vswitch_Set_Extended ::
  "(int \<Rightarrow> bool) \<Rightarrow> byte list \<Rightarrow> int \<Rightarrow>
    byte list \<Rightarrow> byte list \<Rightarrow> int \<Rightarrow> byte list list \<Rightarrow>
    (smapi_request \<times> int option) res" where
  "smVirtual_Network_Vswitch_Set_Extended malloc userid passwordLength password
      targetIdentifier keyValueCount keyValueArray =
     (let functionName = c_literal ''Virtual_Network_Vswitch_Set_Extended'';
        inputSize = c_int
          (4 + 4 + strlen functionName + 4 + strlen userid + 4 + passwordLength + 4 +
           strlen targetIdentifier)
      in res_bind (key_sizes keyValueCount keyValueArray inputSize) (\<lambda>(inputSize, keyValueSize).
      smapi_build_list malloc inputSize inputSize
        [PUT_INT (inputSize - 4), put_string functionName, put_string_opt userid,
         put_buffer_opt passwordLength password, put_string_marked (mark 33 0) targetIdentifier,
         put_keys (\<lambda>i. mark 33 (i + 1)) put_asciiz keyValueCount keyValueArray]
        ''Virtual_Network_Vswitch_Set_Extended_Layout'' None))"

section \<open>What they write\<close>

definition smImage_Definition_Async_Updates_api :: list_api where
  "smImage_Definition_Async_Updates_api =
     \<lparr>lapi_head = [[Counted (c_literal ''Image_Definition_Async_Updates'')]],
      lapi_kinds = [LPlain KStr, LPlain KBuf, LPlain KStr, LKeys None],
      lapi_slack = 0, lapi_table = ''Image_Definition_Async_Updates_Layout'',
      lapi_error_buffer = None,
      lapi_build = (\<lambda>malloc args. smImage_Definition_Async_Updates malloc
        (arg_bytes (larg_plain (args ! 0))) (arg_num (larg_plain (args ! 1)))
        (arg_bytes (larg_plain (args ! 1))) (arg_bytes (larg_plain (args ! 2)))
        (larg_count (args ! 3)) (larg_keys (args ! 3)))\<rparr>"

lemma smImage_Definition_Async_Updates_api_ok [lapi_rules]: "lapi_ok smImage_Definition_Async_Updates_api"
  by (rule lapi_okI, simp add: smImage_Definition_Async_Updates_api_def)
    (clarsimp simp: smImage_Definition_Async_Updates_api_def smImage_Definition_Async_Updates_def lapi_args, rule built_fromI, simp add: lapi_size, simp, simp add: lapi_writes)

definition smImage_Definition_Create_DM_api :: list_api where
  "smImage_Definition_Create_DM_api =
     \<lparr>lapi_head = [[Counted (c_literal ''Image_Definition_Create_DM'')]],
      lapi_kinds = [LPlain KStr, LPlain KBuf, LPlain KStr, LCountedKeys None],
      lapi_slack = 0, lapi_table = ''Image_Definition_Create_DM_Layout'',
      lapi_error_buffer = Some ERROR_OUTPUT_BUFFER_POSSIBLE_WITH_LENGTH_FIELD,
      lapi_build = (\<lambda>malloc args. smImage_Definition_Create_DM malloc
        (arg_bytes (larg_plain (args ! 0))) (arg_num (larg_plain (args ! 1)))
        (arg_bytes (larg_plain (args ! 1))) (arg_bytes (larg_plain (args ! 2)))
        (larg_count (args ! 3)) (larg_keys (args ! 3)))\<rparr>"

lemma smImage_Definition_Create_DM_api_ok [lapi_rules]: "lapi_ok smImage_Definition_Create_DM_api"
  by (rule lapi_okI, simp add: smImage_Definition_Create_DM_api_def)
    (clarsimp simp: smImage_Definition_Create_DM_api_def smImage_Definition_Create_DM_def lapi_args, rule built_fromI, simp add: lapi_size, simp, simp add: lapi_writes)

definition smImage_Definition_Delete_DM_api :: list_api where
  "smImage_Definition_Delete_DM_api =
     \<lparr>lapi_head = [[Counted (c_literal ''Image_Definition_Delete_DM'')]],
      lapi_kinds = [LPlain KStr, LPlain KBuf, LPlain KStr, LCountedKeys None],
      lapi_slack = 0, lapi_table = ''Image_Definition_Delete_DM_Layout'',
      lapi_error_buffer = Some ERROR_OUTPUT_BUFFER_POSSIBLE_WITH_LENGTH_FIELD,
      lapi_build = (\<lambda>malloc args. smImage_Definition_Delete_DM malloc
        (arg_bytes (larg_plain (args ! 0))) (arg_num (larg_plain (args ! 1)))
        (arg_bytes (larg_plain (args ! 1))) (arg_bytes (larg_plain (args ! 2)))
        (larg_count (args ! 3)) (larg_keys (args ! 3)))\<rparr>"

lemma smImage_Definition_Delete_DM_api_ok [lapi_rules]: "lapi_ok smImage_Definition_Delete_DM_api"
  by (rule lapi_okI, simp add: smImage_Definition_Delete_DM_api_def)
    (clarsimp simp: smImage_Definition_Delete_DM_api_def smImage_Definition_Delete_DM_def lapi_args, rule built_fromI, simp add: lapi_size, simp, simp add: lapi_writes)

definition smImage_Definition_Update_DM_api :: list_api where
  "smImage_Definition_Update_DM_api =
     \<lparr>lapi_head = [[Counted (c_literal ''Image_Definition_Update_DM'')]],
      lapi_kinds = [LPlain KStr, LPlain KBuf, LPlain KStr, LCountedKeys None],
      lapi_slack = 0, lapi_table = ''Image_Definition_Update_DM_Layout'',
      lapi_error_buffer = Some ERROR_OUTPUT_BUFFER_POSSIBLE_WITH_LENGTH_FIELD,
      lapi_build = (\<lambda>malloc args. smImage_Definition_Update_DM malloc
        (arg_bytes (larg_plain (args ! 0))) (arg_num (larg_plain (args ! 1)))
        (arg_bytes (larg_plain (args ! 1))) (arg_bytes (larg_plain (args ! 2)))
        (larg_count (args ! 3)) (larg_keys (args ! 3)))\<rparr>"

lemma smImage_Definition_Update_DM_api_ok [lapi_rules]: "lapi_ok smImage_Definition_Update_DM_api"
  by (rule lapi_okI, simp add: smImage_Definition_Update_DM_api_def)
    (clarsimp simp: smImage_Definition_Update_DM_api_def smImage_Definition_Update_DM_def lapi_args, rule built_fromI, simp add: lapi_size, simp, simp add: lapi_writes)

definition smImage_Volume_Share_api :: list_api where
  "smImage_Volume_Share_api =
     \<lparr>lapi_head = [[Counted (c_literal ''Image_Volume_Share'')]],
      lapi_kinds = [LPlain KStr, LPlain KBuf, LPlain KStr, LKeys None],
      lapi_slack = 0, lapi_table = ''Image_Volume_Share_Layout'',
      lapi_error_buffer = None,
      lapi_build = (\<lambda>malloc args. smImage_Volume_Share malloc
        (arg_bytes (larg_plain (args ! 0))) (arg_num (larg_plain (args ! 1)))
        (arg_bytes (larg_plain (args ! 1))) (arg_bytes (larg_plain (args ! 2)))
        (larg_count (args ! 3)) (larg_keys (args ! 3)))\<rparr>"

lemma smImage_Volume_Share_api_ok [lapi_rules]: "lapi_ok smImage_Volume_Share_api"
  by (rule lapi_okI, simp add: smImage_Volume_Share_api_def)
    (clarsimp simp: smImage_Volume_Share_api_def smImage_Volume_Share_def lapi_args, rule built_fromI, simp add: lapi_size, simp, simp add: lapi_writes)

definition smImage_Volume_Space_Define_Extended_DM_api :: list_api where
  "smImage_Volume_Space_Define_Extended_DM_api =
     \<lparr>lapi_head = [[Counted (c_literal ''Image_Volume_Space_Define_Extended_DM'')]],
      lapi_kinds = [LPlain KStr, LPlain KBuf, LPlain KStr, LCountedKeys None],
      lapi_slack = 0, lapi_table = ''Image_Volume_Space_Define_Extended_DM_Layout'',
      lapi_error_buffer = None,
      lapi_build = (\<lambda>malloc args. smImage_Volume_Space_Define_Extended_DM malloc
        (arg_bytes (larg_plain (args ! 0))) (arg_num (larg_plain (args ! 1)))
        (arg_bytes (larg_plain (args ! 1))) (arg_bytes (larg_plain (args ! 2)))
        (larg_count (args ! 3)) (larg_keys (args ! 3)))\<rparr>"

lemma smImage_Volume_Space_Define_Extended_DM_api_ok [lapi_rules]: "lapi_ok smImage_Volume_Space_Define_Extended_DM_api"
  by (rule lapi_okI, simp add: smImage_Volume_Space_Define_Extended_DM_api_def)
    (clarsimp simp: smImage_Volume_Space_Define_Extended_DM_api_def smImage_Volume_Space_Define_Extended_DM_def lapi_args, rule built_fromI, simp add: lapi_size, simp, simp add: lapi_writes)

definition smImage_Volume_Space_Query_Extended_DM_api :: list_api where
  "smImage_Volume_Space_Query_Extended_DM_api =
     \<lparr>lapi_head = [[Counted (c_literal ''Image_Volume_Space_Query_Extended_DM'')]],
      lapi_kinds = [LPlain KStr, LPlain KBuf, LPlain KStr, LCountedKeys None],
      lapi_slack = 0, lapi_table = ''Image_Volume_Space_Query_Extended_DM_Layout'',
      lapi_error_buffer = None,
      lapi_build = (\<lambda>malloc args. smImage_Volume_Space_Query_Extended_DM malloc
        (arg_bytes (larg_plain (args ! 0))) (arg_num (larg_plain (args ! 1)))
        (arg_bytes (larg_plain (args ! 1))) (arg_bytes (larg_plain (args ! 2)))
        (larg_count (args ! 3)) (larg_keys (args ! 3)))\<rparr>"

lemma smImage_Volume_Space_Query_Extended_DM_api_ok [lapi_rules]: "lapi_ok smImage_Volume_Space_Query_Extended_DM_api"
  by (rule lapi_okI, simp add: smImage_Volume_Space_Query_Extended_DM_api_def)
    (clarsimp simp: smImage_Volume_Space_Query_Extended_DM_api_def smImage_Volume_Space_Query_Extended_DM_def lapi_args, rule built_fromI, simp add: lapi_size, simp, simp add: lapi_writes)

definition smNetwork_IP_Interface_Create_api :: list_api where
  "smNetwork_IP_Interface_Create_api =
     \<lparr>lapi_head = [[Counted (c_literal ''Network_IP_Interface_Create'')]],
      lapi_kinds = [LPlain KStr, LPlain KBuf, LPlain KStr, LKeys None],
      lapi_slack = 0, lapi_table = ''Network_IP_Interface_Create_Layout'',
      lapi_error_buffer = Some ERROR_OUTPUT_BUFFER_POSSIBLE_WITH_LENGTH_FIELD,
      lapi_build = (\<lambda>malloc args. smNetwork_IP_Interface_Create malloc
        (arg_bytes (larg_plain (args ! 0))) (arg_num (larg_plain (args ! 1)))
        (arg_bytes (larg_plain (args ! 1))) (arg_bytes (larg_plain (args ! 2)))
        (larg_count (args ! 3)) (larg_keys (args ! 3)))\<rparr>"

lemma smNetwork_IP_Interface_Create_api_ok [lapi_rules]: "lapi_ok smNetwork_IP_Interface_Create_api"
  by (rule lapi_okI, simp add: smNetwork_IP_Interface_Create_api_def)
    (clarsimp simp: smNetwork_IP_Interface_Create_api_def smNetwork_IP_Interface_Create_def lapi_args, rule built_fromI, simp add: lapi_size, simp, simp add: lapi_writes)

definition smNetwork_IP_Interface_Modify_api :: list_api where
  "smNetwork_IP_Interface_Modify_api =
     \<lparr>lapi_head = [[Counted (c_literal ''Network_IP_Interface_Modify'')]],
      lapi_kinds = [LPlain KStr, LPlain KBuf, LPlain KStr, LKeys None],
      lapi_slack = 0, lapi_table = ''Network_IP_Interface_Modify_Layout'',
      lapi_error_buffer = Some ERROR_OUTPUT_BUFFER_POSSIBLE_WITH_LENGTH_FIELD,
      lapi_build = (\<lambda>malloc args. smNetwork_IP_Interface_Modify malloc
        (arg_bytes (larg_plain (args ! 0))) (arg_num (larg_plain (args ! 1)))
        (arg_bytes (larg_plain (args ! 1))) (arg_bytes (larg_plain (args ! 2)))
        (larg_count (args ! 3)) (larg_keys (args ! 3)))\<rparr>"

lemma smNetwork_IP_Interface_Modify_api_ok [lapi_rules]: "lapi_ok smNetwork_IP_Interface_Modify_api"
  by (rule lapi_okI, simp add: smNetwork_IP_Interface_Modify_api_def)
    (clarsimp simp: smNetwork_IP_Interface_Modify_api_def smNetwork_IP_Interface_Modify_def lapi_args, rule built_fromI, simp add: lapi_size, simp, simp add: lapi_writes)

definition smNetwork_IP_Interface_Query_api :: list_api where
  "smNetwork_IP_Interface_Query_api =
     \<lparr>lapi_head = [[Counted (c_literal ''Network_IP_Interface_Query'')]],
      lapi_kinds = [LPlain KStr, LPlain KBuf, LPlain KStr, LKeys None],
      lapi_slack = 0, lapi_table = ''Network_IP_Interface_Query_Layout'',
      lapi_error_buffer = None,
      lapi_build = (\<lambda>malloc args. smNetwork_IP_Interface_Query malloc
        (arg_bytes (larg_plain (args ! 0))) (arg_num (larg_plain (args ! 1)))
        (arg_bytes (larg_plain (args ! 1))) (arg_bytes (larg_plain (args ! 2)))
        (larg_count (args ! 3)) (larg_keys (args ! 3)))\<rparr>"

lemma smNetwork_IP_Interface_Query_api_ok [lapi_rules]: "lapi_ok smNetwork_IP_Interface_Query_api"
  by (rule lapi_okI, simp add: smNetwork_IP_Interface_Query_api_def)
    (clarsimp simp: smNetwork_IP_Interface_Query_api_def smNetwork_IP_Interface_Query_def lapi_args, rule built_fromI, simp add: lapi_size, simp, simp add: lapi_writes)

definition smNetwork_IP_Interface_Remove_api :: list_api where
  "smNetwork_IP_Interface_Remove_api =
     \<lparr>lapi_head = [[Counted (c_literal ''Network_IP_Interface_Remove'')]],
      lapi_kinds = [LPlain KStr, LPlain KBuf, LPlain KStr, LKeys None],
      lapi_slack = 0, lapi_table = ''Network_IP_Interface_Remove_Layout'',
      lapi_error_buffer = Some ERROR_OUTPUT_BUFFER_POSSIBLE_WITH_LENGTH_FIELD,
      lapi_build = (\<lambda>malloc args. smNetwork_IP_Interface_Remove malloc
        (arg_bytes (larg_plain (args ! 0))) (arg_num (larg_plain (args ! 1)))
        (arg_bytes (larg_plain (args ! 1))) (arg_bytes (larg_plain (args ! 2)))
        (larg_count (args ! 3)) (larg_keys (args ! 3)))\<rparr>"

lemma smNetwork_IP_Interface_Remove_api_ok [lapi_rules]: "lapi_ok smNetwork_IP_Interface_Remove_api"
  by (rule lapi_okI, simp add: smNetwork_IP_Interface_Remove_api_def)
    (clarsimp simp: smNetwork_IP_Interface_Remove_api_def smNetwork_IP_Interface_Remove_def lapi_args, rule built_fromI, simp add: lapi_size, simp, simp add: lapi_writes)

definition smPage_or_Spool_Volume_Add_api :: list_api where
  "smPage_or_Spool_Volume_Add_api =
     \<lparr>lapi_head = [[Counted (c_literal ''Page_or_Spool_Volume_Add'')]],
      lapi_kinds = [LPlain KStr, LPlain KBuf, LPlain KStr, LKeys (Some 8)],
      lapi_slack = 0, lapi_table = ''Page_or_Spool_Volume_Add_Layout'',
      lapi_error_buffer = None,
      lapi_build = (\<lambda>malloc args. smPage_or_Spool_Volume_Add malloc
        (arg_bytes (larg_plain (args ! 0))) (arg_num (larg_plain (args ! 1)))
        (arg_bytes (larg_plain (args ! 1))) (arg_bytes (larg_plain (args ! 2)))
        (larg_count (args ! 3)) (larg_keys (args ! 3)))\<rparr>"

lemma smPage_or_Spool_Volume_Add_api_ok [lapi_rules]: "lapi_ok smPage_or_Spool_Volume_Add_api"
  by (rule lapi_okI, simp add: smPage_or_Spool_Volume_Add_api_def)
    (clarsimp simp: smPage_or_Spool_Volume_Add_api_def smPage_or_Spool_Volume_Add_def lapi_args, rule built_fromI, simp add: lapi_size, simp, simp add: lapi_writes)

lemma smPage_or_Spool_Volume_Add_overflows [overflow_rules]: "lapi_overflows smPage_or_Spool_Volume_Add_api 8"
  by (unfold lapi_overflows_def, clarsimp simp: smPage_or_Spool_Volume_Add_api_def smPage_or_Spool_Volume_Add_def Let_def key_sizes_eq)
    (rule build_list_fault, simp_all add: total_rules total_copies_key mark_overflows)

definition smProcess_ABEND_Dump_api :: list_api where
  "smProcess_ABEND_Dump_api =
     \<lparr>lapi_head = [[Counted (c_literal ''Process_ABEND_Dump'')]],
      lapi_kinds = [LPlain KStr, LPlain KBuf, LPlain KStr, LKeys (Some 1)],
      lapi_slack = 0, lapi_table = ''Process_ABEND_Dump_Layout'',
      lapi_error_buffer = None,
      lapi_build = (\<lambda>malloc args. smProcess_ABEND_Dump malloc
        (arg_bytes (larg_plain (args ! 0))) (arg_num (larg_plain (args ! 1)))
        (arg_bytes (larg_plain (args ! 1))) (arg_bytes (larg_plain (args ! 2)))
        (larg_count (args ! 3)) (larg_keys (args ! 3)))\<rparr>"

lemma smProcess_ABEND_Dump_api_ok [lapi_rules]: "lapi_ok smProcess_ABEND_Dump_api"
  by (rule lapi_okI, simp add: smProcess_ABEND_Dump_api_def)
    (clarsimp simp: smProcess_ABEND_Dump_api_def smProcess_ABEND_Dump_def lapi_args, rule built_fromI, simp add: lapi_size, simp, simp add: lapi_writes)

lemma smProcess_ABEND_Dump_overflows [overflow_rules]: "lapi_overflows smProcess_ABEND_Dump_api 1"
  by (unfold lapi_overflows_def, clarsimp simp: smProcess_ABEND_Dump_api_def smProcess_ABEND_Dump_def Let_def key_sizes_eq)
    (rule build_list_fault, simp_all add: total_rules total_copies_key mark_overflows)

definition smQuery_ABEND_Dump_api :: list_api where
  "smQuery_ABEND_Dump_api =
     \<lparr>lapi_head = [[Counted (c_literal ''Query_ABEND_Dump'')]],
      lapi_kinds = [LPlain KStr, LPlain KBuf, LPlain KStr, LKeys (Some 0)],
      lapi_slack = 0, lapi_table = ''Query_ABEND_Dump_Layout'',
      lapi_error_buffer = None,
      lapi_build = (\<lambda>malloc args. smQuery_ABEND_Dump malloc
        (arg_bytes (larg_plain (args ! 0))) (arg_num (larg_plain (args ! 1)))
        (arg_bytes (larg_plain (args ! 1))) (arg_bytes (larg_plain (args ! 2)))
        (larg_count (args ! 3)) (larg_keys (args ! 3)))\<rparr>"

lemma smQuery_ABEND_Dump_api_ok [lapi_rules]: "lapi_ok smQuery_ABEND_Dump_api"
  by (rule lapi_okI, simp add: smQuery_ABEND_Dump_api_def)
    (clarsimp simp: smQuery_ABEND_Dump_api_def smQuery_ABEND_Dump_def lapi_args, rule built_fromI, simp add: lapi_size, simp, simp add: lapi_writes)

lemma smQuery_ABEND_Dump_overflows [overflow_rules]: "lapi_overflows smQuery_ABEND_Dump_api 0"
  by (unfold lapi_overflows_def, clarsimp simp: smQuery_ABEND_Dump_api_def smQuery_ABEND_Dump_def Let_def key_sizes_eq)
    (rule build_list_fault, simp_all add: total_rules total_copies_key mark_overflows)

definition smQuery_All_DM_NO_api :: list_api where
  "smQuery_All_DM_NO_api =
     \<lparr>lapi_head = [[Counted (c_literal ''Query_All_DM'')]],
      lapi_kinds = [LPlain KStr, LPlain KBuf, LPlain KStr, LCountedKeys None],
      lapi_slack = 0, lapi_table = ''Query_All_DM_NO_Layout'',
      lapi_error_buffer = None,
      lapi_build = (\<lambda>malloc args. smQuery_All_DM_NO malloc
        (arg_bytes (larg_plain (args ! 0))) (arg_num (larg_plain (args ! 1)))
        (arg_bytes (larg_plain (args ! 1))) (arg_bytes (larg_plain (args ! 2)))
        (larg_count (args ! 3)) (larg_keys (args ! 3)))\<rparr>"

lemma smQuery_All_DM_NO_api_ok [lapi_rules]: "lapi_ok smQuery_All_DM_NO_api"
  by (rule lapi_okI, simp add: smQuery_All_DM_NO_api_def)
    (clarsimp simp: smQuery_All_DM_NO_api_def smQuery_All_DM_NO_def lapi_args, rule built_fromI, simp add: lapi_size, simp, simp add: lapi_writes)

definition smQuery_All_DM_YES_api :: list_api where
  "smQuery_All_DM_YES_api =
     \<lparr>lapi_head = [[Counted (c_literal ''Query_All_DM'')]],
      lapi_kinds = [LPlain KStr, LPlain KBuf, LPlain KStr, LCountedKeys None],
      lapi_slack = 0, lapi_table = ''Query_All_DM_YES_Layout'',
      lapi_error_buffer = None,
      lapi_build = (\<lambda>malloc args. smQuery_All_DM_YES malloc
        (arg_bytes (larg_plain (args ! 0))) (arg_num (larg_plain (args ! 1)))
        (arg_bytes (larg_plain (args ! 1))) (arg_bytes (larg_plain (args ! 2)))
        (larg_count (args ! 3)) (larg_keys (args ! 3)))\<rparr>"

lemma smQuery_All_DM_YES_api_ok [lapi_rules]: "lapi_ok smQuery_All_DM_YES_api"
  by (rule lapi_okI, simp add: smQuery_All_DM_YES_api_def)
    (clarsimp simp: smQuery_All_DM_YES_api_def smQuery_All_DM_YES_def lapi_args, rule built_fromI, simp add: lapi_size, simp, simp add: lapi_writes)

definition smSystem_Config_Syntax_Check_api :: list_api where
  "smSystem_Config_Syntax_Check_api =
     \<lparr>lapi_head = [[Counted (c_literal ''System_Config_Syntax_Check'')]],
      lapi_kinds = [LPlain KStr, LPlain KBuf, LPlain KStr, LKeys None],
      lapi_slack = 0, lapi_table = ''System_Config_Syntax_Check_Layout'',
      lapi_error_buffer = Some ERROR_OUTPUT_BUFFER_POSSIBLE_NO_LENGTH_FIELD,
      lapi_build = (\<lambda>malloc args. smSystem_Config_Syntax_Check malloc
        (arg_bytes (larg_plain (args ! 0))) (arg_num (larg_plain (args ! 1)))
        (arg_bytes (larg_plain (args ! 1))) (arg_bytes (larg_plain (args ! 2)))
        (larg_count (args ! 3)) (larg_keys (args ! 3)))\<rparr>"

lemma smSystem_Config_Syntax_Check_api_ok [lapi_rules]: "lapi_ok smSystem_Config_Syntax_Check_api"
  by (rule lapi_okI, simp add: smSystem_Config_Syntax_Check_api_def)
    (clarsimp simp: smSystem_Config_Syntax_Check_api_def smSystem_Config_Syntax_Check_def lapi_args, rule built_fromI, simp add: lapi_size, simp, simp add: lapi_writes)

definition smSystem_Disk_Accessibility_api :: list_api where
  "smSystem_Disk_Accessibility_api =
     \<lparr>lapi_head = [[Counted (c_literal ''System_Disk_Accessibility'')]],
      lapi_kinds = [LPlain KStr, LPlain KBuf, LPlain KStr, LKeys (Some 1)],
      lapi_slack = 0, lapi_table = ''System_Disk_Accessibility_Layout'',
      lapi_error_buffer = None,
      lapi_build = (\<lambda>malloc args. smSystem_Disk_Accessibility malloc
        (arg_bytes (larg_plain (args ! 0))) (arg_num (larg_plain (args ! 1)))
        (arg_bytes (larg_plain (args ! 1))) (arg_bytes (larg_plain (args ! 2)))
        (larg_count (args ! 3)) (larg_keys (args ! 3)))\<rparr>"

lemma smSystem_Disk_Accessibility_api_ok [lapi_rules]: "lapi_ok smSystem_Disk_Accessibility_api"
  by (rule lapi_okI, simp add: smSystem_Disk_Accessibility_api_def)
    (clarsimp simp: smSystem_Disk_Accessibility_api_def smSystem_Disk_Accessibility_def lapi_args, rule built_fromI, simp add: lapi_size, simp, simp add: lapi_writes)

lemma smSystem_Disk_Accessibility_overflows [overflow_rules]: "lapi_overflows smSystem_Disk_Accessibility_api 1"
  by (unfold lapi_overflows_def, clarsimp simp: smSystem_Disk_Accessibility_api_def smSystem_Disk_Accessibility_def Let_def key_sizes_eq)
    (rule build_list_fault, simp_all add: total_rules total_copies_key mark_overflows)

definition smSystem_Disk_Add_api :: list_api where
  "smSystem_Disk_Add_api =
     \<lparr>lapi_head = [[Counted (c_literal ''System_Disk_Add'')]],
      lapi_kinds = [LPlain KStr, LPlain KBuf, LPlain KStr, LKeys (Some 1)],
      lapi_slack = 0, lapi_table = ''System_Disk_Add_Layout'',
      lapi_error_buffer = None,
      lapi_build = (\<lambda>malloc args. smSystem_Disk_Add malloc
        (arg_bytes (larg_plain (args ! 0))) (arg_num (larg_plain (args ! 1)))
        (arg_bytes (larg_plain (args ! 1))) (arg_bytes (larg_plain (args ! 2)))
        (larg_count (args ! 3)) (larg_keys (args ! 3)))\<rparr>"

lemma smSystem_Disk_Add_api_ok [lapi_rules]: "lapi_ok smSystem_Disk_Add_api"
  by (rule lapi_okI, simp add: smSystem_Disk_Add_api_def)
    (clarsimp simp: smSystem_Disk_Add_api_def smSystem_Disk_Add_def lapi_args, rule built_fromI, simp add: lapi_size, simp, simp add: lapi_writes)

lemma smSystem_Disk_Add_overflows [overflow_rules]: "lapi_overflows smSystem_Disk_Add_api 1"
  by (unfold lapi_overflows_def, clarsimp simp: smSystem_Disk_Add_api_def smSystem_Disk_Add_def Let_def key_sizes_eq)
    (rule build_list_fault, simp_all add: total_rules total_copies_key mark_overflows)

definition smSystem_Disk_Query_api :: list_api where
  "smSystem_Disk_Query_api =
     \<lparr>lapi_head = [[Counted (c_literal ''System_Disk_Query'')]],
      lapi_kinds = [LPlain KStr, LPlain KBuf, LPlain KStr, LKeys (Some 1)],
      lapi_slack = 0, lapi_table = ''System_Disk_Query_Layout'',
      lapi_error_buffer = None,
      lapi_build = (\<lambda>malloc args. smSystem_Disk_Query malloc
        (arg_bytes (larg_plain (args ! 0))) (arg_num (larg_plain (args ! 1)))
        (arg_bytes (larg_plain (args ! 1))) (arg_bytes (larg_plain (args ! 2)))
        (larg_count (args ! 3)) (larg_keys (args ! 3)))\<rparr>"

lemma smSystem_Disk_Query_api_ok [lapi_rules]: "lapi_ok smSystem_Disk_Query_api"
  by (rule lapi_okI, simp add: smSystem_Disk_Query_api_def)
    (clarsimp simp: smSystem_Disk_Query_api_def smSystem_Disk_Query_def lapi_args, rule built_fromI, simp add: lapi_size, simp, simp add: lapi_writes)

lemma smSystem_Disk_Query_overflows [overflow_rules]: "lapi_overflows smSystem_Disk_Query_api 1"
  by (unfold lapi_overflows_def, clarsimp simp: smSystem_Disk_Query_api_def smSystem_Disk_Query_def Let_def key_sizes_eq)
    (rule build_list_fault, simp_all add: total_rules total_copies_key mark_overflows)

definition smSystem_EQID_Query_api :: list_api where
  "smSystem_EQID_Query_api =
     \<lparr>lapi_head = [[Counted (c_literal ''System_EQID_Query'')]],
      lapi_kinds = [LPlain KStr, LPlain KBuf, LPlain KStr, LKeys (Some 1)],
      lapi_slack = 0, lapi_table = ''System_EQID_Query_Layout'',
      lapi_error_buffer = Some ERROR_OUTPUT_BUFFER_POSSIBLE_WITH_LENGTH_FIELD,
      lapi_build = (\<lambda>malloc args. smSystem_EQID_Query malloc
        (arg_bytes (larg_plain (args ! 0))) (arg_num (larg_plain (args ! 1)))
        (arg_bytes (larg_plain (args ! 1))) (arg_bytes (larg_plain (args ! 2)))
        (larg_count (args ! 3)) (larg_keys (args ! 3)))\<rparr>"

lemma smSystem_EQID_Query_api_ok [lapi_rules]: "lapi_ok smSystem_EQID_Query_api"
  by (rule lapi_okI, simp add: smSystem_EQID_Query_api_def)
    (clarsimp simp: smSystem_EQID_Query_api_def smSystem_EQID_Query_def lapi_args, rule built_fromI, simp add: lapi_size, simp, simp add: lapi_writes)

lemma smSystem_EQID_Query_overflows [overflow_rules]: "lapi_overflows smSystem_EQID_Query_api 1"
  by (unfold lapi_overflows_def, clarsimp simp: smSystem_EQID_Query_api_def smSystem_EQID_Query_def Let_def key_sizes_eq)
    (rule build_list_fault, simp_all add: total_rules total_copies_key mark_overflows)

definition smSystem_FCP_Free_Query_api :: list_api where
  "smSystem_FCP_Free_Query_api =
     \<lparr>lapi_head = [[Counted (c_literal ''System_FCP_Free_Query'')]],
      lapi_kinds = [LPlain KStr, LPlain KBuf, LPlain KStr, LKeys (Some 1)],
      lapi_slack = 0, lapi_table = ''System_FCP_Free_Query_Layout'',
      lapi_error_buffer = None,
      lapi_build = (\<lambda>malloc args. smSystem_FCP_Free_Query malloc
        (arg_bytes (larg_plain (args ! 0))) (arg_num (larg_plain (args ! 1)))
        (arg_bytes (larg_plain (args ! 1))) (arg_bytes (larg_plain (args ! 2)))
        (larg_count (args ! 3)) (larg_keys (args ! 3)))\<rparr>"

lemma smSystem_FCP_Free_Query_api_ok [lapi_rules]: "lapi_ok smSystem_FCP_Free_Query_api"
  by (rule lapi_okI, simp add: smSystem_FCP_Free_Query_api_def)
    (clarsimp simp: smSystem_FCP_Free_Query_api_def smSystem_FCP_Free_Query_def lapi_args, rule built_fromI, simp add: lapi_size, simp, simp add: lapi_writes)

lemma smSystem_FCP_Free_Query_overflows [overflow_rules]: "lapi_overflows smSystem_FCP_Free_Query_api 1"
  by (unfold lapi_overflows_def, clarsimp simp: smSystem_FCP_Free_Query_api_def smSystem_FCP_Free_Query_def Let_def key_sizes_eq)
    (rule build_list_fault, simp_all add: total_rules total_copies_key mark_overflows)

definition smSystem_Performance_Information_Query_api :: list_api where
  "smSystem_Performance_Information_Query_api =
     \<lparr>lapi_head = [[Counted (c_literal ''System_Performance_Information_Query'')]],
      lapi_kinds = [LPlain KStr, LPlain KBuf, LPlain KStr, LCountedKeys None],
      lapi_slack = 0, lapi_table = ''System_Performance_Information_Query_Layout'',
      lapi_error_buffer = Some ERROR_OUTPUT_BUFFER_POSSIBLE_WITH_LENGTH_FIELD,
      lapi_build = (\<lambda>malloc args. smSystem_Performance_Information_Query malloc
        (arg_bytes (larg_plain (args ! 0))) (arg_num (larg_plain (args ! 1)))
        (arg_bytes (larg_plain (args ! 1))) (arg_bytes (larg_plain (args ! 2)))
        (larg_count (args ! 3)) (larg_keys (args ! 3)))\<rparr>"

lemma smSystem_Performance_Information_Query_api_ok [lapi_rules]: "lapi_ok smSystem_Performance_Information_Query_api"
  by (rule lapi_okI, simp add: smSystem_Performance_Information_Query_api_def)
    (clarsimp simp: smSystem_Performance_Information_Query_api_def smSystem_Performance_Information_Query_def lapi_args, rule built_fromI, simp add: lapi_size, simp, simp add: lapi_writes)

definition smSystem_RDR_File_Manage_api :: list_api where
  "smSystem_RDR_File_Manage_api =
     \<lparr>lapi_head = [[Counted (c_literal ''System_RDR_File_Manage'')]],
      lapi_kinds = [LPlain KStr, LPlain KBuf, LPlain KStr, LKeys (Some 4)],
      lapi_slack = 0, lapi_table = ''System_RDR_File_Manage_Layout'',
      lapi_error_buffer = None,
      lapi_build = (\<lambda>malloc args. smSystem_RDR_File_Manage malloc
        (arg_bytes (larg_plain (args ! 0))) (arg_num (larg_plain (args ! 1)))
        (arg_bytes (larg_plain (args ! 1))) (arg_bytes (larg_plain (args ! 2)))
        (larg_count (args ! 3)) (larg_keys (args ! 3)))\<rparr>"

lemma smSystem_RDR_File_Manage_api_ok [lapi_rules]: "lapi_ok smSystem_RDR_File_Manage_api"
  by (rule lapi_okI, simp add: smSystem_RDR_File_Manage_api_def)
    (clarsimp simp: smSystem_RDR_File_Manage_api_def smSystem_RDR_File_Manage_def lapi_args, rule built_fromI, simp add: lapi_size, simp, simp add: lapi_writes)

lemma smSystem_RDR_File_Manage_overflows [overflow_rules]: "lapi_overflows smSystem_RDR_File_Manage_api 4"
  by (unfold lapi_overflows_def, clarsimp simp: smSystem_RDR_File_Manage_api_def smSystem_RDR_File_Manage_def Let_def key_sizes_eq)
    (rule build_list_fault, simp_all add: total_rules total_copies_key mark_overflows)

definition smSystem_SCSI_Disk_Add_api :: list_api where
  "smSystem_SCSI_Disk_Add_api =
     \<lparr>lapi_head = [[Counted (c_literal ''System_SCSI_Disk_Add'')]],
      lapi_kinds = [LPlain KStr, LPlain KBuf, LPlain KStr, LKeys (Some 4)],
      lapi_slack = 0, lapi_table = ''System_SCSI_Disk_Add_Layout'',
      lapi_error_buffer = None,
      lapi_build = (\<lambda>malloc args. smSystem_SCSI_Disk_Add malloc
        (arg_bytes (larg_plain (args ! 0))) (arg_num (larg_plain (args ! 1)))
        (arg_bytes (larg_plain (args ! 1))) (arg_bytes (larg_plain (args ! 2)))
        (larg_count (args ! 3)) (larg_keys (args ! 3)))\<rparr>"

lemma smSystem_SCSI_Disk_Add_api_ok [lapi_rules]: "lapi_ok smSystem_SCSI_Disk_Add_api"
  by (rule lapi_okI, simp add: smSystem_SCSI_Disk_Add_api_def)
    (clarsimp simp: smSystem_SCSI_Disk_Add_api_def smSystem_SCSI_Disk_Add_def lapi_args, rule built_fromI, simp add: lapi_size, simp, simp add: lapi_writes)

lemma smSystem_SCSI_Disk_Add_overflows [overflow_rules]: "lapi_overflows smSystem_SCSI_Disk_Add_api 4"
  by (unfold lapi_overflows_def, clarsimp simp: smSystem_SCSI_Disk_Add_api_def smSystem_SCSI_Disk_Add_def Let_def key_sizes_eq)
    (rule build_list_fault, simp_all add: total_rules total_copies_key mark_overflows)

definition smSystem_SCSI_Disk_Delete_api :: list_api where
  "smSystem_SCSI_Disk_Delete_api =
     \<lparr>lapi_head = [[Counted (c_literal ''System_SCSI_Disk_Delete'')]],
      lapi_kinds = [LPlain KStr, LPlain KBuf, LPlain KStr, LKeys (Some 2)],
      lapi_slack = 0, lapi_table = ''System_SCSI_Disk_Delete_Layout'',
      lapi_error_buffer = None,
      lapi_build = (\<lambda>malloc args. smSystem_SCSI_Disk_Delete malloc
        (arg_bytes (larg_plain (args ! 0))) (arg_num (larg_plain (args ! 1)))
        (arg_bytes (larg_plain (args ! 1))) (arg_bytes (larg_plain (args ! 2)))
        (larg_count (args ! 3)) (larg_keys (args ! 3)))\<rparr>"

lemma smSystem_SCSI_Disk_Delete_api_ok [lapi_rules]: "lapi_ok smSystem_SCSI_Disk_Delete_api"
  by (rule lapi_okI, simp add: smSystem_SCSI_Disk_Delete_api_def)
    (clarsimp simp: smSystem_SCSI_Disk_Delete_api_def smSystem_SCSI_Disk_Delete_def lapi_args, rule built_fromI, simp add: lapi_size, simp, simp add: lapi_writes)

lemma smSystem_SCSI_Disk_Delete_overflows [overflow_rules]: "lapi_overflows smSystem_SCSI_Disk_Delete_api 2"
  by (unfold lapi_overflows_def, clarsimp simp: smSystem_SCSI_Disk_Delete_api_def smSystem_SCSI_Disk_Delete_def Let_def key_sizes_eq)
    (rule build_list_fault, simp_all add: total_rules total_copies_key mark_overflows)

definition smSystem_SCSI_Disk_Query_api :: list_api where
  "smSystem_SCSI_Disk_Query_api =
     \<lparr>lapi_head = [[Counted (c_literal ''System_SCSI_Disk_Query'')]],
      lapi_kinds = [LPlain KStr, LPlain KBuf, LPlain KStr, LKeys None],
      lapi_slack = 0, lapi_table = ''System_SCSI_Disk_Query_Layout'',
      lapi_error_buffer = None,
      lapi_build = (\<lambda>malloc args. smSystem_SCSI_Disk_Query malloc
        (arg_bytes (larg_plain (args ! 0))) (arg_num (larg_plain (args ! 1)))
        (arg_bytes (larg_plain (args ! 1))) (arg_bytes (larg_plain (args ! 2)))
        (larg_count (args ! 3)) (larg_keys (args ! 3)))\<rparr>"

lemma smSystem_SCSI_Disk_Query_api_ok [lapi_rules]: "lapi_ok smSystem_SCSI_Disk_Query_api"
  by (rule lapi_okI, simp add: smSystem_SCSI_Disk_Query_api_def)
    (clarsimp simp: smSystem_SCSI_Disk_Query_api_def smSystem_SCSI_Disk_Query_def lapi_args, rule built_fromI, simp add: lapi_size, simp, simp add: lapi_writes)

definition smSystem_Service_Query_api :: list_api where
  "smSystem_Service_Query_api =
     \<lparr>lapi_head = [[Counted (c_literal ''System_Service_Query'')]],
      lapi_kinds = [LPlain KStr, LPlain KBuf, LPlain KStr, LCountedKeys None],
      lapi_slack = 0, lapi_table = ''System_Service_Query_Layout'',
      lapi_error_buffer = Some ERROR_OUTPUT_BUFFER_POSSIBLE_WITH_LENGTH_FIELD,
      lapi_build = (\<lambda>malloc args. smSystem_Service_Query malloc
        (arg_bytes (larg_plain (args ! 0))) (arg_num (larg_plain (args ! 1)))
        (arg_bytes (larg_plain (args ! 1))) (arg_bytes (larg_plain (args ! 2)))
        (larg_count (args ! 3)) (larg_keys (args ! 3)))\<rparr>"

lemma smSystem_Service_Query_api_ok [lapi_rules]: "lapi_ok smSystem_Service_Query_api"
  by (rule lapi_okI, simp add: smSystem_Service_Query_api_def)
    (clarsimp simp: smSystem_Service_Query_api_def smSystem_Service_Query_def lapi_args, rule built_fromI, simp add: lapi_size, simp, simp add: lapi_writes)

definition smSystem_Shutdown_api :: list_api where
  "smSystem_Shutdown_api =
     \<lparr>lapi_head = [[Counted (c_literal ''System_Shutdown'')]],
      lapi_kinds = [LPlain KStr, LPlain KBuf, LPlain KStr, LKeys None],
      lapi_slack = 0, lapi_table = ''System_Shutdown_Layout'',
      lapi_error_buffer = None,
      lapi_build = (\<lambda>malloc args. smSystem_Shutdown malloc
        (arg_bytes (larg_plain (args ! 0))) (arg_num (larg_plain (args ! 1)))
        (arg_bytes (larg_plain (args ! 1))) (arg_bytes (larg_plain (args ! 2)))
        (larg_count (args ! 3)) (larg_keys (args ! 3)))\<rparr>"

lemma smSystem_Shutdown_api_ok [lapi_rules]: "lapi_ok smSystem_Shutdown_api"
  by (rule lapi_okI, simp add: smSystem_Shutdown_api_def)
    (clarsimp simp: smSystem_Shutdown_api_def smSystem_Shutdown_def lapi_args, rule built_fromI, simp add: lapi_size, simp, simp add: lapi_writes)

definition smSystem_WWPN_Query_api :: list_api where
  "smSystem_WWPN_Query_api =
     \<lparr>lapi_head = [[Counted (c_literal ''System_WWPN_Query'')]],
      lapi_kinds = [LPlain KStr, LPlain KBuf, LPlain KStr, LKeys None],
      lapi_slack = 0, lapi_table = ''System_WWPN_Query_Layout'',
      lapi_error_buffer = None,
      lapi_build = (\<lambda>malloc args. smSystem_WWPN_Query malloc
        (arg_bytes (larg_plain (args ! 0))) (arg_num (larg_plain (args ! 1)))
        (arg_bytes (larg_plain (args ! 1))) (arg_bytes (larg_plain (args ! 2)))
        (larg_count (args ! 3)) (larg_keys (args ! 3)))\<rparr>"

lemma smSystem_WWPN_Query_api_ok [lapi_rules]: "lapi_ok smSystem_WWPN_Query_api"
  by (rule lapi_okI, simp add: smSystem_WWPN_Query_api_def)
    (clarsimp simp: smSystem_WWPN_Query_api_def smSystem_WWPN_Query_def lapi_args, rule built_fromI, simp add: lapi_size, simp, simp add: lapi_writes)

definition smVMRELOCATE_api :: list_api where
  "smVMRELOCATE_api =
     \<lparr>lapi_head = [[Counted (c_literal ''VMRELOCATE'')]],
      lapi_kinds = [LPlain KStr, LPlain KBuf, LPlain KStr, LKeys (Some 6)],
      lapi_slack = 0, lapi_table = ''VMRELOCATE_Layout'',
      lapi_error_buffer = Some ERROR_OUTPUT_BUFFER_POSSIBLE_NO_LENGTH_FIELD,
      lapi_build = (\<lambda>malloc args. smVMRELOCATE malloc
        (arg_bytes (larg_plain (args ! 0))) (arg_num (larg_plain (args ! 1)))
        (arg_bytes (larg_plain (args ! 1))) (arg_bytes (larg_plain (args ! 2)))
        (larg_count (args ! 3)) (larg_keys (args ! 3)))\<rparr>"

lemma smVMRELOCATE_api_ok [lapi_rules]: "lapi_ok smVMRELOCATE_api"
  by (rule lapi_okI, simp add: smVMRELOCATE_api_def)
    (clarsimp simp: smVMRELOCATE_api_def smVMRELOCATE_def lapi_args, rule built_fromI, simp add: lapi_size, simp, simp add: lapi_writes)

lemma smVMRELOCATE_overflows [overflow_rules]: "lapi_overflows smVMRELOCATE_api 6"
  by (unfold lapi_overflows_def, clarsimp simp: smVMRELOCATE_api_def smVMRELOCATE_def Let_def key_sizes_eq)
    (rule build_list_fault, simp_all add: total_rules total_copies_key mark_overflows)

definition smVMRELOCATE_Image_Attributes_api :: list_api where
  "smVMRELOCATE_Image_Attributes_api =
     \<lparr>lapi_head = [[Counted (c_literal ''VMRELOCATE_Image_Attributes'')]],
      lapi_kinds = [LPlain KStr, LPlain KBuf, LPlain KStr, LKeys (Some 3)],
      lapi_slack = 0, lapi_table = ''VMRELOCATE_Image_Attributes_Layout'',
      lapi_error_buffer = None,
      lapi_build = (\<lambda>malloc args. smVMRELOCATE_Image_Attributes malloc
        (arg_bytes (larg_plain (args ! 0))) (arg_num (larg_plain (args ! 1)))
        (arg_bytes (larg_plain (args ! 1))) (arg_bytes (larg_plain (args ! 2)))
        (larg_count (args ! 3)) (larg_keys (args ! 3)))\<rparr>"

lemma smVMRELOCATE_Image_Attributes_api_ok [lapi_rules]: "lapi_ok smVMRELOCATE_Image_Attributes_api"
  by (rule lapi_okI, simp add: smVMRELOCATE_Image_Attributes_api_def)
    (clarsimp simp: smVMRELOCATE_Image_Attributes_api_def smVMRELOCATE_Image_Attributes_def lapi_args, rule built_fromI, simp add: lapi_size, simp, simp add: lapi_writes)

lemma smVMRELOCATE_Image_Attributes_overflows [overflow_rules]: "lapi_overflows smVMRELOCATE_Image_Attributes_api 3"
  by (unfold lapi_overflows_def, clarsimp simp: smVMRELOCATE_Image_Attributes_api_def smVMRELOCATE_Image_Attributes_def Let_def key_sizes_eq)
    (rule build_list_fault, simp_all add: total_rules total_copies_key mark_overflows)

definition smVMRELOCATE_Modify_api :: list_api where
  "smVMRELOCATE_Modify_api =
     \<lparr>lapi_head = [[Counted (c_literal ''VMRELOCATE_Modify'')]],
      lapi_kinds = [LPlain KStr, LPlain KBuf, LPlain KStr, LKeys (Some 2)],
      lapi_slack = 0, lapi_table = ''VMRELOCATE_Modify_Layout'',
      lapi_error_buffer = Some ERROR_OUTPUT_BUFFER_POSSIBLE_NO_LENGTH_FIELD,
      lapi_build = (\<lambda>malloc args. smVMRELOCATE_Modify malloc
        (arg_bytes (larg_plain (args ! 0))) (arg_num (larg_plain (args ! 1)))
        (arg_bytes (larg_plain (args ! 1))) (arg_bytes (larg_plain (args ! 2)))
        (larg_count (args ! 3)) (larg_keys (args ! 3)))\<rparr>"

lemma smVMRELOCATE_Modify_api_ok [lapi_rules]: "lapi_ok smVMRELOCATE_Modify_api"
  by (rule lapi_okI, simp add: smVMRELOCATE_Modify_api_def)
    (clarsimp simp: smVMRELOCATE_Modify_api_def smVMRELOCATE_Modify_def lapi_args, rule built_fromI, simp add: lapi_size, simp, simp add: lapi_writes)

lemma smVMRELOCATE_Modify_overflows [overflow_rules]: "lapi_overflows smVMRELOCATE_Modify_api 2"
  by (unfold lapi_overflows_def, clarsimp simp: smVMRELOCATE_Modify_api_def smVMRELOCATE_Modify_def Let_def key_sizes_eq)
    (rule build_list_fault, simp_all add: total_rules total_copies_key mark_overflows)

definition smVMRELOCATE_Status_api :: list_api where
  "smVMRELOCATE_Status_api =
     \<lparr>lapi_head = [[Counted (c_literal ''VMRELOCATE_Status'')]],
      lapi_kinds = [LPlain KStr, LPlain KBuf, LPlain KStr, LKeys (Some 1)],
      lapi_slack = 0, lapi_table = ''VMRELOCATE_Status_Layout'',
      lapi_error_buffer = None,
      lapi_build = (\<lambda>malloc args. smVMRELOCATE_Status malloc
        (arg_bytes (larg_plain (args ! 0))) (arg_num (larg_plain (args ! 1)))
        (arg_bytes (larg_plain (args ! 1))) (arg_bytes (larg_plain (args ! 2)))
        (larg_count (args ! 3)) (larg_keys (args ! 3)))\<rparr>"

lemma smVMRELOCATE_Status_api_ok [lapi_rules]: "lapi_ok smVMRELOCATE_Status_api"
  by (rule lapi_okI, simp add: smVMRELOCATE_Status_api_def)
    (clarsimp simp: smVMRELOCATE_Status_api_def smVMRELOCATE_Status_def lapi_args, rule built_fromI, simp add: lapi_size, simp, simp add: lapi_writes)

lemma smVMRELOCATE_Status_overflows [overflow_rules]: "lapi_overflows smVMRELOCATE_Status_api 1"
  by (unfold lapi_overflows_def, clarsimp simp: smVMRELOCATE_Status_api_def smVMRELOCATE_Status_def Let_def key_sizes_eq)
    (rule build_list_fault, simp_all add: total_rules total_copies_key mark_overflows)

definition smVirtual_Network_Adapter_Connect_Vswitch_Extended_api :: list_api where
  "smVirtual_Network_Adapter_Connect_Vswitch_Extended_api =
     \<lparr>lapi_head = [[Counted (c_literal ''Virtual_Network_Adapter_Connect_Vswitch_Extended'')]],
      lapi_kinds = [LPlain KStr, LPlain KBuf, LPlain KStr, LKeys (Some 2)],
      lapi_slack = 0, lapi_table = ''Virtual_Network_Adapter_Connect_Vswitch_Extended_Layout'',
      lapi_error_buffer = None,
      lapi_build = (\<lambda>malloc args. smVirtual_Network_Adapter_Connect_Vswitch_Extended malloc
        (arg_bytes (larg_plain (args ! 0))) (arg_num (larg_plain (args ! 1)))
        (arg_bytes (larg_plain (args ! 1))) (arg_bytes (larg_plain (args ! 2)))
        (larg_count (args ! 3)) (larg_keys (args ! 3)))\<rparr>"

lemma smVirtual_Network_Adapter_Connect_Vswitch_Extended_api_ok [lapi_rules]: "lapi_ok smVirtual_Network_Adapter_Connect_Vswitch_Extended_api"
  by (rule lapi_okI, simp add: smVirtual_Network_Adapter_Connect_Vswitch_Extended_api_def)
    (clarsimp simp: smVirtual_Network_Adapter_Connect_Vswitch_Extended_api_def smVirtual_Network_Adapter_Connect_Vswitch_Extended_def lapi_args, rule built_fromI, simp add: lapi_size, simp, simp add: lapi_writes)

lemma smVirtual_Network_Adapter_Connect_Vswitch_Extended_overflows [overflow_rules]: "lapi_overflows smVirtual_Network_Adapter_Connect_Vswitch_Extended_api 2"
  by (unfold lapi_overflows_def, clarsimp simp: smVirtual_Network_Adapter_Connect_Vswitch_Extended_api_def smVirtual_Network_Adapter_Connect_Vswitch_Extended_def Let_def key_sizes_eq)
    (rule build_list_fault, simp_all add: total_rules total_copies_key mark_overflows)

definition smVirtual_Network_Adapter_Create_Extended_api :: list_api where
  "smVirtual_Network_Adapter_Create_Extended_api =
     \<lparr>lapi_head = [[Counted (c_literal ''Virtual_Network_Adapter_Create_Extended'')]],
      lapi_kinds = [LPlain KStr, LPlain KBuf, LPlain KStr, LKeys (Some 3)],
      lapi_slack = 0, lapi_table = ''Virtual_Network_Adapter_Create_Extended_Layout'',
      lapi_error_buffer = None,
      lapi_build = (\<lambda>malloc args. smVirtual_Network_Adapter_Create_Extended malloc
        (arg_bytes (larg_plain (args ! 0))) (arg_num (larg_plain (args ! 1)))
        (arg_bytes (larg_plain (args ! 1))) (arg_bytes (larg_plain (args ! 2)))
        (larg_count (args ! 3)) (larg_keys (args ! 3)))\<rparr>"

lemma smVirtual_Network_Adapter_Create_Extended_api_ok [lapi_rules]: "lapi_ok smVirtual_Network_Adapter_Create_Extended_api"
  by (rule lapi_okI, simp add: smVirtual_Network_Adapter_Create_Extended_api_def)
    (clarsimp simp: smVirtual_Network_Adapter_Create_Extended_api_def smVirtual_Network_Adapter_Create_Extended_def lapi_args, rule built_fromI, simp add: lapi_size, simp, simp add: lapi_writes)

lemma smVirtual_Network_Adapter_Create_Extended_overflows [overflow_rules]: "lapi_overflows smVirtual_Network_Adapter_Create_Extended_api 3"
  by (unfold lapi_overflows_def, clarsimp simp: smVirtual_Network_Adapter_Create_Extended_api_def smVirtual_Network_Adapter_Create_Extended_def Let_def key_sizes_eq)
    (rule build_list_fault, simp_all add: total_rules total_copies_key mark_overflows)

definition smVirtual_Network_Adapter_Create_Extended_DM_api :: list_api where
  "smVirtual_Network_Adapter_Create_Extended_DM_api =
     \<lparr>lapi_head = [[Counted (c_literal ''Virtual_Network_Adapter_Create_Extended_DM'')]],
      lapi_kinds = [LPlain KStr, LPlain KBuf, LPlain KStr, LCountedKeys (Some 4)],
      lapi_slack = 0, lapi_table = ''Virtual_Network_Adapter_Create_Extended_DM_Layout'',
      lapi_error_buffer = None,
      lapi_build = (\<lambda>malloc args. smVirtual_Network_Adapter_Create_Extended_DM malloc
        (arg_bytes (larg_plain (args ! 0))) (arg_num (larg_plain (args ! 1)))
        (arg_bytes (larg_plain (args ! 1))) (arg_bytes (larg_plain (args ! 2)))
        (larg_count (args ! 3)) (larg_keys (args ! 3)))\<rparr>"

lemma smVirtual_Network_Adapter_Create_Extended_DM_api_ok [lapi_rules]: "lapi_ok smVirtual_Network_Adapter_Create_Extended_DM_api"
  by (rule lapi_okI, simp add: smVirtual_Network_Adapter_Create_Extended_DM_api_def)
    (clarsimp simp: smVirtual_Network_Adapter_Create_Extended_DM_api_def smVirtual_Network_Adapter_Create_Extended_DM_def lapi_args, rule built_fromI, simp add: lapi_size, simp, simp add: lapi_writes)

lemma smVirtual_Network_Adapter_Create_Extended_DM_overflows [overflow_rules]: "lapi_overflows smVirtual_Network_Adapter_Create_Extended_DM_api 4"
  by (unfold lapi_overflows_def, clarsimp simp: smVirtual_Network_Adapter_Create_Extended_DM_api_def smVirtual_Network_Adapter_Create_Extended_DM_def Let_def key_sizes_eq)
    (rule build_list_fault, simp_all add: total_rules total_copies_key mark_overflows)

definition smVirtual_Network_Adapter_Query_Extended_api :: list_api where
  "smVirtual_Network_Adapter_Query_Extended_api =
     \<lparr>lapi_head = [[Counted (c_literal ''Virtual_Network_Adapter_Query_Extended'')]],
      lapi_kinds = [LPlain KStr, LPlain KBuf, LPlain KStr, LCountedKeys None],
      lapi_slack = 0, lapi_table = ''Virtual_Network_Adapter_Query_Extended_Layout'',
      lapi_error_buffer = None,
      lapi_build = (\<lambda>malloc args. smVirtual_Network_Adapter_Query_Extended malloc
        (arg_bytes (larg_plain (args ! 0))) (arg_num (larg_plain (args ! 1)))
        (arg_bytes (larg_plain (args ! 1))) (arg_bytes (larg_plain (args ! 2)))
        (larg_count (args ! 3)) (larg_keys (args ! 3)))\<rparr>"

lemma smVirtual_Network_Adapter_Query_Extended_api_ok [lapi_rules]: "lapi_ok smVirtual_Network_Adapter_Query_Extended_api"
  by (rule lapi_okI, simp add: smVirtual_Network_Adapter_Query_Extended_api_def)
    (clarsimp simp: smVirtual_Network_Adapter_Query_Extended_api_def smVirtual_Network_Adapter_Query_Extended_def lapi_args, rule built_fromI, simp add: lapi_size, simp, simp add: lapi_writes)

definition smVirtual_Network_VLAN_Query_Stats_api :: list_api where
  "smVirtual_Network_VLAN_Query_Stats_api =
     \<lparr>lapi_head = [[Counted (c_literal ''Virtual_Network_VLAN_Query_Stats'')]],
      lapi_kinds = [LPlain KStr, LPlain KBuf, LPlain KStr, LKeys None],
      lapi_slack = 0, lapi_table = ''Virtual_Network_VLAN_Query_Stats_Layout'',
      lapi_error_buffer = None,
      lapi_build = (\<lambda>malloc args. smVirtual_Network_VLAN_Query_Stats malloc
        (arg_bytes (larg_plain (args ! 0))) (arg_num (larg_plain (args ! 1)))
        (arg_bytes (larg_plain (args ! 1))) (arg_bytes (larg_plain (args ! 2)))
        (larg_count (args ! 3)) (larg_keys (args ! 3)))\<rparr>"

lemma smVirtual_Network_VLAN_Query_Stats_api_ok [lapi_rules]: "lapi_ok smVirtual_Network_VLAN_Query_Stats_api"
  by (rule lapi_okI, simp add: smVirtual_Network_VLAN_Query_Stats_api_def)
    (clarsimp simp: smVirtual_Network_VLAN_Query_Stats_api_def smVirtual_Network_VLAN_Query_Stats_def lapi_args, rule built_fromI, simp add: lapi_size, simp, simp add: lapi_writes)

definition smVirtual_Network_Vswitch_Create_Extended_api :: list_api where
  "smVirtual_Network_Vswitch_Create_Extended_api =
     \<lparr>lapi_head = [[Counted (c_literal ''Virtual_Network_Vswitch_Create_Extended'')]],
      lapi_kinds = [LPlain KStr, LPlain KBuf, LPlain KStr, LKeys (Some 15)],
      lapi_slack = 0, lapi_table = ''Virtual_Network_Vswitch_Create_Extended_Layout'',
      lapi_error_buffer = None,
      lapi_build = (\<lambda>malloc args. smVirtual_Network_Vswitch_Create_Extended malloc
        (arg_bytes (larg_plain (args ! 0))) (arg_num (larg_plain (args ! 1)))
        (arg_bytes (larg_plain (args ! 1))) (arg_bytes (larg_plain (args ! 2)))
        (larg_count (args ! 3)) (larg_keys (args ! 3)))\<rparr>"

lemma smVirtual_Network_Vswitch_Create_Extended_api_ok [lapi_rules]: "lapi_ok smVirtual_Network_Vswitch_Create_Extended_api"
  by (rule lapi_okI, simp add: smVirtual_Network_Vswitch_Create_Extended_api_def)
    (clarsimp simp: smVirtual_Network_Vswitch_Create_Extended_api_def smVirtual_Network_Vswitch_Create_Extended_def lapi_args, rule built_fromI, simp add: lapi_size, simp, simp add: lapi_writes)

lemma smVirtual_Network_Vswitch_Create_Extended_overflows [overflow_rules]: "lapi_overflows smVirtual_Network_Vswitch_Create_Extended_api 15"
  by (unfold lapi_overflows_def, clarsimp simp: smVirtual_Network_Vswitch_Create_Extended_api_def smVirtual_Network_Vswitch_Create_Extended_def Let_def key_sizes_eq)
    (rule build_list_fault, simp_all add: total_rules total_copies_key mark_overflows)

definition smVirtual_Network_Vswitch_Delete_Extended_api :: list_api where
  "smVirtual_Network_Vswitch_Delete_Extended_api =
     \<lparr>lapi_head = [[Counted (c_literal ''Virtual_Network_Vswitch_Delete_Extended'')]],
      lapi_kinds = [LPlain KStr, LPlain KBuf, LPlain KStr, LKeys (Some 1)],
      lapi_slack = 0, lapi_table = ''Virtual_Network_Vswitch_Delete_Extended_Layout'',
      lapi_error_buffer = None,
      lapi_build = (\<lambda>malloc args. smVirtual_Network_Vswitch_Delete_Extended malloc
        (arg_bytes (larg_plain (args ! 0))) (arg_num (larg_plain (args ! 1)))
        (arg_bytes (larg_plain (args ! 1))) (arg_bytes (larg_plain (args ! 2)))
        (larg_count (args ! 3)) (larg_keys (args ! 3)))\<rparr>"

lemma smVirtual_Network_Vswitch_Delete_Extended_api_ok [lapi_rules]: "lapi_ok smVirtual_Network_Vswitch_Delete_Extended_api"
  by (rule lapi_okI, simp add: smVirtual_Network_Vswitch_Delete_Extended_api_def)
    (clarsimp simp: smVirtual_Network_Vswitch_Delete_Extended_api_def smVirtual_Network_Vswitch_Delete_Extended_def lapi_args, rule built_fromI, simp add: lapi_size, simp, simp add: lapi_writes)

lemma smVirtual_Network_Vswitch_Delete_Extended_overflows [overflow_rules]: "lapi_overflows smVirtual_Network_Vswitch_Delete_Extended_api 1"
  by (unfold lapi_overflows_def, clarsimp simp: smVirtual_Network_Vswitch_Delete_Extended_api_def smVirtual_Network_Vswitch_Delete_Extended_def Let_def key_sizes_eq)
    (rule build_list_fault, simp_all add: total_rules total_copies_key mark_overflows)

definition smVirtual_Network_Vswitch_Query_Byte_Stats_api :: list_api where
  "smVirtual_Network_Vswitch_Query_Byte_Stats_api =
     \<lparr>lapi_head = [[Counted (c_literal ''Virtual_Network_Vswitch_Query_Byte_Stats'')]],
      lapi_kinds = [LPlain KStr, LPlain KBuf, LPlain KStr, LKeys (Some 1)],
      lapi_slack = 0, lapi_table = ''Virtual_Network_Vswitch_Query_Byte_Stats_Layout'',
      lapi_error_buffer = None,
      lapi_build = (\<lambda>malloc args. smVirtual_Network_Vswitch_Query_Byte_Stats malloc
        (arg_bytes (larg_plain (args ! 0))) (arg_num (larg_plain (args ! 1)))
        (arg_bytes (larg_plain (args ! 1))) (arg_bytes (larg_plain (args ! 2)))
        (larg_count (args ! 3)) (larg_keys (args ! 3)))\<rparr>"

lemma smVirtual_Network_Vswitch_Query_Byte_Stats_api_ok [lapi_rules]: "lapi_ok smVirtual_Network_Vswitch_Query_Byte_Stats_api"
  by (rule lapi_okI, simp add: smVirtual_Network_Vswitch_Query_Byte_Stats_api_def)
    (clarsimp simp: smVirtual_Network_Vswitch_Query_Byte_Stats_api_def smVirtual_Network_Vswitch_Query_Byte_Stats_def lapi_args, rule built_fromI, simp add: lapi_size, simp, simp add: lapi_writes)

lemma smVirtual_Network_Vswitch_Query_Byte_Stats_overflows [overflow_rules]: "lapi_overflows smVirtual_Network_Vswitch_Query_Byte_Stats_api 1"
  by (unfold lapi_overflows_def, clarsimp simp: smVirtual_Network_Vswitch_Query_Byte_Stats_api_def smVirtual_Network_Vswitch_Query_Byte_Stats_def Let_def key_sizes_eq)
    (rule build_list_fault, simp_all add: total_rules total_copies_key mark_overflows)

definition smVirtual_Network_Vswitch_Query_Extended_api :: list_api where
  "smVirtual_Network_Vswitch_Query_Extended_api =
     \<lparr>lapi_head = [[Counted (c_literal ''Virtual_Network_Vswitch_Query_Extended'')]],
      lapi_kinds = [LPlain KStr, LPlain KBuf, LPlain KStr, LKeys (Some 1)],
      lapi_slack = 0, lapi_table = ''Virtual_Network_VSwitch_Query_Extended_Layout'',
      lapi_error_buffer = None,
      lapi_build = (\<lambda>malloc args. smVirtual_Network_Vswitch_Query_Extended malloc
        (arg_bytes (larg_plain (args ! 0))) (arg_num (larg_plain (args ! 1)))
        (arg_bytes (larg_plain (args ! 1))) (arg_bytes (larg_plain (args ! 2)))
        (larg_count (args ! 3)) (larg_keys (args ! 3)))\<rparr>"

lemma smVirtual_Network_Vswitch_Query_Extended_api_ok [lapi_rules]: "lapi_ok smVirtual_Network_Vswitch_Query_Extended_api"
  by (rule lapi_okI, simp add: smVirtual_Network_Vswitch_Query_Extended_api_def)
    (clarsimp simp: smVirtual_Network_Vswitch_Query_Extended_api_def smVirtual_Network_Vswitch_Query_Extended_def lapi_args, rule built_fromI, simp add: lapi_size, simp, simp add: lapi_writes)

lemma smVirtual_Network_Vswitch_Query_Extended_overflows [overflow_rules]: "lapi_overflows smVirtual_Network_Vswitch_Query_Extended_api 1"
  by (unfold lapi_overflows_def, clarsimp simp: smVirtual_Network_Vswitch_Query_Extended_api_def smVirtual_Network_Vswitch_Query_Extended_def Let_def key_sizes_eq)
    (rule build_list_fault, simp_all add: total_rules total_copies_key mark_overflows)

definition smVirtual_Network_Vswitch_Query_IUO_Stats_api :: list_api where
  "smVirtual_Network_Vswitch_Query_IUO_Stats_api =
     \<lparr>lapi_head = [[Counted (c_literal ''Virtual_Network_Vswitch_Query_IUO_Stats'')]],
      lapi_kinds = [LPlain KStr, LPlain KBuf, LPlain KStr, LKeys (Some 1)],
      lapi_slack = 0, lapi_table = ''Virtual_Network_Vswitch_Query_IUO_Stats_Layout'',
      lapi_error_buffer = None,
      lapi_build = (\<lambda>malloc args. smVirtual_Network_Vswitch_Query_IUO_Stats malloc
        (arg_bytes (larg_plain (args ! 0))) (arg_num (larg_plain (args ! 1)))
        (arg_bytes (larg_plain (args ! 1))) (arg_bytes (larg_plain (args ! 2)))
        (larg_count (args ! 3)) (larg_keys (args ! 3)))\<rparr>"

lemma smVirtual_Network_Vswitch_Query_IUO_Stats_api_ok [lapi_rules]: "lapi_ok smVirtual_Network_Vswitch_Query_IUO_Stats_api"
  by (rule lapi_okI, simp add: smVirtual_Network_Vswitch_Query_IUO_Stats_api_def)
    (clarsimp simp: smVirtual_Network_Vswitch_Query_IUO_Stats_api_def smVirtual_Network_Vswitch_Query_IUO_Stats_def lapi_args, rule built_fromI, simp add: lapi_size, simp, simp add: lapi_writes)

lemma smVirtual_Network_Vswitch_Query_IUO_Stats_overflows [overflow_rules]: "lapi_overflows smVirtual_Network_Vswitch_Query_IUO_Stats_api 1"
  by (unfold lapi_overflows_def, clarsimp simp: smVirtual_Network_Vswitch_Query_IUO_Stats_api_def smVirtual_Network_Vswitch_Query_IUO_Stats_def Let_def key_sizes_eq)
    (rule build_list_fault, simp_all add: total_rules total_copies_key mark_overflows)

definition smVirtual_Network_Vswitch_Query_Stats_api :: list_api where
  "smVirtual_Network_Vswitch_Query_Stats_api =
     \<lparr>lapi_head = [[Counted (c_literal ''Virtual_Network_Vswitch_Query_Stats'')]],
      lapi_kinds = [LPlain KStr, LPlain KBuf, LPlain KStr, LKeys (Some 1)],
      lapi_slack = 0, lapi_table = ''Virtual_Network_Vswitch_Query_Stats_Layout'',
      lapi_error_buffer = None,
      lapi_build = (\<lambda>malloc args. smVirtual_Network_Vswitch_Query_Stats malloc
        (arg_bytes (larg_plain (args ! 0))) (arg_num (larg_plain (args ! 1)))
        (arg_bytes (larg_plain (args ! 1))) (arg_bytes (larg_plain (args ! 2)))
        (larg_count (args ! 3)) (larg_keys (args ! 3)))\<rparr>"

lemma smVirtual_Network_Vswitch_Query_Stats_api_ok [lapi_rules]: "lapi_ok smVirtual_Network_Vswitch_Query_Stats_api"
  by (rule lapi_okI, simp add: smVirtual_Network_Vswitch_Query_Stats_api_def)
    (clarsimp simp: smVirtual_Network_Vswitch_Query_Stats_api_def smVirtual_Network_Vswitch_Query_Stats_def lapi_args, rule built_fromI, simp add: lapi_size, simp, simp add: lapi_writes)

lemma smVirtual_Network_Vswitch_Query_Stats_overflows [overflow_rules]: "lapi_overflows smVirtual_Network_Vswitch_Query_Stats_api 1"
  by (unfold lapi_overflows_def, clarsimp simp: smVirtual_Network_Vswitch_Query_Stats_api_def smVirtual_Network_Vswitch_Query_Stats_def Let_def key_sizes_eq)
    (rule build_list_fault, simp_all add: total_rules total_copies_key mark_overflows)

definition smVirtual_Network_Vswitch_Set_Extended_api :: list_api where
  "smVirtual_Network_Vswitch_Set_Extended_api =
     \<lparr>lapi_head = [[Counted (c_literal ''Virtual_Network_Vswitch_Set_Extended'')]],
      lapi_kinds = [LPlain KStr, LPlain KBuf, LPlain KStr, LKeys (Some 32)],
      lapi_slack = 0, lapi_table = ''Virtual_Network_Vswitch_Set_Extended_Layout'',
      lapi_error_buffer = None,
      lapi_build = (\<lambda>malloc args. smVirtual_Network_Vswitch_Set_Extended malloc
        (arg_bytes (larg_plain (args ! 0))) (arg_num (larg_plain (args ! 1)))
        (arg_bytes (larg_plain (args ! 1))) (arg_bytes (larg_plain (args ! 2)))
        (larg_count (args ! 3)) (larg_keys (args ! 3)))\<rparr>"

lemma smVirtual_Network_Vswitch_Set_Extended_api_ok [lapi_rules]: "lapi_ok smVirtual_Network_Vswitch_Set_Extended_api"
  by (rule lapi_okI, simp add: smVirtual_Network_Vswitch_Set_Extended_api_def)
    (clarsimp simp: smVirtual_Network_Vswitch_Set_Extended_api_def smVirtual_Network_Vswitch_Set_Extended_def lapi_args, rule built_fromI, simp add: lapi_size, simp, simp add: lapi_writes)

lemma smVirtual_Network_Vswitch_Set_Extended_overflows [overflow_rules]: "lapi_overflows smVirtual_Network_Vswitch_Set_Extended_api 32"
  by (unfold lapi_overflows_def, clarsimp simp: smVirtual_Network_Vswitch_Set_Extended_api_def smVirtual_Network_Vswitch_Set_Extended_def Let_def key_sizes_eq)
    (rule build_list_fault, simp_all add: total_rules total_copies_key mark_overflows)

definition requests_keywords :: "list_api list" where
  "requests_keywords =
     [smImage_Definition_Async_Updates_api, smImage_Definition_Create_DM_api,
      smImage_Definition_Delete_DM_api, smImage_Definition_Update_DM_api,
      smImage_Volume_Share_api, smImage_Volume_Space_Define_Extended_DM_api,
      smImage_Volume_Space_Query_Extended_DM_api, smNetwork_IP_Interface_Create_api,
      smNetwork_IP_Interface_Modify_api, smNetwork_IP_Interface_Query_api,
      smNetwork_IP_Interface_Remove_api, smPage_or_Spool_Volume_Add_api,
      smProcess_ABEND_Dump_api, smQuery_ABEND_Dump_api,
      smQuery_All_DM_NO_api, smQuery_All_DM_YES_api,
      smSystem_Config_Syntax_Check_api, smSystem_Disk_Accessibility_api,
      smSystem_Disk_Add_api, smSystem_Disk_Query_api,
      smSystem_EQID_Query_api, smSystem_FCP_Free_Query_api,
      smSystem_Performance_Information_Query_api, smSystem_RDR_File_Manage_api,
      smSystem_SCSI_Disk_Add_api, smSystem_SCSI_Disk_Delete_api,
      smSystem_SCSI_Disk_Query_api, smSystem_Service_Query_api,
      smSystem_Shutdown_api, smSystem_WWPN_Query_api,
      smVMRELOCATE_api, smVMRELOCATE_Image_Attributes_api,
      smVMRELOCATE_Modify_api, smVMRELOCATE_Status_api,
      smVirtual_Network_Adapter_Connect_Vswitch_Extended_api, smVirtual_Network_Adapter_Create_Extended_api,
      smVirtual_Network_Adapter_Create_Extended_DM_api, smVirtual_Network_Adapter_Query_Extended_api,
      smVirtual_Network_VLAN_Query_Stats_api, smVirtual_Network_Vswitch_Create_Extended_api,
      smVirtual_Network_Vswitch_Delete_Extended_api, smVirtual_Network_Vswitch_Query_Byte_Stats_api,
      smVirtual_Network_Vswitch_Query_Extended_api, smVirtual_Network_Vswitch_Query_IUO_Stats_api,
      smVirtual_Network_Vswitch_Query_Stats_api, smVirtual_Network_Vswitch_Set_Extended_api]"

lemma requests_keywords_ok: "list_all lapi_ok requests_keywords"
  by (simp add: requests_keywords_def lapi_rules)

end
