(* ===== verification/Requests_Records.thy ===== *)
theory Requests_Records
  imports Smapi_Lists
begin

text \<open>
  The request builders that take records, NUL terminated strings or nothing, one definition per
  \<^verbatim>\<open>src/vmapi*.c\<close> file, named after its C function, each with an \<open>api\<close> record and the lemma that it
  writes its arguments.  Four builders reserve more bytes than they write; they have no record.
\<close>

section \<open>The builders\<close>

definition smDirectory_Manager_Local_Tag_Define_DM ::
  "(int \<Rightarrow> bool) \<Rightarrow> byte list \<Rightarrow> int \<Rightarrow>
    byte list \<Rightarrow> byte list \<Rightarrow> byte list \<Rightarrow> int \<Rightarrow>
    byte \<Rightarrow> (smapi_request \<times> int option) res" where
  "smDirectory_Manager_Local_Tag_Define_DM malloc userid passwordLength password
      targetIdentifier tag_name tag_ordinal createOrChange =
     (let functionName = c_literal ''Directory_Manager_Local_Tag_Define_DM'';
        inputSize = c_int
          (4 + 4 + strlen functionName + 4 + strlen userid + 4 + passwordLength + 4 +
           strlen targetIdentifier + 4 + strlen tag_name + 4 + 1)
      in smapi_build_list malloc inputSize inputSize
        [PUT_INT (inputSize - 4), put_string functionName, put_string_opt userid,
         put_buffer_opt passwordLength password, put_string targetIdentifier,
         put_string tag_name, PUT_INT tag_ordinal, put_char createOrChange]
        ''Directory_Manager_Local_Tag_Define_DM_Layout'' None)"

definition smDirectory_Manager_Task_Cancel_DM ::
  "(int \<Rightarrow> bool) \<Rightarrow> byte list \<Rightarrow> int \<Rightarrow>
    byte list \<Rightarrow> byte list \<Rightarrow> int \<Rightarrow>
    (smapi_request \<times> int option) res" where
  "smDirectory_Manager_Task_Cancel_DM malloc userid passwordLength password targetIdentifier
      operation_id =
     (let functionName = c_literal ''Directory_Manager_Task_Cancel_DM'';
        inputSize = c_int
          (4 + 4 + strlen functionName + 4 + strlen userid + 4 + passwordLength + 4 +
           strlen targetIdentifier + 4)
      in smapi_build_list malloc inputSize inputSize
        [PUT_INT (inputSize - 4), put_string functionName, put_string_opt userid,
         put_buffer_opt passwordLength password, put_string targetIdentifier,
         PUT_INT operation_id]
        ''Directory_Manager_Task_Cancel_DM_Layout'' None)"

definition smIPaddr_Get ::
  "(int \<Rightarrow> bool) \<Rightarrow> (smapi_request \<times> int option) res" where
  "smIPaddr_Get malloc =
     (let functionName = c_literal ''IPaddr_Get'';
        inputSize = c_int
          (4 + 1 + strlen functionName + 1)
      in smapi_build_list malloc inputSize inputSize
        [PUT_INT (inputSize - 4), put_char 255, put_asciiz functionName]
        ''IPaddr_Get_Layout'' None)"

definition smImage_Definition_Query_DM ::
  "(int \<Rightarrow> bool) \<Rightarrow> byte list \<Rightarrow> int \<Rightarrow>
    byte list \<Rightarrow> byte list \<Rightarrow> byte list \<Rightarrow>
    (smapi_request \<times> int option) res" where
  "smImage_Definition_Query_DM malloc userid passwordLength password targetIdentifier
      keywordlist =
     (let functionName = c_literal ''Image_Definition_Query_DM'';
        inputSize = c_int
          (4 + 4 + strlen functionName + 4 + strlen userid + 4 + passwordLength + 4 +
           strlen targetIdentifier + 4 + strlen keywordlist + 1)
      in smapi_build_list malloc inputSize inputSize
        [PUT_INT (inputSize - 4), put_string functionName, put_string_opt userid,
         put_buffer_opt passwordLength password, put_string targetIdentifier,
         put_counted_asciiz keywordlist]
        ''Image_Definition_Query_DM_Layout'' (Some ERROR_OUTPUT_BUFFER_POSSIBLE_WITH_LENGTH_FIELD))"

definition smImage_IPL_Device_Query ::
  "(int \<Rightarrow> bool) \<Rightarrow> byte list \<Rightarrow>
    (smapi_request \<times> int option) res" where
  "smImage_IPL_Device_Query malloc userid =
     (let functionName = c_literal ''Image_IPL_Device_Query'';
        inputSize = c_int
          (4 + 1 + strlen functionName + 1 + strlen userid + 1)
      in smapi_build_list malloc inputSize inputSize
        [PUT_INT (inputSize - 4), put_char 255, put_asciiz functionName, put_asciiz userid]
        ''Image_IPL_Device_Query_Layout'' None)"

definition smImage_MDISK_Link_Query ::
  "(int \<Rightarrow> bool) \<Rightarrow> byte list \<Rightarrow> int \<Rightarrow>
    byte list \<Rightarrow> byte list \<Rightarrow> byte list \<Rightarrow>
    (smapi_request \<times> int option) res" where
  "smImage_MDISK_Link_Query malloc userid passwordLength password targetIdentifier vdev =
     (let functionName = c_literal ''Image_MDISK_Link_Query'';
        inputSize = c_int
          (4 + 4 + strlen functionName + 4 + strlen userid + 4 + passwordLength +
           strlen password + 4 + strlen targetIdentifier + strlen vdev + 1)
      in smapi_build_list malloc inputSize inputSize
        [PUT_INT (inputSize - 4), put_string functionName, put_string_opt userid,
         put_buffer_opt passwordLength password, put_string targetIdentifier, put_chars_nul vdev]
        ''Image_MDISK_Link_Query_Layout'' None)"

definition smImage_Pause ::
  "(int \<Rightarrow> bool) \<Rightarrow> byte list \<Rightarrow> int \<Rightarrow>
    byte list \<Rightarrow> byte list \<Rightarrow> byte list \<Rightarrow>
    (smapi_request \<times> int option) res" where
  "smImage_Pause malloc userid passwordLength password targetIdentifier imagePauseOrBegin =
     (let functionName = c_literal ''Image_Pause'';
        inputSize = c_int
          (4 + 4 + strlen functionName + 4 + strlen userid + 4 + passwordLength + 4 +
           strlen targetIdentifier + strlen imagePauseOrBegin)
      in smapi_build_list malloc inputSize inputSize
        [PUT_INT (inputSize - 4), put_string functionName, put_string_opt userid,
         put_buffer_opt passwordLength password, put_string targetIdentifier,
         put_chars imagePauseOrBegin]
        ''Image_Pause_Layout'' None)"

definition smImage_Replace_DM ::
  "(int \<Rightarrow> bool) \<Rightarrow> byte list \<Rightarrow> int \<Rightarrow>
    byte list \<Rightarrow> byte list \<Rightarrow> int \<Rightarrow>
    (int \<times> byte list) list \<Rightarrow> (smapi_request \<times> int option) res" where
  "smImage_Replace_DM malloc userid passwordLength password targetIdentifier
      imageRecordArrayCount imageRecordList =
     (let functionName = c_literal ''Image_Replace_DM'';
        inputSize = c_int
          (4 + 4 + strlen functionName + 4 + strlen userid + 4 + passwordLength + 4 +
           strlen targetIdentifier + 4)
      in res_bind (record_sizes imageRecordArrayCount imageRecordList inputSize) (\<lambda>(inputSize, recordTotal).
      smapi_build_list malloc inputSize inputSize
        [PUT_INT (inputSize - 4), put_string functionName, put_string_opt userid,
         put_buffer_opt passwordLength password, put_string targetIdentifier,
         put_records recordTotal imageRecordArrayCount imageRecordList]
        ''Image_Replace_DM_Layout'' None))"

definition smImage_SCSI_Characteristics_Define_DM ::
  "(int \<Rightarrow> bool) \<Rightarrow> byte list \<Rightarrow> int \<Rightarrow>
    byte list \<Rightarrow> byte list \<Rightarrow> byte list \<Rightarrow> byte list \<Rightarrow>
    byte list \<Rightarrow> byte list \<Rightarrow> byte \<Rightarrow> int \<Rightarrow>
    byte list \<Rightarrow> (smapi_request \<times> int option) res" where
  "smImage_SCSI_Characteristics_Define_DM malloc userid passwordLength password
      targetIdentifier bootProgram brLba lun portName scpDatatype scpDataLength scpData =
     (let functionName = c_literal ''Image_SCSI_Characteristics_Define_DM'';
        inputSize = c_int
          (4 + 4 + strlen functionName + 4 + strlen userid + 4 + passwordLength + 4 +
           strlen targetIdentifier + 4 + strlen bootProgram + 4 + strlen brLba + 4 +
           strlen lun + 4 + strlen portName + 1 + 4 + scpDataLength)
      in smapi_build_list malloc inputSize inputSize
        [PUT_INT (inputSize - 4), put_string functionName, put_string_opt userid,
         put_buffer_opt passwordLength password, put_string targetIdentifier,
         put_string_opt bootProgram, put_string_opt brLba, put_string_opt lun,
         put_string_opt portName, put_char scpDatatype, put_buffer_opt scpDataLength scpData]
        ''Image_SCSI_Characteristics_Define_DM_Layout'' None)"

definition smMetadataDelete ::
  "(int \<Rightarrow> bool) \<Rightarrow> byte list \<Rightarrow> int \<Rightarrow>
    byte list \<Rightarrow> byte list \<Rightarrow> byte list \<Rightarrow>
    (smapi_request \<times> int option) res" where
  "smMetadataDelete malloc userid passwordLength password targetIdentifier keywordlist =
     (let functionName = c_literal ''Metadata_Delete'';
        inputSize = c_int
          (4 + 4 + strlen functionName + 4 + strlen userid + 4 + passwordLength + 4 +
           strlen targetIdentifier + strlen keywordlist + 1)
      in smapi_build_list malloc inputSize inputSize
        [PUT_INT (inputSize - 4), put_string functionName, put_string_opt userid,
         put_buffer_opt passwordLength password, put_string targetIdentifier,
         put_asciiz keywordlist]
        ''Metadata_Delete_Layout'' (Some ERROR_OUTPUT_BUFFER_POSSIBLE_WITH_LENGTH_FIELD))"

definition smMetadataGet ::
  "(int \<Rightarrow> bool) \<Rightarrow> byte list \<Rightarrow> int \<Rightarrow>
    byte list \<Rightarrow> byte list \<Rightarrow> byte list \<Rightarrow>
    (smapi_request \<times> int option) res" where
  "smMetadataGet malloc userid passwordLength password targetIdentifier keywordlist =
     (let functionName = c_literal ''Metadata_Get'';
        inputSize = c_int
          (4 + 4 + strlen functionName + 4 + strlen userid + 4 + passwordLength + 4 +
           strlen targetIdentifier + strlen keywordlist + 1)
      in smapi_build_list malloc inputSize inputSize
        [PUT_INT (inputSize - 4), put_string functionName, put_string_opt userid,
         put_buffer_opt passwordLength password, put_string targetIdentifier,
         put_asciiz keywordlist]
        ''Metadata_Get_Layout'' (Some ERROR_OUTPUT_BUFFER_POSSIBLE_WITH_LENGTH_FIELD))"

definition smMetadataSpaceQuery ::
  "(int \<Rightarrow> bool) \<Rightarrow> byte list \<Rightarrow> int \<Rightarrow>
    byte list \<Rightarrow> byte list \<Rightarrow> byte list \<Rightarrow>
    (smapi_request \<times> int option) res" where
  "smMetadataSpaceQuery malloc userid passwordLength password targetIdentifier keywordlist =
     (let functionName = c_literal ''Metadata_Space_Query'';
        inputSize = c_int
          (4 + 4 + strlen functionName + 4 + strlen userid + 4 + passwordLength + 4 +
           strlen targetIdentifier + strlen keywordlist + 1)
      in smapi_build_list malloc inputSize inputSize
        [PUT_INT (inputSize - 4), put_string functionName, put_string_opt userid,
         put_buffer_opt passwordLength password, put_string targetIdentifier,
         put_asciiz keywordlist]
        ''Metadata_Space_Query_Layout'' None)"

definition smProfile_Create_DM ::
  "(int \<Rightarrow> bool) \<Rightarrow> byte list \<Rightarrow> int \<Rightarrow>
    byte list \<Rightarrow> byte list \<Rightarrow> int \<Rightarrow>
    (int \<times> byte list) list \<Rightarrow> (smapi_request \<times> int option) res" where
  "smProfile_Create_DM malloc userid passwordLength password targetIdentifier
      profileRecordCount profileRecordList =
     (let functionName = c_literal ''Profile_Create_DM'';
        inputSize = c_int
          (4 + 4 + strlen functionName + 4 + strlen userid + 4 + passwordLength + 4 +
           strlen targetIdentifier + 4)
      in res_bind (record_sizes profileRecordCount profileRecordList inputSize) (\<lambda>(inputSize, recordTotal).
      smapi_build_list malloc (inputSize + 4) inputSize
        [PUT_INT (inputSize - 4), put_string functionName, put_string_opt userid,
         put_buffer_opt passwordLength password, put_string targetIdentifier,
         put_records recordTotal profileRecordCount profileRecordList]
        ''Profile_Create_DM_Layout'' None))"

definition smProfile_Replace_DM ::
  "(int \<Rightarrow> bool) \<Rightarrow> byte list \<Rightarrow> int \<Rightarrow>
    byte list \<Rightarrow> byte list \<Rightarrow> int \<Rightarrow>
    (int \<times> byte list) list \<Rightarrow> (smapi_request \<times> int option) res" where
  "smProfile_Replace_DM malloc userid passwordLength password targetIdentifier
      profileRecordCount profileRecordList =
     (let functionName = c_literal ''Profile_Replace_DM'';
        inputSize = c_int
          (4 + 4 + strlen functionName + 4 + strlen userid + 4 + passwordLength + 4 +
           strlen targetIdentifier + 4)
      in res_bind (record_sizes profileRecordCount profileRecordList inputSize) (\<lambda>(inputSize, recordTotal).
      smapi_build_list malloc inputSize inputSize
        [PUT_INT (inputSize - 4), put_string functionName, put_string_opt userid,
         put_buffer_opt passwordLength password, put_string targetIdentifier,
         put_records recordTotal profileRecordCount profileRecordList]
        ''Profile_Replace_DM_Layout'' None))"

definition smPrototype_Create_DM ::
  "(int \<Rightarrow> bool) \<Rightarrow> byte list \<Rightarrow> int \<Rightarrow>
    byte list \<Rightarrow> byte list \<Rightarrow> int \<Rightarrow>
    (int \<times> byte list) list \<Rightarrow> (smapi_request \<times> int option) res" where
  "smPrototype_Create_DM malloc userid passwordLength password targetIdentifier
      recordArrayCount recordArrayData =
     (let functionName = c_literal ''Prototype_Create_DM'';
        inputSize = c_int
          (4 + 4 + strlen functionName + 4 + strlen userid + 4 + passwordLength + 4 +
           strlen targetIdentifier + 4)
      in res_bind (record_sizes recordArrayCount recordArrayData inputSize) (\<lambda>(inputSize, recordTotal).
      smapi_build_list malloc (inputSize + 4) inputSize
        [PUT_INT (inputSize - 4), put_string functionName, put_string_opt userid,
         put_buffer_opt passwordLength password, put_string targetIdentifier,
         put_records recordTotal recordArrayCount recordArrayData]
        ''Prototype_Create_DM_Layout'' None))"

definition smPrototype_Replace_DM ::
  "(int \<Rightarrow> bool) \<Rightarrow> byte list \<Rightarrow> int \<Rightarrow>
    byte list \<Rightarrow> byte list \<Rightarrow> int \<Rightarrow>
    (int \<times> byte list) list \<Rightarrow> (smapi_request \<times> int option) res" where
  "smPrototype_Replace_DM malloc userid passwordLength password targetIdentifier
      recordArrayCount recordArrayData =
     (let functionName = c_literal ''Prototype_Replace_DM'';
        inputSize = c_int
          (4 + 4 + strlen functionName + 4 + strlen userid + 4 + passwordLength + 4 +
           strlen targetIdentifier + 4)
      in res_bind (record_sizes recordArrayCount recordArrayData inputSize) (\<lambda>(inputSize, recordTotal).
      smapi_build_list malloc (inputSize + 4) inputSize
        [PUT_INT (inputSize - 4), put_string functionName, put_string_opt userid,
         put_buffer_opt passwordLength password, put_string targetIdentifier,
         put_records recordTotal recordArrayCount recordArrayData]
        ''Prototype_Replace_DM_Layout'' None))"

definition smSSI_Query ::
  "(int \<Rightarrow> bool) \<Rightarrow> (smapi_request \<times> int option) res" where
  "smSSI_Query malloc =
     (let functionName = c_literal ''SSI_Query'';
        all_images = c_literal ''ALL'';
        inputSize = c_int
          (4 + 4 + strlen functionName + 4 + 0 + 4 + 0 + 4 + strlen all_images)
      in smapi_build_list malloc inputSize inputSize
        [PUT_INT (inputSize - 4), put_string functionName, PUT_INT 0, PUT_INT 0,
         put_string all_images]
        ''SSI_Query_Layout'' None)"

definition smSystem_Image_Performance_Query ::
  "(int \<Rightarrow> bool) \<Rightarrow> byte list \<Rightarrow> int \<Rightarrow>
    byte list \<Rightarrow> byte list \<Rightarrow> (smapi_request \<times> int option) res" where
  "smSystem_Image_Performance_Query malloc userid passwordLength password targetIdentifier =
     (let functionName = c_literal ''System_Image_Performance_Query'';
        inputSize = c_int
          (4 + 4 + strlen functionName + 4 + strlen userid + 4 + passwordLength + 4 +
           strlen targetIdentifier)
      in smapi_build_list malloc inputSize inputSize
        [PUT_INT (inputSize - 4), put_string functionName, put_string_opt userid,
         put_buffer_nz passwordLength password, put_string_opt targetIdentifier]
        ''System_Image_Performance_Query_Layout'' None)"

definition smSystem_Info_Query ::
  "(int \<Rightarrow> bool) \<Rightarrow> (smapi_request \<times> int option) res" where
  "smSystem_Info_Query malloc =
     (let functionName = c_literal ''System_Info_Query'';
        inputSize = c_int
          (4 + 1 + strlen functionName + 1)
      in smapi_build_list malloc inputSize inputSize
        [PUT_INT (inputSize - 4), put_char 255, put_asciiz functionName]
        ''System_Info_Query_Layout'' None)"

definition smSystem_Information_Query ::
  "(int \<Rightarrow> bool) \<Rightarrow> byte list \<Rightarrow> int \<Rightarrow>
    byte list \<Rightarrow> byte list \<Rightarrow> (smapi_request \<times> int option) res" where
  "smSystem_Information_Query malloc userid passwordLength password targetIdentifier =
     (let functionName = c_literal ''System_Information_Query'';
        inputSize = c_int
          (4 + 4 + strlen functionName + 4 + strlen userid + 4 + passwordLength + 4 +
           strlen targetIdentifier)
      in smapi_build_list malloc inputSize inputSize
        [PUT_INT (inputSize - 4), put_string functionName, put_string_opt userid,
         put_buffer_opt passwordLength password, put_string targetIdentifier]
        ''System_Information_Query_Layout'' (Some ERROR_OUTPUT_BUFFER_POSSIBLE_WITH_LENGTH_FIELD))"

definition smSystem_IO_Query ::
  "(int \<Rightarrow> bool) \<Rightarrow> byte list \<Rightarrow>
    (smapi_request \<times> int option) res" where
  "smSystem_IO_Query malloc realDeviceAddress =
     (let functionName = c_literal ''System_IO_Query'';
        inputSize = c_int
          (4 + 1 + strlen functionName + 1 + strlen realDeviceAddress + 1)
      in smapi_build_list malloc inputSize inputSize
        [PUT_INT (inputSize - 4), put_char 255, put_asciiz functionName,
         put_asciiz realDeviceAddress]
        ''System_IO_Query_Layout'' None)"

definition smSystem_Page_Utilization_Query ::
  "(int \<Rightarrow> bool) \<Rightarrow> byte list \<Rightarrow> int \<Rightarrow>
    byte list \<Rightarrow> byte list \<Rightarrow> (smapi_request \<times> int option) res" where
  "smSystem_Page_Utilization_Query malloc userid passwordLength password targetIdentifier =
     (let functionName = c_literal ''System_Page_Utilization_Query'';
        inputSize = c_int
          (4 + 4 + strlen functionName + 4 + strlen userid + 4 + passwordLength +
           strlen password + 4 + strlen targetIdentifier)
      in smapi_build_list malloc inputSize inputSize
        [PUT_INT (inputSize - 4), put_string functionName, put_string_opt userid,
         put_buffer_opt passwordLength password, put_string targetIdentifier]
        ''System_Page_Utilization_Query_Layout'' (Some ERROR_OUTPUT_BUFFER_POSSIBLE_WITH_LENGTH_FIELD))"

definition smSystem_Performance_Info_Query ::
  "(int \<Rightarrow> bool) \<Rightarrow> byte list \<Rightarrow> int \<Rightarrow>
    byte list \<Rightarrow> byte list \<Rightarrow> (smapi_request \<times> int option) res" where
  "smSystem_Performance_Info_Query malloc userid passwordLength password targetIdentifier =
     (let functionName = c_literal ''System_Performance_Info_Query'';
        inputSize = c_int
          (4 + 4 + strlen functionName + 4 + strlen userid + 4 + passwordLength + 4 +
           strlen targetIdentifier)
      in smapi_build_list malloc inputSize inputSize
        [PUT_INT (inputSize - 4), put_string functionName, put_string_opt userid,
         put_buffer_nz passwordLength password, put_string_opt targetIdentifier]
        ''System_Performance_Info_Query_Layout'' None)"

definition smSystem_Performance_Threshold_Disable ::
  "(int \<Rightarrow> bool) \<Rightarrow> byte list \<Rightarrow> int \<Rightarrow>
    byte list \<Rightarrow> byte list \<Rightarrow> byte list \<Rightarrow>
    (smapi_request \<times> int option) res" where
  "smSystem_Performance_Threshold_Disable malloc userid passwordLength password
      targetIdentifier eventType =
     (let functionName = c_literal ''System_Performance_Threshold_Disable'';
        inputSize = c_int
          (4 + 4 + strlen functionName + 4 + strlen userid + 4 + passwordLength + 4 +
           strlen targetIdentifier + strlen eventType + 1)
      in smapi_build_list malloc inputSize inputSize
        [PUT_INT (inputSize - 4), put_string functionName, put_string_opt userid,
         put_buffer_opt passwordLength password, put_string targetIdentifier,
         put_chars_nul eventType]
        ''System_Performance_Threshold_Disable_Layout'' None)"

definition smSystem_Performance_Threshold_Enable ::
  "(int \<Rightarrow> bool) \<Rightarrow> byte list \<Rightarrow> int \<Rightarrow>
    byte list \<Rightarrow> byte list \<Rightarrow> byte list \<Rightarrow>
    (smapi_request \<times> int option) res" where
  "smSystem_Performance_Threshold_Enable malloc userid passwordLength password
      targetIdentifier eventType =
     (let functionName = c_literal ''System_Performance_Threshold_Enable'';
        inputSize = c_int
          (4 + 4 + strlen functionName + 4 + strlen userid + 4 + passwordLength + 4 +
           strlen targetIdentifier + strlen eventType + 1)
      in smapi_build_list malloc inputSize inputSize
        [PUT_INT (inputSize - 4), put_string functionName, put_string_opt userid,
         put_buffer_opt passwordLength password, put_string targetIdentifier,
         put_chars_nul eventType]
        ''System_Performance_Threshold_Enable_Layout'' None)"

definition smSystem_Processor_Query ::
  "(int \<Rightarrow> bool) \<Rightarrow> byte list \<Rightarrow> int \<Rightarrow>
    byte list \<Rightarrow> byte list \<Rightarrow> (smapi_request \<times> int option) res" where
  "smSystem_Processor_Query malloc userid passwordLength password targetIdentifier =
     (let functionName = c_literal ''System_Processor_Query'';
        inputSize = c_int
          (4 + 4 + strlen functionName + 4 + strlen userid + 4 + passwordLength + 4 +
           strlen targetIdentifier)
      in smapi_build_list malloc inputSize inputSize
        [PUT_INT (inputSize - 4), put_string functionName, put_string_opt userid,
         put_buffer_nz passwordLength password, put_string_opt targetIdentifier]
        ''System_Processor_Query_Layout'' None)"

definition smSystem_Spool_Utilization_Query ::
  "(int \<Rightarrow> bool) \<Rightarrow> byte list \<Rightarrow> int \<Rightarrow>
    byte list \<Rightarrow> byte list \<Rightarrow> (smapi_request \<times> int option) res" where
  "smSystem_Spool_Utilization_Query malloc userid passwordLength password targetIdentifier =
     (let functionName = c_literal ''System_Spool_Utilization_Query'';
        inputSize = c_int
          (4 + 4 + strlen functionName + 4 + strlen userid + 4 + passwordLength +
           strlen password + 4 + strlen targetIdentifier)
      in smapi_build_list malloc inputSize inputSize
        [PUT_INT (inputSize - 4), put_string functionName, put_string_opt userid,
         put_buffer_opt passwordLength password, put_string targetIdentifier]
        ''System_Spool_Utilization_Query_Layout'' (Some ERROR_OUTPUT_BUFFER_POSSIBLE_WITH_LENGTH_FIELD))"

definition smVirtual_Network_LAN_Access ::
  "(int \<Rightarrow> bool) \<Rightarrow> byte list \<Rightarrow> int \<Rightarrow>
    byte list \<Rightarrow> byte list \<Rightarrow> byte list \<Rightarrow> byte list \<Rightarrow>
    byte list \<Rightarrow> byte list \<Rightarrow> byte list \<Rightarrow>
    (smapi_request \<times> int option) res" where
  "smVirtual_Network_LAN_Access malloc userid passwordLength password targetIdentifier
      lanName lanOwner accessOption accessGrantName promiscuity =
     (let functionName = c_literal ''Virtual_Network_LAN_Access'';
        inputSize = c_int
          (4 + 4 + strlen functionName + 4 + strlen userid + 4 + passwordLength + 4 +
           strlen targetIdentifier + strlen lanName + 1 + strlen lanOwner + 1 +
           strlen accessOption + 1 + strlen accessGrantName + 1 + strlen promiscuity + 1)
      in smapi_build_list malloc inputSize inputSize
        [PUT_INT (inputSize - 4), put_string functionName, put_string_opt userid,
         put_buffer_opt passwordLength password, put_string targetIdentifier,
         put_asciiz lanName, put_asciiz lanOwner, put_asciiz accessOption,
         put_asciiz accessGrantName, put_asciiz promiscuity]
        ''Virtual_Network_LAN_Access_Layout'' None)"

definition smVirtual_Network_LAN_Access_Query ::
  "(int \<Rightarrow> bool) \<Rightarrow> byte list \<Rightarrow> int \<Rightarrow>
    byte list \<Rightarrow> byte list \<Rightarrow> byte list \<Rightarrow> byte list \<Rightarrow>
    (smapi_request \<times> int option) res" where
  "smVirtual_Network_LAN_Access_Query malloc userid passwordLength password targetIdentifier
      lanName lanOwner =
     (let functionName = c_literal ''Virtual_Network_LAN_Access_Query'';
        inputSize = c_int
          (4 + 4 + strlen functionName + 4 + strlen userid + 4 + passwordLength + 4 +
           strlen targetIdentifier + strlen lanName + 1 + strlen lanOwner + 1)
      in smapi_build_list malloc inputSize inputSize
        [PUT_INT (inputSize - 4), put_string functionName, put_string_opt userid,
         put_buffer_opt passwordLength password, put_string targetIdentifier,
         put_asciiz lanName, put_asciiz lanOwner]
        ''Virtual_Network_LAN_Access_Query_Layout'' None)"

definition smVirtual_Network_Query_LAN ::
  "(int \<Rightarrow> bool) \<Rightarrow> (smapi_request \<times> int option) res" where
  "smVirtual_Network_Query_LAN malloc =
     (let functionName = c_literal ''Virtual_Network_Query_LAN'';
        inputSize = c_int
          (4 + 1 + strlen functionName + 1)
      in smapi_build_list malloc inputSize inputSize
        [PUT_INT (inputSize - 4), put_char 255, put_asciiz functionName]
        ''Virtual_Network_Query_LAN_Layout'' None)"

definition smVirtual_Network_Query_OSA ::
  "(int \<Rightarrow> bool) \<Rightarrow> (smapi_request \<times> int option) res" where
  "smVirtual_Network_Query_OSA malloc =
     (let functionName = c_literal ''Virtual_Network_Query_OSA'';
        inputSize = c_int
          (4 + 1 + strlen functionName + 1)
      in smapi_build_list malloc inputSize inputSize
        [PUT_INT (inputSize - 4), put_char 255, put_asciiz functionName]
        ''Virtual_Network_Query_OSA_Layout'' None)"

definition smXCAT_Commands_IUO ::
  "(int \<Rightarrow> bool) \<Rightarrow> byte list \<Rightarrow> int \<Rightarrow>
    byte list \<Rightarrow> byte list \<Rightarrow> byte list \<Rightarrow>
    (smapi_request \<times> int option) res" where
  "smXCAT_Commands_IUO malloc userid passwordLength password targetIdentifier command =
     (let functionName = c_literal ''xcat_accomodation'';
        inputSize = c_int
          (4 + 4 + strlen functionName + 4 + strlen userid + 4 + passwordLength + 4 +
           strlen targetIdentifier + 4 + strlen command)
      in smapi_build_list malloc inputSize inputSize
        [PUT_INT (inputSize - 4), put_string functionName, put_string_opt userid,
         put_buffer_opt passwordLength password, put_string targetIdentifier, put_chars command]
        ''xCAT_Commands_IUO_Layout'' (Some ERROR_OUTPUT_BUFFER_POSSIBLE_WITH_LENGTH_FIELD))"

section \<open>What they write\<close>

definition smDirectory_Manager_Local_Tag_Define_DM_api :: list_api where
  "smDirectory_Manager_Local_Tag_Define_DM_api =
     \<lparr>lapi_head = [[Counted (c_literal ''Directory_Manager_Local_Tag_Define_DM'')]],
      lapi_kinds = [LPlain KStr, LPlain KBuf, LPlain KStr, LPlain KStr, LPlain KNum, LPlain KChr],
      lapi_slack = 0, lapi_table = ''Directory_Manager_Local_Tag_Define_DM_Layout'',
      lapi_error_buffer = None,
      lapi_build = (\<lambda>malloc args. smDirectory_Manager_Local_Tag_Define_DM malloc
        (arg_bytes (larg_plain (args ! 0))) (arg_num (larg_plain (args ! 1)))
        (arg_bytes (larg_plain (args ! 1))) (arg_bytes (larg_plain (args ! 2)))
        (arg_bytes (larg_plain (args ! 3))) (arg_num (larg_plain (args ! 4)))
        (arg_chr (larg_plain (args ! 5))))\<rparr>"

lemma smDirectory_Manager_Local_Tag_Define_DM_api_ok [lapi_rules]: "lapi_ok smDirectory_Manager_Local_Tag_Define_DM_api"
  by (rule lapi_okI, simp add: smDirectory_Manager_Local_Tag_Define_DM_api_def)
    (clarsimp simp: smDirectory_Manager_Local_Tag_Define_DM_api_def smDirectory_Manager_Local_Tag_Define_DM_def lapi_args, rule built_fromI, simp add: lapi_size, simp, simp add: lapi_writes)

definition smDirectory_Manager_Task_Cancel_DM_api :: list_api where
  "smDirectory_Manager_Task_Cancel_DM_api =
     \<lparr>lapi_head = [[Counted (c_literal ''Directory_Manager_Task_Cancel_DM'')]],
      lapi_kinds = [LPlain KStr, LPlain KBuf, LPlain KStr, LPlain KNum],
      lapi_slack = 0, lapi_table = ''Directory_Manager_Task_Cancel_DM_Layout'',
      lapi_error_buffer = None,
      lapi_build = (\<lambda>malloc args. smDirectory_Manager_Task_Cancel_DM malloc
        (arg_bytes (larg_plain (args ! 0))) (arg_num (larg_plain (args ! 1)))
        (arg_bytes (larg_plain (args ! 1))) (arg_bytes (larg_plain (args ! 2)))
        (arg_num (larg_plain (args ! 3))))\<rparr>"

lemma smDirectory_Manager_Task_Cancel_DM_api_ok [lapi_rules]: "lapi_ok smDirectory_Manager_Task_Cancel_DM_api"
  by (rule lapi_okI, simp add: smDirectory_Manager_Task_Cancel_DM_api_def)
    (clarsimp simp: smDirectory_Manager_Task_Cancel_DM_api_def smDirectory_Manager_Task_Cancel_DM_def lapi_args, rule built_fromI, simp add: lapi_size, simp, simp add: lapi_writes)

definition smIPaddr_Get_api :: list_api where
  "smIPaddr_Get_api =
     \<lparr>lapi_head = [[Raw 255], map Raw (c_literal ''IPaddr_Get'' @ [0])],
      lapi_kinds = [],
      lapi_slack = 0, lapi_table = ''IPaddr_Get_Layout'',
      lapi_error_buffer = None,
      lapi_build = (\<lambda>malloc args. smIPaddr_Get malloc
        )\<rparr>"

lemma smIPaddr_Get_api_ok [lapi_rules]: "lapi_ok smIPaddr_Get_api"
  by (rule lapi_okI, simp add: smIPaddr_Get_api_def)
    (clarsimp simp: smIPaddr_Get_api_def smIPaddr_Get_def lapi_args, rule built_fromI, simp add: lapi_size, simp, simp add: lapi_writes)

definition smImage_Definition_Query_DM_api :: list_api where
  "smImage_Definition_Query_DM_api =
     \<lparr>lapi_head = [[Counted (c_literal ''Image_Definition_Query_DM'')]],
      lapi_kinds = [LPlain KStr, LPlain KBuf, LPlain KStr, LCountedZ],
      lapi_slack = 0, lapi_table = ''Image_Definition_Query_DM_Layout'',
      lapi_error_buffer = Some ERROR_OUTPUT_BUFFER_POSSIBLE_WITH_LENGTH_FIELD,
      lapi_build = (\<lambda>malloc args. smImage_Definition_Query_DM malloc
        (arg_bytes (larg_plain (args ! 0))) (arg_num (larg_plain (args ! 1)))
        (arg_bytes (larg_plain (args ! 1))) (arg_bytes (larg_plain (args ! 2)))
        (larg_text (args ! 3)))\<rparr>"

lemma smImage_Definition_Query_DM_api_ok [lapi_rules]: "lapi_ok smImage_Definition_Query_DM_api"
  by (rule lapi_okI, simp add: smImage_Definition_Query_DM_api_def)
    (clarsimp simp: smImage_Definition_Query_DM_api_def smImage_Definition_Query_DM_def lapi_args, rule built_fromI, simp add: lapi_size, simp, simp add: lapi_writes)

definition smImage_IPL_Device_Query_api :: list_api where
  "smImage_IPL_Device_Query_api =
     \<lparr>lapi_head = [[Raw 255], map Raw (c_literal ''Image_IPL_Device_Query'' @ [0])],
      lapi_kinds = [LAsciiz],
      lapi_slack = 0, lapi_table = ''Image_IPL_Device_Query_Layout'',
      lapi_error_buffer = None,
      lapi_build = (\<lambda>malloc args. smImage_IPL_Device_Query malloc
        (larg_text (args ! 0)))\<rparr>"

lemma smImage_IPL_Device_Query_api_ok [lapi_rules]: "lapi_ok smImage_IPL_Device_Query_api"
  by (rule lapi_okI, simp add: smImage_IPL_Device_Query_api_def)
    (clarsimp simp: smImage_IPL_Device_Query_api_def smImage_IPL_Device_Query_def lapi_args, rule built_fromI, simp add: lapi_size, simp, simp add: lapi_writes)

definition smImage_Pause_api :: list_api where
  "smImage_Pause_api =
     \<lparr>lapi_head = [[Counted (c_literal ''Image_Pause'')]],
      lapi_kinds = [LPlain KStr, LPlain KBuf, LPlain KStr, LChars],
      lapi_slack = 0, lapi_table = ''Image_Pause_Layout'',
      lapi_error_buffer = None,
      lapi_build = (\<lambda>malloc args. smImage_Pause malloc
        (arg_bytes (larg_plain (args ! 0))) (arg_num (larg_plain (args ! 1)))
        (arg_bytes (larg_plain (args ! 1))) (arg_bytes (larg_plain (args ! 2)))
        (larg_text (args ! 3)))\<rparr>"

lemma smImage_Pause_api_ok [lapi_rules]: "lapi_ok smImage_Pause_api"
  by (rule lapi_okI, simp add: smImage_Pause_api_def)
    (clarsimp simp: smImage_Pause_api_def smImage_Pause_def lapi_args, rule built_fromI, simp add: lapi_size, simp, simp add: lapi_writes)

definition smImage_Replace_DM_api :: list_api where
  "smImage_Replace_DM_api =
     \<lparr>lapi_head = [[Counted (c_literal ''Image_Replace_DM'')]],
      lapi_kinds = [LPlain KStr, LPlain KBuf, LPlain KStr, LRecs],
      lapi_slack = 0, lapi_table = ''Image_Replace_DM_Layout'',
      lapi_error_buffer = None,
      lapi_build = (\<lambda>malloc args. smImage_Replace_DM malloc
        (arg_bytes (larg_plain (args ! 0))) (arg_num (larg_plain (args ! 1)))
        (arg_bytes (larg_plain (args ! 1))) (arg_bytes (larg_plain (args ! 2)))
        (larg_count (args ! 3)) (larg_recs (args ! 3)))\<rparr>"

lemma smImage_Replace_DM_api_ok [lapi_rules]: "lapi_ok smImage_Replace_DM_api"
  by (rule lapi_okI, simp add: smImage_Replace_DM_api_def)
    (clarsimp simp: smImage_Replace_DM_api_def smImage_Replace_DM_def lapi_args, rule built_fromI, simp add: lapi_size, simp, simp add: lapi_writes)

definition smImage_SCSI_Characteristics_Define_DM_api :: list_api where
  "smImage_SCSI_Characteristics_Define_DM_api =
     \<lparr>lapi_head = [[Counted (c_literal ''Image_SCSI_Characteristics_Define_DM'')]],
      lapi_kinds = [LPlain KStr, LPlain KBuf, LPlain KStr, LPlain KStr, LPlain KStr,
                    LPlain KStr, LPlain KStr, LPlain KChr, LPlain KBuf],
      lapi_slack = 0, lapi_table = ''Image_SCSI_Characteristics_Define_DM_Layout'',
      lapi_error_buffer = None,
      lapi_build = (\<lambda>malloc args. smImage_SCSI_Characteristics_Define_DM malloc
        (arg_bytes (larg_plain (args ! 0))) (arg_num (larg_plain (args ! 1)))
        (arg_bytes (larg_plain (args ! 1))) (arg_bytes (larg_plain (args ! 2)))
        (arg_bytes (larg_plain (args ! 3))) (arg_bytes (larg_plain (args ! 4)))
        (arg_bytes (larg_plain (args ! 5))) (arg_bytes (larg_plain (args ! 6)))
        (arg_chr (larg_plain (args ! 7))) (arg_num (larg_plain (args ! 8)))
        (arg_bytes (larg_plain (args ! 8))))\<rparr>"

lemma smImage_SCSI_Characteristics_Define_DM_api_ok [lapi_rules]: "lapi_ok smImage_SCSI_Characteristics_Define_DM_api"
  by (rule lapi_okI, simp add: smImage_SCSI_Characteristics_Define_DM_api_def)
    (clarsimp simp: smImage_SCSI_Characteristics_Define_DM_api_def smImage_SCSI_Characteristics_Define_DM_def lapi_args, rule built_fromI, simp add: lapi_size, simp, simp add: lapi_writes)

definition smMetadataDelete_api :: list_api where
  "smMetadataDelete_api =
     \<lparr>lapi_head = [[Counted (c_literal ''Metadata_Delete'')]],
      lapi_kinds = [LPlain KStr, LPlain KBuf, LPlain KStr, LAsciiz],
      lapi_slack = 0, lapi_table = ''Metadata_Delete_Layout'',
      lapi_error_buffer = Some ERROR_OUTPUT_BUFFER_POSSIBLE_WITH_LENGTH_FIELD,
      lapi_build = (\<lambda>malloc args. smMetadataDelete malloc
        (arg_bytes (larg_plain (args ! 0))) (arg_num (larg_plain (args ! 1)))
        (arg_bytes (larg_plain (args ! 1))) (arg_bytes (larg_plain (args ! 2)))
        (larg_text (args ! 3)))\<rparr>"

lemma smMetadataDelete_api_ok [lapi_rules]: "lapi_ok smMetadataDelete_api"
  by (rule lapi_okI, simp add: smMetadataDelete_api_def)
    (clarsimp simp: smMetadataDelete_api_def smMetadataDelete_def lapi_args, rule built_fromI, simp add: lapi_size, simp, simp add: lapi_writes)

definition smMetadataGet_api :: list_api where
  "smMetadataGet_api =
     \<lparr>lapi_head = [[Counted (c_literal ''Metadata_Get'')]],
      lapi_kinds = [LPlain KStr, LPlain KBuf, LPlain KStr, LAsciiz],
      lapi_slack = 0, lapi_table = ''Metadata_Get_Layout'',
      lapi_error_buffer = Some ERROR_OUTPUT_BUFFER_POSSIBLE_WITH_LENGTH_FIELD,
      lapi_build = (\<lambda>malloc args. smMetadataGet malloc
        (arg_bytes (larg_plain (args ! 0))) (arg_num (larg_plain (args ! 1)))
        (arg_bytes (larg_plain (args ! 1))) (arg_bytes (larg_plain (args ! 2)))
        (larg_text (args ! 3)))\<rparr>"

lemma smMetadataGet_api_ok [lapi_rules]: "lapi_ok smMetadataGet_api"
  by (rule lapi_okI, simp add: smMetadataGet_api_def)
    (clarsimp simp: smMetadataGet_api_def smMetadataGet_def lapi_args, rule built_fromI, simp add: lapi_size, simp, simp add: lapi_writes)

definition smMetadataSpaceQuery_api :: list_api where
  "smMetadataSpaceQuery_api =
     \<lparr>lapi_head = [[Counted (c_literal ''Metadata_Space_Query'')]],
      lapi_kinds = [LPlain KStr, LPlain KBuf, LPlain KStr, LAsciiz],
      lapi_slack = 0, lapi_table = ''Metadata_Space_Query_Layout'',
      lapi_error_buffer = None,
      lapi_build = (\<lambda>malloc args. smMetadataSpaceQuery malloc
        (arg_bytes (larg_plain (args ! 0))) (arg_num (larg_plain (args ! 1)))
        (arg_bytes (larg_plain (args ! 1))) (arg_bytes (larg_plain (args ! 2)))
        (larg_text (args ! 3)))\<rparr>"

lemma smMetadataSpaceQuery_api_ok [lapi_rules]: "lapi_ok smMetadataSpaceQuery_api"
  by (rule lapi_okI, simp add: smMetadataSpaceQuery_api_def)
    (clarsimp simp: smMetadataSpaceQuery_api_def smMetadataSpaceQuery_def lapi_args, rule built_fromI, simp add: lapi_size, simp, simp add: lapi_writes)

definition smProfile_Create_DM_api :: list_api where
  "smProfile_Create_DM_api =
     \<lparr>lapi_head = [[Counted (c_literal ''Profile_Create_DM'')]],
      lapi_kinds = [LPlain KStr, LPlain KBuf, LPlain KStr, LRecs],
      lapi_slack = 4, lapi_table = ''Profile_Create_DM_Layout'',
      lapi_error_buffer = None,
      lapi_build = (\<lambda>malloc args. smProfile_Create_DM malloc
        (arg_bytes (larg_plain (args ! 0))) (arg_num (larg_plain (args ! 1)))
        (arg_bytes (larg_plain (args ! 1))) (arg_bytes (larg_plain (args ! 2)))
        (larg_count (args ! 3)) (larg_recs (args ! 3)))\<rparr>"

lemma smProfile_Create_DM_api_ok [lapi_rules]: "lapi_ok smProfile_Create_DM_api"
  by (rule lapi_okI, simp add: smProfile_Create_DM_api_def)
    (clarsimp simp: smProfile_Create_DM_api_def smProfile_Create_DM_def lapi_args, rule built_fromI, simp add: lapi_size, simp, simp add: lapi_writes)

definition smProfile_Replace_DM_api :: list_api where
  "smProfile_Replace_DM_api =
     \<lparr>lapi_head = [[Counted (c_literal ''Profile_Replace_DM'')]],
      lapi_kinds = [LPlain KStr, LPlain KBuf, LPlain KStr, LRecs],
      lapi_slack = 0, lapi_table = ''Profile_Replace_DM_Layout'',
      lapi_error_buffer = None,
      lapi_build = (\<lambda>malloc args. smProfile_Replace_DM malloc
        (arg_bytes (larg_plain (args ! 0))) (arg_num (larg_plain (args ! 1)))
        (arg_bytes (larg_plain (args ! 1))) (arg_bytes (larg_plain (args ! 2)))
        (larg_count (args ! 3)) (larg_recs (args ! 3)))\<rparr>"

lemma smProfile_Replace_DM_api_ok [lapi_rules]: "lapi_ok smProfile_Replace_DM_api"
  by (rule lapi_okI, simp add: smProfile_Replace_DM_api_def)
    (clarsimp simp: smProfile_Replace_DM_api_def smProfile_Replace_DM_def lapi_args, rule built_fromI, simp add: lapi_size, simp, simp add: lapi_writes)

definition smPrototype_Create_DM_api :: list_api where
  "smPrototype_Create_DM_api =
     \<lparr>lapi_head = [[Counted (c_literal ''Prototype_Create_DM'')]],
      lapi_kinds = [LPlain KStr, LPlain KBuf, LPlain KStr, LRecs],
      lapi_slack = 4, lapi_table = ''Prototype_Create_DM_Layout'',
      lapi_error_buffer = None,
      lapi_build = (\<lambda>malloc args. smPrototype_Create_DM malloc
        (arg_bytes (larg_plain (args ! 0))) (arg_num (larg_plain (args ! 1)))
        (arg_bytes (larg_plain (args ! 1))) (arg_bytes (larg_plain (args ! 2)))
        (larg_count (args ! 3)) (larg_recs (args ! 3)))\<rparr>"

lemma smPrototype_Create_DM_api_ok [lapi_rules]: "lapi_ok smPrototype_Create_DM_api"
  by (rule lapi_okI, simp add: smPrototype_Create_DM_api_def)
    (clarsimp simp: smPrototype_Create_DM_api_def smPrototype_Create_DM_def lapi_args, rule built_fromI, simp add: lapi_size, simp, simp add: lapi_writes)

definition smPrototype_Replace_DM_api :: list_api where
  "smPrototype_Replace_DM_api =
     \<lparr>lapi_head = [[Counted (c_literal ''Prototype_Replace_DM'')]],
      lapi_kinds = [LPlain KStr, LPlain KBuf, LPlain KStr, LRecs],
      lapi_slack = 4, lapi_table = ''Prototype_Replace_DM_Layout'',
      lapi_error_buffer = None,
      lapi_build = (\<lambda>malloc args. smPrototype_Replace_DM malloc
        (arg_bytes (larg_plain (args ! 0))) (arg_num (larg_plain (args ! 1)))
        (arg_bytes (larg_plain (args ! 1))) (arg_bytes (larg_plain (args ! 2)))
        (larg_count (args ! 3)) (larg_recs (args ! 3)))\<rparr>"

lemma smPrototype_Replace_DM_api_ok [lapi_rules]: "lapi_ok smPrototype_Replace_DM_api"
  by (rule lapi_okI, simp add: smPrototype_Replace_DM_api_def)
    (clarsimp simp: smPrototype_Replace_DM_api_def smPrototype_Replace_DM_def lapi_args, rule built_fromI, simp add: lapi_size, simp, simp add: lapi_writes)

definition smSSI_Query_api :: list_api where
  "smSSI_Query_api =
     \<lparr>lapi_head = [[Counted (c_literal ''SSI_Query'')], [Int4 0], [Int4 0], [Counted (c_literal ''ALL'')]],
      lapi_kinds = [],
      lapi_slack = 0, lapi_table = ''SSI_Query_Layout'',
      lapi_error_buffer = None,
      lapi_build = (\<lambda>malloc args. smSSI_Query malloc
        )\<rparr>"

lemma smSSI_Query_api_ok [lapi_rules]: "lapi_ok smSSI_Query_api"
  by (rule lapi_okI, simp add: smSSI_Query_api_def)
    (clarsimp simp: smSSI_Query_api_def smSSI_Query_def lapi_args, rule built_fromI, simp add: lapi_size, simp, simp add: lapi_writes)

definition smSystem_Image_Performance_Query_api :: list_api where
  "smSystem_Image_Performance_Query_api =
     \<lparr>lapi_head = [[Counted (c_literal ''System_Image_Performance_Query'')]],
      lapi_kinds = [LPlain KStr, LPlain KBuf, LPlain KStr],
      lapi_slack = 0, lapi_table = ''System_Image_Performance_Query_Layout'',
      lapi_error_buffer = None,
      lapi_build = (\<lambda>malloc args. smSystem_Image_Performance_Query malloc
        (arg_bytes (larg_plain (args ! 0))) (arg_num (larg_plain (args ! 1)))
        (arg_bytes (larg_plain (args ! 1))) (arg_bytes (larg_plain (args ! 2))))\<rparr>"

lemma smSystem_Image_Performance_Query_api_ok [lapi_rules]: "lapi_ok smSystem_Image_Performance_Query_api"
  by (rule lapi_okI, simp add: smSystem_Image_Performance_Query_api_def)
    (clarsimp simp: smSystem_Image_Performance_Query_api_def smSystem_Image_Performance_Query_def lapi_args, rule built_fromI, simp add: lapi_size, simp, simp add: lapi_writes)

definition smSystem_Info_Query_api :: list_api where
  "smSystem_Info_Query_api =
     \<lparr>lapi_head = [[Raw 255], map Raw (c_literal ''System_Info_Query'' @ [0])],
      lapi_kinds = [],
      lapi_slack = 0, lapi_table = ''System_Info_Query_Layout'',
      lapi_error_buffer = None,
      lapi_build = (\<lambda>malloc args. smSystem_Info_Query malloc
        )\<rparr>"

lemma smSystem_Info_Query_api_ok [lapi_rules]: "lapi_ok smSystem_Info_Query_api"
  by (rule lapi_okI, simp add: smSystem_Info_Query_api_def)
    (clarsimp simp: smSystem_Info_Query_api_def smSystem_Info_Query_def lapi_args, rule built_fromI, simp add: lapi_size, simp, simp add: lapi_writes)

definition smSystem_Information_Query_api :: list_api where
  "smSystem_Information_Query_api =
     \<lparr>lapi_head = [[Counted (c_literal ''System_Information_Query'')]],
      lapi_kinds = [LPlain KStr, LPlain KBuf, LPlain KStr],
      lapi_slack = 0, lapi_table = ''System_Information_Query_Layout'',
      lapi_error_buffer = Some ERROR_OUTPUT_BUFFER_POSSIBLE_WITH_LENGTH_FIELD,
      lapi_build = (\<lambda>malloc args. smSystem_Information_Query malloc
        (arg_bytes (larg_plain (args ! 0))) (arg_num (larg_plain (args ! 1)))
        (arg_bytes (larg_plain (args ! 1))) (arg_bytes (larg_plain (args ! 2))))\<rparr>"

lemma smSystem_Information_Query_api_ok [lapi_rules]: "lapi_ok smSystem_Information_Query_api"
  by (rule lapi_okI, simp add: smSystem_Information_Query_api_def)
    (clarsimp simp: smSystem_Information_Query_api_def smSystem_Information_Query_def lapi_args, rule built_fromI, simp add: lapi_size, simp, simp add: lapi_writes)

definition smSystem_IO_Query_api :: list_api where
  "smSystem_IO_Query_api =
     \<lparr>lapi_head = [[Raw 255], map Raw (c_literal ''System_IO_Query'' @ [0])],
      lapi_kinds = [LAsciiz],
      lapi_slack = 0, lapi_table = ''System_IO_Query_Layout'',
      lapi_error_buffer = None,
      lapi_build = (\<lambda>malloc args. smSystem_IO_Query malloc
        (larg_text (args ! 0)))\<rparr>"

lemma smSystem_IO_Query_api_ok [lapi_rules]: "lapi_ok smSystem_IO_Query_api"
  by (rule lapi_okI, simp add: smSystem_IO_Query_api_def)
    (clarsimp simp: smSystem_IO_Query_api_def smSystem_IO_Query_def lapi_args, rule built_fromI, simp add: lapi_size, simp, simp add: lapi_writes)

definition smSystem_Performance_Info_Query_api :: list_api where
  "smSystem_Performance_Info_Query_api =
     \<lparr>lapi_head = [[Counted (c_literal ''System_Performance_Info_Query'')]],
      lapi_kinds = [LPlain KStr, LPlain KBuf, LPlain KStr],
      lapi_slack = 0, lapi_table = ''System_Performance_Info_Query_Layout'',
      lapi_error_buffer = None,
      lapi_build = (\<lambda>malloc args. smSystem_Performance_Info_Query malloc
        (arg_bytes (larg_plain (args ! 0))) (arg_num (larg_plain (args ! 1)))
        (arg_bytes (larg_plain (args ! 1))) (arg_bytes (larg_plain (args ! 2))))\<rparr>"

lemma smSystem_Performance_Info_Query_api_ok [lapi_rules]: "lapi_ok smSystem_Performance_Info_Query_api"
  by (rule lapi_okI, simp add: smSystem_Performance_Info_Query_api_def)
    (clarsimp simp: smSystem_Performance_Info_Query_api_def smSystem_Performance_Info_Query_def lapi_args, rule built_fromI, simp add: lapi_size, simp, simp add: lapi_writes)

definition smSystem_Performance_Threshold_Disable_api :: list_api where
  "smSystem_Performance_Threshold_Disable_api =
     \<lparr>lapi_head = [[Counted (c_literal ''System_Performance_Threshold_Disable'')]],
      lapi_kinds = [LPlain KStr, LPlain KBuf, LPlain KStr, LAsciiz],
      lapi_slack = 0, lapi_table = ''System_Performance_Threshold_Disable_Layout'',
      lapi_error_buffer = None,
      lapi_build = (\<lambda>malloc args. smSystem_Performance_Threshold_Disable malloc
        (arg_bytes (larg_plain (args ! 0))) (arg_num (larg_plain (args ! 1)))
        (arg_bytes (larg_plain (args ! 1))) (arg_bytes (larg_plain (args ! 2)))
        (larg_text (args ! 3)))\<rparr>"

lemma smSystem_Performance_Threshold_Disable_api_ok [lapi_rules]: "lapi_ok smSystem_Performance_Threshold_Disable_api"
  by (rule lapi_okI, simp add: smSystem_Performance_Threshold_Disable_api_def)
    (clarsimp simp: smSystem_Performance_Threshold_Disable_api_def smSystem_Performance_Threshold_Disable_def lapi_args, rule built_fromI, simp add: lapi_size, simp, simp add: lapi_writes)

definition smSystem_Performance_Threshold_Enable_api :: list_api where
  "smSystem_Performance_Threshold_Enable_api =
     \<lparr>lapi_head = [[Counted (c_literal ''System_Performance_Threshold_Enable'')]],
      lapi_kinds = [LPlain KStr, LPlain KBuf, LPlain KStr, LAsciiz],
      lapi_slack = 0, lapi_table = ''System_Performance_Threshold_Enable_Layout'',
      lapi_error_buffer = None,
      lapi_build = (\<lambda>malloc args. smSystem_Performance_Threshold_Enable malloc
        (arg_bytes (larg_plain (args ! 0))) (arg_num (larg_plain (args ! 1)))
        (arg_bytes (larg_plain (args ! 1))) (arg_bytes (larg_plain (args ! 2)))
        (larg_text (args ! 3)))\<rparr>"

lemma smSystem_Performance_Threshold_Enable_api_ok [lapi_rules]: "lapi_ok smSystem_Performance_Threshold_Enable_api"
  by (rule lapi_okI, simp add: smSystem_Performance_Threshold_Enable_api_def)
    (clarsimp simp: smSystem_Performance_Threshold_Enable_api_def smSystem_Performance_Threshold_Enable_def lapi_args, rule built_fromI, simp add: lapi_size, simp, simp add: lapi_writes)

definition smSystem_Processor_Query_api :: list_api where
  "smSystem_Processor_Query_api =
     \<lparr>lapi_head = [[Counted (c_literal ''System_Processor_Query'')]],
      lapi_kinds = [LPlain KStr, LPlain KBuf, LPlain KStr],
      lapi_slack = 0, lapi_table = ''System_Processor_Query_Layout'',
      lapi_error_buffer = None,
      lapi_build = (\<lambda>malloc args. smSystem_Processor_Query malloc
        (arg_bytes (larg_plain (args ! 0))) (arg_num (larg_plain (args ! 1)))
        (arg_bytes (larg_plain (args ! 1))) (arg_bytes (larg_plain (args ! 2))))\<rparr>"

lemma smSystem_Processor_Query_api_ok [lapi_rules]: "lapi_ok smSystem_Processor_Query_api"
  by (rule lapi_okI, simp add: smSystem_Processor_Query_api_def)
    (clarsimp simp: smSystem_Processor_Query_api_def smSystem_Processor_Query_def lapi_args, rule built_fromI, simp add: lapi_size, simp, simp add: lapi_writes)

definition smVirtual_Network_LAN_Access_api :: list_api where
  "smVirtual_Network_LAN_Access_api =
     \<lparr>lapi_head = [[Counted (c_literal ''Virtual_Network_LAN_Access'')]],
      lapi_kinds = [LPlain KStr, LPlain KBuf, LPlain KStr, LAsciiz, LAsciiz, LAsciiz, LAsciiz,
                    LAsciiz],
      lapi_slack = 0, lapi_table = ''Virtual_Network_LAN_Access_Layout'',
      lapi_error_buffer = None,
      lapi_build = (\<lambda>malloc args. smVirtual_Network_LAN_Access malloc
        (arg_bytes (larg_plain (args ! 0))) (arg_num (larg_plain (args ! 1)))
        (arg_bytes (larg_plain (args ! 1))) (arg_bytes (larg_plain (args ! 2)))
        (larg_text (args ! 3)) (larg_text (args ! 4)) (larg_text (args ! 5))
        (larg_text (args ! 6)) (larg_text (args ! 7)))\<rparr>"

lemma smVirtual_Network_LAN_Access_api_ok [lapi_rules]: "lapi_ok smVirtual_Network_LAN_Access_api"
  by (rule lapi_okI, simp add: smVirtual_Network_LAN_Access_api_def)
    (clarsimp simp: smVirtual_Network_LAN_Access_api_def smVirtual_Network_LAN_Access_def lapi_args, rule built_fromI, simp add: lapi_size, simp, simp add: lapi_writes)

definition smVirtual_Network_LAN_Access_Query_api :: list_api where
  "smVirtual_Network_LAN_Access_Query_api =
     \<lparr>lapi_head = [[Counted (c_literal ''Virtual_Network_LAN_Access_Query'')]],
      lapi_kinds = [LPlain KStr, LPlain KBuf, LPlain KStr, LAsciiz, LAsciiz],
      lapi_slack = 0, lapi_table = ''Virtual_Network_LAN_Access_Query_Layout'',
      lapi_error_buffer = None,
      lapi_build = (\<lambda>malloc args. smVirtual_Network_LAN_Access_Query malloc
        (arg_bytes (larg_plain (args ! 0))) (arg_num (larg_plain (args ! 1)))
        (arg_bytes (larg_plain (args ! 1))) (arg_bytes (larg_plain (args ! 2)))
        (larg_text (args ! 3)) (larg_text (args ! 4)))\<rparr>"

lemma smVirtual_Network_LAN_Access_Query_api_ok [lapi_rules]: "lapi_ok smVirtual_Network_LAN_Access_Query_api"
  by (rule lapi_okI, simp add: smVirtual_Network_LAN_Access_Query_api_def)
    (clarsimp simp: smVirtual_Network_LAN_Access_Query_api_def smVirtual_Network_LAN_Access_Query_def lapi_args, rule built_fromI, simp add: lapi_size, simp, simp add: lapi_writes)

definition smVirtual_Network_Query_LAN_api :: list_api where
  "smVirtual_Network_Query_LAN_api =
     \<lparr>lapi_head = [[Raw 255], map Raw (c_literal ''Virtual_Network_Query_LAN'' @ [0])],
      lapi_kinds = [],
      lapi_slack = 0, lapi_table = ''Virtual_Network_Query_LAN_Layout'',
      lapi_error_buffer = None,
      lapi_build = (\<lambda>malloc args. smVirtual_Network_Query_LAN malloc
        )\<rparr>"

lemma smVirtual_Network_Query_LAN_api_ok [lapi_rules]: "lapi_ok smVirtual_Network_Query_LAN_api"
  by (rule lapi_okI, simp add: smVirtual_Network_Query_LAN_api_def)
    (clarsimp simp: smVirtual_Network_Query_LAN_api_def smVirtual_Network_Query_LAN_def lapi_args, rule built_fromI, simp add: lapi_size, simp, simp add: lapi_writes)

definition smVirtual_Network_Query_OSA_api :: list_api where
  "smVirtual_Network_Query_OSA_api =
     \<lparr>lapi_head = [[Raw 255], map Raw (c_literal ''Virtual_Network_Query_OSA'' @ [0])],
      lapi_kinds = [],
      lapi_slack = 0, lapi_table = ''Virtual_Network_Query_OSA_Layout'',
      lapi_error_buffer = None,
      lapi_build = (\<lambda>malloc args. smVirtual_Network_Query_OSA malloc
        )\<rparr>"

lemma smVirtual_Network_Query_OSA_api_ok [lapi_rules]: "lapi_ok smVirtual_Network_Query_OSA_api"
  by (rule lapi_okI, simp add: smVirtual_Network_Query_OSA_api_def)
    (clarsimp simp: smVirtual_Network_Query_OSA_api_def smVirtual_Network_Query_OSA_def lapi_args, rule built_fromI, simp add: lapi_size, simp, simp add: lapi_writes)

definition requests_records :: "list_api list" where
  "requests_records =
     [smDirectory_Manager_Local_Tag_Define_DM_api, smDirectory_Manager_Task_Cancel_DM_api,
      smIPaddr_Get_api, smImage_Definition_Query_DM_api,
      smImage_IPL_Device_Query_api, smImage_Pause_api,
      smImage_Replace_DM_api, smImage_SCSI_Characteristics_Define_DM_api,
      smMetadataDelete_api, smMetadataGet_api,
      smMetadataSpaceQuery_api, smProfile_Create_DM_api,
      smProfile_Replace_DM_api, smPrototype_Create_DM_api,
      smPrototype_Replace_DM_api, smSSI_Query_api,
      smSystem_Image_Performance_Query_api, smSystem_Info_Query_api,
      smSystem_Information_Query_api, smSystem_IO_Query_api,
      smSystem_Performance_Info_Query_api, smSystem_Performance_Threshold_Disable_api,
      smSystem_Performance_Threshold_Enable_api, smSystem_Processor_Query_api,
      smVirtual_Network_LAN_Access_api, smVirtual_Network_LAN_Access_Query_api,
      smVirtual_Network_Query_LAN_api, smVirtual_Network_Query_OSA_api]"

lemma requests_records_ok: "list_all lapi_ok requests_records"
  by (simp add: requests_records_def lapi_rules)

end
