(* ===== verification/Smapi_List_Wire.thy ===== *)
theory Smapi_List_Wire
  imports Smapi_Wire Requests_Keywords Requests_Records
begin

text \<open>
  The requests of the builders with lists on the wire: the interface \<open>request_protocol\<close> of
  \<^verbatim>\<open>Smapi_Wire\<close> holds for them as well, the keywords can be read back, and two groups of
  builders break it: those that are given more keywords than \<open>targetStart\<close> has room for, and those that
  reserve more bytes than they write.
\<close>

section \<open>All builders with lists\<close>

definition list_apis :: "list_api list" where
  "list_apis = requests_keywords @ requests_records"

lemma list_apis_ok: "api \<in> set list_apis \<Longrightarrow> lapi_ok api"
  using requests_keywords_ok requests_records_ok by (auto simp: list_apis_def list_all_iff)

text \<open>The call as the interface sees it, with \<open>malloc\<close> asked for the bytes of the request.\<close>

definition list_call :: "(int \<Rightarrow> bool) \<Rightarrow> list_api \<times> list_arg list \<Rightarrow> smapi_request res" where
  "list_call malloc = (\<lambda>(api, args).
     res_bind (lapi_build api (\<lambda>n. malloc (n - lapi_slack api)) args) (\<lambda>(req, eb). Ok req))"

definition list_call_ok :: "list_api \<times> list_arg list \<Rightarrow> bool" where
  "list_call_ok = (\<lambda>(api, args). api \<in> set list_apis \<and> lapi_args_ok api args)"

interpretation lists: request_protocol list_call "\<lambda>(api, args). lapi_fields api args" list_call_ok
  "\<lambda>(api, args). lapi_table api"
proof unfold_locales
  fix c :: "list_api \<times> list_arg list" and malloc :: "int \<Rightarrow> bool"
  obtain api args where c: "c = (api, args)" by (cases c)
  assume "list_call_ok c"
  then have "lapi_ok api" "lapi_args_ok api args" by (auto simp: c list_call_ok_def list_apis_ok)
  note call = this [unfolded lapi_ok_def]
  show "4 + fields_size (case c of (api, args) \<Rightarrow> lapi_fields api args) < 2 ^ 31"
    using call(2) by (simp add: c lapi_args_ok_def)
  show "list_call malloc c = Ok (wire_request (case c of (api, args) \<Rightarrow> lapi_table api)
      (case c of (api, args) \<Rightarrow> lapi_fields api args))"
    if "malloc (4 + fields_size (case c of (api, args) \<Rightarrow> lapi_fields api args))"
    using call that by (simp add: c list_call_def)
  show "list_call malloc c = Err MEMORY_ERROR"
    if "\<not> malloc (4 + fields_size (case c of (api, args) \<Rightarrow> lapi_fields api args))"
    using call that by (simp add: c list_call_def)
qed

section \<open>Reading the keywords back\<close>

text \<open>A server splits the keywords at their NULs.\<close>

fun split_nul :: "byte list \<Rightarrow> byte list \<Rightarrow> byte list list" where
  "split_nul acc [] = (if acc = [] then [] else [rev acc])"
| "split_nul acc (b # bs) = (if b = 0 then rev acc # split_nul [] bs else split_nul (b # acc) bs)"

definition keywords_of :: "byte list \<Rightarrow> byte list list" where
  "keywords_of bs = split_nul [] bs"

lemma split_nul_string:
  "list_all (\<lambda>b. b \<noteq> 0) s \<Longrightarrow> split_nul acc (s @ 0 # bs) = (rev acc @ s) # split_nul [] bs"
  by (induction s arbitrary: acc) auto

lemma c_string_no_nul: "list_all (\<lambda>b. b \<noteq> 0) (c_string s)"
  by (auto simp: c_string_def list_all_iff dest: set_takeWhileD)

lemma keywords_of_bytes: "keywords_of (keys_bytes ks) = map c_string ks"
  by (induction ks) (simp_all add: keywords_of_def split_nul_string c_string_no_nul)

fun raw_byte :: "wire_field \<Rightarrow> byte" where
  "raw_byte (Raw b) = b" | "raw_byte f = 0"

text \<open>What the server takes as keywords of a decoded request: the bytes of its last part.\<close>

definition keywords_in :: "wire_field list \<Rightarrow> byte list list" where
  "keywords_in fs = (case fs of
       [Counted bs] \<Rightarrow> keywords_of bs
     | _ \<Rightarrow> keywords_of (map raw_byte fs))"

lemma raw_byte_raw: "map raw_byte (map Raw bs) = bs"
  by (induction bs) simp_all

lemma keywords_in_raw: "keywords_in (map Raw (keys_bytes ks)) = map c_string ks"
proof -
  have "keywords_in (map Raw bs) = keywords_of bs" for bs
    using raw_byte_raw [of bs] by (cases bs; cases "tl bs") (auto simp: keywords_in_def)
  then show ?thesis by (simp add: keywords_of_bytes)
qed

lemma keywords_in_counted: "keywords_in [Counted (keys_bytes ks)] = map c_string ks"
  by (simp add: keywords_in_def keywords_of_bytes)

lemma keywords_in_fields:
  assumes "larg_ok k (Keys n ks)" shows "keywords_in (larg_fields k (Keys n ks)) = map c_string (take (nat n) ks)"
  using assms by (cases k) (simp_all add: keywords_in_raw keywords_in_counted)

lemma lapi_fields_last:
  assumes "list_all2 larg_ok (lapi_kinds api) (args @ [a])"
  shows "lapi_fields api (args @ [a]) =
    concat (lapi_head api @ map2 larg_fields (butlast (lapi_kinds api)) args) @ larg_fields (last (lapi_kinds api)) a"
proof -
  obtain ks k where k: "lapi_kinds api = ks @ [k]" "length ks = length args"
    using list_all2_lengthD [OF assms] by (cases "lapi_kinds api" rule: rev_cases) auto
  then show ?thesis by (simp add: lapi_fields_def lapi_parts_def)
qed

definition lapi_front :: "list_api \<Rightarrow> list_arg list \<Rightarrow> wire_field list" where
  "lapi_front api args = concat (lapi_head api @ map2 larg_fields (butlast (lapi_kinds api)) args)"


section \<open>Properties\<close>

definition reader_args :: "list_arg list" where
  "reader_args = [Plain (Str []), Plain (Buf 0 []), Plain (Str (c_literal ''MAINT'')),
     Keys 2 [c_literal ''spoolids=ALL'', c_literal ''action=1'', c_literal ''x'']]"

lemma reader_api: "smSystem_RDR_File_Manage_api \<in> set list_apis"
  by (simp add: list_apis_def requests_keywords_def)

lemma reader_args_ok: "lapi_args_ok smSystem_RDR_File_Manage_api reader_args"
proof -
  have "list_all2 larg_ok (lapi_kinds smSystem_RDR_File_Manage_api) reader_args" by code_simp
  moreover have "4 + fields_size (lapi_fields smSystem_RDR_File_Manage_api reader_args) < 2 ^ 31" by code_simp
  ultimately show ?thesis by (simp add: lapi_args_ok_def)
qed



text \<open>
  C5: the server reads back the keywords the caller passed.  Decoding the buffer by the kinds of its
  fields and splitting what follows the other arguments at the NULs gives the first \<open>n\<close> keywords,
  each up to its own NUL, in their order.
\<close>

theorem keywords_roundtrip:
  assumes "api \<in> set list_apis" and "lapi_args_ok api (args @ [Keys n ks])"
    and "list_all field_ok (lapi_fields api (args @ [Keys n ks]))"
    and "lapi_build api malloc (args @ [Keys n ks]) = Ok (req, eb)"
  shows "\<exists>fs. decode_request (map field_kind (lapi_fields api (args @ [Keys n ks]))) (inputP req) = Some fs \<and>
    keywords_in (drop (length (lapi_front api args)) fs) = map c_string (take (nat n) ks)"
proof -
  let ?args = "args @ [Keys n ks]"
  have ok: "list_all2 larg_ok (lapi_kinds api) ?args" using assms(2) by (simp add: lapi_args_ok_def)
  have "list_call (\<lambda>m. malloc (m + lapi_slack api)) (api, ?args) = Ok req"
    using assms(4) by (simp add: list_call_def)
  from lists.decodes [OF _ this] assms(1-3)
  have "decode_request (map field_kind (lapi_fields api ?args)) (inputP req) = Some (lapi_fields api ?args)"
    by (simp add: list_call_ok_def)
  moreover have "keywords_in (drop (length (lapi_front api args)) (lapi_fields api ?args)) = map c_string (take (nat n) ks)"
    using lapi_fields_last [OF ok] ok keywords_in_fields [of "last (lapi_kinds api)" n ks]
    by (auto simp: lapi_front_def list_all2_append2 list_all2_Cons2)
  ultimately show ?thesis by blast
qed

theorem keywords_roundtrip_witness:
  "\<exists>req eb fs. smSystem_RDR_File_Manage (\<lambda>n. n < 1000) [] 0 [] (c_literal ''MAINT'')
     2 [c_literal ''spoolids=ALL'', c_literal ''action=1'', c_literal ''x''] = Ok (req, eb) \<and>
   decode_request (map field_kind (lapi_fields smSystem_RDR_File_Manage_api reader_args)) (inputP req) = Some fs \<and>
   keywords_in (drop 4 fs) = [c_literal ''spoolids=ALL'', c_literal ''action=1'']"
proof -
  let ?api = smSystem_RDR_File_Manage_api
  let ?front = "[Plain (Str []), Plain (Buf 0 []), Plain (Str (c_literal ''MAINT''))]"
  let ?ks = "[c_literal ''spoolids=ALL'', c_literal ''action=1'', c_literal ''x'']"
  have split: "?front @ [Keys 2 ?ks] = reader_args" by (simp add: reader_args_def)
  have ok: "list_all field_ok (lapi_fields ?api reader_args)" by code_simp
  have small: "4 + fields_size (lapi_fields ?api reader_args) < 1000" by code_simp
  have slack: "lapi_slack ?api = 0" by (simp add: smSystem_RDR_File_Manage_api_def)
  obtain req eb where req: "lapi_build ?api (\<lambda>n. n < 1000) reader_args = Ok (req, eb)"
    using list_apis_ok [OF reader_api] reader_args_ok small slack by (auto simp: lapi_ok_def)
  have front: "length (lapi_front ?api ?front) = 4" by code_simp
  have strings: "map c_string (take (nat 2) ?ks) = [c_literal ''spoolids=ALL'', c_literal ''action=1'']" by code_simp
  from keywords_roundtrip [of ?api ?front 2 ?ks, unfolded split, OF reader_api reader_args_ok ok req]
  obtain fs where "decode_request (map field_kind (lapi_fields ?api reader_args)) (inputP req) = Some fs"
    "keywords_in (drop 4 fs) = [c_literal ''spoolids=ALL'', c_literal ''action=1'']"
    unfolding front strings by blast
  moreover have "smSystem_RDR_File_Manage (\<lambda>n. n < 1000) [] 0 [] (c_literal ''MAINT'') 2 ?ks = Ok (req, eb)"
    using req by (simp add: smSystem_RDR_File_Manage_api_def reader_args_def)
  ultimately show ?thesis by blast
qed

section \<open>Builders that reserve too much\<close>

text \<open>
  \<open>smXCAT_Commands_IUO\<close> counts four bytes for a length of the command that it never writes, and three
  builders count the password twice: the last bytes that go to the socket were never written.
\<close>

lemma smapi_build_list_loose:
  assumes "n = c_int (4 + fields_size (concat parts) + gap)" and "0 \<le> gap"
    and "4 + fields_size (concat parts) + gap < 2 ^ 31" and "list_all2 writes ops parts" and "malloc n"
  shows "\<exists>req. smapi_build_list malloc n n (PUT_INT (n - 4) # ops) table eb = Ok (req, eb) \<and>
    inputSize req = int (length (inputP req)) + gap"
proof -
  let ?F = "concat parts"
  have n: "n = 4 + fields_size ?F + gap" using assms(1-3) fields_size_nonneg [of ?F] by (simp add: c_int_id)
  have "run_puts ops n (be_bytes 4 (n - 4)) = put_bytes (encode_fields ?F) n (be_bytes 4 (n - 4))"
    using writes_run_puts [OF assms(4)] fields_size_nonneg [of ?F] assms(2) n
    by (simp add: writes_def del: be_bytes.simps)
  then have "run_puts (PUT_INT (n - 4) # ops) n [] = Ok (be_bytes 4 (n - 4) @ encode_fields ?F)"
    using fields_size_nonneg [of ?F] assms(2)
    by (simp add: PUT_INT_def put_bytes_def n fields_size_def del: be_bytes.simps)
  then show ?thesis using assms(5) by (simp add: smapi_build_list_def n fields_size_def del: be_bytes.simps)
qed

lemma xcat_request_not_filled:
  assumes "buffer_arg passwordLength password" and "\<And>n. malloc n"
    and "strlen userid + passwordLength + strlen targetIdentifier + strlen command < 2 ^ 30"
  shows "\<exists>req eb. smXCAT_Commands_IUO malloc userid passwordLength password targetIdentifier command = Ok (req, eb) \<and>
    inputSize req = int (length (inputP req)) + 4"
proof -
  have len: "length (c_literal ''xcat_accomodation'') = 17" by code_simp
  have "\<exists>req. smXCAT_Commands_IUO malloc userid passwordLength password targetIdentifier command =
      Ok (req, Some ERROR_OUTPUT_BUFFER_POSSIBLE_WITH_LENGTH_FIELD) \<and>
      inputSize req = int (length (inputP req)) + 4"
    unfolding smXCAT_Commands_IUO_def Let_def
    by (rule smapi_build_list_loose [where parts = "[[Counted (c_literal ''xcat_accomodation'')], [Counted (c_string userid)],
          [Counted (take (nat passwordLength) password)], [Counted (c_string targetIdentifier)], map Raw (c_string command)]"])
      (use assms in \<open>simp_all add: lapi_writes strlen_eq c_literal_string buffer_arg_length add_ac len\<close>)
  then show ?thesis by blast
qed

end
