(* ===== verification/Cikada.thy ===== *)
theory Cikada
  imports Zthin_Prelude
begin

text \<open>
  The disk image tools: \<^verbatim>\<open>src/ckdencode.c\<close> turns the tracks of an ECKD disk into a CiKaDa stream,
  \<^verbatim>\<open>src/ckddecode.c\<close> writes such a stream to a disk, \<^verbatim>\<open>src/ckdhex.c\<close> prints tracks; the formats
  are in \<^verbatim>\<open>include/cikada.h\<close>.  The counters of the run arrays keep their widths of 8 and 16 bits and
  wrap.  The track buffer has 64k; reading or writing outside it is \<open>Fault\<close>.  An exit of a program
  with a code is \<open>Err code\<close>.  What \<open>read\<close>, \<open>write\<close>, \<open>open\<close> and \<open>posix_memalign\<close> do is given by
  parameters: the sizes and errors of the calls, the data of standard input and of the disk.
  Messages on standard error are left out.
\<close>

section \<open>Tracks and records\<close>

definition TRACK_SIZE :: nat where "TRACK_SIZE = 65536"
definition TRACKS_PER_CYLINDER :: nat where "TRACKS_PER_CYLINDER = 15"
definition TRACK_BEGINNING_OVERHEAD :: nat where "TRACK_BEGINNING_OVERHEAD = 16"

record RecordMetadata =
  cylinderIndex :: "16 word"
  trackIndex :: "16 word"
  recordIndex :: byte
  keyCount :: byte
  dataCount :: "16 word"

definition word16 :: "byte list \<Rightarrow> 16 word" where
  "word16 bs = of_int (be_val bs)"

definition bytes16 :: "16 word \<Rightarrow> byte list" where
  "bytes16 w = be_bytes 2 (uint w)"

definition slice :: "byte list \<Rightarrow> nat \<Rightarrow> nat \<Rightarrow> byte list res" where
  "slice buf at n = (if at + n \<le> length buf then Ok (take n (drop at buf)) else Fault)"

definition record_at :: "byte list \<Rightarrow> nat \<Rightarrow> RecordMetadata res" where
  "record_at buf at =
     res_bind (slice buf at 8) (\<lambda>bs.
       Ok \<lparr>cylinderIndex = word16 (take 2 bs), trackIndex = word16 (take 2 (drop 2 bs)), recordIndex = bs ! 4,
           keyCount = bs ! 5, dataCount = word16 (drop 6 bs)\<rparr>)"

lemma record_at_bound: "record_at buf at = Ok m \<Longrightarrow> at + 8 \<le> length buf"
  by (auto simp: record_at_def slice_def split: if_splits)

text \<open>The place behind a record.\<close>

definition record_end :: "RecordMetadata \<Rightarrow> nat \<Rightarrow> nat" where
  "record_end m at = at + 8 + unat (keyCount m) + unat (dataCount m)"

section \<open>Encoding: \<open>ckdencode\<close>\<close>

text \<open>
  The three arrays \<open>...RunLength\<close>, \<open>...RunValue\<close> of 256 entries and \<open>...RunCount\<close> of one kind of
  count.
\<close>

record 'v runs =
  runCount :: byte
  runLength :: "byte \<Rightarrow> byte"
  runValue :: "byte \<Rightarrow> 'v"

definition add_run :: "'v \<Rightarrow> 'v runs \<Rightarrow> 'v runs" where
  "add_run v r =
     (if runCount r \<noteq> 0 \<and> v = runValue r (runCount r - 1)
      then r\<lparr>runLength := (runLength r)(runCount r - 1 := runLength r (runCount r - 1) + 1)\<rparr>
      else r\<lparr>runLength := (runLength r)(runCount r := 1), runValue := (runValue r)(runCount r := v),
             runCount := runCount r + 1\<rparr>)"

text \<open>The first loop over the records: the runs and \<open>recordsInTrack\<close>.\<close>

function scan_records ::
  "byte list \<Rightarrow> nat \<Rightarrow> byte runs \<Rightarrow> 16 word runs \<Rightarrow> byte \<Rightarrow> (byte runs \<times> 16 word runs \<times> byte) res" where
  "scan_records buf at keys datas recordsInTrack =
     res_bind (record_at buf at) (\<lambda>m.
       if recordIndex m = 0xFF then Ok (keys, datas, recordsInTrack)
       else scan_records buf (record_end m at) (add_run (keyCount m) keys) (add_run (dataCount m) datas)
              (recordIndex m))"
  by pat_completeness auto

termination
  by (relation "measure (\<lambda>(buf, at, keys, datas, n). length buf - at)")
    (auto simp: record_end_def dest: record_at_bound)

text \<open>The second loop: the writes of the keys and the data of every record.\<close>

function record_writes :: "byte list \<Rightarrow> nat \<Rightarrow> byte list list res" where
  "record_writes buf at =
     res_bind (record_at buf at) (\<lambda>m.
       if recordIndex m = 0xFF then Ok []
       else
         res_bind (slice buf (at + 8) (unat (keyCount m))) (\<lambda>key.
         res_bind (slice buf (at + 8 + unat (keyCount m)) (unat (dataCount m))) (\<lambda>data.
         res_bind (record_writes buf (record_end m at)) (\<lambda>rest. Ok (key # data # rest)))))"
  by pat_completeness auto

termination
  by (relation "measure (\<lambda>(buf, at). length buf - at)") (auto simp: record_end_def dest: record_at_bound)

declare scan_records.simps [simp del] record_writes.simps [simp del]

definition run_writes :: "('v \<Rightarrow> byte list) \<Rightarrow> 'v runs \<Rightarrow> byte list list" where
  "run_writes enc r =
     concat (map (\<lambda>i. [[runLength r (of_nat i)], enc (runValue r (of_nat i))]) [0..<unat (runCount r)])"

text \<open>
  The writes for one track, in order.  \<open>keys0\<close> and \<open>datas0\<close> are the arrays as the track before left
  them, of which only the counts are reset.
\<close>

definition encode_track ::
  "byte runs \<Rightarrow> 16 word runs \<Rightarrow> byte list \<Rightarrow> (byte list list \<times> byte runs \<times> 16 word runs) res" where
  "encode_track keys0 datas0 buf =
     res_bind (scan_records buf TRACK_BEGINNING_OVERHEAD (keys0\<lparr>runCount := 0\<rparr>) (datas0\<lparr>runCount := 0\<rparr>) 0)
       (\<lambda>(keys, datas, recordsInTrack).
     res_bind (record_writes buf TRACK_BEGINNING_OVERHEAD) (\<lambda>ws.
       Ok ([recordsInTrack] # run_writes (\<lambda>v. [v]) keys @ run_writes bytes16 datas @ ws, keys, datas)))"

text \<open>
  \<open>write\<close> to standard output: the \<open>k\<close>-th call takes up to \<open>wr k\<close> bytes, a negative number is an
  error.  The code checks for the error only.
\<close>

fun write_all :: "(nat \<Rightarrow> int) \<Rightarrow> nat \<Rightarrow> byte list list \<Rightarrow> byte list \<Rightarrow> (nat \<times> byte list) res" where
  "write_all wr k [] out = Ok (k, out)"
| "write_all wr k (w # ws) out =
     (if wr k < 0 then Err 5 else write_all wr (Suc k) ws (out @ take (nat (wr k)) w))"

fun encode_tracks ::
  "(nat \<Rightarrow> int) \<Rightarrow> nat \<Rightarrow> byte runs \<Rightarrow> 16 word runs \<Rightarrow> byte list list \<Rightarrow> byte list \<Rightarrow> byte list res" where
  "encode_tracks wr k keys datas [] out = Ok out"
| "encode_tracks wr k keys datas (buf # bufs) out =
     res_bind (encode_track keys datas buf) (\<lambda>(ws, keys, datas).
     res_bind (write_all wr k ws out) (\<lambda>(k, out). encode_tracks wr k keys datas bufs out))"

record disk_env =
  opens :: bool
  memalign_rc :: int
  read_end :: int
  closes :: bool

definition no_runs :: "'v \<Rightarrow> 'v runs" where
  "no_runs v = \<lparr>runCount = 0, runLength = (\<lambda>_. 0), runValue = (\<lambda>_. v)\<rparr>"

text \<open>\<open>main\<close> of \<open>ckdencode\<close>: the stream, or the exit code.\<close>

definition ckdencode_main :: "disk_env \<Rightarrow> (nat \<Rightarrow> int) \<Rightarrow> nat \<Rightarrow> byte list list \<Rightarrow> byte list res" where
  "ckdencode_main env wr argumentCount tracks =
     (if argumentCount \<noteq> 2 then Err 1
      else if \<not> opens env then Err 2
      else if memalign_rc env \<noteq> 0 then Err 3
      else
        res_bind (encode_tracks wr 0 (no_runs 0) (no_runs 0) tracks []) (\<lambda>out.
        if read_end env < 0 then Err 4
        else if \<not> closes env then Err 6 else Ok out))"

section \<open>Decoding: \<open>ckddecode\<close>\<close>

text \<open>
  Standard input: \<open>read\<close> returns at most \<open>rd k\<close> bytes in its \<open>k\<close>-th call, at least one if there is
  one, and none at the end; a negative number is an error.
\<close>

record stdin =
  pending :: "byte list"
  reads :: nat

definition sys_read :: "(nat \<Rightarrow> int) \<Rightarrow> nat \<Rightarrow> stdin \<Rightarrow> int \<times> byte list \<times> stdin" where
  "sys_read rd n s =
     (if rd (reads s) < 0 then (-1, [], s\<lparr>reads := Suc (reads s)\<rparr>)
      else
        let k = min n (nat (max 1 (rd (reads s)))); bs = take k (pending s)
        in (int (length bs), bs, s\<lparr>pending := drop k (pending s), reads := Suc (reads s)\<rparr>))"

text \<open>The loop of \<open>readNBytesFromStdin\<close>; \<open>acc\<close> are the bytes read so far.\<close>

fun readNBytesFromStdin :: "nat \<Rightarrow> (nat \<Rightarrow> int) \<Rightarrow> nat \<Rightarrow> byte list \<Rightarrow> stdin \<Rightarrow> (int \<times> byte list \<times> stdin) res" where
  "readNBytesFromStdin 0 rd n acc s = NoFuel"
| "readNBytesFromStdin (Suc f) rd n acc s =
     (if length acc < n then
        let (retCode, bs, s) = sys_read rd (n - length acc) s in
        if retCode \<ge> 0 then readNBytesFromStdin f rd n (acc @ bs) s else Ok (-1, acc, s)
      else Ok (0, acc, s))"

text \<open>The loops that read the runs of the key counts and of the data counts.\<close>

fun read_runs ::
  "nat \<Rightarrow> (nat \<Rightarrow> int) \<Rightarrow> nat \<Rightarrow> (byte list \<Rightarrow> 'v) \<Rightarrow> byte \<Rightarrow> byte \<Rightarrow> 'v runs \<Rightarrow> stdin \<Rightarrow> ('v runs \<times> stdin) res" where
  "read_runs 0 rd width dec recordsInTrack sumRuns r s = NoFuel"
| "read_runs (Suc f) rd width dec recordsInTrack sumRuns r s =
     (if sumRuns < recordsInTrack then
        res_bind (readNBytesFromStdin f rd 1 [] s) (\<lambda>(rc, len, s).
        if rc < 0 then Err 5
        else
          res_bind (readNBytesFromStdin f rd width [] s) (\<lambda>(rc, val, s).
          if rc < 0 then Err 5
          else
            read_runs f rd width dec recordsInTrack (sumRuns + hd len)
              (r\<lparr>runLength := (runLength r)(runCount r := hd len), runValue := (runValue r)(runCount r := dec val),
                 runCount := runCount r + 1\<rparr>) s))
      else Ok (r, s))"

text \<open>
  The track buffer up to \<open>trackBufferCursor\<close>; every store is at the cursor.
\<close>

definition put :: "byte list \<Rightarrow> byte list \<Rightarrow> byte list res" where
  "put bs buf = (if length buf + length bs \<le> TRACK_SIZE then Ok (buf @ bs) else Fault)"

text \<open>The loops that read a key or data into the buffer.\<close>

fun read_block :: "nat \<Rightarrow> (nat \<Rightarrow> int) \<Rightarrow> nat \<Rightarrow> byte list \<Rightarrow> stdin \<Rightarrow> (byte list \<times> stdin) res" where
  "read_block 0 rd n buf s = NoFuel"
| "read_block (Suc f) rd n buf s =
     (if n > 0 then
        let (returnCode, bs, s) = sys_read rd n s in
        if returnCode < 0 then Err 5
        else res_bind (put bs buf) (\<lambda>buf. read_block f rd (n - length bs) buf s)
      else Ok (buf, s))"

text \<open>Where the loop over the records stands in a list of runs.\<close>

record run_pos =
  runIndex :: byte
  runRemaining :: byte

definition next_pos :: "'v runs \<Rightarrow> run_pos \<Rightarrow> run_pos" where
  "next_pos r p =
     (if runRemaining p \<noteq> 0 then p\<lparr>runRemaining := runRemaining p - 1\<rparr>
      else \<lparr>runIndex = runIndex p + 1, runRemaining = runLength r (runIndex p + 1) - 1\<rparr>)"

definition first_pos :: "'v runs \<Rightarrow> run_pos" where
  "first_pos r = \<lparr>runIndex = 0, runRemaining = runLength r 0 - 1\<rparr>"

definition track_id :: "nat \<Rightarrow> byte list" where
  "track_id t = bytes16 (of_nat (t div 15)) @ bytes16 (of_nat (t mod 15))"

definition trackGap :: "byte list" where
  "trackGap = [0x00, 0x00, 0x00, 0x08, 0x00, 0x00, 0x00, 0x00, 0x00, 0x00, 0x00, 0x00]"

text \<open>The loop over the records from \<open>i\<close> on, with \<open>m\<close> left.\<close>

fun decode_records ::
  "nat \<Rightarrow> (nat \<Rightarrow> int) \<Rightarrow> nat \<Rightarrow> nat \<Rightarrow> byte \<Rightarrow> byte runs \<Rightarrow> run_pos \<Rightarrow> 16 word runs \<Rightarrow> run_pos \<Rightarrow> byte list \<Rightarrow> stdin
     \<Rightarrow> (byte list \<times> stdin) res" where
  "decode_records f rd t 0 i keys kp datas dp buf s = Ok (buf, s)"
| "decode_records f rd t (Suc m) i keys kp datas dp buf s =
     (let key = runValue keys (runIndex kp); data = runValue datas (runIndex dp) in
      res_bind (put (track_id t @ [i + 1, key] @ bytes16 data) buf) (\<lambda>buf.
      res_bind (read_block f rd (unat key) buf s) (\<lambda>(buf, s).
      res_bind (read_block f rd (unat data) buf s) (\<lambda>(buf, s).
        decode_records f rd t m (i + 1) keys (next_pos keys kp) datas (next_pos datas dp) buf s))))"

text \<open>The fence of foxes and the zeros behind it.\<close>

definition close_track :: "byte list \<Rightarrow> byte list res" where
  "close_track buf = res_bind (put (replicate 12 0xFF) buf) (\<lambda>buf. Ok (buf @ replicate (TRACK_SIZE - length buf) 0))"

definition decode_track ::
  "nat \<Rightarrow> (nat \<Rightarrow> int) \<Rightarrow> nat \<Rightarrow> byte \<Rightarrow> byte runs \<Rightarrow> 16 word runs \<Rightarrow> stdin
     \<Rightarrow> (byte list \<times> byte runs \<times> 16 word runs \<times> stdin) res" where
  "decode_track f rd t recordsInTrack keys0 datas0 s =
     res_bind (read_runs f rd 1 hd recordsInTrack 0 (keys0\<lparr>runCount := 0\<rparr>) s) (\<lambda>(keys, s).
     res_bind (read_runs f rd 2 word16 recordsInTrack 0 (datas0\<lparr>runCount := 0\<rparr>) s) (\<lambda>(datas, s).
     res_bind (put (track_id t @ trackGap) []) (\<lambda>buf.
     res_bind (decode_records f rd t (unat recordsInTrack) 0 keys (first_pos keys) datas (first_pos datas) buf s) (\<lambda>(buf, s).
     res_bind (close_track buf) (\<lambda>buf. Ok (buf, keys, datas, s))))))"

text \<open>The main loop; \<open>wr\<close> is the return code of each \<open>write\<close> to the disk.\<close>

fun decode_tracks ::
  "nat \<Rightarrow> (nat \<Rightarrow> int) \<Rightarrow> (nat \<Rightarrow> int) \<Rightarrow> nat \<Rightarrow> byte runs \<Rightarrow> 16 word runs \<Rightarrow> stdin \<Rightarrow> byte list list
     \<Rightarrow> (nat \<times> byte list list) res" where
  "decode_tracks 0 rd wr t keys datas s out = NoFuel"
| "decode_tracks (Suc f) rd wr t keys datas s out =
     (let (returnCode, bs, s) = sys_read rd 1 s in
      if returnCode > 0 then
        res_bind (decode_track f rd t (hd bs) keys datas s) (\<lambda>(track, keys, datas, s).
        if wr t < int TRACK_SIZE then Err 6
        else decode_tracks f rd wr (Suc t) keys datas s (out @ [track]))
      else if returnCode < 0 then Err 5
      else Ok (t, out))"

subsection \<open>Clearing the rest of the disk\<close>

text \<open>
  The template is built in the buffer: the places of the cylinder and track numbers are left as
  they are, \<open>old\<close>, and filled in for every track.
\<close>

definition clear_template :: "byte list \<Rightarrow> byte list res" where
  "clear_template old =
     (let dataCount = (4096 :: 16 word) in
      close_track
        (take 4 old @ trackGap @
         concat (map (\<lambda>i. take 4 (drop (16 + (i - 1) * 4104) old) @ [of_nat i, 0] @ bytes16 dataCount @
                          replicate (unat dataCount) 0) [1..<13])))"

definition patch :: "nat \<Rightarrow> byte list \<Rightarrow> byte list \<Rightarrow> byte list" where
  "patch at bs buf = take at buf @ bs @ drop (at + length bs) buf"

fun patch_records :: "nat \<Rightarrow> nat \<Rightarrow> nat \<Rightarrow> byte list \<Rightarrow> byte list" where
  "patch_records 0 t at buf = buf"
| "patch_records (Suc n) t at buf = patch_records n t (at + (4 + 1 + 1 + 2 + 4096)) (patch at (track_id t) buf)"

definition clear_track :: "nat \<Rightarrow> byte list \<Rightarrow> byte list" where
  "clear_track t buf = patch_records 12 t (4 + length trackGap) (patch 0 (track_id t) buf)"

fun clear_tracks :: "(nat \<Rightarrow> int) \<Rightarrow> nat \<Rightarrow> nat \<Rightarrow> byte list \<Rightarrow> byte list list \<Rightarrow> byte list list res" where
  "clear_tracks wr 0 t buf out = Ok out"
| "clear_tracks wr (Suc n) t buf out =
     (let buf = clear_track t buf in
      if wr t < int TRACK_SIZE then Err 6 else clear_tracks wr n (Suc t) buf (out @ [buf]))"

text \<open>
  \<open>main\<close> of \<open>ckddecode\<close>: the tracks written, or the exit code.  \<open>old\<close> is what the buffer holds
  when it is cleared.
\<close>

definition ckddecode_main ::
  "nat \<Rightarrow> disk_env \<Rightarrow> bool \<Rightarrow> (nat \<Rightarrow> int) \<Rightarrow> (nat \<Rightarrow> int) \<Rightarrow> nat \<Rightarrow> byte list \<Rightarrow> byte list \<Rightarrow> byte list
     \<Rightarrow> byte list list res" where
  "ckddecode_main f env aligned rd wr argumentCount devSize old input =
     (if argumentCount \<noteq> 3 then Err 1
      else
        let cylCount = c_atoi devSize; totalTracks = nat (cylCount * 15 mod 2 ^ 32) in
        if \<not> cylCount > 0 then Err 1
        else if \<not> opens env then Err 2
        else if memalign_rc env \<noteq> 0 then Err 3
        else if \<not> aligned then Err 7
        else
          res_bind (decode_tracks f rd wr 0 (no_runs 0) (no_runs 0) \<lparr>pending = input, reads = 0\<rparr> []) (\<lambda>(t, out).
          if t < totalTracks then
            res_bind (clear_template old) (\<lambda>buf. clear_tracks wr (totalTracks - t) t buf out)
          else Ok out))"

section \<open>Printing: \<open>ckdhex\<close>\<close>

datatype hex_line = Cylinder "16 word" | Track "16 word" | Record byte byte "16 word" | Key "byte list" | Data "byte list"

text \<open>The loop over the records: key and data are copied before the end of the track is recognised.\<close>

function hex_records :: "byte list \<Rightarrow> nat \<Rightarrow> hex_line list res" where
  "hex_records buf at =
     res_bind (record_at buf at) (\<lambda>m.
     res_bind (slice buf (at + 8) (unat (keyCount m))) (\<lambda>keyBuffer.
     res_bind (slice buf (at + 8 + unat (keyCount m)) (unat (dataCount m))) (\<lambda>dataBuffer.
       if recordIndex m = 0xFF then Ok []
       else
         res_bind (hex_records buf (record_end m at)) (\<lambda>rest.
           Ok (Record (recordIndex m) (keyCount m) (dataCount m) # Key keyBuffer # Data dataBuffer # rest)))))"
  by pat_completeness auto

termination
  by (relation "measure (\<lambda>(buf, at). length buf - at)") (auto simp: record_end_def dest: record_at_bound)

declare hex_records.simps [simp del]

text \<open>
  The main loop; \<open>readEnd\<close> is what the \<open>read\<close> after the last track returns.
\<close>

fun hex_tracks :: "int \<Rightarrow> int \<Rightarrow> int \<Rightarrow> bool \<Rightarrow> byte list list \<Rightarrow> hex_line list res" where
  "hex_tracks startTrack endTrack readEnd firstLine [] = (if readEnd < 0 then Err 4 else Ok [])"
| "hex_tracks startTrack endTrack readEnd firstLine (buf # bufs) =
     (let cyl = word16 (take 2 buf); trk = word16 (take 2 (drop 2 buf)); absTrack = 15 * uint cyl + uint trk in
      if absTrack < startTrack then hex_tracks startTrack endTrack readEnd firstLine bufs
      else if absTrack > endTrack then Ok []
      else
        res_bind (hex_records buf TRACK_BEGINNING_OVERHEAD) (\<lambda>ls.
        res_bind (hex_tracks startTrack endTrack readEnd False bufs) (\<lambda>rest.
          Ok ((if trk = 0 \<or> firstLine then [Cylinder cyl] else []) @ [Track trk] @ ls @ rest))))"

definition INT_MAX :: int where "INT_MAX = 2147483647"

definition ckdhex_main :: "disk_env \<Rightarrow> nat \<Rightarrow> byte list \<Rightarrow> byte list \<Rightarrow> byte list list \<Rightarrow> hex_line list res" where
  "ckdhex_main env argumentCount arg2 arg3 tracks =
     (if argumentCount \<noteq> 2 \<and> argumentCount \<noteq> 4 then Err 1
      else
        let startTrack = (if argumentCount = 2 then 0 else c_atoi arg2);
            endTrack = (if argumentCount = 2 then INT_MAX else c_atoi arg3)
        in if \<not> opens env then Err 2
           else if memalign_rc env \<noteq> 0 then Err 3
           else
             res_bind (hex_tracks startTrack endTrack (read_end env) True tracks) (\<lambda>out.
             if \<not> closes env then Err 5 else Ok out))"

end
