(* ===== verification/Cikada_Runs.thy ===== *)
theory Cikada_Runs
  imports Cikada
begin

text \<open>
  The run arrays of the disk image tools as lists of runs: adding a count to the arrays
  (\<open>ckdencode\<close>) appends it to the sequence the runs stand for, reading the runs back
  (\<open>ckddecode\<close>) restores the list, and the position in the arrays moves through the sequence one
  count at a time.
\<close>

section \<open>Runs as lists\<close>

definition runs_list :: "'v runs \<Rightarrow> (byte \<times> 'v) list" where
  "runs_list r = map (\<lambda>i. (runLength r (of_nat i), runValue r (of_nat i))) [0..<unat (runCount r)]"

definition run_sum :: "(byte \<times> 'v) list \<Rightarrow> nat" where
  "run_sum xs = sum_list (map (unat \<circ> fst) xs)"

definition expand :: "(byte \<times> 'v) list \<Rightarrow> 'v list" where
  "expand xs = concat (map (\<lambda>(n, v). replicate (unat n) v) xs)"

definition proper_runs :: "(byte \<times> 'v) list \<Rightarrow> bool" where
  "proper_runs xs \<longleftrightarrow> (\<forall>(n, v) \<in> set xs. n \<noteq> 0)"

definition snoc_run :: "(byte \<times> 'v) list \<Rightarrow> 'v \<Rightarrow> (byte \<times> 'v) list" where
  "snoc_run xs v =
     (if xs \<noteq> [] \<and> snd (last xs) = v then butlast xs @ [(fst (last xs) + 1, v)] else xs @ [(1, v)])"

definition rle :: "'v list \<Rightarrow> (byte \<times> 'v) list" where
  "rle vs = foldl snoc_run [] vs"

lemma run_sum_simps [simp]:
  "run_sum [] = 0" "run_sum ((n, v) # xs) = unat n + run_sum xs" "run_sum (xs @ ys) = run_sum xs + run_sum ys"
  by (simp_all add: run_sum_def)

lemma expand_simps [simp]:
  "expand [] = []" "expand ((n, v) # xs) = replicate (unat n) v @ expand xs"
  "expand (xs @ ys) = expand xs @ expand ys"
  by (simp_all add: expand_def)

lemma proper_runs_simps [simp]:
  "proper_runs []" "proper_runs ((n, v) # xs) \<longleftrightarrow> n \<noteq> 0 \<and> proper_runs xs"
  "proper_runs (xs @ ys) \<longleftrightarrow> proper_runs xs \<and> proper_runs ys"
  by (auto simp: proper_runs_def)

lemma length_expand: "length (expand xs) = run_sum xs"
  by (induction xs) auto

lemma proper_runs_length: "proper_runs xs \<Longrightarrow> length xs \<le> run_sum xs"
proof (induction xs)
  case (Cons x xs)
  moreover obtain n v where "x = (n, v)" by fastforce
  moreover have "n \<noteq> 0 \<Longrightarrow> 0 < unat n" by (simp add: unat_gt_0)
  ultimately show ?case by auto
qed simp

lemma unat_byte: "unat (n :: byte) < 256"
proof -
  have "unat n < 2 ^ LENGTH(8)" by (rule unsigned_less)
  then show ?thesis by simp
qed

lemma unat_plus1: "unat (n :: byte) < 255 \<Longrightarrow> unat (n + 1) = Suc (unat n)"
  by (simp add: unat_word_ariths)

lemma Suc_unat_pred: "n \<noteq> 0 \<Longrightarrow> Suc (unat (n - 1)) = unat (n :: byte)"
  using unat_gt_0[of n] by (simp add: unat_minus_one)

lemma length_runs_list [simp]: "length (runs_list r) = unat (runCount r)"
  by (simp add: runs_list_def)

lemma runs_list_nth:
  "i < runCount r \<Longrightarrow> runs_list r ! unat i = (runLength r i, runValue r i)"
  by (simp add: runs_list_def word_less_nat_alt)

lemma runs_list_no [simp]: "runs_list (r\<lparr>runCount := 0\<rparr>) = []"
  by (simp add: runs_list_def)

section \<open>Adding a count\<close>

lemma snoc_run_expand:
  assumes "proper_runs xs" and "run_sum xs < 255"
  shows "expand (snoc_run xs v) = expand xs @ [v]" and "proper_runs (snoc_run xs v)"
    and "run_sum (snoc_run xs v) = Suc (run_sum xs)"
proof -
  have "expand (snoc_run xs v) = expand xs @ [v] \<and> proper_runs (snoc_run xs v) \<and>
        run_sum (snoc_run xs v) = Suc (run_sum xs)"
  proof (cases xs rule: rev_cases)
    case Nil
    then show ?thesis by (simp add: snoc_run_def)
  next
    case (snoc ys y)
    obtain n u where y: "y = (n, u)" by fastforce
    have "unat n < 255" using assms(2) snoc y by simp
    then have "unat (n + 1) = Suc (unat n)" by (rule unat_plus1)
    moreover from this have "n + 1 \<noteq> 0" by (metis nat.distinct(1) unat_0)
    ultimately show ?thesis
      using assms snoc y by (auto simp: snoc_run_def replicate_append_same)
  qed
  then show "expand (snoc_run xs v) = expand xs @ [v]" and "proper_runs (snoc_run xs v)"
    and "run_sum (snoc_run xs v) = Suc (run_sum xs)" by auto
qed

lemma rle_snoc: "rle (vs @ [v]) = snoc_run (rle vs) v"
  by (simp add: rle_def)

lemma rle_expand:
  "length vs \<le> 255 \<Longrightarrow> expand (rle vs) = vs \<and> proper_runs (rle vs) \<and> run_sum (rle vs) = length vs"
proof (induction vs rule: rev_induct)
  case Nil
  then show ?case by (simp add: rle_def)
next
  case (snoc v vs)
  then show ?case by (simp add: rle_snoc snoc_run_expand)
qed

lemma runs_list_snoc:
  assumes "unat (runCount r) < 255"
  shows "runs_list (r\<lparr>runLength := (runLength r)(runCount r := n), runValue := (runValue r)(runCount r := v),
                     runCount := runCount r + 1\<rparr>) = runs_list r @ [(n, v)]"
proof -
  have "(of_nat i :: byte) \<noteq> runCount r" if "i < unat (runCount r)" for i
    using that by (metis le_unat_uoi less_imp_le_nat nat_neq_iff)
  then show ?thesis using assms by (auto simp: runs_list_def unat_plus1)
qed

lemma runs_list_butlast:
  assumes "runCount r \<noteq> 0"
  shows "runs_list r = butlast (runs_list r) @ [(runLength r (runCount r - 1), runValue r (runCount r - 1))]"
    and "runs_list (r\<lparr>runLength := (runLength r)(runCount r - 1 := n)\<rparr>) =
           butlast (runs_list r) @ [(n, runValue r (runCount r - 1))]"
proof -
  obtain m where m: "unat (runCount r) = Suc m"
    using assms by (metis not0_implies_Suc unat_eq_zero)
  have "runCount r = of_nat (unat (runCount r))" by simp
  then have c: "runCount r - 1 = of_nat m" unfolding m by simp
  have "m < 256" using m unat_byte[of "runCount r"] by simp
  then have "(of_nat i :: byte) \<noteq> of_nat m" if "i < m" for i
    using that by (simp add: word_unat_eq_iff unat_of_nat)
  then show "runs_list r = butlast (runs_list r) @ [(runLength r (runCount r - 1), runValue r (runCount r - 1))]"
    and "runs_list (r\<lparr>runLength := (runLength r)(runCount r - 1 := n)\<rparr>) =
           butlast (runs_list r) @ [(n, runValue r (runCount r - 1))]"
    by (auto simp: runs_list_def m c)
qed

lemma runs_list_add_run:
  assumes "unat (runCount r) < 255"
  shows "runs_list (add_run v r) = snoc_run (runs_list r) v"
proof (cases "runCount r = 0")
  case True
  then show ?thesis
    using runs_list_snoc[OF assms, where n = 1 and v = v] by (simp add: add_run_def snoc_run_def runs_list_def)
next
  case False
  note b = runs_list_butlast[OF False]
  have l: "runs_list r \<noteq> []" "last (runs_list r) = (runLength r (runCount r - 1), runValue r (runCount r - 1))"
    using b(1) by (metis append_is_Nil_conv list.distinct(1), metis last_snoc)
  show ?thesis
    using False l b(2) runs_list_snoc[OF assms, where n = 1 and v = v] by (auto simp: add_run_def snoc_run_def)
qed

section \<open>Reading\<close>

lemma sys_read_ok:
  assumes "\<forall>k. 0 \<le> rd k" and "0 < n" and "pending s = bs @ rest" and "n = length bs"
  shows "\<exists>k s'. 0 < k \<and> k \<le> n \<and> sys_read rd n s = (int k, take k bs, s') \<and> pending s' = drop k bs @ rest"
proof -
  let ?k = "min n (nat (max 1 (rd (reads s))))"
  have "0 < ?k" and "?k \<le> n" using assms(2) by auto
  moreover have "sys_read rd n s = (int ?k, take ?k bs, s\<lparr>pending := drop ?k bs @ rest, reads := Suc (reads s)\<rparr>)"
    using assms by (simp add: sys_read_def Let_def not_less)
  ultimately show ?thesis by fastforce
qed

lemma readNBytes_ok:
  assumes "\<forall>k. 0 \<le> rd k"
  shows "pending s = bs @ rest \<Longrightarrow> length acc + length bs = n \<Longrightarrow> length bs < f \<Longrightarrow>
    \<exists>s'. readNBytesFromStdin f rd n acc s = Ok (0, acc @ bs, s') \<and> pending s' = rest"
proof (induction f arbitrary: acc bs s)
  case (Suc f)
  show ?case
  proof (cases "bs = []")
    case True
    then show ?thesis using Suc.prems by simp
  next
    case False
    then have "0 < length bs" by simp
    then obtain k s1 where k: "0 < k" "k \<le> length bs" "sys_read rd (length bs) s = (int k, take k bs, s1)"
        "pending s1 = drop k bs @ rest"
      using sys_read_ok[OF assms _ Suc.prems(1) refl] by blast
    have "\<exists>s'. readNBytesFromStdin f rd n (acc @ take k bs) s1 = Ok (0, (acc @ take k bs) @ drop k bs, s') \<and>
            pending s' = rest"
      using k Suc.prems by (intro Suc.IH) auto
    moreover have "length acc < n" "n - length acc = length bs" using Suc.prems(2) False by auto
    ultimately show ?thesis using k(3) by simp
  qed
qed simp

lemma put_append: "res_bind (put xs buf) (put ys) = put (xs @ ys) buf"
  by (simp add: put_def)

lemma read_block_put:
  assumes "\<forall>k. 0 \<le> rd k"
  shows "pending s = bs @ rest \<Longrightarrow> length buf \<le> TRACK_SIZE \<Longrightarrow> length bs < f \<Longrightarrow>
    \<exists>s'. read_block f rd (length bs) buf s = res_bind (put bs buf) (\<lambda>buf. Ok (buf, s')) \<and> pending s' = rest"
proof (induction f arbitrary: buf bs s)
  case (Suc f)
  show ?case
  proof (cases "bs = []")
    case True
    then show ?thesis using Suc.prems by (simp add: put_def)
  next
    case False
    then have "0 < length bs" by simp
    then obtain k s1 where k: "0 < k" "k \<le> length bs" "sys_read rd (length bs) s = (int k, take k bs, s1)"
        "pending s1 = drop k bs @ rest"
      using sys_read_ok[OF assms _ Suc.prems(1) refl] by blast
    show ?thesis
    proof (cases "length buf + k \<le> TRACK_SIZE")
      case True
      have "\<exists>s'. read_block f rd (length (drop k bs)) (buf @ take k bs) s1 =
              res_bind (put (drop k bs) (buf @ take k bs)) (\<lambda>buf. Ok (buf, s')) \<and> pending s' = rest"
        using k Suc.prems True by (intro Suc.IH) auto
      then show ?thesis using k False True by (auto simp: put_def split: if_splits)
    next
      case False
      then have "put (take k bs) buf = Fault" "put bs buf = Fault" using k(2) by (auto simp: put_def)
      moreover have "\<exists>s' :: stdin. pending s' = rest" by (metis stdin.select_convs(1))
      ultimately show ?thesis using k \<open>bs \<noteq> []\<close> by simp
    qed
  qed
qed simp

definition run_bytes :: "('v \<Rightarrow> byte list) \<Rightarrow> (byte \<times> 'v) list \<Rightarrow> byte list" where
  "run_bytes enc xs = concat (map (\<lambda>(n, v). n # enc v) xs)"

lemma run_bytes_simps [simp]:
  "run_bytes enc [] = []" "run_bytes enc ((n, v) # xs) = n # enc v @ run_bytes enc xs"
  by (simp_all add: run_bytes_def)

lemma run_writes_bytes: "concat (run_writes enc r) = run_bytes enc (runs_list r)"
proof -
  have "concat (concat (map (\<lambda>i. [[f i], g i]) is)) = concat (map (\<lambda>(n, v). n # enc v) (map (\<lambda>i. (f i, h i)) is))"
    if "\<And>i. g i = enc (h i)" for f :: "nat \<Rightarrow> byte" and g h "is"
    using that by (induction "is") auto
  then show ?thesis by (simp add: run_writes_def run_bytes_def runs_list_def)
qed

lemma read_runs_ok:
  assumes rd: "\<forall>k. 0 \<le> rd k" and dec: "\<And>v. length (enc v) = width \<and> dec (enc v) = v"
  shows "pending s = run_bytes enc xs @ rest \<Longrightarrow> proper_runs xs \<Longrightarrow> unat total0 + run_sum xs = unat n \<Longrightarrow>
    unat (runCount r) + length xs \<le> 255 \<Longrightarrow> length xs + width + 1 < f \<Longrightarrow>
    \<exists>r' s'. read_runs f rd width dec n total0 r s = Ok (r', s') \<and> runs_list r' = runs_list r @ xs \<and> pending s' = rest"
proof (induction xs arbitrary: s total0 r f)
  case Nil
  then obtain g where "f = Suc g" by (cases f) auto
  moreover have "\<not> total0 < n" using Nil by (simp add: word_less_nat_alt)
  ultimately show ?case using Nil by simp
next
  case (Cons x xs)
  obtain l v where x: "x = (l, v)" by fastforce
  obtain g where f: "f = Suc g" using Cons.prems by (cases f) auto
  have l: "0 < unat l" using Cons.prems(2) x by (simp add: unat_gt_0)
  have "unat n < 256" by (rule unat_byte)
  then have t: "unat (total0 + l) = unat total0 + unat l"
    using Cons.prems(3) x by (simp add: unat_word_ariths)
  have less: "total0 < n" using l Cons.prems(3) x by (simp add: word_less_nat_alt)
  obtain s1 where s1: "readNBytesFromStdin g rd 1 [] s = Ok (0, [l], s1)"
      "pending s1 = enc v @ run_bytes enc xs @ rest"
    using readNBytes_ok[OF rd, of s "[l]" "enc v @ run_bytes enc xs @ rest" "[]" 1 g] Cons.prems x f by auto
  obtain s2 where s2: "readNBytesFromStdin g rd width [] s1 = Ok (0, enc v, s2)" "pending s2 = run_bytes enc xs @ rest"
    using readNBytes_ok[OF rd, of s1 "enc v" "run_bytes enc xs @ rest" "[]" width g] s1(2) dec Cons.prems x f by auto
  let ?r = "r\<lparr>runLength := (runLength r)(runCount r := l), runValue := (runValue r)(runCount r := v),
              runCount := runCount r + 1\<rparr>"
  have c: "unat (runCount r) < 255" using Cons.prems(4) by simp
  have "\<exists>r' s'. read_runs g rd width dec n (total0 + l) ?r s2 = Ok (r', s') \<and> runs_list r' = runs_list ?r @ xs \<and>
          pending s' = rest"
    using s2(2) Cons.prems x t f by (intro Cons.IH) (auto simp: unat_plus1[OF c])
  moreover have "runs_list ?r = runs_list r @ [x]" unfolding x by (rule runs_list_snoc[OF c])
  ultimately show ?case using s1(1) s2(1) dec less by (simp add: f)
qed

section \<open>Walking through the runs\<close>

definition at_pos :: "'v runs \<Rightarrow> run_pos \<Rightarrow> 'v list \<Rightarrow> bool" where
  "at_pos r p vs \<longleftrightarrow> vs = [] \<or>
     runIndex p < runCount r \<and>
     vs = replicate (Suc (unat (runRemaining p))) (runValue r (runIndex p)) @
          expand (drop (Suc (unat (runIndex p))) (runs_list r))"

lemma at_pos_start:
  assumes "proper_runs (runs_list r)" and i: "i < runCount r"
  shows "at_pos r \<lparr>runIndex = i, runRemaining = runLength r i - 1\<rparr> (expand (drop (unat i) (runs_list r)))"
proof -
  have "unat i < length (runs_list r)" using i by (simp add: word_less_nat_alt)
  then have d: "drop (unat i) (runs_list r) = (runLength r i, runValue r i) # drop (Suc (unat i)) (runs_list r)"
    by (simp add: Cons_nth_drop_Suc[symmetric] runs_list_nth[OF i])
  then have "(runLength r i, runValue r i) \<in> set (runs_list r)" by (metis in_set_dropD list.set_intros(1))
  then have "runLength r i \<noteq> 0" using assms(1) by (auto simp: proper_runs_def)
  then have "Suc (unat (runLength r i - 1)) = unat (runLength r i)"
    by (rule Suc_unat_pred)
  then show ?thesis using i by (simp add: at_pos_def d del: replicate_Suc)
qed

lemma at_pos_first: "proper_runs (runs_list r) \<Longrightarrow> at_pos r (first_pos r) (expand (runs_list r))"
  using at_pos_start[of r 0] by (cases "runCount r = 0") (auto simp: first_pos_def at_pos_def runs_list_def word_gt_0)

lemma at_pos_next:
  assumes "proper_runs (runs_list r)" and "at_pos r p (v # vs)"
  shows "runValue r (runIndex p) = v" and "at_pos r (next_pos r p) vs"
proof -
  have i: "runIndex p < runCount r" and vs: "v = runValue r (runIndex p)"
      "vs = replicate (unat (runRemaining p)) (runValue r (runIndex p)) @
            expand (drop (Suc (unat (runIndex p))) (runs_list r))"
    using assms(2) by (auto simp: at_pos_def)
  show "runValue r (runIndex p) = v" using vs(1) by simp
  show "at_pos r (next_pos r p) vs"
  proof (cases "runRemaining p = 0")
    case True
    have "unat (runIndex p) < 255" using i unat_byte[of "runCount r"] by (simp add: word_less_nat_alt)
    then have s: "unat (runIndex p + 1) = Suc (unat (runIndex p))" by (rule unat_plus1)
    show ?thesis
    proof (cases "runIndex p + 1 < runCount r")
      case True
      then show ?thesis
        using at_pos_start[OF assms(1) True] \<open>runRemaining p = 0\<close> vs(2) by (simp add: next_pos_def s)
    next
      case False
      then have "unat (runCount r) \<le> Suc (unat (runIndex p))" by (simp add: word_less_nat_alt s)
      then show ?thesis using True vs(2) by (simp add: at_pos_def)
    qed
  next
    case False
    then have "Suc (unat (runRemaining p - 1)) = unat (runRemaining p)"
      by (rule Suc_unat_pred)
    then show ?thesis using False i vs(2) by (simp add: at_pos_def next_pos_def del: replicate_Suc)
  qed
qed

end
