(* ===== verification/Cikada_Tracks.thy ===== *)
theory Cikada_Tracks
  imports Cikada_Runs
begin

text \<open>
  The tracks of a disk as sequences of records, their layout in a track buffer and their
  CiKaDa stream: \<open>ckdencode\<close> turns the one into the other, and \<open>ckddecode\<close> turns it back.
\<close>

section \<open>Layouts\<close>

type_synonym ckd_record = "byte list \<times> byte list"

definition record_ok :: "ckd_record \<Rightarrow> bool" where
  "record_ok r \<longleftrightarrow> length (fst r) < 256 \<and> length (snd r) < 65536"

definition key_count :: "ckd_record \<Rightarrow> byte" where
  "key_count r = of_nat (length (fst r))"

definition data_count :: "ckd_record \<Rightarrow> 16 word" where
  "data_count r = of_nat (length (snd r))"

definition header_image :: "nat \<Rightarrow> byte \<Rightarrow> byte \<Rightarrow> 16 word \<Rightarrow> byte list" where
  "header_image t i k d = track_id t @ [i, k] @ bytes16 d"

fun records_image :: "nat \<Rightarrow> nat \<Rightarrow> ckd_record list \<Rightarrow> byte list" where
  "records_image t i [] = []"
| "records_image t i (r # rs) =
     header_image t (of_nat i) (key_count r) (data_count r) @ fst r @ snd r @ records_image t (Suc i) rs"

definition track_bytes :: "nat \<Rightarrow> ckd_record list \<Rightarrow> byte list" where
  "track_bytes t rs = track_id t @ trackGap @ records_image t 1 rs @ replicate 12 0xFF"

definition track_image :: "nat \<Rightarrow> ckd_record list \<Rightarrow> byte list" where
  "track_image t rs = track_bytes t rs @ replicate (TRACK_SIZE - length (track_bytes t rs)) 0"

definition counts_ok :: "ckd_record list \<Rightarrow> bool" where
  "counts_ok rs \<longleftrightarrow> length rs \<le> 254 \<and> list_all record_ok rs"

definition track_fits :: "ckd_record list \<Rightarrow> bool" where
  "track_fits rs \<longleftrightarrow> 28 + sum_list (map (\<lambda>r. 8 + length (fst r) + length (snd r)) rs) \<le> TRACK_SIZE"

definition track_ok :: "ckd_record list \<Rightarrow> bool" where
  "track_ok rs \<longleftrightarrow> counts_ok rs \<and> track_fits rs"

definition track_stream :: "ckd_record list \<Rightarrow> byte list" where
  "track_stream rs =
     of_nat (length rs) # run_bytes (\<lambda>v. [v]) (rle (map key_count rs)) @ run_bytes bytes16 (rle (map data_count rs)) @
     concat (map (\<lambda>r. fst r @ snd r) rs)"

lemma bytes16_props: "length (bytes16 w) = 2" "word16 (bytes16 w) = w"
  using uint_bounded[of w] by (simp_all add: bytes16_def word16_def be_val_be_bytes)

lemma length_track_id [simp]: "length (track_id t) = 4"
  by (simp add: track_id_def bytes16_props)

lemma length_header_image [simp]: "length (header_image t i k d) = 8"
  by (simp add: header_image_def bytes16_props)

lemma length_trackGap [simp]: "length trackGap = 12"
  by (simp add: trackGap_def)

lemma length_records_image:
  "length (records_image t i rs) = sum_list (map (\<lambda>r. 8 + length (fst r) + length (snd r)) rs)"
  by (induction rs arbitrary: i) auto

lemma length_track_bytes:
  "length (track_bytes t rs) = 28 + sum_list (map (\<lambda>r. 8 + length (fst r) + length (snd r)) rs)"
  by (simp add: track_bytes_def length_records_image)

lemma length_track_image: "track_ok rs \<Longrightarrow> length (track_image t rs) = TRACK_SIZE"
  by (simp add: track_image_def length_track_bytes track_ok_def track_fits_def)

lemma unat_key_count: "record_ok r \<Longrightarrow> unat (key_count r) = length (fst r)"
  by (simp add: record_ok_def key_count_def unat_of_nat)

lemma unat_data_count: "record_ok r \<Longrightarrow> unat (data_count r) = length (snd r)"
  by (simp add: record_ok_def data_count_def unat_of_nat)

section \<open>Reading a record of a buffer\<close>

lemma slice_mid [simp]: "slice (pre @ bs @ post) (length pre) (length bs) = Ok bs"
  by (simp add: slice_def)

lemma slice_at: "n = length bs \<Longrightarrow> at = length pre \<Longrightarrow> slice (pre @ bs @ post) at n = Ok bs"
  by simp

lemma record_at_header:
  "record_at (pre @ header_image t i k d @ post) (length pre) =
     Ok \<lparr>cylinderIndex = of_nat (t div 15), trackIndex = of_nat (t mod 15), recordIndex = i, keyCount = k,
         dataCount = d\<rparr>"
proof -
  show ?thesis
    using slice_mid[of pre "header_image t i k d" post] bytes16_props
    by (simp add: record_at_def header_image_def track_id_def nth_append)
qed

lemma fence_split:
  "replicate 12 (0xFF :: byte) = [0xFF, 0xFF, 0xFF, 0xFF, 0xFF, 0xFF, 0xFF, 0xFF] @ replicate 4 0xFF"
  by (simp add: numeral_eq_Suc)

lemma word16_foxes: "word16 [0xFF, 0xFF] = 0xFFFF"
  by (simp add: word16_def be_val_def)

lemma record_at_fence:
  "record_at (pre @ replicate 12 0xFF @ post) (length pre) =
     Ok \<lparr>cylinderIndex = 0xFFFF, trackIndex = 0xFFFF, recordIndex = 0xFF, keyCount = 0xFF, dataCount = 0xFFFF\<rparr>"
proof -
  let ?h = "[0xFF, 0xFF, 0xFF, 0xFF, 0xFF, 0xFF, 0xFF, (0xFF :: byte)]"
  have "slice (pre @ ?h @ (replicate 4 0xFF @ post)) (length pre) 8 = Ok ?h"
    by (rule slice_at) simp_all
  then show ?thesis by (simp add: fence_split record_at_def word16_foxes)
qed

section \<open>Encoding\<close>

definition add_runs :: "'v list \<Rightarrow> 'v runs \<Rightarrow> 'v runs" where
  "add_runs vs r = foldl (\<lambda>r v. add_run v r) r vs"

lemma add_runs_simps [simp]: "add_runs [] r = r" "add_runs (v # vs) r = add_runs vs (add_run v r)"
  by (simp_all add: add_runs_def)

lemma runs_list_add_runs:
  "runs_list r = rle us \<Longrightarrow> length us + length vs \<le> 255 \<Longrightarrow> runs_list (add_runs vs r) = rle (us @ vs)"
proof (induction vs arbitrary: us r)
  case (Cons v vs)
  have "length (rle us) \<le> length us"
    using proper_runs_length[of "rle us"] rle_expand[of us] Cons.prems(2) by simp
  then have "unat (runCount r) < 255"
    using Cons.prems by (metis length_runs_list length_Cons add_Suc_right Suc_le_lessD le_add1 le_less_trans le_trans)
  then have "runs_list (add_run v r) = rle (us @ [v])"
    using Cons.prems(1) by (simp add: runs_list_add_run rle_snoc)
  from Cons.IH[OF this] Cons.prems(2) show ?case by simp
qed simp

lemma of_nat_not_fence: "i < 255 \<Longrightarrow> (of_nat i :: byte) \<noteq> 0xFF"
  by (simp add: word_unat_eq_iff unat_of_nat)

lemma scan_records_image:
  "i + length rs \<le> 255 \<Longrightarrow> list_all record_ok rs \<Longrightarrow>
   scan_records (pre @ records_image t i rs @ replicate 12 0xFF @ post) (length pre) keys datas n =
     Ok (add_runs (map key_count rs) keys, add_runs (map data_count rs) datas,
         if rs = [] then n else of_nat (i + length rs - 1))"
proof (induction rs arbitrary: pre i keys datas n)
  case Nil
  then show ?case by (subst scan_records.simps) (simp add: record_at_fence)
next
  case (Cons r rs)
  let ?pre = "pre @ header_image t (of_nat i) (key_count r) (data_count r) @ fst r @ snd r"
  have "i < 255" using Cons.prems(1) by simp
  note step = of_nat_not_fence[OF this]
  have IH: "scan_records (?pre @ records_image t (Suc i) rs @ replicate 12 0xFF @ post) (length ?pre)
      (add_run (key_count r) keys) (add_run (data_count r) datas) (of_nat i) =
     Ok (add_runs (map key_count rs) (add_run (key_count r) keys),
         add_runs (map data_count rs) (add_run (data_count r) datas),
         if rs = [] then of_nat i else of_nat (Suc i + length rs - 1))"
    using Cons.prems by (intro Cons.IH) auto
  have r: "record_ok r" using Cons.prems(2) by simp
  show ?case
    using IH step r
    by (subst scan_records.simps) (simp add: record_at_header record_end_def unat_key_count unat_data_count add.assoc)
qed

lemma record_writes_image:
  "i + length rs \<le> 255 \<Longrightarrow> list_all record_ok rs \<Longrightarrow>
   record_writes (pre @ records_image t i rs @ replicate 12 0xFF @ post) (length pre) =
     Ok (concat (map (\<lambda>r. [fst r, snd r]) rs))"
proof (induction rs arbitrary: pre i)
  case Nil
  then show ?case by (subst record_writes.simps) (simp add: record_at_fence)
next
  case (Cons r rs)
  let ?h = "header_image t (of_nat i) (key_count r) (data_count r)"
  let ?post = "records_image t (Suc i) rs @ replicate 12 0xFF @ post"
  let ?pre = "pre @ ?h @ fst r @ snd r"
  have "i < 255" using Cons.prems(1) by simp
  note step = of_nat_not_fence[OF this]
  have IH: "record_writes (?pre @ ?post) (length ?pre) = Ok (concat (map (\<lambda>r. [fst r, snd r]) rs))"
    using Cons.prems by (intro Cons.IH) auto
  have r: "record_ok r" using Cons.prems(2) by simp
  have "slice ((pre @ ?h) @ fst r @ (snd r @ ?post)) (length pre + 8) (length (fst r)) = Ok (fst r)"
    by (rule slice_at) simp_all
  moreover have "slice ((pre @ ?h @ fst r) @ snd r @ ?post) (length pre + 8 + length (fst r)) (length (snd r)) = Ok (snd r)"
    by (rule slice_at) simp_all
  ultimately show ?case
    using IH step r
    by (subst record_writes.simps) (simp add: record_at_header record_end_def unat_key_count unat_data_count add.assoc)
qed

lemma encode_track_image:
  assumes "track_ok rs"
  shows "\<exists>ws keys' datas'. encode_track keys datas (track_image t rs) = Ok (ws, keys', datas') \<and>
    concat ws = track_stream rs \<and> (\<forall>w \<in> set ws. length w < 65536)"
proof -
  have ok: "1 + length rs \<le> 255" "list_all record_ok rs" using assms by (auto simp: track_ok_def counts_ok_def)
  let ?post = "replicate (TRACK_SIZE - length (track_bytes t rs)) 0"
  have img: "track_image t rs = (track_id t @ trackGap) @ records_image t 1 rs @ replicate 12 0xFF @ ?post"
    by (simp add: track_image_def track_bytes_def)
  have at: "TRACK_BEGINNING_OVERHEAD = length (track_id t @ trackGap)"
    by (simp add: TRACK_BEGINNING_OVERHEAD_def)
  let ?k = "add_runs (map key_count rs) (keys\<lparr>runCount := 0\<rparr>)"
  let ?d = "add_runs (map data_count rs) (datas\<lparr>runCount := 0\<rparr>)"
  let ?ws = "[of_nat (length rs)] # run_writes (\<lambda>v. [v]) ?k @ run_writes bytes16 ?d @
    concat (map (\<lambda>r. [fst r, snd r]) rs)"
  have l: "runs_list ?k = rle (map key_count rs)" "runs_list ?d = rle (map data_count rs)"
    using runs_list_add_runs[of "keys\<lparr>runCount := 0\<rparr>" "[]" "map key_count rs"]
      runs_list_add_runs[of "datas\<lparr>runCount := 0\<rparr>" "[]" "map data_count rs"] ok(1) by (simp_all add: rle_def)
  have "encode_track keys datas (track_image t rs) = Ok (?ws, ?k, ?d)"
    unfolding encode_track_def img at scan_records_image[OF ok] record_writes_image[OF ok] by simp
  moreover have "concat ?ws = track_stream rs"
  proof -
    have "concat (concat (map (\<lambda>r. [fst r, snd r]) rs)) = concat (map (\<lambda>r. fst r @ snd r) rs)"
      by (induction rs) auto
    then show ?thesis by (simp add: track_stream_def run_writes_bytes l)
  qed
  moreover have "\<forall>w \<in> set ?ws. length w < 65536"
    using ok(2) by (auto simp: run_writes_def bytes16_props record_ok_def list_all_iff)
  ultimately show ?thesis by blast
qed

lemma write_all_ok:
  "\<forall>k. 65535 \<le> wr k \<Longrightarrow> \<forall>w \<in> set ws. length w < 65536 \<Longrightarrow>
   write_all wr k ws out = Ok (k + length ws, out @ concat ws)"
proof (induction ws arbitrary: k out)
  case (Cons w ws)
  have wr: "65535 \<le> wr k" using Cons.prems(1) by blast
  then have "\<not> wr k < 0" by simp
  moreover have "length w \<le> nat (wr k)" using wr Cons.prems(2) by fastforce
  ultimately show ?case using Cons by simp
qed simp

lemma encode_tracks_image:
  "\<forall>k. 65535 \<le> wr k \<Longrightarrow> list_all track_ok trs \<Longrightarrow>
   encode_tracks wr k keys datas (map (\<lambda>(t, rs). track_image t rs) (zip ts trs)) out =
     Ok (out @ concat (map track_stream (take (length ts) trs)))"
proof (induction ts arbitrary: trs k keys datas out)
  case (Cons t ts)
  show ?case
  proof (cases trs)
    case (Cons rs rss)
    then have "track_ok rs" using Cons.prems(2) by simp
    from encode_track_image[OF this, of keys datas t] obtain ws keys' datas'
      where "encode_track keys datas (track_image t rs) = Ok (ws, keys', datas')"
        and "concat ws = track_stream rs" "\<forall>w \<in> set ws. length w < 65536" by blast
    then show ?thesis
      using Cons Cons.IH[of rss] Cons.prems by (simp add: write_all_ok)
  qed simp
qed simp

end
