(* ===== verification/Cikada_Roundtrip.thy ===== *)
theory Cikada_Roundtrip
  imports Cikada_Tracks
begin

text \<open>
  \<open>ckddecode\<close> writes the tracks that \<open>ckdencode\<close> read, and blank tracks behind them; a truncated
  stream makes it wait for ever; \<open>ckdhex\<close> reads behind its buffer on every track.
\<close>

section \<open>Decoding\<close>

lemma read_record_put:
  assumes rd: "\<forall>k. 0 \<le> rd k" and l: "length key < f" "length data < f" and s: "pending s = key @ data @ rest"
  shows "\<exists>s'. res_bind (put h buf) (\<lambda>buf. res_bind (read_block f rd (length key) buf s) (\<lambda>(buf, s).
      read_block f rd (length data) buf s)) = res_bind (put (h @ key @ data) buf) (\<lambda>buf. Ok (buf, s')) \<and> pending s' = rest"
proof (cases "put h buf = Fault")
  case True
  moreover have "\<exists>s' :: stdin. pending s' = rest" by (metis stdin.select_convs(1))
  ultimately show ?thesis by (auto simp: put_def split: if_splits)
next
  case False
  then have h: "put h buf = Ok (buf @ h)" "length (buf @ h) \<le> TRACK_SIZE" by (auto simp: put_def split: if_splits)
  obtain s1 where s1: "read_block f rd (length key) (buf @ h) s = res_bind (put key (buf @ h)) (\<lambda>buf. Ok (buf, s1))"
      "pending s1 = data @ rest"
    using read_block_put[OF rd s h(2) l(1)] by blast
  show ?thesis
  proof (cases "length (buf @ h @ key) \<le> TRACK_SIZE")
    case True
    have "\<exists>s'. read_block f rd (length data) (buf @ h @ key) s1 = res_bind (put data (buf @ h @ key)) (\<lambda>buf. Ok (buf, s')) \<and>
        pending s' = rest"
      by (rule read_block_put[OF rd s1(2) True l(2)])
    then show ?thesis using h(1) s1(1) True by (auto simp: put_def add.assoc split: if_splits)
  next
    case False
    moreover have "\<exists>s' :: stdin. pending s' = rest" by (metis stdin.select_convs(1))
    ultimately show ?thesis using h(1) s1(1) by (auto simp: put_def split: if_splits)
  qed
qed

lemma decode_records_stream:
  assumes rd: "\<forall>k. 0 \<le> rd k" and f: "65536 \<le> f"
    and proper: "proper_runs (runs_list keys)" "proper_runs (runs_list datas)"
  shows "list_all record_ok rs \<Longrightarrow> at_pos keys kp (map key_count rs) \<Longrightarrow> at_pos datas dp (map data_count rs) \<Longrightarrow>
    length buf \<le> TRACK_SIZE \<Longrightarrow> pending s = concat (map (\<lambda>r. fst r @ snd r) rs) @ rest \<Longrightarrow>
    \<exists>s'. decode_records f rd t (length rs) (of_nat i) keys kp datas dp buf s =
      res_bind (put (records_image t (Suc i) rs) buf) (\<lambda>buf. Ok (buf, s')) \<and> pending s' = rest"
proof (induction rs arbitrary: i kp dp buf s)
  case Nil
  then show ?case by (auto simp: put_def)
next
  case (Cons r rs)
  let ?h = "header_image t (of_nat (Suc i)) (key_count r) (data_count r)"
  let ?rest = "concat (map (\<lambda>r. fst r @ snd r) rs) @ rest"
  let ?next = "decode_records f rd t (length rs) (of_nat (Suc i)) keys (next_pos keys kp) datas (next_pos datas dp)"
  have r: "record_ok r" "list_all record_ok rs" using Cons.prems(1) by auto
  have kp: "runValue keys (runIndex kp) = key_count r" "at_pos keys (next_pos keys kp) (map key_count rs)"
    and dp: "runValue datas (runIndex dp) = data_count r" "at_pos datas (next_pos datas dp) (map data_count rs)"
    using at_pos_next[OF proper(1)] at_pos_next[OF proper(2)] Cons.prems(2,3) by auto
  have l: "length (fst r) < f" "length (snd r) < f" using r(1) f by (auto simp: record_ok_def)
  have p0: "pending s = fst r @ snd r @ ?rest" using Cons.prems(5) by simp
  obtain s1 where s1: "res_bind (put ?h buf) (\<lambda>buf. res_bind (read_block f rd (length (fst r)) buf s) (\<lambda>(buf, s).
      read_block f rd (length (snd r)) buf s)) = res_bind (put (?h @ fst r @ snd r) buf) (\<lambda>buf. Ok (buf, s1))"
      "pending s1 = ?rest"
    using read_record_put[OF rd l p0] by blast
  have "decode_records f rd t (length (r # rs)) (of_nat i) keys kp datas dp buf s =
      res_bind (res_bind (put ?h buf) (\<lambda>buf. res_bind (read_block f rd (length (fst r)) buf s) (\<lambda>(buf, s).
        read_block f rd (length (snd r)) buf s))) (\<lambda>(buf, s). ?next buf s)"
    by (simp add: Let_def kp(1) dp(1) unat_key_count[OF r(1)] unat_data_count[OF r(1)] res_bind_assoc case_prod_unfold
        header_image_def add.commute)
  also have "\<dots> = res_bind (put (?h @ fst r @ snd r) buf) (\<lambda>buf. ?next buf s1)"
    unfolding s1(1) by (simp add: res_bind_assoc)
  finally have step: "decode_records f rd t (length (r # rs)) (of_nat i) keys kp datas dp buf s =
      res_bind (put (?h @ fst r @ snd r) buf) (\<lambda>buf. ?next buf s1)" .
  show ?case
  proof (cases "put (?h @ fst r @ snd r) buf = Fault")
    case True
    moreover have "\<exists>s' :: stdin. pending s' = rest" by (metis stdin.select_convs(1))
    ultimately show ?thesis unfolding step by (auto simp: put_def split: if_splits)
  next
    case False
    let ?buf = "buf @ ?h @ fst r @ snd r"
    have b: "put (?h @ fst r @ snd r) buf = Ok ?buf" "length ?buf \<le> TRACK_SIZE"
      using False by (auto simp: put_def split: if_splits)
    have "\<exists>s'. ?next ?buf s1 = res_bind (put (records_image t (Suc (Suc i)) rs) ?buf) (\<lambda>buf. Ok (buf, s')) \<and> pending s' = rest"
      by (rule Cons.IH[OF r(2) kp(2) dp(2) b(2) s1(2)])
    then show ?thesis unfolding step b(1) by (auto simp: put_def add.assoc split: if_splits)
  qed
qed

lemma close_track_image:
  "track_fits rs \<Longrightarrow> close_track (track_id t @ trackGap @ records_image t 1 rs) = Ok (track_image t rs)"
  "\<not> track_fits rs \<Longrightarrow> close_track (track_id t @ trackGap @ records_image t 1 rs) = Fault"
  by (simp_all add: close_track_def put_def track_image_def track_bytes_def track_fits_def length_records_image)

lemma rle_counts:
  assumes "length rs \<le> 254"
  shows "expand (rle (map g rs)) = map g rs" "proper_runs (rle (map g rs))" "run_sum (rle (map g rs)) = length rs"
    "length (rle (map g rs)) \<le> 254"
  using rle_expand[of "map g rs"] proper_runs_length[of "rle (map g rs)"] assms by auto

lemma read_key_runs:
  assumes rd: "\<forall>k. 0 \<le> rd k" and f: "65536 \<le> f" and n: "length rs \<le> 254"
    and s: "pending s = run_bytes (\<lambda>v. [v]) (rle (map key_count rs)) @ rest"
  shows "\<exists>keys' s'. read_runs f rd 1 hd (of_nat (length rs)) 0 (keys\<lparr>runCount := 0\<rparr>) s = Ok (keys', s') \<and>
    runs_list keys' = rle (map key_count rs) \<and> pending s' = rest"
  using read_runs_ok[OF rd _ s, of 1 hd 0 "of_nat (length rs)" "keys\<lparr>runCount := 0\<rparr>" f] rle_counts[OF n, of key_count] n f
  by (simp add: unat_of_nat)

lemma read_data_runs:
  assumes rd: "\<forall>k. 0 \<le> rd k" and f: "65536 \<le> f" and n: "length rs \<le> 254"
    and s: "pending s = run_bytes bytes16 (rle (map data_count rs)) @ rest"
  shows "\<exists>datas' s'. read_runs f rd 2 word16 (of_nat (length rs)) 0 (datas\<lparr>runCount := 0\<rparr>) s = Ok (datas', s') \<and>
    runs_list datas' = rle (map data_count rs) \<and> pending s' = rest"
  using read_runs_ok[OF rd _ s, of 2 word16 0 "of_nat (length rs)" "datas\<lparr>runCount := 0\<rparr>" f] rle_counts[OF n, of data_count] n f
  by (simp add: unat_of_nat bytes16_props)

lemma decode_track_stream:
  assumes rd: "\<forall>k. 0 \<le> rd k" and f: "65536 \<le> f" and ok: "counts_ok rs"
    and s: "pending s = tl (track_stream rs) @ rest"
  shows "\<exists>keys' datas' s'. decode_track f rd t (of_nat (length rs)) keys datas s =
    (if track_fits rs then Ok (track_image t rs, keys', datas', s') else Fault) \<and> pending s' = rest"
proof -
  let ?n = "of_nat (length rs) :: byte"
  have n: "length rs \<le> 254" "unat ?n = length rs" using ok by (auto simp: counts_ok_def unat_of_nat)
  note k = rle_counts[OF n(1), of key_count] and d = rle_counts[OF n(1), of data_count]
  have "pending s = run_bytes (\<lambda>v. [v]) (rle (map key_count rs)) @
      run_bytes bytes16 (rle (map data_count rs)) @ concat (map (\<lambda>r. fst r @ snd r) rs) @ rest"
    using s by (simp add: track_stream_def)
  from read_key_runs[OF rd f n(1) this] obtain keys1 s1
    where s1: "read_runs f rd 1 hd ?n 0 (keys\<lparr>runCount := 0\<rparr>) s = Ok (keys1, s1)"
      "runs_list keys1 = rle (map key_count rs)"
      "pending s1 = run_bytes bytes16 (rle (map data_count rs)) @ concat (map (\<lambda>r. fst r @ snd r) rs) @ rest" by blast
  from read_data_runs[OF rd f n(1) s1(3)] obtain datas1 s2
    where s2: "read_runs f rd 2 word16 ?n 0 (datas\<lparr>runCount := 0\<rparr>) s1 = Ok (datas1, s2)"
      "runs_list datas1 = rle (map data_count rs)" "pending s2 = concat (map (\<lambda>r. fst r @ snd r) rs) @ rest" by blast
  let ?buf = "track_id t @ trackGap"
  have "\<exists>s'. decode_records f rd t (length rs) (of_nat 0) keys1 (first_pos keys1) datas1 (first_pos datas1) ?buf s2 =
      res_bind (put (records_image t (Suc 0) rs) ?buf) (\<lambda>buf. Ok (buf, s')) \<and> pending s' = rest"
  proof (rule decode_records_stream[OF rd f])
    show "at_pos keys1 (first_pos keys1) (map key_count rs)" "at_pos datas1 (first_pos datas1) (map data_count rs)"
      using at_pos_first[of keys1] at_pos_first[of datas1] s1(2) s2(2) k d by simp_all
  qed (use s1 s2 k d ok in \<open>auto simp: counts_ok_def TRACK_SIZE_def\<close>)
  then obtain s3 where s3: "decode_records f rd t (length rs) 0 keys1 (first_pos keys1) datas1 (first_pos datas1) ?buf s2 =
      res_bind (put (records_image t 1 rs) ?buf) (\<lambda>buf. Ok (buf, s3))" "pending s3 = rest"
    by auto
  have p: "put ?buf [] = Ok ?buf" by (simp add: put_def TRACK_SIZE_def)
  have "decode_track f rd t ?n keys datas s =
      res_bind (put (records_image t 1 rs) ?buf) (\<lambda>buf. res_bind (close_track buf) (\<lambda>buf. Ok (buf, keys1, datas1, s3)))"
    using s1(1) s2(1) s3(1) p by (simp add: decode_track_def n(2) res_bind_assoc)
  also have "\<dots> = (if track_fits rs then Ok (track_image t rs, keys1, datas1, s3) else Fault)"
  proof (cases "put (records_image t 1 rs) ?buf = Fault")
    case True
    then show ?thesis by (auto simp: put_def track_fits_def length_records_image split: if_splits)
  next
    case False
    then have "put (records_image t 1 rs) ?buf = Ok (track_id t @ trackGap @ records_image t 1 rs)"
      by (simp add: put_def split: if_splits)
    then show ?thesis using close_track_image[of rs t] by simp
  qed
  finally show ?thesis using s3(2) by blast
qed

definition disk_image :: "nat \<Rightarrow> ckd_record list list \<Rightarrow> byte list list" where
  "disk_image t trs = map (\<lambda>(i, rs). track_image i rs) (zip [t..<t + length trs] trs)"

lemma disk_image_simps [simp]:
  "disk_image t [] = []" "disk_image t (rs # trs) = track_image t rs # disk_image (Suc t) trs"
  by (simp_all add: disk_image_def upt_conv_Cons del: upt_Suc)

lemma disk_image_append: "disk_image t (xs @ ys) = disk_image t xs @ disk_image (t + length xs) ys"
  by (induction xs arbitrary: t) auto

lemma sys_read_count:
  assumes "\<forall>k. 0 \<le> rd k" and "pending s = b # rest"
  shows "\<exists>s'. sys_read rd 1 s = (1, [b], s') \<and> pending s' = rest"
proof -
  have "\<exists>k s'. 0 < k \<and> k \<le> 1 \<and> sys_read rd 1 s = (int k, take k [b], s') \<and> pending s' = drop k [b] @ rest"
    using assms by (intro sys_read_ok) auto
  then show ?thesis by (auto simp: le_Suc_eq)
qed

lemma track_stream_Cons: "track_stream rs = of_nat (length rs) # tl (track_stream rs)"
  by (simp add: track_stream_def)

text \<open>The tracks of a stream are written one after the other, and the loop goes on with the rest.\<close>

lemma decode_tracks_prefix:
  assumes rd: "\<forall>k. 0 \<le> rd k" and wr: "\<forall>k. 65536 \<le> wr k"
  shows "list_all track_ok trs \<Longrightarrow> pending s = concat (map track_stream trs) @ rest \<Longrightarrow> 65536 + length trs < f \<Longrightarrow>
    \<exists>keys' datas' s'. pending s' = rest \<and> decode_tracks f rd wr t keys datas s out =
      decode_tracks (f - length trs) rd wr (t + length trs) keys' datas' s' (out @ disk_image t trs)"
proof (induction trs arbitrary: f t keys datas s out)
  case Nil
  then show ?case by auto
next
  case (Cons rs trs)
  obtain g where f: "f = Suc g" "65536 + length trs < g" "65536 \<le> g" using Cons.prems(3) by (cases f) auto
  let ?rest = "concat (map track_stream trs) @ rest"
  have "pending s = of_nat (length rs) # tl (track_stream rs) @ ?rest"
    using Cons.prems(2) track_stream_Cons[of rs] by (metis append.assoc append_Cons concat.simps(2) list.simps(9))
  from sys_read_count[OF rd this] obtain s1
    where s1: "sys_read rd 1 s = (1, [of_nat (length rs)], s1)" "pending s1 = tl (track_stream rs) @ ?rest" by blast
  obtain keys' datas' s2 where s2: "decode_track g rd t (of_nat (length rs)) keys datas s1 =
      Ok (track_image t rs, keys', datas', s2)" "pending s2 = ?rest"
    using decode_track_stream[OF rd f(3) _ s1(2), of t keys datas] Cons.prems(1) by (auto simp: track_ok_def)
  have "\<not> wr t < int TRACK_SIZE" using wr by (simp add: TRACK_SIZE_def not_less)
  then show ?case
    using s1(1) s2 Cons.IH[of s2 g "Suc t" keys' datas' "out @ [track_image t rs]"] Cons.prems(1) f
    by simp
qed

lemma decode_tracks_stream:
  assumes rd: "\<forall>k. 0 \<le> rd k" and wr: "\<forall>k. 65536 \<le> wr k"
    and trs: "list_all track_ok trs" "pending s = concat (map track_stream trs)" "65536 + length trs < f"
  shows "decode_tracks f rd wr t keys datas s out = Ok (t + length trs, out @ disk_image t trs)"
proof -
  obtain keys' datas' s' where "pending s' = []" and eq: "decode_tracks f rd wr t keys datas s out =
      decode_tracks (f - length trs) rd wr (t + length trs) keys' datas' s' (out @ disk_image t trs)"
    using decode_tracks_prefix[OF rd wr trs(1) _ trs(3), of s "[]"] trs(2) by fastforce
  moreover obtain g where "f - length trs = Suc g" using trs(3) by (cases "f - length trs") auto
  moreover have "\<not> rd (reads s') < 0" using rd by (simp add: not_less)
  ultimately show ?thesis unfolding eq by (simp add: sys_read_def)
qed

lemma decode_tracks_last:
  assumes rd: "\<forall>k. 0 \<le> rd k" and wr: "\<forall>k. 65536 \<le> wr k"
    and trs: "list_all track_ok trs" "pending s = concat (map track_stream trs) @ b # rest" "65536 + length trs < f"
    and last: "\<And>f t keys datas s. 65536 \<le> f \<Longrightarrow> pending s = rest \<Longrightarrow> decode_track f rd t b keys datas s = R"
    and R: "R \<in> {Fault, NoFuel}"
  shows "decode_tracks f rd wr t keys datas s out = (if R = Fault then Fault else NoFuel)"
proof -
  obtain keys' datas' s' where s': "pending s' = b # rest" and eq: "decode_tracks f rd wr t keys datas s out =
      decode_tracks (f - length trs) rd wr (t + length trs) keys' datas' s' (out @ disk_image t trs)"
    using decode_tracks_prefix[OF rd wr trs] by blast
  obtain g where "f - length trs = Suc g" "65536 \<le> g" using trs(3) by (cases "f - length trs") auto
  then show ?thesis unfolding eq using sys_read_count[OF rd s'] last R by fastforce
qed

section \<open>Truncated streams\<close>

lemma sys_read_pending:
  assumes "\<forall>k. 0 \<le> rd k"
  shows "\<exists>k s'. k \<le> n \<and> sys_read rd n s = (int (length (take k (pending s))), take k (pending s), s') \<and>
    pending s' = drop k (pending s)"
proof -
  have "\<not> rd (reads s) < 0" using assms by (simp add: not_less)
  then show ?thesis by (auto simp: sys_read_def Let_def intro: exI[of _ "min n (nat (max 1 (rd (reads s))))"])
qed

lemma readNBytes_short:
  assumes "\<forall>k. 0 \<le> rd k"
  shows "length acc + length (pending s) < n \<Longrightarrow> readNBytesFromStdin f rd n acc s = NoFuel"
proof (induction f arbitrary: acc s)
  case (Suc f)
  obtain k s' where "sys_read rd (n - length acc) s = (int (length (take k (pending s))), take k (pending s), s')"
    and "pending s' = drop k (pending s)"
    using sys_read_pending[OF assms] by blast
  then show ?case using Suc.IH[of "acc @ take k (pending s)" s'] Suc.prems by simp
qed simp

lemma read_block_short:
  assumes "\<forall>k. 0 \<le> rd k"
  shows "length (pending s) < n \<Longrightarrow> length buf + n \<le> TRACK_SIZE \<Longrightarrow> read_block f rd n buf s = NoFuel"
proof (induction f arbitrary: n buf s)
  case (Suc f)
  obtain k s' where k: "k \<le> n" "sys_read rd n s = (int (length (take k (pending s))), take k (pending s), s')"
    and "pending s' = drop k (pending s)"
    using sys_read_pending[OF assms] by blast
  then show ?case
    using Suc.IH[of s' "n - min (length (pending s)) k" "buf @ take k (pending s)"] Suc.prems by (simp add: put_def)
qed simp

lemma readNBytes_any:
  assumes rd: "\<forall>k. 0 \<le> rd k"
  shows "pending s = bs @ rest \<Longrightarrow> length acc + length bs = n \<Longrightarrow>
    readNBytesFromStdin f rd n acc s = NoFuel \<or>
    (\<exists>s'. readNBytesFromStdin f rd n acc s = Ok (0, acc @ bs, s') \<and> pending s' = rest)"
proof (induction f arbitrary: acc bs s)
  case (Suc f)
  show ?case
  proof (cases "bs = []")
    case False
    then obtain k s1 where "k \<le> length bs" "sys_read rd (length bs) s = (int k, take k bs, s1)"
        "pending s1 = drop k bs @ rest"
      using sys_read_ok[OF rd _ Suc.prems(1) refl] by auto
    moreover from Suc.prems(2) False have "length acc < n" "n - length acc = length bs" by auto
    ultimately show ?thesis
      using Suc.IH[of s1 "drop k bs" "acc @ take k bs"] Suc.prems(2) by simp
  qed (use Suc.prems in auto)
qed simp

text \<open>
  A block of \<open>length bs\<close> bytes read from a stream that is cut \<open>m\<close> bytes behind its start: the loop
  never ends, or it returns and the rest is cut behind \<open>m - length bs\<close> bytes.
\<close>

lemma readNBytes_cut:
  assumes rd: "\<forall>k. 0 \<le> rd k" and s: "pending s = take m (bs @ rest)"
  shows "readNBytesFromStdin f rd (length bs) [] s = NoFuel \<or>
    (\<exists>s'. length bs \<le> m \<and> readNBytesFromStdin f rd (length bs) [] s = Ok (0, bs, s') \<and>
      pending s' = take (m - length bs) rest)"
proof (cases "m < length bs")
  case True
  then show ?thesis using readNBytes_short[OF rd, of "[]" s] s by simp
next
  case False
  then have "pending s = bs @ take (m - length bs) rest" using s by simp
  from readNBytes_any[OF rd this, of "[]" "length bs" f] False show ?thesis by auto
qed

lemma read_block_cut:
  assumes rd: "\<forall>k. 0 \<le> rd k" and s: "pending s = take m (bs @ rest)" and f: "length bs < f"
    and fits: "length buf + length bs \<le> TRACK_SIZE"
  shows "read_block f rd (length bs) buf s = NoFuel \<or>
    (\<exists>s'. length bs \<le> m \<and> read_block f rd (length bs) buf s = Ok (buf @ bs, s') \<and> pending s' = take (m - length bs) rest)"
proof (cases "m < length bs")
  case True
  then show ?thesis using read_block_short[OF rd, of s "length bs" buf] s fits by simp
next
  case False
  then have "pending s = bs @ take (m - length bs) rest" using s by simp
  from read_block_put[OF rd this, of buf f] f fits False show ?thesis by (auto simp: put_def)
qed

lemma read_runs_short:
  assumes rd: "\<forall>k. 0 \<le> rd k" and enc: "\<And>v. length (enc v) = width"
  shows "pending s = take m (run_bytes enc xs) \<Longrightarrow> m < length (run_bytes enc xs) \<Longrightarrow> proper_runs xs \<Longrightarrow>
    unat total0 + run_sum xs = unat n \<Longrightarrow> read_runs f rd width dec n total0 r s = NoFuel"
proof (induction xs arbitrary: s total0 r f m)
  case (Cons x xs)
  obtain l v where x: "x = (l, v)" by fastforce
  have l: "0 < unat l" using Cons.prems(3) x by (simp add: unat_gt_0)
  have "unat n < 256" by (rule unat_byte)
  then have t: "unat (total0 + l) = unat total0 + unat l"
    using Cons.prems(4) x by (simp add: unat_word_ariths)
  have less: "total0 < n" using l Cons.prems(4) x by (simp add: word_less_nat_alt)
  show ?case
  proof (cases f)
    case (Suc g)
    have "pending s = take m ([l] @ enc v @ run_bytes enc xs)" using Cons.prems(1) x by simp
    from readNBytes_cut[OF rd this, of g] consider "readNBytesFromStdin g rd 1 [] s = NoFuel"
      | s1 where "1 \<le> m" "readNBytesFromStdin g rd 1 [] s = Ok (0, [l], s1)"
          "pending s1 = take (m - 1) (enc v @ run_bytes enc xs)" by auto
    then show ?thesis
    proof cases
      case (2 s1)
      from readNBytes_cut[OF rd this(3), of g] enc consider "readNBytesFromStdin g rd width [] s1 = NoFuel"
        | s2 where "width \<le> m - 1" "readNBytesFromStdin g rd width [] s1 = Ok (0, enc v, s2)"
            "pending s2 = take (m - 1 - width) (run_bytes enc xs)" by auto
      then show ?thesis
      proof cases
        case (2 s2)
        have "read_runs g rd width dec n (total0 + l) r' s2 = NoFuel" for r'
          using 2 \<open>1 \<le> m\<close> Cons.prems x t enc by (intro Cons.IH) auto
        then show ?thesis using 2 \<open>readNBytesFromStdin g rd 1 [] s = Ok (0, [l], s1)\<close> less Suc by simp
      qed (use 2 less Suc in simp)
    qed (use less Suc in simp)
  qed simp
qed simp

lemma decode_records_short:
  assumes rd: "\<forall>k. 0 \<le> rd k" and f: "65536 \<le> f"
    and proper: "proper_runs (runs_list keys)" "proper_runs (runs_list datas)"
  shows "list_all record_ok rs \<Longrightarrow> at_pos keys kp (map key_count rs) \<Longrightarrow> at_pos datas dp (map data_count rs) \<Longrightarrow>
    length buf + length (records_image t (Suc i) rs) \<le> TRACK_SIZE \<Longrightarrow>
    pending s = take m (concat (map (\<lambda>r. fst r @ snd r) rs)) \<Longrightarrow> m < length (concat (map (\<lambda>r. fst r @ snd r) rs)) \<Longrightarrow>
    decode_records f rd t (length rs) (of_nat i) keys kp datas dp buf s = NoFuel"
proof (induction rs arbitrary: i kp dp buf s m)
  case (Cons r rs)
  let ?h = "header_image t (of_nat (Suc i)) (key_count r) (data_count r)"
  let ?rest = "concat (map (\<lambda>r. fst r @ snd r) rs)"
  have r: "record_ok r" "list_all record_ok rs" using Cons.prems(1) by auto
  have kp: "runValue keys (runIndex kp) = key_count r" "at_pos keys (next_pos keys kp) (map key_count rs)"
    and dp: "runValue datas (runIndex dp) = data_count r" "at_pos datas (next_pos datas dp) (map data_count rs)"
    using at_pos_next[OF proper(1)] at_pos_next[OF proper(2)] Cons.prems(2,3) by auto
  have l: "length (fst r) < f" "length (snd r) < f" using r(1) f by (auto simp: record_ok_def)
  have fits: "length (buf @ ?h) + length (fst r) \<le> TRACK_SIZE" "length (buf @ ?h @ fst r) + length (snd r) \<le> TRACK_SIZE"
    using Cons.prems(4) by auto
  have h: "put (track_id t @ (1 + of_nat i) # key_count r # bytes16 (data_count r)) buf = Ok (buf @ ?h)"
    using fits(1) by (simp add: put_def header_image_def bytes16_props)
  note step = Let_def kp(1) dp(1) unat_key_count[OF r(1)] unat_data_count[OF r(1)] h add.commute[of _ 1]
  have p: "pending s = take m (fst r @ snd r @ ?rest)" using Cons.prems(5) by simp
  from read_block_cut[OF rd p l(1) fits(1)] show ?case
  proof (elim disjE exE conjE)
    fix s1 assume 1: "length (fst r) \<le> m" "read_block f rd (length (fst r)) (buf @ ?h) s = Ok ((buf @ ?h) @ fst r, s1)"
      "pending s1 = take (m - length (fst r)) (snd r @ ?rest)"
    from read_block_cut[OF rd 1(3) l(2) fits(2)] show ?case
    proof (elim disjE exE conjE)
      fix s2 assume 2: "length (snd r) \<le> m - length (fst r)"
        "read_block f rd (length (snd r)) (buf @ ?h @ fst r) s1 = Ok ((buf @ ?h @ fst r) @ snd r, s2)"
        "pending s2 = take (m - length (fst r) - length (snd r)) ?rest"
      have "decode_records f rd t (length rs) (of_nat (Suc i)) keys (next_pos keys kp) datas (next_pos datas dp)
          ((buf @ ?h @ fst r) @ snd r) s2 = NoFuel"
        using 1(1) 2(1) Cons.prems(4,6) by (intro Cons.IH[OF r(2) kp(2) dp(2) _ 2(3)]) auto
      then show ?case using 1(2) 2(2) by (simp add: step)
    qed (use 1(2) in \<open>simp add: step\<close>)
  qed (simp add: step)
qed simp

lemma decode_track_short:
  assumes rd: "\<forall>k. 0 \<le> rd k" and f: "65536 \<le> f" and ok: "track_ok rs"
    and s: "pending s = take m (tl (track_stream rs))" and m: "m < length (tl (track_stream rs))"
  shows "decode_track f rd t (of_nat (length rs)) keys datas s = NoFuel"
proof -
  let ?k = "rle (map key_count rs)" and ?d = "rle (map data_count rs)"
  let ?kb = "run_bytes (\<lambda>v. [v]) ?k" and ?db = "run_bytes bytes16 ?d" and ?rb = "concat (map (\<lambda>r. fst r @ snd r) rs)"
  let ?n = "of_nat (length rs) :: byte"
  have n: "length rs \<le> 254" and un: "unat ?n = length rs" and rs: "list_all record_ok rs"
    using ok by (auto simp: track_ok_def counts_ok_def unat_of_nat)
  note k = rle_counts[OF n, of key_count] and d = rle_counts[OF n, of data_count]
  have p: "pending s = take m (?kb @ ?db @ ?rb)" "m < length (?kb @ ?db @ ?rb)"
    using s m by (simp_all add: track_stream_def)
  consider (keys) "m < length ?kb" | (datas) "length ?kb \<le> m" "m < length (?kb @ ?db)" | (records) "length (?kb @ ?db) \<le> m"
    by linarith
  then show ?thesis
  proof cases
    case keys
    then have "read_runs f rd 1 hd ?n 0 (keys\<lparr>runCount := 0\<rparr>) s = NoFuel"
      using p(1) k un by (intro read_runs_short[OF rd, of "\<lambda>v. [v]"]) auto
    then show ?thesis by (simp add: decode_track_def)
  next
    case datas
    then have "pending s = ?kb @ take (m - length ?kb) ?db" using p(1) by simp
    from read_key_runs[OF rd f n this] obtain keys1 s1
      where s1: "read_runs f rd 1 hd ?n 0 (keys\<lparr>runCount := 0\<rparr>) s = Ok (keys1, s1)" "pending s1 = take (m - length ?kb) ?db"
      by blast
    have "read_runs f rd 2 word16 ?n 0 (datas\<lparr>runCount := 0\<rparr>) s1 = NoFuel"
      using s1(2) datas d un by (intro read_runs_short[OF rd, of bytes16]) (auto simp: bytes16_props)
    then show ?thesis using s1(1) by (simp add: decode_track_def)
  next
    case records
    let ?m = "m - length (?kb @ ?db)"
    have "pending s = ?kb @ ?db @ take ?m ?rb" using p(1) records by simp
    from read_key_runs[OF rd f n this] obtain keys1 s1
      where s1: "read_runs f rd 1 hd ?n 0 (keys\<lparr>runCount := 0\<rparr>) s = Ok (keys1, s1)" "runs_list keys1 = ?k"
        "pending s1 = ?db @ take ?m ?rb" by blast
    from read_data_runs[OF rd f n s1(3)] obtain datas1 s2
      where s2: "read_runs f rd 2 word16 ?n 0 (datas\<lparr>runCount := 0\<rparr>) s1 = Ok (datas1, s2)" "runs_list datas1 = ?d"
        "pending s2 = take ?m ?rb" by blast
    have "decode_records f rd t (length rs) (of_nat 0) keys1 (first_pos keys1) datas1 (first_pos datas1)
        (track_id t @ trackGap) s2 = NoFuel"
    proof (rule decode_records_short[OF rd f _ _ rs _ _ _ s2(3)])
      show "at_pos keys1 (first_pos keys1) (map key_count rs)" "at_pos datas1 (first_pos datas1) (map data_count rs)"
        using at_pos_first[of keys1] at_pos_first[of datas1] s1(2) s2(2) k d by simp_all
      show "length (track_id t @ trackGap) + length (records_image t (Suc 0) rs) \<le> TRACK_SIZE"
        using ok by (simp add: track_ok_def track_fits_def length_records_image)
    qed (use s1 s2 k d p(2) records in auto)
    then show ?thesis using s1(1) s2(1) by (simp add: decode_track_def un put_def TRACK_SIZE_def)
  qed
qed

section \<open>Blank tracks\<close>

definition blank_record :: ckd_record where
  "blank_record = ([], replicate 4096 0)"

definition blank_track :: "ckd_record list" where
  "blank_track = replicate 12 blank_record"

text \<open>A run of blank records whose places for the cylinder and track hold \<open>ids\<close>.\<close>

fun template_records :: "nat \<Rightarrow> byte list list \<Rightarrow> byte list" where
  "template_records i [] = []"
| "template_records i (a # ids) =
     a @ [of_nat i, 0] @ bytes16 4096 @ replicate 4096 0 @ template_records (Suc i) ids"

definition template :: "byte list \<Rightarrow> byte list list \<Rightarrow> byte list \<Rightarrow> bool" where
  "template a ids buf \<longleftrightarrow> length a = 4 \<and> length ids = 12 \<and> list_all (\<lambda>x. length x = 4) ids \<and>
     buf = a @ trackGap @ template_records 1 ids @ replicate 12 0xFF @ replicate 16260 0"

lemma patch_mid: "length bs = length old \<Longrightarrow> at = length pre \<Longrightarrow> patch at bs (pre @ old @ post) = pre @ bs @ post"
  by (simp add: patch_def)

lemma blank_counts [simp]: "fst blank_record = []" "key_count blank_record = 0" "data_count blank_record = 4096"
  "snd blank_record = replicate 4096 0"
  by (simp_all add: blank_record_def key_count_def data_count_def)

lemma patch_records_template:
  "list_all (\<lambda>x. length x = 4) ids \<Longrightarrow>
   patch_records (length ids) t (length pre) (pre @ template_records i ids @ post) =
     pre @ records_image t i (replicate (length ids) blank_record) @ post"
proof (induction ids arbitrary: pre i)
  case (Cons a ids)
  let ?tail = "[of_nat i, 0] @ bytes16 4096 @ replicate 4096 0"
  let ?pre = "pre @ track_id t @ ?tail"
  have p: "patch (length pre) (track_id t) (pre @ a @ (?tail @ template_records (Suc i) ids @ post)) =
      pre @ track_id t @ (?tail @ template_records (Suc i) ids @ post)"
    using Cons.prems by (intro patch_mid) auto
  have "patch_records (length ids) t (length ?pre) (?pre @ template_records (Suc i) ids @ post) =
      ?pre @ records_image t (Suc i) (replicate (length ids) blank_record) @ post"
    using Cons.prems by (intro Cons.IH) auto
  then show ?case using p by (simp add: header_image_def bytes16_props)
qed simp

lemma track_ok_blank: "track_ok blank_track"
  by (simp add: track_ok_def counts_ok_def track_fits_def blank_track_def record_ok_def sum_list_replicate TRACK_SIZE_def list_all_iff)

lemma blank_image:
  "track_image t blank_track =
     track_id t @ trackGap @ records_image t 1 blank_track @ replicate 12 0xFF @ replicate 16260 0"
  by (simp add: track_image_def length_track_bytes blank_track_def sum_list_replicate TRACK_SIZE_def)
    (simp add: track_bytes_def)

lemma clear_track_template: "template a ids buf \<Longrightarrow> clear_track t buf = track_image t blank_track"
proof -
  assume t: "template a ids buf"
  let ?rest = "trackGap @ template_records 1 ids @ replicate 12 0xFF @ replicate 16260 0"
  have "patch 0 (track_id t) ([] @ a @ ?rest) = [] @ track_id t @ ?rest"
    using t by (intro patch_mid) (auto simp: template_def)
  then show ?thesis
    using t patch_records_template[of ids t "track_id t @ trackGap" 1 "replicate 12 0xFF @ replicate 16260 0"]
    by (simp add: clear_track_def template_def blank_image) (simp add: blank_track_def)
qed

lemma template_records_image: "template_records i (replicate n (track_id t)) = records_image t i (replicate n blank_record)"
  by (induction n arbitrary: i) (simp_all add: header_image_def)

lemma template_image: "template (track_id t) (replicate 12 (track_id t)) (track_image t blank_track)"
proof -
  have "template_records 1 (replicate 12 (track_id t)) = records_image t 1 blank_track"
    by (simp add: template_records_image blank_track_def)
  then show ?thesis by (simp add: template_def blank_image list_all_iff)
qed

lemma clear_tracks_image:
  assumes wr: "\<forall>k. 65536 \<le> wr k"
  shows "template a ids buf \<Longrightarrow> clear_tracks wr n t buf out = Ok (out @ disk_image t (replicate n blank_track))"
proof (induction n arbitrary: t a ids buf out)
  case (Suc n)
  have "\<not> wr t < int TRACK_SIZE" using wr by (simp add: TRACK_SIZE_def not_less)
  then show ?case
    using clear_track_template[OF Suc.prems] Suc.IH[OF template_image, of "Suc t" t "out @ [track_image t blank_track]"]
    by simp
qed simp

lemma clear_template_ok:
  assumes "65536 \<le> length old"
  shows "\<exists>a ids buf. clear_template old = Ok buf \<and> template a ids buf"
proof -
  let ?id = "\<lambda>i. take 4 (drop (16 + (i - 1) * 4104) old)"
  let ?ids = "map ?id [1..<13]"
  have l: "list_all (\<lambda>x. length x = 4) ?ids" using assms by (auto simp: list_all_iff)
  have r: "concat (map (\<lambda>i. ?id i @ [of_nat i, 0] @ bytes16 4096 @ replicate 4096 0) [i..<i + n]) =
      template_records i (map ?id [i..<i + n])" for i n
  proof (induction n arbitrary: i)
    case (Suc n)
    from Suc.IH[of "Suc i"] show ?case by (simp add: upt_conv_Cons del: upt_Suc)
  qed simp
  have "length (template_records i xs) = 4104 * length xs" if "list_all (\<lambda>x. length x = 4) xs" for i xs
    using that by (induction xs arbitrary: i) (simp_all add: bytes16_props)
  from this[OF l] have "length (template_records 1 ?ids) = 49248" by simp
  then have "clear_template old = Ok (take 4 old @ trackGap @ template_records 1 ?ids @ replicate 12 0xFF @ replicate 16260 0)"
    using r[of 1 12] assms by (simp add: clear_template_def close_track_def put_def TRACK_SIZE_def)
  moreover have "template (take 4 old) ?ids (take 4 old @ trackGap @ template_records 1 ?ids @ replicate 12 0xFF @ replicate 16260 0)"
    using l assms by (simp add: template_def)
  ultimately show ?thesis by blast
qed

section \<open>The programs\<close>

definition good_env :: "disk_env \<Rightarrow> bool" where
  "good_env env \<longleftrightarrow> opens env \<and> memalign_rc env = 0 \<and> read_end env = 0 \<and> closes env"

lemma ckdencode_tracks:
  assumes "good_env env" and "\<forall>k. 65535 \<le> wo k" and "list_all track_ok trs"
  shows "ckdencode_main env wo 2 (disk_image 0 trs) = Ok (concat (map track_stream trs))"
  using assms encode_tracks_image[of wo trs 0 "no_runs 0" "no_runs 0" "[0..<length trs]" "[]"]
  by (simp add: ckdencode_main_def good_env_def disk_image_def)

lemma ckddecode_tracks:
  assumes "good_env env" "\<forall>k. 0 \<le> rd k" "\<forall>k. 65536 \<le> wr k" "list_all track_ok trs" "65536 + length trs < f"
    and "0 < c_atoi devSize" "c_atoi devSize < 2 ^ 28" "65536 \<le> length old"
  shows "ckddecode_main f env True rd wr 3 devSize old (concat (map track_stream trs)) =
    Ok (disk_image 0 (trs @ replicate (nat (c_atoi devSize * 15) - length trs) blank_track))"
proof -
  obtain a ids buf where t: "clear_template old = Ok buf" "template a ids buf"
    using clear_template_ok assms(8) by blast
  have m: "nat (c_atoi devSize * 15 mod 2 ^ 32) = nat (c_atoi devSize * 15)" using assms(6,7) by simp
  note d = decode_tracks_stream[OF assms(2,3,4), of "\<lparr>pending = concat (map track_stream trs), reads = 0\<rparr>" f 0]
  show ?thesis
    using assms d t clear_tracks_image[OF assms(3) t(2)] unfolding ckddecode_main_def Let_def m
    by (simp add: good_env_def disk_image_append)
qed

lemma ckddecode_last:
  assumes "good_env env" "0 < c_atoi devSize" and rd: "\<forall>k. 0 \<le> rd k" and wr: "\<forall>k. 65536 \<le> wr k"
    and trs: "list_all track_ok trs" "65536 + length trs < f"
    and last: "\<And>f t keys datas s. 65536 \<le> f \<Longrightarrow> pending s = rest \<Longrightarrow> decode_track f rd t b keys datas s = R"
    and R: "R \<in> {Fault, NoFuel}"
  shows "ckddecode_main f env True rd wr 3 devSize old (concat (map track_stream trs) @ b # rest) =
    (if R = Fault then Fault else NoFuel)"
  using assms(1,2) decode_tracks_last[OF rd wr trs(1) _ trs(2) last R, of "\<lparr>pending = concat (map track_stream trs) @ b # rest, reads = 0\<rparr>"]
  by (simp add: ckddecode_main_def good_env_def Let_def)

lemma hex_records_image:
  "i + length rs \<le> 255 \<Longrightarrow> list_all record_ok rs \<Longrightarrow>
   length (pre @ records_image t i rs @ replicate 12 0xFF @ post) < 65798 \<Longrightarrow>
   hex_records (pre @ records_image t i rs @ replicate 12 0xFF @ post) (length pre) = Fault"
proof (induction rs arbitrary: pre i)
  case Nil
  then have "slice (pre @ replicate 12 0xFF @ post) (length pre + 263) 65535 = Fault" by (simp add: slice_def)
  then show ?case by (subst hex_records.simps) (auto simp: record_at_fence slice_def)
next
  case (Cons r rs)
  let ?h = "header_image t (of_nat i) (key_count r) (data_count r)"
  let ?post = "records_image t (Suc i) rs @ replicate 12 0xFF @ post"
  let ?pre = "pre @ ?h @ fst r @ snd r"
  have "i < 255" using Cons.prems(1) by simp
  note step = of_nat_not_fence[OF this]
  have IH: "hex_records (?pre @ ?post) (length ?pre) = Fault"
    using Cons.prems by (intro Cons.IH) auto
  have r: "record_ok r" using Cons.prems(2) by simp
  have "slice ((pre @ ?h) @ fst r @ (snd r @ ?post)) (length pre + 8) (length (fst r)) = Ok (fst r)"
    by (rule slice_at) simp_all
  moreover have "slice ((pre @ ?h @ fst r) @ snd r @ ?post) (length pre + 8 + length (fst r)) (length (snd r)) = Ok (snd r)"
    by (rule slice_at) simp_all
  ultimately show ?case
    using IH step r
    by (subst hex_records.simps) (simp add: record_at_header record_end_def unat_key_count unat_data_count add.assoc)
qed

lemma hex_track_faults: "track_ok rs \<Longrightarrow> hex_records (track_image t rs) TRACK_BEGINNING_OVERHEAD = Fault"
  using hex_records_image[of 1 rs "track_id t @ trackGap" t "replicate (TRACK_SIZE - length (track_bytes t rs)) 0"]
    length_track_image[of rs t]
  by (simp add: track_image_def track_bytes_def TRACK_BEGINNING_OVERHEAD_def TRACK_SIZE_def track_ok_def counts_ok_def)

section \<open>Properties\<close>

text \<open>
  C21: \<open>ckdencode\<close> of the tracks of a disk is the concatenation of the streams of the tracks, in each
  of which the key counts and the data counts are run-length encoded, when the writes to standard
  output are complete.
\<close>

theorem ckdencode_stream:
  assumes "good_env env" and "\<forall>k. 65535 \<le> wo k" and "list_all track_ok trs"
  shows "ckdencode_main env wo 2 (disk_image 0 trs) = Ok (concat (map track_stream trs))"
  by (rule ckdencode_tracks[OF assms])

definition sample_track :: "ckd_record list" where
  "sample_track = [([], [1, 2, 3]), ([7], [4, 5, 6])]"

definition sample_env :: disk_env where
  "sample_env = \<lparr>opens = True, memalign_rc = 0, read_end = 0, closes = True\<rparr>"

lemma sample_ok: "good_env sample_env" "list_all track_ok [sample_track]" "c_atoi [0x31] = 1"
  by (simp_all add: good_env_def sample_env_def sample_track_def track_ok_def counts_ok_def track_fits_def
      record_ok_def TRACK_SIZE_def) code_simp

theorem ckdencode_stream_witness:
  "ckdencode_main sample_env (\<lambda>_. 65536) 2 (disk_image 0 [sample_track]) = Ok (concat (map track_stream [sample_track]))"
  by (rule ckdencode_stream) (simp_all only: sample_ok, simp)

text \<open>
  C20: Writing the stream of a disk to a disk with \<open>ckddecode\<close> gives the tracks that \<open>ckdencode\<close>
  read, then blank tracks of twelve records of 4096 zero bytes up to the size of the new disk,
  whatever the sizes of the reads from standard input and the old contents of the buffer.
\<close>

theorem ckddecode_ckdencode:
  assumes "good_env env" "\<forall>k. 65535 \<le> wo k" "\<forall>k. 0 \<le> rd k" "\<forall>k. 65536 \<le> wr k" "list_all track_ok trs"
    and "65536 + length trs < f" "0 < c_atoi devSize" "c_atoi devSize < 2 ^ 28" "65536 \<le> length old"
  shows "res_bind (ckdencode_main env wo 2 (disk_image 0 trs)) (ckddecode_main f env True rd wr 3 devSize old) =
    Ok (disk_image 0 (trs @ replicate (nat (c_atoi devSize * 15) - length trs) blank_track))"
  using assms by (simp add: ckdencode_tracks ckddecode_tracks)

theorem ckddecode_ckdencode_witness:
  "res_bind (ckdencode_main sample_env (\<lambda>_. 65536) 2 (disk_image 0 [sample_track]))
     (ckddecode_main 70000 sample_env True (\<lambda>k. int k mod 3) (\<lambda>_. 65536) 3 [0x31] (replicate 65536 0)) =
   Ok (disk_image 0 ([sample_track] @ replicate (nat (c_atoi [0x31] * 15) - length [sample_track]) blank_track))"
  by (rule ckddecode_ckdencode) (simp_all only: sample_ok, simp_all)

text \<open>
  A stream whose counts do not fit into a track makes \<open>ckddecode\<close> write behind its track buffer
  of 64k: the counts are not checked.
\<close>

theorem ckddecode_overflows:
  assumes "good_env env" "0 < c_atoi devSize" "\<forall>k. 0 \<le> rd k" "\<forall>k. 65536 \<le> wr k" "list_all track_ok trs"
    and "65536 + length trs < f" and rs: "counts_ok rs" "\<not> track_fits rs"
  shows "ckddecode_main f env True rd wr 3 devSize old (concat (map track_stream trs) @ track_stream rs @ rest) = Fault"
proof -
  have "decode_track f rd t (of_nat (length rs)) keys datas s = Fault"
    if "65536 \<le> f" "pending s = tl (track_stream rs) @ rest" for f t keys datas s
    using decode_track_stream[OF assms(3) that(1) rs(1) that(2)] rs(2) by auto
  from ckddecode_last[OF assms(1-6) this] show ?thesis by (subst track_stream_Cons) simp
qed

definition sample_overflow :: "ckd_record list" where
  "sample_overflow = [([], replicate 40000 0), ([], replicate 40000 0)]"

theorem ckddecode_overflows_witness:
  "ckddecode_main 70000 sample_env True (\<lambda>_. 9) (\<lambda>_. 65536) 3 [0x31] []
     (concat (map track_stream [sample_track]) @ track_stream sample_overflow @ []) = Fault"
  by (rule ckddecode_overflows) (simp_all only: sample_ok, simp_all add: sample_overflow_def counts_ok_def
      record_ok_def track_fits_def TRACK_SIZE_def)

text \<open>
  C22: A stream that ends inside a track keeps \<open>ckddecode\<close> in its read loops for ever: they take the
  end of the input for a read of no bytes and try again, whatever the number of steps.
\<close>

theorem ckddecode_truncated:
  assumes "good_env env" "0 < c_atoi devSize" "\<forall>k. 0 \<le> rd k" "\<forall>k. 65536 \<le> wr k" "list_all track_ok trs"
    and "65536 + length trs < f" and rs: "track_ok rs" and n: "0 < n" "n < length (track_stream rs)"
  shows "ckddecode_main f env True rd wr 3 devSize old (concat (map track_stream trs) @ take n (track_stream rs)) = NoFuel"
proof -
  have "decode_track f rd t (of_nat (length rs)) keys datas s = NoFuel"
    if "65536 \<le> f" "pending s = take (n - 1) (tl (track_stream rs))" for f t keys datas s
    using decode_track_short[OF assms(3) that(1) rs that(2)] n by simp
  from ckddecode_last[OF assms(1-6) this]
  have "ckddecode_main f env True rd wr 3 devSize old (concat (map track_stream trs) @
      of_nat (length rs) # take (n - 1) (tl (track_stream rs))) = NoFuel" by simp
  moreover have "take n (track_stream rs) = of_nat (length rs) # take (n - 1) (tl (track_stream rs))"
    using n(1) by (subst track_stream_Cons) (simp add: take_Cons')
  ultimately show ?thesis by simp
qed

theorem ckddecode_truncated_witness:
  "ckddecode_main 70000 sample_env True (\<lambda>_. 9) (\<lambda>_. 65536) 3 [0x31] []
     (concat (map track_stream [sample_track]) @ take 1 (track_stream sample_track)) = NoFuel"
proof (rule ckddecode_truncated)
  show "track_ok sample_track" using sample_ok(2) by simp
qed (simp_all only: sample_ok, simp_all add: sample_track_def track_stream_def)

text \<open>
  \<open>ckdhex\<close> reads behind its buffer of 64k on every disk: it copies the key and the data of the
  fence record, whose counts are 255 and 65535, before it looks at the record number.
\<close>

theorem ckdhex_overreads:
  assumes "good_env env" and "list_all track_ok trs" and "trs \<noteq> []"
  shows "ckdhex_main env 2 arg2 arg3 (disk_image 0 trs) = Fault"
proof -
  obtain rs rss where trs: "trs = rs # rss" using assms(3) by (cases trs) auto
  have "15 * uint (w :: 16 word) + uint (v :: 16 word) \<le> INT_MAX" for w v
    using uint_bounded[of w] uint_bounded[of v] by (simp add: INT_MAX_def)
  then have "\<not> 15 * uint (w :: 16 word) + uint (v :: 16 word) > INT_MAX" for w v by (simp add: not_less)
  moreover have "\<not> 15 * uint (w :: 16 word) + uint (v :: 16 word) < 0" for w v
    by (simp add: not_less)
  ultimately show ?thesis
    using assms(1,2) hex_track_faults[of rs 0] by (simp add: ckdhex_main_def good_env_def trs Let_def)
qed

theorem ckdhex_overreads_witness:
  "ckdhex_main sample_env 2 [] [] (disk_image 0 [sample_track]) = Fault"
  by (rule ckdhex_overreads) (simp_all only: sample_ok, simp)

end
