(* ===== verification/Smcli.thy ===== *)
theory Smcli
  imports Smapi_Exchange Smapi_Wire
begin

text \<open>
  The command line program \<^verbatim>\<open>smcli\<close>: \<open>getopt\<close> as the commands use it, the option loop that all
  commands of \<^verbatim>\<open>src/smcli*.c\<close> share, and the reporting functions of \<^verbatim>\<open>src/wrapperutils.c\<close>.

  An argument is the list of its bytes without the NUL.  What a command prints is a list of
  \<open>cli_output\<close>: the header line for \<^verbatim>\<open>--addRCheader\<close>, the help text (as the name of the API), the
  messages, and \<open>Sent\<close> for the request that goes to SMAPI; the descriptions of SMAPI return codes
  of \<^verbatim>\<open>src/rcdescriptions.c\<close> are \<open>Description\<close>.  A write behind a local array is \<open>Overrun\<close>, after
  which the run goes on; a null pointer that is read is \<open>Fault\<close>.  The exchange with SMAPI is the
  parameter \<open>smapi\<close>, from the request to the code of the exchange and the return and reason codes of
  the response.
\<close>

section \<open>Output\<close>

datatype cli_output =
    Rc_Header int int int
  | Help string
  | Requires_Argument char
  | Unknown_Option char
  | Unknown_Character char
  | Overrun string
  | Missing_Options
  | Sent smapi_request
  | Status "byte list"
  | Failed int string
  | Errno int
  | Started_or_Failed bool int int
  | Description string int int bool
  | Done
  | Too_Many_Keys
  | Details
  | Detail "byte list"
  | Message string

record cli_context =
  addRcHeader :: bool
  errnoSaved :: int

type_synonym cli_result = "(cli_output list \<times> int) res"

type_synonym cli_command =
  "cli_context \<Rightarrow> (int \<Rightarrow> bool) \<Rightarrow> (smapi_request \<Rightarrow> int \<times> int \<times> int) \<Rightarrow> byte list list \<Rightarrow> cli_result"

definition DOES_CALLER_WANT_RC_HEADER_ALLOK :: "cli_context \<Rightarrow> cli_output list" where
  "DOES_CALLER_WANT_RC_HEADER_ALLOK ctx = (if addRcHeader ctx then [Rc_Header 0 0 0] else [])"

definition DOES_CALLER_WANT_RC_HEADER_SYNTAX_ERROR :: "cli_context \<Rightarrow> cli_output list" where
  "DOES_CALLER_WANT_RC_HEADER_SYNTAX_ERROR ctx = (if addRcHeader ctx then [Rc_Header 24 0 0] else [])"

definition OUTPUT_ERRORS_FOUND :: int where "OUTPUT_ERRORS_FOUND = -4"

definition processing_message :: "int \<Rightarrow> string" where
  "processing_message rc =
     (if rc = INVALID_DATA then ''ULGSMC6000E''
      else if rc = PROCESSING_ERROR then ''ULGSMC6001E''
      else if rc = OUTPUT_ERRORS_FOUND then ''ULGSMC6002E''
      else if rc = SOCKET_OBTAIN_ERROR then ''ULGSMC6003E''
      else if rc = SOCKET_CONNECT_REFUSED_ERROR then ''ULGSMC6004E''
      else if rc = SOCKET_CONNECT_TRYAGAIN_ERROR then ''ULGSMC6005E''
      else if rc = SOCKET_TIMEOUT_ERROR then ''ULGSMC6006E''
      else if rc = SOCKET_READ_ERROR then ''ULGSMC6007E''
      else if rc = SOCKET_WRITE_ERROR then ''ULGSMC6008E''
      else if rc = SOCKET_PROCESSING_ERROR then ''ULGSMC6009E''
      else if rc = SOCKET_NOT_CONNECTED_ERROR then ''ULGSMC6010E''
      else if rc = SOCKET_RETRY_NO_DATA then ''ULGSMC6011E''
      else if rc = MEMORY_ERROR then ''ULGSMC6012E''
      else if rc = PARSER_ERROR_INVALID_TABLE then ''ULGSMC6013E''
      else if rc = PARSER_ERROR_INVALID_STRING_SIZE then ''ULGSMC6014E''
      else if rc = SOCKET_RETRY_SMAPI_POSSIBLE then ''ULGSMC6015E''
      else ''ULGSMC6016E'')"

text \<open>\<open>strMsg\<close> is the status string; trace output is left out.\<close>

definition printAndLogProcessingErrors :: "cli_context \<Rightarrow> int \<Rightarrow> byte list \<Rightarrow> bool \<Rightarrow> cli_output list" where
  "printAndLogProcessingErrors ctx rc statusString justHeader =
     (if addRcHeader ctx then [Rc_Header 25 rc (errnoSaved ctx)] else []) @
     (if justHeader then []
      else
        (if strlen statusString > 0 then [Status statusString] else []) @
        [Failed rc (processing_message rc)] @
        (if errnoSaved ctx \<noteq> 0 then [Errno (errnoSaved ctx)] else []))"

definition printAndLogSmapiReturnCodeReasonCodeDescription ::
  "cli_context \<Rightarrow> string \<Rightarrow> int \<Rightarrow> int \<Rightarrow> byte list \<Rightarrow> cli_output list \<times> int" where
  "printAndLogSmapiReturnCodeReasonCodeDescription ctx class returnCode reasonCode statusString =
     (if returnCode \<noteq> 0 \<or> reasonCode \<noteq> 0 then
        ((if addRcHeader ctx then [Description class returnCode reasonCode True] else []) @
         (if strlen statusString > 0 then [Status statusString] else []) @
         [Started_or_Failed (returnCode = 592) returnCode reasonCode] @
         (if returnCode > -1 \<and> reasonCode > -1 then [Description class returnCode reasonCode False] else []), 1)
      else (DOES_CALLER_WANT_RC_HEADER_ALLOK ctx @ [Done], 0))"

section \<open>\<open>getopt\<close>\<close>

text \<open>
  The values that \<open>getopt\<close> returns one after the other: an option with its argument, an argument
  that is no option, or \<^verbatim>\<open>?\<close> with the character in \<open>optopt\<close>.  An option string that does not start
  with \<^verbatim>\<open>-\<close> makes it skip the arguments that are no options, which the option loops ignore as well.
\<close>

datatype getopt_value = Opt char "byte list option" | NonOpt | Bad char

fun opt_spec :: "string \<Rightarrow> char \<Rightarrow> bool option" where
  "opt_spec [] c = None"
| "opt_spec (x # xs) c =
     (if x = c \<and> c \<noteq> CHR '':'' \<and> c \<noteq> CHR '';'' then Some (xs \<noteq> [] \<and> hd xs = CHR '':'') else opt_spec xs c)"

fun getopt_cluster :: "string \<Rightarrow> byte list \<Rightarrow> byte list list \<Rightarrow> getopt_value list \<times> byte list list" where
  "getopt_cluster optstring [] args = ([], args)"
| "getopt_cluster optstring (b # bs) args =
     (let c = char_of (unat b) in
      case opt_spec optstring c of
        None \<Rightarrow> (let (vs, rest) = getopt_cluster optstring bs args in (Bad c # vs, rest))
      | Some False \<Rightarrow> (let (vs, rest) = getopt_cluster optstring bs args in (Opt c None # vs, rest))
      | Some True \<Rightarrow>
          (if bs \<noteq> [] then ([Opt c (Some bs)], args)
           else case args of [] \<Rightarrow> ([Bad c], []) | a # args \<Rightarrow> ([Opt c (Some a)], args)))"

lemma length_getopt_cluster: "getopt_cluster optstring bs args = (vs, rest) \<Longrightarrow> length rest \<le> length args"
  by (induction bs arbitrary: args vs)
    (fastforce simp: Let_def split: option.splits list.splits bool.splits prod.splits if_splits)+

function getopt_args :: "string \<Rightarrow> byte list list \<Rightarrow> getopt_value list" where
  "getopt_args optstring [] = []"
| "getopt_args optstring (a # args) =
     (if a = [45, 45] then []
      else if length a > 1 \<and> hd a = 45 then
        (let (vs, rest) = getopt_cluster optstring (tl a) args in vs @ getopt_args optstring rest)
      else NonOpt # getopt_args optstring args)"
  by pat_completeness auto

termination
  by (relation "measure (\<lambda>(optstring, args). length args)")
    (auto simp: less_Suc_eq_le dest: length_getopt_cluster[OF sym])

definition stripped :: "string \<Rightarrow> string" where
  "stripped optstring = (if optstring \<noteq> [] \<and> hd optstring = CHR ''-'' then tl optstring else optstring)"

text \<open>\<open>argV\<close> starts with the name of the program.\<close>

definition getopt_values :: "string \<Rightarrow> byte list list \<Rightarrow> getopt_value list" where
  "getopt_values optstring argV =
     getopt_args (stripped optstring) (tl argV)"

section \<open>The option loop\<close>

definition c_isprint :: "char \<Rightarrow> bool" where
  "c_isprint c \<longleftrightarrow> 32 \<le> (of_char c :: nat) \<and> (of_char c :: nat) \<le> 126"

text \<open>
  The branch for \<^verbatim>\<open>?\<close>: \<open>tempStr\<close> has one byte, into which \<open>sprintf\<close> writes the character and a NUL.
\<close>

definition option_error :: "cli_context \<Rightarrow> string \<Rightarrow> char \<Rightarrow> cli_output list" where
  "option_error ctx argumentsRequired optopt =
     DOES_CALLER_WANT_RC_HEADER_SYNTAX_ERROR ctx @
     (if c_isprint optopt then
        [Overrun ''tempStr''] @
        (if optopt \<in> set argumentsRequired then [Requires_Argument optopt] else [Unknown_Option optopt])
      else [Unknown_Character optopt])"

text \<open>
  The loop returns the output and code of an early return, or the arguments of the options.
  \<open>cases\<close> are the options the switch handles; the last argument of an option counts.
\<close>

fun option_loop ::
  "cli_context \<Rightarrow> string \<Rightarrow> string \<Rightarrow> string \<Rightarrow> getopt_value list \<Rightarrow> (char \<Rightarrow> byte list option)
     \<Rightarrow> (cli_output list \<times> int) + (char \<Rightarrow> byte list option)" where
  "option_loop ctx api argumentsRequired cases [] opt = Inr opt"
| "option_loop ctx api argumentsRequired cases (NonOpt # vs) opt = option_loop ctx api argumentsRequired cases vs opt"
| "option_loop ctx api argumentsRequired cases (Bad c # vs) opt = Inl (option_error ctx argumentsRequired c, 1)"
| "option_loop ctx api argumentsRequired cases (Opt c a # vs) opt =
     (if c = CHR ''h'' then Inl (DOES_CALLER_WANT_RC_HEADER_ALLOK ctx @ [Help api], 0)
      else if c = CHR ''?'' then Inl (option_error ctx argumentsRequired (CHR ''?''), 1)
      else if c \<in> set cases then option_loop ctx api argumentsRequired cases vs (opt(c := a))
      else Inl (DOES_CALLER_WANT_RC_HEADER_SYNTAX_ERROR ctx, 1))"

definition with_options ::
  "cli_context \<Rightarrow> string \<Rightarrow> string \<Rightarrow> string \<Rightarrow> string \<Rightarrow> byte list list
     \<Rightarrow> ((char \<Rightarrow> byte list option) \<Rightarrow> cli_result) \<Rightarrow> cli_result" where
  "with_options ctx api optstring argumentsRequired cases argV k =
     (case option_loop ctx api argumentsRequired cases (getopt_values optstring argV) (\<lambda>_. None) of
        Inl out \<Rightarrow> Ok out
      | Inr opt \<Rightarrow> k opt)"

definition missing_options :: "cli_context \<Rightarrow> cli_result" where
  "missing_options ctx = Ok (DOES_CALLER_WANT_RC_HEADER_SYNTAX_ERROR ctx @ [Missing_Options], 1)"

text \<open>Reading a string variable, which may still be \<open>NULL\<close>.\<close>

definition deref :: "byte list option \<Rightarrow> (byte list \<Rightarrow> 'a res) \<Rightarrow> 'a res" where
  "deref v k = (case v of None \<Rightarrow> Fault | Some s \<Rightarrow> k s)"

definition opt_int :: "int \<Rightarrow> byte list option \<Rightarrow> int" where
  "opt_int d v = (case v of None \<Rightarrow> d | Some s \<Rightarrow> c_atoi s)"

definition opt_str :: "byte list \<Rightarrow> byte list option \<Rightarrow> byte list option" where
  "opt_str d v = (case v of None \<Rightarrow> Some d | Some s \<Rightarrow> Some s)"

definition snprintf :: "nat \<Rightarrow> byte list list \<Rightarrow> byte list" where
  "snprintf n parts = take (n - 1) (concat parts)"

text \<open>The text of \<^verbatim>\<open>%d\<close>.\<close>

fun digits_of :: "nat \<Rightarrow> byte list" where
  "digits_of n = (if n < 10 then [of_nat (48 + n)] else digits_of (n div 10) @ [of_nat (48 + n mod 10)])"

declare digits_of.simps [simp del]

definition c_decimal :: "int \<Rightarrow> byte list" where
  "c_decimal v = (if v < 0 then 45 # digits_of (nat (- v)) else digits_of (nat v))"

section \<open>The call and its report\<close>

definition report_call ::
  "cli_context \<Rightarrow> (smapi_request \<Rightarrow> int \<times> int \<times> int) \<Rightarrow> string \<Rightarrow> byte list \<Rightarrow> byte list \<Rightarrow> smapi_request res \<Rightarrow> cli_result" where
  "report_call ctx smapi api strMsg1 strMsg2 request =
     (case request of
        Ok req \<Rightarrow>
          (let (rc, returnCode, reasonCode) = smapi req in
           if rc \<noteq> 0 then Ok (Sent req # printAndLogProcessingErrors ctx rc strMsg1 False, rc)
           else
             (let (out, rc) = printAndLogSmapiReturnCodeReasonCodeDescription ctx api returnCode reasonCode strMsg2
              in Ok (Sent req # out, rc)))
      | Err rc \<Rightarrow> Ok (printAndLogProcessingErrors ctx rc strMsg1 False, rc)
      | Fault \<Rightarrow> Fault
      | NoFuel \<Rightarrow> NoFuel)"

section \<open>Specification of a command\<close>

text \<open>
  A command by its table: the options, where each argument of the API comes from, and the status
  line.  \<open>Number\<close> has the value of an option that is not given and the test that rejects a value.
\<close>

datatype cli_source =
    Required char
  | Optional char "byte list"
  | Literal "byte list"
  | Buffer char
  | Buffer_Opt char "byte list"
  | Number char int "int \<Rightarrow> bool"
  | Character char int "int \<Rightarrow> bool"

fun source_arg :: "(char \<Rightarrow> byte list option) \<Rightarrow> cli_source \<Rightarrow> smapi_arg option" where
  "source_arg opt (Required c) = map_option Str (opt c)"
| "source_arg opt (Optional c d) = Some (Str (case opt c of None \<Rightarrow> d | Some s \<Rightarrow> s))"
| "source_arg opt (Literal s) = Some (Str s)"
| "source_arg opt (Buffer c) = map_option (\<lambda>s. Buf (strlen s) s) (opt c)"
| "source_arg opt (Buffer_Opt c d) = (let s = (case opt c of None \<Rightarrow> d | Some s \<Rightarrow> s) in Some (Buf (strlen s) s))"
| "source_arg opt (Number c d bad) = (let v = opt_int d (opt c) in if bad v then None else Some (Num v))"
| "source_arg opt (Character c d bad) = (let v = opt_int d (opt c) in if bad v then None else Some (Chr (of_int v)))"

record cli_spec =
  cli_api :: smapi_api
  cli_optstring :: string
  cli_cases :: string
  cli_args :: "cli_source list"
  cli_help :: string
  cli_class :: string
  cli_status :: "(char \<Rightarrow> byte list option) \<Rightarrow> byte list"

definition cli_run :: "cli_spec \<Rightarrow> cli_command" where
  "cli_run spec ctx malloc smapi argV =
     with_options ctx (cli_help spec) (cli_optstring spec) (cli_cases spec) (cli_cases spec) argV (\<lambda>opt.
       if None \<in> set (map (source_arg opt) (cli_args spec)) then missing_options ctx
       else
         report_call ctx smapi (cli_class spec) (cli_status spec opt) (cli_status spec opt)
           (api_build (cli_api spec) malloc (Str [] # Buf 0 [] # map (the \<circ> source_arg opt) (cli_args spec))))"

named_theorems cli_rules \<open>commands that follow their specification\<close>

lemma deref_Some [simp]: "deref (Some s) k = k s" "deref None k = Fault"
  by (simp_all add: deref_def)

lemma with_options_cong:
  "(\<And>opt. k opt = k' opt) \<Longrightarrow>
   with_options ctx api optstring required cases argV k = with_options ctx api optstring required cases argV k'"
  by (simp add: with_options_def split: sum.split)

lemmas cli_unfold = cli_run_def cli_spec.select_convs smapi_api.select_convs

text \<open>Both sides of a command: the tests of the required options, then the call.\<close>

lemma opt_str_simps [simp]:
  "opt_str d v \<noteq> None" "deref (opt_str d v) k = k (case v of None \<Rightarrow> d | Some s \<Rightarrow> s)"
  by (cases v; simp add: opt_str_def)+

lemma None_eq_if [simp]: "(None = (if b then None else Some x)) = b"
  by simp

text \<open>
  A specification is sound if every option of the switch takes an argument and the builder of its
  API writes the request.
\<close>

definition spec_ok :: "cli_spec \<Rightarrow> bool" where
  "spec_ok spec \<longleftrightarrow>
     list_all (\<lambda>c. opt_spec (stripped (cli_optstring spec)) c = Some True \<and> c \<notin> {CHR ''h'', CHR ''?'', CHR ''-''}) (cli_cases spec) \<and>
     api_ok (cli_api spec)"

section \<open>Command lines\<close>

text \<open>A command line with the options \<open>pairs\<close>, each followed by its argument.\<close>

definition option_words :: "(char \<times> byte list) list \<Rightarrow> byte list list" where
  "option_words pairs = concat (map (\<lambda>(c, s). [[45, of_char c], s]) pairs)"

definition command_line :: "byte list \<Rightarrow> byte list \<Rightarrow> (char \<times> byte list) list \<Rightarrow> byte list list" where
  "command_line prog api pairs = prog # api # option_words pairs"

definition option_env :: "(char \<times> byte list) list \<Rightarrow> char \<Rightarrow> byte list option" where
  "option_env pairs = map_of (rev pairs)"

lemma unat_of_char: "unat (of_char c :: byte) = of_char c"
proof -
  have "(of_char c :: byte) = of_nat (of_char c)" by (simp add: of_nat_of_char)
  then show ?thesis by (simp add: unat_of_nat nat_of_char_less_256)
qed

lemma char_of_unat_of_char [simp]: "char_of (unat (of_char c :: byte)) = c"
  by (simp add: unat_of_char)

lemma of_char_dash: "(of_char c :: byte) = 45 \<longleftrightarrow> c = CHR ''-''"
proof
  assume "(of_char c :: byte) = 45"
  then have "(of_char c :: nat) = 45" using unat_of_char[of c] by simp
  then have "(of_char c :: nat) = of_char (CHR ''-'')" by simp
  then show "c = CHR ''-''" by (rule of_char_eqI)
qed simp

lemma getopt_option_words:
  assumes "\<forall>c \<in> fst ` set pairs. opt_spec optstring c = Some True \<and> c \<noteq> CHR ''-''"
  shows "getopt_args optstring (option_words pairs @ rest) =
    map (\<lambda>(c, s). Opt c (Some s)) pairs @ getopt_args optstring rest"
  using assms by (induction pairs) (auto simp: option_words_def of_char_dash)

lemma getopt_command_line:
  assumes "\<forall>c \<in> fst ` set pairs. opt_spec (stripped optstring) c = Some True \<and> c \<noteq> CHR ''-''"
    and "api = [] \<or> hd api \<noteq> 45"
  shows "getopt_values optstring (command_line prog api pairs) = NonOpt # map (\<lambda>(c, s). Opt c (Some s)) pairs"
  using assms(2) getopt_option_words[OF assms(1), of "[]"] by (auto simp: getopt_values_def command_line_def)

lemma option_loop_pairs:
  assumes "\<forall>c \<in> fst ` set pairs. c \<in> set cases \<and> c \<noteq> CHR ''h'' \<and> c \<noteq> CHR ''?''"
  shows "option_loop ctx api required cases (map (\<lambda>(c, s). Opt c (Some s)) pairs) opt = Inr (opt ++ option_env pairs)"
  using assms by (induction pairs arbitrary: opt) (auto simp: option_env_def)

end
