(* ===== verification/Smcli_Image.thy ===== *)
theory Smcli_Image
  imports Smcli
begin

text \<open>
  The commands of \<^verbatim>\<open>smcli\<close> for the images that send one request and
  report its return and reason code, from \<^verbatim>\<open>src/smcli*.c\<close>.  Each definition is the whole
  command: options, required options, status line, call and report.  Behind them stand the
  specifications of the commands and the proofs that each command follows its own.
\<close>

section \<open>Commands\<close>

definition imageCPUDefine :: cli_command where
  "imageCPUDefine ctx malloc smapi argV =
     with_options ctx ''Image_CPU_Define'' ''-T:v:t:h?'' ''Tvt'' ''Tvt'' argV (\<lambda>opt.
       (let image = opt (CHR ''T'');
         cpuAddress = opt (CHR ''v'');
         cpuType = opt_int (-1) (opt (CHR ''t'')) in
       (if image = None \<or> cpuAddress = None \<or> cpuType < 0 then missing_options ctx
       else deref image (\<lambda>image. deref cpuAddress (\<lambda>cpuAddress. 
         (let strMsg = snprintf 250 [c_literal ''Adding a virtual processor to '', image, [39] @ c_literal ''s configuration...''] in
         report_call ctx smapi ''Image_CPU_Define'' strMsg strMsg
           (smImage_CPU_Define malloc [] 0 [] image cpuAddress (of_int cpuType))))))))"

definition imageCPUDelete :: cli_command where
  "imageCPUDelete ctx malloc smapi argV =
     with_options ctx ''Image_CPU_Delete'' ''-T:v:h?'' ''Tv'' ''Tv'' argV (\<lambda>opt.
       (let image = opt (CHR ''T'');
         cpuAddress = opt (CHR ''v'') in
       (if image = None \<or> cpuAddress = None then missing_options ctx
       else deref image (\<lambda>image. deref cpuAddress (\<lambda>cpuAddress. 
         (let strMsg = snprintf 250 [c_literal ''Deleting a virtual processor from '', image, [39] @ c_literal ''s active configuration... ''] in
         report_call ctx smapi ''Image_CPU_Delete'' strMsg strMsg
           (smImage_CPU_Delete malloc [] 0 [] image cpuAddress)))))))"

definition imageCPUDeleteDM :: cli_command where
  "imageCPUDeleteDM ctx malloc smapi argV =
     with_options ctx ''Image_CPU_Delete_DM'' ''-T:v:h?'' ''Tv'' ''Tv'' argV (\<lambda>opt.
       (let image = opt (CHR ''T'');
         virtualAddress = opt (CHR ''v'') in
       (if image = None \<or> virtualAddress = None then missing_options ctx
       else deref image (\<lambda>image. deref virtualAddress (\<lambda>virtualAddress. 
         (let strMsg = snprintf 250 [c_literal ''Deleting a virtual processor from '', image, [39] @ c_literal ''s directory entry... ''] in
         report_call ctx smapi ''Image_CPU_Delete_DM'' strMsg strMsg
           (smImage_CPU_Delete_DM malloc [] 0 [] image virtualAddress)))))))"

definition imageCPUSetMaximumDM :: cli_command where
  "imageCPUSetMaximumDM ctx malloc smapi argV =
     with_options ctx ''Image_CPU_Set_Maximum_DM'' ''-T:m:h?'' ''Tm'' ''Tm'' argV (\<lambda>opt.
       (let image = opt (CHR ''T'');
         maxCpu = opt_int (0) (opt (CHR ''m'')) in
       (if image = None \<or> maxCpu = 0 then missing_options ctx
       else deref image (\<lambda>image. 
         (let strMsg = snprintf 250 [c_literal ''Setting the maximum number of virtual processors to '', c_decimal maxCpu, c_literal '' for '', image, c_literal '' directory entry... ''] in
         report_call ctx smapi ''Image_CPU_Set_Maximum_DM'' strMsg strMsg
           (smImage_CPU_Set_Maximum_DM malloc [] 0 [] image maxCpu))))))"

definition imageDeviceDedicate :: cli_command where
  "imageDeviceDedicate ctx malloc smapi argV =
     with_options ctx ''Image_Device_Dedicate'' ''-T:v:r:R:h?'' ''TvrR'' ''TvrR'' argV (\<lambda>opt.
       (let image = opt (CHR ''T'');
         virtualAddress = opt (CHR ''v'');
         realDevice = opt (CHR ''r'');
         readOnly = opt_int (0) (opt (CHR ''R'')) in
       (if image = None \<or> virtualAddress = None \<or> realDevice = None \<or> readOnly < 0 \<or> readOnly > 1 then missing_options ctx
       else deref image (\<lambda>image. deref virtualAddress (\<lambda>virtualAddress. deref realDevice (\<lambda>realDevice. 
         (let strMsg = snprintf 250 [c_literal ''Dedicating device '', realDevice, c_literal '' to '', image, [39] @ c_literal ''s active configuration... ''] in
         report_call ctx smapi ''Image_Device_Dedicate'' strMsg strMsg
           (smImage_Device_Dedicate malloc [] 0 [] image virtualAddress realDevice (of_int readOnly)))))))))"

definition imageDeviceDedicateDM :: cli_command where
  "imageDeviceDedicateDM ctx malloc smapi argV =
     with_options ctx ''Image_Device_Dedicate_DM'' ''-T:v:r:R:h?'' ''TvrR'' ''TvrR'' argV (\<lambda>opt.
       (let image = opt (CHR ''T'');
         virtualDevice = opt (CHR ''v'');
         realDevice = opt (CHR ''r'');
         readOnly = opt_int (0) (opt (CHR ''R'')) in
       (if image = None \<or> virtualDevice = None \<or> realDevice = None \<or> readOnly < 0 \<or> readOnly > 1 then missing_options ctx
       else deref image (\<lambda>image. deref virtualDevice (\<lambda>virtualDevice. deref realDevice (\<lambda>realDevice. 
         (let strMsg = snprintf 250 [c_literal ''Dedicating device '', realDevice, c_literal '' to '', image, [39] @ c_literal ''s directory entry... ''] in
         report_call ctx smapi ''Image_Device_Dedicate_DM'' strMsg strMsg
           (smImage_Device_Dedicate_DM malloc [] 0 [] image virtualDevice realDevice (of_int readOnly)))))))))"

definition imageDeviceReset :: cli_command where
  "imageDeviceReset ctx malloc smapi argV =
     with_options ctx ''Image_Device_Reset'' ''-T:v:h?'' ''Tv'' ''Tv'' argV (\<lambda>opt.
       (let image = opt (CHR ''T'');
         virtualDevice = opt (CHR ''v'') in
       (if image = None \<or> virtualDevice = None then missing_options ctx
       else deref image (\<lambda>image. deref virtualDevice (\<lambda>virtualDevice. 
         (let strMsg = snprintf 250 [c_literal ''Clearing all pending interrupts from '', virtualDevice, c_literal ''... ''] in
         report_call ctx smapi ''Image_Device_Reset'' strMsg strMsg
           (smImage_Device_Reset malloc [] 0 [] image virtualDevice)))))))"

definition imageDeviceUndedicate :: cli_command where
  "imageDeviceUndedicate ctx malloc smapi argV =
     with_options ctx ''Image_Device_Undedicate'' ''-T:v:h?'' ''Tv'' ''Tv'' argV (\<lambda>opt.
       (let image = opt (CHR ''T'');
         virtualDevice = opt (CHR ''v'') in
       (if image = None \<or> virtualDevice = None then missing_options ctx
       else deref image (\<lambda>image. deref virtualDevice (\<lambda>virtualDevice. 
         (let strMsg = snprintf 250 [c_literal ''Deleting dedicated device from '', image, [39] @ c_literal ''s active configuration... ''] in
         report_call ctx smapi ''Image_Device_Undedicate'' strMsg strMsg
           (smImage_Device_Undedicate malloc [] 0 [] image virtualDevice)))))))"

definition imageDeviceUndedicateDM :: cli_command where
  "imageDeviceUndedicateDM ctx malloc smapi argV =
     with_options ctx ''Image_Device_Undedicate_DM'' ''-T:v:h?'' ''Tv'' ''Tv'' argV (\<lambda>opt.
       (let image = opt (CHR ''T'');
         virtualDevice = opt (CHR ''v'') in
       (if image = None \<or> virtualDevice = None then missing_options ctx
       else deref image (\<lambda>image. deref virtualDevice (\<lambda>virtualDevice. 
         (let strMsg = snprintf 250 [c_literal ''Deleting dedicated device from '', image, [39] @ c_literal ''s directory entry... ''] in
         report_call ctx smapi ''Image_Device_Undedicate_DM'' strMsg strMsg
           (smImage_Device_Undedicate_DM malloc [] 0 [] image virtualDevice)))))))"

definition imageDiskCopy :: cli_command where
  "imageDiskCopy ctx malloc smapi argV =
     with_options ctx ''Image_Disk_Copy'' ''-T:v:h?'' ''Tv'' ''Tv'' argV (\<lambda>opt.
       (let image = opt (CHR ''T'');
         virtualDevice = opt (CHR ''v'') in
       (if image = None \<or> virtualDevice = None then missing_options ctx
       else deref image (\<lambda>image. deref virtualDevice (\<lambda>virtualDevice. 
         (let strMsg = snprintf 250 [c_literal ''Cloning disk in '', image, [39] @ c_literal ''s active configuration... ''] in
         report_call ctx smapi ''Image_Disk_Copy'' strMsg strMsg
           (smImage_Disk_Copy malloc [] 0 [] image virtualDevice)))))))"

definition imageDiskCreate :: cli_command where
  "imageDiskCreate ctx malloc smapi argV =
     with_options ctx ''Image_Disk_Create'' ''-T:v:m:h?'' ''Tvm'' ''Tvm'' argV (\<lambda>opt.
       (let image = opt (CHR ''T'');
         deviceAddr = opt (CHR ''v'');
         accessMode = opt (CHR ''m'') in
       (if image = None \<or> deviceAddr = None \<or> accessMode = None then missing_options ctx
       else deref image (\<lambda>image. deref deviceAddr (\<lambda>deviceAddr. deref accessMode (\<lambda>accessMode. 
         (let strMsg = snprintf 250 [c_literal ''Adding disk to '', image, [39] @ c_literal ''s active configuration... ''] in
         report_call ctx smapi ''Image_Disk_Create'' strMsg strMsg
           (smImage_Disk_Create malloc [] 0 [] image deviceAddr accessMode))))))))"

definition imageDiskDelete :: cli_command where
  "imageDiskDelete ctx malloc smapi argV =
     with_options ctx ''Image_Disk_Delete'' ''-T:v:h?'' ''Tv'' ''Tv'' argV (\<lambda>opt.
       (let image = opt (CHR ''T'');
         address = opt (CHR ''v'') in
       (if image = None \<or> address = None then missing_options ctx
       else deref image (\<lambda>image. deref address (\<lambda>address. 
         (let strMsg = snprintf 250 [c_literal ''Deleting disk from '', image, [39] @ c_literal ''s configuration... ''] in
         report_call ctx smapi ''Image_Disk_Delete'' strMsg strMsg
           (smImage_Disk_Delete malloc [] 0 [] image address)))))))"

definition imageDiskShare :: cli_command where
  "imageDiskShare ctx malloc smapi argV =
     with_options ctx ''Image_Disk_Share'' ''-T:v:t:r:a:p:h?'' ''Tvtrap'' ''Tvtrap'' argV (\<lambda>opt.
       (let image = opt (CHR ''T'');
         address = opt (CHR ''v'');
         tgtImage = opt (CHR ''t'');
         tgtAddress = opt (CHR ''r'');
         accessMode = opt (CHR ''a'');
         password = opt_str [] (opt (CHR ''p'')) in
       (if image = None \<or> address = None \<or> tgtImage = None \<or> tgtAddress = None \<or> accessMode = None then missing_options ctx
       else deref image (\<lambda>image. deref address (\<lambda>address. deref tgtImage (\<lambda>tgtImage. deref tgtAddress (\<lambda>tgtAddress. deref accessMode (\<lambda>accessMode. deref password (\<lambda>password. 
         (let strMsg = snprintf 250 [c_literal ''Adding disk in '', tgtImage, [39] @ c_literal ''s directory entry to '', image, [39] @ c_literal ''s active configuration... ''] in
         report_call ctx smapi ''Image_Disk_Share'' strMsg strMsg
           (smImage_Disk_Share malloc [] 0 [] image address tgtImage tgtAddress accessMode password)))))))))))"

definition imageDiskShareDM :: cli_command where
  "imageDiskShareDM ctx malloc smapi argV =
     with_options ctx ''Image_Disk_Share_DM'' ''-T:v:t:r:a:p:h?'' ''Tvtrap'' ''Tvtrap'' argV (\<lambda>opt.
       (let image = opt (CHR ''T'');
         tgtAddress = opt (CHR ''r'');
         tgtImage = opt (CHR ''t'');
         address = opt (CHR ''v'');
         accessMode = opt (CHR ''a'');
         password = opt_str [] (opt (CHR ''p'')) in
       (if image = None \<or> address = None \<or> tgtImage = None \<or> tgtAddress = None \<or> accessMode = None then missing_options ctx
       else deref image (\<lambda>image. deref tgtAddress (\<lambda>tgtAddress. deref tgtImage (\<lambda>tgtImage. deref address (\<lambda>address. deref accessMode (\<lambda>accessMode. deref password (\<lambda>password. 
         (let strMsg = snprintf 250 [c_literal ''Adding disk in '', tgtImage, [39] @ c_literal ''s directory entry to '', image, [39] @ c_literal ''s directory entry... ''] in
         report_call ctx smapi ''Image_Disk_Share_DM'' strMsg strMsg
           (smImage_Disk_Share_DM malloc [] 0 [] image tgtAddress tgtImage address accessMode password)))))))))))"

definition imageDiskUnshare :: cli_command where
  "imageDiskUnshare ctx malloc smapi argV =
     with_options ctx ''Image_Disk_Unshare'' ''-T:v:h?'' ''Tv'' ''Tv'' argV (\<lambda>opt.
       (let image = opt (CHR ''T'');
         address = opt (CHR ''v'') in
       (if image = None \<or> address = None then missing_options ctx
       else deref image (\<lambda>image. deref address (\<lambda>address. 
         (let strMsg = snprintf 250 [c_literal ''Deleting shared disk from '', image, [39] @ c_literal ''s configuration... ''] in
         report_call ctx smapi ''Image_Disk_Unshare'' strMsg strMsg
           (smImage_Disk_Unshare malloc [] 0 [] image address)))))))"

definition imageDiskUnshareDM :: cli_command where
  "imageDiskUnshareDM ctx malloc smapi argV =
     with_options ctx ''Image_Disk_Unshare_DM'' ''-T:v:t:r:h?'' ''Tvtr'' ''Tvtr'' argV (\<lambda>opt.
       (let image = opt (CHR ''T'');
         address = opt (CHR ''v'');
         tgtImage = opt (CHR ''t'');
         tgtAddress = opt (CHR ''r'') in
       (if image = None \<or> address = None \<or> tgtImage = None \<or> tgtAddress = None then missing_options ctx
       else deref image (\<lambda>image. deref address (\<lambda>address. deref tgtImage (\<lambda>tgtImage. deref tgtAddress (\<lambda>tgtAddress. 
         (let strMsg = snprintf 250 [c_literal ''Deleting shared disk from '', image, [39] @ c_literal ''s directory entry... ''] in
         report_call ctx smapi ''Image_Disk_Unshare_DM'' strMsg strMsg
           (smImage_Disk_Unshare_DM malloc [] 0 [] image address tgtImage tgtAddress)))))))))"

definition imageIPLDeleteDM :: cli_command where
  "imageIPLDeleteDM ctx malloc smapi argV =
     with_options ctx ''Image_IPL_Delete_DM'' ''-T:h?'' ''T'' ''T'' argV (\<lambda>opt.
       (let image = opt (CHR ''T'') in
       (if image = None then missing_options ctx
       else deref image (\<lambda>image. 
         (let strMsg = snprintf 250 [c_literal ''Deleting IPL statement from '', image, [39] @ c_literal ''s directory entry... ''] in
         report_call ctx smapi ''Image_IPL_Delete_DM'' strMsg strMsg
           (smImage_IPL_Delete_DM malloc [] 0 [] image))))))"

definition imageIPLSetDM :: cli_command where
  "imageIPLSetDM ctx malloc smapi argV =
     with_options ctx ''Image_IPL_Set_DM'' ''-T:s:l:p:h?'' ''Tslp'' ''Tslp'' argV (\<lambda>opt.
       (let image = opt (CHR ''T'');
         savedSystem = opt_str [] (opt (CHR ''s''));
         loadParameter = opt_str [] (opt (CHR ''l''));
         parameter = opt_str [] (opt (CHR ''p'')) in
       (if image = None then missing_options ctx
       else deref image (\<lambda>image. deref savedSystem (\<lambda>savedSystem. deref loadParameter (\<lambda>loadParameter. deref parameter (\<lambda>parameter. 
         (let strMsg = snprintf 250 [c_literal ''Adding IPL statement to '', image, [39] @ c_literal ''s directory entry... ''] in
         report_call ctx smapi ''Image_IPL_Set_DM'' strMsg strMsg
           (smImage_IPL_Set_DM malloc [] 0 [] image savedSystem loadParameter parameter)))))))))"

definition imageLockDM :: cli_command where
  "imageLockDM ctx malloc smapi argV =
     with_options ctx ''Image_Lock_DM'' ''-T:v:h?'' ''Tv'' ''Tv'' argV (\<lambda>opt.
       (let image = opt (CHR ''T'');
         address = opt_str [] (opt (CHR ''v'')) in
       (if image = None then missing_options ctx
       else deref image (\<lambda>image. deref address (\<lambda>address. 
         (let strMsg = (if strlen address = 0 then snprintf 250 [c_literal ''Locking virtual image'' @ [39] @ c_literal ''s directory entry '', image, c_literal ''... ''] else snprintf 250 [c_literal ''Locking virtual image'' @ [39] @ c_literal ''s device '', address, c_literal ''... '']) in
         report_call ctx smapi ''Image_Lock_DM'' strMsg strMsg
           (smImage_Lock_DM malloc [] 0 [] image address)))))))"

definition imagePasswordSetDM :: cli_command where
  "imagePasswordSetDM ctx malloc smapi argV =
     with_options ctx ''Image_Password_Set_DM'' ''-T:p:h?'' ''Tp'' ''Tp'' argV (\<lambda>opt.
       (let image = opt (CHR ''T'');
         password = opt_str [] (opt (CHR ''p'')) in
       (if image = None \<or> password = None then missing_options ctx
       else deref image (\<lambda>image. deref password (\<lambda>password. 
         (let strMsg = snprintf 250 [c_literal ''Setting '', image, [39] @ c_literal ''s password... ''] in
         report_call ctx smapi ''Image_Password_Set_DM'' strMsg strMsg
           (smImage_Password_Set_DM malloc [] 0 [] image (strlen password) password)))))))"

definition imageRecycle :: cli_command where
  "imageRecycle ctx malloc smapi argV =
     with_options ctx ''Image_Recycle'' ''-T:h?'' ''T'' ''T'' argV (\<lambda>opt.
       (let image = opt (CHR ''T'') in
       (if image = None then missing_options ctx
       else deref image (\<lambda>image. 
         (let strMsg = snprintf 250 [c_literal ''Recycling '', image, c_literal ''... ''] in
         report_call ctx smapi ''Image_Recycle'' strMsg strMsg
           (smImage_Recycle malloc [] 0 [] image))))))"

definition imageUnlockDM :: cli_command where
  "imageUnlockDM ctx malloc smapi argV =
     with_options ctx ''Image_Unlock_DM'' ''-T:v:h?'' ''Tv'' ''Tv'' argV (\<lambda>opt.
       (let image = opt (CHR ''T'');
         address = opt_str [] (opt (CHR ''v'')) in
       (if image = None then missing_options ctx
       else deref image (\<lambda>image. deref address (\<lambda>address. 
         (let strMsg = (if strlen address = 0 then snprintf 250 [c_literal ''Unlocking '', image, [39] @ c_literal ''s directory entry... ''] else snprintf 250 [c_literal ''Unlocking '', image, [39] @ c_literal ''s device '', address, c_literal ''... '']) in
         report_call ctx smapi ''Image_Unlock_DM'' strMsg strMsg
           (smImage_Unlock_DM malloc [] 0 [] image address)))))))"

definition imageVolumeAdd :: cli_command where
  "imageVolumeAdd ctx malloc smapi argV =
     with_options ctx ''Image_Volume_Add'' ''-T:v:l:s:t:o:p:w:c:y:n:m:x:h?'' ''Tvlstopwcynmx'' ''Tvlstopwcynmx'' argV (\<lambda>opt.
       (let image = opt (CHR ''T'');
         address = opt_str [] (opt (CHR ''v''));
         volId = opt_str [] (opt (CHR ''l''));
         sysConfName = opt_str [] (opt (CHR ''s''));
         sysConfType = opt_str [] (opt (CHR ''t''));
         parmDiskOwner = opt_str [] (opt (CHR ''o''));
         parmDiskNumber = opt_str [] (opt (CHR ''p''));
         parmDiskPass = opt_str [] (opt (CHR ''w''));
         altSysConfName = opt_str [] (opt (CHR ''c''));
         altSysConfType = opt_str [] (opt (CHR ''y''));
         altParmDiskOwner = opt_str [] (opt (CHR ''n''));
         altParmDiskNumber = opt_str [] (opt (CHR ''m''));
         altParmDiskPass = opt_str [] (opt (CHR ''x'')) in
       (if image = None \<or> address = None \<or> volId = None \<or> sysConfName = None \<or> sysConfType = None \<or> parmDiskOwner = None \<or> parmDiskNumber = None \<or> parmDiskPass = None \<or> altSysConfName = None \<or> altSysConfType = None \<or> altParmDiskOwner = None \<or> altParmDiskNumber = None \<or> altParmDiskPass = None then missing_options ctx
       else deref image (\<lambda>image. deref address (\<lambda>address. deref volId (\<lambda>volId. deref sysConfName (\<lambda>sysConfName. deref sysConfType (\<lambda>sysConfType. deref parmDiskOwner (\<lambda>parmDiskOwner. deref parmDiskNumber (\<lambda>parmDiskNumber. deref parmDiskPass (\<lambda>parmDiskPass. deref altSysConfName (\<lambda>altSysConfName. deref altSysConfType (\<lambda>altSysConfType. deref altParmDiskOwner (\<lambda>altParmDiskOwner. deref altParmDiskNumber (\<lambda>altParmDiskNumber. deref altParmDiskPass (\<lambda>altParmDiskPass. 
         (let strMsg = snprintf 250 [c_literal ''Adding DASD volume to the z/VM system configuration... ''] in
         report_call ctx smapi ''Image_Volume_Add'' strMsg strMsg
           (smImage_Volume_Add malloc [] 0 [] image address volId sysConfName sysConfType parmDiskOwner parmDiskNumber parmDiskPass altSysConfName altSysConfType altParmDiskOwner altParmDiskNumber altParmDiskPass))))))))))))))))))"

definition imageVolumeDelete :: cli_command where
  "imageVolumeDelete ctx malloc smapi argV =
     with_options ctx ''Image_Volume_Delete'' ''-T:v:l:s:t:o:p:w:c:y:n:m:x:h?'' ''Tvlstopwcynmx'' ''Tvlstopwcynmx'' argV (\<lambda>opt.
       (let image = opt (CHR ''T'');
         address = opt_str [] (opt (CHR ''v''));
         volId = opt_str [] (opt (CHR ''l''));
         sysConfName = opt_str [] (opt (CHR ''s''));
         sysConfType = opt_str [] (opt (CHR ''t''));
         parmDiskOwner = opt_str [] (opt (CHR ''o''));
         parmDiskNumber = opt_str [] (opt (CHR ''p''));
         parmDiskPass = opt_str [] (opt (CHR ''w''));
         altSysConfName = opt_str [] (opt (CHR ''c''));
         altSysConfType = opt_str [] (opt (CHR ''y''));
         altParmDiskOwner = opt_str [] (opt (CHR ''n''));
         altParmDiskNumber = opt_str [] (opt (CHR ''m''));
         altParmDiskPass = opt_str [] (opt (CHR ''x'')) in
       (if image = None \<or> address = None \<or> volId = None \<or> sysConfName = None \<or> sysConfType = None \<or> parmDiskOwner = None \<or> parmDiskNumber = None \<or> parmDiskPass = None \<or> altSysConfName = None \<or> altSysConfType = None \<or> altParmDiskOwner = None \<or> altParmDiskNumber = None \<or> altParmDiskPass = None then missing_options ctx
       else deref image (\<lambda>image. deref address (\<lambda>address. deref volId (\<lambda>volId. deref sysConfName (\<lambda>sysConfName. deref sysConfType (\<lambda>sysConfType. deref parmDiskOwner (\<lambda>parmDiskOwner. deref parmDiskNumber (\<lambda>parmDiskNumber. deref parmDiskPass (\<lambda>parmDiskPass. deref altSysConfName (\<lambda>altSysConfName. deref altSysConfType (\<lambda>altSysConfType. deref altParmDiskOwner (\<lambda>altParmDiskOwner. deref altParmDiskNumber (\<lambda>altParmDiskNumber. deref altParmDiskPass (\<lambda>altParmDiskPass. 
         (let strMsg = snprintf 250 [c_literal ''Deleting DASD volume definition from the z/VM system configuration... ''] in
         report_call ctx smapi ''Image_Volume_Delete'' strMsg strMsg
           (smImage_Volume_Delete malloc [] 0 [] image address volId sysConfName sysConfType parmDiskOwner parmDiskNumber parmDiskPass altSysConfName altSysConfType altParmDiskOwner altParmDiskNumber altParmDiskPass))))))))))))))))))"

definition imageVolumeSpaceRemoveDM :: cli_command where
  "imageVolumeSpaceRemoveDM ctx malloc smapi argV =
     with_options ctx ''Image_Volume_Space_Remove_DM'' ''-T:f:r:v:g:h?'' ''Tfrvg'' ''Tfrvg'' argV (\<lambda>opt.
       (let image = opt (CHR ''T'');
         functionType = opt_int (0) (opt (CHR ''f''));
         regionName = opt_str [] (opt (CHR ''r''));
         volId = opt_str [] (opt (CHR ''v''));
         groupName = opt_str [] (opt (CHR ''g'')) in
       (if image = None \<or> functionType = 0 then missing_options ctx
       else deref image (\<lambda>image. deref regionName (\<lambda>regionName. deref volId (\<lambda>volId. deref groupName (\<lambda>groupName. 
         (let strMsg = [] in
         report_call ctx smapi ''Image_Volume_Space_Remove_DM'' strMsg strMsg
           (smImage_Volume_Space_Remove_DM malloc [] 0 [] image (of_int functionType) regionName volId groupName)))))))))"

definition imageConsoleGet :: cli_command where
  "imageConsoleGet ctx malloc smapi argV =
     with_options ctx ''Image_Console_Get'' ''-T:h?'' ''T'' ''T'' argV (\<lambda>opt.
       (let image = opt (CHR ''T'') in
       (if image = None then missing_options ctx
       else deref image (\<lambda>image. 
         (let strMsg = [] in
         report_call ctx smapi ''Image_Console_Get'' strMsg strMsg
           (smImage_Console_Get malloc [] 0 [] image))))))"

section \<open>Specifications\<close>

definition imageCPUDefine_spec :: cli_spec where
  "imageCPUDefine_spec =
     \<lparr>cli_api = smImage_CPU_Define_api, cli_optstring = ''-T:v:t:h?'', cli_cases = ''Tvt'',
      cli_args = [Required (CHR ''T''), Required (CHR ''v''), Character (CHR ''t'') (-1) (\<lambda>v. v < 0)],
      cli_help = ''Image_CPU_Define'', cli_class = ''Image_CPU_Define'',
      cli_status = (\<lambda>opt. let image = (case opt (CHR ''T'') of None \<Rightarrow> [] | Some s \<Rightarrow> s) in snprintf 250 [c_literal ''Adding a virtual processor to '', image, [39] @ c_literal ''s configuration...''])\<rparr>"

definition imageCPUDelete_spec :: cli_spec where
  "imageCPUDelete_spec =
     \<lparr>cli_api = smImage_CPU_Delete_api, cli_optstring = ''-T:v:h?'', cli_cases = ''Tv'',
      cli_args = [Required (CHR ''T''), Required (CHR ''v'')],
      cli_help = ''Image_CPU_Delete'', cli_class = ''Image_CPU_Delete'',
      cli_status = (\<lambda>opt. let image = (case opt (CHR ''T'') of None \<Rightarrow> [] | Some s \<Rightarrow> s) in snprintf 250 [c_literal ''Deleting a virtual processor from '', image, [39] @ c_literal ''s active configuration... ''])\<rparr>"

definition imageCPUDeleteDM_spec :: cli_spec where
  "imageCPUDeleteDM_spec =
     \<lparr>cli_api = smImage_CPU_Delete_DM_api, cli_optstring = ''-T:v:h?'', cli_cases = ''Tv'',
      cli_args = [Required (CHR ''T''), Required (CHR ''v'')],
      cli_help = ''Image_CPU_Delete_DM'', cli_class = ''Image_CPU_Delete_DM'',
      cli_status = (\<lambda>opt. let image = (case opt (CHR ''T'') of None \<Rightarrow> [] | Some s \<Rightarrow> s) in snprintf 250 [c_literal ''Deleting a virtual processor from '', image, [39] @ c_literal ''s directory entry... ''])\<rparr>"

definition imageCPUSetMaximumDM_spec :: cli_spec where
  "imageCPUSetMaximumDM_spec =
     \<lparr>cli_api = smImage_CPU_Set_Maximum_DM_api, cli_optstring = ''-T:m:h?'', cli_cases = ''Tm'',
      cli_args = [Required (CHR ''T''), Number (CHR ''m'') (0) (\<lambda>v. v = 0)],
      cli_help = ''Image_CPU_Set_Maximum_DM'', cli_class = ''Image_CPU_Set_Maximum_DM'',
      cli_status = (\<lambda>opt. let maxCpu = opt_int (0) (opt (CHR ''m'')); image = (case opt (CHR ''T'') of None \<Rightarrow> [] | Some s \<Rightarrow> s) in snprintf 250 [c_literal ''Setting the maximum number of virtual processors to '', c_decimal maxCpu, c_literal '' for '', image, c_literal '' directory entry... ''])\<rparr>"

definition imageDeviceDedicate_spec :: cli_spec where
  "imageDeviceDedicate_spec =
     \<lparr>cli_api = smImage_Device_Dedicate_api, cli_optstring = ''-T:v:r:R:h?'', cli_cases = ''TvrR'',
      cli_args = [Required (CHR ''T''), Required (CHR ''v''), Required (CHR ''r''), Character (CHR ''R'') (0) (\<lambda>v. v < 0 \<or> v > 1)],
      cli_help = ''Image_Device_Dedicate'', cli_class = ''Image_Device_Dedicate'',
      cli_status = (\<lambda>opt. let realDevice = (case opt (CHR ''r'') of None \<Rightarrow> [] | Some s \<Rightarrow> s); image = (case opt (CHR ''T'') of None \<Rightarrow> [] | Some s \<Rightarrow> s) in snprintf 250 [c_literal ''Dedicating device '', realDevice, c_literal '' to '', image, [39] @ c_literal ''s active configuration... ''])\<rparr>"

definition imageDeviceDedicateDM_spec :: cli_spec where
  "imageDeviceDedicateDM_spec =
     \<lparr>cli_api = smImage_Device_Dedicate_DM_api, cli_optstring = ''-T:v:r:R:h?'', cli_cases = ''TvrR'',
      cli_args = [Required (CHR ''T''), Required (CHR ''v''), Required (CHR ''r''), Character (CHR ''R'') (0) (\<lambda>v. v < 0 \<or> v > 1)],
      cli_help = ''Image_Device_Dedicate_DM'', cli_class = ''Image_Device_Dedicate_DM'',
      cli_status = (\<lambda>opt. let realDevice = (case opt (CHR ''r'') of None \<Rightarrow> [] | Some s \<Rightarrow> s); image = (case opt (CHR ''T'') of None \<Rightarrow> [] | Some s \<Rightarrow> s) in snprintf 250 [c_literal ''Dedicating device '', realDevice, c_literal '' to '', image, [39] @ c_literal ''s directory entry... ''])\<rparr>"

definition imageDeviceReset_spec :: cli_spec where
  "imageDeviceReset_spec =
     \<lparr>cli_api = smImage_Device_Reset_api, cli_optstring = ''-T:v:h?'', cli_cases = ''Tv'',
      cli_args = [Required (CHR ''T''), Required (CHR ''v'')],
      cli_help = ''Image_Device_Reset'', cli_class = ''Image_Device_Reset'',
      cli_status = (\<lambda>opt. let virtualDevice = (case opt (CHR ''v'') of None \<Rightarrow> [] | Some s \<Rightarrow> s) in snprintf 250 [c_literal ''Clearing all pending interrupts from '', virtualDevice, c_literal ''... ''])\<rparr>"

definition imageDeviceUndedicate_spec :: cli_spec where
  "imageDeviceUndedicate_spec =
     \<lparr>cli_api = smImage_Device_Undedicate_api, cli_optstring = ''-T:v:h?'', cli_cases = ''Tv'',
      cli_args = [Required (CHR ''T''), Required (CHR ''v'')],
      cli_help = ''Image_Device_Undedicate'', cli_class = ''Image_Device_Undedicate'',
      cli_status = (\<lambda>opt. let image = (case opt (CHR ''T'') of None \<Rightarrow> [] | Some s \<Rightarrow> s) in snprintf 250 [c_literal ''Deleting dedicated device from '', image, [39] @ c_literal ''s active configuration... ''])\<rparr>"

definition imageDeviceUndedicateDM_spec :: cli_spec where
  "imageDeviceUndedicateDM_spec =
     \<lparr>cli_api = smImage_Device_Undedicate_DM_api, cli_optstring = ''-T:v:h?'', cli_cases = ''Tv'',
      cli_args = [Required (CHR ''T''), Required (CHR ''v'')],
      cli_help = ''Image_Device_Undedicate_DM'', cli_class = ''Image_Device_Undedicate_DM'',
      cli_status = (\<lambda>opt. let image = (case opt (CHR ''T'') of None \<Rightarrow> [] | Some s \<Rightarrow> s) in snprintf 250 [c_literal ''Deleting dedicated device from '', image, [39] @ c_literal ''s directory entry... ''])\<rparr>"

definition imageDiskCopy_spec :: cli_spec where
  "imageDiskCopy_spec =
     \<lparr>cli_api = smImage_Disk_Copy_api, cli_optstring = ''-T:v:h?'', cli_cases = ''Tv'',
      cli_args = [Required (CHR ''T''), Required (CHR ''v'')],
      cli_help = ''Image_Disk_Copy'', cli_class = ''Image_Disk_Copy'',
      cli_status = (\<lambda>opt. let image = (case opt (CHR ''T'') of None \<Rightarrow> [] | Some s \<Rightarrow> s) in snprintf 250 [c_literal ''Cloning disk in '', image, [39] @ c_literal ''s active configuration... ''])\<rparr>"

definition imageDiskCreate_spec :: cli_spec where
  "imageDiskCreate_spec =
     \<lparr>cli_api = smImage_Disk_Create_api, cli_optstring = ''-T:v:m:h?'', cli_cases = ''Tvm'',
      cli_args = [Required (CHR ''T''), Required (CHR ''v''), Required (CHR ''m'')],
      cli_help = ''Image_Disk_Create'', cli_class = ''Image_Disk_Create'',
      cli_status = (\<lambda>opt. let image = (case opt (CHR ''T'') of None \<Rightarrow> [] | Some s \<Rightarrow> s) in snprintf 250 [c_literal ''Adding disk to '', image, [39] @ c_literal ''s active configuration... ''])\<rparr>"

definition imageDiskDelete_spec :: cli_spec where
  "imageDiskDelete_spec =
     \<lparr>cli_api = smImage_Disk_Delete_api, cli_optstring = ''-T:v:h?'', cli_cases = ''Tv'',
      cli_args = [Required (CHR ''T''), Required (CHR ''v'')],
      cli_help = ''Image_Disk_Delete'', cli_class = ''Image_Disk_Delete'',
      cli_status = (\<lambda>opt. let image = (case opt (CHR ''T'') of None \<Rightarrow> [] | Some s \<Rightarrow> s) in snprintf 250 [c_literal ''Deleting disk from '', image, [39] @ c_literal ''s configuration... ''])\<rparr>"

definition imageDiskShare_spec :: cli_spec where
  "imageDiskShare_spec =
     \<lparr>cli_api = smImage_Disk_Share_api, cli_optstring = ''-T:v:t:r:a:p:h?'', cli_cases = ''Tvtrap'',
      cli_args = [Required (CHR ''T''), Required (CHR ''v''), Required (CHR ''t''), Required (CHR ''r''), Required (CHR ''a''), Optional (CHR ''p'') []],
      cli_help = ''Image_Disk_Share'', cli_class = ''Image_Disk_Share'',
      cli_status = (\<lambda>opt. let tgtImage = (case opt (CHR ''t'') of None \<Rightarrow> [] | Some s \<Rightarrow> s); image = (case opt (CHR ''T'') of None \<Rightarrow> [] | Some s \<Rightarrow> s) in snprintf 250 [c_literal ''Adding disk in '', tgtImage, [39] @ c_literal ''s directory entry to '', image, [39] @ c_literal ''s active configuration... ''])\<rparr>"

definition imageDiskShareDM_spec :: cli_spec where
  "imageDiskShareDM_spec =
     \<lparr>cli_api = smImage_Disk_Share_DM_api, cli_optstring = ''-T:v:t:r:a:p:h?'', cli_cases = ''Tvtrap'',
      cli_args = [Required (CHR ''T''), Required (CHR ''r''), Required (CHR ''t''), Required (CHR ''v''), Required (CHR ''a''), Optional (CHR ''p'') []],
      cli_help = ''Image_Disk_Share_DM'', cli_class = ''Image_Disk_Share_DM'',
      cli_status = (\<lambda>opt. let tgtImage = (case opt (CHR ''t'') of None \<Rightarrow> [] | Some s \<Rightarrow> s); image = (case opt (CHR ''T'') of None \<Rightarrow> [] | Some s \<Rightarrow> s) in snprintf 250 [c_literal ''Adding disk in '', tgtImage, [39] @ c_literal ''s directory entry to '', image, [39] @ c_literal ''s directory entry... ''])\<rparr>"

definition imageDiskUnshare_spec :: cli_spec where
  "imageDiskUnshare_spec =
     \<lparr>cli_api = smImage_Disk_Unshare_api, cli_optstring = ''-T:v:h?'', cli_cases = ''Tv'',
      cli_args = [Required (CHR ''T''), Required (CHR ''v'')],
      cli_help = ''Image_Disk_Unshare'', cli_class = ''Image_Disk_Unshare'',
      cli_status = (\<lambda>opt. let image = (case opt (CHR ''T'') of None \<Rightarrow> [] | Some s \<Rightarrow> s) in snprintf 250 [c_literal ''Deleting shared disk from '', image, [39] @ c_literal ''s configuration... ''])\<rparr>"

definition imageDiskUnshareDM_spec :: cli_spec where
  "imageDiskUnshareDM_spec =
     \<lparr>cli_api = smImage_Disk_Unshare_DM_api, cli_optstring = ''-T:v:t:r:h?'', cli_cases = ''Tvtr'',
      cli_args = [Required (CHR ''T''), Required (CHR ''v''), Required (CHR ''t''), Required (CHR ''r'')],
      cli_help = ''Image_Disk_Unshare_DM'', cli_class = ''Image_Disk_Unshare_DM'',
      cli_status = (\<lambda>opt. let image = (case opt (CHR ''T'') of None \<Rightarrow> [] | Some s \<Rightarrow> s) in snprintf 250 [c_literal ''Deleting shared disk from '', image, [39] @ c_literal ''s directory entry... ''])\<rparr>"

definition imageIPLDeleteDM_spec :: cli_spec where
  "imageIPLDeleteDM_spec =
     \<lparr>cli_api = smImage_IPL_Delete_DM_api, cli_optstring = ''-T:h?'', cli_cases = ''T'',
      cli_args = [Required (CHR ''T'')],
      cli_help = ''Image_IPL_Delete_DM'', cli_class = ''Image_IPL_Delete_DM'',
      cli_status = (\<lambda>opt. let image = (case opt (CHR ''T'') of None \<Rightarrow> [] | Some s \<Rightarrow> s) in snprintf 250 [c_literal ''Deleting IPL statement from '', image, [39] @ c_literal ''s directory entry... ''])\<rparr>"

definition imageIPLSetDM_spec :: cli_spec where
  "imageIPLSetDM_spec =
     \<lparr>cli_api = smImage_IPL_Set_DM_api, cli_optstring = ''-T:s:l:p:h?'', cli_cases = ''Tslp'',
      cli_args = [Required (CHR ''T''), Optional (CHR ''s'') [], Optional (CHR ''l'') [], Optional (CHR ''p'') []],
      cli_help = ''Image_IPL_Set_DM'', cli_class = ''Image_IPL_Set_DM'',
      cli_status = (\<lambda>opt. let image = (case opt (CHR ''T'') of None \<Rightarrow> [] | Some s \<Rightarrow> s) in snprintf 250 [c_literal ''Adding IPL statement to '', image, [39] @ c_literal ''s directory entry... ''])\<rparr>"

definition imageLockDM_spec :: cli_spec where
  "imageLockDM_spec =
     \<lparr>cli_api = smImage_Lock_DM_api, cli_optstring = ''-T:v:h?'', cli_cases = ''Tv'',
      cli_args = [Required (CHR ''T''), Optional (CHR ''v'') []],
      cli_help = ''Image_Lock_DM'', cli_class = ''Image_Lock_DM'',
      cli_status = (\<lambda>opt. let image = (case opt (CHR ''T'') of None \<Rightarrow> [] | Some s \<Rightarrow> s); address = (case opt (CHR ''v'') of None \<Rightarrow> [] | Some s \<Rightarrow> s) in (if strlen address = 0 then snprintf 250 [c_literal ''Locking virtual image'' @ [39] @ c_literal ''s directory entry '', image, c_literal ''... ''] else snprintf 250 [c_literal ''Locking virtual image'' @ [39] @ c_literal ''s device '', address, c_literal ''... '']))\<rparr>"

definition imagePasswordSetDM_spec :: cli_spec where
  "imagePasswordSetDM_spec =
     \<lparr>cli_api = smImage_Password_Set_DM_api, cli_optstring = ''-T:p:h?'', cli_cases = ''Tp'',
      cli_args = [Required (CHR ''T''), Buffer_Opt (CHR ''p'') []],
      cli_help = ''Image_Password_Set_DM'', cli_class = ''Image_Password_Set_DM'',
      cli_status = (\<lambda>opt. let image = (case opt (CHR ''T'') of None \<Rightarrow> [] | Some s \<Rightarrow> s) in snprintf 250 [c_literal ''Setting '', image, [39] @ c_literal ''s password... ''])\<rparr>"

definition imageRecycle_spec :: cli_spec where
  "imageRecycle_spec =
     \<lparr>cli_api = smImage_Recycle_api, cli_optstring = ''-T:h?'', cli_cases = ''T'',
      cli_args = [Required (CHR ''T'')],
      cli_help = ''Image_Recycle'', cli_class = ''Image_Recycle'',
      cli_status = (\<lambda>opt. let image = (case opt (CHR ''T'') of None \<Rightarrow> [] | Some s \<Rightarrow> s) in snprintf 250 [c_literal ''Recycling '', image, c_literal ''... ''])\<rparr>"

definition imageUnlockDM_spec :: cli_spec where
  "imageUnlockDM_spec =
     \<lparr>cli_api = smImage_Unlock_DM_api, cli_optstring = ''-T:v:h?'', cli_cases = ''Tv'',
      cli_args = [Required (CHR ''T''), Optional (CHR ''v'') []],
      cli_help = ''Image_Unlock_DM'', cli_class = ''Image_Unlock_DM'',
      cli_status = (\<lambda>opt. let image = (case opt (CHR ''T'') of None \<Rightarrow> [] | Some s \<Rightarrow> s); address = (case opt (CHR ''v'') of None \<Rightarrow> [] | Some s \<Rightarrow> s) in (if strlen address = 0 then snprintf 250 [c_literal ''Unlocking '', image, [39] @ c_literal ''s directory entry... ''] else snprintf 250 [c_literal ''Unlocking '', image, [39] @ c_literal ''s device '', address, c_literal ''... '']))\<rparr>"

definition imageVolumeAdd_spec :: cli_spec where
  "imageVolumeAdd_spec =
     \<lparr>cli_api = smImage_Volume_Add_api, cli_optstring = ''-T:v:l:s:t:o:p:w:c:y:n:m:x:h?'', cli_cases = ''Tvlstopwcynmx'',
      cli_args = [Required (CHR ''T''), Optional (CHR ''v'') [], Optional (CHR ''l'') [], Optional (CHR ''s'') [], Optional (CHR ''t'') [], Optional (CHR ''o'') [], Optional (CHR ''p'') [], Optional (CHR ''w'') [], Optional (CHR ''c'') [], Optional (CHR ''y'') [], Optional (CHR ''n'') [], Optional (CHR ''m'') [], Optional (CHR ''x'') []],
      cli_help = ''Image_Volume_Add'', cli_class = ''Image_Volume_Add'',
      cli_status = (\<lambda>opt. snprintf 250 [c_literal ''Adding DASD volume to the z/VM system configuration... ''])\<rparr>"

definition imageVolumeSpaceRemoveDM_spec :: cli_spec where
  "imageVolumeSpaceRemoveDM_spec =
     \<lparr>cli_api = smImage_Volume_Space_Remove_DM_api, cli_optstring = ''-T:f:r:v:g:h?'', cli_cases = ''Tfrvg'',
      cli_args = [Required (CHR ''T''), Character (CHR ''f'') (0) (\<lambda>v. v = 0), Optional (CHR ''r'') [], Optional (CHR ''v'') [], Optional (CHR ''g'') []],
      cli_help = ''Image_Volume_Space_Remove_DM'', cli_class = ''Image_Volume_Space_Remove_DM'',
      cli_status = (\<lambda>opt. [])\<rparr>"

definition imageConsoleGet_spec :: cli_spec where
  "imageConsoleGet_spec =
     \<lparr>cli_api = smImage_Console_Get_api, cli_optstring = ''-T:h?'', cli_cases = ''T'',
      cli_args = [Required (CHR ''T'')],
      cli_help = ''Image_Console_Get'', cli_class = ''Image_Console_Get'',
      cli_status = (\<lambda>opt. [])\<rparr>"

section \<open>The commands follow their specifications\<close>

lemma imageCPUDefine_run [cli_rules]: "imageCPUDefine = cli_run imageCPUDefine_spec"
  by (intro ext, unfold imageCPUDefine_def imageCPUDefine_spec_def smImage_CPU_Define_api_def Let_def cli_unfold,
      rule with_options_cong, rule if_cong) (auto simp: Let_def)

lemma imageCPUDefine_spec_ok [cli_rules]: "spec_ok imageCPUDefine_spec"
  by (simp add: spec_ok_def imageCPUDefine_spec_def stripped_def api_rules)

lemma imageCPUDelete_run [cli_rules]: "imageCPUDelete = cli_run imageCPUDelete_spec"
  by (intro ext, unfold imageCPUDelete_def imageCPUDelete_spec_def smImage_CPU_Delete_api_def Let_def cli_unfold,
      rule with_options_cong, rule if_cong) (auto simp: Let_def)

lemma imageCPUDelete_spec_ok [cli_rules]: "spec_ok imageCPUDelete_spec"
  by (simp add: spec_ok_def imageCPUDelete_spec_def stripped_def api_rules)

lemma imageCPUDeleteDM_run [cli_rules]: "imageCPUDeleteDM = cli_run imageCPUDeleteDM_spec"
  by (intro ext, unfold imageCPUDeleteDM_def imageCPUDeleteDM_spec_def smImage_CPU_Delete_DM_api_def Let_def cli_unfold,
      rule with_options_cong, rule if_cong) (auto simp: Let_def)

lemma imageCPUDeleteDM_spec_ok [cli_rules]: "spec_ok imageCPUDeleteDM_spec"
  by (simp add: spec_ok_def imageCPUDeleteDM_spec_def stripped_def api_rules)

lemma imageCPUSetMaximumDM_run [cli_rules]: "imageCPUSetMaximumDM = cli_run imageCPUSetMaximumDM_spec"
  by (intro ext, unfold imageCPUSetMaximumDM_def imageCPUSetMaximumDM_spec_def smImage_CPU_Set_Maximum_DM_api_def Let_def cli_unfold,
      rule with_options_cong, rule if_cong) (auto simp: Let_def)

lemma imageCPUSetMaximumDM_spec_ok [cli_rules]: "spec_ok imageCPUSetMaximumDM_spec"
  by (simp add: spec_ok_def imageCPUSetMaximumDM_spec_def stripped_def api_rules)

lemma imageDeviceDedicate_run [cli_rules]: "imageDeviceDedicate = cli_run imageDeviceDedicate_spec"
  by (intro ext, unfold imageDeviceDedicate_def imageDeviceDedicate_spec_def smImage_Device_Dedicate_api_def Let_def cli_unfold,
      rule with_options_cong, rule if_cong) (auto simp: Let_def)

lemma imageDeviceDedicate_spec_ok [cli_rules]: "spec_ok imageDeviceDedicate_spec"
  by (simp add: spec_ok_def imageDeviceDedicate_spec_def stripped_def api_rules)

lemma imageDeviceDedicateDM_run [cli_rules]: "imageDeviceDedicateDM = cli_run imageDeviceDedicateDM_spec"
  by (intro ext, unfold imageDeviceDedicateDM_def imageDeviceDedicateDM_spec_def smImage_Device_Dedicate_DM_api_def Let_def cli_unfold,
      rule with_options_cong, rule if_cong) (auto simp: Let_def)

lemma imageDeviceDedicateDM_spec_ok [cli_rules]: "spec_ok imageDeviceDedicateDM_spec"
  by (simp add: spec_ok_def imageDeviceDedicateDM_spec_def stripped_def api_rules)

lemma imageDeviceReset_run [cli_rules]: "imageDeviceReset = cli_run imageDeviceReset_spec"
  by (intro ext, unfold imageDeviceReset_def imageDeviceReset_spec_def smImage_Device_Reset_api_def Let_def cli_unfold,
      rule with_options_cong, rule if_cong) (auto simp: Let_def)

lemma imageDeviceReset_spec_ok [cli_rules]: "spec_ok imageDeviceReset_spec"
  by (simp add: spec_ok_def imageDeviceReset_spec_def stripped_def api_rules)

lemma imageDeviceUndedicate_run [cli_rules]: "imageDeviceUndedicate = cli_run imageDeviceUndedicate_spec"
  by (intro ext, unfold imageDeviceUndedicate_def imageDeviceUndedicate_spec_def smImage_Device_Undedicate_api_def Let_def cli_unfold,
      rule with_options_cong, rule if_cong) (auto simp: Let_def)

lemma imageDeviceUndedicate_spec_ok [cli_rules]: "spec_ok imageDeviceUndedicate_spec"
  by (simp add: spec_ok_def imageDeviceUndedicate_spec_def stripped_def api_rules)

lemma imageDeviceUndedicateDM_run [cli_rules]: "imageDeviceUndedicateDM = cli_run imageDeviceUndedicateDM_spec"
  by (intro ext, unfold imageDeviceUndedicateDM_def imageDeviceUndedicateDM_spec_def smImage_Device_Undedicate_DM_api_def Let_def cli_unfold,
      rule with_options_cong, rule if_cong) (auto simp: Let_def)

lemma imageDeviceUndedicateDM_spec_ok [cli_rules]: "spec_ok imageDeviceUndedicateDM_spec"
  by (simp add: spec_ok_def imageDeviceUndedicateDM_spec_def stripped_def api_rules)

lemma imageDiskCopy_run [cli_rules]: "imageDiskCopy = cli_run imageDiskCopy_spec"
  by (intro ext, unfold imageDiskCopy_def imageDiskCopy_spec_def smImage_Disk_Copy_api_def Let_def cli_unfold,
      rule with_options_cong, rule if_cong) (auto simp: Let_def)

lemma imageDiskCopy_spec_ok [cli_rules]: "spec_ok imageDiskCopy_spec"
  by (simp add: spec_ok_def imageDiskCopy_spec_def stripped_def api_rules)

lemma imageDiskCreate_run [cli_rules]: "imageDiskCreate = cli_run imageDiskCreate_spec"
  by (intro ext, unfold imageDiskCreate_def imageDiskCreate_spec_def smImage_Disk_Create_api_def Let_def cli_unfold,
      rule with_options_cong, rule if_cong) (auto simp: Let_def)

lemma imageDiskCreate_spec_ok [cli_rules]: "spec_ok imageDiskCreate_spec"
  by (simp add: spec_ok_def imageDiskCreate_spec_def stripped_def api_rules)

lemma imageDiskDelete_run [cli_rules]: "imageDiskDelete = cli_run imageDiskDelete_spec"
  by (intro ext, unfold imageDiskDelete_def imageDiskDelete_spec_def smImage_Disk_Delete_api_def Let_def cli_unfold,
      rule with_options_cong, rule if_cong) (auto simp: Let_def)

lemma imageDiskDelete_spec_ok [cli_rules]: "spec_ok imageDiskDelete_spec"
  by (simp add: spec_ok_def imageDiskDelete_spec_def stripped_def api_rules)

lemma imageDiskShare_run [cli_rules]: "imageDiskShare = cli_run imageDiskShare_spec"
  by (intro ext, unfold imageDiskShare_def imageDiskShare_spec_def smImage_Disk_Share_api_def Let_def cli_unfold,
      rule with_options_cong, rule if_cong) (auto simp: Let_def)

lemma imageDiskShare_spec_ok [cli_rules]: "spec_ok imageDiskShare_spec"
  by (simp add: spec_ok_def imageDiskShare_spec_def stripped_def api_rules)

lemma imageDiskShareDM_run [cli_rules]: "imageDiskShareDM = cli_run imageDiskShareDM_spec"
  by (intro ext, unfold imageDiskShareDM_def imageDiskShareDM_spec_def smImage_Disk_Share_DM_api_def Let_def cli_unfold,
      rule with_options_cong, rule if_cong) (auto simp: Let_def)

lemma imageDiskShareDM_spec_ok [cli_rules]: "spec_ok imageDiskShareDM_spec"
  by (simp add: spec_ok_def imageDiskShareDM_spec_def stripped_def api_rules)

lemma imageDiskUnshare_run [cli_rules]: "imageDiskUnshare = cli_run imageDiskUnshare_spec"
  by (intro ext, unfold imageDiskUnshare_def imageDiskUnshare_spec_def smImage_Disk_Unshare_api_def Let_def cli_unfold,
      rule with_options_cong, rule if_cong) (auto simp: Let_def)

lemma imageDiskUnshare_spec_ok [cli_rules]: "spec_ok imageDiskUnshare_spec"
  by (simp add: spec_ok_def imageDiskUnshare_spec_def stripped_def api_rules)

lemma imageDiskUnshareDM_run [cli_rules]: "imageDiskUnshareDM = cli_run imageDiskUnshareDM_spec"
  by (intro ext, unfold imageDiskUnshareDM_def imageDiskUnshareDM_spec_def smImage_Disk_Unshare_DM_api_def Let_def cli_unfold,
      rule with_options_cong, rule if_cong) (auto simp: Let_def)

lemma imageDiskUnshareDM_spec_ok [cli_rules]: "spec_ok imageDiskUnshareDM_spec"
  by (simp add: spec_ok_def imageDiskUnshareDM_spec_def stripped_def api_rules)

lemma imageIPLDeleteDM_run [cli_rules]: "imageIPLDeleteDM = cli_run imageIPLDeleteDM_spec"
  by (intro ext, unfold imageIPLDeleteDM_def imageIPLDeleteDM_spec_def smImage_IPL_Delete_DM_api_def Let_def cli_unfold,
      rule with_options_cong, rule if_cong) (auto simp: Let_def)

lemma imageIPLDeleteDM_spec_ok [cli_rules]: "spec_ok imageIPLDeleteDM_spec"
  by (simp add: spec_ok_def imageIPLDeleteDM_spec_def stripped_def api_rules)

lemma imageIPLSetDM_run [cli_rules]: "imageIPLSetDM = cli_run imageIPLSetDM_spec"
  by (intro ext, unfold imageIPLSetDM_def imageIPLSetDM_spec_def smImage_IPL_Set_DM_api_def Let_def cli_unfold,
      rule with_options_cong, rule if_cong) (auto simp: Let_def)

lemma imageIPLSetDM_spec_ok [cli_rules]: "spec_ok imageIPLSetDM_spec"
  by (simp add: spec_ok_def imageIPLSetDM_spec_def stripped_def api_rules)

lemma imageLockDM_run [cli_rules]: "imageLockDM = cli_run imageLockDM_spec"
  by (intro ext, unfold imageLockDM_def imageLockDM_spec_def smImage_Lock_DM_api_def Let_def cli_unfold,
      rule with_options_cong, rule if_cong) (auto simp: Let_def)

lemma imageLockDM_spec_ok [cli_rules]: "spec_ok imageLockDM_spec"
  by (simp add: spec_ok_def imageLockDM_spec_def stripped_def api_rules)

lemma imagePasswordSetDM_run [cli_rules]: "imagePasswordSetDM = cli_run imagePasswordSetDM_spec"
  by (intro ext, unfold imagePasswordSetDM_def imagePasswordSetDM_spec_def smImage_Password_Set_DM_api_def Let_def cli_unfold,
      rule with_options_cong, rule if_cong) (auto simp: Let_def)

lemma imagePasswordSetDM_spec_ok [cli_rules]: "spec_ok imagePasswordSetDM_spec"
  by (simp add: spec_ok_def imagePasswordSetDM_spec_def stripped_def api_rules)

lemma imageRecycle_run [cli_rules]: "imageRecycle = cli_run imageRecycle_spec"
  by (intro ext, unfold imageRecycle_def imageRecycle_spec_def smImage_Recycle_api_def Let_def cli_unfold,
      rule with_options_cong, rule if_cong) (auto simp: Let_def)

lemma imageRecycle_spec_ok [cli_rules]: "spec_ok imageRecycle_spec"
  by (simp add: spec_ok_def imageRecycle_spec_def stripped_def api_rules)

lemma imageUnlockDM_run [cli_rules]: "imageUnlockDM = cli_run imageUnlockDM_spec"
  by (intro ext, unfold imageUnlockDM_def imageUnlockDM_spec_def smImage_Unlock_DM_api_def Let_def cli_unfold,
      rule with_options_cong, rule if_cong) (auto simp: Let_def)

lemma imageUnlockDM_spec_ok [cli_rules]: "spec_ok imageUnlockDM_spec"
  by (simp add: spec_ok_def imageUnlockDM_spec_def stripped_def api_rules)

lemma imageVolumeAdd_run [cli_rules]: "imageVolumeAdd = cli_run imageVolumeAdd_spec"
  by (intro ext, unfold imageVolumeAdd_def imageVolumeAdd_spec_def smImage_Volume_Add_api_def Let_def cli_unfold,
      rule with_options_cong, rule if_cong) (auto simp: Let_def)

lemma imageVolumeAdd_spec_ok [cli_rules]: "spec_ok imageVolumeAdd_spec"
  by (simp add: spec_ok_def imageVolumeAdd_spec_def stripped_def api_rules)

lemma imageVolumeSpaceRemoveDM_run [cli_rules]: "imageVolumeSpaceRemoveDM = cli_run imageVolumeSpaceRemoveDM_spec"
  by (intro ext, unfold imageVolumeSpaceRemoveDM_def imageVolumeSpaceRemoveDM_spec_def smImage_Volume_Space_Remove_DM_api_def Let_def cli_unfold,
      rule with_options_cong, rule if_cong) (auto simp: Let_def)

lemma imageVolumeSpaceRemoveDM_spec_ok [cli_rules]: "spec_ok imageVolumeSpaceRemoveDM_spec"
  by (simp add: spec_ok_def imageVolumeSpaceRemoveDM_spec_def stripped_def api_rules)

lemma imageConsoleGet_run [cli_rules]: "imageConsoleGet = cli_run imageConsoleGet_spec"
  by (intro ext, unfold imageConsoleGet_def imageConsoleGet_spec_def smImage_Console_Get_api_def Let_def cli_unfold,
      rule with_options_cong, rule if_cong) (auto simp: Let_def)

lemma imageConsoleGet_spec_ok [cli_rules]: "spec_ok imageConsoleGet_spec"
  by (simp add: spec_ok_def imageConsoleGet_spec_def stripped_def api_rules)

definition smcli_image_commands :: "(cli_command \<times> cli_spec) list" where
  "smcli_image_commands =
     [(imageCPUDefine, imageCPUDefine_spec),
      (imageCPUDelete, imageCPUDelete_spec),
      (imageCPUDeleteDM, imageCPUDeleteDM_spec),
      (imageCPUSetMaximumDM, imageCPUSetMaximumDM_spec),
      (imageDeviceDedicate, imageDeviceDedicate_spec),
      (imageDeviceDedicateDM, imageDeviceDedicateDM_spec),
      (imageDeviceReset, imageDeviceReset_spec),
      (imageDeviceUndedicate, imageDeviceUndedicate_spec),
      (imageDeviceUndedicateDM, imageDeviceUndedicateDM_spec),
      (imageDiskCopy, imageDiskCopy_spec),
      (imageDiskCreate, imageDiskCreate_spec),
      (imageDiskDelete, imageDiskDelete_spec),
      (imageDiskShare, imageDiskShare_spec),
      (imageDiskShareDM, imageDiskShareDM_spec),
      (imageDiskUnshare, imageDiskUnshare_spec),
      (imageDiskUnshareDM, imageDiskUnshareDM_spec),
      (imageIPLDeleteDM, imageIPLDeleteDM_spec),
      (imageIPLSetDM, imageIPLSetDM_spec),
      (imageLockDM, imageLockDM_spec),
      (imagePasswordSetDM, imagePasswordSetDM_spec),
      (imageRecycle, imageRecycle_spec),
      (imageUnlockDM, imageUnlockDM_spec),
      (imageVolumeAdd, imageVolumeAdd_spec),
      (imageVolumeSpaceRemoveDM, imageVolumeSpaceRemoveDM_spec),
      (imageConsoleGet, imageConsoleGet_spec)]"

lemma smcli_image_commands_run: "(cmd, spec) \<in> set smcli_image_commands \<Longrightarrow> cmd = cli_run spec \<and> spec_ok spec"
  by (auto simp: smcli_image_commands_def cli_rules)

end
