(* ===== verification/Smcli_Network.thy ===== *)
theory Smcli_Network
  imports Smcli
begin

text \<open>
  The commands of \<^verbatim>\<open>smcli\<close> for the virtual networks and channels that send one request and
  report its return and reason code, from \<^verbatim>\<open>src/smcli*.c\<close>.  Each definition is the whole
  command: options, required options, status line, call and report.  Behind them stand the
  specifications of the commands and the proofs that each command follows its own.
\<close>

section \<open>Commands\<close>

definition virtualChannelConnectionCreate :: cli_command where
  "virtualChannelConnectionCreate ctx malloc smapi argV =
     with_options ctx ''Virtual_Channel_Connection_Create'' ''T:v:c:d:h?'' ''Tvcd'' ''Tvcd'' argV (\<lambda>opt.
       (let image = opt (CHR ''T'');
         virtualAddress = opt (CHR ''v'');
         coupledImage = opt (CHR ''c'');
         coupledVirtualAddress = opt (CHR ''d'') in
       (if image = None \<or> virtualAddress = None \<or> coupledImage = None \<or> coupledVirtualAddress = None then missing_options ctx
       else deref image (\<lambda>image. deref virtualAddress (\<lambda>virtualAddress. deref coupledImage (\<lambda>coupledImage. deref coupledVirtualAddress (\<lambda>coupledVirtualAddress. 
         (let strMsg = snprintf 250 [c_literal ''Establishing a virtual network connection between '', image, c_literal '' and '', coupledImage, c_literal ''... ''] in
         report_call ctx smapi ''Virtual_Channel_Connection_Create'' strMsg strMsg
           (smVirtual_Channel_Connection_Create malloc [] 0 [] image virtualAddress coupledImage coupledVirtualAddress)))))))))"

definition virtualChannelConnectionCreateDM :: cli_command where
  "virtualChannelConnectionCreateDM ctx malloc smapi argV =
     with_options ctx ''Virtual_Channel_Connection_Create_DM'' ''T:v:c:h?'' ''Tvc'' ''Tvc'' argV (\<lambda>opt.
       (let image = opt (CHR ''T'');
         virtualAddress = opt (CHR ''v'');
         coupledImage = opt (CHR ''c'') in
       (if image = None \<or> virtualAddress = None \<or> coupledImage = None then missing_options ctx
       else deref image (\<lambda>image. deref virtualAddress (\<lambda>virtualAddress. deref coupledImage (\<lambda>coupledImage. 
         (let strMsg = snprintf 250 [c_literal ''Adding a virtual network connection between '', image, [39] @ c_literal ''s and '', coupledImage, [39] @ c_literal ''s directory entries... ''] in
         report_call ctx smapi ''Virtual_Channel_Connection_Create_DM'' strMsg strMsg
           (smVirtual_Channel_Connection_Create_DM malloc [] 0 [] image virtualAddress coupledImage))))))))"

definition virtualChannelConnectionDelete :: cli_command where
  "virtualChannelConnectionDelete ctx malloc smapi argV =
     with_options ctx ''Virtual_Channel_Connection_Delete'' ''T:v:h?'' ''Tv'' ''Tv'' argV (\<lambda>opt.
       (let image = opt (CHR ''T'');
         virtualAddress = opt (CHR ''v'') in
       (if image = None \<or> virtualAddress = None then missing_options ctx
       else deref image (\<lambda>image. deref virtualAddress (\<lambda>virtualAddress. 
         (let strMsg = snprintf 250 [c_literal ''Terminating virtual network connection for '', image, c_literal ''... ''] in
         report_call ctx smapi ''Virtual_Channel_Connection_Delete'' strMsg strMsg
           (smVirtual_Channel_Connection_Delete malloc [] 0 [] image virtualAddress)))))))"

definition virtualChannelConnectionDeleteDM :: cli_command where
  "virtualChannelConnectionDeleteDM ctx malloc smapi argV =
     with_options ctx ''Virtual_Channel_Connection_Delete_DM'' ''T:v:h?'' ''Tv'' ''Tv'' argV (\<lambda>opt.
       (let image = opt (CHR ''T'');
         virtualAddress = opt (CHR ''v'') in
       (if image = None \<or> virtualAddress = None then missing_options ctx
       else deref image (\<lambda>image. deref virtualAddress (\<lambda>virtualAddress. 
         (let strMsg = snprintf 250 [c_literal ''Terminating virtual network connection from '', image, [39] @ c_literal ''s directory entry... ''] in
         report_call ctx smapi ''Virtual_Channel_Connection_Delete_DM'' strMsg strMsg
           (smVirtual_Channel_Connection_Delete_DM malloc [] 0 [] image virtualAddress)))))))"

definition virtualNetworkAdapterConnectLAN :: cli_command where
  "virtualNetworkAdapterConnectLAN ctx malloc smapi argV =
     with_options ctx ''Virtual_Network_Adapter_Connect_LAN'' ''T:v:l:o:h?'' ''Tvlo'' ''Tvlo'' argV (\<lambda>opt.
       (let image = opt (CHR ''T'');
         virtualAddress = opt (CHR ''v'');
         lanName = opt (CHR ''l'');
         lanOwner = opt (CHR ''o'') in
       (if image = None \<or> virtualAddress = None \<or> lanName = None \<or> lanOwner = None then missing_options ctx
       else deref image (\<lambda>image. deref virtualAddress (\<lambda>virtualAddress. deref lanName (\<lambda>lanName. deref lanOwner (\<lambda>lanOwner. 
         (let strMsg = snprintf 250 [c_literal ''Connecting virtual network adapter at '', virtualAddress, c_literal '' to '', lanName, c_literal ''... ''] in
         report_call ctx smapi ''Virtual_Network_Adapter_Connect_LAN'' strMsg strMsg
           (smVirtual_Network_Adapter_Connect_LAN malloc [] 0 [] image virtualAddress lanName lanOwner)))))))))"

definition virtualNetworkAdapterConnectLANDM :: cli_command where
  "virtualNetworkAdapterConnectLANDM ctx malloc smapi argV =
     with_options ctx ''Virtual_Network_Adapter_Connect_LAN_DM'' ''T:v:n:o:c:m:h?'' ''Tvnocm'' ''Tvno'' argV (\<lambda>opt.
       (let image = opt (CHR ''T'');
         deviceAddress = opt (CHR ''v'');
         lanName = opt_str [] (opt (CHR ''n''));
         lanOwner = opt_str [] (opt (CHR ''o'')) in
       (if image = None \<or> deviceAddress = None \<or> lanName = None \<or> lanOwner = None then missing_options ctx
       else deref image (\<lambda>image. deref deviceAddress (\<lambda>deviceAddress. deref lanName (\<lambda>lanName. deref lanOwner (\<lambda>lanOwner. 
         (let strMsg = snprintf 250 [c_literal ''Defining virtual network LAN connection in '', image, [39] @ c_literal ''s directory entry... ''] in
         report_call ctx smapi ''Virtual_Network_Adapter_Connect_LAN_DM'' strMsg strMsg
           (smVirtual_Network_Adapter_Connect_LAN_DM malloc [] 0 [] image deviceAddress lanName lanOwner)))))))))"

definition virtualNetworkAdapterConnectVswitch :: cli_command where
  "virtualNetworkAdapterConnectVswitch ctx malloc smapi argV =
     with_options ctx ''Virtual_Network_Adapter_Connect_Vswitch'' ''T:v:n:h?'' ''Tvn'' ''Tvn'' argV (\<lambda>opt.
       (let image = opt (CHR ''T'');
         deviceAddress = opt (CHR ''v'');
         vswitchName = opt_str [] (opt (CHR ''n'')) in
       (if image = None \<or> deviceAddress = None \<or> vswitchName = None then missing_options ctx
       else deref image (\<lambda>image. deref deviceAddress (\<lambda>deviceAddress. deref vswitchName (\<lambda>vswitchName. 
         (let strMsg = snprintf 250 [c_literal ''Connecting virtual network adapter at '', deviceAddress, c_literal '' to '', vswitchName, c_literal ''... ''] in
         report_call ctx smapi ''Virtual_Network_Adapter_Connect_Vswitch'' strMsg strMsg
           (smVirtual_Network_Adapter_Connect_Vswitch malloc [] 0 [] image deviceAddress vswitchName))))))))"

definition virtualNetworkAdapterConnectVswitchDM :: cli_command where
  "virtualNetworkAdapterConnectVswitchDM ctx malloc smapi argV =
     with_options ctx ''Virtual_Network_Adapter_Connect_Vswitch_DM'' ''T:v:n:h?'' ''Tvn'' ''Tvn'' argV (\<lambda>opt.
       (let image = opt (CHR ''T'');
         virtualAddress = opt (CHR ''v'');
         switchName = opt (CHR ''n'') in
       (if image = None \<or> virtualAddress = None \<or> switchName = None then missing_options ctx
       else deref image (\<lambda>image. deref virtualAddress (\<lambda>virtualAddress. deref switchName (\<lambda>switchName. 
         (let strMsg = snprintf 250 [c_literal ''Defining virtual switch connection in '', image, [39] @ c_literal ''s directory entry... ''] in
         report_call ctx smapi ''Virtual_Network_Adapter_Connect_Vswitch_DM'' strMsg strMsg
           (smVirtual_Network_Adapter_Connect_Vswitch_DM malloc [] 0 [] image virtualAddress switchName))))))))"

definition virtualNetworkAdapterCreate :: cli_command where
  "virtualNetworkAdapterCreate ctx malloc smapi argV =
     with_options ctx ''Virtual_Network_Adapter_Create'' ''T:v:t:d:h?'' ''Tvtd'' ''Tvtd'' argV (\<lambda>opt.
       (let image = opt (CHR ''T'');
         virtualAddress = opt (CHR ''v'');
         adapterType = opt_int (0) (opt (CHR ''t''));
         virtualDevices = opt_int (-1) (opt (CHR ''d'')) in
       (if image = None \<or> virtualAddress = None \<or> adapterType = 0 \<or> virtualDevices < 0 then missing_options ctx
       else deref image (\<lambda>image. deref virtualAddress (\<lambda>virtualAddress. 
         (let strMsg = snprintf 250 [c_literal ''Adding virtual NIC to '', image, [39] @ c_literal ''s active configuration... ''] in
         report_call ctx smapi ''Virtual_Network_Adapter_Create'' strMsg strMsg
           (smVirtual_Network_Adapter_Create malloc [] 0 [] image virtualAddress (of_int adapterType) virtualDevices [])))))))"

definition virtualNetworkAdapterCreateDM :: cli_command where
  "virtualNetworkAdapterCreateDM ctx malloc smapi argV =
     with_options ctx ''Virtual_Network_Adapter_Create_DM'' ''T:v:a:n:c:m:h?'' ''Tvancm'' ''Tvancm'' argV (\<lambda>opt.
       (let image = opt (CHR ''T'');
         deviceAddress = opt (CHR ''v'');
         adapterType = opt_int (0) (opt (CHR ''a''));
         adapterDevices = opt_int (0) (opt (CHR ''n''));
         chpId = opt_str [] (opt (CHR ''c''));
         macId = opt_str [] (opt (CHR ''m'')) in
       (if image = None \<or> deviceAddress = None \<or> adapterType = 0 \<or> adapterDevices = 0 then missing_options ctx
       else deref image (\<lambda>image. deref deviceAddress (\<lambda>deviceAddress. deref chpId (\<lambda>chpId. deref macId (\<lambda>macId. 
         (let strMsg = snprintf 250 [c_literal ''Adding virtual NIC to '', image, [39] @ c_literal ''s directory entry... ''] in
         report_call ctx smapi ''Virtual_Network_Adapter_Create_DM'' strMsg strMsg
           (smVirtual_Network_Adapter_Create_DM malloc [] 0 [] image deviceAddress (of_int adapterType) adapterDevices chpId macId)))))))))"

definition virtualNetworkAdapterDelete :: cli_command where
  "virtualNetworkAdapterDelete ctx malloc smapi argV =
     with_options ctx ''Virtual_Network_Adapter_Delete'' ''T:v:h?'' ''Tv'' ''Tv'' argV (\<lambda>opt.
       (let image = opt (CHR ''T'');
         virtualAddress = opt (CHR ''v'') in
       (if image = None \<or> virtualAddress = None then missing_options ctx
       else deref image (\<lambda>image. deref virtualAddress (\<lambda>virtualAddress. 
         (let strMsg = snprintf 250 [c_literal ''Removing virtual NIC from '', image, [39] @ c_literal ''s active configuration... ''] in
         report_call ctx smapi ''Virtual_Network_Adapter_Delete'' strMsg strMsg
           (smVirtual_Network_Adapter_Delete malloc [] 0 [] image virtualAddress)))))))"

definition virtualNetworkAdapterDeleteDM :: cli_command where
  "virtualNetworkAdapterDeleteDM ctx malloc smapi argV =
     with_options ctx ''Image_Disk_Delete_DM'' ''T:v:h?'' ''Tv'' ''Tv'' argV (\<lambda>opt.
       (let image = opt (CHR ''T'');
         virtualAddress = opt (CHR ''v'') in
       (if image = None \<or> virtualAddress = None then missing_options ctx
       else deref image (\<lambda>image. deref virtualAddress (\<lambda>virtualAddress. 
         (let strMsg = snprintf 250 [c_literal ''Removing virtual NIC from '', image, [39] @ c_literal ''s directory entry... ''] in
         report_call ctx smapi ''Virtual_Network_Adapter_Delete_DM'' strMsg strMsg
           (smVirtual_Network_Adapter_Delete_DM malloc [] 0 [] image virtualAddress)))))))"

definition virtualNetworkAdapterDisconnect :: cli_command where
  "virtualNetworkAdapterDisconnect ctx malloc smapi argV =
     with_options ctx ''Virtual_Network_Adapter_Disconnect'' ''T:v:h?'' ''Tv'' ''Tv'' argV (\<lambda>opt.
       (let image = opt (CHR ''T'');
         virtualAddress = opt (CHR ''v'') in
       (if image = None \<or> virtualAddress = None then missing_options ctx
       else deref image (\<lambda>image. deref virtualAddress (\<lambda>virtualAddress. 
         (let strMsg = snprintf 250 [c_literal ''Disconnecting virtual network adapter... ''] in
         report_call ctx smapi ''Virtual_Network_Adapter_Disconnect'' strMsg strMsg
           (smVirtual_Network_Adapter_Disconnect malloc [] 0 [] image virtualAddress)))))))"

definition virtualNetworkAdapterDisconnectDM :: cli_command where
  "virtualNetworkAdapterDisconnectDM ctx malloc smapi argV =
     with_options ctx ''Virtual_Network_Adapter_Disconnect_DM'' ''T:v:h?'' ''Tv'' ''Tv'' argV (\<lambda>opt.
       (let image = opt (CHR ''T'');
         virtualAddress = opt (CHR ''v'') in
       (if image = None then missing_options ctx
       else deref image (\<lambda>image. deref virtualAddress (\<lambda>virtualAddress. 
         (let strMsg = snprintf 250 [c_literal ''Removing virtual network LAN or virtual switch connection from '', image, [39] @ c_literal ''s directory entry... ''] in
         report_call ctx smapi ''Virtual_Network_Adapter_Disconnect_DM'' strMsg strMsg
           (smVirtual_Network_Adapter_Disconnect_DM malloc [] 0 [] image virtualAddress)))))))"

definition virtualNetworkLANCreate :: cli_command where
  "virtualNetworkLANCreate ctx malloc smapi argV =
     with_options ctx ''Virtual_Network_LAN_Create'' ''T:n:o:t:p:h?'' ''Tnotp'' ''Tnotp'' argV (\<lambda>opt.
       (let image = opt (CHR ''T'');
         lanName = opt (CHR ''n'');
         lanOwner = opt (CHR ''o'');
         lanType = opt_int (0) (opt (CHR ''t''));
         transportType = opt_int (-1) (opt (CHR ''p'')) in
       (if image = None \<or> lanName = None \<or> lanOwner = None \<or> lanType = 0 \<or> transportType < 0 then missing_options ctx
       else deref image (\<lambda>image. deref lanName (\<lambda>lanName. deref lanOwner (\<lambda>lanOwner. 
         (let strMsg = snprintf 250 [c_literal ''Creating virtual network LAN '', lanName, c_literal ''... ''] in
         report_call ctx smapi ''Virtual_Network_LAN_Create'' strMsg strMsg
           (smVirtual_Network_LAN_Create malloc [] 0 [] image lanName lanOwner (of_int lanType) (of_int transportType)))))))))"

definition virtualNetworkLANDelete :: cli_command where
  "virtualNetworkLANDelete ctx malloc smapi argV =
     with_options ctx ''Virtual_Network_LAN_Delete'' ''T:n:o:h?'' ''Tno'' ''Tno'' argV (\<lambda>opt.
       (let image = opt (CHR ''T'');
         lanName = opt (CHR ''n'');
         lanOwner = opt (CHR ''o'') in
       (if image = None \<or> lanName = None \<or> lanOwner = None then missing_options ctx
       else deref image (\<lambda>image. deref lanName (\<lambda>lanName. deref lanOwner (\<lambda>lanOwner. 
         (let strMsg = snprintf 250 [c_literal ''Deleting virtual network LAN '', lanName, c_literal ''... ''] in
         report_call ctx smapi ''Virtual_Network_LAN_Delete'' strMsg strMsg
           (smVirtual_Network_LAN_Delete malloc [] 0 [] image lanName lanOwner))))))))"

definition virtualNetworkVswitchCreate :: cli_command where
  "virtualNetworkVswitchCreate ctx malloc smapi argV =
     with_options ctx ''Virtual_Network_Vswitch_Create'' ''T:n:r:a:i:c:q:e:t:v:p:u:L:F:R:C:P:N:Y:O:M:D:G:V:h?'' ''TnraicqetvpuLFRCPNYOMDGV'' ''TnraicqetvpuLFRCPNYOMDGV'' argV (\<lambda>opt.
       (let image = opt (CHR ''T'');
         switchName = opt_str [] (opt (CHR ''n''));
         realDeviceAddress = opt_str [] (opt (CHR ''r''));
         portName = opt_str [] (opt (CHR ''a''));
         controllerName = opt_str [] (opt (CHR ''i''));
         connectionValue = opt_int (0) (opt (CHR ''c''));
         queueMemoryLimit = opt_int (-1) (opt (CHR ''q''));
         routingValue = opt_int (0) (opt (CHR ''e''));
         transportType = opt_int (0) (opt (CHR ''t''));
         vlanId = opt_int (0) (opt (CHR ''v''));
         portType = opt_int (0) (opt (CHR ''p''));
         updateSystemConfigIndicator = opt_int (0) (opt (CHR ''u''));
         systemConfigName = opt_str [] (opt (CHR ''L''));
         systemConfigType = opt_str [] (opt (CHR ''F''));
         parmDiskOwner = opt_str [] (opt (CHR ''R''));
         parmDiskNumber = opt_str [] (opt (CHR ''C''));
         parmDiskPassword = opt_str [] (opt (CHR ''P''));
         altSystemConfigName = opt_str [] (opt (CHR ''N''));
         altSystemConfigType = opt_str [] (opt (CHR ''Y''));
         altParmDiskOwner = opt_str [] (opt (CHR ''O''));
         altParmDiskNumber = opt_str [] (opt (CHR ''M''));
         altParmDiskPassword = opt_str [] (opt (CHR ''D''));
         gvrpValue = opt_int (0) (opt (CHR ''G''));
         nativeVlanId = opt_int (-1) (opt (CHR ''V'')) in
       (if image = None \<or> switchName = None then missing_options ctx
       else deref image (\<lambda>image. deref switchName (\<lambda>switchName. deref realDeviceAddress (\<lambda>realDeviceAddress. deref portName (\<lambda>portName. deref controllerName (\<lambda>controllerName. deref systemConfigName (\<lambda>systemConfigName. deref systemConfigType (\<lambda>systemConfigType. deref parmDiskOwner (\<lambda>parmDiskOwner. deref parmDiskNumber (\<lambda>parmDiskNumber. deref parmDiskPassword (\<lambda>parmDiskPassword. deref altSystemConfigName (\<lambda>altSystemConfigName. deref altSystemConfigType (\<lambda>altSystemConfigType. deref altParmDiskOwner (\<lambda>altParmDiskOwner. deref altParmDiskNumber (\<lambda>altParmDiskNumber. deref altParmDiskPassword (\<lambda>altParmDiskPassword. 
         (let strMsg = snprintf 250 [c_literal ''Creating virtual switch '', switchName, c_literal ''... ''] in
         report_call ctx smapi ''Virtual_Network_Vswitch_Create'' strMsg strMsg
           (smVirtual_Network_Vswitch_Create malloc [] 0 [] image switchName realDeviceAddress portName controllerName (of_int connectionValue) queueMemoryLimit (of_int routingValue) (of_int transportType) vlanId (of_int portType) (of_int updateSystemConfigIndicator) systemConfigName systemConfigType parmDiskOwner parmDiskNumber parmDiskPassword altSystemConfigName altSystemConfigType altParmDiskOwner altParmDiskNumber altParmDiskPassword (of_int gvrpValue) nativeVlanId))))))))))))))))))))"

definition virtualNetworkVswitchDelete :: cli_command where
  "virtualNetworkVswitchDelete ctx malloc smapi argV =
     with_options ctx ''Virtual_Network_Vswitch_Delete'' ''T:n:u:L:F:R:C:P:N:Y:O:M:D:h?'' ''TnuLFRCPNYOMD'' ''TnuLFRCPNYOMD'' argV (\<lambda>opt.
       (let image = opt (CHR ''T'');
         switchName = opt_str [] (opt (CHR ''n''));
         updateSystemConfigIndicator = opt_int (0) (opt (CHR ''u''));
         systemConfigName = opt_str [] (opt (CHR ''L''));
         systemConfigType = opt_str [] (opt (CHR ''F''));
         parmDiskOwner = opt_str [] (opt (CHR ''R''));
         parmDiskNumber = opt_str [] (opt (CHR ''C''));
         parmDiskPassword = opt_str [] (opt (CHR ''P''));
         altSystemConfigName = opt_str [] (opt (CHR ''N''));
         altSystemConfigType = opt_str [] (opt (CHR ''Y''));
         altParmDiskOwner = opt_str [] (opt (CHR ''O''));
         altParmDiskNumber = opt_str [] (opt (CHR ''M''));
         altParmDiskPassword = opt_str [] (opt (CHR ''D'')) in
       (if image = None then missing_options ctx
       else deref image (\<lambda>image. deref switchName (\<lambda>switchName. deref systemConfigName (\<lambda>systemConfigName. deref systemConfigType (\<lambda>systemConfigType. deref parmDiskOwner (\<lambda>parmDiskOwner. deref parmDiskNumber (\<lambda>parmDiskNumber. deref parmDiskPassword (\<lambda>parmDiskPassword. deref altSystemConfigName (\<lambda>altSystemConfigName. deref altSystemConfigType (\<lambda>altSystemConfigType. deref altParmDiskOwner (\<lambda>altParmDiskOwner. deref altParmDiskNumber (\<lambda>altParmDiskNumber. deref altParmDiskPassword (\<lambda>altParmDiskPassword. 
         (let strMsg = snprintf 250 [c_literal ''Deleting virtual switch '', switchName, c_literal ''... ''] in
         report_call ctx smapi ''Virtual_Network_Vswitch_Delete'' strMsg strMsg
           (smVirtual_Network_Vswitch_Delete malloc [] 0 [] image switchName (of_int updateSystemConfigIndicator) systemConfigName systemConfigType parmDiskOwner parmDiskNumber parmDiskPassword altSystemConfigName altSystemConfigType altParmDiskOwner altParmDiskNumber altParmDiskPassword)))))))))))))))))"

section \<open>Specifications\<close>

definition virtualChannelConnectionCreate_spec :: cli_spec where
  "virtualChannelConnectionCreate_spec =
     \<lparr>cli_api = smVirtual_Channel_Connection_Create_api, cli_optstring = ''T:v:c:d:h?'', cli_cases = ''Tvcd'',
      cli_args = [Required (CHR ''T''), Required (CHR ''v''), Required (CHR ''c''), Required (CHR ''d'')],
      cli_help = ''Virtual_Channel_Connection_Create'', cli_class = ''Virtual_Channel_Connection_Create'',
      cli_status = (\<lambda>opt. let image = (case opt (CHR ''T'') of None \<Rightarrow> [] | Some s \<Rightarrow> s); coupledImage = (case opt (CHR ''c'') of None \<Rightarrow> [] | Some s \<Rightarrow> s) in snprintf 250 [c_literal ''Establishing a virtual network connection between '', image, c_literal '' and '', coupledImage, c_literal ''... ''])\<rparr>"

definition virtualChannelConnectionCreateDM_spec :: cli_spec where
  "virtualChannelConnectionCreateDM_spec =
     \<lparr>cli_api = smVirtual_Channel_Connection_Create_DM_api, cli_optstring = ''T:v:c:h?'', cli_cases = ''Tvc'',
      cli_args = [Required (CHR ''T''), Required (CHR ''v''), Required (CHR ''c'')],
      cli_help = ''Virtual_Channel_Connection_Create_DM'', cli_class = ''Virtual_Channel_Connection_Create_DM'',
      cli_status = (\<lambda>opt. let image = (case opt (CHR ''T'') of None \<Rightarrow> [] | Some s \<Rightarrow> s); coupledImage = (case opt (CHR ''c'') of None \<Rightarrow> [] | Some s \<Rightarrow> s) in snprintf 250 [c_literal ''Adding a virtual network connection between '', image, [39] @ c_literal ''s and '', coupledImage, [39] @ c_literal ''s directory entries... ''])\<rparr>"

definition virtualChannelConnectionDelete_spec :: cli_spec where
  "virtualChannelConnectionDelete_spec =
     \<lparr>cli_api = smVirtual_Channel_Connection_Delete_api, cli_optstring = ''T:v:h?'', cli_cases = ''Tv'',
      cli_args = [Required (CHR ''T''), Required (CHR ''v'')],
      cli_help = ''Virtual_Channel_Connection_Delete'', cli_class = ''Virtual_Channel_Connection_Delete'',
      cli_status = (\<lambda>opt. let image = (case opt (CHR ''T'') of None \<Rightarrow> [] | Some s \<Rightarrow> s) in snprintf 250 [c_literal ''Terminating virtual network connection for '', image, c_literal ''... ''])\<rparr>"

definition virtualChannelConnectionDeleteDM_spec :: cli_spec where
  "virtualChannelConnectionDeleteDM_spec =
     \<lparr>cli_api = smVirtual_Channel_Connection_Delete_DM_api, cli_optstring = ''T:v:h?'', cli_cases = ''Tv'',
      cli_args = [Required (CHR ''T''), Required (CHR ''v'')],
      cli_help = ''Virtual_Channel_Connection_Delete_DM'', cli_class = ''Virtual_Channel_Connection_Delete_DM'',
      cli_status = (\<lambda>opt. let image = (case opt (CHR ''T'') of None \<Rightarrow> [] | Some s \<Rightarrow> s) in snprintf 250 [c_literal ''Terminating virtual network connection from '', image, [39] @ c_literal ''s directory entry... ''])\<rparr>"

definition virtualNetworkAdapterConnectLAN_spec :: cli_spec where
  "virtualNetworkAdapterConnectLAN_spec =
     \<lparr>cli_api = smVirtual_Network_Adapter_Connect_LAN_api, cli_optstring = ''T:v:l:o:h?'', cli_cases = ''Tvlo'',
      cli_args = [Required (CHR ''T''), Required (CHR ''v''), Required (CHR ''l''), Required (CHR ''o'')],
      cli_help = ''Virtual_Network_Adapter_Connect_LAN'', cli_class = ''Virtual_Network_Adapter_Connect_LAN'',
      cli_status = (\<lambda>opt. let virtualAddress = (case opt (CHR ''v'') of None \<Rightarrow> [] | Some s \<Rightarrow> s); lanName = (case opt (CHR ''l'') of None \<Rightarrow> [] | Some s \<Rightarrow> s) in snprintf 250 [c_literal ''Connecting virtual network adapter at '', virtualAddress, c_literal '' to '', lanName, c_literal ''... ''])\<rparr>"

definition virtualNetworkAdapterConnectVswitch_spec :: cli_spec where
  "virtualNetworkAdapterConnectVswitch_spec =
     \<lparr>cli_api = smVirtual_Network_Adapter_Connect_Vswitch_api, cli_optstring = ''T:v:n:h?'', cli_cases = ''Tvn'',
      cli_args = [Required (CHR ''T''), Required (CHR ''v''), Optional (CHR ''n'') []],
      cli_help = ''Virtual_Network_Adapter_Connect_Vswitch'', cli_class = ''Virtual_Network_Adapter_Connect_Vswitch'',
      cli_status = (\<lambda>opt. let deviceAddress = (case opt (CHR ''v'') of None \<Rightarrow> [] | Some s \<Rightarrow> s); vswitchName = (case opt (CHR ''n'') of None \<Rightarrow> [] | Some s \<Rightarrow> s) in snprintf 250 [c_literal ''Connecting virtual network adapter at '', deviceAddress, c_literal '' to '', vswitchName, c_literal ''... ''])\<rparr>"

definition virtualNetworkAdapterConnectVswitchDM_spec :: cli_spec where
  "virtualNetworkAdapterConnectVswitchDM_spec =
     \<lparr>cli_api = smVirtual_Network_Adapter_Connect_Vswitch_DM_api, cli_optstring = ''T:v:n:h?'', cli_cases = ''Tvn'',
      cli_args = [Required (CHR ''T''), Required (CHR ''v''), Required (CHR ''n'')],
      cli_help = ''Virtual_Network_Adapter_Connect_Vswitch_DM'', cli_class = ''Virtual_Network_Adapter_Connect_Vswitch_DM'',
      cli_status = (\<lambda>opt. let image = (case opt (CHR ''T'') of None \<Rightarrow> [] | Some s \<Rightarrow> s) in snprintf 250 [c_literal ''Defining virtual switch connection in '', image, [39] @ c_literal ''s directory entry... ''])\<rparr>"

definition virtualNetworkAdapterCreate_spec :: cli_spec where
  "virtualNetworkAdapterCreate_spec =
     \<lparr>cli_api = smVirtual_Network_Adapter_Create_api, cli_optstring = ''T:v:t:d:h?'', cli_cases = ''Tvtd'',
      cli_args = [Required (CHR ''T''), Required (CHR ''v''), Character (CHR ''t'') (0) (\<lambda>v. v = 0), Number (CHR ''d'') (-1) (\<lambda>v. v < 0), Literal []],
      cli_help = ''Virtual_Network_Adapter_Create'', cli_class = ''Virtual_Network_Adapter_Create'',
      cli_status = (\<lambda>opt. let image = (case opt (CHR ''T'') of None \<Rightarrow> [] | Some s \<Rightarrow> s) in snprintf 250 [c_literal ''Adding virtual NIC to '', image, [39] @ c_literal ''s active configuration... ''])\<rparr>"

definition virtualNetworkAdapterCreateDM_spec :: cli_spec where
  "virtualNetworkAdapterCreateDM_spec =
     \<lparr>cli_api = smVirtual_Network_Adapter_Create_DM_api, cli_optstring = ''T:v:a:n:c:m:h?'', cli_cases = ''Tvancm'',
      cli_args = [Required (CHR ''T''), Required (CHR ''v''), Character (CHR ''a'') (0) (\<lambda>v. v = 0), Number (CHR ''n'') (0) (\<lambda>v. v = 0), Optional (CHR ''c'') [], Optional (CHR ''m'') []],
      cli_help = ''Virtual_Network_Adapter_Create_DM'', cli_class = ''Virtual_Network_Adapter_Create_DM'',
      cli_status = (\<lambda>opt. let image = (case opt (CHR ''T'') of None \<Rightarrow> [] | Some s \<Rightarrow> s) in snprintf 250 [c_literal ''Adding virtual NIC to '', image, [39] @ c_literal ''s directory entry... ''])\<rparr>"

definition virtualNetworkAdapterDelete_spec :: cli_spec where
  "virtualNetworkAdapterDelete_spec =
     \<lparr>cli_api = smVirtual_Network_Adapter_Delete_api, cli_optstring = ''T:v:h?'', cli_cases = ''Tv'',
      cli_args = [Required (CHR ''T''), Required (CHR ''v'')],
      cli_help = ''Virtual_Network_Adapter_Delete'', cli_class = ''Virtual_Network_Adapter_Delete'',
      cli_status = (\<lambda>opt. let image = (case opt (CHR ''T'') of None \<Rightarrow> [] | Some s \<Rightarrow> s) in snprintf 250 [c_literal ''Removing virtual NIC from '', image, [39] @ c_literal ''s active configuration... ''])\<rparr>"

definition virtualNetworkAdapterDeleteDM_spec :: cli_spec where
  "virtualNetworkAdapterDeleteDM_spec =
     \<lparr>cli_api = smVirtual_Network_Adapter_Delete_DM_api, cli_optstring = ''T:v:h?'', cli_cases = ''Tv'',
      cli_args = [Required (CHR ''T''), Required (CHR ''v'')],
      cli_help = ''Image_Disk_Delete_DM'', cli_class = ''Virtual_Network_Adapter_Delete_DM'',
      cli_status = (\<lambda>opt. let image = (case opt (CHR ''T'') of None \<Rightarrow> [] | Some s \<Rightarrow> s) in snprintf 250 [c_literal ''Removing virtual NIC from '', image, [39] @ c_literal ''s directory entry... ''])\<rparr>"

definition virtualNetworkAdapterDisconnect_spec :: cli_spec where
  "virtualNetworkAdapterDisconnect_spec =
     \<lparr>cli_api = smVirtual_Network_Adapter_Disconnect_api, cli_optstring = ''T:v:h?'', cli_cases = ''Tv'',
      cli_args = [Required (CHR ''T''), Required (CHR ''v'')],
      cli_help = ''Virtual_Network_Adapter_Disconnect'', cli_class = ''Virtual_Network_Adapter_Disconnect'',
      cli_status = (\<lambda>opt. snprintf 250 [c_literal ''Disconnecting virtual network adapter... ''])\<rparr>"

definition virtualNetworkLANCreate_spec :: cli_spec where
  "virtualNetworkLANCreate_spec =
     \<lparr>cli_api = smVirtual_Network_LAN_Create_api, cli_optstring = ''T:n:o:t:p:h?'', cli_cases = ''Tnotp'',
      cli_args = [Required (CHR ''T''), Required (CHR ''n''), Required (CHR ''o''), Character (CHR ''t'') (0) (\<lambda>v. v = 0), Character (CHR ''p'') (-1) (\<lambda>v. v < 0)],
      cli_help = ''Virtual_Network_LAN_Create'', cli_class = ''Virtual_Network_LAN_Create'',
      cli_status = (\<lambda>opt. let lanName = (case opt (CHR ''n'') of None \<Rightarrow> [] | Some s \<Rightarrow> s) in snprintf 250 [c_literal ''Creating virtual network LAN '', lanName, c_literal ''... ''])\<rparr>"

definition virtualNetworkLANDelete_spec :: cli_spec where
  "virtualNetworkLANDelete_spec =
     \<lparr>cli_api = smVirtual_Network_LAN_Delete_api, cli_optstring = ''T:n:o:h?'', cli_cases = ''Tno'',
      cli_args = [Required (CHR ''T''), Required (CHR ''n''), Required (CHR ''o'')],
      cli_help = ''Virtual_Network_LAN_Delete'', cli_class = ''Virtual_Network_LAN_Delete'',
      cli_status = (\<lambda>opt. let lanName = (case opt (CHR ''n'') of None \<Rightarrow> [] | Some s \<Rightarrow> s) in snprintf 250 [c_literal ''Deleting virtual network LAN '', lanName, c_literal ''... ''])\<rparr>"

definition virtualNetworkVswitchCreate_spec :: cli_spec where
  "virtualNetworkVswitchCreate_spec =
     \<lparr>cli_api = smVirtual_Network_Vswitch_Create_api, cli_optstring = ''T:n:r:a:i:c:q:e:t:v:p:u:L:F:R:C:P:N:Y:O:M:D:G:V:h?'', cli_cases = ''TnraicqetvpuLFRCPNYOMDGV'',
      cli_args = [Required (CHR ''T''), Optional (CHR ''n'') [], Optional (CHR ''r'') [], Optional (CHR ''a'') [], Optional (CHR ''i'') [], Character (CHR ''c'') (0) (\<lambda>v. False), Number (CHR ''q'') (-1) (\<lambda>v. False), Character (CHR ''e'') (0) (\<lambda>v. False), Character (CHR ''t'') (0) (\<lambda>v. False), Number (CHR ''v'') (0) (\<lambda>v. False), Character (CHR ''p'') (0) (\<lambda>v. False), Character (CHR ''u'') (0) (\<lambda>v. False), Optional (CHR ''L'') [], Optional (CHR ''F'') [], Optional (CHR ''R'') [], Optional (CHR ''C'') [], Optional (CHR ''P'') [], Optional (CHR ''N'') [], Optional (CHR ''Y'') [], Optional (CHR ''O'') [], Optional (CHR ''M'') [], Optional (CHR ''D'') [], Character (CHR ''G'') (0) (\<lambda>v. False), Number (CHR ''V'') (-1) (\<lambda>v. False)],
      cli_help = ''Virtual_Network_Vswitch_Create'', cli_class = ''Virtual_Network_Vswitch_Create'',
      cli_status = (\<lambda>opt. let switchName = (case opt (CHR ''n'') of None \<Rightarrow> [] | Some s \<Rightarrow> s) in snprintf 250 [c_literal ''Creating virtual switch '', switchName, c_literal ''... ''])\<rparr>"

definition virtualNetworkVswitchDelete_spec :: cli_spec where
  "virtualNetworkVswitchDelete_spec =
     \<lparr>cli_api = smVirtual_Network_Vswitch_Delete_api, cli_optstring = ''T:n:u:L:F:R:C:P:N:Y:O:M:D:h?'', cli_cases = ''TnuLFRCPNYOMD'',
      cli_args = [Required (CHR ''T''), Optional (CHR ''n'') [], Character (CHR ''u'') (0) (\<lambda>v. False), Optional (CHR ''L'') [], Optional (CHR ''F'') [], Optional (CHR ''R'') [], Optional (CHR ''C'') [], Optional (CHR ''P'') [], Optional (CHR ''N'') [], Optional (CHR ''Y'') [], Optional (CHR ''O'') [], Optional (CHR ''M'') [], Optional (CHR ''D'') []],
      cli_help = ''Virtual_Network_Vswitch_Delete'', cli_class = ''Virtual_Network_Vswitch_Delete'',
      cli_status = (\<lambda>opt. let switchName = (case opt (CHR ''n'') of None \<Rightarrow> [] | Some s \<Rightarrow> s) in snprintf 250 [c_literal ''Deleting virtual switch '', switchName, c_literal ''... ''])\<rparr>"

section \<open>The commands follow their specifications\<close>

lemma virtualChannelConnectionCreate_run [cli_rules]: "virtualChannelConnectionCreate = cli_run virtualChannelConnectionCreate_spec"
  by (intro ext, unfold virtualChannelConnectionCreate_def virtualChannelConnectionCreate_spec_def smVirtual_Channel_Connection_Create_api_def Let_def cli_unfold,
      rule with_options_cong, rule if_cong) (auto simp: Let_def)

lemma virtualChannelConnectionCreate_spec_ok [cli_rules]: "spec_ok virtualChannelConnectionCreate_spec"
  by (simp add: spec_ok_def virtualChannelConnectionCreate_spec_def stripped_def api_rules)

lemma virtualChannelConnectionCreateDM_run [cli_rules]: "virtualChannelConnectionCreateDM = cli_run virtualChannelConnectionCreateDM_spec"
  by (intro ext, unfold virtualChannelConnectionCreateDM_def virtualChannelConnectionCreateDM_spec_def smVirtual_Channel_Connection_Create_DM_api_def Let_def cli_unfold,
      rule with_options_cong, rule if_cong) (auto simp: Let_def)

lemma virtualChannelConnectionCreateDM_spec_ok [cli_rules]: "spec_ok virtualChannelConnectionCreateDM_spec"
  by (simp add: spec_ok_def virtualChannelConnectionCreateDM_spec_def stripped_def api_rules)

lemma virtualChannelConnectionDelete_run [cli_rules]: "virtualChannelConnectionDelete = cli_run virtualChannelConnectionDelete_spec"
  by (intro ext, unfold virtualChannelConnectionDelete_def virtualChannelConnectionDelete_spec_def smVirtual_Channel_Connection_Delete_api_def Let_def cli_unfold,
      rule with_options_cong, rule if_cong) (auto simp: Let_def)

lemma virtualChannelConnectionDelete_spec_ok [cli_rules]: "spec_ok virtualChannelConnectionDelete_spec"
  by (simp add: spec_ok_def virtualChannelConnectionDelete_spec_def stripped_def api_rules)

lemma virtualChannelConnectionDeleteDM_run [cli_rules]: "virtualChannelConnectionDeleteDM = cli_run virtualChannelConnectionDeleteDM_spec"
  by (intro ext, unfold virtualChannelConnectionDeleteDM_def virtualChannelConnectionDeleteDM_spec_def smVirtual_Channel_Connection_Delete_DM_api_def Let_def cli_unfold,
      rule with_options_cong, rule if_cong) (auto simp: Let_def)

lemma virtualChannelConnectionDeleteDM_spec_ok [cli_rules]: "spec_ok virtualChannelConnectionDeleteDM_spec"
  by (simp add: spec_ok_def virtualChannelConnectionDeleteDM_spec_def stripped_def api_rules)

lemma virtualNetworkAdapterConnectLAN_run [cli_rules]: "virtualNetworkAdapterConnectLAN = cli_run virtualNetworkAdapterConnectLAN_spec"
  by (intro ext, unfold virtualNetworkAdapterConnectLAN_def virtualNetworkAdapterConnectLAN_spec_def smVirtual_Network_Adapter_Connect_LAN_api_def Let_def cli_unfold,
      rule with_options_cong, rule if_cong) (auto simp: Let_def)

lemma virtualNetworkAdapterConnectLAN_spec_ok [cli_rules]: "spec_ok virtualNetworkAdapterConnectLAN_spec"
  by (simp add: spec_ok_def virtualNetworkAdapterConnectLAN_spec_def stripped_def api_rules)

lemma virtualNetworkAdapterConnectVswitch_run [cli_rules]: "virtualNetworkAdapterConnectVswitch = cli_run virtualNetworkAdapterConnectVswitch_spec"
  by (intro ext, unfold virtualNetworkAdapterConnectVswitch_def virtualNetworkAdapterConnectVswitch_spec_def smVirtual_Network_Adapter_Connect_Vswitch_api_def Let_def cli_unfold,
      rule with_options_cong, rule if_cong) (auto simp: Let_def)

lemma virtualNetworkAdapterConnectVswitch_spec_ok [cli_rules]: "spec_ok virtualNetworkAdapterConnectVswitch_spec"
  by (simp add: spec_ok_def virtualNetworkAdapterConnectVswitch_spec_def stripped_def api_rules)

lemma virtualNetworkAdapterConnectVswitchDM_run [cli_rules]: "virtualNetworkAdapterConnectVswitchDM = cli_run virtualNetworkAdapterConnectVswitchDM_spec"
  by (intro ext, unfold virtualNetworkAdapterConnectVswitchDM_def virtualNetworkAdapterConnectVswitchDM_spec_def smVirtual_Network_Adapter_Connect_Vswitch_DM_api_def Let_def cli_unfold,
      rule with_options_cong, rule if_cong) (auto simp: Let_def)

lemma virtualNetworkAdapterConnectVswitchDM_spec_ok [cli_rules]: "spec_ok virtualNetworkAdapterConnectVswitchDM_spec"
  by (simp add: spec_ok_def virtualNetworkAdapterConnectVswitchDM_spec_def stripped_def api_rules)

lemma virtualNetworkAdapterCreate_run [cli_rules]: "virtualNetworkAdapterCreate = cli_run virtualNetworkAdapterCreate_spec"
  by (intro ext, unfold virtualNetworkAdapterCreate_def virtualNetworkAdapterCreate_spec_def smVirtual_Network_Adapter_Create_api_def Let_def cli_unfold,
      rule with_options_cong, rule if_cong) (auto simp: Let_def)

lemma virtualNetworkAdapterCreate_spec_ok [cli_rules]: "spec_ok virtualNetworkAdapterCreate_spec"
  by (simp add: spec_ok_def virtualNetworkAdapterCreate_spec_def stripped_def api_rules)

lemma virtualNetworkAdapterCreateDM_run [cli_rules]: "virtualNetworkAdapterCreateDM = cli_run virtualNetworkAdapterCreateDM_spec"
  by (intro ext, unfold virtualNetworkAdapterCreateDM_def virtualNetworkAdapterCreateDM_spec_def smVirtual_Network_Adapter_Create_DM_api_def Let_def cli_unfold,
      rule with_options_cong, rule if_cong) (auto simp: Let_def)

lemma virtualNetworkAdapterCreateDM_spec_ok [cli_rules]: "spec_ok virtualNetworkAdapterCreateDM_spec"
  by (simp add: spec_ok_def virtualNetworkAdapterCreateDM_spec_def stripped_def api_rules)

lemma virtualNetworkAdapterDelete_run [cli_rules]: "virtualNetworkAdapterDelete = cli_run virtualNetworkAdapterDelete_spec"
  by (intro ext, unfold virtualNetworkAdapterDelete_def virtualNetworkAdapterDelete_spec_def smVirtual_Network_Adapter_Delete_api_def Let_def cli_unfold,
      rule with_options_cong, rule if_cong) (auto simp: Let_def)

lemma virtualNetworkAdapterDelete_spec_ok [cli_rules]: "spec_ok virtualNetworkAdapterDelete_spec"
  by (simp add: spec_ok_def virtualNetworkAdapterDelete_spec_def stripped_def api_rules)

lemma virtualNetworkAdapterDeleteDM_run [cli_rules]: "virtualNetworkAdapterDeleteDM = cli_run virtualNetworkAdapterDeleteDM_spec"
  by (intro ext, unfold virtualNetworkAdapterDeleteDM_def virtualNetworkAdapterDeleteDM_spec_def smVirtual_Network_Adapter_Delete_DM_api_def Let_def cli_unfold,
      rule with_options_cong, rule if_cong) (auto simp: Let_def)

lemma virtualNetworkAdapterDeleteDM_spec_ok [cli_rules]: "spec_ok virtualNetworkAdapterDeleteDM_spec"
  by (simp add: spec_ok_def virtualNetworkAdapterDeleteDM_spec_def stripped_def api_rules)

lemma virtualNetworkAdapterDisconnect_run [cli_rules]: "virtualNetworkAdapterDisconnect = cli_run virtualNetworkAdapterDisconnect_spec"
  by (intro ext, unfold virtualNetworkAdapterDisconnect_def virtualNetworkAdapterDisconnect_spec_def smVirtual_Network_Adapter_Disconnect_api_def Let_def cli_unfold,
      rule with_options_cong, rule if_cong) (auto simp: Let_def)

lemma virtualNetworkAdapterDisconnect_spec_ok [cli_rules]: "spec_ok virtualNetworkAdapterDisconnect_spec"
  by (simp add: spec_ok_def virtualNetworkAdapterDisconnect_spec_def stripped_def api_rules)

lemma virtualNetworkLANCreate_run [cli_rules]: "virtualNetworkLANCreate = cli_run virtualNetworkLANCreate_spec"
  by (intro ext, unfold virtualNetworkLANCreate_def virtualNetworkLANCreate_spec_def smVirtual_Network_LAN_Create_api_def Let_def cli_unfold,
      rule with_options_cong, rule if_cong) (auto simp: Let_def)

lemma virtualNetworkLANCreate_spec_ok [cli_rules]: "spec_ok virtualNetworkLANCreate_spec"
  by (simp add: spec_ok_def virtualNetworkLANCreate_spec_def stripped_def api_rules)

lemma virtualNetworkLANDelete_run [cli_rules]: "virtualNetworkLANDelete = cli_run virtualNetworkLANDelete_spec"
  by (intro ext, unfold virtualNetworkLANDelete_def virtualNetworkLANDelete_spec_def smVirtual_Network_LAN_Delete_api_def Let_def cli_unfold,
      rule with_options_cong, rule if_cong) (auto simp: Let_def)

lemma virtualNetworkLANDelete_spec_ok [cli_rules]: "spec_ok virtualNetworkLANDelete_spec"
  by (simp add: spec_ok_def virtualNetworkLANDelete_spec_def stripped_def api_rules)

lemma virtualNetworkVswitchCreate_run [cli_rules]: "virtualNetworkVswitchCreate = cli_run virtualNetworkVswitchCreate_spec"
  by (intro ext, unfold virtualNetworkVswitchCreate_def virtualNetworkVswitchCreate_spec_def smVirtual_Network_Vswitch_Create_api_def Let_def cli_unfold,
      rule with_options_cong, rule if_cong) (auto simp: Let_def)

lemma virtualNetworkVswitchCreate_spec_ok [cli_rules]: "spec_ok virtualNetworkVswitchCreate_spec"
  by (simp add: spec_ok_def virtualNetworkVswitchCreate_spec_def stripped_def api_rules)

lemma virtualNetworkVswitchDelete_run [cli_rules]: "virtualNetworkVswitchDelete = cli_run virtualNetworkVswitchDelete_spec"
  by (intro ext, unfold virtualNetworkVswitchDelete_def virtualNetworkVswitchDelete_spec_def smVirtual_Network_Vswitch_Delete_api_def Let_def cli_unfold,
      rule with_options_cong, rule if_cong) (auto simp: Let_def)

lemma virtualNetworkVswitchDelete_spec_ok [cli_rules]: "spec_ok virtualNetworkVswitchDelete_spec"
  by (simp add: spec_ok_def virtualNetworkVswitchDelete_spec_def stripped_def api_rules)

definition smcli_network_commands :: "(cli_command \<times> cli_spec) list" where
  "smcli_network_commands =
     [(virtualChannelConnectionCreate, virtualChannelConnectionCreate_spec),
      (virtualChannelConnectionCreateDM, virtualChannelConnectionCreateDM_spec),
      (virtualChannelConnectionDelete, virtualChannelConnectionDelete_spec),
      (virtualChannelConnectionDeleteDM, virtualChannelConnectionDeleteDM_spec),
      (virtualNetworkAdapterConnectLAN, virtualNetworkAdapterConnectLAN_spec),
      (virtualNetworkAdapterConnectVswitch, virtualNetworkAdapterConnectVswitch_spec),
      (virtualNetworkAdapterConnectVswitchDM, virtualNetworkAdapterConnectVswitchDM_spec),
      (virtualNetworkAdapterCreate, virtualNetworkAdapterCreate_spec),
      (virtualNetworkAdapterCreateDM, virtualNetworkAdapterCreateDM_spec),
      (virtualNetworkAdapterDelete, virtualNetworkAdapterDelete_spec),
      (virtualNetworkAdapterDeleteDM, virtualNetworkAdapterDeleteDM_spec),
      (virtualNetworkAdapterDisconnect, virtualNetworkAdapterDisconnect_spec),
      (virtualNetworkLANCreate, virtualNetworkLANCreate_spec),
      (virtualNetworkLANDelete, virtualNetworkLANDelete_spec),
      (virtualNetworkVswitchCreate, virtualNetworkVswitchCreate_spec),
      (virtualNetworkVswitchDelete, virtualNetworkVswitchDelete_spec)]"

lemma smcli_network_commands_run: "(cmd, spec) \<in> set smcli_network_commands \<Longrightarrow> cmd = cli_run spec \<and> spec_ok spec"
  by (auto simp: smcli_network_commands_def cli_rules)

end
