(* ===== verification/Smcli_System.thy ===== *)
theory Smcli_System
  imports Smcli
begin

text \<open>
  The commands of \<^verbatim>\<open>smcli\<close> for the system, the directory, profiles, prototypes, segments and lists that send one request and
  report its return and reason code, from \<^verbatim>\<open>src/smcli*.c\<close>.  Each definition is the whole
  command: options, required options, status line, call and report.  Behind them stand the
  specifications of the commands and the proofs that each command follows its own.
\<close>

section \<open>Commands\<close>

definition asynchronousNotificationEnableDM :: cli_command where
  "asynchronousNotificationEnableDM ctx malloc smapi argV =
     with_options ctx ''Asynchronous_Notification_Enable_DM'' ''T:t:r:c:p:i:e:s:h?'' ''Ttrcpies'' ''Ttrcpies'' argV (\<lambda>opt.
       (let targetIdentifier = opt (CHR ''T'');
         entity = opt_int (-1) (opt (CHR ''t''));
         subscription = opt_int (-1) (opt (CHR ''r''));
         communication = opt_int (-1) (opt (CHR ''c''));
         portNumber = opt_int (-1) (opt (CHR ''p''));
         ip = opt (CHR ''i'');
         encoding = opt_int (-1) (opt (CHR ''e''));
         subscriberData = opt_str [] (opt (CHR ''s'')) in
       (if targetIdentifier = None \<or> entity < 0 \<or> subscription < 0 \<or> communication < 0 \<or> portNumber < 0 \<or> ip = None \<or> encoding < 0 then missing_options ctx
       else deref targetIdentifier (\<lambda>targetIdentifier. deref ip (\<lambda>ip. deref subscriberData (\<lambda>subscriberData. 
         (let strMsg = snprintf 250 [c_literal ''Beginning notification of updates to '', targetIdentifier, c_literal ''... ''] in
         report_call ctx smapi ''Asynchronous_Notification_Enable_DM'' strMsg strMsg
           (smAsynchronous_Notification_Enable_DM malloc [] 0 [] targetIdentifier (of_int entity) (of_int subscription) (of_int communication) portNumber ip (of_int encoding) (strlen subscriberData) subscriberData))))))))"

definition authorizationListAdd :: cli_command where
  "authorizationListAdd ctx malloc smapi argV =
     with_options ctx ''Authorization_List_Add'' ''T:i:f:h?'' ''Tif'' ''Tif'' argV (\<lambda>opt.
       (let target_identifier = opt (CHR ''T'');
         forId = opt (CHR ''i'');
         functionId = opt (CHR ''f'') in
       (if target_identifier = None \<or> forId = None \<or> functionId = None then missing_options ctx
       else deref target_identifier (\<lambda>target_identifier. deref forId (\<lambda>forId. deref functionId (\<lambda>functionId. 
         (let strMsg = snprintf 250 [c_literal ''Adding an entry to the authorization file for '', target_identifier, c_literal ''... ''] in
         report_call ctx smapi ''Authorization_List_Add'' strMsg strMsg
           (smAuthorization_List_Add malloc [] 0 [] target_identifier forId functionId))))))))"

definition authorizationListRemove :: cli_command where
  "authorizationListRemove ctx malloc smapi argV =
     with_options ctx ''Authorization_List_Remove'' ''T:i:f:h?'' ''Tif'' ''Tif'' argV (\<lambda>opt.
       (let target_identifier = opt (CHR ''T'');
         forId = opt (CHR ''i'');
         functionId = opt (CHR ''f'') in
       (if target_identifier = None \<or> forId = None \<or> functionId = None then missing_options ctx
       else deref target_identifier (\<lambda>target_identifier. deref forId (\<lambda>forId. deref functionId (\<lambda>functionId. 
         (let strMsg = snprintf 250 [c_literal ''Removing '', target_identifier, c_literal '' for '', forId, c_literal '' from '', functionId, c_literal '' in the authorization file... ''] in
         report_call ctx smapi ''Authorization_List_Remove'' strMsg strMsg
           (smAuthorization_List_Remove malloc [] 0 [] target_identifier forId functionId))))))))"

definition directoryManagerLocalTagDeleteDM :: cli_command where
  "directoryManagerLocalTagDeleteDM ctx malloc smapi argV =
     with_options ctx ''Directory_Manager_Local_Tag_Delete_DM'' ''T:n:h?'' ''Tn'' ''Tn'' argV (\<lambda>opt.
       (let image = opt (CHR ''T'');
         tagName = opt (CHR ''n'') in
       (if image = None \<or> tagName = None then missing_options ctx
       else deref image (\<lambda>image. deref tagName (\<lambda>tagName. 
         (let strMsg = snprintf 250 [c_literal ''Removing a local tag or named comment record '', tagName, c_literal ''... ''] in
         report_call ctx smapi ''Directory_Manager_Local_Tag_Delete_DM'' strMsg strMsg
           (smDirectory_Manager_Local_Tag_Delete_DM malloc [] 0 [] image tagName)))))))"

definition directoryManagerLocalTagSetDM :: cli_command where
  "directoryManagerLocalTagSetDM ctx malloc smapi argV =
     with_options ctx ''Directory_Manager_Local_Tag_Set_DM'' ''T:n:v:h?'' ''Tnv'' ''Tnv'' argV (\<lambda>opt.
       (let image = opt (CHR ''T'');
         tagName = opt (CHR ''n'');
         tagValue = opt (CHR ''v'') in
       (if image = None \<or> tagName = None \<or> tagValue = None then missing_options ctx
       else deref image (\<lambda>image. deref tagName (\<lambda>tagName. deref tagValue (\<lambda>tagValue. 
         (let strMsg = snprintf 250 [c_literal ''Setting the value of a virtual image'' @ [39] @ c_literal ''s local tag or named comment record '', tagName, c_literal ''... ''] in
         report_call ctx smapi ''Directory_Manager_Local_Tag_Set_DM'' strMsg strMsg
           (smDirectory_Manager_Local_Tag_Set_DM malloc [] 0 [] image tagName (strlen tagValue) tagValue))))))))"

definition nameListDestroy :: cli_command where
  "nameListDestroy ctx malloc smapi argV =
     with_options ctx ''Name_List_Destroy'' ''T:h?'' ''T'' ''T'' argV (\<lambda>opt.
       (let nameList = opt (CHR ''T'') in
       (if nameList = None then missing_options ctx
       else deref nameList (\<lambda>nameList. 
         (let strMsg = snprintf 250 [c_literal ''Destroying '', nameList, c_literal ''... ''] in
         report_call ctx smapi ''Name_List_Destroy'' strMsg strMsg
           (smName_List_Destroy malloc [] 0 [] nameList))))))"

definition profileDeleteDM :: cli_command where
  "profileDeleteDM ctx malloc smapi argV =
     with_options ctx ''Profile_Delete_DM'' ''-T:h?'' ''T'' ''T'' argV (\<lambda>opt.
       (let profile = opt (CHR ''T'') in
       (if profile = None then missing_options ctx
       else deref profile (\<lambda>profile. 
         (let strMsg = snprintf 250 [c_literal ''Deleting profile directory entry '', profile, c_literal ''... ''] in
         report_call ctx smapi ''Profile_Delete_DM'' strMsg strMsg
           (smProfile_Delete_DM malloc [] 0 [] profile))))))"

definition profileLockDM :: cli_command where
  "profileLockDM ctx malloc smapi argV =
     with_options ctx ''Profile_Lock_DM'' ''-T:h?'' ''T'' ''T'' argV (\<lambda>opt.
       (let profile = opt (CHR ''T'') in
       (if profile = None then missing_options ctx
       else deref profile (\<lambda>profile. 
         (let strMsg = snprintf 250 [c_literal ''Locking profile directory entry '', profile, c_literal ''... ''] in
         report_call ctx smapi ''Profile_Lock_DM'' strMsg strMsg
           (smProfile_Lock_DM malloc [] 0 [] profile))))))"

definition profileUnlockDM :: cli_command where
  "profileUnlockDM ctx malloc smapi argV =
     with_options ctx ''Profile_Unlock_DM'' ''-T:h?'' ''T'' ''T'' argV (\<lambda>opt.
       (let profile = opt (CHR ''T'') in
       (if profile = None then missing_options ctx
       else deref profile (\<lambda>profile. 
         (let strMsg = snprintf 250 [c_literal ''UnLocking profile directory entry '', profile, c_literal ''... ''] in
         report_call ctx smapi ''Profile_Unlock_DM'' strMsg strMsg
           (smProfile_Unlock_DM malloc [] 0 [] profile))))))"

definition prototypeDeleteDM :: cli_command where
  "prototypeDeleteDM ctx malloc smapi argV =
     with_options ctx ''Prototype_Delete_DM'' ''T:h?'' ''T'' ''T'' argV (\<lambda>opt.
       (let prototype = opt (CHR ''T'') in
       (if prototype = None then missing_options ctx
       else deref prototype (\<lambda>prototype. 
         (let strMsg = snprintf 250 [c_literal ''Deleting image prototype '', prototype, c_literal ''... ''] in
         report_call ctx smapi ''Prototype_Delete_DM'' strMsg strMsg
           (smPrototype_Delete_DM malloc [] 0 [] prototype))))))"

definition queryAsynchronousOperationDM :: cli_command where
  "queryAsynchronousOperationDM ctx malloc smapi argV =
     with_options ctx ''Query_Asynchronous_Operation_DM'' ''T:i:h?'' ''Ti'' ''Ti'' argV (\<lambda>opt.
       (let image = opt (CHR ''T'');
         operationId = opt_int (-1) (opt (CHR ''i'')) in
       (if image = None \<or> operationId < 0 then missing_options ctx
       else deref image (\<lambda>image. 
         (let strMsg = [] in
         report_call ctx smapi ''Query_Asychronous_Operation_DM'' strMsg strMsg
           (smQuery_Asychronous_Operation_DM malloc [] 0 [] image operationId))))))"

definition sharedMemoryAccessAddDM :: cli_command where
  "sharedMemoryAccessAddDM ctx malloc smapi argV =
     with_options ctx ''Shared_Memory_Access_Add_DM'' ''T:s:h?'' ''Ts'' ''Ts'' argV (\<lambda>opt.
       (let image = opt (CHR ''T'');
         segmentName = opt (CHR ''s'') in
       (if image = None \<or> segmentName = None then missing_options ctx
       else deref image (\<lambda>image. deref segmentName (\<lambda>segmentName. 
         (let strMsg = snprintf 250 [c_literal ''Adding restricted access to '', segmentName, c_literal ''... ''] in
         report_call ctx smapi ''Shared_Memory_Access_Add_DM'' strMsg strMsg
           (smShared_Memory_Access_Add_DM malloc [] 0 [] image segmentName)))))))"

definition sharedMemoryAccessRemoveDM :: cli_command where
  "sharedMemoryAccessRemoveDM ctx malloc smapi argV =
     with_options ctx ''Shared_Memory_Access_Remove_DM'' ''T:s:h?'' ''Ts'' ''Ts'' argV (\<lambda>opt.
       (let image = opt (CHR ''T'');
         segmentName = opt (CHR ''s'') in
       (if image = None \<or> segmentName = None then missing_options ctx
       else deref image (\<lambda>image. deref segmentName (\<lambda>segmentName. 
         (let strMsg = snprintf 250 [c_literal ''Removing restricted access from '', segmentName, c_literal ''... ''] in
         report_call ctx smapi ''Shared_Memory_Access_Remove_DM'' strMsg strMsg
           (smShared_Memory_Access_Remove_DM malloc [] 0 [] image segmentName)))))))"

definition sharedMemoryDelete :: cli_command where
  "sharedMemoryDelete ctx malloc smapi argV =
     with_options ctx ''Shared_Memory_Delete'' ''T:s:h?'' ''Ts'' ''Ts'' argV (\<lambda>opt.
       (let image = opt (CHR ''T'');
         segmentName = opt (CHR ''s'') in
       (if image = None \<or> segmentName = None then missing_options ctx
       else deref image (\<lambda>image. deref segmentName (\<lambda>segmentName. 
         (let strMsg = snprintf 250 [c_literal ''Deleting memory segment '', segmentName, c_literal ''... ''] in
         report_call ctx smapi ''Shared_Memory_Delete'' strMsg strMsg
           (smShared_Memory_Delete malloc [] 0 [] image segmentName)))))))"

definition sharedMemoryReplace :: cli_command where
  "sharedMemoryReplace ctx malloc smapi argV =
     with_options ctx ''Shared_Memory_Replace'' ''T:s:i:h?'' ''Tsi'' ''Tsi'' argV (\<lambda>opt.
       (let image = opt (CHR ''T'');
         segmentName = opt (CHR ''s'');
         memoryAccessId = opt (CHR ''i'') in
       (if image = None \<or> segmentName = None \<or> memoryAccessId = None then missing_options ctx
       else deref image (\<lambda>image. deref segmentName (\<lambda>segmentName. deref memoryAccessId (\<lambda>memoryAccessId. 
         (let strMsg = snprintf 250 [c_literal ''Replacing memory segment '', segmentName, c_literal ''... ''] in
         report_call ctx smapi ''Shared_Memory_Replace_Delete'' strMsg strMsg
           (smShared_Memory_Replace malloc [] 0 [] image segmentName memoryAccessId))))))))"

definition staticImageChangesActivateDM :: cli_command where
  "staticImageChangesActivateDM ctx malloc smapi argV =
     with_options ctx ''Static_Image_Changes_Activate_DM'' ''T:h?'' ''T'' ''T'' argV (\<lambda>opt.
       (let image = opt (CHR ''T'') in
       (if image = None then missing_options ctx
       else deref image (\<lambda>image. 
         (let strMsg = snprintf 250 [c_literal ''Enabling changes to '', image, [39] @ c_literal ''s directory... ''] in
         report_call ctx smapi ''Static_Image_Changes_Activate_DM'' strMsg strMsg
           (smStatic_Image_Changes_Activate_DM malloc [] 0 [] image))))))"

definition staticImageChangesDeactivateDM :: cli_command where
  "staticImageChangesDeactivateDM ctx malloc smapi argV =
     with_options ctx ''Static_Image_Changes_Deactivate_DM'' ''T:h?'' ''T'' ''T'' argV (\<lambda>opt.
       (let image = opt (CHR ''T'') in
       (if image = None then missing_options ctx
       else deref image (\<lambda>image. 
         (let strMsg = snprintf 250 [c_literal ''Preventing changes to '', image, [39] @ c_literal ''s directory... ''] in
         report_call ctx smapi ''Static_Image_Changes_Deactivate_DM'' strMsg strMsg
           (smStatic_Image_Changes_Deactivate_DM malloc [] 0 [] image))))))"

definition staticImageChangesImmediateDM :: cli_command where
  "staticImageChangesImmediateDM ctx malloc smapi argV =
     with_options ctx ''Static_Image_Changes_Immediate_DM'' ''T:h?'' ''T'' ''T'' argV (\<lambda>opt.
       (let image = opt (CHR ''T'') in
       (if image = None then missing_options ctx
       else deref image (\<lambda>image. 
         (let strMsg = snprintf 250 [c_literal ''Making changes to '', image, [39] @ c_literal ''s directory immediately available... ''] in
         report_call ctx smapi ''Static_Image_Changes_Immediate_DM'' strMsg strMsg
           (smStatic_Image_Changes_Immediate_DM malloc [] 0 [] image))))))"

definition checkAuthentication :: cli_command where
  "checkAuthentication ctx malloc smapi argV =
     with_options ctx ''Check_Authentication'' ''u:p:h?'' ''up'' ''up'' argV (\<lambda>opt.
       (let userid = opt (CHR ''u'');
         passWord = opt (CHR ''p'') in
       (if userid = None \<or> passWord = None then missing_options ctx
       else deref userid (\<lambda>userid. deref passWord (\<lambda>passWord.
         (let passWordLength = strlen passWord;
           strMsg = snprintf 250 [c_literal ''Validating userid/password pair ... ''] in
         report_call ctx smapi ''Check_Authentication'' strMsg strMsg
           (smCheck_Authentication malloc userid passWordLength passWord)))))))"

section \<open>Specifications\<close>

definition asynchronousNotificationEnableDM_spec :: cli_spec where
  "asynchronousNotificationEnableDM_spec =
     \<lparr>cli_api = smAsynchronous_Notification_Enable_DM_api, cli_optstring = ''T:t:r:c:p:i:e:s:h?'', cli_cases = ''Ttrcpies'',
      cli_args = [Required (CHR ''T''), Character (CHR ''t'') (-1) (\<lambda>v. v < 0), Character (CHR ''r'') (-1) (\<lambda>v. v < 0), Character (CHR ''c'') (-1) (\<lambda>v. v < 0), Number (CHR ''p'') (-1) (\<lambda>v. v < 0), Required (CHR ''i''), Character (CHR ''e'') (-1) (\<lambda>v. v < 0), Buffer_Opt (CHR ''s'') []],
      cli_help = ''Asynchronous_Notification_Enable_DM'', cli_class = ''Asynchronous_Notification_Enable_DM'',
      cli_status = (\<lambda>opt. let targetIdentifier = (case opt (CHR ''T'') of None \<Rightarrow> [] | Some s \<Rightarrow> s) in snprintf 250 [c_literal ''Beginning notification of updates to '', targetIdentifier, c_literal ''... ''])\<rparr>"

definition authorizationListAdd_spec :: cli_spec where
  "authorizationListAdd_spec =
     \<lparr>cli_api = smAuthorization_List_Add_api, cli_optstring = ''T:i:f:h?'', cli_cases = ''Tif'',
      cli_args = [Required (CHR ''T''), Required (CHR ''i''), Required (CHR ''f'')],
      cli_help = ''Authorization_List_Add'', cli_class = ''Authorization_List_Add'',
      cli_status = (\<lambda>opt. let target_identifier = (case opt (CHR ''T'') of None \<Rightarrow> [] | Some s \<Rightarrow> s) in snprintf 250 [c_literal ''Adding an entry to the authorization file for '', target_identifier, c_literal ''... ''])\<rparr>"

definition authorizationListRemove_spec :: cli_spec where
  "authorizationListRemove_spec =
     \<lparr>cli_api = smAuthorization_List_Remove_api, cli_optstring = ''T:i:f:h?'', cli_cases = ''Tif'',
      cli_args = [Required (CHR ''T''), Required (CHR ''i''), Required (CHR ''f'')],
      cli_help = ''Authorization_List_Remove'', cli_class = ''Authorization_List_Remove'',
      cli_status = (\<lambda>opt. let target_identifier = (case opt (CHR ''T'') of None \<Rightarrow> [] | Some s \<Rightarrow> s); forId = (case opt (CHR ''i'') of None \<Rightarrow> [] | Some s \<Rightarrow> s); functionId = (case opt (CHR ''f'') of None \<Rightarrow> [] | Some s \<Rightarrow> s) in snprintf 250 [c_literal ''Removing '', target_identifier, c_literal '' for '', forId, c_literal '' from '', functionId, c_literal '' in the authorization file... ''])\<rparr>"

definition directoryManagerLocalTagDeleteDM_spec :: cli_spec where
  "directoryManagerLocalTagDeleteDM_spec =
     \<lparr>cli_api = smDirectory_Manager_Local_Tag_Delete_DM_api, cli_optstring = ''T:n:h?'', cli_cases = ''Tn'',
      cli_args = [Required (CHR ''T''), Required (CHR ''n'')],
      cli_help = ''Directory_Manager_Local_Tag_Delete_DM'', cli_class = ''Directory_Manager_Local_Tag_Delete_DM'',
      cli_status = (\<lambda>opt. let tagName = (case opt (CHR ''n'') of None \<Rightarrow> [] | Some s \<Rightarrow> s) in snprintf 250 [c_literal ''Removing a local tag or named comment record '', tagName, c_literal ''... ''])\<rparr>"

definition directoryManagerLocalTagSetDM_spec :: cli_spec where
  "directoryManagerLocalTagSetDM_spec =
     \<lparr>cli_api = smDirectory_Manager_Local_Tag_Set_DM_api, cli_optstring = ''T:n:v:h?'', cli_cases = ''Tnv'',
      cli_args = [Required (CHR ''T''), Required (CHR ''n''), Buffer (CHR ''v'')],
      cli_help = ''Directory_Manager_Local_Tag_Set_DM'', cli_class = ''Directory_Manager_Local_Tag_Set_DM'',
      cli_status = (\<lambda>opt. let tagName = (case opt (CHR ''n'') of None \<Rightarrow> [] | Some s \<Rightarrow> s) in snprintf 250 [c_literal ''Setting the value of a virtual image'' @ [39] @ c_literal ''s local tag or named comment record '', tagName, c_literal ''... ''])\<rparr>"

definition nameListDestroy_spec :: cli_spec where
  "nameListDestroy_spec =
     \<lparr>cli_api = smName_List_Destroy_api, cli_optstring = ''T:h?'', cli_cases = ''T'',
      cli_args = [Required (CHR ''T'')],
      cli_help = ''Name_List_Destroy'', cli_class = ''Name_List_Destroy'',
      cli_status = (\<lambda>opt. let nameList = (case opt (CHR ''T'') of None \<Rightarrow> [] | Some s \<Rightarrow> s) in snprintf 250 [c_literal ''Destroying '', nameList, c_literal ''... ''])\<rparr>"

definition profileDeleteDM_spec :: cli_spec where
  "profileDeleteDM_spec =
     \<lparr>cli_api = smProfile_Delete_DM_api, cli_optstring = ''-T:h?'', cli_cases = ''T'',
      cli_args = [Required (CHR ''T'')],
      cli_help = ''Profile_Delete_DM'', cli_class = ''Profile_Delete_DM'',
      cli_status = (\<lambda>opt. let profile = (case opt (CHR ''T'') of None \<Rightarrow> [] | Some s \<Rightarrow> s) in snprintf 250 [c_literal ''Deleting profile directory entry '', profile, c_literal ''... ''])\<rparr>"

definition profileLockDM_spec :: cli_spec where
  "profileLockDM_spec =
     \<lparr>cli_api = smProfile_Lock_DM_api, cli_optstring = ''-T:h?'', cli_cases = ''T'',
      cli_args = [Required (CHR ''T'')],
      cli_help = ''Profile_Lock_DM'', cli_class = ''Profile_Lock_DM'',
      cli_status = (\<lambda>opt. let profile = (case opt (CHR ''T'') of None \<Rightarrow> [] | Some s \<Rightarrow> s) in snprintf 250 [c_literal ''Locking profile directory entry '', profile, c_literal ''... ''])\<rparr>"

definition profileUnlockDM_spec :: cli_spec where
  "profileUnlockDM_spec =
     \<lparr>cli_api = smProfile_Unlock_DM_api, cli_optstring = ''-T:h?'', cli_cases = ''T'',
      cli_args = [Required (CHR ''T'')],
      cli_help = ''Profile_Unlock_DM'', cli_class = ''Profile_Unlock_DM'',
      cli_status = (\<lambda>opt. let profile = (case opt (CHR ''T'') of None \<Rightarrow> [] | Some s \<Rightarrow> s) in snprintf 250 [c_literal ''UnLocking profile directory entry '', profile, c_literal ''... ''])\<rparr>"

definition prototypeDeleteDM_spec :: cli_spec where
  "prototypeDeleteDM_spec =
     \<lparr>cli_api = smPrototype_Delete_DM_api, cli_optstring = ''T:h?'', cli_cases = ''T'',
      cli_args = [Required (CHR ''T'')],
      cli_help = ''Prototype_Delete_DM'', cli_class = ''Prototype_Delete_DM'',
      cli_status = (\<lambda>opt. let prototype = (case opt (CHR ''T'') of None \<Rightarrow> [] | Some s \<Rightarrow> s) in snprintf 250 [c_literal ''Deleting image prototype '', prototype, c_literal ''... ''])\<rparr>"

definition queryAsynchronousOperationDM_spec :: cli_spec where
  "queryAsynchronousOperationDM_spec =
     \<lparr>cli_api = smQuery_Asychronous_Operation_DM_api, cli_optstring = ''T:i:h?'', cli_cases = ''Ti'',
      cli_args = [Required (CHR ''T''), Number (CHR ''i'') (-1) (\<lambda>v. v < 0)],
      cli_help = ''Query_Asynchronous_Operation_DM'', cli_class = ''Query_Asychronous_Operation_DM'',
      cli_status = (\<lambda>opt. [])\<rparr>"

definition sharedMemoryAccessAddDM_spec :: cli_spec where
  "sharedMemoryAccessAddDM_spec =
     \<lparr>cli_api = smShared_Memory_Access_Add_DM_api, cli_optstring = ''T:s:h?'', cli_cases = ''Ts'',
      cli_args = [Required (CHR ''T''), Required (CHR ''s'')],
      cli_help = ''Shared_Memory_Access_Add_DM'', cli_class = ''Shared_Memory_Access_Add_DM'',
      cli_status = (\<lambda>opt. let segmentName = (case opt (CHR ''s'') of None \<Rightarrow> [] | Some s \<Rightarrow> s) in snprintf 250 [c_literal ''Adding restricted access to '', segmentName, c_literal ''... ''])\<rparr>"

definition sharedMemoryAccessRemoveDM_spec :: cli_spec where
  "sharedMemoryAccessRemoveDM_spec =
     \<lparr>cli_api = smShared_Memory_Access_Remove_DM_api, cli_optstring = ''T:s:h?'', cli_cases = ''Ts'',
      cli_args = [Required (CHR ''T''), Required (CHR ''s'')],
      cli_help = ''Shared_Memory_Access_Remove_DM'', cli_class = ''Shared_Memory_Access_Remove_DM'',
      cli_status = (\<lambda>opt. let segmentName = (case opt (CHR ''s'') of None \<Rightarrow> [] | Some s \<Rightarrow> s) in snprintf 250 [c_literal ''Removing restricted access from '', segmentName, c_literal ''... ''])\<rparr>"

definition sharedMemoryDelete_spec :: cli_spec where
  "sharedMemoryDelete_spec =
     \<lparr>cli_api = smShared_Memory_Delete_api, cli_optstring = ''T:s:h?'', cli_cases = ''Ts'',
      cli_args = [Required (CHR ''T''), Required (CHR ''s'')],
      cli_help = ''Shared_Memory_Delete'', cli_class = ''Shared_Memory_Delete'',
      cli_status = (\<lambda>opt. let segmentName = (case opt (CHR ''s'') of None \<Rightarrow> [] | Some s \<Rightarrow> s) in snprintf 250 [c_literal ''Deleting memory segment '', segmentName, c_literal ''... ''])\<rparr>"

definition sharedMemoryReplace_spec :: cli_spec where
  "sharedMemoryReplace_spec =
     \<lparr>cli_api = smShared_Memory_Replace_api, cli_optstring = ''T:s:i:h?'', cli_cases = ''Tsi'',
      cli_args = [Required (CHR ''T''), Required (CHR ''s''), Required (CHR ''i'')],
      cli_help = ''Shared_Memory_Replace'', cli_class = ''Shared_Memory_Replace_Delete'',
      cli_status = (\<lambda>opt. let segmentName = (case opt (CHR ''s'') of None \<Rightarrow> [] | Some s \<Rightarrow> s) in snprintf 250 [c_literal ''Replacing memory segment '', segmentName, c_literal ''... ''])\<rparr>"

definition staticImageChangesActivateDM_spec :: cli_spec where
  "staticImageChangesActivateDM_spec =
     \<lparr>cli_api = smStatic_Image_Changes_Activate_DM_api, cli_optstring = ''T:h?'', cli_cases = ''T'',
      cli_args = [Required (CHR ''T'')],
      cli_help = ''Static_Image_Changes_Activate_DM'', cli_class = ''Static_Image_Changes_Activate_DM'',
      cli_status = (\<lambda>opt. let image = (case opt (CHR ''T'') of None \<Rightarrow> [] | Some s \<Rightarrow> s) in snprintf 250 [c_literal ''Enabling changes to '', image, [39] @ c_literal ''s directory... ''])\<rparr>"

definition staticImageChangesDeactivateDM_spec :: cli_spec where
  "staticImageChangesDeactivateDM_spec =
     \<lparr>cli_api = smStatic_Image_Changes_Deactivate_DM_api, cli_optstring = ''T:h?'', cli_cases = ''T'',
      cli_args = [Required (CHR ''T'')],
      cli_help = ''Static_Image_Changes_Deactivate_DM'', cli_class = ''Static_Image_Changes_Deactivate_DM'',
      cli_status = (\<lambda>opt. let image = (case opt (CHR ''T'') of None \<Rightarrow> [] | Some s \<Rightarrow> s) in snprintf 250 [c_literal ''Preventing changes to '', image, [39] @ c_literal ''s directory... ''])\<rparr>"

definition staticImageChangesImmediateDM_spec :: cli_spec where
  "staticImageChangesImmediateDM_spec =
     \<lparr>cli_api = smStatic_Image_Changes_Immediate_DM_api, cli_optstring = ''T:h?'', cli_cases = ''T'',
      cli_args = [Required (CHR ''T'')],
      cli_help = ''Static_Image_Changes_Immediate_DM'', cli_class = ''Static_Image_Changes_Immediate_DM'',
      cli_status = (\<lambda>opt. let image = (case opt (CHR ''T'') of None \<Rightarrow> [] | Some s \<Rightarrow> s) in snprintf 250 [c_literal ''Making changes to '', image, [39] @ c_literal ''s directory immediately available... ''])\<rparr>"

section \<open>The commands follow their specifications\<close>

lemma asynchronousNotificationEnableDM_run [cli_rules]: "asynchronousNotificationEnableDM = cli_run asynchronousNotificationEnableDM_spec"
  by (intro ext, unfold asynchronousNotificationEnableDM_def asynchronousNotificationEnableDM_spec_def smAsynchronous_Notification_Enable_DM_api_def Let_def cli_unfold,
      rule with_options_cong, rule if_cong) (auto simp: Let_def)

lemma asynchronousNotificationEnableDM_spec_ok [cli_rules]: "spec_ok asynchronousNotificationEnableDM_spec"
  by (simp add: spec_ok_def asynchronousNotificationEnableDM_spec_def stripped_def api_rules)

lemma authorizationListAdd_run [cli_rules]: "authorizationListAdd = cli_run authorizationListAdd_spec"
  by (intro ext, unfold authorizationListAdd_def authorizationListAdd_spec_def smAuthorization_List_Add_api_def Let_def cli_unfold,
      rule with_options_cong, rule if_cong) (auto simp: Let_def)

lemma authorizationListAdd_spec_ok [cli_rules]: "spec_ok authorizationListAdd_spec"
  by (simp add: spec_ok_def authorizationListAdd_spec_def stripped_def api_rules)

lemma authorizationListRemove_run [cli_rules]: "authorizationListRemove = cli_run authorizationListRemove_spec"
  by (intro ext, unfold authorizationListRemove_def authorizationListRemove_spec_def smAuthorization_List_Remove_api_def Let_def cli_unfold,
      rule with_options_cong, rule if_cong) (auto simp: Let_def)

lemma authorizationListRemove_spec_ok [cli_rules]: "spec_ok authorizationListRemove_spec"
  by (simp add: spec_ok_def authorizationListRemove_spec_def stripped_def api_rules)

lemma directoryManagerLocalTagDeleteDM_run [cli_rules]: "directoryManagerLocalTagDeleteDM = cli_run directoryManagerLocalTagDeleteDM_spec"
  by (intro ext, unfold directoryManagerLocalTagDeleteDM_def directoryManagerLocalTagDeleteDM_spec_def smDirectory_Manager_Local_Tag_Delete_DM_api_def Let_def cli_unfold,
      rule with_options_cong, rule if_cong) (auto simp: Let_def)

lemma directoryManagerLocalTagDeleteDM_spec_ok [cli_rules]: "spec_ok directoryManagerLocalTagDeleteDM_spec"
  by (simp add: spec_ok_def directoryManagerLocalTagDeleteDM_spec_def stripped_def api_rules)

lemma directoryManagerLocalTagSetDM_run [cli_rules]: "directoryManagerLocalTagSetDM = cli_run directoryManagerLocalTagSetDM_spec"
  by (intro ext, unfold directoryManagerLocalTagSetDM_def directoryManagerLocalTagSetDM_spec_def smDirectory_Manager_Local_Tag_Set_DM_api_def Let_def cli_unfold,
      rule with_options_cong, rule if_cong) (auto simp: Let_def)

lemma directoryManagerLocalTagSetDM_spec_ok [cli_rules]: "spec_ok directoryManagerLocalTagSetDM_spec"
  by (simp add: spec_ok_def directoryManagerLocalTagSetDM_spec_def stripped_def api_rules)

lemma nameListDestroy_run [cli_rules]: "nameListDestroy = cli_run nameListDestroy_spec"
  by (intro ext, unfold nameListDestroy_def nameListDestroy_spec_def smName_List_Destroy_api_def Let_def cli_unfold,
      rule with_options_cong, rule if_cong) (auto simp: Let_def)

lemma nameListDestroy_spec_ok [cli_rules]: "spec_ok nameListDestroy_spec"
  by (simp add: spec_ok_def nameListDestroy_spec_def stripped_def api_rules)

lemma profileDeleteDM_run [cli_rules]: "profileDeleteDM = cli_run profileDeleteDM_spec"
  by (intro ext, unfold profileDeleteDM_def profileDeleteDM_spec_def smProfile_Delete_DM_api_def Let_def cli_unfold,
      rule with_options_cong, rule if_cong) (auto simp: Let_def)

lemma profileDeleteDM_spec_ok [cli_rules]: "spec_ok profileDeleteDM_spec"
  by (simp add: spec_ok_def profileDeleteDM_spec_def stripped_def api_rules)

lemma profileLockDM_run [cli_rules]: "profileLockDM = cli_run profileLockDM_spec"
  by (intro ext, unfold profileLockDM_def profileLockDM_spec_def smProfile_Lock_DM_api_def Let_def cli_unfold,
      rule with_options_cong, rule if_cong) (auto simp: Let_def)

lemma profileLockDM_spec_ok [cli_rules]: "spec_ok profileLockDM_spec"
  by (simp add: spec_ok_def profileLockDM_spec_def stripped_def api_rules)

lemma profileUnlockDM_run [cli_rules]: "profileUnlockDM = cli_run profileUnlockDM_spec"
  by (intro ext, unfold profileUnlockDM_def profileUnlockDM_spec_def smProfile_Unlock_DM_api_def Let_def cli_unfold,
      rule with_options_cong, rule if_cong) (auto simp: Let_def)

lemma profileUnlockDM_spec_ok [cli_rules]: "spec_ok profileUnlockDM_spec"
  by (simp add: spec_ok_def profileUnlockDM_spec_def stripped_def api_rules)

lemma prototypeDeleteDM_run [cli_rules]: "prototypeDeleteDM = cli_run prototypeDeleteDM_spec"
  by (intro ext, unfold prototypeDeleteDM_def prototypeDeleteDM_spec_def smPrototype_Delete_DM_api_def Let_def cli_unfold,
      rule with_options_cong, rule if_cong) (auto simp: Let_def)

lemma prototypeDeleteDM_spec_ok [cli_rules]: "spec_ok prototypeDeleteDM_spec"
  by (simp add: spec_ok_def prototypeDeleteDM_spec_def stripped_def api_rules)

lemma queryAsynchronousOperationDM_run [cli_rules]: "queryAsynchronousOperationDM = cli_run queryAsynchronousOperationDM_spec"
  by (intro ext, unfold queryAsynchronousOperationDM_def queryAsynchronousOperationDM_spec_def smQuery_Asychronous_Operation_DM_api_def Let_def cli_unfold,
      rule with_options_cong, rule if_cong) (auto simp: Let_def)

lemma queryAsynchronousOperationDM_spec_ok [cli_rules]: "spec_ok queryAsynchronousOperationDM_spec"
  by (simp add: spec_ok_def queryAsynchronousOperationDM_spec_def stripped_def api_rules)

lemma sharedMemoryAccessAddDM_run [cli_rules]: "sharedMemoryAccessAddDM = cli_run sharedMemoryAccessAddDM_spec"
  by (intro ext, unfold sharedMemoryAccessAddDM_def sharedMemoryAccessAddDM_spec_def smShared_Memory_Access_Add_DM_api_def Let_def cli_unfold,
      rule with_options_cong, rule if_cong) (auto simp: Let_def)

lemma sharedMemoryAccessAddDM_spec_ok [cli_rules]: "spec_ok sharedMemoryAccessAddDM_spec"
  by (simp add: spec_ok_def sharedMemoryAccessAddDM_spec_def stripped_def api_rules)

lemma sharedMemoryAccessRemoveDM_run [cli_rules]: "sharedMemoryAccessRemoveDM = cli_run sharedMemoryAccessRemoveDM_spec"
  by (intro ext, unfold sharedMemoryAccessRemoveDM_def sharedMemoryAccessRemoveDM_spec_def smShared_Memory_Access_Remove_DM_api_def Let_def cli_unfold,
      rule with_options_cong, rule if_cong) (auto simp: Let_def)

lemma sharedMemoryAccessRemoveDM_spec_ok [cli_rules]: "spec_ok sharedMemoryAccessRemoveDM_spec"
  by (simp add: spec_ok_def sharedMemoryAccessRemoveDM_spec_def stripped_def api_rules)

lemma sharedMemoryDelete_run [cli_rules]: "sharedMemoryDelete = cli_run sharedMemoryDelete_spec"
  by (intro ext, unfold sharedMemoryDelete_def sharedMemoryDelete_spec_def smShared_Memory_Delete_api_def Let_def cli_unfold,
      rule with_options_cong, rule if_cong) (auto simp: Let_def)

lemma sharedMemoryDelete_spec_ok [cli_rules]: "spec_ok sharedMemoryDelete_spec"
  by (simp add: spec_ok_def sharedMemoryDelete_spec_def stripped_def api_rules)

lemma sharedMemoryReplace_run [cli_rules]: "sharedMemoryReplace = cli_run sharedMemoryReplace_spec"
  by (intro ext, unfold sharedMemoryReplace_def sharedMemoryReplace_spec_def smShared_Memory_Replace_api_def Let_def cli_unfold,
      rule with_options_cong, rule if_cong) (auto simp: Let_def)

lemma sharedMemoryReplace_spec_ok [cli_rules]: "spec_ok sharedMemoryReplace_spec"
  by (simp add: spec_ok_def sharedMemoryReplace_spec_def stripped_def api_rules)

lemma staticImageChangesActivateDM_run [cli_rules]: "staticImageChangesActivateDM = cli_run staticImageChangesActivateDM_spec"
  by (intro ext, unfold staticImageChangesActivateDM_def staticImageChangesActivateDM_spec_def smStatic_Image_Changes_Activate_DM_api_def Let_def cli_unfold,
      rule with_options_cong, rule if_cong) (auto simp: Let_def)

lemma staticImageChangesActivateDM_spec_ok [cli_rules]: "spec_ok staticImageChangesActivateDM_spec"
  by (simp add: spec_ok_def staticImageChangesActivateDM_spec_def stripped_def api_rules)

lemma staticImageChangesDeactivateDM_run [cli_rules]: "staticImageChangesDeactivateDM = cli_run staticImageChangesDeactivateDM_spec"
  by (intro ext, unfold staticImageChangesDeactivateDM_def staticImageChangesDeactivateDM_spec_def smStatic_Image_Changes_Deactivate_DM_api_def Let_def cli_unfold,
      rule with_options_cong, rule if_cong) (auto simp: Let_def)

lemma staticImageChangesDeactivateDM_spec_ok [cli_rules]: "spec_ok staticImageChangesDeactivateDM_spec"
  by (simp add: spec_ok_def staticImageChangesDeactivateDM_spec_def stripped_def api_rules)

lemma staticImageChangesImmediateDM_run [cli_rules]: "staticImageChangesImmediateDM = cli_run staticImageChangesImmediateDM_spec"
  by (intro ext, unfold staticImageChangesImmediateDM_def staticImageChangesImmediateDM_spec_def smStatic_Image_Changes_Immediate_DM_api_def Let_def cli_unfold,
      rule with_options_cong, rule if_cong) (auto simp: Let_def)

lemma staticImageChangesImmediateDM_spec_ok [cli_rules]: "spec_ok staticImageChangesImmediateDM_spec"
  by (simp add: spec_ok_def staticImageChangesImmediateDM_spec_def stripped_def api_rules)

definition smcli_system_commands :: "(cli_command \<times> cli_spec) list" where
  "smcli_system_commands =
     [(asynchronousNotificationEnableDM, asynchronousNotificationEnableDM_spec),
      (authorizationListAdd, authorizationListAdd_spec),
      (authorizationListRemove, authorizationListRemove_spec),
      (directoryManagerLocalTagDeleteDM, directoryManagerLocalTagDeleteDM_spec),
      (directoryManagerLocalTagSetDM, directoryManagerLocalTagSetDM_spec),
      (nameListDestroy, nameListDestroy_spec),
      (profileDeleteDM, profileDeleteDM_spec),
      (profileLockDM, profileLockDM_spec),
      (profileUnlockDM, profileUnlockDM_spec),
      (prototypeDeleteDM, prototypeDeleteDM_spec),
      (queryAsynchronousOperationDM, queryAsynchronousOperationDM_spec),
      (sharedMemoryAccessAddDM, sharedMemoryAccessAddDM_spec),
      (sharedMemoryAccessRemoveDM, sharedMemoryAccessRemoveDM_spec),
      (sharedMemoryDelete, sharedMemoryDelete_spec),
      (sharedMemoryReplace, sharedMemoryReplace_spec),
      (staticImageChangesActivateDM, staticImageChangesActivateDM_spec),
      (staticImageChangesDeactivateDM, staticImageChangesDeactivateDM_spec),
      (staticImageChangesImmediateDM, staticImageChangesImmediateDM_spec)]"

lemma smcli_system_commands_run: "(cmd, spec) \<in> set smcli_system_commands \<Longrightarrow> cmd = cli_run spec \<and> spec_ok spec"
  by (auto simp: smcli_system_commands_def cli_rules)

end
