(* ===== verification/Smcli_Commands.thy ===== *)
theory Smcli_Commands
  imports Smcli_Image Smcli_Network Smcli_System
begin

text \<open>
  All commands of the three command theories in one table, and what they do with a command line:
  the request that reaches SMAPI, the exit code, and the errors.
\<close>

section \<open>The table of the commands\<close>

definition smcli_commands :: "(cli_command \<times> cli_spec) list" where
  "smcli_commands = smcli_image_commands @ smcli_network_commands @ smcli_system_commands"

section \<open>A command that follows its specification\<close>

locale followed_command =
  fixes cmd :: cli_command and spec :: cli_spec
  assumes runs: "cmd = cli_run spec"
    and sound: "spec_ok spec"
begin

lemma options_parsed:
  assumes "fst ` set pairs \<subseteq> set (cli_cases spec)" and "api = [] \<or> hd api \<noteq> 45"
  shows "cmd ctx malloc smapi (command_line prog api pairs) =
    (if None \<in> set (map (source_arg (option_env pairs)) (cli_args spec)) then missing_options ctx
     else
       report_call ctx smapi (cli_class spec) (cli_status spec (option_env pairs)) (cli_status spec (option_env pairs))
         (api_build (cli_api spec) malloc (Str [] # Buf 0 [] # map (the \<circ> source_arg (option_env pairs)) (cli_args spec))))"
proof -
  have cs: "\<forall>c \<in> fst ` set pairs. c \<in> set (cli_cases spec) \<and> c \<noteq> CHR ''h'' \<and> c \<noteq> CHR ''?''"
    and os: "\<forall>c \<in> fst ` set pairs. opt_spec (stripped (cli_optstring spec)) c = Some True \<and> c \<noteq> CHR ''-''"
    using assms(1) sound unfolding spec_ok_def list_all_iff by blast+
  have "option_loop ctx (cli_help spec) (cli_cases spec) (cli_cases spec)
      (getopt_values (cli_optstring spec) (command_line prog api pairs)) (\<lambda>_. None) = Inr (option_env pairs)"
    using getopt_command_line[OF os assms(2)] option_loop_pairs[OF cs] by simp
  then show ?thesis unfolding runs cli_run_def with_options_def by simp
qed

lemma sends:
  assumes "fst ` set pairs \<subseteq> set (cli_cases spec)" "api = [] \<or> hd api \<noteq> 45"
    and args: "map (source_arg (option_env pairs)) (cli_args spec) = map Some args"
    and ok: "api_args_ok (cli_api spec) (Str [] # Buf 0 [] # args)"
  shows "cmd ctx malloc smapi (command_line prog api pairs) =
    report_call ctx smapi (cli_class spec) (cli_status spec (option_env pairs)) (cli_status spec (option_env pairs))
      (if malloc (int (length (request_bytes (api_fields (cli_api spec) (Str [] # Buf 0 [] # args)))))
       then Ok (wire_request (api_table (cli_api spec)) (api_fields (cli_api spec) (Str [] # Buf 0 [] # args)))
       else Err MEMORY_ERROR)"
proof -
  have "map (the \<circ> source_arg (option_env pairs)) (cli_args spec) = map the (map (source_arg (option_env pairs)) (cli_args spec))"
    by simp
  also have "\<dots> = args" unfolding args by (simp add: comp_def)
  finally have "map (the \<circ> source_arg (option_env pairs)) (cli_args spec) = args" .
  moreover have "None \<notin> set (map (source_arg (option_env pairs)) (cli_args spec))" unfolding args by auto
  ultimately show ?thesis
    using sound ok by (simp add: options_parsed[OF assms(1,2)] spec_ok_def api_ok_def length_request_bytes)
qed

lemma missing:
  assumes "fst ` set pairs \<subseteq> set (cli_cases spec)" "api = [] \<or> hd api \<noteq> 45"
    and "None \<in> set (map (source_arg (option_env pairs)) (cli_args spec))"
  shows "cmd ctx malloc smapi (command_line prog api pairs) = missing_options ctx"
  using assms(3) by (simp add: options_parsed[OF assms(1,2)])

lemma unknown:
  assumes "fst ` set pairs \<subseteq> set (cli_cases spec)" "api = [] \<or> hd api \<noteq> 45"
    and c: "opt_spec (stripped (cli_optstring spec)) c = None" "c \<noteq> CHR ''-''"
  shows "cmd ctx malloc smapi (command_line prog api pairs @ [45, of_char c] # rest) = Ok (option_error ctx (cli_cases spec) c, 1)"
proof -
  have cs: "\<forall>c \<in> fst ` set pairs. c \<in> set (cli_cases spec) \<and> c \<noteq> CHR ''h'' \<and> c \<noteq> CHR ''?''"
    and os: "\<forall>c \<in> fst ` set pairs. opt_spec (stripped (cli_optstring spec)) c = Some True \<and> c \<noteq> CHR ''-''"
    using assms(1) sound unfolding spec_ok_def list_all_iff by blast+
  have "getopt_values (cli_optstring spec) (command_line prog api pairs @ [45, of_char c] # rest) =
      NonOpt # map (\<lambda>(c, s). Opt c (Some s)) pairs @ Bad c # getopt_args (stripped (cli_optstring spec)) rest"
    using c assms(2) getopt_option_words[OF os, of "[45, of_char c] # rest"]
    by (auto simp: getopt_values_def command_line_def of_char_dash)
  moreover have "option_loop ctx h req (cli_cases spec) (map (\<lambda>(c, s). Opt c (Some s)) pairs @ Bad c # vs) opt =
      Inl (option_error ctx req c, 1)" for h req vs opt
    using cs by (induction pairs arbitrary: opt) auto
  ultimately show ?thesis unfolding runs cli_run_def with_options_def by simp
qed

end

lemma smcli_commands_followed: "(cmd, spec) \<in> set smcli_commands \<Longrightarrow> followed_command cmd spec"
  unfolding smcli_commands_def followed_command_def
  using smcli_image_commands_run smcli_network_commands_run smcli_system_commands_run by auto

interpretation device_reset: followed_command imageDeviceReset imageDeviceReset_spec
  by unfold_locales (rule imageDeviceReset_run, rule imageDeviceReset_spec_ok)

section \<open>Properties\<close>

text \<open>
  C23: From the command line to the wire.  For each of the commands of \<open>smcli_commands\<close>, called with its
  options in any order and repeated or not, with values for all required ones, the bytes that are
  sent to SMAPI are the request of its API with the values of the options as arguments (the last
  one of a repeated option, the default of an optional one), and the exit code is the code of the
  exchange, or else 0 exactly if SMAPI answers with return code and reason code 0.
\<close>

theorem smcli_sends_request:
  assumes "(cmd, spec) \<in> set smcli_commands" and "fst ` set pairs \<subseteq> set (cli_cases spec)" and "api = [] \<or> hd api \<noteq> 45"
    and "map (source_arg (option_env pairs)) (cli_args spec) = map Some args"
    and "api_args_ok (cli_api spec) (Str [] # Buf 0 [] # args)"
    and "req = wire_request (api_table (cli_api spec)) (api_fields (cli_api spec) (Str [] # Buf 0 [] # args))"
    and "malloc (int (length (inputP req)))" and "smapi req = (rc, returnCode, reasonCode)"
  shows "\<exists>out. cmd ctx malloc smapi (command_line prog api pairs) =
    Ok (Sent req # out, if rc \<noteq> 0 then rc else if returnCode = 0 \<and> reasonCode = 0 then 0 else 1)"
proof -
  have m: "malloc (int (length (request_bytes (api_fields (cli_api spec) (Str [] # Buf 0 [] # args)))))"
    using assms(7) by (simp add: assms(6) wire_request_def)
  show ?thesis
    unfolding followed_command.sends[OF smcli_commands_followed[OF assms(1)] assms(2-5)]
    using m assms(8)[unfolded assms(6)]
    by (simp add: report_call_def printAndLogSmapiReturnCodeReasonCodeDescription_def assms(6))
qed

text \<open>
  C29: A command that lacks a required option, or that gets a number its test rejects, prints the
  error, sends nothing and returns 1.
\<close>

theorem smcli_missing_option:
  assumes "(cmd, spec) \<in> set smcli_commands" and "fst ` set pairs \<subseteq> set (cli_cases spec)" and "api = [] \<or> hd api \<noteq> 45"
    and "src \<in> set (cli_args spec)" and "source_arg (option_env pairs) src = None"
  shows "cmd ctx malloc smapi (command_line prog api pairs) =
    Ok ((if addRcHeader ctx then [Rc_Header 24 0 0] else []) @ [Missing_Options], 1)"
proof -
  have "None \<in> set (map (source_arg (option_env pairs)) (cli_args spec))"
    using assms(4,5) by (metis (no_types, lifting) in_set_conv_nth length_map nth_map)
  from followed_command.missing[OF smcli_commands_followed[OF assms(1)] assms(2,3) this] show ?thesis
    by (simp add: missing_options_def DOES_CALLER_WANT_RC_HEADER_SYNTAX_ERROR_def)
qed

text \<open>
  Every command writes behind the one byte of \<open>tempStr\<close> when it meets a printable option that it
  does not know, then reports the option and returns 1; nothing is sent.
\<close>

theorem smcli_unknown_option_overrun:
  assumes "(cmd, spec) \<in> set smcli_commands" and "fst ` set pairs \<subseteq> set (cli_cases spec)" and "api = [] \<or> hd api \<noteq> 45"
    and "opt_spec (stripped (cli_optstring spec)) c = None" and "c \<noteq> CHR ''-''" and "c_isprint c" and "c \<notin> set (cli_cases spec)"
  shows "cmd ctx malloc smapi (command_line prog api pairs @ [45, of_char c] # rest) =
    Ok ((if addRcHeader ctx then [Rc_Header 24 0 0] else []) @ [Overrun ''tempStr'', Unknown_Option c], 1)"
  using followed_command.unknown[OF smcli_commands_followed[OF assms(1)] assms(2-5)] assms(6,7)
  by (simp add: option_error_def DOES_CALLER_WANT_RC_HEADER_SYNTAX_ERROR_def)

text \<open>
  \<open>Virtual_Network_Adapter_Disconnect_DM\<close> without \<^verbatim>\<open>-v\<close> hands a null pointer to the builder of its
  request: the option is not among those it requires.
\<close>

theorem disconnect_dm_null_pointer:
  assumes "api = [] \<or> hd api \<noteq> 45"
  shows "virtualNetworkAdapterDisconnectDM ctx malloc smapi (command_line prog api [(CHR ''T'', target)]) = Fault"
proof -
  have "getopt_values ''T:v:h?'' (command_line prog api [(CHR ''T'', target)]) = [NonOpt, Opt (CHR ''T'') (Some target)]"
    using assms getopt_command_line[of "[(CHR ''T'', target)]" "''T:v:h?''"] by (simp add: stripped_def)
  then show ?thesis by (simp add: virtualNetworkAdapterDisconnectDM_def with_options_def Let_def)
qed

section \<open>Instances\<close>

definition sample_pairs :: "(char \<times> byte list) list" where
  "sample_pairs = [(CHR ''v'', c_literal ''0100''), (CHR ''T'', c_literal ''LNX1''), (CHR ''v'', c_literal ''0200'')]"

definition sample_args :: "smapi_arg list" where
  "sample_args = [Str (c_literal ''LNX1''), Str (c_literal ''0200'')]"

definition sample_request :: smapi_request where
  "sample_request = wire_request ''Image_Device_Reset_Layout''
     (api_fields smImage_Device_Reset_api (Str [] # Buf 0 [] # sample_args))"

definition sample_context :: cli_context where
  "sample_context = \<lparr>addRcHeader = True, errnoSaved = 0\<rparr>"

lemma sample_command: "(imageDeviceReset, imageDeviceReset_spec) \<in> set smcli_commands"
  by (simp add: smcli_commands_def smcli_image_commands_def)

lemma sample_facts:
  "fst ` set sample_pairs \<subseteq> set (cli_cases imageDeviceReset_spec)"
  "map (source_arg (option_env sample_pairs)) (cli_args imageDeviceReset_spec) = map Some sample_args"
  "api_args_ok (cli_api imageDeviceReset_spec) (Str [] # Buf 0 [] # sample_args)"
  "sample_request = wire_request (api_table (cli_api imageDeviceReset_spec))
     (api_fields (cli_api imageDeviceReset_spec) (Str [] # Buf 0 [] # sample_args))"
  by (simp_all add: sample_pairs_def imageDeviceReset_spec_def option_env_def sample_args_def sample_request_def
      api_args_ok_def smImage_Device_Reset_api_def api_fields_def buffer_arg_def c_literal_string c_literal_def c_string_def)

theorem smcli_sends_request_witness:
  "\<exists>out. imageDeviceReset sample_context (\<lambda>_. True) (\<lambda>_. (0, 200, 8))
     (command_line (c_literal ''smcli'') (c_literal ''Image_Device_Reset'') sample_pairs) =
   Ok (Sent sample_request # out, if (0::int) \<noteq> 0 then 0 else if (200::int) = 0 \<and> (8::int) = 0 then 0 else 1)"
  by (rule smcli_sends_request[OF sample_command sample_facts(1) _ sample_facts(2-4)]) (simp_all add: c_literal_def)

theorem smcli_missing_option_witness:
  "imageDeviceReset sample_context (\<lambda>_. True) (\<lambda>_. (0, 0, 0))
     (command_line (c_literal ''smcli'') (c_literal ''Image_Device_Reset'') [(CHR ''T'', c_literal ''LNX1'')]) =
   Ok ((if addRcHeader sample_context then [Rc_Header 24 0 0] else []) @ [Missing_Options], 1)"
  by (rule smcli_missing_option[OF sample_command, where src = "Required (CHR ''v'')"])
    (simp_all add: imageDeviceReset_spec_def option_env_def c_literal_def)

theorem smcli_unknown_option_overrun_witness:
  "imageDeviceReset sample_context (\<lambda>_. True) (\<lambda>_. (0, 0, 0))
     (command_line (c_literal ''smcli'') (c_literal ''Image_Device_Reset'') [] @ [45, of_char (CHR ''x'')] # []) =
   Ok ((if addRcHeader sample_context then [Rc_Header 24 0 0] else []) @ [Overrun ''tempStr'', Unknown_Option (CHR ''x'')], 1)"
  by (rule smcli_unknown_option_overrun[OF sample_command])
    (simp_all add: imageDeviceReset_spec_def c_literal_def stripped_def c_isprint_def)

theorem disconnect_dm_null_pointer_witness:
  "virtualNetworkAdapterDisconnectDM sample_context (\<lambda>_. True) (\<lambda>_. (0, 0, 0))
     (command_line (c_literal ''smcli'') (c_literal ''Virtual_Network_Adapter_Disconnect_DM'') [(CHR ''T'', c_literal ''LNX1'')]) = Fault"
  by (rule disconnect_dm_null_pointer) (simp add: c_literal_def)

end
