(* ===== verification/Smcli_Main.thy ===== *)
theory Smcli_Main
  imports Smcli_Commands
begin

text \<open>
  \<open>main\<close> of \<^verbatim>\<open>src/smcli.c\<close>: the help, the check of the SMAPI level, the removal of
  \<^verbatim>\<open>--addRCheader\<close> and \<^verbatim>\<open>--timeout\<close> from the arguments, and the chain of tests on the name of the
  API; and \<open>queryAsyncOperation\<close>.  A command that is not modelled is the parameter \<open>other\<close>, applied to
  the name of its C function.  Tracing and the release of the memory group before the exit are left
  out.
\<close>

section \<open>Help\<close>

text \<open>The names that \<open>displayHelpInfo\<close> prints, in its order, each with the level from which on it does.\<close>

definition help_names_1 :: "(int \<times> string) list" where
  "help_names_1 =
     [(0, ''Asynchronous_Notification_Disable_DM''),
      (0, ''Asynchronous_Notification_Enable_DM''),
      (0, ''Asynchronous_Notification_Query_DM''),
      (0, ''Authorization_List_Add''),
      (0, ''Authorization_List_Query''),
      (0, ''Authorization_List_Remove''),
      (0, ''Check_Authentication''),
      (620, ''Delete_ABEND_Dump''),
      (0, ''Directory_Manager_Local_Tag_Define_DM''),
      (0, ''Directory_Manager_Local_Tag_Delete_DM''),
      (0, ''Directory_Manager_Local_Tag_Query_DM''),
      (0, ''Directory_Manager_Local_Tag_Set_DM''),
      (0, ''Directory_Manager_Search_DM''),
      (0, ''Directory_Manager_Task_Cancel_DM''),
      (611, ''Event_Stream_Add''),
      (0, ''Image_Activate''),
      (0, ''Image_Active_Configuration_Query''),
      (640, ''Image_Console_Get''),
      (0, ''Image_CPU_Define''),
      (0, ''Image_CPU_Define_DM''),
      (0, ''Image_CPU_Delete''),
      (0, ''Image_CPU_Delete_DM''),
      (0, ''Image_CPU_Query''),
      (0, ''Image_CPU_Query_DM''),
      (0, ''Image_CPU_Set_Maximum_DM''),
      (0, ''Image_Create_DM''),
      (0, ''Image_Deactivate''),
      (620, ''Image_Definition_Async_Updates''),
      (620, ''Image_Definition_Create_DM''),
      (611, ''Image_Definition_Delete_DM''),
      (611, ''Image_Definition_Query_DM''),
      (611, ''Image_Definition_Update_DM''),
      (0, ''Image_Delete_DM''),
      (0, ''Image_Device_Dedicate''),
      (0, ''Image_Device_Dedicate_DM''),
      (0, ''Image_Device_Reset''),
      (0, ''Image_Device_Undedicate''),
      (0, ''Image_Device_Undedicate_DM''),
      (0, ''Image_Disk_Copy''),
      (0, ''Image_Disk_Copy_DM''),
      (0, ''Image_Disk_Create''),
      (0, ''Image_Disk_Create_DM''),
      (0, ''Image_Disk_Delete''),
      (0, ''Image_Disk_Delete_DM''),
      (0, ''Image_Disk_Query''),
      (0, ''Image_Disk_Share''),
      (0, ''Image_Disk_Share_DM''),
      (0, ''Image_Disk_Unshare''),
      (0, ''Image_Disk_Unshare_DM''),
      (0, ''Image_IPL_Delete_DM''),
      (0, ''Image_IPL_Device_Query''),
      (0, ''Image_IPL_Query_DM''),
      (0, ''Image_IPL_Set_DM''),
      (0, ''Image_Lock_DM''),
      (630, ''Image_Lock_Query_DM''),
      (630, ''Image_MDISK_Link_Query''),
      (0, ''Image_Name_Query_DM''),
      (0, ''Image_Password_Set_DM''),
      (630, ''Image_Pause''),
      (0, ''Image_Performance_Query''),
      (0, ''Image_Query_Activate_Time''),
      (0, ''Image_Query_DM''),
      (0, ''Image_Recycle''),
      (0, ''Image_Replace_DM''),
      (0, ''Image_SCSI_Characteristics_Define_DM'')]"

definition help_names_2 :: "(int \<times> string) list" where
  "help_names_2 =
     [(0, ''Image_SCSI_Characteristics_Query_DM''),
      (0, ''Image_Status_Query''),
      (0, ''Image_Unlock_DM''),
      (0, ''Image_Volume_Add''),
      (0, ''Image_Volume_Delete''),
      (620, ''Image_Volume_Share''),
      (0, ''Image_Volume_Space_Define_DM''),
      (620, ''Image_Volume_Space_Define_Extended_DM''),
      (0, ''Image_Volume_Space_Query_DM''),
      (620, ''Image_Volume_Space_Query_Extended_DM''),
      (0, ''Image_Volume_Space_Remove_DM''),
      (0, ''IPaddr_Get''),
      (620, ''Metadata_Delete''),
      (620, ''Metadata_Get''),
      (620, ''Metadata_Set''),
      (640, ''Metadata_Space_Query''),
      (0, ''Name_List_Add''),
      (0, ''Name_List_Destroy''),
      (0, ''Name_List_Query''),
      (0, ''Name_List_Remove''),
      (630, ''Network_IP_Interface_Create''),
      (630, ''Network_IP_Interface_Modify''),
      (630, ''Network_IP_Interface_Query''),
      (630, ''Network_IP_Interface_Remove''),
      (620, ''Page_or_Spool_Volume_Add''),
      (620, ''Process_ABEND_Dump''),
      (0, ''Profile_Create_DM''),
      (0, ''Profile_Delete_DM''),
      (0, ''Profile_Lock_DM''),
      (630, ''Profile_Lock_Query_DM''),
      (0, ''Profile_Query_DM''),
      (0, ''Profile_Replace_DM''),
      (0, ''Profile_Unlock_DM''),
      (0, ''Prototype_Create_DM''),
      (0, ''Prototype_Delete_DM''),
      (0, ''Prototype_Name_Query_DM''),
      (0, ''Prototype_Query_DM''),
      (0, ''Prototype_Replace_DM''),
      (620, ''Query_ABEND_Dump''),
      (620, ''Query_All_DM''),
      (0, ''Query_API_Functional_Level''),
      (0, ''Query_Asynchronous_Operation_DM''),
      (0, ''Query_Directory_Manager_Level_DM''),
      (611, ''Response_Recovery''),
      (0, ''Shared_Memory_Access_Add_DM''),
      (0, ''Shared_Memory_Access_Query_DM''),
      (0, ''Shared_Memory_Access_Remove_DM''),
      (0, ''Shared_Memory_Create''),
      (0, ''Shared_Memory_Delete''),
      (0, ''Shared_Memory_Query''),
      (0, ''Shared_Memory_Replace''),
      (630, ''SMAPI_Status_Capture''),
      (620, ''SSI_Query''),
      (0, ''Static_Image_Changes_Activate_DM''),
      (0, ''Static_Image_Changes_Deactivate_DM''),
      (0, ''Static_Image_Changes_Immediate_DM''),
      (611, ''System_Config_Syntax_Check''),
      (620, ''System_Disk_Accessibility''),
      (611, ''System_Disk_Add''),
      (630, ''System_Disk_IO_Query''),
      (611, ''System_Disk_Query''),
      (630, ''System_EQID_Query''),
      (620, ''System_FCP_Free_Query''),
      (640, ''System_Image_Performance_Query''),
      (0, ''System_Info_Query'')]"

definition help_names_3 :: "(int \<times> string) list" where
  "help_names_3 =
     [(630, ''System_Information_Query''),
      (0, ''System_IO_Query''),
      (630, ''System_Page_Utilization_Query''),
      (0, ''System_Performance_Info_Query''),
      (630, ''System_Performance_Information_Query''),
      (620, ''System_Performance_Threshold_Disable''),
      (620, ''System_Performance_Threshold_Enable''),
      (720, ''System_Processor_Query''),
      (640, ''System_RDR_File_Manage''),
      (611, ''System_SCSI_Disk_Add''),
      (620, ''System_SCSI_Disk_Delete''),
      (611, ''System_SCSI_Disk_Query''),
      (630, ''System_Service_Query''),
      (630, ''System_Shutdown''),
      (630, ''System_Spool_Utilization_Query''),
      (611, ''System_WWPN_Query''),
      (0, ''Virtual_Channel_Connection_Create''),
      (0, ''Virtual_Channel_Connection_Create_DM''),
      (0, ''Virtual_Channel_Connection_Delete''),
      (0, ''Virtual_Channel_Connection_Delete_DM''),
      (0, ''Virtual_Network_Adapter_Connect_LAN''),
      (0, ''Virtual_Network_Adapter_Connect_LAN_DM''),
      (0, ''Virtual_Network_Adapter_Connect_Vswitch''),
      (0, ''Virtual_Network_Adapter_Connect_Vswitch_DM''),
      (620, ''Virtual_Network_Adapter_Connect_Vswitch_Extended''),
      (0, ''Virtual_Network_Adapter_Create''),
      (0, ''Virtual_Network_Adapter_Create_DM''),
      (611, ''Virtual_Network_Adapter_Create_Extended''),
      (611, ''Virtual_Network_Adapter_Create_Extended_DM''),
      (0, ''Virtual_Network_Adapter_Delete''),
      (0, ''Virtual_Network_Adapter_Delete_DM''),
      (0, ''Virtual_Network_Adapter_Disconnect''),
      (0, ''Virtual_Network_Adapter_Disconnect_DM''),
      (0, ''Virtual_Network_Adapter_Query''),
      (630, ''Virtual_Network_Adapter_Query_Extended''),
      (0, ''Virtual_Network_LAN_Access''),
      (0, ''Virtual_Network_LAN_Access_Query''),
      (0, ''Virtual_Network_LAN_Create''),
      (0, ''Virtual_Network_LAN_Delete''),
      (0, ''Virtual_Network_LAN_Query''),
      (611, ''Virtual_Network_OSA_Query''),
      (0, ''Virtual_Network_Query_LAN''),
      (0, ''Virtual_Network_Query_OSA''),
      (620, ''Virtual_Network_VLAN_Query_Stats''),
      (0, ''Virtual_Network_Vswitch_Create''),
      (611, ''Virtual_Network_Vswitch_Create_Extended''),
      (0, ''Virtual_Network_Vswitch_Delete''),
      (611, ''Virtual_Network_Vswitch_Delete_Extended''),
      (0, ''Virtual_Network_Vswitch_Query''),
      (640, ''Virtual_Network_Vswitch_Query_Byte_Stats''),
      (620, ''Virtual_Network_Vswitch_Query_Extended''),
      (630, ''Virtual_Network_Vswitch_Query_IUO_Stats''),
      (620, ''Virtual_Network_Vswitch_Query_Stats''),
      (0, ''Virtual_Network_Vswitch_Set''),
      (611, ''Virtual_Network_Vswitch_Set_Extended''),
      (620, ''VMRELOCATE''),
      (620, ''VMRELOCATE_Image_Attributes''),
      (620, ''VMRELOCATE_Modify''),
      (620, ''VMRELOCATE_Status''),
      (0, ''VMRM_Configuration_Query''),
      (0, ''VMRM_Configuration_Update''),
      (0, ''VMRM_Measurement_Query''),
      (630, ''xCAT_Commands_IUO'')]"

definition displayHelpInfo :: "int \<Rightarrow> string list" where
  "displayHelpInfo smapiLevel =
     map snd (filter (\<lambda>(level, name). level \<le> smapiLevel) (help_names_1 @ help_names_2 @ help_names_3))"

section \<open>Levels\<close>

definition APIS_611 :: "string list" where
  "APIS_611 =
     [''Event_Stream_Add'',
      ''Event_Subscribe'',
      ''Event_Unsubscribe'',
      ''Image_Definition_Delete_DM'',
      ''Image_Definition_Query_DM'',
      ''Image_Definition_Update_DM'',
      ''Image_Disk_Query'',
      ''Response_Recovery'',
      ''System_Config_Syntax_Check'',
      ''System_Disk_Add'',
      ''System_Disk_Query'',
      ''System_SCSI_Disk_Add'',
      ''System_SCSI_Disk_Query'',
      ''System_WWPN_Query'',
      ''Virtual_Network_Adapter_Create_Extended'',
      ''Virtual_Network_Adapter_Create_Extended_DM'',
      ''Virtual_Network_OSA_Query'']"

definition APIS_620 :: "string list" where
  "APIS_620 =
     [''Delete_ABEND_Dump'',
      ''Image_Definition_Async_Updates'',
      ''Image_Definition_Create_DM'',
      ''Image_Volume_Share'',
      ''Image_Volume_Space_Define_Extended_DM'',
      ''Image_Volume_Space_Query_Extended_DM'',
      ''Metadata_Delete'',
      ''Metadata_Get'',
      ''Metadata_Set'',
      ''Page_or_Spool_Volume_Add'',
      ''Process_ABEND_Dump'',
      ''Query_ABEND_Dump'',
      ''Query_All_DM'',
      ''SSI_Query'',
      ''System_Disk_Accessibility'',
      ''System_FCP_Free_Query'',
      ''System_SCSI_Disk_Delete'',
      ''System_Performance_Threshold_Disable'',
      ''System_Performance_Threshold_Enable'',
      ''Virtual_Network_Adapter_Connect_Vswitch_Extended'',
      ''Virtual_Network_VLAN_Query_Stats'',
      ''Virtual_Network_Vswitch_Query_Extended'',
      ''Virtual_Network_Vswitch_Query_Stats'',
      ''VMRELOCATE'',
      ''VMRELOCATE_Image_Attributes'',
      ''VMRELOCATE_Modify'',
      ''VMRELOCATE_Status'']"

definition APIS_630 :: "string list" where
  "APIS_630 =
     [''Image_Lock_Query_DM'',
      ''Image_MDISK_Link_Query'',
      ''Image_Pause'',
      ''Network_IP_Interface_Create'',
      ''Network_IP_Interface_Modify'',
      ''Network_IP_Interface_Query'',
      ''Network_IP_Interface_Remove'',
      ''Profile_Lock_Query_DM'',
      ''SMAPI_Status_Capture'',
      ''System_Disk_IO_Query'',
      ''System_EQID_Query'',
      ''System_Information_Query'',
      ''System_Page_Utilization_Query'',
      ''System_Performance_Information_Query'',
      ''System_Service_Query'',
      ''System_Shutdown'',
      ''System_Spool_Utilization_Query'',
      ''Virtual_Network_Adapter_Query_Extended'',
      ''xCAT_Commands_IUO'']"

definition APIS_640 :: "string list" where
  "APIS_640 =
     [''Image_Console_Get'']"

definition is_name :: "byte list \<Rightarrow> string \<Rightarrow> bool" where
  "is_name arg name \<longleftrightarrow> arg = c_literal name"

definition unsupported_api :: "int \<Rightarrow> byte list \<Rightarrow> bool" where
  "unsupported_api smapiLevel arg \<longleftrightarrow>
     smapiLevel < 640 \<and>
     (smapiLevel < 611 \<and> list_ex (is_name arg) APIS_611 \<or>
      smapiLevel < 620 \<and> list_ex (is_name arg) APIS_620 \<or>
      smapiLevel < 630 \<and> list_ex (is_name arg) APIS_630)"

section \<open>Keywords for all commands\<close>

definition RETURN_CODE_HEADER_KEYWORD :: "byte list" where
  "RETURN_CODE_HEADER_KEYWORD = c_literal ''--addRCheader''"

definition SOCKET_TIMEOUT_KEYWORD :: "byte list" where
  "SOCKET_TIMEOUT_KEYWORD = c_literal ''--timeout''"

text \<open>
  The loops over the arguments: \<open>pre\<close> are those before the index \<open>j\<close>.  After a keyword is taken out the
  index goes on, so that the argument that has moved to its place is not looked at.  \<open>None\<close> is the
  return after the help when fewer than two arguments are left.
\<close>

fun header_loop :: "byte list list \<Rightarrow> byte list list \<Rightarrow> bool \<Rightarrow> (byte list list \<times> bool) option" where
  "header_loop pre [] addRc = Some (pre, addRc)"
| "header_loop pre (a # as) addRc =
     (if a = RETURN_CODE_HEADER_KEYWORD then
        if length pre + length as < 2 then None
        else (case as of [] \<Rightarrow> Some (pre, True) | b # bs \<Rightarrow> header_loop (pre @ [b]) bs True)
      else header_loop (pre @ [a]) as addRc)"

fun timeout_loop :: "byte list list \<Rightarrow> byte list list \<Rightarrow> int \<Rightarrow> (byte list list \<times> int) option" where
  "timeout_loop pre [] tmo = Some (pre, tmo)"
| "timeout_loop pre [a] tmo =
     (if a = SOCKET_TIMEOUT_KEYWORD then if length pre < 2 then None else Some (pre, tmo)
      else Some (pre @ [a], tmo))"
| "timeout_loop pre (a # v # as) tmo =
     (if a = SOCKET_TIMEOUT_KEYWORD then
        if length pre + length as < 2 then None
        else (case as of [] \<Rightarrow> Some (pre, c_atoi v) | b # bs \<Rightarrow> timeout_loop (pre @ [b]) bs (c_atoi v))
      else timeout_loop (pre @ [a]) (v # as) tmo)"

section \<open>The chain of names\<close>

definition dispatch_1 :: "(string \<Rightarrow> cli_command) \<Rightarrow> (string \<times> cli_command) list" where
  "dispatch_1 other =
     [(''Asynchronous_Notification_Disable_DM'', other ''asynchronousNotificationDisableDM''),
      (''Asynchronous_Notification_Enable_DM'', asynchronousNotificationEnableDM),
      (''Asynchronous_Notification_Query_DM'', other ''asynchronousNotificationQueryDM''),
      (''Authorization_List_Add'', authorizationListAdd),
      (''Authorization_List_Query'', other ''authorizationListQuery''),
      (''Authorization_List_Remove'', authorizationListRemove),
      (''Check_Authentication'', checkAuthentication),
      (''Delete_ABEND_Dump'', other ''deleteABENDDump''),
      (''Directory_Manager_Local_Tag_Define_DM'', other ''directoryManagerLocalTagDefineDM''),
      (''Directory_Manager_Local_Tag_Delete_DM'', directoryManagerLocalTagDeleteDM),
      (''Directory_Manager_Local_Tag_Query_DM'', other ''directoryManagerLocalTagQueryDM''),
      (''Directory_Manager_Local_Tag_Set_DM'', directoryManagerLocalTagSetDM),
      (''Directory_Manager_Search_DM'', other ''directoryManagerSearchDM''),
      (''Directory_Manager_Task_Cancel_DM'', other ''directoryManagerTaskCancelDM''),
      (''Event_Stream_Add'', other ''eventStreamAdd''),
      (''Event_Subscribe'', other ''eventSubscribe''),
      (''Event_Unsubscribe'', other ''eventUnsubscribe''),
      (''Image_Activate'', other ''imageActivate''),
      (''Image_Active_Configuration_Query'', other ''imageActiveConfigurationQuery''),
      (''Image_CPU_Define'', imageCPUDefine),
      (''Image_CPU_Define_DM'', other ''imageCPUDefineDM''),
      (''Image_CPU_Delete'', imageCPUDelete),
      (''Image_CPU_Delete_DM'', imageCPUDeleteDM),
      (''Image_CPU_Query'', other ''imageCPUQuery''),
      (''Image_CPU_Query_DM'', other ''imageCPUQueryDM''),
      (''Image_CPU_Set_Maximum_DM'', imageCPUSetMaximumDM),
      (''Image_Console_Get'', imageConsoleGet),
      (''Image_Create_DM'', other ''imageCreateDM''),
      (''Image_Deactivate'', other ''imageDeactivate''),
      (''Image_Definition_Async_Updates'', other ''imageDefinitionAsyncUpdates''),
      (''Image_Definition_Create_DM'', other ''imageDefinitionCreateDM''),
      (''Image_Definition_Delete_DM'', other ''imageDefinitionDeleteDM''),
      (''Image_Definition_Query_DM'', other ''imageDefinitionQueryDM''),
      (''Image_Definition_Update_DM'', other ''imageDefinitionUpdateDM''),
      (''Image_Delete_DM'', other ''imageDeleteDM''),
      (''Image_Device_Dedicate'', imageDeviceDedicate),
      (''Image_Device_Dedicate_DM'', imageDeviceDedicateDM),
      (''Image_Device_Reset'', imageDeviceReset),
      (''Image_Device_Undedicate'', imageDeviceUndedicate),
      (''Image_Device_Undedicate_DM'', imageDeviceUndedicateDM),
      (''Image_Disk_Copy'', imageDiskCopy),
      (''Image_Disk_Copy_DM'', other ''imageDiskCopyDM''),
      (''Image_Disk_Create'', imageDiskCreate),
      (''Image_Disk_Create_DM'', other ''imageDiskCreateDM''),
      (''Image_Disk_Delete'', imageDiskDelete),
      (''Image_Disk_Delete_DM'', other ''imageDiskDeleteDM''),
      (''Image_Disk_Query'', other ''imageDiskQuery''),
      (''Image_Disk_Share'', imageDiskShare),
      (''Image_Disk_Share_DM'', imageDiskShareDM),
      (''Image_Disk_Unshare'', imageDiskUnshare),
      (''Image_Disk_Unshare_DM'', imageDiskUnshareDM),
      (''Image_IPL_Delete_DM'', imageIPLDeleteDM),
      (''Image_IPL_Device_Query'', other ''imageIPLDeviceQuery''),
      (''Image_IPL_Query_DM'', other ''imageIPLQueryDM''),
      (''Image_IPL_Set_DM'', imageIPLSetDM),
      (''Image_Lock_DM'', imageLockDM),
      (''Image_Lock_Query_DM'', other ''imageLockQueryDM''),
      (''Image_MDISK_Link_Query'', other ''imageMDISKLinkQuery''),
      (''Image_Name_Query_DM'', other ''imageNameQueryDM''),
      (''Image_Password_Set_DM'', imagePasswordSetDM),
      (''Image_Pause'', other ''imagePause''),
      (''Image_Performance_Query'', other ''imagePerformanceQuery''),
      (''Image_Query_Activate_Time'', other ''imageQueryActivateTime''),
      (''Image_Query_DM'', other ''imageQueryDM''),
      (''Image_Recycle'', imageRecycle)]"

definition dispatch_2 :: "(string \<Rightarrow> cli_command) \<Rightarrow> (string \<times> cli_command) list" where
  "dispatch_2 other =
     [(''Image_Replace_DM'', other ''imageReplaceDM''),
      (''Image_SCSI_Characteristics_Define_DM'', other ''imageSCSICharacteristicsDefineDM''),
      (''Image_SCSI_Characteristics_Query_DM'', other ''imageSCSICharacteristicsQueryDM''),
      (''Image_Status_Query'', other ''imageStatusQuery''),
      (''Image_Unlock_DM'', imageUnlockDM),
      (''Image_Volume_Add'', imageVolumeAdd),
      (''Image_Volume_Delete'', imageVolumeDelete),
      (''Image_Volume_Share'', other ''imageVolumeShare''),
      (''Image_Volume_Space_Define_DM'', other ''imageVolumeSpaceDefineDM''),
      (''Image_Volume_Space_Define_Extended_DM'', other ''imageVolumeSpaceDefineExtendedDM''),
      (''Image_Volume_Space_Query_DM'', other ''imageVolumeSpaceQueryDM''),
      (''Image_Volume_Space_Query_Extended_DM'', other ''imageVolumeSpaceQueryExtendedDM''),
      (''Image_Volume_Space_Remove_DM'', imageVolumeSpaceRemoveDM),
      (''IPaddr_Get'', other ''ipAddrGet''),
      (''Metadata_Delete'', other ''metadataDelete''),
      (''Metadata_Get'', other ''metadataGet''),
      (''Metadata_Set'', other ''metadataSet''),
      (''Metadata_Space_Query'', other ''metadataSpaceQuery''),
      (''Name_List_Add'', other ''nameListAdd''),
      (''Name_List_Destroy'', nameListDestroy),
      (''Name_List_Query'', other ''nameListQuery''),
      (''Name_List_Remove'', other ''nameListRemove''),
      (''Network_IP_Interface_Create'', other ''networkIpInterfaceCreate''),
      (''Network_IP_Interface_Modify'', other ''networkIpInterfaceModify''),
      (''Network_IP_Interface_Query'', other ''networkIpInterfaceQuery''),
      (''Network_IP_Interface_Remove'', other ''networkIpInterfaceRemove''),
      (''Page_or_Spool_Volume_Add'', other ''pageorSpoolVolumeAdd''),
      (''Process_ABEND_Dump'', other ''processABENDDump''),
      (''Profile_Create_DM'', other ''profileCreateDM''),
      (''Profile_Delete_DM'', profileDeleteDM),
      (''Profile_Lock_DM'', profileLockDM),
      (''Profile_Lock_Query_DM'', other ''profileLockQueryDM''),
      (''Profile_Query_DM'', other ''profileQueryDM''),
      (''Profile_Replace_DM'', other ''profileReplaceDM''),
      (''Profile_Unlock_DM'', profileUnlockDM),
      (''Prototype_Create_DM'', other ''prototypeCreateDM''),
      (''Prototype_Delete_DM'', prototypeDeleteDM),
      (''Prototype_Name_Query_DM'', other ''prototypeNameQueryDM''),
      (''Prototype_Query_DM'', other ''prototypeQueryDM''),
      (''Prototype_Replace_DM'', other ''prototypeReplaceDM''),
      (''Query_ABEND_Dump'', other ''queryABENDDump''),
      (''Query_All_DM'', other ''queryAllDM''),
      (''Query_API_Functional_Level'', other ''queryAPIFunctionalLevel''),
      (''Query_Asynchronous_Operation_DM'', queryAsynchronousOperationDM),
      (''Query_Directory_Manager_Level_DM'', other ''queryDirectoryManagerLevelDM''),
      (''Response_Recovery'', other ''responseRecovery''),
      (''Shared_Memory_Access_Add_DM'', sharedMemoryAccessAddDM),
      (''Shared_Memory_Access_Query_DM'', other ''sharedMemoryAccessQueryDM''),
      (''Shared_Memory_Access_Remove_DM'', sharedMemoryAccessRemoveDM),
      (''Shared_Memory_Create'', other ''sharedMemoryCreate''),
      (''Shared_Memory_Delete'', sharedMemoryDelete),
      (''Shared_Memory_Query'', other ''sharedMemoryQuery''),
      (''Shared_Memory_Replace'', sharedMemoryReplace),
      (''SMAPI_Status_Capture'', other ''smapiStatusCapture''),
      (''SSI_Query'', other ''ssiQuery''),
      (''Static_Image_Changes_Activate_DM'', staticImageChangesActivateDM),
      (''Static_Image_Changes_Deactivate_DM'', staticImageChangesDeactivateDM),
      (''Static_Image_Changes_Immediate_DM'', staticImageChangesImmediateDM),
      (''System_Config_Syntax_Check'', other ''systemConfigSyntaxCheck''),
      (''System_Disk_Accessibility'', other ''systemDiskAccessibility''),
      (''System_Disk_Add'', other ''systemDiskAdd''),
      (''System_Disk_IO_Query'', other ''systemDiskIOQuery''),
      (''System_Disk_Query'', other ''systemDiskQuery''),
      (''System_EQID_Query'', other ''systemEQIDQuery''),
      (''System_FCP_Free_Query'', other ''systemFCPFreeQuery'')]"

definition dispatch_3 :: "(string \<Rightarrow> cli_command) \<Rightarrow> (string \<times> cli_command) list" where
  "dispatch_3 other =
     [(''System_Image_Performance_Query'', other ''systemImagePerformanceQuery''),
      (''System_Info_Query'', other ''systemInfoQuery''),
      (''System_Information_Query'', other ''systemInformationQuery''),
      (''System_IO_Query'', other ''systemIOQuery''),
      (''System_Page_Utilization_Query'', other ''systemPageUtilizationQuery''),
      (''System_Performance_Info_Query'', other ''systemPerformanceInfoQuery''),
      (''System_Performance_Information_Query'', other ''systemPerformanceInformationQuery''),
      (''System_Performance_Threshold_Disable'', other ''systemPerformanceThresholdDisable''),
      (''System_Performance_Threshold_Enable'', other ''systemPerformanceThresholdEnable''),
      (''System_Processor_Query'', other ''systemProcessorQuery''),
      (''System_RDR_File_Manage'', other ''systemRDRFileManage''),
      (''System_SCSI_Disk_Add'', other ''systemSCSIDiskAdd''),
      (''System_SCSI_Disk_Delete'', other ''systemSCSIDiskDelete''),
      (''System_SCSI_Disk_Query'', other ''systemSCSIDiskQuery''),
      (''System_Service_Query'', other ''systemServiceQuery''),
      (''System_Shutdown'', other ''systemShutdown''),
      (''System_Spool_Utilization_Query'', other ''systemSpoolUtilizationQuery''),
      (''System_WWPN_Query'', other ''systemWWPNQuery''),
      (''Virtual_Channel_Connection_Create'', virtualChannelConnectionCreate),
      (''Virtual_Channel_Connection_Create_DM'', virtualChannelConnectionCreateDM),
      (''Virtual_Channel_Connection_Delete'', virtualChannelConnectionDelete),
      (''Virtual_Channel_Connection_Delete_DM'', virtualChannelConnectionDeleteDM),
      (''Virtual_Network_Adapter_Connect_LAN'', virtualNetworkAdapterConnectLAN),
      (''Virtual_Network_Adapter_Connect_LAN_DM'', virtualNetworkAdapterConnectLANDM),
      (''Virtual_Network_Adapter_Connect_Vswitch'', virtualNetworkAdapterConnectVswitch),
      (''Virtual_Network_Adapter_Connect_Vswitch_DM'', virtualNetworkAdapterConnectVswitchDM),
      (''Virtual_Network_Adapter_Connect_Vswitch_Extended'', other ''virtualNetworkAdapterConnectVswitchExtended''),
      (''Virtual_Network_Adapter_Create'', virtualNetworkAdapterCreate),
      (''Virtual_Network_Adapter_Create_DM'', virtualNetworkAdapterCreateDM),
      (''Virtual_Network_Adapter_Create_Extended'', other ''virtualNetworkAdapterCreateExtended''),
      (''Virtual_Network_Adapter_Create_Extended_DM'', other ''virtualNetworkAdapterCreateExtendedDM''),
      (''Virtual_Network_Adapter_Delete'', virtualNetworkAdapterDelete),
      (''Virtual_Network_Adapter_Delete_DM'', virtualNetworkAdapterDeleteDM),
      (''Virtual_Network_Adapter_Disconnect'', virtualNetworkAdapterDisconnect),
      (''Virtual_Network_Adapter_Disconnect_DM'', virtualNetworkAdapterDisconnectDM),
      (''Virtual_Network_Adapter_Query'', other ''virtualNetworkAdapterQuery''),
      (''Virtual_Network_Adapter_Query_Extended'', other ''virtualNetworkAdapterQueryExtended''),
      (''Virtual_Network_LAN_Access'', other ''virtualNetworkLANAccess''),
      (''Virtual_Network_LAN_Access_Query'', other ''virtualNetworkLANAccessQuery''),
      (''Virtual_Network_LAN_Create'', virtualNetworkLANCreate),
      (''Virtual_Network_LAN_Delete'', virtualNetworkLANDelete),
      (''Virtual_Network_LAN_Query'', other ''virtualNetworkLANQuery''),
      (''Virtual_Network_OSA_Query'', other ''virtualNetworkOSAQuery''),
      (''Virtual_Network_Query_LAN'', other ''virtualNetworkQueryLAN''),
      (''Virtual_Network_Query_OSA'', other ''virtualNetworkQueryOSA''),
      (''Virtual_Network_VLAN_Query_Stats'', other ''virtualNetworkVLANQueryStats''),
      (''Virtual_Network_Vswitch_Create'', virtualNetworkVswitchCreate),
      (''Virtual_Network_Vswitch_Create_Extended'', other ''virtualNetworkVswitchCreateExtended''),
      (''Virtual_Network_Vswitch_Delete'', virtualNetworkVswitchDelete),
      (''Virtual_Network_Vswitch_Delete_Extended'', other ''virtualNetworkVswitchDeleteExtended''),
      (''Virtual_Network_Vswitch_Query'', other ''virtualNetworkVswitchQuery''),
      (''Virtual_Network_Vswitch_Query_Byte_Stats'', other ''virtualNetworkVswitchQueryByteStats''),
      (''Virtual_Network_Vswitch_Query_Extended'', other ''virtualNetworkVswitchQueryExtended''),
      (''Virtual_Network_Vswitch_Query_IUO_Stats'', other ''virtualNetworkVswitchQueryIUOStats''),
      (''Virtual_Network_Vswitch_Query_Stats'', other ''virtualNetworkVswitchQueryStats''),
      (''Virtual_Network_Vswitch_Set'', other ''virtualNetworkVswitchSet''),
      (''Virtual_Network_Vswitch_Set_Extended'', other ''virtualNetworkVswitchSetExtended''),
      (''VMRELOCATE'', other ''vmRelocate''),
      (''VMRELOCATE_Image_Attributes'', other ''vmRelocateImageAttributes''),
      (''VMRELOCATE_Modify'', other ''vmRelocateModify''),
      (''VMRELOCATE_Status'', other ''vmRelocateStatus''),
      (''VMRM_Configuration_Query'', other ''vmrmConfigurationQuery''),
      (''VMRM_Configuration_Update'', other ''vmrmConfigurationUpdate''),
      (''VMRM_Measurement_Query'', other ''vmrmMeasurementQuery''),
      (''xCAT_Commands_IUO'', other ''xCATCommandsIUO'')]"

definition dispatch :: "(string \<Rightarrow> cli_command) \<Rightarrow> (string \<times> cli_command) list" where
  "dispatch other = dispatch_1 other @ dispatch_2 other @ dispatch_3 other"

text \<open>The first name of the chain that is equal to the argument.\<close>

definition find_command :: "(string \<Rightarrow> cli_command) \<Rightarrow> byte list \<Rightarrow> cli_command option" where
  "find_command other arg = map_option snd (find (\<lambda>(name, cmd). is_name arg name) (dispatch other))"

section \<open>\<open>main\<close>\<close>

datatype main_result =
    Init_Failed int
  | No_Level
  | Help_Shown "string list"
  | Unsupported_Name
  | Command cli_result

record main_env =
  init_rc :: int
  level_rc :: int
  smapi_level :: int

definition smcli_main ::
  "main_env \<Rightarrow> (string \<Rightarrow> cli_command) \<Rightarrow> (int \<Rightarrow> bool) \<Rightarrow> (int \<Rightarrow> smapi_request \<Rightarrow> int \<times> int \<times> int)
     \<Rightarrow> byte list list \<Rightarrow> main_result" where
  "smcli_main env other malloc smapi argV =
     (if init_rc env \<noteq> 0 then Init_Failed (init_rc env)
      else if level_rc env \<noteq> 0 then No_Level
      else
        let smapiLevel = smapi_level env; help = Help_Shown (displayHelpInfo smapiLevel) in
        if length argV < 2 \<or> argV ! 1 = c_literal ''--help'' \<or> argV ! 1 = c_literal ''-h'' then help
        else if unsupported_api smapiLevel (argV ! 1) then Unsupported_Name
        else
          (case header_loop [] argV False of
             None \<Rightarrow> help
           | Some (argV, addRc) \<Rightarrow>
               (case timeout_loop [] argV (-1) of
                  None \<Rightarrow> help
                | Some (argV, tmo) \<Rightarrow>
                    (case find_command other (argV ! 1) of
                       None \<Rightarrow> Unsupported_Name
                     | Some cmd \<Rightarrow> Command (cmd \<lparr>addRcHeader = addRc, errnoSaved = 0\<rparr> malloc (smapi tmo) argV)))))"

text \<open>The exit code.\<close>

fun main_exit :: "main_result \<Rightarrow> int res" where
  "main_exit (Init_Failed rc) = Ok rc"
| "main_exit No_Level = Ok 1"
| "main_exit (Help_Shown names) = Ok 0"
| "main_exit Unsupported_Name = Ok 1"
| "main_exit (Command r) = res_bind r (\<lambda>(out, rc). Ok rc)"

section \<open>Asynchronous operations\<close>

definition SLEEP_ASYNCH_DEFAULT :: int where "SLEEP_ASYNCH_DEFAULT = 15"
definition SLEEP_ASYNCH_RETRIES :: int where "SLEEP_ASYNCH_RETRIES = 12"

text \<open>
  \<open>replies k\<close> is the result of the \<open>k\<close>-th call of \<open>smQuery_Asychronous_Operation_DM\<close>: its code and the
  return and reason codes of SMAPI.  \<open>secs\<close> counts the seconds of sleep.
\<close>

fun async_loop ::
  "nat \<Rightarrow> cli_context \<Rightarrow> (nat \<Rightarrow> int \<times> int \<times> int) \<Rightarrow> int \<Rightarrow> string \<Rightarrow> byte list \<Rightarrow> nat \<Rightarrow> int \<Rightarrow> int \<Rightarrow> cli_output list
     \<Rightarrow> (cli_output list \<times> int \<times> int) res" where
  "async_loop 0 ctx replies operationId apiName statusString k loopCount secs out = NoFuel"
| "async_loop (Suc f) ctx replies operationId apiName statusString k loopCount secs out =
     (let (rc, returnCode, reasonCode) = replies k in
      if rc \<noteq> 0 \<or> returnCode \<noteq> 0 \<or> reasonCode \<noteq> 0 then
        if rc \<noteq> 0 then Ok (out @ printAndLogProcessingErrors ctx rc statusString False, rc, secs)
        else if returnCode = 0 \<and> (reasonCode = 0 \<or> reasonCode = 100) then
          (let (ls, rc) = printAndLogSmapiReturnCodeReasonCodeDescription ctx apiName 0 0 statusString
           in Ok (out @ ls, rc, secs))
        else if returnCode = 0 \<and> reasonCode = 104 then
          if loopCount - 1 \<noteq> 0 then
            async_loop f ctx replies operationId apiName statusString (Suc k) (loopCount - 1) (secs + SLEEP_ASYNCH_DEFAULT) out
          else
            (let (ls, rc) = printAndLogSmapiReturnCodeReasonCodeDescription ctx apiName 592 operationId statusString
             in Ok (out @ ls, rc, secs))
        else
          (let (ls, rc) = printAndLogSmapiReturnCodeReasonCodeDescription ctx ''Query_Asychronous_Operation_DM''
             returnCode reasonCode statusString
           in Ok (out @ ls, rc, secs))
      else
        (let (ls, rc) = printAndLogSmapiReturnCodeReasonCodeDescription ctx ''Query_Asychronous_Operation_DM''
           returnCode reasonCode statusString
         in async_loop f ctx replies operationId apiName statusString (Suc k) loopCount secs (out @ ls)))"

definition queryAsyncOperation ::
  "nat \<Rightarrow> cli_context \<Rightarrow> (nat \<Rightarrow> int \<times> int \<times> int) \<Rightarrow> int \<Rightarrow> string \<Rightarrow> byte list \<Rightarrow> (cli_output list \<times> int \<times> int) res" where
  "queryAsyncOperation f ctx replies operationId apiName statusString =
     async_loop f ctx replies operationId apiName statusString 0 SLEEP_ASYNCH_RETRIES 0 []"

section \<open>The keywords are taken out\<close>

lemma header_loop_none: "RETURN_CODE_HEADER_KEYWORD \<notin> set as \<Longrightarrow> header_loop pre as addRc = Some (pre @ as, addRc)"
  by (induction as arbitrary: pre) auto

lemma header_loop_once:
  assumes "RETURN_CODE_HEADER_KEYWORD \<notin> set (xs @ ys)" and "2 \<le> length pre + length xs"
  shows "header_loop pre (xs @ RETURN_CODE_HEADER_KEYWORD # ys) addRc = Some (pre @ xs @ ys, True)"
  using assms
proof (induction xs arbitrary: pre)
  case Nil
  then show ?case by (cases ys) (auto simp: header_loop_none)
qed auto

lemma timeout_loop_none: "SOCKET_TIMEOUT_KEYWORD \<notin> set as \<Longrightarrow> timeout_loop pre as v = Some (pre @ as, v)"
  by (induction pre as v rule: timeout_loop.induct) auto

text \<open>The environment of a run that gets past the initialisation.\<close>

definition main_ready :: "main_env \<Rightarrow> bool" where
  "main_ready env \<longleftrightarrow> init_rc env = 0 \<and> level_rc env = 0"

definition plain_words :: "byte list list \<Rightarrow> bool" where
  "plain_words ws \<longleftrightarrow> RETURN_CODE_HEADER_KEYWORD \<notin> set ws \<and> SOCKET_TIMEOUT_KEYWORD \<notin> set ws"

lemma main_with_header:
  assumes "main_ready env" and "plain_words (xs @ ys)" and "2 \<le> length xs"
    and "xs ! 1 \<notin> {c_literal ''--help'', c_literal ''-h''}" and "\<not> unsupported_api (smapi_level env) (xs ! 1)"
  shows "smcli_main env other malloc smapi (xs @ RETURN_CODE_HEADER_KEYWORD # ys) =
    (case find_command other (xs ! 1) of
       None \<Rightarrow> Unsupported_Name
     | Some cmd \<Rightarrow> Command (cmd \<lparr>addRcHeader = True, errnoSaved = 0\<rparr> malloc (smapi (-1)) (xs @ ys)))"
proof -
  have "header_loop [] (xs @ RETURN_CODE_HEADER_KEYWORD # ys) False = Some (xs @ ys, True)"
    using header_loop_once[of xs ys "[]" False] assms(2,3) by (simp add: plain_words_def)
  moreover have "timeout_loop [] (xs @ ys) (-1) = Some (xs @ ys, -1)"
    using timeout_loop_none[of "xs @ ys" "[]"] assms(2) by (simp add: plain_words_def)
  moreover have "(xs @ zs) ! 1 = xs ! 1" for zs using assms(3) by (simp add: nth_append)
  moreover have "xs \<noteq> []" using assms(3) by auto
  ultimately show ?thesis using assms(1,3-5) by (simp add: smcli_main_def main_ready_def Let_def)
qed

text \<open>
  C28: \<^verbatim>\<open>--addRCheader\<close> once behind the name of the API, at any place of the command line, only sets the flag
  for the header line: the command that belongs to the name runs on the other arguments, unchanged
  and in their order.
\<close>

theorem main_header_transparent:
  assumes "main_ready env" and "plain_words (xs @ ys)" and "2 \<le> length xs"
    and "xs ! 1 \<notin> {c_literal ''--help'', c_literal ''-h''}" and "\<not> unsupported_api (smapi_level env) (xs ! 1)"
    and "find_command other (xs ! 1) = Some cmd"
  shows "smcli_main env other malloc smapi (xs @ RETURN_CODE_HEADER_KEYWORD # ys) =
    Command (cmd \<lparr>addRcHeader = True, errnoSaved = 0\<rparr> malloc (smapi (-1)) (xs @ ys))"
  using main_with_header[OF assms(1-5)] assms(6) by simp

definition sample_main_env :: main_env where
  "sample_main_env = \<lparr>init_rc = 0, level_rc = 0, smapi_level = 640\<rparr>"

lemma find_authorization_add: "find_command other (c_literal ''Authorization_List_Add'') = Some authorizationListAdd"
  by (simp add: find_command_def dispatch_def dispatch_1_def is_name_def c_literal_def)

theorem main_header_transparent_witness:
  "smcli_main sample_main_env (\<lambda>_ _ _ _ _. Fault) (\<lambda>_. True) (\<lambda>_ _. (0, 0, 0))
     ([c_literal ''smcli'', c_literal ''Authorization_List_Add''] @ RETURN_CODE_HEADER_KEYWORD # [c_literal ''-h'']) =
   Command (authorizationListAdd \<lparr>addRcHeader = True, errnoSaved = 0\<rparr> (\<lambda>_. True) ((\<lambda>_ _. (0, 0, 0)) (-1 :: int))
     ([c_literal ''smcli'', c_literal ''Authorization_List_Add''] @ [c_literal ''-h'']))"
proof (rule main_header_transparent)
  show "find_command (\<lambda>_ _ _ _ _. Fault) ([c_literal ''smcli'', c_literal ''Authorization_List_Add''] ! 1) = Some authorizationListAdd"
    by (simp add: find_authorization_add)
qed (simp_all add: main_ready_def sample_main_env_def plain_words_def RETURN_CODE_HEADER_KEYWORD_def
    SOCKET_TIMEOUT_KEYWORD_def c_literal_def unsupported_api_def)

section \<open>Levels\<close>

text \<open>
  The level is checked before the keywords are taken out, on the first argument: with
  \<^verbatim>\<open>--addRCheader\<close> in front of it, a name that the level does not support is run.
\<close>

lemma level_check_bypassed:
  assumes "main_ready env" and "smapi_level env < 611"
  shows "smcli_main env other malloc smapi [prog, c_literal ''Event_Stream_Add''] = Unsupported_Name"
    and "prog \<noteq> RETURN_CODE_HEADER_KEYWORD \<Longrightarrow> prog \<noteq> SOCKET_TIMEOUT_KEYWORD \<Longrightarrow>
      smcli_main env other malloc smapi [prog, RETURN_CODE_HEADER_KEYWORD, c_literal ''Event_Stream_Add''] =
      Command (other ''eventStreamAdd'' \<lparr>addRcHeader = True, errnoSaved = 0\<rparr> malloc (smapi (-1))
        [prog, c_literal ''Event_Stream_Add''])"
proof -
  have u: "unsupported_api (smapi_level env) (c_literal ''Event_Stream_Add'')"
    using assms(2) by (simp add: unsupported_api_def APIS_611_def is_name_def)
  have n: "\<not> unsupported_api (smapi_level env) RETURN_CODE_HEADER_KEYWORD"
    by (simp add: unsupported_api_def APIS_611_def APIS_620_def APIS_630_def is_name_def RETURN_CODE_HEADER_KEYWORD_def c_literal_def)
  have f: "find_command other (c_literal ''Event_Stream_Add'') = Some (other ''eventStreamAdd'')"
    by (simp add: find_command_def dispatch_def dispatch_1_def is_name_def c_literal_def)
  have d: "c_literal ''Event_Stream_Add'' \<notin> {c_literal ''--help'', c_literal ''-h'', SOCKET_TIMEOUT_KEYWORD}"
    "RETURN_CODE_HEADER_KEYWORD \<notin> {c_literal ''--help'', c_literal ''-h''}"
    by (simp_all add: c_literal_def RETURN_CODE_HEADER_KEYWORD_def SOCKET_TIMEOUT_KEYWORD_def)
  show "smcli_main env other malloc smapi [prog, c_literal ''Event_Stream_Add''] = Unsupported_Name"
    using u d(1) assms(1) by (simp add: smcli_main_def main_ready_def Let_def)
  show "smcli_main env other malloc smapi [prog, RETURN_CODE_HEADER_KEYWORD, c_literal ''Event_Stream_Add''] =
      Command (other ''eventStreamAdd'' \<lparr>addRcHeader = True, errnoSaved = 0\<rparr> malloc (smapi (-1))
        [prog, c_literal ''Event_Stream_Add''])"
    if "prog \<noteq> RETURN_CODE_HEADER_KEYWORD" "prog \<noteq> SOCKET_TIMEOUT_KEYWORD"
    using n f d that assms(1) by (simp add: smcli_main_def main_ready_def Let_def)
qed

text \<open>The help lists \<open>Image_Disk_Query\<close> for every level, below 611 it is rejected.\<close>

lemma help_lists_unsupported:
  assumes "0 \<le> level" and "level < 611"
  shows "''Image_Disk_Query'' \<in> set (displayHelpInfo level)" and "unsupported_api level (c_literal ''Image_Disk_Query'')"
proof -
  have "(0, ''Image_Disk_Query'') \<in> set help_names_1" by (simp add: help_names_1_def)
  then show "''Image_Disk_Query'' \<in> set (displayHelpInfo level)" using assms(1) by (force simp: displayHelpInfo_def)
  show "unsupported_api level (c_literal ''Image_Disk_Query'')"
    using assms(2) by (simp add: unsupported_api_def APIS_611_def is_name_def)
qed

section \<open>Waiting for an asynchronous operation\<close>

lemma async_loop_forever:
  "\<forall>k. replies k = (0, 0, 0) \<Longrightarrow> async_loop f ctx replies operationId apiName statusString k loopCount secs out = NoFuel"
  by (induction f arbitrary: k out) (auto simp: Let_def split: prod.splits)

lemma async_loop_ends:
  "\<forall>k. replies k \<noteq> (0, 0, 0) \<Longrightarrow> 0 < loopCount \<Longrightarrow> nat loopCount \<le> f \<Longrightarrow>
   \<exists>out' rc secs'. async_loop f ctx replies operationId apiName statusString k loopCount secs out = Ok (out', rc, secs') \<and>
     secs' \<le> secs + (loopCount - 1) * SLEEP_ASYNCH_DEFAULT"
proof (induction f arbitrary: k loopCount secs out)
  case (Suc f)
  obtain rc returnCode reasonCode where a: "replies k = (rc, returnCode, reasonCode)" by (cases "replies k") auto
  then have nz: "rc \<noteq> 0 \<or> returnCode \<noteq> 0 \<or> reasonCode \<noteq> 0" using Suc.prems(1) by (metis prod.inject)
  have b: "secs \<le> secs + (loopCount - 1) * SLEEP_ASYNCH_DEFAULT" using Suc.prems(2) by (simp add: SLEEP_ASYNCH_DEFAULT_def)
  show ?case
  proof (cases "rc = 0 \<and> returnCode = 0 \<and> reasonCode = 104 \<and> loopCount \<noteq> 1")
    case True
    have "\<exists>out' rc secs'. async_loop f ctx replies operationId apiName statusString (Suc k) (loopCount - 1)
        (secs + SLEEP_ASYNCH_DEFAULT) out = Ok (out', rc, secs') \<and>
        secs' \<le> secs + SLEEP_ASYNCH_DEFAULT + (loopCount - 1 - 1) * SLEEP_ASYNCH_DEFAULT"
      using Suc.prems True by (intro Suc.IH) auto
    then show ?thesis using True by (simp add: a algebra_simps)
  next
    case False
    then show ?thesis using a nz b by (auto simp: Let_def split: prod.splits)
  qed
qed simp

text \<open>
  C30: \<open>queryAsyncOperation\<close> ends after at most twelve queries and 165 seconds of sleep when no query is
  answered with return code and reason code 0; but these codes, which stand for a completed
  operation, are the ones on which it asks again at once: as long as they come it never ends.
\<close>

theorem async_query_ends_or_spins:
  "((\<forall>k. replies k \<noteq> (0, 0, 0)) \<longrightarrow>
     (\<exists>out rc secs. queryAsyncOperation 12 ctx replies operationId apiName statusString = Ok (out, rc, secs) \<and> secs \<le> 165)) \<and>
   ((\<forall>k. replies k = (0, 0, 0)) \<longrightarrow> queryAsyncOperation f ctx replies operationId apiName statusString = NoFuel)"
  using async_loop_ends[of replies 12 12 ctx operationId apiName statusString 0 0 "[]"]
  by (simp add: queryAsyncOperation_def SLEEP_ASYNCH_RETRIES_def SLEEP_ASYNCH_DEFAULT_def async_loop_forever)

theorem async_query_ends_or_spins_witness:
  "queryAsyncOperation 1000 sample_context (\<lambda>_. (0, 0, 0)) 7 ''Image_Delete_DM'' [] = NoFuel \<and>
   (\<exists>out rc secs. queryAsyncOperation 12 sample_context (\<lambda>_. (0, 0, 104)) 7 ''Image_Delete_DM'' [] = Ok (out, rc, secs) \<and> secs \<le> 165)"
  using async_query_ends_or_spins[of "\<lambda>_. (0, 0, 0)" sample_context 7 "''Image_Delete_DM''" "[]" 1000]
    async_query_ends_or_spins[of "\<lambda>_. (0, 0, 104)" sample_context 7 "''Image_Delete_DM''" "[]"] by simp

end
