(* ===== verification/Smcli_Keys.thy ===== *)
theory Smcli_Keys
  imports Smcli Smapi_List_Wire
begin

text \<open>
  The commands of \<^verbatim>\<open>smcli\<close> with \<open>keyword=value\<close> options: the option loop with its array of
  keywords, the report with the error buffer that SMAPI may send, and the specification of such
  a command.  A store behind the end of \<open>entryArray\<close> is \<open>Fault\<close>.
\<close>

section \<open>The option loop\<close>

text \<open>
  The limit that the loop tests, the elements of \<open>entryArray\<close>, whether an error prints the header,
  and the code it returns.
\<close>

record key_rule =
  key_limit :: nat
  key_array :: nat
  key_header :: bool
  key_error :: int

definition key_error_header :: "cli_context \<Rightarrow> key_rule \<Rightarrow> cli_output list" where
  "key_error_header ctx rule = (if key_header rule then DOES_CALLER_WANT_RC_HEADER_SYNTAX_ERROR ctx else [])"

type_synonym key_options = "(char \<Rightarrow> byte list option) \<times> byte list list"

fun key_loop ::
  "cli_context \<Rightarrow> string \<Rightarrow> string \<Rightarrow> string \<Rightarrow> key_rule \<Rightarrow> getopt_value list \<Rightarrow> (char \<Rightarrow> byte list option) \<Rightarrow> byte list list
     \<Rightarrow> ((cli_output list \<times> int) + key_options) res" where
  "key_loop ctx api required cases rule [] opt entryArray = Ok (Inr (opt, entryArray))"
| "key_loop ctx api required cases rule (NonOpt # vs) opt entryArray =
     key_loop ctx api required cases rule vs opt entryArray"
| "key_loop ctx api required cases rule (Bad c # vs) opt entryArray = Ok (Inl (option_error ctx required c, 1))"
| "key_loop ctx api required cases rule (Opt c a # vs) opt entryArray =
     (if c = CHR ''h'' then Ok (Inl (DOES_CALLER_WANT_RC_HEADER_ALLOK ctx @ [Help api], 0))
      else if c = CHR ''?'' then Ok (Inl (option_error ctx required (CHR ''?''), 1))
      else if c = CHR ''k'' then
        (case a of
           None \<Rightarrow> Ok (Inl (key_error_header ctx rule, key_error rule))
         | Some k \<Rightarrow>
             if length entryArray < key_limit rule then
               (if length entryArray < key_array rule
                then key_loop ctx api required cases rule vs opt (entryArray @ [k]) else Fault)
             else Ok (Inl (key_error_header ctx rule @ [Too_Many_Keys], key_error rule)))
      else if c \<in> set cases then key_loop ctx api required cases rule vs (opt(c := a)) entryArray
      else Ok (Inl (DOES_CALLER_WANT_RC_HEADER_SYNTAX_ERROR ctx, 1)))"

definition with_keys ::
  "cli_context \<Rightarrow> string \<Rightarrow> string \<Rightarrow> string \<Rightarrow> string \<Rightarrow> key_rule \<Rightarrow> byte list list \<Rightarrow> (key_options \<Rightarrow> cli_result) \<Rightarrow> cli_result" where
  "with_keys ctx api optstring required cases rule argV k =
     res_bind (key_loop ctx api required cases rule (getopt_values optstring argV) (\<lambda>_. None) [])
       (\<lambda>r. case r of Inl out \<Rightarrow> Ok out | Inr opts \<Rightarrow> k opts)"

section \<open>The report\<close>

text \<open>The answer of SMAPI: the code of the exchange, the return and reason codes, and the error buffer.\<close>

record smapi_reply =
  reply_rc :: int
  reply_returnCode :: int
  reply_reasonCode :: int
  reply_errorLength :: int
  reply_errorBuffer :: "byte list"

type_synonym key_command =
  "cli_context \<Rightarrow> (int \<Rightarrow> bool) \<Rightarrow> (smapi_request \<times> int option \<Rightarrow> smapi_reply) \<Rightarrow> byte list list \<Rightarrow> cli_result"

text \<open>A string that starts inside a block of memory and has its NUL there.\<close>

definition read_string :: "byte list \<Rightarrow> int \<Rightarrow> byte list res" where
  "read_string buf i =
     (if 0 \<le> i \<and> 0 \<in> set (drop (nat i) buf) then Ok (c_string (drop (nat i) buf)) else Fault)"

text \<open>
  The loop over the strings of the error buffer: the step is the length of the first string each
  time.  The strings are also appended to \<open>line\<close>, which has \<open>errorLength + 1024\<close> bytes; \<open>used\<close> are
  those before its NUL.
\<close>

definition error_step :: "byte list \<Rightarrow> int" where
  "error_step errorBuffer = strlen errorBuffer + 1"

lemma error_step_pos: "0 < error_step errorBuffer"
  using strlen_nonneg [of errorBuffer] by (simp add: error_step_def)

function error_details :: "int \<Rightarrow> byte list \<Rightarrow> int \<Rightarrow> int \<Rightarrow> cli_output list res" where
  "error_details errorLength errorBuffer i used =
     (if i < errorLength then
        res_bind (read_string errorBuffer i) (\<lambda>s.
          if used + strlen s + 2 \<le> errorLength + 1024 then
            res_bind (error_details errorLength errorBuffer (i + error_step errorBuffer) (used + strlen s + 1))
              (\<lambda>out. Ok (Detail s # out))
          else Fault)
      else Ok [])"
  by pat_completeness auto

termination
  by (relation "measure (\<lambda>(n, buf, i, used). nat (n - i))") (use error_step_pos in auto)

declare error_details.simps [simp del]

definition printAndLogSmapiReturnCodeReasonCodeDescriptionAndErrorBuffer ::
  "cli_context \<Rightarrow> string \<Rightarrow> int \<Rightarrow> int \<Rightarrow> int \<Rightarrow> int \<Rightarrow> byte list \<Rightarrow> byte list \<Rightarrow> cli_result" where
  "printAndLogSmapiReturnCodeReasonCodeDescriptionAndErrorBuffer ctx class rc returnCode reasonCode
      errorLength errorBuffer statusString =
     (let (out, smcliRC) = printAndLogSmapiReturnCodeReasonCodeDescription ctx class returnCode reasonCode statusString in
      if rc = 0 \<and> errorLength > 0 then
        res_bind (error_details errorLength errorBuffer 0 28) (\<lambda>details. Ok (out @ Details # details, smcliRC))
      else Ok (out, smcliRC))"

text \<open>The call and its report, without and with the error buffer.\<close>

definition report_reply ::
  "cli_context \<Rightarrow> (smapi_request \<times> int option \<Rightarrow> smapi_reply) \<Rightarrow> byte list
     \<Rightarrow> (smapi_reply \<Rightarrow> cli_result) \<Rightarrow> (smapi_request \<times> int option) res \<Rightarrow> cli_result" where
  "report_reply ctx smapi strMsg report request =
     (case request of
        Ok req \<Rightarrow>
          (let reply = smapi req; rc = reply_rc reply in
           if rc \<noteq> 0 then Ok (Sent (fst req) # printAndLogProcessingErrors ctx rc strMsg False, rc)
           else res_bind (report reply) (\<lambda>(out, rc). Ok (Sent (fst req) # out, rc)))
      | Err rc \<Rightarrow> Ok (printAndLogProcessingErrors ctx rc strMsg False, rc)
      | Fault \<Rightarrow> Fault
      | NoFuel \<Rightarrow> NoFuel)"

definition report_codes :: "cli_context \<Rightarrow> string \<Rightarrow> byte list \<Rightarrow> smapi_reply \<Rightarrow> cli_result" where
  "report_codes ctx class strMsg reply =
     Ok (printAndLogSmapiReturnCodeReasonCodeDescription ctx class (reply_returnCode reply) (reply_reasonCode reply) strMsg)"

definition report_error_buffer :: "cli_context \<Rightarrow> string \<Rightarrow> byte list \<Rightarrow> smapi_reply \<Rightarrow> cli_result" where
  "report_error_buffer ctx class strMsg reply =
     printAndLogSmapiReturnCodeReasonCodeDescriptionAndErrorBuffer ctx class 0
       (reply_returnCode reply) (reply_reasonCode reply) (reply_errorLength reply) (reply_errorBuffer reply) strMsg"

section \<open>The strings of the error buffer\<close>

lemma read_string_keys:
  "read_string (keys_bytes (ks @ k # ks')) (keys_size ks) = Ok (c_string k)"
proof -
  have "drop (nat (keys_size ks)) (keys_bytes (ks @ k # ks')) = c_string k @ 0 # keys_bytes ks'"
    by (simp add: keys_size_def keys_bytes_def)
  moreover have "c_string (c_string k @ 0 # bs) = c_string k" for bs
    by (simp add: c_string_def takeWhile_append)
  ultimately show ?thesis by (simp add: read_string_def keys_size_def)
qed

lemma error_details_loop:
  assumes "list_all (\<lambda>k. strlen k = strlen (hd (ks @ ks'))) (ks @ ks')"
    and "errorBuffer = keys_bytes (ks @ ks')" and "errorLength = keys_size (ks @ ks')"
    and "used \<le> 28 + keys_size ks"
  shows "error_details errorLength errorBuffer (keys_size ks) used = Ok (map (Detail \<circ> c_string) ks')"
  using assms
proof (induction ks' arbitrary: ks used)
  case Nil
  then show ?case by (simp add: error_details.simps)
next
  case (Cons k ks')
  have step: "error_step errorBuffer = strlen k + 1"
  proof -
    obtain h rest where h: "ks @ k # ks' = h # rest" by (cases "ks @ k # ks'") auto
    have "strlen k = strlen h" using Cons.prems(1) by (simp add: h [symmetric]) (simp add: h)
    moreover have "strlen errorBuffer = strlen h"
      unfolding Cons.prems(2) h by (simp add: strlen_eq c_string_def takeWhile_append)
    ultimately show ?thesis by (simp add: error_step_def)
  qed
  have total: "errorLength = keys_size ks + (strlen k + 1) + keys_size ks'"
    using Cons.prems(3) by (simp add: keys_size_def keys_bytes_def strlen_eq)
  have pos: "0 \<le> keys_size ks'" by (simp add: keys_size_def)
  have next_size: "keys_size (ks @ [k]) = keys_size ks + (strlen k + 1)"
    by (simp add: keys_size_def keys_bytes_def strlen_eq)
  have len: "strlen (c_string k) = strlen k" by (simp add: strlen_eq c_string_def)
  have "error_details errorLength errorBuffer (keys_size (ks @ [k])) (used + strlen k + 1) =
      Ok (map (Detail \<circ> c_string) ks')"
    by (rule Cons.IH) (use Cons.prems next_size in simp_all)
  moreover have "keys_size ks < errorLength" unfolding total using pos strlen_nonneg [of k] by linarith
  ultimately show ?case
    using Cons.prems(2,4) total pos step
    by (subst error_details.simps) (simp add: read_string_keys next_size len add_ac)
qed


section \<open>Specification of a command with keywords\<close>

text \<open>
  A command takes \<^verbatim>\<open>-T\<close> once and \<^verbatim>\<open>-k\<close> for each keyword.  Its specification has the API, the rule of
  its loop, the keywords it needs, its texts and its report.
\<close>

record key_spec =
  kspec_api :: list_api
  kspec_rule :: key_rule
  kspec_min :: nat
  kspec_help :: string
  kspec_status :: "byte list \<Rightarrow> byte list list \<Rightarrow> byte list"
  kspec_report :: "cli_context \<Rightarrow> byte list \<Rightarrow> smapi_reply \<Rightarrow> cli_result"

definition key_args :: "byte list \<Rightarrow> byte list list \<Rightarrow> list_arg list" where
  "key_args target ks = [Plain (Str []), Plain (Buf 0 []), Plain (Str target), Keys (int (length ks)) ks]"

definition key_run :: "key_spec \<Rightarrow> key_command" where
  "key_run spec ctx malloc smapi argV =
     with_keys ctx (kspec_help spec) ''T:k:h?'' ''Tk'' ''T'' (kspec_rule spec) argV (\<lambda>(opt, ks).
       if opt (CHR ''T'') = None \<or> int (length ks) < int (kspec_min spec) then missing_options ctx
       else
         (let target = the (opt (CHR ''T'')); strMsg = kspec_status spec target ks in
          report_reply ctx smapi strMsg (kspec_report spec ctx strMsg)
            (lapi_build (kspec_api spec) malloc (key_args target ks))))"

text \<open>The keywords that the builder of an API has room for.\<close>

fun kind_room :: "list_kind \<Rightarrow> int option" where
  "kind_room (LKeys r) = r" | "kind_room (LCountedKeys r) = r" | "kind_room k = None"

definition api_room :: "list_api \<Rightarrow> int option" where
  "api_room api = kind_room (last (lapi_kinds api))"

definition kspec_ok :: "key_spec \<Rightarrow> bool" where
  "kspec_ok spec \<longleftrightarrow> lapi_ok (kspec_api spec) \<and>
     (\<exists>k. lapi_kinds (kspec_api spec) = [LPlain KStr, LPlain KBuf, LPlain KStr, k] \<and>
        (\<exists>r. k = LKeys r \<or> k = LCountedKeys r)) \<and>
     (case api_room (kspec_api spec) of None \<Rightarrow> True | Some r \<Rightarrow> 0 \<le> r \<and> lapi_overflows (kspec_api spec) r)"

lemma kspec_okI:
  assumes "kspec_api spec = api" and "lapi_ok api"
    and "lapi_kinds api = [LPlain KStr, LPlain KBuf, LPlain KStr, k]" and "k = LKeys r \<or> k = LCountedKeys r"
    and "\<And>n. r = Some n \<Longrightarrow> 0 \<le> n \<and> lapi_overflows api n"
  shows "kspec_ok spec"
  using assms by (auto simp: kspec_ok_def api_room_def split: option.split)

named_theorems key_rules \<open>commands with keywords that follow their specification\<close>

lemma with_keys_cong:
  "(\<And>opts. k opts = k' opts) \<Longrightarrow>
   with_keys ctx api optstring required cases rule argV k = with_keys ctx api optstring required cases rule argV k'"
  by (rule arg_cong [where f = "with_keys ctx api optstring required cases rule argV"]) (rule ext)

section \<open>The loop on a command line\<close>

definition key_values :: "(char \<times> byte list) list \<Rightarrow> byte list list" where
  "key_values pairs = map snd (filter (\<lambda>(c, s). c = CHR ''k'') pairs)"

definition other_options :: "(char \<times> byte list) list \<Rightarrow> (char \<times> byte list) list" where
  "other_options pairs = filter (\<lambda>(c, s). c \<noteq> CHR ''k'') pairs"

lemma key_values_simps [simp]:
  "key_values [] = []" "key_values ((c, s) # pairs) = (if c = CHR ''k'' then s # key_values pairs else key_values pairs)"
  "other_options [] = []"
  "other_options ((c, s) # pairs) = (if c = CHR ''k'' then other_options pairs else (c, s) # other_options pairs)"
  by (simp_all add: key_values_def other_options_def)

definition option_values :: "(char \<times> byte list) list \<Rightarrow> getopt_value list" where
  "option_values pairs = map (\<lambda>(c, s). Opt c (Some s)) pairs"

lemma key_loop_pairs:
  assumes "fst ` set pairs \<subseteq> {CHR ''T'', CHR ''k''}"
    and "length ks + length (key_values pairs) \<le> min (key_limit rule) (key_array rule)"
  shows "key_loop ctx api required ''T'' rule (option_values pairs) opt ks =
    Ok (Inr (opt ++ option_env (other_options pairs), ks @ key_values pairs))"
  using assms
  by (induction pairs arbitrary: opt ks) (auto simp: option_values_def option_env_def)

lemma key_loop_too_many:
  assumes "fst ` set pairs \<subseteq> {CHR ''T'', CHR ''k''}" and "length ks \<le> min (key_limit rule) (key_array rule)"
    and "min (key_limit rule) (key_array rule) < length ks + length (key_values pairs)"
  shows "key_loop ctx api required ''T'' rule (option_values pairs) opt ks =
    (if key_array rule < key_limit rule then Fault
     else Ok (Inl (key_error_header ctx rule @ [Too_Many_Keys], key_error rule)))"
  using assms
  by (induction pairs arbitrary: opt ks) (auto simp: option_values_def)

section \<open>Properties of the report\<close>

text \<open>
  The error buffer in the report.  When SMAPI sends strings that all have the length of the first
  one, the report prints exactly these strings in their order behind the codes, and the line for the
  trace does not overflow.
\<close>

theorem error_buffer_printed:
  assumes "ks \<noteq> []" and "list_all (\<lambda>k. strlen k = strlen (hd ks)) ks"
    and "printAndLogSmapiReturnCodeReasonCodeDescription ctx class returnCode reasonCode statusString = (out, rc)"
  shows "printAndLogSmapiReturnCodeReasonCodeDescriptionAndErrorBuffer ctx class 0 returnCode reasonCode
      (keys_size ks) (keys_bytes ks) statusString = Ok (out @ Details # map (Detail \<circ> c_string) ks, rc)"
proof -
  have "0 < keys_size ks" using assms(1) by (cases ks) (simp_all add: keys_size_def)
  moreover have "error_details (keys_size ks) (keys_bytes ks) 0 28 = Ok (map (Detail \<circ> c_string) ks)"
    using error_details_loop [of "[]" ks "keys_bytes ks" "keys_size ks" 28] assms(2) by simp
  ultimately show ?thesis
    using assms(3) by (simp add: printAndLogSmapiReturnCodeReasonCodeDescriptionAndErrorBuffer_def)
qed

theorem error_buffer_printed_witness:
  "printAndLogSmapiReturnCodeReasonCodeDescriptionAndErrorBuffer \<lparr>addRcHeader = False, errnoSaved = 0\<rparr> ''X'' 0 8 34
     (keys_size [c_literal ''ab'', c_literal ''cd'']) (keys_bytes [c_literal ''ab'', c_literal ''cd'']) [] =
   Ok ([Started_or_Failed False 8 34, Description ''X'' 8 34 False] @
     Details # map (Detail \<circ> c_string) [c_literal ''ab'', c_literal ''cd''], 1)"
  by (rule error_buffer_printed)
    (simp_all add: strlen_def c_literal_def printAndLogSmapiReturnCodeReasonCodeDescription_def)

text \<open>
  With a second string that is longer than the first one the report also prints the ends of it, since the
  step of the loop is the length of the first string; behind an empty first string the ends of a string
  of sixty bytes overflow the line.
\<close>

lemma error_buffer_misaligned:
  "error_details 8 (keys_bytes [c_literal ''ab'', c_literal ''cdef'']) 0 28 =
    Ok [Detail (c_literal ''ab''), Detail (c_literal ''cdef''), Detail (c_literal ''f'')]"
  by code_simp

lemma error_buffer_line_overflow: "error_details 62 (keys_bytes [[], replicate 60 120]) 0 28 = Fault"
  by code_simp

end
