(* ===== verification/Smcli_Keywords.thy ===== *)
theory Smcli_Keywords
  imports Smcli_Keys
begin

text \<open>
  The commands of \<^verbatim>\<open>smcli\<close> that take \<open>keyword=value\<close> options, send one request and report its codes, from
  \<^verbatim>\<open>src/smcliNetwork.c\<close>, \<^verbatim>\<open>src/smcliPage.c\<close>, \<^verbatim>\<open>src/smcliSystem.c\<close>, \<^verbatim>\<open>src/smcliVMRelocate.c\<close> and \<^verbatim>\<open>src/smcliVirtual.c\<close>, their
  specifications and the proofs that each command follows its own.
\<close>

section \<open>Commands\<close>

definition networkIpInterfaceCreate :: key_command where
  "networkIpInterfaceCreate ctx malloc smapi argV =
     with_keys ctx ''Network_IP_Interface_Create'' ''T:k:h?'' ''Tk'' ''T''
       \<lparr>key_limit = 15, key_array = 15, key_header = True, key_error = INVALID_DATA\<rparr> argV (\<lambda>(opt, entryArray).
       (let targetIdentifier = opt (CHR ''T''); entryCount = int (length entryArray) in
       (if targetIdentifier = None \<or> entryCount < 6 then missing_options ctx
       else deref targetIdentifier (\<lambda>targetIdentifier.
         (let strMsg = snprintf 250 [c_literal ''Creating  Network IP Interface... ''] in
         report_reply ctx smapi strMsg (report_error_buffer ctx ''Network_IP_Interface_Create'' strMsg)
           (smNetwork_IP_Interface_Create malloc [] 0 [] targetIdentifier entryCount entryArray))))))"

definition networkIpInterfaceModify :: key_command where
  "networkIpInterfaceModify ctx malloc smapi argV =
     with_keys ctx ''Network_IP_Interface_Modify'' ''T:k:h?'' ''Tk'' ''T''
       \<lparr>key_limit = 4, key_array = 4, key_header = True, key_error = INVALID_DATA\<rparr> argV (\<lambda>(opt, entryArray).
       (let targetIdentifier = opt (CHR ''T''); entryCount = int (length entryArray) in
       (if targetIdentifier = None \<or> entryCount < 3 then missing_options ctx
       else deref targetIdentifier (\<lambda>targetIdentifier.
         (let strMsg = snprintf 250 [c_literal ''Modifying  Network IP Interface... ''] in
         report_reply ctx smapi strMsg (report_error_buffer ctx ''Network_IP_Interface_Modify'' strMsg)
           (smNetwork_IP_Interface_Modify malloc [] 0 [] targetIdentifier entryCount entryArray))))))"

definition networkIpInterfaceRemove :: key_command where
  "networkIpInterfaceRemove ctx malloc smapi argV =
     with_keys ctx ''Network_IP_Interface_Remove'' ''T:k:h?'' ''Tk'' ''T''
       \<lparr>key_limit = 4, key_array = 4, key_header = True, key_error = INVALID_DATA\<rparr> argV (\<lambda>(opt, entryArray).
       (let targetIdentifier = opt (CHR ''T''); entryCount = int (length entryArray) in
       (if targetIdentifier = None \<or> entryCount < 3 then missing_options ctx
       else deref targetIdentifier (\<lambda>targetIdentifier.
         (let strMsg = snprintf 250 [c_literal ''Removing  Network IP Interface... ''] in
         report_reply ctx smapi strMsg (report_error_buffer ctx ''Network_IP_Interface_Remove'' strMsg)
           (smNetwork_IP_Interface_Remove malloc [] 0 [] targetIdentifier entryCount entryArray))))))"

definition pageorSpoolVolumeAdd :: key_command where
  "pageorSpoolVolumeAdd ctx malloc smapi argV =
     with_keys ctx ''Page_or_Spool_Volume_Add'' ''T:k:h?'' ''Tk'' ''T''
       \<lparr>key_limit = 8, key_array = 8, key_header = True, key_error = INVALID_DATA\<rparr> argV (\<lambda>(opt, entryArray).
       (let targetIdentifier = opt (CHR ''T''); entryCount = int (length entryArray) in
       (if targetIdentifier = None \<or> entryCount < 3 then missing_options ctx
       else deref targetIdentifier (\<lambda>targetIdentifier.
         (let strMsg = snprintf 250 [c_literal ''Adding a full volume page or spool disk to the system... ''] in
         report_reply ctx smapi strMsg (report_codes ctx ''Page_or_Spool_Volume_Add'' strMsg)
           (smPage_or_Spool_Volume_Add malloc [] 0 [] targetIdentifier entryCount entryArray))))))"

definition systemDiskAccessibility :: key_command where
  "systemDiskAccessibility ctx malloc smapi argV =
     with_keys ctx ''System_Disk_Accessibility'' ''T:k:h?'' ''Tk'' ''T''
       \<lparr>key_limit = 1, key_array = 1, key_header = True, key_error = INVALID_DATA\<rparr> argV (\<lambda>(opt, entryArray).
       (let targetIdentifier = opt (CHR ''T''); entryCount = int (length entryArray) in
       (if targetIdentifier = None \<or> entryCount < 1 then missing_options ctx
       else deref targetIdentifier (\<lambda>targetIdentifier.
         (let strMsg = snprintf 250 [c_literal ''Verifying that '', entryArray ! 0, c_literal '' is available to be attached... ''] in
         report_reply ctx smapi strMsg (report_codes ctx ''System_Disk_Accessibility'' strMsg)
           (smSystem_Disk_Accessibility malloc [] 0 [] targetIdentifier entryCount entryArray))))))"

definition systemDiskAdd :: key_command where
  "systemDiskAdd ctx malloc smapi argV =
     with_keys ctx ''System_Disk_Add'' ''T:k:h?'' ''Tk'' ''T''
       \<lparr>key_limit = 1, key_array = 1, key_header = True, key_error = INVALID_DATA\<rparr> argV (\<lambda>(opt, entryArray).
       (let targetIdentifier = opt (CHR ''T''); entryCount = int (length entryArray) in
       (if targetIdentifier = None \<or> entryCount < 1 then missing_options ctx
       else deref targetIdentifier (\<lambda>targetIdentifier.
         (let strMsg = snprintf 250 [c_literal ''Adding ECKD disk to z/VM system... ''] in
         report_reply ctx smapi strMsg (report_codes ctx ''System_Disk_Add'' strMsg)
           (smSystem_Disk_Add malloc [] 0 [] targetIdentifier entryCount entryArray))))))"

definition systemSCSIDiskAdd :: key_command where
  "systemSCSIDiskAdd ctx malloc smapi argV =
     with_keys ctx ''System_SCSI_Disk_Add'' ''T:k:h?'' ''Tk'' ''T''
       \<lparr>key_limit = 4, key_array = 4, key_header = False, key_error = INVALID_DATA\<rparr> argV (\<lambda>(opt, entryArray).
       (let targetIdentifier = opt (CHR ''T''); entryCount = int (length entryArray) in
       (if targetIdentifier = None \<or> entryCount < 1 then missing_options ctx
       else deref targetIdentifier (\<lambda>targetIdentifier.
         (let strMsg = snprintf 250 [c_literal ''Adding a real SCSI disk to z/VM system... ''] in
         report_reply ctx smapi strMsg (report_codes ctx ''System_SCSI_Disk_Add'' strMsg)
           (smSystem_SCSI_Disk_Add malloc [] 0 [] targetIdentifier entryCount entryArray))))))"

definition systemSCSIDiskDelete :: key_command where
  "systemSCSIDiskDelete ctx malloc smapi argV =
     with_keys ctx ''System_SCSI_Disk_Delete'' ''T:k:h?'' ''Tk'' ''T''
       \<lparr>key_limit = 3, key_array = 2, key_header = False, key_error = INVALID_DATA\<rparr> argV (\<lambda>(opt, entryArray).
       (let targetIdentifier = opt (CHR ''T''); entryCount = int (length entryArray) in
       (if targetIdentifier = None \<or> entryCount < 1 then missing_options ctx
       else deref targetIdentifier (\<lambda>targetIdentifier.
         (let strMsg = snprintf 250 [c_literal ''Deleting a real SCSI disk... ''] in
         report_reply ctx smapi strMsg (report_codes ctx ''System_SCSI_Disk_Delete'' strMsg)
           (smSystem_SCSI_Disk_Delete malloc [] 0 [] targetIdentifier entryCount entryArray))))))"

definition systemShutdown :: key_command where
  "systemShutdown ctx malloc smapi argV =
     with_keys ctx ''System_Shutdown'' ''T:k:h?'' ''Tk'' ''T''
       \<lparr>key_limit = 5, key_array = 5, key_header = False, key_error = INVALID_DATA\<rparr> argV (\<lambda>(opt, entryArray).
       (let targetIdentifier = opt (CHR ''T''); entryCount = int (length entryArray) in
       (if targetIdentifier = None then missing_options ctx
       else deref targetIdentifier (\<lambda>targetIdentifier.
         (let strMsg = [] in
         report_reply ctx smapi strMsg (report_error_buffer ctx ''System_Config_SySystem_Shutdownntax_Check'' strMsg)
           (smSystem_Shutdown malloc [] 0 [] targetIdentifier entryCount entryArray))))))"

definition vmRelocateModify :: key_command where
  "vmRelocateModify ctx malloc smapi argV =
     with_keys ctx ''VMRELOCATE_Modify'' ''T:k:h?'' ''Tk'' ''T''
       \<lparr>key_limit = 2, key_array = 2, key_header = False, key_error = INVALID_DATA\<rparr> argV (\<lambda>(opt, entryArray).
       (let targetIdentifier = opt (CHR ''T''); entryCount = int (length entryArray) in
       (if targetIdentifier = None then missing_options ctx
       else deref targetIdentifier (\<lambda>targetIdentifier.
         (let strMsg = snprintf 250 [c_literal ''Modifying the time limits associated with a relocation for '', targetIdentifier, c_literal ''... ''] in
         report_reply ctx smapi strMsg (report_error_buffer ctx ''VMRELOCATE_Modify'' strMsg)
           (smVMRELOCATE_Modify malloc [] 0 [] targetIdentifier entryCount entryArray))))))"

definition virtualNetworkAdapterConnectVswitchExtended :: key_command where
  "virtualNetworkAdapterConnectVswitchExtended ctx malloc smapi argV =
     with_keys ctx ''Virtual_Network_Adapter_Connect_Vswitch_Extended'' ''T:k:h?'' ''Tk'' ''T''
       \<lparr>key_limit = 3, key_array = 3, key_header = True, key_error = INVALID_DATA\<rparr> argV (\<lambda>(opt, entryArray).
       (let targetIdentifier = opt (CHR ''T''); entryCount = int (length entryArray) in
       (if targetIdentifier = None \<or> entryCount < 2 then missing_options ctx
       else deref targetIdentifier (\<lambda>targetIdentifier.
         (let strMsg = snprintf 250 [c_literal ''Connecting virtual network adapter to an existing virtual switch... ''] in
         report_reply ctx smapi strMsg (report_codes ctx ''Virtual_Network_Adapter_Connect_Vswitch_Extended'' strMsg)
           (smVirtual_Network_Adapter_Connect_Vswitch_Extended malloc [] 0 [] targetIdentifier entryCount entryArray))))))"

definition virtualNetworkAdapterCreateExtended :: key_command where
  "virtualNetworkAdapterCreateExtended ctx malloc smapi argV =
     with_keys ctx ''Virtual_Network_Adapter_Create_Extended'' ''T:k:h?'' ''Tk'' ''T''
       \<lparr>key_limit = 4, key_array = 4, key_header = True, key_error = INVALID_DATA\<rparr> argV (\<lambda>(opt, entryArray).
       (let targetIdentifier = opt (CHR ''T''); entryCount = int (length entryArray) in
       (if targetIdentifier = None \<or> entryCount < 1 then missing_options ctx
       else deref targetIdentifier (\<lambda>targetIdentifier.
         (let strMsg = snprintf 250 [c_literal ''Adding virtual NIC to '', targetIdentifier, c_literal ''... ''] in
         report_reply ctx smapi strMsg (report_codes ctx ''Virtual_Network_Adapter_Create_Extended'' strMsg)
           (smVirtual_Network_Adapter_Create_Extended malloc [] 0 [] targetIdentifier entryCount entryArray))))))"

definition virtualNetworkAdapterCreateExtendedDM :: key_command where
  "virtualNetworkAdapterCreateExtendedDM ctx malloc smapi argV =
     with_keys ctx ''Virtual_Network_Adapter_Create_Extended_DM'' ''T:k:h?'' ''Tk'' ''T''
       \<lparr>key_limit = 5, key_array = 5, key_header = True, key_error = INVALID_DATA\<rparr> argV (\<lambda>(opt, entryArray).
       (let targetIdentifier = opt (CHR ''T''); entryCount = int (length entryArray) in
       (if targetIdentifier = None \<or> entryCount < 1 then missing_options ctx
       else deref targetIdentifier (\<lambda>targetIdentifier.
         (let strMsg = snprintf 250 [c_literal ''Adding virtual NIC to '', targetIdentifier, [39] @ c_literal ''s directory entry... ''] in
         report_reply ctx smapi strMsg (report_codes ctx ''Virtual_Network_Adapter_Create_Extended_DM'' strMsg)
           (smVirtual_Network_Adapter_Create_Extended_DM malloc [] 0 [] targetIdentifier entryCount entryArray))))))"

definition virtualNetworkVswitchCreateExtended :: key_command where
  "virtualNetworkVswitchCreateExtended ctx malloc smapi argV =
     with_keys ctx ''Virtual_Network_Vswitch_Create_Extended'' ''T:k:h?'' ''Tk'' ''T''
       \<lparr>key_limit = 16, key_array = 16, key_header = True, key_error = INVALID_DATA\<rparr> argV (\<lambda>(opt, entryArray).
       (let targetIdentifier = opt (CHR ''T''); entryCount = int (length entryArray) in
       (if targetIdentifier = None \<or> entryCount < 1 then missing_options ctx
       else deref targetIdentifier (\<lambda>targetIdentifier.
         (let strMsg = snprintf 250 [c_literal ''Creating virtual switch... ''] in
         report_reply ctx smapi strMsg (report_codes ctx ''Virtual_Network_Vswitch_Create_Extended'' strMsg)
           (smVirtual_Network_Vswitch_Create_Extended malloc [] 0 [] targetIdentifier entryCount entryArray))))))"

definition virtualNetworkVswitchDeleteExtended :: key_command where
  "virtualNetworkVswitchDeleteExtended ctx malloc smapi argV =
     with_keys ctx ''Virtual_Network_Vswitch_Delete_Extended'' ''T:k:h?'' ''Tk'' ''T''
       \<lparr>key_limit = 2, key_array = 2, key_header = True, key_error = INVALID_DATA\<rparr> argV (\<lambda>(opt, entryArray).
       (let targetIdentifier = opt (CHR ''T''); entryCount = int (length entryArray) in
       (if targetIdentifier = None \<or> entryCount < 1 then missing_options ctx
       else deref targetIdentifier (\<lambda>targetIdentifier.
         (let strMsg = snprintf 250 [c_literal ''Deleting virtual switch... ''] in
         report_reply ctx smapi strMsg (report_codes ctx ''Virtual_Network_Vswitch_Delete_Extended'' strMsg)
           (smVirtual_Network_Vswitch_Delete_Extended malloc [] 0 [] targetIdentifier entryCount entryArray))))))"

definition virtualNetworkVswitchSetExtended :: key_command where
  "virtualNetworkVswitchSetExtended ctx malloc smapi argV =
     with_keys ctx ''Virtual_Network_Vswitch_Set_Extended'' ''T:k:h?'' ''Tk'' ''T''
       \<lparr>key_limit = 33, key_array = 33, key_header = True, key_error = INVALID_DATA\<rparr> argV (\<lambda>(opt, entryArray).
       (let targetIdentifier = opt (CHR ''T''); entryCount = int (length entryArray) in
       (if targetIdentifier = None \<or> entryCount < 1 then missing_options ctx
       else deref targetIdentifier (\<lambda>targetIdentifier.
         (let strMsg = snprintf 250 [c_literal ''Changing virtual switch configuration ... ''] in
         report_reply ctx smapi strMsg (report_codes ctx ''Virtual_Network_Vswitch_Set_Extended'' strMsg)
           (smVirtual_Network_Vswitch_Set_Extended malloc [] 0 [] targetIdentifier entryCount entryArray))))))"

section \<open>Specifications\<close>

definition networkIpInterfaceCreate_spec :: key_spec where
  "networkIpInterfaceCreate_spec =
     \<lparr>kspec_api = smNetwork_IP_Interface_Create_api,
      kspec_rule = \<lparr>key_limit = 15, key_array = 15, key_header = True, key_error = INVALID_DATA\<rparr>,
      kspec_min = 6, kspec_help = ''Network_IP_Interface_Create'',
      kspec_status = (\<lambda>targetIdentifier entryArray. snprintf 250 [c_literal ''Creating  Network IP Interface... '']),
      kspec_report = (\<lambda>ctx. report_error_buffer ctx ''Network_IP_Interface_Create'')\<rparr>"

definition networkIpInterfaceModify_spec :: key_spec where
  "networkIpInterfaceModify_spec =
     \<lparr>kspec_api = smNetwork_IP_Interface_Modify_api,
      kspec_rule = \<lparr>key_limit = 4, key_array = 4, key_header = True, key_error = INVALID_DATA\<rparr>,
      kspec_min = 3, kspec_help = ''Network_IP_Interface_Modify'',
      kspec_status = (\<lambda>targetIdentifier entryArray. snprintf 250 [c_literal ''Modifying  Network IP Interface... '']),
      kspec_report = (\<lambda>ctx. report_error_buffer ctx ''Network_IP_Interface_Modify'')\<rparr>"

definition networkIpInterfaceRemove_spec :: key_spec where
  "networkIpInterfaceRemove_spec =
     \<lparr>kspec_api = smNetwork_IP_Interface_Remove_api,
      kspec_rule = \<lparr>key_limit = 4, key_array = 4, key_header = True, key_error = INVALID_DATA\<rparr>,
      kspec_min = 3, kspec_help = ''Network_IP_Interface_Remove'',
      kspec_status = (\<lambda>targetIdentifier entryArray. snprintf 250 [c_literal ''Removing  Network IP Interface... '']),
      kspec_report = (\<lambda>ctx. report_error_buffer ctx ''Network_IP_Interface_Remove'')\<rparr>"

definition pageorSpoolVolumeAdd_spec :: key_spec where
  "pageorSpoolVolumeAdd_spec =
     \<lparr>kspec_api = smPage_or_Spool_Volume_Add_api,
      kspec_rule = \<lparr>key_limit = 8, key_array = 8, key_header = True, key_error = INVALID_DATA\<rparr>,
      kspec_min = 3, kspec_help = ''Page_or_Spool_Volume_Add'',
      kspec_status = (\<lambda>targetIdentifier entryArray. snprintf 250 [c_literal ''Adding a full volume page or spool disk to the system... '']),
      kspec_report = (\<lambda>ctx. report_codes ctx ''Page_or_Spool_Volume_Add'')\<rparr>"

definition systemDiskAccessibility_spec :: key_spec where
  "systemDiskAccessibility_spec =
     \<lparr>kspec_api = smSystem_Disk_Accessibility_api,
      kspec_rule = \<lparr>key_limit = 1, key_array = 1, key_header = True, key_error = INVALID_DATA\<rparr>,
      kspec_min = 1, kspec_help = ''System_Disk_Accessibility'',
      kspec_status = (\<lambda>targetIdentifier entryArray. snprintf 250 [c_literal ''Verifying that '', entryArray ! 0, c_literal '' is available to be attached... '']),
      kspec_report = (\<lambda>ctx. report_codes ctx ''System_Disk_Accessibility'')\<rparr>"

definition systemDiskAdd_spec :: key_spec where
  "systemDiskAdd_spec =
     \<lparr>kspec_api = smSystem_Disk_Add_api,
      kspec_rule = \<lparr>key_limit = 1, key_array = 1, key_header = True, key_error = INVALID_DATA\<rparr>,
      kspec_min = 1, kspec_help = ''System_Disk_Add'',
      kspec_status = (\<lambda>targetIdentifier entryArray. snprintf 250 [c_literal ''Adding ECKD disk to z/VM system... '']),
      kspec_report = (\<lambda>ctx. report_codes ctx ''System_Disk_Add'')\<rparr>"

definition systemSCSIDiskAdd_spec :: key_spec where
  "systemSCSIDiskAdd_spec =
     \<lparr>kspec_api = smSystem_SCSI_Disk_Add_api,
      kspec_rule = \<lparr>key_limit = 4, key_array = 4, key_header = False, key_error = INVALID_DATA\<rparr>,
      kspec_min = 1, kspec_help = ''System_SCSI_Disk_Add'',
      kspec_status = (\<lambda>targetIdentifier entryArray. snprintf 250 [c_literal ''Adding a real SCSI disk to z/VM system... '']),
      kspec_report = (\<lambda>ctx. report_codes ctx ''System_SCSI_Disk_Add'')\<rparr>"

definition systemSCSIDiskDelete_spec :: key_spec where
  "systemSCSIDiskDelete_spec =
     \<lparr>kspec_api = smSystem_SCSI_Disk_Delete_api,
      kspec_rule = \<lparr>key_limit = 3, key_array = 2, key_header = False, key_error = INVALID_DATA\<rparr>,
      kspec_min = 1, kspec_help = ''System_SCSI_Disk_Delete'',
      kspec_status = (\<lambda>targetIdentifier entryArray. snprintf 250 [c_literal ''Deleting a real SCSI disk... '']),
      kspec_report = (\<lambda>ctx. report_codes ctx ''System_SCSI_Disk_Delete'')\<rparr>"

definition systemShutdown_spec :: key_spec where
  "systemShutdown_spec =
     \<lparr>kspec_api = smSystem_Shutdown_api,
      kspec_rule = \<lparr>key_limit = 5, key_array = 5, key_header = False, key_error = INVALID_DATA\<rparr>,
      kspec_min = 0, kspec_help = ''System_Shutdown'',
      kspec_status = (\<lambda>targetIdentifier entryArray. []),
      kspec_report = (\<lambda>ctx. report_error_buffer ctx ''System_Config_SySystem_Shutdownntax_Check'')\<rparr>"

definition vmRelocateModify_spec :: key_spec where
  "vmRelocateModify_spec =
     \<lparr>kspec_api = smVMRELOCATE_Modify_api,
      kspec_rule = \<lparr>key_limit = 2, key_array = 2, key_header = False, key_error = INVALID_DATA\<rparr>,
      kspec_min = 0, kspec_help = ''VMRELOCATE_Modify'',
      kspec_status = (\<lambda>targetIdentifier entryArray. snprintf 250 [c_literal ''Modifying the time limits associated with a relocation for '', targetIdentifier, c_literal ''... '']),
      kspec_report = (\<lambda>ctx. report_error_buffer ctx ''VMRELOCATE_Modify'')\<rparr>"

definition virtualNetworkAdapterConnectVswitchExtended_spec :: key_spec where
  "virtualNetworkAdapterConnectVswitchExtended_spec =
     \<lparr>kspec_api = smVirtual_Network_Adapter_Connect_Vswitch_Extended_api,
      kspec_rule = \<lparr>key_limit = 3, key_array = 3, key_header = True, key_error = INVALID_DATA\<rparr>,
      kspec_min = 2, kspec_help = ''Virtual_Network_Adapter_Connect_Vswitch_Extended'',
      kspec_status = (\<lambda>targetIdentifier entryArray. snprintf 250 [c_literal ''Connecting virtual network adapter to an existing virtual switch... '']),
      kspec_report = (\<lambda>ctx. report_codes ctx ''Virtual_Network_Adapter_Connect_Vswitch_Extended'')\<rparr>"

definition virtualNetworkAdapterCreateExtended_spec :: key_spec where
  "virtualNetworkAdapterCreateExtended_spec =
     \<lparr>kspec_api = smVirtual_Network_Adapter_Create_Extended_api,
      kspec_rule = \<lparr>key_limit = 4, key_array = 4, key_header = True, key_error = INVALID_DATA\<rparr>,
      kspec_min = 1, kspec_help = ''Virtual_Network_Adapter_Create_Extended'',
      kspec_status = (\<lambda>targetIdentifier entryArray. snprintf 250 [c_literal ''Adding virtual NIC to '', targetIdentifier, c_literal ''... '']),
      kspec_report = (\<lambda>ctx. report_codes ctx ''Virtual_Network_Adapter_Create_Extended'')\<rparr>"

definition virtualNetworkAdapterCreateExtendedDM_spec :: key_spec where
  "virtualNetworkAdapterCreateExtendedDM_spec =
     \<lparr>kspec_api = smVirtual_Network_Adapter_Create_Extended_DM_api,
      kspec_rule = \<lparr>key_limit = 5, key_array = 5, key_header = True, key_error = INVALID_DATA\<rparr>,
      kspec_min = 1, kspec_help = ''Virtual_Network_Adapter_Create_Extended_DM'',
      kspec_status = (\<lambda>targetIdentifier entryArray. snprintf 250 [c_literal ''Adding virtual NIC to '', targetIdentifier, [39] @ c_literal ''s directory entry... '']),
      kspec_report = (\<lambda>ctx. report_codes ctx ''Virtual_Network_Adapter_Create_Extended_DM'')\<rparr>"

definition virtualNetworkVswitchCreateExtended_spec :: key_spec where
  "virtualNetworkVswitchCreateExtended_spec =
     \<lparr>kspec_api = smVirtual_Network_Vswitch_Create_Extended_api,
      kspec_rule = \<lparr>key_limit = 16, key_array = 16, key_header = True, key_error = INVALID_DATA\<rparr>,
      kspec_min = 1, kspec_help = ''Virtual_Network_Vswitch_Create_Extended'',
      kspec_status = (\<lambda>targetIdentifier entryArray. snprintf 250 [c_literal ''Creating virtual switch... '']),
      kspec_report = (\<lambda>ctx. report_codes ctx ''Virtual_Network_Vswitch_Create_Extended'')\<rparr>"

definition virtualNetworkVswitchDeleteExtended_spec :: key_spec where
  "virtualNetworkVswitchDeleteExtended_spec =
     \<lparr>kspec_api = smVirtual_Network_Vswitch_Delete_Extended_api,
      kspec_rule = \<lparr>key_limit = 2, key_array = 2, key_header = True, key_error = INVALID_DATA\<rparr>,
      kspec_min = 1, kspec_help = ''Virtual_Network_Vswitch_Delete_Extended'',
      kspec_status = (\<lambda>targetIdentifier entryArray. snprintf 250 [c_literal ''Deleting virtual switch... '']),
      kspec_report = (\<lambda>ctx. report_codes ctx ''Virtual_Network_Vswitch_Delete_Extended'')\<rparr>"

definition virtualNetworkVswitchSetExtended_spec :: key_spec where
  "virtualNetworkVswitchSetExtended_spec =
     \<lparr>kspec_api = smVirtual_Network_Vswitch_Set_Extended_api,
      kspec_rule = \<lparr>key_limit = 33, key_array = 33, key_header = True, key_error = INVALID_DATA\<rparr>,
      kspec_min = 1, kspec_help = ''Virtual_Network_Vswitch_Set_Extended'',
      kspec_status = (\<lambda>targetIdentifier entryArray. snprintf 250 [c_literal ''Changing virtual switch configuration ... '']),
      kspec_report = (\<lambda>ctx. report_codes ctx ''Virtual_Network_Vswitch_Set_Extended'')\<rparr>"

section \<open>The commands follow their specifications\<close>

lemmas key_unfold = key_run_def key_spec.select_convs list_api.select_convs

lemma networkIpInterfaceCreate_run [key_rules]: "networkIpInterfaceCreate = key_run networkIpInterfaceCreate_spec"
  by (intro ext, unfold networkIpInterfaceCreate_def networkIpInterfaceCreate_spec_def smNetwork_IP_Interface_Create_api_def Let_def key_unfold,
      rule with_keys_cong) (auto simp: Let_def key_args_def split: prod.split)

lemma networkIpInterfaceCreate_spec_ok [key_rules]: "kspec_ok networkIpInterfaceCreate_spec"
  by (rule kspec_okI [of _ smNetwork_IP_Interface_Create_api "LKeys None" "None"])
    (simp_all add: networkIpInterfaceCreate_spec_def lapi_rules overflow_rules, simp add: smNetwork_IP_Interface_Create_api_def)

lemma networkIpInterfaceModify_run [key_rules]: "networkIpInterfaceModify = key_run networkIpInterfaceModify_spec"
  by (intro ext, unfold networkIpInterfaceModify_def networkIpInterfaceModify_spec_def smNetwork_IP_Interface_Modify_api_def Let_def key_unfold,
      rule with_keys_cong) (auto simp: Let_def key_args_def split: prod.split)

lemma networkIpInterfaceModify_spec_ok [key_rules]: "kspec_ok networkIpInterfaceModify_spec"
  by (rule kspec_okI [of _ smNetwork_IP_Interface_Modify_api "LKeys None" "None"])
    (simp_all add: networkIpInterfaceModify_spec_def lapi_rules overflow_rules, simp add: smNetwork_IP_Interface_Modify_api_def)

lemma networkIpInterfaceRemove_run [key_rules]: "networkIpInterfaceRemove = key_run networkIpInterfaceRemove_spec"
  by (intro ext, unfold networkIpInterfaceRemove_def networkIpInterfaceRemove_spec_def smNetwork_IP_Interface_Remove_api_def Let_def key_unfold,
      rule with_keys_cong) (auto simp: Let_def key_args_def split: prod.split)

lemma networkIpInterfaceRemove_spec_ok [key_rules]: "kspec_ok networkIpInterfaceRemove_spec"
  by (rule kspec_okI [of _ smNetwork_IP_Interface_Remove_api "LKeys None" "None"])
    (simp_all add: networkIpInterfaceRemove_spec_def lapi_rules overflow_rules, simp add: smNetwork_IP_Interface_Remove_api_def)

lemma pageorSpoolVolumeAdd_run [key_rules]: "pageorSpoolVolumeAdd = key_run pageorSpoolVolumeAdd_spec"
  by (intro ext, unfold pageorSpoolVolumeAdd_def pageorSpoolVolumeAdd_spec_def smPage_or_Spool_Volume_Add_api_def Let_def key_unfold,
      rule with_keys_cong) (auto simp: Let_def key_args_def split: prod.split)

lemma pageorSpoolVolumeAdd_spec_ok [key_rules]: "kspec_ok pageorSpoolVolumeAdd_spec"
  by (rule kspec_okI [of _ smPage_or_Spool_Volume_Add_api "LKeys (Some 8)" "Some 8"])
    (simp_all add: pageorSpoolVolumeAdd_spec_def lapi_rules overflow_rules, simp add: smPage_or_Spool_Volume_Add_api_def)

lemma systemDiskAccessibility_run [key_rules]: "systemDiskAccessibility = key_run systemDiskAccessibility_spec"
  by (intro ext, unfold systemDiskAccessibility_def systemDiskAccessibility_spec_def smSystem_Disk_Accessibility_api_def Let_def key_unfold,
      rule with_keys_cong) (auto simp: Let_def key_args_def split: prod.split)

lemma systemDiskAccessibility_spec_ok [key_rules]: "kspec_ok systemDiskAccessibility_spec"
  by (rule kspec_okI [of _ smSystem_Disk_Accessibility_api "LKeys (Some 1)" "Some 1"])
    (simp_all add: systemDiskAccessibility_spec_def lapi_rules overflow_rules, simp add: smSystem_Disk_Accessibility_api_def)

lemma systemDiskAdd_run [key_rules]: "systemDiskAdd = key_run systemDiskAdd_spec"
  by (intro ext, unfold systemDiskAdd_def systemDiskAdd_spec_def smSystem_Disk_Add_api_def Let_def key_unfold,
      rule with_keys_cong) (auto simp: Let_def key_args_def split: prod.split)

lemma systemDiskAdd_spec_ok [key_rules]: "kspec_ok systemDiskAdd_spec"
  by (rule kspec_okI [of _ smSystem_Disk_Add_api "LKeys (Some 1)" "Some 1"])
    (simp_all add: systemDiskAdd_spec_def lapi_rules overflow_rules, simp add: smSystem_Disk_Add_api_def)

lemma systemSCSIDiskAdd_run [key_rules]: "systemSCSIDiskAdd = key_run systemSCSIDiskAdd_spec"
  by (intro ext, unfold systemSCSIDiskAdd_def systemSCSIDiskAdd_spec_def smSystem_SCSI_Disk_Add_api_def Let_def key_unfold,
      rule with_keys_cong) (auto simp: Let_def key_args_def split: prod.split)

lemma systemSCSIDiskAdd_spec_ok [key_rules]: "kspec_ok systemSCSIDiskAdd_spec"
  by (rule kspec_okI [of _ smSystem_SCSI_Disk_Add_api "LKeys (Some 4)" "Some 4"])
    (simp_all add: systemSCSIDiskAdd_spec_def lapi_rules overflow_rules, simp add: smSystem_SCSI_Disk_Add_api_def)

lemma systemSCSIDiskDelete_run [key_rules]: "systemSCSIDiskDelete = key_run systemSCSIDiskDelete_spec"
  by (intro ext, unfold systemSCSIDiskDelete_def systemSCSIDiskDelete_spec_def smSystem_SCSI_Disk_Delete_api_def Let_def key_unfold,
      rule with_keys_cong) (auto simp: Let_def key_args_def split: prod.split)

lemma systemSCSIDiskDelete_spec_ok [key_rules]: "kspec_ok systemSCSIDiskDelete_spec"
  by (rule kspec_okI [of _ smSystem_SCSI_Disk_Delete_api "LKeys (Some 2)" "Some 2"])
    (simp_all add: systemSCSIDiskDelete_spec_def lapi_rules overflow_rules, simp add: smSystem_SCSI_Disk_Delete_api_def)

lemma systemShutdown_run [key_rules]: "systemShutdown = key_run systemShutdown_spec"
  by (intro ext, unfold systemShutdown_def systemShutdown_spec_def smSystem_Shutdown_api_def Let_def key_unfold,
      rule with_keys_cong) (auto simp: Let_def key_args_def split: prod.split)

lemma systemShutdown_spec_ok [key_rules]: "kspec_ok systemShutdown_spec"
  by (rule kspec_okI [of _ smSystem_Shutdown_api "LKeys None" "None"])
    (simp_all add: systemShutdown_spec_def lapi_rules overflow_rules, simp add: smSystem_Shutdown_api_def)

lemma vmRelocateModify_run [key_rules]: "vmRelocateModify = key_run vmRelocateModify_spec"
  by (intro ext, unfold vmRelocateModify_def vmRelocateModify_spec_def smVMRELOCATE_Modify_api_def Let_def key_unfold,
      rule with_keys_cong) (auto simp: Let_def key_args_def split: prod.split)

lemma vmRelocateModify_spec_ok [key_rules]: "kspec_ok vmRelocateModify_spec"
  by (rule kspec_okI [of _ smVMRELOCATE_Modify_api "LKeys (Some 2)" "Some 2"])
    (simp_all add: vmRelocateModify_spec_def lapi_rules overflow_rules, simp add: smVMRELOCATE_Modify_api_def)

lemma virtualNetworkAdapterConnectVswitchExtended_run [key_rules]: "virtualNetworkAdapterConnectVswitchExtended = key_run virtualNetworkAdapterConnectVswitchExtended_spec"
  by (intro ext, unfold virtualNetworkAdapterConnectVswitchExtended_def virtualNetworkAdapterConnectVswitchExtended_spec_def smVirtual_Network_Adapter_Connect_Vswitch_Extended_api_def Let_def key_unfold,
      rule with_keys_cong) (auto simp: Let_def key_args_def split: prod.split)

lemma virtualNetworkAdapterConnectVswitchExtended_spec_ok [key_rules]: "kspec_ok virtualNetworkAdapterConnectVswitchExtended_spec"
  by (rule kspec_okI [of _ smVirtual_Network_Adapter_Connect_Vswitch_Extended_api "LKeys (Some 2)" "Some 2"])
    (simp_all add: virtualNetworkAdapterConnectVswitchExtended_spec_def lapi_rules overflow_rules, simp add: smVirtual_Network_Adapter_Connect_Vswitch_Extended_api_def)

lemma virtualNetworkAdapterCreateExtended_run [key_rules]: "virtualNetworkAdapterCreateExtended = key_run virtualNetworkAdapterCreateExtended_spec"
  by (intro ext, unfold virtualNetworkAdapterCreateExtended_def virtualNetworkAdapterCreateExtended_spec_def smVirtual_Network_Adapter_Create_Extended_api_def Let_def key_unfold,
      rule with_keys_cong) (auto simp: Let_def key_args_def split: prod.split)

lemma virtualNetworkAdapterCreateExtended_spec_ok [key_rules]: "kspec_ok virtualNetworkAdapterCreateExtended_spec"
  by (rule kspec_okI [of _ smVirtual_Network_Adapter_Create_Extended_api "LKeys (Some 3)" "Some 3"])
    (simp_all add: virtualNetworkAdapterCreateExtended_spec_def lapi_rules overflow_rules, simp add: smVirtual_Network_Adapter_Create_Extended_api_def)

lemma virtualNetworkAdapterCreateExtendedDM_run [key_rules]: "virtualNetworkAdapterCreateExtendedDM = key_run virtualNetworkAdapterCreateExtendedDM_spec"
  by (intro ext, unfold virtualNetworkAdapterCreateExtendedDM_def virtualNetworkAdapterCreateExtendedDM_spec_def smVirtual_Network_Adapter_Create_Extended_DM_api_def Let_def key_unfold,
      rule with_keys_cong) (auto simp: Let_def key_args_def split: prod.split)

lemma virtualNetworkAdapterCreateExtendedDM_spec_ok [key_rules]: "kspec_ok virtualNetworkAdapterCreateExtendedDM_spec"
  by (rule kspec_okI [of _ smVirtual_Network_Adapter_Create_Extended_DM_api "LCountedKeys (Some 4)" "Some 4"])
    (simp_all add: virtualNetworkAdapterCreateExtendedDM_spec_def lapi_rules overflow_rules, simp add: smVirtual_Network_Adapter_Create_Extended_DM_api_def)

lemma virtualNetworkVswitchCreateExtended_run [key_rules]: "virtualNetworkVswitchCreateExtended = key_run virtualNetworkVswitchCreateExtended_spec"
  by (intro ext, unfold virtualNetworkVswitchCreateExtended_def virtualNetworkVswitchCreateExtended_spec_def smVirtual_Network_Vswitch_Create_Extended_api_def Let_def key_unfold,
      rule with_keys_cong) (auto simp: Let_def key_args_def split: prod.split)

lemma virtualNetworkVswitchCreateExtended_spec_ok [key_rules]: "kspec_ok virtualNetworkVswitchCreateExtended_spec"
  by (rule kspec_okI [of _ smVirtual_Network_Vswitch_Create_Extended_api "LKeys (Some 15)" "Some 15"])
    (simp_all add: virtualNetworkVswitchCreateExtended_spec_def lapi_rules overflow_rules, simp add: smVirtual_Network_Vswitch_Create_Extended_api_def)

lemma virtualNetworkVswitchDeleteExtended_run [key_rules]: "virtualNetworkVswitchDeleteExtended = key_run virtualNetworkVswitchDeleteExtended_spec"
  by (intro ext, unfold virtualNetworkVswitchDeleteExtended_def virtualNetworkVswitchDeleteExtended_spec_def smVirtual_Network_Vswitch_Delete_Extended_api_def Let_def key_unfold,
      rule with_keys_cong) (auto simp: Let_def key_args_def split: prod.split)

lemma virtualNetworkVswitchDeleteExtended_spec_ok [key_rules]: "kspec_ok virtualNetworkVswitchDeleteExtended_spec"
  by (rule kspec_okI [of _ smVirtual_Network_Vswitch_Delete_Extended_api "LKeys (Some 1)" "Some 1"])
    (simp_all add: virtualNetworkVswitchDeleteExtended_spec_def lapi_rules overflow_rules, simp add: smVirtual_Network_Vswitch_Delete_Extended_api_def)

lemma virtualNetworkVswitchSetExtended_run [key_rules]: "virtualNetworkVswitchSetExtended = key_run virtualNetworkVswitchSetExtended_spec"
  by (intro ext, unfold virtualNetworkVswitchSetExtended_def virtualNetworkVswitchSetExtended_spec_def smVirtual_Network_Vswitch_Set_Extended_api_def Let_def key_unfold,
      rule with_keys_cong) (auto simp: Let_def key_args_def split: prod.split)

lemma virtualNetworkVswitchSetExtended_spec_ok [key_rules]: "kspec_ok virtualNetworkVswitchSetExtended_spec"
  by (rule kspec_okI [of _ smVirtual_Network_Vswitch_Set_Extended_api "LKeys (Some 32)" "Some 32"])
    (simp_all add: virtualNetworkVswitchSetExtended_spec_def lapi_rules overflow_rules, simp add: smVirtual_Network_Vswitch_Set_Extended_api_def)

definition key_commands :: "(key_command \<times> key_spec) list" where
  "key_commands =
     [(networkIpInterfaceCreate, networkIpInterfaceCreate_spec),
      (networkIpInterfaceModify, networkIpInterfaceModify_spec),
      (networkIpInterfaceRemove, networkIpInterfaceRemove_spec),
      (pageorSpoolVolumeAdd, pageorSpoolVolumeAdd_spec),
      (systemDiskAccessibility, systemDiskAccessibility_spec),
      (systemDiskAdd, systemDiskAdd_spec),
      (systemSCSIDiskAdd, systemSCSIDiskAdd_spec),
      (systemSCSIDiskDelete, systemSCSIDiskDelete_spec),
      (systemShutdown, systemShutdown_spec),
      (vmRelocateModify, vmRelocateModify_spec),
      (virtualNetworkAdapterConnectVswitchExtended, virtualNetworkAdapterConnectVswitchExtended_spec),
      (virtualNetworkAdapterCreateExtended, virtualNetworkAdapterCreateExtended_spec),
      (virtualNetworkAdapterCreateExtendedDM, virtualNetworkAdapterCreateExtendedDM_spec),
      (virtualNetworkVswitchCreateExtended, virtualNetworkVswitchCreateExtended_spec),
      (virtualNetworkVswitchDeleteExtended, virtualNetworkVswitchDeleteExtended_spec),
      (virtualNetworkVswitchSetExtended, virtualNetworkVswitchSetExtended_spec)]"

lemma key_commands_run: "(cmd, spec) \<in> set key_commands \<Longrightarrow> cmd = key_run spec \<and> kspec_ok spec"
  by (auto simp: key_commands_def key_rules)

lemmas spec_defs =
  networkIpInterfaceCreate_spec_def smNetwork_IP_Interface_Create_api_def
  networkIpInterfaceModify_spec_def smNetwork_IP_Interface_Modify_api_def
  networkIpInterfaceRemove_spec_def smNetwork_IP_Interface_Remove_api_def
  pageorSpoolVolumeAdd_spec_def smPage_or_Spool_Volume_Add_api_def
  systemDiskAccessibility_spec_def smSystem_Disk_Accessibility_api_def
  systemDiskAdd_spec_def smSystem_Disk_Add_api_def
  systemSCSIDiskAdd_spec_def smSystem_SCSI_Disk_Add_api_def
  systemSCSIDiskDelete_spec_def smSystem_SCSI_Disk_Delete_api_def
  systemShutdown_spec_def smSystem_Shutdown_api_def
  vmRelocateModify_spec_def smVMRELOCATE_Modify_api_def
  virtualNetworkAdapterConnectVswitchExtended_spec_def smVirtual_Network_Adapter_Connect_Vswitch_Extended_api_def
  virtualNetworkAdapterCreateExtended_spec_def smVirtual_Network_Adapter_Create_Extended_api_def
  virtualNetworkAdapterCreateExtendedDM_spec_def smVirtual_Network_Adapter_Create_Extended_DM_api_def
  virtualNetworkVswitchCreateExtended_spec_def smVirtual_Network_Vswitch_Create_Extended_api_def
  virtualNetworkVswitchDeleteExtended_spec_def smVirtual_Network_Vswitch_Delete_Extended_api_def
  virtualNetworkVswitchSetExtended_spec_def smVirtual_Network_Vswitch_Set_Extended_api_def

end
