(* ===== verification/Smcli_Key_Commands.thy ===== *)
theory Smcli_Key_Commands
  imports Smcli_Keywords
begin

text \<open>
  What the commands with keywords do with a command line: the request that reaches SMAPI, the
  errors for too many keywords, and the arrays that overflow.
\<close>

section \<open>A command that follows its specification\<close>

locale keyword_command =
  fixes cmd :: key_command and spec :: key_spec
  assumes runs: "cmd = key_run spec"
    and sound: "kspec_ok spec"
begin

abbreviation rule where "rule \<equiv> kspec_rule spec"
abbreviation api where "api \<equiv> kspec_api spec"

lemma parsed:
  assumes "fst ` set pairs \<subseteq> {CHR ''T'', CHR ''k''}" and "name = [] \<or> hd name \<noteq> 45"
  shows "cmd ctx malloc smapi (command_line prog name pairs) =
    res_bind (key_loop ctx (kspec_help spec) ''Tk'' ''T'' rule (option_values pairs) (\<lambda>_. None) [])
      (\<lambda>r. case r of Inl out \<Rightarrow> Ok out | Inr (opt, ks) \<Rightarrow>
        if opt (CHR ''T'') = None \<or> length ks < kspec_min spec then missing_options ctx
        else
          (let target = the (opt (CHR ''T'')); strMsg = kspec_status spec target ks in
           report_reply ctx smapi strMsg (kspec_report spec ctx strMsg) (lapi_build api malloc (key_args target ks))))"
proof -
  have "\<forall>c \<in> fst ` set pairs. opt_spec (stripped ''T:k:h?'') c = Some True \<and> c \<noteq> CHR ''-''"
    using assms(1) by (auto simp: stripped_def)
  from getopt_command_line [OF this assms(2)]
  have "getopt_values ''T:k:h?'' (command_line prog name pairs) = NonOpt # option_values pairs"
    by (simp add: option_values_def)
  then show ?thesis by (simp add: runs key_run_def with_keys_def)
qed

lemma collected:
  assumes "fst ` set pairs \<subseteq> {CHR ''T'', CHR ''k''}" "name = [] \<or> hd name \<noteq> 45"
    and "length (key_values pairs) \<le> min (key_limit rule) (key_array rule)"
    and "option_env (other_options pairs) (CHR ''T'') = Some target"
    and "kspec_min spec \<le> length (key_values pairs)"
  shows "cmd ctx malloc smapi (command_line prog name pairs) =
    (let strMsg = kspec_status spec target (key_values pairs) in
     report_reply ctx smapi strMsg (kspec_report spec ctx strMsg)
       (lapi_build api malloc (key_args target (key_values pairs))))"
  using key_loop_pairs [OF assms(1), where ks = "[]" and rule = rule] assms(3-5)
  by (simp add: parsed [OF assms(1,2)])

lemma too_many:
  assumes "fst ` set pairs \<subseteq> {CHR ''T'', CHR ''k''}" "name = [] \<or> hd name \<noteq> 45"
    and "min (key_limit rule) (key_array rule) < length (key_values pairs)"
  shows "cmd ctx malloc smapi (command_line prog name pairs) =
    (if key_array rule < key_limit rule then Fault
     else Ok (key_error_header ctx rule @ [Too_Many_Keys], key_error rule))"
  using key_loop_too_many [OF assms(1), where ks = "[]" and rule = rule] assms(3)
  by (simp add: parsed [OF assms(1,2)])

lemma args_ok:
  assumes "\<And>r. api_room api = Some r \<Longrightarrow> int (length ks) \<le> r"
    and "4 + fields_size (lapi_fields api (key_args target ks)) < 2 ^ 31"
  shows "lapi_args_ok api (key_args target ks)"
proof -
  obtain k r where k: "lapi_kinds api = [LPlain KStr, LPlain KBuf, LPlain KStr, k]" "k = LKeys r \<or> k = LCountedKeys r"
    using sound by (auto simp: kspec_ok_def)
  then have "has_room r (int (length ks))" using assms(1) by (cases r) (auto simp: api_room_def)
  then show ?thesis using k assms(2) by (auto simp: lapi_args_ok_def key_args_def buffer_arg_def)
qed

lemma sends:
  assumes "fst ` set pairs \<subseteq> {CHR ''T'', CHR ''k''}" "name = [] \<or> hd name \<noteq> 45"
    and "length (key_values pairs) \<le> min (key_limit rule) (key_array rule)"
    and "option_env (other_options pairs) (CHR ''T'') = Some target" "kspec_min spec \<le> length (key_values pairs)"
    and "\<And>r. api_room api = Some r \<Longrightarrow> int (length (key_values pairs)) \<le> r"
    and "4 + fields_size (lapi_fields api (key_args target (key_values pairs))) < 2 ^ 31"
    and "\<And>n. malloc n"
  shows "cmd ctx malloc smapi (command_line prog name pairs) =
    (let strMsg = kspec_status spec target (key_values pairs) in
     report_reply ctx smapi strMsg (kspec_report spec ctx strMsg)
       (Ok (wire_request (lapi_table api) (lapi_fields api (key_args target (key_values pairs))), lapi_error_buffer api)))"
  using collected [OF assms(1-5)] args_ok [OF assms(6,7)] sound assms(8)
  by (simp add: kspec_ok_def lapi_ok_def)

lemma overflows:
  assumes "fst ` set pairs \<subseteq> {CHR ''T'', CHR ''k''}" "name = [] \<or> hd name \<noteq> 45"
    and "length (key_values pairs) \<le> min (key_limit rule) (key_array rule)"
    and "option_env (other_options pairs) (CHR ''T'') = Some target" "kspec_min spec \<le> length (key_values pairs)"
    and "api_room api = Some r" "r < int (length (key_values pairs))" and "\<And>n. malloc n"
  shows "cmd ctx malloc smapi (command_line prog name pairs) = Fault"
proof -
  have "lapi_overflows api r" using sound assms(6) by (simp add: kspec_ok_def)
  then have "lapi_build api malloc (key_args target (key_values pairs)) = Fault"
    using assms(7,8) by (simp add: lapi_overflows_def key_args_def)
  then show ?thesis using collected [OF assms(1-5)] by (simp add: report_reply_def Let_def)
qed

end

lemma key_commands_followed: "(cmd, spec) \<in> set key_commands \<Longrightarrow> keyword_command cmd spec"
  using key_commands_run by (simp add: keyword_command_def)

interpretation vswitch_delete: keyword_command virtualNetworkVswitchDeleteExtended virtualNetworkVswitchDeleteExtended_spec
  by unfold_locales (rule virtualNetworkVswitchDeleteExtended_run, rule virtualNetworkVswitchDeleteExtended_spec_ok)

section \<open>Properties\<close>

text \<open>
  C24: from keyword options to the wire.  For each of the commands of \<open>key_commands\<close>, called with
  \<^verbatim>\<open>-T\<close> and as many \<^verbatim>\<open>-k\<close> as it needs, in any order and no more than its limit, its array and the array of
  its builder have room for, the request of its API with the target and the keywords in the order
  of the command line is sent.  A failed exchange gives its code as the exit code, and otherwise the
  command reports the codes of the answer.
\<close>

theorem keyword_command_sends:
  assumes "(cmd, spec) \<in> set key_commands" and "fst ` set pairs \<subseteq> {CHR ''T'', CHR ''k''}" and "name = [] \<or> hd name \<noteq> 45"
    and "length (key_values pairs) \<le> min (key_limit (kspec_rule spec)) (key_array (kspec_rule spec))"
    and "option_env (other_options pairs) (CHR ''T'') = Some target" and "kspec_min spec \<le> length (key_values pairs)"
    and "\<forall>r. api_room (kspec_api spec) = Some r \<longrightarrow> int (length (key_values pairs)) \<le> r"
    and "fs = lapi_fields (kspec_api spec) (key_args target (key_values pairs))" and "4 + fields_size fs < 2 ^ 31"
    and "\<forall>n. malloc n" and "req = wire_request (lapi_table (kspec_api spec)) fs"
    and "reply = smapi (req, lapi_error_buffer (kspec_api spec))"
  shows "\<exists>errors. cmd ctx malloc smapi (command_line prog name pairs) =
    (if reply_rc reply \<noteq> 0 then Ok (Sent req # errors, reply_rc reply)
     else res_bind (kspec_report spec ctx (kspec_status spec target (key_values pairs)) reply)
       (\<lambda>(out, rc). Ok (Sent req # out, rc)))"
  using keyword_command.sends [OF key_commands_followed [OF assms(1)] assms(2-6)] assms(7-12)
  by (simp add: report_reply_def Let_def)

text \<open>
  C25: a keyword too many.  For each of the commands of \<open>key_commands\<close> whose builder remembers \<open>r\<close>
  keywords in its local array, a command line with more than \<open>r\<close> keywords that the command accepts makes
  the builder write behind that array.  Seven of the commands accept such lines: their limit is the size of the
  array of the builder, whose first element holds the target.
\<close>

theorem keyword_command_overflows:
  assumes "(cmd, spec) \<in> set key_commands" and "fst ` set pairs \<subseteq> {CHR ''T'', CHR ''k''}" and "name = [] \<or> hd name \<noteq> 45"
    and "length (key_values pairs) \<le> min (key_limit (kspec_rule spec)) (key_array (kspec_rule spec))"
    and "option_env (other_options pairs) (CHR ''T'') = Some target" and "kspec_min spec \<le> length (key_values pairs)"
    and "api_room (kspec_api spec) = Some r" and "r < int (length (key_values pairs))" and "\<forall>n. malloc n"
  shows "cmd ctx malloc smapi (command_line prog name pairs) = Fault"
  using keyword_command.overflows [OF key_commands_followed [OF assms(1)] assms(2-8)] assms(9) by simp

text \<open>
  C26: more keywords than the command takes.  Whatever else is on the command line, the command
  prints the error, sends nothing and returns \<open>INVALID_DATA\<close>, unless its limit is larger than its array:
  then it writes behind the array.
\<close>

theorem keyword_command_rejects:
  assumes "(cmd, spec) \<in> set key_commands" and "fst ` set pairs \<subseteq> {CHR ''T'', CHR ''k''}" and "name = [] \<or> hd name \<noteq> 45"
    and "min (key_limit (kspec_rule spec)) (key_array (kspec_rule spec)) < length (key_values pairs)"
  shows "cmd ctx malloc smapi (command_line prog name pairs) =
    (if key_array (kspec_rule spec) < key_limit (kspec_rule spec) then Fault
     else Ok (key_error_header ctx (kspec_rule spec) @ [Too_Many_Keys], key_error (kspec_rule spec)))"
  by (rule keyword_command.too_many [OF key_commands_followed [OF assms(1)] assms(2-4)])

text \<open>The commands that accept more keywords than their builder, or their own array, has room for.\<close>

definition accepts_too_many :: "key_spec \<Rightarrow> bool" where
  "accepts_too_many spec \<longleftrightarrow>
     (case api_room (kspec_api spec) of None \<Rightarrow> False | Some r \<Rightarrow> r < int (key_limit (kspec_rule spec))) \<or>
     key_array (kspec_rule spec) < key_limit (kspec_rule spec)"

lemma unsafe_commands:
  "filter accepts_too_many (map snd key_commands) =
    [systemSCSIDiskDelete_spec, virtualNetworkAdapterConnectVswitchExtended_spec,
     virtualNetworkAdapterCreateExtended_spec, virtualNetworkAdapterCreateExtendedDM_spec,
     virtualNetworkVswitchCreateExtended_spec, virtualNetworkVswitchDeleteExtended_spec,
     virtualNetworkVswitchSetExtended_spec]"
  by (simp add: key_commands_def accepts_too_many_def api_room_def spec_defs)

section \<open>Instances\<close>

definition delete_pairs :: "byte list list \<Rightarrow> (char \<times> byte list) list" where
  "delete_pairs ks = (CHR ''T'', c_literal ''LNX1'') # map (Pair (CHR ''k'')) ks"

abbreviation delete_line where
  "delete_line ks \<equiv> command_line (c_literal ''smcli'') (c_literal ''Virtual_Network_Vswitch_Delete_Extended'') (delete_pairs ks)"

definition quiet_context :: cli_context where
  "quiet_context = \<lparr>addRcHeader = False, errnoSaved = 0\<rparr>"

definition refused_reply :: smapi_reply where
  "refused_reply = \<lparr>reply_rc = 0, reply_returnCode = 8, reply_reasonCode = 2, reply_errorLength = 0, reply_errorBuffer = []\<rparr>"

lemma delete_command:
  "(virtualNetworkVswitchDeleteExtended, virtualNetworkVswitchDeleteExtended_spec) \<in> set key_commands"
  by (simp add: key_commands_def)

lemma delete_pairs_simps [simp]:
  "key_values (delete_pairs ks) = ks" "option_env (other_options (delete_pairs ks)) = [CHR ''T'' \<mapsto> c_literal ''LNX1'']"
  "fst ` set (delete_pairs ks) \<subseteq> {CHR ''T'', CHR ''k''}"
proof -
  have "key_values (map (Pair (CHR ''k'')) ks) = ks" "other_options (map (Pair (CHR ''k'')) ks) = []"
    by (induction ks) simp_all
  then show "key_values (delete_pairs ks) = ks" "option_env (other_options (delete_pairs ks)) = [CHR ''T'' \<mapsto> c_literal ''LNX1'']"
    by (simp_all add: delete_pairs_def option_env_def)
  show "fst ` set (delete_pairs ks) \<subseteq> {CHR ''T'', CHR ''k''}" by (auto simp: delete_pairs_def)
qed

lemma delete_spec_simps [simp]:
  "kspec_rule virtualNetworkVswitchDeleteExtended_spec = \<lparr>key_limit = 2, key_array = 2, key_header = True, key_error = INVALID_DATA\<rparr>"
  "kspec_min virtualNetworkVswitchDeleteExtended_spec = 1"
  "api_room (kspec_api virtualNetworkVswitchDeleteExtended_spec) = Some 1"
  by (simp_all add: virtualNetworkVswitchDeleteExtended_spec_def api_room_def smVirtual_Network_Vswitch_Delete_Extended_api_def)

theorem keyword_command_sends_witness:
  "\<exists>req errors. virtualNetworkVswitchDeleteExtended quiet_context (\<lambda>_. True) (\<lambda>_. refused_reply)
      (delete_line [c_literal ''switch_name=SW1'']) =
    (if reply_rc refused_reply \<noteq> 0 then Ok (Sent req # errors, reply_rc refused_reply)
     else res_bind (kspec_report virtualNetworkVswitchDeleteExtended_spec quiet_context
         (kspec_status virtualNetworkVswitchDeleteExtended_spec (c_literal ''LNX1'')
           (key_values (delete_pairs [c_literal ''switch_name=SW1'']))) refused_reply)
       (\<lambda>(out, rc). Ok (Sent req # out, rc)))"
proof -
  let ?spec = virtualNetworkVswitchDeleteExtended_spec and ?ks = "[c_literal ''switch_name=SW1'']"
  let ?fs = "lapi_fields (kspec_api ?spec) (key_args (c_literal ''LNX1'') ?ks)"
  have small: "4 + fields_size ?fs < 2 ^ 31" by code_simp
  show ?thesis
    by (rule exI [where x = "wire_request (lapi_table (kspec_api ?spec)) ?fs"],
        rule keyword_command_sends [OF delete_command, where target = "c_literal ''LNX1''" and fs = ?fs])
      (use small in \<open>simp_all add: c_literal_def\<close>)
qed

theorem keyword_command_overflows_witness:
  "virtualNetworkVswitchDeleteExtended quiet_context (\<lambda>_. True) (\<lambda>_. refused_reply)
     (delete_line [c_literal ''switch_name=SW1'', c_literal ''persist=YES'']) = Fault"
  by (rule keyword_command_overflows [OF delete_command, where r = 1 and target = "c_literal ''LNX1''"])
    (simp_all add: c_literal_def)

theorem keyword_command_rejects_witness:
  "virtualNetworkVswitchDeleteExtended quiet_context (\<lambda>_. True) (\<lambda>_. refused_reply)
     (delete_line [c_literal ''switch_name=SW1'', c_literal ''persist=YES'', c_literal ''x=y'']) =
    (if key_array (kspec_rule virtualNetworkVswitchDeleteExtended_spec) < key_limit (kspec_rule virtualNetworkVswitchDeleteExtended_spec)
     then Fault
     else Ok (key_error_header quiet_context (kspec_rule virtualNetworkVswitchDeleteExtended_spec) @ [Too_Many_Keys],
       key_error (kspec_rule virtualNetworkVswitchDeleteExtended_spec)))"
  by (rule keyword_command_rejects [OF delete_command]) (simp_all add: c_literal_def)

end
