(* ===== verification/Wrapper_Utils.thy ===== *)
theory Wrapper_Utils
  imports Smapi_Request
begin

text \<open>
  The helpers of the commands in \<^verbatim>\<open>src/wrapperutils.c\<close>: the checks of names and device numbers,
  \<open>trim\<close> and the conversion between ASCII and EBCDIC.  A C string is the list of its
  bytes without the NUL, where a function takes one; \<open>trim\<close> works on the whole array.
\<close>

section \<open>Checks\<close>

definition isImageNameInvalid :: "byte list \<Rightarrow> bool" where
  "isImageNameInvalid imageName \<longleftrightarrow> strlen imageName < 1 \<or> strlen imageName > 8"

definition isProfileNameInvalid :: "byte list \<Rightarrow> bool" where
  "isProfileNameInvalid profileName \<longleftrightarrow> strlen profileName < 1 \<or> strlen profileName > 8"

definition dev_digit :: "byte \<Rightarrow> bool" where
  "dev_digit b \<longleftrightarrow> (uint b > 47 \<and> uint b < 58) \<or> (uint b > 65 \<and> uint b < 71) \<or> (uint b > 97 \<and> uint b < 103)"

definition isDevNumberInvalid :: "byte list \<Rightarrow> bool" where
  "isDevNumberInvalid devNumber \<longleftrightarrow>
     \<not> (strlen devNumber = 4 \<and> dev_digit (devNumber ! 0) \<and> dev_digit (devNumber ! 1) \<and>
        dev_digit (devNumber ! 2) \<and> dev_digit (devNumber ! 3))"

text \<open>A device number with an \<^verbatim>\<open>A\<close> is hexadecimal, and it is rejected.\<close>

lemma isDevNumberInvalid_A: "isDevNumberInvalid (c_literal ''0A00'')" "\<not> isDevNumberInvalid (c_literal ''0B00'')"
  by (simp_all add: isDevNumberInvalid_def c_literal_def dev_digit_def strlen_def)

section \<open>Trimming\<close>

text \<open>
  The two loops move \<open>start\<close> and \<open>end\<close>; characters up to the blank are taken off
  (\<open>char\<close> is unsigned on the machine of the program).  The rest of the string is filled with NULs.
\<close>

definition c_blank :: "byte \<Rightarrow> bool" where
  "c_blank b \<longleftrightarrow> uint b \<le> 32"

function trim_start :: "byte list \<Rightarrow> nat \<Rightarrow> nat \<Rightarrow> nat" where
  "trim_start s len start = (if start < len \<and> c_blank (s ! start) then trim_start s len (start + 1) else start)"
  by pat_completeness auto

termination
  by (relation "measure (\<lambda>(s, len, start). len - start)") auto

fun trim_end :: "byte list \<Rightarrow> nat \<Rightarrow> nat \<Rightarrow> nat" where
  "trim_end s start 0 = 0"
| "trim_end s start (Suc e) = (if start < Suc e \<and> c_blank (s ! Suc e) then trim_end s start e else Suc e)"

declare trim_start.simps [simp del]

text \<open>\<open>end\<close> is -1 for the empty string, so that \<open>start > end\<close>.\<close>

definition trim :: "byte list \<Rightarrow> byte list" where
  "trim s =
     (let len = nat (strlen s); start = trim_start s len 0 in
      if len = 0 then s
      else
        (let e = trim_end s start (len - 1) in
         if start > e then replicate len 0 @ drop len s
         else take (e + 1 - start) (drop start s) @ replicate (len - (e + 1 - start)) 0 @ drop len s))"

section \<open>ASCII and EBCDIC\<close>

definition a2e :: "byte list" where
  "a2e =
     [0, 1, 2, 3, 55, 45, 46, 47, 22, 5, 37, 11, 12, 13, 14, 15,
      16, 17, 18, 19, 60, 61, 50, 38, 24, 25, 63, 39, 28, 29, 30, 31,
      64, 79, 127, 123, 91, 108, 80, 125, 77, 93, 92, 78, 107, 96, 75, 97,
      240, 241, 242, 243, 244, 245, 246, 247, 248, 249, 122, 94, 76, 126, 110, 111,
      124, 193, 194, 195, 196, 197, 198, 199, 200, 201, 209, 210, 211, 212, 213, 214,
      215, 216, 217, 226, 227, 228, 229, 230, 231, 232, 233, 74, 224, 90, 95, 109,
      121, 129, 130, 131, 132, 133, 134, 135, 136, 137, 145, 146, 147, 148, 149, 150,
      151, 152, 153, 162, 163, 164, 165, 166, 167, 168, 169, 192, 106, 208, 161, 7,
      32, 33, 34, 35, 36, 21, 6, 23, 40, 41, 42, 43, 44, 9, 10, 27,
      48, 49, 26, 51, 52, 53, 54, 8, 56, 57, 58, 59, 4, 20, 62, 225,
      65, 66, 67, 68, 69, 70, 71, 72, 73, 81, 82, 83, 84, 85, 86, 87,
      88, 89, 98, 99, 100, 101, 102, 103, 104, 105, 112, 113, 114, 115, 116, 117,
      118, 119, 120, 128, 138, 139, 140, 141, 142, 143, 144, 154, 155, 156, 157, 158,
      159, 160, 170, 171, 172, 173, 174, 175, 176, 177, 178, 179, 180, 181, 182, 183,
      184, 185, 186, 187, 188, 189, 190, 191, 202, 203, 204, 205, 206, 207, 218, 219,
      220, 221, 222, 223, 234, 235, 236, 237, 238, 239, 250, 251, 252, 253, 254, 255]"

definition e2a :: "byte list" where
  "e2a =
     [0, 1, 2, 3, 156, 9, 134, 127, 151, 141, 142, 11, 12, 13, 14, 15,
      16, 17, 18, 19, 157, 133, 8, 135, 24, 25, 146, 143, 28, 29, 30, 31,
      128, 129, 130, 131, 132, 10, 23, 27, 136, 137, 138, 139, 140, 5, 6, 7,
      144, 145, 22, 147, 148, 149, 150, 4, 152, 153, 154, 155, 20, 21, 158, 26,
      32, 160, 161, 162, 163, 164, 165, 166, 167, 168, 91, 46, 60, 40, 43, 33,
      38, 169, 170, 171, 172, 173, 174, 175, 176, 177, 93, 36, 42, 41, 59, 94,
      45, 47, 178, 179, 180, 181, 182, 183, 184, 185, 124, 44, 37, 95, 62, 63,
      186, 187, 188, 189, 190, 191, 192, 193, 194, 96, 58, 35, 64, 39, 61, 34,
      195, 97, 98, 99, 100, 101, 102, 103, 104, 105, 196, 197, 198, 199, 200, 201,
      202, 106, 107, 108, 109, 110, 111, 112, 113, 114, 203, 204, 205, 206, 207, 208,
      209, 126, 115, 116, 117, 118, 119, 120, 121, 122, 210, 211, 212, 213, 214, 215,
      216, 217, 218, 219, 220, 221, 222, 223, 224, 225, 226, 227, 228, 229, 230, 231,
      123, 65, 66, 67, 68, 69, 70, 71, 72, 73, 232, 233, 234, 235, 236, 237,
      125, 74, 75, 76, 77, 78, 79, 80, 81, 82, 238, 239, 240, 241, 242, 243,
      92, 159, 83, 84, 85, 86, 87, 88, 89, 90, 244, 245, 246, 247, 248, 249,
      48, 49, 50, 51, 52, 53, 54, 55, 56, 57, 250, 251, 252, 253, 254, 255]"

definition ASCIItoEBCDIC :: "byte \<Rightarrow> byte" where
  "ASCIItoEBCDIC c = a2e ! unat c"

definition EBCDICtoASCII :: "byte \<Rightarrow> byte" where
  "EBCDICtoASCII c = e2a ! unat c"

text \<open>
  The conversions write \<open>strlen\<close> bytes over the start of the target and no NUL; a target that is too
  short is \<open>Fault\<close>.
\<close>

definition convert_string :: "(byte \<Rightarrow> byte) \<Rightarrow> byte list \<Rightarrow> byte list \<Rightarrow> byte list res" where
  "convert_string f src target =
     (let n = nat (strlen src) in
      if n \<le> length target then Ok (map f (take n src) @ drop n target) else Fault)"

definition convertEBCDICtoASCII :: "byte list \<Rightarrow> byte list \<Rightarrow> byte list res" where
  "convertEBCDICtoASCII ebcdicString asciiString = convert_string EBCDICtoASCII ebcdicString asciiString"

definition convertASCIItoEBCDIC :: "byte list \<Rightarrow> byte list \<Rightarrow> byte list res" where
  "convertASCIItoEBCDIC asciiString ebcdicString = convert_string ASCIItoEBCDIC asciiString ebcdicString"

section \<open>Trimming takes off the blanks\<close>

lemma trim_start_spec:
  "start \<le> len \<Longrightarrow> len \<le> length s \<Longrightarrow>
   start \<le> trim_start s len start \<and> trim_start s len start \<le> len \<and>
   (\<forall>i. start \<le> i \<and> i < trim_start s len start \<longrightarrow> c_blank (s ! i)) \<and>
   (trim_start s len start < len \<longrightarrow> \<not> c_blank (s ! trim_start s len start))"
proof (induction s len start rule: trim_start.induct)
  case (1 s len start)
  show ?case
  proof (cases "start < len \<and> c_blank (s ! start)")
    case True
    then have eq: "trim_start s len start = trim_start s len (start + 1)" by (subst trim_start.simps) simp
    from 1 True have I: "start + 1 \<le> trim_start s len (start + 1)" "trim_start s len (start + 1) \<le> len"
        "\<And>i. start + 1 \<le> i \<Longrightarrow> i < trim_start s len (start + 1) \<Longrightarrow> c_blank (s ! i)"
        "trim_start s len (start + 1) < len \<Longrightarrow> \<not> c_blank (s ! trim_start s len (start + 1))" by auto
    have "c_blank (s ! i)" if "start \<le> i" "i < trim_start s len (start + 1)" for i
      using I(3)[of i] True that by (cases "i = start") auto
    with I show ?thesis unfolding eq by auto
  next
    case False
    then have "trim_start s len start = start" by (subst trim_start.simps) auto
    with False 1 show ?thesis by auto
  qed
qed

lemma trim_end_spec:
  "start \<le> e \<Longrightarrow> \<not> c_blank (s ! start) \<Longrightarrow>
   start \<le> trim_end s start e \<and> trim_end s start e \<le> e \<and> \<not> c_blank (s ! trim_end s start e) \<and>
   (\<forall>i. trim_end s start e < i \<and> i \<le> e \<longrightarrow> c_blank (s ! i))"
proof (induction e)
  case (Suc e)
  show ?case
  proof (cases "start < Suc e \<and> c_blank (s ! Suc e)")
    case True
    with Suc show ?thesis by (auto simp: le_Suc_eq)
  next
    case False
    then have "start = Suc e \<or> \<not> c_blank (s ! Suc e)" using Suc.prems(1) by auto
    with False Suc.prems show ?thesis by auto
  qed
qed auto

text \<open>The string without the blanks at both ends.\<close>

definition strip_blanks :: "byte list \<Rightarrow> byte list" where
  "strip_blanks str = rev (dropWhile c_blank (rev (dropWhile c_blank str)))"

lemma strip_parts:
  assumes "\<forall>x \<in> set a. c_blank x" "\<forall>x \<in> set c. c_blank x" "b \<noteq> []" "\<not> c_blank (hd b)" "\<not> c_blank (last b)"
  shows "strip_blanks (a @ b @ c) = b"
proof -
  have "dropWhile c_blank (a @ b @ c) = b @ c"
    using assms(1,3,4) by (cases b) (auto simp: dropWhile_append2)
  moreover have "dropWhile c_blank (rev c @ rev b) = rev b"
    using assms(2,3,5) dropWhile_append2[of "rev c" c_blank "rev b"] by (cases b rule: rev_cases) auto
  ultimately show ?thesis by (simp add: strip_blanks_def)
qed

lemma trim_strips:
  assumes "0 \<notin> set str"
  shows "trim (str @ 0 # rest) = strip_blanks str @ replicate (length str - length (strip_blanks str)) 0 @ 0 # rest"
proof -
  let ?s = "str @ 0 # rest" and ?len = "length str"
  have "takeWhile (\<lambda>b. b \<noteq> 0) ?s = str" using assms by (induction str) auto
  then have len: "nat (strlen ?s) = ?len" by (simp add: strlen_def)
  let ?st = "trim_start ?s ?len 0"
  have st: "?st \<le> ?len" "\<And>i. i < ?st \<Longrightarrow> c_blank (?s ! i)" "?st < ?len \<Longrightarrow> \<not> c_blank (?s ! ?st)"
    using trim_start_spec[of 0 ?len ?s] by auto
  show ?thesis
  proof (cases "?st < ?len")
    case True
    let ?e = "trim_end ?s ?st (?len - 1)"
    have e: "?st \<le> ?e" "?e \<le> ?len - 1" "\<not> c_blank (?s ! ?e)" "\<And>i. ?e < i \<Longrightarrow> i \<le> ?len - 1 \<Longrightarrow> c_blank (?s ! i)"
      using trim_end_spec[of ?st "?len - 1" ?s] True st(3) by auto
    let ?a = "take ?st str" and ?b = "take (?e + 1 - ?st) (drop ?st str)" and ?c = "drop (?e + 1) str"
    have el: "?e < ?len" using True e(2) by linarith
    then have lb: "length ?b = Suc (?e - ?st)" using e(1) by simp
    then have "last ?b = ?b ! (?e - ?st)" by (subst last_conv_nth) auto
    then have last: "last ?b = ?s ! ?e" using e(1) el by (simp add: nth_append)
    have "?c = drop (?e + 1 - ?st) (drop ?st str)" using e(1) by simp
    then have split: "str = ?a @ ?b @ ?c" by (simp only: append_take_drop_id)
    have "strip_blanks (?a @ ?b @ ?c) = ?b"
    proof (rule strip_parts)
      show "\<forall>x \<in> set ?a. c_blank x" using st by (auto simp: in_set_conv_nth nth_append)
      show "\<forall>x \<in> set ?c. c_blank x"
      proof
        fix x assume "x \<in> set ?c"
        then obtain i where "i < length ?c" "x = ?c ! i" by (auto simp: in_set_conv_nth)
        moreover from this have "?e + 1 + i < ?len" by (simp add: less_diff_conv)
        moreover from this have "?e + 1 + i \<le> ?len - 1" by linarith
        ultimately show "c_blank x" using e(4)[of "?e + 1 + i"] by (simp add: nth_append)
      qed
      show "?b \<noteq> []" using True e(1) by simp
      show "\<not> c_blank (hd ?b)" using True st(3) e(1) by (simp add: hd_drop_conv_nth nth_append)
      show "\<not> c_blank (last ?b)" unfolding last by (rule e(3))
    qed
    then have b: "strip_blanks str = ?b" using split by simp
    have "take (?e + 1 - ?st) (drop ?st ?s) = ?b" using True e(1) el by simp
    moreover have "length ?b = ?e + 1 - ?st" using lb e(1) by linarith
    moreover have "str \<noteq> []" using True by auto
    ultimately show ?thesis using e(1) unfolding trim_def len Let_def b by simp
  next
    case False
    then have "?st = ?len" using st(1) by simp
    then have "\<forall>x \<in> set str. c_blank x" using st(2) by (auto simp: in_set_conv_nth nth_append)
    then have z: "strip_blanks str = []" by (auto simp: strip_blanks_def dest: set_dropWhileD)
    show ?thesis
    proof (cases "str = []")
      case True
      then show ?thesis unfolding trim_def len Let_def z by simp
    next
      case nonempty: False
      have "trim_end ?s ?len (?len - 1) = ?len - 1" using nonempty by (cases "?len - 1") auto
      then show ?thesis unfolding trim_def len Let_def z \<open>?st = ?len\<close> using nonempty by auto
    qed
  qed
qed

section \<open>The conversions undo each other\<close>

lemma tables_inverse: "map EBCDICtoASCII a2e = map of_nat [0..<256]" "map ASCIItoEBCDIC e2a = map of_nat [0..<256]"
  by code_simp+

lemma length_tables [simp]: "length a2e = 256" "length e2a = 256"
  by (simp_all add: a2e_def e2a_def)

lemma unat_less_256: "unat (b :: byte) < 256"
proof -
  have "unat b < 2 ^ LENGTH(8)" by (rule unsigned_less)
  then show ?thesis by simp
qed

lemma conversions_inverse: "EBCDICtoASCII (ASCIItoEBCDIC b) = b" "ASCIItoEBCDIC (EBCDICtoASCII b) = b"
proof -
  have "map EBCDICtoASCII a2e ! unat b = map of_nat [0..<256] ! unat b"
    "map ASCIItoEBCDIC e2a ! unat b = map of_nat [0..<256] ! unat b"
    by (simp_all only: tables_inverse)
  then show "EBCDICtoASCII (ASCIItoEBCDIC b) = b" "ASCIItoEBCDIC (EBCDICtoASCII b) = b"
    using unat_less_256[of b] by (simp_all add: ASCIItoEBCDIC_def EBCDICtoASCII_def)
qed

lemma ASCIItoEBCDIC_0 [simp]: "ASCIItoEBCDIC b = 0 \<longleftrightarrow> b = 0"
proof
  have z: "EBCDICtoASCII 0 = 0" by (simp add: EBCDICtoASCII_def e2a_def)
  show "b = 0" if "ASCIItoEBCDIC b = 0" using z conversions_inverse(1)[of b] that by simp
qed (simp add: ASCIItoEBCDIC_def a2e_def)

lemma convert_string_Ok:
  assumes "0 \<notin> set str" and "length str \<le> length target"
  shows "convert_string f (str @ 0 # rest) target = Ok (map f str @ drop (length str) target)"
proof -
  have "takeWhile (\<lambda>b. b \<noteq> 0) (str @ 0 # rest) = str" using assms(1) by (induction str) auto
  then show ?thesis using assms(2) by (simp add: convert_string_def strlen_def)
qed

text \<open>
  Converting a string to EBCDIC, into a target that has a NUL behind it, and back gives the string.
\<close>

theorem ebcdic_roundtrip:
  assumes "0 \<notin> set str" and "length target = length str"
  shows "res_bind (convertASCIItoEBCDIC (str @ [0]) (replicate (length str) 0 @ [0])) (\<lambda>ebcdic.
    convertEBCDICtoASCII ebcdic target) = Ok str"
proof -
  have "0 \<notin> set (map ASCIItoEBCDIC str)" using assms(1) by (auto dest: ASCIItoEBCDIC_0[THEN iffD1, OF sym])
  then have "convert_string EBCDICtoASCII (map ASCIItoEBCDIC str @ 0 # []) target = Ok (map EBCDICtoASCII (map ASCIItoEBCDIC str))"
    using assms(2) by (subst convert_string_Ok) auto
  moreover have "map EBCDICtoASCII (map ASCIItoEBCDIC str) = str" by (simp add: comp_def conversions_inverse)
  moreover have "convert_string ASCIItoEBCDIC (str @ 0 # []) (replicate (length str) 0 @ [0]) = Ok (map ASCIItoEBCDIC str @ 0 # [])"
    using assms(1) by (subst convert_string_Ok) auto
  ultimately show ?thesis by (simp add: convertASCIItoEBCDIC_def convertEBCDICtoASCII_def)
qed

theorem ebcdic_roundtrip_witness:
  "res_bind (convertASCIItoEBCDIC ([65, 98, 49] @ [0]) (replicate (length [65, 98, 49 :: byte]) 0 @ [0])) (\<lambda>ebcdic.
    convertEBCDICtoASCII ebcdic [0, 0, 0]) = Ok [65, 98, 49]"
  by (rule ebcdic_roundtrip) simp_all

end
