(* ===== verification/Message_Buffers.thy ===== *)
theory Message_Buffers
  imports Smapi_Request
begin

text \<open>
  The chain of message collectors of \<^verbatim>\<open>src/wrapperutils.c\<close>: \<open>addMessageToBuffer\<close> and
  \<open>printMessageBuffersAndRelease\<close> over a memory of structures and buffers.  The first structure and
  its buffer are local variables of the caller; extensions come from \<open>malloc\<close> and are linked in both
  directions.  The null pointer is 0.  Using a structure that was not set up or was freed, writing
  behind a buffer, and freeing anything but a live block of \<open>malloc\<close> are the outcome \<open>Fault\<close>.
\<close>

section \<open>Memory\<close>

record smMessageCollector =
  bufferSize :: int
  stringCount :: int
  bytesLeft :: int
  nextAvail :: "nat \<times> nat"
  nextMessageCollector :: nat
  previousMessageCollector :: nat
  messageData :: nat

text \<open>
  A structure that was allocated and not set up is \<open>Some None\<close>.  \<open>nextAvail\<close> is a buffer and an
  offset in it; \<open>fresh_byte\<close> is what the bytes of a new block hold.
\<close>

record message_memory =
  structures :: "nat \<rightharpoonup> smMessageCollector option"
  buffers :: "nat \<rightharpoonup> byte list"
  next_address :: nat
  fresh_byte :: byte

definition MESSAGE_BUFFER_SIZE :: int where "MESSAGE_BUFFER_SIZE = 2048"

text \<open>The address of the local variables; \<open>malloc\<close> returns larger ones.\<close>

definition stack_address :: nat where "stack_address = 1"

definition collector :: "nat \<Rightarrow> message_memory \<Rightarrow> smMessageCollector res" where
  "collector p m = (case structures m p of Some (Some c) \<Rightarrow> Ok c | _ \<Rightarrow> Fault)"

definition set_collector :: "nat \<Rightarrow> smMessageCollector \<Rightarrow> message_memory \<Rightarrow> message_memory" where
  "set_collector p c m = m\<lparr>structures := (structures m)(p \<mapsto> Some c)\<rparr>"

definition malloc_collector :: "message_memory \<Rightarrow> message_memory" where
  "malloc_collector m =
     m\<lparr>structures := (structures m)(next_address m \<mapsto> None), next_address := next_address m + 1\<rparr>"

definition malloc_buffer :: "int \<Rightarrow> message_memory \<Rightarrow> message_memory" where
  "malloc_buffer n m =
     m\<lparr>buffers := (buffers m)(next_address m \<mapsto> replicate (nat n) (fresh_byte m)), next_address := next_address m + 1\<rparr>"

definition free_collector :: "nat \<Rightarrow> message_memory \<Rightarrow> message_memory res" where
  "free_collector p m =
     (if p \<noteq> 0 then
        if stack_address < p \<and> structures m p \<noteq> None then Ok (m\<lparr>structures := (structures m)(p := None)\<rparr>) else Fault
      else Ok m)"

definition free_buffer :: "nat \<Rightarrow> message_memory \<Rightarrow> message_memory res" where
  "free_buffer b m =
     (if b \<noteq> 0 then
        if stack_address < b \<and> buffers m b \<noteq> None then Ok (m\<lparr>buffers := (buffers m)(b := None)\<rparr>) else Fault
      else Ok m)"

definition memset_buffer :: "nat \<Rightarrow> int \<Rightarrow> message_memory \<Rightarrow> message_memory res" where
  "memset_buffer b n m =
     (case buffers m b of
        Some data \<Rightarrow>
          if 0 \<le> n \<and> n \<le> int (length data)
          then Ok (m\<lparr>buffers := (buffers m)(b \<mapsto> replicate (nat n) 0 @ drop (nat n) data)\<rparr>) else Fault
      | None \<Rightarrow> Fault)"

text \<open>\<open>strcpy\<close> with the NUL behind the string.\<close>

definition strcpy_buffer :: "nat \<times> nat \<Rightarrow> byte list \<Rightarrow> message_memory \<Rightarrow> message_memory res" where
  "strcpy_buffer p s m =
     (let (b, offset) = p; src = takeWhile (\<lambda>x. x \<noteq> 0) s @ [0] in
      case buffers m b of
        Some data \<Rightarrow>
          if offset + length src \<le> length data
          then Ok (m\<lparr>buffers := (buffers m)(b \<mapsto> take offset data @ src @ drop (offset + length src) data)\<rparr>) else Fault
      | None \<Rightarrow> Fault)"

section \<open>Adding a message\<close>

definition INIT_MESSAGE_BUFFER :: "nat \<Rightarrow> int \<Rightarrow> nat \<Rightarrow> message_memory \<Rightarrow> message_memory res" where
  "INIT_MESSAGE_BUFFER p bytecount charbuffer m =
     (if structures m p \<noteq> None then
        memset_buffer charbuffer bytecount
          (set_collector p
             \<lparr>bufferSize = bytecount, stringCount = 0, bytesLeft = bytecount, nextAvail = (charbuffer, 0),
              nextMessageCollector = 0, previousMessageCollector = 0, messageData = charbuffer\<rparr> m)
      else Fault)"

text \<open>The local variables of a command that collects messages, before and after they are set up.\<close>

definition local_messages :: "byte \<Rightarrow> message_memory" where
  "local_messages b =
     \<lparr>structures = [stack_address \<mapsto> None], buffers = [stack_address \<mapsto> replicate (nat MESSAGE_BUFFER_SIZE) b],
      next_address = stack_address + 1, fresh_byte = b\<rparr>"

definition first_collector :: "byte \<Rightarrow> message_memory res" where
  "first_collector b = INIT_MESSAGE_BUFFER stack_address MESSAGE_BUFFER_SIZE stack_address (local_messages b)"

definition too_long :: "byte list" where
  "too_long = c_literal ''**** Error:message string longer than buffer size can handle!'' @ [10]"

text \<open>The search for the last collector; the fuel bounds the length of the chain.\<close>

fun find_last :: "nat \<Rightarrow> nat \<Rightarrow> message_memory \<Rightarrow> nat res" where
  "find_last 0 p m = NoFuel"
| "find_last (Suc fuel) p m =
     res_bind (collector p m) (\<lambda>c.
       if nextMessageCollector c \<noteq> 0 then find_last fuel (nextMessageCollector c) m else Ok p)"

text \<open>
  The new structure is linked before its buffer is allocated.  The arguments of type \<open>bool\<close> say
  whether the two calls of \<open>malloc\<close> succeed.
\<close>

definition extend_chain :: "bool \<Rightarrow> bool \<Rightarrow> nat \<Rightarrow> message_memory \<Rightarrow> (int \<times> nat \<times> message_memory) res" where
  "extend_chain m1 m2 p m =
     (if \<not> m1 then Ok (MEMORY_ERROR, p, m)
      else
        let t = next_address m; m = malloc_collector m in
        res_bind (collector p m) (\<lambda>c.
        let m = set_collector p (c\<lparr>nextMessageCollector := t\<rparr>) m in
        if \<not> m2 then Ok (MEMORY_ERROR, p, m)
        else
          let b = next_address m in
          res_bind (INIT_MESSAGE_BUFFER t MESSAGE_BUFFER_SIZE b (malloc_buffer MESSAGE_BUFFER_SIZE m)) (\<lambda>m.
          res_bind (collector t m) (\<lambda>c.
          Ok (0, t, set_collector t (c\<lparr>previousMessageCollector := p\<rparr>) m)))))"

definition store_message :: "nat \<Rightarrow> byte list \<Rightarrow> message_memory \<Rightarrow> (int \<times> message_memory) res" where
  "store_message p msg m =
     (let msgLength = strlen msg + 1 in
      res_bind (collector p m) (\<lambda>c.
      res_bind (strcpy_buffer (nextAvail c) msg m) (\<lambda>m.
      Ok (0, set_collector p
               (c\<lparr>nextAvail := (fst (nextAvail c), snd (nextAvail c) + nat msgLength),
                  bytesLeft := bytesLeft c - msgLength, stringCount := stringCount c + 1\<rparr>) m))))"

definition addMessageToBuffer ::
  "nat \<Rightarrow> bool \<Rightarrow> bool \<Rightarrow> nat \<Rightarrow> byte list \<Rightarrow> message_memory \<Rightarrow> (int \<times> message_memory) res" where
  "addMessageToBuffer fuel m1 m2 firstMsgCollectorP msg m =
     (let msgToAdd = (if strlen msg + 1 > MESSAGE_BUFFER_SIZE then too_long else msg) in
      res_bind (find_last fuel firstMsgCollectorP m) (\<lambda>p.
      res_bind (collector p m) (\<lambda>c.
        if bytesLeft c < strlen msgToAdd + 1 then
          res_bind (extend_chain m1 m2 p m) (\<lambda>(rc, p, m).
            if rc \<noteq> 0 then Ok (rc, m) else store_message p msgToAdd m)
        else store_message p msgToAdd m)))"

section \<open>Printing and releasing\<close>

text \<open>The strings of a buffer, one after the other.\<close>

fun buffer_strings :: "nat \<Rightarrow> byte list \<Rightarrow> byte list res" where
  "buffer_strings 0 data = Ok []"
| "buffer_strings (Suc n) data =
     (if 0 \<in> set data then
        (let s = takeWhile (\<lambda>b. b \<noteq> 0) data in
         res_bind (buffer_strings n (drop (length s + 1) data)) (\<lambda>out. Ok (s @ out)))
      else Fault)"

text \<open>The first loop: the text printed, and the last collector.\<close>

fun print_loop :: "nat \<Rightarrow> nat \<Rightarrow> nat \<Rightarrow> message_memory \<Rightarrow> (byte list \<times> nat \<times> message_memory) res" where
  "print_loop 0 buffCount p m = NoFuel"
| "print_loop (Suc fuel) buffCount p m =
     res_bind (collector p m) (\<lambda>c.
     res_bind (buffer_strings (nat (stringCount c)) (case buffers m (messageData c) of Some data \<Rightarrow> data | None \<Rightarrow> [])) (\<lambda>out.
     res_bind (if buffCount > 1
               then res_bind (free_buffer (messageData c) m) (\<lambda>m. Ok (set_collector p (c\<lparr>messageData := 0\<rparr>) m))
               else Ok m) (\<lambda>m.
     if nextMessageCollector c \<noteq> 0
     then res_bind (print_loop fuel (buffCount + 1) (nextMessageCollector c) m) (\<lambda>(rest, q, m). Ok (out @ rest, q, m))
     else Ok (out, p, m))))"

text \<open>The second loop, back along the chain.\<close>

fun release_loop :: "nat \<Rightarrow> nat \<Rightarrow> nat \<Rightarrow> message_memory \<Rightarrow> message_memory res" where
  "release_loop 0 p tempcollectorP m = NoFuel"
| "release_loop (Suc fuel) p tempcollectorP m =
     (if tempcollectorP \<noteq> 0 then
        res_bind (free_collector p m) (\<lambda>m.
        res_bind (collector tempcollectorP m) (\<lambda>c.
        release_loop fuel tempcollectorP (previousMessageCollector c) m))
      else Ok m)"

definition printMessageBuffersAndRelease :: "nat \<Rightarrow> nat \<Rightarrow> message_memory \<Rightarrow> (int \<times> byte list \<times> message_memory) res" where
  "printMessageBuffersAndRelease fuel firstMsgCollectorP m =
     res_bind (print_loop fuel 1 firstMsgCollectorP m) (\<lambda>(out, p, m).
     res_bind (collector p m) (\<lambda>c.
     res_bind (release_loop fuel p (previousMessageCollector c) m) (\<lambda>m.
     Ok (0, out, m))))"

text \<open>A sequence of calls that add messages, with their return codes.\<close>

fun add_messages :: "nat \<Rightarrow> (bool \<times> bool \<times> byte list) list \<Rightarrow> message_memory \<Rightarrow> (int list \<times> message_memory) res" where
  "add_messages fuel [] m = Ok ([], m)"
| "add_messages fuel ((m1, m2, msg) # msgs) m =
     res_bind (addMessageToBuffer fuel m1 m2 stack_address msg m) (\<lambda>(rc, m).
     res_bind (add_messages fuel msgs m) (\<lambda>(rcs, m). Ok (rc # rcs, m)))"


section \<open>The chain as a list of cells\<close>

text \<open>A cell is the address of a structure, the address of its buffer and its messages.\<close>

type_synonym cell = "nat \<times> nat \<times> byte list list"

definition message_data :: "byte list list \<Rightarrow> byte list" where
  "message_data ms = concat (map (\<lambda>m. m @ [0]) ms)"

definition cell_collector :: "nat \<Rightarrow> nat \<Rightarrow> nat \<Rightarrow> byte list list \<Rightarrow> smMessageCollector" where
  "cell_collector before after b ms =
     \<lparr>bufferSize = MESSAGE_BUFFER_SIZE, stringCount = int (length ms),
      bytesLeft = MESSAGE_BUFFER_SIZE - int (length (message_data ms)), nextAvail = (b, length (message_data ms)),
      nextMessageCollector = after, previousMessageCollector = before, messageData = b\<rparr>"

definition buffer_holds :: "byte list list \<Rightarrow> byte list \<Rightarrow> bool" where
  "buffer_holds ms data \<longleftrightarrow> list_all (\<lambda>m. 0 \<notin> set m) ms \<and> int (length data) = MESSAGE_BUFFER_SIZE \<and>
     (\<exists>rest. data = message_data ms @ rest)"

definition head_address :: "cell list \<Rightarrow> nat \<Rightarrow> nat" where
  "head_address cells after = (case cells of [] \<Rightarrow> after | c # _ \<Rightarrow> fst c)"

definition last_address :: "nat \<Rightarrow> cell list \<Rightarrow> nat" where
  "last_address before cells = (if cells = [] then before else fst (last cells))"

text \<open>A part of the chain between the addresses \<open>before\<close> and \<open>after\<close>.\<close>

fun chain_part :: "message_memory \<Rightarrow> nat \<Rightarrow> cell list \<Rightarrow> nat \<Rightarrow> bool" where
  "chain_part m before [] after \<longleftrightarrow> True"
| "chain_part m before ((a, b, ms) # cells) after \<longleftrightarrow>
     structures m a = Some (Some (cell_collector before (head_address cells after) b ms)) \<and>
     (\<exists>data. buffers m b = Some data \<and> buffer_holds ms data) \<and> chain_part m a cells after"

lemma chain_part_append:
  "chain_part m before (cs @ ds) after \<longleftrightarrow>
   chain_part m before cs (head_address ds after) \<and> chain_part m (last_address before cs) ds after"
proof (induction cs arbitrary: before)
  case (Cons c cs)
  obtain a b ms where c: "c = (a, b, ms)" by (cases c)
  have "head_address (cs @ ds) after = head_address cs (head_address ds after)"
    by (simp add: head_address_def split: list.splits)
  moreover have "last_address before (c # cs) = last_address a cs"
    by (simp add: last_address_def c)
  ultimately show ?case using Cons.IH[of a] by (auto simp: c)
qed (simp add: last_address_def)

lemma chain_part_frame:
  assumes "\<And>c. c \<in> set cs \<Longrightarrow> structures m' (fst c) = structures m (fst c) \<and> buffers m' (fst (snd c)) = buffers m (fst (snd c))"
  shows "chain_part m' before cs after \<longleftrightarrow> chain_part m before cs after"
  using assms
proof (induction cs arbitrary: before)
  case (Cons c cs)
  obtain a b ms where c: "c = (a, b, ms)" by (cases c)
  have "structures m' a = structures m a" "buffers m' b = buffers m b" using Cons.prems[of c] by (simp_all add: c)
  moreover have "chain_part m' a cs after \<longleftrightarrow> chain_part m a cs after" using Cons by simp
  ultimately show ?case by (simp add: c)
qed simp

definition message_chain :: "message_memory \<Rightarrow> cell list \<Rightarrow> bool" where
  "message_chain m cells \<longleftrightarrow>
     cells \<noteq> [] \<and> fst (hd cells) = stack_address \<and> fst (snd (hd cells)) = stack_address \<and>
     chain_part m 0 cells 0 \<and> distinct (map fst cells) \<and> distinct (map (fst \<circ> snd) cells) \<and>
     (\<forall>c\<in>set (tl cells). stack_address < fst c \<and> stack_address < fst (snd c)) \<and>
     dom (structures m) = set (map fst cells) \<and> dom (buffers m) = set (map (fst \<circ> snd) cells) \<and>
     (\<forall>c\<in>set cells. fst c < next_address m \<and> fst (snd c) < next_address m)"

definition chain_messages :: "cell list \<Rightarrow> byte list list" where
  "chain_messages cells = concat (map (snd \<circ> snd) cells)"

lemmas memory_defs = collector_def set_collector_def malloc_collector_def malloc_buffer_def memset_buffer_def strcpy_buffer_def

lemma strlen_free: "0 \<notin> set s \<Longrightarrow> strlen s = int (length s)"
  by (induction s) (auto simp: strlen_def)

lemma takeWhile_free: "0 \<notin> set s \<Longrightarrow> takeWhile (\<lambda>b. b \<noteq> (0::byte)) s = s"
  by (induction s) auto

text \<open>The last cell of a chain, and what remains true of the others.\<close>

lemma chain_lastE:
  assumes "message_chain m (cs @ [(a, b, ms)])"
  obtains data where "structures m a = Some (Some (cell_collector (last_address 0 cs) 0 b ms))"
    and "buffers m b = Some data" and "buffer_holds ms data" and "chain_part m 0 cs a"
    and "\<forall>c\<in>set cs. fst c \<noteq> a \<and> fst (snd c) \<noteq> b"
  using assms unfolding message_chain_def chain_part_append by (auto simp: head_address_def)

lemma store_message_ok:
  assumes chain: "message_chain m (cs @ [(a, b, ms)])" and s: "0 \<notin> set s"
    and room: "int (length s) + 1 \<le> MESSAGE_BUFFER_SIZE - int (length (message_data ms))"
  shows "\<exists>m'. store_message a s m = Ok (0, m') \<and> message_chain m' (cs @ [(a, b, ms @ [s])])"
proof -
  from chain obtain data where cell: "structures m a = Some (Some (cell_collector (last_address 0 cs) 0 b ms))"
      "buffers m b = Some data" "buffer_holds ms data" "chain_part m 0 cs a" "\<forall>c\<in>set cs. fst c \<noteq> a \<and> fst (snd c) \<noteq> b"
    by (rule chain_lastE)
  from cell(3) obtain rest where data: "data = message_data ms @ rest" "int (length data) = MESSAGE_BUFFER_SIZE"
    and free: "list_all (\<lambda>m. 0 \<notin> set m) ms" by (auto simp: buffer_holds_def)
  define data' where "data' = message_data ms @ (s @ [0]) @ drop (length s + 1) rest"
  define m' where "m' = m\<lparr>structures := (structures m)(a \<mapsto> Some (cell_collector (last_address 0 cs) 0 b (ms @ [s]))),
                          buffers := (buffers m)(b \<mapsto> data')\<rparr>"
  have fits: "length (message_data ms) + (length s + 1) \<le> length data" using room data by linarith
  then have "store_message a s m = Ok (0, m')"
    using cell(1,2) data s
    by (simp add: store_message_def memory_defs strlen_free takeWhile_free cell_collector_def m'_def data'_def message_data_def Let_def
          nat_add_distrib algebra_simps)
  moreover have "buffer_holds (ms @ [s]) data'"
    using free s data fits by (auto simp: buffer_holds_def data'_def message_data_def)
  moreover have "chain_part m' 0 cs a"
    using cell(4,5) chain_part_frame[of cs m' m] by (simp add: m'_def)
  ultimately have "chain_part m' 0 (cs @ [(a, b, ms @ [s])]) 0"
    unfolding chain_part_append by (simp add: head_address_def m'_def)
  moreover have "dom (structures m') = dom (structures m)" "dom (buffers m') = dom (buffers m)" "next_address m' = next_address m"
    using cell by (auto simp: m'_def)
  ultimately have "message_chain m' (cs @ [(a, b, ms @ [s])])"
    using chain unfolding message_chain_def by (cases cs) auto
  then show ?thesis using \<open>store_message a s m = Ok (0, m')\<close> by blast
qed

lemma extend_chain_ok:
  assumes chain: "message_chain m (cs @ [(a, b, ms)])"
  shows "\<exists>t b' m'. extend_chain True True a m = Ok (0, t, m') \<and> message_chain m' ((cs @ [(a, b, ms)]) @ [(t, b', [])])"
proof -
  from chain obtain data where cell: "structures m a = Some (Some (cell_collector (last_address 0 cs) 0 b ms))"
      "buffers m b = Some data" "buffer_holds ms data" "chain_part m 0 cs a" "\<forall>c\<in>set cs. fst c \<noteq> a \<and> fst (snd c) \<noteq> b"
    by (rule chain_lastE)
  let ?t = "next_address m" and ?b = "next_address m + 1"
  have bounds: "\<forall>c\<in>set (cs @ [(a, b, ms)]). fst c < ?t \<and> fst (snd c) < ?t" and top: "stack_address < ?t"
    using chain hd_in_set[of "cs @ [(a, b, ms)]"] unfolding message_chain_def by (blast, metis)
  define m' where "m' = m\<lparr>structures := (structures m)(a \<mapsto> Some (cell_collector (last_address 0 cs) ?t b ms), ?t \<mapsto> Some (cell_collector a 0 ?b [])),
      buffers := (buffers m)(?b \<mapsto> replicate (nat MESSAGE_BUFFER_SIZE) 0), next_address := next_address m + 2\<rparr>"
  have "extend_chain True True a m = Ok (0, ?t, m')"
    using cell(1) bounds
    by (auto simp: extend_chain_def Let_def memory_defs INIT_MESSAGE_BUFFER_def cell_collector_def m'_def message_data_def MESSAGE_BUFFER_SIZE_def fun_upd_twist)
  moreover have "message_chain m' ((cs @ [(a, b, ms)]) @ [(?t, ?b, [])])"
  proof -
    have "chain_part m' 0 cs a"
      using cell(4,5) bounds chain_part_frame[of cs m' m] by (force simp: m'_def)
    moreover have "buffer_holds [] (replicate (nat MESSAGE_BUFFER_SIZE) 0)"
      by (simp add: buffer_holds_def message_data_def MESSAGE_BUFFER_SIZE_def)
    ultimately have "chain_part m' 0 ((cs @ [(a, b, ms)]) @ [(?t, ?b, [])]) 0"
      using cell(2,3) bounds unfolding chain_part_append by (auto simp: head_address_def last_address_def m'_def)
    moreover have "dom (structures m') = insert ?t (dom (structures m))" "dom (buffers m') = insert ?b (dom (buffers m))"
      using cell(1) by (auto simp: m'_def)
    ultimately show ?thesis
      using chain bounds top unfolding message_chain_def by (cases cs) (auto simp: m'_def)
  qed
  ultimately show ?thesis by blast
qed


section \<open>Adding messages to a chain\<close>

definition shown :: "byte list \<Rightarrow> byte list" where
  "shown m = (if int (length m) + 1 > MESSAGE_BUFFER_SIZE then too_long else m)"

lemma shown_ok:
  assumes "0 \<notin> set m"
  shows "0 \<notin> set (shown m)" and "int (length (shown m)) + 1 \<le> MESSAGE_BUFFER_SIZE"
  using assms by (simp_all add: shown_def too_long_def c_literal_def MESSAGE_BUFFER_SIZE_def)

lemma find_last_ok:
  "chain_part m before (cs @ [c]) 0 \<Longrightarrow> 0 \<notin> set (map fst (cs @ [c])) \<Longrightarrow> length cs < fuel \<Longrightarrow>
   find_last fuel (head_address (cs @ [c]) 0) m = Ok (fst c)"
proof (induction cs arbitrary: before fuel)
  case Nil
  then show ?case by (cases c; cases fuel) (auto simp: head_address_def collector_def cell_collector_def)
next
  case (Cons d cs)
  obtain a b ms where d: "d = (a, b, ms)" by (cases d)
  obtain f where f: "fuel = Suc f" "length cs < f" using Cons.prems(3) by (cases fuel) auto
  have "find_last f (head_address (cs @ [c]) 0) m = Ok (fst c)" using Cons.IH[of a f] Cons.prems d f by auto
  moreover have "head_address (cs @ [c]) 0 \<noteq> 0" using Cons.prems(2) by (cases cs) (auto simp: head_address_def)
  ultimately show ?case using Cons.prems(1) by (simp add: d f head_address_def collector_def cell_collector_def)
qed

lemma chain_addresses:
  assumes "message_chain m cells"
  shows "0 \<notin> set (map fst cells)" and "head_address cells after = stack_address"
  using assms by (cases cells; auto simp: message_chain_def stack_address_def head_address_def)+

lemma addMessage_ok:
  assumes chain: "message_chain m cells" and free: "0 \<notin> set msg" and fuel: "length cells \<le> fuel"
  obtains (stored) m' cells' where "addMessageToBuffer fuel m1 True stack_address msg m = Ok (0, m')"
      and "message_chain m' cells'" and "length cells' \<le> length cells + 1"
      and "chain_messages cells' = chain_messages cells @ [shown msg]"
  | (refused) "addMessageToBuffer fuel m1 True stack_address msg m = Ok (MEMORY_ERROR, m)" and "\<not> m1"
proof -
  obtain cs a b ms where cells: "cells = cs @ [(a, b, ms)]"
    using chain by (cases cells rule: rev_cases) (auto simp: message_chain_def)
  let ?s = "shown msg"
  have msg: "(if strlen msg + 1 > MESSAGE_BUFFER_SIZE then too_long else msg) = ?s"
    using free by (simp add: shown_def strlen_free)
  have "find_last fuel stack_address m = Ok a"
    using find_last_ok[of m 0 cs "(a, b, ms)" fuel] chain chain_addresses[OF chain] fuel
    by (simp add: cells message_chain_def)
  moreover have "collector a m = Ok (cell_collector (last_address 0 cs) 0 b ms)"
    using chain[unfolded cells] by (rule chain_lastE) (simp add: collector_def)
  ultimately have add: "addMessageToBuffer fuel m1 True stack_address msg m =
      (if MESSAGE_BUFFER_SIZE - int (length (message_data ms)) < int (length ?s) + 1 then
         res_bind (extend_chain m1 True a m) (\<lambda>(rc, p, m). if rc \<noteq> 0 then Ok (rc, m) else store_message p ?s m)
       else store_message a ?s m)"
    unfolding addMessageToBuffer_def msg by (simp add: Let_def cell_collector_def strlen_free shown_ok[OF free])
  show thesis
  proof (cases "MESSAGE_BUFFER_SIZE - int (length (message_data ms)) < int (length ?s) + 1")
    case False
    then obtain m' where "store_message a ?s m = Ok (0, m')" "message_chain m' (cs @ [(a, b, ms @ [?s])])"
      using store_message_ok[OF chain[unfolded cells] shown_ok(1)[OF free]] by auto
    then show thesis using False add by (intro stored[of m' "cs @ [(a, b, ms @ [?s])]"]) (simp_all add: cells chain_messages_def)
  next
    case extend: True
    show thesis
    proof (cases m1)
      case True
      obtain t b' m1' where ext: "extend_chain True True a m = Ok (0, t, m1')"
          "message_chain m1' ((cs @ [(a, b, ms)]) @ [(t, b', [])])"
        using extend_chain_ok[OF chain[unfolded cells]] by blast
      obtain m' where "store_message t ?s m1' = Ok (0, m')" "message_chain m' ((cs @ [(a, b, ms)]) @ [(t, b', [] @ [?s])])"
        using store_message_ok[OF ext(2) shown_ok(1)[OF free]] shown_ok(2)[OF free] by (auto simp: message_data_def)
      then show thesis using extend add True ext(1)
        by (intro stored[of m' "(cs @ [(a, b, ms)]) @ [(t, b', [] @ [?s])]"]) (simp_all add: cells chain_messages_def)
    next
      case False
      then show thesis using extend add by (intro refused) (simp_all add: extend_chain_def MEMORY_ERROR_def)
    qed
  qed
qed

text \<open>The messages of the calls that returned 0.\<close>

definition kept :: "int list \<Rightarrow> (bool \<times> bool \<times> byte list) list \<Rightarrow> byte list list" where
  "kept rcs calls = map (\<lambda>(rc, m1, m2, msg). shown msg) (filter (\<lambda>(rc, call). rc = 0) (zip rcs calls))"

text \<open>A call returns an error only if the first \<open>malloc\<close> fails.\<close>

definition return_code_ok :: "int \<Rightarrow> bool \<times> bool \<times> byte list \<Rightarrow> bool" where
  "return_code_ok rc call \<longleftrightarrow> rc = 0 \<or> rc = MEMORY_ERROR \<and> \<not> fst call"

lemma MEMORY_ERROR_nonzero: "MEMORY_ERROR \<noteq> 0"
  by (simp add: MEMORY_ERROR_def)

lemma return_code_ok_cases: "return_code_ok 0 call" "\<not> m1 \<Longrightarrow> return_code_ok MEMORY_ERROR (m1, m2, msg)"
  by (simp_all add: return_code_ok_def)

lemma add_messages_ok:
  "message_chain m cells \<Longrightarrow> list_all (\<lambda>(m1, m2, msg). m2 \<and> 0 \<notin> set msg) calls \<Longrightarrow> length cells + length calls \<le> fuel \<Longrightarrow>
   \<exists>rcs m' cells'. add_messages fuel calls m = Ok (rcs, m') \<and> message_chain m' cells' \<and> length cells' \<le> fuel \<and>
     list_all2 return_code_ok rcs calls \<and>
     chain_messages cells' = chain_messages cells @ kept rcs calls"
proof (induction calls arbitrary: m cells)
  case (Cons call calls)
  obtain m1 msg where call: "call = (m1, True, msg)" "0 \<notin> set msg" using Cons.prems(2) by (cases call) auto
  have fuel: "length cells \<le> fuel" using Cons.prems(3) by simp
  show ?case
  proof (cases rule: addMessage_ok[OF Cons.prems(1) call(2) fuel, of m1])
    case (1 m' cells')
    from Cons.IH[OF 1(2)] Cons.prems(2,3) 1(3) obtain rcs m'' cells''
      where "add_messages fuel calls m' = Ok (rcs, m'')" "message_chain m'' cells''" "length cells'' \<le> fuel"
        "list_all2 return_code_ok rcs calls"
        "chain_messages cells'' = chain_messages cells' @ kept rcs calls" by auto
    then show ?thesis using 1 call
      by (intro exI[of _ "0 # rcs"] exI[of _ m''] exI[of _ cells'']) (simp add: kept_def return_code_ok_cases)
  next
    case 2
    from Cons.IH[OF Cons.prems(1)] Cons.prems(2,3) obtain rcs m'' cells''
      where "add_messages fuel calls m = Ok (rcs, m'')" "message_chain m'' cells''" "length cells'' \<le> fuel"
        "list_all2 return_code_ok rcs calls"
        "chain_messages cells'' = chain_messages cells @ kept rcs calls" by auto
    then show ?thesis using 2 call
      by (intro exI[of _ "MEMORY_ERROR # rcs"] exI[of _ m''] exI[of _ cells'']) (simp add: kept_def return_code_ok_cases MEMORY_ERROR_nonzero)
  qed
qed (auto simp: kept_def)


section \<open>Printing a chain and releasing it\<close>

lemma buffer_strings_ok:
  "list_all (\<lambda>m. 0 \<notin> set m) ms \<Longrightarrow> buffer_strings (length ms) (message_data ms @ rest) = Ok (concat ms)"
proof (induction ms)
  case (Cons m ms)
  have "takeWhile (\<lambda>b. b \<noteq> 0) (m @ 0 # xs) = m" for xs :: "byte list"
    using Cons.prems by (induction m) auto
  then show ?case using Cons by (simp add: Let_def message_data_def)
qed simp

text \<open>The backward links are all that the second loop follows; the first one keeps them.\<close>

definition back_links :: "message_memory \<Rightarrow> nat \<rightharpoonup> nat option" where
  "back_links m = (\<lambda>a. map_option (map_option previousMessageCollector) (structures m a))"

lemma back_links_dom: "back_links m = back_links m' \<Longrightarrow> dom (structures m) = dom (structures m')"
  by (auto simp: back_links_def dom_def fun_eq_iff) (metis map_option_is_None option.distinct(1) not_None_eq)+

lemma print_extensions:
  "chain_part m before cs 0 \<Longrightarrow> cs \<noteq> [] \<Longrightarrow> distinct (map fst cs) \<Longrightarrow> distinct (map (fst \<circ> snd) cs) \<Longrightarrow>
   \<forall>c\<in>set cs. stack_address < fst c \<and> stack_address < fst (snd c) \<Longrightarrow> 1 < k \<Longrightarrow> length cs \<le> fuel \<Longrightarrow>
   \<exists>m'. print_loop fuel k (head_address cs 0) m = Ok (concat (chain_messages cs), last_address before cs, m') \<and>
     buffers m' = buffers m |` (- set (map (fst \<circ> snd) cs)) \<and> back_links m' = back_links m"
proof (induction cs arbitrary: m before k fuel)
  case (Cons c cs)
  obtain a b ms where c: "c = (a, b, ms)" by (cases c)
  obtain f where f: "fuel = Suc f" "length cs \<le> f" using Cons.prems(7) by (cases fuel) auto
  let ?c = "cell_collector before (head_address cs 0) b ms"
  from Cons.prems(1) obtain data rest where cell: "structures m a = Some (Some ?c)" "buffers m b = Some data"
      "data = message_data ms @ rest" "list_all (\<lambda>m. 0 \<notin> set m) ms" "chain_part m a cs 0"
    by (auto simp: c buffer_holds_def)
  define m1 where "m1 = m\<lparr>buffers := (buffers m)(b := None), structures := (structures m)(a \<mapsto> Some (?c\<lparr>messageData := 0\<rparr>))\<rparr>"
  have m1: "back_links m1 = back_links m" using cell(1) by (auto simp: m1_def back_links_def cell_collector_def)
  have step: "print_loop fuel k a m =
      (if head_address cs 0 \<noteq> 0
       then res_bind (print_loop f (k + 1) (head_address cs 0) m1) (\<lambda>(rest, q, m). Ok (concat ms @ rest, q, m))
       else Ok (concat ms, a, m1))"
    using cell Cons.prems(5,6) buffer_strings_ok[OF cell(4), of rest]
    by (simp add: f c collector_def free_buffer_def set_collector_def cell_collector_def m1_def domI)
  show ?case
  proof (cases "cs = []")
    case True
    then show ?thesis using step m1 by (simp add: c head_address_def last_address_def chain_messages_def m1_def fun_upd_def
          restrict_map_def fun_eq_iff)
  next
    case False
    have "chain_part m1 a cs 0 = chain_part m a cs 0"
      using Cons.prems(3,4) by (intro chain_part_frame) (force simp: m1_def c)
    then obtain m' where m': "print_loop f (k + 1) (head_address cs 0) m1 = Ok (concat (chain_messages cs), last_address a cs, m')"
        "buffers m' = buffers m1 |` (- set (map (fst \<circ> snd) cs))" "back_links m' = back_links m1"
      using Cons.IH[of m1 a "k + 1" f] Cons.prems cell(5) False f(2) by auto
    have "buffers m' = buffers m |` (- set (map (fst \<circ> snd) (c # cs)))"
      using m'(2) by (auto simp: m1_def c restrict_map_def fun_eq_iff)
    moreover have "head_address cs 0 \<noteq> 0" using False Cons.prems(5) by (cases cs) (auto simp: head_address_def)
    ultimately show ?thesis using step m'(1,3) m1 False
      by (simp add: c head_address_def last_address_def chain_messages_def)
  qed
qed simp

fun back_chain :: "message_memory \<Rightarrow> nat list \<Rightarrow> bool" where
  "back_chain m [] \<longleftrightarrow> True"
| "back_chain m (p # ps) \<longleftrightarrow> back_links m p = Some (Some (case ps of [] \<Rightarrow> 0 | q # _ \<Rightarrow> q)) \<and> back_chain m ps"

lemma chain_part_back_chain:
  "chain_part m 0 cs after \<Longrightarrow> back_chain m (rev (map fst cs))"
proof (induction cs arbitrary: after rule: rev_induct)
  case (snoc c cs)
  obtain a b ms where c: "c = (a, b, ms)" by (cases c)
  have "(case rev (map fst cs) of [] \<Rightarrow> 0 | q # _ \<Rightarrow> q) = last_address 0 cs"
    by (cases cs rule: rev_cases) (auto simp: last_address_def)
  then show ?case using snoc by (auto simp: chain_part_append c back_links_def cell_collector_def)
qed simp

lemma back_chain_frame: "(\<And>p. p \<in> set ps \<Longrightarrow> back_links m' p = back_links m p) \<Longrightarrow> back_chain m' ps = back_chain m ps"
  by (induction ps) auto

lemma release_ok:
  "back_chain m (p # ps) \<Longrightarrow> distinct (p # ps) \<Longrightarrow> \<forall>q\<in>set (butlast (p # ps)). stack_address < q \<Longrightarrow> 0 \<notin> set (p # ps) \<Longrightarrow>
   length ps < fuel \<Longrightarrow>
   \<exists>m'. release_loop fuel p (case ps of [] \<Rightarrow> 0 | q # _ \<Rightarrow> q) m = Ok m' \<and> buffers m' = buffers m \<and>
     structures m' = structures m |` (- set (butlast (p # ps)))"
proof (induction ps arbitrary: p m fuel)
  case Nil
  then show ?case by (cases fuel) (auto simp: restrict_map_def)
next
  case (Cons q ps)
  obtain f where f: "fuel = Suc f" "length ps < f" using Cons.prems(5) by (cases fuel) auto
  define m1 where "m1 = m\<lparr>structures := (structures m)(p := None)\<rparr>"
  have "free_collector p m = Ok m1"
    using Cons.prems by (auto simp: free_collector_def m1_def back_links_def)
  moreover obtain c where "structures m q = Some (Some c)" "previousMessageCollector c = (case ps of [] \<Rightarrow> 0 | q # _ \<Rightarrow> q)"
    using Cons.prems(1) by (auto simp: back_links_def)
  moreover have "back_chain m1 (q # ps) = back_chain m (q # ps)"
    using Cons.prems(2) by (intro back_chain_frame) (auto simp: m1_def back_links_def)
  moreover from this obtain m' where "release_loop f q (case ps of [] \<Rightarrow> 0 | q # _ \<Rightarrow> q) m1 = Ok m'" "buffers m' = buffers m1"
      "structures m' = structures m1 |` (- set (butlast (q # ps)))"
    using Cons.IH[of m1 q f] Cons.prems f(2) by auto
  ultimately show ?case using Cons.prems(2,4)
    by (auto simp: f collector_def m1_def restrict_map_def fun_eq_iff)
qed


lemma print_chain:
  assumes chain: "message_chain m cells" and fuel: "length cells \<le> fuel"
  shows "\<exists>m'. print_loop fuel 1 stack_address m = Ok (concat (chain_messages cells), fst (last cells), m') \<and>
    dom (buffers m') = {stack_address} \<and> back_links m' = back_links m"
proof -
  obtain ms cs where cells: "cells = (stack_address, stack_address, ms) # cs"
    using chain by (cases cells) (auto simp: message_chain_def)
  obtain f where f: "fuel = Suc f" "length cs \<le> f" using fuel by (cases fuel) (auto simp: cells)
  from chain obtain data rest where cell: "structures m stack_address = Some (Some (cell_collector 0 (head_address cs 0) stack_address ms))"
      "buffers m stack_address = Some data" "data = message_data ms @ rest" "list_all (\<lambda>m. 0 \<notin> set m) ms"
      "chain_part m stack_address cs 0"
    by (auto simp: message_chain_def cells buffer_holds_def)
  have step: "print_loop fuel 1 stack_address m =
      (if head_address cs 0 \<noteq> 0
       then res_bind (print_loop f 2 (head_address cs 0) m) (\<lambda>(rest, q, m). Ok (concat ms @ rest, q, m))
       else Ok (concat ms, stack_address, m))"
    using cell buffer_strings_ok[OF cell(4), of rest] by (simp add: f collector_def cell_collector_def numeral_2_eq_2)
  have dom: "dom (buffers m) = insert stack_address (set (map (fst \<circ> snd) cs))" and "stack_address \<notin> set (map (fst \<circ> snd) cs)"
    using chain by (auto simp: message_chain_def cells)
  show ?thesis
  proof (cases "cs = []")
    case True
    then show ?thesis using step dom by (simp add: cells head_address_def chain_messages_def)
  next
    case False
    obtain m' where m': "print_loop f 2 (head_address cs 0) m = Ok (concat (chain_messages cs), last_address stack_address cs, m')"
        "buffers m' = buffers m |` (- set (map (fst \<circ> snd) cs))" "back_links m' = back_links m"
      using print_extensions[OF cell(5) False _ _ _ _ f(2), of 2] chain by (auto simp: message_chain_def cells)
    have "dom (buffers m') = {stack_address}"
      using m'(2) dom \<open>stack_address \<notin> set (map (fst \<circ> snd) cs)\<close> by auto
    moreover have "head_address cs 0 \<noteq> 0"
      using False chain_addresses(1)[OF chain] by (cases cs) (auto simp: head_address_def cells)
    ultimately show ?thesis using step m'(1,3) False by (simp add: cells last_address_def chain_messages_def)
  qed
qed

lemma print_release_ok:
  assumes chain: "message_chain m cells" and fuel: "length cells \<le> fuel"
  shows "\<exists>m'. printMessageBuffersAndRelease fuel stack_address m = Ok (0, concat (chain_messages cells), m') \<and>
    dom (structures m') = {stack_address} \<and> dom (buffers m') = {stack_address}"
proof -
  obtain m1 where m1: "print_loop fuel 1 stack_address m = Ok (concat (chain_messages cells), fst (last cells), m1)"
      "dom (buffers m1) = {stack_address}" "back_links m1 = back_links m"
    using print_chain[OF assms] by blast
  obtain a b ms cs where hd: "cells = (a, b, ms) # cs" "a = stack_address" using chain by (cases cells) (auto simp: message_chain_def)
  obtain p ps where ps: "rev (map fst cells) = p # ps" "p = fst (last cells)"
    using chain by (cases cells rule: rev_cases) (auto simp: message_chain_def)
  have front: "butlast (p # ps) = rev (map fst cs)" using ps(1)[symmetric] by (simp add: hd butlast_append)
  have links: "back_chain m (p # ps)" using chain_part_back_chain[of m cells 0] chain ps(1) by (auto simp: message_chain_def)
  then have "back_chain m1 (p # ps)" using back_chain_frame[of "p # ps" m1 m] m1(3) by auto
  moreover have "distinct (p # ps)" "0 \<notin> set (p # ps)"
    using chain chain_addresses(1)[OF chain] unfolding ps(1)[symmetric] by (auto simp: message_chain_def)
  moreover have "\<forall>q\<in>set (butlast (p # ps)). stack_address < q"
    unfolding front using chain by (auto simp: message_chain_def hd)
  moreover have "length ps < fuel" using fuel arg_cong[OF ps(1), of length] by simp
  ultimately obtain m2 where m2: "release_loop fuel p (case ps of [] \<Rightarrow> 0 | q # _ \<Rightarrow> q) m1 = Ok m2" "buffers m2 = buffers m1"
      "structures m2 = structures m1 |` (- set (butlast (p # ps)))"
    using release_ok by blast
  have "dom (structures m1) = set (map fst cells)"
    using back_links_dom[OF m1(3)] chain by (simp add: message_chain_def)
  then have "dom (structures m2) = {stack_address}"
    using m2(3) chain unfolding front by (auto simp: message_chain_def hd)
  moreover obtain c where "collector p m1 = Ok c" "previousMessageCollector c = (case ps of [] \<Rightarrow> 0 | q # _ \<Rightarrow> q)"
    using \<open>back_chain m1 (p # ps)\<close> by (auto simp: back_links_def collector_def)
  ultimately show ?thesis using m1 m2(1,2) ps(2) by (simp add: printMessageBuffersAndRelease_def)
qed

lemma first_collector_chain: "\<exists>m. first_collector b = Ok m \<and> message_chain m [(stack_address, stack_address, [])]"
proof -
  have "buffer_holds [] (replicate 2048 0)" by (simp add: buffer_holds_def message_data_def MESSAGE_BUFFER_SIZE_def)
  then show ?thesis
    by (auto simp: first_collector_def local_messages_def INIT_MESSAGE_BUFFER_def memory_defs message_chain_def head_address_def
        cell_collector_def message_data_def stack_address_def MESSAGE_BUFFER_SIZE_def)
qed

text \<open>
  A second \<open>malloc\<close> that fails leaves a structure in the chain that was not set up: the call returns
  an error, and every later call uses the structure.
\<close>

lemma find_last_unset:
  "chain_part m before cs t \<Longrightarrow> 0 \<notin> set (map fst cs) \<Longrightarrow> t \<noteq> 0 \<Longrightarrow> structures m t = Some None \<Longrightarrow> length cs < fuel \<Longrightarrow>
   find_last fuel (head_address cs t) m = Fault"
proof (induction cs arbitrary: before fuel)
  case Nil
  then show ?case by (cases fuel) (auto simp: head_address_def collector_def)
next
  case (Cons d cs)
  obtain a b ms where d: "d = (a, b, ms)" by (cases d)
  obtain f where f: "fuel = Suc f" "length cs < f" using Cons.prems(5) by (cases fuel) auto
  have "find_last f (head_address cs t) m = Fault" using Cons.IH[of a f] Cons.prems d f by auto
  moreover have "head_address cs t \<noteq> 0" using Cons.prems(2,3) by (cases cs) (auto simp: head_address_def)
  ultimately show ?case using Cons.prems(1) by (simp add: d f head_address_def collector_def cell_collector_def)
qed

lemma unset_collector_faults:
  assumes chain: "message_chain m (cs @ [(a, b, ms)])"
  shows "\<exists>m'. extend_chain True False a m = Ok (MEMORY_ERROR, a, m') \<and>
    (length cs + 1 < fuel \<longrightarrow> addMessageToBuffer fuel m1 m2 stack_address msg m' = Fault)"
proof -
  from chain obtain data where cell: "structures m a = Some (Some (cell_collector (last_address 0 cs) 0 b ms))"
      "buffers m b = Some data" "buffer_holds ms data" "chain_part m 0 cs a" "\<forall>c\<in>set cs. fst c \<noteq> a \<and> fst (snd c) \<noteq> b"
    by (rule chain_lastE)
  let ?t = "next_address m"
  define m' where "m' = set_collector a (cell_collector (last_address 0 cs) ?t b ms) (malloc_collector m)"
  have bounds: "\<forall>c\<in>set (cs @ [(a, b, ms)]). fst c < ?t" using chain by (auto simp: message_chain_def)
  have "chain_part m' 0 cs a"
    using cell(4,5) bounds chain_part_frame[of cs m' m] by (force simp: m'_def memory_defs)
  then have "chain_part m' 0 (cs @ [(a, b, ms)]) ?t"
    using cell(2,3) unfolding chain_part_append by (auto simp: head_address_def m'_def memory_defs)
  then have "find_last fuel stack_address m' = Fault" if "length cs + 1 < fuel"
    using find_last_unset[of m' 0 "cs @ [(a, b, ms)]" ?t fuel] chain_addresses[OF chain] bounds that
    by (auto simp: m'_def memory_defs)
  moreover have "extend_chain True False a m = Ok (MEMORY_ERROR, a, m')"
    using cell(1) bounds by (auto simp: extend_chain_def Let_def m'_def memory_defs cell_collector_def)
  ultimately show ?thesis by (auto simp: addMessageToBuffer_def)
qed

text \<open>
  C27: The chain of message buffers refines a queue of messages.  From the local collector of a command,
  with fuel for the number of messages and as long as the \<open>malloc\<close> of a buffer behind a new structure
  succeeds: adding NUL free messages never writes behind a buffer, and a call fails, with
  \<open>MEMORY_ERROR\<close>, only if the \<open>malloc\<close> of its new structure does; printing then gives the messages of the
  successful calls in the order they were added, a message longer than a buffer replaced by a fixed
  text; and it follows the links back and frees every structure and every buffer that came from
  \<open>malloc\<close>, once, so that the local structure and its buffer are all that is left.
\<close>

theorem messages_printed_in_order:
  assumes "list_all (\<lambda>(m1, m2, msg). m2 \<and> 0 \<notin> set msg) calls" and "length calls < fuel"
  shows "\<exists>m rcs m' m''. first_collector b = Ok m \<and> add_messages fuel calls m = Ok (rcs, m') \<and>
    list_all2 return_code_ok rcs calls \<and>
    printMessageBuffersAndRelease fuel stack_address m' = Ok (0, concat (kept rcs calls), m'') \<and>
    dom (structures m'') = {stack_address} \<and> dom (buffers m'') = {stack_address}"
proof -
  obtain m where m: "first_collector b = Ok m" "message_chain m [(stack_address, stack_address, [])]"
    using first_collector_chain by blast
  obtain rcs m' cells' where m': "add_messages fuel calls m = Ok (rcs, m')" "message_chain m' cells'" "length cells' \<le> fuel"
      "list_all2 return_code_ok rcs calls" "chain_messages cells' = kept rcs calls"
    using add_messages_ok[OF m(2) assms(1), of fuel] assms(2) by (auto simp: chain_messages_def)
  from print_release_ok[OF m'(2,3)] m m' show ?thesis by auto
qed

theorem messages_printed_in_order_witness:
  "\<exists>m m' m''. first_collector 7 = Ok m \<and>
    add_messages 3 [(True, True, replicate 1500 65), (True, True, replicate 1500 66)] m = Ok ([0, 0], m') \<and>
    printMessageBuffersAndRelease 3 stack_address m' = Ok (0, replicate 1500 65 @ replicate 1500 66, m'') \<and>
    dom (structures m'') = {stack_address} \<and> dom (buffers m'') = {stack_address}"
proof -
  let ?calls = "[(True, True, replicate 1500 (65 :: byte)), (True, True, replicate 1500 66)]"
  have codes: "list_all2 return_code_ok rcs ?calls \<Longrightarrow> rcs = [0, 0]" for rcs
    by (auto simp: list_all2_Cons2 return_code_ok_def)
  have "concat (kept [0, 0] ?calls) = replicate 1500 65 @ replicate 1500 66"
    by (simp add: kept_def shown_def MESSAGE_BUFFER_SIZE_def)
  moreover obtain m rcs m' m'' where "first_collector 7 = Ok m" "add_messages 3 ?calls m = Ok (rcs, m')"
      "list_all2 return_code_ok rcs ?calls"
      "printMessageBuffersAndRelease 3 stack_address m' = Ok (0, concat (kept rcs ?calls), m'')"
      "dom (structures m'') = {stack_address}" "dom (buffers m'') = {stack_address}"
    using messages_printed_in_order[of ?calls 3 7] by auto
  ultimately show ?thesis using codes by metis
qed

end
