(* ===== verification/Record_List.thy ===== *)
theory Record_List
  imports Zthin_Prelude
begin

text \<open>
  The linked list of records of \<^verbatim>\<open>src/smapiUtilities.c\<close>.  Records live in a heap, a finite map from
  addresses to records; address 0 is the null pointer and reading or freeing what is not in the heap is
  \<open>Fault\<close>.  A list has its first record, a cursor and its size.  The loops over the records take
  fuel; a list of \<open>n\<close> records needs \<open>n\<close> steps.

  The abstract value of a list is the sequence of the addresses of its records with the cursor.
\<close>

section \<open>The list and its operations\<close>

record list_record =
  nextP :: nat
  data :: "byte list"

type_synonym record_heap = "nat \<rightharpoonup> list_record"

record record_list =
  firstP :: nat
  currentP :: nat
  list_size :: "32 word"

definition load :: "record_heap \<Rightarrow> nat \<Rightarrow> (list_record \<Rightarrow> 'a res) \<Rightarrow> 'a res" where
  "load h p k = (case h p of None \<Rightarrow> Fault | Some r \<Rightarrow> k r)"

definition store_next :: "nat \<Rightarrow> nat \<Rightarrow> record_heap \<Rightarrow> record_heap res" where
  "store_next p q h = load h p (\<lambda>r. Ok (h(p \<mapsto> r\<lparr>nextP := q\<rparr>)))"

definition free_record :: "nat \<Rightarrow> record_heap \<Rightarrow> record_heap res" where
  "free_record p h = (if p = 0 then Ok h else load h p (\<lambda>r. Ok (h(p := None))))"

text \<open>The loop of \<open>listAppendRecord\<close> to the last record.\<close>

fun last_record :: "nat \<Rightarrow> record_heap \<Rightarrow> nat \<Rightarrow> nat res" where
  "last_record 0 h p = NoFuel"
| "last_record (Suc n) h p = load h p (\<lambda>r. if nextP r \<noteq> 0 then last_record n h (nextP r) else Ok p)"

definition listAppendRecord :: "nat \<Rightarrow> nat \<Rightarrow> record_list \<times> record_heap \<Rightarrow> (record_list \<times> record_heap) res" where
  "listAppendRecord fuel aRecordP = (\<lambda>(l, h).
     res_bind
       (if firstP l = 0 then Ok (l\<lparr>firstP := aRecordP\<rparr>, h)
        else
          res_bind (if currentP l = 0 then last_record fuel h (firstP l) else Ok (currentP l)) (\<lambda>c.
          res_bind (store_next c aRecordP h) (\<lambda>h. Ok (l, h))))
       (\<lambda>(l, h). res_bind (store_next aRecordP 0 h) (\<lambda>h.
          Ok (l\<lparr>currentP := aRecordP, list_size := list_size l + 1\<rparr>, h))))"

text \<open>The loop of \<open>listDeleteCurrent\<close> to the record before the current one.\<close>

fun find_before :: "nat \<Rightarrow> record_heap \<Rightarrow> nat \<Rightarrow> nat \<Rightarrow> nat res" where
  "find_before 0 h p c = NoFuel"
| "find_before (Suc n) h p c =
     (if p = 0 then Ok 0 else load h p (\<lambda>r. if nextP r \<noteq> c then find_before n h (nextP r) c else Ok p))"

definition listDeleteCurrent :: "nat \<Rightarrow> record_list \<times> record_heap \<Rightarrow> (record_list \<times> record_heap) res" where
  "listDeleteCurrent fuel = (\<lambda>(l, h).
     if firstP l = 0 \<or> currentP l = 0 then Ok (l, h)
     else
       (let c = currentP l in
        res_bind
          (if firstP l = c then load h c (\<lambda>r. Ok (l\<lparr>currentP := nextP r, firstP := nextP r\<rparr>, h))
           else
             res_bind (find_before fuel h (firstP l) c) (\<lambda>prevP.
               if prevP \<noteq> 0 then load h c (\<lambda>r. res_bind (store_next prevP (nextP r) h) (\<lambda>h. Ok (l, h)))
               else Ok (l, h)))
          (\<lambda>(l, h). res_bind (free_record c h) (\<lambda>h. Ok (l\<lparr>list_size := list_size l - 1\<rparr>, h)))))"

definition listDequeueRecord :: "record_list \<times> record_heap \<Rightarrow> (nat \<times> record_list \<times> record_heap) res" where
  "listDequeueRecord = (\<lambda>(l, h).
     if firstP l = 0 then Ok (0, l, h)
     else load h (firstP l) (\<lambda>r.
       Ok (firstP l,
           l\<lparr>currentP := (if firstP l = currentP l then nextP r else currentP l),
             firstP := nextP r, list_size := list_size l - 1\<rparr>, h)))"

fun free_records :: "nat \<Rightarrow> nat \<Rightarrow> record_heap \<Rightarrow> record_heap res" where
  "free_records 0 p h = NoFuel"
| "free_records (Suc n) p h =
     (if p = 0 then Ok h else load h p (\<lambda>r. res_bind (free_record p h) (free_records n (nextP r))))"

definition listFree :: "nat \<Rightarrow> record_list \<times> record_heap \<Rightarrow> (record_list \<times> record_heap) res" where
  "listFree fuel = (\<lambda>(l, h).
     res_bind (free_records fuel (firstP l) h) (\<lambda>h.
       Ok (l\<lparr>firstP := 0, currentP := 0, list_size := 0\<rparr>, h)))"

definition listNextRecord :: "record_list \<times> record_heap \<Rightarrow> (nat \<times> record_list \<times> record_heap) res" where
  "listNextRecord = (\<lambda>(l, h).
     if currentP l = 0 then Ok (firstP l, l\<lparr>currentP := firstP l\<rparr>, h)
     else load h (currentP l) (\<lambda>r. Ok (nextP r, l\<lparr>currentP := nextP r\<rparr>, h)))"

definition listReset :: "record_list \<times> record_heap \<Rightarrow> record_list \<times> record_heap" where
  "listReset = (\<lambda>(l, h). (l\<lparr>currentP := 0\<rparr>, h))"

section \<open>Chains of records\<close>

text \<open>A segment of a chain, from \<open>p\<close> over the records of the list to \<open>q\<close>.\<close>

fun segment :: "record_heap \<Rightarrow> nat \<Rightarrow> nat list \<Rightarrow> nat \<Rightarrow> bool" where
  "segment h p [] q \<longleftrightarrow> p = q"
| "segment h p (x # xs) q \<longleftrightarrow> p = x \<and> x \<noteq> 0 \<and> (\<exists>r. h x = Some r \<and> segment h (nextP r) xs q)"

abbreviation chain :: "record_heap \<Rightarrow> nat \<Rightarrow> nat list \<Rightarrow> bool" where
  "chain h p xs \<equiv> segment h p xs 0"

text \<open>
  A list that is well formed: its records form a chain without repetition, its size counts them,
  and the cursor is null or one of them.
\<close>

definition list_ok :: "record_list \<times> record_heap \<Rightarrow> nat list \<Rightarrow> bool" where
  "list_ok = (\<lambda>(l, h) xs. chain h (firstP l) xs \<and> distinct xs \<and> list_size l = of_nat (length xs) \<and>
     (currentP l = 0 \<or> currentP l \<in> set xs))"

lemma load_Some [simp]: "h p = Some r \<Longrightarrow> load h p k = k r" "h p = None \<Longrightarrow> load h p k = Fault"
  by (simp_all add: load_def)

lemma segment_append: "segment h p (xs @ ys) q \<longleftrightarrow> (\<exists>m. segment h p xs m \<and> segment h m ys q)"
  by (induction xs arbitrary: p) auto

lemma segment_nonzero: "segment h p xs q \<Longrightarrow> 0 \<notin> set xs"
  by (induction xs arbitrary: p) auto

lemma segment_in_heap: "segment h p xs q \<Longrightarrow> x \<in> set xs \<Longrightarrow> \<exists>r. h x = Some r"
  by (induction xs arbitrary: p) auto

lemma segment_frame [intro]: "segment h p xs q \<Longrightarrow> (\<And>x. x \<in> set xs \<Longrightarrow> h' x = h x) \<Longrightarrow> segment h' p xs q"
  by (induction xs arbitrary: p) auto

lemma segment_upd [simp]: "x \<notin> set xs \<Longrightarrow> segment (h(x := v)) p xs q \<longleftrightarrow> segment h p xs q"
  by (induction xs arbitrary: p) auto

lemma chain_first: "chain h p xs \<Longrightarrow> p = 0 \<longleftrightarrow> xs = []"
  by (cases xs) auto

lemma list_okD:
  assumes "list_ok (l, h) xs"
  shows "chain h (firstP l) xs" "distinct xs" "list_size l = of_nat (length xs)"
    "currentP l \<noteq> 0 \<Longrightarrow> currentP l \<in> set xs" "firstP l = 0 \<longleftrightarrow> xs = []"
  using assms chain_first by (auto simp: list_ok_def)

lemma last_record_chain:
  "chain h p xs \<Longrightarrow> xs \<noteq> [] \<Longrightarrow> length xs \<le> n \<Longrightarrow> last_record n h p = Ok (last xs)"
proof (induction xs arbitrary: p n)
  case (Cons x xs)
  then obtain r m where "h x = Some r" "chain h (nextP r) xs" "n = Suc m" by (cases n) auto
  then show ?case using Cons by (cases xs) auto
qed simp

lemma find_before_chain:
  assumes "segment h p (ys @ [b]) c" and "c \<notin> set (ys @ [b])" and "Suc (length ys) \<le> n"
  shows "find_before n h p c = Ok b"
  using assms
proof (induction ys arbitrary: p n)
  case Nil
  then show ?case by (cases n) auto
next
  case (Cons y ys)
  then obtain r m where r: "h y = Some r" "segment h (nextP r) (ys @ [b]) c" "p = y" "y \<noteq> 0" "n = Suc m"
    by (cases n) auto
  moreover have "nextP r \<noteq> c" using r(2) Cons.prems(2) by (cases ys) auto
  ultimately show ?case using Cons by simp
qed

lemma free_records_chain:
  assumes "chain h p xs" "distinct xs" "length xs < n"
  shows "free_records n p h = Ok (h |` (- set xs))"
  using assms
proof (induction xs arbitrary: p h n)
  case Nil
  then show ?case by (cases n) (auto simp: restrict_map_def)
next
  case (Cons x xs)
  then obtain r m where r: "h x = Some r" "chain h (nextP r) xs" "p = x" "x \<noteq> 0" "n = Suc m"
    by (cases n) auto
  have "chain (h(x := None)) (nextP r) xs" using r(2) Cons.prems(2) by simp
  then have "free_records m (nextP r) (h(x := None)) = Ok (h(x := None) |` (- set xs))"
    using Cons.prems r(5) by (intro Cons.IH) auto
  moreover have "h(x := None) |` (- set xs) = h |` (- set (x # xs))"
    by (rule ext) (simp add: restrict_map_def)
  ultimately show ?case using r by (simp add: free_record_def)
qed

section \<open>The operations on the abstract list\<close>

text \<open>
  The abstract list is the sequence of records with the cursor; each operation of the code refines
  the operation that its comment describes.
\<close>

lemma listAppendRecord_ok:
  assumes "list_ok (l, h) xs" and "currentP l = 0 \<or> xs = [] \<or> currentP l = last xs"
    and "aRecordP \<noteq> 0" "aRecordP \<notin> set xs" "h aRecordP = Some r" and "length xs \<le> fuel"
  shows "\<exists>l' h'. listAppendRecord fuel aRecordP (l, h) = Ok (l', h') \<and> list_ok (l', h') (xs @ [aRecordP]) \<and>
    currentP l' = aRecordP \<and> map_option data \<circ> h' = map_option data \<circ> h"
proof (cases "xs = []")
  case True
  have "map_option data \<circ> h(aRecordP \<mapsto> r\<lparr>nextP := 0\<rparr>) = map_option data \<circ> h"
    using assms(5) by (auto simp: fun_eq_iff)
  then show ?thesis
    using True assms list_okD [OF assms(1)]
    by (auto simp: listAppendRecord_def store_next_def list_ok_def)
next
  case False
  define c where "c = last xs"
  obtain ys where xs: "xs = ys @ [c]" using False unfolding c_def by (metis append_butlast_last_id)
  note ok = list_okD [OF assms(1)]
  obtain rc where rc: "h c = Some rc" "nextP rc = 0" and seg: "segment h (firstP l) ys c" "c \<noteq> 0"
    using ok(1) by (auto simp: xs segment_append)
  have cur: "(if currentP l = 0 then last_record fuel h (firstP l) else Ok (currentP l)) = Ok c"
    using assms(2,6) last_record_chain [OF ok(1) False] False by (auto simp: c_def)
  have ne: "c \<noteq> aRecordP" using assms(4) by (simp add: xs)
  let ?h = "(h(c \<mapsto> rc\<lparr>nextP := aRecordP\<rparr>))(aRecordP \<mapsto> r\<lparr>nextP := 0\<rparr>)"
  have run: "listAppendRecord fuel aRecordP (l, h) =
      Ok (l\<lparr>currentP := aRecordP, list_size := list_size l + 1\<rparr>, ?h)"
    using False ok(5) rc assms(5) ne by (simp add: listAppendRecord_def cur store_next_def)
  have "segment ?h (firstP l) ys c" using seg(1) ok(2) assms(4) by (simp add: xs)
  then have "chain ?h (firstP l) (xs @ [aRecordP])"
    using seg(2) ne assms(3) by (auto simp: xs segment_append)
  then have "list_ok (l\<lparr>currentP := aRecordP, list_size := list_size l + 1\<rparr>, ?h) (xs @ [aRecordP])"
    using ok(2,3) assms(4) by (simp add: list_ok_def)
  moreover have "map_option data \<circ> ?h = map_option data \<circ> h"
    using rc(1) assms(5) by (auto simp: fun_eq_iff)
  ultimately show ?thesis using run by auto
qed

lemma listDequeueRecord_ok:
  assumes "list_ok (l, h) xs"
  shows "\<exists>l'. listDequeueRecord (l, h) = Ok (if xs = [] then 0 else hd xs, l', h) \<and> list_ok (l', h) (tl xs)"
proof (cases xs)
  case Nil
  then show ?thesis using assms list_okD [OF assms] by (simp add: listDequeueRecord_def)
next
  case (Cons x xs')
  then obtain r where r: "firstP l = x" "x \<noteq> 0" "h x = Some r" "chain h (nextP r) xs'"
    using list_okD(1) [OF assms] by auto
  have "nextP r = 0 \<or> nextP r \<in> set xs'" using r(4) by (cases xs') auto
  then show ?thesis
    using assms r by (auto simp: listDequeueRecord_def Cons list_ok_def)
qed

lemma listFree_ok:
  assumes "list_ok (l, h) xs" and "length xs < fuel"
  shows "\<exists>l'. listFree fuel (l, h) = Ok (l', h |` (- set xs)) \<and> list_ok (l', h |` (- set xs)) []"
  using free_records_chain [OF list_okD(1,2) [OF assms(1)] assms(2)]
  by (auto simp: listFree_def list_ok_def)

text \<open>The cursor moves to the next record, and from the end back to the first one.\<close>

fun next_of :: "nat list \<Rightarrow> nat \<Rightarrow> nat" where
  "next_of [] c = 0"
| "next_of (x # xs) c = (if x = c then (if xs = [] then 0 else hd xs) else next_of xs c)"

lemma segment_next:
  "chain h p xs \<Longrightarrow> distinct xs \<Longrightarrow> c \<in> set xs \<Longrightarrow> \<exists>r. h c = Some r \<and> nextP r = next_of xs c"
proof (induction xs arbitrary: p)
  case (Cons x xs)
  then obtain r where r: "h x = Some r" "chain h (nextP r) xs" by auto
  show ?case
  proof (cases "x = c")
    case True
    then show ?thesis using r by (cases xs) auto
  next
    case False
    then show ?thesis using Cons r by auto
  qed
qed simp

lemma next_of_in: "next_of xs c = 0 \<or> next_of xs c \<in> set xs"
  by (induction xs) auto

lemma listNextRecord_ok:
  assumes "list_ok (l, h) xs"
  shows "\<exists>l'. listNextRecord (l, h) =
      Ok (if currentP l = 0 then (if xs = [] then 0 else hd xs) else next_of xs (currentP l), l', h) \<and>
    list_ok (l', h) xs \<and>
    currentP l' = (if currentP l = 0 then (if xs = [] then 0 else hd xs) else next_of xs (currentP l))"
proof (cases "currentP l = 0")
  case True
  then show ?thesis using assms by (cases xs) (auto simp: listNextRecord_def list_ok_def)
next
  case False
  then have "currentP l \<in> set xs" using list_okD(4) [OF assms] by simp
  with segment_next [OF list_okD(1,2) [OF assms]] obtain r
    where "h (currentP l) = Some r" "nextP r = next_of xs (currentP l)" by blast
  then show ?thesis
    using False assms next_of_in [of xs "currentP l"] by (auto simp: listNextRecord_def list_ok_def)
qed


lemma listDeleteCurrent_first:
  assumes "list_ok (l, h) (x # xs)" and "currentP l = x"
  shows "\<exists>l'. listDeleteCurrent fuel (l, h) = Ok (l', h(x := None)) \<and> list_ok (l', h(x := None)) xs"
proof -
  obtain r where r: "firstP l = x" "x \<noteq> 0" "h x = Some r" "chain h (nextP r) xs"
    using list_okD(1) [OF assms(1)] by auto
  have "nextP r = 0 \<or> nextP r \<in> set xs" using r(4) by (cases xs) auto
  then show ?thesis
    using assms r list_okD(2,3) [OF assms(1)]
    by (simp add: listDeleteCurrent_def free_record_def list_ok_def)
qed

text \<open>Behind the first record the record is unlinked and freed, and the cursor still points to it.\<close>

lemma listDeleteCurrent_inner:
  assumes "list_ok (l, h) (ys @ b # c # zs)" and "currentP l = c" and "length ys < fuel"
  shows "\<exists>l' h'. listDeleteCurrent fuel (l, h) = Ok (l', h') \<and> chain h' (firstP l') (ys @ b # zs) \<and>
    currentP l' = c \<and> h' c = None"
proof -
  note ok = list_okD [OF assms(1)]
  obtain rb rc where r: "h b = Some rb" "nextP rb = c" "h c = Some rc" "b \<noteq> 0" "c \<noteq> 0"
    and seg: "segment h (firstP l) ys b" "chain h (nextP rc) zs"
    using ok(1) by (auto simp: segment_append)
  have first: "firstP l \<noteq> c" "firstP l \<noteq> 0" using seg(1) ok(2) r(4) by (cases ys; auto)+
  have "segment h (firstP l) (ys @ [b]) c" using seg(1) r by (auto simp: segment_append)
  then have before: "find_before fuel h (firstP l) c = Ok b"
    by (rule find_before_chain) (use ok(2) assms(3) in auto)
  let ?h = "(h(b \<mapsto> rb\<lparr>nextP := nextP rc\<rparr>))(c := None)"
  have run: "listDeleteCurrent fuel (l, h) = Ok (l\<lparr>list_size := list_size l - 1\<rparr>, ?h)"
    using assms(2) first r before ok(2)
    by (simp add: listDeleteCurrent_def Let_def store_next_def free_record_def)
  have "chain ?h (firstP l) (ys @ b # zs)"
    using seg ok(2) r by (auto simp: segment_append)
  then show ?thesis using run assms(2) by auto
qed

text \<open>With the cursor inside the list an appended record replaces the records behind the cursor.\<close>

lemma listAppendRecord_inner:
  assumes "list_ok (l, h) (ys @ c # zs)" and "currentP l = c"
    and "aRecordP \<noteq> 0" "aRecordP \<notin> set (ys @ c # zs)" "h aRecordP = Some r"
  shows "\<exists>l' h'. listAppendRecord fuel aRecordP (l, h) = Ok (l', h') \<and> chain h' (firstP l') (ys @ [c, aRecordP]) \<and>
    list_size l' = of_nat (Suc (length (ys @ c # zs)))"
proof -
  note ok = list_okD [OF assms(1)]
  obtain rc where rc: "h c = Some rc" "c \<noteq> 0" and seg: "segment h (firstP l) ys c"
    using ok(1) by (auto simp: segment_append)
  let ?h = "(h(c \<mapsto> rc\<lparr>nextP := aRecordP\<rparr>))(aRecordP \<mapsto> r\<lparr>nextP := 0\<rparr>)"
  have "listAppendRecord fuel aRecordP (l, h) = Ok (l\<lparr>currentP := aRecordP, list_size := list_size l + 1\<rparr>, ?h)"
    using assms ok(5) rc by (simp add: listAppendRecord_def store_next_def)
  moreover have "chain ?h (firstP l) (ys @ [c, aRecordP])"
    using seg rc assms(3,4) ok(2) by (auto simp: segment_append)
  ultimately show ?thesis using ok(3) by auto
qed

section \<open>The list as a queue\<close>

text \<open>What a client that only appends and dequeues relies on.\<close>

locale record_queue =
  fixes ok :: "'s \<Rightarrow> nat list \<Rightarrow> bool" and fresh :: "'s \<Rightarrow> nat \<Rightarrow> bool"
    and append_record :: "nat \<Rightarrow> 's \<Rightarrow> 's res" and dequeue :: "'s \<Rightarrow> (nat \<times> 's) res"
  assumes append_ok: "ok s xs \<Longrightarrow> fresh s p \<Longrightarrow> p \<notin> set xs \<Longrightarrow>
      \<exists>s'. append_record p s = Ok s' \<and> ok s' (xs @ [p]) \<and> (\<forall>q. fresh s q \<longrightarrow> fresh s' q)"
    and dequeue_ok: "ok s (x # xs) \<Longrightarrow> \<exists>s'. dequeue s = Ok (x, s') \<and> ok s' xs"
begin

fun append_all :: "nat list \<Rightarrow> 's \<Rightarrow> 's res" where
  "append_all [] s = Ok s"
| "append_all (p # ps) s = res_bind (append_record p s) (append_all ps)"

fun drain :: "nat \<Rightarrow> 's \<Rightarrow> (nat list \<times> 's) res" where
  "drain 0 s = Ok ([], s)"
| "drain (Suc n) s = res_bind (dequeue s) (\<lambda>(x, s). res_bind (drain n s) (\<lambda>(xs, s). Ok (x # xs, s)))"

lemma append_all_ok:
  "ok s xs \<Longrightarrow> \<forall>p \<in> set ps. fresh s p \<Longrightarrow> distinct (xs @ ps) \<Longrightarrow> \<exists>s'. append_all ps s = Ok s' \<and> ok s' (xs @ ps)"
proof (induction ps arbitrary: s xs)
  case (Cons p ps)
  from append_ok [of s xs p] Cons.prems obtain s'
    where s': "append_record p s = Ok s'" "ok s' (xs @ [p])" "\<forall>q. fresh s q \<longrightarrow> fresh s' q" by auto
  have "\<exists>s''. append_all ps s' = Ok s'' \<and> ok s'' ((xs @ [p]) @ ps)"
    by (rule Cons.IH) (use s' Cons.prems in auto)
  then show ?case using s'(1) by simp
qed simp

lemma drain_ok: "ok s xs \<Longrightarrow> \<exists>s'. drain (length xs) s = Ok (xs, s') \<and> ok s' []"
proof (induction xs arbitrary: s)
  case (Cons x xs)
  from dequeue_ok [OF Cons.prems] obtain s' where "dequeue s = Ok (x, s')" "ok s' xs" by blast
  with Cons.IH [of s'] show ?case by auto
qed simp

lemma fifo:
  assumes "ok s xs" "\<forall>p \<in> set ps. fresh s p" "distinct (xs @ ps)"
  shows "\<exists>s' s''. append_all ps s = Ok s' \<and> drain (length (xs @ ps)) s' = Ok (xs @ ps, s'')"
  using append_all_ok [OF assms] drain_ok by blast

end

definition queue_ok :: "nat \<Rightarrow> record_list \<times> record_heap \<Rightarrow> nat list \<Rightarrow> bool" where
  "queue_ok fuel = (\<lambda>(l, h) xs. list_ok (l, h) xs \<and>
     (xs = [] \<or> currentP l = last xs \<or> currentP l = 0 \<and> length xs \<le> fuel))"

definition in_heap :: "record_list \<times> record_heap \<Rightarrow> nat \<Rightarrow> bool" where
  "in_heap = (\<lambda>(l, h) p. p \<noteq> 0 \<and> h p \<noteq> None)"

interpretation rq: record_queue "queue_ok fuel" in_heap "listAppendRecord fuel" listDequeueRecord
  for fuel
proof unfold_locales
  fix s :: "record_list \<times> record_heap" and xs p
  obtain l h where s: "s = (l, h)" by (cases s)
  assume a: "queue_ok fuel s xs" "in_heap s p" "p \<notin> set xs"
  then obtain r where r: "p \<noteq> 0" "h p = Some r" by (auto simp: in_heap_def s)
  have ok: "list_ok (l, h) xs" using a(1) by (simp add: queue_ok_def s)
  have "currentP l = 0 \<or> xs = [] \<or> currentP l = last xs" using a(1) by (auto simp: queue_ok_def s)
  moreover have "\<exists>l' h'. listAppendRecord fuel p (l, h) = Ok (l', h') \<and> list_ok (l', h') (xs @ [p]) \<and>
      currentP l' = p \<and> map_option data \<circ> h' = map_option data \<circ> h"
  proof (cases "xs = [] \<or> length xs \<le> fuel")
    case True
    then show ?thesis using listAppendRecord_ok [OF ok calculation r(1) a(3) r(2)] by auto
  next
    case False
    then have "currentP l = last xs" using a(1) by (auto simp: queue_ok_def s)
    moreover from this have "currentP l \<noteq> 0"
      using False segment_nonzero [OF list_okD(1) [OF ok]] last_in_set [of xs] by metis
    moreover have "listAppendRecord fuel p (l, h) = listAppendRecord (length xs) p (l, h)"
      using calculation(2) by (simp add: listAppendRecord_def)
    ultimately show ?thesis using listAppendRecord_ok [OF ok _ r(1) a(3) r(2), of "length xs"] by auto
  qed
  then obtain l' h' where run: "listAppendRecord fuel p (l, h) = Ok (l', h')" "list_ok (l', h') (xs @ [p])"
    "currentP l' = p" "map_option data \<circ> h' = map_option data \<circ> h" by blast
  have "h' q \<noteq> None" if "h q \<noteq> None" for q
    using fun_cong [OF run(4), of q] that by auto
  then show "\<exists>s'. listAppendRecord fuel p s = Ok s' \<and> queue_ok fuel s' (xs @ [p]) \<and> (\<forall>q. in_heap s q \<longrightarrow> in_heap s' q)"
    using run by (auto simp: s queue_ok_def in_heap_def)
next
  fix s :: "record_list \<times> record_heap" and x xs
  obtain l h where s: "s = (l, h)" by (cases s)
  assume a: "queue_ok fuel s (x # xs)"
  then have ok: "list_ok (l, h) (x # xs)" by (simp add: queue_ok_def s)
  then obtain r where r: "firstP l = x" "x \<noteq> 0" "h x = Some r" "chain h (nextP r) xs"
    using list_okD(1) [OF ok] by auto
  from listDequeueRecord_ok [OF ok] obtain l' where l': "listDequeueRecord (l, h) = Ok (x, l', h)" "list_ok (l', h) xs"
    by auto
  moreover have "xs = [] \<or> currentP l' = last xs \<or> currentP l' = 0 \<and> length xs \<le> fuel"
    using l'(1) a r list_okD(2) [OF ok] by (auto simp: listDequeueRecord_def queue_ok_def s split: if_splits)
  ultimately show "\<exists>s'. listDequeueRecord s = Ok (x, s') \<and> queue_ok fuel s' xs"
    by (auto simp: s queue_ok_def)
qed


text \<open>Appending a sequence of records, and dequeuing a number of times.\<close>

fun append_records :: "nat \<Rightarrow> nat list \<Rightarrow> record_list \<times> record_heap \<Rightarrow> (record_list \<times> record_heap) res" where
  "append_records fuel [] s = Ok s"
| "append_records fuel (p # ps) s = res_bind (listAppendRecord fuel p s) (append_records fuel ps)"

fun dequeue_records :: "nat \<Rightarrow> record_list \<times> record_heap \<Rightarrow> (nat list \<times> record_list \<times> record_heap) res" where
  "dequeue_records 0 s = Ok ([], s)"
| "dequeue_records (Suc n) s =
     res_bind (listDequeueRecord s) (\<lambda>(x, s). res_bind (dequeue_records n s) (\<lambda>(xs, s). Ok (x # xs, s)))"

lemma append_all_records: "rq.append_all fuel ps = append_records fuel ps"
proof (induction ps)
  case (Cons p ps)
  show ?case by (rule ext) (simp add: Cons)
qed (simp add: fun_eq_iff)

lemma drain_records: "rq.drain n = dequeue_records n"
proof (induction n)
  case (Suc n)
  show ?case by (rule ext) (simp add: Suc)
qed (simp add: fun_eq_iff)

lemma listReset_ok: "list_ok (l, h) xs \<Longrightarrow> list_ok (listReset (l, h)) xs"
  by (simp add: listReset_def list_ok_def)

lemma listDeleteCurrent_null_or_first:
  assumes "list_ok (l, h) xs" and "currentP l = firstP l \<or> currentP l = 0"
  shows "\<exists>s. listDeleteCurrent fuel (l, h) = Ok s \<and> list_ok s (if currentP l = 0 then xs else tl xs)"
proof (cases "currentP l = 0")
  case True
  then show ?thesis using assms(1) by (simp add: listDeleteCurrent_def)
next
  case False
  with assms(2) have first: "currentP l = firstP l" by simp
  with False obtain x xs' where xs: "xs = x # xs'" "currentP l = x"
    using list_okD(1) [OF assms(1)] by (cases xs) auto
  from listDeleteCurrent_first [OF assms(1) [unfolded xs(1)] xs(2), of fuel] obtain l'
    where "listDeleteCurrent fuel (l, h) = Ok (l', h(x := None))" "list_ok (l', h(x := None)) xs'" by auto
  then show ?thesis using False by (intro exI [of _ "(l', h(x := None))"]) (simp add: xs(1))
qed

section \<open>Properties\<close>

text \<open>
  C39: the list of records is a queue.  From a well formed list whose cursor is null or at the last
  record, appending records that are in the heap and not yet in the list and then dequeuing as often as
  there are records gives the records of the list and the new ones in their order, with no access outside the heap.
\<close>

theorem record_list_fifo:
  assumes "list_ok (l, h) xs" and "xs = [] \<or> currentP l = last xs \<or> currentP l = 0 \<and> length xs \<le> fuel"
    and "\<forall>p \<in> set ps. p \<noteq> 0 \<and> h p \<noteq> None" and "distinct (xs @ ps)"
  shows "\<exists>s s'. append_records fuel ps (l, h) = Ok s \<and> dequeue_records (length (xs @ ps)) s = Ok (xs @ ps, s')"
  using rq.fifo [of fuel "(l, h)" xs ps] assms
  by (simp add: queue_ok_def in_heap_def append_all_records drain_records)

text \<open>
  C40: the operations keep the list well formed.  Reading the next record and setting the cursor back keep
  the records, dequeuing takes the first one, freeing takes all, deleting at a null cursor or at the first record
  takes none or that record, and appending with the cursor null or at the end adds one at the end; none of
  them reads or frees a record that is not in the heap.
\<close>

theorem record_list_invariant:
  assumes "list_ok (l, h) xs" and "length xs < fuel"
  shows "(\<exists>r s. listNextRecord (l, h) = Ok (r, s) \<and> list_ok s xs) \<and>
    list_ok (listReset (l, h)) xs \<and>
    (\<exists>r s. listDequeueRecord (l, h) = Ok (r, s) \<and> list_ok s (tl xs)) \<and>
    (\<exists>s. listFree fuel (l, h) = Ok s \<and> list_ok s []) \<and>
    (currentP l = firstP l \<or> currentP l = 0 \<longrightarrow>
      (\<exists>s. listDeleteCurrent fuel (l, h) = Ok s \<and> list_ok s (if currentP l = 0 then xs else tl xs))) \<and>
    (\<forall>p. (currentP l = 0 \<or> currentP l = last xs) \<and> p \<noteq> 0 \<and> p \<notin> set xs \<and> h p \<noteq> None \<longrightarrow>
      (\<exists>s. listAppendRecord fuel p (l, h) = Ok s \<and> list_ok s (xs @ [p])))"
proof (intro conjI allI impI)
  show "\<exists>r s. listNextRecord (l, h) = Ok (r, s) \<and> list_ok s xs"
    using listNextRecord_ok [OF assms(1)] by blast
  show "list_ok (listReset (l, h)) xs" using assms(1) by (rule listReset_ok)
  show "\<exists>r s. listDequeueRecord (l, h) = Ok (r, s) \<and> list_ok s (tl xs)"
    using listDequeueRecord_ok [OF assms(1)] by blast
  show "\<exists>s. listFree fuel (l, h) = Ok s \<and> list_ok s []"
    using listFree_ok [OF assms] by blast
  show "\<exists>s. listDeleteCurrent fuel (l, h) = Ok s \<and> list_ok s (if currentP l = 0 then xs else tl xs)"
    if "currentP l = firstP l \<or> currentP l = 0"
    using assms(1) that by (rule listDeleteCurrent_null_or_first)
  fix p
  assume p: "(currentP l = 0 \<or> currentP l = last xs) \<and> p \<noteq> 0 \<and> p \<notin> set xs \<and> h p \<noteq> None"
  then obtain r where "h p = Some r" by blast
  then show "\<exists>s. listAppendRecord fuel p (l, h) = Ok s \<and> list_ok s (xs @ [p])"
    using listAppendRecord_ok [OF assms(1), of p r fuel] p assms(2) by auto
qed

text \<open>
  The two operations that break it: behind the first record \<open>listDeleteCurrent\<close> leaves the cursor on the
  record it has freed, which the next call reads, and \<open>listAppendRecord\<close> with the cursor inside the list
  loses the records behind it and still counts them.
\<close>

lemma next_after_delete_faults:
  assumes "list_ok (l, h) (ys @ b # c # zs)" and "currentP l = c" and "length ys < fuel"
  shows "res_bind (listDeleteCurrent fuel (l, h)) listNextRecord = Fault"
proof -
  have "c \<noteq> 0" using segment_nonzero [OF list_okD(1) [OF assms(1)]] by auto
  then show ?thesis
    using listDeleteCurrent_inner [OF assms] by (auto simp: listNextRecord_def)
qed

section \<open>Instances\<close>

definition two_records :: "record_list \<times> record_heap" where
  "two_records = (\<lparr>firstP = 1, currentP = 2, list_size = 2\<rparr>,
     [1 \<mapsto> \<lparr>nextP = 2, data = []\<rparr>, 2 \<mapsto> \<lparr>nextP = 0, data = []\<rparr>, 3 \<mapsto> \<lparr>nextP = 9, data = []\<rparr>])"

lemma two_records_ok: "list_ok (fst two_records, snd two_records) [1, 2]"
  by (simp add: two_records_def list_ok_def)

theorem record_list_fifo_witness:
  "\<exists>s s'. append_records 0 [3] (fst two_records, snd two_records) = Ok s \<and>
    dequeue_records (length ([1, 2] @ [3::nat])) s = Ok ([1, 2] @ [3], s')"
  by (rule record_list_fifo [OF two_records_ok]) (simp_all add: two_records_def)

theorem record_list_invariant_witness:
  "\<exists>s. listAppendRecord 5 3 (fst two_records, snd two_records) = Ok s \<and> list_ok s ([1, 2] @ [3])"
  using record_list_invariant [OF two_records_ok, of 5] by (simp add: two_records_def)

end
