(* ===== verification/Smapi_Utilities.thy ===== *)
theory Smapi_Utilities
  imports Smapi_Request
begin

text \<open>
  Functions of \<^verbatim>\<open>src/smapiUtilities.c\<close> on strings: the
  abbreviation tests, \<open>strip\<close>, \<open>hidePassword\<close> with the line that \<^verbatim>\<open>src/vmapiImageQueryDm.c\<close> writes to
  the cache.

  A C string is the list of the bytes before its NUL.  A write behind an array and the use of a null
  pointer are \<open>Fault\<close>.
\<close>

section \<open>Abbreviations\<close>

definition c_tolower :: "byte \<Rightarrow> byte" where
  "c_tolower b = (if 65 \<le> uint b \<and> uint b \<le> 90 then b + 32 else b)"

definition strncmp_eq :: "nat \<Rightarrow> byte list \<Rightarrow> byte list \<Rightarrow> bool" where
  "strncmp_eq n s t \<longleftrightarrow> take n s = take n t"

definition strncasecmp_eq :: "nat \<Rightarrow> byte list \<Rightarrow> byte list \<Rightarrow> bool" where
  "strncasecmp_eq n s t \<longleftrightarrow> strncmp_eq n (map c_tolower s) (map c_tolower t)"

record Abbreviation =
  nameP :: "byte list"
  minimum :: nat

fun check_loop :: "byte list \<Rightarrow> Abbreviation list \<Rightarrow> int" where
  "check_loop s [] = 0"
| "check_loop s (a # as) =
     (if minimum a > length s then check_loop s as
      else if strncasecmp_eq (minimum a) s (nameP a) then 1
      else check_loop s as)"

definition checkAbbreviation :: "byte list option \<Rightarrow> Abbreviation list \<Rightarrow> int" where
  "checkAbbreviation aStringP as = (case aStringP of None \<Rightarrow> 0 | Some s \<Rightarrow> check_loop s as)"

definition abbreviations :: "(string \<times> nat) list \<Rightarrow> Abbreviation list" where
  "abbreviations xs = map (\<lambda>(s, n). \<lparr>nameP = c_literal s, minimum = n\<rparr>) xs"

definition checkBoolean :: "byte list option \<Rightarrow> int" where
  "checkBoolean s = checkAbbreviation s (abbreviations [(''TRUE'', 1), (''YES'', 1), (''1'', 1)])"

definition checkPrefixCommand :: "byte list option \<Rightarrow> int" where
  "checkPrefixCommand s = checkAbbreviation s (abbreviations
     [(''REQUEST'', 3), (''TOSYS'', 5), (''TONODE'', 6), (''ASUSER'', 2), (''BYUSER'', 2), (''FORUSER'', 3),
      (''PRESET'', 6), (''MULTIUSER'', 5), (''ATNODE'', 6), (''ATSYS'', 5)])"

definition getArg :: "nat \<Rightarrow> byte list option list \<Rightarrow> byte list option \<Rightarrow> byte list option" where
  "getArg anIndex args aDefaultP =
     (if anIndex \<ge> length args then aDefaultP
      else (case args ! anIndex of None \<Rightarrow> aDefaultP | Some s \<Rightarrow> Some s))"

definition testDigit :: "byte \<Rightarrow> int" where
  "testDigit aChar = (if aChar \<in> set (c_literal ''0123456789'') then 1 else 0)"

section \<open>Stripping\<close>

fun strip_leading :: "byte \<Rightarrow> byte list \<Rightarrow> nat" where
  "strip_leading c [] = 0"
| "strip_leading c (b # s) = (if b \<noteq> c then 0 else Suc (strip_leading c s))"

fun strip_trailing :: "byte \<Rightarrow> byte list \<Rightarrow> nat \<Rightarrow> nat" where
  "strip_trailing c s 0 = 0"
| "strip_trailing c s (Suc x) = (if s ! x \<noteq> c then Suc x else strip_trailing c s x)"

text \<open>The line after the call and the offset of the pointer that is returned.\<close>

definition strip :: "byte list option \<Rightarrow> char \<Rightarrow> byte \<Rightarrow> (byte list \<times> nat) option" where
  "strip aLineP anOption aChar =
     (case aLineP of None \<Rightarrow> None
      | Some s \<Rightarrow>
          (let off = (if anOption = CHR ''L'' \<or> anOption = CHR ''B'' then strip_leading aChar s else 0);
               t = drop off s;
               n = (if anOption = CHR ''T'' \<or> anOption = CHR ''B'' then strip_trailing aChar t (length t) else length t)
           in Some (take off s @ take n t, off)))"

section \<open>Hiding passwords\<close>

definition MIN_IDENTITY_NLEN :: nat where "MIN_IDENTITY_NLEN = 2"
definition MIN_MDISK_NLEN :: nat where "MIN_MDISK_NLEN = 1"
definition MIN_USER_NLEN :: nat where "MIN_USER_NLEN = 1"

abbreviation blank :: byte where "blank \<equiv> 32"

text \<open>\<open>strtok_r\<close> with blanks: the token and the rest that \<open>savePtr\<close> points to.\<close>

definition strtok_r :: "byte list \<Rightarrow> byte list option \<times> byte list" where
  "strtok_r s =
     (let t = dropWhile (\<lambda>b. b = blank) s in
      if t = [] then (None, [])
      else (Some (takeWhile (\<lambda>b. b \<noteq> blank) t), drop 1 (dropWhile (\<lambda>b. b \<noteq> blank) t)))"

text \<open>\<open>strcat(replacedString, token); strcat(replacedString, " ")\<close> on an array of 80 bytes.\<close>

definition strcat :: "byte list \<Rightarrow> byte list option \<Rightarrow> byte list res" where
  "strcat r token = (case token of None \<Rightarrow> Fault | Some w \<Rightarrow> if length r + length w < 80 then Ok (r @ w) else Fault)"

definition put_word :: "byte list \<Rightarrow> byte list option \<Rightarrow> byte list res" where
  "put_word r token = res_bind (strcat r token) (\<lambda>r. strcat r (Some [blank]))"

lemma strtok_r_shorter: "strtok_r s = (Some w, sv) \<Longrightarrow> length sv < length s"
proof -
  assume "strtok_r s = (Some w, sv)"
  then have sv: "sv = drop 1 (dropWhile (\<lambda>b. b \<noteq> blank) (dropWhile (\<lambda>b. b = blank) s))"
    and "dropWhile (\<lambda>b. b = blank) s \<noteq> []" by (auto simp: strtok_r_def Let_def split: if_splits)
  then have "s \<noteq> []" by auto
  have "length (dropWhile (\<lambda>b. b \<noteq> blank) (dropWhile (\<lambda>b. b = blank) s)) \<le> length s"
    by (meson length_dropWhile_le order_trans)
  then show ?thesis using \<open>s \<noteq> []\<close> by (cases s) (auto simp: sv)
qed

text \<open>The loop over the words behind the password of a USER statement.\<close>

function hide_rest :: "byte list \<Rightarrow> byte list \<Rightarrow> byte list res" where
  "hide_rest r sv =
     (case strtok_r sv of
        (None, _) \<Rightarrow> Ok r
      | (Some w, sv') \<Rightarrow> res_bind (put_word r (Some w)) (\<lambda>r. hide_rest r sv'))"
  by pat_completeness auto

termination
  by (relation "measure (\<lambda>(r, sv). length sv)") (auto dest!: sym [of _ "strtok_r _"] strtok_r_shorter)

declare hide_rest.simps [simp del]

text \<open>\<open>strcpy(directoryRecord, replacedString)\<close> to an array of \<open>cap\<close> bytes.\<close>

definition copy_back :: "nat \<Rightarrow> byte list \<Rightarrow> byte list res" where
  "copy_back cap r = (if length r < cap then Ok r else Fault)"

abbreviation star :: "byte list" where "star \<equiv> [42]"

definition hide_user :: "nat \<Rightarrow> byte list \<Rightarrow> byte list \<Rightarrow> byte list res" where
  "hide_user cap token sv =
     res_bind (put_word [] (Some token)) (\<lambda>r.
     let (token, sv) = strtok_r sv in
     res_bind (put_word r token) (\<lambda>r.
     let (token, sv) = strtok_r sv in
     res_bind (put_word r (Some star)) (\<lambda>r.
     res_bind (if token = None then Ok r else hide_rest r sv) (copy_back cap))))"

text \<open>The words behind the access mode: up to three passwords.\<close>

definition hide_mdisk_passwords :: "nat \<Rightarrow> byte list \<Rightarrow> byte list \<Rightarrow> byte list res" where
  "hide_mdisk_passwords cap r sv =
     (let (token, sv) = strtok_r sv in
      res_bind
        (if token = None then Ok r
         else res_bind (put_word r (Some star)) (\<lambda>r.
           let (token, sv) = strtok_r sv in
           if token = None then Ok r
           else res_bind (put_word r (Some star)) (\<lambda>r.
             let (token, sv) = strtok_r sv in
             if token = None then Ok r else put_word r (Some star))))
        (copy_back cap))"

text \<open>
  The place of the minidisk behind its device type: the word \<open>w\<close> and one more word, or two more
  when \<open>w\<close> is the first cylinder or block.
\<close>

definition hide_location :: "byte list \<Rightarrow> byte list \<Rightarrow> byte list \<Rightarrow> (byte list \<times> byte list) res" where
  "hide_location r w sv =
     (if strncasecmp_eq (length w) w (c_literal ''DEVNO'') \<or> strncasecmp_eq (length w) w (c_literal ''V-DISK'') \<or>
         strncasecmp_eq (length w) w (c_literal ''T-DISK'')
      then res_bind (put_word r (Some w)) (\<lambda>r.
        let (token, sv) = strtok_r sv in res_bind (put_word r token) (\<lambda>r. Ok (r, sv)))
      else res_bind (put_word r (Some w)) (\<lambda>r.
        let (token, sv) = strtok_r sv in res_bind (put_word r token) (\<lambda>r.
        let (token, sv) = strtok_r sv in res_bind (put_word r token) (\<lambda>r. Ok (r, sv)))))"

definition hide_mdisk :: "nat \<Rightarrow> byte list \<Rightarrow> byte list \<Rightarrow> byte list \<Rightarrow> byte list res" where
  "hide_mdisk cap directoryRecord token sv =
     res_bind (put_word [] (Some token)) (\<lambda>r.
     let (token, sv) = strtok_r sv in
     res_bind (put_word r token) (\<lambda>r.
     let (token, sv) = strtok_r sv in
     res_bind (put_word r token) (\<lambda>r.
     let (token, sv) = strtok_r sv in
     case token of
       None \<Rightarrow> Ok directoryRecord
     | Some w \<Rightarrow>
         res_bind (hide_location r w sv) (\<lambda>(r, sv).
           let (token, sv) = strtok_r sv in
           if token = None then Ok directoryRecord
           else res_bind (put_word r token) (\<lambda>r. hide_mdisk_passwords cap r sv)))))"

definition is_user_statement :: "byte list \<Rightarrow> bool" where
  "is_user_statement token \<longleftrightarrow>
     strncmp_eq (length token) token (c_literal ''USER'') \<and> length token \<ge> MIN_USER_NLEN \<or>
     strncmp_eq (length token) token (c_literal ''IDENTITY'') \<and> length token \<ge> MIN_IDENTITY_NLEN"

definition is_mdisk_statement :: "byte list \<Rightarrow> bool" where
  "is_mdisk_statement token \<longleftrightarrow>
     strncmp_eq (length token) token (c_literal ''MDISK'') \<and> length token \<ge> MIN_MDISK_NLEN"

text \<open>\<open>directoryRecord\<close> is in an array of \<open>cap\<close> bytes; \<open>tempBuffer\<close> has 100.\<close>

definition hidePassword :: "nat \<Rightarrow> byte list \<Rightarrow> byte list res" where
  "hidePassword cap directoryRecord =
     (if length directoryRecord \<ge> 100 then Fault
      else
        (case strtok_r directoryRecord of
           (None, _) \<Rightarrow> Ok directoryRecord
         | (Some token, sv) \<Rightarrow>
             if is_user_statement token then hide_user cap token sv
             else if is_mdisk_statement token then hide_mdisk cap directoryRecord token sv
             else Ok directoryRecord))"

text \<open>
  A record of the directory as a line of the cache file: \<open>resultLine\<close> has 256 bytes and is cleared, the
  line is cut behind column 71 and stripped.
\<close>

definition cache_line :: "byte list \<Rightarrow> byte list res" where
  "cache_line imageRecord =
     (if length imageRecord > 256 then Fault
      else if length imageRecord = 256 \<and> 0 \<notin> set imageRecord then Fault
      else
        (let resultLine = takeWhile (\<lambda>b. b \<noteq> 0) imageRecord;
             resultLine = (if length resultLine > 71 then take 71 resultLine else resultLine);
             resultLine = (case strip (Some resultLine) (CHR ''T'') blank of None \<Rightarrow> [] | Some (l, _) \<Rightarrow> l)
         in res_bind (hidePassword 256 resultLine) (\<lambda>resultLine.
              if length resultLine + 1 < 256 then Ok (resultLine @ [10]) else Fault)))"


section \<open>Records as words\<close>

text \<open>
  The words of a record, and what \<open>hidePassword\<close> makes of them: it keeps the record, replaces it
  by other words, or uses a null pointer because a word is missing.
\<close>

function words :: "byte list \<Rightarrow> byte list list" where
  "words s = (case strtok_r s of (None, _) \<Rightarrow> [] | (Some w, sv) \<Rightarrow> w # words sv)"
  by pat_completeness auto

termination
  by (relation "measure length") (auto dest!: sym [of _ "strtok_r _"] strtok_r_shorter)

declare words.simps [simp del]

definition unwords :: "byte list list \<Rightarrow> byte list" where
  "unwords ws = concat (map (\<lambda>w. w @ [blank]) ws)"

datatype hidden = Null_Word | Keep | Replace "byte list list"

definition unit_word :: "byte list \<Rightarrow> bool" where
  "unit_word w \<longleftrightarrow>
     strncasecmp_eq (length w) w (c_literal ''DEVNO'') \<or> strncasecmp_eq (length w) w (c_literal ''V-DISK'') \<or>
     strncasecmp_eq (length w) w (c_literal ''T-DISK'')"

definition location_words :: "byte list \<Rightarrow> nat" where
  "location_words w = (if unit_word w then 1 else 2)"

fun hide_mdisk_words :: "byte list list \<Rightarrow> hidden" where
  "hide_mdisk_words (m # a # d # x # ws) =
     (if length ws < location_words x then Null_Word
      else case drop (location_words x) ws of
        [] \<Rightarrow> Keep
      | mode # pws \<Rightarrow>
          Replace (m # a # d # x # take (location_words x) ws @ mode # replicate (min 3 (length pws)) star))"
| "hide_mdisk_words [m, a, d] = Keep"
| "hide_mdisk_words ws = Null_Word"

fun hide_words :: "byte list list \<Rightarrow> hidden" where
  "hide_words [] = Keep"
| "hide_words (w # ws) =
     (if is_user_statement w then
        (case ws of [] \<Rightarrow> Null_Word | userid # rest \<Rightarrow> Replace (w # userid # star # drop 1 rest))
      else if is_mdisk_statement w then hide_mdisk_words (w # ws)
      else Keep)"

lemma unwords_simps [simp]:
  "unwords [] = []" "unwords (w # ws) = w @ blank # unwords ws" "unwords (vs @ ws) = unwords vs @ unwords ws"
  by (simp_all add: unwords_def)

lemma words_step:
  "strtok_r s = (None, sv) \<Longrightarrow> words s = []" "strtok_r s = (Some w, sv) \<Longrightarrow> words s = w # words sv"
  by (subst words.simps; simp)+

lemma words_Nil [simp]: "words [] = []"
  by (rule words_step(1) [of _ "[]"]) (simp add: strtok_r_def)

lemma strtok_r_words:
  "strtok_r s = (if words s = [] then None else Some (hd (words s)), snd (strtok_r s))"
  "words (snd (strtok_r s)) = tl (words s)"
proof -
  obtain t sv where t: "strtok_r s = (t, sv)" by (cases "strtok_r s")
  have "t = None \<Longrightarrow> sv = []" using t by (auto simp: strtok_r_def Let_def split: if_splits)
  then show "strtok_r s = (if words s = [] then None else Some (hd (words s)), snd (strtok_r s))"
    "words (snd (strtok_r s)) = tl (words s)"
    using t by (cases t; simp add: words_step)+
qed

lemma words_nonempty: "w \<in> set (words s) \<Longrightarrow> w \<noteq> []"
proof (induction s rule: words.induct)
  case (1 s)
  show ?case
  proof (cases "strtok_r s")
    case (Pair t sv)
    show ?thesis
    proof (cases t)
      case None
      then show ?thesis using 1(2) Pair by (simp add: words_step(1))
    next
      case (Some v)
      have "v \<noteq> []"
        using Pair Some hd_dropWhile [of "\<lambda>b. b = blank" s]
        by (auto simp: strtok_r_def Let_def takeWhile_eq_Nil_iff split: if_splits)
      moreover have "w = v \<or> w \<in> set (words sv)" using 1(2) Pair Some by (simp add: words_step(2))
      ultimately show ?thesis using 1(1) [OF Pair [symmetric] Some] by blast
    qed
  qed
qed

lemma drop_one_length: "drop 1 xs = [] \<or> length (drop 1 xs) + 1 = length xs"
  by (cases xs) simp_all

lemma length_unwords_words: "length (unwords (words s)) \<le> length s + 1"
proof (induction s rule: words.induct)
  case (1 s)
  show ?case
  proof (cases "strtok_r s")
    case (Pair t sv)
    show ?thesis
    proof (cases t)
      case None
      then show ?thesis using Pair by (simp add: words_step(1))
    next
      case (Some w)
      let ?t = "dropWhile (\<lambda>b. b = blank) s"
      have w: "w = takeWhile (\<lambda>b. b \<noteq> blank) ?t" "sv = drop 1 (dropWhile (\<lambda>b. b \<noteq> blank) ?t)"
        using Pair Some by (auto simp: strtok_r_def Let_def split: if_splits)
      have "length w + length (dropWhile (\<lambda>b. b \<noteq> blank) ?t) = length ?t"
        unfolding w(1) by (metis length_append takeWhile_dropWhile_id)
      moreover have "length ?t \<le> length s" by (rule length_dropWhile_le)
      moreover have "length (unwords (words sv)) \<le> length sv + 1" by (rule 1 [OF Pair [symmetric] Some])
      moreover have ws: "words s = w # words sv" using Pair Some by (simp add: words_step(2))
      moreover have "sv = [] \<or> length sv + 1 = length (dropWhile (\<lambda>b. b \<noteq> blank) ?t)"
        unfolding w(2) by (rule drop_one_length)
      then have "length (unwords (words sv)) = 0 \<or> length sv + 1 = length (dropWhile (\<lambda>b. b \<noteq> blank) ?t)"
        by (elim disjE) simp_all
      moreover have "length (unwords (w # words sv)) = length w + 1 + length (unwords (words sv))" by simp
      ultimately show ?thesis unfolding ws by linarith
    qed
  qed
qed


section \<open>\<open>hidePassword\<close> on words\<close>

lemma put_word_ok [simp]:
  "put_word r None = Fault"
  "length r + length w + 1 < 80 \<Longrightarrow> put_word r (Some w) = Ok (r @ w @ [blank])"
  by (simp_all add: put_word_def strcat_def)

lemma hide_rest_words:
  "length r + length (unwords (words sv)) < 80 \<Longrightarrow> hide_rest r sv = Ok (r @ unwords (words sv))"
proof (induction r sv rule: hide_rest.induct)
  case (1 r sv)
  obtain t sv' where t: "strtok_r sv = (t, sv')" by (cases "strtok_r sv")
  show ?case
  proof (cases t)
    case None
    then show ?thesis using t by (subst hide_rest.simps) (simp add: words_step(1))
  next
    case (Some w)
    then have ws: "words sv = w # words sv'" using t by (simp add: words_step(2))
    then have "hide_rest (r @ w @ [blank]) sv' = Ok ((r @ w @ [blank]) @ unwords (words sv'))"
      using 1 t Some by simp
    then show ?thesis using t Some ws 1(2) by (subst hide_rest.simps) simp
  qed
qed

definition hidden_result :: "byte list \<Rightarrow> hidden \<Rightarrow> byte list res" where
  "hidden_result s h = (case h of Null_Word \<Rightarrow> Fault | Keep \<Rightarrow> Ok s | Replace ws \<Rightarrow> Ok (unwords ws))"

text \<open>The next token of a rest whose words are known.\<close>

lemma strtok_r_cases:
  obtains sv where "words s = []" "strtok_r s = (None, sv)" "words sv = []"
  | w sv where "words s = w # words sv" "strtok_r s = (Some w, sv)"
proof (cases "words s")
  case Nil
  then show ?thesis using that(1) [of "snd (strtok_r s)"] strtok_r_words [of s] by simp
next
  case (Cons w ws)
  then show ?thesis using that(2) [of w "snd (strtok_r s)"] strtok_r_words [of s] by simp
qed

lemma hide_user_words:
  assumes "length (unwords (token # words sv)) \<le> 72" and "80 \<le> cap" and "is_user_statement token"
  shows "hide_user cap token sv = hidden_result s (hide_words (token # words sv))"
proof (cases sv rule: strtok_r_cases)
  case (1 sv')
  then show ?thesis using assms by (simp add: hide_user_def hidden_result_def split: prod.split)
next
  case (2 userid sv')
  show ?thesis
  proof (cases sv' rule: strtok_r_cases)
    case (1 sv'')
    then show ?thesis using assms 2 by (simp add: hide_user_def hidden_result_def copy_back_def split: prod.split)
  next
    case rest: (2 pw sv'')
    have "hide_rest (token @ blank # userid @ [blank, 42, blank]) sv'' =
        Ok ((token @ blank # userid @ [blank, 42, blank]) @ unwords (words sv''))"
      using hide_rest_words [of "token @ blank # userid @ [blank, 42, blank]" sv''] assms(1) 2 rest by simp
    then show ?thesis
      using assms 2 rest by (simp add: hide_user_def hidden_result_def copy_back_def split: prod.split)
  qed
qed


lemma hide_mdisk_passwords_words:
  assumes "length r + 6 < 80" and "80 \<le> cap"
  shows "hide_mdisk_passwords cap r sv = Ok (r @ unwords (replicate (min 3 (length (words sv))) star))"
proof (cases sv rule: strtok_r_cases)
  case (1 sv')
  then show ?thesis using assms by (simp add: hide_mdisk_passwords_def copy_back_def)
next
  case one: (2 w1 sv1)
  show ?thesis
  proof (cases sv1 rule: strtok_r_cases)
    case (1 sv')
    then show ?thesis using assms one by (simp add: hide_mdisk_passwords_def copy_back_def)
  next
    case two: (2 w2 sv2)
    show ?thesis
    proof (cases sv2 rule: strtok_r_cases)
      case (1 sv')
      then show ?thesis using assms one two
        by (simp add: hide_mdisk_passwords_def copy_back_def numeral_3_eq_3)
    next
      case (2 w3 sv3)
      then show ?thesis using assms one two
        by (simp add: hide_mdisk_passwords_def copy_back_def numeral_3_eq_3)
    qed
  qed
qed

text \<open>The part from the access mode on.\<close>

lemma hide_mdisk_mode:
  assumes "length r + length (unwords (words sv)) \<le> 72" and "80 \<le> cap"
  shows "(let (token, sv) = strtok_r sv in
      if token = None then Ok s else res_bind (put_word r token) (\<lambda>r. hide_mdisk_passwords cap r sv)) =
    (case words sv of [] \<Rightarrow> Ok s
     | mode # pws \<Rightarrow> Ok (r @ mode @ blank # unwords (replicate (min 3 (length pws)) star)))"
proof (cases sv rule: strtok_r_cases)
  case (1 sv')
  then show ?thesis by simp
next
  case (2 mode sv')
  then have "length r + length mode + 1 \<le> 72" using assms(1) by simp
  then show ?thesis
    using 2 assms(2) hide_mdisk_passwords_words [of "r @ mode @ [blank]" cap sv'] by simp
qed

lemma hide_location_words:
  assumes "length r + length (unwords (w # words sv)) \<le> 72"
  shows "if length (words sv) < location_words w then hide_location r w sv = Fault
    else \<exists>sv'. hide_location r w sv = Ok (r @ unwords (w # take (location_words w) (words sv)), sv') \<and>
      words sv' = drop (location_words w) (words sv)"
proof (cases sv rule: strtok_r_cases)
  case (1 sv')
  then show ?thesis using assms by (simp add: hide_location_def location_words_def)
next
  case y: (2 y sv1)
  show ?thesis
  proof (cases "unit_word w")
    case True
    then show ?thesis using assms y unit_word_def [of w]
      by (simp add: hide_location_def location_words_def)
  next
    case False
    then show ?thesis using assms y unit_word_def [of w]
      by (cases sv1 rule: strtok_r_cases) (simp_all add: hide_location_def location_words_def numeral_2_eq_2)
  qed
qed

lemma hide_mdisk_location:
  assumes "length r + length (unwords (w # words sv)) \<le> 72" and "80 \<le> cap"
  shows "res_bind (hide_location r w sv) (\<lambda>(r, sv).
       let (token, sv) = strtok_r sv in
       if token = None then Ok s else res_bind (put_word r token) (\<lambda>r. hide_mdisk_passwords cap r sv)) =
    (if length (words sv) < location_words w then Fault
     else case drop (location_words w) (words sv) of [] \<Rightarrow> Ok s
     | mode # pws \<Rightarrow> Ok (r @ unwords (w # take (location_words w) (words sv) @
         mode # replicate (min 3 (length pws)) star)))"
proof (cases "length (words sv) < location_words w")
  case True
  then show ?thesis using hide_location_words [OF assms(1)] by simp
next
  case False
  with hide_location_words [OF assms(1)] obtain sv'
    where sv': "hide_location r w sv = Ok (r @ unwords (w # take (location_words w) (words sv)), sv')"
      "words sv' = drop (location_words w) (words sv)" by auto
  have "unwords (words sv) = unwords (take (location_words w) (words sv)) @ unwords (words sv')"
    unfolding sv'(2) by (metis append_take_drop_id unwords_simps(3))
  then have "length (r @ unwords (w # take (location_words w) (words sv))) + length (unwords (words sv')) \<le> 72"
    using assms(1) by simp
  note mode = hide_mdisk_mode [OF this assms(2), of s]
  show ?thesis
    by (simp only: sv'(1) res_bind.simps prod.case mode, simp only: sv'(2)) (use False in \<open>simp split: list.split\<close>)
qed

lemma hide_mdisk_words:
  assumes "length (unwords (token # words sv)) \<le> 72" and "80 \<le> cap"
  shows "hide_mdisk cap s token sv = hidden_result s (hide_mdisk_words (token # words sv))"
proof (cases sv rule: strtok_r_cases)
  case (1 sv')
  then show ?thesis using assms by (simp add: hide_mdisk_def hidden_result_def)
next
  case a: (2 a sv1)
  show ?thesis
  proof (cases sv1 rule: strtok_r_cases)
    case (1 sv')
    then show ?thesis using assms a by (simp add: hide_mdisk_def hidden_result_def)
  next
    case d: (2 d sv2)
    show ?thesis
    proof (cases sv2 rule: strtok_r_cases)
      case (1 sv')
      then show ?thesis using assms a d by (simp add: hide_mdisk_def hidden_result_def)
    next
      case x: (2 x sv3)
      have "length (token @ blank # a @ blank # d @ [blank]) + length (unwords (x # words sv3)) \<le> 72"
        using assms a d x by simp
      from hide_mdisk_location [OF this assms(2), of s] show ?thesis
        using assms a d x by (simp add: hide_mdisk_def hidden_result_def split: list.split)
    qed
  qed
qed

text \<open>Which words of a record are passwords.\<close>

definition password_field :: "byte list list \<Rightarrow> nat \<Rightarrow> bool" where
  "password_field ws i \<longleftrightarrow> i < length ws \<and>
     (if is_user_statement (hd ws) then i = 2
      else is_mdisk_statement (hd ws) \<and> 3 < length ws \<and> 4 + location_words (ws ! 3) < i)"

definition same_but_passwords :: "byte list list \<Rightarrow> byte list list \<Rightarrow> bool" where
  "same_but_passwords ws ws' \<longleftrightarrow> length ws = length ws' \<and>
     (\<forall>i < length ws. password_field ws i \<or> ws ! i = ws' ! i)"

lemma same_user_words:
  assumes "same_but_passwords ws ws'" and "is_user_statement (hd ws)" and "2 < length ws"
  shows "hide_words ws = hide_words ws' \<and> hide_words ws \<noteq> Keep"
proof -
  obtain w u p r where ws: "ws = w # u # p # r"
    using assms(3) by (cases ws; cases "tl ws"; cases "tl (tl ws)") auto
  obtain w' u' p' r' where ws': "ws' = w' # u' # p' # r'"
    using assms(1) by (cases ws'; cases "tl ws'"; cases "tl (tl ws')") (auto simp: same_but_passwords_def ws)
  have eq: "password_field ws i \<or> ws ! i = ws' ! i" if "i < length ws" for i
    using assms(1) that by (simp add: same_but_passwords_def)
  have "w' = w" "u' = u" using eq [of 0] eq [of 1] assms(2) by (auto simp: ws ws' password_field_def)
  moreover have "r' = r"
  proof (rule nth_equalityI)
    show len: "length r' = length r" using assms(1) by (simp add: same_but_passwords_def ws ws')
    fix i assume "i < length r'"
    then show "r' ! i = r ! i" using eq [of "Suc (Suc (Suc i))"] assms(2) len
      by (auto simp: ws ws' password_field_def)
  qed
  ultimately show ?thesis using assms(2) by (simp add: ws ws')
qed


lemma same_mdisk_words:
  assumes "same_but_passwords ws ws'" and "\<not> is_user_statement (hd ws)" "is_mdisk_statement (hd ws)"
    and "3 < length ws" "4 + location_words (ws ! 3) < length ws"
  shows "hide_words ws = hide_words ws' \<and> hide_words ws \<noteq> Keep"
proof -
  obtain m a d x r where ws: "ws = m # a # d # x # r"
    using assms(4) by (cases ws; cases "tl ws"; cases "tl (tl ws)"; cases "tl (tl (tl ws))") auto
  obtain m' a' d' x' r' where ws': "ws' = m' # a' # d' # x' # r'"
    using assms(1) by (cases ws'; cases "tl ws'"; cases "tl (tl ws')"; cases "tl (tl (tl ws'))")
      (auto simp: same_but_passwords_def ws)
  have eq: "password_field ws i \<or> ws ! i = ws' ! i" if "i < length ws" for i
    using assms(1) that by (simp add: same_but_passwords_def)
  have hd: "m' = m" "a' = a" "d' = d" "x' = x"
    using eq [of 0] eq [of 1] eq [of 2] eq [of 3] assms(2) by (auto simp: ws ws' password_field_def numeral_2_eq_2 numeral_3_eq_3)
  define k where "k = location_words x"
  have len: "length r' = length r" "k < length r"
    using assms(1,5) by (simp_all add: same_but_passwords_def ws ws' k_def numeral_3_eq_3)
  have nth: "r' ! i = r ! i" if "i \<le> k" for i
    using eq [of "Suc (Suc (Suc (Suc i)))"] that assms(2) len
    by (auto simp: ws ws' password_field_def numeral_3_eq_3 k_def)
  have "take k r' = take k r" by (rule nth_take_lemma) (use len nth in auto)
  moreover have "drop k r = r ! k # drop (Suc k) r" "drop k r' = r ! k # drop (Suc k) r'"
    using len nth [of k] by (simp, metis Cons_nth_drop_Suc)+
  ultimately show ?thesis using assms(2,3) len by (simp add: ws ws' hd k_def)
qed

lemma hidePassword_eq:
  assumes "length s \<le> 71" and "80 \<le> cap"
  shows "hidePassword cap s = hidden_result s (hide_words (words s))"
proof (cases s rule: strtok_r_cases)
  case (1 sv)
  then show ?thesis using assms by (simp add: hidePassword_def hidden_result_def)
next
  case (2 w sv)
  then have "length (unwords (w # words sv)) \<le> 72"
    using length_unwords_words [of s] assms(1) by simp
  then show ?thesis
    using 2 assms hide_user_words [of w sv cap s] hide_mdisk_words [of w sv cap s]
    by (auto simp: hidePassword_def hidden_result_def)
qed

lemma strip_trailing_le: "strip_trailing c s n \<le> n"
  by (induction n) auto

lemma strip_T_length: "strip (Some s) (CHR ''T'') c = Some (l, off) \<Longrightarrow> length l \<le> length s"
  by (auto simp: strip_def)

section \<open>Properties\<close>

text \<open>
  C32: on a record of up to 71 characters \<open>hidePassword\<close> stays inside its three arrays and replaces the
  record as its words say: the password of a USER or IDENTITY statement and up to three passwords of
  an MDISK statement become stars, other records and statements without passwords are kept; only a
  statement that lacks a word in front of the passwords makes it use a null pointer.
\<close>

theorem hide_password_refines:
  assumes "length s \<le> 71" and "80 \<le> cap"
  shows "hidePassword cap s =
    (case hide_words (words s) of Null_Word \<Rightarrow> Fault | Keep \<Rightarrow> Ok s | Replace ws \<Rightarrow> Ok (unwords ws))"
  using hidePassword_eq [OF assms] by (simp add: hidden_result_def)

text \<open>
  C31: the result of \<open>hidePassword\<close> does not depend on the passwords.  Two records that have passwords and differ
  in nothing else give the same line.
\<close>

theorem hide_password_noninterference:
  assumes "length s \<le> 71" "length s' \<le> 71" and "80 \<le> cap"
    and "same_but_passwords (words s) (words s')" and "password_field (words s) i"
  shows "hidePassword cap s = hidePassword cap s'"
proof -
  have "hide_words (words s) = hide_words (words s') \<and> hide_words (words s) \<noteq> Keep"
  proof (cases "is_user_statement (hd (words s))")
    case True
    then show ?thesis using same_user_words [OF assms(4)] assms(5) by (auto simp: password_field_def)
  next
    case False
    then show ?thesis using same_mdisk_words [OF assms(4)] assms(5) by (auto simp: password_field_def)
  qed
  then show ?thesis
    using hidePassword_eq [OF assms(1,3)] hidePassword_eq [OF assms(2,3)]
    by (cases "hide_words (words s')") (auto simp: hidden_result_def)
qed


text \<open>
  A line of the cache: a record shorter than \<open>resultLine\<close> gives its first 71 columns without trailing
  blanks, with the passwords hidden.
\<close>

lemma cache_line_hides:
  assumes "length imageRecord < 256" and "strip (Some (take 71 (takeWhile (\<lambda>b. b \<noteq> 0) imageRecord))) (CHR ''T'') blank = Some (l, off)"
  shows "cache_line imageRecord = res_bind (hidden_result l (hide_words (words l))) (\<lambda>l.
    if length l < 255 then Ok (l @ [10]) else Fault)"
proof -
  have "length l \<le> 71" using strip_T_length [OF assms(2)] by simp
  moreover have "(if length r > 71 then take 71 r else r) = take 71 r" for r :: "byte list" by simp
  ultimately show ?thesis
    using assms hidePassword_eq [of l 256] by (simp add: cache_line_def Let_def)
qed

text \<open>The tests compare no more than the minimum of an abbreviation, so longer words pass.\<close>

lemma checkAbbreviation_iff:
  "checkAbbreviation (Some s) as = 1 \<longleftrightarrow>
   (\<exists>a \<in> set as. minimum a \<le> length s \<and> strncasecmp_eq (minimum a) s (nameP a))"
  by (induction as) (auto simp: checkAbbreviation_def)

lemma checkBoolean_tomato: "checkBoolean (Some (c_literal ''tomato'')) = 1"
  by (simp add: checkBoolean_def checkAbbreviation_def abbreviations_def c_literal_def strncasecmp_eq_def
      strncmp_eq_def c_tolower_def)

section \<open>Instances\<close>

lemma words_user:
  "words (c_literal ''USER LINUX1 SECRET 1G'') = [c_literal ''USER'', c_literal ''LINUX1'', c_literal ''SECRET'', c_literal ''1G'']"
  "words (c_literal ''USER LINUX1 XYZ 1G'') = [c_literal ''USER'', c_literal ''LINUX1'', c_literal ''XYZ'', c_literal ''1G'']"
  by (simp_all add: words.simps strtok_r_def c_literal_def)

lemma user_statement: "is_user_statement (c_literal ''USER'')"
  by (simp add: is_user_statement_def strncmp_eq_def c_literal_def MIN_USER_NLEN_def)

theorem hide_password_refines_witness:
  "hidePassword 256 (c_literal ''USER LINUX1 SECRET 1G'') = Ok (c_literal ''USER LINUX1 * 1G '')"
  using hide_password_refines [of "c_literal ''USER LINUX1 SECRET 1G''" 256] user_statement
  by (simp add: words_user) (simp add: c_literal_def)

theorem hide_password_noninterference_witness:
  "hidePassword 256 (c_literal ''USER LINUX1 SECRET 1G'') = hidePassword 256 (c_literal ''USER LINUX1 XYZ 1G'')"
proof (rule hide_password_noninterference [where i = 2])
  show "same_but_passwords (words (c_literal ''USER LINUX1 SECRET 1G'')) (words (c_literal ''USER LINUX1 XYZ 1G''))"
    using user_statement
    by (simp add: words_user same_but_passwords_def password_field_def less_Suc_eq numeral_2_eq_2 all_conj_distrib)
  show "password_field (words (c_literal ''USER LINUX1 SECRET 1G'')) 2"
    using user_statement by (simp add: words_user password_field_def)
qed (simp_all add: c_literal_def)

end
