(* ===== verification/Directory_Cache.thy ===== *)
theory Directory_Cache
  imports Smapi_Utilities
begin

text \<open>
  The directory cache of \<^verbatim>\<open>src/smapiUtilities.c\<close>: the path that \<open>initializeThreadSemaphores\<close> puts in the
  context, \<open>createDirectories\<close>, \<open>vmbkendGetCachePath\<close>, \<open>vmbkendCacheEntryInvalidate\<close>, \<open>cacheFileValid\<close>, the
  name of the message file and the packets of directory changes that \<open>vmbkendMain\<close> receives.

  The answers of the system (\<open>realpath\<close>, \<open>stat\<close>, \<open>remove\<close>, the clock, the message queue) are
  parameters.  Trace output is left out.
\<close>

section \<open>Paths\<close>

definition PATHLENGTH :: nat where "PATHLENGTH = 512"
definition BUFLEN :: nat where "BUFLEN = 256"
definition CACHEENTRYLEN :: nat where "CACHEENTRYLEN = BUFLEN + 8 + 1 + 8"
definition LINESIZE :: nat where "LINESIZE = 512"

definition CACHE_PATH_DEFAULT :: "byte list" where "CACHE_PATH_DEFAULT = c_literal ''/var/opt/zthin/.vmapi/''"
definition CACHE_SEMAPHORE_DIRECTORY :: "byte list" where "CACHE_SEMAPHORE_DIRECTORY = c_literal ''.vmapi/''"
definition CACHE_SEMAPHORE_FILENAME :: "byte list" where "CACHE_SEMAPHORE_FILENAME = c_literal ''vmapi.sem''"
definition CACHE_DIRECTORY :: "byte list" where "CACHE_DIRECTORY = c_literal ''.cache/''"
definition USERS_LIST_FILE :: "byte list" where "USERS_LIST_FILE = c_literal ''users.list''"

abbreviation slash :: byte where "slash \<equiv> 47"

text \<open>
  The path of the context, by the variable \<^verbatim>\<open>ZTHIN_VAR\<close>: the steps of \<open>initializeThreadSemaphores\<close>
  up to the semaphores.  For the empty value the byte in front of the array is read.
\<close>

definition context_path :: "byte list option \<Rightarrow> byte list res" where
  "context_path zthin_var =
     (case zthin_var of
        None \<Rightarrow> Ok CACHE_PATH_DEFAULT
      | Some pathPtr \<Rightarrow>
          if length pathPtr + length CACHE_SEMAPHORE_DIRECTORY > PATHLENGTH + length CACHE_SEMAPHORE_FILENAME
          then Err (-3)
          else
            (let path = take (PATHLENGTH - (length CACHE_SEMAPHORE_DIRECTORY + 2)) pathPtr in
             if path = [] then Fault
             else if last path = slash then Ok (path @ CACHE_SEMAPHORE_DIRECTORY)
             else Ok (path @ [slash] @ CACHE_SEMAPHORE_DIRECTORY)))"

text \<open>
  The path of the cache in the caller's array of \<open>cap\<close> bytes.  For a context that is not yet created
  \<open>init_rc\<close> is the result of \<open>initializeThreadSemaphores\<close>; when it fails the array \<open>pathP\<close> is left as it is.
  \<open>path\<close> is the path of the context behind this call.
\<close>

definition vmbkendGetCachePath :: "nat \<Rightarrow> bool \<Rightarrow> int \<Rightarrow> byte list \<Rightarrow> byte list \<Rightarrow> byte list res" where
  "vmbkendGetCachePath cap created init_rc path pathP =
     (if \<not> created \<and> init_rc \<noteq> 0 then Ok pathP
      else if length path \<ge> cap then Fault
      else if length (path @ CACHE_DIRECTORY) \<ge> cap then Fault
      else Ok (path @ CACHE_DIRECTORY))"

text \<open>The names for which \<open>mkdir\<close> is called: the part in front of each slash behind the first character.\<close>

fun make_directories :: "byte list \<Rightarrow> byte list \<Rightarrow> byte list list" where
  "make_directories done [] = []"
| "make_directories done (b # bs) = (if b = slash then [done] else []) @ make_directories (done @ [b]) bs"

definition createDirectories :: "byte list \<Rightarrow> byte list list" where
  "createDirectories aFilenameP =
     (if length aFilenameP \<ge> LINESIZE - 1 then []
      else case aFilenameP of [] \<Rightarrow> [] | b # bs \<Rightarrow> make_directories [b] bs)"

text \<open>The message file in a buffer of \<open>n\<close> bytes: a buffer that is too small is reported and used.\<close>

definition contextGetMessageFilename :: "nat \<Rightarrow> byte list option \<Rightarrow> byte list res" where
  "contextGetMessageFilename n vmapi =
     res_bind
       (case vmapi of
          None \<Rightarrow> Ok (c_literal ''/root/.cimvm/'')
        | Some pathP \<Rightarrow>
            if length pathP > n \<or> pathP = [] then Fault
            else if last pathP = slash then Ok (pathP @ c_literal ''.cimvm/'')
            else Ok (pathP @ c_literal ''/.cimvm/''))
       (\<lambda>buffer. let name = buffer @ c_literal ''messages'' @ c_literal ''.eng'' in if length name < n then Ok name else Fault)"

section \<open>Cache files\<close>

record cache_os =
  realpath_of :: "byte list \<Rightarrow> byte list + int"
  stat_of :: "byte list \<Rightarrow> int"
  remove_of :: "byte list \<Rightarrow> bool"

definition EINVAL :: int where "EINVAL = 22"
definition EACCES :: int where "EACCES = 13"
definition ENAMETOOLONG :: int where "ENAMETOOLONG = 36"
definition ENOENT :: int where "ENOENT = 2"

definition c_isalnum :: "byte \<Rightarrow> bool" where
  "c_isalnum b \<longleftrightarrow> 48 \<le> uint b \<and> uint b \<le> 57 \<or> 65 \<le> uint b \<and> uint b \<le> 90 \<or> 97 \<le> uint b \<and> uint b \<le> 122"

text \<open>The return code, the value for \<open>errnoSaved\<close> if it is set, and the file that is removed.\<close>

definition vmbkendCacheEntryInvalidate ::
  "cache_os \<Rightarrow> byte list option \<Rightarrow> byte list option \<Rightarrow> int \<times> int option \<times> byte list option" where
  "vmbkendCacheEntryInvalidate os pathP useridP =
     (case (pathP, useridP) of
        (Some path, Some userid) \<Rightarrow>
          if path = [] \<or> userid = [] then (2, Some EINVAL, None)
          else
            (case realpath_of os path of
               Inr e \<Rightarrow> (2, Some e, None)
             | Inl resolvedPath \<Rightarrow>
                 if path \<noteq> resolvedPath then (2, Some EACCES, None)
                 else if \<not> list_all (\<lambda>b. c_isalnum b \<or> b = 95) (take 8 userid) then (2, Some EINVAL, None)
                 else
                   (let cacheEntry = resolvedPath @ take 8 userid @ c_literal ''.direct'' in
                    if length cacheEntry \<ge> CACHEENTRYLEN then (2, Some ENAMETOOLONG, None)
                    else
                      (let e = stat_of os cacheEntry in
                       if e \<noteq> 0 then (if e = ENOENT then 1 else 2, Some e, None)
                       else if \<not> remove_of os cacheEntry then (4, None, None)
                       else (3, None, Some cacheEntry))))
      | _ \<Rightarrow> (2, Some EINVAL, None))"

text \<open>A cache file by its age in seconds; \<open>timelimit\<close> is the variable \<^verbatim>\<open>EPP_CACHE_TIMELIMIT\<close>.\<close>

definition cacheFileValid :: "byte list option \<Rightarrow> int option \<Rightarrow> int option \<Rightarrow> bool" where
  "cacheFileValid timelimit currentTime mtime =
     (let timeLimit = (case timelimit of None \<Rightarrow> 5000 | Some s \<Rightarrow> c_atoi s) in
      case currentTime of
        None \<Rightarrow> False
      | Some now \<Rightarrow>
          (case mtime of
             None \<Rightarrow> False
           | Some t \<Rightarrow> \<not> (now - t < 0 \<or> now - t > timeLimit)))"

section \<open>Packets of directory changes\<close>

record dir_chng_message =
  dm_userid :: "byte list"
  dm_userWord :: "byte list"

record backend_out =
  removed :: "byte list list"
  messages :: "dir_chng_message list"

definition strcasecmp_eq :: "byte list \<Rightarrow> byte list \<Rightarrow> bool" where
  "strcasecmp_eq s t \<longleftrightarrow> map c_tolower s = map c_tolower t"

text \<open>\<open>readBuffer\<close> is cleared before a packet is received into it.\<close>

definition recv_buffer :: "byte list \<Rightarrow> byte list" where
  "recv_buffer packet = take BUFLEN packet @ replicate (BUFLEN - length packet) 0"

text \<open>The string that \<open>strncpy\<close> copies from an offset of the buffer; a read behind it is \<open>Fault\<close>.\<close>

definition strncpy_from :: "byte list \<Rightarrow> nat \<Rightarrow> nat \<Rightarrow> byte list res" where
  "strncpy_from buf off n =
     (let rest = drop off buf; s = takeWhile (\<lambda>b. b \<noteq> 0) rest in
      if length s < length rest \<or> n \<le> length rest then Ok (take n s) else Fault)"

definition removed_by :: "int \<times> int option \<times> byte list option \<Rightarrow> byte list list" where
  "removed_by r = (case r of (_, _, None) \<Rightarrow> [] | (_, _, Some f) \<Rightarrow> [f])"

text \<open>
  One turn of the loop of \<open>vmbkendMain\<close> on a packet.  \<open>msg_ok\<close> says whether the message queue takes
  the message.  \<open>cacheUserID\<close> has room for eight characters, the message for 8 and 16.
\<close>

definition vmbkend_packet :: "cache_os \<Rightarrow> bool \<Rightarrow> byte list \<Rightarrow> byte list \<Rightarrow> backend_out res" where
  "vmbkend_packet os msg_ok cachePath packet =
     (let readBuffer = recv_buffer packet; skip = Ok \<lparr>removed = [], messages = []\<rparr> in
      if length packet \<le> 4 then skip
      else
        (let useridLength = nat (be_val (take 4 readBuffer)) in
         if useridLength > 8 \<or> useridLength = 0 \<or> useridLength \<ge> BUFLEN then skip
         else
           res_bind (strncpy_from readBuffer 4 useridLength) (\<lambda>userID.
           let cmdLength = nat (be_val (take 4 (drop (4 + useridLength) readBuffer))) in
           if cmdLength \<ge> BUFLEN then skip
           else
             res_bind (strncpy_from readBuffer (4 + useridLength + 4) cmdLength) (\<lambda>cmd.
             let users = (if strcasecmp_eq cmd (c_literal ''add'') \<or> strcasecmp_eq cmd (c_literal ''purge'')
                          then removed_by (vmbkendCacheEntryInvalidate os (Some cachePath) (Some USERS_LIST_FILE)) else []);
                 cacheUserID = map c_tolower userID;
                 image = removed_by (vmbkendCacheEntryInvalidate os (Some cachePath) (Some (cacheUserID @ c_literal ''.image'')));
                 prof = removed_by (vmbkendCacheEntryInvalidate os (Some cachePath) (Some (cacheUserID @ c_literal ''.profile'')))
             in Ok \<lparr>removed = users @ image @ prof,
                    messages =
                      (if (strcasecmp_eq cmd (c_literal ''add'') \<or> strcasecmp_eq cmd (c_literal ''purge'') \<or>
                           strcasecmp_eq cmd (c_literal ''replace'')) \<and> msg_ok
                       then [\<lparr>dm_userid = take 8 userID, dm_userWord = take 16 cmd\<rparr>] else [])\<rparr>))))"


section \<open>No cache file is removed\<close>

text \<open>
  \<open>realpath\<close> gives a canonical name: it has no slash at its end, apart from the root.
\<close>

definition canonical_names :: "cache_os \<Rightarrow> bool" where
  "canonical_names os \<longleftrightarrow> (\<forall>p q. realpath_of os p = Inl q \<longrightarrow> q = [slash] \<or> q \<noteq> [] \<and> last q \<noteq> slash)"

lemma CACHE_DIRECTORY_last: "CACHE_DIRECTORY \<noteq> []" "last CACHE_DIRECTORY = slash" "1 < length CACHE_DIRECTORY"
  by (simp_all add: CACHE_DIRECTORY_def c_literal_def)

lemma vmbkendGetCachePath_slash:
  "vmbkendGetCachePath cap created init_rc path pathP = Ok p \<Longrightarrow> created \<or> init_rc = 0 \<Longrightarrow> p \<noteq> [slash] \<and> last p = slash"
  by (auto simp: vmbkendGetCachePath_def append_eq_Cons_conv CACHE_DIRECTORY_def c_literal_def split: if_splits)

lemma invalidate_slash:
  assumes "canonical_names os" and "p \<noteq> [slash]" "last p = slash"
  shows "\<exists>e. vmbkendCacheEntryInvalidate os (Some p) (Some u) = (2, Some e, None)"
proof (cases "realpath_of os p")
  case (Inl q)
  then have "p \<noteq> q" using assms by (auto simp: canonical_names_def)
  then show ?thesis using Inl by (simp add: vmbkendCacheEntryInvalidate_def)
qed (simp add: vmbkendCacheEntryInvalidate_def)

lemma removed_by_slash:
  assumes "canonical_names os" and "p \<noteq> [slash]" "last p = slash"
  shows "removed_by (vmbkendCacheEntryInvalidate os (Some p) (Some u)) = []"
  using invalidate_slash [OF assms, of u] by (auto simp: removed_by_def)

lemma length_recv_buffer: "length (recv_buffer packet) = BUFLEN"
  by (simp add: recv_buffer_def)

lemma recv_buffer_nul:
  assumes "length packet < BUFLEN" and "off < BUFLEN"
  shows "length (takeWhile (\<lambda>b. b \<noteq> 0) (drop off (recv_buffer packet))) < length (drop off (recv_buffer packet))"
proof (rule ccontr)
  assume "\<not> ?thesis"
  then have "takeWhile (\<lambda>b. b \<noteq> 0) (drop off (recv_buffer packet)) = drop off (recv_buffer packet)"
    by (metis length_takeWhile_le nat_less_le takeWhile_eq_take take_all)
  then have "\<forall>b \<in> set (drop off (recv_buffer packet)). b \<noteq> 0"
    by (simp add: takeWhile_eq_all_conv)
  moreover have "last (drop off (recv_buffer packet)) = 0"
    using assms length_recv_buffer [of packet] by (simp add: last_drop recv_buffer_def)
  moreover have "drop off (recv_buffer packet) \<noteq> []"
    using assms(2) length_recv_buffer [of packet] by simp
  ultimately show False by (metis last_in_set)
qed

lemma strncpy_from_ok:
  "length packet < BUFLEN \<Longrightarrow> off < BUFLEN \<Longrightarrow> \<exists>s. strncpy_from (recv_buffer packet) off n = Ok s"
  using recv_buffer_nul [of packet off] by (simp add: strncpy_from_def Let_def)

lemma packet_handled:
  assumes len: "length packet < BUFLEN"
  shows "\<exists>out. vmbkend_packet os msg_ok cachePath packet = Ok out"
proof -
  define n where "n = nat (be_val (take 4 (recv_buffer packet)))"
  show ?thesis
  proof (cases "length packet \<le> 4 \<or> n > 8 \<or> n = 0 \<or> n \<ge> BUFLEN")
    case True
    then show ?thesis by (auto simp: vmbkend_packet_def Let_def n_def)
  next
    case False
    then have "4 < BUFLEN" "4 + n + 4 < BUFLEN" by (simp_all add: BUFLEN_def)
    then obtain s t where "strncpy_from (recv_buffer packet) 4 n = Ok s"
      "strncpy_from (recv_buffer packet) (4 + n + 4) (nat (be_val (take 4 (drop (4 + n) (recv_buffer packet))))) = Ok t"
      using strncpy_from_ok [OF len] by blast
    then show ?thesis using False by (simp add: vmbkend_packet_def Let_def n_def)
  qed
qed

lemma full_packet_overread:
  "vmbkend_packet os msg_ok cachePath (be_bytes 4 8 @ replicate 8 65 @ be_bytes 4 255 @ replicate 240 65) = Fault"
  by (simp add: vmbkend_packet_def Let_def recv_buffer_def BUFLEN_def be_val_be_bytes strncpy_from_def)

section \<open>Properties\<close>

text \<open>
  C33: no packet of a directory change removes a file of the cache.  The path of the cache ends with a
  slash, whatever \<^verbatim>\<open>ZTHIN_VAR\<close> is, \<open>realpath\<close> gives a name without it, and the comparison of the two
  lets \<open>vmbkendCacheEntryInvalidate\<close> return 2 before it gets to \<open>remove\<close>.
\<close>

theorem directory_change_removes_nothing:
  assumes "canonical_names os" and "context_path zthin_var = Ok path"
    and "vmbkendGetCachePath (BUFLEN + 1) created init_rc path pathP = Ok cachePath" "created \<or> init_rc = 0"
    and "vmbkend_packet os msg_ok cachePath packet = Ok out"
  shows "removed out = []"
  using assms(5) vmbkendGetCachePath_slash [OF assms(3,4)] removed_by_slash [OF assms(1)]
  by (auto simp: vmbkend_packet_def Let_def res_bind_eq_Ok split: if_splits)


text \<open>
  C34: a packet shorter than \<open>readBuffer\<close> is handled without an access outside the arrays of the loop,
  whatever its length fields say; in a packet that fills the buffer the length of the command can lead the copy of
  the command behind the buffer, since it is compared with the size of \<open>cmd\<close> only.
\<close>

theorem directory_packet_in_bounds:
  "(length packet < BUFLEN \<longrightarrow> (\<exists>out. vmbkend_packet os msg_ok cachePath packet = Ok out)) \<and>
   vmbkend_packet os msg_ok cachePath (be_bytes 4 8 @ replicate 8 65 @ be_bytes 4 255 @ replicate 240 65) = Fault"
  by (simp add: packet_handled full_packet_overread)

text \<open>The buffer of a packet with a user and a command.\<close>

definition change_packet :: "byte list \<Rightarrow> byte list \<Rightarrow> byte list" where
  "change_packet userid cmd = be_bytes 4 (int (length userid)) @ userid @ be_bytes 4 (int (length cmd)) @ cmd"

lemma strncpy_from_exact:
  assumes "recv_buffer packet = pre @ s @ post" and "length pre = off" and "0 \<notin> set s"
  shows "strncpy_from (recv_buffer packet) off (length s) = Ok s"
proof -
  have "takeWhile (\<lambda>b. b \<noteq> 0) (s @ post) = s @ takeWhile (\<lambda>b. b \<noteq> 0) post"
    by (rule takeWhile_append2) (use assms(3) in auto)
  then show ?thesis using assms(1,2) by (simp add: strncpy_from_def Let_def)
qed

lemma change_packet_parsed:
  assumes "0 < length userid" "length userid \<le> 8" and "length cmd \<le> 16" and "0 \<notin> set (userid @ cmd)"
  defines "buf \<equiv> recv_buffer (change_packet userid cmd)"
  shows "be_val (take 4 buf) = int (length userid)" "strncpy_from buf 4 (length userid) = Ok userid"
    "be_val (take 4 (drop (4 + length userid) buf)) = int (length cmd)"
    "strncpy_from buf (4 + length userid + 4) (length cmd) = Ok cmd"
proof -
  define z where "z = replicate (BUFLEN - length (change_packet userid cmd)) (0 :: byte)"
  have buf: "buf = be_bytes 4 (int (length userid)) @ userid @ be_bytes 4 (int (length cmd)) @ cmd @ z"
    using assms(2,3) by (simp add: buf_def recv_buffer_def change_packet_def BUFLEN_def z_def)
  show "be_val (take 4 buf) = int (length userid)" "be_val (take 4 (drop (4 + length userid) buf)) = int (length cmd)"
    using assms(2,3) by (simp_all add: buf be_val_be_bytes)
  show "strncpy_from buf 4 (length userid) = Ok userid"
    unfolding buf_def by (rule strncpy_from_exact [OF buf [unfolded buf_def]]) (use assms(4) in simp_all)
  show "strncpy_from buf (4 + length userid + 4) (length cmd) = Ok cmd"
    unfolding buf_def
    by (rule strncpy_from_exact [where pre = "be_bytes 4 (int (length userid)) @ userid @ be_bytes 4 (int (length cmd))" and post = z])
      (use assms(4) buf [unfolded buf_def] in simp_all)
qed

text \<open>
  A packet that says that a user was added, purged or replaced, in upper or lower case, puts exactly one
  message with the user and the command on the queue; a packet with another command puts none.
\<close>

theorem directory_change_reported:
  assumes "0 < length userid" "length userid \<le> 8" and "length cmd \<le> 16" and "0 \<notin> set (userid @ cmd)"
  shows "\<exists>out. vmbkend_packet os True cachePath (change_packet userid cmd) = Ok out \<and>
    messages out =
      (if map c_tolower cmd \<in> set (map c_literal [''add'', ''purge'', ''replace''])
       then [\<lparr>dm_userid = userid, dm_userWord = cmd\<rparr>] else [])"
proof -
  have lower: "map c_tolower (c_literal s) = c_literal s" if "s \<in> {''add'', ''purge'', ''replace''}" for s
    using that by (auto simp: c_literal_def c_tolower_def)
  have "4 < length (change_packet userid cmd)" using assms(1) by (simp add: change_packet_def)
  moreover have "length cmd < BUFLEN" "length userid < BUFLEN" using assms(2,3) by (simp_all add: BUFLEN_def)
  ultimately show ?thesis
    using assms(1-3) change_packet_parsed [OF assms]
    by (simp add: vmbkend_packet_def Let_def strcasecmp_eq_def lower)
qed

section \<open>Instances\<close>

definition sample_cache_os :: cache_os where
  "sample_cache_os =
     \<lparr>realpath_of = (\<lambda>p. Inl (slash # rev (dropWhile (\<lambda>b. b = slash) (rev (drop 1 p))))),
      stat_of = (\<lambda>_. 0), remove_of = (\<lambda>_. True)\<rparr>"

lemma no_slash_at_end:
  "slash # rev (dropWhile (\<lambda>b. b = slash) bs) = [slash] \<or> last (slash # rev (dropWhile (\<lambda>b. b = slash) bs)) \<noteq> slash"
  using hd_dropWhile [of "\<lambda>b. b = slash" bs] by (auto simp: last_rev)

lemma sample_canonical: "canonical_names sample_cache_os"
  unfolding canonical_names_def sample_cache_os_def
  using no_slash_at_end by (simp del: rev_is_Nil_conv last.simps)

theorem directory_change_removes_nothing_witness:
  "\<exists>out. vmbkend_packet sample_cache_os True (CACHE_PATH_DEFAULT @ CACHE_DIRECTORY)
      (change_packet (c_literal ''LINUX1'') (c_literal ''PURGE'')) = Ok out \<and> removed out = []"
proof -
  have "length (change_packet (c_literal ''LINUX1'') (c_literal ''PURGE'')) < BUFLEN"
    by (simp add: change_packet_def c_literal_def BUFLEN_def)
  then obtain out where out: "vmbkend_packet sample_cache_os True (CACHE_PATH_DEFAULT @ CACHE_DIRECTORY)
      (change_packet (c_literal ''LINUX1'') (c_literal ''PURGE'')) = Ok out"
    using packet_handled by blast
  moreover have "context_path None = Ok CACHE_PATH_DEFAULT" by (simp add: context_path_def)
  moreover have "vmbkendGetCachePath (BUFLEN + 1) True 0 CACHE_PATH_DEFAULT [] = Ok (CACHE_PATH_DEFAULT @ CACHE_DIRECTORY)"
    by (simp add: vmbkendGetCachePath_def CACHE_PATH_DEFAULT_def CACHE_DIRECTORY_def c_literal_def BUFLEN_def)
  ultimately show ?thesis using directory_change_removes_nothing [OF sample_canonical] by blast
qed

theorem directory_packet_in_bounds_witness:
  "\<exists>out. vmbkend_packet sample_cache_os True [] (replicate 255 7) = Ok out"
  using directory_packet_in_bounds [of "replicate 255 7"] by (simp add: BUFLEN_def)

theorem directory_change_reported_witness:
  "\<exists>out. vmbkend_packet sample_cache_os True [] (change_packet (c_literal ''LINUX1'') (c_literal ''Purge'')) = Ok out \<and>
    messages out = [\<lparr>dm_userid = c_literal ''LINUX1'', dm_userWord = c_literal ''Purge''\<rparr>]"
  using directory_change_reported [of "c_literal ''LINUX1''" "c_literal ''Purge''" sample_cache_os "[]"]
  by (simp add: c_literal_def c_tolower_def)

end
