(* ===== verification/Event_Subscription.thy ===== *)
theory Event_Subscription
  imports Directory_Cache Wrapper_Utils Smapi_Socket
begin

text \<open>
  The events that the background thread receives on its subscription:
  \<open>vmbkendMain_setSmapiSubscribeEventData\<close> of \<^verbatim>\<open>src/smapiUtilities.c\<close>.  The bytes that are still to come on the
  socket are a list, and \<open>stream_end\<close> says what \<open>recv\<close> does behind them.  The host
  is big-endian, as the integers of the events are read without conversion.  \<open>msg_ok\<close> says which messages the queues take;
  these are kept in the state; trace output is left out.
\<close>

section \<open>Reading\<close>

text \<open>
  Behind the last byte a call of the system fails, so that \<open>smSocketRead\<close> closes the socket and returns its code, or the peer has
  closed the connection and \<open>recv\<close> returns 0 from then on.
\<close>

datatype stream_end = Read_Error int | Peer_Closed

datatype event_message =
    Log_Message "byte list" int
  | Dir_Change_Message "byte list" "byte list"
  | Relocation_Message "byte list" int "byte list option" "byte list option" "int option"
  | Ssi_Message int "byte list" int int

record event_state =
  ev_stream :: "byte list"
  actualSize :: int
  ev_removed :: "byte list list"
  ev_messages :: "event_message list"

text \<open>A step ends the function with a return code or gives a value.\<close>

type_synonym 'a event_step = "event_state \<Rightarrow> ((int + 'a) \<times> event_state) res"

definition ev_return :: "'a \<Rightarrow> 'a event_step" where
  "ev_return x s = Ok (Inr x, s)"

definition ev_exit :: "int \<Rightarrow> 'a event_step" where
  "ev_exit rc s = Ok (Inl rc, s)"

definition ev_fault :: "'a event_step" where
  "ev_fault s = Fault"

definition ev_bind :: "'a event_step \<Rightarrow> ('a \<Rightarrow> 'b event_step) \<Rightarrow> 'b event_step" where
  "ev_bind m k s = res_bind (m s) (\<lambda>(r, s). case r of Inl rc \<Rightarrow> Ok (Inl rc, s) | Inr x \<Rightarrow> k x s)"

text \<open>
  \<open>smSocketRead\<close> of \<open>n\<close> bytes into an array of \<open>cap\<close> bytes, and the count of the bytes.  At a closed connection it gives up after
  eleven empty receives, but only if no byte of the \<open>n\<close> has arrived: behind a part of them it asks again and again and does not
  return, as theory \<open>Smapi_Socket\<close> shows, which is \<open>NoFuel\<close> whatever the fuel.
\<close>

definition ev_read :: "stream_end \<Rightarrow> int \<Rightarrow> int \<Rightarrow> byte list event_step" where
  "ev_read err cap n s =
     (if n \<le> 0 then Ok (Inr [], s\<lparr>actualSize := actualSize s + n\<rparr>)
      else if min n (int (length (ev_stream s))) > cap then Fault
      else if n > int (length (ev_stream s)) then
        (case err of
           Read_Error rc \<Rightarrow> Ok (Inl rc, s\<lparr>ev_stream := []\<rparr>)
         | Peer_Closed \<Rightarrow> if ev_stream s = [] then Ok (Inl SOCKET_READ_ERROR, s) else NoFuel)
      else Ok (Inr (take (nat n) (ev_stream s)),
               s\<lparr>ev_stream := drop (nat n) (ev_stream s), actualSize := actualSize s + n\<rparr>))"

definition ev_int :: "stream_end \<Rightarrow> int event_step" where
  "ev_int err = ev_bind (ev_read err 4 4) (\<lambda>bs. ev_return (get_int 4 bs))"

definition ev_short :: "stream_end \<Rightarrow> int event_step" where
  "ev_short err = ev_bind (ev_read err 2 2) (\<lambda>bs. ev_return (be_val bs))"

text \<open>A name of eight EBCDIC characters, cut at the first blank.\<close>

definition ebcdic_name :: "byte list \<Rightarrow> byte list" where
  "ebcdic_name bs = takeWhile (\<lambda>b. b \<noteq> 0) (map (\<lambda>b. let c = EBCDICtoASCII b in if c = 32 then 0 else c) bs)"

definition ev_name :: "stream_end \<Rightarrow> int \<Rightarrow> byte list event_step" where
  "ev_name err cap = ev_bind (ev_read err cap 8) (\<lambda>bs. ev_return (ebcdic_name bs))"

definition ev_send :: "(event_message \<Rightarrow> bool) \<Rightarrow> event_message option \<Rightarrow> unit event_step" where
  "ev_send msg_ok msg s =
     (case msg of None \<Rightarrow> Ok (Inr (), s)
      | Some x \<Rightarrow> Ok (Inr (), if msg_ok x then s\<lparr>ev_messages := ev_messages s @ [x]\<rparr> else s))"

definition ev_invalidate :: "cache_os \<Rightarrow> byte list \<Rightarrow> byte list \<Rightarrow> unit event_step" where
  "ev_invalidate os cachePath entry s =
     Ok (Inr (), s\<lparr>ev_removed := ev_removed s @ removed_by (vmbkendCacheEntryInvalidate os (Some cachePath) (Some entry))\<rparr>)"

section \<open>Directory changes\<close>

text \<open>
  Events of data type 1.  \<open>userid\<close> has nine bytes, \<open>userWord\<close> has 17, and \<open>line\<close>, which takes the data that
  is thrown away, has 512.  A length that does not fit is a write outside the array.
\<close>

definition directory_event :: "stream_end \<Rightarrow> cache_os \<Rightarrow> (event_message \<Rightarrow> bool) \<Rightarrow> byte list \<Rightarrow> int \<Rightarrow> unit event_step" where
  "directory_event err os msg_ok cachePath tempSize =
     ev_bind (ev_int err) (\<lambda>eventID.
     if eventID \<noteq> 1 then ev_return ()
     else
       ev_bind (ev_int err) (\<lambda>useridLength.
       ev_bind (ev_read err tempSize useridLength) (\<lambda>bs.
       if useridLength > 8 then ev_fault
       else
         let userid = takeWhile (\<lambda>b. b \<noteq> 0) bs in
         ev_bind (ev_int err) (\<lambda>userWordLength.
         ev_bind (ev_read err 17 userWordLength) (\<lambda>ws.
         if userWordLength < 0 \<or> userWordLength > 16 then ev_fault
         else
           let userWord = takeWhile (\<lambda>b. b \<noteq> 0) ws in
           ev_bind (ev_int err) (\<lambda>sizeOfSubdata.
           ev_bind (if sizeOfSubdata > 0 then ev_read err (int LINESIZE) sizeOfSubdata else ev_return []) (\<lambda>_.
           ev_bind (if strcasecmp_eq userWord (c_literal ''add'') \<or> strcasecmp_eq userWord (c_literal ''purge'')
                    then ev_invalidate os cachePath USERS_LIST_FILE else ev_return ()) (\<lambda>_.
           if useridLength < 0 then ev_fault
           else
             ev_bind (ev_invalidate os cachePath (map c_tolower userid @ c_literal ''.image'')) (\<lambda>_.
             ev_bind (ev_invalidate os cachePath (map c_tolower userid @ c_literal ''.profile'')) (\<lambda>_.
             ev_send msg_ok (Some (Dir_Change_Message userid userWord))))))))))))"

section \<open>Events of the system\<close>

definition vmeClassRows :: "nat list" where "vmeClassRows = [14, 6, 2, 2]"

definition vmeventRemainders :: "(int \<times> int) list" where
  "vmeventRemainders =
     [(0, 0), (1, 0), (2, 8+1), (3, 8+2), (4, 8), (5, 8), (6, 8), (9, 0), (10, 0), (11, 0), (12, 0), (13, 0), (14, 0), (15, 8),
      (2, 8+1), (3, 8+2), (4, 8), (6, 8), (9, 0), (10, 0),
      (7, 0), (8, 8+8+1+1),
      (7, 0), (8, 8+8+1+1),
      (16, 8+8+2+1+1+2+1+1), (17, 8+8+2+1+1+2+1+1), (18, 8+8+2+1+1+2+1+1), (19, 8+8+2+1+1+2+1+1)]"

text \<open>
  The rows of a class in the table.  The test lets classes up to 4 through; \<open>vmeClassRows\<close> has four
  elements, so class 4 reads behind it.
\<close>

definition class_remainder :: "int \<Rightarrow> int \<Rightarrow> int option res" where
  "class_remainder eventClass eventType =
     (if nat eventClass \<ge> length vmeClassRows then Fault
      else
        (let startRow = sum_list (take (nat eventClass) vmeClassRows);
             rows = take (vmeClassRows ! nat eventClass) (drop startRow vmeventRemainders)
         in Ok (map_of rows eventType)))"

definition unread_data :: "int \<Rightarrow> int \<Rightarrow> int \<Rightarrow> int event_step" where
  "unread_data tempSize eventClass eventType s =
     (if eventClass \<le> 4 then
        res_bind (class_remainder eventClass eventType) (\<lambda>r.
          case r of None \<Rightarrow> Ok (Inr (tempSize - actualSize s), s) | Some n \<Rightarrow> Ok (Inr n, s))
      else Ok (Inr (tempSize - actualSize s), s))"

text \<open>The fields of an event, as the message that is made of them.\<close>

definition event_fields :: "stream_end \<Rightarrow> int \<Rightarrow> int \<Rightarrow> int \<Rightarrow> event_message option event_step" where
  "event_fields err tempSize eventClass eventType =
     (if eventClass = 0 \<and> eventType \<le> 1 then
        ev_bind (ev_name err tempSize) (\<lambda>userid. ev_return (Some (Log_Message userid eventType)))
      else if eventClass = 0 \<and> 9 \<le> eventType \<and> eventType \<le> 12 \<or> eventClass = 1 \<and> 9 \<le> eventType \<and> eventType \<le> 10 then
        ev_bind (ev_name err tempSize) (\<lambda>userid.
        ev_bind (ev_name err tempSize) (\<lambda>systemId.
        ev_return (Some (
          if eventType = 9 \<or> eventType = 11 then Relocation_Message userid eventType (Some systemId) None None
          else Relocation_Message userid eventType None (Some systemId) None))))
      else if eventClass = 0 \<and> 13 \<le> eventType \<and> eventType \<le> 14 then
        ev_bind (ev_name err tempSize) (\<lambda>userid.
        ev_bind (ev_read err tempSize 1) (\<lambda>bs.
        ev_return (Some (Relocation_Message userid eventType None None (Some (be_val bs))))))
      else if (eventClass = 2 \<or> eventClass = 3) \<and> eventType = 7 then
        ev_bind (ev_name err tempSize) (\<lambda>ssiName.
        ev_bind (ev_read err 2 2) (\<lambda>modes.
        ev_return (Some (Ssi_Message eventType ssiName (be_val (take 1 modes)) (be_val (drop 1 modes))))))
      else ev_return None)"

definition vm_event :: "stream_end \<Rightarrow> (event_message \<Rightarrow> bool) \<Rightarrow> int \<Rightarrow> int event_step" where
  "vm_event err msg_ok tempSize =
     ev_bind (ev_short err) (\<lambda>eventClass.
     ev_bind (ev_short err) (\<lambda>eventType.
     ev_bind (event_fields err tempSize eventClass eventType) (\<lambda>msg.
     ev_bind (unread_data tempSize eventClass eventType) (\<lambda>n.
     ev_bind (ev_send msg_ok msg) (\<lambda>_. ev_return n)))))"

section \<open>A transmission\<close>

definition rest_of :: "int \<Rightarrow> int event_step" where
  "rest_of tempSize s = Ok (Inr (tempSize - actualSize s), s)"

definition one_event :: "stream_end \<Rightarrow> cache_os \<Rightarrow> (event_message \<Rightarrow> bool) \<Rightarrow> byte list \<Rightarrow> int \<Rightarrow> int \<Rightarrow> byte list event_step" where
  "one_event err os msg_ok cachePath tempSize eventDataType =
     ev_bind
       (if eventDataType = 1 then ev_bind (directory_event err os msg_ok cachePath tempSize) (\<lambda>_. rest_of tempSize)
        else if eventDataType = 0 then vm_event err msg_ok tempSize
        else rest_of tempSize)
       (\<lambda>n. if n > 0 then ev_read err tempSize n else ev_return [])"

primrec event_loop :: "nat \<Rightarrow> stream_end \<Rightarrow> cache_os \<Rightarrow> (event_message \<Rightarrow> bool) \<Rightarrow> byte list \<Rightarrow> int \<Rightarrow> int \<Rightarrow> int event_step" where
  "event_loop 0 err os msg_ok cachePath tempSize eventDataType s = NoFuel"
| "event_loop (Suc f) err os msg_ok cachePath tempSize eventDataType s =
     (if tempSize > actualSize s
      then ev_bind (one_event err os msg_ok cachePath tempSize eventDataType)
        (\<lambda>_. event_loop f err os msg_ok cachePath tempSize eventDataType) s
      else Ok (Inr 0, s))"

text \<open>Twelve bytes are an error: the identifier of the request and two codes.\<close>

definition error_data :: "stream_end \<Rightarrow> int \<Rightarrow> int event_step" where
  "error_data err requestId =
     ev_bind (ev_int err) (\<lambda>request_id.
     if request_id = requestId
     then ev_bind (ev_int err) (\<lambda>_. ev_bind (ev_int err) (\<lambda>_. ev_exit (-3)))
     else ev_exit (-3))"

definition vmbkendMain_setSmapiSubscribeEventData ::
  "nat \<Rightarrow> stream_end \<Rightarrow> (int \<Rightarrow> bool) \<Rightarrow> cache_os \<Rightarrow> (event_message \<Rightarrow> bool) \<Rightarrow> int \<Rightarrow> int \<Rightarrow> byte list \<Rightarrow> byte list \<Rightarrow> (int \<times> event_state) res" where
  "vmbkendMain_setSmapiSubscribeEventData fuel err malloc os msg_ok tempSize requestId cachePath stream =
     (let s = \<lparr>ev_stream = stream, actualSize = 0, ev_removed = [], ev_messages = []\<rparr> in
      if \<not> malloc tempSize then Ok (MEMORY_ERROR, s)
      else
        res_bind
          ((if tempSize = 12 then error_data err requestId
            else ev_bind (ev_int err) (\<lambda>eventDataType. event_loop fuel err os msg_ok cachePath tempSize eventDataType)) s)
          (\<lambda>(r, s). Ok (case r of Inl rc \<Rightarrow> rc | Inr rc \<Rightarrow> rc, s)))"


section \<open>Steps\<close>

lemma ev_bind_simps [simp]:
  "ev_bind (ev_return x) k s = k x s" "ev_bind ev_fault k s = Fault" "ev_bind (ev_exit rc) k s = Ok (Inl rc, s)"
  by (simp_all add: ev_bind_def ev_return_def ev_fault_def ev_exit_def)

lemma ev_bind_assoc: "ev_bind (ev_bind m k) l = ev_bind m (\<lambda>x. ev_bind (k x) l)"
proof
  fix s
  show "ev_bind (ev_bind m k) l s = ev_bind m (\<lambda>x. ev_bind (k x) l) s"
    by (cases "m s") (auto simp: ev_bind_def split: sum.splits prod.splits)
qed

lemma class_4 [simp]: "ev_bind (unread_data t 4 e) k s = Fault"
  by (simp add: ev_bind_def unread_data_def class_remainder_def vmeClassRows_def)

lemma bind_read:
  assumes "ev_stream s = bs @ rest" and "n = int (length bs)" and "n \<le> cap"
  shows "ev_bind (ev_read err cap n) k s = k bs (s\<lparr>ev_stream := rest, actualSize := actualSize s + n\<rparr>)"
proof (cases "bs = []")
  case True
  then have "rest = ev_stream s" using assms(1) by simp
  then show ?thesis using assms(2,3) True by (simp add: ev_bind_def ev_read_def)
next
  case False
  then show ?thesis using assms by (simp add: ev_bind_def ev_read_def min_def)
qed

lemma bind_read_hangs:
  assumes "ev_stream s \<noteq> []" and "int (length (ev_stream s)) < n" and "int (length (ev_stream s)) \<le> cap"
  shows "ev_bind (ev_read Peer_Closed cap n) k s = NoFuel"
  using assms by (simp add: ev_bind_def ev_read_def)

lemma bind_int:
  assumes "ev_stream s = be_bytes 4 v @ rest" and "- (2 ^ 31) \<le> v" "v < 2 ^ 31"
  shows "ev_bind (ev_int err) k s = k v (s\<lparr>ev_stream := rest, actualSize := actualSize s + 4\<rparr>)"
proof -
  have "ev_int err s = Ok (Inr v, s\<lparr>ev_stream := rest, actualSize := actualSize s + 4\<rparr>)"
    using bind_read [OF assms(1), of 4 4 err "\<lambda>bs. ev_return (get_int 4 bs)"] get_int_be_bytes [of 4 v] assms(2,3)
    by (simp add: ev_int_def ev_return_def)
  then show ?thesis by (simp add: ev_bind_def)
qed

lemma bind_short:
  assumes "ev_stream s = be_bytes 2 v @ rest" and "0 \<le> v" "v < 65536"
  shows "ev_bind (ev_short err) k s = k v (s\<lparr>ev_stream := rest, actualSize := actualSize s + 2\<rparr>)"
proof -
  have "ev_short err s = Ok (Inr v, s\<lparr>ev_stream := rest, actualSize := actualSize s + 2\<rparr>)"
    using bind_read [OF assms(1), of 2 2 err "\<lambda>bs. ev_return (be_val bs)"] be_val_be_bytes [of 2 v] assms(2,3)
    by (simp add: ev_short_def ev_return_def)
  then show ?thesis by (simp add: ev_bind_def)
qed


text \<open>Steps that give a result, and steps that do not take back bytes they have counted.\<close>

named_theorems ev_rules \<open>steps that return\<close>

definition ev_returns :: "'a event_step \<Rightarrow> bool" where
  "ev_returns m \<longleftrightarrow> (\<forall>s. m s \<noteq> NoFuel)"

definition ev_grows :: "'a event_step \<Rightarrow> bool" where
  "ev_grows m \<longleftrightarrow> (\<forall>s x s'. m s = Ok (Inr x, s') \<longrightarrow> actualSize s \<le> actualSize s')"

lemma ev_bind_eq_Ok:
  "ev_bind m k s = Ok (Inr y, s') \<longleftrightarrow> (\<exists>x t. m s = Ok (Inr x, t) \<and> k x t = Ok (Inr y, s'))"
  by (auto simp: ev_bind_def res_bind_eq_Ok split: sum.splits) (metis sum.exhaust old.sum.inject(1) sum.distinct(1))

lemma ev_returns_bind [ev_rules]: "ev_returns m \<Longrightarrow> (\<And>x. ev_returns (k x)) \<Longrightarrow> ev_returns (ev_bind m k)"
  by (auto simp: ev_returns_def ev_bind_def res_bind_eq_NoFuel split: sum.splits)

lemma ev_grows_bind [ev_rules]: "ev_grows m \<Longrightarrow> (\<And>x. ev_grows (k x)) \<Longrightarrow> ev_grows (ev_bind m k)"
  by (auto simp: ev_grows_def ev_bind_eq_Ok) (meson order_trans)

lemma ev_basic [ev_rules]:
  "ev_returns (ev_return x)" "ev_returns ev_fault" "ev_returns (ev_exit rc)" "ev_returns (ev_read (Read_Error e) cap n)"
  "ev_returns (ev_send ok msg)" "ev_returns (ev_invalidate os path entry)" "ev_returns (unread_data t c e')" "ev_returns (rest_of t)"
  "ev_grows (ev_return x)" "ev_grows (ev_send ok msg)" "ev_grows (unread_data t c e')"
  by (auto simp: ev_returns_def ev_grows_def ev_return_def ev_fault_def ev_exit_def ev_read_def ev_send_def ev_invalidate_def
      unread_data_def class_remainder_def rest_of_def Let_def split: option.splits if_splits)

lemma ev_read_grows [ev_rules]: "0 \<le> n \<Longrightarrow> ev_grows (ev_read err cap n)"
  by (auto simp: ev_grows_def ev_read_def split: if_splits stream_end.splits)

lemma ev_if [ev_rules]:
  "(b \<Longrightarrow> ev_returns m) \<Longrightarrow> (\<not> b \<Longrightarrow> ev_returns m') \<Longrightarrow> ev_returns (if b then m else m')"
  "(b \<Longrightarrow> ev_grows n) \<Longrightarrow> (\<not> b \<Longrightarrow> ev_grows n') \<Longrightarrow> ev_grows (if b then n else n')"
  by simp_all

lemma ev_fields_ok [ev_rules]:
  "ev_returns (ev_int (Read_Error e))" "ev_returns (ev_short (Read_Error e))" "ev_grows (ev_short err)" "ev_returns (ev_name (Read_Error e) cap)" "ev_grows (ev_name err cap)"
  unfolding ev_int_def ev_short_def ev_name_def by (intro ev_rules; simp)+

lemma event_fields_ok [ev_rules]: "ev_returns (event_fields (Read_Error r) t c e)" "ev_grows (event_fields err t c e)"
  unfolding event_fields_def by (intro ev_rules; simp)+

lemma events_return [ev_rules]:
  "ev_returns (directory_event (Read_Error e) os ok c t)" "ev_returns (vm_event (Read_Error e) ok t)"
  "ev_returns (one_event (Read_Error e) os ok c t d)"
  unfolding one_event_def directory_event_def vm_event_def Let_def by (intro ev_rules)+


section \<open>The loop over the events of a transmission\<close>

lemma vm_event_grows:
  assumes "vm_event err ok t s = Ok (Inr n, s')"
  shows "actualSize s < actualSize s'"
proof -
  from assms obtain c s1 where c: "ev_short err s = Ok (Inr c, s1)"
    and rest: "ev_bind (ev_short err) (\<lambda>eventType. ev_bind (event_fields err t c eventType) (\<lambda>msg.
      ev_bind (unread_data t c eventType) (\<lambda>n. ev_bind (ev_send ok msg) (\<lambda>_. ev_return n)))) s1 = Ok (Inr n, s')"
    unfolding vm_event_def ev_bind_eq_Ok [of "ev_short err"] by blast
  have "actualSize s1 = actualSize s + 2"
    using c by (auto simp: ev_short_def ev_bind_eq_Ok ev_return_def ev_read_def split: if_splits stream_end.splits)
  moreover have "ev_grows (ev_bind (ev_short err) (\<lambda>eventType. ev_bind (event_fields err t c eventType) (\<lambda>msg.
      ev_bind (unread_data t c eventType) (\<lambda>n. ev_bind (ev_send ok msg) (\<lambda>_. ev_return n)))))"
    by (intro ev_rules)
  then have "actualSize s1 \<le> actualSize s'" using rest by (auto simp: ev_grows_def)
  ultimately show ?thesis by simp
qed

lemma one_event_progress:
  assumes "one_event err os ok c t d s = Ok (Inr x, s')" and "actualSize s < t"
  shows "actualSize s < actualSize s'"
proof -
  define m where "m = (if d = 1 then ev_bind (directory_event err os ok c t) (\<lambda>_. rest_of t)
    else if d = 0 then vm_event err ok t else rest_of t)"
  from assms(1) obtain n s1 where n: "m s = Ok (Inr n, s1)"
    and last: "(if n > 0 then ev_read err t n else ev_return []) s1 = Ok (Inr x, s')"
    unfolding one_event_def m_def ev_bind_eq_Ok [of "if d = 1 then _ else _"] by blast
  have "actualSize s' = (if n > 0 then actualSize s1 + n else actualSize s1)"
    using last by (auto simp: ev_read_def ev_return_def split: if_splits stream_end.splits)
  moreover have "actualSize s < actualSize s1 \<or> n = t - actualSize s1"
    using n vm_event_grows [of err ok t s n s1]
    by (auto simp: m_def ev_bind_eq_Ok rest_of_def split: if_splits)
  ultimately show ?thesis using assms(2) by (auto split: if_splits)
qed

lemma event_loop_returns:
  "nat (t - actualSize s) < f \<Longrightarrow> event_loop f (Read_Error e) os ok c t d s \<noteq> NoFuel"
proof (induction f arbitrary: s)
  case (Suc f)
  show ?case
  proof (cases "t > actualSize s")
    case True
    have "one_event (Read_Error e) os ok c t d s \<noteq> NoFuel" using events_return(3) by (auto simp: ev_returns_def)
    moreover have "event_loop f (Read_Error e) os ok c t d s' \<noteq> NoFuel" if "one_event (Read_Error e) os ok c t d s = Ok (Inr x, s')" for x s'
      using Suc.IH [of s'] one_event_progress [OF that True] Suc.prems True by simp
    ultimately show ?thesis using True by (auto simp: ev_bind_def res_bind_eq_NoFuel split: sum.splits)
  qed simp
qed simp



section \<open>Properties\<close>

text \<open>
  C35: When the reads behind the last byte of the data fail with an error, the function comes to an end on every transmission:
  each turn of its loop counts at least one more byte, so the announced size bounds the number of turns.  When the peer closes the
  connection inside a field, it does not come to an end: a transmission cut off in its first integer, or in the
  user identifier of a directory change, keeps it in \<open>smSocketRead\<close> for ever.
\<close>

theorem event_data_ends_or_hangs:
  "(nat tempSize + 5 \<le> fuel \<longrightarrow>
      vmbkendMain_setSmapiSubscribeEventData fuel (Read_Error e) malloc os msg_ok tempSize requestId cachePath stream \<noteq> NoFuel) \<and>
   (malloc tempSize \<and> part \<noteq> [] \<and> length part < 4 \<longrightarrow>
      vmbkendMain_setSmapiSubscribeEventData fuel Peer_Closed malloc os msg_ok tempSize requestId cachePath part = NoFuel) \<and>
   (malloc tempSize \<and> 12 < tempSize \<and> part \<noteq> [] \<and> int (length part) < useridLength \<and> useridLength \<le> 8 \<longrightarrow>
      vmbkendMain_setSmapiSubscribeEventData fuel Peer_Closed malloc os msg_ok tempSize requestId cachePath
        (be_bytes 4 1 @ be_bytes 4 1 @ be_bytes 4 useridLength @ part) = NoFuel)"
proof (intro conjI impI)
  assume fuel: "nat tempSize + 5 \<le> fuel"
  let ?s = "\<lparr>ev_stream = stream, actualSize = 0, ev_removed = [], ev_messages = []\<rparr>"
  have "ev_returns (error_data (Read_Error e) requestId)"
    unfolding error_data_def by (intro ev_rules)
  moreover have "ev_bind (ev_int (Read_Error e)) (\<lambda>d. event_loop fuel (Read_Error e) os msg_ok cachePath tempSize d) ?s \<noteq> NoFuel"
  proof -
    have "event_loop fuel (Read_Error e) os msg_ok cachePath tempSize d s' \<noteq> NoFuel"
      if "ev_int (Read_Error e) ?s = Ok (Inr d, s')" for d s'
    proof -
      have "actualSize s' = 4"
        using that by (auto simp: ev_int_def ev_bind_eq_Ok ev_return_def ev_read_def split: if_splits)
      then show ?thesis using fuel by (intro event_loop_returns) simp
    qed
    moreover have "ev_int (Read_Error e) ?s \<noteq> NoFuel" using ev_fields_ok(1) by (auto simp: ev_returns_def)
    ultimately show ?thesis by (auto simp: ev_bind_def res_bind_eq_NoFuel split: sum.splits)
  qed
  ultimately show "vmbkendMain_setSmapiSubscribeEventData fuel (Read_Error e) malloc os msg_ok tempSize requestId cachePath stream \<noteq> NoFuel"
    by (auto simp: vmbkendMain_setSmapiSubscribeEventData_def Let_def ev_returns_def res_bind_eq_NoFuel)
next
  assume "malloc tempSize \<and> part \<noteq> [] \<and> length part < 4"
  then show "vmbkendMain_setSmapiSubscribeEventData fuel Peer_Closed malloc os msg_ok tempSize requestId cachePath part = NoFuel"
    by (simp add: vmbkendMain_setSmapiSubscribeEventData_def Let_def error_data_def ev_int_def ev_bind_assoc bind_read_hangs)
next
  assume "malloc tempSize \<and> 12 < tempSize \<and> part \<noteq> [] \<and> int (length part) < useridLength \<and> useridLength \<le> 8"
  then show "vmbkendMain_setSmapiSubscribeEventData fuel Peer_Closed malloc os msg_ok tempSize requestId cachePath
        (be_bytes 4 1 @ be_bytes 4 1 @ be_bytes 4 useridLength @ part) = NoFuel"
    by (cases fuel) (simp_all add: vmbkendMain_setSmapiSubscribeEventData_def Let_def bind_int one_event_def directory_event_def
        ev_bind_assoc bind_read_hangs)
qed



text \<open>
  C37: events that the tables and the arrays of the function do not have room for.  An event of class 4, for which
  \<open>vmeventRemainders\<close> has rows and \<open>vmeClassRows\<close> has none, makes the function read behind \<open>vmeClassRows\<close>;
  a directory change whose user has more than eight characters makes it write behind \<open>userid\<close>.
\<close>

theorem event_data_overruns:
  assumes "malloc tempSize" "4 < tempSize" "tempSize \<noteq> 12"
  shows "(0 \<le> eventType \<and> eventType < 65536 \<longrightarrow>
      vmbkendMain_setSmapiSubscribeEventData (Suc f) err malloc os msg_ok tempSize requestId cachePath
        (be_bytes 4 0 @ be_bytes 2 4 @ be_bytes 2 eventType @ rest) = Fault) \<and>
    (8 < length userid \<and> length userid < 2 ^ 31 \<longrightarrow>
      vmbkendMain_setSmapiSubscribeEventData (Suc f) err malloc os msg_ok tempSize requestId cachePath
        (be_bytes 4 1 @ be_bytes 4 1 @ be_bytes 4 (int (length userid)) @ userid @ rest) = Fault)"
proof (intro conjI impI)
  assume "0 \<le> eventType \<and> eventType < 65536"
  then show "vmbkendMain_setSmapiSubscribeEventData (Suc f) err malloc os msg_ok tempSize requestId cachePath
        (be_bytes 4 0 @ be_bytes 2 4 @ be_bytes 2 eventType @ rest) = Fault"
    using assms by (simp add: vmbkendMain_setSmapiSubscribeEventData_def Let_def bind_int one_event_def vm_event_def ev_bind_assoc
        bind_short event_fields_def class_4)
next
  assume u: "8 < length userid \<and> length userid < 2 ^ 31"
  have "ev_bind (ev_read err tempSize (int (length userid))) (\<lambda>_. ev_bind ev_fault k) s = Fault"
    if "ev_stream s = userid @ rest" for k :: "unit \<Rightarrow> int event_step" and s
    using that u by (auto simp: ev_bind_def ev_read_def ev_fault_def)
  then show "vmbkendMain_setSmapiSubscribeEventData (Suc f) err malloc os msg_ok tempSize requestId cachePath
        (be_bytes 4 1 @ be_bytes 4 1 @ be_bytes 4 (int (length userid)) @ userid @ rest) = Fault"
    using assms u by (simp add: vmbkendMain_setSmapiSubscribeEventData_def Let_def bind_int one_event_def directory_event_def ev_bind_assoc)
qed


section \<open>Instances\<close>

theorem event_data_ends_or_hangs_witness:
  "vmbkendMain_setSmapiSubscribeEventData 45 (Read_Error (-107)) (\<lambda>_. True) sample_cache_os (\<lambda>_. True) 40 7 [] [0, 0] \<noteq> NoFuel \<and>
   vmbkendMain_setSmapiSubscribeEventData 45 Peer_Closed (\<lambda>_. True) sample_cache_os (\<lambda>_. True) 40 7 [] [0, 0] = NoFuel \<and>
   vmbkendMain_setSmapiSubscribeEventData 45 Peer_Closed (\<lambda>_. True) sample_cache_os (\<lambda>_. True) 40 7 []
     (be_bytes 4 1 @ be_bytes 4 1 @ be_bytes 4 6 @ [0, 0]) = NoFuel"
  using event_data_ends_or_hangs [of 40 45 "-107" "\<lambda>_. True" sample_cache_os "\<lambda>_. True" 7 "[]" "[0, 0]" "[0, 0]" 6] by simp


theorem event_data_overruns_witness:
  "vmbkendMain_setSmapiSubscribeEventData 1 (Read_Error (-107)) (\<lambda>_. True) sample_cache_os (\<lambda>_. True) 32 7 []
     (be_bytes 4 0 @ be_bytes 2 4 @ be_bytes 2 16 @ replicate 24 0) = Fault \<and>
   vmbkendMain_setSmapiSubscribeEventData 1 (Read_Error (-107)) (\<lambda>_. True) sample_cache_os (\<lambda>_. True) 40 7 []
     (be_bytes 4 1 @ be_bytes 4 1 @ be_bytes 4 (int (length (replicate 9 65 :: byte list))) @ replicate 9 65 @ []) = Fault"
  using event_data_overruns [of "\<lambda>_. True" 32 16 0 "Read_Error (-107)" sample_cache_os "\<lambda>_. True" 7 "[]" "replicate 24 0" "[]"]
    event_data_overruns [of "\<lambda>_. True" 40 16 0 "Read_Error (-107)" sample_cache_os "\<lambda>_. True" 7 "[]" "[]" "replicate 9 65"]
  by simp

end
