(* ===== verification/Smapi_Level.thy ===== *)
theory Smapi_Level
  imports Smcli Smapi_Utilities
begin

text \<open>
  Two functions of \<^verbatim>\<open>src/smapiUtilities.c\<close> that call SMAPI: \<open>getSmapiLevel\<close>, which keeps the functional
  level in a file for a day, and \<open>waitForPendingWorkunits\<close>, which polls the operations that were started.
  The clock, the files and the replies of SMAPI are parameters.
\<close>

section \<open>The level of SMAPI\<close>

text \<open>
  The answers of the system to one call.  \<open>clock\<close> and \<open>stat_level\<close> are a time or an error number; \<open>whoami\<close>
  is the first line of \<^verbatim>\<open>vmcp q userid\<close>, without a pipe or without a line; the numbers for the files are 0 or an
  error number.
\<close>

record level_os =
  clock :: "int + int"
  stat_level :: "int + int"
  whoami :: "byte list option option"
  fopen_w :: int
  fputs_w :: int
  fopen_r :: int
  fgets_errno :: int
  level_text :: "byte list"

record level_result =
  lv_rc :: int
  lv_level :: "int option"
  lv_file :: "byte list option"
  lv_errno :: "int option"
  lv_out :: "cli_output list"

definition level_failed :: "cli_output list \<Rightarrow> int option \<Rightarrow> level_result res" where
  "level_failed out e = Ok \<lparr>lv_rc = 1, lv_level = None, lv_file = None, lv_errno = e, lv_out = out\<rparr>"

text \<open>\<open>fgets\<close> into an array of \<open>n\<close> bytes.\<close>

definition fgets :: "nat \<Rightarrow> byte list \<Rightarrow> byte list option" where
  "fgets n text =
     (if text = [] then None
      else Some (take (n - 1) (takeWhile (\<lambda>b. b \<noteq> 10) text @ take 1 (dropWhile (\<lambda>b. b \<noteq> 10) text))))"

text \<open>The target of the query: the argument, or the first word of the answer of \<^verbatim>\<open>vmcp\<close>.\<close>

definition level_target :: "level_os \<Rightarrow> byte list \<Rightarrow> byte list option res" where
  "level_target os imageP =
     (if strlen imageP \<noteq> 0 then Ok (Some imageP)
      else
        (case whoami os of
           None \<Rightarrow> Ok None
         | Some None \<Rightarrow> Fault
         | Some (Some line) \<Rightarrow>
             (case fgets 79 line of
                None \<Rightarrow> Fault
              | Some queryData \<Rightarrow> (case strtok_r queryData of (None, _) \<Rightarrow> Fault | (Some w, _) \<Rightarrow> Ok (Some w)))))"

text \<open>The branch that asks SMAPI and writes the file.\<close>

definition query_level ::
  "cli_context \<Rightarrow> (int \<Rightarrow> bool) \<Rightarrow> (smapi_request \<Rightarrow> int \<times> int \<times> int) \<Rightarrow> level_os \<Rightarrow> byte list \<Rightarrow> level_result res" where
  "query_level ctx malloc smapi os imageP =
     res_bind (level_target os imageP) (\<lambda>target.
     case target of
       None \<Rightarrow> level_failed (printAndLogProcessingErrors ctx PROCESSING_ERROR [] False @
         [Message ''Failed to identify the user'']) None
     | Some targetId \<Rightarrow>
         (case smQuery_API_Functional_Level malloc [] 0 [] targetId of
            Err rc \<Rightarrow> level_failed (printAndLogProcessingErrors ctx rc [] False) None
          | Fault \<Rightarrow> Fault
          | NoFuel \<Rightarrow> NoFuel
          | Ok req \<Rightarrow>
              (let (rc, returnCode, reasonCode) = smapi req in
               if rc \<noteq> 0 then level_failed (Sent req # printAndLogProcessingErrors ctx rc [] False) None
               else if returnCode \<noteq> 0 then
                 level_failed (Sent req # fst (printAndLogSmapiReturnCodeReasonCodeDescription ctx
                   ''Query_API_Functional_Level'' returnCode reasonCode [])) None
               else if fopen_w os \<noteq> 0 then
                 Ok \<lparr>lv_rc = 1, lv_level = Some reasonCode, lv_file = None, lv_errno = Some (fopen_w os),
                     lv_out = [Sent req, Message ''fopen failed'']\<rparr>
               else if fputs_w os \<noteq> 0 then
                 Ok \<lparr>lv_rc = 1, lv_level = Some reasonCode, lv_file = Some [], lv_errno = Some (fputs_w os),
                     lv_out = [Sent req, Message ''fputs'']\<rparr>
               else
                 Ok \<lparr>lv_rc = 0, lv_level = Some reasonCode, lv_file = Some (c_decimal reasonCode), lv_errno = None,
                     lv_out = [Sent req]\<rparr>)))"

definition read_level :: "level_os \<Rightarrow> level_result res" where
  "read_level os =
     (if fopen_r os \<noteq> 0 then level_failed [Message ''fopen failed''] (Some (fopen_r os))
      else
        (case fgets 20 (level_text os) of
           None \<Rightarrow> level_failed [Message ''fgets''] (Some (fgets_errno os))
         | Some outlevel \<Rightarrow>
             Ok \<lparr>lv_rc = 0, lv_level = Some (c_atoi outlevel), lv_file = None, lv_errno = None, lv_out = []\<rparr>))"

definition getSmapiLevel ::
  "cli_context \<Rightarrow> (int \<Rightarrow> bool) \<Rightarrow> (smapi_request \<Rightarrow> int \<times> int \<times> int) \<Rightarrow> level_os \<Rightarrow> byte list \<Rightarrow> level_result res" where
  "getSmapiLevel ctx malloc smapi os imageP =
     (case clock os of
        Inr e \<Rightarrow> level_failed [Message ''Time function failed''] (Some e)
      | Inl currentTime \<Rightarrow>
          (case stat_level os of
             Inr e \<Rightarrow>
               if e \<noteq> 2 then level_failed [Message ''File stat error''] (Some e)
               else query_level ctx malloc smapi os imageP
           | Inl fileTime \<Rightarrow>
               if currentTime - fileTime < 0 \<or> currentTime - fileTime > 86400
               then query_level ctx malloc smapi os imageP
               else read_level os))"

section \<open>Pending work units\<close>

definition SleepInterval :: int where "SleepInterval = 15"

text \<open>
  The turn of the loop for one work unit: its new entry, whether it is still running, and the worst
  codes.  The answer has the return and reason codes, none when the query fails: the code reads the codes
  through a pointer that was not set then.
\<close>

definition worse :: "int \<times> int \<Rightarrow> int \<times> int \<Rightarrow> int \<times> int" where
  "worse m c = (if fst c = fst m \<and> snd c > snd m then (fst m, snd c) else if fst c > fst m then c else m)"

definition query_unit :: "(int \<times> int) option \<Rightarrow> int \<Rightarrow> int \<times> int \<Rightarrow> (int \<times> bool \<times> int \<times> int) res" where
  "query_unit answer workunitId m =
     (if workunitId = 0 then Ok (workunitId, False, m)
      else
        (case answer of
           None \<Rightarrow> Fault
         | Some c \<Rightarrow>
             if c = (0, 100) then Ok (0, False, m)
             else if c = (0, 104) then Ok (workunitId, True, m)
             else Ok (workunitId, False, worse m (if c = (0, 108) then (200, 0) else c))))"

primrec query_units :: "(nat \<Rightarrow> (int \<times> int) option) \<Rightarrow> int list \<Rightarrow> nat \<Rightarrow> int \<times> int \<Rightarrow> (int list \<times> bool \<times> int \<times> int) res" where
  "query_units answer [] x m = Ok ([], False, m)"
| "query_units answer (u # us) x m =
     res_bind (query_unit (answer x) u m) (\<lambda>(u, p, m).
     res_bind (query_units answer us (Suc x) m) (\<lambda>(us, q, m). Ok (u # us, p \<or> q, m)))"

definition wait_interval :: "int \<Rightarrow> int" where
  "wait_interval duration = (if duration > 0 \<and> SleepInterval > duration then duration else SleepInterval)"

definition time_left :: "int \<Rightarrow> int" where
  "time_left duration =
     (if duration > 0
      then (let duration = duration - wait_interval duration in if duration = 0 then -1 else duration)
      else duration)"

text \<open>The loop gives the work units at the end, the return and reason codes for the context, and the seconds of sleep.\<close>

primrec wait_loop ::
  "nat \<Rightarrow> (nat \<Rightarrow> nat \<Rightarrow> (int \<times> int) option) \<Rightarrow> nat \<Rightarrow> bool \<Rightarrow> int \<Rightarrow> int list \<Rightarrow> int \<times> int \<Rightarrow> int \<Rightarrow> (int list \<times> (int \<times> int) \<times> int) res" where
  "wait_loop 0 replies k pending duration units m secs = NoFuel"
| "wait_loop (Suc f) replies k pending duration units m secs =
     (if \<not> (pending \<and> duration \<ge> 0) then Ok (units, m, secs + 5)
      else
        res_bind (query_units (replies k) units 0 m) (\<lambda>(units, pending, m).
        wait_loop f replies (Suc k) pending (time_left duration) units m
          (if pending \<and> wait_interval duration > 0 then secs + wait_interval duration else secs)))"

definition waitForPendingWorkunits ::
  "nat \<Rightarrow> (nat \<Rightarrow> nat \<Rightarrow> (int \<times> int) option) \<Rightarrow> int list \<Rightarrow> int \<Rightarrow> (int list \<times> (int \<times> int) \<times> int) res" where
  "waitForPendingWorkunits f replies units waitIntervalInSeconds =
     wait_loop f replies 0 True waitIntervalInSeconds units (0, 0) 0"

section \<open>The level file\<close>

lemma digit_byte: "m < 10 \<Longrightarrow> uint (of_nat (48 + m) :: byte) = int (48 + m)"
  by (subst unsigned_of_nat) (simp add: take_bit_nat_def)

lemma digits_of_digit: "b \<in> set (digits_of n) \<Longrightarrow> 48 \<le> uint b \<and> uint b \<le> 57"
proof (induction n rule: digits_of.induct)
  case (1 n)
  note d = digit_byte
  have "digits_of n = (if n < 10 then [of_nat (48 + n)] else digits_of (n div 10) @ [of_nat (48 + n mod 10)])"
    by (rule digits_of.simps)
  then show ?case using 1 d [of n] d [of "n mod 10"] by (auto split: if_splits)
qed

lemma digits_val_snoc:
  "(\<And>b. b \<in> set bs \<Longrightarrow> 48 \<le> uint b \<and> uint b \<le> 57) \<Longrightarrow> 48 \<le> uint d \<Longrightarrow> uint d \<le> 57 \<Longrightarrow>
   digits_val a (bs @ [d]) = digits_val a bs * 10 + (uint d - 48)"
  by (induction bs arbitrary: a) auto


lemma digits_val_digits_of: "digits_val 0 (digits_of n) = int n"
proof (induction n rule: digits_of.induct)
  case (1 n)
  note d = digit_byte
  show ?case
  proof (cases "n < 10")
    case True
    then show ?thesis using d [of n] by (subst digits_of.simps) simp
  next
    case False
    have "digits_val 0 (digits_of (n div 10) @ [of_nat (48 + n mod 10)]) =
        digits_val 0 (digits_of (n div 10)) * 10 + (uint (of_nat (48 + n mod 10) :: byte) - 48)"
      by (rule digits_val_snoc) (use d [of "n mod 10"] digits_of_digit in auto)
    moreover have "int (n div 10) * 10 + int (n mod 10) = int n"
      by (metis mult.commute of_nat_add of_nat_mult of_nat_numeral mult_div_mod_eq)
    ultimately show ?thesis using False 1 d [of "n mod 10"] by (subst digits_of.simps) simp
  qed
qed

lemma digits_of_first: "\<exists>b bs. digits_of n = b # bs \<and> 48 \<le> uint b \<and> uint b \<le> 57"
proof -
  have "digits_of n \<noteq> []" by (subst digits_of.simps) simp
  then obtain b bs where "digits_of n = b # bs" by (meson neq_Nil_conv)
  then show ?thesis using digits_of_digit [of b n] by simp
qed

lemma c_atoi_c_decimal: "c_atoi (c_decimal v) = v"
proof (cases "v < 0")
  case True
  then show ?thesis by (simp add: c_atoi_def c_decimal_def c_isspace_def digits_val_digits_of)
next
  case False
  then obtain b bs where b: "digits_of (nat v) = b # bs" "48 \<le> uint b" "uint b \<le> 57"
    using digits_of_first by blast
  then have "c_atoi (digits_of (nat v)) = digits_val 0 (digits_of (nat v))"
    by (simp add: c_atoi_def c_isspace_def)
  then show ?thesis using False by (simp add: c_decimal_def digits_val_digits_of)
qed

lemma length_digits_of: "n < 10 ^ k \<Longrightarrow> 0 < k \<Longrightarrow> length (digits_of n) \<le> k"
proof (induction n arbitrary: k rule: digits_of.induct)
  case (1 n)
  show ?case
  proof (cases "n < 10")
    case True
    then show ?thesis using 1(3) by (subst digits_of.simps) simp
  next
    case False
    then obtain j where j: "k = Suc j" "0 < j" using 1(2,3) by (cases k; cases "k - 1") auto
    then have "length (digits_of (n div 10)) \<le> j" using 1 False by auto
    then show ?thesis using False j by (subst digits_of.simps) simp
  qed
qed

lemma fgets_decimal:
  assumes "- (2 ^ 31) \<le> v" "v < 2 ^ 31"
  shows "fgets 20 (c_decimal v) = Some (c_decimal v)"
proof -
  have len: "length (digits_of (nat \<bar>v\<bar>)) \<le> 10" by (rule length_digits_of) (use assms in auto)
  have "b \<noteq> 10" if "b \<in> set (c_decimal v)" for b
    using that digits_of_digit [of b] by (auto simp: c_decimal_def split: if_splits)
  then have "takeWhile (\<lambda>b. b \<noteq> 10) (c_decimal v) = c_decimal v" "dropWhile (\<lambda>b. b \<noteq> 10) (c_decimal v) = []"
    unfolding takeWhile_eq_all_conv dropWhile_eq_Nil_conv by blast+
  moreover have "length (c_decimal v) \<le> 11" "c_decimal v \<noteq> []"
    using len digits_of_first [of "nat v"] by (auto simp: c_decimal_def split: if_splits)
  ultimately show ?thesis unfolding fgets_def by (simp only: if_False) simp
qed

text \<open>A write that fails leaves an empty file, and for a day every call that finds it fails.\<close>

lemma empty_level_file_fails:
  assumes "clock os = Inl t" "stat_level os = Inl u" "0 \<le> t - u" "t - u \<le> 86400" "level_text os = []"
  shows "\<exists>r. getSmapiLevel ctx malloc smapi os imageP = Ok r \<and> lv_rc r = 1"
  using assms by (auto simp: getSmapiLevel_def read_level_def fgets_def level_failed_def)

section \<open>The rounds of waiting\<close>

text \<open>The codes that are kept are the largest ones, first by the return code and then by the reason code.\<close>

lemma worse_max: "worse m c = (if fst m < fst c \<or> fst m = fst c \<and> snd m < snd c then c else m)"
  by (cases m; cases c) (auto simp: worse_def)

lemma query_unit_ok: "c \<noteq> None \<Longrightarrow> \<exists>u p m'. query_unit c w m = Ok (u, p, m')"
  by (auto simp: query_unit_def)

lemma query_units_ok:
  "(\<And>x. answer x \<noteq> None) \<Longrightarrow> \<exists>us' p m'. query_units answer us x m = Ok (us', p, m')"
proof (induction us arbitrary: x m)
  case (Cons u us)
  from query_unit_ok [OF Cons.prems, of x u m] obtain u' p m' where "query_unit (answer x) u m = Ok (u', p, m')" by blast
  moreover from Cons.IH [OF Cons.prems, of "Suc x" m'] obtain us' q m''
    where "query_units answer us (Suc x) m' = Ok (us', q, m'')" by blast
  ultimately show ?case by auto
qed auto

lemma wait_loop_bounded:
  assumes "\<And>k x. replies k x \<noteq> None"
  shows "d = -1 \<or> 0 < d \<Longrightarrow> nat (d + 1) < f \<Longrightarrow>
    \<exists>us m' s'. wait_loop f replies k p d units m s = Ok (us, m', s') \<and> s' \<le> s + max d 0 + 5"
proof (induction f arbitrary: k p d units m s)
  case (Suc f)
  show ?case
  proof (cases "p \<and> d \<ge> 0")
    case False
    then show ?thesis by auto
  next
    case True
    then have d: "0 < d" using Suc.prems(1) by auto
    obtain us q m' where q: "query_units (replies k) units 0 m = Ok (us, q, m')"
      using query_units_ok [of "replies k"] assms by meson
    let ?s = "if q \<and> wait_interval d > 0 then s + wait_interval d else s"
    have t: "time_left d = -1 \<and> wait_interval d = d \<or> 0 < time_left d \<and> time_left d = d - wait_interval d"
      "0 < wait_interval d" "wait_interval d \<le> d"
      using d by (auto simp: time_left_def wait_interval_def SleepInterval_def Let_def)
    then have "\<exists>us' m'' s'. wait_loop f replies (Suc k) q (time_left d) us m' ?s = Ok (us', m'', s') \<and>
        s' \<le> ?s + max (time_left d) 0 + 5"
      by (intro Suc.IH) (use Suc.prems(2) d in auto)
    then show ?thesis using True q t by (fastforce simp: max_def split: if_splits)
  qed
qed simp

lemma query_units_running:
  "u \<in> set us \<Longrightarrow> u \<noteq> 0 \<Longrightarrow> (\<And>x. answer x = Some (0, 104)) \<Longrightarrow> query_units answer us x m = Ok (us, True, m)"
proof -
  assume a: "u \<in> set us" "u \<noteq> 0" "\<And>x. answer x = Some (0, 104)"
  have "query_units answer us x m = Ok (us, \<exists>u \<in> set us. u \<noteq> 0, m)"
    using a(3) by (induction us arbitrary: x) (auto simp: query_unit_def)
  then show ?thesis using a(1,2) by auto
qed

lemma wait_loop_forever:
  assumes "u \<in> set units" "u \<noteq> 0" and "\<And>k x. replies k x = Some (0, 104)"
  shows "wait_loop f replies k True 0 units m s = NoFuel"
proof (induction f arbitrary: k s)
  case (Suc f)
  have "query_units (replies k) units 0 m = Ok (units, True, m)"
    by (rule query_units_running [OF assms(1,2)]) (rule assms(3))
  then show ?case using Suc by (simp add: time_left_def)
qed simp

section \<open>Properties\<close>

text \<open>
  C38: the level of SMAPI is cached.  A call without the file asks SMAPI once and writes the level to the file; a
  call that finds this file up to a day later gives the same level and sends nothing.
\<close>

theorem smapi_level_cached:
  assumes "clock os = Inl t" "stat_level os = Inr 2" "fopen_w os = 0" "fputs_w os = 0" "strlen target \<noteq> 0"
    and "smQuery_API_Functional_Level malloc [] 0 [] target = Ok req"
    and "smapi req = (0, 0, level)" "- (2 ^ 31) \<le> level" "level < 2 ^ 31"
    and "clock os' = Inl t'" "stat_level os' = Inl u" "0 \<le> t' - u" "t' - u \<le> 86400" "fopen_r os' = 0"
  shows "\<exists>r written. getSmapiLevel ctx malloc smapi os target = Ok r \<and> lv_rc r = 0 \<and> lv_level r = Some level \<and>
    lv_out r = [Sent req] \<and> lv_file r = Some written \<and>
    (level_text os' = written \<longrightarrow>
      (\<exists>r'. getSmapiLevel ctx malloc smapi os' target' = Ok r' \<and> lv_rc r' = 0 \<and> lv_level r' = Some level \<and> lv_out r' = []))"
proof -
  have "getSmapiLevel ctx malloc smapi os target =
      Ok \<lparr>lv_rc = 0, lv_level = Some level, lv_file = Some (c_decimal level), lv_errno = None, lv_out = [Sent req]\<rparr>"
    using assms(1-7) by (simp add: getSmapiLevel_def query_level_def level_target_def)
  moreover have "getSmapiLevel ctx malloc smapi os' target' =
      Ok \<lparr>lv_rc = 0, lv_level = Some level, lv_file = None, lv_errno = None, lv_out = []\<rparr>"
    if "level_text os' = c_decimal level"
    using assms(10-) that fgets_decimal [OF assms(8,9)]
    by (simp add: getSmapiLevel_def read_level_def c_atoi_c_decimal)
  ultimately show ?thesis by auto
qed

text \<open>
  CX: \<open>waitForPendingWorkunits\<close> with a time limit returns after as many rounds as the limit has seconds at most, and sleeps no
  longer than the limit and five seconds; without a limit it does not return as long as a unit is
  reported as running.
\<close>

theorem wait_ends_or_spins:
  "(0 < limit \<and> (\<forall>k x. replies k x \<noteq> None) \<longrightarrow>
     (\<exists>units' m secs. waitForPendingWorkunits (nat limit + 2) replies units limit = Ok (units', m, secs) \<and> secs \<le> limit + 5)) \<and>
   (w \<in> set units \<and> w \<noteq> 0 \<longrightarrow> waitForPendingWorkunits f (\<lambda>k x. Some (0, 104)) units 0 = NoFuel)"
proof (intro conjI impI)
  assume a: "0 < limit \<and> (\<forall>k x. replies k x \<noteq> None)"
  then have "\<And>k x. replies k x \<noteq> None" by blast
  have "\<exists>us m' s'. wait_loop (nat limit + 2) replies 0 True limit units (0, 0) 0 = Ok (us, m', s') \<and> s' \<le> 0 + max limit 0 + 5"
    by (rule wait_loop_bounded [OF \<open>\<And>k x. replies k x \<noteq> None\<close>]) (use a in auto)
  then show "\<exists>units' m secs. waitForPendingWorkunits (nat limit + 2) replies units limit = Ok (units', m, secs) \<and> secs \<le> limit + 5"
    using a by (simp add: waitForPendingWorkunits_def del: wait_loop.simps add_2_eq_Suc')
next
  assume "w \<in> set units \<and> w \<noteq> 0"
  then show "waitForPendingWorkunits f (\<lambda>k x. Some (0, 104)) units 0 = NoFuel"
    by (auto simp: waitForPendingWorkunits_def intro: wait_loop_forever)
qed


section \<open>Instances\<close>

definition no_level_file :: level_os where
  "no_level_file = \<lparr>clock = Inl 1000, stat_level = Inr 2, whoami = None, fopen_w = 0, fputs_w = 0, fopen_r = 2, fgets_errno = 0, level_text = []\<rparr>"

definition level_file :: level_os where
  "level_file = \<lparr>clock = Inl 2000, stat_level = Inl 1000, whoami = None, fopen_w = 0, fputs_w = 0, fopen_r = 0,
     fgets_errno = 0, level_text = c_decimal 640\<rparr>"

lemma sample_level_request:
  "case smQuery_API_Functional_Level (\<lambda>_. True) [] 0 [] (c_literal ''LINUX1'') of Ok req \<Rightarrow> True | _ \<Rightarrow> False"
  by code_simp

theorem smapi_level_cached_witness:
  "\<exists>r r'. getSmapiLevel \<lparr>addRcHeader = True, errnoSaved = 0\<rparr> (\<lambda>_. True) (\<lambda>_. (0, 0, 640)) no_level_file
       (c_literal ''LINUX1'') = Ok r \<and> lv_file r = Some (level_text level_file) \<and>
     getSmapiLevel \<lparr>addRcHeader = True, errnoSaved = 0\<rparr> (\<lambda>_. True) (\<lambda>_. (0, 0, 640)) level_file [] = Ok r' \<and>
     lv_level r' = Some 640 \<and> lv_out r' = []"
proof -
  obtain req where req: "smQuery_API_Functional_Level (\<lambda>_. True) [] 0 [] (c_literal ''LINUX1'') = Ok req"
    using sample_level_request by (auto split: res.splits)
  from smapi_level_cached [of no_level_file 1000 "c_literal ''LINUX1''" "\<lambda>_. True" req "\<lambda>_. (0, 0, 640)" 640
      level_file 2000 1000 "\<lparr>addRcHeader = True, errnoSaved = 0\<rparr>" "[]"] req
  obtain r written where r: "getSmapiLevel \<lparr>addRcHeader = True, errnoSaved = 0\<rparr> (\<lambda>_. True) (\<lambda>_. (0, 0, 640)) no_level_file
       (c_literal ''LINUX1'') = Ok r" "lv_file r = Some written"
    "level_text level_file = written \<longrightarrow> (\<exists>r'. getSmapiLevel \<lparr>addRcHeader = True, errnoSaved = 0\<rparr> (\<lambda>_. True) (\<lambda>_. (0, 0, 640)) level_file [] = Ok r' \<and>
      lv_rc r' = 0 \<and> lv_level r' = Some 640 \<and> lv_out r' = [])"
    by (auto simp: no_level_file_def level_file_def strlen_def c_literal_def)
  moreover have "written = c_decimal 640"
    using r(1,2) req by (auto simp: getSmapiLevel_def query_level_def level_target_def no_level_file_def strlen_def c_literal_def)
  ultimately show ?thesis by (auto simp: level_file_def)
qed

theorem wait_ends_or_spins_witness:
  "waitForPendingWorkunits 1000 (\<lambda>k x. Some (0, 104)) [7, 0] 0 = NoFuel \<and>
   (\<exists>units m secs. waitForPendingWorkunits 32 (\<lambda>k x. Some (0, 104)) [7, 0] 30 = Ok (units, m, secs) \<and> secs \<le> 35)"
  using wait_ends_or_spins [of 30 "\<lambda>k x. Some (0, 104)" "[7, 0]" 7 1000]
  by (simp del: wait_loop.simps)

end
