(* ===== verification/Spec2Isabelle.thy ===== *)
theory Spec2Isabelle
  imports Smapi_Exchange Smapi_List_Wire Cikada_Roundtrip Smcli_Main Smcli_Key_Commands Wrapper_Utils
    Message_Buffers Record_List Event_Subscription Smapi_Level
begin

text \<open>
  A verification library for zthin, the C part of the Feilong connector
  (\<^verbatim>\<open>src/zthin-parts/zthin\<close>): the client library of the z/VM Systems Management API (SMAPI), the
  command \<^verbatim>\<open>smcli\<close> on top of it and the tools that pack disk images.

  \<^bold>\<open>The program.\<close>  A request travels through these parts:

  \<^item> \<open>main\<close> of \<^verbatim>\<open>src/smcli.c\<close> removes the global keywords from its arguments and calls the command
    that the first argument names;
  \<^item> a command of \<^verbatim>\<open>src/smcli*.c\<close> reads its options with \<open>getopt\<close>, checks that the required ones are
    there, calls one of the \<^verbatim>\<open>src/vmapi*.c\<close> functions and reports its return and reason codes with
    \<^verbatim>\<open>src/wrapperutils.c\<close>;
  \<^item> the \<^verbatim>\<open>src/vmapi*.c\<close> function computes the size of a request buffer, allocates it and writes the
    arguments to it, each behind its length in network byte order;
  \<^item> \<open>getAndParseSmapiBuffer\<close> of \<^verbatim>\<open>src/smapiTableParser.c\<close> sends the buffer over a socket of
    \<^verbatim>\<open>src/smSocket.c\<close>, with retries and with a recovery by request identifier, receives the response
    and parses it twice with the table of the API: a scan pass that counts structures and
    string bytes, and a populate pass that fills the memory taken from a memory group
    (\<^verbatim>\<open>src/smMemoryGroup.c\<close>) after the counts.

  Beside it, \<^verbatim>\<open>src/ckdencode.c\<close>, \<^verbatim>\<open>src/ckddecode.c\<close> and \<^verbatim>\<open>src/ckdhex.c\<close> turn the tracks of an ECKD disk
  into a stream of run-length coded records, and back, and into a dump.

  \<^bold>\<open>Conventions.\<close>  A C function is one definition with the name of the function.  Its outcome is a
  result of \<open>Zthin_Prelude\<close>: a value \<open>Ok\<close>, an error return \<open>Err rc\<close>, an access outside an object
  \<open>Fault\<close>, or \<open>NoFuel\<close> where a loop of the source need not end.  Functions with effects pass a record
  of their state.  Integers that are counted, cast or compared at a width are words of that width or
  have the reduction written out.  System calls are answered by an oracle parameter, so a theorem
  about them holds for every sequence of answers.

  \<^bold>\<open>Theories.\<close>

  \<^item> \<open>Zthin_Prelude\<close>: results, big-endian integers with the locale \<open>int_codec\<close>, memory and frames.
  \<^item> \<open>Smapi_Table\<close>, \<open>Smapi_Parser\<close>, \<open>Smapi_Base\<close>: the table parser, \<open>parseBufferWithTable\<close>,
    \<open>handleArrays\<close>, \<open>handleCountedArrays\<close> and \<open>handleNullTerminatedArrays\<close>; the C structure layout
    rules and the row types.  \<open>Smapi_Layouts\<close>: fifteen tables of the API headers.
  \<^item> \<open>Smapi_Scan\<close>, \<open>Smapi_Lockstep\<close>, \<open>Smapi_Bounds\<close>, \<open>Smapi_Termination\<close>: the lemmas
    behind the properties of the parser: what a scan counts, that populate follows scan step by
    step and stays in the memory counted, and that both end.  \<open>Smapi_Responses\<close>: the properties, for
    every well-formed table and for eleven of the fifteen.
  \<^item> \<open>Smapi_Request\<close>, \<open>Requests_Image\<close>, \<open>Requests_Network\<close>, \<open>Requests_System\<close>: the request
    builders with a fixed list of arguments, one definition per C function, all of them runs of
    \<open>build\<close> over the same puts.  \<open>Smapi_Wire\<close>: what they put on the wire, and a decoder that reads
    the arguments back.
  \<^item> \<open>Smapi_Lists\<close>, \<open>Requests_Keywords\<close>, \<open>Requests_Records\<close>: the builders with lists of keywords, records or
    NUL terminated strings.  A loop adds up \<open>inputSize\<close> and a second one copies the elements, with the
    positions in a local array \<open>targetStart\<close> where the source has one; a write behind that array is \<open>Fault\<close>.
    \<open>Smapi_List_Wire\<close>: what these builders put on the wire, that splitting at the NULs gives the keywords
    back, and the lemmas on builders that send bytes they never wrote.
  \<^item> \<open>C_Heap\<close>, \<open>Memory_Group\<close>: \<open>malloc\<close>, \<open>realloc\<close> and \<open>free\<close> with a granting oracle, and
    \<^verbatim>\<open>smMemoryGroup.c\<close> on them.  The invariant is that the tracked pointers are distinct live blocks
    and the tracking array has room for them, as long as the array never failed to grow; the abstract specification is a set of blocks that
    grows by a fresh block and is emptied at the end.
  \<^item> \<open>Smapi_Socket\<close>: \<^verbatim>\<open>smSocket.c\<close>, every function.  The state has the open descriptors, the bytes
    sent and received; partial transfers, retries and timeouts are branches of the loops.
  \<^item> \<open>Smapi_Exchange\<close>: \<open>getAndParseSmapiBuffer\<close> and \<open>tryRecoveryUsingRequestId\<close>, composed from the
    sockets, the heap and the two passes of the parser; which descriptors stay open and which memory
    stays allocated on each return.
  \<^item> \<open>Cikada\<close>, \<open>Cikada_Runs\<close>, \<open>Cikada_Tracks\<close>, \<open>Cikada_Roundtrip\<close>: the three disk image tools
    with their exit codes, the run arrays with 8 and 16 bit counters and the track buffer; the
    stream that \<open>ckdencode\<close> writes, and that \<open>ckddecode\<close> gives the tracks back.
  \<^item> \<open>Smcli\<close>: \<open>getopt\<close>, the option loop of a command, the checks and the reports, and what a table
    row of a command means.  \<open>Smcli_Image\<close>, \<open>Smcli_Network\<close>, \<open>Smcli_System\<close>: one definition per
    command.  \<open>Smcli_Commands\<close>: the commands together, the locale \<open>followed_command\<close> for a command
    whose options become the arguments of its request.  \<open>Smcli_Main\<close>: \<open>main\<close> with its help, the
    level check and the dispatch, and \<open>queryAsyncOperation\<close>.
  \<^item> \<open>Smcli_Keys\<close>, \<open>Smcli_Keywords\<close>, \<open>Smcli_Key_Commands\<close>: the commands that collect \<^verbatim>\<open>keyword=value\<close> options
    in an array, with their limits; which requests they send, when they reject a command line, which of them
    let their builder write behind its array; and the report of an error buffer.
  \<^item> \<open>Wrapper_Utils\<close>: name and device checks, \<open>trim\<close> and the character set conversions of \<^verbatim>\<open>wrapperutils.c\<close>.
    \<open>Message_Buffers\<close>: the chain of message collectors, structures and buffers in a memory with
    forward and backward links; the abstract value is the list of messages, and the release leaves
    only the local variables of the command.
  \<^item> \<open>Record_List\<close>: the linked list of records of \<^verbatim>\<open>smapiUtilities.c\<close> over a heap of records.  The abstract value
    of a list is the sequence of its records; the locale \<open>record_queue\<close> is what a client that appends and dequeues relies on.
  \<^item> \<open>Smapi_Utilities\<close>, \<open>Directory_Cache\<close>, \<open>Smapi_Level\<close>: \<open>hidePassword\<close>, \<open>strip\<close> and the abbreviations; the paths and
    files of the directory cache and the packets of \<open>vmbkendMain\<close> that should empty it; the cached SMAPI level and
    the wait for pending work units.
  \<^item> \<open>Event_Subscription\<close>: the handler of the events that SMAPI sends on a subscription, as steps that read from the
    socket and end the function or give a value; that it ends when the reads behind the data fail, and hangs when the
    peer closes the connection inside a field; what it reports, and the events that overrun its tables.

  \<^bold>\<open>Fuel.\<close>  The parser, the socket loops, \<open>ckddecode\<close> and \<open>queryAsyncOperation\<close> have loops that
  the source does not bound.  They take fuel, and termination is stated as fuel that is enough:
  a number of rows and bytes for the parser (\<open>scan_ends\<close>), the bytes left and the retries
  for the sockets and the exchange, 65536 beyond the number of tracks for \<open>ckddecode\<close> (one track has
  at most 65536 bytes of records), twelve rounds for the asynchronous query, the seconds of the limit
  for the wait for work units, the number of records for the list of records, one more than the number of
  messages for the chain of collectors, the announced size for the events.  Inputs on which no
  fuel is enough are stated as properties of their own.

  \<^bold>\<open>Not modelled.\<close>  The text of help messages and of the descriptions in \<^verbatim>\<open>rcdescriptions.c\<close>, and the
  trace output, since nothing reads them back; the semaphores, threads, the log and the
  trace switches of \<^verbatim>\<open>smapiUtilities.c\<close>, which are system calls; the commands that print structures of the response
  or read files; the builders around the directory cache (\<open>smImage_Query_DM\<close>, \<open>smImage_Name_Query_DM\<close>,
  \<open>smProfile_Query_DM\<close>), apart from the line that the first one writes to the cache, and seven builders with loops of their
  own (\<open>Delete_ABEND_Dump\<close>, \<open>Event_Stream_Add\<close>, \<open>Image_Create_DM\<close>, \<open>Image_Disk_Query\<close>, \<open>Image_Performance_Query\<close>,
  \<open>Metadata_Set\<close>, \<open>VMRM_Configuration_Update\<close>); the IUCV client and server, which are process control and system
  calls; the Python packages.
\<close>

end
